(* ===== verification/Prelude.thy ===== *)
theory Prelude
  imports Complex_Main "HOL-Library.Product_Lexorder" "HOL-Library.List_Lexorder"
    "HOL-Library.Char_ord" "HOL-Library.Option_ord" "HOL-Library.Multiset"
begin

text \<open>
  The vocabulary the component theories share.

  \<^item> Value types: identifiers, instants, and the exact rational that stands for a Python
    \<open>float\<close> (the rounding of binary floating point is not modelled).
  \<^item> Actions: a Python function that reads and writes shared state and may raise is a function
    from the state to a result (\<open>Inl\<close> an exception, \<open>Inr\<close> a value) and the state it leaves
    behind. A database transaction is an action whose writes are undone when it raises.
  \<^item> Two locales for reasoning about actions: an invariant kept by an action, and a
    reflexive, transitive relation that every action obeys.
  \<^item> Python's containers as lists: grouping into a \<open>defaultdict(list)\<close>, counting with
    \<open>Counter\<close>, comparing neighbours of a sorted list.
\<close>

section \<open>Value types\<close>

type_synonym uuid = nat
type_synonym instant = int
type_synonym float_value = rat

named_theorems action_simps \<open>unfolding rules of the action combinators\<close>

section \<open>Actions: state, exceptions and transactions\<close>

type_synonym ('s, 'e, 'a) action = "'s \<Rightarrow> ('e + 'a) \<times> 's"

definition ret :: "'a \<Rightarrow> ('s, 'e, 'a) action" where
  "ret x s = (Inr x, s)"

definition raise :: "'e \<Rightarrow> ('s, 'e, 'a) action" where
  "raise e s = (Inl e, s)"

definition and_then :: "('s, 'e, 'a) action \<Rightarrow> ('a \<Rightarrow> ('s, 'e, 'b) action) \<Rightarrow> ('s, 'e, 'b) action" where
  "and_then m f s = (case m s of (Inl e, s') \<Rightarrow> (Inl e, s') | (Inr x, s') \<Rightarrow> f x s')"

definition reading :: "('s \<Rightarrow> 'a) \<Rightarrow> ('s, 'e, 'a) action" where
  "reading f s = (Inr (f s), s)"

definition writing :: "('s \<Rightarrow> 's) \<Rightarrow> ('s, 'e, unit) action" where
  "writing f s = (Inr (), f s)"

definition raise_if :: "bool \<Rightarrow> 'e \<Rightarrow> ('s, 'e, unit) action" where
  "raise_if c e = (if c then raise e else ret ())"

definition only_if :: "bool \<Rightarrow> ('s, 'e, unit) action \<Rightarrow> ('s, 'e, unit) action" where
  "only_if c m = (if c then m else ret ())"

text \<open>\<open>try: m / except E as e: h e\<close>: the handler runs in the state the exception left behind,
  and an exception it does not name (\<open>h e = None\<close>) keeps propagating.\<close>

definition catching :: "('s, 'e, 'a) action \<Rightarrow> ('e \<Rightarrow> ('s, 'e, 'a) action option) \<Rightarrow> ('s, 'e, 'a) action" where
  "catching m h s = (case m s of
      (Inl e, s') \<Rightarrow> (case h e of None \<Rightarrow> (Inl e, s') | Some m' \<Rightarrow> m' s')
    | (Inr x, s') \<Rightarrow> (Inr x, s'))"

text \<open>\<open>with engine.begin() as connection: ...\<close>: an exception that leaves the block rolls back.\<close>

definition transaction :: "('s, 'e, 'a) action \<Rightarrow> ('s, 'e, 'a) action" where
  "transaction m s = (case m s of (Inl e, _) \<Rightarrow> (Inl e, s) | (Inr x, s') \<Rightarrow> (Inr x, s'))"

lemmas action_defs =
  ret_def raise_def and_then_def reading_def writing_def raise_if_def only_if_def
  catching_def transaction_def

lemma ret_and_then [action_simps]: "and_then (ret x) f = f x"
  by (simp add: fun_eq_iff and_then_def ret_def)

lemma and_then_assoc:
  "and_then (and_then m f) g = and_then m (\<lambda>x. and_then (f x) g)"
  by (auto simp: fun_eq_iff and_then_def split: prod.splits sum.splits)

text \<open>Inversion: how an action that returned a value got there.\<close>

lemma and_then_InrD:
  "and_then m f s = (Inr x, s') \<Longrightarrow> \<exists>y t. m s = (Inr y, t) \<and> f y t = (Inr x, s')"
  by (auto simp: and_then_def split: prod.splits sum.splits)

lemma ret_InrD: "ret y s = (Inr x, s') \<Longrightarrow> x = y \<and> s' = s"
  by (auto simp: ret_def)

lemma raise_InrD: "raise e s = (Inr x, s') \<Longrightarrow> False"
  by (simp add: raise_def)

lemma reading_InrD: "reading f s = (Inr x, s') \<Longrightarrow> x = f s \<and> s' = s"
  by (auto simp: reading_def)

lemma writing_InrD: "writing f s = (Inr x, s') \<Longrightarrow> s' = f s"
  by (auto simp: writing_def)

lemma raise_if_InrD: "raise_if c e s = (Inr x, s') \<Longrightarrow> \<not> c \<and> s' = s"
  by (auto simp: raise_if_def raise_def ret_def split: if_splits)

lemmas InrDs = and_then_InrD ret_InrD reading_InrD writing_InrD raise_if_InrD

lemma and_then_InrE:
  assumes "and_then m f s = (Inr x, s')"
  obtains y t where "m s = (Inr y, t)" "f y t = (Inr x, s')"
  using and_then_InrD [OF assms] by blast

lemma and_then_pair_InrD:
  "and_then m (\<lambda>(a, b). f a b) s = (Inr x, s') \<Longrightarrow> \<exists>a b t. m s = (Inr (a, b), t) \<and> f a b t = (Inr x, s')"
  by (auto dest!: and_then_InrD)

text \<open>Running the first statement of a block.\<close>

lemma and_then_reading: "and_then (reading f) k s = k (f s) s"
  by (simp add: and_then_def reading_def)

lemma and_then_raise_if: "and_then (raise_if c e) k s = (if c then (Inl e, s) else k () s)"
  by (simp add: and_then_def raise_if_def raise_def ret_def)

lemma and_then_writing: "and_then (writing f) k s = k () (f s)"
  by (simp add: and_then_def writing_def)


lemma and_then_Pair: "and_then (Pair (Inr x)) f s = f x s"
  by (simp add: and_then_def)

lemma and_then_catching:
  "and_then (catching m h) k s = (case m s of
      (Inl e, t) \<Rightarrow> (case h e of None \<Rightarrow> (Inl e, t) | Some m' \<Rightarrow> and_then m' k t) | (Inr x, t) \<Rightarrow> k x t)"
  by (auto simp: and_then_def catching_def split: prod.splits sum.splits option.splits)

lemma returned: "\<not> isl (fst p) \<Longrightarrow> p = (Inr (projr (fst p)), snd p)"
  by (cases p) (auto simp: isl_def)

text \<open>Partial correctness: whenever the action returns, the postcondition holds.\<close>

definition returns_with :: "('s \<Rightarrow> bool) \<Rightarrow> ('s, 'e, 'a) action \<Rightarrow> ('a \<Rightarrow> 's \<Rightarrow> bool) \<Rightarrow> bool" where
  "returns_with P m Q \<longleftrightarrow> (\<forall>s x s'. P s \<longrightarrow> m s = (Inr x, s') \<longrightarrow> Q x s')"

lemma returns_withD: "returns_with P m Q \<Longrightarrow> P s \<Longrightarrow> m s = (Inr x, s') \<Longrightarrow> Q x s'"
  by (simp add: returns_with_def)

lemma returns_with_and_then:
  "returns_with P m Q \<Longrightarrow> (\<And>x. returns_with (Q x) (f x) R) \<Longrightarrow> returns_with P (and_then m f) R"
  unfolding returns_with_def by (blast dest: and_then_InrD)

lemma returns_with_ret: "(\<And>s. P s \<Longrightarrow> Q x s) \<Longrightarrow> returns_with P (ret x) Q"
  by (simp add: returns_with_def ret_def)

lemma returns_with_raise: "returns_with P (raise e) Q"
  by (simp add: returns_with_def raise_def)

lemma returns_with_raise_if: "(\<And>s. P s \<Longrightarrow> \<not> c \<Longrightarrow> Q () s) \<Longrightarrow> returns_with P (raise_if c e) Q"
  by (auto simp: returns_with_def raise_if_def ret_def raise_def)

lemma returns_with_reading: "(\<And>s. P s \<Longrightarrow> Q (f s) s) \<Longrightarrow> returns_with P (reading f) Q"
  by (simp add: returns_with_def reading_def)

lemma returns_with_writing: "(\<And>s. P s \<Longrightarrow> Q () (f s)) \<Longrightarrow> returns_with P (writing f) Q"
  by (simp add: returns_with_def writing_def)

lemma returns_with_transaction: "returns_with P m Q \<Longrightarrow> returns_with P (transaction m) Q"
  unfolding returns_with_def transaction_def by (auto split: prod.splits sum.splits)

lemma transaction_rolls_back: "transaction m s = (Inl e, s') \<Longrightarrow> s' = s"
  by (auto simp: transaction_def split: prod.splits sum.splits)

lemma transaction_commits: "m s = (Inr x, s') \<Longrightarrow> transaction m s = (Inr x, s')"
  by (simp add: transaction_def)

subsection \<open>Invariants and two-state relations of actions\<close>

definition obeys :: "('s \<Rightarrow> 's \<Rightarrow> bool) \<Rightarrow> ('s, 'e, 'a) action \<Rightarrow> bool" where
  "obeys R m \<longleftrightarrow> (\<forall>s. R s (snd (m s)))"

lemma obeysD: "obeys R m \<Longrightarrow> m s = (r, s') \<Longrightarrow> R s s'"
  by (metis obeys_def snd_conv)

lemma obeys_snd: "obeys R m \<Longrightarrow> R s (snd (m s))"
  by (simp add: obeys_def)

text \<open>
  A relation between the state before and the state after. Being reflexive and transitive it
  composes along \<open>and_then\<close>, survives handlers, and holds of a transaction that rolled back.
\<close>

locale two_state =
  fixes R :: "'s \<Rightarrow> 's \<Rightarrow> bool"
  assumes rel_refl: "R s s"
    and rel_trans: "R s t \<Longrightarrow> R t u \<Longrightarrow> R s u"
begin

lemma obeys_ret: "obeys R (ret x)"
  by (simp add: obeys_def ret_def rel_refl)

lemma obeys_raise: "obeys R (raise e)"
  by (simp add: obeys_def raise_def rel_refl)

lemma obeys_raise_if: "obeys R (raise_if c e)"
  by (simp add: raise_if_def obeys_ret obeys_raise)

lemma obeys_reading: "obeys R (reading f)"
  by (simp add: obeys_def reading_def rel_refl)

lemma obeys_writing: "(\<And>s. R s (f s)) \<Longrightarrow> obeys R (writing f)"
  by (simp add: obeys_def writing_def)

lemma obeys_only_if: "obeys R m \<Longrightarrow> obeys R (only_if c m)"
  by (simp add: only_if_def obeys_ret)

lemma obeys_and_then:
  assumes "obeys R m" and "\<And>x. obeys R (f x)"
  shows "obeys R (and_then m f)"
  unfolding obeys_def
proof
  fix s
  obtain r t where m: "m s = (r, t)" by fastforce
  have st: "R s t" using obeysD [OF assms(1) m] .
  show "R s (snd (and_then m f s))"
  proof (cases r)
    case (Inl e)
    with m st show ?thesis by (simp add: and_then_def)
  next
    case (Inr x)
    have "R t (snd (f x t))" using assms(2) by (simp add: obeys_def)
    with st m Inr show ?thesis by (auto simp: and_then_def intro: rel_trans)
  qed
qed

lemma obeys_catching:
  assumes "obeys R m" and "\<And>e m'. h e = Some m' \<Longrightarrow> obeys R m'"
  shows "obeys R (catching m h)"
  unfolding obeys_def
proof
  fix s
  obtain r t where m: "m s = (r, t)" by fastforce
  have st: "R s t" using obeysD [OF assms(1) m] .
  show "R s (snd (catching m h s))"
    using m st assms(2) rel_trans
    by (auto simp: catching_def obeys_def split: sum.splits option.splits)
qed

lemma obeys_transaction: "obeys R m \<Longrightarrow> obeys R (transaction m)"
  by (auto simp: obeys_def transaction_def rel_refl split: prod.splits sum.splits)
    (metis snd_conv)

lemma obeys_if: "obeys R m \<Longrightarrow> obeys R m' \<Longrightarrow> obeys R (if c then m else m')"
  by simp

lemma obeys_case_option:
  "obeys R m \<Longrightarrow> (\<And>x. obeys R (f x)) \<Longrightarrow> obeys R (case v of None \<Rightarrow> m | Some x \<Rightarrow> f x)"
  by (cases v) simp_all

lemmas obeys_intros =
  obeys_ret obeys_raise obeys_raise_if obeys_reading obeys_only_if obeys_and_then
  obeys_transaction obeys_if obeys_case_option

end

text \<open>An invariant is the two-state relation "if it held, it still holds".\<close>

definition preserves :: "('s \<Rightarrow> bool) \<Rightarrow> 's \<Rightarrow> 's \<Rightarrow> bool" where
  "preserves I s s' \<longleftrightarrow> (I s \<longrightarrow> I s')"

interpretation inv: two_state "preserves I" for I :: "'s \<Rightarrow> bool"
  by unfold_locales (auto simp: preserves_def)

lemma preserved: "obeys (preserves I) m \<Longrightarrow> m s = (r, s') \<Longrightarrow> I s \<Longrightarrow> I s'"
  using obeysD [of "preserves I" m s r s'] by (simp add: preserves_def)

text \<open>What an action leaves alone: a component of the state it never writes.\<close>

definition keeps :: "('s \<Rightarrow> 'a) \<Rightarrow> 's \<Rightarrow> 's \<Rightarrow> bool" where
  "keeps f s s' \<longleftrightarrow> f s' = f s"

interpretation keep: two_state "keeps f" for f :: "'s \<Rightarrow> 'a"
  by unfold_locales (auto simp: keeps_def)

lemma obeys_keeps_writing: "(\<And>s. f (w s) = f s) \<Longrightarrow> obeys (keeps f) (writing w)"
  by (rule keep.obeys_writing) (simp add: keeps_def)

lemmas keep_rules = keep.obeys_intros obeys_keeps_writing

lemma keepsD: "obeys (keeps f) m \<Longrightarrow> m s = (r, s') \<Longrightarrow> f s' = f s"
  using obeysD [of "keeps f" m s r s'] by (simp add: keeps_def)

section \<open>Results without state\<close>

definition and_also :: "'e + 'a \<Rightarrow> ('a \<Rightarrow> 'e + 'b) \<Rightarrow> 'e + 'b" where
  "and_also r f = (case r of Inl e \<Rightarrow> Inl e | Inr x \<Rightarrow> f x)"

lemma and_also_InrD: "and_also r f = Inr y \<Longrightarrow> \<exists>x. r = Inr x \<and> f x = Inr y"
  by (auto simp: and_also_def split: sum.splits)

section \<open>Rounding\<close>

text \<open>Python's \<open>round(x)\<close> rounds to the nearest integer and a tie to the even neighbour.\<close>

definition py_round :: "rat \<Rightarrow> int" where
  "py_round x =
     (let f = \<lfloor>x\<rfloor>; d = x - of_int f in
      if d < 1 / 2 then f
      else if d > 1 / 2 then f + 1
      else if even f then f else f + 1)"

lemma py_round_of_int [simp]: "py_round (of_int n) = n"
  by (simp add: py_round_def)

lemma py_round_dist: "\<bar>of_int (py_round x) - x\<bar> \<le> 1 / 2"
proof -
  have f: "of_int \<lfloor>x\<rfloor> \<le> x" "x < of_int \<lfloor>x\<rfloor> + 1" by linarith+
  then show ?thesis
    unfolding py_round_def Let_def by (simp add: abs_le_iff)
qed

lemma py_round_mono: "x \<le> y \<Longrightarrow> py_round x \<le> py_round y"
proof -
  assume xy: "x \<le> y"
  show ?thesis
  proof (cases "\<lfloor>x\<rfloor> = \<lfloor>y\<rfloor>")
    case True
    with xy show ?thesis by (auto simp: py_round_def Let_def)
  next
    case False
    with xy have "\<lfloor>x\<rfloor> + 1 \<le> \<lfloor>y\<rfloor>" using floor_mono [of x y] by linarith
    then show ?thesis by (auto simp: py_round_def Let_def)
  qed
qed

lemma py_round_nonneg: "0 \<le> x \<Longrightarrow> 0 \<le> py_round x"
  using py_round_mono [of 0 x] py_round_of_int [of 0] by simp

section \<open>Python containers as lists\<close>

text \<open>\<open>by_key: dict = defaultdict(list)\<close>, filled in a loop: the keys keep the order of their first
  insertion and each bucket the order of the loop.\<close>

fun bucket_append :: "'k \<Rightarrow> 'v \<Rightarrow> ('k \<times> 'v list) list \<Rightarrow> ('k \<times> 'v list) list" where
  "bucket_append k v [] = [(k, [v])]"
| "bucket_append k v ((k', vs) # rest) =
     (if k = k' then (k', vs @ [v]) # rest else (k', vs) # bucket_append k v rest)"

fun buckets_from :: "('v \<Rightarrow> 'k) \<Rightarrow> ('k \<times> 'v list) list \<Rightarrow> 'v list \<Rightarrow> ('k \<times> 'v list) list" where
  "buckets_from key acc [] = acc"
| "buckets_from key acc (x # xs) = buckets_from key (bucket_append (key x) x acc) xs"

definition group_by :: "('v \<Rightarrow> 'k) \<Rightarrow> 'v list \<Rightarrow> ('k \<times> 'v list) list" where
  "group_by key xs = buckets_from key [] xs"

definition bucket :: "('k \<times> 'v list) list \<Rightarrow> 'k \<Rightarrow> 'v list" where
  "bucket bs k = (case map_of bs k of None \<Rightarrow> [] | Some vs \<Rightarrow> vs)"

lemma keys_bucket_append: "fst ` set (bucket_append k v bs) = insert k (fst ` set bs)"
proof (induction bs)
  case (Cons b bs)
  obtain k' vs where b: "b = (k', vs)" by fastforce
  show ?case
  proof (cases "k = k'")
    case True
    with b show ?thesis by simp
  next
    case False
    with b Cons.IH show ?thesis by (simp add: insert_commute)
  qed
qed simp

lemma distinct_bucket_append:
  "distinct (map fst bs) \<Longrightarrow> distinct (map fst (bucket_append k v bs))"
proof (induction bs)
  case (Cons b bs)
  obtain k' vs where b: "b = (k', vs)" by fastforce
  have "set (map fst (bucket_append k v bs)) = insert k (set (map fst bs))"
    using keys_bucket_append [of k v bs] by simp
  with Cons b show ?case by auto
qed simp

lemma distinct_buckets_from:
  "distinct (map fst bs) \<Longrightarrow> distinct (map fst (buckets_from key bs xs))"
  by (induction xs arbitrary: bs) (auto simp: distinct_bucket_append)

lemma map_of_bucket_append:
  "map_of (bucket_append k v bs) =
     (map_of bs)(k \<mapsto> (case map_of bs k of None \<Rightarrow> [v] | Some vs \<Rightarrow> vs @ [v]))"
  by (induction bs) (auto simp: fun_eq_iff)

lemma bucket_append_bucket:
  "bucket (bucket_append k v bs) j = (if j = k then bucket bs k @ [v] else bucket bs j)"
  by (auto simp: bucket_def map_of_bucket_append split: option.splits)

lemma bucket_buckets_from:
  "bucket (buckets_from key bs xs) k = bucket bs k @ filter (\<lambda>x. key x = k) xs"
  by (induction xs arbitrary: bs) (auto simp: bucket_append_bucket)

lemma bucket_group_by [simp]: "bucket (group_by key xs) k = filter (\<lambda>x. key x = k) xs"
  unfolding group_by_def by (subst bucket_buckets_from) (simp add: bucket_def)

lemma keys_buckets_from: "fst ` set (buckets_from key bs xs) = fst ` set bs \<union> key ` set xs"
  by (induction xs arbitrary: bs) (auto simp: keys_bucket_append)

lemma keys_group_by [simp]: "fst ` set (group_by key xs) = key ` set xs"
  by (simp add: group_by_def keys_buckets_from)

lemma distinct_group_by [simp]: "distinct (map fst (group_by key xs))"
  by (simp add: group_by_def distinct_buckets_from)

lemma group_by_elem:
  "(k, vs) \<in> set (group_by key xs) \<longleftrightarrow> k \<in> key ` set xs \<and> vs = filter (\<lambda>x. key x = k) xs"
proof -
  have mem: "map_of (group_by key xs) k = Some vs \<longleftrightarrow> (k, vs) \<in> set (group_by key xs)"
    by (simp add: map_of_eq_Some_iff)
  have dom: "map_of (group_by key xs) k = None \<longleftrightarrow> k \<notin> key ` set xs"
    by (simp add: map_of_eq_None_iff)
  show ?thesis
  proof (cases "map_of (group_by key xs) k")
    case None
    then show ?thesis using mem dom by (metis option.distinct(1))
  next
    case (Some ws)
    then have "ws = filter (\<lambda>x. key x = k) xs"
      using bucket_group_by [of key xs k] by (simp add: bucket_def)
    then show ?thesis using Some mem dom by auto
  qed
qed

text \<open>\<open>collections.Counter(keys)\<close>.\<close>

definition counter :: "'k list \<Rightarrow> ('k \<times> int) list" where
  "counter ks = map (\<lambda>(k, vs). (k, int (length vs))) (group_by (\<lambda>k. k) ks)"

lemma counter_elem:
  "(k, n) \<in> set (counter ks) \<longleftrightarrow> k \<in> set ks \<and> n = int (count_list ks k)"
proof -
  have "length (filter (\<lambda>x. x = k) ks) = count_list ks k" for k
    by (induction ks) auto
  then show ?thesis
    unfolding counter_def
    by (auto simp: group_by_elem intro!: rev_image_eqI [of "(k, filter (\<lambda>x. x = k) ks)"])
qed

text \<open>\<open>totals: dict = defaultdict(float)\<close> with \<open>totals[k] += v\<close> in a loop.\<close>

definition totals_by :: "('k \<times> 'n :: comm_monoid_add) list \<Rightarrow> ('k \<times> 'n) list" where
  "totals_by kvs = map (\<lambda>(k, vs). (k, sum_list (map snd vs))) (group_by fst kvs)"

lemma sum_list_bucket_append:
  fixes f :: "'v \<Rightarrow> 'n :: comm_monoid_add"
  shows "(\<Sum>(_, vs) \<leftarrow> bucket_append k v bs. sum_list (map f vs))
       = (\<Sum>(_, vs) \<leftarrow> bs. sum_list (map f vs)) + f v"
  by (induction bs) (auto simp: ac_simps)

lemma sum_list_buckets_from:
  fixes f :: "'v \<Rightarrow> 'n :: comm_monoid_add"
  shows "(\<Sum>(_, vs) \<leftarrow> buckets_from key bs xs. sum_list (map f vs))
       = (\<Sum>(_, vs) \<leftarrow> bs. sum_list (map f vs)) + sum_list (map f xs)"
  by (induction xs arbitrary: bs) (auto simp: sum_list_bucket_append ac_simps)

lemma sum_list_group_by:
  fixes f :: "'v \<Rightarrow> 'n :: comm_monoid_add"
  shows "sum_list (map f xs) = (\<Sum>(_, vs) \<leftarrow> group_by key xs. sum_list (map f vs))"
  by (simp add: group_by_def sum_list_buckets_from)

lemma length_group_by: "length (group_by key xs) = card (key ` set xs)"
  using distinct_card [OF distinct_group_by [of key xs]] by simp

lemma sum_totals_by: "sum_list (map snd (totals_by kvs)) = sum_list (map snd kvs)"
proof -
  have "sum_list (map snd (totals_by kvs)) = (\<Sum>(_, vs) \<leftarrow> group_by fst kvs. sum_list (map snd vs))"
    by (simp add: totals_by_def comp_def case_prod_unfold)
  then show ?thesis by (simp add: group_by_def sum_list_buckets_from)
qed

lemma keys_totals_by: "fst ` set (totals_by kvs) = fst ` set kvs"
proof -
  have "fst ` set (totals_by kvs) = fst ` set (group_by fst kvs)"
    unfolding totals_by_def set_map image_image by (simp add: case_prod_unfold)
  then show ?thesis by simp
qed

text \<open>\<open>dict(pairs)\<close> and \<open>{k: v for ...}\<close>: the last value given for a key stays.\<close>

definition dict_of :: "('k \<times> 'v) list \<Rightarrow> 'k \<Rightarrow> 'v option" where
  "dict_of kvs = map_of (rev kvs)"

lemma dict_of_SomeD: "dict_of kvs k = Some v \<Longrightarrow> (k, v) \<in> set kvs"
  unfolding dict_of_def by (drule map_of_SomeD) simp

lemma dict_of_eq_None: "dict_of kvs k = None \<longleftrightarrow> k \<notin> fst ` set kvs"
  by (simp add: dict_of_def map_of_eq_None_iff)

lemma dict_of_distinct:
  assumes "distinct (map fst kvs)"
  shows "dict_of kvs = map_of kvs"
  unfolding dict_of_def
  using map_of_inject_set [of "rev kvs" kvs] assms by (simp flip: rev_map)

text \<open>\<open>d.get(k, default)\<close>.\<close>

definition get_or :: "'v \<Rightarrow> 'v option \<Rightarrow> 'v" where
  "get_or d v = (case v of None \<Rightarrow> d | Some x \<Rightarrow> x)"

text \<open>\<open>s.partition(c)\<close> for a one-character separator, without the separator itself: the whole string
  and an empty rest when the separator is absent.\<close>

definition partition_at :: "char \<Rightarrow> string \<Rightarrow> string \<times> string" where
  "partition_at c s = (takeWhile (\<lambda>x. x \<noteq> c) s, tl (dropWhile (\<lambda>x. x \<noteq> c) s))"

lemma partition_at_append:
  "c \<notin> set a \<Longrightarrow> partition_at c (a @ c # b) = (a, b)"
  by (induction a) (auto simp: partition_at_def)

text \<open>\<open>zip(xs, xs[1:])\<close>: the neighbours of a list.\<close>

definition neighbours :: "'a list \<Rightarrow> ('a \<times> 'a) list" where
  "neighbours xs = zip xs (tl xs)"

lemma neighbours_simps [simp]:
  "neighbours [] = []" "neighbours [x] = []"
  "neighbours (x # y # xs) = (x, y) # neighbours (y # xs)"
  by (simp_all add: neighbours_def)

lemma set_neighbours: "(x, y) \<in> set (neighbours xs) \<Longrightarrow> x \<in> set xs \<and> y \<in> set xs"
  by (induction xs rule: induct_list012) auto

lemma neighbours_all_sorted_wrt:
  assumes "transp_on (set xs) P"
  shows "(\<forall>(x, y) \<in> set (neighbours xs). P x y) \<longleftrightarrow> sorted_wrt P xs"
  using assms
proof (induction xs rule: induct_list012)
  case (3 x y zs)
  have "transp_on (set (y # zs)) P"
    using "3.prems" by (rule transp_on_subset) auto
  note IH = "3.IH"(2) [OF this]
  have step: "P x z" if "P x y" "P y z" "z \<in> set zs" for z
    using "3.prems" that by (auto elim: transp_onD)
  show ?case using IH step by auto
qed simp_all

text \<open>For a symmetric relation, "every two positions are related" does not depend on the order.\<close>

lemma sorted_wrt_symp_remove1:
  assumes "symp Q"
  shows "sorted_wrt Q xs \<longleftrightarrow> (\<forall>x \<in># mset xs. \<forall>y \<in># mset xs - {#x#}. Q x y)"
proof (induction xs)
  case (Cons a xs)
  show ?case (is "?L \<longleftrightarrow> ?R")
  proof
    assume ?L
    then have a: "\<forall>y \<in> set xs. Q a y" and xs: "\<forall>x \<in># mset xs. \<forall>y \<in># mset xs - {#x#}. Q x y"
      using Cons.IH by auto
    have "Q x y" if "x \<in> set xs" "y \<in># mset (a # xs) - {#x#}" for x y
    proof -
      have "y = a \<or> y \<in># mset xs - {#x#}"
        using that by (auto simp: in_diff_count split: if_splits)
      then show ?thesis using a xs that(1) assms by (auto dest: sympD)
    qed
    with a show ?R by auto
  next
    assume R: ?R
    have "Q x y" if "x \<in># mset xs" "y \<in># mset xs - {#x#}" for x y
      using R that by (auto simp: in_diff_count split: if_splits)
    then show ?L using R Cons.IH by auto
  qed
qed simp

lemma sorted_wrt_symp_perm:
  assumes "symp Q" and "mset xs = mset ys"
  shows "sorted_wrt Q xs \<longleftrightarrow> sorted_wrt Q ys"
proof -
  have "set xs = set ys" using assms(2) by (rule mset_eq_setD)
  then show ?thesis
    using assms(2) sorted_wrt_symp_remove1 [OF assms(1)] by simp
qed

text \<open>Intervals, given by their start and end, that keep a distance \<open>g\<close> from each other.\<close>

definition separated :: "int \<Rightarrow> ('a \<Rightarrow> int) \<Rightarrow> ('a \<Rightarrow> int) \<Rightarrow> 'a \<Rightarrow> 'a \<Rightarrow> bool" where
  "separated g s e x y \<longleftrightarrow> e x + g \<le> s y \<or> e y + g \<le> s x"

lemma symp_separated: "symp (separated g s e)"
  by (auto simp: symp_def separated_def)

text \<open>Comparing the neighbours of the list sorted by start decides that all pairs are separated.\<close>

lemma neighbours_separated_iff:
  assumes len: "\<And>x. x \<in> set xs \<Longrightarrow> s x < e x" and g: "0 \<le> g"
    and key: "\<And>x y. k x \<le> k y \<Longrightarrow> s x \<le> s y"
  shows "(\<forall>(x, y) \<in> set (neighbours (sort_key k xs)). e x + g \<le> s y)
         \<longleftrightarrow> sorted_wrt (separated g s e) xs"
proof -
  let ?ys = "sort_key k xs"
  have set_ys: "set ?ys = set xs" and mset_ys: "mset ?ys = mset xs" by simp_all
  have "transp_on (set ?ys) (\<lambda>x y. e x + g \<le> s y)"
    unfolding set_ys using len g by (fastforce intro: transp_onI)
  then have "(\<forall>(x, y) \<in> set (neighbours ?ys). e x + g \<le> s y) \<longleftrightarrow> sorted_wrt (\<lambda>x y. e x + g \<le> s y) ?ys"
    by (rule neighbours_all_sorted_wrt)
  also have "\<dots> \<longleftrightarrow> sorted_wrt (separated g s e) ?ys"
  proof
    assume "sorted_wrt (\<lambda>x y. e x + g \<le> s y) ?ys"
    then show "sorted_wrt (separated g s e) ?ys"
      by (rule sorted_wrt_mono_rel [rotated]) (simp add: separated_def)
  next
    assume sep: "sorted_wrt (separated g s e) ?ys"
    have "sorted_wrt (\<lambda>x y. k x \<le> k y) ?ys"
      using sorted_sort_key [of k xs] by (simp add: sorted_map)
    with sep have "sorted_wrt (\<lambda>x y. separated g s e x y \<and> k x \<le> k y) ?ys"
      by (auto simp: sorted_wrt_iff_nth_less)
    then show "sorted_wrt (\<lambda>x y. e x + g \<le> s y) ?ys"
    proof (rule sorted_wrt_mono_rel [rotated])
      fix x y assume "x \<in> set ?ys" "y \<in> set ?ys" "separated g s e x y \<and> k x \<le> k y"
      with len [of x] len [of y] g key [of x y] show "e x + g \<le> s y"
        by (auto simp: separated_def)
    qed
  qed
  also have "\<dots> \<longleftrightarrow> sorted_wrt (separated g s e) xs"
    using symp_separated mset_ys by (rule sorted_wrt_symp_perm)
  finally show ?thesis .
qed

lemma sum_list_nonneg_eq_0:
  fixes xs :: "'a :: ordered_comm_monoid_add list"
  shows "(\<And>x. x \<in> set xs \<Longrightarrow> 0 \<le> x) \<Longrightarrow> sum_list xs = 0 \<longleftrightarrow> (\<forall>x \<in> set xs. x = 0)"
  by (rule sum_list_nonneg_eq_0_iff)

lemma find_append_Some: "find p xs = Some x \<Longrightarrow> find p (xs @ ys) = Some x"
  by (induction xs) (auto split: if_splits)

end
