(* ===== verification/Contracts.thy ===== *)
theory Contracts
  imports Prelude
begin

text \<open>
  The immutable contracts the components exchange (\<^verbatim>\<open>src/backend/application/contracts\<close>): the
  normalized scenario projection, the evidence locators, the reversible proposal inputs, the
  solver outcome and the candidate schedule version. A frozen dataclass is a record, a
  \<open>Literal\<close> of strings a datatype, a tuple a list. Record fields carry a short prefix because
  Python's field names repeat across classes. The constant \<open>schema_version\<close> fields are left out.
\<close>

section \<open>Scenario projection\<close>

datatype window_kind = Roster | Availability

datatype demand_family = Outbound | Inbound | Indirect

datatype demand_unit = Volume | Headcount

record task_v1 =
  tk_record_id :: string
  tk_task_id :: string
  tk_name :: string
  tk_function :: string
  tk_area_id :: string
  tk_area_name :: string
  tk_unit_type_id :: "string option"

record qualification_ref_v1 =
  qr_task_id :: string
  qr_rate :: float_value

record availability_window_v1 =
  aw_kind :: window_kind
  aw_start_minute :: int
  aw_end_minute :: int

record worker_v1 =
  wk_record_id :: string
  wk_contact_id :: string
  wk_name :: string
  wk_employment_type :: string
  wk_grade :: string
  wk_eba :: string
  wk_contracted_hours :: float_value
  wk_qualifications :: "qualification_ref_v1 list"
  wk_availability_windows :: "availability_window_v1 list"

record demand_interval_v1 =
  di_record_id :: string
  di_family :: demand_family
  di_task_id :: string
  di_area_id :: "string option"
  di_start_minute :: int
  di_end_minute :: int
  di_amount :: float_value
  di_unit :: demand_unit

record assignment_v1 =
  as_record_id :: string
  as_worker_id :: string
  as_task_id :: string
  as_shift_id :: "string option"
  as_start_minute :: int
  as_end_minute :: int
  as_qualification_refs :: "qualification_ref_v1 list"
  as_source :: string
  as_lock_ref :: "string option"

record lock_v1 =
  lk_record_id :: string
  lk_target_type :: string
  lk_target_ref :: string
  lk_scope :: string
  lk_source :: string

record constraint_v1 =
  cn_record_id :: string
  cn_constraint_type :: string
  cn_value :: string
  cn_value_type :: "string option"

record scenario_overview_v1 =
  ov_scenario_id :: uuid
  ov_scenario_version_id :: uuid
  ov_site_id :: uuid
  ov_fixture_id :: string
  ov_scenario_name :: string
  ov_fixture_version :: string
  ov_checksum_algorithm :: string
  ov_checksum_schema_version :: string
  ov_checksum_digest :: string
  ov_horizon_start :: instant
  ov_site_timezone :: string
  ov_horizon_minutes :: int
  ov_baseline_schedule_version :: "string option"
  ov_projection_generated_at :: instant
  ov_work_area_count :: int
  ov_task_count :: int
  ov_worker_count :: int
  ov_demand_interval_count :: int
  ov_baseline_assignment_count :: int
  ov_lock_count :: int
  ov_constraint_count :: int

section \<open>Evidence locators\<close>

datatype evidence_group =
  WorkAreasAndTasks | Workers | Demand | BaselineAssignments | Locks | ConstraintsAndObjectives

record evidence_ref_v1 =
  er_scenario_version_id :: uuid
  er_checksum_algorithm :: string
  er_checksum_schema_version :: string
  er_checksum_digest :: string
  er_producing_run_version :: "string option"
  er_baseline_schedule_version :: "string option"
  er_group :: evidence_group
  er_record_id :: string
  er_field :: "string option"
  er_start_minute :: "int option"
  er_end_minute :: "int option"

section \<open>Reversible proposals\<close>

datatype draft_constraint_kind =
  SetMinWorkersPerTask | ScaleDemand | LockWorkerShift | ExcludeWorkerFromTask | SetMaxHours

record resolved_entity_v1 =
  re_group :: evidence_group
  re_record_id :: string
  re_label :: string
  re_scenario_version_id :: "uuid option"

record draft_constraint_v1 =
  dc_kind :: draft_constraint_kind
  dc_resolved_entities :: "resolved_entity_v1 list"
  dc_n :: "int option"
  dc_factor :: "float_value option"
  dc_max_hours :: "float_value option"
  dc_start_minute :: "int option"
  dc_end_minute :: "int option"
  dc_description :: string

definition kind_name :: "draft_constraint_kind \<Rightarrow> string" where
  "kind_name k = (case k of
      SetMinWorkersPerTask \<Rightarrow> ''set_min_workers_per_task''
    | ScaleDemand \<Rightarrow> ''scale_demand''
    | LockWorkerShift \<Rightarrow> ''lock_worker_shift''
    | ExcludeWorkerFromTask \<Rightarrow> ''exclude_worker_from_task''
    | SetMaxHours \<Rightarrow> ''set_max_hours'')"

section \<open>Solver output and schedule versions\<close>

datatype run_status =
    SolverQueued
  | SolverRunning
  | CancellationRequested
  | SolverCompleted
  | SolverInfeasible
  | SolverTimedOut
  | SolverCancelled
  | SolverFailed

datatype constraint_class = Hard | Soft

datatype solver_status = OPTIMAL | FEASIBLE | INFEASIBLE | MODEL_INVALID | UNKNOWN

record worker_scheduling_fact_v1 =
  wf_worker_id :: string
  wf_employment_type :: string
  wf_contracted_hours :: float_value
  wf_wage_per_hour :: float_value
  wf_qualifications :: "qualification_ref_v1 list"
  wf_availability_windows :: "availability_window_v1 list"

record selected_shift_fact_v1 =
  sh_shift_id :: string
  sh_worker_id :: string
  sh_window_id :: string
  sh_window_kind :: window_kind
  sh_start_minute :: int
  sh_end_minute :: int
  sh_effective_minutes :: int

record validation_facts_v1 =
  vf_horizon_minutes :: int
  vf_workers :: "worker_scheduling_fact_v1 list"
  vf_selected_shifts :: "selected_shift_fact_v1 list"
  vf_max_hours_per_week :: "(string \<times> float_value) list"
  vf_max_shifts_per_day :: "(string \<times> int) list"
  vf_minimum_gap_minutes :: int
  vf_tasks :: "task_v1 list"
  vf_demand_intervals :: "demand_interval_v1 list"

record metric_set_v1 =
  ms_interval_coverage_required_minutes :: "(string \<times> float_value) list"
  ms_interval_coverage_served_minutes :: "(string \<times> float_value) list"
  ms_function_coverage_required_minutes :: "(string \<times> float_value) list"
  ms_function_coverage_served_minutes :: "(string \<times> float_value) list"
  ms_overtime_minutes :: float_value
  ms_total_cost :: float_value
  ms_objective_components :: "(string \<times> float_value) list"
  ms_assignment_count :: int
  ms_member_count :: int

record constraint_result_v1 =
  cr_constraint_id :: string
  cr_constraint_type :: string
  cr_constraint_class :: constraint_class
  cr_satisfied :: bool
  cr_measured_value :: "float_value option"
  cr_limit :: "float_value option"
  cr_unit :: string
  cr_contributing_assignment_ids :: "string list"
  cr_contributing_evidence_refs :: "evidence_ref_v1 list"

record solver_outcome_v1 =
  so_solver_status :: solver_status
  so_assignments :: "assignment_v1 list"
  so_metrics :: "metric_set_v1 option"
  so_constraint_results :: "constraint_result_v1 list"
  so_warnings :: "string list"
  so_evidence_refs :: "evidence_ref_v1 list"
  so_round1_value :: "float_value option"
  so_round2_value :: "float_value option"
  so_wall_time_seconds :: float_value
  so_validation_facts :: "validation_facts_v1 option"
  so_reason :: "string option"

record schedule_version_v1 =
  sv_schedule_version_id :: "uuid option"
  sv_schedule_run_id :: "uuid option"
  sv_scenario_id :: "uuid option"
  sv_scenario_version_id :: "uuid option"
  sv_proposal_id :: "uuid option"
  sv_proposal_version_id :: "uuid option"
  sv_feasible_solver_status :: "solver_status option"
  sv_assignments :: "assignment_v1 list"
  sv_metrics :: "metric_set_v1 option"
  sv_constraint_results :: "constraint_result_v1 list"
  sv_warnings :: "string list"
  sv_evidence_refs :: "evidence_ref_v1 list"
  sv_created_at :: "instant option"

definition run_event_types :: "run_status \<Rightarrow> string" where
  "run_event_types s = (case s of
      SolverQueued \<Rightarrow> ''run.queued.v1''
    | SolverRunning \<Rightarrow> ''run.running.v1''
    | CancellationRequested \<Rightarrow> ''run.cancellation_requested.v1''
    | SolverCompleted \<Rightarrow> ''run.completed.v1''
    | SolverInfeasible \<Rightarrow> ''run.infeasible.v1''
    | SolverTimedOut \<Rightarrow> ''run.timed_out.v1''
    | SolverCancelled \<Rightarrow> ''run.cancelled.v1''
    | SolverFailed \<Rightarrow> ''run.failed.v1'')"

lemma run_event_types_inj: "run_event_types s = run_event_types t \<longleftrightarrow> s = t"
  by (cases s; cases t) (simp_all add: run_event_types_def)

section \<open>Proposals and approvals\<close>

datatype proposal_state = ProposalActive | ProposalRejected | ProposalApplied

datatype proposal_ended_by = EndedByPlanner | EndedByAssistant | EndedBySystem

record proposal_v1 =
  pp_proposal_id :: "uuid option"
  pp_proposal_version_id :: "uuid option"
  pp_scenario_id :: "uuid option"
  pp_scenario_version_id :: "uuid option"
  pp_expected_baseline_schedule_version :: "string option"
  pp_resolved_entities :: "resolved_entity_v1 list"
  pp_constraints :: "draft_constraint_v1 list"
  pp_preserved_locks :: "lock_v1 list"
  pp_consequence_summary :: string
  pp_canonical_hash :: string
  pp_state :: proposal_state
  pp_resource_version :: int

record draft_constraint_proposal_v1 =
  dp_kind :: draft_constraint_kind
  dp_group :: evidence_group
  dp_record_id :: string
  dp_related_group :: "evidence_group option"
  dp_related_record_id :: "string option"
  dp_n :: "int option"
  dp_factor :: "float_value option"
  dp_max_hours :: "float_value option"
  dp_start_minute :: "int option"
  dp_end_minute :: "int option"

record proposal_view_v1 =
  pv_proposal :: proposal_v1
  pv_current_scenario_version_id :: uuid
  pv_stale :: bool
  pv_version_ordinal :: "int option"
  pv_ended_by :: "proposal_ended_by option"
  pv_applied_version_ordinal :: "int option"

datatype approval_state = ApprovalPending | ApprovalConsumed | ApprovalRejected | ApprovalExpired | ApprovalStale

record approval_binding_v1 =
  ab_approval_id :: uuid
  ab_state :: approval_state
  ab_site_id :: uuid
  ab_initiated_by_actor_id :: uuid
  ab_decided_by_actor_id :: "uuid option"
  ab_conversation_id :: uuid
  ab_agent_run_id :: "uuid option"
  ab_schedule_run_id :: uuid
  ab_candidate_schedule_version_id :: uuid
  ab_scenario_version_id :: "uuid option"
  ab_baseline_schedule_version :: "string option"
  ab_baseline_resource_version :: "int option"
  ab_parameter_hash :: string
  ab_consequence_summary :: string
  ab_consequence_hash :: string
  ab_checksum_algorithm :: string
  ab_checksum_schema_version :: string
  ab_policy_version :: string
  ab_created_at :: instant
  ab_expires_at :: instant
  ab_decided_at :: "instant option"
  ab_consumed_at :: "instant option"
  ab_request_effect_key :: string
  ab_resource_version :: int

definition presented_approval_state :: "approval_binding_v1 \<Rightarrow> instant \<Rightarrow> approval_state" where
  "presented_approval_state binding now =
     (if ab_state binding = ApprovalPending \<and> now \<ge> ab_expires_at binding then ApprovalExpired else ab_state binding)"

record audit_envelope_v1 =
  ae_audit_id :: uuid
  ae_attempt_id :: uuid
  ae_request_id :: uuid
  ae_site_id :: uuid
  ae_initiated_by_actor_id :: uuid
  ae_decided_by_actor_id :: "uuid option"
  ae_conversation_id :: "uuid option"
  ae_agent_run_id :: "uuid option"
  ae_approval_id :: "uuid option"
  ae_schedule_run_id :: "uuid option"
  ae_outcome :: string
  ae_success :: bool
  ae_effect_key :: string
  ae_before_version :: "string option"
  ae_after_version :: "string option"
  ae_safe_summary :: string
  ae_parameter_hash :: string
  ae_consequence_hash :: string
  ae_policy_version :: string
  ae_evidence_refs :: "evidence_ref_v1 list"
  ae_occurred_at :: instant

section \<open>Grounded answers and dialogue\<close>

datatype metric =
  RequiredHeadcountMinutes | RequiredDemandVolume | StaffedMinutes | QualifiedWorkerCount | WorkerCount

datatype grounding_failure =
  MissingEvidence | UnauthorizedEvidence | VersionMismatch | CalculationFailed | UncitedClaim

datatype fact_failure =
  FactMissingEvidence | FactUnknownField | FactValueMismatch | FactVersionMismatch | FactUnauthorizedEvidence

datatype verdict = Supported | Failed

datatype grounding_unit = UnitMinutes | UnitWorkers | UnitUnits

record claim_arguments_v1 =
  ga_task_id :: "string option"
  ga_family :: "demand_family option"
  ga_start_minute :: "int option"
  ga_end_minute :: "int option"

record grounded_claim_v1 =
  gc_metric :: metric
  gc_arguments :: claim_arguments_v1
  gc_result_id :: string
  gc_value :: "float_value option"
  gc_unit :: "grounding_unit option"
  gc_evidence_refs :: "evidence_ref_v1 list"
  gc_verdict :: verdict
  gc_failure :: "grounding_failure option"

text \<open>A probability of the wording checker; it may be a NaN or infinite.\<close>

datatype support_score = FiniteScore float_value | NonFiniteScore

record grounded_fact_v1 =
  gf_text :: string
  gf_field :: string
  gf_value :: string
  gf_evidence_refs :: "evidence_ref_v1 list"
  gf_verdict :: verdict
  gf_failure :: "fact_failure option"
  gf_support_probability :: "support_score option"
  gf_wording_flagged :: bool

datatype grounded_segment = ProseSegment string | ClaimSegment grounded_claim_v1 | FactSegment grounded_fact_v1

record grounded_response_v1 =
  gr_scenario_version_id :: "uuid option"
  gr_segments :: "grounded_segment list"

record entity_candidate_v1 =
  ec_group :: evidence_group
  ec_record_id :: string
  ec_label :: string
  ec_scenario_version_id :: "uuid option"

record resolved_clarification_v1 =
  rc_question :: string
  rc_candidates :: "entity_candidate_v1 list"
  rc_scenario_version_id :: "uuid option"
  rc_dropped_candidate_count :: int

datatype terminal_reason =
    ProviderError | InvalidOutput | BudgetExhausted | DeadlineExceeded | CapabilityError | Refused
  | ApprovalUnsupported | ApprovalNotGrantable

datatype refusal_reason = UnsupportedRequest | CapabilityUnavailable | OutOfScope

record terminal_outcome_v1 =
  to_status :: string
  to_reason :: terminal_reason
  to_refusal_reason :: "refusal_reason option"
  to_detail :: string
  to_next_step :: "string option"

section \<open>Conversation activity\<close>

datatype agent_run_status =
  AgentQueued | AgentRunning | ApprovalRequired | AgentCompleted | AgentTimedOut | AgentCancelled | AgentFailed

datatype activity_payload =
    PlannerMessageActivity uuid string
  | AgentResponseActivity grounded_response_v1
  | ClarificationActivity resolved_clarification_v1
  | DraftActivity uuid uuid string
  | ApprovalRequestActivity approval_binding_v1
  | TerminalOutcomeActivity terminal_outcome_v1

record conversation_activity =
  ca_activity_id :: uuid
  ca_event_type :: string
  ca_conversation_id :: uuid
  ca_sequence :: int
  ca_resource_version :: int
  ca_scenario_id :: uuid
  ca_scenario_version_id :: uuid
  ca_occurred_at :: instant
  ca_request_id :: uuid
  ca_agent_run_id :: "uuid option"
  ca_site_id :: uuid
  ca_actor_id :: uuid
  ca_payload :: activity_payload

end
