(* ===== verification/Hard_Constraints.thy ===== *)
theory Hard_Constraints
  imports Contracts
begin

text \<open>
  The independent re-check of solver output
  (\<^verbatim>\<open>src/backend/application/scheduling/hard_constraints.py\<close>). One definition per measurement of
  \<open>validate_hard_constraints\<close>, composed in the code's order, and \<open>require_hard_constraints\<close>, the
  gate every candidate passes. The lemmas show that a schedule the gate accepts satisfies the
  declarative rules, pairwise and not only between the neighbours the code compares.
\<close>

section \<open>The validator\<close>

definition hc_result :: "string \<Rightarrow> bool \<Rightarrow> float_value \<Rightarrow> float_value \<Rightarrow> string \<Rightarrow> string list \<Rightarrow> constraint_result_v1" where
  "hc_result name satisfied measured cap u ids =
     \<lparr>cr_constraint_id = ''hard:'' @ name, cr_constraint_type = name, cr_constraint_class = Hard,
      cr_satisfied = satisfied, cr_measured_value = Some measured, cr_limit = Some cap,
      cr_unit = u, cr_contributing_assignment_ids = ids, cr_contributing_evidence_refs = []\<rparr>"

definition workers_by_id :: "validation_facts_v1 \<Rightarrow> string \<Rightarrow> worker_scheduling_fact_v1 option" where
  "workers_by_id facts = dict_of (map (\<lambda>w. (wf_worker_id w, w)) (vf_workers facts))"

definition shifts_by_id :: "validation_facts_v1 \<Rightarrow> string \<Rightarrow> selected_shift_fact_v1 option" where
  "shifts_by_id facts = dict_of (map (\<lambda>s. (sh_shift_id s, s)) (vf_selected_shifts facts))"

definition outside_selected_shift :: "validation_facts_v1 \<Rightarrow> assignment_v1 \<Rightarrow> bool" where
  "outside_selected_shift facts a =
     (case Option.bind (as_shift_id a) (shifts_by_id facts) of
        None \<Rightarrow> True
      | Some s \<Rightarrow> sh_worker_id s \<noteq> as_worker_id a \<or> as_start_minute a < sh_start_minute s
                  \<or> as_end_minute a > sh_end_minute s)"

definition slot_overlaps :: "assignment_v1 list \<Rightarrow> string list" where
  "slot_overlaps values =
     (let ordered = sort_key (\<lambda>v. (as_start_minute v, as_end_minute v)) values in
      concat (map (\<lambda>(left, right).
                if as_start_minute right < as_end_minute left
                then [as_record_id left, as_record_id right] else [])
              (neighbours ordered)))"

definition all_slot_overlaps :: "assignment_v1 list \<Rightarrow> string list" where
  "all_slot_overlaps assignments =
     concat (map (\<lambda>(_, values). slot_overlaps values) (group_by as_worker_id assignments))"

definition empty_shifts :: "assignment_v1 list \<Rightarrow> validation_facts_v1 \<Rightarrow> string list" where
  "empty_shifts assignments facts =
     (let by_shift = group_by as_shift_id (filter (\<lambda>a. as_shift_id a \<noteq> None) assignments) in
      map sh_shift_id
        (filter (\<lambda>s. bucket by_shift (Some (sh_shift_id s)) = []) (vf_selected_shifts facts)))"

definition extra_windows :: "validation_facts_v1 \<Rightarrow> int" where
  "extra_windows facts =
     (\<Sum>(_, count) \<leftarrow> counter (map (\<lambda>s. (sh_worker_id s, sh_window_id s)) (vf_selected_shifts facts)).
        max 0 (count - 1))"

definition day_excess :: "validation_facts_v1 \<Rightarrow> int" where
  "day_excess facts =
     (\<Sum>((worker_id, _), count) \<leftarrow>
        counter (map (\<lambda>s. (sh_worker_id s, sh_start_minute s div 1440)) (vf_selected_shifts facts)).
        (let cap = (case workers_by_id facts worker_id of
                      None \<Rightarrow> 0
                    | Some w \<Rightarrow> get_or 0 (dict_of (vf_max_shifts_per_day facts) (wf_employment_type w)))
         in max 0 (count - cap)))"

definition weekly_excess_minutes :: "validation_facts_v1 \<Rightarrow> string \<Rightarrow> selected_shift_fact_v1 list \<Rightarrow> float_value" where
  "weekly_excess_minutes facts worker_id values =
     (let cap_minutes = (case workers_by_id facts worker_id of
                           None \<Rightarrow> 0
                         | Some w \<Rightarrow> get_or 0 (dict_of (vf_max_hours_per_week facts) (wf_employment_type w)) * 60)
      in max 0 (of_int (\<Sum>v \<leftarrow> values. sh_effective_minutes v) - cap_minutes))"

definition gap_violations :: "validation_facts_v1 \<Rightarrow> selected_shift_fact_v1 list \<Rightarrow> int" where
  "gap_violations facts values =
     (let ordered = sort_key sh_start_minute values in
      int (length (filter (\<lambda>(left, right).
             sh_start_minute right - sh_end_minute left < vf_minimum_gap_minutes facts)
           (neighbours ordered))))"

definition hours_and_gap_total :: "validation_facts_v1 \<Rightarrow> float_value" where
  "hours_and_gap_total facts =
     (let shifts_by_worker = group_by sh_worker_id (vf_selected_shifts facts) in
      (\<Sum>(worker_id, values) \<leftarrow> shifts_by_worker. weekly_excess_minutes facts worker_id values)
      + of_int (\<Sum>(_, values) \<leftarrow> shifts_by_worker. gap_violations facts values))"

definition unqualified_assignment :: "validation_facts_v1 \<Rightarrow> assignment_v1 \<Rightarrow> bool" where
  "unqualified_assignment facts a =
     (as_task_id a \<notin> (case workers_by_id facts (as_worker_id a) of
                          None \<Rightarrow> {}
                        | Some w \<Rightarrow> qr_task_id ` set (wf_qualifications w)))"

definition lock_satisfied :: "assignment_v1 list \<Rightarrow> lock_v1 \<Rightarrow> bool" where
  "lock_satisfied assignments lock =
     (if lk_target_type lock = ''worker_shift''
      then (let (worker_id, shift_id) = partition_at CHR '':'' (lk_target_ref lock)
            in (worker_id, Some shift_id) \<in> set (map (\<lambda>a. (as_worker_id a, as_shift_id a)) assignments))
      else (\<exists>a \<in> set assignments. as_lock_ref a = Some (lk_record_id lock)))"

definition validate_hard_constraints ::
  "assignment_v1 list \<Rightarrow> validation_facts_v1 \<Rightarrow> lock_v1 list \<Rightarrow> constraint_result_v1 list" where
  "validate_hard_constraints assignments facts preserved_locks =
     (let outside = map as_record_id (filter (outside_selected_shift facts) assignments);
          overlaps = all_slot_overlaps assignments;
          empty = empty_shifts assignments facts;
          extra = extra_windows facts;
          excess = day_excess facts;
          combined = hours_and_gap_total facts;
          unqualified = map as_record_id (filter (unqualified_assignment facts) assignments);
          missing = map lk_record_id (filter (\<lambda>l. \<not> lock_satisfied assignments l) preserved_locks)
      in [hc_result ''assignment_inside_selected_shift'' (outside = []) (of_nat (length outside)) 0 ''assignments'' outside,
          hc_result ''one_task_per_working_slot'' (overlaps = []) (of_nat (card (set overlaps))) 0 ''assignments'' overlaps,
          hc_result ''selected_shift_nonempty'' (empty = []) (of_nat (length empty)) 0 ''shifts'' [],
          hc_result ''one_shift_per_window'' (extra = 0) (of_int extra) 0 ''shifts'' [],
          hc_result ''max_shifts_per_day'' (excess = 0) (of_int excess) 0 ''shifts'' [],
          hc_result ''weekly_hours_and_minimum_gap'' (combined = 0) combined 0 ''minutes_or_gaps'' [],
          hc_result ''worker_qualification'' (unqualified = []) (of_nat (length unqualified)) 0 ''assignments'' unqualified]
         @ (if preserved_locks \<noteq> []
            then [hc_result ''preserved_lock'' (missing = []) (of_nat (length missing)) 0 ''locks'' missing]
            else []))"

text \<open>\<open>Inl\<close> carries the names the \<open>HardConstraintViolation\<close> message lists.\<close>

definition require_hard_constraints ::
  "assignment_v1 list \<Rightarrow> validation_facts_v1 \<Rightarrow> lock_v1 list \<Rightarrow> string list + constraint_result_v1 list" where
  "require_hard_constraints assignments facts preserved_locks =
     (let results = validate_hard_constraints assignments facts preserved_locks;
          failed = map cr_constraint_type (filter (\<lambda>r. \<not> cr_satisfied r) results)
      in if failed \<noteq> [] then Inl failed else Inr results)"

section \<open>What the gate guarantees\<close>

text \<open>The rules, stated over all pairs and all groups instead of over the measurements.\<close>

definition inside_shifts :: "assignment_v1 list \<Rightarrow> validation_facts_v1 \<Rightarrow> bool" where
  "inside_shifts assignments facts \<longleftrightarrow>
     (\<forall>a \<in> set assignments. \<exists>i s. as_shift_id a = Some i \<and> shifts_by_id facts i = Some s
        \<and> sh_worker_id s = as_worker_id a \<and> sh_start_minute s \<le> as_start_minute a
        \<and> as_end_minute a \<le> sh_end_minute s)"

definition no_double_booking :: "assignment_v1 list \<Rightarrow> bool" where
  "no_double_booking assignments \<longleftrightarrow>
     (\<forall>w. sorted_wrt (separated 0 as_start_minute as_end_minute)
            (filter (\<lambda>a. as_worker_id a = w) assignments))"

definition shifts_worked :: "assignment_v1 list \<Rightarrow> validation_facts_v1 \<Rightarrow> bool" where
  "shifts_worked assignments facts \<longleftrightarrow>
     (\<forall>s \<in> set (vf_selected_shifts facts). \<exists>a \<in> set assignments. as_shift_id a = Some (sh_shift_id s))"

definition windows_used_once :: "validation_facts_v1 \<Rightarrow> bool" where
  "windows_used_once facts \<longleftrightarrow>
     distinct (map (\<lambda>s. (sh_worker_id s, sh_window_id s)) (vf_selected_shifts facts))"

definition shift_cap :: "validation_facts_v1 \<Rightarrow> string \<Rightarrow> int" where
  "shift_cap facts w = (case workers_by_id facts w of
     None \<Rightarrow> 0
   | Some f \<Rightarrow> get_or 0 (dict_of (vf_max_shifts_per_day facts) (wf_employment_type f)))"

definition daily_caps_met :: "validation_facts_v1 \<Rightarrow> bool" where
  "daily_caps_met facts \<longleftrightarrow>
     (\<forall>s \<in> set (vf_selected_shifts facts).
        int (length (filter (\<lambda>t. sh_worker_id t = sh_worker_id s
                     \<and> sh_start_minute t div 1440 = sh_start_minute s div 1440)
                   (vf_selected_shifts facts))) \<le> shift_cap facts (sh_worker_id s))"

definition minute_cap :: "validation_facts_v1 \<Rightarrow> string \<Rightarrow> float_value" where
  "minute_cap facts w = (case workers_by_id facts w of
     None \<Rightarrow> 0
   | Some f \<Rightarrow> get_or 0 (dict_of (vf_max_hours_per_week facts) (wf_employment_type f)) * 60)"

definition shifts_of :: "validation_facts_v1 \<Rightarrow> string \<Rightarrow> selected_shift_fact_v1 list" where
  "shifts_of facts w = filter (\<lambda>s. sh_worker_id s = w) (vf_selected_shifts facts)"

definition weekly_caps_met :: "validation_facts_v1 \<Rightarrow> bool" where
  "weekly_caps_met facts \<longleftrightarrow>
     (\<forall>w \<in> sh_worker_id ` set (vf_selected_shifts facts).
        of_int (\<Sum>s \<leftarrow> shifts_of facts w. sh_effective_minutes s) \<le> minute_cap facts w)"

definition rests_kept :: "validation_facts_v1 \<Rightarrow> bool" where
  "rests_kept facts \<longleftrightarrow>
     (\<forall>w. sorted_wrt (separated (vf_minimum_gap_minutes facts) sh_start_minute sh_end_minute)
            (shifts_of facts w))"

definition all_qualified :: "assignment_v1 list \<Rightarrow> validation_facts_v1 \<Rightarrow> bool" where
  "all_qualified assignments facts \<longleftrightarrow>
     (\<forall>a \<in> set assignments. \<exists>w. workers_by_id facts (as_worker_id a) = Some w
        \<and> as_task_id a \<in> qr_task_id ` set (wf_qualifications w))"

definition schedule_rules :: "assignment_v1 list \<Rightarrow> validation_facts_v1 \<Rightarrow> lock_v1 list \<Rightarrow> bool" where
  "schedule_rules assignments facts locks \<longleftrightarrow>
     inside_shifts assignments facts \<and> no_double_booking assignments \<and> shifts_worked assignments facts
     \<and> windows_used_once facts \<and> daily_caps_met facts \<and> weekly_caps_met facts \<and> rests_kept facts
     \<and> all_qualified assignments facts \<and> (\<forall>l \<in> set locks. lock_satisfied assignments l)"

text \<open>The inputs have positive lengths and a minimum gap that is not negative.\<close>

definition proper_times :: "assignment_v1 list \<Rightarrow> validation_facts_v1 \<Rightarrow> bool" where
  "proper_times assignments facts \<longleftrightarrow>
     (\<forall>a \<in> set assignments. as_start_minute a < as_end_minute a)
     \<and> (\<forall>s \<in> set (vf_selected_shifts facts). sh_start_minute s < sh_end_minute s)
     \<and> 0 \<le> vf_minimum_gap_minutes facts"

subsection \<open>Each measurement decides its rule\<close>

lemma outside_iff: "filter (outside_selected_shift facts) assignments = [] \<longleftrightarrow> inside_shifts assignments facts"
  by (fastforce simp: filter_empty_conv inside_shifts_def outside_selected_shift_def
      split: option.splits bind_splits)

lemma slot_overlaps_iff:
  "slot_overlaps vs = [] \<longleftrightarrow>
     (\<forall>(x, y) \<in> set (neighbours (sort_key (\<lambda>v. (as_start_minute v, as_end_minute v)) vs)).
        as_end_minute x + 0 \<le> as_start_minute y)"
  by (auto simp: slot_overlaps_def Let_def not_less split: if_splits)

lemma group_by_all_iff:
  "(\<forall>(k, vs) \<in> set (group_by key xs). P k vs) \<longleftrightarrow> (\<forall>k \<in> key ` set xs. P k (filter (\<lambda>x. key x = k) xs))"
  using group_by_elem [of _ _ key xs] by fastforce

lemma filter_key_absent: "k \<notin> key ` set xs \<Longrightarrow> filter (\<lambda>x. key x = k) xs = []"
  by (auto simp: filter_empty_conv)

lemma overlaps_iff:
  assumes "\<And>a. a \<in> set assignments \<Longrightarrow> as_start_minute a < as_end_minute a"
  shows "all_slot_overlaps assignments = [] \<longleftrightarrow> no_double_booking assignments"
proof -
  let ?vs = "\<lambda>w. filter (\<lambda>a. as_worker_id a = w) assignments"
  have one: "slot_overlaps (?vs w) = [] \<longleftrightarrow> sorted_wrt (separated 0 as_start_minute as_end_minute) (?vs w)" for w
    unfolding slot_overlaps_iff using assms
    by (intro neighbours_separated_iff) (auto simp: less_eq_prod_def)
  have "all_slot_overlaps assignments = [] \<longleftrightarrow>
      (\<forall>(w, vs) \<in> set (group_by as_worker_id assignments). slot_overlaps vs = [])"
    by (auto simp: all_slot_overlaps_def)
  also have "\<dots> \<longleftrightarrow> (\<forall>w \<in> as_worker_id ` set assignments. slot_overlaps (?vs w) = [])"
    by (rule group_by_all_iff)
  also have "\<dots> \<longleftrightarrow> no_double_booking assignments"
    unfolding no_double_booking_def one using filter_key_absent [of _ as_worker_id assignments]
    by (metis sorted_wrt.simps(1))
  finally show ?thesis .
qed

lemma empty_shifts_iff: "empty_shifts assignments facts = [] \<longleftrightarrow> shifts_worked assignments facts"
  by (fastforce simp: empty_shifts_def shifts_worked_def filter_empty_conv)

lemma sum_max_0_iff:
  fixes f :: "'a \<Rightarrow> 'b :: {linordered_idom}"
  shows "(\<Sum>x \<leftarrow> xs. max 0 (f x)) = 0 \<longleftrightarrow> (\<forall>x \<in> set xs. f x \<le> 0)"
proof -
  have max0: "max 0 a = 0 \<longleftrightarrow> a \<le> 0" for a :: 'b
    by (simp add: max_def)
  have nonneg: "0 \<le> (\<Sum>x \<leftarrow> ys. max 0 (f x))" for ys
    by (rule sum_list_nonneg) auto
  show ?thesis
  proof (induction xs)
    case (Cons x xs)
    have "max 0 (f x) + (\<Sum>x \<leftarrow> xs. max 0 (f x)) = 0 \<longleftrightarrow>
        max 0 (f x) = 0 \<and> (\<Sum>x \<leftarrow> xs. max 0 (f x)) = 0"
      using nonneg by (intro add_nonneg_eq_0_iff) simp_all
    then show ?case by (simp only: list.map sum_list.Cons Cons.IH max0 list.set ball_simps)
  qed simp
qed

lemma counter_all_iff:
  "(\<forall>(k, n) \<in> set (counter ks). P k n) \<longleftrightarrow> (\<forall>k \<in> set ks. P k (int (count_list ks k)))"
  using counter_elem [of _ _ ks] by fastforce

lemma distinct_iff_count_le_1: "distinct ks \<longleftrightarrow> (\<forall>k \<in> set ks. count_list ks k \<le> 1)"
proof (induction ks)
  case (Cons a ks)
  show ?case
  proof (cases "a \<in> set ks")
    case True
    then have "1 \<le> count_list ks a" by (metis count_list_0_iff less_one not_le)
    with True show ?thesis by simp
  next
    case False
    then have zero: "count_list ks a = 0" by (simp add: count_list_0_iff)
    have "(if a = k then count_list ks k + 1 else count_list ks k) = count_list ks k"
      if "k \<in> set ks" for k
      using False that by auto
    with False zero Cons.IH show ?thesis by simp
  qed
qed simp

lemma extra_windows_iff: "extra_windows facts = 0 \<longleftrightarrow> windows_used_once facts"
proof -
  let ?ks = "map (\<lambda>s. (sh_worker_id s, sh_window_id s)) (vf_selected_shifts facts)"
  have "extra_windows facts = 0 \<longleftrightarrow> (\<forall>(k, n) \<in> set (counter ?ks). n - 1 \<le> 0)"
    unfolding extra_windows_def by (simp add: case_prod_unfold sum_max_0_iff)
  also have "\<dots> \<longleftrightarrow> (\<forall>k \<in> set ?ks. count_list ?ks k \<le> 1)"
    unfolding counter_all_iff by simp
  also have "\<dots> \<longleftrightarrow> distinct ?ks"
    by (rule distinct_iff_count_le_1 [symmetric])
  finally show ?thesis by (simp add: windows_used_once_def)
qed

lemma count_list_map: "count_list (map f xs) k = length (filter (\<lambda>x. f x = k) xs)"
  by (induction xs) auto

lemma day_excess_iff: "day_excess facts = 0 \<longleftrightarrow> daily_caps_met facts"
proof -
  let ?ks = "map (\<lambda>s. (sh_worker_id s, sh_start_minute s div 1440)) (vf_selected_shifts facts)"
  have "day_excess facts = 0 \<longleftrightarrow> (\<forall>(k, n) \<in> set (counter ?ks). n - shift_cap facts (fst k) \<le> 0)"
    unfolding day_excess_def shift_cap_def Let_def by (simp add: case_prod_unfold sum_max_0_iff)
  also have "\<dots> \<longleftrightarrow> (\<forall>k \<in> set ?ks. int (count_list ?ks k) \<le> shift_cap facts (fst k))"
    unfolding counter_all_iff by simp
  also have "\<dots> \<longleftrightarrow> daily_caps_met facts"
    by (auto simp: daily_caps_met_def count_list_map)
  finally show ?thesis .
qed

lemma gap_violations_iff:
  "gap_violations facts vs = 0 \<longleftrightarrow>
     (\<forall>(x, y) \<in> set (neighbours (sort_key sh_start_minute vs)).
        sh_end_minute x + vf_minimum_gap_minutes facts \<le> sh_start_minute y)"
  by (auto simp: gap_violations_def Let_def filter_empty_conv not_less)

lemma gap_violations_nonneg: "0 \<le> gap_violations facts vs"
  by (simp add: gap_violations_def Let_def)

lemma weekly_excess_nonneg: "0 \<le> weekly_excess_minutes facts w vs"
  by (simp add: weekly_excess_minutes_def Let_def)

lemma hours_and_gap_iff:
  assumes "\<And>s. s \<in> set (vf_selected_shifts facts) \<Longrightarrow> sh_start_minute s < sh_end_minute s"
    and "0 \<le> vf_minimum_gap_minutes facts"
  shows "hours_and_gap_total facts = 0 \<longleftrightarrow> weekly_caps_met facts \<and> rests_kept facts"
proof -
  let ?g = "group_by sh_worker_id (vf_selected_shifts facts)"
  let ?hours = "\<Sum>(w, vs) \<leftarrow> ?g. weekly_excess_minutes facts w vs"
  let ?gaps = "\<Sum>(_, vs) \<leftarrow> ?g. gap_violations facts vs"
  have nonneg: "0 \<le> ?hours" "0 \<le> ?gaps"
    by (auto intro!: sum_list_nonneg simp: weekly_excess_nonneg gap_violations_nonneg)
  have split: "hours_and_gap_total facts = 0 \<longleftrightarrow> ?hours = 0 \<and> ?gaps = 0"
    using nonneg unfolding hours_and_gap_total_def Let_def
    by (simp add: add_nonneg_eq_0_iff)
  have "?hours = 0 \<longleftrightarrow> (\<forall>(w, vs) \<in> set ?g. weekly_excess_minutes facts w vs = 0)"
    by (subst sum_list_nonneg_eq_0) (auto simp: weekly_excess_nonneg)
  also have "\<dots> \<longleftrightarrow> weekly_caps_met facts"
    unfolding group_by_all_iff weekly_caps_met_def
    by (auto simp: weekly_excess_minutes_def Let_def minute_cap_def shifts_of_def max_def split: if_splits)
  finally have hours: "?hours = 0 \<longleftrightarrow> weekly_caps_met facts" .
  have one: "gap_violations facts (shifts_of facts w) = 0 \<longleftrightarrow>
      sorted_wrt (separated (vf_minimum_gap_minutes facts) sh_start_minute sh_end_minute) (shifts_of facts w)" for w
    unfolding gap_violations_iff using assms
    by (intro neighbours_separated_iff) (auto simp: shifts_of_def)
  have "?gaps = 0 \<longleftrightarrow> (\<forall>(w, vs) \<in> set ?g. gap_violations facts vs = 0)"
    by (subst sum_list_nonneg_eq_0) (auto simp: gap_violations_nonneg)
  also have "\<dots> \<longleftrightarrow> rests_kept facts"
    unfolding group_by_all_iff rests_kept_def
    using one filter_key_absent [of _ sh_worker_id "vf_selected_shifts facts"]
    by (metis shifts_of_def sorted_wrt.simps(1))
  finally show ?thesis using split hours by simp
qed

lemma unqualified_iff:
  "filter (unqualified_assignment facts) assignments = [] \<longleftrightarrow> all_qualified assignments facts"
  by (fastforce simp: filter_empty_conv all_qualified_def unqualified_assignment_def split: option.splits)

lemma require_Inr_iff:
  "(\<exists>rs. require_hard_constraints assignments facts locks = Inr rs) \<longleftrightarrow>
     filter (outside_selected_shift facts) assignments = [] \<and> all_slot_overlaps assignments = []
     \<and> empty_shifts assignments facts = [] \<and> extra_windows facts = 0 \<and> day_excess facts = 0
     \<and> hours_and_gap_total facts = 0 \<and> filter (unqualified_assignment facts) assignments = []
     \<and> (\<forall>l \<in> set locks. lock_satisfied assignments l)"
  by (auto simp: require_hard_constraints_def validate_hard_constraints_def Let_def hc_result_def
      filter_empty_conv)

lemmas measurement_iffs =
  outside_iff overlaps_iff empty_shifts_iff extra_windows_iff day_excess_iff hours_and_gap_iff
  unqualified_iff

lemma require_results:
  "require_hard_constraints assignments facts locks = Inr rs \<Longrightarrow>
     rs = validate_hard_constraints assignments facts locks \<and> (\<forall>r \<in> set rs. cr_satisfied r)"
  by (auto simp: require_hard_constraints_def Let_def filter_empty_conv split: if_splits)

section \<open>Properties\<close>

text \<open>
  C1. The hard-constraint gate accepts a schedule exactly when the schedule satisfies the rules:
  every assignment lies inside a selected shift of its own worker, no worker has two overlapping
  assignments anywhere in the schedule, every selected shift is worked, no window is used twice,
  the daily and weekly caps and the minimum rest hold for every worker, every worker is qualified,
  and every preserved lock is honoured.
\<close>

theorem require_hard_constraints_iff:
  assumes "proper_times assignments facts"
  shows "(\<exists>rs. require_hard_constraints assignments facts locks = Inr rs)
         \<longleftrightarrow> schedule_rules assignments facts locks"
  using assms unfolding require_Inr_iff schedule_rules_def proper_times_def
  by (simp add: measurement_iffs)

definition demo_worker :: worker_scheduling_fact_v1 where
  "demo_worker = \<lparr>wf_worker_id = ''W1'', wf_employment_type = ''Casual'', wf_contracted_hours = 38,
     wf_wage_per_hour = 40, wf_qualifications = [\<lparr>qr_task_id = ''Pick'', qr_rate = 10\<rparr>],
     wf_availability_windows = []\<rparr>"

definition demo_shift :: selected_shift_fact_v1 where
  "demo_shift = \<lparr>sh_shift_id = ''S1'', sh_worker_id = ''W1'', sh_window_id = ''ros0'',
     sh_window_kind = Roster, sh_start_minute = 360, sh_end_minute = 840, sh_effective_minutes = 450\<rparr>"

definition demo_facts :: validation_facts_v1 where
  "demo_facts = \<lparr>vf_horizon_minutes = 10080, vf_workers = [demo_worker],
     vf_selected_shifts = [demo_shift], vf_max_hours_per_week = [(''Casual'', 56)],
     vf_max_shifts_per_day = [(''Casual'', 2)], vf_minimum_gap_minutes = 120,
     vf_tasks = [\<lparr>tk_record_id = ''t'', tk_task_id = ''Pick'', tk_name = ''Pick'', tk_function = ''Picking'',
        tk_area_id = ''A'', tk_area_name = ''A'', tk_unit_type_id = None\<rparr>],
     vf_demand_intervals = [\<lparr>di_record_id = ''d0'', di_family = Outbound, di_task_id = ''Pick'',
        di_area_id = None, di_start_minute = 360, di_end_minute = 600, di_amount = 20, di_unit = Volume\<rparr>]\<rparr>"

definition demo_assignment :: "int \<Rightarrow> int \<Rightarrow> assignment_v1" where
  "demo_assignment s e = \<lparr>as_record_id = ''a'', as_worker_id = ''W1'', as_task_id = ''Pick'',
     as_shift_id = Some ''S1'', as_start_minute = s, as_end_minute = e, as_qualification_refs = [],
     as_source = ''solver'', as_lock_ref = None\<rparr>"

theorem require_hard_constraints_iff_witness:
  "schedule_rules [demo_assignment 360 600, demo_assignment 600 840] demo_facts []"
proof -
  let ?as = "[demo_assignment 360 600, demo_assignment 600 840]"
  have "proper_times ?as demo_facts"
    by (simp add: proper_times_def demo_assignment_def demo_facts_def demo_shift_def)
  moreover have "\<exists>rs. require_hard_constraints ?as demo_facts [] = Inr rs"
    unfolding require_Inr_iff by code_simp
  ultimately show ?thesis using require_hard_constraints_iff by blast
qed

end
