(* ===== verification/Candidate_Metrics.thy ===== *)
theory Candidate_Metrics
  imports Hard_Constraints
begin

text \<open>
  The recomputation of candidate numbers
  (\<^verbatim>\<open>src/backend/application/scheduling/candidate_metrics.py\<close>): coverage per demand interval and per
  function, overtime, cost, and one soft result per drafted constraint. The Python raises on a
  volume row nobody is qualified for, on a zero average rate and on an unknown worker; the model
  returns these as values. Soft results read the same totals the metrics are built from.
\<close>

datatype metrics_error =
    NoQualifiedWorker string string
  | ZeroAverageRate string
  | UnknownWorker string

definition mt_overlap :: "int \<Rightarrow> int \<Rightarrow> int \<Rightarrow> int \<Rightarrow> int" where
  "mt_overlap s e s' e' = max 0 (min e e' - max s s')"

definition qualified_rates :: "validation_facts_v1 \<Rightarrow> string \<Rightarrow> float_value list" where
  "qualified_rates facts task_id =
     map qr_rate (filter (\<lambda>q. qr_task_id q = task_id) (concat (map wf_qualifications (vf_workers facts))))"

definition row_required :: "validation_facts_v1 \<Rightarrow> demand_interval_v1 \<Rightarrow> metrics_error + float_value" where
  "row_required facts row =
     (if di_unit row = Headcount
      then Inr (of_int (di_end_minute row - di_start_minute row) * di_amount row)
      else (let rates = qualified_rates facts (di_task_id row) in
            if rates = [] then Inl (NoQualifiedWorker (di_record_id row) (di_task_id row))
            else if sum_list rates = 0 then Inl (ZeroAverageRate (di_record_id row))
            else Inr (di_amount row / (sum_list rates / of_nat (length rates)) * 60)))"

definition row_served :: "assignment_v1 list \<Rightarrow> demand_interval_v1 \<Rightarrow> float_value" where
  "row_served assignments row =
     (let minutes = (\<lambda>a. mt_overlap (as_start_minute a) (as_end_minute a) (di_start_minute row) (di_end_minute row));
          matching = filter (\<lambda>a. as_task_id a = di_task_id row \<and> minutes a \<noteq> 0) assignments
      in of_int (\<Sum>a \<leftarrow> matching. minutes a))"

record demand_row_totals =
  dr_row :: demand_interval_v1
  dr_required :: float_value
  dr_served :: float_value

fun demand_rows :: "assignment_v1 list \<Rightarrow> validation_facts_v1 \<Rightarrow> demand_interval_v1 list
    \<Rightarrow> metrics_error + demand_row_totals list" where
  "demand_rows assignments facts [] = Inr []"
| "demand_rows assignments facts (row # rows) =
     (case row_required facts row of
        Inl e \<Rightarrow> Inl e
      | Inr required \<Rightarrow>
          (case demand_rows assignments facts rows of
             Inl e \<Rightarrow> Inl e
           | Inr rest \<Rightarrow> Inr (\<lparr>dr_row = row, dr_required = required,
                               dr_served = row_served assignments row\<rparr> # rest)))"

definition assigned_by_worker :: "assignment_v1 list \<Rightarrow> (string \<times> int) list" where
  "assigned_by_worker assignments =
     totals_by (map (\<lambda>a. (as_worker_id a, as_end_minute a - as_start_minute a)) assignments)"

fun assignments_cost :: "validation_facts_v1 \<Rightarrow> assignment_v1 list \<Rightarrow> metrics_error + float_value" where
  "assignments_cost facts [] = Inr 0"
| "assignments_cost facts (a # as) =
     (case workers_by_id facts (as_worker_id a) of
        None \<Rightarrow> Inl (UnknownWorker (as_worker_id a))
      | Some w \<Rightarrow> (case assignments_cost facts as of
           Inl e \<Rightarrow> Inl e
         | Inr c \<Rightarrow> Inr (of_int (as_end_minute a - as_start_minute a) / 60 * wf_wage_per_hour w + c)))"

definition overtime_total :: "validation_facts_v1 \<Rightarrow> assignment_v1 list \<Rightarrow> float_value" where
  "overtime_total facts assignments =
     (\<Sum>(worker_id, minutes) \<leftarrow> assigned_by_worker assignments.
        case workers_by_id facts worker_id of
          None \<Rightarrow> 0
        | Some w \<Rightarrow> max 0 (of_int minutes - wf_contracted_hours w * 60))"

text \<open>The cost loop runs first and raises on an unknown worker, so the \<open>None\<close> branch of
  \<open>overtime_total\<close> never contributes to a result.\<close>

definition functions_of :: "task_v1 list \<Rightarrow> string \<Rightarrow> string" where
  "functions_of tasks task_id = get_or ''Unknown'' (dict_of (map (\<lambda>t. (tk_task_id t, tk_function t)) tasks) task_id)"

definition soft_constraint_result ::
  "draft_constraint_v1 \<Rightarrow> assignment_v1 list \<Rightarrow> demand_row_totals list \<Rightarrow> constraint_result_v1" where
  "soft_constraint_result c assignments rows =
     (let entities = dict_of (map (\<lambda>e. (re_group e, re_record_id e)) (dc_resolved_entities c));
          task_id = entities WorkAreasAndTasks;
          worker_id = entities Workers;
          required_by_task = dict_of (totals_by (map (\<lambda>r. (di_task_id (dr_row r), dr_required r)) rows));
          served_by_task = dict_of (totals_by (map (\<lambda>r. (di_task_id (dr_row r), dr_served r)) rows));
          of_worker = (\<lambda>a. Some (as_worker_id a) = worker_id);
          of_task = (\<lambda>a. Some (as_task_id a) = task_id);
          (measured, cap, u, satisfied) =
            (case dc_kind c of
               SetMinWorkersPerTask \<Rightarrow>
                 (let m = of_nat (card (as_worker_id ` set (filter of_task assignments)));
                      l = of_int (get_or 0 (dc_n c))
                  in (m, l, ''workers'', l \<le> m))
             | ExcludeWorkerFromTask \<Rightarrow>
                 (let m = of_nat (length (filter (\<lambda>a. of_worker a \<and> of_task a) assignments))
                  in (m, 0, ''assignments'', m = 0))
             | SetMaxHours \<Rightarrow>
                 (let m = of_int (get_or 0 (dict_of (assigned_by_worker assignments) (get_or [] worker_id))) / 60;
                      l = get_or 0 (dc_max_hours c)
                  in (m, l, ''hours'', m \<le> l))
             | LockWorkerShift \<Rightarrow>
                 (let start = get_or 0 (dc_start_minute c); stop = get_or 0 (dc_end_minute c);
                      m = of_nat (length (filter (\<lambda>a. of_worker a \<and> as_start_minute a < stop
                                                   \<and> start < as_end_minute a) assignments))
                  in (m, 1, ''assignments'', 1 \<le> m))
             | ScaleDemand \<Rightarrow>
                 (let factor = (case dc_factor c of None \<Rightarrow> 1 | Some f \<Rightarrow> if f = 0 then 1 else f);
                      m = get_or 0 (served_by_task (get_or [] task_id));
                      l = get_or 0 (required_by_task (get_or [] task_id)) * factor
                  in (m, l, ''minutes'', l \<le> m)))
      in \<lparr>cr_constraint_id = ''soft:'' @ kind_name (dc_kind c) @ '':'' @
            (case task_id of Some t \<Rightarrow> if t \<noteq> [] then t else get_or [] worker_id | None \<Rightarrow> get_or [] worker_id),
          cr_constraint_type = kind_name (dc_kind c), cr_constraint_class = Soft,
          cr_satisfied = satisfied, cr_measured_value = Some measured, cr_limit = Some cap, cr_unit = u,
          cr_contributing_assignment_ids = [], cr_contributing_evidence_refs = []\<rparr>)"

definition metric_set :: "assignment_v1 list \<Rightarrow> task_v1 list \<Rightarrow> demand_row_totals list \<Rightarrow> float_value \<Rightarrow> float_value \<Rightarrow> metric_set_v1" where
  "metric_set assignments tasks rows overtime cost =
     (let by_function = (\<lambda>v. totals_by (map (\<lambda>r. (functions_of tasks (di_task_id (dr_row r)), v r)) rows));
          interval_required = map (\<lambda>r. (di_record_id (dr_row r), dr_required r)) rows;
          interval_served = map (\<lambda>r. (di_record_id (dr_row r), dr_served r)) rows;
          total_required = sum_list (map snd interval_required);
          total_served = sum_list (map snd interval_served)
      in \<lparr>ms_interval_coverage_required_minutes = sort interval_required,
          ms_interval_coverage_served_minutes = sort interval_served,
          ms_function_coverage_required_minutes = sort (by_function dr_required),
          ms_function_coverage_served_minutes = sort (by_function dr_served),
          ms_overtime_minutes = overtime,
          ms_total_cost = of_int (py_round (cost * 100)) / 100,
          ms_objective_components = [(''unmet_minutes'', max 0 (total_required - total_served)),
                                     (''overtime_minutes'', overtime)],
          ms_assignment_count = int (length assignments),
          ms_member_count = int (length (assigned_by_worker assignments))\<rparr>)"

definition calculate_candidate_metrics ::
  "assignment_v1 list \<Rightarrow> task_v1 list \<Rightarrow> demand_interval_v1 list \<Rightarrow> validation_facts_v1
   \<Rightarrow> draft_constraint_v1 list \<Rightarrow> metrics_error + metric_set_v1 \<times> constraint_result_v1 list" where
  "calculate_candidate_metrics assignments tasks demand facts constraints =
     (case demand_rows assignments facts demand of
        Inl e \<Rightarrow> Inl e
      | Inr rows \<Rightarrow>
          (case assignments_cost facts assignments of
             Inl e \<Rightarrow> Inl e
           | Inr cost \<Rightarrow>
               Inr (metric_set assignments tasks rows (overtime_total facts assignments) cost,
                    map (\<lambda>c. soft_constraint_result c assignments rows) constraints)))"

section \<open>When the calculation succeeds\<close>

definition volume_rows_rated :: "validation_facts_v1 \<Rightarrow> demand_interval_v1 list \<Rightarrow> bool" where
  "volume_rows_rated facts demand \<longleftrightarrow>
     (\<forall>row \<in> set demand. di_unit row = Volume \<longrightarrow> sum_list (qualified_rates facts (di_task_id row)) \<noteq> 0)"

lemma row_required_Inr_iff:
  "(\<exists>v. row_required facts row = Inr v) \<longleftrightarrow>
     (di_unit row = Volume \<longrightarrow> sum_list (qualified_rates facts (di_task_id row)) \<noteq> 0)"
  by (cases "di_unit row") (auto simp: row_required_def Let_def)

lemma demand_rows_Inr_iff:
  "(\<exists>rows. demand_rows assignments facts demand = Inr rows) \<longleftrightarrow> volume_rows_rated facts demand"
proof (induction demand)
  case (Cons row demand)
  have "(\<exists>rows. demand_rows assignments facts (row # demand) = Inr rows) \<longleftrightarrow>
      (\<exists>v. row_required facts row = Inr v) \<and> (\<exists>rows. demand_rows assignments facts demand = Inr rows)"
    by (auto split: sum.splits)
  then show ?case
    unfolding row_required_Inr_iff Cons.IH by (auto simp: volume_rows_rated_def)
qed (simp add: volume_rows_rated_def)

lemma assignments_cost_Inr_iff:
  "(\<exists>c. assignments_cost facts as = Inr c) \<longleftrightarrow> (\<forall>a \<in> set as. workers_by_id facts (as_worker_id a) \<noteq> None)"
proof (induction as)
  case (Cons a as)
  have "(\<exists>c. assignments_cost facts (a # as) = Inr c) \<longleftrightarrow>
      workers_by_id facts (as_worker_id a) \<noteq> None \<and> (\<exists>c. assignments_cost facts as = Inr c)"
    by (auto split: sum.splits option.splits)
  then show ?case unfolding Cons.IH by simp
qed simp

lemma calculate_Inr_iff:
  "(\<exists>r. calculate_candidate_metrics assignments tasks demand facts cs = Inr r) \<longleftrightarrow>
     volume_rows_rated facts demand \<and> (\<forall>a \<in> set assignments. workers_by_id facts (as_worker_id a) \<noteq> None)"
proof -
  have "(\<exists>r. calculate_candidate_metrics assignments tasks demand facts cs = Inr r) \<longleftrightarrow>
      (\<exists>rows. demand_rows assignments facts demand = Inr rows) \<and> (\<exists>c. assignments_cost facts assignments = Inr c)"
    by (auto simp: calculate_candidate_metrics_def split: sum.splits)
  then show ?thesis unfolding demand_rows_Inr_iff assignments_cost_Inr_iff .
qed

lemma demand_rows_rows: "demand_rows assignments facts demand = Inr rows \<Longrightarrow> map dr_row rows = demand"
  by (induction demand arbitrary: rows) (auto split: sum.splits)

lemma demand_rows_served:
  "demand_rows assignments facts demand = Inr rows \<Longrightarrow> r \<in> set rows \<Longrightarrow> dr_served r = row_served assignments (dr_row r)"
  by (induction demand arbitrary: rows) (auto split: sum.splits)

lemma mt_overlap_nonneg [simp]: "0 \<le> mt_overlap s e s' e'"
  by (simp add: mt_overlap_def)

lemma row_served_all:
  "row_served assignments row =
     of_int (\<Sum>a \<leftarrow> filter (\<lambda>a. as_task_id a = di_task_id row) assignments.
       mt_overlap (as_start_minute a) (as_end_minute a) (di_start_minute row) (di_end_minute row))"
  unfolding row_served_def Let_def by (induction assignments) auto

lemma row_served_nonneg: "0 \<le> row_served assignments row"
  unfolding row_served_all of_int_0_le_iff by (rule sum_list_nonneg) auto

text \<open>
  With disjoint assignments of one worker, what they serve of an interval is at most the interval:
  the overlap of disjoint intervals with a window is bounded by the window.
\<close>

lemma disjoint_overlap_le:
  assumes "sorted_wrt (\<lambda>x y. e x \<le> s y) xs" and "\<And>x. x \<in> set xs \<Longrightarrow> s x \<le> e x" and "lo \<le> hi"
  shows "(\<Sum>x \<leftarrow> xs. mt_overlap (s x) (e x) lo hi) \<le> hi - lo"
  using assms
proof (induction xs arbitrary: lo)
  case (Cons x xs)
  let ?lo = "max lo (min hi (e x))"
  have "mt_overlap (s y) (e y) lo hi = mt_overlap (s y) (e y) ?lo hi" if "y \<in> set xs" for y
  proof -
    have "e x \<le> s y" "s y \<le> e y" using Cons.prems that by auto
    then show ?thesis unfolding mt_overlap_def by linarith
  qed
  then have "(\<Sum>y \<leftarrow> xs. mt_overlap (s y) (e y) lo hi) = (\<Sum>y \<leftarrow> xs. mt_overlap (s y) (e y) ?lo hi)"
    by (metis (no_types, lifting) map_eq_conv)
  also have "\<dots> \<le> hi - ?lo"
    using Cons.prems by (intro Cons.IH) auto
  finally have rest: "(\<Sum>y \<leftarrow> xs. mt_overlap (s y) (e y) lo hi) \<le> hi - ?lo" .
  have "mt_overlap (s x) (e x) lo hi \<le> ?lo - lo"
    using Cons.prems by (auto simp: mt_overlap_def)
  with rest show ?case by simp
qed simp

lemma worker_served_le:
  assumes ok: "no_double_booking assignments" and pos: "\<And>a. a \<in> set assignments \<Longrightarrow> as_start_minute a < as_end_minute a"
    and len: "lo \<le> hi" and sub: "vs = filter (\<lambda>a. as_worker_id a = w \<and> P a) assignments"
  shows "(\<Sum>a \<leftarrow> vs. mt_overlap (as_start_minute a) (as_end_minute a) lo hi) \<le> hi - lo"
proof -
  let ?ys = "sort_key as_start_minute vs"
  have vs: "vs = filter P (filter (\<lambda>a. as_worker_id a = w) assignments)" by (simp add: sub conj_commute)
  have "sorted_wrt (separated 0 as_start_minute as_end_minute) vs"
    unfolding vs using ok by (simp only: no_double_booking_def sorted_wrt_filter)
  then have "\<forall>(x, y) \<in> set (neighbours ?ys). as_end_minute x + 0 \<le> as_start_minute y"
    using pos by (subst neighbours_separated_iff) (auto simp: sub)
  moreover have "transp_on (set ?ys) (\<lambda>x y. as_end_minute x + 0 \<le> as_start_minute y)"
    using pos by (fastforce intro: transp_onI simp: sub)
  ultimately have "sorted_wrt (\<lambda>x y. as_end_minute x \<le> as_start_minute y) ?ys"
    using neighbours_all_sorted_wrt [of ?ys "\<lambda>x y. as_end_minute x + 0 \<le> as_start_minute y"] by simp
  then have "(\<Sum>a \<leftarrow> ?ys. mt_overlap (as_start_minute a) (as_end_minute a) lo hi) \<le> hi - lo"
    using pos len by (intro disjoint_overlap_le) (auto simp: sub less_imp_le)
  moreover have "mset (map f ?ys) = mset (map f vs)" for f :: "assignment_v1 \<Rightarrow> int"
    by simp
  then have "sum_list (map f ?ys) = sum_list (map f vs)" for f :: "assignment_v1 \<Rightarrow> int"
    by (metis sum_mset_sum_list)
  ultimately show ?thesis by simp
qed

lemma sum_list_le_const: "(\<And>x. x \<in> set xs \<Longrightarrow> f x \<le> (c :: int)) \<Longrightarrow> (\<Sum>x \<leftarrow> xs. f x) \<le> int (length xs) * c"
  by (induction xs) (auto simp: algebra_simps add_mono)

lemma row_served_le:
  assumes "no_double_booking assignments" and "\<And>a. a \<in> set assignments \<Longrightarrow> as_start_minute a < as_end_minute a"
    and "di_start_minute row \<le> di_end_minute row"
  shows "row_served assignments row \<le>
     of_nat (card (as_worker_id ` {a \<in> set assignments. as_task_id a = di_task_id row}))
     * of_int (di_end_minute row - di_start_minute row)"
proof -
  let ?on = "filter (\<lambda>a. as_task_id a = di_task_id row) assignments"
  let ?f = "\<lambda>a. mt_overlap (as_start_minute a) (as_end_minute a) (di_start_minute row) (di_end_minute row)"
  let ?len = "di_end_minute row - di_start_minute row"
  have one: "(\<Sum>a \<leftarrow> vs. ?f a) \<le> ?len" if "(w, vs) \<in> set (group_by as_worker_id ?on)" for w vs
  proof (rule worker_served_le [where P = "\<lambda>a. as_task_id a = di_task_id row", OF assms])
    show "vs = filter (\<lambda>a. as_worker_id a = w \<and> as_task_id a = di_task_id row) assignments"
      using that by (simp add: group_by_elem conj_commute)
  qed
  have "(\<Sum>a \<leftarrow> ?on. ?f a) = (\<Sum>(_, vs) \<leftarrow> group_by as_worker_id ?on. \<Sum>a \<leftarrow> vs. ?f a)"
    by (rule sum_list_group_by)
  also have "\<dots> \<le> int (length (group_by as_worker_id ?on)) * ?len"
    using one by (intro sum_list_le_const) auto
  also have "\<dots> = int (card (as_worker_id ` {a \<in> set assignments. as_task_id a = di_task_id row})) * ?len"
    by (simp add: length_group_by)
  finally have "(of_int (\<Sum>a \<leftarrow> ?on. ?f a) :: rat)
      \<le> of_int (int (card (as_worker_id ` {a \<in> set assignments. as_task_id a = di_task_id row})) * ?len)"
    by (simp only: of_int_le_iff)
  then show ?thesis unfolding row_served_all by simp
qed

lemma calculate_InrD:
  assumes "calculate_candidate_metrics assignments tasks demand facts cs = Inr (m, soft)"
  obtains rows cost where "demand_rows assignments facts demand = Inr rows"
    and "assignments_cost facts assignments = Inr cost"
    and "m = metric_set assignments tasks rows (overtime_total facts assignments) cost"
    and "soft = map (\<lambda>c. soft_constraint_result c assignments rows) cs"
  using assms by (auto simp: calculate_candidate_metrics_def split: sum.splits)

lemma sum_list_sort: "sum_list (map snd (sort xs)) = sum_list (map snd (xs :: ('a :: linorder \<times> rat) list))"
  by (metis mset_map mset_sort sum_mset_sum_list)

lemma interval_served_elem:
  assumes "calculate_candidate_metrics assignments tasks demand facts cs = Inr (m, soft)"
    and "row \<in> set demand"
  shows "(di_record_id row, row_served assignments row) \<in> set (ms_interval_coverage_served_minutes m)"
proof -
  obtain rows cost where rows: "demand_rows assignments facts demand = Inr rows"
    and m: "m = metric_set assignments tasks rows (overtime_total facts assignments) cost"
    using assms(1) by (rule calculate_InrD)
  obtain r where "r \<in> set rows" "dr_row r = row"
    using assms(2) unfolding demand_rows_rows [OF rows, symmetric] by auto
  then show ?thesis
    using demand_rows_served [OF rows] by (force simp: m metric_set_def Let_def)
qed

section \<open>Properties\<close>

lemma demand_rows_map:
  "demand_rows assignments facts demand = Inr rows \<Longrightarrow> (\<forall>row \<in> set demand. row_required facts row = Inr (projr (row_required facts row)))
     \<and> rows = map (\<lambda>row. \<lparr>dr_row = row, dr_required = projr (row_required facts row), dr_served = row_served assignments row\<rparr>) demand"
  by (induction demand arbitrary: rows) (auto split: sum.splits)

lemma totals_by_elem:
  "(k, x) \<in> set (totals_by (map (\<lambda>r. (key r, v r)) rs)) \<longleftrightarrow> k \<in> key ` set rs \<and> x = (\<Sum>r \<leftarrow> filter (\<lambda>r. key r = k) rs. v r)"
  by (auto simp: totals_by_def group_by_elem filter_map comp_def image_iff case_prod_unfold Bex_def
      intro!: exI [of _ "map (\<lambda>r. (key r, v r)) (filter (\<lambda>r. key r = k) rs)"])

text \<open>
  C16. The recomputed metrics conserve minutes: an interval is reported with its required and its served minutes;
  a function is reported exactly when demand is for one of its tasks, with the sum of the required and of the
  served minutes of these intervals; so the per-function totals add up to the per-interval totals, and the
  reported unmet minutes are the required minutes that are not served in total, never negative.
\<close>

theorem metrics_conserve_minutes:
  assumes "calculate_candidate_metrics assignments tasks demand facts constraints = Inr (m, soft)"
  shows "(\<forall>row \<in> set demand. row_required facts row = Inr (projr (row_required facts row)))
       \<and> mset (ms_interval_coverage_required_minutes m) = mset (map (\<lambda>row. (di_record_id row, projr (row_required facts row))) demand)
       \<and> mset (ms_interval_coverage_served_minutes m) = mset (map (\<lambda>row. (di_record_id row, row_served assignments row)) demand)
       \<and> (\<forall>f x. (f, x) \<in> set (ms_function_coverage_required_minutes m) \<longleftrightarrow> (\<exists>row \<in> set demand. functions_of tasks (di_task_id row) = f)
            \<and> x = (\<Sum>row \<leftarrow> filter (\<lambda>row. functions_of tasks (di_task_id row) = f) demand. projr (row_required facts row)))
       \<and> (\<forall>f x. (f, x) \<in> set (ms_function_coverage_served_minutes m) \<longleftrightarrow> (\<exists>row \<in> set demand. functions_of tasks (di_task_id row) = f)
            \<and> x = (\<Sum>row \<leftarrow> filter (\<lambda>row. functions_of tasks (di_task_id row) = f) demand. row_served assignments row))
       \<and> sum_list (map snd (ms_function_coverage_required_minutes m))
           = sum_list (map snd (ms_interval_coverage_required_minutes m))
       \<and> sum_list (map snd (ms_function_coverage_served_minutes m))
           = sum_list (map snd (ms_interval_coverage_served_minutes m))
       \<and> map_of (ms_objective_components m) ''unmet_minutes''
           = Some (max 0 (sum_list (map snd (ms_interval_coverage_required_minutes m))
                          - sum_list (map snd (ms_interval_coverage_served_minutes m))))"
proof -
  obtain rows cost where rows: "demand_rows assignments facts demand = Inr rows"
    and m: "m = metric_set assignments tasks rows (overtime_total facts assignments) cost"
    using assms by (rule calculate_InrD)
  note map = demand_rows_map [OF rows]
  note rows_eq = conjunct2 [OF map]
  have "(\<exists>row \<in> set demand. functions_of tasks (di_task_id row) = f) \<longleftrightarrow> f \<in> (\<lambda>row. functions_of tasks (di_task_id row)) ` set demand" for f
    by auto
  then show ?thesis
    using conjunct1 [OF map]
    by (simp add: m metric_set_def Let_def sum_list_sort sum_totals_by comp_def rows_eq totals_by_elem)
qed

theorem metrics_conserve_minutes_witness:
  "\<exists>m soft. calculate_candidate_metrics [demo_assignment 360 600] (vf_tasks demo_facts)
       (vf_demand_intervals demo_facts) demo_facts [] = Inr (m, soft)
     \<and> sum_list (map snd (ms_function_coverage_served_minutes m)) = 240"
proof -
  have "calculate_candidate_metrics [demo_assignment 360 600] (vf_tasks demo_facts)
       (vf_demand_intervals demo_facts) demo_facts []
     = Inr (\<lparr>ms_interval_coverage_required_minutes = [(''d0'', 120)],
            ms_interval_coverage_served_minutes = [(''d0'', 240)],
            ms_function_coverage_required_minutes = [(''Picking'', 120)],
            ms_function_coverage_served_minutes = [(''Picking'', 240)],
            ms_overtime_minutes = 0, ms_total_cost = 160,
            ms_objective_components = [(''unmet_minutes'', 0), (''overtime_minutes'', 0)],
            ms_assignment_count = 1, ms_member_count = 1\<rparr>, [])" (is "?c = Inr (?m, [])")
    by code_simp
  with metrics_conserve_minutes [OF this] show ?thesis by auto
qed

text \<open>
  C17. Once the hard-constraint gate has accepted a schedule, the metrics calculation fails in exactly
  one way: a volume demand row whose task has no qualified worker (or an average rate of zero).
\<close>

theorem metrics_after_gate:
  assumes "require_hard_constraints assignments facts locks = Inr rs"
  shows "(\<exists>r. calculate_candidate_metrics assignments tasks demand facts constraints = Inr r)
         \<longleftrightarrow> (\<forall>row \<in> set demand. di_unit row = Volume \<longrightarrow> sum_list (qualified_rates facts (di_task_id row)) \<noteq> 0)"
proof -
  have "all_qualified assignments facts"
    using assms require_Inr_iff unqualified_iff by metis
  then have "\<forall>a \<in> set assignments. workers_by_id facts (as_worker_id a) \<noteq> None"
    by (auto simp: all_qualified_def)
  then show ?thesis unfolding calculate_Inr_iff volume_rows_rated_def by simp
qed

theorem metrics_after_gate_witness:
  "\<exists>rs. require_hard_constraints [demo_assignment 360 600] demo_facts [] = Inr rs
     \<and> (\<exists>r. calculate_candidate_metrics [demo_assignment 360 600] [] (vf_demand_intervals demo_facts) demo_facts [] = Inr r)"
proof -
  have "\<exists>rs. require_hard_constraints [demo_assignment 360 600] demo_facts [] = Inr rs"
    unfolding require_Inr_iff by code_simp
  then obtain rs where rs: "require_hard_constraints [demo_assignment 360 600] demo_facts [] = Inr rs" by blast
  have "\<forall>row \<in> set (vf_demand_intervals demo_facts). di_unit row = Volume \<longrightarrow>
      sum_list (qualified_rates demo_facts (di_task_id row)) \<noteq> 0"
    by code_simp
  with metrics_after_gate [OF rs] rs show ?thesis by blast
qed

text \<open>
  Served minutes are not double counted: in a schedule the gate accepted, what a demand interval
  is reported to be served is at most its length times the number of workers assigned to its task.
\<close>

theorem served_minutes_bounded:
  assumes "proper_times assignments facts"
    and "require_hard_constraints assignments facts locks = Inr rs"
    and "calculate_candidate_metrics assignments tasks demand facts constraints = Inr (m, soft)"
    and "row \<in> set demand" and "di_start_minute row \<le> di_end_minute row"
  shows "\<exists>served. (di_record_id row, served) \<in> set (ms_interval_coverage_served_minutes m)
     \<and> 0 \<le> served
     \<and> served \<le> of_nat (card (as_worker_id ` {a \<in> set assignments. as_task_id a = di_task_id row}))
                 * of_int (di_end_minute row - di_start_minute row)"
proof -
  have pos: "\<And>a. a \<in> set assignments \<Longrightarrow> as_start_minute a < as_end_minute a"
    using assms(1) by (simp add: proper_times_def)
  have "all_slot_overlaps assignments = []" using assms(2) require_Inr_iff by blast
  then have "no_double_booking assignments" using overlaps_iff pos by blast
  then show ?thesis
    using row_served_le [OF _ pos assms(5)] row_served_nonneg interval_served_elem [OF assms(3,4)] by blast
qed

theorem served_minutes_bounded_witness:
  "\<exists>m soft served. calculate_candidate_metrics [demo_assignment 360 600] [] (vf_demand_intervals demo_facts) demo_facts [] = Inr (m, soft)
     \<and> (''d0'', served) \<in> set (ms_interval_coverage_served_minutes m) \<and> served \<le> 240"
proof -
  let ?as = "[demo_assignment 360 600]" and ?row = "hd (vf_demand_intervals demo_facts)"
  have proper: "proper_times ?as demo_facts"
    by (simp add: proper_times_def demo_assignment_def demo_facts_def demo_shift_def)
  have "\<exists>rs. require_hard_constraints ?as demo_facts [] = Inr rs"
    unfolding require_Inr_iff by code_simp
  then obtain rs where rs: "require_hard_constraints ?as demo_facts [] = Inr rs" by blast
  have "\<exists>r. calculate_candidate_metrics ?as [] (vf_demand_intervals demo_facts) demo_facts [] = Inr r"
    unfolding calculate_Inr_iff volume_rows_rated_def by code_simp
  then obtain m soft where m: "calculate_candidate_metrics ?as [] (vf_demand_intervals demo_facts) demo_facts [] = Inr (m, soft)"
    by fastforce
  have row: "?row \<in> set (vf_demand_intervals demo_facts)" "di_start_minute ?row \<le> di_end_minute ?row"
    "di_record_id ?row = ''d0''" "di_end_minute ?row - di_start_minute ?row = 240"
    "as_worker_id ` {a \<in> set ?as. as_task_id a = di_task_id ?row} = {''W1''}"
    by (code_simp, code_simp, code_simp, code_simp, unfold set_filter [symmetric], code_simp)
  obtain served where "(''d0'', served) \<in> set (ms_interval_coverage_served_minutes m)"
    and "served \<le> of_nat (card {''W1''}) * of_int 240"
    using served_minutes_bounded [OF proper rs m row(1,2)] unfolding row(3-5) by blast
  then show ?thesis using m by (intro exI conjI) simp_all
qed

end
