(* ===== verification/Run_Store.thy ===== *)
theory Run_Store
  imports Contracts
begin

text \<open>
  The governed schedule-run aggregate as the PostgreSQL adapter keeps it
  (\<^verbatim>\<open>src/backend/adapters/postgres/schedule_run.py\<close> and the lease functions of
  \<^verbatim>\<open>migrations/versions/a2b3c4d5e6f7_add_job_queue_and_lease_functions.py\<close>). A table is the list of
  its rows in insertion order; a SQL statement is one atomic step on the store; the constraints of
  \<^verbatim>\<open>schema.py\<close> that a statement can violate raise \<open>IntegrityError\<close>. \<open>st_now\<close> is the clock,
  \<open>st_fresh\<close> the supply of \<open>uuid4()\<close> values, assumed never to repeat.
\<close>

section \<open>Errors\<close>

datatype app_error =
    StaleLeaseError
  | RunNotCancellableError
  | RunTransitionConflictError "run_status option"
  | IllegalTransitionError
  | ValueError string
  | AssertionError string
  | IntegrityError string
  | NoResultFound
  | KeyError string
  | ZeroDivisionError
  | InvalidParameter string
  | FatalJobError string
  | CancelScheduleRunError
  | IdempotencyKeyConflictError
  | StaleResourceVersionError int int
  | CommandNotCancellableError
  | SnapshotCreationError string
  | ProposalNotFoundError
  | EnqueueComputeError
  | StaleProposalResourceVersionError int int
  | SiteConcurrencyExhaustedError
  | RuntimeError string
  | AgentRunNotQueuedError
  | CandidateNotFoundError
  | CandidateNotPromotableError
  | StaleBaselineVersionError
  | ApprovalNotGrantedError
  | ApprovalAlreadyPendingError
  | ApprovalNotFoundError
  | ApprovalNotPendingError
  | PostWriteApprovalNotPendingError
  | ConcurrentDecisionError
  | BaselineConcurrentlyMovedError
  | ApprovalPayloadUnreadableError
  | ProposalCommandError
  | StaleProposalError
  | RejectedProposalError
  | AppliedProposalError
  | ProjectionUnavailableError
  | DraftConstraintError

section \<open>Rows and store\<close>

datatype job_type = ScheduleRunExecute

datatype job_status = JobQueued | JobLeased | JobCompleted | JobFailed

record job_row =
  jb_id :: uuid
  jb_site_id :: uuid
  jb_job_type :: job_type
  jb_status :: job_status
  jb_schedule_run_id :: uuid
  jb_actor_id :: uuid
  jb_attempt_id :: "uuid option"
  jb_contract_version :: string
  jb_capability_version :: "string option"
  jb_idempotency_key :: string
  jb_lease_owner :: "string option"
  jb_lease_expires_at :: "instant option"
  jb_heartbeat_at :: "instant option"
  jb_fencing_epoch :: int
  jb_cancellation_requested :: bool
  jb_created_at :: instant

record run_row =
  rn_id :: uuid
  rn_site_id :: uuid
  rn_run_snapshot_id :: uuid
  rn_status :: run_status
  rn_reason :: "string option"
  rn_candidate_schedule_version_id :: "uuid option"
  rn_resource_version :: int
  rn_created_at :: instant
  rn_finished_at :: "instant option"

record run_progress_activity_v1 =
  rp_activity_id :: uuid
  rp_schedule_run_id :: uuid
  rp_status :: run_status
  rp_reason :: "string option"
  rp_resource_version :: int
  rp_occurred_at :: instant

record event_row =
  ev_site_id :: uuid
  ev_stream_id :: uuid
  ev_sequence :: int
  ev_event_type :: string
  ev_occurred_at :: instant
  ev_resource_version :: int
  ev_request_id :: uuid
  ev_schedule_run_id :: uuid
  ev_actor_id :: uuid
  ev_payload :: run_progress_activity_v1

record version_row =
  vr_id :: uuid
  vr_site_id :: uuid
  vr_schedule_run_id :: uuid
  vr_solver_status :: "solver_status option"
  vr_payload :: schedule_version_v1
  vr_created_at :: "instant option"

record assignment_row =
  ar_site_id :: uuid
  ar_schedule_version_id :: uuid
  ar_assignment :: assignment_v1

record solver_config_v1 =
  sc_engine_name :: string
  sc_seed :: int
  sc_num_search_workers :: int
  sc_max_deterministic_time :: float_value
  sc_wall_time_limit_seconds :: float_value

record run_snapshot_v1 =
  rs_snapshot_id :: "uuid option"
  rs_schedule_run_id :: "uuid option"
  rs_scenario_id :: "uuid option"
  rs_scenario_version_id :: "uuid option"
  rs_checksum_algorithm :: string
  rs_checksum_schema_version :: string
  rs_checksum_digest :: string
  rs_baseline_schedule_version :: "string option"
  rs_proposal_id :: "uuid option"
  rs_proposal_version_id :: "uuid option"
  rs_proposal_resource_version :: int
  rs_preserved_locks :: "lock_v1 list"
  rs_constraints :: "draft_constraint_v1 list"
  rs_objectives :: "constraint_v1 list"
  rs_solver_config :: "solver_config_v1 option"
  rs_component_versions :: "(string \<times> string) list"
  rs_accepted_at :: "instant option"
  rs_input_evidence_refs :: "evidence_ref_v1 list"
  rs_canonical_hash :: string

record snapshot_row =
  sn_id :: uuid
  sn_site_id :: uuid
  sn_payload :: run_snapshot_v1

datatype idempotent_payload =
    CancelPayload uuid run_status string int bool
  | EnqueuePayload uuid uuid
  | ProposalPayload proposal_view_v1

record idempotency_row =
  im_site_id :: uuid
  im_actor_id :: uuid
  im_operation :: string
  im_idempotency_key :: string
  im_body_hash :: string
  im_response_payload :: idempotent_payload

record store =
  st_now :: instant
  st_fresh :: nat
  st_jobs :: "job_row list"
  st_runs :: "run_row list"
  st_events :: "event_row list"
  st_versions :: "version_row list"
  st_assignments :: "assignment_row list"
  st_snapshots :: "snapshot_row list"
  st_idempotency :: "idempotency_row list"

definition update_rows :: "('r \<Rightarrow> bool) \<Rightarrow> ('r \<Rightarrow> 'r) \<Rightarrow> 'r list \<Rightarrow> 'r list" where
  "update_rows p f rows = map (\<lambda>r. if p r then f r else r) rows"

definition uuid4 :: "('x store_scheme, 'e, uuid) action" where
  "uuid4 s = (Inr (st_fresh s), s\<lparr>st_fresh := Suc (st_fresh s)\<rparr>)"

lemma and_then_uuid4: "and_then uuid4 k s = k (st_fresh s) (s\<lparr>st_fresh := Suc (st_fresh s)\<rparr>)"
  by (simp add: and_then_def uuid4_def)

lemmas peel = and_then_reading and_then_raise_if and_then_uuid4

section \<open>Row predicates shared by the statements\<close>

definition is_run :: "uuid \<Rightarrow> uuid \<Rightarrow> run_row \<Rightarrow> bool" where
  "is_run run_id site_id r \<longleftrightarrow> rn_id r = run_id \<and> rn_site_id r = site_id"

definition is_job_of :: "uuid \<Rightarrow> uuid \<Rightarrow> job_row \<Rightarrow> bool" where
  "is_job_of run_id site_id j \<longleftrightarrow> jb_schedule_run_id j = run_id \<and> jb_site_id j = site_id"

definition fence :: "uuid \<Rightarrow> uuid \<Rightarrow> int \<Rightarrow> job_row \<Rightarrow> bool" where
  "fence run_id site_id epoch j \<longleftrightarrow>
     is_job_of run_id site_id j \<and> jb_status j = JobLeased \<and> jb_fencing_epoch j = epoch \<and> jb_fencing_epoch j > 0"

definition has_current_epoch :: "uuid \<Rightarrow> uuid \<Rightarrow> int \<Rightarrow> 'x store_scheme \<Rightarrow> bool" where
  "has_current_epoch run_id site_id epoch s \<longleftrightarrow> (\<exists>j \<in> set (st_jobs s). fence run_id site_id epoch j)"

definition current_epoch :: "uuid \<Rightarrow> uuid \<Rightarrow> 'x store_scheme \<Rightarrow> int option" where
  "current_epoch run_id site_id s = map_option jb_fencing_epoch (find (is_job_of run_id site_id) (st_jobs s))"

definition find_run :: "uuid \<Rightarrow> uuid \<Rightarrow> 'x store_scheme \<Rightarrow> run_row option" where
  "find_run run_id site_id s = find (is_run run_id site_id) (st_runs s)"

section \<open>Reads\<close>

definition get_candidate :: "uuid \<Rightarrow> uuid \<Rightarrow> 'x store_scheme \<Rightarrow> schedule_version_v1 option" where
  "get_candidate run_id site_id s =
     map_option vr_payload
       (find (\<lambda>v. vr_schedule_run_id v = run_id \<and> vr_site_id v = site_id) (st_versions s))"

definition get_version :: "uuid \<Rightarrow> uuid \<Rightarrow> 'x store_scheme \<Rightarrow> schedule_version_v1 option" where
  "get_version version_id site_id s =
     map_option vr_payload (find (\<lambda>v. vr_id v = version_id \<and> vr_site_id v = site_id) (st_versions s))"

record schedule_run_view_v1 =
  rv_schedule_run_id :: uuid
  rv_status :: run_status
  rv_reason :: "string option"
  rv_resource_version :: int
  rv_cancellation_requested :: bool
  rv_created_at :: instant
  rv_finished_at :: "instant option"

definition get_job_cancellation_requested :: "uuid \<Rightarrow> uuid \<Rightarrow> 'x store_scheme \<Rightarrow> bool" where
  "get_job_cancellation_requested run_id site_id s =
     (case find (is_job_of run_id site_id) (st_jobs s) of
        None \<Rightarrow> False | Some j \<Rightarrow> jb_cancellation_requested j)"

definition get_run :: "uuid \<Rightarrow> uuid \<Rightarrow> 'x store_scheme \<Rightarrow> schedule_run_view_v1 option" where
  "get_run run_id site_id s =
     map_option (\<lambda>r. \<lparr>rv_schedule_run_id = rn_id r, rv_status = rn_status r, rv_reason = rn_reason r,
         rv_resource_version = rn_resource_version r,
         rv_cancellation_requested = get_job_cancellation_requested run_id site_id s,
         rv_created_at = rn_created_at r, rv_finished_at = rn_finished_at r\<rparr>)
       (find_run run_id site_id s)"

definition get_run_state :: "uuid \<Rightarrow> uuid \<Rightarrow> 'x store_scheme \<Rightarrow> (run_status \<times> int) option" where
  "get_run_state run_id site_id s =
     map_option (\<lambda>r. (rn_status r, rn_resource_version r)) (find_run run_id site_id s)"

definition load_snapshot :: "uuid \<Rightarrow> uuid \<Rightarrow> 'x store_scheme \<Rightarrow> run_snapshot_v1 option" where
  "load_snapshot run_id site_id s =
     (case find_run run_id site_id s of
        None \<Rightarrow> None
      | Some r \<Rightarrow> map_option sn_payload
          (find (\<lambda>n. sn_id n = rn_run_snapshot_id r \<and> sn_site_id n = site_id) (st_snapshots s)))"

definition events_of :: "uuid \<Rightarrow> 'x store_scheme \<Rightarrow> event_row list" where
  "events_of stream_id s = filter (\<lambda>e. ev_stream_id e = stream_id) (st_events s)"

definition event_head :: "uuid \<Rightarrow> uuid \<Rightarrow> 'x store_scheme \<Rightarrow> int option" where
  "event_head run_id site_id s =
     (case find_run run_id site_id s of
        None \<Rightarrow> None
      | Some _ \<Rightarrow> Some (fold max (map ev_sequence
          (filter (\<lambda>e. ev_schedule_run_id e = run_id \<and> ev_site_id e = site_id) (events_of run_id s))) 0))"

definition events_after :: "uuid \<Rightarrow> int \<Rightarrow> nat \<Rightarrow> 'x store_scheme \<Rightarrow> event_row list option" where
  "events_after stream_id after cap s =
     (if \<exists>r \<in> set (st_runs s). rn_id r = stream_id
      then Some (take cap (sort_key ev_sequence
             (filter (\<lambda>e. ev_schedule_run_id e = stream_id \<and> ev_sequence e > after) (events_of stream_id s))))
      else None)"

definition count_runs_with_statuses :: "uuid \<Rightarrow> run_status list \<Rightarrow> 'x store_scheme \<Rightarrow> nat" where
  "count_runs_with_statuses site_id statuses s =
     length (filter (\<lambda>r. rn_site_id r = site_id \<and> rn_status r \<in> set statuses) (st_runs s))"

definition get_idempotent_result ::
  "uuid \<Rightarrow> uuid \<Rightarrow> string \<Rightarrow> string \<Rightarrow> 'x store_scheme \<Rightarrow> (string \<times> idempotent_payload) option" where
  "get_idempotent_result site_id actor_id operation key s =
     map_option (\<lambda>i. (im_body_hash i, im_response_payload i))
       (find (\<lambda>i. im_site_id i = site_id \<and> im_actor_id i = actor_id \<and> im_operation i = operation
                  \<and> im_idempotency_key i = key) (st_idempotency s))"

text \<open>\<open>ON CONFLICT DO NOTHING\<close>: the first stored result stays.\<close>

definition store_idempotent_result ::
  "uuid \<Rightarrow> uuid \<Rightarrow> string \<Rightarrow> string \<Rightarrow> string \<Rightarrow> idempotent_payload \<Rightarrow> ('x store_scheme, app_error, unit) action" where
  "store_idempotent_result site_id actor_id operation key body_hash payload =
     writing (\<lambda>s. if get_idempotent_result site_id actor_id operation key s \<noteq> None then s
       else s\<lparr>st_idempotency := st_idempotency s @
              [\<lparr>im_site_id = site_id, im_actor_id = actor_id, im_operation = operation,
                im_idempotency_key = key, im_body_hash = body_hash, im_response_payload = payload\<rparr>]\<rparr>)"

section \<open>Event writer\<close>

definition next_sequence :: "uuid \<Rightarrow> 'x store_scheme \<Rightarrow> int" where
  "next_sequence stream_id s =
     (case map ev_sequence (events_of stream_id s) of [] \<Rightarrow> 0 | x # xs \<Rightarrow> fold max xs x) + 1"

definition append_event ::
  "uuid \<Rightarrow> uuid \<Rightarrow> uuid \<Rightarrow> run_status \<Rightarrow> string option \<Rightarrow> int \<Rightarrow> uuid \<Rightarrow> uuid \<Rightarrow> 'x store_scheme \<Rightarrow> 'x store_scheme" where
  "append_event run_id site_id actor_id status reason version request_id activity_id s =
     s\<lparr>st_events := st_events s @
        [\<lparr>ev_site_id = site_id, ev_stream_id = run_id, ev_sequence = next_sequence run_id s,
          ev_event_type = run_event_types status, ev_occurred_at = st_now s,
          ev_resource_version = version, ev_request_id = request_id, ev_schedule_run_id = run_id,
          ev_actor_id = actor_id,
          ev_payload = \<lparr>rp_activity_id = activity_id, rp_schedule_run_id = run_id, rp_status = status,
            rp_reason = reason, rp_resource_version = version, rp_occurred_at = st_now s\<rparr>\<rparr>]\<rparr>"

definition write_progress_event ::
  "uuid \<Rightarrow> uuid \<Rightarrow> uuid \<Rightarrow> run_status \<Rightarrow> string option \<Rightarrow> int \<Rightarrow> uuid \<Rightarrow> ('x store_scheme, app_error, instant) action" where
  "write_progress_event run_id site_id actor_id status reason version request_id =
     and_then uuid4 (\<lambda>activity_id.
     and_then (writing (append_event run_id site_id actor_id status reason version request_id activity_id)) (\<lambda>_.
     reading st_now))"

definition actor_for_run :: "uuid \<Rightarrow> uuid \<Rightarrow> ('x store_scheme, app_error, uuid) action" where
  "actor_for_run run_id site_id s =
     (case find (is_job_of run_id site_id) (st_jobs s) of
        Some j \<Rightarrow> (Inr (jb_actor_id j), s)
      | None \<Rightarrow> (case sort_key ev_sequence (filter (\<lambda>e. ev_schedule_run_id e = run_id) (events_of run_id s)) of
          [] \<Rightarrow> (Inl NoResultFound, s)
        | e # _ \<Rightarrow> (Inr (ev_actor_id e), s)))"

definition request_or_fresh :: "uuid option \<Rightarrow> ('x store_scheme, app_error, uuid) action" where
  "request_or_fresh request_id = (case request_id of None \<Rightarrow> uuid4 | Some r \<Rightarrow> ret r)"

section \<open>Cancellation transitions\<close>

definition cancel_transition ::
  "uuid \<Rightarrow> uuid \<Rightarrow> uuid \<Rightarrow> int \<Rightarrow> run_status \<Rightarrow> run_status \<Rightarrow> string \<Rightarrow> bool \<Rightarrow> ('x store_scheme, app_error, unit) action" where
  "cancel_transition run_id site_id actor_id expected_version expected_status status reason terminal =
     and_then (reading (\<lambda>s. find (\<lambda>r. is_run run_id site_id r \<and> rn_status r = expected_status
                                   \<and> rn_resource_version r = expected_version) (st_runs s))) (\<lambda>row.
     case row of
       None \<Rightarrow> raise RunNotCancellableError
     | Some r \<Rightarrow>
         and_then (writing (\<lambda>s. s\<lparr>st_runs := update_rows
             (\<lambda>r. is_run run_id site_id r \<and> rn_status r = expected_status \<and> rn_resource_version r = expected_version)
             (\<lambda>r. r\<lparr>rn_status := status, rn_reason := Some reason,
                    rn_resource_version := rn_resource_version r + 1,
                    rn_finished_at := (if terminal then Some (st_now s) else rn_finished_at r)\<rparr>)
             (st_runs s)\<rparr>)) (\<lambda>_.
         and_then uuid4 (\<lambda>request_id.
         and_then (write_progress_event run_id site_id actor_id status (Some reason)
                     (rn_resource_version r + 1) request_id) (\<lambda>_. ret ()))))"

definition cancel_queued_run :: "uuid \<Rightarrow> uuid \<Rightarrow> uuid \<Rightarrow> int \<Rightarrow> ('x store_scheme, app_error, unit) action" where
  "cancel_queued_run run_id site_id actor_id expected_version =
     cancel_transition run_id site_id actor_id expected_version SolverQueued SolverCancelled ''cancelled'' True"

definition request_cancellation :: "uuid \<Rightarrow> uuid \<Rightarrow> uuid \<Rightarrow> int \<Rightarrow> ('x store_scheme, app_error, unit) action" where
  "request_cancellation run_id site_id actor_id expected_version =
     cancel_transition run_id site_id actor_id expected_version SolverRunning CancellationRequested
       ''cancellation_requested'' False"

definition set_job_cancellation_requested :: "uuid \<Rightarrow> uuid \<Rightarrow> ('x store_scheme, app_error, unit) action" where
  "set_job_cancellation_requested run_id site_id =
     writing (\<lambda>s. s\<lparr>st_jobs := update_rows (is_job_of run_id site_id)
       (\<lambda>j. j\<lparr>jb_cancellation_requested := True\<rparr>) (st_jobs s)\<rparr>)"

section \<open>Fenced transitions\<close>

definition claim_epoch :: "uuid \<Rightarrow> uuid \<Rightarrow> int \<Rightarrow> ('x store_scheme, app_error, unit) action" where
  "claim_epoch run_id site_id epoch =
     and_then (reading (\<lambda>s. length (filter (fence run_id site_id epoch) (st_jobs s)))) (\<lambda>rowcount.
     and_then (writing (\<lambda>s. s\<lparr>st_jobs := update_rows (fence run_id site_id epoch)
                 (\<lambda>j. j\<lparr>jb_heartbeat_at := Some (st_now s)\<rparr>) (st_jobs s)\<rparr>)) (\<lambda>_.
     raise_if (rowcount \<noteq> 1) StaleLeaseError))"

definition raise_transition_failure ::
  "uuid \<Rightarrow> uuid \<Rightarrow> int \<Rightarrow> run_status \<Rightarrow> ('x store_scheme, app_error, 'a) action" where
  "raise_transition_failure run_id site_id epoch target =
     and_then (reading (current_epoch run_id site_id)) (\<lambda>current.
     and_then (raise_if (current \<noteq> Some epoch) StaleLeaseError) (\<lambda>_.
     and_then (reading (\<lambda>s. map_option rn_status (find_run run_id site_id s))) (\<lambda>status.
     if status = Some SolverRunning \<and> target = SolverCancelled
     then raise IllegalTransitionError
     else raise (RunTransitionConflictError status))))"

definition mark_running ::
  "uuid \<Rightarrow> uuid \<Rightarrow> int \<Rightarrow> uuid option \<Rightarrow> ('x store_scheme, app_error, instant) action" where
  "mark_running run_id site_id epoch request_id =
     and_then (claim_epoch run_id site_id epoch) (\<lambda>_.
     and_then (reading (\<lambda>s. if has_current_epoch run_id site_id epoch s
         then find (\<lambda>r. is_run run_id site_id r \<and> rn_status r = SolverQueued) (st_runs s) else None)) (\<lambda>row.
     case row of
       None \<Rightarrow> raise_transition_failure run_id site_id epoch SolverRunning
     | Some r \<Rightarrow>
         and_then (writing (\<lambda>s. s\<lparr>st_runs := update_rows (\<lambda>r. is_run run_id site_id r \<and> rn_status r = SolverQueued)
             (\<lambda>r. r\<lparr>rn_status := SolverRunning, rn_resource_version := rn_resource_version r + 1\<rparr>)
             (st_runs s)\<rparr>)) (\<lambda>_.
         and_then (actor_for_run run_id site_id) (\<lambda>actor_id.
         and_then (request_or_fresh request_id) (\<lambda>request.
         write_progress_event run_id site_id actor_id SolverRunning None (rn_resource_version r + 1) request)))))"

definition finalize_statuses :: "run_status list" where
  "finalize_statuses = [SolverCompleted, SolverInfeasible, SolverTimedOut, SolverCancelled, SolverFailed]"

definition finalize_expected_statuses :: "run_status \<Rightarrow> run_status list" where
  "finalize_expected_statuses status = (case status of
      SolverCompleted \<Rightarrow> [SolverRunning, CancellationRequested]
    | SolverInfeasible \<Rightarrow> [SolverRunning, CancellationRequested]
    | SolverTimedOut \<Rightarrow> [SolverQueued, SolverRunning, CancellationRequested]
    | SolverCancelled \<Rightarrow> [CancellationRequested]
    | SolverFailed \<Rightarrow> [SolverQueued, SolverRunning, CancellationRequested]
    | _ \<Rightarrow> [])"

definition insert_assignments :: "uuid \<Rightarrow> uuid \<Rightarrow> assignment_v1 list \<Rightarrow> ('x store_scheme, app_error, unit) action" where
  "insert_assignments site_id version_id as =
     and_then (raise_if (\<not> distinct (map as_record_id as)) (IntegrityError ''uq_schedule_assignment_record'')) (\<lambda>_.
     and_then (raise_if (\<exists>a \<in> set as. \<not> (0 \<le> as_start_minute a \<and> as_start_minute a < as_end_minute a))
                (IntegrityError ''ck_schedule_assignment_interval'')) (\<lambda>_.
     writing (\<lambda>s. s\<lparr>st_assignments := st_assignments s @
       map (\<lambda>a. \<lparr>ar_site_id = site_id, ar_schedule_version_id = version_id, ar_assignment = a\<rparr>) as\<rparr>)))"

definition insert_candidate ::
  "uuid \<Rightarrow> uuid \<Rightarrow> schedule_version_v1 \<Rightarrow> ('x store_scheme, app_error, uuid) action" where
  "insert_candidate run_id site_id c =
     (case sv_schedule_version_id c of
        None \<Rightarrow> raise (AssertionError ''candidate.schedule_version_id'')
      | Some version_id \<Rightarrow>
          and_then (reading st_versions) (\<lambda>versions.
          and_then (raise_if (\<exists>v \<in> set versions. vr_schedule_run_id v = run_id) (IntegrityError ''uq_schedule_version_run'')) (\<lambda>_.
          and_then (raise_if (\<exists>v \<in> set versions. vr_id v = version_id) (IntegrityError ''schedule_version_pkey'')) (\<lambda>_.
          and_then (raise_if (sv_feasible_solver_status c \<notin> {Some OPTIMAL, Some FEASIBLE})
                     (IntegrityError ''ck_schedule_version_feasible_status'')) (\<lambda>_.
          and_then (writing (\<lambda>s. s\<lparr>st_versions := st_versions s @
                     [\<lparr>vr_id = version_id, vr_site_id = site_id, vr_schedule_run_id = run_id,
                       vr_solver_status = sv_feasible_solver_status c, vr_payload = c,
                       vr_created_at = sv_created_at c\<rparr>]\<rparr>)) (\<lambda>_.
          and_then (insert_assignments site_id version_id (sv_assignments c)) (\<lambda>_.
          ret version_id)))))))"

definition finalize_run ::
  "uuid \<Rightarrow> uuid \<Rightarrow> int \<Rightarrow> run_status \<Rightarrow> string option \<Rightarrow> schedule_version_v1 option \<Rightarrow> instant option
   \<Rightarrow> uuid option \<Rightarrow> ('x store_scheme, app_error, unit) action" where
  "finalize_run run_id site_id epoch status reason candidate finished_at request_id =
     and_then (raise_if (status \<notin> set finalize_statuses) (ValueError ''not a terminal schedule-run status'')) (\<lambda>_.
     and_then (claim_epoch run_id site_id epoch) (\<lambda>_.
     and_then (case candidate of
                 None \<Rightarrow> ret None
               | Some c \<Rightarrow> and_then (insert_candidate run_id site_id c) (\<lambda>v. ret (Some v))) (\<lambda>candidate_id.
     and_then (reading (\<lambda>s. if has_current_epoch run_id site_id epoch s
         then find (\<lambda>r. is_run run_id site_id r \<and> rn_status r \<in> set (finalize_expected_statuses status)) (st_runs s)
         else None)) (\<lambda>row.
     case row of
       None \<Rightarrow> raise_transition_failure run_id site_id epoch status
     | Some r \<Rightarrow>
         and_then (raise_if (candidate_id \<noteq> None \<and> status \<noteq> SolverCompleted)
                    (IntegrityError ''ck_schedule_run_candidate_completed'')) (\<lambda>_.
         and_then (writing (\<lambda>s. s\<lparr>st_runs := update_rows
             (\<lambda>r. is_run run_id site_id r \<and> rn_status r \<in> set (finalize_expected_statuses status))
             (\<lambda>r. r\<lparr>rn_status := status, rn_reason := reason, rn_candidate_schedule_version_id := candidate_id,
                    rn_resource_version := rn_resource_version r + 1,
                    rn_finished_at := (case candidate of
                       Some c \<Rightarrow> sv_created_at c
                     | None \<Rightarrow> (case finished_at of None \<Rightarrow> Some (st_now s) | Some t \<Rightarrow> Some t))\<rparr>)
             (st_runs s)\<rparr>)) (\<lambda>_.
         and_then (actor_for_run run_id site_id) (\<lambda>actor_id.
         and_then (request_or_fresh request_id) (\<lambda>request.
         and_then (write_progress_event run_id site_id actor_id status reason (rn_resource_version r + 1) request)
           (\<lambda>_. ret ())))))))))"

section \<open>Queue: creation, leases, completion\<close>

definition create_queued_run ::
  "run_snapshot_v1 \<Rightarrow> uuid \<Rightarrow> uuid \<Rightarrow> ('x store_scheme, app_error, unit) action" where
  "create_queued_run snapshot site_id actor_id =
     (case (rs_snapshot_id snapshot, rs_schedule_run_id snapshot, rs_scenario_id snapshot,
            rs_scenario_version_id snapshot, rs_proposal_id snapshot, rs_proposal_version_id snapshot) of
        (Some snapshot_id, Some run_id, Some _, Some _, Some _, Some _) \<Rightarrow>
          and_then (reading (\<lambda>s. \<exists>n \<in> set (st_snapshots s). sn_id n = snapshot_id)) (\<lambda>dup_snapshot.
          and_then (raise_if dup_snapshot (IntegrityError ''run_snapshot_pkey'')) (\<lambda>_.
          and_then (writing (\<lambda>s. s\<lparr>st_snapshots := st_snapshots s @
                      [\<lparr>sn_id = snapshot_id, sn_site_id = site_id, sn_payload = snapshot\<rparr>]\<rparr>)) (\<lambda>_.
          and_then (reading (\<lambda>s. \<exists>r \<in> set (st_runs s). rn_id r = run_id)) (\<lambda>dup_run.
          and_then (raise_if dup_run (IntegrityError ''schedule_run_pkey'')) (\<lambda>_.
          and_then (writing (\<lambda>s. s\<lparr>st_runs := st_runs s @
                      [\<lparr>rn_id = run_id, rn_site_id = site_id, rn_run_snapshot_id = snapshot_id,
                        rn_status = SolverQueued, rn_reason = None, rn_candidate_schedule_version_id = None,
                        rn_resource_version = 1, rn_created_at = st_now s, rn_finished_at = None\<rparr>]\<rparr>)) (\<lambda>_.
          and_then uuid4 (\<lambda>request_id.
          and_then (write_progress_event run_id site_id actor_id SolverQueued None 1 request_id)
            (\<lambda>_. ret ()))))))))
      | _ \<Rightarrow> raise (AssertionError ''snapshot identifiers''))"

record job_lease_v1 =
  jl_job_id :: "uuid option"
  jl_job_type :: "job_type option"
  jl_status :: job_status
  jl_site_id :: "uuid option"
  jl_actor_id :: "uuid option"
  jl_attempt_id :: "uuid option"
  jl_contract_version :: string
  jl_capability_version :: "string option"
  jl_schedule_run_id :: "uuid option"
  jl_idempotency_key :: string
  jl_lease_owner :: "string option"
  jl_lease_expires_at :: "instant option"
  jl_heartbeat_at :: "instant option"
  jl_fencing_epoch :: int
  jl_cancellation_requested :: bool
  jl_created_at :: "instant option"

definition max_idempotency_key_length :: nat where
  "max_idempotency_key_length = 40"

text \<open>\<open>JobLeaseV1.__post_init__\<close>: the first failing check, in the source's order. Literal types and
  UTC awareness hold of every value of the model's types.\<close>

definition job_lease_problem :: "job_lease_v1 \<Rightarrow> string option" where
  "job_lease_problem j =
     (if jl_job_id j = None then Some ''job_id is required''
      else if jl_site_id j = None then Some ''site_id is required''
      else if jl_job_type j = None then Some ''job_type is required''
      else if jl_schedule_run_id j = None then Some ''schedule_run_id is required''
      else if jl_actor_id j = None then Some ''actor_id is required''
      else if jl_contract_version j = [] then Some ''contract_version is required''
      else if jl_idempotency_key j = [] then Some ''idempotency_key is required''
      else if length (jl_idempotency_key j) > max_idempotency_key_length then Some ''idempotency_key must be at most 40 characters''
      else if jl_fencing_epoch j < 0 then Some ''fencing_epoch must not be negative''
      else if jl_status j = JobQueued \<and> jl_attempt_id j \<noteq> None then Some ''attempt_id must be unset on a queued job''
      else if jl_status j = JobQueued \<and> jl_lease_owner j \<noteq> None then Some ''lease_owner must be unset on a queued job''
      else if jl_status j = JobQueued \<and> jl_lease_expires_at j \<noteq> None then Some ''lease_expires_at must be unset on a queued job''
      else if jl_status j = JobLeased \<and> jl_attempt_id j = None then Some ''attempt_id is required for a leased job''
      else if jl_status j = JobLeased \<and> jl_lease_owner j = None then Some ''lease_owner is required for a leased job''
      else if jl_status j = JobLeased \<and> jl_lease_expires_at j = None then Some ''lease_expires_at is required for a leased job''
      else if jl_status j = JobLeased \<and> jl_heartbeat_at j = None then Some ''heartbeat_at is required for a leased job''
      else if jl_status j = JobLeased \<and> jl_fencing_epoch j \<le> 0 then Some ''fencing_epoch must be positive for a leased job''
      else None)"

definition new_job_lease :: "job_lease_v1 \<Rightarrow> ('s, app_error, job_lease_v1) action" where
  "new_job_lease j = (case job_lease_problem j of Some msg \<Rightarrow> raise (ValueError msg) | None \<Rightarrow> ret j)"

definition lease_of_row :: "job_row \<Rightarrow> job_lease_v1" where
  "lease_of_row j =
     \<lparr>jl_job_id = Some (jb_id j), jl_job_type = Some (jb_job_type j), jl_status = jb_status j,
      jl_site_id = Some (jb_site_id j), jl_actor_id = Some (jb_actor_id j), jl_attempt_id = jb_attempt_id j,
      jl_contract_version = jb_contract_version j, jl_capability_version = jb_capability_version j,
      jl_schedule_run_id = Some (jb_schedule_run_id j), jl_idempotency_key = jb_idempotency_key j,
      jl_lease_owner = jb_lease_owner j, jl_lease_expires_at = jb_lease_expires_at j,
      jl_heartbeat_at = jb_heartbeat_at j, jl_fencing_epoch = jb_fencing_epoch j,
      jl_cancellation_requested = jb_cancellation_requested j, jl_created_at = Some (jb_created_at j)\<rparr>"

definition enqueue_job :: "job_lease_v1 \<Rightarrow> uuid \<Rightarrow> ('x store_scheme, app_error, unit) action" where
  "enqueue_job job site_id =
     and_then (raise_if (jl_site_id job \<noteq> Some site_id) (ValueError ''job site does not match the transaction site'')) (\<lambda>_.
     case (jl_job_id job, jl_job_type job, jl_schedule_run_id job, jl_actor_id job, jl_created_at job) of
       (Some job_id, Some type, Some run_id, Some actor_id, Some created_at) \<Rightarrow>
         and_then (reading st_jobs) (\<lambda>jobs.
         and_then (raise_if (\<exists>j \<in> set jobs. jb_id j = job_id) (IntegrityError ''job_queue_pkey'')) (\<lambda>_.
         and_then (raise_if (\<exists>j \<in> set jobs. jb_schedule_run_id j = run_id) (IntegrityError ''uq_job_queue_schedule_run'')) (\<lambda>_.
         and_then (reading (find_run run_id site_id)) (\<lambda>run.
         and_then (raise_if (run = None) (IntegrityError ''fk_job_queue_schedule_run_site'')) (\<lambda>_.
         and_then (raise_if (jl_fencing_epoch job < 0) (IntegrityError ''ck_job_queue_fencing_epoch'')) (\<lambda>_.
         writing (\<lambda>s. s\<lparr>st_jobs := st_jobs s @
           [\<lparr>jb_id = job_id, jb_site_id = site_id, jb_job_type = type, jb_status = jl_status job,
             jb_schedule_run_id = run_id, jb_actor_id = actor_id, jb_attempt_id = jl_attempt_id job,
             jb_contract_version = jl_contract_version job, jb_capability_version = jl_capability_version job,
             jb_idempotency_key = jl_idempotency_key job, jb_lease_owner = jl_lease_owner job,
             jb_lease_expires_at = jl_lease_expires_at job, jb_heartbeat_at = jl_heartbeat_at job,
             jb_fencing_epoch = jl_fencing_epoch job,
             jb_cancellation_requested = jl_cancellation_requested job,
             jb_created_at = created_at\<rparr>]\<rparr>)))))))
     | _ \<Rightarrow> raise (IntegrityError ''job_queue not null''))"

definition leaseable :: "instant \<Rightarrow> job_row \<Rightarrow> bool" where
  "leaseable now j \<longleftrightarrow> jb_status j = JobQueued \<or>
     (jb_status j = JobLeased \<and> (case jb_lease_expires_at j of None \<Rightarrow> False | Some t \<Rightarrow> t < now))"

text \<open>\<open>locked\<close> holds the rows other sessions have locked, which \<open>SKIP LOCKED\<close> passes over.\<close>

definition next_leaseable :: "uuid list \<Rightarrow> 'x store_scheme \<Rightarrow> job_row option" where
  "next_leaseable locked s =
     (case sort_key (\<lambda>j. (jb_created_at j, jb_id j))
             (filter (\<lambda>j. leaseable (st_now s) j \<and> jb_id j \<notin> set locked) (st_jobs s)) of
        [] \<Rightarrow> None | j # _ \<Rightarrow> Some j)"

definition leased_row :: "string \<Rightarrow> int \<Rightarrow> instant \<Rightarrow> uuid \<Rightarrow> job_row \<Rightarrow> job_row" where
  "leased_row owner seconds now attempt j =
     j\<lparr>jb_status := JobLeased, jb_lease_owner := Some owner, jb_lease_expires_at := Some (now + seconds),
       jb_heartbeat_at := Some now, jb_fencing_epoch := jb_fencing_epoch j + 1, jb_attempt_id := Some attempt\<rparr>"

definition sql_lease_next_job ::
  "uuid list \<Rightarrow> string \<Rightarrow> int \<Rightarrow> ('x store_scheme, app_error, job_row option) action" where
  "sql_lease_next_job locked owner seconds =
     and_then (raise_if (list_all (\<lambda>c. c = CHR '' '') owner) (InvalidParameter ''lease owner is required'')) (\<lambda>_.
     and_then (raise_if (seconds \<le> 0) (InvalidParameter ''lease duration must be positive'')) (\<lambda>_.
     and_then (reading (next_leaseable locked)) (\<lambda>found.
     case found of
       None \<Rightarrow> ret None
     | Some job \<Rightarrow>
         and_then uuid4 (\<lambda>attempt.
         and_then (writing (\<lambda>s. s\<lparr>st_jobs := update_rows (\<lambda>j. jb_id j = jb_id job)
                     (leased_row owner seconds (st_now s) attempt)
                     (st_jobs s)\<rparr>)) (\<lambda>_.
         reading (\<lambda>s. find (\<lambda>j. jb_id j = jb_id job) (st_jobs s)))))))"

definition lease_next_job ::
  "uuid list \<Rightarrow> string \<Rightarrow> int \<Rightarrow> ('x store_scheme, app_error, job_lease_v1 option) action" where
  "lease_next_job locked owner seconds =
     and_then (sql_lease_next_job locked owner seconds) (\<lambda>row.
     case row of
       None \<Rightarrow> ret None
     | Some j \<Rightarrow> and_then (new_job_lease (lease_of_row j)) (\<lambda>l. ret (Some l)))"

record lease_renewal_v1 =
  ln_renewed :: bool
  ln_cancellation_requested :: bool

definition renew_job_lease ::
  "uuid \<Rightarrow> uuid \<Rightarrow> int \<Rightarrow> int \<Rightarrow> ('x store_scheme, app_error, lease_renewal_v1) action" where
  "renew_job_lease app_site_id job_id epoch seconds =
     (let mine = (\<lambda>j. jb_id j = job_id \<and> jb_site_id j = app_site_id \<and> jb_status j = JobLeased
                     \<and> jb_fencing_epoch j = epoch) in
      and_then (raise_if (seconds \<le> 0) (InvalidParameter ''lease extension must be positive'')) (\<lambda>_.
      and_then (reading (\<lambda>s. find mine (st_jobs s))) (\<lambda>found.
      and_then (writing (\<lambda>s. s\<lparr>st_jobs := update_rows mine
                  (\<lambda>j. j\<lparr>jb_lease_expires_at := Some (st_now s + seconds), jb_heartbeat_at := Some (st_now s)\<rparr>)
                  (st_jobs s)\<rparr>)) (\<lambda>_.
      ret \<lparr>ln_renewed = found \<noteq> None,
           ln_cancellation_requested = (case found of None \<Rightarrow> False | Some j \<Rightarrow> jb_cancellation_requested j)\<rparr>))))"

definition end_job :: "job_status \<Rightarrow> uuid \<Rightarrow> uuid \<Rightarrow> int \<Rightarrow> ('x store_scheme, app_error, unit) action" where
  "end_job status job_id site_id epoch =
     (let mine = (\<lambda>j. jb_id j = job_id \<and> jb_site_id j = site_id \<and> jb_status j = JobLeased
                     \<and> jb_fencing_epoch j = epoch) in
      and_then (reading (\<lambda>s. length (filter mine (st_jobs s)))) (\<lambda>rowcount.
      and_then (writing (\<lambda>s. s\<lparr>st_jobs := update_rows mine
                  (\<lambda>j. j\<lparr>jb_status := status, jb_heartbeat_at := Some (st_now s)\<rparr>) (st_jobs s)\<rparr>)) (\<lambda>_.
      if rowcount \<noteq> 1
      then and_then (reading (\<lambda>s. map_option jb_fencing_epoch
                      (find (\<lambda>j. jb_id j = job_id \<and> jb_site_id j = site_id) (st_jobs s)))) (\<lambda>current.
           if current \<noteq> Some epoch then raise StaleLeaseError else raise (ValueError ''job is no longer leased''))
      else ret ())))"

definition complete_job :: "uuid \<Rightarrow> uuid \<Rightarrow> int \<Rightarrow> ('x store_scheme, app_error, unit) action" where
  "complete_job = end_job JobCompleted"

definition fail_job :: "uuid \<Rightarrow> uuid \<Rightarrow> int \<Rightarrow> ('x store_scheme, app_error, unit) action" where
  "fail_job = end_job JobFailed"

end
