(* ===== verification/Run_Invariants.thy ===== *)
theory Run_Invariants
  imports Run_Store
begin

text \<open>
  What the schedule-run store keeps true. \<open>store_ok\<close> ties the tables together: every run's event
  stream is the gap-free history of that run, every history follows the edges of the run state
  machine, a candidate exists exactly for a completed run that names it, and job rows are well
  formed. \<open>store_evolves\<close> is the two-state relation every statement respects: fencing epochs never
  decrease, finished jobs and finished runs never change, and the logs are append-only.
\<close>

section \<open>The run state machine\<close>

definition terminal_status :: "run_status \<Rightarrow> bool" where
  "terminal_status s \<longleftrightarrow> s \<in> {SolverCompleted, SolverInfeasible, SolverTimedOut, SolverCancelled, SolverFailed}"

fun run_edge :: "run_status \<Rightarrow> run_status \<Rightarrow> bool" where
  "run_edge SolverQueued t = (t \<in> {SolverRunning, SolverCancelled, SolverTimedOut, SolverFailed})"
| "run_edge SolverRunning t =
     (t \<in> {CancellationRequested, SolverCompleted, SolverInfeasible, SolverTimedOut, SolverFailed})"
| "run_edge CancellationRequested t =
     (t \<in> {SolverCompleted, SolverInfeasible, SolverTimedOut, SolverCancelled, SolverFailed})"
| "run_edge _ t = False"

lemma run_edge_terminal: "terminal_status s \<Longrightarrow> \<not> run_edge s t"
  by (cases s) (auto simp: terminal_status_def)

lemma finalize_edge:
  "s \<in> set (finalize_expected_statuses t) \<Longrightarrow> run_edge s t \<and> terminal_status t"
  by (cases t) (auto simp: finalize_expected_statuses_def terminal_status_def)

definition event_status :: "event_row \<Rightarrow> run_status" where
  "event_status e = rp_status (ev_payload e)"

section \<open>Well-formed stores\<close>

definition run_history_ok :: "run_row \<Rightarrow> event_row list \<Rightarrow> bool" where
  "run_history_ok r evs \<longleftrightarrow>
     evs \<noteq> []
     \<and> map ev_sequence evs = map int [1..<Suc (length evs)]
     \<and> map ev_resource_version evs = map int [1..<Suc (length evs)]
     \<and> rn_resource_version r = int (length evs)
     \<and> successively run_edge (map event_status evs)
     \<and> event_status (hd evs) = SolverQueued \<and> event_status (last evs) = rn_status r
     \<and> (\<forall>e \<in> set evs. ev_site_id e = rn_site_id r \<and> ev_schedule_run_id e = rn_id r
                     \<and> ev_event_type e = run_event_types (event_status e))"

definition job_ok :: "job_row \<Rightarrow> bool" where
  "job_ok j \<longleftrightarrow>
     jb_contract_version j \<noteq> [] \<and> jb_idempotency_key j \<noteq> []
     \<and> length (jb_idempotency_key j) \<le> max_idempotency_key_length
     \<and> (if jb_status j = JobQueued
        then jb_fencing_epoch j = 0 \<and> jb_attempt_id j = None \<and> jb_lease_owner j = None \<and> jb_lease_expires_at j = None
        else jb_fencing_epoch j > 0 \<and> jb_attempt_id j \<noteq> None \<and> jb_lease_owner j \<noteq> None
             \<and> jb_lease_expires_at j \<noteq> None \<and> jb_heartbeat_at j \<noteq> None)"

definition jobs_ok :: "'x store_scheme \<Rightarrow> bool" where
  "jobs_ok s \<longleftrightarrow>
     distinct (map jb_id (st_jobs s)) \<and> distinct (map jb_schedule_run_id (st_jobs s))
     \<and> (\<forall>j \<in> set (st_jobs s). job_ok j)
     \<and> (\<forall>j \<in> set (st_jobs s). \<exists>r \<in> set (st_runs s). is_run (jb_schedule_run_id j) (jb_site_id j) r)"

definition runs_ok :: "'x store_scheme \<Rightarrow> bool" where
  "runs_ok s \<longleftrightarrow>
     distinct (map rn_id (st_runs s))
     \<and> (\<forall>r \<in> set (st_runs s). run_history_ok r (events_of (rn_id r) s))
     \<and> (\<forall>e \<in> set (st_events s). ev_stream_id e \<in> rn_id ` set (st_runs s))"

definition versions_ok :: "'x store_scheme \<Rightarrow> bool" where
  "versions_ok s \<longleftrightarrow>
     distinct (map vr_id (st_versions s)) \<and> distinct (map vr_schedule_run_id (st_versions s))
     \<and> (\<forall>v \<in> set (st_versions s). \<exists>r \<in> set (st_runs s).
          is_run (vr_schedule_run_id v) (vr_site_id v) r \<and> rn_status r = SolverCompleted
          \<and> rn_candidate_schedule_version_id r = Some (vr_id v))
     \<and> (\<forall>r \<in> set (st_runs s). \<forall>c. rn_candidate_schedule_version_id r = Some c \<longrightarrow>
          (\<exists>v \<in> set (st_versions s). vr_id v = c \<and> vr_schedule_run_id v = rn_id r))"

definition store_ok :: "'x store_scheme \<Rightarrow> bool" where
  "store_ok s \<longleftrightarrow> runs_ok s \<and> versions_ok s \<and> jobs_ok s"

section \<open>Evolution\<close>

definition run_evolves :: "run_row \<Rightarrow> run_row \<Rightarrow> bool" where
  "run_evolves r r' \<longleftrightarrow>
     r' = r \<or> (rn_id r' = rn_id r \<and> rn_site_id r' = rn_site_id r \<and> rn_run_snapshot_id r' = rn_run_snapshot_id r
               \<and> \<not> terminal_status (rn_status r) \<and> rn_resource_version r < rn_resource_version r')"

definition job_evolves :: "job_row \<Rightarrow> job_row \<Rightarrow> bool" where
  "job_evolves j j' \<longleftrightarrow>
     jb_id j' = jb_id j \<and> jb_site_id j' = jb_site_id j \<and> jb_schedule_run_id j' = jb_schedule_run_id j
     \<and> jb_actor_id j' = jb_actor_id j
     \<and> jb_fencing_epoch j \<le> jb_fencing_epoch j'
     \<and> (jb_cancellation_requested j \<longrightarrow> jb_cancellation_requested j')
     \<and> (jb_status j \<in> {JobCompleted, JobFailed} \<longrightarrow>
          jb_status j' = jb_status j \<and> jb_fencing_epoch j' = jb_fencing_epoch j)
     \<and> (jb_status j = JobLeased \<longrightarrow> jb_status j' \<noteq> JobQueued)"

definition table_evolves :: "('r \<Rightarrow> 'r \<Rightarrow> bool) \<Rightarrow> 'r list \<Rightarrow> 'r list \<Rightarrow> bool" where
  "table_evolves rel rows rows' \<longleftrightarrow> (\<exists>old new. rows' = old @ new \<and> list_all2 rel rows old)"

definition appended :: "'r list \<Rightarrow> 'r list \<Rightarrow> bool" where
  "appended rows rows' \<longleftrightarrow> (\<exists>new. rows' = rows @ new)"

definition store_evolves :: "'x store_scheme \<Rightarrow> 'x store_scheme \<Rightarrow> bool" where
  "store_evolves s s' \<longleftrightarrow>
     table_evolves run_evolves (st_runs s) (st_runs s')
     \<and> table_evolves job_evolves (st_jobs s) (st_jobs s')
     \<and> appended (st_events s) (st_events s') \<and> appended (st_versions s) (st_versions s')
     \<and> appended (st_assignments s) (st_assignments s') \<and> appended (st_snapshots s) (st_snapshots s')
     \<and> appended (st_idempotency s) (st_idempotency s') \<and> st_fresh s \<le> st_fresh s'"

lemma appended_refl [simp]: "appended xs xs"
  by (simp add: appended_def)

lemma appended_append [simp]: "appended xs (xs @ ys)"
  by (simp add: appended_def)

lemma appended_trans: "appended xs ys \<Longrightarrow> appended ys zs \<Longrightarrow> appended xs zs"
  by (auto simp: appended_def)

lemma table_evolves_refl: "(\<And>r. rel r r) \<Longrightarrow> table_evolves rel rows rows"
  unfolding table_evolves_def by (intro exI [of _ rows] exI [of _ "[]"] conjI) (simp_all add: list_all2_refl)

lemma table_evolves_append: "(\<And>r. rel r r) \<Longrightarrow> table_evolves rel rows (rows @ new)"
  by (auto simp: table_evolves_def list_all2_refl)

lemma table_evolves_update:
  "(\<And>r. rel r r) \<Longrightarrow> (\<And>r. r \<in> set rows \<Longrightarrow> p r \<Longrightarrow> rel r (f r)) \<Longrightarrow> table_evolves rel rows (update_rows p f rows)"
  unfolding table_evolves_def update_rows_def
  by (rule exI [where x = "map (\<lambda>r. if p r then f r else r) rows"], rule exI [where x = "[]"])
    (auto simp: list_all2_map2 list.rel_refl_strong)

lemma table_evolves_trans:
  assumes tr: "\<And>a b c. rel a b \<Longrightarrow> rel b c \<Longrightarrow> rel a c"
    and "table_evolves rel xs ys" and "table_evolves rel ys zs"
  shows "table_evolves rel xs zs"
proof -
  obtain old new where ys: "ys = old @ new" "list_all2 rel xs old"
    using assms(2) by (auto simp: table_evolves_def)
  obtain old' new' where zs: "zs = old' @ new'" "list_all2 rel ys old'"
    using assms(3) by (auto simp: table_evolves_def)
  from ys zs(2) obtain a b where ab: "old' = a @ b" "list_all2 rel old a"
    by (auto simp: list_all2_append1)
  have "list_all2 rel xs a"
    using list_all2_trans [OF _ ys(2) ab(2), of rel] tr by blast
  then show ?thesis using zs(1) ab(1) by (auto simp: table_evolves_def)
qed

lemma run_evolves_refl [simp]: "run_evolves r r"
  by (simp add: run_evolves_def)

lemma run_evolves_trans: "run_evolves a b \<Longrightarrow> run_evolves b c \<Longrightarrow> run_evolves a c"
  by (auto simp: run_evolves_def)

lemma job_evolves_refl [simp]: "job_evolves j j"
  by (simp add: job_evolves_def)

lemma job_evolves_trans: "job_evolves a b \<Longrightarrow> job_evolves b c \<Longrightarrow> job_evolves a c"
  unfolding job_evolves_def by (cases "jb_status b") auto

interpretation evolve: two_state "store_evolves :: 'x store_scheme \<Rightarrow> 'x store_scheme \<Rightarrow> bool"
proof unfold_locales
  fix s :: "'x store_scheme"
  show "store_evolves s s"
    by (simp add: store_evolves_def table_evolves_refl)
next
  fix s t u :: "'x store_scheme"
  assume "store_evolves s t" "store_evolves t u"
  then show "store_evolves s u"
    unfolding store_evolves_def
    by (meson appended_trans table_evolves_trans run_evolves_trans job_evolves_trans order_trans)
qed

lemmas evolve_rules =
  evolve.obeys_intros evolve.obeys_writing

subsection \<open>Every statement respects the evolution relation\<close>

lemma evolves_jobs:
  "(\<And>j. j \<in> set (st_jobs s) \<Longrightarrow> p j \<Longrightarrow> job_evolves j (f j)) \<Longrightarrow>
     store_evolves s (s\<lparr>st_jobs := update_rows p f (st_jobs s)\<rparr>)"
  by (simp add: store_evolves_def table_evolves_refl table_evolves_update)

lemma evolves_runs:
  "(\<And>r. r \<in> set (st_runs s) \<Longrightarrow> p r \<Longrightarrow> run_evolves r (f r)) \<Longrightarrow>
     store_evolves s (s\<lparr>st_runs := update_rows p f (st_runs s)\<rparr>)"
  by (simp add: store_evolves_def table_evolves_refl table_evolves_update)

lemma evolves_appends:
  "store_evolves s (s\<lparr>st_runs := st_runs s @ runs\<rparr>)"
  "store_evolves s (s\<lparr>st_jobs := st_jobs s @ jobs\<rparr>)"
  "store_evolves s (s\<lparr>st_events := st_events s @ evs\<rparr>)"
  "store_evolves s (s\<lparr>st_versions := st_versions s @ vs\<rparr>)"
  "store_evolves s (s\<lparr>st_assignments := st_assignments s @ as\<rparr>)"
  "store_evolves s (s\<lparr>st_snapshots := st_snapshots s @ ns\<rparr>)"
  "store_evolves s (s\<lparr>st_idempotency := st_idempotency s @ is\<rparr>)"
  by (simp_all add: store_evolves_def table_evolves_refl table_evolves_append)

lemma evolves_uuid4: "obeys store_evolves uuid4"
  by (simp add: obeys_def uuid4_def store_evolves_def table_evolves_refl)

lemma evolves_write_progress_event: "obeys store_evolves (write_progress_event rid site actor st reason v req)"
  unfolding write_progress_event_def append_event_def
  by (intro evolve_rules evolves_uuid4 evolves_appends)

lemma evolves_actor_for_run: "obeys store_evolves (actor_for_run rid site)"
  by (auto simp: obeys_def actor_for_run_def evolve.rel_refl split: option.splits list.splits)

lemma evolves_request_or_fresh: "obeys store_evolves (request_or_fresh req)"
  unfolding request_or_fresh_def by (intro evolve_rules evolves_uuid4)

lemma evolves_claim_epoch: "obeys store_evolves (claim_epoch rid site epoch)"
  unfolding claim_epoch_def
  by (intro evolve_rules evolves_jobs) (auto simp: job_evolves_def)

lemma evolves_raise_transition_failure: "obeys store_evolves (raise_transition_failure rid site epoch target)"
  unfolding raise_transition_failure_def by (intro evolve_rules)

lemma evolves_cancel_transition:
  "\<not> terminal_status expected \<Longrightarrow> obeys store_evolves (cancel_transition rid site actor v expected st reason t)"
  unfolding cancel_transition_def
  by (intro evolve_rules evolves_runs evolves_uuid4 evolves_write_progress_event)
    (auto simp: run_evolves_def)

lemma evolves_mark_running: "obeys store_evolves (mark_running rid site epoch req)"
  unfolding mark_running_def
  by (intro evolve_rules evolves_runs evolves_claim_epoch evolves_raise_transition_failure
      evolves_actor_for_run evolves_request_or_fresh evolves_write_progress_event)
    (auto simp: run_evolves_def terminal_status_def)

lemma evolves_insert_candidate: "obeys store_evolves (insert_candidate rid site c)"
  unfolding insert_candidate_def insert_assignments_def by (intro evolve_rules evolves_appends)

lemma evolves_finalize_run: "obeys store_evolves (finalize_run rid site epoch st reason c fin req)"
  unfolding finalize_run_def
proof (intro evolve_rules evolves_runs evolves_claim_epoch evolves_insert_candidate
    evolves_raise_transition_failure evolves_actor_for_run evolves_request_or_fresh evolves_write_progress_event)
  fix s :: "'x store_scheme" and r :: run_row and f
  assume "is_run rid site r \<and> rn_status r \<in> set (finalize_expected_statuses st)"
  then have "\<not> terminal_status (rn_status r)"
    using finalize_edge run_edge_terminal by blast
  then show "run_evolves r (r\<lparr>rn_status := st, rn_reason := reason, rn_candidate_schedule_version_id := f,
      rn_resource_version := rn_resource_version r + 1,
      rn_finished_at := case c of None \<Rightarrow> (case fin of None \<Rightarrow> Some (st_now s) | Some t \<Rightarrow> Some t)
                        | Some c \<Rightarrow> sv_created_at c\<rparr>)"
    by (simp add: run_evolves_def)
qed

lemma evolves_create_queued_run: "obeys store_evolves (create_queued_run snapshot site actor)"
  unfolding create_queued_run_def
  by (simp only: prod.case split: option.split)
    (intro conjI allI impI evolve_rules evolves_appends evolves_uuid4 evolves_write_progress_event)

lemma evolves_enqueue_job: "obeys store_evolves (enqueue_job job site)"
  unfolding enqueue_job_def
  by (intro evolve_rules, simp only: prod.case split: option.split)
    (intro conjI allI impI evolve_rules evolves_appends)

lemma next_leaseableD:
  "next_leaseable locked s = Some j \<Longrightarrow> j \<in> set (st_jobs s) \<and> leaseable (st_now s) j \<and> jb_id j \<notin> set locked"
proof -
  assume next_eq: "next_leaseable locked s = Some j"
  let ?xs = "filter (\<lambda>j. leaseable (st_now s) j \<and> jb_id j \<notin> set locked) (st_jobs s)"
  obtain js where sorted: "sort_key (\<lambda>j. (jb_created_at j, jb_id j)) ?xs = j # js"
    using next_eq by (auto simp: next_leaseable_def split: list.splits)
  have "j \<in> set (sort_key (\<lambda>j. (jb_created_at j, jb_id j)) ?xs)"
    unfolding sorted by simp
  then show ?thesis by simp
qed

lemma leaseable_not_ended: "leaseable now j \<Longrightarrow> jb_status j \<notin> {JobCompleted, JobFailed}"
  by (auto simp: leaseable_def)

lemma distinct_map_eq: "distinct (map f xs) \<Longrightarrow> x \<in> set xs \<Longrightarrow> y \<in> set xs \<Longrightarrow> f x = f y \<Longrightarrow> x = y"
  by (auto simp: distinct_map inj_on_def)

text \<open>The lease update needs the primary key: it touches the one row it selected.\<close>

lemma evolves_sql_lease_next_job:
  assumes "distinct (map jb_id (st_jobs s))"
  shows "store_evolves s (snd (sql_lease_next_job locked owner secs s))"
proof (cases "next_leaseable locked s")
  case None
  then show ?thesis
    by (simp add: sql_lease_next_job_def action_defs evolve.rel_refl)
next
  case (Some job)
  note job = next_leaseableD [OF Some]
  have only: "j = job" if "j \<in> set (st_jobs s)" "jb_id j = jb_id job" for j
    using distinct_map_eq [OF assms that(1)] job that(2) by blast
  have fresh: "store_evolves s (s\<lparr>st_fresh := Suc (st_fresh s)\<rparr>)"
    by (simp add: store_evolves_def table_evolves_refl)
  have "store_evolves (s\<lparr>st_fresh := Suc (st_fresh s)\<rparr>)
      (s\<lparr>st_fresh := Suc (st_fresh s),
         st_jobs := update_rows (\<lambda>j. jb_id j = jb_id job) (leased_row owner secs (st_now s) (st_fresh s)) (st_jobs s)\<rparr>)"
    using evolves_jobs [of "s\<lparr>st_fresh := Suc (st_fresh s)\<rparr>" "\<lambda>j. jb_id j = jb_id job"
        "leased_row owner secs (st_now s) (st_fresh s)"] only leaseable_not_ended job
    by (fastforce simp: job_evolves_def leased_row_def)
  with fresh have "store_evolves s
      (s\<lparr>st_fresh := Suc (st_fresh s),
         st_jobs := update_rows (\<lambda>j. jb_id j = jb_id job) (leased_row owner secs (st_now s) (st_fresh s)) (st_jobs s)\<rparr>)"
    by (rule evolve.rel_trans)
  then show ?thesis
    using Some by (simp add: sql_lease_next_job_def action_defs uuid4_def evolve.rel_refl)
qed

lemma evolves_lease_next_job:
  assumes "distinct (map jb_id (st_jobs s))"
  shows "store_evolves s (snd (lease_next_job locked owner secs s))"
proof -
  have "snd (lease_next_job locked owner secs s) = snd (sql_lease_next_job locked owner secs s)"
    by (auto simp: lease_next_job_def new_job_lease_def action_defs split: prod.splits sum.splits option.splits)
  then show ?thesis using evolves_sql_lease_next_job [OF assms] by simp
qed

lemma evolves_renew_job_lease: "obeys store_evolves (renew_job_lease site jid epoch secs)"
  unfolding renew_job_lease_def Let_def
  by (intro evolve_rules evolves_jobs) (auto simp: job_evolves_def)

lemma evolves_end_job: "st \<noteq> JobQueued \<Longrightarrow> obeys store_evolves (end_job st jid site epoch)"
  unfolding end_job_def Let_def
  by (intro evolve_rules evolves_jobs) (auto simp: job_evolves_def)

lemma evolves_store_idempotent_result: "obeys store_evolves (store_idempotent_result site actor op key h p)"
  unfolding store_idempotent_result_def
  by (rule evolve.obeys_writing) (simp add: evolve.rel_refl evolves_appends)

lemma evolves_set_job_cancellation_requested: "obeys store_evolves (set_job_cancellation_requested rid site)"
  unfolding set_job_cancellation_requested_def
  by (intro evolve_rules evolves_jobs) (auto simp: job_evolves_def)

end
