(* ===== verification/Run_History.thy ===== *)
theory Run_History
  imports Run_Invariants
begin

text \<open>
  The statements of the run store keep \<open>store_ok\<close>. A successful transition of a run is one shape,
  \<open>advances\<close>: one run row moves along an edge of the state machine, its version grows by one, and one
  event with the next sequence number and that version is appended. The shape alone keeps the
  histories gap free, so each statement only has to be shown to have it.
\<close>

section \<open>Histories\<close>

definition advances :: "uuid \<Rightarrow> uuid \<Rightarrow> run_status \<Rightarrow> uuid option \<Rightarrow> 'x store_scheme \<Rightarrow> 'x store_scheme \<Rightarrow> bool" where
  "advances rid site st cand s s' \<longleftrightarrow> (\<exists>r r' e.
     r \<in> set (st_runs s) \<and> rn_id r = rid \<and> rn_site_id r = site \<and> run_edge (rn_status r) st
     \<and> rn_id r' = rid \<and> rn_site_id r' = site \<and> rn_status r' = st
     \<and> rn_resource_version r' = rn_resource_version r + 1 \<and> rn_candidate_schedule_version_id r' = cand
     \<and> st_runs s' = map (\<lambda>x. if rn_id x = rid then r' else x) (st_runs s)
     \<and> st_events s' = st_events s @ [e]
     \<and> ev_stream_id e = rid \<and> ev_site_id e = site \<and> ev_schedule_run_id e = rid
     \<and> ev_sequence e = next_sequence rid s \<and> ev_resource_version e = rn_resource_version r + 1
     \<and> event_status e = st \<and> ev_event_type e = run_event_types st)"

lemma fold_max_upt: "fold max (map int [Suc a..<Suc b]) (int a) = int (max a b)"
proof (induction b)
  case (Suc b)
  show ?case
  proof (cases "a \<le> b")
    case True
    then have "[Suc a..<Suc (Suc b)] = [Suc a..<Suc b] @ [Suc b]" by simp
    with Suc True show ?thesis by simp
  next
    case False
    then show ?thesis by simp
  qed
qed simp

lemma next_sequence_history:
  assumes "map ev_sequence (events_of rid s) = map int [1..<Suc (length (events_of rid s))]"
  shows "next_sequence rid s = int (length (events_of rid s)) + 1"
proof (cases "events_of rid s")
  case Nil
  then show ?thesis by (simp add: next_sequence_def)
next
  case (Cons e es)
  let ?n = "length (events_of rid s)"
  have n: "1 \<le> ?n" using Cons by simp
  then have "map ev_sequence (events_of rid s) = int 1 # map int [Suc 1..<Suc ?n]"
    using assms by (simp add: upt_conv_Cons)
  then show ?thesis
    using fold_max_upt [of 1 ?n] n by (simp add: next_sequence_def)
qed

lemma run_history_ok_snoc:
  assumes "run_history_ok r evs" and "run_edge (rn_status r) st"
    and "rn_id r' = rn_id r" "rn_site_id r' = rn_site_id r" "rn_status r' = st"
    and "rn_resource_version r' = rn_resource_version r + 1"
    and "ev_site_id e = rn_site_id r" "ev_schedule_run_id e = rn_id r"
    and "ev_sequence e = int (length evs) + 1" "ev_resource_version e = rn_resource_version r + 1"
    and "event_status e = st" "ev_event_type e = run_event_types st"
  shows "run_history_ok r' (evs @ [e])"
  using assms by (auto simp: run_history_ok_def successively_append_iff last_map)

lemma advances_runs_ok:
  assumes ok: "runs_ok s" and adv: "advances rid site st cand s s'"
  shows "runs_ok s'"
proof -
  obtain r r' e where r: "r \<in> set (st_runs s)" "rn_id r = rid" "rn_site_id r = site" "run_edge (rn_status r) st"
    and r': "rn_id r' = rid" "rn_site_id r' = site" "rn_status r' = st"
      "rn_resource_version r' = rn_resource_version r + 1"
    and runs: "st_runs s' = map (\<lambda>x. if rn_id x = rid then r' else x) (st_runs s)"
    and evs: "st_events s' = st_events s @ [e]" and stream: "ev_stream_id e = rid"
    and e: "ev_site_id e = site" "ev_schedule_run_id e = rid" "ev_sequence e = next_sequence rid s"
      "ev_resource_version e = rn_resource_version r + 1" "event_status e = st" "ev_event_type e = run_event_types st"
    using adv by (auto simp: advances_def)
  have hist: "run_history_ok r (events_of rid s)" using ok r by (auto simp: runs_ok_def)
  then have seq: "ev_sequence e = int (length (events_of rid s)) + 1"
    using next_sequence_history [of rid s] e(3) unfolding run_history_ok_def by metis
  have new: "run_history_ok r' (events_of rid s @ [e])"
    using run_history_ok_snoc [OF hist r(4)] r r' e seq by simp
  have of': "events_of i s' = (if i = rid then events_of rid s @ [e] else events_of i s)" for i
    using evs stream by (simp add: events_of_def)
  have ids: "map rn_id (st_runs s') = map rn_id (st_runs s)"
    unfolding runs using r' by simp
  have hists: "run_history_ok x (events_of (rn_id x) s')" if "x \<in> set (st_runs s')" for x
    using that new ok r' unfolding runs by (auto simp: of' runs_ok_def)
  have "rn_id ` set (st_runs s') = rn_id ` set (st_runs s)"
    using arg_cong [OF ids, of set] by simp
  then have "\<forall>x \<in> set (st_events s'). ev_stream_id x \<in> rn_id ` set (st_runs s')"
    using ok r evs stream by (auto simp: runs_ok_def)
  with ids hists ok show ?thesis by (simp add: runs_ok_def)
qed

text \<open>A statement that touches neither the runs nor the events keeps the histories.\<close>

lemma runs_ok_cong: "st_runs s' = st_runs s \<Longrightarrow> st_events s' = st_events s \<Longrightarrow> runs_ok s' = runs_ok s"
  by (simp add: runs_ok_def events_of_def)

lemma runs_ok_sequence: "runs_ok s \<Longrightarrow> r \<in> set (st_runs s) \<Longrightarrow>
  map ev_sequence (events_of (rn_id r) s) = map int [1..<Suc (length (events_of (rn_id r) s))]"
  by (simp add: runs_ok_def run_history_ok_def)

lemma run_unique:
  "runs_ok s \<Longrightarrow> r \<in> set (st_runs s) \<Longrightarrow> r' \<in> set (st_runs s) \<Longrightarrow> rn_id r = rn_id r' \<Longrightarrow> r = r'"
  unfolding runs_ok_def by (blast intro: distinct_map_eq)

text \<open>An update by primary key, whatever further condition the \<open>WHERE\<close> clause has.\<close>

lemma update_rows_by_id:
  assumes "runs_ok s" and "r \<in> set (st_runs s)" and "is_run rid site r" and "q r"
  shows "update_rows (\<lambda>r. is_run rid site r \<and> q r) f (st_runs s)
       = map (\<lambda>x. if rn_id x = rid then f r else x) (st_runs s)"
  unfolding update_rows_def
proof (rule map_cong [OF refl])
  fix x assume x: "x \<in> set (st_runs s)"
  show "(if is_run rid site x \<and> q x then f x else x) = (if rn_id x = rid then f r else x)"
  proof (cases "rn_id x = rid")
    case True
    then have "x = r" using run_unique [OF assms(1) x assms(2)] assms(3) by (simp add: is_run_def)
    then show ?thesis using True assms by simp
  next
    case False
    then show ?thesis by (simp add: is_run_def)
  qed
qed

section \<open>Candidates\<close>

lemma nonterminal_no_candidate:
  assumes "runs_ok s" "versions_ok s" "r \<in> set (st_runs s)" "\<not> terminal_status (rn_status r)"
  shows "rn_candidate_schedule_version_id r = None" "\<forall>v \<in> set (st_versions s). vr_schedule_run_id v \<noteq> rn_id r"
proof -
  show novr: "\<forall>v \<in> set (st_versions s). vr_schedule_run_id v \<noteq> rn_id r"
  proof
    fix v assume v: "v \<in> set (st_versions s)"
    obtain r' where "r' \<in> set (st_runs s)" "rn_id r' = vr_schedule_run_id v" "rn_status r' = SolverCompleted"
      using assms(2) v by (auto simp: versions_ok_def is_run_def)
    then show "vr_schedule_run_id v \<noteq> rn_id r"
      using run_unique [OF assms(1) assms(3), of r'] assms(4) by (auto simp: terminal_status_def)
  qed
  show "rn_candidate_schedule_version_id r = None"
    using novr assms(2,3) unfolding versions_ok_def by (metis option.exhaust)
qed

lemma advances_edge:
  "advances rid site st cand s s' \<Longrightarrow>
     \<exists>r \<in> set (st_runs s). rn_id r = rid \<and> rn_site_id r = site \<and> run_edge (rn_status r) st"
  by (auto simp: advances_def)

lemma advances_versions_ok:
  assumes runs: "runs_ok s" and ok: "versions_ok s" and adv: "advances rid site st cand s s'"
    and new: "(cand = None \<and> st_versions s' = st_versions s)
      \<or> (\<exists>v. cand = Some (vr_id v) \<and> st = SolverCompleted \<and> st_versions s' = st_versions s @ [v]
             \<and> vr_schedule_run_id v = rid \<and> vr_site_id v = site \<and> vr_id v \<notin> vr_id ` set (st_versions s))"
  shows "versions_ok s'"
proof -
  obtain r r' where r: "r \<in> set (st_runs s)" "rn_id r = rid" "rn_site_id r = site" "run_edge (rn_status r) st"
    and r': "rn_id r' = rid" "rn_site_id r' = site" "rn_status r' = st" "rn_candidate_schedule_version_id r' = cand"
    and runs': "st_runs s' = map (\<lambda>x. if rn_id x = rid then r' else x) (st_runs s)"
    using adv by (auto simp: advances_def)
  have "\<not> terminal_status (rn_status r)" using r(4) run_edge_terminal by blast
  then have none: "\<forall>v \<in> set (st_versions s). vr_schedule_run_id v \<noteq> rid"
    using nonterminal_no_candidate(2) [OF runs ok r(1)] r(2) by simp
  have mem_r': "r' \<in> set (st_runs s')" using runs' r by force
  have old: "\<exists>x \<in> set (st_runs s'). is_run (vr_schedule_run_id v) (vr_site_id v) x \<and> rn_status x = SolverCompleted
      \<and> rn_candidate_schedule_version_id x = Some (vr_id v)" if v: "v \<in> set (st_versions s)" for v
  proof -
    obtain x where x: "x \<in> set (st_runs s)" "is_run (vr_schedule_run_id v) (vr_site_id v) x"
      "rn_status x = SolverCompleted" "rn_candidate_schedule_version_id x = Some (vr_id v)"
      using ok v unfolding versions_ok_def by blast
    then have "rn_id x \<noteq> rid" using none v by (auto simp: is_run_def)
    then have "x \<in> set (st_runs s')" using x(1) unfolding runs' by force
    then show ?thesis using x by blast
  qed
  have cand_old: "\<exists>v \<in> set (st_versions s). vr_id v = c \<and> vr_schedule_run_id v = rn_id x"
    if "x \<in> set (st_runs s)" "rn_candidate_schedule_version_id x = Some c" for x c
    using ok that unfolding versions_ok_def by blast
  from new show ?thesis
  proof
    assume "cand = None \<and> st_versions s' = st_versions s"
    then show ?thesis
      using ok old cand_old r' unfolding versions_ok_def runs' by auto
  next
    assume "\<exists>v. cand = Some (vr_id v) \<and> st = SolverCompleted \<and> st_versions s' = st_versions s @ [v]
             \<and> vr_schedule_run_id v = rid \<and> vr_site_id v = site \<and> vr_id v \<notin> vr_id ` set (st_versions s)"
    then obtain v where v: "cand = Some (vr_id v)" "st = SolverCompleted" "st_versions s' = st_versions s @ [v]"
      "vr_schedule_run_id v = rid" "vr_site_id v = site" "vr_id v \<notin> vr_id ` set (st_versions s)" by blast
    have "\<exists>x \<in> set (st_runs s'). is_run (vr_schedule_run_id v) (vr_site_id v) x \<and> rn_status x = SolverCompleted
      \<and> rn_candidate_schedule_version_id x = Some (vr_id v)"
      using mem_r' r' v by (auto simp: is_run_def)
    moreover have "\<exists>w \<in> set (st_versions s'). vr_id w = c \<and> vr_schedule_run_id w = rn_id x"
      if "x \<in> set (st_runs s')" "rn_candidate_schedule_version_id x = Some c" for x c
      using that cand_old v r' unfolding runs' by (auto split: if_splits)
    ultimately show ?thesis
      using ok old none v unfolding versions_ok_def by (auto simp: image_iff)
  qed
qed

section \<open>Jobs\<close>

lemma jobs_ok_update:
  assumes "jobs_ok s" and "st_jobs s' = update_rows p f (st_jobs s)"
    and f: "\<And>j. j \<in> set (st_jobs s) \<Longrightarrow> p j \<Longrightarrow> jb_id (f j) = jb_id j \<and> jb_schedule_run_id (f j) = jb_schedule_run_id j
              \<and> jb_site_id (f j) = jb_site_id j \<and> job_ok (f j)"
    and runs: "\<And>r. r \<in> set (st_runs s) \<Longrightarrow> \<exists>r' \<in> set (st_runs s'). rn_id r' = rn_id r \<and> rn_site_id r' = rn_site_id r"
  shows "jobs_ok s'"
proof -
  let ?g = "\<lambda>j. if p j then f j else j"
  have jobs: "st_jobs s' = map ?g (st_jobs s)" using assms(2) by (simp add: update_rows_def)
  have keys: "map jb_id (st_jobs s') = map jb_id (st_jobs s)"
    "map jb_schedule_run_id (st_jobs s') = map jb_schedule_run_id (st_jobs s)"
    unfolding jobs using f by auto
  have rows: "job_ok (?g j) \<and> (\<exists>r \<in> set (st_runs s'). is_run (jb_schedule_run_id (?g j)) (jb_site_id (?g j)) r)"
    if j: "j \<in> set (st_jobs s)" for j
  proof -
    obtain r where "r \<in> set (st_runs s)" "is_run (jb_schedule_run_id j) (jb_site_id j) r"
      using assms(1) j by (auto simp: jobs_ok_def)
    then have "\<exists>r \<in> set (st_runs s'). is_run (jb_schedule_run_id j) (jb_site_id j) r"
      using runs by (fastforce simp: is_run_def)
    moreover have "job_ok j" using assms(1) j by (simp add: jobs_ok_def)
    ultimately show ?thesis using f [OF j] by simp
  qed
  have "\<forall>j \<in> set (st_jobs s'). job_ok j \<and> (\<exists>r \<in> set (st_runs s'). is_run (jb_schedule_run_id j) (jb_site_id j) r)"
    unfolding jobs set_map using rows by blast
  then show ?thesis
    using assms(1) keys unfolding jobs_ok_def by simp
qed

lemma jobs_ok_same_jobs:
  assumes "jobs_ok s" and "st_jobs s' = st_jobs s"
    and "\<And>r. r \<in> set (st_runs s) \<Longrightarrow> \<exists>r' \<in> set (st_runs s'). rn_id r' = rn_id r \<and> rn_site_id r' = rn_site_id r"
  shows "jobs_ok s'"
  using jobs_ok_update [OF assms(1), of s' "\<lambda>_. False"] assms(2,3) by (simp add: update_rows_def)

lemma advances_runs_remain:
  assumes "runs_ok s" and "advances rid site st cand s s'" and "r \<in> set (st_runs s)"
  shows "\<exists>r' \<in> set (st_runs s'). rn_id r' = rn_id r \<and> rn_site_id r' = rn_site_id r"
proof -
  obtain q q' where q: "q \<in> set (st_runs s)" "rn_id q = rid" "rn_site_id q = site" "rn_id q' = rid" "rn_site_id q' = site"
    and runs: "st_runs s' = map (\<lambda>x. if rn_id x = rid then q' else x) (st_runs s)"
    using assms(2) by (auto simp: advances_def)
  show ?thesis
  proof (cases "rn_id r = rid")
    case True
    then have "r = q" using run_unique [OF assms(1,3) q(1)] q(2) by simp
    moreover have "q' \<in> set (st_runs s')" using q(1,2) unfolding runs by force
    ultimately show ?thesis using q by auto
  next
    case False
    then have "r \<in> set (st_runs s')" using assms(3) unfolding runs by force
    then show ?thesis by blast
  qed
qed

lemma advances_store_ok:
  assumes ok: "store_ok s" and adv: "advances rid site st cand s s'"
    and new: "(cand = None \<and> st_versions s' = st_versions s)
      \<or> (\<exists>v. cand = Some (vr_id v) \<and> st = SolverCompleted \<and> st_versions s' = st_versions s @ [v]
             \<and> vr_schedule_run_id v = rid \<and> vr_site_id v = site \<and> vr_id v \<notin> vr_id ` set (st_versions s))"
    and jobs: "st_jobs s' = update_rows p (\<lambda>j. j\<lparr>jb_heartbeat_at := Some t\<rparr>) (st_jobs s)"
  shows "store_ok s'"
proof -
  have runs: "runs_ok s" and vers: "versions_ok s" and jbs: "jobs_ok s" using ok by (auto simp: store_ok_def)
  have "jobs_ok s'"
    using jbs by (intro jobs_ok_update [OF jbs jobs] advances_runs_remain [OF runs adv])
      (auto simp: jobs_ok_def job_ok_def split: if_splits)
  then show ?thesis
    using advances_runs_ok [OF runs adv] advances_versions_ok [OF runs vers adv new] by (simp add: store_ok_def)
qed

section \<open>The transitions have the shape\<close>

lemma length_filter_one: "length (filter p xs) = 1 \<Longrightarrow> \<exists>x \<in> set xs. p x"
  by (cases "filter p xs") (auto dest: filter_eq_ConsD)

lemma claim_epoch_InrD:
  assumes "claim_epoch rid site epoch s = (Inr x, s')"
  shows "has_current_epoch rid site epoch s"
    and "s' = s\<lparr>st_jobs := update_rows (fence rid site epoch) (\<lambda>j. j\<lparr>jb_heartbeat_at := Some (st_now s)\<rparr>) (st_jobs s)\<rparr>"
proof -
  have "length (filter (fence rid site epoch) (st_jobs s)) = 1"
    using assms by (auto simp: claim_epoch_def action_defs split: if_splits)
  then show "has_current_epoch rid site epoch s"
    unfolding has_current_epoch_def by (rule length_filter_one)
  show "s' = s\<lparr>st_jobs := update_rows (fence rid site epoch) (\<lambda>j. j\<lparr>jb_heartbeat_at := Some (st_now s)\<rparr>) (st_jobs s)\<rparr>"
    using assms by (auto simp: claim_epoch_def action_defs split: if_splits)
qed

lemma write_progress_event_eq:
  "write_progress_event rid site actor st reason v req s =
     (Inr (st_now s), append_event rid site actor st reason v req (st_fresh s) (s\<lparr>st_fresh := Suc (st_fresh s)\<rparr>))"
  by (simp add: write_progress_event_def action_defs uuid4_def append_event_def)

lemma actor_for_run_InrD: "actor_for_run rid site s = (Inr a, s') \<Longrightarrow> s' = s"
  by (auto simp: actor_for_run_def split: option.splits list.splits)

lemma request_or_fresh_InrD: "request_or_fresh req s = (Inr a, s') \<Longrightarrow> \<exists>n. s' = s\<lparr>st_fresh := n\<rparr>"
  by (auto simp: request_or_fresh_def ret_def uuid4_def split: option.splits intro: exI [of _ "st_fresh s"])

lemma raise_transition_failure_Inr [simp]: "raise_transition_failure rid site epoch st s = (Inr x, s') \<longleftrightarrow> False"
  by (auto simp: raise_transition_failure_def action_defs split: if_splits)

lemma event_tail:
  assumes "and_then (writing w) (\<lambda>_. and_then (actor_for_run rid site) (\<lambda>a. and_then (request_or_fresh req) (\<lambda>q.
      and_then (write_progress_event rid site a st reason v q) k))) t = (Inr x, s')"
    and "\<And>y u. k y u = (Inr x, s') \<Longrightarrow> s' = u"
  shows "\<exists>a b n m. s' = append_event rid site a st reason v b n ((w t)\<lparr>st_fresh := m\<rparr>)"
  using assms by (fastforce dest!: and_then_InrD writing_InrD actor_for_run_InrD request_or_fresh_InrD
      simp: write_progress_event_eq)

text \<open>Writing the row and then its event is an advance of the store before both.\<close>

lemma advance_by_event:
  assumes ok: "runs_ok s" and r: "r \<in> set (st_runs s)" "is_run rid site r" "q r"
    and edge: "run_edge (rn_status r) st"
    and f: "rn_id (f r) = rid" "rn_site_id (f r) = site" "rn_status (f r) = st"
      "rn_resource_version (f r) = rn_resource_version r + 1" "rn_candidate_schedule_version_id (f r) = cand"
    and t: "st_runs t = update_rows (\<lambda>r. is_run rid site r \<and> q r) f (st_runs s)" "st_events t = st_events s"
  shows "advances rid site st cand s (append_event rid site actor st reason (rn_resource_version r + 1) req act t)"
proof -
  have "next_sequence rid t = next_sequence rid s" using t(2) by (simp add: next_sequence_def events_of_def)
  then show ?thesis
    unfolding advances_def append_event_def
    using r edge f t update_rows_by_id [of s r rid site q f, OF ok r(1,2)] r(3)
    by (intro exI [of _ r] exI [of _ "f r"]) (simp add: is_run_def event_status_def)
qed

lemma find_SomeD: "find p xs = Some x \<Longrightarrow> x \<in> set xs \<and> p x"
  by (metis find_Some_iff nth_mem)

lemma and_then_ret: "and_then m ret = m"
  by (auto simp: fun_eq_iff and_then_def ret_def split: prod.splits sum.splits)

lemma mark_running_InrD:
  assumes "mark_running rid site epoch req s = (Inr x, s')"
  shows "\<exists>r a b n m. has_current_epoch rid site epoch s
    \<and> r \<in> set (st_runs s) \<and> is_run rid site r \<and> rn_status r = SolverQueued
    \<and> s' = append_event rid site a SolverRunning None (rn_resource_version r + 1) b n
        (s\<lparr>st_jobs := update_rows (fence rid site epoch) (\<lambda>j. j\<lparr>jb_heartbeat_at := Some (st_now s)\<rparr>) (st_jobs s),
           st_runs := update_rows (\<lambda>r. is_run rid site r \<and> rn_status r = SolverQueued)
             (\<lambda>r. r\<lparr>rn_status := SolverRunning, rn_resource_version := rn_resource_version r + 1\<rparr>) (st_runs s),
           st_fresh := m\<rparr>)"
proof -
  define w :: "'a store_scheme \<Rightarrow> 'a store_scheme" where
    "w = (\<lambda>s. s\<lparr>st_runs := update_rows (\<lambda>r. is_run rid site r \<and> rn_status r = SolverQueued)
             (\<lambda>r. r\<lparr>rn_status := SolverRunning, rn_resource_version := rn_resource_version r + 1\<rparr>) (st_runs s)\<rparr>)"
  obtain y t where cl: "claim_epoch rid site epoch s = (Inr y, t)"
    and rest: "and_then (reading (\<lambda>s. if has_current_epoch rid site epoch s
         then find (\<lambda>r. is_run rid site r \<and> rn_status r = SolverQueued) (st_runs s) else None)) (\<lambda>row.
     case row of
       None \<Rightarrow> raise_transition_failure rid site epoch SolverRunning
     | Some r \<Rightarrow> and_then (writing w) (\<lambda>_. and_then (actor_for_run rid site) (\<lambda>a. and_then (request_or_fresh req) (\<lambda>q.
         write_progress_event rid site a SolverRunning None (rn_resource_version r + 1) q)))) t = (Inr x, s')"
    using and_then_InrD [OF assms [unfolded mark_running_def]] unfolding w_def by blast
  note t = claim_epoch_InrD [OF cl]
  obtain r where "find (\<lambda>r. is_run rid site r \<and> rn_status r = SolverQueued) (st_runs t) = Some r"
    and tail: "and_then (writing w) (\<lambda>_. and_then (actor_for_run rid site) (\<lambda>a. and_then (request_or_fresh req) (\<lambda>q.
         and_then (write_progress_event rid site a SolverRunning None (rn_resource_version r + 1) q) ret))) t = (Inr x, s')"
    using rest by (auto dest!: and_then_InrD [of "reading _"] reading_InrD simp: and_then_ret split: option.splits if_splits)
  then have "r \<in> set (st_runs t) \<and> is_run rid site r \<and> rn_status r = SolverQueued"
    by (auto dest!: find_SomeD)
  moreover obtain a b n m where
    "s' = append_event rid site a SolverRunning None (rn_resource_version r + 1) b n ((w t)\<lparr>st_fresh := m\<rparr>)"
    using event_tail [OF tail] ret_InrD by metis
  ultimately show ?thesis
    using t unfolding w_def by (intro exI [of _ r] exI [of _ a] exI [of _ b] exI [of _ n] exI [of _ m]) simp
qed

lemma mark_running_advances:
  assumes ok: "store_ok s" and ran: "mark_running rid site epoch req s = (Inr x, s')"
  shows "advances rid site SolverRunning None s s'" "store_ok s'"
proof -
  let ?q = "\<lambda>r. rn_status r = SolverQueued"
  let ?f = "\<lambda>r. r\<lparr>rn_status := SolverRunning, rn_resource_version := rn_resource_version r + 1\<rparr>"
  have runs: "runs_ok s" and vers: "versions_ok s" using ok by (auto simp: store_ok_def)
  obtain r a b n m where r: "r \<in> set (st_runs s)" "is_run rid site r" "?q r"
    and s': "s' = append_event rid site a SolverRunning None (rn_resource_version r + 1) b n
        (s\<lparr>st_jobs := update_rows (fence rid site epoch) (\<lambda>j. j\<lparr>jb_heartbeat_at := Some (st_now s)\<rparr>) (st_jobs s),
           st_runs := update_rows (\<lambda>r. is_run rid site r \<and> ?q r) ?f (st_runs s), st_fresh := m\<rparr>)"
    using mark_running_InrD [OF ran] by blast
  have "rn_candidate_schedule_version_id r = None"
    using nonterminal_no_candidate(1) [OF runs vers r(1)] r(3) by (simp add: terminal_status_def)
  then show adv: "advances rid site SolverRunning None s s'"
    unfolding s' by (intro advance_by_event [where q = ?q and f = ?f]) (use r runs in \<open>simp_all add: is_run_def\<close>)
  show "store_ok s'"
    by (rule advances_store_ok [OF ok adv]) (simp_all add: s' append_event_def)
qed

lemma cancel_transition_InrD:
  assumes "cancel_transition rid site actor ver ex st reason fin s = (Inr x, s')"
  shows "\<exists>r a b n m. r \<in> set (st_runs s) \<and> is_run rid site r \<and> rn_status r = ex \<and> rn_resource_version r = ver
    \<and> s' = append_event rid site a st (Some reason) (rn_resource_version r + 1) b n
        (s\<lparr>st_runs := update_rows (\<lambda>r. is_run rid site r \<and> rn_status r = ex \<and> rn_resource_version r = ver)
             (\<lambda>r. r\<lparr>rn_status := st, rn_reason := Some reason, rn_resource_version := rn_resource_version r + 1,
                    rn_finished_at := (if fin then Some (st_now s) else rn_finished_at r)\<rparr>) (st_runs s),
           st_fresh := m\<rparr>)"
proof -
  let ?q = "\<lambda>r. is_run rid site r \<and> rn_status r = ex \<and> rn_resource_version r = ver"
  obtain r where r: "find ?q (st_runs s) = Some r"
    using assms by (auto simp: cancel_transition_def action_defs split: option.splits)
  then have mem: "r \<in> set (st_runs s) \<and> ?q r" by (blast dest: find_SomeD)
  have "s' = append_event rid site actor st (Some reason) (rn_resource_version r + 1) (st_fresh s) (Suc (st_fresh s))
      (s\<lparr>st_runs := update_rows ?q
           (\<lambda>r. r\<lparr>rn_status := st, rn_reason := Some reason, rn_resource_version := rn_resource_version r + 1,
                  rn_finished_at := (if fin then Some (st_now s) else rn_finished_at r)\<rparr>) (st_runs s),
         st_fresh := Suc (Suc (st_fresh s))\<rparr>)"
    using assms by (simp add: cancel_transition_def action_defs uuid4_def write_progress_event_eq r)
  with mem show ?thesis by blast
qed

lemma cancel_transition_advances:
  assumes ok: "store_ok s" and edge: "run_edge ex st"
    and ran: "cancel_transition rid site actor ver ex st reason fin s = (Inr x, s')"
  shows "advances rid site st None s s'" "store_ok s'"
proof -
  let ?q = "\<lambda>r. rn_status r = ex \<and> rn_resource_version r = ver"
  let ?f = "\<lambda>r. r\<lparr>rn_status := st, rn_reason := Some reason, rn_resource_version := rn_resource_version r + 1,
                  rn_finished_at := (if fin then Some (st_now s) else rn_finished_at r)\<rparr>"
  have runs: "runs_ok s" and vers: "versions_ok s" using ok by (auto simp: store_ok_def)
  obtain r a b n m where r: "r \<in> set (st_runs s)" "is_run rid site r" "?q r"
    and s': "s' = append_event rid site a st (Some reason) (rn_resource_version r + 1) b n
        (s\<lparr>st_runs := update_rows (\<lambda>r. is_run rid site r \<and> ?q r) ?f (st_runs s), st_fresh := m\<rparr>)"
    using cancel_transition_InrD [OF ran] by blast
  have "\<not> terminal_status (rn_status r)" using r(3) edge run_edge_terminal by blast
  then have "rn_candidate_schedule_version_id r = None"
    using nonterminal_no_candidate(1) [OF runs vers r(1)] by simp
  then show adv: "advances rid site st None s s'"
    unfolding s' by (intro advance_by_event [where q = ?q and f = ?f]) (use r runs edge in \<open>simp_all add: is_run_def\<close>)
  show "store_ok s'"
    by (rule advances_store_ok [OF ok adv, where p = "\<lambda>_. False"]) (simp_all add: s' append_event_def update_rows_def)
qed

subsection \<open>Finalization\<close>

lemma insert_candidate_InrD:
  assumes "insert_candidate rid site c s = (Inr i, s')"
  shows "\<exists>v as. sv_schedule_version_id c = Some i \<and> vr_id v = i \<and> vr_schedule_run_id v = rid \<and> vr_site_id v = site
    \<and> vr_payload v = c \<and> i \<notin> vr_id ` set (st_versions s) \<and> rid \<notin> vr_schedule_run_id ` set (st_versions s)
    \<and> s' = s\<lparr>st_versions := st_versions s @ [v], st_assignments := as\<rparr>"
proof -
  obtain v where v: "sv_schedule_version_id c = Some v"
    using assms by (auto simp: insert_candidate_def raise_def split: option.splits)
  let ?row = "\<lparr>vr_id = i, vr_site_id = site, vr_schedule_run_id = rid,
     vr_solver_status = sv_feasible_solver_status c, vr_payload = c, vr_created_at = sv_created_at c\<rparr>"
  show ?thesis
    using assms unfolding insert_candidate_def insert_assignments_def v
    by (intro exI [of _ ?row] exI [of _ "st_assignments s'"]) (auto simp: action_defs split: if_splits)
qed

definition insert_optional_candidate ::
  "uuid \<Rightarrow> uuid \<Rightarrow> schedule_version_v1 option \<Rightarrow> ('x store_scheme, app_error, uuid option) action" where
  "insert_optional_candidate rid site candidate = (case candidate of
      None \<Rightarrow> ret None
    | Some c \<Rightarrow> and_then (insert_candidate rid site c) (\<lambda>v. ret (Some v)))"

lemma insert_optional_candidate_InrD:
  assumes "insert_optional_candidate rid site candidate s = (Inr cand, s')"
  shows "\<exists>as vs. s' = s\<lparr>st_versions := st_versions s @ vs, st_assignments := as\<rparr>
    \<and> ((cand = None \<and> candidate = None \<and> vs = [])
       \<or> (\<exists>c v. candidate = Some c \<and> vs = [v] \<and> cand = Some (vr_id v) \<and> vr_payload v = c \<and> vr_schedule_run_id v = rid
             \<and> vr_site_id v = site \<and> vr_id v \<notin> vr_id ` set (st_versions s)))"
proof (cases candidate)
  case None
  then show ?thesis
    using assms by (auto simp: insert_optional_candidate_def ret_def intro!: exI [of _ "[]"] exI [of _ "st_assignments s"])
next
  case (Some c)
  then obtain i where i: "insert_candidate rid site c s = (Inr i, s')" and cand: "cand = Some i"
    using assms by (auto simp: insert_optional_candidate_def dest!: and_then_InrD ret_InrD)
  obtain v as where "vr_id v = i" "vr_schedule_run_id v = rid" "vr_site_id v = site" "vr_payload v = c"
    "i \<notin> vr_id ` set (st_versions s)" "s' = s\<lparr>st_versions := st_versions s @ [v], st_assignments := as\<rparr>"
    using insert_candidate_InrD [OF i] by blast
  then show ?thesis using Some cand by (intro exI [of _ as] exI [of _ "[v]"]) auto
qed

lemma finalize_run_InrD:
  assumes "finalize_run rid site epoch st reason candidate fin req s = (Inr x, s')"
  shows "\<exists>r a b n m f as vs cand. has_current_epoch rid site epoch s
    \<and> r \<in> set (st_runs s) \<and> is_run rid site r \<and> rn_status r \<in> set (finalize_expected_statuses st)
    \<and> rn_id (f r) = rn_id r \<and> rn_site_id (f r) = rn_site_id r \<and> rn_status (f r) = st
    \<and> rn_resource_version (f r) = rn_resource_version r + 1 \<and> rn_candidate_schedule_version_id (f r) = cand
    \<and> (cand \<noteq> None \<longrightarrow> st = SolverCompleted)
    \<and> ((cand = None \<and> candidate = None \<and> vs = [])
       \<or> (\<exists>c v. candidate = Some c \<and> vs = [v] \<and> cand = Some (vr_id v) \<and> vr_payload v = c \<and> vr_schedule_run_id v = rid
             \<and> vr_site_id v = site \<and> vr_id v \<notin> vr_id ` set (st_versions s)))
    \<and> s' = append_event rid site a st reason (rn_resource_version r + 1) b n
        (s\<lparr>st_jobs := update_rows (fence rid site epoch) (\<lambda>j. j\<lparr>jb_heartbeat_at := Some (st_now s)\<rparr>) (st_jobs s),
           st_versions := st_versions s @ vs, st_assignments := as,
           st_runs := update_rows (\<lambda>r. is_run rid site r \<and> rn_status r \<in> set (finalize_expected_statuses st)) f (st_runs s), st_fresh := m\<rparr>)"
proof -
  let ?q = "\<lambda>r. is_run rid site r \<and> rn_status r \<in> set (finalize_expected_statuses st)"
  define g :: "uuid option \<Rightarrow> instant \<Rightarrow> run_row \<Rightarrow> run_row" where
    "g cand now = (\<lambda>r. r\<lparr>rn_status := st, rn_reason := reason, rn_candidate_schedule_version_id := cand,
                    rn_resource_version := rn_resource_version r + 1,
                    rn_finished_at := (case candidate of
                       Some c \<Rightarrow> sv_created_at c
                     | None \<Rightarrow> (case fin of None \<Rightarrow> Some now | Some t \<Rightarrow> Some t))\<rparr>)" for cand now
  define w :: "uuid option \<Rightarrow> 'a store_scheme \<Rightarrow> 'a store_scheme" where
    "w cand = (\<lambda>s. s\<lparr>st_runs := update_rows ?q (g cand (st_now s)) (st_runs s)\<rparr>)" for cand
  have "\<exists>y t cand u r. claim_epoch rid site epoch s = (Inr y, t)
      \<and> insert_optional_candidate rid site candidate t = (Inr cand, u)
      \<and> find ?q (st_runs u) = Some r \<and> (cand \<noteq> None \<longrightarrow> st = SolverCompleted)
      \<and> and_then (writing (w cand)) (\<lambda>_. and_then (actor_for_run rid site) (\<lambda>a. and_then (request_or_fresh req) (\<lambda>q.
           and_then (write_progress_event rid site a st reason (rn_resource_version r + 1) q) (\<lambda>_. ret ())))) u = (Inr x, s')"
    using assms unfolding finalize_run_def w_def g_def insert_optional_candidate_def [symmetric]
    by (fastforce dest!: and_then_InrD [of "raise_if _ _"] and_then_InrD [of "reading _"] reading_InrD raise_if_InrD
        and_then_InrD [of "claim_epoch _ _ _"] and_then_InrD [of "insert_optional_candidate _ _ _"]
        split: option.splits if_splits)
  then obtain y t cand u r where cl: "claim_epoch rid site epoch s = (Inr y, t)"
    and ins: "insert_optional_candidate rid site candidate t = (Inr cand, u)"
    and r: "find ?q (st_runs u) = Some r" "cand \<noteq> None \<longrightarrow> st = SolverCompleted"
    and tail: "and_then (writing (w cand)) (\<lambda>_. and_then (actor_for_run rid site) (\<lambda>a. and_then (request_or_fresh req) (\<lambda>q.
           and_then (write_progress_event rid site a st reason (rn_resource_version r + 1) q) (\<lambda>_. ret ())))) u = (Inr x, s')"
    by blast
  note t = claim_epoch_InrD [OF cl]
  obtain a b n m where s': "s' = append_event rid site a st reason (rn_resource_version r + 1) b n ((w cand u)\<lparr>st_fresh := m\<rparr>)"
    using event_tail [OF tail] ret_InrD by metis
  obtain as vs where u: "u = t\<lparr>st_versions := st_versions t @ vs, st_assignments := as\<rparr>"
    and vs: "(cand = None \<and> candidate = None \<and> vs = [])
       \<or> (\<exists>c v. candidate = Some c \<and> vs = [v] \<and> cand = Some (vr_id v) \<and> vr_payload v = c \<and> vr_schedule_run_id v = rid
             \<and> vr_site_id v = site \<and> vr_id v \<notin> vr_id ` set (st_versions t))"
    using insert_optional_candidate_InrD [OF ins] by blast
  have "st_runs u = st_runs s" unfolding u t by simp
  then have "r \<in> set (st_runs s)" "?q r" using r(1) by (auto dest!: find_SomeD)
  then show ?thesis
    using t(1) r(2) vs s' unfolding u t(2) w_def
    by (intro exI [of _ r] exI [of _ a] exI [of _ b] exI [of _ n] exI [of _ m] exI [of _ "g cand (st_now s)"]
        exI [of _ as] exI [of _ vs] exI [of _ cand]) (simp add: g_def)
qed

lemma finalize_run_advances:
  assumes ok: "store_ok s" and ran: "finalize_run rid site epoch st reason candidate fin req s = (Inr x, s')"
  shows "\<exists>cand. advances rid site st cand s s' \<and> (cand = None \<longleftrightarrow> candidate = None)" "store_ok s'" "terminal_status st"
proof -
  let ?q = "\<lambda>r. rn_status r \<in> set (finalize_expected_statuses st)"
  have runs: "runs_ok s" and vers: "versions_ok s" using ok by (auto simp: store_ok_def)
  obtain r a b n m f as vs cand where r: "r \<in> set (st_runs s)" "is_run rid site r" "?q r"
    and f: "rn_id (f r) = rn_id r" "rn_site_id (f r) = rn_site_id r" "rn_status (f r) = st"
      "rn_resource_version (f r) = rn_resource_version r + 1" "rn_candidate_schedule_version_id (f r) = cand"
    and cand: "cand \<noteq> None \<longrightarrow> st = SolverCompleted"
    and vs: "(cand = None \<and> candidate = None \<and> vs = [])
       \<or> (\<exists>c v. candidate = Some c \<and> vs = [v] \<and> cand = Some (vr_id v) \<and> vr_payload v = c \<and> vr_schedule_run_id v = rid
             \<and> vr_site_id v = site \<and> vr_id v \<notin> vr_id ` set (st_versions s))"
    and s': "s' = append_event rid site a st reason (rn_resource_version r + 1) b n
        (s\<lparr>st_jobs := update_rows (fence rid site epoch) (\<lambda>j. j\<lparr>jb_heartbeat_at := Some (st_now s)\<rparr>) (st_jobs s),
           st_versions := st_versions s @ vs, st_assignments := as,
           st_runs := update_rows (\<lambda>r. is_run rid site r \<and> ?q r) f (st_runs s), st_fresh := m\<rparr>)"
    using finalize_run_InrD [OF ran] by blast
  have edge: "run_edge (rn_status r) st" and "terminal_status st" using finalize_edge r(3) by blast+
  then show "terminal_status st" by simp
  have adv: "advances rid site st cand s s'"
    unfolding s' by (intro advance_by_event [where q = ?q and f = f]) (use r runs f edge in \<open>simp_all add: is_run_def\<close>)
  then show "\<exists>cand. advances rid site st cand s s' \<and> (cand = None \<longleftrightarrow> candidate = None)" using vs by auto
  show "store_ok s'"
    by (rule advances_store_ok [OF ok adv]) (use vs cand in \<open>auto simp: s' append_event_def\<close>)
qed

section \<open>The queue statements\<close>

lemma runs_ok_new_run:
  assumes ok: "runs_ok s" and new: "rid \<notin> rn_id ` set (st_runs s)"
    and runs: "st_runs s' = st_runs s @ [r]" and r: "rn_id r = rid" "rn_status r = SolverQueued" "rn_resource_version r = 1"
    and evs: "st_events s' = st_events s @ [e]" and e: "ev_stream_id e = rid" "ev_site_id e = rn_site_id r"
      "ev_schedule_run_id e = rid" "ev_sequence e = next_sequence rid s" "ev_resource_version e = 1"
      "event_status e = SolverQueued" "ev_event_type e = run_event_types SolverQueued"
  shows "runs_ok s'"
proof -
  have none: "events_of rid s = []"
    using ok new by (auto simp: runs_ok_def events_of_def filter_empty_conv)
  then have seq: "ev_sequence e = 1" using e by (simp add: next_sequence_def)
  have of': "events_of i s' = (if i = rid then [e] else events_of i s)" for i
    using none evs e by (auto simp: events_of_def)
  have "run_history_ok r [e]"
    using r e seq by (simp add: run_history_ok_def)
  then have "run_history_ok x (events_of (rn_id x) s')" if "x \<in> set (st_runs s')" for x
    using that ok new runs r by (auto simp: runs_ok_def of' image_iff)
  then show ?thesis
    using ok new runs r evs e unfolding runs_ok_def by auto
qed

lemma create_queued_run_store_ok:
  assumes ok: "store_ok s" and ran: "create_queued_run snapshot site actor s = (Inr x, s')"
  shows "store_ok s'"
    and "\<exists>rid r. rs_schedule_run_id snapshot = Some rid \<and> st_runs s' = st_runs s @ [r] \<and> rn_id r = rid
           \<and> rn_site_id r = site \<and> rn_status r = SolverQueued \<and> rid \<notin> rn_id ` set (st_runs s)"
proof -
  obtain sid rid a b c d where ids: "rs_snapshot_id snapshot = Some sid" "rs_schedule_run_id snapshot = Some rid"
    "rs_scenario_id snapshot = Some a" "rs_scenario_version_id snapshot = Some b"
    "rs_proposal_id snapshot = Some c" "rs_proposal_version_id snapshot = Some d"
    using ran by (auto simp: create_queued_run_def raise_def split: option.splits)
  let ?r = "\<lparr>rn_id = rid, rn_site_id = site, rn_run_snapshot_id = sid,
                        rn_status = SolverQueued, rn_reason = None, rn_candidate_schedule_version_id = None,
                        rn_resource_version = 1, rn_created_at = st_now s, rn_finished_at = None\<rparr>"
  have new: "rid \<notin> rn_id ` set (st_runs s)"
    and s': "\<exists>ns m n. s' = append_event rid site actor SolverQueued None 1 m n
      (s\<lparr>st_snapshots := ns, st_runs := st_runs s @ [?r], st_fresh := Suc n\<rparr>)"
    using ran by (auto simp: create_queued_run_def ids action_defs uuid4_def write_progress_event_eq split: if_splits)
  then obtain ns m n where s': "s' = append_event rid site actor SolverQueued None 1 m n
      (s\<lparr>st_snapshots := ns, st_runs := st_runs s @ [?r], st_fresh := Suc n\<rparr>)" by blast
  have fields: "st_runs s' = st_runs s @ [?r]" "st_jobs s' = st_jobs s" "st_versions s' = st_versions s"
    by (simp_all add: s' append_event_def)
  have "runs_ok s'"
    by (rule runs_ok_new_run [where s = s and r = ?r and rid = rid and e = "last (st_events s')"])
      (use ok new in \<open>simp_all add: s' append_event_def store_ok_def event_status_def next_sequence_def events_of_def\<close>)
  moreover have "versions_ok s'" using ok fields unfolding store_ok_def versions_ok_def by auto
  moreover have "jobs_ok s'"
    by (rule jobs_ok_same_jobs [where s = s]) (use ok fields in \<open>auto simp: store_ok_def\<close>)
  ultimately show "store_ok s'" by (simp add: store_ok_def)
  show "\<exists>rid r. rs_schedule_run_id snapshot = Some rid \<and> st_runs s' = st_runs s @ [r] \<and> rn_id r = rid
           \<and> rn_site_id r = site \<and> rn_status r = SolverQueued \<and> rid \<notin> rn_id ` set (st_runs s)"
    using ids(2) fields(1) new by auto
qed

text \<open>A statement that only rewrites job rows.\<close>

lemma store_ok_jobs_update:
  assumes ok: "store_ok s" and jobs: "st_jobs s' = update_rows p f (st_jobs s)"
    and same: "st_runs s' = st_runs s" "st_events s' = st_events s" "st_versions s' = st_versions s"
    and f: "\<And>j. j \<in> set (st_jobs s) \<Longrightarrow> p j \<Longrightarrow> jb_id (f j) = jb_id j \<and> jb_schedule_run_id (f j) = jb_schedule_run_id j
              \<and> jb_site_id (f j) = jb_site_id j \<and> job_ok (f j)"
  shows "store_ok s'"
proof -
  have "jobs_ok s'" by (rule jobs_ok_update [OF _ jobs f]) (use ok same in \<open>auto simp: store_ok_def\<close>)
  moreover have "versions_ok s'" using ok same by (simp add: store_ok_def versions_ok_def)
  ultimately show ?thesis using ok same runs_ok_cong [of s' s] by (simp add: store_ok_def)
qed

lemma store_ok_job_ok: "store_ok s \<Longrightarrow> j \<in> set (st_jobs s) \<Longrightarrow> job_ok j"
  by (simp add: store_ok_def jobs_ok_def)

lemma job_ok_leased_row: "job_ok j \<Longrightarrow> job_ok (leased_row owner secs now attempt j)"
  by (auto simp: job_ok_def leased_row_def split: if_splits)

text \<open>A row that is well formed passes \<open>JobLeaseV1.__post_init__\<close>, so leasing never fails on it.\<close>

lemma job_lease_problem_job_ok: "job_ok j \<Longrightarrow> job_lease_problem (lease_of_row j) = None"
  by (cases "jb_status j") (auto simp: job_lease_problem_def lease_of_row_def job_ok_def)

lemma sql_lease_next_job_InrD:
  assumes "sql_lease_next_job locked owner secs s = (Inr row, s')"
  shows "(row = None \<and> next_leaseable locked s = None \<and> s' = s)
    \<or> (\<exists>job n. next_leaseable locked s = Some job \<and> 0 < secs
          \<and> s' = s\<lparr>st_fresh := Suc n, st_jobs := update_rows (\<lambda>j. jb_id j = jb_id job)
                   (leased_row owner secs (st_now s) n) (st_jobs s)\<rparr>
          \<and> row = find (\<lambda>j. jb_id j = jb_id job) (st_jobs s'))"
  using assms by (auto simp: sql_lease_next_job_def action_defs uuid4_def split: option.splits if_splits)

lemma sql_lease_next_job_store_ok:
  assumes ok: "store_ok s" and ran: "sql_lease_next_job locked owner secs s = (Inr row, s')"
  shows "store_ok s'"
  using sql_lease_next_job_InrD [OF ran]
proof (elim disjE exE conjE)
  fix job n
  assume "s' = s\<lparr>st_fresh := Suc n, st_jobs := update_rows (\<lambda>j. jb_id j = jb_id job)
                   (leased_row owner secs (st_now s) n) (st_jobs s)\<rparr>"
  then show ?thesis
    using ok by (intro store_ok_jobs_update [OF ok, where p = "\<lambda>j. jb_id j = jb_id job" and f = "leased_row owner secs (st_now s) n"])
      (auto simp: job_ok_leased_row store_ok_job_ok, simp_all add: leased_row_def)
qed (use ok in simp)

lemma lease_next_job_total:
  assumes "store_ok s" and "sql_lease_next_job locked owner secs s = (Inr row, s')"
  shows "lease_next_job locked owner secs s = (Inr (map_option lease_of_row row), s')"
proof (cases row)
  case None
  then show ?thesis using assms(2) by (simp add: lease_next_job_def and_then_def ret_def)
next
  case (Some j)
  have "j \<in> set (st_jobs s')"
    using sql_lease_next_job_InrD [OF assms(2)] Some by (auto dest: find_SomeD [OF sym])
  then have "job_lease_problem (lease_of_row j) = None"
    using sql_lease_next_job_store_ok [OF assms] store_ok_job_ok job_lease_problem_job_ok by blast
  then show ?thesis
    using assms(2) Some by (simp add: lease_next_job_def and_then_def ret_def new_job_lease_def)
qed

lemma lease_next_job_InrD:
  "lease_next_job locked owner secs s = (Inr l, s') \<Longrightarrow>
     \<exists>row. sql_lease_next_job locked owner secs s = (Inr row, s') \<and> l = map_option lease_of_row row"
  by (auto simp: lease_next_job_def new_job_lease_def raise_def dest!: and_then_InrD ret_InrD split: option.splits)

lemma renew_job_lease_store_ok:
  assumes ok: "store_ok s" and ran: "renew_job_lease site jid epoch secs s = (Inr x, s')"
  shows "store_ok s'"
proof -
  let ?p = "\<lambda>j. jb_id j = jid \<and> jb_site_id j = site \<and> jb_status j = JobLeased \<and> jb_fencing_epoch j = epoch"
  let ?f = "\<lambda>j. j\<lparr>jb_lease_expires_at := Some (st_now s + secs), jb_heartbeat_at := Some (st_now s)\<rparr>"
  have "s' = s\<lparr>st_jobs := update_rows ?p ?f (st_jobs s)\<rparr>"
    using ran by (auto simp: renew_job_lease_def Let_def action_defs split: if_splits)
  then show ?thesis
    using store_ok_job_ok [OF ok]
    by (intro store_ok_jobs_update [OF ok, where p = ?p and f = ?f]) (auto simp: job_ok_def split: if_splits)
qed

lemma set_job_cancellation_requested_store_ok:
  assumes ok: "store_ok s" and ran: "set_job_cancellation_requested rid site s = (Inr x, s')"
  shows "store_ok s'"
proof -
  have "s' = s\<lparr>st_jobs := update_rows (is_job_of rid site) (\<lambda>j. j\<lparr>jb_cancellation_requested := True\<rparr>) (st_jobs s)\<rparr>"
    using ran by (simp add: set_job_cancellation_requested_def writing_def)
  then show ?thesis
    using store_ok_job_ok [OF ok]
    by (intro store_ok_jobs_update [OF ok, where p = "is_job_of rid site"
        and f = "\<lambda>j. j\<lparr>jb_cancellation_requested := True\<rparr>"]) (auto simp: job_ok_def)
qed

lemma end_job_InrD:
  assumes "end_job st jid site epoch s = (Inr x, s')"
  shows "(\<exists>j \<in> set (st_jobs s). jb_id j = jid \<and> jb_site_id j = site \<and> jb_status j = JobLeased \<and> jb_fencing_epoch j = epoch)
    \<and> s' = s\<lparr>st_jobs := update_rows (\<lambda>j. jb_id j = jid \<and> jb_site_id j = site \<and> jb_status j = JobLeased \<and> jb_fencing_epoch j = epoch)
        (\<lambda>j. j\<lparr>jb_status := st, jb_heartbeat_at := Some (st_now s)\<rparr>) (st_jobs s)\<rparr>"
proof -
  let ?p = "\<lambda>j. jb_id j = jid \<and> jb_site_id j = site \<and> jb_status j = JobLeased \<and> jb_fencing_epoch j = epoch"
  have one: "length (filter ?p (st_jobs s)) = 1"
    and s': "s' = s\<lparr>st_jobs := update_rows ?p (\<lambda>j. j\<lparr>jb_status := st, jb_heartbeat_at := Some (st_now s)\<rparr>) (st_jobs s)\<rparr>"
    using assms by (auto simp: end_job_def Let_def action_defs split: if_splits)
  show ?thesis using length_filter_one [OF one] s' by blast
qed

lemma end_job_store_ok:
  assumes ok: "store_ok s" and "st \<noteq> JobQueued" and ran: "end_job st jid site epoch s = (Inr x, s')"
  shows "store_ok s'"
  using end_job_InrD [OF ran] store_ok_job_ok [OF ok] assms(2)
  by (intro store_ok_jobs_update [OF ok, where
        p = "\<lambda>j. jb_id j = jid \<and> jb_site_id j = site \<and> jb_status j = JobLeased \<and> jb_fencing_epoch j = epoch"
        and f = "\<lambda>j. j\<lparr>jb_status := st, jb_heartbeat_at := Some (st_now s)\<rparr>"])
    (auto simp: job_ok_def split: if_splits)

text \<open>A job enters the queue well formed: \<open>enqueue_job\<close> is called with a validated queued lease of epoch 0.\<close>

lemma enqueue_job_store_ok:
  assumes ok: "store_ok s" and ran: "enqueue_job job site s = (Inr x, s')"
    and valid: "job_lease_problem job = None" "jl_status job = JobQueued" "jl_fencing_epoch job = 0"
  shows "store_ok s'"
proof -
  obtain i ty rid a t where ids: "jl_job_id job = Some i" "jl_job_type job = Some ty" "jl_schedule_run_id job = Some rid"
    "jl_actor_id job = Some a" "jl_created_at job = Some t"
    using ran by (auto simp: enqueue_job_def action_defs split: option.splits if_splits)
  define j where "j = \<lparr>jb_id = i, jb_site_id = site, jb_job_type = ty, jb_status = jl_status job,
             jb_schedule_run_id = rid, jb_actor_id = a, jb_attempt_id = jl_attempt_id job,
             jb_contract_version = jl_contract_version job, jb_capability_version = jl_capability_version job,
             jb_idempotency_key = jl_idempotency_key job, jb_lease_owner = jl_lease_owner job,
             jb_lease_expires_at = jl_lease_expires_at job, jb_heartbeat_at = jl_heartbeat_at job,
             jb_fencing_epoch = jl_fencing_epoch job, jb_cancellation_requested = jl_cancellation_requested job,
             jb_created_at = t\<rparr>"
  have s': "s' = s\<lparr>st_jobs := st_jobs s @ [j]\<rparr>" and new: "jb_id j \<notin> jb_id ` set (st_jobs s)"
    "jb_schedule_run_id j \<notin> jb_schedule_run_id ` set (st_jobs s)"
    and run: "find_run (jb_schedule_run_id j) (jb_site_id j) s \<noteq> None"
    using ran unfolding enqueue_job_def by (simp_all add: ids j_def action_defs image_iff split: if_splits) auto
  have "job_ok j" using valid by (auto simp: j_def job_ok_def job_lease_problem_def split: if_splits)
  have "\<exists>r \<in> set (st_runs s). is_run (jb_schedule_run_id j) (jb_site_id j) r"
    using run by (auto simp: find_run_def dest: find_SomeD)
  then have "jobs_ok s'" using ok s' new \<open>job_ok j\<close> by (auto simp: store_ok_def jobs_ok_def)
  moreover have "versions_ok s'" using ok s' by (simp add: store_ok_def versions_ok_def)
  ultimately show ?thesis using ok s' runs_ok_cong [of s' s] by (simp add: store_ok_def)
qed

lemma store_ok_cong:
  "st_runs s' = st_runs s \<Longrightarrow> st_events s' = st_events s \<Longrightarrow> st_versions s' = st_versions s \<Longrightarrow> st_jobs s' = st_jobs s
    \<Longrightarrow> store_ok s' = store_ok s"
  by (simp add: store_ok_def runs_ok_def versions_ok_def jobs_ok_def events_of_def)

lemma store_idempotent_result_store_ok:
  "store_ok s \<Longrightarrow> store_idempotent_result site actor op key h p s = (Inr x, s') \<Longrightarrow> store_ok s'"
  by (rule store_ok_cong [THEN iffD2, of _ s]) (auto simp: store_idempotent_result_def writing_def split: if_splits)

end
