(* ===== verification/Wire.thy ===== *)
theory Wire
  imports Prelude
begin

text \<open>
  The texts that leave the process and come back: the textual form of a UUID and its parser, the
  resume cursor of an event stream (\<^verbatim>\<open>application/contracts/stream_cursor.py\<close>) and canonical
  JSON, over which every contract digest is taken (\<^verbatim>\<open>application/contracts/canonical.py\<close>).
  A \<open>string\<close> holds code points up to 255, so surrogates do not occur; the UTF-16 order of the
  property names is then the order of the code points.
\<close>

section \<open>Digits\<close>

definition digit_char :: "nat \<Rightarrow> char" where
  "digit_char d = (if d < 10 then char_of (48 + d) else char_of (87 + d))"

definition digit_value :: "char \<Rightarrow> nat option" where
  "digit_value c =
     (let n = of_char c :: nat in
      if 48 \<le> n \<and> n \<le> 57 then Some (n - 48)
      else if 97 \<le> n \<and> n \<le> 102 then Some (n - 87)
      else if 65 \<le> n \<and> n \<le> 70 then Some (n - 55)
      else None)"

definition is_digit :: "nat \<Rightarrow> char \<Rightarrow> bool" where
  "is_digit base c = (case digit_value c of None \<Rightarrow> False | Some d \<Rightarrow> d < base)"

text \<open>The \<open>k\<close> low digits of a number, most significant first.\<close>

fun digits_of :: "nat \<Rightarrow> nat \<Rightarrow> nat \<Rightarrow> string" where
  "digits_of base 0 n = []"
| "digits_of base (Suc k) n = digits_of base k (n div base) @ [digit_char (n mod base)]"

definition digits_value :: "nat \<Rightarrow> string \<Rightarrow> nat" where
  "digits_value base s = foldl (\<lambda>acc c. acc * base + get_or 0 (digit_value c)) 0 s"

text \<open>\<open>str(n)\<close> of an integer.\<close>

function str_nat :: "nat \<Rightarrow> string" where
  "str_nat n = (if n < 10 then [digit_char n] else str_nat (n div 10) @ [digit_char (n mod 10)])"
  by auto
termination by (relation "measure id") auto

declare str_nat.simps [simp del]

definition str_int :: "int \<Rightarrow> string" where
  "str_int i = (if i < 0 then CHR ''-'' # str_nat (nat (- i)) else str_nat (nat i))"

section \<open>UUID text\<close>

definition str_uuid :: "uuid \<Rightarrow> string" where
  "str_uuid u =
     (let h = digits_of 16 32 u in
      take 8 h @ ''-'' @ take 4 (drop 8 h) @ ''-'' @ take 4 (drop 12 h) @ ''-''
        @ take 4 (drop 16 h) @ ''-'' @ drop 20 h)"

text \<open>\<open>s.strip(chars)\<close>.\<close>

definition strip_chars :: "(char \<Rightarrow> bool) \<Rightarrow> string \<Rightarrow> string" where
  "strip_chars p s = rev (dropWhile p (rev (dropWhile p s)))"

definition is_space :: "char \<Rightarrow> bool" where
  "is_space c \<longleftrightarrow> (let n = of_char c :: nat in n \<in> {9, 10, 11, 12, 13, 28, 29, 30, 31, 32, 133, 160})"

text \<open>The digits of an \<open>int(s, 16)\<close> literal, in which single underscores may separate digits.\<close>

fun underscored_digits :: "bool \<Rightarrow> string \<Rightarrow> string option" where
  "underscored_digits after_digit [] = (if after_digit then Some [] else None)"
| "underscored_digits after_digit (c # cs) =
     (if c = CHR ''_'' then (if after_digit then underscored_digits False cs else None)
      else if is_digit 16 c then map_option ((#) c) (underscored_digits True cs)
      else None)"

definition drop_hex_prefix :: "string \<Rightarrow> string" where
  "drop_hex_prefix s = (case s of
      CHR ''0'' # c # cs \<Rightarrow>
        (if c \<in> {CHR ''x'', CHR ''X''}
         then (case cs of d # ds \<Rightarrow> (if d = CHR ''_'' then ds else cs) | [] \<Rightarrow> cs)
         else s)
    | _ \<Rightarrow> s)"

definition int_base16 :: "string \<Rightarrow> int option" where
  "int_base16 text =
     (let s = strip_chars is_space text;
          negative = (case s of c # _ \<Rightarrow> c = CHR ''-'' | [] \<Rightarrow> False);
          unsigned = (case s of c # cs \<Rightarrow> (if c \<in> {CHR ''-'', CHR ''+''} then cs else s) | [] \<Rightarrow> s)
      in map_option (\<lambda>ds. let n = int (digits_value 16 ds) in if negative then - n else n)
           (underscored_digits False (drop_hex_prefix unsigned)))"

text \<open>\<open>UUID(text)\<close> for a text without a colon, where the \<open>urn:\<close> and \<open>uuid:\<close> prefixes cannot occur.\<close>

definition parse_uuid :: "string \<Rightarrow> uuid option" where
  "parse_uuid text =
     (let hex = filter (\<lambda>c. c \<noteq> CHR ''-'') (strip_chars (\<lambda>c. c \<in> {CHR ''{'', CHR ''}''}) text) in
      if length hex \<noteq> 32 then None
      else (case int_base16 hex of
              None \<Rightarrow> None
            | Some i \<Rightarrow> if 0 \<le> i \<and> i < 2 ^ 128 then Some (nat i) else None))"

section \<open>Stream cursors\<close>

record stream_cursor_v1 =
  scu_stream_id :: uuid
  scu_sequence :: nat

definition max_sequence_digits :: nat where
  "max_sequence_digits = 38"

definition sequence_re :: "string \<Rightarrow> bool" where
  "sequence_re s \<longleftrightarrow> 1 \<le> length s \<and> length s \<le> max_sequence_digits \<and> list_all (is_digit 10) s"

text \<open>\<open>None\<close> is \<open>CURSOR_REJECTED\<close>, the one value every malformed input collapses to.\<close>

definition parse_stream_cursor :: "string \<Rightarrow> stream_cursor_v1 option" where
  "parse_stream_cursor raw =
     (let (stream_text, sequence_text) = partition_at CHR '':'' raw in
      if CHR '':'' \<notin> set raw \<or> stream_text = [] then None
      else if \<not> sequence_re sequence_text then None
      else (case parse_uuid stream_text of
              None \<Rightarrow> None
            | Some stream_id \<Rightarrow>
                Some \<lparr>scu_stream_id = stream_id, scu_sequence = digits_value 10 sequence_text\<rparr>))"

definition format_event_id :: "uuid \<Rightarrow> nat \<Rightarrow> string" where
  "format_event_id stream_id sequence = str_uuid stream_id @ '':'' @ str_nat sequence"

section \<open>Canonical JSON\<close>

datatype json =
    JNull
  | JBool bool
  | JString string
  | JInt int
  | JFloat float_value
  | JList "json list"
  | JObject "(string \<times> json) list"

definition escape_char :: "char \<Rightarrow> string" where
  "escape_char c =
     (let n = of_char c :: nat in
      if n = 34 then [char_of (92 :: nat), c]
      else if n = 92 then [c, c]
      else if n = 10 then [char_of (92 :: nat), CHR ''n'']
      else if n = 13 then [char_of (92 :: nat), CHR ''r'']
      else if n = 9 then [char_of (92 :: nat), CHR ''t'']
      else if n = 8 then [char_of (92 :: nat), CHR ''b'']
      else if n = 12 then [char_of (92 :: nat), CHR ''f'']
      else if n < 32 then [char_of (92 :: nat), CHR ''u''] @ digits_of 16 4 n
      else [c])"

definition quote_string :: "string \<Rightarrow> string" where
  "quote_string s = char_of (34 :: nat) # concat (map escape_char s) @ [char_of (34 :: nat)]"

text \<open>Whether an integer is exactly an IEEE 754 double: at most 53 significant bits, below \<open>2 ^ 1024\<close>.\<close>

function odd_part :: "nat \<Rightarrow> nat" where
  "odd_part n = (if n = 0 \<or> odd n then n else odd_part (n div 2))"
  by auto
termination by (relation "measure id") auto

declare odd_part.simps [simp del]

definition is_double :: "int \<Rightarrow> bool" where
  "is_double i \<longleftrightarrow> odd_part (nat \<bar>i\<bar>) < 2 ^ 53 \<and> \<bar>i\<bar> < 2 ^ 1024"

text \<open>\<open>float_text\<close> is the text \<open>_serialize_float\<close> gives a non-zero double: \<open>repr\<close> of the float,
  reformatted through \<open>Decimal\<close>. Both belong to Python's floating point, which is a parameter here.\<close>

definition serialize_float :: "(float_value \<Rightarrow> string) \<Rightarrow> float_value \<Rightarrow> string" where
  "serialize_float float_text v = (if v = 0 then ''0'' else float_text v)"

definition serialize_number :: "(float_value \<Rightarrow> string) \<Rightarrow> int \<Rightarrow> string option" where
  "serialize_number float_text i =
     (if - (2 ^ 53) \<le> i \<and> i \<le> 2 ^ 53 then Some (str_int i)
      else if is_double i then Some (serialize_float float_text (of_int i))
      else None)"

fun join_comma :: "string list \<Rightarrow> string" where
  "join_comma [] = []"
| "join_comma [x] = x"
| "join_comma (x # y # xs) = x @ '','' @ join_comma (y # xs)"

fun those_map :: "('a \<Rightarrow> 'b option) \<Rightarrow> 'a list \<Rightarrow> 'b list option" where
  "those_map f [] = Some []"
| "those_map f (x # xs) =
     (case f x of None \<Rightarrow> None | Some y \<Rightarrow> map_option ((#) y) (those_map f xs))"

lemma those_map_cong [fundef_cong]:
  "xs = ys \<Longrightarrow> (\<And>x. x \<in> set ys \<Longrightarrow> f x = g x) \<Longrightarrow> those_map f xs = those_map g ys"
  by (induction ys arbitrary: xs) (auto split: option.splits)

text \<open>\<open>None\<close> is the \<open>ValueError\<close> of an integer that is not a double. A \<open>dict\<close> is the list of its items
  in insertion order; the members are written in the order of their names.\<close>

fun serialize :: "(float_value \<Rightarrow> string) \<Rightarrow> json \<Rightarrow> string option" where
  "serialize ft JNull = Some ''null''"
| "serialize ft (JBool b) = Some (if b then ''true'' else ''false'')"
| "serialize ft (JString s) = Some (quote_string s)"
| "serialize ft (JInt i) = serialize_number ft i"
| "serialize ft (JFloat v) = Some (serialize_float ft v)"
| "serialize ft (JList xs) =
     map_option (\<lambda>ts. ''['' @ join_comma ts @ '']'') (those_map (serialize ft) xs)"
| "serialize ft (JObject kvs) =
     map_option (\<lambda>ts. ''{'' @ join_comma ts @ ''}'')
       (those_map (\<lambda>kv. map_option (\<lambda>t. quote_string (fst kv) @ '':'' @ t) (serialize ft (snd kv)))
          (sort_key fst kvs))"

definition contract_digest ::
  "(string \<Rightarrow> string) \<Rightarrow> (float_value \<Rightarrow> string) \<Rightarrow> json \<Rightarrow> (string \<times> string \<times> string) option" where
  "contract_digest sha256 float_text v =
     map_option (\<lambda>t. (''sha256'', ''rfc8785-v1'', sha256 t)) (serialize float_text v)"

end
