(* ===== verification/Run_Use_Cases.thy ===== *)
theory Run_Use_Cases
  imports Run_History Candidate_Metrics Wire
begin

text \<open>
  The commands on schedule runs (\<^verbatim>\<open>src/backend/application/use_cases\<close>): finalizing a solver outcome,
  leasing and executing one job, and cancelling a run.

  The worker runs several transactions. Other sessions commit between them, and also between a
  transaction's first reads and its first write, when it holds no row lock yet. The record
  \<open>other_sessions\<close> names what they do at each of these points; the theorems assume only that it obeys
  the store's own rules. Once a transaction has written the job row, no other session can change
  that job or its run before it ends, since every command takes the job row first. Telemetry is
  write-only and its failures are swallowed, so it is left out.
\<close>

section \<open>Finalization\<close>

record finalized_schedule_run_v1 =
  fz_status :: run_status
  fz_reason :: "string option"
  fz_candidate :: "schedule_version_v1 option"

definition terminal_of :: "solver_outcome_v1 \<Rightarrow> run_status \<times> string option" where
  "terminal_of outcome =
     (if so_reason outcome = Some ''cancelled'' then (SolverCancelled, Some ''cancelled'')
      else if so_reason outcome = Some ''deterministic_budget_exhausted'' then (SolverFailed, Some ''budget_exhausted'')
      else if so_reason outcome \<notin> {None, Some []} then (SolverFailed, so_reason outcome)
      else (case so_solver_status outcome of
              INFEASIBLE \<Rightarrow> (SolverInfeasible, Some ''model_infeasible'')
            | MODEL_INVALID \<Rightarrow> (SolverFailed, Some ''model_invalid'')
            | UNKNOWN \<Rightarrow> (SolverTimedOut, Some ''budget_exhausted'')
            | OPTIMAL \<Rightarrow> (SolverCompleted, None)
            | FEASIBLE \<Rightarrow> (SolverCompleted, None)))"

text \<open>The exceptions of the metrics calculation: only \<open>HardConstraintViolation\<close> is caught.\<close>

definition metrics_exception :: "metrics_error \<Rightarrow> app_error" where
  "metrics_exception e = (case e of
      NoQualifiedWorker _ _ \<Rightarrow> ValueError ''no qualified worker for a volume row''
    | ZeroAverageRate _ \<Rightarrow> ZeroDivisionError
    | UnknownWorker w \<Rightarrow> KeyError w)"

definition new_candidate ::
  "run_snapshot_v1 \<Rightarrow> solver_outcome_v1 \<Rightarrow> metric_set_v1 \<Rightarrow> constraint_result_v1 list \<Rightarrow> uuid \<Rightarrow> instant
   \<Rightarrow> schedule_version_v1" where
  "new_candidate snapshot outcome metrics results version_id now =
     \<lparr>sv_schedule_version_id = Some version_id,
      sv_schedule_run_id = rs_schedule_run_id snapshot,
      sv_scenario_id = rs_scenario_id snapshot,
      sv_scenario_version_id = rs_scenario_version_id snapshot,
      sv_proposal_id = rs_proposal_id snapshot,
      sv_proposal_version_id = rs_proposal_version_id snapshot,
      sv_feasible_solver_status = Some (so_solver_status outcome),
      sv_assignments = so_assignments outcome,
      sv_metrics = Some metrics,
      sv_constraint_results = results,
      sv_warnings = so_warnings outcome,
      sv_evidence_refs = map (\<lambda>r. r\<lparr>er_producing_run_version := Some (str_uuid version_id)\<rparr>)
                           (rs_input_evidence_refs snapshot),
      sv_created_at = Some now\<rparr>"

text \<open>The terminal status, its reason and the candidate the outcome leads to.\<close>

definition judge_outcome ::
  "run_snapshot_v1 \<Rightarrow> solver_outcome_v1 \<Rightarrow> ('x store_scheme, app_error, finalized_schedule_run_v1) action" where
  "judge_outcome snapshot outcome =
     (let (status, reason) = terminal_of outcome;
          without_candidate = (\<lambda>st re. ret \<lparr>fz_status = st, fz_reason = re, fz_candidate = None\<rparr>)
      in if status \<noteq> SolverCompleted then without_candidate status reason
         else (case so_validation_facts outcome of
                 None \<Rightarrow> without_candidate SolverFailed (Some ''validation_facts_missing'')
               | Some facts \<Rightarrow>
                   (case require_hard_constraints (so_assignments outcome) facts (rs_preserved_locks snapshot) of
                      Inl _ \<Rightarrow> without_candidate SolverFailed (Some ''hard_constraint_violated'')
                    | Inr hard \<Rightarrow>
                        (case calculate_candidate_metrics (so_assignments outcome) (vf_tasks facts)
                                (vf_demand_intervals facts) facts (rs_constraints snapshot) of
                           Inl e \<Rightarrow> raise (metrics_exception e)
                         | Inr (metrics, soft) \<Rightarrow>
                             and_then uuid4 (\<lambda>version_id.
                             and_then (reading st_now) (\<lambda>now.
                             ret \<lparr>fz_status = status, fz_reason = reason,
                                  fz_candidate = Some (new_candidate snapshot outcome metrics (hard @ soft) version_id now)\<rparr>))))))"

definition finalize_schedule_run ::
  "run_snapshot_v1 \<Rightarrow> solver_outcome_v1 \<Rightarrow> uuid \<Rightarrow> int \<Rightarrow> uuid option
   \<Rightarrow> ('x store_scheme, app_error, finalized_schedule_run_v1) action" where
  "finalize_schedule_run snapshot outcome site_id fencing_epoch request_id =
     (case rs_schedule_run_id snapshot of
        None \<Rightarrow> raise (AssertionError ''snapshot.schedule_run_id'')
      | Some run_id \<Rightarrow>
          and_then (judge_outcome snapshot outcome) (\<lambda>result.
          and_then (reading st_now) (\<lambda>now.
          and_then (finalize_run run_id site_id fencing_epoch (fz_status result) (fz_reason result)
                      (fz_candidate result) (Some now) request_id) (\<lambda>_.
          ret result))))"

section \<open>Execution\<close>

text \<open>\<open>solve\<close> is the scheduler: it reads the store through the connection and returns an outcome, or
  raises; \<open>Inl\<close> carries the exception's \<open>code\<close>, if it has one.\<close>

type_synonym 's scheduler = "'s \<Rightarrow> run_snapshot_v1 \<Rightarrow> string option + solver_outcome_v1"

definition failed_outcome :: "string option \<Rightarrow> solver_outcome_v1" where
  "failed_outcome code =
     \<lparr>so_solver_status = UNKNOWN, so_assignments = [], so_metrics = None, so_constraint_results = [],
      so_warnings = [], so_evidence_refs = [], so_round1_value = None, so_round2_value = None,
      so_wall_time_seconds = 0, so_validation_facts = None,
      so_reason = Some (get_or ''solver_adapter_failed'' code)\<rparr>"

definition solve_outcome :: "'s scheduler \<Rightarrow> 's \<Rightarrow> run_snapshot_v1 \<Rightarrow> solver_outcome_v1" where
  "solve_outcome solve s snapshot = (case solve s snapshot of Inl code \<Rightarrow> failed_outcome code | Inr o1 \<Rightarrow> o1)"

text \<open>\<open>execute_schedule_run\<close> up to the outcome: argument checks and the solve. It writes nothing.\<close>

definition execute_solve ::
  "'x store_scheme scheduler \<Rightarrow> run_snapshot_v1 \<Rightarrow> int \<Rightarrow> ('x store_scheme, app_error, solver_outcome_v1) action" where
  "execute_solve solve snapshot lease_seconds =
     and_then (raise_if (rs_schedule_run_id snapshot = None) (AssertionError ''snapshot.schedule_run_id'')) (\<lambda>_.
     and_then (raise_if (lease_seconds \<le> 0) (ValueError ''lease_seconds must be positive to renew a lease'')) (\<lambda>_.
     reading (\<lambda>s. solve_outcome solve s snapshot)))"

text \<open>The heartbeat thread while the solve runs: one renewal per tick, each in a transaction of its own.
  \<open>ticks\<close> is what the other sessions and the clock did before each tick.\<close>

record heartbeat_observations_v1 =
  ho_lost_lease :: bool
  ho_cancellation_requested :: bool
  ho_error :: "app_error option"

fun heartbeat ::
  "uuid \<Rightarrow> uuid \<Rightarrow> int \<Rightarrow> int \<Rightarrow> ('x store_scheme \<Rightarrow> 'x store_scheme) list \<Rightarrow> heartbeat_observations_v1
   \<Rightarrow> 'x store_scheme \<Rightarrow> heartbeat_observations_v1 \<times> 'x store_scheme" where
  "heartbeat site_id job_id epoch seconds [] obs s = (obs, s)"
| "heartbeat site_id job_id epoch seconds (elapse # ticks) obs s =
     (case transaction (renew_job_lease site_id job_id epoch seconds) (elapse s) of
        (Inl e, s') \<Rightarrow>
          heartbeat site_id job_id epoch seconds ticks
            (if ho_error obs = None then obs\<lparr>ho_error := Some e\<rparr> else obs) s'
      | (Inr renewal, s') \<Rightarrow>
          (let obs' = (if ln_cancellation_requested renewal then obs\<lparr>ho_cancellation_requested := True\<rparr> else obs) in
           if \<not> ln_renewed renewal then (obs'\<lparr>ho_lost_lease := True\<rparr>, s')
           else heartbeat site_id job_id epoch seconds ticks obs' s'))"

definition heartbeat_interval :: "int \<Rightarrow> int" where
  "heartbeat_interval lease_seconds = max 1 (lease_seconds div 3)"

record 's other_sessions =
  os_in_a :: "'s \<Rightarrow> 's"
  os_between :: "'s \<Rightarrow> 's"
  os_in_b :: "'s \<Rightarrow> 's"
  os_before_recovery :: "'s \<Rightarrow> 's"
  os_in_recovery :: "'s \<Rightarrow> 's"

text \<open>A transaction that first reads without holding a lock, and then writes.\<close>

definition committing ::
  "('s, 'e, 'a) action \<Rightarrow> ('s \<Rightarrow> 's) \<Rightarrow> ('a \<Rightarrow> ('s, 'e, 'b) action) \<Rightarrow> ('s, 'e, 'b) action" where
  "committing reads others writes =
     and_then reads (\<lambda>x. and_then (writing others) (\<lambda>_. transaction (writes x)))"

section \<open>One leased job\<close>

record lease_outcome_v1 =
  lo_job_id :: uuid
  lo_attempt_id :: uuid
  lo_schedule_run_id :: uuid
  lo_status :: run_status

text \<open>The lease the worker holds, its identifiers checked by the assertions on entry.\<close>

record held_lease =
  hl_job_id :: uuid
  hl_attempt_id :: uuid
  hl_schedule_run_id :: uuid
  hl_site_id :: uuid
  hl_fencing_epoch :: int

definition held_of :: "job_lease_v1 \<Rightarrow> ('s, app_error, held_lease) action" where
  "held_of lease = (case (jl_job_id lease, jl_attempt_id lease, jl_schedule_run_id lease, jl_site_id lease) of
      (Some j, Some a, Some r, Some s) \<Rightarrow>
        ret \<lparr>hl_job_id = j, hl_attempt_id = a, hl_schedule_run_id = r, hl_site_id = s,
             hl_fencing_epoch = jl_fencing_epoch lease\<rparr>
    | _ \<Rightarrow> raise (AssertionError ''lease identifiers''))"

definition outcome_of :: "held_lease \<Rightarrow> run_status \<Rightarrow> lease_outcome_v1" where
  "outcome_of l status = \<lparr>lo_job_id = hl_job_id l, lo_attempt_id = hl_attempt_id l,
     lo_schedule_run_id = hl_schedule_run_id l, lo_status = status\<rparr>"

definition state_of_lease :: "held_lease \<Rightarrow> 'x store_scheme \<Rightarrow> (run_status \<times> int) option" where
  "state_of_lease l = get_run_state (hl_schedule_run_id l) (hl_site_id l)"

definition complete_lease :: "held_lease \<Rightarrow> ('x store_scheme, app_error, unit) action" where
  "complete_lease l = complete_job (hl_job_id l) (hl_site_id l) (hl_fencing_epoch l)"

definition cancel_lease :: "held_lease \<Rightarrow> ('x store_scheme, app_error, unit) action" where
  "cancel_lease l = finalize_run (hl_schedule_run_id l) (hl_site_id l) (hl_fencing_epoch l) SolverCancelled
     (Some ''cancelled'') None None (Some (hl_attempt_id l))"

text \<open>One pass of transaction A's loop body for the state that was read. \<open>None\<close> leaves the loop with
  \<open>break\<close>, \<open>Some\<close> returns; \<open>again\<close> is the next pass.\<close>

definition transaction_a_pass ::
  "held_lease \<Rightarrow> (app_error \<Rightarrow> ('x store_scheme, app_error, lease_outcome_v1 option) action option) \<Rightarrow> (run_status \<times> int) option
   \<Rightarrow> ('x store_scheme, app_error, lease_outcome_v1 option) action" where
  "transaction_a_pass l again state = (case state of
      None \<Rightarrow> raise (FatalJobError ''leased job references a missing schedule run'')
    | Some (status, _) \<Rightarrow>
        (if status = SolverQueued
         then catching (and_then (mark_running (hl_schedule_run_id l) (hl_site_id l) (hl_fencing_epoch l) (Some (hl_attempt_id l)))
                          (\<lambda>_. ret None)) again
         else if status = SolverRunning then ret None
         else if status = CancellationRequested
         then and_then (cancel_lease l) (\<lambda>_. and_then (complete_lease l) (\<lambda>_. ret (Some (outcome_of l SolverCancelled))))
         else and_then (complete_lease l) (\<lambda>_. ret (Some (outcome_of l status)))))"

definition transaction_a_writes ::
  "held_lease \<Rightarrow> (run_status \<times> int) option \<Rightarrow> ('x store_scheme, app_error, lease_outcome_v1 option) action" where
  "transaction_a_writes l state =
     transaction_a_pass l (\<lambda>e. case e of
         RunTransitionConflictError _ \<Rightarrow>
           Some (and_then (reading (state_of_lease l)) (transaction_a_pass l (\<lambda>_. None)))
       | _ \<Rightarrow> None) state"

definition transaction_a ::
  "'x store_scheme other_sessions \<Rightarrow> held_lease
   \<Rightarrow> ('x store_scheme, app_error, run_snapshot_v1 \<times> lease_outcome_v1 option) action" where
  "transaction_a others l =
     committing
       (and_then (reading (load_snapshot (hl_schedule_run_id l) (hl_site_id l))) (\<lambda>snapshot.
        case snapshot of
          None \<Rightarrow> raise (FatalJobError ''leased job references a missing run snapshot'')
        | Some n \<Rightarrow> reading (\<lambda>s. (n, state_of_lease l s))))
       (os_in_a others)
       (\<lambda>(snapshot, state). and_then (transaction_a_writes l state) (\<lambda>r. ret (snapshot, r)))"

datatype b_work = CancelIt | Finalize solver_outcome_v1 | AlreadyTerminal run_status

definition transaction_b_reads ::
  "'x store_scheme scheduler \<Rightarrow> held_lease \<Rightarrow> run_snapshot_v1 \<Rightarrow> int \<Rightarrow> ('x store_scheme, app_error, b_work) action" where
  "transaction_b_reads solve l snapshot lease_seconds =
     and_then (reading (state_of_lease l)) (\<lambda>state. case state of
         None \<Rightarrow> raise (FatalJobError ''leased job references a missing schedule run'')
       | Some (status, _) \<Rightarrow>
           (if status = CancellationRequested then ret CancelIt
            else if status = SolverRunning
            then and_then (execute_solve solve snapshot lease_seconds) (\<lambda>outcome. ret (Finalize outcome))
            else ret (AlreadyTerminal status)))"

definition transaction_b_writes ::
  "held_lease \<Rightarrow> run_snapshot_v1 \<Rightarrow> b_work \<Rightarrow> ('x store_scheme, app_error, lease_outcome_v1) action" where
  "transaction_b_writes l snapshot work =
     and_then (case work of
         CancelIt \<Rightarrow> and_then (cancel_lease l) (\<lambda>_. ret SolverCancelled)
       | Finalize outcome \<Rightarrow>
           and_then (finalize_schedule_run snapshot outcome (hl_site_id l) (hl_fencing_epoch l) (Some (hl_attempt_id l)))
             (\<lambda>f. ret (fz_status f))
       | AlreadyTerminal status \<Rightarrow> ret status) (\<lambda>status.
     and_then (complete_lease l) (\<lambda>_. ret (outcome_of l status)))"

definition execute_leased_schedule_run ::
  "'x store_scheme other_sessions \<Rightarrow> 'x store_scheme scheduler \<Rightarrow> held_lease \<Rightarrow> int
   \<Rightarrow> ('x store_scheme, app_error, lease_outcome_v1) action" where
  "execute_leased_schedule_run others solve l lease_seconds =
     and_then (transaction_a others l) (\<lambda>(snapshot, early). case early of
         Some result \<Rightarrow> ret result
       | None \<Rightarrow>
           and_then (writing (os_between others)) (\<lambda>_.
           committing (transaction_b_reads solve l snapshot lease_seconds) (os_in_b others)
             (transaction_b_writes l snapshot)))"

definition fatal_execution_error :: "app_error \<Rightarrow> bool" where
  "fatal_execution_error e = (case e of
      FatalJobError _ \<Rightarrow> True | RunTransitionConflictError _ \<Rightarrow> True | IllegalTransitionError \<Rightarrow> True | _ \<Rightarrow> False)"

definition terminal_statuses :: "run_status list" where
  "terminal_statuses = [SolverCompleted, SolverInfeasible, SolverTimedOut, SolverCancelled, SolverFailed]"

text \<open>Whatever goes wrong in the recovery transaction, the original cause is what is raised.\<close>

definition record_fatal_failure ::
  "'x store_scheme other_sessions \<Rightarrow> held_lease \<Rightarrow> app_error \<Rightarrow> ('x store_scheme, app_error, run_status) action" where
  "record_fatal_failure others l cause =
     catching
       (committing (reading (state_of_lease l)) (os_in_recovery others) (\<lambda>state. case state of
            None \<Rightarrow> raise cause
          | Some (current, _) \<Rightarrow>
              and_then
                (if current \<in> set terminal_statuses then ret current
                 else (let (status, reason) =
                             (if current = CancellationRequested then (SolverCancelled, ''cancelled'')
                              else (SolverFailed, ''job_execution_failed''))
                       in and_then (finalize_run (hl_schedule_run_id l) (hl_site_id l) (hl_fencing_epoch l) status
                                     (Some reason) None None (Some (hl_attempt_id l))) (\<lambda>_. ret status))) (\<lambda>status.
              and_then (fail_job (hl_job_id l) (hl_site_id l) (hl_fencing_epoch l)) (\<lambda>_. ret status))))
       (\<lambda>_. Some (raise cause))"

definition run_lease ::
  "'x store_scheme other_sessions \<Rightarrow> 'x store_scheme scheduler \<Rightarrow> held_lease \<Rightarrow> int
   \<Rightarrow> ('x store_scheme, app_error, lease_outcome_v1) action" where
  "run_lease others solve l lease_seconds =
     catching (execute_leased_schedule_run others solve l lease_seconds) (\<lambda>e.
       if fatal_execution_error e
       then Some (and_then (writing (os_before_recovery others)) (\<lambda>_.
                  and_then (record_fatal_failure others l e) (\<lambda>status. ret (outcome_of l status))))
       else None)"

text \<open>The lease itself commits on its own connection before the work starts.\<close>

definition lease_and_execute_schedule_run ::
  "uuid list \<Rightarrow> 'x store_scheme other_sessions \<Rightarrow> 'x store_scheme scheduler \<Rightarrow> string \<Rightarrow> int
   \<Rightarrow> ('x store_scheme, app_error, lease_outcome_v1 option) action" where
  "lease_and_execute_schedule_run locked others solve lease_owner lease_seconds =
     and_then (transaction (lease_next_job locked lease_owner lease_seconds)) (\<lambda>lease. case lease of
         None \<Rightarrow> ret None
       | Some j \<Rightarrow>
           and_then (held_of j) (\<lambda>l.
           and_then (run_lease others solve l lease_seconds) (\<lambda>r. ret (Some r))))"

definition run_once ::
  "uuid list \<Rightarrow> 'x store_scheme other_sessions \<Rightarrow> 'x store_scheme scheduler \<Rightarrow> string \<Rightarrow> int
   \<Rightarrow> ('x store_scheme, app_error, lease_outcome_v1 option) action" where
  "run_once locked others solve lease_owner lease_seconds =
     and_then (raise_if (lease_seconds \<le> 0) (ValueError ''lease_seconds must be positive'')) (\<lambda>_.
     lease_and_execute_schedule_run locked others solve lease_owner lease_seconds)"

definition default_lease_seconds :: "int option \<Rightarrow> float_value \<Rightarrow> int" where
  "default_lease_seconds configured budget =
     (let derived = max 60 (ceiling (budget * 4)) in
      case configured of None \<Rightarrow> derived | Some c \<Rightarrow> max derived c)"

section \<open>Cancellation\<close>

record hashing =
  hs_sha256 :: "string \<Rightarrow> string"
  hs_float_text :: "float_value \<Rightarrow> string"

definition digest_of :: "hashing \<Rightarrow> json \<Rightarrow> ('s, app_error, string) action" where
  "digest_of h v = (case contract_digest (hs_sha256 h) (hs_float_text h) v of
      None \<Rightarrow> raise (ValueError ''RFC 8785 integers must be exactly representable'')
    | Some (_, _, d) \<Rightarrow> ret d)"

record schedule_run_cancellation_v1 =
  cc_schedule_run_id :: uuid
  cc_status :: run_status
  cc_reason :: string
  cc_resource_version :: int
  cc_cancellation_requested :: bool

definition cancel_operation :: "uuid \<Rightarrow> string" where
  "cancel_operation run_id = ''cancel_schedule_run:'' @ str_uuid run_id"

definition cancel_body :: "uuid \<Rightarrow> int \<Rightarrow> json" where
  "cancel_body run_id version =
     JObject [(''run_id'', JString (str_uuid run_id)), (''expected_resource_version'', JInt version)]"

definition cancellation_of_payload :: "idempotent_payload \<Rightarrow> ('s, app_error, schedule_run_cancellation_v1) action" where
  "cancellation_of_payload p = (case p of
      CancelPayload run_id status reason version requested \<Rightarrow>
        ret \<lparr>cc_schedule_run_id = run_id, cc_status = status, cc_reason = reason,
             cc_resource_version = version, cc_cancellation_requested = requested\<rparr>
    | _ \<Rightarrow> raise (KeyError ''status''))"

definition payload_of_cancellation :: "schedule_run_cancellation_v1 \<Rightarrow> idempotent_payload" where
  "payload_of_cancellation c = CancelPayload (cc_schedule_run_id c) (cc_status c) (cc_reason c)
     (cc_resource_version c) (cc_cancellation_requested c)"

record cancel_request =
  cq_run_id :: uuid
  cq_site_id :: uuid
  cq_actor_id :: uuid
  cq_expected_resource_version :: int
  cq_idempotency_key :: string

definition stored_cancellation ::
  "cancel_request \<Rightarrow> 'x store_scheme \<Rightarrow> (string \<times> idempotent_payload) option" where
  "stored_cancellation q = get_idempotent_result (cq_site_id q) (cq_actor_id q) (cancel_operation (cq_run_id q))
     (cq_idempotency_key q)"

definition replay_cancellation ::
  "string \<Rightarrow> string \<times> idempotent_payload \<Rightarrow> ('s, app_error, schedule_run_cancellation_v1) action" where
  "replay_cancellation body_hash stored =
     and_then (raise_if (fst stored \<noteq> body_hash) IdempotencyKeyConflictError) (\<lambda>_.
     cancellation_of_payload (snd stored))"

definition resolve_lost_race ::
  "cancel_request \<Rightarrow> string \<Rightarrow> ('x store_scheme, app_error, schedule_run_cancellation_v1 option) action" where
  "resolve_lost_race q body_hash =
     and_then (reading (stored_cancellation q)) (\<lambda>replayed. case replayed of
         Some stored \<Rightarrow> and_then (replay_cancellation body_hash stored) (\<lambda>r. ret (Some r))
       | None \<Rightarrow>
           and_then (reading (get_run_state (cq_run_id q) (cq_site_id q))) (\<lambda>current. case current of
               None \<Rightarrow> ret None
             | Some (_, version) \<Rightarrow>
                 if version \<noteq> cq_expected_resource_version q
                 then raise (StaleResourceVersionError (cq_expected_resource_version q) version)
                 else raise CommandNotCancellableError))"

text \<open>The reads and guards of the command: \<open>Inl\<close> is a result returned without a write, \<open>Inr\<close> the
  status it found and the hash of the body.\<close>

definition cancel_reads ::
  "hashing \<Rightarrow> cancel_request \<Rightarrow>
   ('x store_scheme, app_error, schedule_run_cancellation_v1 option + run_status \<times> int \<times> string) action" where
  "cancel_reads h q =
     and_then (raise_if (cq_idempotency_key q = [] \<or> length (cq_idempotency_key q) > max_idempotency_key_length)
                 CancelScheduleRunError) (\<lambda>_.
     and_then (reading (get_run_state (cq_run_id q) (cq_site_id q))) (\<lambda>state. case state of
         None \<Rightarrow> ret (Inl None)
       | Some (status, version) \<Rightarrow>
           and_then (digest_of h (cancel_body (cq_run_id q) (cq_expected_resource_version q))) (\<lambda>body_hash.
           and_then (reading (stored_cancellation q)) (\<lambda>stored. case stored of
               Some st \<Rightarrow> and_then (replay_cancellation body_hash st) (\<lambda>r. ret (Inl (Some r)))
             | None \<Rightarrow>
                 and_then (raise_if (version \<noteq> cq_expected_resource_version q)
                    (StaleResourceVersionError (cq_expected_resource_version q) version)) (\<lambda>_.
                 and_then (raise_if (status \<notin> {SolverQueued, SolverRunning, CancellationRequested})
                    CommandNotCancellableError) (\<lambda>_.
                 ret (Inr (status, version, body_hash))))))))"

definition cancellation_result :: "uuid \<Rightarrow> run_status \<Rightarrow> int \<Rightarrow> schedule_run_cancellation_v1" where
  "cancellation_result run_id status version =
     \<lparr>cc_schedule_run_id = run_id,
      cc_status = (if status = SolverQueued then SolverCancelled else CancellationRequested),
      cc_reason = (if status = SolverQueued then ''cancelled'' else ''cancellation_requested''),
      cc_resource_version = (if status = CancellationRequested then version else version + 1),
      cc_cancellation_requested = False\<rparr>"

definition cancel_edge :: "cancel_request \<Rightarrow> run_status \<Rightarrow> ('x store_scheme, app_error, unit) action" where
  "cancel_edge q status =
     (if status = SolverQueued
      then cancel_queued_run (cq_run_id q) (cq_site_id q) (cq_actor_id q) (cq_expected_resource_version q)
      else if status = SolverRunning
      then request_cancellation (cq_run_id q) (cq_site_id q) (cq_actor_id q) (cq_expected_resource_version q)
      else ret ())"

definition cancel_writes ::
  "cancel_request \<Rightarrow> schedule_run_cancellation_v1 option + run_status \<times> int \<times> string
   \<Rightarrow> ('x store_scheme, app_error, schedule_run_cancellation_v1 option) action" where
  "cancel_writes q found = (case found of
      Inl result \<Rightarrow> ret result
    | Inr (status, version, body_hash) \<Rightarrow>
        and_then (only_if (status \<in> {SolverQueued, SolverRunning})
                    (set_job_cancellation_requested (cq_run_id q) (cq_site_id q))) (\<lambda>_.
        and_then (catching (and_then (cancel_edge q status) (\<lambda>_. ret (Inr ())))
                   (\<lambda>e. if e = RunNotCancellableError
                        then Some (and_then (resolve_lost_race q body_hash) (\<lambda>r. ret (Inl r))) else None)) (\<lambda>edge.
        case edge of
          Inl replayed \<Rightarrow> ret replayed
        | Inr _ \<Rightarrow>
            and_then (reading (get_job_cancellation_requested (cq_run_id q) (cq_site_id q))) (\<lambda>requested.
            let result = (cancellation_result (cq_run_id q) status version)\<lparr>cc_cancellation_requested := requested\<rparr> in
            and_then (store_idempotent_result (cq_site_id q) (cq_actor_id q) (cancel_operation (cq_run_id q))
                       (cq_idempotency_key q) body_hash (payload_of_cancellation result)) (\<lambda>_.
            ret (Some result))))))"

definition cancel_schedule_run ::
  "hashing \<Rightarrow> ('x store_scheme \<Rightarrow> 'x store_scheme) \<Rightarrow> cancel_request
   \<Rightarrow> ('x store_scheme, app_error, schedule_run_cancellation_v1 option) action" where
  "cancel_schedule_run h others q = committing (cancel_reads h q) others (cancel_writes q)"

end
