(* ===== verification/Run_Safety.thy ===== *)
theory Run_Safety
  imports Run_Use_Cases
begin

text \<open>
  Safety of the run commands. \<open>ok_evolves\<close> combines the store invariant with the evolution relation; a
  transaction obeys it as soon as its successful executions do (\<open>commits_ok\<close>), since a failed one is
  rolled back. The commands obey it whatever the other sessions do in between, as long as those obey
  it too.
\<close>

section \<open>Transactions keep the store well formed\<close>

definition ok_evolves :: "'x store_scheme \<Rightarrow> 'x store_scheme \<Rightarrow> bool" where
  "ok_evolves s s' \<longleftrightarrow> (store_ok s \<longrightarrow> store_ok s' \<and> store_evolves s s')"

interpretation gov: two_state "ok_evolves :: 'x store_scheme \<Rightarrow> 'x store_scheme \<Rightarrow> bool"
  by unfold_locales (auto simp: ok_evolves_def evolve.rel_refl intro: evolve.rel_trans)

definition commits_ok :: "('x store_scheme, app_error, 'a) action \<Rightarrow> bool" where
  "commits_ok m \<longleftrightarrow> (\<forall>s x s'. m s = (Inr x, s') \<longrightarrow> ok_evolves s s')"

lemma commits_okI: "(\<And>s x s'. store_ok s \<Longrightarrow> m s = (Inr x, s') \<Longrightarrow> store_ok s' \<and> store_evolves s s') \<Longrightarrow> commits_ok m"
  by (auto simp: commits_ok_def ok_evolves_def)

lemma commits_okD: "commits_ok m \<Longrightarrow> m s = (Inr x, s') \<Longrightarrow> ok_evolves s s'"
  by (auto simp: commits_ok_def)

lemma commits_ok_from:
  "(\<And>s x s'. store_ok s \<Longrightarrow> m s = (Inr x, s') \<Longrightarrow> store_ok s') \<Longrightarrow> obeys store_evolves m \<Longrightarrow> commits_ok m"
  by (rule commits_okI) (auto dest: obeysD)

lemma commits_ok_obeys: "obeys ok_evolves m \<Longrightarrow> commits_ok m"
  by (auto simp: commits_ok_def dest: obeysD)

lemma commits_ok_and_then:
  assumes "commits_ok m" and "\<And>x. commits_ok (f x)"
  shows "commits_ok (and_then m f)"
  unfolding commits_ok_def
proof (intro allI impI)
  fix s x s'
  assume "and_then m f s = (Inr x, s')"
  then obtain y t where "m s = (Inr y, t)" "f y t = (Inr x, s')" by (blast dest: and_then_InrD)
  then show "ok_evolves s s'" using commits_okD [OF assms(1)] commits_okD [OF assms(2)] gov.rel_trans by blast
qed

lemma commits_ok_catching:
  assumes "commits_ok m"
    and "\<And>e m'. h e = Some m' \<Longrightarrow> commits_ok m'"
    and "\<And>e m' s s'. h e = Some m' \<Longrightarrow> m s = (Inl e, s') \<Longrightarrow> ok_evolves s s'"
  shows "commits_ok (catching m h)"
  unfolding commits_ok_def
proof (intro allI impI)
  fix s x s'
  assume "catching m h s = (Inr x, s')"
  then consider "m s = (Inr x, s')"
    | e m' t where "m s = (Inl e, t)" "h e = Some m'" "m' t = (Inr x, s')"
    by (auto simp: catching_def split: prod.splits sum.splits option.splits)
  then show "ok_evolves s s'"
  proof cases
    case 1
    then show ?thesis by (rule commits_okD [OF assms(1)])
  next
    case 2
    show ?thesis
      using assms(3) [OF 2(2,1)] commits_okD [OF assms(2) [OF 2(2)] 2(3)] by (rule gov.rel_trans)
  qed
qed

lemma commits_ok_case_sum:
  "(\<And>a. v = Inl a \<Longrightarrow> commits_ok (f a)) \<Longrightarrow> (\<And>b. v = Inr b \<Longrightarrow> commits_ok (g b)) \<Longrightarrow> commits_ok (case v of Inl a \<Rightarrow> f a | Inr b \<Rightarrow> g b)"
  by (cases v) simp_all

lemma commits_ok_case_prod: "(\<And>a b. v = (a, b) \<Longrightarrow> commits_ok (f a b)) \<Longrightarrow> commits_ok (case v of (a, b) \<Rightarrow> f a b)"
  by (cases v) simp

lemma commits_ok_case_option:
  "commits_ok m \<Longrightarrow> (\<And>x. v = Some x \<Longrightarrow> commits_ok (f x)) \<Longrightarrow> commits_ok (case v of None \<Rightarrow> m | Some x \<Rightarrow> f x)"
  by (cases v) simp_all

lemma commits_ok_if: "(c \<Longrightarrow> commits_ok m) \<Longrightarrow> (\<not> c \<Longrightarrow> commits_ok m') \<Longrightarrow> commits_ok (if c then m else m')"
  by simp

lemma commits_ok_basic:
  "commits_ok (ret x)" "commits_ok (raise e)" "commits_ok (raise_if c e)" "commits_ok (reading g)"
  by (simp_all add: commits_ok_obeys gov.obeys_ret gov.obeys_raise gov.obeys_raise_if gov.obeys_reading)

lemma commits_ok_only_if: "commits_ok m \<Longrightarrow> commits_ok (only_if c m)"
  by (simp add: only_if_def commits_ok_basic)

lemmas commits_ok_intros =
  commits_ok_basic commits_ok_and_then commits_ok_if commits_ok_only_if
  commits_ok_case_option commits_ok_case_sum commits_ok_case_prod

lemma obeys_transaction_ok: "commits_ok m \<Longrightarrow> obeys ok_evolves (transaction m)"
  by (auto simp: obeys_def transaction_def gov.rel_refl dest: commits_okD split: prod.splits sum.splits)

lemma obeys_committing:
  "obeys ok_evolves reads \<Longrightarrow> (\<And>s. ok_evolves s (others s)) \<Longrightarrow> (\<And>x. commits_ok (writes x))
     \<Longrightarrow> obeys ok_evolves (committing reads others writes)"
  unfolding committing_def
  by (intro gov.obeys_and_then gov.obeys_writing obeys_transaction_ok) auto

subsection \<open>The statements\<close>

lemma commits_ok_mark_running: "commits_ok (mark_running rid site epoch req)"
  by (rule commits_ok_from [OF mark_running_advances(2) evolves_mark_running])

lemma commits_ok_finalize_run: "commits_ok (finalize_run rid site epoch st reason c fin req)"
  by (rule commits_ok_from [OF finalize_run_advances(2) evolves_finalize_run])

lemma commits_ok_complete_job: "commits_ok (complete_job jid site epoch)"
  unfolding complete_job_def by (rule commits_ok_from [OF end_job_store_ok evolves_end_job]) simp_all

lemma commits_ok_fail_job: "commits_ok (fail_job jid site epoch)"
  unfolding fail_job_def by (rule commits_ok_from [OF end_job_store_ok evolves_end_job]) simp_all

lemma commits_ok_cancel_queued_run: "commits_ok (cancel_queued_run rid site actor v)"
  unfolding cancel_queued_run_def
  by (rule commits_ok_from [OF cancel_transition_advances(2) evolves_cancel_transition])
    (simp_all add: terminal_status_def)

lemma commits_ok_request_cancellation: "commits_ok (request_cancellation rid site actor v)"
  unfolding request_cancellation_def
  by (rule commits_ok_from [OF cancel_transition_advances(2) evolves_cancel_transition])
    (simp_all add: terminal_status_def)

lemma commits_ok_lease_next_job: "commits_ok (lease_next_job locked owner secs)"
proof (rule commits_okI)
  fix s :: "'x store_scheme" and x s'
  assume ok: "store_ok s" and ran: "lease_next_job locked owner secs s = (Inr x, s')"
  then obtain row where sql: "sql_lease_next_job locked owner secs s = (Inr row, s')"
    using lease_next_job_InrD by blast
  have "distinct (map jb_id (st_jobs s))" using ok by (simp add: store_ok_def jobs_ok_def)
  then show "store_ok s' \<and> store_evolves s s'"
    using sql_lease_next_job_store_ok [OF ok sql] evolves_lease_next_job [of s locked owner secs] ran by simp
qed

lemma commits_ok_uuid4: "commits_ok uuid4"
  by (rule commits_ok_from [OF _ evolves_uuid4])
    (auto simp: uuid4_def store_ok_def runs_ok_def versions_ok_def jobs_ok_def events_of_def)

lemma commits_ok_set_job_cancellation_requested: "commits_ok (set_job_cancellation_requested rid site)"
  by (rule commits_ok_from [OF set_job_cancellation_requested_store_ok evolves_set_job_cancellation_requested])

lemma commits_ok_store_idempotent_result: "commits_ok (store_idempotent_result site actor op key h p)"
  by (rule commits_ok_from [OF store_idempotent_result_store_ok evolves_store_idempotent_result])

lemmas commits_ok_statements =
  commits_ok_mark_running commits_ok_finalize_run commits_ok_complete_job commits_ok_fail_job
  commits_ok_cancel_queued_run commits_ok_request_cancellation commits_ok_lease_next_job commits_ok_uuid4
  commits_ok_set_job_cancellation_requested commits_ok_store_idempotent_result

section \<open>The worker\<close>

text \<open>A lost compare-and-set has written nothing but the heartbeat of the claimed job.\<close>

lemma mark_running_conflict:
  assumes "mark_running rid site epoch req s = (Inl (RunTransitionConflictError c), s')"
  shows "ok_evolves s s'"
  unfolding ok_evolves_def
proof (intro impI conjI)
  assume ok: "store_ok s"
  show "store_evolves s s'" using obeysD [OF evolves_mark_running assms] .
  have "s' = s\<lparr>st_jobs := update_rows (fence rid site epoch) (\<lambda>j. j\<lparr>jb_heartbeat_at := Some (st_now s)\<rparr>) (st_jobs s)\<rparr>"
    using assms
    by (auto simp: mark_running_def claim_epoch_def raise_transition_failure_def action_defs actor_for_run_def
        request_or_fresh_def uuid4_def write_progress_event_eq split: if_splits option.splits list.splits sum.splits prod.splits)
  then show "store_ok s'"
    using store_ok_job_ok [OF ok]
    by (intro store_ok_jobs_update [OF ok, where p = "fence rid site epoch"
          and f = "\<lambda>j. j\<lparr>jb_heartbeat_at := Some (st_now s)\<rparr>"]) (auto simp: job_ok_def)
qed

lemma commits_ok_transaction_a_pass:
  assumes "\<And>e m. again e = Some m \<Longrightarrow> commits_ok m \<and> (\<exists>c. e = RunTransitionConflictError c)"
  shows "commits_ok (transaction_a_pass l again state)"
  unfolding transaction_a_pass_def cancel_lease_def complete_lease_def
  using assms
  by (intro commits_ok_intros commits_ok_statements commits_ok_catching)
    (auto simp: and_then_def ret_def dest!: mark_running_conflict split: prod.splits sum.splits)

lemma commits_ok_transaction_a_writes: "commits_ok (transaction_a_writes l state)"
  unfolding transaction_a_writes_def
  by (intro commits_ok_transaction_a_pass)
    (auto intro!: commits_ok_intros commits_ok_transaction_a_pass split: app_error.splits)

lemma commits_ok_judge_outcome: "commits_ok (judge_outcome snapshot outcome)"
  unfolding judge_outcome_def Let_def
  by (intro commits_ok_intros commits_ok_statements)

lemma commits_ok_finalize_schedule_run: "commits_ok (finalize_schedule_run snapshot outcome site epoch req)"
  unfolding finalize_schedule_run_def
  by (intro commits_ok_intros commits_ok_statements commits_ok_judge_outcome)

lemma commits_ok_transaction_b_writes: "commits_ok (transaction_b_writes l snapshot work)"
  unfolding transaction_b_writes_def cancel_lease_def complete_lease_def
  by (cases work) (auto intro!: commits_ok_intros commits_ok_statements commits_ok_finalize_schedule_run)

lemmas gov_rules = gov.obeys_intros gov.obeys_writing gov.obeys_catching obeys_committing obeys_transaction_ok

text \<open>What the proofs assume of the other sessions: each obeys the store's own rules.\<close>

definition sessions_ok :: "'x store_scheme other_sessions \<Rightarrow> bool" where
  "sessions_ok others \<longleftrightarrow> (\<forall>s. ok_evolves s (os_in_a others s) \<and> ok_evolves s (os_between others s)
     \<and> ok_evolves s (os_in_b others s) \<and> ok_evolves s (os_before_recovery others s)
     \<and> ok_evolves s (os_in_recovery others s))"

lemma obeys_execute_solve: "obeys ok_evolves (execute_solve solve snapshot secs)"
  unfolding execute_solve_def by (intro gov_rules)

lemma obeys_execute_leased_schedule_run:
  assumes "sessions_ok others"
  shows "obeys ok_evolves (execute_leased_schedule_run others solve l secs)"
  unfolding execute_leased_schedule_run_def transaction_a_def transaction_b_reads_def
  using assms
  by (auto simp: sessions_ok_def split: option.splits
      intro!: gov_rules obeys_execute_solve commits_ok_and_then commits_ok_basic commits_ok_transaction_a_writes
        commits_ok_transaction_b_writes)

lemma obeys_record_fatal_failure:
  assumes "sessions_ok others"
  shows "obeys ok_evolves (record_fatal_failure others l cause)"
  unfolding record_fatal_failure_def
  using assms
  by (auto simp: sessions_ok_def split: option.splits
      intro!: gov_rules commits_ok_intros commits_ok_statements)

lemma obeys_run_once:
  assumes "sessions_ok others"
  shows "obeys ok_evolves (run_once locked others solve owner secs)"
  unfolding run_once_def lease_and_execute_schedule_run_def run_lease_def held_of_def
  using assms obeys_execute_leased_schedule_run [OF assms] obeys_record_fatal_failure [OF assms]
  by (auto simp: sessions_ok_def split: option.splits if_splits intro!: gov_rules commits_ok_lease_next_job)

section \<open>Cancellation\<close>

lemma cancel_transition_not_cancellable:
  "cancel_transition rid site actor v ex st reason fin s = (Inl RunNotCancellableError, s') \<Longrightarrow> s' = s"
  by (auto simp: cancel_transition_def action_defs uuid4_def write_progress_event_eq split: option.splits)

lemma cancel_edge_not_cancellable: "cancel_edge q status s = (Inl RunNotCancellableError, s') \<Longrightarrow> s' = s"
  by (auto simp: cancel_edge_def cancel_queued_run_def request_cancellation_def ret_def
      dest: cancel_transition_not_cancellable split: if_splits)

lemma commits_ok_cancel_edge: "commits_ok (cancel_edge q status)"
  unfolding cancel_edge_def by (intro commits_ok_intros commits_ok_statements)

lemma obeys_replay_cancellation: "obeys ok_evolves (replay_cancellation h stored)"
  unfolding replay_cancellation_def cancellation_of_payload_def
  by (cases "snd stored") (auto intro!: gov_rules)

lemma obeys_resolve_lost_race: "obeys ok_evolves (resolve_lost_race q h)"
  unfolding resolve_lost_race_def
  by (auto intro!: gov_rules obeys_replay_cancellation split: option.splits)

lemma commits_ok_cancel_writes: "commits_ok (cancel_writes q found)"
  unfolding cancel_writes_def Let_def
  by (intro commits_ok_intros commits_ok_statements commits_ok_catching commits_ok_cancel_edge)
    (auto simp: and_then_def ret_def gov.rel_refl dest!: cancel_edge_not_cancellable
      intro!: commits_ok_and_then commits_ok_basic commits_ok_obeys [OF obeys_resolve_lost_race]
      split: prod.splits sum.splits if_splits)

lemma obeys_cancel_reads: "obeys ok_evolves (cancel_reads h q)"
  unfolding cancel_reads_def digest_of_def
  by (auto intro!: gov_rules obeys_replay_cancellation split: option.splits)

lemma obeys_cancel_schedule_run:
  "(\<And>s. ok_evolves s (others s)) \<Longrightarrow> obeys ok_evolves (cancel_schedule_run h others q)"
  unfolding cancel_schedule_run_def
  by (intro obeys_committing obeys_cancel_reads commits_ok_cancel_writes) auto

end
