(* ===== verification/Run_Fencing.thy ===== *)
theory Run_Fencing
  imports Run_Safety
begin

text \<open>
  Leases and fencing. A lease carries an epoch that only grows; every effect a worker can have on a
  run is checked against it. The locale \<open>fenced\<close> states that contract once: an operation refuses any
  epoch but the current one and leaves the store as it was, and the current epoch never decreases.
  Then an operation of a superseded lease is refused for ever. The locale is interpreted on each
  fenced operation of the store.
\<close>

section \<open>The contract\<close>

locale fenced =
  fixes ok :: "'s \<Rightarrow> bool"
    and epoch_of :: "'s \<Rightarrow> int option"
    and evolves :: "'s \<Rightarrow> 's \<Rightarrow> bool"
    and operation :: "int \<Rightarrow> ('s, app_error, 'a) action"
  assumes refuses: "ok s \<Longrightarrow> epoch_of s \<noteq> Some e \<Longrightarrow> operation e s = (Inl StaleLeaseError, s)"
    and grows: "evolves s s' \<Longrightarrow> epoch_of s = Some n \<Longrightarrow> \<exists>m \<ge> n. epoch_of s' = Some m"
begin

lemma superseded_refused:
  assumes "epoch_of s = Some n" and "e < n" and "evolves s s'" and "ok s'"
  shows "operation e s' = (Inl StaleLeaseError, s')"
proof -
  obtain m where "m \<ge> n" "epoch_of s' = Some m" using grows [OF assms(3,1)] by blast
  then show ?thesis using assms(2,4) by (intro refuses) simp_all
qed

lemma succeeds_current: "ok s \<Longrightarrow> operation e s = (Inr x, s') \<Longrightarrow> epoch_of s = Some e"
  using refuses [of s e] by (metis Pair_inject Inl_Inr_False)

end

section \<open>The current epoch\<close>

lemma find_list_all2:
  assumes "list_all2 rel xs ys" and "\<And>x y. rel x y \<Longrightarrow> p x \<longleftrightarrow> p y"
  shows "rel_option rel (find p xs) (find p ys)"
  using assms(1) by (induction rule: list_all2_induct) (auto simp: assms(2))

lemma find_ex: "x \<in> set xs \<Longrightarrow> p x \<Longrightarrow> \<exists>y. find p xs = Some y"
  by (induction xs) auto

lemma table_evolves_find:
  assumes "table_evolves rel xs ys" and "\<And>x y. rel x y \<Longrightarrow> p x \<longleftrightarrow> p y" and "find p xs = Some x"
  shows "\<exists>y. find p ys = Some y \<and> rel x y"
proof -
  obtain old new where ys: "ys = old @ new" "list_all2 rel xs old"
    using assms(1) by (auto simp: table_evolves_def)
  then obtain y where "find p old = Some y" "rel x y"
    using find_list_all2 [of rel xs old p, OF ys(2) assms(2)] assms(3) by (auto simp: option_rel_Some1)
  then show ?thesis using ys(1) by (auto simp: find_append_Some)
qed

definition job_epoch :: "uuid \<Rightarrow> uuid \<Rightarrow> 'x store_scheme \<Rightarrow> int option" where
  "job_epoch job_id site_id s =
     map_option jb_fencing_epoch (find (\<lambda>j. jb_id j = job_id \<and> jb_site_id j = site_id) (st_jobs s))"

lemma current_epoch_grows:
  "store_evolves s s' \<Longrightarrow> current_epoch rid site s = Some n \<Longrightarrow> \<exists>m \<ge> n. current_epoch rid site s' = Some m"
  unfolding current_epoch_def store_evolves_def
  using table_evolves_find [of job_evolves "st_jobs s" "st_jobs s'" "is_job_of rid site"]
  by (fastforce simp: is_job_of_def job_evolves_def)

lemma job_epoch_grows:
  "store_evolves s s' \<Longrightarrow> job_epoch jid site s = Some n \<Longrightarrow> \<exists>m \<ge> n. job_epoch jid site s' = Some m"
  unfolding job_epoch_def store_evolves_def
  using table_evolves_find [of job_evolves "st_jobs s" "st_jobs s'" "\<lambda>j. jb_id j = jid \<and> jb_site_id j = site"]
  by (fastforce simp: job_evolves_def)

lemma find_None_iff_filter: "find p xs = None \<longleftrightarrow> filter p xs = []"
  by (induction xs) auto

text \<open>With at most one job per run, an epoch other than the current one matches no row.\<close>

lemma update_rows_none: "filter p xs = [] \<Longrightarrow> update_rows p f xs = xs"
  unfolding update_rows_def by (rule map_idI) (auto simp: filter_empty_conv)

lemma job_of_run_unique:
  "store_ok s \<Longrightarrow> j \<in> set (st_jobs s) \<Longrightarrow> k \<in> set (st_jobs s) \<Longrightarrow> is_job_of rid site j \<Longrightarrow> is_job_of rid site k \<Longrightarrow> j = k"
  unfolding store_ok_def jobs_ok_def is_job_of_def by (metis distinct_map_eq)

lemma no_fence:
  assumes "store_ok s" and "current_epoch rid site s \<noteq> Some e"
  shows "filter (fence rid site e) (st_jobs s) = []"
proof (rule ccontr)
  assume "filter (fence rid site e) (st_jobs s) \<noteq> []"
  then obtain j where j: "j \<in> set (st_jobs s)" "is_job_of rid site j" "jb_fencing_epoch j = e"
    by (auto simp: filter_empty_conv fence_def)
  then obtain k where k: "find (is_job_of rid site) (st_jobs s) = Some k" using find_ex by metis
  then have "k = j" using job_of_run_unique [OF assms(1) _ j(1) _ j(2)] find_SomeD by metis
  then show False using assms(2) k j(3) by (simp add: current_epoch_def)
qed

lemma no_job_epoch:
  assumes "store_ok s" and "job_epoch jid site s \<noteq> Some e"
  shows "filter (\<lambda>j. jb_id j = jid \<and> jb_site_id j = site \<and> jb_status j = JobLeased \<and> jb_fencing_epoch j = e) (st_jobs s) = []"
proof (rule ccontr)
  assume "\<not> ?thesis"
  then obtain j where j: "j \<in> set (st_jobs s)" "jb_id j = jid" "jb_site_id j = site" "jb_fencing_epoch j = e"
    by (auto simp: filter_empty_conv)
  then obtain k where k: "find (\<lambda>j. jb_id j = jid \<and> jb_site_id j = site) (st_jobs s) = Some k"
    using find_ex [of j "st_jobs s" "\<lambda>j. jb_id j = jid \<and> jb_site_id j = site"] by blast
  have "distinct (map jb_id (st_jobs s))" using assms(1) by (simp add: store_ok_def jobs_ok_def)
  then have "k = j" using distinct_map_eq [of jb_id "st_jobs s" k j] find_SomeD [OF k] j by simp
  then show False using assms(2) k j(4) by (simp add: job_epoch_def)
qed

section \<open>The fenced operations\<close>

lemma claim_epoch_stale:
  "store_ok s \<Longrightarrow> current_epoch rid site s \<noteq> Some e \<Longrightarrow> claim_epoch rid site e s = (Inl StaleLeaseError, s)"
  using no_fence [of s rid site e] by (simp add: claim_epoch_def action_defs update_rows_none)

lemma end_job_stale:
  "store_ok s \<Longrightarrow> job_epoch jid site s \<noteq> Some e \<Longrightarrow> end_job st jid site e s = (Inl StaleLeaseError, s)"
  using no_job_epoch [of s jid site e] unfolding end_job_def Let_def
  by (auto simp: action_defs update_rows_none job_epoch_def)

interpretation running: fenced store_ok "current_epoch rid site" store_evolves "\<lambda>e. mark_running rid site e req"
  for rid site req
  by unfold_locales (auto simp: mark_running_def and_then_def claim_epoch_stale current_epoch_grows)

lemma fenced_finalize_run:
  "st \<in> set finalize_statuses \<Longrightarrow>
     fenced store_ok (current_epoch rid site) store_evolves (\<lambda>e. finalize_run rid site e st reason c fin req)"
  by unfold_locales (auto simp: finalize_run_def raise_if_def ret_and_then and_then_def [of "claim_epoch _ _ _"]
      claim_epoch_stale current_epoch_grows)

interpretation completing: fenced store_ok "job_epoch jid site" store_evolves "complete_job jid site" for jid site
  by unfold_locales (auto simp: complete_job_def end_job_stale job_epoch_grows)

interpretation failing: fenced store_ok "job_epoch jid site" store_evolves "fail_job jid site" for jid site
  by unfold_locales (auto simp: fail_job_def end_job_stale job_epoch_grows)

section \<open>Leasing\<close>

text \<open>Leasing takes the oldest job that is free, gives it the next epoch and changes no other job.\<close>

lemma lease_next_job_spec:
  assumes ok: "store_ok s" and ran: "lease_next_job locked owner secs s = (Inr (Some l), s')"
  shows "\<exists>j n. next_leaseable locked s = Some j \<and> l = lease_of_row (leased_row owner secs (st_now s) n j)
    \<and> s' = s\<lparr>st_fresh := Suc n, st_jobs := update_rows (\<lambda>k. jb_id k = jb_id j) (leased_row owner secs (st_now s) n) (st_jobs s)\<rparr>"
proof -
  obtain row where sql: "sql_lease_next_job locked owner secs s = (Inr (Some row), s')" and l: "l = lease_of_row row"
    using lease_next_job_InrD [OF ran] by (auto dest!: sym [of "Some l"])
  then obtain j n where j: "next_leaseable locked s = Some j"
    and s': "s' = s\<lparr>st_fresh := Suc n, st_jobs := update_rows (\<lambda>k. jb_id k = jb_id j) (leased_row owner secs (st_now s) n) (st_jobs s)\<rparr>"
    and row: "find (\<lambda>k. jb_id k = jb_id j) (st_jobs s') = Some row"
    using sql_lease_next_job_InrD [OF sql] by auto
  have "row \<in> set (st_jobs s')" "jb_id row = jb_id j" using find_SomeD [OF row] by auto
  then obtain k where k: "k \<in> set (st_jobs s)" "row = (if jb_id k = jb_id j then leased_row owner secs (st_now s) n k else k)"
    unfolding s' by (auto simp: update_rows_def)
  then have "jb_id k = jb_id j" using \<open>jb_id row = jb_id j\<close> by (auto simp: leased_row_def split: if_splits)
  moreover have "distinct (map jb_id (st_jobs s))" using ok by (simp add: store_ok_def jobs_ok_def)
  ultimately have "k = j" using distinct_map_eq [of jb_id "st_jobs s" k j] k(1) next_leaseableD [OF j] by blast
  then show ?thesis using j l s' k(2) by auto
qed

lemma next_leaseable_None:
  "next_leaseable locked s = None \<longleftrightarrow> (\<forall>j \<in> set (st_jobs s). leaseable (st_now s) j \<longrightarrow> jb_id j \<in> set locked)"
proof -
  let ?xs = "filter (\<lambda>j. leaseable (st_now s) j \<and> jb_id j \<notin> set locked) (st_jobs s)"
  have "next_leaseable locked s = None \<longleftrightarrow> sort_key (\<lambda>j. (jb_created_at j, jb_id j)) ?xs = []"
    by (simp add: next_leaseable_def split: list.splits)
  also have "\<dots> \<longleftrightarrow> set (sort_key (\<lambda>j. (jb_created_at j, jb_id j)) ?xs) = {}" by (simp only: set_empty)
  finally show ?thesis by auto
qed

lemma next_leaseable_first:
  assumes "next_leaseable locked s = Some j" and "k \<in> set (st_jobs s)" "leaseable (st_now s) k" "jb_id k \<notin> set locked"
  shows "(jb_created_at j, jb_id j) \<le> (jb_created_at k, jb_id k)"
proof -
  let ?key = "\<lambda>j. (jb_created_at j, jb_id j)"
  let ?xs = "filter (\<lambda>j. leaseable (st_now s) j \<and> jb_id j \<notin> set locked) (st_jobs s)"
  obtain js where js: "sort_key ?key ?xs = j # js"
    using assms(1) by (auto simp: next_leaseable_def split: list.splits)
  have "k \<in> set (sort_key ?key ?xs)" using assms(2-4) by simp
  then have "k \<in> set (j # js)" unfolding js .
  moreover have "sorted (map ?key (j # js))" using sorted_sort_key [of ?key ?xs] unfolding js .
  ultimately show ?thesis by auto
qed

lemma sql_lease_next_job_found:
  assumes "sql_lease_next_job locked owner secs s = (Inr row, s')" and "next_leaseable locked s = Some j"
  shows "row \<noteq> None"
proof
  assume "row = None"
  then obtain n where "find (\<lambda>k. jb_id k = jb_id j)
      (update_rows (\<lambda>k. jb_id k = jb_id j) (leased_row owner secs (st_now s) n) (st_jobs s)) = None"
    using sql_lease_next_job_InrD [OF assms(1)] assms(2) by (auto dest!: sym [of None])
  moreover have "leased_row owner secs (st_now s) n j
      \<in> set (update_rows (\<lambda>k. jb_id k = jb_id j) (leased_row owner secs (st_now s) n) (st_jobs s))"
    using next_leaseableD [OF assms(2)] by (auto simp: update_rows_def intro!: image_eqI [of _ _ j])
  ultimately have "jb_id (leased_row owner secs (st_now s) n j) \<noteq> jb_id j"
    unfolding find_None_iff by blast
  then show False by (simp add: leased_row_def)
qed

lemma leased_current_epoch:
  assumes ok: "store_ok s" and ran: "lease_next_job locked owner secs s = (Inr (Some l), s')"
    and j: "next_leaseable locked s = Some j"
  shows "current_epoch (jb_schedule_run_id j) (jb_site_id j) s' = Some (jb_fencing_epoch j + 1)"
    and "job_epoch (jb_id j) (jb_site_id j) s' = Some (jb_fencing_epoch j + 1)"
proof -
  obtain n where s': "s' = s\<lparr>st_fresh := Suc n,
      st_jobs := update_rows (\<lambda>k. jb_id k = jb_id j) (leased_row owner secs (st_now s) n) (st_jobs s)\<rparr>"
    using lease_next_job_spec [OF ok ran] j by auto
  let ?k = "leased_row owner secs (st_now s) n j"
  have ok': "store_ok s'" using commits_okD [OF commits_ok_lease_next_job ran] ok by (simp add: ok_evolves_def)
  have k: "?k \<in> set (st_jobs s')" "is_job_of (jb_schedule_run_id j) (jb_site_id j) ?k" "jb_id ?k = jb_id j" "jb_site_id ?k = jb_site_id j"
    using next_leaseableD [OF j] unfolding s' by (auto simp: update_rows_def is_job_of_def leased_row_def intro!: image_eqI [of _ _ j])
  then obtain x where x: "find (is_job_of (jb_schedule_run_id j) (jb_site_id j)) (st_jobs s') = Some x"
    by (metis find_None_iff option.exhaust)
  then have "x = ?k" using job_of_run_unique [OF ok' _ k(1) _ k(2)] find_SomeD by metis
  then show "current_epoch (jb_schedule_run_id j) (jb_site_id j) s' = Some (jb_fencing_epoch j + 1)"
    using x by (simp add: current_epoch_def leased_row_def)
  obtain y where y: "find (\<lambda>i. jb_id i = jb_id j \<and> jb_site_id i = jb_site_id j) (st_jobs s') = Some y"
    using k(1,3,4) by (metis (mono_tags, lifting) find_None_iff option.exhaust)
  have "distinct (map jb_id (st_jobs s'))" using ok' by (simp add: store_ok_def jobs_ok_def)
  then have "y = ?k" using distinct_map_eq [of jb_id "st_jobs s'" y ?k] find_SomeD [OF y] k by simp
  then show "job_epoch (jb_id j) (jb_site_id j) s' = Some (jb_fencing_epoch j + 1)"
    using y by (simp add: job_epoch_def leased_row_def)
qed

section \<open>A concrete store\<close>

definition demo_queued_job :: job_row where
  "demo_queued_job = \<lparr>jb_id = 1, jb_site_id = 7, jb_job_type = ScheduleRunExecute, jb_status = JobQueued,
     jb_schedule_run_id = 10, jb_actor_id = 5, jb_attempt_id = None, jb_contract_version = ''1'',
     jb_capability_version = None, jb_idempotency_key = ''k'', jb_lease_owner = None, jb_lease_expires_at = None,
     jb_heartbeat_at = None, jb_fencing_epoch = 0, jb_cancellation_requested = False, jb_created_at = 0\<rparr>"

definition demo_leased_job :: job_row where
  "demo_leased_job = demo_queued_job\<lparr>jb_status := JobLeased, jb_attempt_id := Some 30, jb_lease_owner := Some ''w1'',
     jb_lease_expires_at := Some 60, jb_heartbeat_at := Some 0, jb_fencing_epoch := 1\<rparr>"

definition demo_event :: "run_status \<Rightarrow> int \<Rightarrow> event_row" where
  "demo_event st n = \<lparr>ev_site_id = 7, ev_stream_id = 10, ev_sequence = n, ev_event_type = run_event_types st,
     ev_occurred_at = 0, ev_resource_version = n, ev_request_id = 40, ev_schedule_run_id = 10, ev_actor_id = 5,
     ev_payload = \<lparr>rp_activity_id = 41, rp_schedule_run_id = 10, rp_status = st, rp_reason = None,
       rp_resource_version = n, rp_occurred_at = 0\<rparr>\<rparr>"

definition demo_run :: "run_status \<Rightarrow> int \<Rightarrow> run_row" where
  "demo_run st n = \<lparr>rn_id = 10, rn_site_id = 7, rn_run_snapshot_id = 20, rn_status = st, rn_reason = None,
     rn_candidate_schedule_version_id = None, rn_resource_version = n, rn_created_at = 0, rn_finished_at = None\<rparr>"

text \<open>One queued run with its queued job, and the same run after a worker has started it.\<close>

definition demo_queued :: store where
  "demo_queued = \<lparr>st_now = 100, st_fresh = 50, st_jobs = [demo_queued_job], st_runs = [demo_run SolverQueued 1],
     st_events = [demo_event SolverQueued 1], st_versions = [], st_assignments = [], st_snapshots = [], st_idempotency = []\<rparr>"

definition demo_running :: store where
  "demo_running = \<lparr>st_now = 100, st_fresh = 50, st_jobs = [demo_leased_job], st_runs = [demo_run SolverRunning 2],
     st_events = [demo_event SolverQueued 1, demo_event SolverRunning 2], st_versions = [], st_assignments = [],
     st_snapshots = [], st_idempotency = []\<rparr>"

lemmas demo_defs = demo_queued_def demo_running_def demo_run_def demo_event_def demo_leased_job_def demo_queued_job_def

lemma demo_queued_ok: "store_ok demo_queued"
  by (simp add: store_ok_def runs_ok_def versions_ok_def jobs_ok_def run_history_ok_def job_ok_def events_of_def
      event_status_def is_run_def max_idempotency_key_length_def demo_defs)

lemma demo_running_ok: "store_ok demo_running"
  by (simp add: store_ok_def runs_ok_def versions_ok_def jobs_ok_def run_history_ok_def job_ok_def events_of_def
      event_status_def is_run_def max_idempotency_key_length_def demo_defs upt_rec)

section \<open>Properties\<close>

text \<open>
  C3. Fencing. When a job is leased again, the worker that held it before is fenced out for good: in
  every store that can follow, starting the run, finalizing it to any terminal status, completing
  the job and failing the job under the old epoch are all refused as stale, and none of them changes
  anything.
\<close>

theorem released_lease_is_fenced_out:
  assumes "store_ok s" and "lease_next_job locked owner secs s = (Inr (Some l), s')"
    and "next_leaseable locked s = Some j"
    and "store_ok t" and "store_evolves s' t" and "st \<in> set finalize_statuses" and "e \<le> jb_fencing_epoch j"
  shows "mark_running (jb_schedule_run_id j) (jb_site_id j) e req t = (Inl StaleLeaseError, t)
       \<and> finalize_run (jb_schedule_run_id j) (jb_site_id j) e st reason c fin req t = (Inl StaleLeaseError, t)
       \<and> complete_job (jb_id j) (jb_site_id j) e t = (Inl StaleLeaseError, t)
       \<and> fail_job (jb_id j) (jb_site_id j) e t = (Inl StaleLeaseError, t)"
proof -
  note epochs = leased_current_epoch [OF assms(1-3)]
  have "e < jb_fencing_epoch j + 1" using assms(7) by simp
  then show ?thesis
    using running.superseded_refused [OF epochs(1) _ assms(5,4)]
      fenced.superseded_refused [OF fenced_finalize_run [OF assms(6)] epochs(1) _ assms(5,4)]
      completing.superseded_refused [OF epochs(2) _ assms(5,4)] failing.superseded_refused [OF epochs(2) _ assms(5,4)]
    by simp
qed

theorem released_lease_is_fenced_out_witness:
  "\<exists>l s'. lease_next_job [] ''w2'' 60 demo_running = (Inr (Some l), s') \<and> jl_fencing_epoch l = 2
     \<and> finalize_run 10 7 1 SolverFailed None None None None s' = (Inl StaleLeaseError, s')"
proof -
  have nxt: "next_leaseable [] demo_running = Some demo_leased_job"
    by (simp add: next_leaseable_def leaseable_def demo_defs)
  obtain l s' where ran: "lease_next_job [] ''w2'' 60 demo_running = (Inr (Some l), s')" and l: "jl_fencing_epoch l = 2"
    by (simp add: lease_next_job_def sql_lease_next_job_def next_leaseable_def leaseable_def action_defs uuid4_def new_job_lease_def
        job_lease_problem_def lease_of_row_def leased_row_def update_rows_def max_idempotency_key_length_def demo_defs)
  have ok': "store_ok s'"
    using commits_okD [OF commits_ok_lease_next_job ran] demo_running_ok by (simp add: ok_evolves_def)
  have "finalize_run 10 7 1 SolverFailed None None None None s' = (Inl StaleLeaseError, s')"
    using released_lease_is_fenced_out [OF demo_running_ok ran nxt ok' evolve.rel_refl, of SolverFailed 1]
    by (simp add: finalize_statuses_def demo_defs)
  then show ?thesis using ran l by blast
qed

text \<open>
  C18. Leasing. On a well-formed store leasing never fails for a non-blank owner and a positive
  duration: it hands out the oldest job that is queued or whose lease has lapsed and that no other
  session has locked, with the next epoch and a lease of the asked length, and it hands out nothing
  exactly when there is no such job. A live lease is never taken away.
\<close>

theorem lease_next_job_correct:
  assumes "store_ok s" and "\<not> list_all (\<lambda>c. c = CHR '' '') owner" and "0 < secs"
  shows "\<exists>r s'. lease_next_job locked owner secs s = (Inr r, s')
     \<and> (r = None \<longleftrightarrow> (\<forall>j \<in> set (st_jobs s). leaseable (st_now s) j \<longrightarrow> jb_id j \<in> set locked))
     \<and> (\<forall>l. r = Some l \<longrightarrow> (\<exists>j \<in> set (st_jobs s). jl_job_id l = Some (jb_id j) \<and> leaseable (st_now s) j
           \<and> jb_id j \<notin> set locked \<and> jl_fencing_epoch l = jb_fencing_epoch j + 1
           \<and> jl_lease_expires_at l = Some (st_now s + secs)
           \<and> (\<forall>k \<in> set (st_jobs s). leaseable (st_now s) k \<longrightarrow> jb_id k \<notin> set locked \<longrightarrow>
                (jb_created_at j, jb_id j) \<le> (jb_created_at k, jb_id k))
           \<and> (\<forall>k \<in> set (st_jobs s). k \<noteq> j \<longrightarrow> k \<in> set (st_jobs s'))))"
proof -
  have "\<exists>row s'. sql_lease_next_job locked owner secs s = (Inr row, s')"
    using assms(2,3) by (cases "next_leaseable locked s") (simp_all add: sql_lease_next_job_def action_defs uuid4_def)
  then obtain row s' where sql: "sql_lease_next_job locked owner secs s = (Inr row, s')" by blast
  note total = lease_next_job_total [OF assms(1) sql]
  have none: "next_leaseable locked s = None \<longleftrightarrow> (\<forall>j \<in> set (st_jobs s). leaseable (st_now s) j \<longrightarrow> jb_id j \<in> set locked)"
    by (rule next_leaseable_None)
  show ?thesis
  proof (cases "next_leaseable locked s")
    case None
    then have "row = None" using sql_lease_next_job_InrD [OF sql] by auto
    then show ?thesis using total None none by auto
  next
    case (Some j)
    then have "row \<noteq> None" using sql_lease_next_job_found [OF sql] by blast
    then obtain l where ran: "lease_next_job locked owner secs s = (Inr (Some l), s')" using total by auto
    obtain n where l: "l = lease_of_row (leased_row owner secs (st_now s) n j)"
      and s': "s' = s\<lparr>st_fresh := Suc n, st_jobs := update_rows (\<lambda>k. jb_id k = jb_id j) (leased_row owner secs (st_now s) n) (st_jobs s)\<rparr>"
      using lease_next_job_spec [OF assms(1) ran] Some by auto
    have others: "k \<in> set (st_jobs s')" if "k \<in> set (st_jobs s)" "k \<noteq> j" for k
    proof -
      have "distinct (map jb_id (st_jobs s))" using assms(1) by (simp add: store_ok_def jobs_ok_def)
      then have "jb_id k \<noteq> jb_id j" using that next_leaseableD [OF Some] distinct_map_eq by metis
      then show ?thesis using that(1) unfolding s' by (force simp: update_rows_def)
    qed
    show ?thesis
      using ran l none Some next_leaseableD [OF Some] next_leaseable_first [OF Some] others
      by (intro exI [of _ "Some l"] exI [of _ s']) (auto simp: lease_of_row_def leased_row_def)
  qed
qed

theorem lease_next_job_correct_witness:
  "\<exists>l s'. lease_next_job [] ''w1'' 60 demo_queued = (Inr (Some l), s') \<and> jl_fencing_epoch l = 1
     \<and> jl_lease_expires_at l = Some 160"
proof -
  have "leaseable (st_now demo_queued) demo_queued_job" "st_jobs demo_queued = [demo_queued_job]"
    "jb_fencing_epoch demo_queued_job = 0" "st_now demo_queued = 100"
    by (simp_all add: leaseable_def demo_defs)
  then show ?thesis
    using lease_next_job_correct [OF demo_queued_ok, of "''w1''" 60 "[]"] by fastforce
qed

text \<open>
  The heartbeat. Between two ticks the other sessions may do anything the lease allows: a live lease
  is theirs to cancel but not to take.
\<close>

definition holds_lease :: "uuid \<Rightarrow> uuid \<Rightarrow> int \<Rightarrow> 'x store_scheme \<Rightarrow> bool" where
  "holds_lease job_id site_id epoch s \<longleftrightarrow>
     (\<exists>j \<in> set (st_jobs s). jb_id j = job_id \<and> jb_site_id j = site_id \<and> jb_status j = JobLeased
        \<and> jb_fencing_epoch j = epoch \<and> \<not> leaseable (st_now s) j)"

definition leased_until :: "uuid \<Rightarrow> uuid \<Rightarrow> int \<Rightarrow> instant \<Rightarrow> 'x store_scheme \<Rightarrow> bool" where
  "leased_until job_id site_id epoch t s \<longleftrightarrow>
     (\<exists>j \<in> set (st_jobs s). jb_id j = job_id \<and> jb_site_id j = site_id \<and> jb_status j = JobLeased
        \<and> jb_fencing_epoch j = epoch \<and> jb_lease_expires_at j = Some t)"

text \<open>One stretch between ticks: at most \<open>gap\<close> seconds pass, and a lease that is live at its end was left alone.\<close>

definition quiet_stretch :: "uuid \<Rightarrow> uuid \<Rightarrow> int \<Rightarrow> int \<Rightarrow> ('x store_scheme \<Rightarrow> 'x store_scheme) \<Rightarrow> bool" where
  "quiet_stretch job_id site_id epoch gap f \<longleftrightarrow> (\<forall>s t.
     st_now s \<le> st_now (f s) \<and> st_now (f s) \<le> st_now s + gap
     \<and> (leased_until job_id site_id epoch t s \<and> st_now (f s) \<le> t \<longrightarrow> leased_until job_id site_id epoch t (f s)))"

lemma renew_leased_until:
  assumes "leased_until jid site epoch t s" and "0 < secs"
  shows "\<exists>r s'. transaction (renew_job_lease site jid epoch secs) s = (Inr r, s') \<and> ln_renewed r
     \<and> leased_until jid site epoch (st_now s + secs) s' \<and> st_now s' = st_now s"
proof -
  let ?mine = "\<lambda>j. jb_id j = jid \<and> jb_site_id j = site \<and> jb_status j = JobLeased \<and> jb_fencing_epoch j = epoch"
  let ?f = "\<lambda>j. j\<lparr>jb_lease_expires_at := Some (st_now s + secs), jb_heartbeat_at := Some (st_now s)\<rparr>"
  let ?s' = "s\<lparr>st_jobs := update_rows ?mine ?f (st_jobs s)\<rparr>"
  obtain j where j: "j \<in> set (st_jobs s)" "?mine j" using assms(1) by (auto simp: leased_until_def)
  obtain k where k: "find ?mine (st_jobs s) = Some k" using find_ex [of j "st_jobs s" ?mine, OF j] by blast
  have "?f j \<in> set (st_jobs ?s')" using j by (auto simp: update_rows_def intro!: image_eqI [of _ _ j])
  then have "leased_until jid site epoch (st_now s + secs) ?s'"
    unfolding leased_until_def using j(2) by (intro bexI [of _ "?f j"]) simp_all
  then show ?thesis
    using k assms(2) by (simp add: renew_job_lease_def Let_def transaction_def action_defs)
qed

lemma heartbeat_leased_until:
  assumes "\<forall>f \<in> set ticks. quiet_stretch jid site epoch gap f" and "gap \<le> secs" and "0 < secs"
    and "leased_until jid site epoch t s" and "st_now s + gap \<le> t"
    and "heartbeat site jid epoch secs ticks obs s = (obs', s')"
  shows "ho_lost_lease obs' = ho_lost_lease obs \<and> ho_error obs' = ho_error obs
     \<and> (\<exists>t'. leased_until jid site epoch t' s' \<and> st_now s' + gap \<le> t')"
  using assms
proof (induction ticks arbitrary: obs s t)
  case Nil
  then show ?case by auto
next
  case (Cons f ticks)
  have now: "st_now (f s) \<le> st_now s + gap" using Cons.prems(1) by (auto simp: quiet_stretch_def)
  then have "st_now (f s) \<le> t" using Cons.prems(5) by linarith
  then have "leased_until jid site epoch t (f s)" using Cons.prems(1,4) by (auto simp: quiet_stretch_def)
  then obtain r s1 where ren: "transaction (renew_job_lease site jid epoch secs) (f s) = (Inr r, s1)" "ln_renewed r"
    and s1: "leased_until jid site epoch (st_now (f s) + secs) s1" "st_now s1 = st_now (f s)"
    using renew_leased_until Cons.prems(3) by blast
  let ?obs = "if ln_cancellation_requested r then obs\<lparr>ho_cancellation_requested := True\<rparr> else obs"
  have rest: "heartbeat site jid epoch secs ticks ?obs s1 = (obs', s')"
    using Cons.prems(6) ren by (simp add: Let_def)
  have "st_now s1 + gap \<le> st_now (f s) + secs" using s1(2) Cons.prems(2) by simp
  from Cons.IH [OF _ Cons.prems(2,3) s1(1) this rest] Cons.prems(1) show ?case by auto
qed

text \<open>
  C19. A worker that renews on time keeps its lease through a solve of any length: if no stretch between
  two ticks is longer than the heartbeat interval and the lease was taken for \<open>lease_seconds\<close> of at
  least one, then at the end the heartbeat has neither lost the lease nor seen an error, and the job is
  still leased under the worker's epoch with time left, so no other worker can have been given it.
\<close>

theorem heartbeat_keeps_lease:
  assumes "0 < lease_seconds"
    and "\<forall>f \<in> set ticks. quiet_stretch job_id site_id epoch (heartbeat_interval lease_seconds) f"
    and "leased_until job_id site_id epoch (st_now s + lease_seconds) s"
    and "heartbeat site_id job_id epoch lease_seconds ticks
           \<lparr>ho_lost_lease = False, ho_cancellation_requested = False, ho_error = None\<rparr> s = (obs, s')"
  shows "\<not> ho_lost_lease obs \<and> ho_error obs = None \<and> holds_lease job_id site_id epoch s'"
proof -
  have gap: "0 < heartbeat_interval lease_seconds" "heartbeat_interval lease_seconds \<le> lease_seconds"
    using assms(1) unfolding heartbeat_interval_def by linarith+
  obtain t' where "\<not> ho_lost_lease obs" "ho_error obs = None" and t': "leased_until job_id site_id epoch t' s'"
      "st_now s' + heartbeat_interval lease_seconds \<le> t'"
    using heartbeat_leased_until [OF assms(2) gap(2) assms(1,3) _ assms(4)] gap by auto
  moreover have "holds_lease job_id site_id epoch s'"
    using t' gap unfolding leased_until_def holds_lease_def leaseable_def by force
  ultimately show ?thesis by blast
qed

definition demo_wait :: "int \<Rightarrow> store \<Rightarrow> store" where
  "demo_wait d s = s\<lparr>st_now := st_now s + d\<rparr>"

theorem heartbeat_keeps_lease_witness:
  "\<exists>obs s'. heartbeat 7 1 1 60 (replicate 100 (demo_wait 20))
       \<lparr>ho_lost_lease = False, ho_cancellation_requested = False, ho_error = None\<rparr>
       (demo_running\<lparr>st_jobs := [demo_leased_job\<lparr>jb_lease_expires_at := Some 160\<rparr>]\<rparr>) = (obs, s')
     \<and> holds_lease 1 7 1 s'"
proof -
  let ?s = "demo_running\<lparr>st_jobs := [demo_leased_job\<lparr>jb_lease_expires_at := Some 160\<rparr>]\<rparr>"
  let ?o = "\<lparr>ho_lost_lease = False, ho_cancellation_requested = False, ho_error = None\<rparr>"
  obtain obs s' where run: "heartbeat 7 1 1 60 (replicate 100 (demo_wait 20)) ?o ?s = (obs, s')" by fastforce
  have "quiet_stretch 1 7 1 (heartbeat_interval 60) (demo_wait 20)"
    by (simp add: quiet_stretch_def demo_wait_def heartbeat_interval_def leased_until_def)
  then have "\<forall>f \<in> set (replicate 100 (demo_wait 20)). quiet_stretch 1 7 1 (heartbeat_interval 60) f" by simp
  moreover have "leased_until 1 7 1 (st_now ?s + 60) ?s" by (simp add: leased_until_def demo_defs)
  ultimately have "holds_lease 1 7 1 s'" using heartbeat_keeps_lease [OF _ _ _ run] by simp
  then show ?thesis using run by blast
qed

end
