(* ===== verification/Governed_Store.thy ===== *)
theory Governed_Store
  imports Run_Use_Cases
begin

text \<open>
  The rest of the governed database: conversations and their agent runs
  (\<^verbatim>\<open>adapters/postgres/conversation.py\<close>), proposals (\<^verbatim>\<open>proposal.py\<close>), approvals (\<^verbatim>\<open>approval.py\<close>), the
  site baseline (\<^verbatim>\<open>site_baseline.py\<close>), the audit log (\<^verbatim>\<open>audit.py\<close>) and memberships. The record extends
  the run store, so the run statements apply to it unchanged. Row-level security shows a session the
  rows of its own site only; a statement without a site predicate takes that site as \<open>app_site\<close>.
  Events of conversations live in the same table as those of runs, under stream identifiers the
  schema keeps apart; here they are a table of their own.
\<close>

section \<open>Rows\<close>

record conversation_row =
  cv_id :: uuid
  cv_site_id :: uuid
  cv_scenario_id :: uuid
  cv_scenario_version_id :: uuid
  cv_created_by_actor_id :: uuid
  cv_resource_version :: int
  cv_created_at :: instant
  cv_archived_at :: "instant option"

record message_row =
  mg_id :: uuid
  mg_site_id :: uuid
  mg_conversation_id :: uuid
  mg_actor_id :: uuid
  mg_text :: string
  mg_created_at :: instant

record agent_run_row =
  ag_id :: uuid
  ag_site_id :: uuid
  ag_conversation_id :: uuid
  ag_message_id :: uuid
  ag_status :: agent_run_status
  ag_status_reason :: "string option"
  ag_created_at :: instant

record membership_row =
  mb_id :: uuid
  mb_app_user_id :: uuid
  mb_site_id :: uuid
  mb_revoked_at :: "instant option"

record proposal_row =
  pr_id :: uuid
  pr_site_id :: uuid
  pr_scenario_id :: uuid
  pr_scenario_version_id :: uuid
  pr_conversation_id :: uuid
  pr_created_by_actor_id :: uuid
  pr_state :: proposal_state
  pr_current_version_id :: "uuid option"
  pr_resource_version :: int
  pr_ended_by :: "proposal_ended_by option"
  pr_applied_version_id :: "uuid option"

record proposal_version_row =
  px_id :: uuid
  px_site_id :: uuid
  px_proposal_id :: uuid
  px_version_ordinal :: int
  px_payload :: proposal_v1

record approval_row =
  ap_binding :: approval_binding_v1
  ap_pending_payload :: "string list option"

record baseline_row =
  bl_site_id :: uuid
  bl_schedule_version_id :: uuid
  bl_resource_version :: int
  bl_updated_at :: instant
  bl_updated_by_actor_id :: uuid

text \<open>A scenario joined with one of its versions. The groups are the normalized form of the version's
  payload.\<close>

record scenario_groups =
  sg_horizon_start :: instant
  sg_horizon_minutes :: int
  sg_work_areas :: "string list"
  sg_tasks :: "task_v1 list"
  sg_workers :: "worker_v1 list"
  sg_demand :: "demand_interval_v1 list"
  sg_constraints :: "constraint_v1 list"

record scenario_version_row =
  sw_scenario_id :: uuid
  sw_site_id :: uuid
  sw_fixture_id :: string
  sw_scenario_name :: string
  sw_scenario_version_id :: uuid
  sw_fixture_version :: string
  sw_checksum_algorithm :: string
  sw_checksum_schema_version :: string
  sw_checksum_digest :: string
  sw_imported_at :: instant
  sw_groups :: scenario_groups

record governed_store = store +
  gv_scenario_versions :: "scenario_version_row list"
  gv_memberships :: "membership_row list"
  gv_conversations :: "conversation_row list"
  gv_messages :: "message_row list"
  gv_agent_runs :: "agent_run_row list"
  gv_activities :: "conversation_activity list"
  gv_proposals :: "proposal_row list"
  gv_proposal_versions :: "proposal_version_row list"
  gv_approvals :: "approval_row list"
  gv_baselines :: "baseline_row list"
  gv_audit :: "audit_envelope_v1 list"

section \<open>Memberships\<close>

definition has_active_membership :: "uuid \<Rightarrow> uuid \<Rightarrow> 'x governed_store_scheme \<Rightarrow> bool" where
  "has_active_membership app_user_id site_id s \<longleftrightarrow>
     (\<exists>m \<in> set (gv_memberships s). mb_app_user_id m = app_user_id \<and> mb_site_id m = site_id \<and> mb_revoked_at m = None)"

section \<open>Conversations\<close>

record executed_agent_run_v1 =
  ea_event :: conversation_activity
  ea_resource_version :: int
  ea_agent_run_status :: "agent_run_status option"

definition find_conversation :: "uuid \<Rightarrow> uuid \<Rightarrow> 'x governed_store_scheme \<Rightarrow> conversation_row option" where
  "find_conversation app_site conversation_id s =
     find (\<lambda>c. cv_id c = conversation_id \<and> cv_site_id c = app_site) (gv_conversations s)"

definition find_agent_run :: "uuid \<Rightarrow> uuid \<Rightarrow> 'x governed_store_scheme \<Rightarrow> agent_run_row option" where
  "find_agent_run app_site agent_run_id s =
     find (\<lambda>a. ag_id a = agent_run_id \<and> ag_site_id a = app_site) (gv_agent_runs s)"

definition set_agent_run :: "uuid \<Rightarrow> uuid \<Rightarrow> (agent_run_row \<Rightarrow> agent_run_row) \<Rightarrow> ('x governed_store_scheme, app_error, unit) action" where
  "set_agent_run app_site agent_run_id f =
     writing (\<lambda>s. s\<lparr>gv_agent_runs := update_rows (\<lambda>a. ag_id a = agent_run_id \<and> ag_site_id a = app_site) f (gv_agent_runs s)\<rparr>)"

definition activities_of :: "uuid \<Rightarrow> 'x governed_store_scheme \<Rightarrow> conversation_activity list" where
  "activities_of conversation_id s = filter (\<lambda>e. ca_conversation_id e = conversation_id) (gv_activities s)"

definition next_activity_sequence :: "uuid \<Rightarrow> 'x governed_store_scheme \<Rightarrow> int" where
  "next_activity_sequence conversation_id s =
     (case map ca_sequence (activities_of conversation_id s) of [] \<Rightarrow> 0 | x # xs \<Rightarrow> fold max xs x) + 1"

text \<open>The locked conversation row, or the exception its absence raises.\<close>

definition lock_conversation :: "uuid \<Rightarrow> uuid \<Rightarrow> string \<Rightarrow> ('x governed_store_scheme, app_error, conversation_row) action" where
  "lock_conversation app_site conversation_id message =
     and_then (reading (find_conversation app_site conversation_id)) (\<lambda>conv.
     case conv of None \<Rightarrow> raise (RuntimeError message) | Some c \<Rightarrow> ret c)"

text \<open>Appending to the stream: the next sequence number, the next version of the conversation.\<close>

definition append_activity ::
  "conversation_row \<Rightarrow> uuid \<Rightarrow> uuid \<Rightarrow> string \<Rightarrow> instant \<Rightarrow> uuid \<Rightarrow> uuid option \<Rightarrow> uuid \<Rightarrow> uuid \<Rightarrow> activity_payload
   \<Rightarrow> ('x governed_store_scheme, app_error, conversation_activity) action" where
  "append_activity conv scenario_id scenario_version_id event_type occurred_at request_id agent_run_id site_id actor_id payload =
     and_then uuid4 (\<lambda>activity_id.
     and_then (reading (next_activity_sequence (cv_id conv))) (\<lambda>sequence.
     let event = \<lparr>ca_activity_id = activity_id, ca_event_type = event_type, ca_conversation_id = cv_id conv,
           ca_sequence = sequence, ca_resource_version = cv_resource_version conv + 1,
           ca_scenario_id = scenario_id, ca_scenario_version_id = scenario_version_id,
           ca_occurred_at = occurred_at, ca_request_id = request_id, ca_agent_run_id = agent_run_id,
           ca_site_id = site_id, ca_actor_id = actor_id, ca_payload = payload\<rparr> in
     and_then (writing (\<lambda>s. s\<lparr>gv_activities := gv_activities s @ [event],
         gv_conversations := update_rows (\<lambda>c. cv_id c = cv_id conv \<and> cv_site_id c = cv_site_id conv)
           (\<lambda>c. c\<lparr>cv_resource_version := cv_resource_version conv + 1\<rparr>) (gv_conversations s)\<rparr>)) (\<lambda>_.
     ret event)))"

definition append_approval_activity ::
  "uuid \<Rightarrow> approval_binding_v1 \<Rightarrow> uuid \<Rightarrow> uuid \<Rightarrow> uuid option \<Rightarrow> instant \<Rightarrow> agent_run_status option
   \<Rightarrow> ('x governed_store_scheme, app_error, executed_agent_run_v1) action" where
  "append_approval_activity app_site binding actor_id request_id agent_run_id occurred_at agent_run_status =
     and_then (lock_conversation app_site (ab_conversation_id binding) ''approval conversation is no longer visible'') (\<lambda>conv.
     and_then (append_activity conv (cv_scenario_id conv) (cv_scenario_version_id conv) ''approval_request'' occurred_at request_id agent_run_id (ab_site_id binding) actor_id
                (ApprovalRequestActivity binding)) (\<lambda>event.
     ret \<lparr>ea_event = event, ea_resource_version = cv_resource_version conv + 1,
          ea_agent_run_status = (if agent_run_status = None \<and> agent_run_id \<noteq> None then Some ApprovalRequired
                                 else agent_run_status)\<rparr>))"

definition require_agent_status ::
  "uuid \<Rightarrow> uuid \<Rightarrow> agent_run_status \<Rightarrow> ('x governed_store_scheme, app_error, unit) action" where
  "require_agent_status app_site agent_run_id status =
     and_then (reading (\<lambda>s. map_option ag_status (find_agent_run app_site agent_run_id s))) (\<lambda>current.
     raise_if (current \<noteq> Some status) AgentRunNotQueuedError)"

definition pause_agent_run_for_approval ::
  "uuid \<Rightarrow> uuid \<Rightarrow> approval_binding_v1 \<Rightarrow> uuid \<Rightarrow> ('x governed_store_scheme, app_error, executed_agent_run_v1) action" where
  "pause_agent_run_for_approval app_site agent_run_id binding request_id =
     and_then (lock_conversation app_site (ab_conversation_id binding) ''approval conversation is no longer visible'') (\<lambda>_.
     and_then (require_agent_status app_site agent_run_id AgentRunning) (\<lambda>_.
     and_then (append_approval_activity app_site binding (ab_initiated_by_actor_id binding) request_id (Some agent_run_id)
                 (ab_created_at binding) None) (\<lambda>result.
     and_then (set_agent_run app_site agent_run_id (\<lambda>a. a\<lparr>ag_status := ApprovalRequired\<rparr>)) (\<lambda>_.
     ret (result\<lparr>ea_agent_run_status := Some ApprovalRequired\<rparr>)))))"

definition approval_cancellation_reasons :: "string list" where
  "approval_cancellation_reasons = [''approval_rejected'', ''approval_expired'', ''approval_stale'']"

definition cancel_agent_run_for_approval ::
  "uuid \<Rightarrow> uuid \<Rightarrow> approval_binding_v1 \<Rightarrow> string \<Rightarrow> ('x governed_store_scheme, app_error, unit) action" where
  "cancel_agent_run_for_approval app_site agent_run_id binding reason =
     and_then (raise_if (reason \<notin> set approval_cancellation_reasons) (ValueError ''approval cancellation reason'')) (\<lambda>_.
     and_then (lock_conversation app_site (ab_conversation_id binding) ''approval conversation is no longer visible'') (\<lambda>_.
     and_then (require_agent_status app_site agent_run_id ApprovalRequired) (\<lambda>_.
     set_agent_run app_site agent_run_id (\<lambda>a. a\<lparr>ag_status := AgentCancelled, ag_status_reason := Some reason\<rparr>))))"

definition resume_agent_run_for_approval ::
  "uuid \<Rightarrow> uuid \<Rightarrow> approval_binding_v1 \<Rightarrow> uuid \<Rightarrow> instant \<Rightarrow> ('x governed_store_scheme, app_error, executed_agent_run_v1) action" where
  "resume_agent_run_for_approval app_site agent_run_id binding request_id occurred_at =
     and_then (lock_conversation app_site (ab_conversation_id binding) ''approval conversation is no longer visible'') (\<lambda>_.
     and_then (require_agent_status app_site agent_run_id ApprovalRequired) (\<lambda>_.
     and_then (set_agent_run app_site agent_run_id (\<lambda>a. a\<lparr>ag_status := AgentRunning, ag_status_reason := None\<rparr>)) (\<lambda>_.
     case ab_decided_by_actor_id binding of
       None \<Rightarrow> raise (IntegrityError ''persisted_event.actor_id'')
     | Some actor_id \<Rightarrow>
         append_approval_activity app_site binding actor_id request_id (Some agent_run_id) occurred_at (Some AgentRunning))))"

text \<open>\<open>accept_turn\<close> stores the message, a queued agent run and the first event of the turn.\<close>

definition accept_turn ::
  "uuid \<Rightarrow> uuid \<Rightarrow> uuid \<Rightarrow> string \<Rightarrow> uuid \<Rightarrow> ('x governed_store_scheme, app_error, executed_agent_run_v1 option) action" where
  "accept_turn app_site conversation_id actor_id text request_id =
     and_then (reading (find_conversation app_site conversation_id)) (\<lambda>found.
     case found of
       None \<Rightarrow> ret None
     | Some conv \<Rightarrow>
         and_then uuid4 (\<lambda>message_id.
         and_then uuid4 (\<lambda>run_id.
         and_then (reading st_now) (\<lambda>now.
         and_then (raise_if (list_all is_space text) (IntegrityError ''ck_message_text_nonempty'')) (\<lambda>_.
         and_then (writing (\<lambda>s. s\<lparr>
             gv_messages := gv_messages s @ [\<lparr>mg_id = message_id, mg_site_id = app_site, mg_conversation_id = conversation_id,
                mg_actor_id = actor_id, mg_text = text, mg_created_at = now\<rparr>],
             gv_agent_runs := gv_agent_runs s @ [\<lparr>ag_id = run_id, ag_site_id = app_site, ag_conversation_id = conversation_id,
                ag_message_id = message_id, ag_status = AgentQueued, ag_status_reason = None, ag_created_at = now\<rparr>]\<rparr>)) (\<lambda>_.
         and_then (append_activity conv (cv_scenario_id conv) (cv_scenario_version_id conv) ''planner_message_accepted'' now request_id (Some run_id) app_site actor_id
                    (PlannerMessageActivity message_id text)) (\<lambda>event.
         ret (Some \<lparr>ea_event = event, ea_resource_version = cv_resource_version conv + 1,
                    ea_agent_run_status = Some AgentQueued\<rparr>))))))))"

record claimed_agent_run_v1 =
  cl_agent_run_id :: uuid
  cl_conversation_id :: uuid
  cl_scenario_id :: uuid
  cl_scenario_version_id :: uuid
  cl_site_id :: uuid
  cl_actor_id :: uuid
  cl_membership_id :: uuid
  cl_prompt :: string
  cl_history :: "activity_payload list"

definition claim_history :: "uuid \<Rightarrow> uuid \<Rightarrow> 'x governed_store_scheme \<Rightarrow> activity_payload list" where
  "claim_history conversation_id agent_run_id s =
     map ca_payload (rev (take 100 (rev (sort_key ca_sequence
       (filter (\<lambda>e. ca_agent_run_id e \<noteq> Some agent_run_id) (activities_of conversation_id s))))))"

definition claim_queued_run ::
  "uuid \<Rightarrow> uuid \<Rightarrow> uuid \<Rightarrow> ('x governed_store_scheme, app_error, claimed_agent_run_v1 option) action" where
  "claim_queued_run app_site conversation_id agent_run_id =
     and_then (reading (\<lambda>s.
        case (find_agent_run app_site agent_run_id s, find_conversation app_site conversation_id s) of
          (Some a, Some c) \<Rightarrow>
            if ag_conversation_id a \<noteq> conversation_id then None
            else (case find (\<lambda>m. mg_id m = ag_message_id a) (gv_messages s) of
                    None \<Rightarrow> None
                  | Some m \<Rightarrow>
                      (case find (\<lambda>b. mb_app_user_id b = mg_actor_id m \<and> mb_site_id b = cv_site_id c \<and> mb_revoked_at b = None)
                              (gv_memberships s) of
                         None \<Rightarrow> None | Some b \<Rightarrow> Some (a, c, m, b)))
        | _ \<Rightarrow> None)) (\<lambda>found.
     case found of
       None \<Rightarrow> ret None
     | Some (a, c, m, b) \<Rightarrow>
         and_then (raise_if (ag_status a \<noteq> AgentQueued) AgentRunNotQueuedError) (\<lambda>_.
         and_then (set_agent_run app_site agent_run_id (\<lambda>a. a\<lparr>ag_status := AgentRunning\<rparr>)) (\<lambda>_.
         and_then (reading (claim_history conversation_id agent_run_id)) (\<lambda>history.
         ret (Some \<lparr>cl_agent_run_id = agent_run_id, cl_conversation_id = conversation_id,
                    cl_scenario_id = cv_scenario_id c, cl_scenario_version_id = cv_scenario_version_id c,
                    cl_site_id = cv_site_id c, cl_actor_id = mg_actor_id m, cl_membership_id = mb_id b,
                    cl_prompt = mg_text m, cl_history = history\<rparr>)))))"

definition activity_name :: "activity_payload \<Rightarrow> string" where
  "activity_name p = (case p of
      PlannerMessageActivity _ _ \<Rightarrow> ''planner_message''
    | AgentResponseActivity _ \<Rightarrow> ''agent_response''
    | ClarificationActivity _ \<Rightarrow> ''clarification''
    | DraftActivity _ _ _ \<Rightarrow> ''draft''
    | ApprovalRequestActivity _ \<Rightarrow> ''approval_request''
    | TerminalOutcomeActivity _ \<Rightarrow> ''terminal_outcome'')"

definition finish_agent_run ::
  "uuid \<Rightarrow> claimed_agent_run_v1 \<Rightarrow> agent_run_status \<Rightarrow> activity_payload \<Rightarrow> uuid
   \<Rightarrow> ('x governed_store_scheme, app_error, executed_agent_run_v1) action" where
  "finish_agent_run app_site claimed status payload request_id =
     and_then (lock_conversation app_site (cl_conversation_id claimed) ''claimed conversation is no longer visible'') (\<lambda>conv.
     and_then (require_agent_status app_site (cl_agent_run_id claimed) AgentRunning) (\<lambda>_.
     and_then (reading st_now) (\<lambda>now.
     and_then (set_agent_run app_site (cl_agent_run_id claimed) (\<lambda>a. a\<lparr>ag_status := status\<rparr>)) (\<lambda>_.
     and_then (append_activity conv (cl_scenario_id claimed) (cl_scenario_version_id claimed) (activity_name payload) now request_id (Some (cl_agent_run_id claimed))
                (cl_site_id claimed) (cl_actor_id claimed) payload) (\<lambda>event.
     ret \<lparr>ea_event = event, ea_resource_version = cv_resource_version conv + 1, ea_agent_run_status = Some status\<rparr>)))))"

section \<open>Proposals\<close>

record proposal_record_v1 =
  pc_proposal :: proposal_v1
  pc_version_ordinal :: int
  pc_created_by_actor_id :: uuid
  pc_ended_by :: "proposal_ended_by option"
  pc_applied_version_id :: "uuid option"
  pc_applied_version_ordinal :: "int option"

definition find_proposal_version :: "uuid \<Rightarrow> uuid option \<Rightarrow> 'x governed_store_scheme \<Rightarrow> proposal_version_row option" where
  "find_proposal_version site_id version_id s =
     find (\<lambda>x. Some (px_id x) = version_id \<and> px_site_id x = site_id) (gv_proposal_versions s)"

text \<open>The payload keeps what its version was written with; state and version come from the row.\<close>

definition read_one_proposal ::
  "uuid \<Rightarrow> (proposal_row \<Rightarrow> bool) \<Rightarrow> ('x governed_store_scheme, app_error, proposal_record_v1 option) action" where
  "read_one_proposal app_site predicate =
     and_then (reading (\<lambda>s. find (\<lambda>p. pr_site_id p = app_site \<and> predicate p) (gv_proposals s))) (\<lambda>row.
     case row of
       None \<Rightarrow> ret None
     | Some p \<Rightarrow>
         and_then (reading (find_proposal_version (pr_site_id p) (pr_current_version_id p))) (\<lambda>current.
         and_then (reading (find_proposal_version (pr_site_id p) (pr_applied_version_id p))) (\<lambda>applied.
         case current of
           None \<Rightarrow> raise (RuntimeError ''proposal has no current version row'')
         | Some v \<Rightarrow>
             ret (Some \<lparr>pc_proposal = (px_payload v)\<lparr>pp_state := pr_state p, pp_resource_version := pr_resource_version p\<rparr>,
                        pc_version_ordinal = px_version_ordinal v,
                        pc_created_by_actor_id = pr_created_by_actor_id p,
                        pc_ended_by = pr_ended_by p, pc_applied_version_id = pr_applied_version_id p,
                        pc_applied_version_ordinal = map_option px_version_ordinal applied\<rparr>))))"

definition get_current_proposal ::
  "uuid \<Rightarrow> uuid \<Rightarrow> ('x governed_store_scheme, app_error, proposal_record_v1 option) action" where
  "get_current_proposal app_site proposal_id = read_one_proposal app_site (\<lambda>p. pr_id p = proposal_id)"

definition get_working_proposal ::
  "uuid \<Rightarrow> uuid \<Rightarrow> ('x governed_store_scheme, app_error, proposal_record_v1 option) action" where
  "get_working_proposal app_site conversation_id =
     read_one_proposal app_site (\<lambda>p. pr_conversation_id p = conversation_id \<and> pr_state p = ProposalActive)"

definition insert_proposal_version ::
  "uuid \<Rightarrow> proposal_v1 \<Rightarrow> uuid \<Rightarrow> uuid \<Rightarrow> int \<Rightarrow> ('x governed_store_scheme, app_error, unit) action" where
  "insert_proposal_version site_id proposal version_id proposal_id ordinal =
     and_then (reading gv_proposal_versions) (\<lambda>versions.
     and_then (raise_if (\<exists>x \<in> set versions. px_id x = version_id) (IntegrityError ''proposal_version_pkey'')) (\<lambda>_.
     and_then (raise_if (\<exists>x \<in> set versions. px_proposal_id x = proposal_id \<and> px_version_ordinal x = ordinal)
                (IntegrityError ''uq_proposal_version_ordinal'')) (\<lambda>_.
     writing (\<lambda>s. s\<lparr>gv_proposal_versions := gv_proposal_versions s @
       [\<lparr>px_id = version_id, px_site_id = site_id, px_proposal_id = proposal_id, px_version_ordinal = ordinal,
         px_payload = proposal\<rparr>]\<rparr>))))"

definition update_proposal :: "uuid \<Rightarrow> (proposal_row \<Rightarrow> bool) \<Rightarrow> (proposal_row \<Rightarrow> proposal_row) \<Rightarrow> ('x governed_store_scheme, app_error, unit) action" where
  "update_proposal app_site p f =
     writing (\<lambda>s. s\<lparr>gv_proposals := update_rows (\<lambda>r. pr_site_id r = app_site \<and> p r) f (gv_proposals s)\<rparr>)"

definition create_draft ::
  "proposal_v1 \<Rightarrow> uuid \<Rightarrow> uuid \<Rightarrow> uuid \<Rightarrow> ('x governed_store_scheme, app_error, unit) action" where
  "create_draft proposal site_id conversation_id actor_id =
     (case (pp_proposal_id proposal, pp_proposal_version_id proposal, pp_scenario_id proposal, pp_scenario_version_id proposal) of
        (Some pid, Some vid, Some scenario_id, Some scenario_version_id) \<Rightarrow>
          and_then (reading gv_proposals) (\<lambda>rows.
          and_then (raise_if (\<exists>p \<in> set rows. pr_id p = pid) (IntegrityError ''proposal_pkey'')) (\<lambda>_.
          and_then (raise_if (pp_state proposal = ProposalActive
                       \<and> (\<exists>p \<in> set rows. pr_conversation_id p = conversation_id \<and> pr_state p = ProposalActive))
                     (IntegrityError ''uq_proposal_one_active_per_conversation'')) (\<lambda>_.
          and_then (raise_if (pp_state proposal \<noteq> ProposalActive) (IntegrityError ''ck_proposal_lifecycle'')) (\<lambda>_.
          and_then (writing (\<lambda>s. s\<lparr>gv_proposals := gv_proposals s @
              [\<lparr>pr_id = pid, pr_site_id = site_id, pr_scenario_id = scenario_id, pr_scenario_version_id = scenario_version_id,
                pr_conversation_id = conversation_id, pr_created_by_actor_id = actor_id, pr_state = pp_state proposal,
                pr_current_version_id = None, pr_resource_version = pp_resource_version proposal,
                pr_ended_by = None, pr_applied_version_id = None\<rparr>]\<rparr>)) (\<lambda>_.
          and_then (insert_proposal_version site_id proposal vid pid 1) (\<lambda>_.
          update_proposal site_id (\<lambda>p. pr_id p = pid) (\<lambda>p. p\<lparr>pr_current_version_id := Some vid\<rparr>)))))))
      | (Some _, Some _, _, _) \<Rightarrow> raise (ValueError ''a trusted proposal must carry governed scenario identifiers'')
      | _ \<Rightarrow> raise (ValueError ''a trusted proposal must carry durable identifiers''))"

definition append_agent_version ::
  "proposal_v1 \<Rightarrow> uuid \<Rightarrow> int \<Rightarrow> ('x governed_store_scheme, app_error, unit) action" where
  "append_agent_version proposal site_id ordinal =
     (case (pp_proposal_id proposal, pp_proposal_version_id proposal) of
        (Some pid, Some vid) \<Rightarrow>
          and_then (insert_proposal_version site_id proposal vid pid ordinal) (\<lambda>_.
          update_proposal site_id (\<lambda>p. pr_id p = pid)
            (\<lambda>p. p\<lparr>pr_current_version_id := Some vid, pr_resource_version := pp_resource_version proposal\<rparr>))
      | _ \<Rightarrow> raise (AssertionError ''proposal identifiers''))"

definition append_revision ::
  "proposal_v1 \<Rightarrow> uuid \<Rightarrow> int \<Rightarrow> string \<Rightarrow> string \<Rightarrow> string \<Rightarrow> uuid \<Rightarrow> proposal_view_v1
   \<Rightarrow> ('x governed_store_scheme, app_error, unit) action" where
  "append_revision proposal site_id ordinal operation key body_hash actor_id response =
     and_then (append_agent_version proposal site_id ordinal) (\<lambda>_.
     store_idempotent_result site_id actor_id operation key body_hash (ProposalPayload response))"

definition end_by_assistant :: "uuid \<Rightarrow> uuid \<Rightarrow> int \<Rightarrow> ('x governed_store_scheme, app_error, unit) action" where
  "end_by_assistant app_site proposal_id resource_version =
     update_proposal app_site (\<lambda>p. pr_id p = proposal_id)
       (\<lambda>p. p\<lparr>pr_state := ProposalRejected, pr_ended_by := Some EndedByAssistant, pr_resource_version := resource_version\<rparr>)"

definition reject_row ::
  "proposal_v1 \<Rightarrow> uuid \<Rightarrow> string \<Rightarrow> string \<Rightarrow> string \<Rightarrow> uuid \<Rightarrow> proposal_view_v1
   \<Rightarrow> ('x governed_store_scheme, app_error, unit) action" where
  "reject_row proposal site_id operation key body_hash actor_id response =
     (case pp_proposal_id proposal of
        None \<Rightarrow> raise (AssertionError ''proposal_id'')
      | Some pid \<Rightarrow>
          and_then (update_proposal site_id (\<lambda>p. pr_id p = pid)
             (\<lambda>p. p\<lparr>pr_state := ProposalRejected, pr_ended_by := Some EndedByPlanner,
                    pr_resource_version := pp_resource_version proposal\<rparr>)) (\<lambda>_.
          store_idempotent_result site_id actor_id operation key body_hash (ProposalPayload response)))"

definition mark_applied :: "uuid \<Rightarrow> uuid \<Rightarrow> ('x governed_store_scheme, app_error, bool) action" where
  "mark_applied site_id schedule_version_id =
     and_then (reading (\<lambda>s. find (\<lambda>v. vr_id v = schedule_version_id \<and> vr_site_id v = site_id) (st_versions s))) (\<lambda>version.
     case version of
       None \<Rightarrow> ret False
     | Some v \<Rightarrow>
         (case (sv_proposal_id (vr_payload v), sv_proposal_version_id (vr_payload v)) of
            (Some pid, Some vid) \<Rightarrow>
              and_then (reading (\<lambda>s. \<exists>p \<in> set (gv_proposals s). pr_id p = pid \<and> pr_site_id p = site_id \<and> pr_state p = ProposalActive)) (\<lambda>changed.
              and_then (update_proposal site_id (\<lambda>p. pr_id p = pid \<and> pr_state p = ProposalActive)
                 (\<lambda>p. p\<lparr>pr_state := ProposalApplied, pr_ended_by := Some EndedBySystem, pr_applied_version_id := Some vid,
                        pr_resource_version := pr_resource_version p + 1\<rparr>)) (\<lambda>_.
              ret changed))
          | _ \<Rightarrow> ret False))"

section \<open>Approvals\<close>

definition find_approval :: "uuid \<Rightarrow> uuid \<Rightarrow> 'x governed_store_scheme \<Rightarrow> approval_row option" where
  "find_approval approval_id site_id s =
     find (\<lambda>a. ab_approval_id (ap_binding a) = approval_id \<and> ab_site_id (ap_binding a) = site_id) (gv_approvals s)"

definition get_approval :: "uuid \<Rightarrow> uuid \<Rightarrow> 'x governed_store_scheme \<Rightarrow> approval_binding_v1 option" where
  "get_approval approval_id site_id s = map_option ap_binding (find_approval approval_id site_id s)"

definition approvals_for_run :: "uuid \<Rightarrow> uuid \<Rightarrow> 'x governed_store_scheme \<Rightarrow> approval_binding_v1 list" where
  "approvals_for_run run_id site_id s = sort_key ab_created_at
     (filter (\<lambda>b. ab_schedule_run_id b = run_id \<and> ab_site_id b = site_id) (map ap_binding (gv_approvals s)))"

definition get_pending_for_agent_run :: "uuid \<Rightarrow> uuid \<Rightarrow> 'x governed_store_scheme \<Rightarrow> approval_binding_v1 option" where
  "get_pending_for_agent_run agent_run_id site_id s =
     find (\<lambda>b. ab_agent_run_id b = Some agent_run_id \<and> ab_site_id b = site_id \<and> ab_state b = ApprovalPending)
       (map ap_binding (gv_approvals s))"

text \<open>The pending payload is the list of the suspended tool calls, by identifier.\<close>

definition create_pending ::
  "approval_binding_v1 \<Rightarrow> string list option \<Rightarrow> ('x governed_store_scheme, app_error, unit) action" where
  "create_pending b payload =
     and_then (reading (\<lambda>s. map ap_binding (gv_approvals s))) (\<lambda>rows.
     and_then (raise_if (\<exists>r \<in> set rows. ab_approval_id r = ab_approval_id b) (IntegrityError ''approval_request_pkey'')) (\<lambda>_.
     and_then (raise_if (\<exists>r \<in> set rows. ab_site_id r = ab_site_id b \<and> ab_request_effect_key r = ab_request_effect_key b)
                (IntegrityError ''uq_approval_request_effect'')) (\<lambda>_.
     and_then (raise_if (ab_state b = ApprovalPending \<and> ab_agent_run_id b \<noteq> None
                  \<and> (\<exists>r \<in> set rows. ab_agent_run_id r = ab_agent_run_id b \<and> ab_state r = ApprovalPending))
                (IntegrityError ''uq_approval_request_pending_agent_run'')) (\<lambda>_.
     and_then (raise_if (ab_state b = ApprovalPending
                  \<and> (\<exists>r \<in> set rows. ab_site_id r = ab_site_id b \<and> ab_schedule_run_id r = ab_schedule_run_id b \<and> ab_state r = ApprovalPending))
                (IntegrityError ''uq_approval_request_pending_run'')) (\<lambda>_.
     writing (\<lambda>s. s\<lparr>gv_approvals := gv_approvals s @ [\<lparr>ap_binding = b, ap_pending_payload = payload\<rparr>]\<rparr>))))))"

text \<open>Both closers compare state and version and write in one statement; \<open>None\<close> means no row matched.\<close>

definition close_approval ::
  "uuid \<Rightarrow> uuid \<Rightarrow> int \<Rightarrow> (approval_binding_v1 \<Rightarrow> approval_binding_v1) \<Rightarrow> ('x governed_store_scheme, app_error, approval_binding_v1 option) action" where
  "close_approval approval_id site_id expected f =
     (let mine = (\<lambda>a. ab_approval_id (ap_binding a) = approval_id \<and> ab_site_id (ap_binding a) = site_id
                     \<and> ab_state (ap_binding a) = ApprovalPending \<and> ab_resource_version (ap_binding a) = expected) in
      and_then (reading (\<lambda>s. find mine (gv_approvals s))) (\<lambda>row.
      and_then (writing (\<lambda>s. s\<lparr>gv_approvals := update_rows mine (\<lambda>a. a\<lparr>ap_binding := f (ap_binding a)\<rparr>) (gv_approvals s)\<rparr>)) (\<lambda>_.
      ret (map_option (\<lambda>a. f (ap_binding a)) row))))"

definition terminalize ::
  "uuid \<Rightarrow> uuid \<Rightarrow> approval_state \<Rightarrow> uuid \<Rightarrow> instant \<Rightarrow> int \<Rightarrow> ('x governed_store_scheme, app_error, approval_binding_v1 option) action" where
  "terminalize approval_id site_id state actor_id decided_at expected =
     close_approval approval_id site_id expected
       (\<lambda>b. b\<lparr>ab_state := state, ab_decided_by_actor_id := Some actor_id, ab_decided_at := Some decided_at,
             ab_resource_version := ab_resource_version b + 1\<rparr>)"

definition consume_approval ::
  "uuid \<Rightarrow> uuid \<Rightarrow> uuid \<Rightarrow> instant \<Rightarrow> int \<Rightarrow> ('x governed_store_scheme, app_error, approval_binding_v1 option) action" where
  "consume_approval approval_id site_id actor_id decided_at expected =
     close_approval approval_id site_id expected
       (\<lambda>b. b\<lparr>ab_state := ApprovalConsumed, ab_decided_by_actor_id := Some actor_id, ab_decided_at := Some decided_at,
             ab_consumed_at := Some decided_at, ab_resource_version := ab_resource_version b + 1\<rparr>)"

section \<open>Baseline and audit\<close>

definition get_baseline :: "uuid \<Rightarrow> 'x governed_store_scheme \<Rightarrow> baseline_row option" where
  "get_baseline site_id s = find (\<lambda>b. bl_site_id b = site_id) (gv_baselines s)"

definition promote ::
  "uuid \<Rightarrow> uuid \<Rightarrow> uuid \<Rightarrow> instant \<Rightarrow> int option \<Rightarrow> ('x governed_store_scheme, app_error, baseline_row option) action" where
  "promote site_id schedule_version_id actor_id occurred_at expected =
     and_then (reading (\<lambda>s. get_baseline site_id s)) (\<lambda>current.
     and_then (reading (\<lambda>s. \<exists>v \<in> set (st_versions s). vr_id v = schedule_version_id \<and> vr_site_id v = site_id)) (\<lambda>version_exists.
     case expected of
       None \<Rightarrow>
         if current \<noteq> None then ret None
         else and_then (raise_if (\<not> version_exists) (IntegrityError ''fk_site_baseline_version_site'')) (\<lambda>_.
              let row = \<lparr>bl_site_id = site_id, bl_schedule_version_id = schedule_version_id, bl_resource_version = 1,
                         bl_updated_at = occurred_at, bl_updated_by_actor_id = actor_id\<rparr> in
              and_then (writing (\<lambda>s. s\<lparr>gv_baselines := gv_baselines s @ [row]\<rparr>)) (\<lambda>_. ret (Some row)))
     | Some version \<Rightarrow>
         (case current of
            None \<Rightarrow> ret None
          | Some b \<Rightarrow>
              if bl_resource_version b \<noteq> version then ret None
              else and_then (raise_if (\<not> version_exists) (IntegrityError ''fk_site_baseline_version_site'')) (\<lambda>_.
                   let row = b\<lparr>bl_schedule_version_id := schedule_version_id, bl_resource_version := bl_resource_version b + 1,
                               bl_updated_at := occurred_at, bl_updated_by_actor_id := actor_id\<rparr> in
                   and_then (writing (\<lambda>s. s\<lparr>gv_baselines := update_rows
                      (\<lambda>r. bl_site_id r = site_id \<and> bl_resource_version r = version) (\<lambda>_. row) (gv_baselines s)\<rparr>)) (\<lambda>_.
                   ret (Some row))))))"

definition audit_append :: "audit_envelope_v1 \<Rightarrow> ('x governed_store_scheme, app_error, unit) action" where
  "audit_append e =
     and_then (reading gv_audit) (\<lambda>rows.
     and_then (raise_if (\<exists>r \<in> set rows. ae_audit_id r = ae_audit_id e) (IntegrityError ''audit_event_pkey'')) (\<lambda>_.
     and_then (raise_if (ae_success e \<and> (\<exists>r \<in> set rows. ae_success r \<and> ae_site_id r = ae_site_id e
                  \<and> ae_effect_key r = ae_effect_key e \<and> ae_outcome r = ae_outcome e))
                (IntegrityError ''uq_audit_event_success_effect'')) (\<lambda>_.
     and_then (raise_if (\<not> ae_success e \<and> (\<exists>r \<in> set rows. \<not> ae_success r \<and> ae_site_id r = ae_site_id e
                  \<and> ae_attempt_id r = ae_attempt_id e))
                (IntegrityError ''uq_audit_event_failure_attempt'')) (\<lambda>_.
     writing (\<lambda>s. s\<lparr>gv_audit := gv_audit s @ [e]\<rparr>)))))"

end
