(* ===== verification/Projection.thy ===== *)
theory Projection
  imports Governed_Store
begin

text \<open>
  The scenario projection (\<^verbatim>\<open>adapters/postgres/scenario_projection.py\<close>, \<^verbatim>\<open>scenario_catalogue.py\<close>): the
  normalized groups of the latest immutable version of a scenario, queried in pages and resolved
  record by record; and the bounded drain that reads one group to exhaustion
  (\<^verbatim>\<open>application/grounding/pagination.py\<close>). The reads see the rows of the session's site. A lock is
  never part of a payload, so the group of locks is empty. \<open>str.casefold\<close> of Unicode is a parameter.
\<close>

section \<open>The latest version\<close>

text \<open>The digits of the version, read as a number; \<open>None\<close>, for a version without digits, sorts last.
  Texts compare by code points.\<close>

definition version_ordinal :: "string \<Rightarrow> nat option" where
  "version_ordinal version =
     (case filter (is_digit 10) version of [] \<Rightarrow> None | ds \<Rightarrow> Some (digits_value 10 ds))"

definition version_key :: "scenario_version_row \<Rightarrow> nat option \<times> string \<times> uuid" where
  "version_key r = (version_ordinal (sw_fixture_version r), sw_fixture_version r, sw_scenario_version_id r)"

definition projection_row :: "uuid \<Rightarrow> uuid \<Rightarrow> 'x governed_store_scheme \<Rightarrow> scenario_version_row option" where
  "projection_row app_site scenario_id s =
     (case rev (sort_key version_key (filter (\<lambda>r. sw_scenario_id r = scenario_id \<and> sw_site_id r = app_site)
              (gv_scenario_versions s))) of
        [] \<Rightarrow> None | r # _ \<Rightarrow> Some r)"

record scenario_context =
  sx_scenario_name :: string
  sx_scenario_id :: uuid
  sx_scenario_version_id :: uuid
  sx_fixture_version :: string
  sx_checksum_algorithm :: string
  sx_checksum_schema_version :: string
  sx_checksum_digest :: string
  sx_site_id :: uuid
  sx_baseline_schedule_version :: "string option"

definition baseline_text :: "uuid \<Rightarrow> 'x governed_store_scheme \<Rightarrow> string option" where
  "baseline_text site_id s = map_option (\<lambda>b. str_uuid (bl_schedule_version_id b)) (get_baseline site_id s)"

definition get_scenario_context :: "uuid \<Rightarrow> uuid \<Rightarrow> 'x governed_store_scheme \<Rightarrow> scenario_context option" where
  "get_scenario_context app_site scenario_id s =
     map_option (\<lambda>r. \<lparr>sx_scenario_name = sw_scenario_name r, sx_scenario_id = sw_scenario_id r,
         sx_scenario_version_id = sw_scenario_version_id r, sx_fixture_version = sw_fixture_version r,
         sx_checksum_algorithm = sw_checksum_algorithm r, sx_checksum_schema_version = sw_checksum_schema_version r,
         sx_checksum_digest = sw_checksum_digest r, sx_site_id = sw_site_id r,
         sx_baseline_schedule_version = baseline_text (sw_site_id r) s\<rparr>)
       (projection_row app_site scenario_id s)"

record fixture_catalogue_entry =
  fx_scenario_id :: uuid
  fx_fixture_id :: string
  fx_scenario_name :: string
  fx_scenario_version_id :: uuid
  fx_fixture_version :: string
  fx_checksum_algorithm :: string
  fx_checksum_schema_version :: string
  fx_checksum_digest :: string
  fx_imported_at :: instant
  fx_site_id :: uuid

text \<open>In ascending order the versions without digits come last as well.\<close>

definition list_fixture_versions :: "uuid \<Rightarrow> 'x governed_store_scheme \<Rightarrow> fixture_catalogue_entry list" where
  "list_fixture_versions app_site s =
     map (\<lambda>r. \<lparr>fx_scenario_id = sw_scenario_id r, fx_fixture_id = sw_fixture_id r, fx_scenario_name = sw_scenario_name r,
         fx_scenario_version_id = sw_scenario_version_id r, fx_fixture_version = sw_fixture_version r,
         fx_checksum_algorithm = sw_checksum_algorithm r, fx_checksum_schema_version = sw_checksum_schema_version r,
         fx_checksum_digest = sw_checksum_digest r, fx_imported_at = sw_imported_at r, fx_site_id = sw_site_id r\<rparr>)
       (sort_key (\<lambda>r. (sw_fixture_id r, version_ordinal (sw_fixture_version r) = None, version_key r))
         (filter (\<lambda>r. sw_site_id r = app_site) (gv_scenario_versions s)))"

section \<open>Baseline assignments and the overview\<close>

text \<open>The site's baseline pointer counts only for the scenario version its schedule was computed for.\<close>

definition baseline_assignments :: "scenario_version_row \<Rightarrow> 'x governed_store_scheme \<Rightarrow> assignment_v1 list" where
  "baseline_assignments row s =
     (case get_baseline (sw_site_id row) s of
        None \<Rightarrow> []
      | Some baseline \<Rightarrow>
          (case get_version (bl_schedule_version_id baseline) (sw_site_id row) s of
             None \<Rightarrow> []
           | Some schedule \<Rightarrow>
               if sv_scenario_id schedule \<noteq> Some (sw_scenario_id row)
                  \<or> sv_scenario_version_id schedule \<noteq> Some (sw_scenario_version_id row) then []
               else sv_assignments schedule))"

definition site_timezone :: string where
  "site_timezone = ''Asia/Ho_Chi_Minh''"

definition get_overview :: "uuid \<Rightarrow> uuid \<Rightarrow> 'x governed_store_scheme \<Rightarrow> scenario_overview_v1 option" where
  "get_overview app_site scenario_id s =
     map_option (\<lambda>row. let g = sw_groups row in
       \<lparr>ov_scenario_id = sw_scenario_id row, ov_scenario_version_id = sw_scenario_version_id row,
        ov_site_id = sw_site_id row, ov_fixture_id = sw_fixture_id row, ov_scenario_name = sw_scenario_name row,
        ov_fixture_version = sw_fixture_version row, ov_checksum_algorithm = sw_checksum_algorithm row,
        ov_checksum_schema_version = sw_checksum_schema_version row, ov_checksum_digest = sw_checksum_digest row,
        ov_horizon_start = sg_horizon_start g, ov_site_timezone = site_timezone,
        ov_horizon_minutes = sg_horizon_minutes g, ov_baseline_schedule_version = baseline_text (sw_site_id row) s,
        ov_projection_generated_at = st_now s,
        ov_work_area_count = int (card (set (sg_work_areas g))), ov_task_count = int (length (sg_tasks g)),
        ov_worker_count = int (length (sg_workers g)), ov_demand_interval_count = int (length (sg_demand g)),
        ov_baseline_assignment_count = int (length (baseline_assignments row s)), ov_lock_count = 0,
        ov_constraint_count = int (length (sg_constraints g))\<rparr>)
       (projection_row app_site scenario_id s)"

section \<open>Queries\<close>

datatype query_value = TextValue string | IntValue int

record group_query_v1 =
  gq_cursor :: int
  gq_limit :: int
  gq_sort :: "string option"
  gq_order :: string
  gq_filters :: "(string \<times> query_value) list"

record 'a page_v1 =
  pg_scenario_id :: uuid
  pg_scenario_version_id :: uuid
  pg_site_id :: uuid
  pg_items :: "'a list"
  pg_next_cursor :: "int option"
  pg_total_count :: nat
  pg_matching_count :: nat

datatype query_error = QueryKeyError string | QueryTypeError

text \<open>The key of a column: a text, a number, or a nullable text, whose null comes after every text.\<close>

type_synonym column_key = "nat \<times> string \<times> rat"

definition text_key :: "string \<Rightarrow> column_key" where
  "text_key t = (0, t, 0)"

definition number_key :: "rat \<Rightarrow> column_key" where
  "number_key x = (0, [], x)"

definition nullable_sort :: "string option \<Rightarrow> column_key" where
  "nullable_sort v = (case v of None \<Rightarrow> (1, [], 0) | Some t \<Rightarrow> (0, t, 0))"

type_synonym 'a sort_table = "(string \<times> ('a \<Rightarrow> column_key)) list"
type_synonym 'a filter_table = "(string \<times> ('a \<Rightarrow> query_value \<Rightarrow> query_error + bool)) list"

definition str_value :: "query_value \<Rightarrow> string" where
  "str_value v = (case v of TextValue t \<Rightarrow> t | IntValue i \<Rightarrow> str_int i)"

text \<open>\<open>field == value\<close> for a text field: an integer never equals it.\<close>

definition text_is :: "string \<Rightarrow> query_value \<Rightarrow> query_error + bool" where
  "text_is t v = Inr (v = TextValue t)"

definition nullable_is :: "string option \<Rightarrow> query_value \<Rightarrow> query_error + bool" where
  "nullable_is t v = Inr (case t of None \<Rightarrow> False | Some u \<Rightarrow> v = TextValue u)"

text \<open>Comparing an integer with a text raises \<open>TypeError\<close>.\<close>

definition compared :: "(int \<Rightarrow> bool) \<Rightarrow> query_value \<Rightarrow> query_error + bool" where
  "compared p v = (case v of IntValue i \<Rightarrow> Inr (p i) | TextValue _ \<Rightarrow> Inl QueryTypeError)"

fun is_prefix_of :: "string \<Rightarrow> string \<Rightarrow> bool" where
  "is_prefix_of [] t = True"
| "is_prefix_of (c # cs) [] = False"
| "is_prefix_of (c # cs) (d # ds) = (c = d \<and> is_prefix_of cs ds)"

fun occurs_in :: "string \<Rightarrow> string \<Rightarrow> bool" where
  "occurs_in needle [] = (needle = [])"
| "occurs_in needle (c # cs) = (is_prefix_of needle (c # cs) \<or> occurs_in needle cs)"

definition name_contains :: "(string \<Rightarrow> string) \<Rightarrow> string \<Rightarrow> query_value \<Rightarrow> query_error + bool" where
  "name_contains casefold name v = Inr (occurs_in (casefold (str_value v)) (casefold name))"

definition family_name :: "demand_family \<Rightarrow> string" where
  "family_name f = (case f of Outbound \<Rightarrow> ''outbound'' | Inbound \<Rightarrow> ''inbound'' | Indirect \<Rightarrow> ''indirect'')"

definition task_sorts :: "task_v1 sort_table" where
  "task_sorts =
     [(''task_id'', text_key \<circ> tk_task_id), (''name'', text_key \<circ> tk_name), (''function'', text_key \<circ> tk_function),
      (''area_id'', nullable_sort \<circ> Some \<circ> tk_area_id), (''area_name'', text_key \<circ> tk_area_name)]"

definition task_filters :: "(string \<Rightarrow> string) \<Rightarrow> task_v1 filter_table" where
  "task_filters casefold =
     [(''task_id'', text_is \<circ> tk_task_id), (''name_contains'', name_contains casefold \<circ> tk_name),
      (''function'', text_is \<circ> tk_function), (''area_id'', text_is \<circ> tk_area_id)]"

definition worker_sorts :: "worker_v1 sort_table" where
  "worker_sorts =
     [(''contact_id'', text_key \<circ> wk_contact_id), (''name'', text_key \<circ> wk_name),
      (''employment_type'', text_key \<circ> wk_employment_type), (''grade'', text_key \<circ> wk_grade),
      (''contracted_hours'', number_key \<circ> wk_contracted_hours)]"

definition worker_filters :: "(string \<Rightarrow> string) \<Rightarrow> worker_v1 filter_table" where
  "worker_filters casefold =
     [(''contact_id'', text_is \<circ> wk_contact_id), (''name_contains'', name_contains casefold \<circ> wk_name),
      (''employment_type'', text_is \<circ> wk_employment_type), (''grade'', text_is \<circ> wk_grade),
      (''qualified_task_id'', \<lambda>item value. Inr (list_ex (\<lambda>q. value = TextValue (qr_task_id q)) (wk_qualifications item)))]"

definition demand_sorts :: "demand_interval_v1 sort_table" where
  "demand_sorts =
     [(''start_minute'', number_key \<circ> of_int \<circ> di_start_minute), (''end_minute'', number_key \<circ> of_int \<circ> di_end_minute),
      (''task_id'', text_key \<circ> di_task_id), (''family'', text_key \<circ> family_name \<circ> di_family),
      (''amount'', number_key \<circ> di_amount)]"

definition demand_filters :: "demand_interval_v1 filter_table" where
  "demand_filters =
     [(''family'', text_is \<circ> family_name \<circ> di_family), (''task_id'', text_is \<circ> di_task_id),
      (''area_id'', nullable_is \<circ> di_area_id),
      (''start_minute_gte'', \<lambda>item. compared (\<lambda>v. di_start_minute item \<ge> v)),
      (''end_minute_lte'', \<lambda>item. compared (\<lambda>v. di_end_minute item \<le> v))]"

definition assignment_sorts :: "assignment_v1 sort_table" where
  "assignment_sorts =
     [(''start_minute'', number_key \<circ> of_int \<circ> as_start_minute), (''worker_id'', text_key \<circ> as_worker_id),
      (''task_id'', text_key \<circ> as_task_id)]"

definition assignment_filters :: "assignment_v1 filter_table" where
  "assignment_filters =
     [(''worker_id'', text_is \<circ> as_worker_id), (''task_id'', text_is \<circ> as_task_id), (''shift_id'', nullable_is \<circ> as_shift_id)]"

definition lock_sorts :: "lock_v1 sort_table" where
  "lock_sorts =
     [(''target_type'', text_key \<circ> lk_target_type), (''target_ref'', text_key \<circ> lk_target_ref),
      (''scope'', text_key \<circ> lk_scope), (''source'', text_key \<circ> lk_source)]"

definition lock_filters :: "lock_v1 filter_table" where
  "lock_filters =
     [(''target_type'', text_is \<circ> lk_target_type), (''target_ref'', text_is \<circ> lk_target_ref),
      (''scope'', text_is \<circ> lk_scope), (''source'', text_is \<circ> lk_source)]"

definition constraint_sorts :: "constraint_v1 sort_table" where
  "constraint_sorts =
     [(''constraint_type'', text_key \<circ> cn_constraint_type), (''value_type'', nullable_sort \<circ> cn_value_type)]"

definition constraint_filters :: "constraint_v1 filter_table" where
  "constraint_filters =
     [(''constraint_type'', text_is \<circ> cn_constraint_type), (''value_type'', nullable_is \<circ> cn_value_type)]"

text \<open>\<open>get_query_keys\<close>: the keys of the tables, none for an unknown group.\<close>

definition get_query_keys :: "string \<Rightarrow> string list \<times> string list" where
  "get_query_keys name = get_or ([], []) (map_of
     [(''tasks'', (map fst task_sorts, map fst (task_filters id))),
      (''workers'', (map fst worker_sorts, map fst (worker_filters id))),
      (''demand'', (map fst demand_sorts, map fst demand_filters)),
      (''assignments'', (map fst assignment_sorts, map fst assignment_filters)),
      (''locks'', (map fst lock_sorts, map fst lock_filters)),
      (''constraints'', (map fst constraint_sorts, map fst constraint_filters))] name)"

text \<open>\<open>all(filters[name](item, value) for ...)\<close> stops at the first filter that fails.\<close>

fun passes :: "'a filter_table \<Rightarrow> (string \<times> query_value) list \<Rightarrow> 'a \<Rightarrow> query_error + bool" where
  "passes table [] item = Inr True"
| "passes table ((name, value) # rest) item =
     (case map_of table name of
        None \<Rightarrow> Inl (QueryKeyError name)
      | Some f \<Rightarrow> (case f item value of Inl e \<Rightarrow> Inl e | Inr b \<Rightarrow> if b then passes table rest item else Inr False))"

fun filtered :: "'a filter_table \<Rightarrow> (string \<times> query_value) list \<Rightarrow> 'a list \<Rightarrow> query_error + 'a list" where
  "filtered table fs [] = Inr []"
| "filtered table fs (x # xs) =
     (case passes table fs x of
        Inl e \<Rightarrow> Inl e
      | Inr b \<Rightarrow> (case filtered table fs xs of Inl e \<Rightarrow> Inl e | Inr ys \<Rightarrow> Inr (if b then x # ys else ys)))"

text \<open>\<open>sorted(xs, key=k, reverse=r)\<close>: stable in both directions.\<close>

definition py_sorted :: "('a \<Rightarrow> 'k :: linorder) \<Rightarrow> bool \<Rightarrow> 'a list \<Rightarrow> 'a list" where
  "py_sorted k reverse xs = (if reverse then rev (sort_key k (rev xs)) else sort_key k xs)"

text \<open>\<open>xs[a:b]\<close>, with Python's reading of a negative bound.\<close>

definition slice_bound :: "nat \<Rightarrow> int \<Rightarrow> nat" where
  "slice_bound n i = (if i < 0 then nat (int n + i) else min n (nat i))"

definition py_slice :: "int \<Rightarrow> int \<Rightarrow> 'a list \<Rightarrow> 'a list" where
  "py_slice a b xs = (let i = slice_bound (length xs) a; j = slice_bound (length xs) b in take (j - i) (drop i xs))"

definition slice_window :: "'a list \<Rightarrow> int \<Rightarrow> int \<Rightarrow> 'a list \<times> int option \<times> nat" where
  "slice_window items cursor limit =
     (let page = py_slice cursor (cursor + limit) items;
          total = length items;
          end = cursor + int (length page)
      in (page, if end < int total then Some end else None, total))"

definition apply_query ::
  "('a \<Rightarrow> string) \<Rightarrow> 'a list \<Rightarrow> group_query_v1 \<Rightarrow> 'a sort_table \<Rightarrow> 'a filter_table
   \<Rightarrow> query_error + 'a list \<times> int option \<times> nat \<times> nat" where
  "apply_query record_id items query sorts filters =
     (case filtered filters (gq_filters query) items of
        Inl e \<Rightarrow> Inl e
      | Inr matching \<Rightarrow>
          (let answer = (\<lambda>ordered. let (page, next_cursor, _) = slice_window ordered (gq_cursor query) (gq_limit query)
                 in Inr (page, next_cursor, length items, length matching))
           in case gq_sort query of
                None \<Rightarrow> answer matching
              | Some name \<Rightarrow>
                  (case map_of sorts name of
                     None \<Rightarrow> Inl (QueryKeyError name)
                   | Some key \<Rightarrow>
                       answer (py_sorted key (gq_order query = ''desc'') (sort_key record_id matching)))))"

definition page_of ::
  "('a \<Rightarrow> string) \<Rightarrow> 'a sort_table \<Rightarrow> 'a filter_table \<Rightarrow> scenario_version_row option \<Rightarrow> (scenario_version_row \<Rightarrow> 'a list)
   \<Rightarrow> group_query_v1 \<Rightarrow> query_error + 'a page_v1 option" where
  "page_of record_id sorts filters row items query = (case row of
      None \<Rightarrow> Inr None
    | Some r \<Rightarrow>
        (case apply_query record_id (items r) query sorts filters of
           Inl e \<Rightarrow> Inl e
         | Inr (page, next_cursor, total_count, matching) \<Rightarrow>
             Inr (Some \<lparr>pg_scenario_id = sw_scenario_id r, pg_scenario_version_id = sw_scenario_version_id r,
                  pg_site_id = sw_site_id r, pg_items = page, pg_next_cursor = next_cursor,
                  pg_total_count = total_count, pg_matching_count = matching\<rparr>)))"

definition get_tasks ::
  "(string \<Rightarrow> string) \<Rightarrow> uuid \<Rightarrow> 'x governed_store_scheme \<Rightarrow> uuid \<Rightarrow> group_query_v1 \<Rightarrow> query_error + task_v1 page_v1 option" where
  "get_tasks casefold app_site s scenario_id =
     page_of tk_record_id task_sorts (task_filters casefold) (projection_row app_site scenario_id s) (sg_tasks \<circ> sw_groups)"

definition get_workers ::
  "(string \<Rightarrow> string) \<Rightarrow> uuid \<Rightarrow> 'x governed_store_scheme \<Rightarrow> uuid \<Rightarrow> group_query_v1 \<Rightarrow> query_error + worker_v1 page_v1 option" where
  "get_workers casefold app_site s scenario_id =
     page_of wk_record_id worker_sorts (worker_filters casefold) (projection_row app_site scenario_id s) (sg_workers \<circ> sw_groups)"

definition get_demand ::
  "uuid \<Rightarrow> 'x governed_store_scheme \<Rightarrow> uuid \<Rightarrow> group_query_v1 \<Rightarrow> query_error + demand_interval_v1 page_v1 option" where
  "get_demand app_site s scenario_id =
     page_of di_record_id demand_sorts demand_filters (projection_row app_site scenario_id s) (sg_demand \<circ> sw_groups)"

definition get_baseline_assignments ::
  "uuid \<Rightarrow> 'x governed_store_scheme \<Rightarrow> uuid \<Rightarrow> group_query_v1 \<Rightarrow> query_error + assignment_v1 page_v1 option" where
  "get_baseline_assignments app_site s scenario_id =
     page_of as_record_id assignment_sorts assignment_filters (projection_row app_site scenario_id s)
       (\<lambda>r. baseline_assignments r s)"

definition get_locks ::
  "uuid \<Rightarrow> 'x governed_store_scheme \<Rightarrow> uuid \<Rightarrow> group_query_v1 \<Rightarrow> query_error + lock_v1 page_v1 option" where
  "get_locks app_site s scenario_id =
     page_of lk_record_id lock_sorts lock_filters (projection_row app_site scenario_id s) (\<lambda>_. [])"

definition get_constraints ::
  "uuid \<Rightarrow> 'x governed_store_scheme \<Rightarrow> uuid \<Rightarrow> group_query_v1 \<Rightarrow> query_error + constraint_v1 page_v1 option" where
  "get_constraints app_site s scenario_id =
     page_of cn_record_id constraint_sorts constraint_filters (projection_row app_site scenario_id s)
       (sg_constraints \<circ> sw_groups)"

section \<open>Exact resolution\<close>

datatype resolution_outcome = Resolved | NotFound | VersionMismatched

record 'a resolution_v1 =
  rl_outcome :: resolution_outcome
  rl_scenario_id :: uuid
  rl_current_scenario_version_id :: uuid
  rl_item :: "'a option"

definition resolve_items :: "('a \<Rightarrow> string) \<Rightarrow> 'a list \<Rightarrow> uuid \<Rightarrow> uuid \<Rightarrow> string \<Rightarrow> resolution_outcome \<times> 'a option" where
  "resolve_items record_id items requested actual wanted =
     (if requested \<noteq> actual then (VersionMismatched, None)
      else (case find (\<lambda>x. record_id x = wanted) items of
              Some item \<Rightarrow> (Resolved, Some item) | None \<Rightarrow> (NotFound, None)))"

definition resolution_of ::
  "('a \<Rightarrow> string) \<Rightarrow> scenario_version_row option \<Rightarrow> (scenario_version_row \<Rightarrow> 'a list) \<Rightarrow> uuid \<Rightarrow> string \<Rightarrow> 'a resolution_v1 option" where
  "resolution_of record_id row items requested wanted =
     map_option (\<lambda>r. let (outcome, item) = resolve_items record_id (items r) requested (sw_scenario_version_id r) wanted in
       \<lparr>rl_outcome = outcome, rl_scenario_id = sw_scenario_id r, rl_current_scenario_version_id = sw_scenario_version_id r,
        rl_item = item\<rparr>) row"

definition resolve_task :: "uuid \<Rightarrow> 'x governed_store_scheme \<Rightarrow> uuid \<Rightarrow> uuid \<Rightarrow> string \<Rightarrow> task_v1 resolution_v1 option" where
  "resolve_task app_site s scenario_id =
     resolution_of tk_record_id (projection_row app_site scenario_id s) (sg_tasks \<circ> sw_groups)"

definition resolve_worker :: "uuid \<Rightarrow> 'x governed_store_scheme \<Rightarrow> uuid \<Rightarrow> uuid \<Rightarrow> string \<Rightarrow> worker_v1 resolution_v1 option" where
  "resolve_worker app_site s scenario_id =
     resolution_of wk_record_id (projection_row app_site scenario_id s) (sg_workers \<circ> sw_groups)"

definition resolve_demand_interval ::
  "uuid \<Rightarrow> 'x governed_store_scheme \<Rightarrow> uuid \<Rightarrow> uuid \<Rightarrow> string \<Rightarrow> demand_interval_v1 resolution_v1 option" where
  "resolve_demand_interval app_site s scenario_id =
     resolution_of di_record_id (projection_row app_site scenario_id s) (sg_demand \<circ> sw_groups)"

definition resolve_assignment ::
  "uuid \<Rightarrow> 'x governed_store_scheme \<Rightarrow> uuid \<Rightarrow> uuid \<Rightarrow> string \<Rightarrow> assignment_v1 resolution_v1 option" where
  "resolve_assignment app_site s scenario_id =
     resolution_of as_record_id (projection_row app_site scenario_id s) (\<lambda>r. baseline_assignments r s)"

definition resolve_lock :: "uuid \<Rightarrow> 'x governed_store_scheme \<Rightarrow> uuid \<Rightarrow> uuid \<Rightarrow> string \<Rightarrow> lock_v1 resolution_v1 option" where
  "resolve_lock app_site s scenario_id = resolution_of lk_record_id (projection_row app_site scenario_id s) (\<lambda>_. [])"

definition resolve_constraint_record ::
  "uuid \<Rightarrow> 'x governed_store_scheme \<Rightarrow> uuid \<Rightarrow> uuid \<Rightarrow> string \<Rightarrow> constraint_v1 resolution_v1 option" where
  "resolve_constraint_record app_site s scenario_id =
     resolution_of cn_record_id (projection_row app_site scenario_id s) (sg_constraints \<circ> sw_groups)"

section \<open>Draining a group\<close>

datatype calculation_error =
    CalculationError
  | CalculationArgumentsError
  | CalculationScenarioNotFoundError
  | CalculationVersionMismatchError
  | CalculationSiteMismatchError
  | CalculationLimitError
  | CalculationDimensionError
  | CalculationQueryError query_error

definition max_pages :: nat where
  "max_pages = 512"

text \<open>The state of the loop: the cursor, the items read so far, the count the first page announced, and
  the cursors already used. The first argument counts the iterations \<open>range(MAX_PAGES)\<close> has left.\<close>

fun drain_pages ::
  "(group_query_v1 \<Rightarrow> query_error + 'a page_v1 option) \<Rightarrow> uuid \<Rightarrow> uuid \<Rightarrow> int \<Rightarrow> int \<Rightarrow> (string \<times> query_value) list
   \<Rightarrow> nat \<Rightarrow> int \<Rightarrow> 'a list \<Rightarrow> nat option \<Rightarrow> int list \<Rightarrow> calculation_error + 'a list" where
  "drain_pages getter version site page_size max_rows filters 0 cursor items matching seen = Inl CalculationLimitError"
| "drain_pages getter version site page_size max_rows filters (Suc pages) cursor items matching seen =
     (let remaining = max_rows - int (length items) in
      if cursor \<in> set seen then Inl CalculationLimitError
      else if remaining < 1 then Inl CalculationLimitError
      else (case getter \<lparr>gq_cursor = cursor, gq_limit = min page_size remaining, gq_sort = None, gq_order = ''asc'',
                         gq_filters = filters\<rparr> of
              Inl e \<Rightarrow> Inl (CalculationQueryError e)
            | Inr None \<Rightarrow> Inl CalculationScenarioNotFoundError
            | Inr (Some page) \<Rightarrow>
                (let all_items = items @ pg_items page; announced = get_or (pg_matching_count page) matching in
                 if pg_scenario_version_id page \<noteq> version then Inl CalculationVersionMismatchError
                 else if pg_site_id page \<noteq> site then Inl CalculationSiteMismatchError
                 else if matching = None \<and> int (pg_matching_count page) > max_rows then Inl CalculationLimitError
                 else if matching \<noteq> None \<and> matching \<noteq> Some (pg_matching_count page) then Inl CalculationError
                 else if int (length all_items) > max_rows then Inl CalculationLimitError
                 else (case pg_next_cursor page of
                         None \<Rightarrow> if length all_items \<noteq> announced then Inl CalculationLimitError else Inr all_items
                       | Some next \<Rightarrow>
                           if next \<le> cursor then Inl CalculationLimitError
                           else drain_pages getter version site page_size max_rows filters pages next all_items
                                  (Some announced) (cursor # seen)))))"

definition drain_projection_group ::
  "(group_query_v1 \<Rightarrow> query_error + 'a page_v1 option) \<Rightarrow> uuid \<Rightarrow> uuid \<Rightarrow> int \<Rightarrow> int \<Rightarrow> (string \<times> query_value) list
   \<Rightarrow> calculation_error + 'a list" where
  "drain_projection_group getter scenario_version_id site_id page_size max_rows filters =
     (if page_size < 1 \<or> max_rows < 1 then Inl CalculationArgumentsError
      else drain_pages getter scenario_version_id site_id page_size max_rows filters max_pages 0 [] None [])"


section \<open>What a drain returns\<close>

text \<open>The specification of a drain: the matching rows in the order of the group, all of them, unless
  there are more than the bounds admit.\<close>

definition drain_spec ::
  "(uuid \<times> uuid) option \<Rightarrow> (query_error + 'a list) \<Rightarrow> uuid \<Rightarrow> uuid \<Rightarrow> int \<Rightarrow> int \<Rightarrow> calculation_error + 'a list" where
  "drain_spec source matching version site page_size max_rows =
     (if page_size < 1 \<or> max_rows < 1 then Inl CalculationArgumentsError
      else (case source of
              None \<Rightarrow> Inl CalculationScenarioNotFoundError
            | Some (actual_version, actual_site) \<Rightarrow>
                (case matching of
                   Inl e \<Rightarrow> Inl (CalculationQueryError e)
                 | Inr rows \<Rightarrow>
                     if actual_version \<noteq> version then Inl CalculationVersionMismatchError
                     else if actual_site \<noteq> site then Inl CalculationSiteMismatchError
                     else if int (length rows) \<le> max_rows \<and> int (length rows) \<le> int max_pages * page_size then Inr rows
                     else Inl CalculationLimitError)))"

text \<open>The contract of a page source: an unsorted query from a non-negative cursor with a positive limit
  answers with that window of the matching rows and the cursor behind it.\<close>

locale page_source =
  fixes getter :: "group_query_v1 \<Rightarrow> query_error + 'a page_v1 option"
    and source :: "(uuid \<times> uuid) option"
    and matching :: "(string \<times> query_value) list \<Rightarrow> query_error + 'a list"
  assumes no_source: "source = None \<Longrightarrow> getter q = Inr None"
    and bad_filter: "source \<noteq> None \<Longrightarrow> matching (gq_filters q) = Inl e \<Longrightarrow> getter q = Inl e"
    and window: "source = Some (version, site) \<Longrightarrow> matching (gq_filters q) = Inr rows \<Longrightarrow> gq_sort q = None
       \<Longrightarrow> gq_cursor q = int c \<Longrightarrow> gq_limit q = int l
       \<Longrightarrow> \<exists>page. getter q = Inr (Some page) \<and> pg_scenario_version_id page = version \<and> pg_site_id page = site
             \<and> pg_items page = take l (drop c rows) \<and> pg_matching_count page = length rows
             \<and> pg_next_cursor page = (if c + length (take l (drop c rows)) < length rows
                  then Some (int (c + length (take l (drop c rows)))) else None)"
begin

lemma drain_pages_rest:
  assumes src: "source = Some (version, site)" and match: "matching filters = Inr rows"
    and pos: "1 \<le> page_size" "1 \<le> max_rows" and max: "int (length rows) \<le> max_rows"
    and c: "c < length rows \<or> c = 0 \<and> 0 < pages" and seen: "\<forall>x \<in> set seen. x < int c"
    and announced: "announced \<in> {None, Some (length rows)}"
  shows "drain_pages getter version site page_size max_rows filters pages (int c) (take c rows) announced seen
       = (if int (length rows) \<le> int c + int pages * page_size then Inr rows else Inl CalculationLimitError)"
  using c seen announced
proof (induction pages arbitrary: c seen announced)
  case 0
  then show ?case by simp
next
  case (Suc pages)
  define l where "l = nat (min page_size (max_rows - int c))"
  have l: "int l = min page_size (max_rows - int c)" "1 \<le> l" using pos max Suc.prems by (auto simp: l_def)
  let ?q = "\<lparr>gq_cursor = int c, gq_limit = int l, gq_sort = None, gq_order = ''asc'', gq_filters = filters\<rparr>"
  obtain page where page: "getter ?q = Inr (Some page)" "pg_scenario_version_id page = version" "pg_site_id page = site"
    "pg_items page = take l (drop c rows)" "pg_matching_count page = length rows"
    "pg_next_cursor page = (if c + length (take l (drop c rows)) < length rows
        then Some (int (c + length (take l (drop c rows)))) else None)"
    using window [OF src, of ?q rows c l] match by auto
  have read: "take c rows @ take l (drop c rows) = take (c + l) rows" by (simp add: take_add)
  have unseen: "int c \<notin> set seen" using Suc.prems(2) by auto
  have len: "length (take c rows) = c" using Suc.prems(1) by auto
  have room: "\<not> max_rows - int c < 1" using Suc.prems(1) max pos(2) by linarith
  have bounded: "\<not> max_rows < int (length rows)" using max by simp
  have fits: "\<not> int (length (take (c + l) rows)) > max_rows" using max by simp
  have step: "drain_pages getter version site page_size max_rows filters (Suc pages) (int c) (take c rows) announced seen
      = (case pg_next_cursor page of
           None \<Rightarrow> if length (take (c + l) rows) \<noteq> length rows then Inl CalculationLimitError else Inr (take (c + l) rows)
         | Some next \<Rightarrow> if next \<le> int c then Inl CalculationLimitError
             else drain_pages getter version site page_size max_rows filters pages next (take (c + l) rows)
                    (Some (length rows)) (int c # seen))"
    using unseen room fits page(2,3,5) Suc.prems(3) bounded
    by (elim insertE emptyE) (simp_all only: drain_pages.simps len Let_def l(1) [symmetric] page(1) sum.case option.case
        page(4) read get_or_def if_False simp_thms not_False_eq_True option.inject option.distinct)
  show ?case
  proof (cases "c + l < length rows")
    case True
    then have size: "page_size = int l" using l max by auto
    have "drain_pages getter version site page_size max_rows filters pages (int (c + l)) (take (c + l) rows) (Some (length rows))
        (int c # seen) = (if int (length rows) \<le> int (c + l) + int pages * page_size then Inr rows else Inl CalculationLimitError)"
      using True Suc.prems l(2) by (intro Suc.IH) auto
    moreover have "pg_next_cursor page = Some (int (c + l))" using True page(6) by simp
    ultimately show ?thesis using l(2) unfolding step by (simp add: size algebra_simps)
  next
    case False
    have "int (length rows) \<le> int c + page_size" using False l by linarith
    also have "\<dots> \<le> int c + int (Suc pages) * page_size" using pos by (simp add: algebra_simps)
    finally show ?thesis using False page(6) unfolding step by simp
  qed
qed

lemma first_page:
  assumes "source = Some (v, w)" "matching filters = Inr rows" "1 \<le> page_size" "1 \<le> max_rows"
  obtains page where
    "getter \<lparr>gq_cursor = 0, gq_limit = min page_size max_rows, gq_sort = None, gq_order = ''asc'', gq_filters = filters\<rparr>
       = Inr (Some page)"
    "pg_scenario_version_id page = v" "pg_site_id page = w" "pg_matching_count page = length rows"
proof -
  let ?q = "\<lparr>gq_cursor = 0, gq_limit = min page_size max_rows, gq_sort = None, gq_order = ''asc'', gq_filters = filters\<rparr>"
  have "gq_limit ?q = int (nat (min page_size max_rows))" using assms(3,4) by simp
  from window [OF assms(1), of ?q rows 0, OF _ _ _ this] assms(2) that show thesis by auto
qed

lemma drain_start:
  "1 \<le> page_size \<Longrightarrow> 1 \<le> max_rows \<Longrightarrow> max_pages = Suc n
     \<Longrightarrow> drain_projection_group getter version site page_size max_rows filters
     = drain_pages getter version site page_size max_rows filters (Suc n) 0 [] None []"
  by (simp add: drain_projection_group_def del: drain_pages.simps)

lemma drain_correct:
  "drain_projection_group getter version site page_size max_rows filters
     = drain_spec source (matching filters) version site page_size max_rows"
proof (cases "page_size < 1 \<or> max_rows < 1")
  case True
  then show ?thesis by (auto simp: drain_projection_group_def drain_spec_def)
next
  case False
  then have pos: "1 \<le> page_size" "1 \<le> max_rows" by auto
  obtain n where n: "max_pages = Suc n" using not0_implies_Suc [of max_pages] by (auto simp: max_pages_def)
  note start = drain_start [OF pos n] and spec = drain_spec_def if_not_P [OF False]
  consider "source = None" | e where "source \<noteq> None" "matching filters = Inl e"
    | v w rows where "source = Some (v, w)" "matching filters = Inr rows" "v \<noteq> version \<or> w \<noteq> site \<or> max_rows < int (length rows)"
    | rows where "source = Some (version, site)" "matching filters = Inr rows" "int (length rows) \<le> max_rows"
    by (cases source; cases "matching filters"; fastforce)
  then show ?thesis
  proof cases
    case 1
    then show ?thesis using pos no_source by (simp add: start spec)
  next
    case (2 e)
    then show ?thesis using pos bad_filter by (auto simp: start spec)
  next
    case (3 v w rows)
    obtain page where "getter \<lparr>gq_cursor = 0, gq_limit = min page_size max_rows, gq_sort = None, gq_order = ''asc'',
          gq_filters = filters\<rparr> = Inr (Some page)"
      "pg_scenario_version_id page = v" "pg_site_id page = w" "pg_matching_count page = length rows"
      using first_page [OF 3(1,2) pos] .
    then show ?thesis using 3 pos by (auto simp: start spec)
  next
    case (4 rows)
    show ?thesis
      using drain_pages_rest [OF 4(1,2) pos 4(3), of 0 max_pages "[]" None] 4
      by (simp add: start spec n del: drain_pages.simps)
  qed
qed

end

text \<open>Every group of the projection is such a source.\<close>

definition source_of :: "scenario_version_row option \<Rightarrow> (uuid \<times> uuid) option" where
  "source_of row = map_option (\<lambda>r. (sw_scenario_version_id r, sw_site_id r)) row"

definition matching_rows ::
  "'a filter_table \<Rightarrow> scenario_version_row option \<Rightarrow> (scenario_version_row \<Rightarrow> 'a list) \<Rightarrow> (string \<times> query_value) list
   \<Rightarrow> query_error + 'a list" where
  "matching_rows table row items fs = (case row of None \<Rightarrow> Inr [] | Some r \<Rightarrow> filtered table fs (items r))"

lemma py_slice_window: "py_slice (int c) (int c + int l) xs = take l (drop c xs)"
  by (auto simp: py_slice_def slice_bound_def Let_def min_def nat_add_distrib)

lemma page_of_source:
  "page_source (page_of rid sorts table row items) (source_of row) (matching_rows table row items)"
  by unfold_locales
    (auto simp: page_of_def source_of_def matching_rows_def apply_query_def slice_window_def py_slice_window Let_def
      split: option.splits sum.splits prod.splits)

interpretation task_source: page_source "get_tasks cf site s sid"
  "source_of (projection_row site sid s)" "matching_rows (task_filters cf) (projection_row site sid s) (sg_tasks \<circ> sw_groups)"
  for cf site sid and s :: "'x governed_store_scheme"
  unfolding get_tasks_def by (rule page_of_source)

interpretation worker_source: page_source "get_workers cf site s sid"
  "source_of (projection_row site sid s)" "matching_rows (worker_filters cf) (projection_row site sid s) (sg_workers \<circ> sw_groups)"
  for cf site sid and s :: "'x governed_store_scheme"
  unfolding get_workers_def by (rule page_of_source)

interpretation demand_source: page_source "get_demand site s sid"
  "source_of (projection_row site sid s)" "matching_rows demand_filters (projection_row site sid s) (sg_demand \<circ> sw_groups)"
  for site sid and s :: "'x governed_store_scheme"
  unfolding get_demand_def by (rule page_of_source)

interpretation assignment_source: page_source "get_baseline_assignments site s sid"
  "source_of (projection_row site sid s)"
  "matching_rows assignment_filters (projection_row site sid s) (\<lambda>r. baseline_assignments r s)"
  for site sid and s :: "'x governed_store_scheme"
  unfolding get_baseline_assignments_def by (rule page_of_source)

interpretation constraint_source: page_source "get_constraints site s sid"
  "source_of (projection_row site sid s)" "matching_rows constraint_filters (projection_row site sid s) (sg_constraints \<circ> sw_groups)"
  for site sid and s :: "'x governed_store_scheme"
  unfolding get_constraints_def by (rule page_of_source)

section \<open>A small governed site\<close>

text \<open>A small governed site: one scenario with two versions, the later one with two workers and three
  demand rows, and no baseline yet.\<close>

definition demo_worker :: "string \<Rightarrow> string list \<Rightarrow> worker_v1" where
  "demo_worker name tasks = \<lparr>wk_record_id = name, wk_contact_id = name, wk_name = name, wk_employment_type = ''full'', wk_grade = [],
     wk_eba = [], wk_contracted_hours = 38, wk_qualifications = map (\<lambda>t. \<lparr>qr_task_id = t, qr_rate = 10\<rparr>) tasks,
     wk_availability_windows = []\<rparr>"

definition demo_demand :: "string \<Rightarrow> demand_unit \<Rightarrow> int \<Rightarrow> int \<Rightarrow> rat \<Rightarrow> demand_interval_v1" where
  "demo_demand name unit a b amount = \<lparr>di_record_id = name, di_family = (if unit = Volume then Outbound else Indirect), di_task_id = ''T1'',
     di_area_id = None, di_start_minute = a, di_end_minute = b, di_amount = amount, di_unit = unit\<rparr>"

definition demo_groups :: scenario_groups where
  "demo_groups = \<lparr>sg_horizon_start = 0, sg_horizon_minutes = 10080, sg_work_areas = [''A''],
     sg_tasks = [\<lparr>tk_record_id = ''T1'', tk_task_id = ''T1'', tk_name = ''Pick'', tk_function = ''F'', tk_area_id = ''A'', tk_area_name = ''A'',
                  tk_unit_type_id = None\<rparr>],
     sg_workers = [demo_worker ''w1'' [''T1''], demo_worker ''w2'' []],
     sg_demand = [demo_demand ''outbound:0'' Volume 0 120 60, demo_demand ''outbound:1'' Volume 60 180 30,
                  demo_demand ''indirect:0'' Headcount 0 240 2],
     sg_constraints = []\<rparr>"

definition demo_version :: "uuid \<Rightarrow> string \<Rightarrow> scenario_version_row" where
  "demo_version vid version = \<lparr>sw_scenario_id = 3, sw_site_id = 7, sw_fixture_id = ''f'', sw_scenario_name = ''demo'',
     sw_scenario_version_id = vid, sw_fixture_version = version, sw_checksum_algorithm = ''sha256'',
     sw_checksum_schema_version = ''v1'', sw_checksum_digest = ''d'', sw_imported_at = 0, sw_groups = demo_groups\<rparr>"

definition empty_site :: governed_store where
  "empty_site = \<lparr>st_now = 100, st_fresh = 200, st_jobs = [], st_runs = [], st_events = [], st_versions = [], st_assignments = [],
     st_snapshots = [], st_idempotency = [], gv_scenario_versions = [], gv_memberships = [], gv_conversations = [], gv_messages = [],
     gv_agent_runs = [], gv_activities = [], gv_proposals = [], gv_proposal_versions = [], gv_approvals = [],
     gv_baselines = [], gv_audit = []\<rparr>"

definition scenario_site :: governed_store where
  "scenario_site = empty_site\<lparr>gv_scenario_versions := [demo_version 10 ''v10'', demo_version 9 ''v9'']\<rparr>"

lemma scenario_site_row: "projection_row 7 3 scenario_site = Some (demo_version 10 ''v10'')"
  by code_simp

end
