(* ===== verification/Calculators.thy ===== *)
theory Calculators
  imports Projection
begin

text \<open>
  The exact metric calculators (\<^verbatim>\<open>application/grounding/calculators.py\<close>): one value and one locator per
  row folded into it, over the normalized projection pinned to a scenario version. Counts and minutes
  are integers in the source; all values are exact rationals here.
\<close>

section \<open>Calculation\<close>

record calculated_metric_v1 =
  cm_metric :: metric
  cm_arguments :: claim_arguments_v1
  cm_value :: float_value
  cm_unit :: grounding_unit
  cm_evidence_refs :: "evidence_ref_v1 list"
  cm_scenario_version_id :: uuid
  cm_consumed_row_count :: nat

definition interval_overlap_minutes :: "int \<Rightarrow> int \<Rightarrow> int \<Rightarrow> int \<Rightarrow> int" where
  "interval_overlap_minutes left_start left_end right_start right_end =
     max 0 (min left_end right_end - max left_start right_start)"

text \<open>What every read of one calculation shares: the session, the pinned version and the bounds.\<close>

record 's calculation =
  ct_casefold :: "string \<Rightarrow> string"
  ct_app_site :: uuid
  ct_store :: 's
  ct_scenario_id :: uuid
  ct_scenario_version_id :: uuid
  ct_site_id :: uuid
  ct_page_size :: int
  ct_max_rows :: int

type_synonym 'x calc = "'x governed_store_scheme calculation"

definition pinned_overview :: "'x calc \<Rightarrow> calculation_error + scenario_overview_v1" where
  "pinned_overview k = (case get_overview (ct_app_site k) (ct_scenario_id k) (ct_store k) of
      None \<Rightarrow> Inl CalculationScenarioNotFoundError
    | Some overview \<Rightarrow>
        if ov_scenario_version_id overview \<noteq> ct_scenario_version_id k then Inl CalculationVersionMismatchError
        else if ov_site_id overview \<noteq> ct_site_id k then Inl CalculationSiteMismatchError
        else Inr overview)"

definition evidence_of ::
  "scenario_overview_v1 \<Rightarrow> evidence_group \<Rightarrow> string \<Rightarrow> string \<Rightarrow> int option \<Rightarrow> int option \<Rightarrow> evidence_ref_v1" where
  "evidence_of overview evidence_group record_id field start_minute end_minute =
     \<lparr>er_scenario_version_id = ov_scenario_version_id overview, er_checksum_algorithm = ov_checksum_algorithm overview,
      er_checksum_schema_version = ov_checksum_schema_version overview, er_checksum_digest = ov_checksum_digest overview,
      er_producing_run_version = None, er_baseline_schedule_version = ov_baseline_schedule_version overview,
      er_group = evidence_group, er_record_id = record_id, er_field = Some field,
      er_start_minute = start_minute, er_end_minute = end_minute\<rparr>"

definition metric_window :: "claim_arguments_v1 \<Rightarrow> calculation_error + int \<times> int" where
  "metric_window arguments = (case (ga_start_minute arguments, ga_end_minute arguments) of
      (Some a, Some b) \<Rightarrow> if a < 0 \<or> b \<le> a then Inl CalculationArgumentsError else Inr (a, b)
    | _ \<Rightarrow> Inl CalculationArgumentsError)"

definition require_task :: "claim_arguments_v1 \<Rightarrow> calculation_error + string" where
  "require_task arguments = (case ga_task_id arguments of
      None \<Rightarrow> Inl CalculationArgumentsError
    | Some t \<Rightarrow> if t = [] then Inl CalculationArgumentsError else Inr t)"

definition family_aware_metrics :: "metric list" where
  "family_aware_metrics = [RequiredHeadcountMinutes, RequiredDemandVolume]"

definition check_family_is_meaningful :: "metric \<Rightarrow> claim_arguments_v1 \<Rightarrow> calculation_error + unit" where
  "check_family_is_meaningful m arguments =
     (if ga_family arguments \<noteq> None \<and> m \<notin> set family_aware_metrics then Inl CalculationArgumentsError else Inr ())"

definition demand_query :: "string \<Rightarrow> claim_arguments_v1 \<Rightarrow> (string \<times> query_value) list" where
  "demand_query task_id arguments =
     (''task_id'', TextValue task_id) #
     (case ga_family arguments of None \<Rightarrow> [] | Some f \<Rightarrow> [(''family'', TextValue (family_name f))])"

definition drain_workers :: "'x calc \<Rightarrow> (string \<times> query_value) list \<Rightarrow> calculation_error + worker_v1 list" where
  "drain_workers k = drain_projection_group (get_workers (ct_casefold k) (ct_app_site k) (ct_store k) (ct_scenario_id k))
     (ct_scenario_version_id k) (ct_site_id k) (ct_page_size k) (ct_max_rows k)"

definition drain_demand :: "'x calc \<Rightarrow> (string \<times> query_value) list \<Rightarrow> calculation_error + demand_interval_v1 list" where
  "drain_demand k = drain_projection_group (get_demand (ct_app_site k) (ct_store k) (ct_scenario_id k))
     (ct_scenario_version_id k) (ct_site_id k) (ct_page_size k) (ct_max_rows k)"

definition drain_assignments :: "'x calc \<Rightarrow> (string \<times> query_value) list \<Rightarrow> calculation_error + assignment_v1 list" where
  "drain_assignments k = drain_projection_group (get_baseline_assignments (ct_app_site k) (ct_store k) (ct_scenario_id k))
     (ct_scenario_version_id k) (ct_site_id k) (ct_page_size k) (ct_max_rows k)"

definition metric_result ::
  "'x calc \<Rightarrow> metric \<Rightarrow> claim_arguments_v1 \<Rightarrow> float_value \<Rightarrow> grounding_unit \<Rightarrow> evidence_ref_v1 list \<Rightarrow> nat \<Rightarrow> calculated_metric_v1" where
  "metric_result k m arguments value unit refs consumed =
     \<lparr>cm_metric = m, cm_arguments = arguments, cm_value = value, cm_unit = unit, cm_evidence_refs = refs,
      cm_scenario_version_id = ct_scenario_version_id k, cm_consumed_row_count = consumed\<rparr>"

definition worker_count_metric :: "'x calc \<Rightarrow> claim_arguments_v1 \<Rightarrow> scenario_overview_v1 \<Rightarrow> calculation_error + calculated_metric_v1" where
  "worker_count_metric k arguments overview =
     (if ga_task_id arguments \<noteq> None \<or> ga_family arguments \<noteq> None \<or> ga_start_minute arguments \<noteq> None \<or> ga_end_minute arguments \<noteq> None
      then Inl CalculationArgumentsError
      else and_also (drain_workers k []) (\<lambda>workers.
        Inr (metric_result k WorkerCount arguments (of_nat (length workers)) UnitWorkers
              (map (\<lambda>w. evidence_of overview Workers (wk_record_id w) ''name'' None None) workers) (length workers))))"

definition qualified_worker_metric ::
  "'x calc \<Rightarrow> claim_arguments_v1 \<Rightarrow> scenario_overview_v1 \<Rightarrow> string \<Rightarrow> calculation_error + calculated_metric_v1" where
  "qualified_worker_metric k arguments overview task_id =
     (if ga_start_minute arguments \<noteq> None \<or> ga_end_minute arguments \<noteq> None then Inl CalculationArgumentsError
      else and_also (drain_workers k [(''qualified_task_id'', TextValue task_id)]) (\<lambda>workers.
        let matched = filter (\<lambda>w. list_ex (\<lambda>q. qr_task_id q = task_id) (wk_qualifications w)) workers in
        Inr (metric_result k QualifiedWorkerCount arguments (of_nat (length matched)) UnitWorkers
              (map (\<lambda>w. evidence_of overview Workers (wk_record_id w) ''qualifications'' None None) matched) (length matched))))"

definition demand_overlap :: "int \<times> int \<Rightarrow> demand_interval_v1 \<Rightarrow> int" where
  "demand_overlap window row = interval_overlap_minutes (di_start_minute row) (di_end_minute row) (fst window) (snd window)"

definition assignment_overlap :: "int \<times> int \<Rightarrow> assignment_v1 \<Rightarrow> int" where
  "assignment_overlap window row = interval_overlap_minutes (as_start_minute row) (as_end_minute row) (fst window) (snd window)"

definition window_metric ::
  "'x calc \<Rightarrow> metric \<Rightarrow> claim_arguments_v1 \<Rightarrow> scenario_overview_v1 \<Rightarrow> string \<Rightarrow> calculation_error + calculated_metric_v1" where
  "window_metric k m arguments overview task_id =
     and_also (metric_window arguments) (\<lambda>window.
     let reads_demand = m \<in> {RequiredHeadcountMinutes, RequiredDemandVolume}; reads_assignments = (m = StaffedMinutes) in
     and_also (if reads_demand then drain_demand k (demand_query task_id arguments) else Inr []) (\<lambda>demand_rows.
     and_also (if reads_assignments then drain_assignments k [(''task_id'', TextValue task_id)] else Inr []) (\<lambda>assignment_rows.
     let wanted_unit = (if m \<noteq> RequiredDemandVolume then Headcount else Volume);
         window_demand = filter (\<lambda>row. di_task_id row = task_id
            \<and> (ga_family arguments = None \<or> ga_family arguments = Some (di_family row)) \<and> demand_overlap window row \<noteq> 0) demand_rows;
         matched_demand = filter (\<lambda>row. di_unit row = wanted_unit) window_demand;
         matched_assignments = filter (\<lambda>row. as_task_id row = task_id \<and> assignment_overlap window row \<noteq> 0) assignment_rows;
         required_minutes = (\<Sum>row \<leftarrow> matched_demand. of_int (demand_overlap window row) * di_amount row);
         required_volume = (\<Sum>row \<leftarrow> matched_demand. di_amount row * of_int (demand_overlap window row)
            / of_int (di_end_minute row - di_start_minute row));
         staffed = (\<Sum>row \<leftarrow> matched_assignments. of_int (assignment_overlap window row));
         demand_refs = map (\<lambda>row. evidence_of overview Demand (di_record_id row) ''amount''
            (Some (di_start_minute row)) (Some (di_end_minute row))) matched_demand;
         assignment_refs = map (\<lambda>row. evidence_of overview BaselineAssignments (as_record_id row) ''task_id''
            (Some (as_start_minute row)) (Some (as_end_minute row))) matched_assignments
     in if reads_demand \<and> window_demand \<noteq> [] \<and> matched_demand = [] then Inl CalculationDimensionError
        else (case m of
            RequiredHeadcountMinutes \<Rightarrow> Inr (metric_result k m arguments required_minutes UnitMinutes demand_refs (length matched_demand))
          | RequiredDemandVolume \<Rightarrow> Inr (metric_result k m arguments required_volume UnitUnits demand_refs (length matched_demand))
          | StaffedMinutes \<Rightarrow> Inr (metric_result k m arguments staffed UnitMinutes assignment_refs (length matched_assignments))
          | _ \<Rightarrow> Inl CalculationArgumentsError))))"

definition calculate_metric :: "'x calc \<Rightarrow> metric \<Rightarrow> claim_arguments_v1 \<Rightarrow> calculation_error + calculated_metric_v1" where
  "calculate_metric k m arguments =
     and_also (pinned_overview k) (\<lambda>overview.
     if m = WorkerCount then worker_count_metric k arguments overview
     else and_also (require_task arguments) (\<lambda>task_id.
          and_also (check_family_is_meaningful m arguments) (\<lambda>_.
          if m = QualifiedWorkerCount then qualified_worker_metric k arguments overview task_id
          else window_metric k m arguments overview task_id)))"

section \<open>What a metric means\<close>

text \<open>The declarative reading of a metric over the pinned version: sums and counts over every row of the
  scenario, with no paging, no bounds and no intermediate selection.\<close>

definition demand_selected :: "string \<Rightarrow> demand_family option \<Rightarrow> demand_unit \<Rightarrow> demand_interval_v1 \<Rightarrow> bool" where
  "demand_selected task_id family unit row \<longleftrightarrow>
     di_task_id row = task_id \<and> di_unit row = unit \<and> (family = None \<or> family = Some (di_family row))"

definition metric_meaning :: "scenario_groups \<Rightarrow> assignment_v1 list \<Rightarrow> metric \<Rightarrow> claim_arguments_v1 \<Rightarrow> float_value" where
  "metric_meaning g baseline m arguments =
     (let task_id = get_or [] (ga_task_id arguments);
          window = (get_or 0 (ga_start_minute arguments), get_or 0 (ga_end_minute arguments))
      in case m of
           WorkerCount \<Rightarrow> of_nat (length (sg_workers g))
         | QualifiedWorkerCount \<Rightarrow> of_nat (length (filter (\<lambda>w. \<exists>q \<in> set (wk_qualifications w). qr_task_id q = task_id) (sg_workers g)))
         | StaffedMinutes \<Rightarrow> (\<Sum>row \<leftarrow> filter (\<lambda>r. as_task_id r = task_id) baseline. of_int (assignment_overlap window row))
         | RequiredHeadcountMinutes \<Rightarrow>
             (\<Sum>row \<leftarrow> filter (demand_selected task_id (ga_family arguments) Headcount) (sg_demand g).
                of_int (demand_overlap window row) * di_amount row)
         | RequiredDemandVolume \<Rightarrow>
             (\<Sum>row \<leftarrow> filter (demand_selected task_id (ga_family arguments) Volume) (sg_demand g).
                of_int (demand_overlap window row) * (di_amount row / of_int (di_end_minute row - di_start_minute row))))"

text \<open>The locator names a row of the group it points into.\<close>

definition locates :: "scenario_groups \<Rightarrow> assignment_v1 list \<Rightarrow> evidence_ref_v1 \<Rightarrow> bool" where
  "locates g baseline r = (case er_group r of
      Workers \<Rightarrow> er_record_id r \<in> wk_record_id ` set (sg_workers g)
    | Demand \<Rightarrow> er_record_id r \<in> di_record_id ` set (sg_demand g)
    | BaselineAssignments \<Rightarrow> er_record_id r \<in> as_record_id ` set baseline
    | _ \<Rightarrow> False)"

section \<open>Exactness\<close>

lemma filtered_pure: "(\<And>x. passes t fs x = Inr (P x)) \<Longrightarrow> filtered t fs xs = Inr (filter P xs)"
  by (induction xs) auto

lemma drain_spec_InrD:
  assumes "drain_spec (source_of row) (matching_rows t row items fs) version site page_size max_rows = Inr xs"
  shows "\<exists>r. row = Some r \<and> sw_scenario_version_id r = version \<and> filtered t fs (items r) = Inr xs"
  using assms by (auto simp: drain_spec_def source_of_def matching_rows_def split: option.splits sum.splits if_splits)

lemma drain_workers_InrD:
  assumes "drain_workers k fs = Inr ws"
  shows "\<exists>r. projection_row (ct_app_site k) (ct_scenario_id k) (ct_store k) = Some r
    \<and> filtered (worker_filters (ct_casefold k)) fs (sg_workers (sw_groups r)) = Inr ws"
  using drain_spec_InrD [OF assms [unfolded drain_workers_def worker_source.drain_correct]] by auto

lemma drain_demand_InrD:
  assumes "drain_demand k fs = Inr rows"
  shows "\<exists>r. projection_row (ct_app_site k) (ct_scenario_id k) (ct_store k) = Some r
    \<and> filtered demand_filters fs (sg_demand (sw_groups r)) = Inr rows"
  using drain_spec_InrD [OF assms [unfolded drain_demand_def demand_source.drain_correct]] by auto

lemma drain_assignments_InrD:
  assumes "drain_assignments k fs = Inr rows"
  shows "\<exists>r. projection_row (ct_app_site k) (ct_scenario_id k) (ct_store k) = Some r
    \<and> filtered assignment_filters fs (baseline_assignments r (ct_store k)) = Inr rows"
  using drain_spec_InrD [OF assms [unfolded drain_assignments_def assignment_source.drain_correct]] by auto

lemma family_name_inj: "family_name f = family_name g \<longleftrightarrow> f = g"
  by (cases f; cases g) (simp_all add: family_name_def)

lemma filtered_demand:
  "filtered demand_filters (demand_query task_id a) rows
     = Inr (filter (\<lambda>r. di_task_id r = task_id \<and> (ga_family a = None \<or> ga_family a = Some (di_family r))) rows)"
  by (rule filtered_pure)
    (auto simp: demand_query_def demand_filters_def text_is_def family_name_inj split: option.splits)

lemma filtered_assignments:
  "filtered assignment_filters [(''task_id'', TextValue task_id)] rows = Inr (filter (\<lambda>r. as_task_id r = task_id) rows)"
  by (rule filtered_pure) (auto simp: assignment_filters_def text_is_def)

lemma filtered_qualified:
  "filtered (worker_filters cf) [(''qualified_task_id'', TextValue task_id)] ws
     = Inr (filter (\<lambda>w. list_ex (\<lambda>q. qr_task_id q = task_id) (wk_qualifications w)) ws)"
  by (rule filtered_pure) (auto simp: worker_filters_def list_ex_iff)

lemma filtered_all: "filtered t [] xs = Inr xs"
  using filtered_pure [of t "[]" "\<lambda>_. True" xs] by simp

lemma sum_list_drop_zero:
  fixes f :: "'a \<Rightarrow> 'n :: comm_monoid_add"
  shows "(\<And>x. P x \<Longrightarrow> \<not> Q x \<Longrightarrow> f x = 0) \<Longrightarrow> (\<Sum>x \<leftarrow> filter (\<lambda>x. P x \<and> Q x) xs. f x) = (\<Sum>x \<leftarrow> filter P xs. f x)"
  by (induction xs) auto

lemma pinned_overview_InrD:
  assumes "pinned_overview k = Inr ov"
  shows "\<exists>r. projection_row (ct_app_site k) (ct_scenario_id k) (ct_store k) = Some r
    \<and> sw_scenario_version_id r = ct_scenario_version_id k \<and> ov_scenario_version_id ov = ct_scenario_version_id k"
  using assms by (auto simp: pinned_overview_def get_overview_def Let_def split: option.splits if_splits)

text \<open>What a correct result is: the meaning of the metric, one locator of the pinned version for each
  row counted, zero when there is none, and every locator pointing at a row of the scenario.\<close>

definition result_correct ::
  "'x calc \<Rightarrow> scenario_version_row \<Rightarrow> metric \<Rightarrow> claim_arguments_v1 \<Rightarrow> calculated_metric_v1 \<Rightarrow> bool" where
  "result_correct k row m arguments c \<longleftrightarrow>
     cm_metric c = m \<and> cm_arguments c = arguments
     \<and> cm_value c = metric_meaning (sw_groups row) (baseline_assignments row (ct_store k)) m arguments
     \<and> cm_scenario_version_id c = ct_scenario_version_id k
     \<and> length (cm_evidence_refs c) = cm_consumed_row_count c \<and> (cm_evidence_refs c = [] \<longrightarrow> cm_value c = 0)
     \<and> (\<forall>r \<in> set (cm_evidence_refs c). er_scenario_version_id r = ct_scenario_version_id k
          \<and> locates (sw_groups row) (baseline_assignments row (ct_store k)) r)"

lemma worker_count_correct:
  assumes "worker_count_metric k a ov = Inr c" and "ov_scenario_version_id ov = ct_scenario_version_id k"
    and "projection_row (ct_app_site k) (ct_scenario_id k) (ct_store k) = Some row"
  shows "result_correct k row WorkerCount a c"
  using assms
  by (auto simp: worker_count_metric_def result_correct_def metric_result_def metric_meaning_def evidence_of_def locates_def
      filtered_all dest!: and_also_InrD drain_workers_InrD split: if_splits)

lemma qualified_worker_correct:
  assumes "qualified_worker_metric k a ov task_id = Inr c" and "ov_scenario_version_id ov = ct_scenario_version_id k"
    and "projection_row (ct_app_site k) (ct_scenario_id k) (ct_store k) = Some row" and "ga_task_id a = Some task_id"
  shows "result_correct k row QualifiedWorkerCount a c"
  using assms
  by (auto simp: qualified_worker_metric_def result_correct_def metric_result_def metric_meaning_def evidence_of_def locates_def
      filtered_qualified get_or_def list_ex_iff Let_def dest!: and_also_InrD drain_workers_InrD split: if_splits)

lemma demand_sums:
  fixes f :: "demand_interval_v1 \<Rightarrow> rat"
  assumes "\<And>r. demand_overlap w r = 0 \<Longrightarrow> f r = 0"
  shows "(\<Sum>r \<leftarrow> filter (\<lambda>r. di_unit r = u) (filter (\<lambda>r. di_task_id r = t \<and> (fam = None \<or> fam = Some (di_family r)) \<and> demand_overlap w r \<noteq> 0)
            (filter (\<lambda>r. di_task_id r = t \<and> (fam = None \<or> fam = Some (di_family r))) rows)). f r)
       = (\<Sum>r \<leftarrow> filter (demand_selected t fam u) rows. f r)"
proof -
  have "filter (\<lambda>r. di_unit r = u) (filter (\<lambda>r. di_task_id r = t \<and> (fam = None \<or> fam = Some (di_family r)) \<and> demand_overlap w r \<noteq> 0)
            (filter (\<lambda>r. di_task_id r = t \<and> (fam = None \<or> fam = Some (di_family r))) rows))
      = filter (\<lambda>r. demand_selected t fam u r \<and> demand_overlap w r \<noteq> 0) rows"
    unfolding filter_filter by (rule filter_cong) (auto simp: demand_selected_def)
  then show ?thesis using sum_list_drop_zero [of "demand_selected t fam u" "\<lambda>r. demand_overlap w r \<noteq> 0" f rows] assms by simp
qed

lemma staffed_sums:
  "(\<Sum>r \<leftarrow> filter (\<lambda>r. as_task_id r = t \<and> assignment_overlap w r \<noteq> 0) rows. of_int (assignment_overlap w r) :: rat)
     = (\<Sum>r \<leftarrow> filter (\<lambda>r. as_task_id r = t) rows. of_int (assignment_overlap w r))"
  by (rule sum_list_drop_zero) simp

lemma window_correct:
  assumes ran: "window_metric k m a ov task_id = Inr c" and ov: "ov_scenario_version_id ov = ct_scenario_version_id k"
    and row: "projection_row (ct_app_site k) (ct_scenario_id k) (ct_store k) = Some row" and task: "ga_task_id a = Some task_id"
  shows "result_correct k row m a c"
proof -
  obtain w where w: "metric_window a = Inr w"
    using ran by (auto simp: window_metric_def and_also_def split: sum.splits)
  have window: "(get_or 0 (ga_start_minute a), get_or 0 (ga_end_minute a)) = w"
    using w by (auto simp: metric_window_def get_or_def split: option.splits if_splits)
  note unfold = window_metric_def w and_also_def sum.case Let_def
  have "m \<in> {RequiredHeadcountMinutes, RequiredDemandVolume, StaffedMinutes}"
    using ran by (cases m) (simp_all add: unfold)
  then consider "m = RequiredHeadcountMinutes" | "m = RequiredDemandVolume" | "m = StaffedMinutes" by blast
  then show ?thesis
  proof cases
    case 1
    then obtain rows where "drain_demand k (demand_query task_id a) = Inr rows"
      using ran by (auto simp: unfold split: sum.splits)
    then show ?thesis
      using ran row task window ov demand_sums [of w "\<lambda>r. of_int (demand_overlap w r) * di_amount r"]
      by (auto simp: 1 unfold filtered_demand result_correct_def metric_result_def metric_meaning_def get_or_def
          evidence_of_def locates_def dest!: drain_demand_InrD split: if_splits)
  next
    case 2
    then obtain rows where "drain_demand k (demand_query task_id a) = Inr rows"
      using ran by (auto simp: unfold split: sum.splits)
    then show ?thesis
      using ran row task window ov
        demand_sums [of w "\<lambda>r. of_int (demand_overlap w r) * di_amount r / (of_int (di_end_minute r) - of_int (di_start_minute r))"]
      by (auto simp: 2 unfold filtered_demand result_correct_def metric_result_def metric_meaning_def get_or_def
          evidence_of_def locates_def mult.commute dest!: drain_demand_InrD split: if_splits)
  next
    case 3
    then obtain rows where "drain_assignments k [(''task_id'', TextValue task_id)] = Inr rows"
      using ran by (auto simp: unfold split: sum.splits)
    then show ?thesis
      using ran row task window ov staffed_sums [where t = task_id and w = w and rows = "baseline_assignments row (ct_store k)"]
      by (auto simp: 3 unfold filtered_assignments result_correct_def metric_result_def metric_meaning_def get_or_def
          evidence_of_def locates_def dest!: drain_assignments_InrD)
  qed
qed

lemma calculated_exact:
  assumes "calculate_metric k m arguments = Inr c"
  shows "\<exists>row. projection_row (ct_app_site k) (ct_scenario_id k) (ct_store k) = Some row
    \<and> sw_scenario_version_id row = ct_scenario_version_id k \<and> result_correct k row m arguments c"
proof -
  obtain ov where ov: "pinned_overview k = Inr ov" using assms by (auto simp: calculate_metric_def dest!: and_also_InrD)
  obtain row where row: "projection_row (ct_app_site k) (ct_scenario_id k) (ct_store k) = Some row"
    "sw_scenario_version_id row = ct_scenario_version_id k" "ov_scenario_version_id ov = ct_scenario_version_id k"
    using pinned_overview_InrD [OF ov] by blast
  have task: "ga_task_id arguments = Some t" if "require_task arguments = Inr t" for t
    using that by (auto simp: require_task_def split: option.splits if_splits)
  have "result_correct k row m arguments c"
    using assms row ov task worker_count_correct [of k arguments ov c row] qualified_worker_correct [of k arguments ov _ c row]
      window_correct [of k m arguments ov _ c row]
    by (auto simp: calculate_metric_def and_also_def [of "pinned_overview k"] split: if_splits dest!: and_also_InrD)
  then show ?thesis using row by blast
qed

section \<open>Properties\<close>

definition demo_calculation :: "governed_store calculation" where
  "demo_calculation = \<lparr>ct_casefold = id, ct_app_site = 7, ct_store = scenario_site, ct_scenario_id = 3, ct_scenario_version_id = 10,
     ct_site_id = 7, ct_page_size = 1, ct_max_rows = 400\<rparr>"

text \<open>
  C24. A drained group is complete: draining the demand of a scenario page by page gives exactly the
  specification, that is all matching rows in the order of the group, or the error that names why not: bad
  bounds, a missing scenario, a bad filter, another version or site, or more rows than the row bound
  or the page bound of 512 pages admit. It always ends.
\<close>

theorem drained_demand_is_complete:
  "drain_projection_group (get_demand app_site s scenario_id) version site page_size max_rows filters
     = drain_spec (source_of (projection_row app_site scenario_id s))
         (matching_rows demand_filters (projection_row app_site scenario_id s) (sg_demand \<circ> sw_groups) filters)
         version site page_size max_rows"
  by (rule demand_source.drain_correct)

text \<open>
  C25. A calculated metric is exact: whenever a calculation returns, its value is the declarative
  meaning of the metric over all rows of the pinned scenario version, which is then the latest; it cites
  exactly as many rows as it counted, and every citation points at an existing row of that version.
\<close>

theorem metric_is_exact:
  assumes "calculate_metric k m arguments = Inr c"
  shows "\<exists>row. projection_row (ct_app_site k) (ct_scenario_id k) (ct_store k) = Some row
    \<and> sw_scenario_version_id row = ct_scenario_version_id k \<and> result_correct k row m arguments c"
  using assms by (rule calculated_exact)

definition demo_arguments :: claim_arguments_v1 where
  "demo_arguments = \<lparr>ga_task_id = Some ''T1'', ga_family = None, ga_start_minute = Some 60, ga_end_minute = Some 120\<rparr>"

lemma demo_volume: "\<exists>c. calculate_metric demo_calculation RequiredDemandVolume demo_arguments = Inr c \<and> cm_value c = 45"
proof -
  have "filtered demand_filters (demand_query ''T1'' demo_arguments) (sg_demand demo_groups) = Inr (sg_demand demo_groups)"
    unfolding filtered_demand by (simp add: demo_groups_def demo_demand_def demo_arguments_def)
  then have "drain_demand demo_calculation (demand_query ''T1'' demo_arguments) = Inr (sg_demand demo_groups)"
    by (simp add: drain_demand_def demand_source.drain_correct drain_spec_def source_of_def matching_rows_def demo_calculation_def
        scenario_site_row demo_version_def demo_groups_def max_pages_def)
  moreover obtain ov where "pinned_overview demo_calculation = Inr ov"
    by (simp add: pinned_overview_def get_overview_def demo_calculation_def scenario_site_row demo_version_def Let_def)
  ultimately show ?thesis
    by (simp add: calculate_metric_def window_metric_def and_also_def require_task_def check_family_is_meaningful_def
        metric_window_def demo_arguments_def demo_groups_def demo_demand_def family_aware_metrics_def
        demand_overlap_def interval_overlap_minutes_def metric_result_def)
qed

theorem metric_is_exact_witness:
  "\<exists>row c. projection_row 7 3 scenario_site = Some row
     \<and> result_correct demo_calculation row RequiredDemandVolume demo_arguments c \<and> cm_value c = 45"
proof -
  obtain c where c: "calculate_metric demo_calculation RequiredDemandVolume demo_arguments = Inr c" "cm_value c = 45"
    using demo_volume by blast
  show ?thesis using metric_is_exact [OF c(1)] c(2) by (auto simp: demo_calculation_def)
qed

end
