(* ===== verification/Wire_Properties.thy ===== *)
theory Wire_Properties
  imports Wire
begin

text \<open>
  Round trips of the wire formats: digits, UUID text and stream cursors read back as what was written,
  and canonical JSON does not depend on the order in which the members of an object were inserted.
\<close>

section \<open>Digits\<close>

lemma digit_value_char: "d < 16 \<Longrightarrow> digit_value (digit_char d) = Some d"
  by (auto simp: digit_value_def digit_char_def Let_def)

lemma is_digit_char: "d < base \<Longrightarrow> base \<le> 16 \<Longrightarrow> is_digit base (digit_char d)"
  by (simp add: is_digit_def digit_value_char)

text \<open>No digit is one of the characters that separate or decorate numbers.\<close>

lemma is_digit_plain:
  "is_digit 16 c \<Longrightarrow> c \<notin> {CHR ''-'', CHR ''+'', CHR ''_'', CHR ''{'', CHR ''}'', CHR '':'', CHR ''x'', CHR ''X''} \<and> \<not> is_space c"
  by (auto simp: is_digit_def digit_value_def is_space_def Let_def split: if_splits)

lemma is_digit_10_16: "is_digit 10 c \<Longrightarrow> is_digit 16 c"
  by (auto simp: is_digit_def split: option.splits)

lemma digits_value_snoc: "digits_value base (s @ [c]) = digits_value base s * base + get_or 0 (digit_value c)"
  by (simp add: digits_value_def)

lemma digits_value_str_nat: "digits_value 10 (str_nat n) = n"
proof (induction n rule: str_nat.induct)
  case (1 n)
  show ?case
  proof (cases "n < 10")
    case True
    then show ?thesis by (subst str_nat.simps) (simp add: digits_value_def digit_value_char get_or_def)
  next
    case False
    then show ?thesis using 1 by (subst str_nat.simps) (simp add: digits_value_snoc digit_value_char get_or_def)
  qed
qed

lemma str_nat_inj: "str_nat m = str_nat n \<longleftrightarrow> m = n"
  by (metis digits_value_str_nat)

lemma str_nat_digits: "list_all (is_digit 10) (str_nat n)"
proof (induction n rule: str_nat.induct)
  case (1 n)
  then show ?case by (subst str_nat.simps) (auto simp: is_digit_char)
qed

lemma str_nat_length: "n < 10 ^ Suc k \<Longrightarrow> 1 \<le> length (str_nat n) \<and> length (str_nat n) \<le> Suc k"
proof (induction k arbitrary: n)
  case 0
  then show ?case by (subst (1 2) str_nat.simps) simp
next
  case (Suc k)
  show ?case
  proof (cases "n < 10")
    case True
    then show ?thesis by (subst (1 2) str_nat.simps) simp
  next
    case False
    have "n div 10 < 10 ^ Suc k" using Suc.prems by simp
    from Suc.IH [OF this] show ?thesis using False by (subst (1 2) str_nat.simps) simp
  qed
qed

lemma digits_of_props:
  "base \<le> 16 \<Longrightarrow> 0 < base \<Longrightarrow> length (digits_of base k n) = k \<and> list_all (is_digit base) (digits_of base k n)"
  by (induction k arbitrary: n) (auto simp: is_digit_char)

lemma digits_value_digits_of: "1 < base \<Longrightarrow> base \<le> 16 \<Longrightarrow> n < base ^ k \<Longrightarrow> digits_value base (digits_of base k n) = n"
proof (induction k arbitrary: n)
  case 0
  then show ?case by (simp add: digits_value_def)
next
  case (Suc k)
  then have "n div base < base ^ k" by (simp add: less_mult_imp_div_less mult.commute)
  moreover have "n mod base < 16" using Suc.prems by (meson less_le_trans mod_less_divisor less_trans zero_less_one)
  ultimately show ?case using Suc by (simp add: digits_value_snoc digit_value_char get_or_def)
qed

section \<open>UUID text\<close>

lemma strip_chars_id:
  assumes "s \<noteq> [] \<Longrightarrow> \<not> p (hd s) \<and> \<not> p (last s)"
  shows "strip_chars p s = s"
proof (cases "s = []")
  case False
  then have "dropWhile p s = s" using assms by (cases s) auto
  moreover have "dropWhile p (rev s) = rev s" using assms False by (cases s rule: rev_cases) auto
  ultimately show ?thesis by (simp add: strip_chars_def)
qed (simp add: strip_chars_def)

lemma underscored_digits_plain: "list_all (is_digit 16) s \<Longrightarrow> s \<noteq> [] \<or> b \<Longrightarrow> underscored_digits b s = Some s"
proof (induction s arbitrary: b)
  case (Cons c s)
  then have "c \<noteq> CHR ''_''" using is_digit_plain by auto
  with Cons show ?case by auto
qed simp

lemma drop_hex_prefix_other: "c \<notin> {CHR ''x'', CHR ''X''} \<Longrightarrow> drop_hex_prefix (a # c # cs) = a # c # cs"
  by (cases a) (auto simp: drop_hex_prefix_def split: bool.splits)

lemma drop_hex_prefix_plain:
  assumes "list_all (is_digit 16) s"
  shows "drop_hex_prefix s = s"
proof (cases s)
  case Nil
  then show ?thesis by (simp add: drop_hex_prefix_def)
next
  case (Cons a t)
  show ?thesis
  proof (cases t)
    case Nil
    then show ?thesis unfolding Cons by (cases a) (simp add: drop_hex_prefix_def split: bool.splits)
  next
    case (Cons c cs)
    then show ?thesis using assms is_digit_plain [of c] unfolding \<open>s = a # t\<close> by (simp add: drop_hex_prefix_other)
  qed
qed

lemma int_base16_plain:
  assumes "list_all (is_digit 16) s" and "s \<noteq> []"
  shows "int_base16 s = Some (int (digits_value 16 s))"
proof -
  have plain: "c \<in> set s \<Longrightarrow> c \<notin> {CHR ''-'', CHR ''+''} \<and> \<not> is_space c" for c
    using assms(1) is_digit_plain by (auto simp: list_all_iff)
  have "strip_chars is_space s = s" using assms(2) plain by (intro strip_chars_id) auto
  moreover obtain c cs where "s = c # cs" using assms(2) by (cases s) auto
  moreover have "c \<noteq> CHR ''-''" "c \<noteq> CHR ''+''" using plain calculation(2) by auto
  moreover note drop_hex_prefix_plain [OF assms(1)] underscored_digits_plain [OF assms(1) disjI1 [OF assms(2)]]
  ultimately show ?thesis by (simp add: int_base16_def Let_def)
qed

lemma parse_uuid_str_uuid:
  assumes "u < 2 ^ 128"
  shows "parse_uuid (str_uuid u) = Some u"
proof -
  define h where "h = digits_of 16 32 u"
  have h: "length h = 32" "list_all (is_digit 16) h" using digits_of_props [of 16 32 u] by (simp_all add: h_def)
  have plain: "c \<in> set h \<Longrightarrow> c \<notin> {CHR ''-'', CHR ''{'', CHR ''}''}" for c
    using h(2) is_digit_plain by (auto simp: list_all_iff)
  have written: "str_uuid u = take 8 h @ ''-'' @ take 4 (drop 8 h) @ ''-'' @ take 4 (drop 12 h) @ ''-'' @ take 4 (drop 16 h) @ ''-'' @ drop 20 h"
    by (simp add: str_uuid_def h_def Let_def)
  have parts: "take 8 h @ take 4 (drop 8 h) @ take 4 (drop 12 h) @ take 4 (drop 16 h) @ drop 20 h = h"
  proof -
    have "take 4 (drop 16 h) @ drop 20 h = drop 16 h" using append_take_drop_id [of 4 "drop 16 h"] by simp
    moreover have "take 4 (drop 12 h) @ drop 16 h = drop 12 h" using append_take_drop_id [of 4 "drop 12 h"] by simp
    moreover have "take 4 (drop 8 h) @ drop 12 h = drop 8 h" using append_take_drop_id [of 4 "drop 8 h"] by simp
    ultimately show ?thesis by simp
  qed
  have keep: "filter (\<lambda>c. c \<noteq> CHR ''-'') xs = xs" if "set xs \<subseteq> set h" for xs
    using that plain by (auto simp: filter_id_conv)
  have hex: "filter (\<lambda>c. c \<noteq> CHR ''-'') (str_uuid u) = h"
    unfolding written using keep [OF set_take_subset] keep [OF set_drop_subset]
      keep [OF subset_trans [OF set_take_subset set_drop_subset]] parts by simp
  have ends: "hd (str_uuid u) \<in> set h" "last (str_uuid u) \<in> set h"
  proof -
    show "hd (str_uuid u) \<in> set h" unfolding written using h(1) by (cases h) auto
    have "drop 20 h \<noteq> []" using h(1) by simp
    then show "last (str_uuid u) \<in> set h" unfolding written using last_in_set [of h] by (cases "h = []") simp_all
  qed
  have "strip_chars (\<lambda>c. c \<in> {CHR ''{'', CHR ''}''}) (str_uuid u) = str_uuid u"
    using plain ends by (intro strip_chars_id) auto
  moreover have "digits_value 16 h = u" using assms by (simp add: h_def digits_value_digits_of)
  moreover have "h \<noteq> []" using h(1) by auto
  moreover have "int u < 2 ^ 128" using assms by (metis of_nat_less_iff of_nat_numeral of_nat_power)
  ultimately show ?thesis
    using hex h int_base16_plain [OF h(2)] by (simp add: parse_uuid_def Let_def)
qed

lemma str_uuid_no_colon: "CHR '':'' \<notin> set (str_uuid u)"
proof -
  have "c \<in> set (digits_of 16 32 u) \<Longrightarrow> c \<noteq> CHR '':''" for c
    using digits_of_props [of 16 32 u] is_digit_plain by (auto simp: list_all_iff)
  then show ?thesis by (auto simp: str_uuid_def Let_def dest: in_set_takeD in_set_dropD)
qed

lemma str_uuid_nonempty: "str_uuid u \<noteq> []"
  by (simp add: str_uuid_def Let_def)

lemma str_uuid_inj: "u < 2 ^ 128 \<Longrightarrow> v < 2 ^ 128 \<Longrightarrow> str_uuid u = str_uuid v \<longleftrightarrow> u = v"
  by (metis option.inject parse_uuid_str_uuid)

section \<open>Stream cursors\<close>

text \<open>
  C28. The cursor a stream hands out is the cursor it resumes from: parsing the event id written for a
  stream and a sequence number gives back exactly that pair, for every UUID and every sequence of at
  most 38 digits.
\<close>

theorem cursor_round_trip:
  assumes "stream_id < 2 ^ 128" and "sequence < 10 ^ 38"
  shows "parse_stream_cursor (format_event_id stream_id sequence) = Some \<lparr>scu_stream_id = stream_id, scu_sequence = sequence\<rparr>"
proof -
  have split: "partition_at CHR '':'' (format_event_id stream_id sequence) = (str_uuid stream_id, str_nat sequence)"
    using partition_at_append [OF str_uuid_no_colon, of stream_id] by (simp add: format_event_id_def)
  have "sequence_re (str_nat sequence)"
    using str_nat_length [of sequence 37] assms(2) str_nat_digits [of sequence] by (simp add: sequence_re_def max_sequence_digits_def)
  then show ?thesis
    using assms(1) str_uuid_nonempty [of stream_id]
    by (simp add: parse_stream_cursor_def split parse_uuid_str_uuid digits_value_str_nat) (simp add: format_event_id_def)
qed

theorem cursor_round_trip_witness:
  "parse_stream_cursor (format_event_id 255 42) = Some \<lparr>scu_stream_id = 255, scu_sequence = 42\<rparr>"
  using cursor_round_trip [of 255 42] by simp

section \<open>Canonical JSON\<close>

text \<open>The normal form of a document: every object lists its members by name.\<close>

fun canon :: "json \<Rightarrow> json" where
  "canon (JList xs) = JList (map canon xs)"
| "canon (JObject kvs) = JObject (sort_key fst (map (\<lambda>kv. (fst kv, canon (snd kv))) kvs))"
| "canon v = v"

text \<open>Documents whose numbers are integers within the range that every double holds exactly.\<close>

fun exact :: "json \<Rightarrow> bool" where
  "exact (JInt i) = (- (2 ^ 53) \<le> i \<and> i \<le> 2 ^ 53)"
| "exact (JFloat v) = False"
| "exact (JList xs) = (\<forall>x \<in> set xs. exact x)"
| "exact (JObject kvs) = (\<forall>kv \<in> set kvs. exact (snd kv))"
| "exact v = True"

text \<open>The text of an exact document in normal form.\<close>

fun plain_text :: "json \<Rightarrow> string" where
  "plain_text JNull = ''null''"
| "plain_text (JBool b) = (if b then ''true'' else ''false'')"
| "plain_text (JString s) = quote_string s"
| "plain_text (JInt i) = str_int i"
| "plain_text (JFloat v) = []"
| "plain_text (JList xs) = ''['' @ join_comma (map plain_text xs) @ '']''"
| "plain_text (JObject kvs) =
     ''{'' @ join_comma (map (\<lambda>kv. quote_string (fst kv) @ '':'' @ plain_text (snd kv)) kvs) @ ''}''"

lemma insort_key_map: "insort_key f (g x) (map g xs) = map g (insort_key (\<lambda>y. f (g y)) x xs)"
  by (induction xs) auto

lemma sort_key_map: "sort_key f (map g xs) = map g (sort_key (\<lambda>y. f (g y)) xs)"
  by (induction xs) (auto simp: insort_key_map)

lemma those_map_Some: "(\<And>x. x \<in> set xs \<Longrightarrow> f x = Some (g x)) \<Longrightarrow> those_map f xs = Some (map g xs)"
  by (induction xs) auto

lemma serialize_plain: "exact v \<Longrightarrow> serialize ft v = Some (plain_text (canon v))"
proof (induction v rule: canon.induct)
  case (1 xs)
  then have "those_map (serialize ft) xs = Some (map (\<lambda>x. plain_text (canon x)) xs)" by (intro those_map_Some) auto
  then show ?case by (simp add: comp_def)
next
  case (2 kvs)
  let ?member = "\<lambda>kv. map_option (\<lambda>t. quote_string (fst kv) @ '':'' @ t) (serialize ft (snd kv))"
  have "those_map ?member (sort_key fst kvs)
      = Some (map (\<lambda>kv. quote_string (fst kv) @ '':'' @ plain_text (canon (snd kv))) (sort_key fst kvs))"
    using 2 by (intro those_map_Some) auto
  then show ?case by (simp add: sort_key_map comp_def)
qed (simp_all add: serialize_number_def)

lemma exact_canon: "exact v \<Longrightarrow> exact (canon v)"
  by (induction v rule: canon.induct) auto

subsection \<open>Reading a text back\<close>

definition stops :: "string \<Rightarrow> bool" where
  "stops xs \<longleftrightarrow> xs = [] \<or> hd xs \<in> {CHR '','', CHR '']'', CHR ''}''}"

lemma of_char_eq: "(of_char c :: nat) = of_char d \<longleftrightarrow> c = d"
  by (metis char_of_char)

lemma escape_char_quote: "escape_char c \<noteq> [] \<and> hd (escape_char c) \<noteq> char_of (34 :: nat)"
  by (auto simp: escape_char_def Let_def)

text \<open>A decoder for one escaped character.\<close>

definition unescape :: "string \<Rightarrow> char \<times> string" where
  "unescape s = (case s of
      [] \<Rightarrow> (CHR '' '', [])
    | x # xs \<Rightarrow>
        if x \<noteq> char_of (92 :: nat) then (x, xs)
        else if hd xs = CHR ''u'' then (char_of (digits_value 16 (take 4 (tl xs))), drop 4 (tl xs))
        else (get_or (hd xs) (map_of [(CHR ''n'', char_of (10 :: nat)), (CHR ''r'', char_of (13 :: nat)), (CHR ''t'', char_of (9 :: nat)),
                                  (CHR ''b'', char_of (8 :: nat)), (CHR ''f'', char_of (12 :: nat))] (hd xs)), tl xs))"

lemma unescape_escape: "unescape (escape_char c @ xs) = (c, xs)"
proof -
  define n :: nat where "n = of_char c"
  have c: "c = char_of n" by (simp add: n_def)
  consider "n \<in> {34, 92, 10, 13, 9, 8, 12}" | "n < 32" "n \<notin> {34, 92, 10, 13, 9, 8, 12}" | "32 \<le> n" "n \<noteq> 34" "n \<noteq> 92"
    by fastforce
  then show ?thesis
  proof cases
    case 1
    then show ?thesis unfolding c by (elim insertE emptyE) (simp_all add: escape_char_def unescape_def get_or_def char_of_eq_iff)
  next
    case 2
    have "escape_char c = [char_of (92 :: nat), CHR ''u''] @ digits_of 16 4 n"
      using 2 by (simp add: escape_char_def Let_def flip: n_def del: digits_of.simps)
    moreover have "take 4 (digits_of 16 4 n @ xs) = digits_of 16 4 n" "drop 4 (digits_of 16 4 n @ xs) = xs"
      using digits_of_props [of 16 4 n] by simp_all
    moreover have "digits_value 16 (digits_of 16 4 n) = n" using 2(1) by (intro digits_value_digits_of) simp_all
    ultimately show ?thesis by (simp add: unescape_def c del: digits_of.simps take_append drop_append)
  next
    case 3
    then have "escape_char c = [c]" by (simp add: escape_char_def Let_def flip: n_def)
    moreover have "c \<noteq> char_of (92 :: nat)" using 3(3) by (auto simp: n_def)
    ultimately show ?thesis by (simp add: unescape_def)
  qed
qed

lemma escape_char_unique: "escape_char c @ xs = escape_char d @ ys \<Longrightarrow> c = d \<and> xs = ys"
  by (metis unescape_escape prod.inject)

lemma quote_string_unique: "quote_string s @ xs = quote_string t @ ys \<Longrightarrow> s = t \<and> xs = ys"
proof -
  have "concat (map escape_char s) @ char_of (34 :: nat) # xs = concat (map escape_char t) @ char_of (34 :: nat) # ys
    \<Longrightarrow> s = t \<and> xs = ys"
  proof (induction s arbitrary: t)
    case Nil
    then show ?case using escape_char_quote [of "hd t"] by (cases t) (auto simp: Cons_eq_append_conv dest: sym)
  next
    case (Cons c s)
    show ?case
    proof (cases t)
      case Nil
      then show ?thesis using Cons.prems escape_char_quote [of c] by (cases "escape_char c") auto
    next
      case (Cons d t')
      then show ?thesis
        using Cons.prems Cons.IH [of t'] escape_char_unique [of c "concat (map escape_char s) @ char_of (34 :: nat) # xs"] by auto
    qed
  qed
  then show "quote_string s @ xs = quote_string t @ ys \<Longrightarrow> s = t \<and> xs = ys" by (simp add: quote_string_def)
qed

lemma str_nat_nonempty: "str_nat n \<noteq> []"
  by (subst str_nat.simps) simp

lemma digit_not_stop: "c \<in> {CHR '','', CHR '']'', CHR ''}''} \<Longrightarrow> \<not> is_digit 10 c"
  by (auto simp: is_digit_def digit_value_def)

lemma str_nat_unique:
  assumes "str_nat m @ xs = str_nat n @ ys" and "stops xs" and "stops ys"
  shows "m = n \<and> xs = ys"
proof -
  have stop: "takeWhile (is_digit 10) (str_nat k @ zs) = str_nat k" if "stops zs" for k zs
  proof -
    have "takeWhile (is_digit 10) zs = []" using \<open>stops zs\<close> digit_not_stop by (cases zs) (auto simp: stops_def)
    then show ?thesis using str_nat_digits [of k] by (simp add: list_all_iff takeWhile_append2)
  qed
  have "str_nat m = str_nat n" using stop [OF assms(2), of m] stop [OF assms(3), of n] assms(1) by simp
  with assms(1) show ?thesis by (simp add: str_nat_inj)
qed

lemma str_nat_head: "is_digit 10 (hd (str_nat n))"
  using str_nat_digits [of n] str_nat_nonempty [of n] by (simp add: list_all_iff)

lemma str_int_unique:
  assumes eq: "str_int i @ xs = str_int j @ ys" and "stops xs" and "stops ys"
  shows "i = j \<and> xs = ys"
proof -
  have head: "hd (str_nat n @ zs) \<noteq> CHR ''-''" for n zs
    using is_digit_plain [OF is_digit_10_16 [OF str_nat_head]] str_nat_nonempty [of n] by simp
  have "hd (str_int k @ zs) = CHR ''-'' \<longleftrightarrow> k < 0" for k zs using head [of "nat k" zs] by (simp add: str_int_def)
  then have sign: "i < 0 \<longleftrightarrow> j < 0" using eq by metis
  show ?thesis
  proof (cases "i < 0")
    case True
    then show ?thesis using eq sign str_nat_unique [OF _ assms(2,3), of "nat (- i)" "nat (- j)"] by (auto simp: str_int_def)
  next
    case False
    then show ?thesis using eq sign str_nat_unique [OF _ assms(2,3), of "nat i" "nat j"] by (auto simp: str_int_def)
  qed
qed

text \<open>The first character of a text tells the kind of the value.\<close>

definition kind_char :: "json \<Rightarrow> char" where
  "kind_char v = (case v of JNull \<Rightarrow> CHR ''n'' | JBool b \<Rightarrow> (if b then CHR ''t'' else CHR ''f'') | JString _ \<Rightarrow> CHR 0x22
     | JInt i \<Rightarrow> hd (str_int i) | JFloat _ \<Rightarrow> CHR '' '' | JList _ \<Rightarrow> CHR ''['' | JObject _ \<Rightarrow> CHR ''{'')"

lemma plain_text_head: "exact v \<Longrightarrow> plain_text v \<noteq> [] \<and> hd (plain_text v) = kind_char v"
  by (cases v) (auto simp: kind_char_def quote_string_def str_int_def str_nat_nonempty char_of_eq_iff)

lemma str_int_head: "hd (str_int i) = CHR ''-'' \<or> is_digit 10 (hd (str_int i))"
  using str_nat_head by (simp add: str_int_def)

lemma kind_char_stops: "exact v \<Longrightarrow> kind_char v \<notin> {CHR '','', CHR '']'', CHR ''}''}"
proof (cases v)
  case (JInt i)
  then show ?thesis using str_int_head [of i] digit_not_stop [of "hd (str_int i)"] by (auto simp: kind_char_def)
qed (auto simp: kind_char_def char_of_eq_iff)

lemma join_comma_Cons: "join_comma (x # xs) = x @ (if xs = [] then [] else '','' @ join_comma xs)"
  by (cases xs) auto

lemma join_comma_unique:
  assumes read: "\<And>v w xs ys. v \<in> set vs \<Longrightarrow> w \<in> set ws \<Longrightarrow> f v @ xs = f w @ ys \<Longrightarrow> stops xs \<Longrightarrow> stops ys \<Longrightarrow> v = w \<and> xs = ys"
    and head: "\<And>v. v \<in> set vs \<union> set ws \<Longrightarrow> f v \<noteq> [] \<and> hd (f v) \<notin> {CHR '','', CHR '']'', CHR ''}''}"
    and c: "c \<in> {CHR '']'', CHR ''}''}"
    and eq: "join_comma (map f vs) @ c # xs = join_comma (map f ws) @ c # ys"
  shows "vs = ws \<and> xs = ys"
  using read head eq
proof (induction vs arbitrary: ws)
  case Nil
  show ?case
  proof (cases ws)
    case (Cons w ws')
    then show ?thesis using Nil.prems(2) [of w] Nil.prems(3) c by (cases "f w") (auto simp: join_comma_Cons)
  qed (use Nil.prems in simp)
next
  case (Cons v vs)
  show ?case
  proof (cases ws)
    case Nil
    then show ?thesis using Cons.prems(2) [of v] Cons.prems(3) c by (cases "f v") (auto simp: join_comma_Cons)
  next
    case ws: (Cons w ws')
    define rest where "rest us zs = (if us = [] then c # zs else CHR '','' # join_comma (map f us) @ c # zs)" for us zs
    have stop: "stops (rest us zs)" for us zs using c by (auto simp: rest_def stops_def)
    have split: "f v @ rest vs xs = f w @ rest ws' ys"
      using Cons.prems(3) by (auto simp: ws rest_def join_comma_Cons split: if_splits)
    then have vw: "v = w" "rest vs xs = rest ws' ys"
      using Cons.prems(1) [of v w, OF _ _ split stop stop] by (auto simp: ws)
    then have "join_comma (map f vs) @ c # xs = join_comma (map f ws') @ c # ys"
      using c by (auto simp: rest_def split: if_splits)
    then have "vs = ws' \<and> xs = ys"
      using Cons.prems(1,2) by (intro Cons.IH) (auto simp: ws)
    with vw(1) show ?thesis by (simp add: ws)
  qed
qed

lemma int_kind:
  "hd (str_int i) \<noteq> CHR ''n''" "hd (str_int i) \<noteq> CHR ''t''" "hd (str_int i) \<noteq> CHR ''f''"
  "hd (str_int i) \<noteq> CHR 0x22" "hd (str_int i) \<noteq> CHR ''[''" "hd (str_int i) \<noteq> CHR ''{''"
proof -
  have "hd (str_int i) \<noteq> c" if "\<not> is_digit 10 c" "c \<noteq> CHR ''-''" for c using that str_int_head [of i] by auto
  then show "hd (str_int i) \<noteq> CHR ''n''" "hd (str_int i) \<noteq> CHR ''t''" "hd (str_int i) \<noteq> CHR ''f''"
    "hd (str_int i) \<noteq> CHR 0x22" "hd (str_int i) \<noteq> CHR ''[''" "hd (str_int i) \<noteq> CHR ''{''"
    by (simp_all add: is_digit_def digit_value_def)
qed

lemmas kind_simps = kind_char_def int_kind int_kind [THEN not_sym]

lemma kind_null: "exact w \<Longrightarrow> kind_char w = CHR ''n'' \<Longrightarrow> w = JNull"
  by (cases w) (simp_all add: kind_simps split: if_splits)

lemma kind_bool: "exact w \<Longrightarrow> kind_char w = (if b then CHR ''t'' else CHR ''f'') \<Longrightarrow> w = JBool b"
  by (cases w; cases b) (simp_all add: kind_simps split: if_splits)

lemma kind_string: "exact w \<Longrightarrow> kind_char w = CHR 0x22 \<Longrightarrow> \<exists>s. w = JString s"
  by (cases w) (simp_all add: kind_simps split: if_splits)

lemma kind_int: "exact w \<Longrightarrow> kind_char w = hd (str_int i) \<Longrightarrow> \<exists>j. w = JInt j"
  by (cases w) (simp_all add: kind_simps split: if_splits)

lemma kind_list: "exact w \<Longrightarrow> kind_char w = CHR ''['' \<Longrightarrow> \<exists>ws. w = JList ws"
  by (cases w) (simp_all add: kind_simps split: if_splits)

lemma kind_object: "exact w \<Longrightarrow> kind_char w = CHR ''{'' \<Longrightarrow> \<exists>ws. w = JObject ws"
  by (cases w) (simp_all add: kind_simps split: if_splits)

lemma same_kind:
  assumes "exact v" "exact w" "plain_text v @ xs = plain_text w @ ys"
  shows "kind_char v = kind_char w"
  using plain_text_head [OF assms(1)] plain_text_head [OF assms(2)] assms(3) by (metis hd_append2)

definition member_text :: "string \<times> json \<Rightarrow> string" where
  "member_text kv = quote_string (fst kv) @ '':'' @ plain_text (snd kv)"

lemma member_text_head: "member_text kv \<noteq> [] \<and> hd (member_text kv) \<notin> {CHR '','', CHR '']'', CHR ''}''}"
  by (simp add: member_text_def quote_string_def char_of_eq_iff)

lemma plain_text_unique:
  assumes "exact v" "exact w" "plain_text v @ xs = plain_text w @ ys" "stops xs" "stops ys"
  shows "v = w \<and> xs = ys"
  using assms
proof (induction v arbitrary: w xs ys rule: plain_text.induct)
  case 1
  have "w = JNull" using same_kind [OF 1(1-3)] kind_null [OF 1(2)] by (simp add: kind_char_def)
  with 1 show ?case by simp
next
  case (2 b)
  have "w = JBool b" using same_kind [OF 2(1-3)] kind_bool [OF 2(2), of b] by (simp add: kind_char_def)
  with 2 show ?case by simp
next
  case (3 s)
  obtain t where "w = JString t" using same_kind [OF 3(1-3)] kind_string [OF 3(2)] by (auto simp: kind_char_def)
  with 3 show ?case using quote_string_unique [of s xs t ys] by simp
next
  case (4 i)
  obtain j where "w = JInt j" using same_kind [OF 4(1-3)] kind_int [OF 4(2), of i] by (auto simp: kind_char_def)
  with 4 show ?case using str_int_unique [of i xs j ys] by simp
next
  case (5 r)
  then show ?case by simp
next
  case (6 vs)
  obtain ws where w: "w = JList ws"
    using same_kind [OF "6.prems"(1,2,3)] kind_list [OF "6.prems"(2)] by (auto simp: kind_char_def)
  have "join_comma (map plain_text vs) @ CHR '']'' # xs = join_comma (map plain_text ws) @ CHR '']'' # ys"
    using "6.prems"(3) by (simp add: w)
  moreover have "plain_text u \<noteq> [] \<and> hd (plain_text u) \<notin> {CHR '','', CHR '']'', CHR ''}''}" if "u \<in> set vs \<union> set ws" for u
    using that "6.prems"(1,2) plain_text_head [of u] kind_char_stops [of u] by (auto simp: w)
  ultimately have "vs = ws \<and> xs = ys"
    using "6.IH" "6.prems"(1,2) by (intro join_comma_unique [of vs ws plain_text "CHR '']''"]) (auto simp: w)
  then show ?case by (simp add: w)
next
  case (7 kvs)
  obtain kws where w: "w = JObject kws"
    using same_kind [OF "7.prems"(1,2,3)] kind_object [OF "7.prems"(2)] by (auto simp: kind_char_def)
  have read: "kv = kw \<and> us = zs" if "kv \<in> set kvs" "kw \<in> set kws" "member_text kv @ us = member_text kw @ zs" "stops us" "stops zs"
    for kv kw us zs
  proof -
    have "quote_string (fst kv) @ CHR '':'' # plain_text (snd kv) @ us = quote_string (fst kw) @ CHR '':'' # plain_text (snd kw) @ zs"
      using that(3) by (simp add: member_text_def)
    then have "fst kv = fst kw" "plain_text (snd kv) @ us = plain_text (snd kw) @ zs"
      by (auto dest: quote_string_unique)
    then show ?thesis
      using "7.IH" [OF that(1) _ _ _ that(4,5), of "snd kw"] "7.prems"(1,2) that(1,2) by (auto simp: w prod_eq_iff)
  qed
  have "join_comma (map member_text kvs) @ CHR ''}'' # xs = join_comma (map member_text kws) @ CHR ''}'' # ys"
    using "7.prems"(3) by (simp add: w member_text_def [abs_def])
  then have "kvs = kws \<and> xs = ys"
    using read member_text_head by (intro join_comma_unique [of kvs kws member_text "CHR ''}''"]) auto
  then show ?case by (simp add: w)
qed

text \<open>
  C27. Canonical JSON is canonical on documents without floats whose integers are within 2^53 of zero (the
  documents \<open>exact\<close> admits): two of them get the same text exactly when they are the same up to the order of the
  members of their objects. So a digest taken over the text depends on the content alone, and a different
  content has a different text. Documents with floats are not covered: 1 and 1.0 have one text by design.
\<close>

theorem canonical_json_canonical:
  assumes "exact v" and "exact w"
  shows "serialize float_text v = serialize float_text w \<longleftrightarrow> canon v = canon w"
  using assms plain_text_unique [of "canon v" "canon w" "[]" "[]"] exact_canon
  by (auto simp: serialize_plain stops_def)

theorem canonical_json_canonical_witness:
  "serialize (\<lambda>_. []) (JObject [(''b'', JInt 1), (''a'', JList [JNull])]) = serialize (\<lambda>_. []) (JObject [(''a'', JList [JNull]), (''b'', JInt 1)])"
  using canonical_json_canonical [of "JObject [(''b'', JInt 1), (''a'', JList [JNull])]" "JObject [(''a'', JList [JNull]), (''b'', JInt 1)]" "\<lambda>_. []"]
  by simp

end
