(* ===== verification/Answer_Text.thy ===== *)
theory Answer_Text
  imports Wire_Properties
begin

text \<open>
  The text of a model answer: value placeholders (\<^verbatim>\<open>application/grounding/placeholders.py\<close>) and record-fact
  tags (\<^verbatim>\<open>application/grounding/claim_tags.py\<close>). Each regular expression is a scanner that decides
  whether the expression matches at the start of a text; none of them can match in two ways, since the
  character after each greedy run ends it. \<open>string\<close> holds Latin-1, where ignoring case concerns the ASCII
  letters of the fixed words only.
\<close>

section \<open>Placeholders\<close>

datatype answer_part = ProsePart string | PlaceholderPart string

definition is_handle_char :: "char \<Rightarrow> bool" where
  "is_handle_char c \<longleftrightarrow> (let n = of_char c :: nat in
     65 \<le> n \<and> n \<le> 90 \<or> 97 \<le> n \<and> n \<le> 122 \<or> 48 \<le> n \<and> n \<le> 57 \<or> n = 95 \<or> n = 45)"

fun match_placeholder :: "string \<Rightarrow> (string \<times> string) option" where
  "match_placeholder (a # b # s) =
     (if a = CHR ''{'' \<and> b = CHR ''{'' \<and> takeWhile is_handle_char s \<noteq> []
      then (case dropWhile is_handle_char s of
              c # d # rest \<Rightarrow> if c = CHR ''}'' \<and> d = CHR ''}'' then Some (takeWhile is_handle_char s, rest) else None
            | _ \<Rightarrow> None)
      else None)"
| "match_placeholder _ = None"

lemma match_placeholder_SomeD:
  assumes "match_placeholder s = Some (h, rest)"
  shows "s = ''{{'' @ h @ ''}}'' @ rest \<and> h \<noteq> [] \<and> list_all is_handle_char h"
  using assms
proof (induction s rule: match_placeholder.induct)
  case (1 a b s)
  obtain c d where t: "a = CHR ''{''" "b = CHR ''{''" "h = takeWhile is_handle_char s" "h \<noteq> []"
    "dropWhile is_handle_char s = c # d # rest" "c = CHR ''}''" "d = CHR ''}''"
    using 1 by (auto split: if_splits list.splits)
  have "s = h @ ''}}'' @ rest" using takeWhile_dropWhile_id [of is_handle_char s] t by simp
  then show ?case using t by (auto simp: list_all_iff dest: set_takeWhileD)
qed simp_all

lemma match_placeholder_shorter [termination_simp]: "match_placeholder s = Some (h, rest) \<Longrightarrow> length rest < length s"
  by (auto dest!: match_placeholder_SomeD)

definition prose :: "string \<Rightarrow> answer_part list" where
  "prose t = (if t = [] then [] else [ProsePart t])"

function scan_answer :: "string \<Rightarrow> string \<Rightarrow> answer_part list" where
  "scan_answer acc [] = prose acc"
| "scan_answer acc (c # cs) = (case match_placeholder (c # cs) of
      Some (handle, rest) \<Rightarrow> prose acc @ PlaceholderPart handle # scan_answer [] rest
    | None \<Rightarrow> scan_answer (acc @ [c]) cs)"
  by pat_completeness auto
termination by (relation "measure (length \<circ> snd)") (auto dest: match_placeholder_shorter)

definition parse_answer_text :: "string \<Rightarrow> answer_part list" where
  "parse_answer_text text = scan_answer [] text"

definition placeholder_handles :: "string \<Rightarrow> string list" where
  "placeholder_handles text = concat (map (\<lambda>p. case p of PlaceholderPart h \<Rightarrow> [h] | ProsePart _ \<Rightarrow> []) (parse_answer_text text))"

definition answer_part_text :: "answer_part \<Rightarrow> string" where
  "answer_part_text p = (case p of ProsePart t \<Rightarrow> t | PlaceholderPart h \<Rightarrow> ''{{'' @ h @ ''}}'')"

lemma scan_answer_text: "concat (map answer_part_text (scan_answer acc s)) = acc @ s"
proof (induction acc s rule: scan_answer.induct)
  case (2 acc c cs)
  show ?case
  proof (cases "match_placeholder (c # cs)")
    case None
    then show ?thesis using 2 by simp
  next
    case (Some m)
    then obtain h rest where m: "match_placeholder (c # cs) = Some (h, rest)" by (cases m) auto
    then show ?thesis using 2 match_placeholder_SomeD [OF m] by (simp add: prose_def answer_part_text_def)
  qed
qed (simp add: prose_def answer_part_text_def)

definition part_ok :: "answer_part \<Rightarrow> bool" where
  "part_ok p = (case p of ProsePart t \<Rightarrow> t \<noteq> [] | PlaceholderPart h \<Rightarrow> h \<noteq> [] \<and> list_all is_handle_char h)"

lemma scan_answer_ok: "list_all part_ok (scan_answer acc s)"
proof (induction acc s rule: scan_answer.induct)
  case (2 acc c cs)
  then show ?case
    by (auto simp: prose_def part_ok_def dest: match_placeholder_SomeD split: option.splits)
qed (simp add: prose_def part_ok_def)

section \<open>Claim tags\<close>

datatype tag_part = PlainTextPart string | FactTagPart string string string string

definition lower_char :: "char \<Rightarrow> char" where
  "lower_char c = (let n = of_char c :: nat in if 65 \<le> n \<and> n \<le> 90 then char_of (n + 32) else c)"

text \<open>Whether the text starts with a fixed word, ignoring case.\<close>

definition starts_ci :: "string \<Rightarrow> string \<Rightarrow> bool" where
  "starts_ci word s \<longleftrightarrow> map lower_char (take (length word) s) = word"

definition match_open :: "string \<Rightarrow> (string \<times> string) option" where
  "match_open s =
     (let body = takeWhile (\<lambda>c. c \<noteq> CHR ''<'' \<and> c \<noteq> CHR ''>'') (drop 6 s); rest = drop (length body) (drop 6 s) in
      if starts_ci ''<claim'' s \<and> drop 6 s \<noteq> [] \<and> (is_space (hd (drop 6 s)) \<or> hd (drop 6 s) = CHR ''>'')
         \<and> rest \<noteq> [] \<and> hd rest = CHR ''>''
      then Some (take 6 s @ body @ ''>'', tl rest) else None)"

definition match_close :: "string \<Rightarrow> (string \<times> string) option" where
  "match_close s =
     (let spaces = takeWhile is_space (drop 7 s); rest = drop (length spaces) (drop 7 s) in
      if starts_ci ''</claim'' s \<and> rest \<noteq> [] \<and> hd rest = CHR ''>''
      then Some (take 7 s @ spaces @ ''>'', tl rest) else None)"

definition match_tag :: "string \<Rightarrow> (string \<times> string) option" where
  "match_tag s = (case match_open s of Some m \<Rightarrow> Some m | None \<Rightarrow> match_close s)"

text \<open>\<open>_BROKEN_OPEN\<close>: an opener that runs into the next tag, the end of the line or the end of the text.\<close>

definition match_broken_open :: "string \<Rightarrow> (string \<times> string) option" where
  "match_broken_open s =
     (let body = takeWhile (\<lambda>c. c \<notin> {CHR ''<'', CHR ''>'', char_of (10 :: nat)}) (drop 6 s); rest = drop (length body) (drop 6 s) in
      if starts_ci ''<claim'' s \<and> drop 6 s \<noteq> [] \<and> is_space (hd (drop 6 s)) \<and> (rest = [] \<or> hd rest \<noteq> CHR ''>'')
      then Some (take 6 s @ body, rest) else None)"

lemma starts_ci_length: "starts_ci word s \<Longrightarrow> length word \<le> length s"
  unfolding starts_ci_def by (metis length_map length_take min.cobounded1)

lemma length_word: "length ''<claim'' = 6" "length ''</claim'' = 7"
  by simp_all

lemma match_tag_shorter: "match_tag s = Some (t, rest) \<Longrightarrow> length rest < length s"
  by (auto simp: match_tag_def match_open_def match_close_def Let_def length_word dest!: starts_ci_length
      split: option.splits if_splits)

lemma match_broken_open_shorter: "match_broken_open s = Some (t, rest) \<Longrightarrow> length rest < length s"
  by (auto simp: match_broken_open_def Let_def length_word dest!: starts_ci_length split: if_splits)

text \<open>\<open>re.sub\<close> and \<open>re.split\<close> by a matcher: the leftmost match, then on behind it.\<close>

function substitute :: "(string \<Rightarrow> string) \<Rightarrow> string \<Rightarrow> string" where
  "substitute f [] = []"
| "substitute f (c # cs) = (case match_broken_open (c # cs) of
      Some (opener, rest) \<Rightarrow> f opener @ substitute f rest
    | None \<Rightarrow> c # substitute f cs)"
  by pat_completeness auto
termination by (relation "measure (length \<circ> snd)") (auto dest: match_broken_open_shorter)

function split_tags :: "string \<Rightarrow> string \<Rightarrow> string list" where
  "split_tags acc [] = [acc]"
| "split_tags acc (c # cs) = (case match_tag (c # cs) of
      Some (tag, rest) \<Rightarrow> acc # tag # split_tags [] rest
    | None \<Rightarrow> split_tags (acc @ [c]) cs)"
  by pat_completeness auto
termination by (relation "measure (length \<circ> snd)") (auto dest: match_tag_shorter)

text \<open>\<open>_PARTIAL_VALUE.search\<close> in an opener, which holds no line break: the value and what follows it.\<close>

definition value_at :: "string \<Rightarrow> (string \<times> string) option" where
  "value_at s =
     (let after_name = dropWhile is_space (drop 5 s); after_eq = dropWhile is_space (tl after_name) in
      if starts_ci ''value'' s \<and> after_name \<noteq> [] \<and> hd after_name = CHR ''='' \<and> after_eq \<noteq> []
         \<and> hd after_eq \<in> {char_of (39 :: nat), char_of (34 :: nat)}
      then Some (takeWhile (\<lambda>c. c \<noteq> hd after_eq) (tl after_eq), tl (dropWhile (\<lambda>c. c \<noteq> hd after_eq) (tl after_eq)))
      else None)"

fun search_value :: "string \<Rightarrow> (string \<times> string) option" where
  "search_value [] = None"
| "search_value (c # cs) = (case value_at (c # cs) of Some m \<Rightarrow> Some m | None \<Rightarrow> search_value cs)"

definition visible_opener :: "string \<Rightarrow> string" where
  "visible_opener opener = (case search_value opener of None \<Rightarrow> [] | Some (value, rest) \<Rightarrow> value @ rest)"

definition repair_broken_openers :: "string \<Rightarrow> string" where
  "repair_broken_openers text = substitute visible_opener text"

definition is_name_char :: "char \<Rightarrow> bool" where
  "is_name_char c \<longleftrightarrow> (let n = of_char c :: nat in 65 \<le> n \<and> n \<le> 90 \<or> 97 \<le> n \<and> n \<le> 122 \<or> n = 95)"

definition attribute_at :: "string \<Rightarrow> ((string \<times> string) \<times> string) option" where
  "attribute_at s =
     (let name = takeWhile is_name_char s; after_name = dropWhile is_space (drop (length name) s);
          after_eq = dropWhile is_space (tl after_name);
          value = takeWhile (\<lambda>c. c \<noteq> hd after_eq) (tl after_eq); after_value = drop (length value) (tl after_eq) in
      if name \<noteq> [] \<and> after_name \<noteq> [] \<and> hd after_name = CHR ''='' \<and> after_eq \<noteq> []
         \<and> hd after_eq \<in> {char_of (39 :: nat), char_of (34 :: nat)} \<and> after_value \<noteq> []
      then Some ((map lower_char name, value), tl after_value) else None)"

lemma attribute_at_shorter: "attribute_at s = Some (kv, rest) \<Longrightarrow> length rest < length s"
proof -
  assume a: "attribute_at s = Some (kv, rest)"
  have "length (dropWhile p xs) \<le> length xs" for p :: "char \<Rightarrow> bool" and xs by (rule length_dropWhile_le)
  note le = this [of is_space "drop (length (takeWhile is_name_char s)) s"]
    this [of is_space "tl (dropWhile is_space (drop (length (takeWhile is_name_char s)) s))"]
  have "takeWhile is_name_char s \<noteq> []" using a by (auto simp: attribute_at_def Let_def split: if_splits)
  then have "0 < length s" by (cases s) auto
  then show ?thesis using a le by (auto simp: attribute_at_def Let_def split: if_splits)
qed

function attribute_list :: "string \<Rightarrow> (string \<times> string) list" where
  "attribute_list [] = []"
| "attribute_list (c # cs) = (case attribute_at (c # cs) of
      Some (kv, rest) \<Rightarrow> kv # attribute_list rest
    | None \<Rightarrow> attribute_list cs)"
  by pat_completeness auto
termination by (relation "measure length") (auto dest: attribute_at_shorter)

text \<open>The loop of \<open>parse_claim_tags\<close>: \<open>nested\<close>, \<open>attributes\<close> (in the order they were written, the last of a name
  counts) and \<open>inner\<close> belong to the open tag.\<close>

record tag_state =
  ts_parts :: "tag_part list"
  ts_depth :: nat
  ts_nested :: bool
  ts_attributes :: "(string \<times> string) list"
  ts_inner :: string

definition emit_text :: "string \<Rightarrow> tag_part list \<Rightarrow> tag_part list" where
  "emit_text value parts =
     (if value = [] then parts
      else (case rev parts of
              PlainTextPart t # before \<Rightarrow> rev before @ [PlainTextPart (t @ value)]
            | _ \<Rightarrow> parts @ [PlainTextPart value]))"

definition close_tag :: "(string \<times> string) list \<Rightarrow> bool \<Rightarrow> string \<Rightarrow> tag_part list \<Rightarrow> tag_part list" where
  "close_tag attributes nested body parts =
     (case (dict_of attributes ''ev'', dict_of attributes ''field'', dict_of attributes ''value'') of
        (Some ev, Some field, Some value) \<Rightarrow>
          if \<not> nested \<and> ev \<noteq> [] then parts @ [FactTagPart body ev field value] else emit_text body parts
      | _ \<Rightarrow> emit_text body parts)"

definition tag_step :: "tag_state \<Rightarrow> string \<Rightarrow> tag_state" where
  "tag_step st token =
     (if token = [] then st
      else if starts_ci ''<claim'' token
      then (if ts_depth st = 0
            then st\<lparr>ts_attributes := attribute_list token, ts_inner := [], ts_nested := False, ts_depth := 1\<rparr>
            else st\<lparr>ts_nested := True, ts_depth := ts_depth st + 1\<rparr>)
      else if starts_ci ''</claim'' token
      then (if ts_depth st = 0 then st
            else if ts_depth st = 1
            then st\<lparr>ts_depth := 0, ts_parts := close_tag (ts_attributes st) (ts_nested st) (ts_inner st) (ts_parts st)\<rparr>
            else st\<lparr>ts_depth := ts_depth st - 1\<rparr>)
      else if ts_depth st \<noteq> 0 then st\<lparr>ts_inner := ts_inner st @ token\<rparr>
      else st\<lparr>ts_parts := emit_text token (ts_parts st)\<rparr>)"

definition finish_tags :: "tag_state \<Rightarrow> tag_part list" where
  "finish_tags st = (if ts_depth st \<noteq> 0 then emit_text (ts_inner st) (ts_parts st) else ts_parts st)"

definition parse_claim_tags :: "string \<Rightarrow> tag_part list" where
  "parse_claim_tags text = finish_tags (foldl tag_step
     \<lparr>ts_parts = [], ts_depth = 0, ts_nested = False, ts_attributes = [], ts_inner = []\<rparr>
     (split_tags [] (repair_broken_openers text)))"

definition fact_handles :: "string \<Rightarrow> string list" where
  "fact_handles text = concat (map (\<lambda>p. case p of FactTagPart _ ev _ _ \<Rightarrow> [ev] | PlainTextPart _ \<Rightarrow> []) (parse_claim_tags text))"

section \<open>No text is lost\<close>

definition tag_part_text :: "tag_part \<Rightarrow> string" where
  "tag_part_text p = (case p of PlainTextPart t \<Rightarrow> t | FactTagPart t _ _ _ \<Rightarrow> t)"

definition texts_of :: "tag_part list \<Rightarrow> string" where
  "texts_of parts = concat (map tag_part_text parts)"

text \<open>The tokens of \<open>re.split\<close> alternate: a text, a tag, a text, and so on.\<close>

fun text_tokens :: "string list \<Rightarrow> string list" where
  "text_tokens (t # tag # rest) = t # text_tokens rest"
| "text_tokens ts = ts"

fun tag_tokens :: "string list \<Rightarrow> string list" where
  "tag_tokens (t # tag # rest) = tag # tag_tokens rest"
| "tag_tokens ts = []"

definition claim_like :: "string \<Rightarrow> bool" where
  "claim_like t \<longleftrightarrow> starts_ci ''<claim'' t \<or> starts_ci ''</claim'' t"

lemma starts_ci_take: "starts_ci word s \<Longrightarrow> starts_ci word (take (length word) s @ zs)"
  using starts_ci_length [of word s] by (auto simp: starts_ci_def)

lemma match_tag_claim_like: "match_tag s = Some (tag, rest) \<Longrightarrow> claim_like tag"
  using starts_ci_take [of "''<claim''" s, unfolded length_word] starts_ci_take [of "''</claim''" s, unfolded length_word]
  by (auto simp: match_tag_def match_open_def match_close_def claim_like_def Let_def split: option.splits if_splits)

lemma tag_tokens_claim_like: "list_all claim_like (tag_tokens (split_tags acc s))"
  by (induction acc s rule: split_tags.induct) (auto dest: match_tag_claim_like split: option.splits)

lemma texts_of_emit: "texts_of (emit_text v parts) = texts_of parts @ v"
proof (cases parts rule: rev_cases)
  case Nil
  then show ?thesis by (simp add: emit_text_def texts_of_def tag_part_text_def)
next
  case (snoc before p)
  then show ?thesis by (cases p) (simp_all add: emit_text_def texts_of_def tag_part_text_def)
qed

lemma texts_of_close: "texts_of (close_tag attributes nested body parts) = texts_of parts @ body"
proof -
  have "texts_of (parts @ [FactTagPart body ev field value]) = texts_of parts @ body" for ev field "value"
    by (simp add: texts_of_def tag_part_text_def)
  then show ?thesis by (simp add: close_tag_def texts_of_emit split: option.splits)
qed

definition shown :: "tag_state \<Rightarrow> string" where
  "shown st = texts_of (ts_parts st) @ (if ts_depth st \<noteq> 0 then ts_inner st else [])"

lemma shown_text_step: "\<not> claim_like t \<Longrightarrow> shown (tag_step st t) = shown st @ t"
  by (auto simp: tag_step_def shown_def claim_like_def texts_of_emit)

lemma shown_tag_step: "claim_like t \<Longrightarrow> shown (tag_step st t) = shown st"
  by (auto simp: tag_step_def shown_def claim_like_def texts_of_close)

lemma shown_steps:
  "list_all claim_like (tag_tokens ts) \<Longrightarrow> \<forall>t \<in> set (text_tokens ts). \<not> claim_like t
     \<Longrightarrow> shown (foldl tag_step st ts) = shown st @ concat (text_tokens ts)"
  by (induction ts arbitrary: st rule: text_tokens.induct) (auto simp: shown_text_step shown_tag_step)

text \<open>
  The parser of an answer keeps every character outside placeholders: the parts, written back, are
  the text that was parsed; no prose part is empty, and a placeholder names a non-empty handle.
\<close>

theorem answer_text_kept:
  "concat (map answer_part_text (parse_answer_text text)) = text \<and> list_all part_ok (parse_answer_text text)"
  by (simp add: parse_answer_text_def scan_answer_text scan_answer_ok)

text \<open>Whatever an answer holds, the text of the parts, facts included, is the text of the tokens between the
  tags, in order, provided no piece of it looks like the start of a tag.\<close>

lemma texts_of_tokens:
  assumes "\<forall>t \<in> set (text_tokens (split_tags [] (repair_broken_openers text))). \<not> claim_like t"
  shows "texts_of (parse_claim_tags text) = concat (text_tokens (split_tags [] (repair_broken_openers text)))"
proof -
  have "texts_of (finish_tags st) = shown st" for st
    by (simp add: finish_tags_def shown_def texts_of_emit)
  then show ?thesis
    unfolding parse_claim_tags_def using shown_steps [OF tag_tokens_claim_like assms]
    by (simp add: shown_def texts_of_def)
qed

section \<open>Written parts are read back\<close>

definition single_quote :: char where
  "single_quote = char_of (39 :: nat)"

definition quoted :: "string \<Rightarrow> string" where
  "quoted v = single_quote # v @ [single_quote]"

definition claim_opener :: "string \<Rightarrow> string \<Rightarrow> string \<Rightarrow> string" where
  "claim_opener ev field v = ''<claim ev='' @ quoted ev @ '' field='' @ quoted field @ '' value='' @ quoted v @ ''>''"

definition claim_closer :: string where
  "claim_closer = ''</claim>''"

text \<open>How an answer writes a part: plain text as it is, a record fact as a claim tag around its text.\<close>

definition written_part :: "tag_part \<Rightarrow> string" where
  "written_part p = (case p of
      PlainTextPart t \<Rightarrow> t
    | FactTagPart t ev field v \<Rightarrow> claim_opener ev field v @ t @ claim_closer)"

definition written :: "tag_part list \<Rightarrow> string" where
  "written parts = concat (map written_part parts)"

text \<open>Text that opens no tag: no \<open><\<close> in it is followed by \<open>c\<close>, \<open>C\<close> or a slash.\<close>

fun opens_no_tag :: "string \<Rightarrow> bool" where
  "opens_no_tag (c # d # s) \<longleftrightarrow> (c = CHR ''<'' \<longrightarrow> d \<notin> {CHR ''c'', CHR ''C'', CHR ''/''}) \<and> opens_no_tag (d # s)"
| "opens_no_tag _ \<longleftrightarrow> True"

text \<open>An attribute value that can be written between single quotes: no quote, angle bracket or line break.\<close>

definition plain_value :: "string \<Rightarrow> bool" where
  "plain_value v \<longleftrightarrow> set v \<inter> {CHR ''<'', CHR ''>'', single_quote, char_of (10 :: nat)} = {}"

fun parts_ok :: "tag_part list \<Rightarrow> bool" where
  "parts_ok [] \<longleftrightarrow> True"
| "parts_ok (PlainTextPart t # ps) \<longleftrightarrow>
     t \<noteq> [] \<and> opens_no_tag t \<and> (case ps of PlainTextPart _ # _ \<Rightarrow> False | _ \<Rightarrow> True) \<and> parts_ok ps"
| "parts_ok (FactTagPart t ev field v # ps) \<longleftrightarrow>
     opens_no_tag t \<and> ev \<noteq> [] \<and> plain_value ev \<and> plain_value field \<and> plain_value v \<and> parts_ok ps"

lemma plain_valueD:
  assumes "plain_value v" and "c \<in> set v"
  shows "c \<noteq> CHR ''<''" "c \<noteq> CHR ''>''" "c \<noteq> single_quote" "c \<noteq> char_of (10 :: nat)"
  using assms by (auto simp: plain_value_def)

lemma char_codes: "char_of (39 :: nat) = CHR 0x27" "char_of (34 :: nat) = CHR 0x22" "char_of (10 :: nat) = CHR 0x0A" "single_quote = CHR 0x27"
  unfolding single_quote_def by code_simp+

lemma char_of_C: "char_of (67 :: nat) = CHR ''C''"
  by code_simp

lemma lower_charD: "lower_char c = d \<Longrightarrow> c = d \<or> of_char c + 32 = (of_char d :: nat)"
  by (auto simp: lower_char_def Let_def of_char_of split: if_splits)

lemma lower_char_cases:
  "lower_char c = CHR ''<'' \<Longrightarrow> c = CHR ''<''"
  "lower_char c = CHR ''/'' \<Longrightarrow> c = CHR ''/''"
  "lower_char c = CHR ''c'' \<Longrightarrow> c = CHR ''c'' \<or> c = CHR ''C''"
proof -
  show "c = CHR ''<''" if "lower_char c = CHR ''<''" using lower_charD [OF that] that by (auto simp: lower_char_def Let_def split: if_splits)
  show "c = CHR ''/''" if "lower_char c = CHR ''/''" using lower_charD [OF that] that by (auto simp: lower_char_def Let_def split: if_splits)
  show "c = CHR ''c'' \<or> c = CHR ''C''" if "lower_char c = CHR ''c''"
  proof (rule disjCI)
    assume "c \<noteq> CHR ''C''"
    have "of_char c \<noteq> (67 :: nat)" using \<open>c \<noteq> CHR ''C''\<close> by (metis char_of_char char_of_C)
    then show "c = CHR ''c''" using lower_charD [OF that] by auto
  qed
qed

text \<open>No expression matches where the text does not start with an angle bracket and a letter of a tag.\<close>

lemma no_match_here:
  assumes "c \<noteq> CHR ''<'' \<or> (cs \<noteq> [] \<longrightarrow> hd cs \<notin> {CHR ''c'', CHR ''C'', CHR ''/''})"
  shows "match_broken_open (c # cs) = None" "match_tag (c # cs) = None"
proof -
  have word: "\<not> starts_ci ''<claim'' (c # cs)" "\<not> starts_ci ''</claim'' (c # cs)"
    using assms by (cases cs; auto simp: starts_ci_def dest: lower_char_cases)+
  then show "match_broken_open (c # cs) = None" "match_tag (c # cs) = None"
    by (simp_all add: match_broken_open_def match_tag_def match_open_def match_close_def Let_def)
qed

lemma substitute_text:
  assumes "opens_no_tag s" and "rest = [] \<or> hd rest = CHR ''<''"
  shows "substitute f (s @ rest) = s @ substitute f rest"
  using assms
proof (induction s rule: opens_no_tag.induct [case_names two none one])
  case (two c d s)
  then show ?case using no_match_here(1) [of c "d # s @ rest"] by auto
next
  case (one c)
  then show ?case using no_match_here(1) [of c rest] by auto
qed simp

lemma split_text:
  assumes "opens_no_tag s" and "rest = [] \<or> hd rest = CHR ''<''"
  shows "split_tags acc (s @ rest) = split_tags (acc @ s) rest"
  using assms
proof (induction s arbitrary: acc rule: opens_no_tag.induct [case_names two none one])
  case (two c d s)
  then show ?case using no_match_here(2) [of c "d # s @ rest"] by auto
next
  case (one c)
  then show ?case using no_match_here(2) [of c rest] by auto
qed simp

text \<open>An opener and a closing tag.\<close>

lemma no_bracket_text: "CHR ''<'' \<notin> set s \<Longrightarrow> substitute f (s @ rest) = s @ substitute f rest"
proof (induction s)
  case (Cons c s)
  then show ?case using no_match_here(1) [of c "s @ rest"] by auto
qed simp

lemma takeWhile_before: "(\<And>x. x \<in> set xs \<Longrightarrow> P x) \<Longrightarrow> \<not> P y \<Longrightarrow> takeWhile P (xs @ y # ys) = xs"
  by (simp add: takeWhile_append2)

definition opener_body :: "string \<Rightarrow> string \<Rightarrow> string \<Rightarrow> string" where
  "opener_body ev field v = '' ev='' @ quoted ev @ '' field='' @ quoted field @ '' value='' @ quoted v"

lemma claim_opener_eq: "claim_opener ev field v = ''<claim'' @ opener_body ev field v @ ''>''"
  by (simp add: claim_opener_def opener_body_def)

lemma opener_body_chars:
  assumes "plain_value ev" and "plain_value field" and "plain_value v" and "c \<in> set (opener_body ev field v)"
  shows "c \<notin> {CHR ''<'', CHR ''>'', char_of (10 :: nat)}"
  using assms by (auto simp: opener_body_def quoted_def char_codes plain_value_def)

lemma match_opener:
  assumes "plain_value ev" and "plain_value field" and "plain_value v"
  shows "match_broken_open (claim_opener ev field v @ rest) = None"
    and "match_tag (claim_opener ev field v @ rest) = Some (claim_opener ev field v, rest)"
proof -
  let ?b = "opener_body ev field v"
  define s where "s = claim_opener ev field v @ rest"
  have split: "take 6 s = ''<claim''" "drop 6 s = ?b @ CHR ''>'' # rest" by (simp_all add: s_def claim_opener_eq)
  have word: "starts_ci ''<claim'' s" by (simp add: starts_ci_def s_def claim_opener_eq lower_char_def)
  have body: "takeWhile (\<lambda>c. c \<notin> {CHR ''<'', CHR ''>'', char_of (10 :: nat)}) (?b @ CHR ''>'' # rest) = ?b"
    "takeWhile (\<lambda>c. c \<noteq> CHR ''<'' \<and> c \<noteq> CHR ''>'') (?b @ CHR ''>'' # rest) = ?b"
    using opener_body_chars [OF assms] by (auto intro!: takeWhile_before)
  have space: "hd (?b @ xs) = CHR '' ''" for xs by (simp add: opener_body_def)
  show "match_broken_open (claim_opener ev field v @ rest) = None"
    unfolding s_def [symmetric] match_broken_open_def split body Let_def by simp
  show "match_tag (claim_opener ev field v @ rest) = Some (claim_opener ev field v, rest)"
    unfolding s_def [symmetric] match_tag_def match_open_def split body Let_def
    using word space by (simp add: is_space_def claim_opener_eq)
qed

lemma match_closer: "match_broken_open (claim_closer @ rest) = None" "match_tag (claim_closer @ rest) = Some (claim_closer, rest)"
  by (simp_all add: claim_closer_def match_broken_open_def match_tag_def match_open_def match_close_def starts_ci_def lower_char_def Let_def is_space_def)

text \<open>Two walks over a written text: the repair leaves it alone, and the split finds its tags.\<close>

lemma written_simps:
  "written [] = []" "written (PlainTextPart t # ps) = t @ written ps"
  "written (FactTagPart t ev field v # ps) = claim_opener ev field v @ t @ claim_closer @ written ps"
  by (simp_all add: written_def written_part_def)

lemma written_start:
  "(case ps of PlainTextPart _ # _ \<Rightarrow> False | _ \<Rightarrow> True) \<Longrightarrow> written ps = [] \<or> hd (written ps) = CHR ''<''"
  by (cases ps) (auto simp: written_simps claim_opener_def split: tag_part.splits)

lemma substitute_opener:
  assumes "plain_value ev" and "plain_value field" and "plain_value v"
  shows "substitute f (claim_opener ev field v @ rest) = claim_opener ev field v @ substitute f rest"
proof -
  obtain tail where tail: "claim_opener ev field v = CHR ''<'' # tail" "CHR ''<'' \<notin> set tail"
    using assms by (simp add: claim_opener_def quoted_def char_codes plain_value_def)
  then show ?thesis using match_opener(1) [OF assms, of rest] no_bracket_text [OF tail(2)] by simp
qed

lemma substitute_closer: "substitute f (claim_closer @ rest) = claim_closer @ substitute f rest"
  using match_closer(1) [of rest] no_bracket_text [of "''/claim>''" f rest] by (simp add: claim_closer_def)

lemma closer_start: "hd (claim_closer @ rest) = CHR ''<''"
  by (simp add: claim_closer_def)

lemma repair_written: "parts_ok ps \<Longrightarrow> repair_broken_openers (written ps) = written ps"
  unfolding repair_broken_openers_def
proof (induction ps rule: parts_ok.induct)
  case (2 t ps)
  then show ?case using substitute_text [of t "written ps"] written_start [of ps] by (simp add: written_simps)
next
  case (3 t ev field v ps)
  then show ?case using substitute_text [of t "claim_closer @ written ps"]
    by (simp add: written_simps substitute_opener substitute_closer closer_start)
qed (simp add: written_simps)

lemma split_opener:
  assumes "plain_value ev" and "plain_value field" and "plain_value v"
  shows "split_tags acc (claim_opener ev field v @ rest) = acc # claim_opener ev field v # split_tags [] rest"
proof -
  obtain tail where tail: "claim_opener ev field v = CHR ''<'' # tail" by (simp add: claim_opener_def)
  then show ?thesis using match_opener(2) [OF assms, of rest] by simp
qed

lemma split_closer: "split_tags acc (claim_closer @ rest) = acc # claim_closer # split_tags [] rest"
  using match_closer(2) [of rest] by (simp add: claim_closer_def)

lemma split_fact:
  assumes "parts_ok (FactTagPart t ev field v # ps)"
  shows "split_tags acc (written (FactTagPart t ev field v # ps))
    = acc # claim_opener ev field v # t # claim_closer # split_tags [] (written ps)"
  using assms split_text [of t "claim_closer @ written ps" "[]"]
  by (simp add: written_simps split_opener split_closer closer_start)

text \<open>The attributes of a written opener.\<close>

lemma attribute_found:
  assumes "n \<noteq> []" and "list_all is_name_char n" and "single_quote \<notin> set v"
  shows "attribute_at (n @ ''='' @ quoted v @ rest) = Some ((map lower_char n, v), rest)"
proof -
  have name: "takeWhile is_name_char (n @ ''='' @ xs) = n" for xs
    using assms(2) by (simp add: takeWhile_append2 list_all_iff is_name_char_def)
  have "takeWhile (\<lambda>c. c \<noteq> single_quote) (v @ single_quote # rest) = v"
    using assms(3) by (auto intro!: takeWhile_before)
  then show ?thesis using assms(1) name [of "quoted v @ rest"]
    by (simp add: attribute_at_def Let_def quoted_def char_codes is_space_def)
qed

lemma attribute_list_found:
  assumes "list_all is_name_char n" and "n \<noteq> []" and "plain_value v"
  shows "attribute_list (n @ ''='' @ quoted v @ rest) = (map lower_char n, v) # attribute_list rest"
proof -
  have "single_quote \<notin> set v" using assms(3) by (auto simp: plain_value_def)
  then show ?thesis using attribute_found [OF assms(2,1), of v rest] assms(2) by (cases n) auto
qed

lemma attribute_skip: "attribute_at (c # cs) = None \<Longrightarrow> attribute_list (c # cs) = attribute_list cs"
  by simp

lemma opener_attributes:
  assumes "plain_value ev" and "plain_value field" and "plain_value v"
  shows "attribute_list (claim_opener ev field v) = [(''ev'', ev), (''field'', field), (''value'', v)]"
proof -
  have lower: "map lower_char ''ev'' = ''ev''" "map lower_char ''field'' = ''field''" "map lower_char ''value'' = ''value''"
    by code_simp+
  have name: "list_all is_name_char ''ev''" "list_all is_name_char ''field''" "list_all is_name_char ''value''"
    by code_simp+
  have skip: "attribute_list (''<claim '' @ ''ev='' @ rest) = attribute_list (''ev='' @ rest)"
    "attribute_list (CHR '' '' # rest) = attribute_list rest" "attribute_list ''>'' = []" for rest
    by (simp_all add: attribute_at_def is_name_char_def is_space_def Let_def)
  have found: "attribute_list (''ev'' @ ''='' @ quoted ev @ rest) = (''ev'', ev) # attribute_list rest"
    "attribute_list (''field'' @ ''='' @ quoted field @ rest) = (''field'', field) # attribute_list rest"
    "attribute_list (''value'' @ ''='' @ quoted v @ rest) = (''value'', v) # attribute_list rest" for rest
    using attribute_list_found [OF name(1) list.discI [OF refl] assms(1)] attribute_list_found [OF name(2) list.discI [OF refl] assms(2)]
      attribute_list_found [OF name(3) list.discI [OF refl] assms(3)]
    unfolding lower by blast+
  have "attribute_list (claim_opener ev field v) = attribute_list (''ev'' @ ''='' @ quoted ev @ '' field='' @ quoted field @ '' value='' @ quoted v @ ''>'')"
    using skip(1) by (simp add: claim_opener_def del: attribute_list.simps(2))
  also have "\<dots> = (''ev'', ev) # attribute_list (''field'' @ ''='' @ quoted field @ '' value='' @ quoted v @ ''>'')"
    unfolding found(1) by (simp add: skip(2) del: attribute_list.simps(2))
  also have "\<dots> = (''ev'', ev) # (''field'', field) # attribute_list (''value'' @ ''='' @ quoted v @ ''>'')"
    unfolding found(2) by (simp add: skip(2) del: attribute_list.simps(2))
  also have "\<dots> = [(''ev'', ev), (''field'', field), (''value'', v)]"
    unfolding found(3) by (simp add: skip(3) del: attribute_list.simps(2))
  finally show ?thesis .
qed

definition demo_answer :: string where
  "demo_answer = ''Ana <claim ev='w1' field='grade' value='G2'>is grade 2</claim> now <claim ev='w2''"

definition plain_text :: "string \<Rightarrow> tag_part list" where
  "plain_text t = (if t = [] then [] else [PlainTextPart t])"

definition ends_in_text :: "tag_part list \<Rightarrow> bool" where
  "ends_in_text parts \<longleftrightarrow> (case rev parts of PlainTextPart _ # _ \<Rightarrow> True | _ \<Rightarrow> False)"

lemma emit_plain: "\<not> ends_in_text parts \<Longrightarrow> emit_text t parts = parts @ plain_text t"
  by (auto simp: emit_text_def plain_text_def ends_in_text_def split: list.splits tag_part.splits)

lemma opens_no_tag_start: "opens_no_tag t \<Longrightarrow> \<not> claim_like t"
  by (cases t rule: opens_no_tag.cases) (auto simp: claim_like_def starts_ci_def dest: lower_char_cases)

lemma tag_words:
  "starts_ci ''<claim'' (claim_opener ev field v)" "starts_ci ''</claim'' claim_closer" "\<not> starts_ci ''<claim'' claim_closer"
  "claim_opener ev field v \<noteq> []" "claim_closer \<noteq> []"
  by (simp_all add: starts_ci_def claim_opener_def claim_closer_def lower_char_def)

lemma text_step:
  "opens_no_tag t \<Longrightarrow> ts_depth st = 0 \<Longrightarrow> \<not> ends_in_text (ts_parts st) \<Longrightarrow> tag_step st t = st\<lparr>ts_parts := ts_parts st @ plain_text t\<rparr>"
  using opens_no_tag_start [of t] by (auto simp: tag_step_def claim_like_def emit_plain plain_text_def)

lemma fact_steps:
  assumes "parts_ok (FactTagPart t ev field v # ps)" and "ts_depth st = 0"
  shows "foldl tag_step st [claim_opener ev field v, t, claim_closer]
    = st\<lparr>ts_depth := 0, ts_nested := False, ts_attributes := [(''ev'', ev), (''field'', field), (''value'', v)], ts_inner := t,
         ts_parts := ts_parts st @ [FactTagPart t ev field v]\<rparr>"
  using assms opens_no_tag_start [of t] opener_attributes [of ev field v]
  by (auto simp: tag_step_def tag_words close_tag_def dict_of_def claim_like_def)

lemma read_written:
  assumes "parts_ok (plain_text acc @ ps)" and "ts_depth st = 0" and "\<not> ends_in_text (ts_parts st)"
  shows "finish_tags (foldl tag_step st (split_tags acc (written ps))) = ts_parts st @ plain_text acc @ ps"
  using assms
proof (induction ps arbitrary: acc st)
  case Nil
  then have "opens_no_tag acc" by (cases "acc = []") (auto simp: plain_text_def)
  then show ?case using Nil by (simp add: written_simps text_step finish_tags_def)
next
  case (Cons p ps)
  show ?case
  proof (cases p)
    case (PlainTextPart t)
    then have acc: "acc = []" using Cons.prems(1) by (auto simp: plain_text_def split: if_splits)
    have ok: "opens_no_tag t" "t \<noteq> []" "written ps = [] \<or> hd (written ps) = CHR ''<''" "parts_ok (plain_text t @ ps)"
      using Cons.prems(1) written_start [of ps] by (auto simp: PlainTextPart acc plain_text_def)
    show ?thesis
      using Cons.IH [OF ok(4) Cons.prems(2,3)] split_text [OF ok(1,3), of "[]"] ok(2)
      by (simp add: PlainTextPart written_simps acc plain_text_def)
  next
    case (FactTagPart t ev field v)
    have acc: "opens_no_tag acc" and fact: "parts_ok (FactTagPart t ev field v # ps)" and rest: "parts_ok (plain_text [] @ ps)"
      using Cons.prems(1) by (auto simp: FactTagPart plain_text_def split: if_splits)
    let ?st = "tag_step st acc"
    have st: "?st = st\<lparr>ts_parts := ts_parts st @ plain_text acc\<rparr>" using text_step [OF acc Cons.prems(2,3)] .
    let ?st' = "foldl tag_step ?st [claim_opener ev field v, t, claim_closer]"
    have st': "ts_depth ?st' = 0" "ts_parts ?st' = ts_parts st @ plain_text acc @ [FactTagPart t ev field v]"
      using fact_steps [OF fact, of ?st] Cons.prems(2) by (simp_all add: st)
    have "\<not> ends_in_text (ts_parts ?st')" unfolding st' by (simp add: ends_in_text_def)
    then have "finish_tags (foldl tag_step ?st' (split_tags [] (written ps))) = ts_parts ?st' @ plain_text [] @ ps"
      using Cons.IH [OF rest st'(1)] by blast
    then show ?thesis using st'(2) by (simp add: FactTagPart split_fact [OF fact] plain_text_def)
  qed
qed

text \<open>
  C31. Claim tags are read as they are written: take any sequence of parts, plain texts and record facts, in which
  no two texts are neighbours, no text is empty or opens a tag, each fact has a handle, and attribute values hold no
  quote, angle bracket or line break. Writing it out, each fact as a claim tag with its three attributes around
  its text, and parsing the result gives back exactly these parts: every character of prose and every attribute.
\<close>

theorem written_claims_are_read_back:
  assumes "parts_ok parts"
  shows "parse_claim_tags (written parts) = parts"
  using read_written [of "[]" parts "\<lparr>ts_parts = [], ts_depth = 0, ts_nested = False, ts_attributes = [], ts_inner = []\<rparr>"] assms
  by (simp add: parse_claim_tags_def repair_written plain_text_def ends_in_text_def)

definition demo_parts_read :: "tag_part list" where
  "demo_parts_read = [PlainTextPart ''Ana ( < 3) '', FactTagPart ''is grade 2'' ''w1'' ''grade'' ''G2'', PlainTextPart '' now'',
     FactTagPart [] ''d1'' ''amount'' ''7'']"

theorem written_claims_are_read_back_witness:
  "parse_claim_tags ''Ana ( < 3) <claim ev='w1' field='grade' value='G2'>is grade 2</claim> now<claim ev='d1' field='amount' value='7'></claim>''
     = demo_parts_read"
proof -
  have "parts_ok demo_parts_read" by code_simp
  moreover have "written demo_parts_read
    = ''Ana ( < 3) <claim ev='w1' field='grade' value='G2'>is grade 2</claim> now<claim ev='d1' field='amount' value='7'></claim>''"
    by code_simp
  ultimately show ?thesis using written_claims_are_read_back [of demo_parts_read] by simp
qed

text \<open>A piece of prose that only starts like a tag is taken for one, since the loop tests the first six
  characters of a token and not whether the expression matched: the prose is lost.\<close>

lemma claim_lookalike_is_lost: "parse_claim_tags ''<claimed> by Ana'' = []"
  by code_simp

end
