(* ===== verification/Resolution.thy ===== *)
theory Resolution
  imports Projection
begin

text \<open>
  Exact resolution of a record by its evidence group (\<^verbatim>\<open>application/grounding/resolvers.py\<close>,
  \<^verbatim>\<open>evidence_groups.py\<close>), the label a planner sees for it, and the resolution of the candidates of a
  clarification (\<^verbatim>\<open>application/clarification/resolve.py\<close>).
\<close>

section \<open>Groups and resolvers\<close>

definition evidence_group_by_scenario_fact_group :: "(string \<times> evidence_group) list" where
  "evidence_group_by_scenario_fact_group =
     [(''tasks'', WorkAreasAndTasks), (''workers'', Workers), (''demand'', Demand), (''assignments'', BaselineAssignments),
      (''locks'', Locks), (''constraints'', ConstraintsAndObjectives)]"

text \<open>\<open>Inl\<close> is the \<open>KeyError\<close> of an unknown group; the overview is no evidence.\<close>

definition evidence_group_for_scenario_fact_group :: "string \<Rightarrow> string + evidence_group option" where
  "evidence_group_for_scenario_fact_group name =
     (if name = ''overview'' then Inr None
      else (case map_of evidence_group_by_scenario_fact_group name of None \<Rightarrow> Inl name | Some g \<Rightarrow> Inr (Some g)))"

definition scenario_fact_group_for_evidence_group :: "evidence_group \<Rightarrow> string option" where
  "scenario_fact_group_for_evidence_group g =
     map_option fst (find (\<lambda>p. snd p = g) evidence_group_by_scenario_fact_group)"

definition resolver_by_scenario_fact_group :: "(string \<times> string) list" where
  "resolver_by_scenario_fact_group =
     [(''tasks'', ''resolve_task''), (''workers'', ''resolve_worker''), (''demand'', ''resolve_demand_interval''),
      (''assignments'', ''resolve_assignment''), (''locks'', ''resolve_lock''), (''constraints'', ''resolve_constraint'')]"

definition resolver_name_for_evidence_group :: "evidence_group \<Rightarrow> string option" where
  "resolver_name_for_evidence_group g =
     (case scenario_fact_group_for_evidence_group g of
        None \<Rightarrow> None | Some name \<Rightarrow> map_of resolver_by_scenario_fact_group name)"

datatype projected_item =
    TaskItem task_v1
  | WorkerItem worker_v1
  | DemandItem demand_interval_v1
  | AssignmentItem assignment_v1
  | LockItem lock_v1
  | ConstraintItem constraint_v1

definition item_record_id :: "projected_item \<Rightarrow> string" where
  "item_record_id item = (case item of
      TaskItem x \<Rightarrow> tk_record_id x | WorkerItem x \<Rightarrow> wk_record_id x | DemandItem x \<Rightarrow> di_record_id x
    | AssignmentItem x \<Rightarrow> as_record_id x | LockItem x \<Rightarrow> lk_record_id x | ConstraintItem x \<Rightarrow> cn_record_id x)"

definition resolution_as :: "('a \<Rightarrow> projected_item) \<Rightarrow> 'a resolution_v1 option \<Rightarrow> projected_item resolution_v1 option" where
  "resolution_as f r = map_option (\<lambda>v. \<lparr>rl_outcome = rl_outcome v, rl_scenario_id = rl_scenario_id v,
     rl_current_scenario_version_id = rl_current_scenario_version_id v, rl_item = map_option f (rl_item v)\<rparr>) r"

text \<open>\<open>getattr(reader, name)(...)\<close> on the projection reader.\<close>

definition call_resolver ::
  "string \<Rightarrow> uuid \<Rightarrow> 'x governed_store_scheme \<Rightarrow> uuid \<Rightarrow> uuid \<Rightarrow> string \<Rightarrow> projected_item resolution_v1 option" where
  "call_resolver name app_site s scenario_id version_id record_id =
     (if name = ''resolve_task'' then resolution_as TaskItem (resolve_task app_site s scenario_id version_id record_id)
      else if name = ''resolve_worker'' then resolution_as WorkerItem (resolve_worker app_site s scenario_id version_id record_id)
      else if name = ''resolve_demand_interval''
      then resolution_as DemandItem (resolve_demand_interval app_site s scenario_id version_id record_id)
      else if name = ''resolve_assignment'' then resolution_as AssignmentItem (resolve_assignment app_site s scenario_id version_id record_id)
      else if name = ''resolve_lock'' then resolution_as LockItem (resolve_lock app_site s scenario_id version_id record_id)
      else resolution_as ConstraintItem (resolve_constraint_record app_site s scenario_id version_id record_id))"

definition resolve_record ::
  "evidence_group \<Rightarrow> uuid \<Rightarrow> 'x governed_store_scheme \<Rightarrow> uuid \<Rightarrow> uuid \<Rightarrow> string \<Rightarrow> projected_item resolution_v1 option" where
  "resolve_record g = call_resolver (the (resolver_name_for_evidence_group g))"

text \<open>The arrow of an assignment's label is written as its UTF-8 bytes.\<close>

definition planner_label :: "projected_item \<Rightarrow> string" where
  "planner_label item = (case item of
      TaskItem x \<Rightarrow> tk_name x @ '' ('' @ tk_task_id x @ '')''
    | WorkerItem x \<Rightarrow> wk_name x @ '' ('' @ wk_contact_id x @ '')''
    | DemandItem x \<Rightarrow> family_name (di_family x) @ '' '' @ di_task_id x @ '' ('' @ di_record_id x @ '')''
    | AssignmentItem x \<Rightarrow> as_worker_id x @ '' '' @ map char_of [226, 134, 146 :: nat] @ '' '' @ as_task_id x @ '' ('' @ as_record_id x @ '')''
    | LockItem x \<Rightarrow> lk_target_type x @ '' '' @ lk_target_ref x @ '' ('' @ lk_record_id x @ '')''
    | ConstraintItem x \<Rightarrow> cn_constraint_type x @ '' ('' @ cn_record_id x @ '')'')"

text \<open>The check both resolvers of untrusted identifiers make of a resolution.\<close>

definition accepted_item :: "uuid \<Rightarrow> string \<Rightarrow> projected_item resolution_v1 option \<Rightarrow> projected_item option" where
  "accepted_item version_id record_id resolution = (case resolution of
      None \<Rightarrow> None
    | Some r \<Rightarrow>
        (case rl_item r of
           None \<Rightarrow> None
         | Some item \<Rightarrow>
             if rl_outcome r \<noteq> Resolved \<or> rl_current_scenario_version_id r \<noteq> version_id \<or> item_record_id item \<noteq> record_id
             then None else Some item))"

section \<open>Clarifications\<close>

record candidate_proposal_v1 =
  cd_group :: evidence_group
  cd_record_id :: string

record clarification_v1 =
  cf_question :: string
  cf_candidates :: "candidate_proposal_v1 list"

definition max_candidates :: nat where
  "max_candidates = 10"

record 's agent_deps =
  dp_app_site :: uuid
  dp_store :: 's
  dp_scenario_id :: uuid
  dp_scenario_version_id :: uuid

fun resolve_candidates ::
  "'x governed_store_scheme agent_deps \<Rightarrow> (evidence_group \<times> string) list \<Rightarrow> candidate_proposal_v1 list
   \<Rightarrow> entity_candidate_v1 list \<times> int" where
  "resolve_candidates deps seen [] = ([], 0)"
| "resolve_candidates deps seen (p # ps) =
     (let locator = (cd_group p, cd_record_id p) in
      if locator \<in> set seen
      then (let (candidates, dropped) = resolve_candidates deps seen ps in (candidates, dropped + 1))
      else (let (candidates, dropped) = resolve_candidates deps (locator # seen) ps in
            case accepted_item (dp_scenario_version_id deps) (cd_record_id p)
                   (resolve_record (cd_group p) (dp_app_site deps) (dp_store deps) (dp_scenario_id deps)
                      (dp_scenario_version_id deps) (cd_record_id p)) of
              None \<Rightarrow> (candidates, dropped + 1)
            | Some item \<Rightarrow>
                (\<lparr>ec_group = cd_group p, ec_record_id = cd_record_id p, ec_label = planner_label item,
                  ec_scenario_version_id = Some (dp_scenario_version_id deps)\<rparr> # candidates, dropped)))"

definition resolve_clarification ::
  "clarification_v1 \<Rightarrow> 'x governed_store_scheme agent_deps \<Rightarrow> resolved_clarification_v1" where
  "resolve_clarification clarification deps =
     (let (candidates, dropped) = resolve_candidates deps [] (take max_candidates (cf_candidates clarification)) in
      \<lparr>rc_question = cf_question clarification, rc_candidates = candidates,
       rc_scenario_version_id = Some (dp_scenario_version_id deps),
       rc_dropped_candidate_count = dropped + max 0 (int (length (cf_candidates clarification)) - int max_candidates)\<rparr>)"

section \<open>Facts about resolution\<close>

lemma resolver_names:
  "resolver_name_for_evidence_group WorkAreasAndTasks = Some ''resolve_task''"
  "resolver_name_for_evidence_group Workers = Some ''resolve_worker''"
  "resolver_name_for_evidence_group Demand = Some ''resolve_demand_interval''"
  "resolver_name_for_evidence_group BaselineAssignments = Some ''resolve_assignment''"
  "resolver_name_for_evidence_group Locks = Some ''resolve_lock''"
  "resolver_name_for_evidence_group ConstraintsAndObjectives = Some ''resolve_constraint''"
  by (simp_all add: resolver_name_for_evidence_group_def scenario_fact_group_for_evidence_group_def
      evidence_group_by_scenario_fact_group_def resolver_by_scenario_fact_group_def)

text \<open>The records of a group of the projection, as items.\<close>

definition group_items :: "evidence_group \<Rightarrow> scenario_version_row \<Rightarrow> 'x governed_store_scheme \<Rightarrow> projected_item list" where
  "group_items g row s = (case g of
      WorkAreasAndTasks \<Rightarrow> map TaskItem (sg_tasks (sw_groups row))
    | Workers \<Rightarrow> map WorkerItem (sg_workers (sw_groups row))
    | Demand \<Rightarrow> map DemandItem (sg_demand (sw_groups row))
    | BaselineAssignments \<Rightarrow> map AssignmentItem (baseline_assignments row s)
    | Locks \<Rightarrow> []
    | ConstraintsAndObjectives \<Rightarrow> map ConstraintItem (sg_constraints (sw_groups row)))"

lemma find_map: "find P (map f xs) = map_option f (find (P \<circ> f) xs)"
  by (induction xs) auto

lemma resolve_record_eq:
  "resolve_record g site s sid version rid =
     resolution_of item_record_id (projection_row site sid s) (\<lambda>r. group_items g r s) version rid"
  by (cases g; cases "projection_row site sid s")
    (auto simp: resolve_record_def resolver_names call_resolver_def resolution_as_def resolve_task_def resolve_worker_def
      resolve_demand_interval_def resolve_assignment_def resolve_lock_def resolve_constraint_record_def resolution_of_def
      resolve_items_def group_items_def find_map item_record_id_def comp_def split: option.splits)

text \<open>An accepted item is a record of the group in the pinned version, which is the latest one.\<close>

lemma accepted_item_SomeD:
  assumes "accepted_item version rid (resolve_record g site s sid version rid) = Some item"
  shows "\<exists>row. projection_row site sid s = Some row \<and> sw_scenario_version_id row = version
    \<and> item \<in> set (group_items g row s) \<and> item_record_id item = rid"
proof -
  obtain row where row: "projection_row site sid s = Some row"
    using assms by (auto simp: accepted_item_def resolve_record_eq resolution_of_def split: option.splits)
  show ?thesis
    using assms
    by (auto simp: accepted_item_def resolve_record_eq resolution_of_def resolve_items_def row find_Some_iff Let_def
        split: option.splits if_splits)
qed

text \<open>A record of a group exists for a turn when the latest projection is the pinned version and has it.\<close>

definition record_exists :: "'x governed_store_scheme agent_deps \<Rightarrow> evidence_group \<Rightarrow> string \<Rightarrow> bool" where
  "record_exists deps g rid \<longleftrightarrow> (\<exists>row. projection_row (dp_app_site deps) (dp_scenario_id deps) (dp_store deps) = Some row
     \<and> sw_scenario_version_id row = dp_scenario_version_id deps
     \<and> (\<exists>item \<in> set (group_items g row (dp_store deps)). item_record_id item = rid))"

abbreviation looked_up :: "'x governed_store_scheme agent_deps \<Rightarrow> evidence_group \<Rightarrow> string \<Rightarrow> projected_item option" where
  "looked_up deps g rid \<equiv> accepted_item (dp_scenario_version_id deps) rid
     (resolve_record g (dp_app_site deps) (dp_store deps) (dp_scenario_id deps) (dp_scenario_version_id deps) rid)"

lemma looked_up_Some:
  assumes "record_exists deps g rid"
  shows "looked_up deps g rid \<noteq> None"
proof -
  obtain row where row: "projection_row (dp_app_site deps) (dp_scenario_id deps) (dp_store deps) = Some row"
    "sw_scenario_version_id row = dp_scenario_version_id deps"
    "\<exists>item \<in> set (group_items g row (dp_store deps)). item_record_id item = rid"
    using assms by (auto simp: record_exists_def)
  obtain item where item: "find (\<lambda>x. item_record_id x = rid) (group_items g row (dp_store deps)) = Some item"
    using row(3) by (metis (mono_tags, lifting) find_None_iff not_None_eq)
  then have "item_record_id item = rid" by (auto simp: find_Some_iff)
  then show ?thesis
    using row(1,2) item by (simp add: accepted_item_def resolve_record_eq resolution_of_def resolve_items_def)
qed

lemma looked_up_SomeD: "looked_up deps g rid = Some item \<Longrightarrow> record_exists deps g rid"
  by (auto simp: record_exists_def dest!: accepted_item_SomeD)

lemma resolve_candidates_split:
  "resolve_candidates deps seen ps = (cs, d) \<Longrightarrow> int (length cs) + d = int (length ps) \<and> 0 \<le> d
     \<and> distinct (map (\<lambda>c. (ec_group c, ec_record_id c)) cs)
     \<and> (\<forall>c \<in> set cs. ec_scenario_version_id c = Some (dp_scenario_version_id deps)
          \<and> (\<exists>item. looked_up deps (ec_group c) (ec_record_id c) = Some item \<and> ec_label c = planner_label item))
     \<and> set (map (\<lambda>c. (ec_group c, ec_record_id c)) cs)
         = {l \<in> set (map (\<lambda>p. (cd_group p, cd_record_id p)) ps) - set seen. record_exists deps (fst l) (snd l)}"
proof (induction ps arbitrary: seen cs d)
  case (Cons p ps)
  let ?l = "(cd_group p, cd_record_id p)"
  let ?seen = "if ?l \<in> set seen then seen else ?l # seen"
  obtain cs' d' where rec: "resolve_candidates deps ?seen ps = (cs', d')" by fastforce
  note ih = Cons.IH [OF rec]
  show ?case
  proof (cases "?l \<in> set seen \<or> looked_up deps (cd_group p) (cd_record_id p) = None")
    case True
    then have "?l \<in> set seen \<or> \<not> record_exists deps (cd_group p) (cd_record_id p)" using looked_up_Some by metis
    moreover have "cs = cs'" "d = d' + 1" using True Cons.prems rec by (auto simp: Let_def split: if_splits)
    ultimately show ?thesis using ih by (auto simp: image_iff)
  next
    case False
    then obtain item where item: "looked_up deps (cd_group p) (cd_record_id p) = Some item" by blast
    have cs: "cs = \<lparr>ec_group = cd_group p, ec_record_id = cd_record_id p, ec_label = planner_label item,
        ec_scenario_version_id = Some (dp_scenario_version_id deps)\<rparr> # cs'" "d = d'"
      using False item Cons.prems rec by (auto simp: Let_def)
    have "record_exists deps (cd_group p) (cd_record_id p)" using looked_up_SomeD [OF item] .
    then have "insert ?l {l \<in> set (map (\<lambda>p. (cd_group p, cd_record_id p)) ps) - set ?seen. record_exists deps (fst l) (snd l)}
      = {l \<in> set (map (\<lambda>p. (cd_group p, cd_record_id p)) (p # ps)) - set seen. record_exists deps (fst l) (snd l)}"
      using False by auto
    moreover have "?l \<notin> set (map (\<lambda>c. (ec_group c, ec_record_id c)) cs')" using ih False by simp
    ultimately show ?thesis using ih item unfolding cs by simp
  qed
qed simp

text \<open>
  C30. A clarification accounts for every candidate the model proposed: of the first ten proposals it shows
  those whose record exists in the pinned version, which is then the latest, each once, and no others;
  each carries the label of such a record and the pinned version; all other proposals, those after the
  first ten among them, are counted as dropped.
\<close>

theorem clarification_accounts_for_candidates:
  "int (length (rc_candidates (resolve_clarification c deps))) + rc_dropped_candidate_count (resolve_clarification c deps)
     = int (length (cf_candidates c))
   \<and> distinct (map (\<lambda>x. (ec_group x, ec_record_id x)) (rc_candidates (resolve_clarification c deps)))
   \<and> set (map (\<lambda>x. (ec_group x, ec_record_id x)) (rc_candidates (resolve_clarification c deps)))
       = {(cd_group p, cd_record_id p) | p. p \<in> set (take 10 (cf_candidates c)) \<and> record_exists deps (cd_group p) (cd_record_id p)}
   \<and> (\<forall>x \<in> set (rc_candidates (resolve_clarification c deps)).
        ec_scenario_version_id x = Some (dp_scenario_version_id deps)
        \<and> (\<exists>row item. projection_row (dp_app_site deps) (dp_scenario_id deps) (dp_store deps) = Some row
             \<and> sw_scenario_version_id row = dp_scenario_version_id deps \<and> item \<in> set (group_items (ec_group x) row (dp_store deps))
             \<and> item_record_id item = ec_record_id x \<and> ec_label x = planner_label item))"
proof -
  obtain cs d where rec: "resolve_candidates deps [] (take max_candidates (cf_candidates c)) = (cs, d)" by fastforce
  note split = resolve_candidates_split [OF rec]
  have found: "\<exists>row item. projection_row (dp_app_site deps) (dp_scenario_id deps) (dp_store deps) = Some row
      \<and> sw_scenario_version_id row = dp_scenario_version_id deps \<and> item \<in> set (group_items (ec_group x) row (dp_store deps))
      \<and> item_record_id item = ec_record_id x \<and> ec_label x = planner_label item" if "x \<in> set cs" for x
  proof -
    obtain item where item: "looked_up deps (ec_group x) (ec_record_id x) = Some item" "ec_label x = planner_label item"
      using split \<open>x \<in> set cs\<close> by blast
    show ?thesis using accepted_item_SomeD [OF item(1)] item(2) by blast
  qed
  have count: "int (length cs) + d = int (min (length (cf_candidates c)) max_candidates)" using split by simp
  have total: "int (length cs) + (d + max 0 (int (length (cf_candidates c)) - int max_candidates)) = int (length (cf_candidates c))"
    using count by linarith
  have "set (map (\<lambda>x. (ec_group x, ec_record_id x)) cs)
      = {(cd_group p, cd_record_id p) | p. p \<in> set (take 10 (cf_candidates c)) \<and> record_exists deps (cd_group p) (cd_record_id p)}"
    using split by (auto simp: max_candidates_def)
  then show ?thesis using split found total by (simp add: resolve_clarification_def rec)
qed

definition demo_deps :: "governed_store agent_deps" where
  "demo_deps = \<lparr>dp_app_site = 7, dp_store = scenario_site, dp_scenario_id = 3, dp_scenario_version_id = 10\<rparr>"

definition demo_clarification :: clarification_v1 where
  "demo_clarification = \<lparr>cf_question = ''Which one?'', cf_candidates =
     [\<lparr>cd_group = Workers, cd_record_id = ''w1''\<rparr>, \<lparr>cd_group = Workers, cd_record_id = ''w1''\<rparr>, \<lparr>cd_group = Locks, cd_record_id = ''x''\<rparr>]\<rparr>"

lemma demo_clarification_shown:
  "rc_candidates (resolve_clarification demo_clarification demo_deps)
     = [\<lparr>ec_group = Workers, ec_record_id = ''w1'', ec_label = ''w1 (w1)'', ec_scenario_version_id = Some 10\<rparr>]"
  by code_simp

theorem clarification_accounts_for_candidates_witness:
  "rc_dropped_candidate_count (resolve_clarification demo_clarification demo_deps) = 2
   \<and> (\<exists>row item. projection_row 7 3 scenario_site = Some row \<and> item \<in> set (group_items Workers row scenario_site)
        \<and> item_record_id item = ''w1'')"
  using clarification_accounts_for_candidates [of demo_clarification demo_deps]
  unfolding demo_clarification_shown by (auto simp: demo_clarification_def demo_deps_def)

end
