(* ===== verification/Grounding.thy ===== *)
theory Grounding
  imports Calculators Answer_Text Resolution "HOL-Library.AList"
begin

text \<open>
  Grounding of model answers: the turn's registry of citation handles
  (\<^verbatim>\<open>application/grounding/evidence_registry.py\<close>) and the fail-closed gate that turns placeholders and fact
  tags into claims and facts built from trusted results only (\<^verbatim>\<open>application/grounding/gate.py\<close>).
  \<open>str.casefold\<close> and \<open>float(text)\<close> are parameters. A row read by a tool is its JSON object.
\<close>

section \<open>The evidence registry\<close>

definition record_handle_prefix :: "evidence_group \<Rightarrow> string" where
  "record_handle_prefix g = (case g of
      Workers \<Rightarrow> ''w'' | WorkAreasAndTasks \<Rightarrow> ''t'' | Demand \<Rightarrow> ''d'' | BaselineAssignments \<Rightarrow> ''a''
    | Locks \<Rightarrow> ''l'' | ConstraintsAndObjectives \<Rightarrow> ''c'')"

record evidence_registry =
  rg_handles :: "(string \<times> string) list"
  rg_result_ids :: "(string \<times> string) list"
  rg_record_handles :: "((evidence_group \<times> string) \<times> string) list"
  rg_records :: "(string \<times> evidence_group \<times> string) list"
  rg_record_counts :: "(string \<times> nat) list"

definition new_registry :: evidence_registry where
  "new_registry = \<lparr>rg_handles = [], rg_result_ids = [], rg_record_handles = [], rg_records = [], rg_record_counts = []\<rparr>"

definition handle_for :: "string \<Rightarrow> evidence_registry \<Rightarrow> string \<times> evidence_registry" where
  "handle_for result_id reg = (case map_of (rg_handles reg) result_id of
      Some handle \<Rightarrow> (handle, reg)
    | None \<Rightarrow>
        (let handle = ''r'' @ str_nat (length (rg_handles reg) + 1) in
         (handle, reg\<lparr>rg_handles := AList.update result_id handle (rg_handles reg),
                      rg_result_ids := AList.update handle result_id (rg_result_ids reg)\<rparr>)))"

definition handle_for_record :: "evidence_group \<Rightarrow> string \<Rightarrow> evidence_registry \<Rightarrow> string \<times> evidence_registry" where
  "handle_for_record g record_id reg =
     (let prefix = record_handle_prefix g; key = (g, record_id) in
      case map_of (rg_record_handles reg) key of
        Some handle \<Rightarrow> (handle, reg)
      | None \<Rightarrow>
          (let count = get_or 0 (map_of (rg_record_counts reg) prefix) + 1; handle = prefix @ str_nat count in
           (handle, reg\<lparr>rg_record_counts := AList.update prefix count (rg_record_counts reg),
                        rg_record_handles := AList.update key handle (rg_record_handles reg),
                        rg_records := AList.update handle key (rg_records reg)\<rparr>)))"

definition record_for :: "string \<Rightarrow> evidence_registry \<Rightarrow> (evidence_group \<times> string) option" where
  "record_for handle reg = map_of (rg_records reg) handle"

definition result_id_for :: "string \<Rightarrow> evidence_registry \<Rightarrow> string option" where
  "result_id_for handle reg = map_of (rg_result_ids reg) handle"

definition handle_of :: "string \<Rightarrow> evidence_registry \<Rightarrow> string option" where
  "handle_of result_id reg = map_of (rg_handles reg) result_id"

record trusted_result_v1 = calculated_metric_v1 +
  tr_result_id :: string

text \<open>A \<open>dict\<close> filled in the order of the results: the result under its identifier and, when one was
  minted, under its handle.\<close>

definition trusted_results_by_citation ::
  "trusted_result_v1 list \<Rightarrow> evidence_registry option \<Rightarrow> string \<Rightarrow> trusted_result_v1 option" where
  "trusted_results_by_citation results registry =
     dict_of (concat (map (\<lambda>r. (tr_result_id r, r) #
        (case registry of
           None \<Rightarrow> []
         | Some reg \<Rightarrow> (case handle_of (tr_result_id r) reg of None \<Rightarrow> [] | Some h \<Rightarrow> [(h, r)]))) results))"

record trusted_record_v1 =
  tc_scenario_group :: string
  tc_record :: "(string \<times> json) list"
  tc_scenario_version_id :: string

record inspect_result_v1 =
  ir_group :: string
  ir_items :: "(string \<times> json) list list"
  ir_scenario_version_id :: uuid

definition trusted_records_by_handle :: "inspect_result_v1 list \<Rightarrow> string \<Rightarrow> trusted_record_v1 option" where
  "trusted_records_by_handle results =
     dict_of (concat (map (\<lambda>r. concat (map (\<lambda>item. case map_of item ''ev'' of
          Some (JString ev) \<Rightarrow> [(ev, \<lparr>tc_scenario_group = ir_group r, tc_record = item,
                                     tc_scenario_version_id = str_uuid (ir_scenario_version_id r)\<rparr>)]
        | _ \<Rightarrow> []) (ir_items r))) results))"

section \<open>The gate\<close>

definition failed_claim :: "string \<Rightarrow> grounding_failure \<Rightarrow> trusted_result_v1 option \<Rightarrow> grounded_claim_v1" where
  "failed_claim handle failure result = (case result of
      None \<Rightarrow>
        \<lparr>gc_metric = RequiredHeadcountMinutes,
         gc_arguments = \<lparr>ga_task_id = None, ga_family = None, ga_start_minute = None, ga_end_minute = None\<rparr>,
         gc_result_id = handle, gc_value = None, gc_unit = None, gc_evidence_refs = [], gc_verdict = Failed,
         gc_failure = Some failure\<rparr>
    | Some r \<Rightarrow>
        \<lparr>gc_metric = cm_metric r, gc_arguments = cm_arguments r, gc_result_id = tr_result_id r, gc_value = None,
         gc_unit = None, gc_evidence_refs = [], gc_verdict = Failed, gc_failure = Some failure\<rparr>)"

definition supported_claim :: "trusted_result_v1 \<Rightarrow> grounded_claim_v1" where
  "supported_claim r =
     \<lparr>gc_metric = cm_metric r, gc_arguments = cm_arguments r, gc_result_id = tr_result_id r, gc_value = Some (cm_value r),
      gc_unit = Some (cm_unit r), gc_evidence_refs = cm_evidence_refs r, gc_verdict = Supported, gc_failure = None\<rparr>"

definition locator_failure :: "'x governed_store_scheme agent_deps \<Rightarrow> evidence_ref_v1 \<Rightarrow> grounding_failure option" where
  "locator_failure deps reference =
     (if er_scenario_version_id reference \<noteq> dp_scenario_version_id deps then Some VersionMismatch
      else (case resolve_record (er_group reference) (dp_app_site deps) (dp_store deps) (dp_scenario_id deps)
                   (er_scenario_version_id reference) (er_record_id reference) of
              None \<Rightarrow> Some UnauthorizedEvidence
            | Some resolution \<Rightarrow>
                (if rl_outcome resolution = VersionMismatched then Some VersionMismatch
                 else (case rl_item resolution of
                         None \<Rightarrow> Some CalculationFailed
                       | Some item \<Rightarrow>
                           if rl_outcome resolution \<noteq> Resolved then Some CalculationFailed
                           else if rl_current_scenario_version_id resolution \<noteq> er_scenario_version_id reference
                                   \<or> item_record_id item \<noteq> er_record_id reference then Some VersionMismatch
                           else None))))"

fun first_failure :: "('a \<Rightarrow> 'b option) \<Rightarrow> 'a list \<Rightarrow> 'b option" where
  "first_failure f [] = None"
| "first_failure f (x # xs) = (case f x of Some e \<Rightarrow> Some e | None \<Rightarrow> first_failure f xs)"

definition ground_claim ::
  "string \<Rightarrow> 'x governed_store_scheme agent_deps \<Rightarrow> (string \<Rightarrow> trusted_result_v1 option) \<Rightarrow> grounded_claim_v1" where
  "ground_claim handle deps results = (case results handle of
      None \<Rightarrow> failed_claim handle MissingEvidence None
    | Some r \<Rightarrow>
        if cm_scenario_version_id r \<noteq> dp_scenario_version_id deps then failed_claim handle VersionMismatch (Some r)
        else if length (cm_evidence_refs r) \<noteq> cm_consumed_row_count r then failed_claim handle CalculationFailed (Some r)
        else if cm_evidence_refs r = []
        then (if cm_value r \<noteq> 0 then failed_claim handle CalculationFailed (Some r) else supported_claim r)
        else (case first_failure (locator_failure deps) (cm_evidence_refs r) of
                Some failure \<Rightarrow> failed_claim handle failure (Some r)
              | None \<Rightarrow> supported_claim r))"

record text_functions =
  tf_casefold :: "string \<Rightarrow> string"
  tf_float :: "string \<Rightarrow> float_value option"

fun value_matches :: "text_functions \<Rightarrow> json \<Rightarrow> string \<Rightarrow> bool" where
  "value_matches tf JNull claimed = (tf_casefold tf (strip_chars is_space claimed) \<in> {[], ''none'', ''null''})"
| "value_matches tf (JBool b) claimed =
     (tf_casefold tf (strip_chars is_space claimed) = tf_casefold tf (if b then ''True'' else ''False''))"
| "value_matches tf (JInt i) claimed = (tf_float tf claimed = Some (of_int i))"
| "value_matches tf (JFloat v) claimed = (tf_float tf claimed = Some v)"
| "value_matches tf (JString s) claimed = (strip_chars is_space s = strip_chars is_space claimed)"
| "value_matches tf (JObject kvs) claimed = (\<exists>kv \<in> set kvs. value_matches tf (snd kv) claimed)"
| "value_matches tf (JList xs) claimed = (\<exists>x \<in> set xs. value_matches tf x claimed)"

record fact_tag =
  ft_text :: string
  ft_ev :: string
  ft_field :: string
  ft_value :: string

definition fact_of :: "fact_tag \<Rightarrow> fact_failure option \<Rightarrow> evidence_ref_v1 list \<Rightarrow> grounded_fact_v1" where
  "fact_of tag failure refs =
     \<lparr>gf_text = ft_text tag, gf_field = ft_field tag, gf_value = ft_value tag, gf_evidence_refs = refs,
      gf_verdict = (if failure = None then Supported else Failed), gf_failure = failure, gf_support_probability = None,
      gf_wording_flagged = False\<rparr>"

definition fact_failure_of :: "grounding_failure \<Rightarrow> fact_failure" where
  "fact_failure_of f = (case f of
      VersionMismatch \<Rightarrow> FactVersionMismatch | UnauthorizedEvidence \<Rightarrow> FactUnauthorizedEvidence | _ \<Rightarrow> FactMissingEvidence)"

definition fact_reference :: "scenario_overview_v1 \<Rightarrow> evidence_group \<Rightarrow> string \<Rightarrow> string \<Rightarrow> evidence_ref_v1" where
  "fact_reference overview evidence_group record_id field = evidence_of overview evidence_group record_id field None None"

text \<open>\<open>Inl\<close> is the \<open>KeyError\<close> of a row whose group the projection does not have.\<close>

definition ground_fact ::
  "text_functions \<Rightarrow> fact_tag \<Rightarrow> 'x governed_store_scheme agent_deps \<Rightarrow> (string \<Rightarrow> trusted_record_v1 option)
   \<Rightarrow> string + grounded_fact_v1" where
  "ground_fact tf tag deps records = (case records (ft_ev tag) of
      None \<Rightarrow> Inr (fact_of tag (Some FactMissingEvidence) [])
    | Some trusted \<Rightarrow>
        if tc_scenario_version_id trusted \<noteq> str_uuid (dp_scenario_version_id deps) then Inr (fact_of tag (Some FactVersionMismatch) [])
        else (case (if ft_field tag = ''ev'' then None else map_of (tc_record trusted) (ft_field tag)) of
                None \<Rightarrow> Inr (fact_of tag (Some FactUnknownField) [])
              | Some recorded \<Rightarrow>
                  if \<not> value_matches tf recorded (ft_value tag) then Inr (fact_of tag (Some FactValueMismatch) [])
                  else (case evidence_group_for_scenario_fact_group (tc_scenario_group trusted) of
                          Inl name \<Rightarrow> Inl name
                        | Inr g \<Rightarrow>
                            (case (g, get_overview (dp_app_site deps) (dp_scenario_id deps) (dp_store deps),
                                   map_of (tc_record trusted) ''record_id'') of
                               (Some evidence_group, Some overview, Some (JString record_id)) \<Rightarrow>
                                 (let reference = fact_reference overview evidence_group record_id (ft_field tag) in
                                  case locator_failure deps reference of
                                    Some failure \<Rightarrow> Inr (fact_of tag (Some (fact_failure_of failure)) [])
                                  | None \<Rightarrow> Inr (fact_of tag None [reference]))
                             | _ \<Rightarrow> Inr (fact_of tag (Some FactMissingEvidence) [])))))"

definition ground_part ::
  "text_functions \<Rightarrow> 'x governed_store_scheme agent_deps \<Rightarrow> (string \<Rightarrow> trusted_result_v1 option)
   \<Rightarrow> (string \<Rightarrow> trusted_record_v1 option) \<Rightarrow> tag_part \<Rightarrow> string + grounded_segment list" where
  "ground_part tf deps results records part = (case part of
      FactTagPart text ev field value \<Rightarrow>
        (case ground_fact tf \<lparr>ft_text = text, ft_ev = ev, ft_field = field, ft_value = value\<rparr> deps records of
           Inl e \<Rightarrow> Inl e | Inr checked \<Rightarrow> Inr [FactSegment checked])
    | PlainTextPart text \<Rightarrow>
        Inr (map (\<lambda>p. case p of PlaceholderPart handle \<Rightarrow> ClaimSegment (ground_claim handle deps results)
                              | ProsePart t \<Rightarrow> ProseSegment t) (parse_answer_text text)))"

fun ground_parts :: "('a \<Rightarrow> 'e + 'b list) \<Rightarrow> 'a list \<Rightarrow> 'e + 'b list" where
  "ground_parts f [] = Inr []"
| "ground_parts f (x # xs) = (case f x of
      Inl e \<Rightarrow> Inl e
    | Inr ys \<Rightarrow> (case ground_parts f xs of Inl e \<Rightarrow> Inl e | Inr zs \<Rightarrow> Inr (ys @ zs)))"

definition ground_answer ::
  "text_functions \<Rightarrow> string \<Rightarrow> 'x governed_store_scheme agent_deps \<Rightarrow> (string \<Rightarrow> trusted_result_v1 option)
   \<Rightarrow> (string \<Rightarrow> trusted_record_v1 option) \<Rightarrow> string + grounded_response_v1" where
  "ground_answer tf answer deps results records =
     (case ground_parts (ground_part tf deps results records) (parse_claim_tags answer) of
        Inl e \<Rightarrow> Inl e
      | Inr segments \<Rightarrow> Inr \<lparr>gr_scenario_version_id = Some (dp_scenario_version_id deps), gr_segments = segments\<rparr>)"

section \<open>Handles\<close>

datatype mint = MintResult string | MintRecord evidence_group string

definition mint_step :: "mint \<Rightarrow> evidence_registry \<Rightarrow> evidence_registry" where
  "mint_step m reg = (case m of
      MintResult result_id \<Rightarrow> snd (handle_for result_id reg) | MintRecord g record_id \<Rightarrow> snd (handle_for_record g record_id reg))"

definition paired :: "('a \<Rightarrow> 'b option) \<Rightarrow> ('b \<Rightarrow> 'a option) \<Rightarrow> bool" where
  "paired f g \<longleftrightarrow> (\<forall>x y. f x = Some y \<longleftrightarrow> g y = Some x)"

lemma paired_update: "paired f g \<Longrightarrow> f x = None \<Longrightarrow> g y = None \<Longrightarrow> paired (f(x \<mapsto> y)) (g(y \<mapsto> x))"
  by (auto simp: paired_def fun_upd_def) (metis option.distinct(1))+

text \<open>The registry of a turn: both pairs of dictionaries are inverse to each other, and every handle is
  a prefix followed by a number the counters have passed.\<close>

definition result_numbered :: "evidence_registry \<Rightarrow> bool" where
  "result_numbered reg \<longleftrightarrow>
     (\<forall>x h. map_of (rg_handles reg) x = Some h \<longrightarrow> (\<exists>n \<le> length (rg_handles reg). h = ''r'' @ str_nat n))"

definition record_numbered :: "evidence_registry \<Rightarrow> bool" where
  "record_numbered reg \<longleftrightarrow>
     (\<forall>key h. map_of (rg_record_handles reg) key = Some h \<longrightarrow>
        (\<exists>n \<le> get_or 0 (map_of (rg_record_counts reg) (record_handle_prefix (fst key))). h = record_handle_prefix (fst key) @ str_nat n))"

definition registry_ok :: "evidence_registry \<Rightarrow> bool" where
  "registry_ok reg \<longleftrightarrow>
     paired (map_of (rg_handles reg)) (map_of (rg_result_ids reg)) \<and> result_numbered reg
     \<and> paired (map_of (rg_record_handles reg)) (map_of (rg_records reg)) \<and> record_numbered reg"

lemma prefix_inj: "record_handle_prefix g @ a = record_handle_prefix g' @ b \<longleftrightarrow> g = g' \<and> a = b"
  by (cases g; cases g') (simp_all add: record_handle_prefix_def)

lemma prefix_not_result: "record_handle_prefix g @ a \<noteq> ''r'' @ b"
  by (cases g) (simp_all add: record_handle_prefix_def)

lemma prefix_eq: "record_handle_prefix g = record_handle_prefix g' \<longleftrightarrow> g = g'"
  using prefix_inj [of g "[]" g' "[]"] by simp

lemma length_update: "map_of d k = None \<Longrightarrow> length (AList.update k v d) = Suc (length d)"
  by (induction d) (auto split: if_splits)

lemma map_of_update: "map_of (AList.update k v d) = (map_of d)(k \<mapsto> v)"
  by (rule update_conv')

lemma registry_ok_handle_for:
  assumes ok: "registry_ok reg"
  shows "registry_ok (snd (handle_for x reg))"
proof (cases "map_of (rg_handles reg) x")
  case None
  let ?h = "''r'' @ str_nat (length (rg_handles reg) + 1)"
  let ?reg = "reg\<lparr>rg_handles := AList.update x ?h (rg_handles reg), rg_result_ids := AList.update ?h x (rg_result_ids reg)\<rparr>"
  have fresh: "map_of (rg_result_ids reg) ?h = None"
  proof (rule ccontr)
    assume "map_of (rg_result_ids reg) ?h \<noteq> None"
    then obtain y where "map_of (rg_handles reg) y = Some ?h" using ok by (auto simp: registry_ok_def paired_def)
    then obtain n where "n \<le> length (rg_handles reg)" "?h = ''r'' @ str_nat n"
      using ok unfolding registry_ok_def result_numbered_def by blast
    then show False by (simp add: str_nat_inj)
  qed
  have "paired (map_of (rg_handles ?reg)) (map_of (rg_result_ids ?reg))"
    using paired_update [of "map_of (rg_handles reg)" "map_of (rg_result_ids reg)" x ?h] None fresh ok
    by (simp add: map_of_update registry_ok_def)
  moreover have "result_numbered ?reg"
    unfolding result_numbered_def
  proof (intro allI impI)
    fix y h
    assume "map_of (rg_handles ?reg) y = Some h"
    then have "((map_of (rg_handles reg))(x \<mapsto> ?h)) y = Some h" by (simp add: map_of_update del: fun_upd_apply)
    then consider "h = ?h" | "map_of (rg_handles reg) y = Some h" by (cases "y = x") simp_all
    then show "\<exists>n \<le> length (rg_handles ?reg). h = ''r'' @ str_nat n"
    proof cases
      case 1
      then show ?thesis using None by (intro exI [of _ "length (rg_handles reg) + 1"]) (simp add: length_update)
    next
      case 2
      then obtain n where "n \<le> length (rg_handles reg)" "h = ''r'' @ str_nat n"
        using ok unfolding registry_ok_def result_numbered_def by blast
      then show ?thesis using None by (intro exI [of _ n]) (simp add: length_update)
    qed
  qed
  ultimately show ?thesis
    using ok None by (simp add: handle_for_def registry_ok_def record_numbered_def Let_def)
qed (use ok in \<open>simp add: handle_for_def\<close>)

lemma registry_ok_handle_for_record:
  assumes ok: "registry_ok reg"
  shows "registry_ok (snd (handle_for_record g x reg))"
proof (cases "map_of (rg_record_handles reg) (g, x)")
  case None
  let ?p = "record_handle_prefix g"
  let ?n = "get_or 0 (map_of (rg_record_counts reg) ?p) + 1"
  let ?h = "?p @ str_nat ?n"
  let ?reg = "reg\<lparr>rg_record_counts := AList.update ?p ?n (rg_record_counts reg),
    rg_record_handles := AList.update (g, x) ?h (rg_record_handles reg), rg_records := AList.update ?h (g, x) (rg_records reg)\<rparr>"
  have fresh: "map_of (rg_records reg) ?h = None"
  proof (rule ccontr)
    assume "map_of (rg_records reg) ?h \<noteq> None"
    then obtain g' y where "map_of (rg_record_handles reg) (g', y) = Some ?h" using ok by (auto simp: registry_ok_def paired_def)
    then obtain n where "n \<le> get_or 0 (map_of (rg_record_counts reg) (record_handle_prefix g'))"
      "?h = record_handle_prefix g' @ str_nat n" using ok unfolding registry_ok_def record_numbered_def by fastforce
    then show False by (auto simp: prefix_inj str_nat_inj)
  qed
  have pair: "paired (map_of (rg_record_handles ?reg)) (map_of (rg_records ?reg))"
    using paired_update [of "map_of (rg_record_handles reg)" "map_of (rg_records reg)" "(g, x)" ?h] None fresh ok
    by (simp add: map_of_update registry_ok_def)
  have "\<exists>n \<le> get_or 0 (map_of (rg_record_counts ?reg) (record_handle_prefix (fst key))). h = record_handle_prefix (fst key) @ str_nat n"
    if "map_of (rg_record_handles ?reg) key = Some h" for key h
  proof (cases "key = (g, x)")
    case True
    then show ?thesis using that by (auto simp: map_of_update get_or_def)
  next
    case False
    then have "map_of (rg_record_handles reg) key = Some h" using that by (simp add: map_of_update)
    then obtain n where "n \<le> get_or 0 (map_of (rg_record_counts reg) (record_handle_prefix (fst key)))"
      "h = record_handle_prefix (fst key) @ str_nat n" using ok unfolding registry_ok_def record_numbered_def by blast
    then show ?thesis by (cases "fst key = g") (auto simp: map_of_update prefix_eq get_or_def str_nat_inj le_SucI)
  qed
  then have "record_numbered ?reg" by (simp add: record_numbered_def)
  with pair show ?thesis
    using ok None by (simp add: handle_for_record_def registry_ok_def result_numbered_def Let_def)
qed (use ok in \<open>simp add: handle_for_record_def Let_def\<close>)

lemma registry_ok_mints: "registry_ok (fold mint_step ms new_registry)"
proof -
  have "registry_ok reg \<Longrightarrow> registry_ok (fold mint_step ms reg)" for reg
    by (induction ms arbitrary: reg)
      (auto simp: mint_step_def registry_ok_handle_for registry_ok_handle_for_record split: mint.splits)
  then show ?thesis
    by (simp add: registry_ok_def new_registry_def paired_def result_numbered_def record_numbered_def)
qed

section \<open>Soundness of the gate\<close>

lemma first_failure_None: "first_failure f xs = None \<longleftrightarrow> (\<forall>x \<in> set xs. f x = None)"
  by (induction xs) (auto split: option.splits)

lemma locator_holds:
  "locator_failure deps r = None
     \<longleftrightarrow> er_scenario_version_id r = dp_scenario_version_id deps \<and> record_exists deps (er_group r) (er_record_id r)"
proof
  assume "locator_failure deps r = None"
  then show "er_scenario_version_id r = dp_scenario_version_id deps \<and> record_exists deps (er_group r) (er_record_id r)"
    by (auto simp: record_exists_def locator_failure_def resolve_record_eq resolution_of_def resolve_items_def find_Some_iff Let_def
        split: if_splits option.splits)
next
  assume ok: "er_scenario_version_id r = dp_scenario_version_id deps \<and> record_exists deps (er_group r) (er_record_id r)"
  then obtain row where row: "projection_row (dp_app_site deps) (dp_scenario_id deps) (dp_store deps) = Some row"
    "sw_scenario_version_id row = dp_scenario_version_id deps"
    "\<exists>item \<in> set (group_items (er_group r) row (dp_store deps)). item_record_id item = er_record_id r"
    by (auto simp: record_exists_def)
  obtain item where item: "find (\<lambda>x. item_record_id x = er_record_id r) (group_items (er_group r) row (dp_store deps)) = Some item"
    using row(3) by (metis (mono_tags, lifting) find_None_iff not_None_eq)
  then have "item_record_id item = er_record_id r" by (auto simp: find_Some_iff)
  then show "locator_failure deps r = None"
    using row(1,2) ok item by (simp add: locator_failure_def resolve_record_eq resolution_of_def resolve_items_def)
qed

lemma locates_item:
  "locates (sw_groups row) (baseline_assignments row s) r \<Longrightarrow> \<exists>item \<in> set (group_items (er_group r) row s). item_record_id item = er_record_id r"
  by (cases "er_group r") (auto simp: locates_def group_items_def item_record_id_def)

text \<open>When the citations of a result hold: it is of the pinned version, cites as many rows as it counted, a
  value other than zero cites some, and each citation is a record of the pinned version.\<close>

definition citations_hold :: "'x governed_store_scheme agent_deps \<Rightarrow> trusted_result_v1 \<Rightarrow> bool" where
  "citations_hold deps r \<longleftrightarrow> cm_scenario_version_id r = dp_scenario_version_id deps
     \<and> length (cm_evidence_refs r) = cm_consumed_row_count r \<and> (cm_evidence_refs r = [] \<longrightarrow> cm_value r = 0)
     \<and> (\<forall>ref \<in> set (cm_evidence_refs r). er_scenario_version_id ref = dp_scenario_version_id deps
          \<and> record_exists deps (er_group ref) (er_record_id ref))"

lemma ground_claim_cited:
  assumes "results h = Some r"
  shows "(citations_hold deps r \<longrightarrow> ground_claim h deps results = supported_claim r)
    \<and> (\<not> citations_hold deps r \<longrightarrow> (\<exists>failure. ground_claim h deps results = failed_claim h failure (Some r)))"
proof (cases "first_failure (locator_failure deps) (cm_evidence_refs r)")
  case None
  then have "\<forall>ref \<in> set (cm_evidence_refs r). er_scenario_version_id ref = dp_scenario_version_id deps
      \<and> record_exists deps (er_group ref) (er_record_id ref)"
    by (simp add: first_failure_None locator_holds)
  then show ?thesis using assms None by (simp add: ground_claim_def citations_hold_def) blast
next
  case (Some failure)
  then have "\<exists>ref \<in> set (cm_evidence_refs r). locator_failure deps ref \<noteq> None"
    by (metis first_failure_None option.distinct(1))
  then have "\<not> citations_hold deps r" "cm_evidence_refs r \<noteq> []" by (auto simp: citations_hold_def locator_holds)
  then show ?thesis using Some assms by (auto simp: ground_claim_def)
qed

text \<open>A result that a calculation returned: over the scenario of the turn, whatever version was pinned then
  and whatever the store held. The value it then has is \<open>metric_meaning\<close> of the rows of that version.\<close>

definition calculated_at :: "'x governed_store_scheme agent_deps \<Rightarrow> trusted_result_v1 \<Rightarrow> 'x calc \<Rightarrow> bool" where
  "calculated_at deps r k \<longleftrightarrow> ct_app_site k = dp_app_site deps \<and> ct_scenario_id k = dp_scenario_id deps
     \<and> calculate_metric k (cm_metric r) (cm_arguments r) = Inr (calculated_metric_v1.truncate r)"

lemma calculated_at_exact:
  assumes "calculated_at deps r k"
  shows "\<exists>row. projection_row (dp_app_site deps) (dp_scenario_id deps) (ct_store k) = Some row
    \<and> sw_scenario_version_id row = cm_scenario_version_id r \<and> cm_scenario_version_id r = ct_scenario_version_id k
    \<and> cm_value r = metric_meaning (sw_groups row) (baseline_assignments row (ct_store k)) (cm_metric r) (cm_arguments r)"
proof -
  have k: "ct_app_site k = dp_app_site deps" "ct_scenario_id k = dp_scenario_id deps"
    and ran: "calculate_metric k (cm_metric r) (cm_arguments r) = Inr (calculated_metric_v1.truncate r)"
    using assms by (auto simp: calculated_at_def)
  obtain row where row: "projection_row (dp_app_site deps) (dp_scenario_id deps) (ct_store k) = Some row"
    "sw_scenario_version_id row = ct_scenario_version_id k"
    and correct: "result_correct k row (cm_metric r) (cm_arguments r) (calculated_metric_v1.truncate r)"
    using calculated_exact [OF ran] by (auto simp: k)
  then show ?thesis by (auto simp: result_correct_def calculated_metric_v1.defs)
qed

text \<open>A result calculated in the turn, in the store its answer is grounded in, keeps its citations.\<close>

lemma calculated_citations_hold:
  assumes "calculated_at deps r k" and "ct_store k = dp_store deps" and "ct_scenario_version_id k = dp_scenario_version_id deps"
  shows "citations_hold deps r"
proof -
  have k: "ct_app_site k = dp_app_site deps" "ct_scenario_id k = dp_scenario_id deps"
    and ran: "calculate_metric k (cm_metric r) (cm_arguments r) = Inr (calculated_metric_v1.truncate r)"
    using assms by (auto simp: calculated_at_def)
  obtain row where row: "projection_row (dp_app_site deps) (dp_scenario_id deps) (dp_store deps) = Some row"
    "sw_scenario_version_id row = dp_scenario_version_id deps"
    and correct: "result_correct k row (cm_metric r) (cm_arguments r) (calculated_metric_v1.truncate r)"
    using calculated_exact [OF ran] by (auto simp: k assms)
  note c = correct [unfolded result_correct_def, simplified calculated_metric_v1.defs, simplified]
  have "record_exists deps (er_group ref) (er_record_id ref)" if "ref \<in> set (cm_evidence_refs r)" for ref
    using c row that locates_item [of row "dp_store deps" ref] by (auto simp: record_exists_def assms)
  then show ?thesis using c by (auto simp: citations_hold_def assms)
qed

lemma ground_parts_mem: "ground_parts f xs = Inr zs \<Longrightarrow> z \<in> set zs \<Longrightarrow> \<exists>x \<in> set xs. \<exists>ys. f x = Inr ys \<and> z \<in> set ys"
  by (induction xs arbitrary: zs) (auto split: sum.splits)

lemma ground_answer_segment:
  assumes "ground_answer tf answer deps results records = Inr response" and "seg \<in> set (gr_segments response)"
  shows "\<exists>part \<in> set (parse_claim_tags answer). \<exists>ys. ground_part tf deps results records part = Inr ys \<and> seg \<in> set ys"
  using assms ground_parts_mem by (fastforce simp: ground_answer_def split: sum.splits)

lemma claim_segment:
  assumes "ground_answer tf answer deps results records = Inr response" and "ClaimSegment c \<in> set (gr_segments response)"
  shows "\<exists>t h. PlainTextPart t \<in> set (parse_claim_tags answer) \<and> h \<in> set (placeholder_handles t) \<and> c = ground_claim h deps results"
proof -
  obtain part ys where part: "part \<in> set (parse_claim_tags answer)" "ground_part tf deps results records part = Inr ys"
    "ClaimSegment c \<in> set ys"
    using ground_answer_segment [OF assms] by blast
  then obtain t where t: "part = PlainTextPart t"
    by (auto simp: ground_part_def split: sum.splits tag_part.splits)
  then have "\<exists>h. PlaceholderPart h \<in> set (parse_answer_text t) \<and> c = ground_claim h deps results"
    using part by (fastforce simp: ground_part_def split: answer_part.splits)
  then show ?thesis using part(1) t by (force simp: placeholder_handles_def)
qed

lemma fact_segment:
  assumes "ground_answer tf answer deps results records = Inr response" and "FactSegment f \<in> set (gr_segments response)"
  shows "\<exists>tag. ground_fact tf tag deps records = Inr f"
proof -
  obtain part ys where "ground_part tf deps results records part = Inr ys" "FactSegment f \<in> set ys"
    using ground_answer_segment [OF assms] by blast
  then show ?thesis by (cases part) (auto simp: ground_part_def split: sum.splits answer_part.splits)
qed

lemma ground_fact_supported:
  assumes "ground_fact tf tag deps records = Inr f" and "gf_verdict f = Supported"
  shows "\<exists>trusted recorded reference. records (ft_ev tag) = Some trusted
    \<and> tc_scenario_version_id trusted = str_uuid (dp_scenario_version_id deps)
    \<and> map_of (tc_record trusted) (gf_field f) = Some recorded \<and> value_matches tf recorded (gf_value f)
    \<and> gf_evidence_refs f = [reference] \<and> locator_failure deps reference = None
    \<and> map_of (tc_record trusted) ''record_id'' = Some (JString (er_record_id reference))"
  using assms
  by (auto simp: ground_fact_def fact_of_def fact_reference_def evidence_of_def Let_def
      split: option.splits if_splits sum.splits json.splits)

section \<open>Properties\<close>

lemma handles_dom: "dom (map_of (rg_handles (fold mint_step ms reg))) = dom (map_of (rg_handles reg)) \<union> {x. MintResult x \<in> set ms}"
proof (induction ms arbitrary: reg)
  case (Cons m ms)
  have "dom (map_of (rg_handles (mint_step m reg))) = dom (map_of (rg_handles reg)) \<union> {x. m = MintResult x}"
    by (cases m) (auto simp: mint_step_def handle_for_def handle_for_record_def map_of_update Let_def split: option.splits)
  then show ?case using Cons [of "mint_step m reg"] by auto
qed simp

text \<open>
  C29. A citation handle names one thing: after any sequence of mints in a turn, a result has a handle
  exactly when one was asked for, handles and results determine each other, so do handles and records,
  and no handle names both a result and a record.
\<close>

theorem handles_identify:
  "(handle_of x (fold mint_step ms new_registry) = None \<longleftrightarrow> MintResult x \<notin> set ms)
   \<and> (handle_of x (fold mint_step ms new_registry) = Some h \<longleftrightarrow> result_id_for h (fold mint_step ms new_registry) = Some x)
   \<and> (map_of (rg_record_handles (fold mint_step ms new_registry)) key = Some h
        \<longleftrightarrow> record_for h (fold mint_step ms new_registry) = Some key)
   \<and> (result_id_for h (fold mint_step ms new_registry) = None \<or> record_for h (fold mint_step ms new_registry) = None)"
proof -
  let ?reg = "fold mint_step ms new_registry"
  have ok: "registry_ok ?reg" by (rule registry_ok_mints)
  have "result_id_for h ?reg = None \<or> record_for h ?reg = None"
  proof (rule ccontr)
    assume "\<not> (result_id_for h ?reg = None \<or> record_for h ?reg = None)"
    then obtain y k where "map_of (rg_handles ?reg) y = Some h" "map_of (rg_record_handles ?reg) k = Some h"
      using ok by (auto simp: registry_ok_def paired_def result_id_for_def record_for_def)
    then obtain m n where "h = ''r'' @ str_nat m" "h = record_handle_prefix (fst k) @ str_nat n"
      using ok unfolding registry_ok_def result_numbered_def record_numbered_def by blast
    then show False using prefix_not_result by metis
  qed
  moreover have "handle_of x ?reg = None \<longleftrightarrow> MintResult x \<notin> set ms"
    using handles_dom [of ms new_registry] by (auto simp: handle_of_def new_registry_def)
  moreover have "handle_of x ?reg = Some h \<longleftrightarrow> result_id_for h ?reg = Some x"
    "map_of (rg_record_handles ?reg) key = Some h \<longleftrightarrow> record_for h ?reg = Some key"
    using ok unfolding registry_ok_def paired_def handle_of_def result_id_for_def record_for_def by blast+
  ultimately show ?thesis by blast
qed

text \<open>What a claim shows of a cited result. The last part is about results that a calculation returned.\<close>

definition claim_exact :: "'x governed_store_scheme agent_deps \<Rightarrow> trusted_result_v1 \<Rightarrow> grounded_claim_v1 \<Rightarrow> bool" where
  "claim_exact deps r c \<longleftrightarrow>
     gc_result_id c = tr_result_id r \<and> gc_metric c = cm_metric r \<and> gc_arguments c = cm_arguments r
     \<and> (gc_verdict c = Supported \<longleftrightarrow> citations_hold deps r)
     \<and> (gc_verdict c = Supported \<longrightarrow> gc_value c = Some (cm_value r) \<and> gc_unit c = Some (cm_unit r) \<and> gc_evidence_refs c = cm_evidence_refs r)
     \<and> (gc_verdict c \<noteq> Supported \<longrightarrow> gc_value c = None \<and> gc_unit c = None \<and> gc_evidence_refs c = [] \<and> gc_failure c \<noteq> None)
     \<and> (\<forall>k. calculated_at deps r k \<longrightarrow>
          (gc_verdict c = Supported \<longrightarrow>
             (\<exists>row. projection_row (dp_app_site deps) (dp_scenario_id deps) (ct_store k) = Some row
                \<and> sw_scenario_version_id row = dp_scenario_version_id deps
                \<and> gc_value c = Some (metric_meaning (sw_groups row) (baseline_assignments row (ct_store k)) (gc_metric c) (gc_arguments c))))
          \<and> (ct_store k = dp_store deps \<and> ct_scenario_version_id k = dp_scenario_version_id deps \<longrightarrow> gc_verdict c = Supported))"

lemma claim_cites:
  assumes "c = ground_claim h deps results"
  shows "case results h of
      None \<Rightarrow> gc_result_id c = h \<and> gc_verdict c = Failed \<and> gc_failure c = Some MissingEvidence \<and> gc_value c = None \<and> gc_evidence_refs c = []
    | Some r \<Rightarrow> claim_exact deps r c"
proof (cases "results h")
  case None
  then show ?thesis by (simp add: assms ground_claim_def failed_claim_def)
next
  case (Some r)
  have exact: "\<exists>row. projection_row (dp_app_site deps) (dp_scenario_id deps) (ct_store k) = Some row
      \<and> sw_scenario_version_id row = dp_scenario_version_id deps
      \<and> cm_value r = metric_meaning (sw_groups row) (baseline_assignments row (ct_store k)) (cm_metric r) (cm_arguments r)"
    if "calculated_at deps r k" "citations_hold deps r" for k
    using calculated_at_exact [OF that(1)] that(2) by (metis citations_hold_def)
  show ?thesis
  proof (cases "citations_hold deps r")
    case True
    then have "c = supported_claim r" using ground_claim_cited [of results h r deps, OF Some] assms by simp
    then show ?thesis using exact True by (simp add: Some claim_exact_def supported_claim_def)
  next
    case False
    then obtain failure where "c = failed_claim h failure (Some r)"
      using ground_claim_cited [of results h r deps, OF Some] assms by auto
    then show ?thesis using calculated_citations_hold [of deps r] False by (auto simp: Some claim_exact_def failed_claim_def)
  qed
qed

text \<open>
  C7. The placeholders of a grounded answer show calculated numbers only. A claim stands for a handle: one
  that cites no result fails and shows nothing. One that cites a result is supported exactly when the
  citations of the result hold (pinned version, as many rows as were counted, every row still there), and
  then shows the value, unit and citations of the result, and otherwise shows no value and no citation.
  If the result was calculated, at any time and for any version of this scenario, a supported claim
  shows the exact meaning of its metric over the rows of the pinned version; a result calculated in the
  very store the answer is grounded in is always supported. (Numerals typed in prose are not checked.)
\<close>

theorem grounded_claims_are_exact:
  assumes "ground_answer tf answer deps results records = Inr response"
    and "ClaimSegment c \<in> set (gr_segments response)"
  shows "\<exists>t h. PlainTextPart t \<in> set (parse_claim_tags answer) \<and> h \<in> set (placeholder_handles t) \<and> (case results h of
      None \<Rightarrow> gc_result_id c = h \<and> gc_verdict c = Failed \<and> gc_failure c = Some MissingEvidence \<and> gc_value c = None \<and> gc_evidence_refs c = []
    | Some r \<Rightarrow> claim_exact deps r c)"
proof -
  obtain t h where t: "PlainTextPart t \<in> set (parse_claim_tags answer)" "h \<in> set (placeholder_handles t)"
    and h: "c = ground_claim h deps results" using claim_segment [OF assms] by blast
  show ?thesis
  proof (intro exI conjI)
    show "PlainTextPart t \<in> set (parse_claim_tags answer)" "h \<in> set (placeholder_handles t)" by (rule t)+
    show "case results h of
      None \<Rightarrow> gc_result_id c = h \<and> gc_verdict c = Failed \<and> gc_failure c = Some MissingEvidence \<and> gc_value c = None \<and> gc_evidence_refs c = []
    | Some r \<Rightarrow> claim_exact deps r c"
      using claim_cites [OF h] .
  qed
qed

definition demo_texts :: text_functions where
  "demo_texts = \<lparr>tf_casefold = id, tf_float = (\<lambda>_. None)\<rparr>"

lemma demo_parts:
  "parse_claim_tags ''{{r1}} units'' = [PlainTextPart ''{{r1}} units'']" "parse_answer_text ''{{r1}} units'' = [PlaceholderPart ''r1'', ProsePart '' units'']"
  by code_simp+

lemma demo_result:
  "\<exists>r. calculated_at demo_deps r demo_calculation \<and> cm_value r = 45"
proof -
  obtain m where m: "calculate_metric demo_calculation RequiredDemandVolume demo_arguments = Inr m" "cm_value m = 45"
    "cm_metric m = RequiredDemandVolume" "cm_arguments m = demo_arguments"
    using demo_volume calculated_exact unfolding result_correct_def by blast
  have "calculated_at demo_deps (calculated_metric_v1.extend m \<lparr>tr_result_id = ''id''\<rparr>) demo_calculation"
    using m by (simp add: calculated_at_def calculated_metric_v1.defs demo_deps_def demo_calculation_def)
  moreover have "cm_value (calculated_metric_v1.extend m \<lparr>tr_result_id = ''id''\<rparr>) = 45"
    using m by (simp add: calculated_metric_v1.defs)
  ultimately show ?thesis by blast
qed

theorem grounded_claims_are_exact_witness:
  "\<exists>results response c. ground_answer demo_texts ''{{r1}} units'' demo_deps results (\<lambda>_. None) = Inr response
     \<and> ClaimSegment c \<in> set (gr_segments response) \<and> gc_verdict c = Supported \<and> gc_value c = Some 45"
proof -
  obtain r where r: "calculated_at demo_deps r demo_calculation" "cm_value r = 45" using demo_result by blast
  define results where "results = (\<lambda>_ :: string. Some r)"
  let ?c = "ground_claim ''r1'' demo_deps results"
  obtain response where response: "ground_answer demo_texts ''{{r1}} units'' demo_deps results (\<lambda>_. None) = Inr response"
    "ClaimSegment ?c \<in> set (gr_segments response)"
    by (simp add: ground_answer_def demo_parts ground_part_def)
  have "ct_store demo_calculation = dp_store demo_deps" "ct_scenario_version_id demo_calculation = dp_scenario_version_id demo_deps"
    by (simp_all add: demo_calculation_def demo_deps_def)
  then have "gc_verdict ?c = Supported \<and> gc_value ?c = Some 45"
    using grounded_claims_are_exact [OF response] r by (auto simp: results_def claim_exact_def)
  then show ?thesis using response by blast
qed


definition demo_records :: "string \<Rightarrow> trusted_record_v1 option" where
  "demo_records = trusted_records_by_handle [\<lparr>ir_group = ''workers'',
     ir_items = [[(''ev'', JString ''w1''), (''record_id'', JString ''w1''), (''grade'', JString ''G2'')]], ir_scenario_version_id = 10\<rparr>]"

lemma demo_facts:
  "parse_claim_tags demo_answer = [PlainTextPart ''Ana '', FactTagPart ''is grade 2'' ''w1'' ''grade'' ''G2'', PlainTextPart '' now '']"
  by code_simp

lemma demo_reference: "er_scenario_version_id r = 10 \<Longrightarrow> er_group r = Workers \<Longrightarrow> er_record_id r = ''w1'' \<Longrightarrow> locator_failure demo_deps r = None"
  by (auto simp: locator_holds record_exists_def demo_deps_def scenario_site_row demo_version_def group_items_def demo_groups_def demo_worker_def item_record_id_def)

lemma demo_fact:
  "\<exists>f. ground_fact demo_texts \<lparr>ft_text = ''is grade 2'', ft_ev = ''w1'', ft_field = ''grade'', ft_value = ''G2''\<rparr> demo_deps demo_records
      = Inr f \<and> gf_verdict f = Supported"
proof -
  obtain ov where ov: "get_overview 7 3 scenario_site = Some ov" "ov_scenario_version_id ov = 10"
    by (auto simp: get_overview_def scenario_site_row demo_version_def Let_def)
  have "locator_failure demo_deps (fact_reference ov Workers ''w1'' ''grade'') = None"
    by (rule demo_reference) (simp_all add: fact_reference_def evidence_of_def ov)
  then show ?thesis
    using ov by (simp add: ground_fact_def demo_records_def trusted_records_by_handle_def dict_of_def demo_deps_def
        evidence_group_for_scenario_fact_group_def evidence_group_by_scenario_fact_group_def fact_of_def Let_def)
qed


end
