(* ===== verification/Drafting.thy ===== *)
theory Drafting
  imports Resolution
begin

text \<open>
  Resolving untrusted draft constraints into trusted solver input
  (\<^verbatim>\<open>application/drafting/resolve.py\<close>): the same resolver serves the agent's drafts and the planner's
  revisions. Every rejected proposal raises \<open>DraftConstraintError\<close>; the texts of its messages are left
  out. How Python prints a float, plainly and with the format \<open>g\<close>, is a parameter.
\<close>

section \<open>Resolving constraints\<close>

record number_texts =
  nt_str :: "float_value \<Rightarrow> string"
  nt_general :: "float_value \<Rightarrow> string"

definition hard_max_hours_per_week :: float_value where
  "hard_max_hours_per_week = 56"

definition resolve_entity ::
  "'x governed_store_scheme agent_deps \<Rightarrow> evidence_group \<Rightarrow> string \<Rightarrow> app_error + resolved_entity_v1 \<times> projected_item" where
  "resolve_entity context g record_id =
     (case accepted_item (dp_scenario_version_id context) record_id
             (resolve_record g (dp_app_site context) (dp_store context) (dp_scenario_id context)
                (dp_scenario_version_id context) record_id) of
        None \<Rightarrow> Inl DraftConstraintError
      | Some item \<Rightarrow>
          Inr (\<lparr>re_group = g, re_record_id = record_id, re_label = planner_label item,
                re_scenario_version_id = Some (dp_scenario_version_id context)\<rparr>, item))"

definition require_primary ::
  "'x governed_store_scheme agent_deps \<Rightarrow> draft_constraint_proposal_v1 \<Rightarrow> evidence_group
   \<Rightarrow> app_error + resolved_entity_v1 \<times> projected_item" where
  "require_primary context p expected =
     (if dp_group p \<noteq> expected then Inl DraftConstraintError else resolve_entity context (dp_group p) (dp_record_id p))"

text \<open>The numeric arguments a proposal carries, by name.\<close>

definition given_arguments :: "draft_constraint_proposal_v1 \<Rightarrow> string list" where
  "given_arguments p =
     (if dp_n p \<noteq> None then [''n''] else []) @ (if dp_factor p \<noteq> None then [''factor''] else [])
     @ (if dp_max_hours p \<noteq> None then [''max_hours''] else []) @ (if dp_start_minute p \<noteq> None then [''start_minute''] else [])
     @ (if dp_end_minute p \<noteq> None then [''end_minute''] else [])"

definition require_only :: "draft_constraint_proposal_v1 \<Rightarrow> string list \<Rightarrow> app_error + unit" where
  "require_only p allowed =
     (if \<exists>name \<in> set (given_arguments p). name \<notin> set allowed then Inl DraftConstraintError else Inr ())"

definition plain_constraint :: "draft_constraint_kind \<Rightarrow> resolved_entity_v1 list \<Rightarrow> string \<Rightarrow> draft_constraint_v1" where
  "plain_constraint kind entities description =
     \<lparr>dc_kind = kind, dc_resolved_entities = entities, dc_n = None, dc_factor = None, dc_max_hours = None,
      dc_start_minute = None, dc_end_minute = None, dc_description = description\<rparr>"

definition resolve_constraint ::
  "number_texts \<Rightarrow> 'x governed_store_scheme agent_deps \<Rightarrow> draft_constraint_proposal_v1 \<Rightarrow> int \<Rightarrow> app_error + draft_constraint_v1" where
  "resolve_constraint nt context p horizon_minutes = (case dp_kind p of
      SetMinWorkersPerTask \<Rightarrow>
        and_also (require_only p [''n'']) (\<lambda>_.
        and_also (require_primary context p WorkAreasAndTasks) (\<lambda>(task, _).
        case dp_n p of
          None \<Rightarrow> Inl DraftConstraintError
        | Some n \<Rightarrow>
            if n \<le> 0 then Inl DraftConstraintError
            else Inr ((plain_constraint SetMinWorkersPerTask [task]
                   (''Keep at least '' @ str_int n @ '' workers on '' @ re_label task @ ''.''))\<lparr>dc_n := Some n\<rparr>)))
    | ScaleDemand \<Rightarrow>
        and_also (require_only p [''factor'']) (\<lambda>_.
        and_also (require_primary context p WorkAreasAndTasks) (\<lambda>(task, _).
        case dp_factor p of
          None \<Rightarrow> Inl DraftConstraintError
        | Some f \<Rightarrow>
            if f \<le> 0 then Inl DraftConstraintError
            else Inr ((plain_constraint ScaleDemand [task]
                   (''Scale demand for '' @ re_label task @ '' by '' @ nt_str nt f @ ''.''))\<lparr>dc_factor := Some f\<rparr>)))
    | LockWorkerShift \<Rightarrow>
        and_also (require_only p [''start_minute'', ''end_minute'']) (\<lambda>_.
        and_also (require_primary context p Workers) (\<lambda>(worker, _).
        case (dp_start_minute p, dp_end_minute p) of
          (Some a, Some b) \<Rightarrow>
            if a < 0 \<or> b \<le> a \<or> b > horizon_minutes then Inl DraftConstraintError
            else Inr ((plain_constraint LockWorkerShift [worker]
                   (''Keep '' @ re_label worker @ '' on the half-open window ['' @ str_int a @ '', '' @ str_int b @ '').''))
                     \<lparr>dc_start_minute := Some a, dc_end_minute := Some b\<rparr>)
        | _ \<Rightarrow> Inl DraftConstraintError))
    | ExcludeWorkerFromTask \<Rightarrow>
        and_also (require_only p []) (\<lambda>_.
        and_also (require_primary context p Workers) (\<lambda>(worker, _).
        case (dp_related_group p, dp_related_record_id p) of
          (Some g, Some rid) \<Rightarrow>
            if g \<noteq> WorkAreasAndTasks \<or> rid = [] then Inl DraftConstraintError
            else and_also (resolve_entity context g rid) (\<lambda>(task, _).
                 Inr (plain_constraint ExcludeWorkerFromTask [worker, task]
                        (''Keep '' @ re_label worker @ '' off '' @ re_label task @ ''.'')))
        | _ \<Rightarrow> Inl DraftConstraintError))
    | SetMaxHours \<Rightarrow>
        and_also (require_only p [''max_hours'']) (\<lambda>_.
        and_also (require_primary context p Workers) (\<lambda>(worker, _).
        case dp_max_hours p of
          None \<Rightarrow> Inl DraftConstraintError
        | Some h \<Rightarrow>
            if h \<le> 0 then Inl DraftConstraintError
            else if h > hard_max_hours_per_week then Inl DraftConstraintError
            else Inr ((plain_constraint SetMaxHours [worker]
                   (''Cap '' @ re_label worker @ '' at '' @ nt_general nt h @ '' hours per week.''))\<lparr>dc_max_hours := Some h\<rparr>))))"

text \<open>Without a deadline, as the revision command calls it.\<close>

fun resolve_constraints ::
  "number_texts \<Rightarrow> 'x governed_store_scheme agent_deps \<Rightarrow> draft_constraint_proposal_v1 list \<Rightarrow> int
   \<Rightarrow> app_error + draft_constraint_v1 list" where
  "resolve_constraints nt context [] horizon_minutes = Inr []"
| "resolve_constraints nt context (p # ps) horizon_minutes =
     and_also (resolve_constraint nt context p horizon_minutes) (\<lambda>c.
     and_also (resolve_constraints nt context ps horizon_minutes) (\<lambda>cs. Inr (c # cs)))"

section \<open>Proposal content\<close>

definition entity_locator :: "resolved_entity_v1 \<Rightarrow> evidence_group \<times> string" where
  "entity_locator e = (re_group e, re_record_id e)"

fun first_by_locator :: "(evidence_group \<times> string) list \<Rightarrow> resolved_entity_v1 list \<Rightarrow> resolved_entity_v1 list" where
  "first_by_locator seen [] = []"
| "first_by_locator seen (e # es) =
     (if entity_locator e \<in> set seen then first_by_locator seen es
      else e # first_by_locator (entity_locator e # seen) es)"

definition unique_entities :: "draft_constraint_v1 list \<Rightarrow> resolved_entity_v1 list" where
  "unique_entities constraints = first_by_locator [] (concat (map dc_resolved_entities constraints))"

definition consequence_summary :: "draft_constraint_v1 list \<Rightarrow> lock_v1 list \<Rightarrow> string" where
  "consequence_summary constraints preserved_locks =
     str_nat (length constraints) @ '' reversible constraint'' @ (if length constraints \<noteq> 1 then ''s'' else [])
     @ ''; preserved '' @ str_nat (length preserved_locks) @ '' existing lock'' @ (if length preserved_locks \<noteq> 1 then ''s'' else [])
     @ ''; no baseline change.''"

definition group_name :: "evidence_group \<Rightarrow> string" where
  "group_name g = (case g of
      WorkAreasAndTasks \<Rightarrow> ''work-areas-and-tasks'' | Workers \<Rightarrow> ''workers'' | Demand \<Rightarrow> ''demand''
    | BaselineAssignments \<Rightarrow> ''baseline-assignments'' | Locks \<Rightarrow> ''locks'' | ConstraintsAndObjectives \<Rightarrow> ''constraints-and-objectives'')"

definition optional :: "('a \<Rightarrow> json) \<Rightarrow> 'a option \<Rightarrow> json" where
  "optional f v = (case v of None \<Rightarrow> JNull | Some x \<Rightarrow> f x)"

definition primitive_entity :: "resolved_entity_v1 \<Rightarrow> json" where
  "primitive_entity e = JObject
     [(''group'', JString (group_name (re_group e))), (''record_id'', JString (re_record_id e)), (''label'', JString (re_label e)),
      (''scenario_version_id'', JString (case re_scenario_version_id e of None \<Rightarrow> ''None'' | Some u \<Rightarrow> str_uuid u)),
      (''schema_version'', JString ''1'')]"

definition primitive_constraint :: "draft_constraint_v1 \<Rightarrow> json" where
  "primitive_constraint c = JObject
     [(''kind'', JString (kind_name (dc_kind c))), (''resolved_entities'', JList (map primitive_entity (dc_resolved_entities c))),
      (''n'', optional JInt (dc_n c)), (''factor'', optional JFloat (dc_factor c)), (''max_hours'', optional JFloat (dc_max_hours c)),
      (''start_minute'', optional JInt (dc_start_minute c)), (''end_minute'', optional JInt (dc_end_minute c)),
      (''description'', JString (dc_description c)), (''schema_version'', JString ''1'')]"

definition primitive_lock :: "lock_v1 \<Rightarrow> json" where
  "primitive_lock l = JObject
     [(''record_id'', JString (lk_record_id l)), (''target_type'', JString (lk_target_type l)), (''target_ref'', JString (lk_target_ref l)),
      (''scope'', JString (lk_scope l)), (''source'', JString (lk_source l))]"

definition draft_content :: "uuid \<Rightarrow> draft_constraint_v1 list \<Rightarrow> lock_v1 list \<Rightarrow> json" where
  "draft_content scenario_version_id constraints preserved_locks = JObject
     [(''scenario_version_id'', JString (str_uuid scenario_version_id)), (''constraints'', JList (map primitive_constraint constraints)),
      (''preserved_locks'', JList (map primitive_lock preserved_locks))]"

definition derive_draft_id ::
  "hashing \<Rightarrow> uuid \<Rightarrow> draft_constraint_v1 list \<Rightarrow> lock_v1 list \<Rightarrow> ('s, app_error, string) action" where
  "derive_draft_id h scenario_version_id constraints preserved_locks =
     digest_of h (draft_content scenario_version_id constraints preserved_locks)"

section \<open>What a resolved constraint is\<close>

definition trusted_entity :: "'x governed_store_scheme agent_deps \<Rightarrow> resolved_entity_v1 \<Rightarrow> bool" where
  "trusted_entity context e \<longleftrightarrow>
     re_scenario_version_id e = Some (dp_scenario_version_id context)
     \<and> (\<exists>row item. projection_row (dp_app_site context) (dp_scenario_id context) (dp_store context) = Some row
          \<and> sw_scenario_version_id row = dp_scenario_version_id context
          \<and> item \<in> set (group_items (re_group e) row (dp_store context))
          \<and> item_record_id item = re_record_id e \<and> re_label e = planner_label item)"

definition well_formed_constraint :: "int \<Rightarrow> draft_constraint_v1 \<Rightarrow> bool" where
  "well_formed_constraint horizon c = (case dc_kind c of
      SetMinWorkersPerTask \<Rightarrow> map re_group (dc_resolved_entities c) = [WorkAreasAndTasks] \<and> (\<exists>n > 0. dc_n c = Some n)
    | ScaleDemand \<Rightarrow> map re_group (dc_resolved_entities c) = [WorkAreasAndTasks] \<and> (\<exists>f > 0. dc_factor c = Some f)
    | LockWorkerShift \<Rightarrow> map re_group (dc_resolved_entities c) = [Workers]
        \<and> (\<exists>a b. dc_start_minute c = Some a \<and> dc_end_minute c = Some b \<and> 0 \<le> a \<and> a < b \<and> b \<le> horizon)
    | ExcludeWorkerFromTask \<Rightarrow> map re_group (dc_resolved_entities c) = [Workers, WorkAreasAndTasks]
    | SetMaxHours \<Rightarrow> map re_group (dc_resolved_entities c) = [Workers]
        \<and> (\<exists>h. dc_max_hours c = Some h \<and> 0 < h \<and> h \<le> hard_max_hours_per_week))"

text \<open>The arguments are those of the proposal, and none besides those of the kind.\<close>

definition same_arguments :: "draft_constraint_proposal_v1 \<Rightarrow> draft_constraint_v1 \<Rightarrow> bool" where
  "same_arguments p c \<longleftrightarrow> dc_kind c = dp_kind p \<and> dc_n c = dp_n p \<and> dc_factor c = dp_factor p \<and> dc_max_hours c = dp_max_hours p
     \<and> dc_start_minute c = dp_start_minute p \<and> dc_end_minute c = dp_end_minute p"

lemma resolve_entity_InrD:
  assumes "resolve_entity context g rid = Inr (e, item)"
  shows "trusted_entity context e \<and> re_group e = g"
proof -
  have item: "accepted_item (dp_scenario_version_id context) rid (resolve_record g (dp_app_site context) (dp_store context)
      (dp_scenario_id context) (dp_scenario_version_id context) rid) = Some item"
    and e: "e = \<lparr>re_group = g, re_record_id = rid, re_label = planner_label item,
      re_scenario_version_id = Some (dp_scenario_version_id context)\<rparr>"
    using assms by (auto simp: resolve_entity_def split: option.splits)
  show ?thesis using accepted_item_SomeD [OF item] by (auto simp: e trusted_entity_def)
qed

lemma require_primary_InrD:
  "require_primary context p g = Inr (e, item) \<Longrightarrow> trusted_entity context e \<and> re_group e = g"
  by (auto simp: require_primary_def dest: resolve_entity_InrD split: if_splits)

lemma require_only_Inr:
  "require_only p allowed = Inr u \<longleftrightarrow> (\<forall>name \<in> set (given_arguments p). name \<in> set allowed)"
  by (auto simp: require_only_def)

lemma ball_optional: "(\<forall>x \<in> set (if b then [a] else []). P x) \<longleftrightarrow> \<not> b \<or> P a"
  by simp

lemma given_arguments_ball:
  "(\<forall>name \<in> set (given_arguments p). P name) \<longleftrightarrow>
     (dp_n p = None \<or> P ''n'') \<and> (dp_factor p = None \<or> P ''factor'') \<and> (dp_max_hours p = None \<or> P ''max_hours'')
     \<and> (dp_start_minute p = None \<or> P ''start_minute'') \<and> (dp_end_minute p = None \<or> P ''end_minute'')"
  by (simp only: given_arguments_def set_append ball_Un ball_optional not_not)

lemma given_arguments_Nil:
  "given_arguments p = [] \<longleftrightarrow> dp_n p = None \<and> dp_factor p = None \<and> dp_max_hours p = None
     \<and> dp_start_minute p = None \<and> dp_end_minute p = None"
  by (simp add: given_arguments_def)

definition good_constraint :: "'x governed_store_scheme agent_deps \<Rightarrow> int \<Rightarrow> draft_constraint_proposal_v1 \<Rightarrow> draft_constraint_v1 \<Rightarrow> bool" where
  "good_constraint context horizon p c \<longleftrightarrow>
     well_formed_constraint horizon c \<and> same_arguments p c \<and> (\<forall>e \<in> set (dc_resolved_entities c). trusted_entity context e)"

lemmas good_constraint_simps =
  good_constraint_def well_formed_constraint_def same_arguments_def plain_constraint_def require_only_Inr given_arguments_ball
  given_arguments_Nil

lemma primary_InrE:
  assumes "and_also (require_only p allowed) (\<lambda>_. and_also (require_primary context p g) (\<lambda>(e, item). k e)) = Inr c"
  obtains u e where "require_only p allowed = Inr u" "trusted_entity context e" "re_group e = g" "k e = Inr c"
  using assms by (auto dest!: and_also_InrD require_primary_InrD)

lemma resolve_constraint_InrD:
  assumes "resolve_constraint nt context p horizon = Inr c"
  shows "good_constraint context horizon p c"
proof (cases "dp_kind p")
  case SetMinWorkersPerTask
  then show ?thesis using assms unfolding resolve_constraint_def draft_constraint_kind.case
    by (auto elim!: primary_InrE split: option.splits if_splits simp: good_constraint_simps)
next
  case ScaleDemand
  then show ?thesis using assms unfolding resolve_constraint_def draft_constraint_kind.case
    by (auto elim!: primary_InrE split: option.splits if_splits simp: good_constraint_simps)
next
  case LockWorkerShift
  then show ?thesis using assms unfolding resolve_constraint_def draft_constraint_kind.case
    by (auto elim!: primary_InrE split: option.splits if_splits simp: good_constraint_simps)
next
  case ExcludeWorkerFromTask
  show ?thesis using assms unfolding resolve_constraint_def ExcludeWorkerFromTask draft_constraint_kind.case
  proof (rule primary_InrE)
    fix u worker assume "require_only p [] = Inr u" "trusted_entity context worker" "re_group worker = Workers"
      "(case (dp_related_group p, dp_related_record_id p) of
          (Some g, Some rid) \<Rightarrow>
            if g \<noteq> WorkAreasAndTasks \<or> rid = [] then Inl DraftConstraintError
            else and_also (resolve_entity context g rid) (\<lambda>(task, _).
                 Inr (plain_constraint ExcludeWorkerFromTask [worker, task]
                        (''Keep '' @ re_label worker @ '' off '' @ re_label task @ ''.'')))
        | _ \<Rightarrow> Inl DraftConstraintError) = Inr c"
    then show ?thesis using ExcludeWorkerFromTask
      by (auto split: option.splits if_splits dest!: and_also_InrD resolve_entity_InrD simp: good_constraint_simps)
  qed
next
  case SetMaxHours
  then show ?thesis using assms unfolding resolve_constraint_def draft_constraint_kind.case
    by (auto elim!: primary_InrE split: option.splits if_splits simp: good_constraint_simps)
qed

lemma resolve_constraints_InrD:
  "resolve_constraints nt context ps horizon = Inr cs \<Longrightarrow>
     list_all2 (good_constraint context horizon) ps cs"
  by (induction ps arbitrary: cs) (auto dest!: and_also_InrD resolve_constraint_InrD)

lemma list_all2_in_set2:
  "list_all2 P xs ys \<Longrightarrow> y \<in> set ys \<Longrightarrow> \<exists>x \<in> set xs. P x y"
  by (induction rule: list_all2_induct) auto

lemma first_by_locator:
  "distinct (map entity_locator (first_by_locator seen es))
   \<and> set (first_by_locator seen es) \<subseteq> set es
   \<and> entity_locator ` set (first_by_locator seen es) = entity_locator ` set es - set seen"
  by (induction seen es rule: first_by_locator.induct) auto

section \<open>Properties\<close>

text \<open>
  C11. Untrusted constraints become trusted ones or nothing: when the resolver accepts a list of
  proposals, it returns one constraint for each, of the same kind and arguments, whose numbers are within
  their bounds (windows inside the horizon, caps at most 56 hours), and every entity is an existing
  record of the required group in the pinned scenario version, with its label composed from that record.
\<close>

theorem resolved_constraints_are_trusted:
  assumes "resolve_constraints nt context proposals horizon = Inr constraints"
  shows "list_all2 same_arguments proposals constraints
    \<and> (\<forall>c \<in> set constraints. well_formed_constraint horizon c \<and> (\<forall>e \<in> set (dc_resolved_entities c). trusted_entity context e))
    \<and> distinct (map entity_locator (unique_entities constraints))
    \<and> (\<forall>e \<in> set (unique_entities constraints). trusted_entity context e)"
proof -
  note all = resolve_constraints_InrD [OF assms]
  have trusted: "\<forall>c \<in> set constraints. well_formed_constraint horizon c \<and> (\<forall>e \<in> set (dc_resolved_entities c). trusted_entity context e)"
  proof
    fix c assume "c \<in> set constraints"
    then obtain p where "good_constraint context horizon p c" using all by (blast dest: list_all2_in_set2)
    then show "well_formed_constraint horizon c \<and> (\<forall>e \<in> set (dc_resolved_entities c). trusted_entity context e)"
      by (simp add: good_constraint_def)
  qed
  then have "\<forall>e \<in> set (unique_entities constraints). trusted_entity context e"
    using first_by_locator [of "[]" "concat (map dc_resolved_entities constraints)"] by (fastforce simp: unique_entities_def)
  moreover have "list_all2 same_arguments proposals constraints" using all by (rule list_all2_mono) (simp add: good_constraint_def)
  ultimately show ?thesis using trusted first_by_locator by (simp add: unique_entities_def)
qed

definition demo_proposal :: draft_constraint_proposal_v1 where
  "demo_proposal = \<lparr>dp_kind = ExcludeWorkerFromTask, dp_group = Workers, dp_record_id = ''w1'', dp_related_group = Some WorkAreasAndTasks,
     dp_related_record_id = Some ''T1'', dp_n = None, dp_factor = None, dp_max_hours = None, dp_start_minute = None, dp_end_minute = None\<rparr>"

definition demo_number_texts :: number_texts where
  "demo_number_texts = \<lparr>nt_str = (\<lambda>_. []), nt_general = (\<lambda>_. [])\<rparr>"

lemma demo_resolved:
  "resolve_constraints demo_number_texts demo_deps [demo_proposal] 10080 = Inr
     [plain_constraint ExcludeWorkerFromTask
        [\<lparr>re_group = Workers, re_record_id = ''w1'', re_label = ''w1 (w1)'', re_scenario_version_id = Some 10\<rparr>,
         \<lparr>re_group = WorkAreasAndTasks, re_record_id = ''T1'', re_label = ''Pick (T1)'', re_scenario_version_id = Some 10\<rparr>]
        ''Keep w1 (w1) off Pick (T1).'']"
  by code_simp

theorem resolved_constraints_are_trusted_witness:
  "trusted_entity demo_deps \<lparr>re_group = Workers, re_record_id = ''w1'', re_label = ''w1 (w1)'', re_scenario_version_id = Some 10\<rparr>"
  using resolved_constraints_are_trusted [OF demo_resolved] by (simp add: plain_constraint_def)

end
