(* ===== verification/Proposals.thy ===== *)
theory Proposals
  imports Drafting
begin

text \<open>
  The commands on proposals: reading, revising and rejecting a draft
  (\<^verbatim>\<open>application/use_cases/manage_proposal.py\<close>) and storing what an agent turn decided about the working
  draft of its conversation (\<^verbatim>\<open>application/use_cases/finalize_agent_run.py\<close>). The session is scoped to the
  site of the command. The texts of error messages are left out; a stored response is the view itself,
  its JSON form being read back with the same contract type that wrote it.
\<close>

section \<open>Views and guards\<close>

definition proposal_view ::
  "proposal_v1 \<Rightarrow> uuid \<Rightarrow> int option \<Rightarrow> proposal_ended_by option \<Rightarrow> int option \<Rightarrow> proposal_view_v1" where
  "proposal_view proposal current_version_id ordinal ended_by applied_ordinal =
     \<lparr>pv_proposal = proposal, pv_current_scenario_version_id = current_version_id,
      pv_stale = (pp_scenario_version_id proposal \<noteq> Some current_version_id), pv_version_ordinal = ordinal,
      pv_ended_by = ended_by, pv_applied_version_ordinal = applied_ordinal\<rparr>"

definition refuse_if_ended :: "proposal_v1 \<Rightarrow> ('s, app_error, unit) action" where
  "refuse_if_ended proposal =
     and_then (raise_if (pp_state proposal = ProposalRejected) RejectedProposalError) (\<lambda>_.
     raise_if (pp_state proposal = ProposalApplied) AppliedProposalError)"

text \<open>The current record of a proposal and the overview of its scenario; \<open>None\<close> when there is no such
  proposal. Reading and commands share it, the commands with a row lock.\<close>

definition current_for_command ::
  "uuid \<Rightarrow> uuid \<Rightarrow> ('x governed_store_scheme, app_error, (proposal_record_v1 \<times> scenario_overview_v1) option) action" where
  "current_for_command app_site proposal_id =
     and_then (get_current_proposal app_site proposal_id) (\<lambda>found. case found of
       None \<Rightarrow> ret None
     | Some r \<Rightarrow>
         (case pp_scenario_id (pc_proposal r) of
            None \<Rightarrow> ret None
          | Some scenario_id \<Rightarrow>
              and_then (reading (get_overview app_site scenario_id)) (\<lambda>overview. case overview of
                None \<Rightarrow> raise ProjectionUnavailableError
              | Some ov \<Rightarrow> ret (Some (r, ov)))))"

definition get_proposal ::
  "uuid \<Rightarrow> uuid \<Rightarrow> ('x governed_store_scheme, app_error, proposal_view_v1 option) action" where
  "get_proposal app_site proposal_id =
     and_then (current_for_command app_site proposal_id) (\<lambda>found. case found of
       None \<Rightarrow> ret None
     | Some (r, ov) \<Rightarrow>
         ret (Some (proposal_view (pc_proposal r) (ov_scenario_version_id ov) (Some (pc_version_ordinal r))
                      (pc_ended_by r) (pc_applied_version_ordinal r))))"

section \<open>Revising and rejecting\<close>

record proposal_command =
  pq_proposal_id :: uuid
  pq_site_id :: uuid
  pq_actor_id :: uuid
  pq_expected_resource_version :: int
  pq_idempotency_key :: string

definition proposal_operation :: "uuid \<Rightarrow> string \<Rightarrow> string" where
  "proposal_operation proposal_id command = command @ '':'' @ str_uuid proposal_id"

definition json_draft_proposal :: "draft_constraint_proposal_v1 \<Rightarrow> json" where
  "json_draft_proposal p = JObject
     [(''kind'', JString (kind_name (dp_kind p))), (''group'', JString (group_name (dp_group p))),
      (''record_id'', JString (dp_record_id p)), (''related_group'', optional (\<lambda>g. JString (group_name g)) (dp_related_group p)),
      (''related_record_id'', optional JString (dp_related_record_id p)), (''n'', optional JInt (dp_n p)),
      (''factor'', optional JFloat (dp_factor p)), (''max_hours'', optional JFloat (dp_max_hours p)),
      (''start_minute'', optional JInt (dp_start_minute p)), (''end_minute'', optional JInt (dp_end_minute p)),
      (''schema_version'', JString ''1'')]"

definition proposal_body :: "int \<Rightarrow> draft_constraint_proposal_v1 list option \<Rightarrow> json" where
  "proposal_body expected constraints = JObject
     ((''expected_resource_version'', JInt expected) #
      (case constraints of None \<Rightarrow> [] | Some cs \<Rightarrow> [(''constraints'', JList (map json_draft_proposal cs))]))"

definition stored_command :: "proposal_command \<Rightarrow> string \<Rightarrow> 'x store_scheme \<Rightarrow> (string \<times> idempotent_payload) option" where
  "stored_command q name = get_idempotent_result (pq_site_id q) (pq_actor_id q) (proposal_operation (pq_proposal_id q) name)
     (pq_idempotency_key q)"

definition replayed_view :: "uuid \<Rightarrow> proposal_view_v1 \<Rightarrow> proposal_view_v1" where
  "replayed_view current_version_id v =
     proposal_view (pv_proposal v) current_version_id (pv_version_ordinal v) (pv_ended_by v) (pv_applied_version_ordinal v)"

definition replay_or_conflict ::
  "proposal_command \<Rightarrow> string \<Rightarrow> string \<Rightarrow> uuid \<Rightarrow> ('x store_scheme, app_error, proposal_view_v1 option) action" where
  "replay_or_conflict q name body_hash current_version_id =
     and_then (reading (stored_command q name)) (\<lambda>stored. case stored of
       None \<Rightarrow> ret None
     | Some (stored_hash, payload) \<Rightarrow>
         and_then (raise_if (stored_hash \<noteq> body_hash) IdempotencyKeyConflictError) (\<lambda>_.
         case payload of
           ProposalPayload v \<Rightarrow> ret (Some (replayed_view current_version_id v))
         | _ \<Rightarrow> raise (ValueError ''ProposalViewV1'')))"

text \<open>A revision, after its guards, which have made scenario and version of the draft those of the overview:
  the constraints resolved again, the next version of the draft.\<close>

definition write_revision ::
  "hashing \<Rightarrow> number_texts \<Rightarrow> proposal_command \<Rightarrow> draft_constraint_proposal_v1 list \<Rightarrow> string
   \<Rightarrow> proposal_record_v1 \<Rightarrow> scenario_overview_v1 \<Rightarrow> ('x governed_store_scheme, app_error, proposal_view_v1) action" where
  "write_revision h nt q constraints body_hash r ov =
     and_then (reading (\<lambda>s. resolve_constraints nt
        \<lparr>dp_app_site = pq_site_id q, dp_store = s, dp_scenario_id = ov_scenario_id ov,
         dp_scenario_version_id = ov_scenario_version_id ov\<rparr> constraints (ov_horizon_minutes ov))) (\<lambda>result.
     case result of
       Inl e \<Rightarrow> raise (if e = DraftConstraintError then ProposalCommandError else e)
     | Inr resolved \<Rightarrow>
         and_then uuid4 (\<lambda>version_id.
         and_then (derive_draft_id h (ov_scenario_version_id ov) resolved (pp_preserved_locks (pc_proposal r))) (\<lambda>canonical_hash.
         let current = pc_proposal r;
             revised = current\<lparr>pp_proposal_version_id := Some version_id, pp_resolved_entities := unique_entities resolved,
               pp_constraints := resolved,
               pp_consequence_summary := consequence_summary resolved (pp_preserved_locks current),
               pp_canonical_hash := canonical_hash, pp_resource_version := pp_resource_version current + 1\<rparr>;
             view = proposal_view revised (ov_scenario_version_id ov) (Some (pc_version_ordinal r + 1)) None None in
         and_then (append_revision revised (pq_site_id q) (pc_version_ordinal r + 1)
                     (proposal_operation (pq_proposal_id q) ''revision'') (pq_idempotency_key q) body_hash (pq_actor_id q) view) (\<lambda>_.
         ret view))))"

text \<open>What both commands do around their own part \<open>act\<close>: the current record, then the replay of an
  earlier result.\<close>

definition command_on_current ::
  "proposal_command \<Rightarrow> string \<Rightarrow> string \<Rightarrow> (proposal_record_v1 \<Rightarrow> scenario_overview_v1 \<Rightarrow> ('x governed_store_scheme, app_error, proposal_view_v1) action)
   \<Rightarrow> ('x governed_store_scheme, app_error, proposal_view_v1 option) action" where
  "command_on_current q name body_hash act =
     and_then (current_for_command (pq_site_id q) (pq_proposal_id q)) (\<lambda>found. case found of
       None \<Rightarrow> ret None
     | Some (r, ov) \<Rightarrow>
         and_then (replay_or_conflict q name body_hash (ov_scenario_version_id ov)) (\<lambda>replay. case replay of
           Some v \<Rightarrow> ret (Some v)
         | None \<Rightarrow> and_then (act r ov) (\<lambda>v. ret (Some v))))"

definition revise_current ::
  "hashing \<Rightarrow> number_texts \<Rightarrow> proposal_command \<Rightarrow> draft_constraint_proposal_v1 list \<Rightarrow> string
   \<Rightarrow> proposal_record_v1 \<Rightarrow> scenario_overview_v1 \<Rightarrow> ('x governed_store_scheme, app_error, proposal_view_v1) action" where
  "revise_current h nt q constraints body_hash r ov =
     and_then (refuse_if_ended (pc_proposal r)) (\<lambda>_.
     and_then (raise_if (pp_scenario_version_id (pc_proposal r) \<noteq> Some (ov_scenario_version_id ov)) StaleProposalError) (\<lambda>_.
     and_then (raise_if (pq_expected_resource_version q \<noteq> pp_resource_version (pc_proposal r))
        (StaleResourceVersionError (pq_expected_resource_version q) (pp_resource_version (pc_proposal r)))) (\<lambda>_.
     write_revision h nt q constraints body_hash r ov)))"

definition revise_proposal ::
  "hashing \<Rightarrow> number_texts \<Rightarrow> int \<Rightarrow> proposal_command \<Rightarrow> draft_constraint_proposal_v1 list
   \<Rightarrow> ('x governed_store_scheme, app_error, proposal_view_v1 option) action" where
  "revise_proposal h nt max_constraints q constraints =
     and_then (raise_if (\<not> (1 \<le> int (length constraints) \<and> int (length constraints) \<le> max_constraints)) ProposalCommandError) (\<lambda>_.
     and_then (digest_of h (proposal_body (pq_expected_resource_version q) (Some constraints))) (\<lambda>body_hash.
     command_on_current q ''revision'' body_hash (revise_current h nt q constraints body_hash)))"

definition reject_current ::
  "proposal_command \<Rightarrow> string \<Rightarrow> proposal_record_v1 \<Rightarrow> scenario_overview_v1
   \<Rightarrow> ('x governed_store_scheme, app_error, proposal_view_v1) action" where
  "reject_current q body_hash r ov =
     and_then (refuse_if_ended (pc_proposal r)) (\<lambda>_.
     and_then (raise_if (pq_expected_resource_version q \<noteq> pp_resource_version (pc_proposal r))
        (StaleResourceVersionError (pq_expected_resource_version q) (pp_resource_version (pc_proposal r)))) (\<lambda>_.
     let rejected = (pc_proposal r)\<lparr>pp_state := ProposalRejected, pp_resource_version := pp_resource_version (pc_proposal r) + 1\<rparr>;
         view = proposal_view rejected (ov_scenario_version_id ov) (Some (pc_version_ordinal r)) (Some EndedByPlanner) None in
     and_then (reject_row rejected (pq_site_id q) (proposal_operation (pq_proposal_id q) ''rejection'')
                 (pq_idempotency_key q) body_hash (pq_actor_id q) view) (\<lambda>_.
     ret view)))"

definition reject_proposal ::
  "hashing \<Rightarrow> proposal_command \<Rightarrow> ('x governed_store_scheme, app_error, proposal_view_v1 option) action" where
  "reject_proposal h q =
     and_then (digest_of h (proposal_body (pq_expected_resource_version q) None)) (\<lambda>body_hash.
     command_on_current q ''rejection'' body_hash (reject_current q body_hash))"

section \<open>Finalizing an agent turn\<close>

datatype draft_outcome = DraftCreated | DraftUpdated

record agent_draft_write_v1 =
  dw_proposal :: proposal_v1
  dw_outcome :: draft_outcome
  dw_version_ordinal :: int
  dw_observed_working_id :: "uuid option"
  dw_observed_resource_version :: "int option"

record agent_draft_discard_v1 =
  dd_proposal_id :: uuid
  dd_observed_resource_version :: int
  dd_version_ordinal :: int

datatype turn_payload = TurnActivity activity_payload | TurnDraft agent_draft_write_v1

definition draft_changed :: activity_payload where
  "draft_changed = TerminalOutcomeActivity
     \<lparr>to_status = ''failed'', to_reason = CapabilityError, to_refusal_reason = None,
      to_detail = ''Your draft changed while I was working, so I didn't apply this change.'',
      to_next_step = Some ''Ask again to apply it to the current draft.''\<rparr>"

definition working_matches :: "proposal_record_v1 option \<Rightarrow> uuid option \<Rightarrow> int option \<Rightarrow> bool" where
  "working_matches working proposal_id resource_version = (case working of
      None \<Rightarrow> False
    | Some w \<Rightarrow> pp_proposal_id (pc_proposal w) = proposal_id \<and> Some (pp_resource_version (pc_proposal w)) = resource_version)"

definition turn_applies ::
  "agent_draft_write_v1 option \<Rightarrow> agent_draft_discard_v1 option \<Rightarrow> proposal_record_v1 option \<Rightarrow> bool" where
  "turn_applies draft discard working = (case discard of
      Some d \<Rightarrow> working_matches working (Some (dd_proposal_id d)) (Some (dd_observed_resource_version d))
    | None \<Rightarrow>
        (case draft of
           Some w \<Rightarrow> if dw_outcome w = DraftUpdated
                     then working_matches working (dw_observed_working_id w) (dw_observed_resource_version w)
                     else working = None
         | None \<Rightarrow> working = None))"

definition write_draft :: "claimed_agent_run_v1 \<Rightarrow> agent_draft_write_v1 \<Rightarrow> ('x governed_store_scheme, app_error, unit) action" where
  "write_draft claimed w =
     (if dw_outcome w = DraftCreated
      then create_draft (dw_proposal w) (cl_site_id claimed) (cl_conversation_id claimed) (cl_actor_id claimed)
      else append_agent_version (dw_proposal w) (cl_site_id claimed) (dw_version_ordinal w))"

text \<open>What the turn shows: a draft is shown by reference.\<close>

definition shown_payload :: "turn_payload \<Rightarrow> ('s, app_error, activity_payload) action" where
  "shown_payload payload = (case payload of
      TurnActivity a \<Rightarrow> ret a
    | TurnDraft w \<Rightarrow>
        (case (pp_proposal_id (dw_proposal w), pp_proposal_version_id (dw_proposal w)) of
           (Some pid, Some vid) \<Rightarrow> ret (DraftActivity pid vid (pp_consequence_summary (dw_proposal w)))
         | _ \<Rightarrow> raise (ValueError ''a trusted proposal must carry durable identifiers'')))"

text \<open>The bundle of a turn that still applies: the run ends, the old draft leaves \<open>active\<close>, the new
  content is written.\<close>

definition apply_turn ::
  "uuid \<Rightarrow> claimed_agent_run_v1 \<Rightarrow> agent_run_status \<Rightarrow> activity_payload \<Rightarrow> agent_draft_write_v1 option
   \<Rightarrow> agent_draft_discard_v1 option \<Rightarrow> uuid \<Rightarrow> ('x governed_store_scheme, app_error, executed_agent_run_v1) action" where
  "apply_turn app_site claimed status shown draft discard request_id =
     and_then (finish_agent_run app_site claimed status shown request_id) (\<lambda>executed.
     and_then (case discard of
                 None \<Rightarrow> ret ()
               | Some d \<Rightarrow> end_by_assistant app_site (dd_proposal_id d) (dd_observed_resource_version d + 1)) (\<lambda>_.
     and_then (case draft of None \<Rightarrow> ret () | Some w \<Rightarrow> write_draft claimed w) (\<lambda>_.
     ret executed)))"

definition guarded_turn ::
  "uuid \<Rightarrow> claimed_agent_run_v1 \<Rightarrow> agent_run_status \<Rightarrow> activity_payload \<Rightarrow> agent_draft_write_v1 option
   \<Rightarrow> agent_draft_discard_v1 option \<Rightarrow> uuid \<Rightarrow> ('x governed_store_scheme, app_error, executed_agent_run_v1) action" where
  "guarded_turn app_site claimed status shown draft discard request_id =
     and_then (raise_if (discard \<noteq> None \<and> map_option dw_outcome draft = Some DraftUpdated)
                 (ValueError ''a turn cannot both update and discard the working draft'')) (\<lambda>_.
     and_then (lock_conversation app_site (cl_conversation_id claimed) ''claimed conversation is no longer visible'') (\<lambda>_.
     and_then (get_working_proposal app_site (cl_conversation_id claimed)) (\<lambda>working.
     if turn_applies draft discard working
     then apply_turn app_site claimed status shown draft discard request_id
     else finish_agent_run app_site claimed AgentFailed draft_changed request_id)))"

definition finalize_agent_run ::
  "uuid \<Rightarrow> claimed_agent_run_v1 \<Rightarrow> agent_run_status \<Rightarrow> turn_payload \<Rightarrow> agent_draft_discard_v1 option \<Rightarrow> uuid
   \<Rightarrow> ('x governed_store_scheme, app_error, executed_agent_run_v1) action" where
  "finalize_agent_run app_site claimed status payload discard request_id =
     and_then (shown_payload payload) (\<lambda>shown.
     case (payload, discard) of
       (TurnActivity _, None) \<Rightarrow> finish_agent_run app_site claimed status shown request_id
     | (TurnActivity _, Some _) \<Rightarrow> guarded_turn app_site claimed status shown None discard request_id
     | (TurnDraft w, _) \<Rightarrow> guarded_turn app_site claimed status shown (Some w) discard request_id)"

end
