(* ===== verification/Snapshots.thy ===== *)
theory Snapshots
  imports Drafting
begin

text \<open>
  Freezing a proposal into a run: the snapshot contract (\<^verbatim>\<open>application/contracts/run_snapshot.py\<close>), its
  creation from the current proposal (\<^verbatim>\<open>application/use_cases/create_run_snapshot.py\<close>) and the command
  that submits it to the queue (\<^verbatim>\<open>application/use_cases/enqueue_compute.py\<close>). The session is scoped to
  the site of the command. How Python prints an instant and which version of the solver package is
  installed are fields of the settings.
\<close>

section \<open>The snapshot contract\<close>

record compute_settings =
  cs_engine_name :: string
  cs_seed :: int
  cs_num_search_workers :: int
  cs_max_deterministic_time :: float_value
  cs_wall_time_limit_seconds :: float_value
  cs_site_max_concurrent_runs :: int
  cs_ortools_version :: string
  cs_isoformat :: "instant \<Rightarrow> string"

definition new_solver_config :: "solver_config_v1 \<Rightarrow> app_error + solver_config_v1" where
  "new_solver_config c =
     (if sc_engine_name c = [] then Inl (ValueError ''engine_name is required'')
      else if sc_seed c \<le> 0 then Inl (ValueError ''seed must be positive'')
      else if sc_num_search_workers c \<le> 0 then Inl (ValueError ''num_search_workers must be positive'')
      else if sc_max_deterministic_time c \<le> 0 then Inl (ValueError ''max_deterministic_time must be positive'')
      else if sc_wall_time_limit_seconds c \<le> 0 then Inl (ValueError ''wall_time_limit_seconds must be positive'')
      else Inr c)"

definition settings_config :: "compute_settings \<Rightarrow> solver_config_v1" where
  "settings_config settings =
     \<lparr>sc_engine_name = cs_engine_name settings, sc_seed = cs_seed settings,
      sc_num_search_workers = cs_num_search_workers settings,
      sc_max_deterministic_time = cs_max_deterministic_time settings,
      sc_wall_time_limit_seconds = cs_wall_time_limit_seconds settings\<rparr>"

text \<open>The first required field that is missing, in the order of the source.\<close>

definition missing_snapshot_field :: "run_snapshot_v1 \<Rightarrow> string option" where
  "missing_snapshot_field r =
     (if rs_snapshot_id r = None then Some ''snapshot_id''
      else if rs_schedule_run_id r = None then Some ''schedule_run_id''
      else if rs_scenario_id r = None then Some ''scenario_id''
      else if rs_scenario_version_id r = None then Some ''scenario_version_id''
      else if rs_checksum_algorithm r = [] then Some ''checksum_algorithm''
      else if rs_checksum_schema_version r = [] then Some ''checksum_schema_version''
      else if rs_checksum_digest r = [] then Some ''checksum_digest''
      else if rs_proposal_id r = None then Some ''proposal_id''
      else if rs_proposal_version_id r = None then Some ''proposal_version_id''
      else if rs_proposal_resource_version r = 0 then Some ''proposal_resource_version''
      else if rs_solver_config r = None then Some ''solver_config''
      else if rs_component_versions r = [] then Some ''component_versions''
      else if rs_accepted_at r = None then Some ''accepted_at''
      else None)"

definition json_uuid :: "uuid option \<Rightarrow> json" where
  "json_uuid u = optional (\<lambda>x. JString (str_uuid x)) u"

definition json_entity :: "resolved_entity_v1 \<Rightarrow> json" where
  "json_entity e = JObject
     [(''group'', JString (group_name (re_group e))), (''record_id'', JString (re_record_id e)), (''label'', JString (re_label e)),
      (''scenario_version_id'', json_uuid (re_scenario_version_id e)), (''schema_version'', JString ''1'')]"

definition json_constraint :: "draft_constraint_v1 \<Rightarrow> json" where
  "json_constraint c = JObject
     [(''kind'', JString (kind_name (dc_kind c))), (''resolved_entities'', JList (map json_entity (dc_resolved_entities c))),
      (''n'', optional JInt (dc_n c)), (''factor'', optional JFloat (dc_factor c)), (''max_hours'', optional JFloat (dc_max_hours c)),
      (''start_minute'', optional JInt (dc_start_minute c)), (''end_minute'', optional JInt (dc_end_minute c)),
      (''description'', JString (dc_description c)), (''schema_version'', JString ''1'')]"

definition json_objective :: "constraint_v1 \<Rightarrow> json" where
  "json_objective c = JObject
     [(''record_id'', JString (cn_record_id c)), (''constraint_type'', JString (cn_constraint_type c)),
      (''value'', JString (cn_value c)), (''value_type'', optional JString (cn_value_type c))]"

definition json_config :: "solver_config_v1 \<Rightarrow> json" where
  "json_config c = JObject
     [(''engine_name'', JString (sc_engine_name c)), (''seed'', JInt (sc_seed c)),
      (''num_search_workers'', JInt (sc_num_search_workers c)),
      (''max_deterministic_time'', JFloat (sc_max_deterministic_time c)),
      (''wall_time_limit_seconds'', JFloat (sc_wall_time_limit_seconds c)), (''schema_version'', JString ''1'')]"

definition json_evidence :: "evidence_ref_v1 \<Rightarrow> json" where
  "json_evidence e = JObject
     [(''scenario_version_id'', JString (str_uuid (er_scenario_version_id e))),
      (''checksum_algorithm'', JString (er_checksum_algorithm e)),
      (''checksum_schema_version'', JString (er_checksum_schema_version e)),
      (''checksum_digest'', JString (er_checksum_digest e)),
      (''producing_run_version'', optional JString (er_producing_run_version e)),
      (''baseline_schedule_version'', optional JString (er_baseline_schedule_version e)),
      (''group'', JString (group_name (er_group e))), (''record_id'', JString (er_record_id e)),
      (''field'', optional JString (er_field e)), (''start_minute'', optional JInt (er_start_minute e)),
      (''end_minute'', optional JInt (er_end_minute e)), (''schema_version'', JString ''1'')]"

definition canonical_payload :: "(instant \<Rightarrow> string) \<Rightarrow> run_snapshot_v1 \<Rightarrow> json" where
  "canonical_payload isoformat r = JObject
     [(''snapshot_id'', json_uuid (rs_snapshot_id r)), (''schedule_run_id'', json_uuid (rs_schedule_run_id r)),
      (''scenario_id'', json_uuid (rs_scenario_id r)), (''scenario_version_id'', json_uuid (rs_scenario_version_id r)),
      (''checksum_algorithm'', JString (rs_checksum_algorithm r)),
      (''checksum_schema_version'', JString (rs_checksum_schema_version r)),
      (''checksum_digest'', JString (rs_checksum_digest r)),
      (''baseline_schedule_version'', optional JString (rs_baseline_schedule_version r)),
      (''proposal_id'', json_uuid (rs_proposal_id r)), (''proposal_version_id'', json_uuid (rs_proposal_version_id r)),
      (''proposal_resource_version'', JInt (rs_proposal_resource_version r)),
      (''preserved_locks'', JList (map primitive_lock (rs_preserved_locks r))),
      (''constraints'', JList (map json_constraint (rs_constraints r))),
      (''objectives'', JList (map json_objective (rs_objectives r))),
      (''solver_config'', optional json_config (rs_solver_config r)),
      (''component_versions'', JList (map (\<lambda>(n, v). JList [JString n, JString v]) (rs_component_versions r))),
      (''accepted_at'', optional (\<lambda>t. JString (isoformat t)) (rs_accepted_at r)),
      (''input_evidence_refs'', JList (map json_evidence (rs_input_evidence_refs r))),
      (''schema_version'', JString ''1'')]"

text \<open>\<open>RunSnapshotV1.__post_init__\<close>.\<close>

definition new_run_snapshot ::
  "hashing \<Rightarrow> (instant \<Rightarrow> string) \<Rightarrow> run_snapshot_v1 \<Rightarrow> ('s, app_error, run_snapshot_v1) action" where
  "new_run_snapshot h isoformat r =
     (case missing_snapshot_field r of
        Some name \<Rightarrow> raise (ValueError (name @ '' is required''))
      | None \<Rightarrow>
          let sorted_r = r\<lparr>rs_component_versions := sort (rs_component_versions r)\<rparr> in
          and_then (digest_of h (canonical_payload isoformat sorted_r)) (\<lambda>digest.
          and_then (raise_if (rs_canonical_hash r \<noteq> [] \<and> rs_canonical_hash r \<noteq> digest)
                      (ValueError ''canonical_hash does not match the snapshot payload'')) (\<lambda>_.
          ret (sorted_r\<lparr>rs_canonical_hash := digest\<rparr>))))"

section \<open>Creating the snapshot\<close>

definition input_reference :: "scenario_context \<Rightarrow> evidence_group \<Rightarrow> string \<Rightarrow> evidence_ref_v1" where
  "input_reference context g record_id =
     \<lparr>er_scenario_version_id = sx_scenario_version_id context, er_checksum_algorithm = sx_checksum_algorithm context,
      er_checksum_schema_version = sx_checksum_schema_version context, er_checksum_digest = sx_checksum_digest context,
      er_producing_run_version = None, er_baseline_schedule_version = sx_baseline_schedule_version context,
      er_group = g, er_record_id = record_id, er_field = None, er_start_minute = None, er_end_minute = None\<rparr>"

definition input_evidence :: "proposal_v1 \<Rightarrow> scenario_context \<Rightarrow> evidence_ref_v1 list" where
  "input_evidence proposal context =
     map (\<lambda>e. input_reference context (re_group e) (re_record_id e)) (pp_resolved_entities proposal)
     @ map (\<lambda>l. input_reference context Locks (lk_record_id l)) (pp_preserved_locks proposal)"

definition snapshot_of ::
  "compute_settings \<Rightarrow> solver_config_v1 \<Rightarrow> scenario_context \<Rightarrow> proposal_v1 \<Rightarrow> uuid \<Rightarrow> uuid \<Rightarrow> instant \<Rightarrow> run_snapshot_v1" where
  "snapshot_of settings config context proposal snapshot_id run_id accepted_at =
     \<lparr>rs_snapshot_id = Some snapshot_id, rs_schedule_run_id = Some run_id, rs_scenario_id = pp_scenario_id proposal,
      rs_scenario_version_id = Some (sx_scenario_version_id context),
      rs_checksum_algorithm = sx_checksum_algorithm context, rs_checksum_schema_version = sx_checksum_schema_version context,
      rs_checksum_digest = sx_checksum_digest context, rs_baseline_schedule_version = sx_baseline_schedule_version context,
      rs_proposal_id = pp_proposal_id proposal, rs_proposal_version_id = pp_proposal_version_id proposal,
      rs_proposal_resource_version = pp_resource_version proposal, rs_preserved_locks = pp_preserved_locks proposal,
      rs_constraints = pp_constraints proposal, rs_objectives = [], rs_solver_config = Some config,
      rs_component_versions = [(''application'', ''1''), (''contract'', ''1''), (''ortools'', cs_ortools_version settings)],
      rs_accepted_at = Some accepted_at, rs_input_evidence_refs = input_evidence proposal context, rs_canonical_hash = []\<rparr>"

text \<open>The guards before the snapshot is built, with the context they read.\<close>

definition snapshot_context ::
  "uuid \<Rightarrow> uuid \<Rightarrow> ('x governed_store_scheme, app_error, proposal_record_v1 \<times> scenario_context) action" where
  "snapshot_context app_site proposal_id =
     and_then (get_current_proposal app_site proposal_id) (\<lambda>found. case found of
       None \<Rightarrow> raise (SnapshotCreationError ''proposal_not_found'')
     | Some r \<Rightarrow>
         and_then (raise_if (pp_state (pc_proposal r) = ProposalRejected) (SnapshotCreationError ''rejected_proposal'')) (\<lambda>_.
         and_then (raise_if (pp_state (pc_proposal r) = ProposalApplied) (SnapshotCreationError ''applied_proposal'')) (\<lambda>_.
         case pp_scenario_id (pc_proposal r) of
           None \<Rightarrow> raise (SnapshotCreationError ''invalid_proposal'')
         | Some scenario_id \<Rightarrow>
             and_then (reading (get_scenario_context app_site scenario_id)) (\<lambda>context. case context of
               None \<Rightarrow> raise (SnapshotCreationError ''scenario_unavailable'')
             | Some c \<Rightarrow>
                 and_then (raise_if (pp_scenario_version_id (pc_proposal r) \<noteq> Some (sx_scenario_version_id c)
                       \<or> pp_expected_baseline_schedule_version (pc_proposal r) \<noteq> sx_baseline_schedule_version c)
                     (SnapshotCreationError ''stale_proposal'')) (\<lambda>_.
                 and_then (raise_if (pp_proposal_id (pc_proposal r) = None \<or> pp_proposal_version_id (pc_proposal r) = None)
                     (SnapshotCreationError ''invalid_proposal'')) (\<lambda>_.
                 ret (r, c)))))))"

definition create_run_snapshot ::
  "hashing \<Rightarrow> compute_settings \<Rightarrow> uuid \<Rightarrow> uuid \<Rightarrow> uuid option \<Rightarrow> instant
   \<Rightarrow> ('x governed_store_scheme, app_error, run_snapshot_v1) action" where
  "create_run_snapshot h settings app_site proposal_id actor_id accepted_at =
     and_then (snapshot_context app_site proposal_id) (\<lambda>(r, c).
     and_then uuid4 (\<lambda>snapshot_id.
     and_then uuid4 (\<lambda>run_id.
     case new_solver_config (settings_config settings) of
       Inl e \<Rightarrow> raise e
     | Inr config \<Rightarrow>
         and_then (new_run_snapshot h (cs_isoformat settings)
                     (snapshot_of settings config c (pc_proposal r) snapshot_id run_id accepted_at)) (\<lambda>snapshot.
         and_then (create_queued_run snapshot (sx_site_id c)
                     (case actor_id of None \<Rightarrow> pc_created_by_actor_id r | Some a \<Rightarrow> a)) (\<lambda>_.
         ret snapshot)))))"

section \<open>Submitting a run\<close>

definition non_terminal_run_statuses :: "run_status list" where
  "non_terminal_run_statuses = [SolverQueued, SolverRunning, CancellationRequested]"

record enqueue_request =
  nq_proposal_id :: uuid
  nq_site_id :: uuid
  nq_actor_id :: uuid
  nq_expected_resource_version :: int
  nq_idempotency_key :: string
  nq_capability_version :: string

record enqueue_compute_result_v1 =
  nr_schedule_run_id :: uuid
  nr_job_id :: uuid

definition enqueue_operation :: "uuid \<Rightarrow> string" where
  "enqueue_operation proposal_id = ''enqueue_compute:'' @ str_uuid proposal_id"

definition enqueue_body :: "enqueue_request \<Rightarrow> json" where
  "enqueue_body q = JObject
     [(''proposal_id'', JString (str_uuid (nq_proposal_id q))),
      (''expected_proposal_resource_version'', JInt (nq_expected_resource_version q))]"

definition stored_enqueue :: "enqueue_request \<Rightarrow> 'x store_scheme \<Rightarrow> (string \<times> idempotent_payload) option" where
  "stored_enqueue q = get_idempotent_result (nq_site_id q) (nq_actor_id q) (enqueue_operation (nq_proposal_id q)) (nq_idempotency_key q)"

definition enqueue_result_of_payload :: "idempotent_payload \<Rightarrow> ('s, app_error, enqueue_compute_result_v1) action" where
  "enqueue_result_of_payload p = (case p of
      EnqueuePayload run_id job_id \<Rightarrow> ret \<lparr>nr_schedule_run_id = run_id, nr_job_id = job_id\<rparr>
    | CancelPayload _ _ _ _ _ \<Rightarrow> raise (KeyError ''job_id'')
    | ProposalPayload _ \<Rightarrow> raise (KeyError ''schedule_run_id''))"

definition replay_enqueue ::
  "string \<Rightarrow> string \<times> idempotent_payload \<Rightarrow> ('s, app_error, enqueue_compute_result_v1) action" where
  "replay_enqueue body_hash stored =
     and_then (raise_if (fst stored \<noteq> body_hash) IdempotencyKeyConflictError) (\<lambda>_.
     enqueue_result_of_payload (snd stored))"

definition queued_job :: "enqueue_request \<Rightarrow> uuid \<Rightarrow> uuid option \<Rightarrow> instant \<Rightarrow> job_lease_v1" where
  "queued_job q job_id run_id accepted_at =
     \<lparr>jl_job_id = Some job_id, jl_job_type = Some ScheduleRunExecute, jl_status = JobQueued,
      jl_site_id = Some (nq_site_id q), jl_actor_id = Some (nq_actor_id q), jl_attempt_id = None,
      jl_contract_version = ''1'', jl_capability_version = Some (nq_capability_version q),
      jl_schedule_run_id = run_id, jl_idempotency_key = nq_idempotency_key q, jl_lease_owner = None,
      jl_lease_expires_at = None, jl_heartbeat_at = None, jl_fencing_epoch = 0,
      jl_cancellation_requested = False, jl_created_at = Some accepted_at\<rparr>"

text \<open>The writes of a fresh submission, after its guards.\<close>

definition submit_run ::
  "hashing \<Rightarrow> compute_settings \<Rightarrow> enqueue_request \<Rightarrow> string
   \<Rightarrow> ('x governed_store_scheme, app_error, enqueue_compute_result_v1) action" where
  "submit_run h settings q body_hash =
     and_then (reading st_now) (\<lambda>accepted_at.
     and_then (create_run_snapshot h settings (nq_site_id q) (nq_proposal_id q) (Some (nq_actor_id q)) accepted_at) (\<lambda>snapshot.
     case rs_schedule_run_id snapshot of
       None \<Rightarrow> raise (AssertionError ''schedule_run_id'')
     | Some run_id \<Rightarrow>
         and_then uuid4 (\<lambda>job_id.
         and_then (new_job_lease (queued_job q job_id (Some run_id) accepted_at)) (\<lambda>job.
         and_then (enqueue_job job (nq_site_id q)) (\<lambda>_.
         and_then (store_idempotent_result (nq_site_id q) (nq_actor_id q) (enqueue_operation (nq_proposal_id q))
                     (nq_idempotency_key q) body_hash (EnqueuePayload run_id job_id)) (\<lambda>_.
         ret \<lparr>nr_schedule_run_id = run_id, nr_job_id = job_id\<rparr>))))))"

definition enqueue_compute ::
  "hashing \<Rightarrow> compute_settings \<Rightarrow> enqueue_request \<Rightarrow> ('x governed_store_scheme, app_error, enqueue_compute_result_v1) action" where
  "enqueue_compute h settings q =
     and_then (get_current_proposal (nq_site_id q) (nq_proposal_id q)) (\<lambda>found. case found of
       None \<Rightarrow> raise ProposalNotFoundError
     | Some r \<Rightarrow>
         and_then (raise_if (nq_idempotency_key q = [] \<or> length (nq_idempotency_key q) > max_idempotency_key_length)
                     EnqueueComputeError) (\<lambda>_.
         and_then (digest_of h (enqueue_body q)) (\<lambda>body_hash.
         and_then (reading (stored_enqueue q)) (\<lambda>stored. case stored of
           Some st \<Rightarrow> replay_enqueue body_hash st
         | None \<Rightarrow>
             and_then (raise_if (pp_state (pc_proposal r) = ProposalRejected) (SnapshotCreationError ''rejected_proposal'')) (\<lambda>_.
             and_then (raise_if (pp_state (pc_proposal r) = ProposalApplied) (SnapshotCreationError ''applied_proposal'')) (\<lambda>_.
             and_then (raise_if (pp_resource_version (pc_proposal r) \<noteq> nq_expected_resource_version q)
                  (StaleProposalResourceVersionError (nq_expected_resource_version q) (pp_resource_version (pc_proposal r)))) (\<lambda>_.
             and_then (reading (count_runs_with_statuses (nq_site_id q) non_terminal_run_statuses)) (\<lambda>active_runs.
             and_then (raise_if (int active_runs \<ge> cs_site_max_concurrent_runs settings) SiteConcurrencyExhaustedError) (\<lambda>_.
             submit_run h settings q body_hash)))))))))"

end
