(* ===== verification/Approvals.thy ===== *)
theory Approvals
  imports Governed_Store
begin

text \<open>
  The consequential workflow: requesting an approval (TX1), revalidating and deciding it (TX3), and
  promoting the approved candidate to the site's baseline (TX2)
  (\<^verbatim>\<open>use_cases/request_approval.py\<close>, \<^verbatim>\<open>decide_approval.py\<close>, \<^verbatim>\<open>promote_baseline.py\<close>). Each command runs in
  the caller's transaction. Telemetry is left out: its failures are swallowed.
\<close>

section \<open>Digests\<close>

definition derive_policy_version :: "hashing \<Rightarrow> bool \<Rightarrow> string" where
  "derive_policy_version h scheduling_baseline_enabled =
     ''one-user-mvp-v1+'' @ take 12 (hs_sha256 h (get_or [] (serialize (hs_float_text h)
       (JObject [(''scheduling_baseline_enabled'', JBool scheduling_baseline_enabled)]))))"

definition json_opt :: "('a \<Rightarrow> json) \<Rightarrow> 'a option \<Rightarrow> json" where
  "json_opt f v = (case v of None \<Rightarrow> JNull | Some x \<Rightarrow> f x)"

definition approval_parameter :: "uuid \<Rightarrow> uuid \<Rightarrow> string option \<Rightarrow> int option \<Rightarrow> json" where
  "approval_parameter run_id candidate_id baseline expected =
     JObject [(''action'', JString ''promote_baseline''), (''schedule_run_id'', JString (str_uuid run_id)),
       (''candidate_schedule_version_id'', JString (str_uuid candidate_id)),
       (''expected_baseline_schedule_version'', json_opt JString baseline),
       (''expected_resource_version'', json_opt JInt expected)]"

definition consequence_json :: "string \<Rightarrow> json" where
  "consequence_json summary = JObject [(''consequence_summary'', JString summary)]"

definition str_opt_uuid :: "uuid option \<Rightarrow> string" where
  "str_opt_uuid u = (case u of None \<Rightarrow> ''None'' | Some x \<Rightarrow> str_uuid x)"

definition consequence_text :: "uuid \<Rightarrow> string option \<Rightarrow> uuid option \<Rightarrow> nat \<Rightarrow> string" where
  "consequence_text candidate_id baseline scenario_version n =
     ''Candidate schedule version '' @ str_uuid candidate_id @ ''; baseline '' @
     (if baseline \<in> {None, Some []} then ''no current baseline'' else get_or [] baseline) @
     ''; scenario version '' @ str_opt_uuid scenario_version @ ''; '' @ str_nat n @ '' candidate assignments.''"

section \<open>TX1: request\<close>

record request_approval_command =
  ra_site_id :: uuid
  ra_actor_id :: uuid
  ra_schedule_run_id :: uuid
  ra_expected_resource_version :: int
  ra_expected_baseline_schedule_version :: "string option"
  ra_request_effect_key :: string
  ra_request_id :: uuid
  ra_conversation_id :: uuid
  ra_agent_run_id :: "uuid option"
  ra_pending_payload :: "string list option"

definition current_baseline :: "uuid \<Rightarrow> 'x governed_store_scheme \<Rightarrow> string option \<times> int option" where
  "current_baseline site_id s = (case get_baseline site_id s of
      None \<Rightarrow> (None, None)
    | Some b \<Rightarrow> (Some (str_uuid (bl_schedule_version_id b)), Some (bl_resource_version b)))"

definition new_binding ::
  "hashing \<Rightarrow> request_approval_command \<Rightarrow> schedule_version_v1 \<Rightarrow> uuid \<Rightarrow> uuid \<Rightarrow> string option \<times> int option \<Rightarrow> string \<Rightarrow> string
   \<Rightarrow> instant \<Rightarrow> int \<Rightarrow> bool \<Rightarrow> approval_binding_v1" where
  "new_binding h c candidate version_id approval_id baseline parameter_hash consequence_hash now expiry enabled =
     \<lparr>ab_approval_id = approval_id, ab_state = ApprovalPending, ab_site_id = ra_site_id c,
      ab_initiated_by_actor_id = ra_actor_id c, ab_decided_by_actor_id = None,
      ab_conversation_id = ra_conversation_id c, ab_agent_run_id = ra_agent_run_id c,
      ab_schedule_run_id = ra_schedule_run_id c, ab_candidate_schedule_version_id = version_id,
      ab_scenario_version_id = sv_scenario_version_id candidate,
      ab_baseline_schedule_version = fst baseline, ab_baseline_resource_version = snd baseline,
      ab_parameter_hash = parameter_hash,
      ab_consequence_summary = consequence_text version_id (fst baseline) (sv_scenario_version_id candidate)
        (length (sv_assignments candidate)),
      ab_consequence_hash = consequence_hash, ab_checksum_algorithm = ''sha256'', ab_checksum_schema_version = ''rfc8785-v1'',
      ab_policy_version = derive_policy_version h enabled, ab_created_at = now, ab_expires_at = now + expiry,
      ab_decided_at = None, ab_consumed_at = None, ab_request_effect_key = ra_request_effect_key c, ab_resource_version = 1\<rparr>"

text \<open>One audit row about a binding; the fields every writer fills from the binding itself.\<close>

definition audit_of ::
  "approval_binding_v1 \<Rightarrow> uuid \<Rightarrow> uuid \<Rightarrow> uuid \<Rightarrow> uuid option \<Rightarrow> string \<Rightarrow> string option \<Rightarrow> evidence_ref_v1 list \<Rightarrow> instant
   \<Rightarrow> audit_envelope_v1" where
  "audit_of b audit_id attempt_id request_id decided_by outcome after evidence now =
     \<lparr>ae_audit_id = audit_id, ae_attempt_id = attempt_id, ae_request_id = request_id, ae_site_id = ab_site_id b,
      ae_initiated_by_actor_id = ab_initiated_by_actor_id b, ae_decided_by_actor_id = decided_by,
      ae_conversation_id = Some (ab_conversation_id b), ae_agent_run_id = ab_agent_run_id b,
      ae_approval_id = Some (ab_approval_id b), ae_schedule_run_id = Some (ab_schedule_run_id b),
      ae_outcome = outcome, ae_success = True, ae_effect_key = ab_request_effect_key b,
      ae_before_version = ab_baseline_schedule_version b, ae_after_version = after,
      ae_safe_summary = ab_consequence_summary b, ae_parameter_hash = ab_parameter_hash b,
      ae_consequence_hash = ab_consequence_hash b, ae_policy_version = ab_policy_version b,
      ae_evidence_refs = evidence, ae_occurred_at = now\<rparr>"

definition write_audit ::
  "approval_binding_v1 \<Rightarrow> uuid \<Rightarrow> uuid option \<Rightarrow> string \<Rightarrow> string option \<Rightarrow> evidence_ref_v1 list \<Rightarrow> instant
   \<Rightarrow> ('x governed_store_scheme, app_error, unit) action" where
  "write_audit b request_id decided_by outcome after evidence now =
     and_then uuid4 (\<lambda>audit_id.
     and_then uuid4 (\<lambda>attempt_id.
     audit_append (audit_of b audit_id attempt_id request_id decided_by outcome after evidence now)))"

definition request_approval ::
  "hashing \<Rightarrow> bool \<Rightarrow> int \<Rightarrow> request_approval_command
   \<Rightarrow> ('x governed_store_scheme, app_error, approval_binding_v1 \<times> executed_agent_run_v1) action" where
  "request_approval h enabled expiry c =
     and_then (raise_if (\<not> enabled) ApprovalNotGrantedError) (\<lambda>_.
     and_then (reading (get_run (ra_schedule_run_id c) (ra_site_id c))) (\<lambda>run. case run of
       None \<Rightarrow> raise CandidateNotFoundError
     | Some r \<Rightarrow>
         and_then (raise_if (rv_status r \<noteq> SolverCompleted) CandidateNotPromotableError) (\<lambda>_.
         and_then (raise_if (rv_resource_version r \<noteq> ra_expected_resource_version c)
            (StaleResourceVersionError (ra_expected_resource_version c) (rv_resource_version r))) (\<lambda>_.
         and_then (reading (get_candidate (ra_schedule_run_id c) (ra_site_id c))) (\<lambda>found. case found of
           None \<Rightarrow> raise CandidateNotPromotableError
         | Some candidate \<Rightarrow>
             and_then (raise_if (sv_feasible_solver_status candidate \<notin> {Some OPTIMAL, Some FEASIBLE}) CandidateNotPromotableError) (\<lambda>_.
             case sv_schedule_version_id candidate of
               None \<Rightarrow> raise CandidateNotPromotableError
             | Some version_id \<Rightarrow>
                 and_then (reading (approvals_for_run (ra_schedule_run_id c) (ra_site_id c))) (\<lambda>existing.
                 and_then (raise_if (\<exists>b \<in> set existing. ab_state b = ApprovalPending) ApprovalAlreadyPendingError) (\<lambda>_.
                 and_then (reading (current_baseline (ra_site_id c))) (\<lambda>baseline.
                 and_then (raise_if (fst baseline \<noteq> ra_expected_baseline_schedule_version c) StaleBaselineVersionError) (\<lambda>_.
                 and_then (reading st_now) (\<lambda>now.
                 and_then uuid4 (\<lambda>approval_id.
                 and_then (digest_of h (approval_parameter (ra_schedule_run_id c) version_id (fst baseline)
                             (Some (ra_expected_resource_version c)))) (\<lambda>parameter_hash.
                 and_then (digest_of h (consequence_json (consequence_text version_id (fst baseline)
                             (sv_scenario_version_id candidate) (length (sv_assignments candidate))))) (\<lambda>consequence_hash.
                 let binding = new_binding h c candidate version_id approval_id baseline parameter_hash consequence_hash now expiry enabled in
                 and_then (create_pending binding (ra_pending_payload c)) (\<lambda>_.
                 and_then (write_audit binding (ra_request_id c) None ''approval_requested'' None (sv_evidence_refs candidate) now) (\<lambda>_.
                 and_then (case ra_agent_run_id c of
                     Some agent_run_id \<Rightarrow> pause_agent_run_for_approval (ra_site_id c) agent_run_id binding (ra_request_id c)
                   | None \<Rightarrow> append_approval_activity (ra_site_id c) binding (ra_actor_id c) (ra_request_id c) None
                               (ab_created_at binding) None) (\<lambda>activity.
                 ret (binding, activity))))))))))))))))))"

section \<open>Revalidation\<close>

datatype revalidation_outcome = StillValid | RevalidatedExpired | RevalidatedStale

definition revalidate_binding ::
  "hashing \<Rightarrow> approval_binding_v1 \<Rightarrow> instant \<Rightarrow> bool
   \<Rightarrow> ('x governed_store_scheme, app_error, revalidation_outcome \<times> schedule_version_v1 option) action" where
  "revalidate_binding h b now enabled =
     and_then (reading (get_candidate (ab_schedule_run_id b) (ab_site_id b))) (\<lambda>candidate.
     if now \<ge> ab_expires_at b then ret (RevalidatedExpired, candidate)
     else
       and_then (reading (get_run (ab_schedule_run_id b) (ab_site_id b))) (\<lambda>run.
       and_then (reading (current_baseline (ab_site_id b))) (\<lambda>baseline.
       and_then (digest_of h (consequence_json (ab_consequence_summary b))) (\<lambda>consequence_hash.
       and_then (digest_of h (approval_parameter (ab_schedule_run_id b) (ab_candidate_schedule_version_id b)
                   (ab_baseline_schedule_version b) (map_option rv_resource_version run))) (\<lambda>parameter_hash.
       and_then (reading (has_active_membership (ab_initiated_by_actor_id b) (ab_site_id b))) (\<lambda>active_initiator.
       let valid_candidate = (case candidate of
             None \<Rightarrow> False
           | Some c \<Rightarrow> sv_schedule_version_id c = Some (ab_candidate_schedule_version_id b)
                      \<and> sv_feasible_solver_status c \<in> {Some OPTIMAL, Some FEASIBLE});
           valid = (active_initiator \<and> valid_candidate \<and> run \<noteq> None
             \<and> fst baseline = ab_baseline_schedule_version b \<and> snd baseline = ab_baseline_resource_version b
             \<and> parameter_hash = ab_parameter_hash b \<and> consequence_hash = ab_consequence_hash b
             \<and> derive_policy_version h enabled = ab_policy_version b)
       in ret (if valid then StillValid else RevalidatedStale, candidate)))))))"

section \<open>TX2: promotion\<close>

record promotion_result_v1 =
  pm_binding :: approval_binding_v1
  pm_baseline :: baseline_row
  pm_activity :: executed_agent_run_v1
  pm_resume :: "(uuid \<times> string) option"

text \<open>The conversation's part: an event on the planner's path, a resumed agent run on the agent's.\<close>

definition notify_consumed ::
  "approval_binding_v1 \<Rightarrow> approval_binding_v1 \<Rightarrow> uuid \<Rightarrow> uuid \<Rightarrow> instant
   \<Rightarrow> ('x governed_store_scheme, app_error, executed_agent_run_v1 \<times> (uuid \<times> string) option) action" where
  "notify_consumed b consumed actor_id request_id occurred_at = (case ab_agent_run_id b of
      None \<Rightarrow> and_then (append_approval_activity (ab_site_id b) consumed actor_id request_id None occurred_at None)
                (\<lambda>activity. ret (activity, None))
    | Some agent_run_id \<Rightarrow>
        and_then (reading (\<lambda>s. case find_approval (ab_approval_id b) (ab_site_id b) s of
            None \<Rightarrow> None | Some a \<Rightarrow> ap_pending_payload a)) (\<lambda>payload. case payload of
          Some [call] \<Rightarrow>
            and_then (resume_agent_run_for_approval (ab_site_id b) agent_run_id consumed request_id occurred_at)
              (\<lambda>activity. ret (activity, Some (agent_run_id, call)))
        | _ \<Rightarrow> raise ApprovalPayloadUnreadableError))"

text \<open>The rest of TX2 once the binding is consumed and the baseline moved; the proposal is written last.\<close>

definition complete_promotion ::
  "approval_binding_v1 \<Rightarrow> approval_binding_v1 \<Rightarrow> baseline_row \<Rightarrow> schedule_version_v1 \<Rightarrow> uuid \<Rightarrow> uuid \<Rightarrow> instant
   \<Rightarrow> ('x governed_store_scheme, app_error, promotion_result_v1) action" where
  "complete_promotion b consumed baseline version actor_id request_id occurred_at =
     and_then (write_audit b request_id (Some actor_id) ''approval_consumed''
                 (Some (str_uuid (ab_candidate_schedule_version_id b))) (sv_evidence_refs version) occurred_at) (\<lambda>_.
     and_then (notify_consumed b consumed actor_id request_id occurred_at) (\<lambda>(activity, resume).
     and_then (mark_applied (ab_site_id b) (ab_candidate_schedule_version_id b)) (\<lambda>_.
     ret \<lparr>pm_binding = consumed, pm_baseline = baseline, pm_activity = activity, pm_resume = resume\<rparr>)))"

definition promote_baseline ::
  "approval_binding_v1 \<Rightarrow> schedule_version_v1 option \<Rightarrow> uuid \<Rightarrow> uuid \<Rightarrow> instant
   \<Rightarrow> ('x governed_store_scheme, app_error, promotion_result_v1) action" where
  "promote_baseline b candidate actor_id request_id occurred_at =
     and_then (raise_if (ab_state b \<noteq> ApprovalPending) (AssertionError ''promote_baseline requires a pending validated binding'')) (\<lambda>_.
     case candidate of
       None \<Rightarrow> raise (AssertionError ''promote_baseline requires the candidate revalidation resolved'')
     | Some version \<Rightarrow>
         and_then (consume_approval (ab_approval_id b) (ab_site_id b) actor_id occurred_at (ab_resource_version b)) (\<lambda>closed. case closed of
           None \<Rightarrow> raise PostWriteApprovalNotPendingError
         | Some consumed \<Rightarrow>
             and_then (promote (ab_site_id b) (ab_candidate_schedule_version_id b) actor_id occurred_at
                         (ab_baseline_resource_version b)) (\<lambda>promoted. case promoted of
               None \<Rightarrow> raise BaselineConcurrentlyMovedError
             | Some baseline \<Rightarrow> complete_promotion b consumed baseline version actor_id request_id occurred_at)))"

section \<open>TX3: decision\<close>

datatype decision = Approve | Reject

record decide_approval_command =
  da_site_id :: uuid
  da_actor_id :: uuid
  da_approval_id :: uuid
  da_decision :: decision
  da_expected_resource_version :: int
  da_request_id :: uuid

record decision_result_v1 =
  dr_outcome :: approval_state
  dr_binding :: approval_binding_v1
  dr_activity :: executed_agent_run_v1
  dr_baseline :: "baseline_row option"
  dr_resume :: "(uuid \<times> string) option"

definition approval_reason :: "approval_state \<Rightarrow> string" where
  "approval_reason state = (case state of
      ApprovalRejected \<Rightarrow> ''approval_rejected'' | ApprovalExpired \<Rightarrow> ''approval_expired''
    | ApprovalStale \<Rightarrow> ''approval_stale'' | ApprovalConsumed \<Rightarrow> ''approval_consumed''
    | ApprovalPending \<Rightarrow> ''approval_pending'')"

definition close_without_effect ::
  "decide_approval_command \<Rightarrow> approval_binding_v1 \<Rightarrow> approval_state \<Rightarrow> schedule_version_v1 option \<Rightarrow> instant
   \<Rightarrow> ('x governed_store_scheme, app_error, decision_result_v1) action" where
  "close_without_effect c b outcome candidate now =
     and_then (terminalize (ab_approval_id b) (da_site_id c) outcome (da_actor_id c) now (ab_resource_version b)) (\<lambda>closed. case closed of
       None \<Rightarrow> raise ConcurrentDecisionError
     | Some terminal \<Rightarrow>
         and_then (case ab_agent_run_id terminal of
             None \<Rightarrow> ret ()
           | Some agent_run_id \<Rightarrow> cancel_agent_run_for_approval (da_site_id c) agent_run_id terminal (approval_reason outcome)) (\<lambda>_.
         and_then (write_audit terminal (da_request_id c) (Some (da_actor_id c)) (approval_reason outcome) None
                     (case candidate of None \<Rightarrow> [] | Some v \<Rightarrow> sv_evidence_refs v) now) (\<lambda>_.
         and_then (append_approval_activity (da_site_id c) terminal (da_actor_id c) (da_request_id c) (ab_agent_run_id terminal) now
                     (if ab_agent_run_id terminal \<noteq> None then Some AgentCancelled else None)) (\<lambda>activity.
         ret \<lparr>dr_outcome = outcome, dr_binding = terminal, dr_activity = activity, dr_baseline = None, dr_resume = None\<rparr>))))"

definition decide_approval ::
  "hashing \<Rightarrow> bool \<Rightarrow> decide_approval_command \<Rightarrow> ('x governed_store_scheme, app_error, decision_result_v1) action" where
  "decide_approval h enabled c =
     and_then (raise_if (\<not> enabled) ApprovalNotGrantedError) (\<lambda>_.
     and_then (reading (get_approval (da_approval_id c) (da_site_id c))) (\<lambda>found. case found of
       None \<Rightarrow> raise ApprovalNotFoundError
     | Some b \<Rightarrow>
         and_then (raise_if (ab_state b \<noteq> ApprovalPending) ApprovalNotPendingError) (\<lambda>_.
         and_then (raise_if (ab_resource_version b \<noteq> da_expected_resource_version c)
            (StaleResourceVersionError (da_expected_resource_version c) (ab_resource_version b))) (\<lambda>_.
         and_then (reading st_now) (\<lambda>now.
         and_then (revalidate_binding h b now enabled) (\<lambda>(check, candidate).
         case check of
           StillValid \<Rightarrow>
             (case da_decision c of
                Approve \<Rightarrow>
                  and_then (catching (promote_baseline b candidate (da_actor_id c) (da_request_id c) now)
                      (\<lambda>e. if e \<in> {ApprovalNotPendingError, PostWriteApprovalNotPendingError, ConcurrentDecisionError}
                           then Some (raise PostWriteApprovalNotPendingError) else None)) (\<lambda>promoted.
                  ret \<lparr>dr_outcome = ApprovalConsumed, dr_binding = pm_binding promoted, dr_activity = pm_activity promoted,
                       dr_baseline = Some (pm_baseline promoted), dr_resume = pm_resume promoted\<rparr>)
              | Reject \<Rightarrow> close_without_effect c b ApprovalRejected candidate now)
         | RevalidatedExpired \<Rightarrow> close_without_effect c b ApprovalExpired candidate now
         | RevalidatedStale \<Rightarrow> close_without_effect c b ApprovalStale candidate now))))))"

end
