(* ===== verification/Approval_Properties.thy ===== *)
theory Approval_Properties
  imports Approvals Run_Fencing
begin

text \<open>
  What an approval guarantees. First the effect of each statement that returns; then, for the whole
  decision, that a promotion happens only when nothing the approver saw has drifted, that it moves the
  baseline by exactly one version, and that a decided approval can never be decided again.
\<close>

section \<open>Effects of the statements\<close>

lemma close_approval_InrD:
  assumes "close_approval aid site expected f s = (Inr r, s')"
  shows "r = map_option (\<lambda>a. f (ap_binding a)) (find (\<lambda>a. ab_approval_id (ap_binding a) = aid \<and> ab_site_id (ap_binding a) = site
            \<and> ab_state (ap_binding a) = ApprovalPending \<and> ab_resource_version (ap_binding a) = expected) (gv_approvals s))"
    and "s' = s\<lparr>gv_approvals := update_rows (\<lambda>a. ab_approval_id (ap_binding a) = aid \<and> ab_site_id (ap_binding a) = site
            \<and> ab_state (ap_binding a) = ApprovalPending \<and> ab_resource_version (ap_binding a) = expected)
            (\<lambda>a. a\<lparr>ap_binding := f (ap_binding a)\<rparr>) (gv_approvals s)\<rparr>"
  using assms by (simp_all add: close_approval_def Let_def action_defs)

lemma promote_InrD:
  assumes "promote site v actor t expected s = (Inr (Some row), s')"
  shows "bl_site_id row = site \<and> bl_schedule_version_id row = v
    \<and> ((expected = None \<and> get_baseline site s = None \<and> bl_resource_version row = 1 \<and> s' = s\<lparr>gv_baselines := gv_baselines s @ [row]\<rparr>)
      \<or> (\<exists>b. get_baseline site s = Some b \<and> expected = Some (bl_resource_version b) \<and> bl_resource_version row = bl_resource_version b + 1
           \<and> s' = s\<lparr>gv_baselines := update_rows (\<lambda>r. bl_site_id r = site \<and> bl_resource_version r = bl_resource_version b) (\<lambda>_. row) (gv_baselines s)\<rparr>))"
proof -
  have site: "bl_site_id b = site" if "get_baseline site s = Some b" for b
    using find_SomeD that unfolding get_baseline_def by fastforce
  show ?thesis
    using assms site
    by (auto simp: promote_def Let_def action_defs split: option.splits if_splits)
qed

lemma find_append_None: "find p xs = None \<Longrightarrow> find p (xs @ ys) = find p ys"
  by (induction xs) (auto split: if_splits)

lemma get_baseline_promoted:
  assumes "promote site v actor t expected s = (Inr (Some row), s')"
  shows "get_baseline site s' = Some row"
  using promote_InrD [OF assms]
proof (elim conjE disjE exE)
  assume "bl_site_id row = site" "get_baseline site s = None" "s' = s\<lparr>gv_baselines := gv_baselines s @ [row]\<rparr>"
  then show ?thesis unfolding get_baseline_def by (simp add: find_append_None)
next
  fix b assume row: "bl_site_id row = site" and b: "get_baseline site s = Some b"
    and s': "s' = s\<lparr>gv_baselines := update_rows (\<lambda>r. bl_site_id r = site \<and> bl_resource_version r = bl_resource_version b) (\<lambda>_. row) (gv_baselines s)\<rparr>"
  have "find (\<lambda>b. bl_site_id b = site) (update_rows (\<lambda>r. bl_site_id r = site \<and> bl_resource_version r = bl_resource_version b) (\<lambda>_. row) xs) = Some row"
    if "find (\<lambda>b. bl_site_id b = site) xs = Some b" for xs
    using that row by (induction xs) (auto simp: update_rows_def split: if_splits)
  then show ?thesis using b unfolding s' by (simp add: get_baseline_def)
qed

lemma write_audit_InrD:
  assumes "write_audit b req decided outcome after ev now s = (Inr x, s')"
  shows "\<exists>i j n. s' = s\<lparr>st_fresh := n, gv_audit := gv_audit s @ [audit_of b i j req decided outcome after ev now]\<rparr>"
  using assms by (auto simp: write_audit_def audit_append_def action_defs uuid4_def split: if_splits)

text \<open>Conversation and proposal statements leave approvals, baselines, audit and runs alone.\<close>

definition decision_tables :: "'x governed_store_scheme \<Rightarrow> approval_row list \<times> baseline_row list \<times> audit_envelope_v1 list
    \<times> version_row list \<times> run_row list \<times> instant" where
  "decision_tables s = (gv_approvals s, gv_baselines s, gv_audit s, st_versions s, st_runs s, st_now s)"

lemma keeps_uuid4: "obeys (keeps decision_tables) uuid4"
  by (simp add: obeys_def keeps_def uuid4_def decision_tables_def)

lemma keeps_append_approval_activity: "obeys (keeps decision_tables) (append_approval_activity site b actor req agent t st)"
  unfolding append_approval_activity_def append_activity_def lock_conversation_def Let_def
  by (intro keep_rules keeps_uuid4) (simp_all add: decision_tables_def)

lemma keeps_require_agent_status: "obeys (keeps decision_tables) (require_agent_status site agent st)"
  unfolding require_agent_status_def by (intro keep_rules)

lemma keeps_set_agent_run: "obeys (keeps decision_tables) (set_agent_run site agent f)"
  unfolding set_agent_run_def by (intro keep_rules) (simp add: decision_tables_def)

lemma keeps_resume_agent_run: "obeys (keeps decision_tables) (resume_agent_run_for_approval site agent b req t)"
  unfolding resume_agent_run_for_approval_def lock_conversation_def
  by (intro keep_rules keeps_append_approval_activity keeps_require_agent_status keeps_set_agent_run)

lemma keeps_pause_agent_run: "obeys (keeps decision_tables) (pause_agent_run_for_approval site agent b req)"
  unfolding pause_agent_run_for_approval_def lock_conversation_def
  by (intro keep_rules keeps_append_approval_activity keeps_require_agent_status keeps_set_agent_run)

lemma keeps_cancel_agent_run: "obeys (keeps decision_tables) (cancel_agent_run_for_approval site agent b reason)"
  unfolding cancel_agent_run_for_approval_def lock_conversation_def
  by (intro keep_rules keeps_require_agent_status keeps_set_agent_run)

lemma keeps_mark_applied: "obeys (keeps decision_tables) (mark_applied site v)"
  unfolding mark_applied_def update_proposal_def
  by (auto intro!: keep_rules simp: decision_tables_def split: option.splits)

lemmas keeps_conversation = keeps_append_approval_activity keeps_resume_agent_run keeps_pause_agent_run
  keeps_cancel_agent_run keeps_mark_applied keeps_uuid4

section \<open>The promotion\<close>

definition pending_row :: "uuid \<Rightarrow> uuid \<Rightarrow> int \<Rightarrow> approval_row \<Rightarrow> bool" where
  "pending_row aid site version a \<longleftrightarrow> ab_approval_id (ap_binding a) = aid \<and> ab_site_id (ap_binding a) = site
     \<and> ab_state (ap_binding a) = ApprovalPending \<and> ab_resource_version (ap_binding a) = version"

definition consumed_binding :: "uuid \<Rightarrow> instant \<Rightarrow> approval_binding_v1 \<Rightarrow> approval_binding_v1" where
  "consumed_binding actor t b = b\<lparr>ab_state := ApprovalConsumed, ab_decided_by_actor_id := Some actor, ab_decided_at := Some t,
     ab_consumed_at := Some t, ab_resource_version := ab_resource_version b + 1\<rparr>"

lemma consume_approval_InrD:
  assumes "consume_approval aid site actor t v s = (Inr r, s')"
  shows "r = map_option (\<lambda>a. consumed_binding actor t (ap_binding a)) (find (pending_row aid site v) (gv_approvals s))"
    and "s' = s\<lparr>gv_approvals := update_rows (pending_row aid site v)
               (\<lambda>a. a\<lparr>ap_binding := consumed_binding actor t (ap_binding a)\<rparr>) (gv_approvals s)\<rparr>"
  using close_approval_InrD [OF assms [unfolded consume_approval_def]]
  by (simp_all add: consumed_binding_def pending_row_def [abs_def])

lemma keeps_notify_consumed: "obeys (keeps decision_tables) (notify_consumed b consumed actor req t)"
  unfolding notify_consumed_def
  by (auto intro!: keep_rules keeps_conversation split: option.splits list.splits)

lemma complete_promotion_InrD:
  assumes "complete_promotion b consumed row version actor req t s = (Inr r, s')"
  shows "pm_binding r = consumed" "pm_baseline r = row"
    "\<exists>i j. decision_tables s' = (gv_approvals s, gv_baselines s,
       gv_audit s @ [audit_of b i j req (Some actor) ''approval_consumed''
         (Some (str_uuid (ab_candidate_schedule_version_id b))) (sv_evidence_refs version) t], st_versions s, st_runs s, st_now s)"
proof -
  obtain x s1 where aud: "write_audit b req (Some actor) ''approval_consumed''
       (Some (str_uuid (ab_candidate_schedule_version_id b))) (sv_evidence_refs version) t s = (Inr x, s1)"
    and rest: "and_then (notify_consumed b consumed actor req t) (\<lambda>(activity, resume).
     and_then (mark_applied (ab_site_id b) (ab_candidate_schedule_version_id b)) (\<lambda>_.
     ret \<lparr>pm_binding = consumed, pm_baseline = row, pm_activity = activity, pm_resume = resume\<rparr>)) s1 = (Inr r, s')"
    using and_then_InrD [OF assms [unfolded complete_promotion_def]] by blast
  obtain act res s2 s3 y where not: "notify_consumed b consumed actor req t s1 = (Inr (act, res), s2)"
    and app: "mark_applied (ab_site_id b) (ab_candidate_schedule_version_id b) s2 = (Inr y, s3)"
    and r: "r = \<lparr>pm_binding = consumed, pm_baseline = row, pm_activity = act, pm_resume = res\<rparr>" "s' = s3"
    using rest by (auto dest!: and_then_InrD ret_InrD)
  show "pm_binding r = consumed" "pm_baseline r = row" using r by simp_all
  have "decision_tables s' = decision_tables s1"
    using keepsD [OF keeps_notify_consumed not] keepsD [OF keeps_mark_applied app] r(2) by simp
  moreover obtain i j n where "s1 = s\<lparr>st_fresh := n, gv_audit := gv_audit s @ [audit_of b i j req (Some actor) ''approval_consumed''
         (Some (str_uuid (ab_candidate_schedule_version_id b))) (sv_evidence_refs version) t]\<rparr>"
    using write_audit_InrD [OF aud] by blast
  ultimately show "\<exists>i j. decision_tables s' = (gv_approvals s, gv_baselines s,
       gv_audit s @ [audit_of b i j req (Some actor) ''approval_consumed''
         (Some (str_uuid (ab_candidate_schedule_version_id b))) (sv_evidence_refs version) t], st_versions s, st_runs s, st_now s)"
    by (intro exI [of _ i] exI [of _ j]) (simp add: decision_tables_def)
qed

text \<open>Everything a promotion does to the decision tables, in one relation.\<close>

definition promoted ::
  "approval_binding_v1 \<Rightarrow> uuid \<Rightarrow> instant \<Rightarrow> baseline_row \<Rightarrow> 'x governed_store_scheme \<Rightarrow> 'x governed_store_scheme \<Rightarrow> bool" where
  "promoted b actor t row s s' \<longleftrightarrow>
     gv_approvals s' = update_rows (pending_row (ab_approval_id b) (ab_site_id b) (ab_resource_version b))
       (\<lambda>a. a\<lparr>ap_binding := consumed_binding actor t (ap_binding a)\<rparr>) (gv_approvals s)
     \<and> bl_site_id row = ab_site_id b \<and> bl_schedule_version_id row = ab_candidate_schedule_version_id b
     \<and> get_baseline (ab_site_id b) s' = Some row
     \<and> ((ab_baseline_resource_version b = None \<and> get_baseline (ab_site_id b) s = None \<and> bl_resource_version row = 1)
        \<or> (\<exists>old. get_baseline (ab_site_id b) s = Some old \<and> ab_baseline_resource_version b = Some (bl_resource_version old)
              \<and> bl_resource_version row = bl_resource_version old + 1))
     \<and> (\<forall>site. site \<noteq> ab_site_id b \<longrightarrow> get_baseline site s' = get_baseline site s)
     \<and> (\<exists>e. gv_audit s' = gv_audit s @ [e] \<and> ae_outcome e = ''approval_consumed'' \<and> ae_effect_key e = ab_request_effect_key b
           \<and> ae_before_version e = ab_baseline_schedule_version b
           \<and> ae_after_version e = Some (str_uuid (ab_candidate_schedule_version_id b)) \<and> ae_decided_by_actor_id e = Some actor)
     \<and> st_runs s' = st_runs s \<and> st_versions s' = st_versions s"

lemma get_baseline_other:
  assumes "promote site v actor t expected s = (Inr (Some row), s')" and "other \<noteq> site"
  shows "get_baseline other s' = get_baseline other s"
proof -
  have upd: "find (\<lambda>b. bl_site_id b = other) (update_rows (\<lambda>r. bl_site_id r = site \<and> bl_resource_version r = n) (\<lambda>_. row) xs)
      = find (\<lambda>b. bl_site_id b = other) xs" if "bl_site_id row = site" for n xs
    using that assms(2) by (induction xs) (auto simp: update_rows_def)
  have app: "find (\<lambda>b. bl_site_id b = other) (xs @ [row]) = find (\<lambda>b. bl_site_id b = other) xs" if "bl_site_id row = site" for xs
    using that assms(2) by (induction xs) auto
  show ?thesis using promote_InrD [OF assms(1)] upd app by (auto simp: get_baseline_def)
qed

lemma promote_baseline_InrD:
  assumes "promote_baseline b candidate actor req t s = (Inr r, s')"
  shows "ab_state b = ApprovalPending" "promoted b actor t (pm_baseline r) s s'"
    "\<exists>a. find (pending_row (ab_approval_id b) (ab_site_id b) (ab_resource_version b)) (gv_approvals s) = Some a
       \<and> pm_binding r = consumed_binding actor t (ap_binding a)"
proof -
  show "ab_state b = ApprovalPending"
    using assms by (auto simp: promote_baseline_def dest!: and_then_InrD raise_if_InrD)
  obtain version where cand: "candidate = Some version"
    using assms by (cases candidate) (auto simp: promote_baseline_def raise_def dest!: and_then_InrD)
  obtain closed s1 where con: "consume_approval (ab_approval_id b) (ab_site_id b) actor t (ab_resource_version b) s = (Inr closed, s1)"
    and rest1: "(case closed of None \<Rightarrow> raise PostWriteApprovalNotPendingError | Some consumed \<Rightarrow>
      and_then (promote (ab_site_id b) (ab_candidate_schedule_version_id b) actor t (ab_baseline_resource_version b)) (\<lambda>promoted. case promoted of
               None \<Rightarrow> raise BaselineConcurrentlyMovedError
             | Some baseline \<Rightarrow> complete_promotion b consumed baseline version actor req t)) s1 = (Inr r, s')"
    using assms unfolding promote_baseline_def cand by (auto dest!: and_then_InrD raise_if_InrD)
  note c = consume_approval_InrD [OF con]
  obtain a where a: "find (pending_row (ab_approval_id b) (ab_site_id b) (ab_resource_version b)) (gv_approvals s) = Some a"
    and closed: "closed = Some (consumed_binding actor t (ap_binding a))"
    using c(1) rest1 by (auto simp: raise_def split: option.splits)
  obtain row u where pro: "promote (ab_site_id b) (ab_candidate_schedule_version_id b) actor t (ab_baseline_resource_version b) s1 = (Inr (Some row), u)"
    and fin: "complete_promotion b (consumed_binding actor t (ap_binding a)) row version actor req t u = (Inr r, s')"
    using rest1 unfolding closed by (auto simp: raise_def dest!: and_then_InrD [of "promote _ _ _ _ _"] split: option.splits)
  note f = complete_promotion_InrD [OF fin] and p = promote_InrD [OF pro]
  show "\<exists>a. find (pending_row (ab_approval_id b) (ab_site_id b) (ab_resource_version b)) (gv_approvals s) = Some a
       \<and> pm_binding r = consumed_binding actor t (ap_binding a)" using a f(1) by blast
  have s1: "get_baseline i s1 = get_baseline i s" "gv_audit s1 = gv_audit s" for i
    using c(2) by (simp_all add: get_baseline_def)
  have u: "gv_approvals u = gv_approvals s1" "gv_audit u = gv_audit s1" "st_runs u = st_runs s1" "st_versions u = st_versions s1"
    using p by auto
  obtain i j where tables: "decision_tables s' = (gv_approvals u, gv_baselines u,
       gv_audit u @ [audit_of b i j req (Some actor) ''approval_consumed''
         (Some (str_uuid (ab_candidate_schedule_version_id b))) (sv_evidence_refs version) t], st_versions u, st_runs u, st_now u)"
    using f(3) by blast
  then have bl: "get_baseline i s' = get_baseline i u" for i by (simp add: get_baseline_def decision_tables_def)
  have "get_baseline site s' = get_baseline site s" if "site \<noteq> ab_site_id b" for site
    using get_baseline_other [OF pro that] bl s1(1) by simp
  then show "promoted b actor t (pm_baseline r) s s'"
    unfolding promoted_def f(2)
    using tables get_baseline_promoted [OF pro] bl p s1 u c(2)
    by (auto simp: decision_tables_def audit_of_def)
qed

section \<open>The decision\<close>

text \<open>Nothing the approval was bound to has changed.\<close>

definition binding_current :: "hashing \<Rightarrow> bool \<Rightarrow> approval_binding_v1 \<Rightarrow> 'x governed_store_scheme \<Rightarrow> bool" where
  "binding_current h enabled b s \<longleftrightarrow>
     st_now s < ab_expires_at b
     \<and> has_active_membership (ab_initiated_by_actor_id b) (ab_site_id b) s
     \<and> (\<exists>v. get_candidate (ab_schedule_run_id b) (ab_site_id b) s = Some v
          \<and> sv_schedule_version_id v = Some (ab_candidate_schedule_version_id b)
          \<and> sv_feasible_solver_status v \<in> {Some OPTIMAL, Some FEASIBLE})
     \<and> (\<exists>r. get_run (ab_schedule_run_id b) (ab_site_id b) s = Some r
          \<and> contract_digest (hs_sha256 h) (hs_float_text h) (approval_parameter (ab_schedule_run_id b)
                (ab_candidate_schedule_version_id b) (ab_baseline_schedule_version b) (Some (rv_resource_version r)))
              = Some (''sha256'', ''rfc8785-v1'', ab_parameter_hash b))
     \<and> current_baseline (ab_site_id b) s = (ab_baseline_schedule_version b, ab_baseline_resource_version b)
     \<and> contract_digest (hs_sha256 h) (hs_float_text h) (consequence_json (ab_consequence_summary b))
          = Some (''sha256'', ''rfc8785-v1'', ab_consequence_hash b)
     \<and> derive_policy_version h enabled = ab_policy_version b"

lemma digest_of_InrD:
  "digest_of h v s = (Inr d, s') \<Longrightarrow> contract_digest (hs_sha256 h) (hs_float_text h) v = Some (''sha256'', ''rfc8785-v1'', d) \<and> s' = s"
  by (auto simp: digest_of_def contract_digest_def ret_def raise_def split: option.splits)

lemma digest_of_cases:
  obtains "digest_of h v s = (Inl (ValueError ''RFC 8785 integers must be exactly representable''), s)"
  | d where "digest_of h v s = (Inr d, s)" "contract_digest (hs_sha256 h) (hs_float_text h) v = Some (''sha256'', ''rfc8785-v1'', d)"
  by (cases "serialize (hs_float_text h) v") (auto simp: digest_of_def contract_digest_def ret_def raise_def)

lemma keeps_revalidate: "obeys (keeps (\<lambda>s. s)) (revalidate_binding h b now enabled)"
  unfolding revalidate_binding_def Let_def digest_of_def
  by (auto intro!: keep_rules split: option.splits)

lemma revalidate_valid:
  assumes "revalidate_binding h b (st_now s) enabled s = (Inr (StillValid, candidate), s')"
  shows "binding_current h enabled b s \<and> candidate = get_candidate (ab_schedule_run_id b) (ab_site_id b) s"
proof -
  have live: "st_now s < ab_expires_at b"
    using assms by (auto simp: revalidate_binding_def action_defs split: if_splits)
  let ?run = "get_run (ab_schedule_run_id b) (ab_site_id b) s"
  let ?cons = "consequence_json (ab_consequence_summary b)"
  let ?par = "approval_parameter (ab_schedule_run_id b) (ab_candidate_schedule_version_id b)
        (ab_baseline_schedule_version b) (map_option rv_resource_version ?run)"
  obtain d1 where d1: "digest_of h ?cons s = (Inr d1, s)"
    "contract_digest (hs_sha256 h) (hs_float_text h) ?cons = Some (''sha256'', ''rfc8785-v1'', d1)"
    using assms live by (cases rule: digest_of_cases [of h ?cons s]) (auto simp: revalidate_binding_def action_defs)
  obtain d2 where d2: "digest_of h ?par s = (Inr d2, s)"
    "contract_digest (hs_sha256 h) (hs_float_text h) ?par = Some (''sha256'', ''rfc8785-v1'', d2)"
    using assms live d1 by (cases rule: digest_of_cases [of h ?par s]) (auto simp: revalidate_binding_def action_defs)
  show ?thesis
    using assms live d1 d2 unfolding binding_current_def revalidate_binding_def Let_def
    by (auto simp: action_defs prod_eq_iff split: option.splits if_splits)
qed

definition closed_binding :: "approval_state \<Rightarrow> uuid \<Rightarrow> instant \<Rightarrow> approval_binding_v1 \<Rightarrow> approval_binding_v1" where
  "closed_binding st actor t b = b\<lparr>ab_state := st, ab_decided_by_actor_id := Some actor, ab_decided_at := Some t,
     ab_resource_version := ab_resource_version b + 1\<rparr>"

lemma close_without_effect_InrD:
  assumes "close_without_effect c b outcome candidate now s = (Inr r, s')"
  shows "dr_outcome r = outcome" "gv_baselines s' = gv_baselines s" "st_runs s' = st_runs s" "st_versions s' = st_versions s"
    "gv_approvals s' = update_rows (pending_row (ab_approval_id b) (da_site_id c) (ab_resource_version b))
       (\<lambda>a. a\<lparr>ap_binding := closed_binding outcome (da_actor_id c) now (ap_binding a)\<rparr>) (gv_approvals s)"
proof -
  obtain closed s1 where ter: "terminalize (ab_approval_id b) (da_site_id c) outcome (da_actor_id c) now (ab_resource_version b) s = (Inr closed, s1)"
    using assms unfolding close_without_effect_def by (blast dest: and_then_InrD)
  have s1: "s1 = s\<lparr>gv_approvals := update_rows (pending_row (ab_approval_id b) (da_site_id c) (ab_resource_version b))
       (\<lambda>a. a\<lparr>ap_binding := closed_binding outcome (da_actor_id c) now (ap_binding a)\<rparr>) (gv_approvals s)\<rparr>"
    using close_approval_InrD(2) [OF ter [unfolded terminalize_def]]
    by (simp add: closed_binding_def pending_row_def [abs_def])
  obtain terminal where closed: "closed = Some terminal"
    using assms ter by (cases closed) (auto simp: close_without_effect_def and_then_def [of "terminalize _ _ _ _ _ _"] raise_def)
  let ?cancel = "case ab_agent_run_id terminal of None \<Rightarrow> ret () | Some agent_run_id \<Rightarrow>
        cancel_agent_run_for_approval (da_site_id c) agent_run_id terminal (approval_reason outcome)"
  let ?audit = "write_audit terminal (da_request_id c) (Some (da_actor_id c)) (approval_reason outcome) None
        (case candidate of None \<Rightarrow> [] | Some v \<Rightarrow> sv_evidence_refs v) now"
  let ?activity = "append_approval_activity (da_site_id c) terminal (da_actor_id c) (da_request_id c) (ab_agent_run_id terminal) now
        (if ab_agent_run_id terminal \<noteq> None then Some AgentCancelled else None)"
  have "and_then ?cancel (\<lambda>_. and_then ?audit (\<lambda>_. and_then ?activity (\<lambda>activity.
      ret \<lparr>dr_outcome = outcome, dr_binding = terminal, dr_activity = activity, dr_baseline = None, dr_resume = None\<rparr>))) s1 = (Inr r, s')"
    using assms ter unfolding close_without_effect_def closed by (simp add: and_then_def [of "terminalize _ _ _ _ _ _"])
  then obtain x s2 y s3 act s4 where can: "?cancel s1 = (Inr x, s2)" and aud: "?audit s2 = (Inr y, s3)" and act: "?activity s3 = (Inr act, s4)"
    and "r = \<lparr>dr_outcome = outcome, dr_binding = terminal, dr_activity = act, dr_baseline = None, dr_resume = None\<rparr> \<and> s' = s4"
    by (elim and_then_InrE) (rule that, assumption+, simp add: ret_def)
  then have app: "?activity s3 = (Inr act, s')" and r: "dr_outcome r = outcome"
    by auto
  show "dr_outcome r = outcome" by (fact r)
  have "decision_tables s2 = decision_tables s1"
    using can keepsD [OF keeps_cancel_agent_run] by (auto simp: ret_def split: option.splits)
  moreover have "decision_tables s' = decision_tables s3" using keepsD [OF keeps_append_approval_activity app] .
  ultimately show "gv_baselines s' = gv_baselines s" "st_runs s' = st_runs s" "st_versions s' = st_versions s"
    "gv_approvals s' = update_rows (pending_row (ab_approval_id b) (da_site_id c) (ab_resource_version b))
       (\<lambda>a. a\<lparr>ap_binding := closed_binding outcome (da_actor_id c) now (ap_binding a)\<rparr>) (gv_approvals s)"
    using write_audit_InrD [OF aud] s1 by (auto simp: decision_tables_def)
qed

lemma get_approval_ids: "get_approval aid site s = Some b \<Longrightarrow> ab_approval_id b = aid \<and> ab_site_id b = site"
  by (auto simp: get_approval_def find_approval_def dest: find_SomeD)

lemma decide_approval_InrD:
  assumes "decide_approval h enabled c s = (Inr r, s')"
  obtains b where "enabled" "get_approval (da_approval_id c) (da_site_id c) s = Some b" "ab_state b = ApprovalPending"
    "ab_resource_version b = da_expected_resource_version c"
    "(dr_outcome r = ApprovalConsumed \<and> da_decision c = Approve \<and> binding_current h enabled b s
        \<and> (\<exists>row. dr_baseline r = Some row \<and> promoted b (da_actor_id c) (st_now s) row s s'))
     \<or> (dr_outcome r \<in> {ApprovalRejected, ApprovalExpired, ApprovalStale}
        \<and> gv_baselines s' = gv_baselines s \<and> st_runs s' = st_runs s \<and> st_versions s' = st_versions s
        \<and> gv_approvals s' = update_rows (pending_row (ab_approval_id b) (ab_site_id b) (ab_resource_version b))
             (\<lambda>a. a\<lparr>ap_binding := closed_binding (dr_outcome r) (da_actor_id c) (st_now s) (ap_binding a)\<rparr>) (gv_approvals s))"
proof -
  have en: "enabled"
    using assms by (cases enabled) (simp_all add: decide_approval_def raise_if_def and_then_def raise_def)
  obtain b where b: "get_approval (da_approval_id c) (da_site_id c) s = Some b"
    using assms by (cases "get_approval (da_approval_id c) (da_site_id c) s")
      (auto simp: decide_approval_def en action_defs)
  have pend: "ab_state b = ApprovalPending" "ab_resource_version b = da_expected_resource_version c"
    using assms by (auto simp: decide_approval_def en b action_defs split: if_splits)
  let ?rest = "\<lambda>check candidate. case check of
           StillValid \<Rightarrow>
             (case da_decision c of
                Approve \<Rightarrow>
                  and_then (catching (promote_baseline b candidate (da_actor_id c) (da_request_id c) (st_now s))
                      (\<lambda>e. if e \<in> {ApprovalNotPendingError, PostWriteApprovalNotPendingError, ConcurrentDecisionError}
                           then Some (raise PostWriteApprovalNotPendingError) else None)) (\<lambda>promoted.
                  ret \<lparr>dr_outcome = ApprovalConsumed, dr_binding = pm_binding promoted, dr_activity = pm_activity promoted,
                       dr_baseline = Some (pm_baseline promoted), dr_resume = pm_resume promoted\<rparr>)
              | Reject \<Rightarrow> close_without_effect c b ApprovalRejected candidate (st_now s))
         | RevalidatedExpired \<Rightarrow> close_without_effect c b ApprovalExpired candidate (st_now s)
         | RevalidatedStale \<Rightarrow> close_without_effect c b ApprovalStale candidate (st_now s)"
  have "and_then (revalidate_binding h b (st_now s) enabled) (\<lambda>(check, candidate). ?rest check candidate) s = (Inr r, s')"
    using assms unfolding decide_approval_def
    by (simp add: en b pend raise_if_def ret_and_then and_then_def [of "reading _"] reading_def)
  then obtain check candidate s1 where rev: "revalidate_binding h b (st_now s) enabled s = (Inr (check, candidate), s1)"
    and rest: "?rest check candidate s1 = (Inr r, s')"
    by (blast dest: and_then_pair_InrD)
  have s1: "s1 = s" using keepsD [OF keeps_revalidate rev] by simp
  note ids = get_approval_ids [OF b]
  show thesis
  proof (cases "check = StillValid \<and> da_decision c = Approve")
    case True
    then obtain p where pro: "promote_baseline b candidate (da_actor_id c) (da_request_id c) (st_now s) s = (Inr p, s')"
      and r: "dr_outcome r = ApprovalConsumed" "dr_baseline r = Some (pm_baseline p)"
      using rest s1 by (auto simp: catching_def raise_def dest!: and_then_InrD ret_InrD split: prod.splits sum.splits option.splits if_splits)
    show thesis
      using that [OF en b pend] r True promote_baseline_InrD(2) [OF pro] revalidate_valid rev by blast
  next
    case False
    then obtain st where "close_without_effect c b st candidate (st_now s) s = (Inr r, s')"
      and "st \<in> {ApprovalRejected, ApprovalExpired, ApprovalStale}"
      using rest s1 by (cases check; cases "da_decision c") auto
    then show thesis
      using that [OF en b pend] close_without_effect_InrD ids by fastforce
  qed
qed

section \<open>How the decision tables evolve\<close>

definition approval_evolves :: "approval_row \<Rightarrow> approval_row \<Rightarrow> bool" where
  "approval_evolves a a' \<longleftrightarrow> a' = a
     \<or> (ab_approval_id (ap_binding a') = ab_approval_id (ap_binding a) \<and> ab_site_id (ap_binding a') = ab_site_id (ap_binding a)
        \<and> ab_state (ap_binding a) = ApprovalPending \<and> ab_state (ap_binding a') \<noteq> ApprovalPending)"

text \<open>Approvals are appended and closed once, audit rows are appended, a baseline only moves forward.\<close>

definition governed_evolves :: "'x governed_store_scheme \<Rightarrow> 'x governed_store_scheme \<Rightarrow> bool" where
  "governed_evolves s s' \<longleftrightarrow>
     table_evolves approval_evolves (gv_approvals s) (gv_approvals s')
     \<and> appended (gv_audit s) (gv_audit s')
     \<and> (\<forall>site b. get_baseline site s = Some b \<longrightarrow>
          (\<exists>b'. get_baseline site s' = Some b' \<and> bl_resource_version b \<le> bl_resource_version b'))"

lemma approval_evolves_refl: "approval_evolves a a"
  by (simp add: approval_evolves_def)

lemma approval_evolves_trans: "approval_evolves a b \<Longrightarrow> approval_evolves b c \<Longrightarrow> approval_evolves a c"
  by (auto simp: approval_evolves_def)

interpretation forward: two_state "governed_evolves :: 'x governed_store_scheme \<Rightarrow> 'x governed_store_scheme \<Rightarrow> bool"
proof unfold_locales
  fix s :: "'x governed_store_scheme"
  show "governed_evolves s s"
    by (simp add: governed_evolves_def table_evolves_refl approval_evolves_refl)
next
  fix s t u :: "'x governed_store_scheme"
  assume st: "governed_evolves s t" and tu: "governed_evolves t u"
  have "\<exists>b'. get_baseline site u = Some b' \<and> bl_resource_version b \<le> bl_resource_version b'"
    if "get_baseline site s = Some b" for site b
    using st tu that unfolding governed_evolves_def by (meson order_trans)
  then show "governed_evolves s u"
    using st tu unfolding governed_evolves_def
    by (blast intro: table_evolves_trans approval_evolves_trans appended_trans)
qed

lemmas forward_rules = forward.obeys_intros

lemma forward_keeps: "obeys (keeps decision_tables) m \<Longrightarrow> obeys governed_evolves m"
  unfolding obeys_def keeps_def
  by (auto simp: governed_evolves_def decision_tables_def get_baseline_def table_evolves_refl approval_evolves_refl)

lemma forward_close_approval:
  assumes "\<And>b. ab_state (f b) \<noteq> ApprovalPending \<and> ab_approval_id (f b) = ab_approval_id b \<and> ab_site_id (f b) = ab_site_id b"
  shows "obeys governed_evolves (close_approval aid site expected f)"
  unfolding close_approval_def Let_def using assms
  by (intro forward_rules forward.obeys_writing)
    (auto simp: governed_evolves_def get_baseline_def approval_evolves_def intro!: table_evolves_update)

lemma forward_terminalize: "st \<noteq> ApprovalPending \<Longrightarrow> obeys governed_evolves (terminalize aid site st actor t expected)"
  unfolding terminalize_def by (rule forward_close_approval) simp

lemma forward_consume: "obeys governed_evolves (consume_approval aid site actor t expected)"
  unfolding consume_approval_def by (rule forward_close_approval) simp

lemma forward_create_pending: "obeys governed_evolves (create_pending b payload)"
  unfolding create_pending_def
  by (intro forward_rules forward.obeys_writing)
    (auto simp: governed_evolves_def get_baseline_def approval_evolves_refl intro!: table_evolves_append)

lemma forward_audit_append: "obeys governed_evolves (audit_append e)"
  unfolding audit_append_def
  by (intro forward_rules forward.obeys_writing)
    (auto simp: governed_evolves_def get_baseline_def approval_evolves_refl intro!: table_evolves_refl)

lemma forward_promote: "obeys governed_evolves (promote site v actor t expected)"
  unfolding obeys_def
proof
  fix s :: "'x governed_store_scheme"
  obtain r s' where ran: "promote site v actor t expected s = (r, s')" by fastforce
  show "governed_evolves s (snd (promote site v actor t expected s))"
  proof (cases "\<exists>row. r = Inr (Some row)")
    case True
    then obtain row where row: "promote site v actor t expected s = (Inr (Some row), s')" using ran by blast
    have same: "gv_approvals s' = gv_approvals s" "gv_audit s' = gv_audit s" using promote_InrD [OF row] by auto
    have "\<exists>b'. get_baseline k s' = Some b' \<and> bl_resource_version b \<le> bl_resource_version b'" if "get_baseline k s = Some b" for k b
      using that get_baseline_promoted [OF row] get_baseline_other [OF row, of k] promote_InrD [OF row]
      by (cases "k = site") auto
    then show ?thesis
      using ran same by (simp add: governed_evolves_def table_evolves_refl approval_evolves_refl)
  next
    case False
    then have "s' = s"
      using ran by (auto simp: promote_def Let_def action_defs split: option.splits if_splits)
    then show ?thesis using ran by (simp add: forward.rel_refl)
  qed
qed

lemma forward_write_audit: "obeys governed_evolves (write_audit b req decided outcome after ev now)"
  unfolding write_audit_def by (intro forward_rules forward_audit_append forward_keeps keeps_uuid4)

lemmas forward_statements =
  forward_terminalize forward_consume forward_create_pending forward_promote forward_write_audit
  forward_keeps [OF keeps_append_approval_activity] forward_keeps [OF keeps_pause_agent_run]
  forward_keeps [OF keeps_cancel_agent_run] forward_keeps [OF keeps_notify_consumed]
  forward_keeps [OF keeps_mark_applied] forward_keeps [OF keeps_uuid4]

lemma forward_digest_of: "obeys governed_evolves (digest_of h v)"
  unfolding digest_of_def by (auto intro!: forward_rules split: option.splits)

lemma forward_case_prod: "(\<And>a b. obeys governed_evolves (f a b)) \<Longrightarrow> obeys governed_evolves (case v of (a, b) \<Rightarrow> f a b)"
  by (cases v) simp

lemma forward_promote_baseline: "obeys governed_evolves (promote_baseline b candidate actor req t)"
  unfolding promote_baseline_def complete_promotion_def
  by (intro forward_rules forward_statements forward_case_prod)

lemma forward_close_without_effect:
  "outcome \<noteq> ApprovalPending \<Longrightarrow> obeys governed_evolves (close_without_effect c b outcome candidate now)"
  unfolding close_without_effect_def by (intro forward_rules forward_statements)

lemma forward_revalidate: "obeys governed_evolves (revalidate_binding h b now enabled)"
  unfolding revalidate_binding_def Let_def by (intro forward_rules forward_digest_of)

lemma forward_decide_approval: "obeys governed_evolves (decide_approval h enabled c)"
  unfolding decide_approval_def
  by (intro forward_rules forward_revalidate forward_case_prod)
    (auto intro!: forward_rules forward.obeys_catching forward_promote_baseline forward_close_without_effect
      split: revalidation_outcome.splits decision.splits if_splits)

lemma forward_request_approval: "obeys governed_evolves (request_approval h enabled expiry c)"
  unfolding request_approval_def Let_def by (intro forward_rules forward_statements forward_digest_of)

end
