(* ===== verification/Approval_Guarantees.thy ===== *)
theory Approval_Guarantees
  imports Approval_Properties
begin

text \<open>
  What the approval workflow promises, stated over the commands themselves: a promotion needs an
  approval nothing of which has drifted and moves exactly one baseline by exactly one version; any
  other decision changes no schedule; a decision is final under every later sequence of commands; and
  what a request stores is accepted by the revalidation as long as nothing changes.
\<close>

section \<open>Sequences of commands\<close>

datatype governed_step =
    RequestStep bool int request_approval_command
  | DecideStep bool decide_approval_command
  | ClockStep int

text \<open>Each command is a transaction of its own: a failed one leaves no trace.\<close>

fun governed_step_effect :: "hashing \<Rightarrow> governed_step \<Rightarrow> 'x governed_store_scheme \<Rightarrow> 'x governed_store_scheme" where
  "governed_step_effect h (RequestStep enabled expiry c) s = snd (transaction (request_approval h enabled expiry c) s)"
| "governed_step_effect h (DecideStep enabled c) s = snd (transaction (decide_approval h enabled c) s)"
| "governed_step_effect h (ClockStep n) s = s\<lparr>st_now := st_now s + n\<rparr>"

lemma step_forward: "governed_evolves s (governed_step_effect h step s)"
proof (cases step)
  case (ClockStep n)
  then show ?thesis
    by (simp add: governed_evolves_def get_baseline_def table_evolves_refl approval_evolves_refl)
next
  case (RequestStep enabled expiry c)
  then show ?thesis
    by (simp add: obeys_snd [OF forward.obeys_transaction [OF forward_request_approval]])
next
  case (DecideStep enabled c)
  then show ?thesis
    by (simp add: obeys_snd [OF forward.obeys_transaction [OF forward_decide_approval]])
qed

lemma steps_forward: "governed_evolves s (fold (governed_step_effect h) steps s)"
proof (induction steps arbitrary: s)
  case Nil
  show ?case by (simp add: forward.rel_refl)
next
  case (Cons step steps)
  show ?case using forward.rel_trans [OF step_forward Cons.IH] by simp
qed

section \<open>Finality\<close>

lemma closed_approval_stays:
  assumes "get_approval aid site s = Some b" and "ab_state b \<noteq> ApprovalPending" and "governed_evolves s s'"
  shows "get_approval aid site s' = Some b"
proof -
  let ?p = "\<lambda>a. ab_approval_id (ap_binding a) = aid \<and> ab_site_id (ap_binding a) = site"
  obtain a where a: "find ?p (gv_approvals s) = Some a" "b = ap_binding a"
    using assms(1) by (auto simp: get_approval_def find_approval_def)
  obtain a' where "find ?p (gv_approvals s') = Some a'" "approval_evolves a a'"
    using table_evolves_find [of approval_evolves "gv_approvals s" "gv_approvals s'" ?p a, OF _ _ a(1)] assms(3)
    by (metis (lifting) governed_evolves_def approval_evolves_def)
  then show ?thesis
    using assms(2) a(2) by (auto simp: get_approval_def find_approval_def approval_evolves_def)
qed

lemma find_update_rows:
  assumes "find p xs = Some x" and "q x" and "\<And>y. q y \<Longrightarrow> p y" and "\<And>y. q y \<Longrightarrow> p (f y)"
  shows "find p (update_rows q f xs) = Some (f x)"
  using assms(1) by (induction xs) (use assms in \<open>auto simp: update_rows_def split: if_splits\<close>)

lemma decided_closed:
  assumes "decide_approval h enabled c s = (Inr r, s')"
  obtains b where "get_approval (da_approval_id c) (da_site_id c) s' = Some b" "ab_state b = dr_outcome r"
    "ab_state b \<noteq> ApprovalPending" "ab_decided_by_actor_id b = Some (da_actor_id c)"
proof -
  obtain b where b: "get_approval (da_approval_id c) (da_site_id c) s = Some b" "ab_state b = ApprovalPending"
    and cases: "(dr_outcome r = ApprovalConsumed \<and> (\<exists>row. promoted b (da_actor_id c) (st_now s) row s s'))
      \<or> (dr_outcome r \<in> {ApprovalRejected, ApprovalExpired, ApprovalStale}
         \<and> gv_approvals s' = update_rows (pending_row (ab_approval_id b) (ab_site_id b) (ab_resource_version b))
             (\<lambda>a. a\<lparr>ap_binding := closed_binding (dr_outcome r) (da_actor_id c) (st_now s) (ap_binding a)\<rparr>) (gv_approvals s))"
    by (rule decide_approval_InrD [OF assms]) blast
  define f where "f = (if dr_outcome r = ApprovalConsumed then consumed_binding (da_actor_id c) (st_now s)
      else closed_binding (dr_outcome r) (da_actor_id c) (st_now s))"
  have upd: "gv_approvals s' = update_rows (pending_row (ab_approval_id b) (ab_site_id b) (ab_resource_version b))
      (\<lambda>a. a\<lparr>ap_binding := f (ap_binding a)\<rparr>) (gv_approvals s)"
    using cases by (auto simp: promoted_def f_def)
  obtain a where a: "find_approval (da_approval_id c) (da_site_id c) s = Some a" "b = ap_binding a"
    using b(1) by (auto simp: get_approval_def)
  have ids: "ab_approval_id b = da_approval_id c" "ab_site_id b = da_site_id c" using get_approval_ids [OF b(1)] by auto
  have "find_approval (da_approval_id c) (da_site_id c) s' = Some (a\<lparr>ap_binding := f (ap_binding a)\<rparr>)"
    unfolding find_approval_def upd
    using a b(2) ids
    by (intro find_update_rows) (auto simp: find_approval_def pending_row_def f_def consumed_binding_def closed_binding_def)
  then have "get_approval (da_approval_id c) (da_site_id c) s' = Some (f b)" by (simp add: get_approval_def a(2))
  then show thesis
    using that cases by (auto simp: f_def consumed_binding_def closed_binding_def)
qed

section \<open>Requests\<close>

text \<open>The statements a request makes after its checks leave the run, the candidate and the baseline alone.\<close>

lemma request_approval_InrD:
  fixes s :: "'x governed_store_scheme"
  assumes "request_approval h enabled expiry c s = (Inr (b, act), s')"
  obtains run candidate version_id where "enabled"
    "get_run (ra_schedule_run_id c) (ra_site_id c) s = Some run" "rv_status run = SolverCompleted"
    "rv_resource_version run = ra_expected_resource_version c"
    "get_candidate (ra_schedule_run_id c) (ra_site_id c) s = Some candidate"
    "sv_feasible_solver_status candidate \<in> {Some OPTIMAL, Some FEASIBLE}" "sv_schedule_version_id candidate = Some version_id"
    "\<forall>x \<in> set (approvals_for_run (ra_schedule_run_id c) (ra_site_id c) s). ab_state x \<noteq> ApprovalPending"
    "fst (current_baseline (ra_site_id c) s) = ra_expected_baseline_schedule_version c"
    "\<exists>aid ph ch. contract_digest (hs_sha256 h) (hs_float_text h) (approval_parameter (ra_schedule_run_id c) version_id
          (fst (current_baseline (ra_site_id c) s)) (Some (ra_expected_resource_version c))) = Some (''sha256'', ''rfc8785-v1'', ph)
       \<and> contract_digest (hs_sha256 h) (hs_float_text h) (consequence_json (ab_consequence_summary b)) = Some (''sha256'', ''rfc8785-v1'', ch)
       \<and> b = new_binding h c candidate version_id aid (current_baseline (ra_site_id c) s) ph ch (st_now s) expiry enabled"
    "\<exists>e. decision_tables s' = (gv_approvals s @ [\<lparr>ap_binding = b, ap_pending_payload = ra_pending_payload c\<rparr>],
        gv_baselines s, gv_audit s @ [e], st_versions s, st_runs s, st_now s)"
proof -
  define tail where "tail candidate version_id baseline now approval_id =
      and_then (digest_of h (approval_parameter (ra_schedule_run_id c) version_id (fst baseline)
                  (Some (ra_expected_resource_version c)))) (\<lambda>parameter_hash.
      and_then (digest_of h (consequence_json (consequence_text version_id (fst baseline)
                  (sv_scenario_version_id candidate) (length (sv_assignments candidate))))) (\<lambda>consequence_hash.
      let binding = new_binding h c candidate version_id approval_id baseline parameter_hash consequence_hash now expiry enabled in
      and_then (create_pending binding (ra_pending_payload c)) (\<lambda>_.
      and_then (write_audit binding (ra_request_id c) None ''approval_requested'' None (sv_evidence_refs candidate) now) (\<lambda>_.
      and_then (case ra_agent_run_id c of
          Some agent_run_id \<Rightarrow> pause_agent_run_for_approval (ra_site_id c) agent_run_id binding (ra_request_id c)
        | None \<Rightarrow> append_approval_activity (ra_site_id c) binding (ra_actor_id c) (ra_request_id c) None
                    (ab_created_at binding) None) (\<lambda>activity.
      ret (binding, activity) :: ('x governed_store_scheme, app_error, _) action)))))"
    for candidate version_id baseline now approval_id
  note ran = assms [unfolded request_approval_def, folded tail_def]
  obtain run candidate version_id where
    head: "enabled" "get_run (ra_schedule_run_id c) (ra_site_id c) s = Some run" "rv_status run = SolverCompleted"
    "rv_resource_version run = ra_expected_resource_version c"
    "get_candidate (ra_schedule_run_id c) (ra_site_id c) s = Some candidate"
    "sv_feasible_solver_status candidate \<in> {Some OPTIMAL, Some FEASIBLE}" "sv_schedule_version_id candidate = Some version_id"
    "\<forall>x \<in> set (approvals_for_run (ra_schedule_run_id c) (ra_site_id c) s). ab_state x \<noteq> ApprovalPending"
    "fst (current_baseline (ra_site_id c) s) = ra_expected_baseline_schedule_version c"
    and rest: "tail candidate version_id (current_baseline (ra_site_id c) s) (st_now s) (st_fresh s) (s\<lparr>st_fresh := Suc (st_fresh s)\<rparr>) = (Inr (b, act), s')"
    using ran by (auto simp: peel raise_def split: if_splits option.splits)
  define u where "u = s\<lparr>st_fresh := Suc (st_fresh s)\<rparr>"
  obtain ph ch s1 s2 s3 where
    ph: "contract_digest (hs_sha256 h) (hs_float_text h) (approval_parameter (ra_schedule_run_id c) version_id
          (fst (current_baseline (ra_site_id c) s)) (Some (ra_expected_resource_version c))) = Some (''sha256'', ''rfc8785-v1'', ph)"
    and ch: "contract_digest (hs_sha256 h) (hs_float_text h) (consequence_json (consequence_text version_id
          (fst (current_baseline (ra_site_id c) s)) (sv_scenario_version_id candidate) (length (sv_assignments candidate))))
        = Some (''sha256'', ''rfc8785-v1'', ch)"
    and b: "b = new_binding h c candidate version_id (st_fresh s) (current_baseline (ra_site_id c) s) ph ch (st_now s) expiry enabled"
    and pend: "create_pending b (ra_pending_payload c) u = (Inr (), s1)"
    and aud: "write_audit b (ra_request_id c) None ''approval_requested'' None (sv_evidence_refs candidate) (st_now s) s1 = (Inr (), s2)"
    and act: "(case ra_agent_run_id c of
          Some agent_run_id \<Rightarrow> pause_agent_run_for_approval (ra_site_id c) agent_run_id b (ra_request_id c)
        | None \<Rightarrow> append_approval_activity (ra_site_id c) b (ra_actor_id c) (ra_request_id c) None
                    (ab_created_at b) None) s2 = (Inr act, s')"
    using rest unfolding tail_def Let_def u_def [symmetric]
    by (auto elim!: and_then_InrE dest!: digest_of_InrD ret_InrD)
  have s1: "s1 = u\<lparr>gv_approvals := gv_approvals u @ [\<lparr>ap_binding = b, ap_pending_payload = ra_pending_payload c\<rparr>]\<rparr>"
    using pend by (auto simp: create_pending_def peel writing_def split: if_splits)
  obtain e n where s2: "s2 = s1\<lparr>st_fresh := n, gv_audit := gv_audit s1 @ [e]\<rparr>" using write_audit_InrD [OF aud] by blast
  have "decision_tables s' = decision_tables s2"
    using act keepsD [OF keeps_pause_agent_run] keepsD [OF keeps_append_approval_activity] by (auto split: option.splits)
  then have tables: "decision_tables s' = (gv_approvals s @ [\<lparr>ap_binding = b, ap_pending_payload = ra_pending_payload c\<rparr>],
        gv_baselines s, gv_audit s @ [e], st_versions s, st_runs s, st_now s)"
    by (simp add: s2 s1 u_def decision_tables_def)
  have "ab_consequence_summary b = consequence_text version_id (fst (current_baseline (ra_site_id c) s))
      (sv_scenario_version_id candidate) (length (sv_assignments candidate))"
    by (simp add: b new_binding_def)
  then show thesis using that [OF head] ph ch b tables by metis
qed

text \<open>
  A binding that was just stored is accepted by the revalidation for as long as its run, its
  candidate, the baseline, the initiator's membership and the policy stay as they were.
\<close>

lemma revalidation_accepts:
  assumes "st_now s < ab_expires_at b" "has_active_membership (ab_initiated_by_actor_id b) (ab_site_id b) s"
    "get_candidate (ab_schedule_run_id b) (ab_site_id b) s = Some v"
    "sv_schedule_version_id v = Some (ab_candidate_schedule_version_id b)"
    "sv_feasible_solver_status v \<in> {Some OPTIMAL, Some FEASIBLE}"
    "get_run (ab_schedule_run_id b) (ab_site_id b) s = Some r"
    "contract_digest (hs_sha256 h) (hs_float_text h) (approval_parameter (ab_schedule_run_id b)
       (ab_candidate_schedule_version_id b) (ab_baseline_schedule_version b) (Some (rv_resource_version r)))
       = Some (''sha256'', ''rfc8785-v1'', ab_parameter_hash b)"
    "current_baseline (ab_site_id b) s = (ab_baseline_schedule_version b, ab_baseline_resource_version b)"
    "contract_digest (hs_sha256 h) (hs_float_text h) (consequence_json (ab_consequence_summary b))
       = Some (''sha256'', ''rfc8785-v1'', ab_consequence_hash b)"
    "derive_policy_version h enabled = ab_policy_version b"
  shows "revalidate_binding h b (st_now s) enabled s = (Inr (StillValid, Some v), s)"
proof -
  have dig: "digest_of h j s = (Inr d, s)"
    if "contract_digest (hs_sha256 h) (hs_float_text h) j = Some (''sha256'', ''rfc8785-v1'', d)" for j d
    using that by (auto simp: digest_of_def contract_digest_def ret_def split: option.splits)
  have step: "and_then (digest_of h j) k s = k d s"
    if "contract_digest (hs_sha256 h) (hs_float_text h) j = Some (''sha256'', ''rfc8785-v1'', d)" for j d and k :: "_ \<Rightarrow> _ \<Rightarrow> _ \<times> _"
    using dig [OF that] by (simp add: and_then_def)
  show ?thesis
    using assms(1-6,8,10)
    by (simp add: revalidate_binding_def Let_def peel step [OF assms(7)] step [OF assms(9)] ret_def)
qed

lemma current_revalidated:
  "binding_current h enabled b s \<Longrightarrow> \<exists>v. revalidate_binding h b (st_now s) enabled s = (Inr (StillValid, Some v), s)"
  unfolding binding_current_def by (metis revalidation_accepts)

section \<open>At most one pending approval per run\<close>

definition pending_of :: "uuid \<Rightarrow> uuid \<Rightarrow> 'x governed_store_scheme \<Rightarrow> approval_binding_v1 list" where
  "pending_of run_id site_id s = filter (\<lambda>b. ab_schedule_run_id b = run_id \<and> ab_site_id b = site_id \<and> ab_state b = ApprovalPending)
     (map ap_binding (gv_approvals s))"

lemma request_needs_no_pending:
  assumes "request_approval h enabled expiry c s = (Inr (b, act), s')"
  shows "pending_of (ra_schedule_run_id c) (ra_site_id c) s = []"
    and "ab_schedule_run_id b = ra_schedule_run_id c" "ab_site_id b = ra_site_id c"
    and "gv_approvals s' = gv_approvals s @ [\<lparr>ap_binding = b, ap_pending_payload = ra_pending_payload c\<rparr>]"
  by (rule request_approval_InrD [OF assms];
      fastforce simp: pending_of_def filter_empty_conv approvals_for_run_def new_binding_def decision_tables_def)+

lemma pending_of_closed:
  assumes "\<And>b. ab_state (f b) \<noteq> ApprovalPending"
  shows "length (filter P (filter (\<lambda>b. ab_state b = ApprovalPending) (map ap_binding (update_rows q (\<lambda>a. a\<lparr>ap_binding := f (ap_binding a)\<rparr>) xs))))
       \<le> length (filter P (filter (\<lambda>b. ab_state b = ApprovalPending) (map ap_binding xs)))"
  by (induction xs) (auto simp: update_rows_def assms)

lemma pending_of_split:
  "pending_of run_id site_id s = filter (\<lambda>b. ab_schedule_run_id b = run_id \<and> ab_site_id b = site_id)
     (filter (\<lambda>b. ab_state b = ApprovalPending) (map ap_binding (gv_approvals s)))"
  unfolding pending_of_def filter_filter by (rule filter_cong) auto

lemma decide_closes_only:
  assumes "decide_approval h enabled c s = (Inr r, s')"
  shows "length (pending_of run_id site_id s') \<le> length (pending_of run_id site_id s)"
proof -
  obtain q f where upd: "gv_approvals s' = update_rows q (\<lambda>a. a\<lparr>ap_binding := f (ap_binding a)\<rparr>) (gv_approvals s)"
    and "\<And>b. ab_state (f b) \<noteq> ApprovalPending"
    by (rule decide_approval_InrD [OF assms])
      (auto simp: promoted_def consumed_binding_def closed_binding_def intro: that)
  then show ?thesis unfolding pending_of_split upd by (intro pending_of_closed)
qed

lemma step_pending:
  assumes "\<And>run_id site_id. length (pending_of run_id site_id s) \<le> 1"
  shows "length (pending_of run_id site_id (governed_step_effect h step s)) \<le> 1"
proof (cases step)
  case (ClockStep n)
  then show ?thesis using assms by (simp add: pending_of_def)
next
  case (DecideStep enabled c)
  then show ?thesis
    using assms order_trans [OF decide_closes_only assms]
    by (auto simp: transaction_def split: prod.splits sum.splits)
next
  case (RequestStep enabled expiry c)
  obtain r s' where ran: "request_approval h enabled expiry c s = (r, s')" by fastforce
  show ?thesis
  proof (cases r)
    case (Inl e)
    then show ?thesis using assms RequestStep ran by (simp add: transaction_def)
  next
    case (Inr p)
    obtain b act where p: "request_approval h enabled expiry c s = (Inr (b, act), s')" using Inr ran by (cases p) auto
    note q = request_needs_no_pending [OF p]
    have "length (pending_of run_id site_id s') \<le> 1"
      using assms [of run_id site_id] q(1-3)
      by (cases "run_id = ra_schedule_run_id c \<and> site_id = ra_site_id c") (auto simp: pending_of_def q(4))
    then show ?thesis using RequestStep p by (simp add: transaction_def)
  qed
qed

lemma steps_pending:
  assumes "\<And>run_id site_id. length (pending_of run_id site_id s) \<le> 1"
  shows "length (pending_of run_id site_id (fold (governed_step_effect h) steps s)) \<le> 1"
  using assms
proof (induction steps arbitrary: s)
  case (Cons step steps)
  show ?case using Cons.IH [OF step_pending [OF Cons.prems]] by simp
qed simp

section \<open>A concrete site\<close>

text \<open>One completed run with a feasible candidate, one conversation, an active planner, and
  a digest that needs no evaluation of the text it is taken over.\<close>

definition demo_hashing :: hashing where
  "demo_hashing = \<lparr>hs_sha256 = (\<lambda>_. ''h''), hs_float_text = (\<lambda>_. ''0.5'')\<rparr>"

definition demo_candidate :: schedule_version_v1 where
  "demo_candidate = \<lparr>sv_schedule_version_id = Some 50, sv_schedule_run_id = Some 10, sv_scenario_id = Some 2,
     sv_scenario_version_id = Some 3, sv_proposal_id = None, sv_proposal_version_id = None,
     sv_feasible_solver_status = Some OPTIMAL, sv_assignments = [], sv_metrics = None, sv_constraint_results = [],
     sv_warnings = [], sv_evidence_refs = [], sv_created_at = Some 90\<rparr>"

definition demo_site :: governed_store where
  "demo_site = \<lparr>st_now = 100, st_fresh = 200, st_jobs = [],
     st_runs = [\<lparr>rn_id = 10, rn_site_id = 7, rn_run_snapshot_id = 20, rn_status = SolverCompleted, rn_reason = None,
       rn_candidate_schedule_version_id = Some 50, rn_resource_version = 3, rn_created_at = 0, rn_finished_at = Some 90\<rparr>],
     st_events = [],
     st_versions = [\<lparr>vr_id = 50, vr_site_id = 7, vr_schedule_run_id = 10, vr_solver_status = Some OPTIMAL,
       vr_payload = demo_candidate, vr_created_at = Some 90\<rparr>],
     st_assignments = [], st_snapshots = [], st_idempotency = [], gv_scenario_versions = [],
     gv_memberships = [\<lparr>mb_id = 60, mb_app_user_id = 5, mb_site_id = 7, mb_revoked_at = None\<rparr>],
     gv_conversations = [\<lparr>cv_id = 70, cv_site_id = 7, cv_scenario_id = 2, cv_scenario_version_id = 3,
       cv_created_by_actor_id = 5, cv_resource_version = 1, cv_created_at = 0, cv_archived_at = None\<rparr>],
     gv_messages = [], gv_agent_runs = [], gv_activities = [], gv_proposals = [], gv_proposal_versions = [],
     gv_approvals = [], gv_baselines = [], gv_audit = []\<rparr>"

definition demo_request :: request_approval_command where
  "demo_request = \<lparr>ra_site_id = 7, ra_actor_id = 5, ra_schedule_run_id = 10, ra_expected_resource_version = 3,
     ra_expected_baseline_schedule_version = None, ra_request_effect_key = ''effect'', ra_request_id = 80,
     ra_conversation_id = 70, ra_agent_run_id = None, ra_pending_payload = None\<rparr>"

definition demo_requested :: "(app_error + approval_binding_v1 \<times> executed_agent_run_v1) \<times> governed_store" where
  "demo_requested = request_approval demo_hashing True 3600 demo_request demo_site"

definition demo_pending_site :: governed_store where
  "demo_pending_site = snd demo_requested"

definition demo_decision :: "decision \<Rightarrow> decide_approval_command" where
  "demo_decision d = \<lparr>da_site_id = 7, da_actor_id = 6, da_approval_id = 200, da_decision = d,
     da_expected_resource_version = 1, da_request_id = 81\<rparr>"

definition demo_decided :: "decision \<Rightarrow> (app_error + decision_result_v1) \<times> governed_store" where
  "demo_decided d = decide_approval demo_hashing True (demo_decision d) demo_pending_site"

lemma those_map_None: "those_map f xs = None \<longleftrightarrow> (\<exists>x \<in> set xs. f x = None)"
  by (induction xs) (auto split: option.splits)

lemma serialize_object_None: "serialize ft (JObject kvs) = None \<longleftrightarrow> (\<exists>kv \<in> set kvs. serialize ft (snd kv) = None)"
  by (simp add: those_map_None)

lemma digest_of_demo: "serialize (hs_float_text demo_hashing) v \<noteq> None \<Longrightarrow> digest_of demo_hashing v = ret ''h''"
  by (auto simp: digest_of_def contract_digest_def demo_hashing_def)

lemma demo_digests:
  "digest_of demo_hashing (consequence_json text) = ret ''h''"
  "digest_of demo_hashing (approval_parameter run version baseline (Some 3)) = ret ''h''"
  unfolding consequence_json_def approval_parameter_def
  by (rule digest_of_demo, simp only: serialize_object_None,
      auto simp: json_opt_def serialize_number_def split: option.splits)+

lemmas demo_eval = and_then_catching peel and_then_writing and_then_assoc ret_and_then and_then_Pair ret_def raise_def writing_def reading_def
  catching_def Let_def demo_digests demo_site_def demo_request_def demo_candidate_def demo_decision_def
  new_binding_def get_run_def find_run_def is_run_def get_candidate_def get_job_cancellation_requested_def
  approvals_for_run_def current_baseline_def get_baseline_def create_pending_def write_audit_def audit_append_def audit_of_def
  append_approval_activity_def lock_conversation_def append_activity_def find_conversation_def
  get_approval_def find_approval_def has_active_membership_def update_rows_def close_approval_def

lemma demo_requested_returns: "\<not> isl (fst demo_requested)"
  by (simp add: demo_requested_def request_approval_def demo_eval)

lemma demo_approved:
  "\<not> isl (fst (demo_decided Approve))" "dr_outcome (projr (fst (demo_decided Approve))) = ApprovalConsumed"
  by (simp_all add: demo_decided_def demo_pending_site_def demo_requested_def request_approval_def decide_approval_def
      revalidate_binding_def promote_baseline_def complete_promotion_def notify_consumed_def consume_approval_def
      promote_def mark_applied_def demo_eval)

lemma demo_rejected:
  "\<not> isl (fst (demo_decided Reject))" "dr_outcome (projr (fst (demo_decided Reject))) = ApprovalRejected"
  by (simp_all add: demo_decided_def demo_pending_site_def demo_requested_def request_approval_def decide_approval_def
      revalidate_binding_def close_without_effect_def terminalize_def approval_reason_def demo_eval)

section \<open>Guarantees\<close>

text \<open>
  C4. A baseline is promoted only by an explicit approval of a pending request nothing of which has
  drifted: not expired, the initiator still a member, run, candidate, parameters, consequence text, policy
  and the site's baseline all exactly as they were when the request was made. The promotion then
  consumes that approval, moves the baseline of that site to that candidate by exactly one version,
  leaves every other site, run and schedule version alone, and appends exactly one audit record of it.
\<close>

theorem promotion_needs_current_approval:
  assumes "decide_approval h enabled c s = (Inr r, s')" and "dr_outcome r = ApprovalConsumed"
  shows "da_decision c = Approve
    \<and> (\<exists>b row. get_approval (da_approval_id c) (da_site_id c) s = Some b \<and> ab_state b = ApprovalPending
          \<and> ab_resource_version b = da_expected_resource_version c \<and> binding_current h enabled b s
          \<and> dr_baseline r = Some row \<and> promoted b (da_actor_id c) (st_now s) row s s')"
  by (rule decide_approval_InrD [OF assms(1)]) (use assms(2) in auto)

theorem promotion_needs_current_approval_witness:
  "da_decision (demo_decision Approve) = Approve
   \<and> (\<exists>b row. get_approval 200 7 demo_pending_site = Some b \<and> binding_current demo_hashing True b demo_pending_site
        \<and> promoted b 6 (st_now demo_pending_site) row demo_pending_site (snd (demo_decided Approve)))"
  using promotion_needs_current_approval [OF returned [OF demo_approved(1), unfolded demo_decided_def]]
    demo_approved(2)
  by (auto simp: demo_decided_def demo_decision_def)

text \<open>
  C23. A decision that does not promote has no effect on schedules: a rejection, or an approval found expired or
  stale, closes exactly the pending request with that outcome and its decider and changes no
  baseline, no run and no schedule version.
\<close>

theorem other_decisions_touch_no_schedule:
  assumes "decide_approval h enabled c s = (Inr r, s')" and "dr_outcome r \<noteq> ApprovalConsumed"
  shows "dr_outcome r \<in> {ApprovalRejected, ApprovalExpired, ApprovalStale}
    \<and> gv_baselines s' = gv_baselines s \<and> st_runs s' = st_runs s \<and> st_versions s' = st_versions s
    \<and> (\<exists>b. get_approval (da_approval_id c) (da_site_id c) s' = Some b \<and> ab_state b = dr_outcome r
          \<and> ab_decided_by_actor_id b = Some (da_actor_id c))"
proof -
  obtain b where "get_approval (da_approval_id c) (da_site_id c) s' = Some b" "ab_state b = dr_outcome r"
    "ab_decided_by_actor_id b = Some (da_actor_id c)"
    using decided_closed [OF assms(1)] by blast
  moreover have "dr_outcome r \<in> {ApprovalRejected, ApprovalExpired, ApprovalStale}
    \<and> gv_baselines s' = gv_baselines s \<and> st_runs s' = st_runs s \<and> st_versions s' = st_versions s"
    by (rule decide_approval_InrD [OF assms(1)]) (use assms(2) in auto)
  ultimately show ?thesis by blast
qed

theorem other_decisions_touch_no_schedule_witness:
  "gv_baselines (snd (demo_decided Reject)) = gv_baselines demo_pending_site
   \<and> st_runs (snd (demo_decided Reject)) = st_runs demo_pending_site
   \<and> (\<exists>b. get_approval 200 7 (snd (demo_decided Reject)) = Some b \<and> ab_state b = ApprovalRejected)"
  using other_decisions_touch_no_schedule [OF returned [OF demo_rejected(1), unfolded demo_decided_def]]
    demo_rejected(2)
  by (auto simp: demo_decided_def demo_decision_def)

text \<open>
  C20. A decision is final. Once an approval has been decided, no sequence of later requests, decisions and
  waiting times changes it, and every further decision on it is refused as no longer pending, without
  any effect.
\<close>

theorem decision_is_final:
  assumes "decide_approval h enabled c s = (Inr r, s')"
    and "da_approval_id c' = da_approval_id c" and "da_site_id c' = da_site_id c"
  shows "get_approval (da_approval_id c) (da_site_id c) (fold (governed_step_effect h) steps s')
       = get_approval (da_approval_id c) (da_site_id c) s'
    \<and> decide_approval h True c' (fold (governed_step_effect h) steps s')
       = (Inl ApprovalNotPendingError, fold (governed_step_effect h) steps s')"
proof -
  obtain b where b: "get_approval (da_approval_id c) (da_site_id c) s' = Some b" "ab_state b \<noteq> ApprovalPending"
    using decided_closed [OF assms(1)] by blast
  have "get_approval (da_approval_id c) (da_site_id c) (fold (governed_step_effect h) steps s') = Some b"
    using closed_approval_stays [OF b steps_forward] .
  then show ?thesis using b assms(2,3) by (simp add: decide_approval_def peel)
qed

theorem decision_is_final_witness:
  "decide_approval demo_hashing True (demo_decision Approve)
     (fold (governed_step_effect demo_hashing) [ClockStep 5, RequestStep True 3600 demo_request] (snd (demo_decided Reject)))
   = (Inl ApprovalNotPendingError,
      fold (governed_step_effect demo_hashing) [ClockStep 5, RequestStep True 3600 demo_request] (snd (demo_decided Reject)))"
  using decision_is_final [OF returned [OF demo_rejected(1), unfolded demo_decided_def], where c' = "demo_decision Approve"
      and steps = "[ClockStep 5, RequestStep True 3600 demo_request]"]
  by (simp add: demo_decided_def demo_decision_def)

text \<open>
  C21. A run never has two pending approvals: starting from a site without approvals, after any sequence of
  requests, decisions and waiting times there is at most one for each run; and a request goes through
  only when there is none.
\<close>

theorem one_pending_approval_per_run:
  assumes "gv_approvals s = []"
  shows "length (pending_of run_id site_id (fold (governed_step_effect h) steps s)) \<le> 1
    \<and> (request_approval h enabled expiry c (fold (governed_step_effect h) steps s) = (Inr (b, act), s')
        \<longrightarrow> pending_of (ra_schedule_run_id c) (ra_site_id c) (fold (governed_step_effect h) steps s) = [])"
proof -
  have "length (pending_of r site s) \<le> 1" for r site using assms by (simp add: pending_of_def)
  from steps_pending [OF this] show ?thesis by (blast intro: request_needs_no_pending(1))
qed

theorem one_pending_approval_per_run_witness:
  "length (pending_of 10 7 (fold (governed_step_effect demo_hashing)
      [RequestStep True 3600 demo_request, RequestStep True 3600 demo_request] demo_site)) \<le> 1"
  using one_pending_approval_per_run [of demo_site 10 7 demo_hashing
      "[RequestStep True 3600 demo_request, RequestStep True 3600 demo_request]"]
  by (simp add: demo_site_def)

text \<open>What a later store must still have for the request of a candidate: the initiator's membership, the
  feasible candidate of the run, and the baseline the request saw. The run's resource version is not part of it:
  it enters through the digest of the approval's parameters.\<close>

definition request_undrifted ::
  "request_approval_command \<Rightarrow> uuid \<Rightarrow> 'x governed_store_scheme \<Rightarrow> 'x governed_store_scheme \<Rightarrow> bool" where
  "request_undrifted c version_id s u \<longleftrightarrow> has_active_membership (ra_actor_id c) (ra_site_id c) u
     \<and> (\<exists>w. get_candidate (ra_schedule_run_id c) (ra_site_id c) u = Some w \<and> sv_schedule_version_id w = Some version_id
          \<and> sv_feasible_solver_status w \<in> {Some OPTIMAL, Some FEASIBLE})
     \<and> current_baseline (ra_site_id c) u = current_baseline (ra_site_id c) s"

definition requested_digest ::
  "hashing \<Rightarrow> request_approval_command \<Rightarrow> uuid \<Rightarrow> 'x governed_store_scheme \<Rightarrow> int \<Rightarrow> (string \<times> string \<times> string) option" where
  "requested_digest h c version_id s n = contract_digest (hs_sha256 h) (hs_float_text h)
     (approval_parameter (ra_schedule_run_id c) version_id (fst (current_baseline (ra_site_id c) s)) (Some n))"

text \<open>The revalidation of a binding whose two digests can be computed.\<close>

lemma revalidation_outcome:
  assumes "now < ab_expires_at b"
    and "contract_digest (hs_sha256 h) (hs_float_text h) (approval_parameter (ab_schedule_run_id b)
       (ab_candidate_schedule_version_id b) (ab_baseline_schedule_version b) (map_option rv_resource_version (get_run (ab_schedule_run_id b) (ab_site_id b) u)))
       = Some (''sha256'', ''rfc8785-v1'', ph)"
    and "contract_digest (hs_sha256 h) (hs_float_text h) (consequence_json (ab_consequence_summary b)) = Some (''sha256'', ''rfc8785-v1'', ch)"
  shows "revalidate_binding h b now enabled u = (Inr (
      if has_active_membership (ab_initiated_by_actor_id b) (ab_site_id b) u
         \<and> (\<exists>w. get_candidate (ab_schedule_run_id b) (ab_site_id b) u = Some w
              \<and> sv_schedule_version_id w = Some (ab_candidate_schedule_version_id b) \<and> sv_feasible_solver_status w \<in> {Some OPTIMAL, Some FEASIBLE})
         \<and> get_run (ab_schedule_run_id b) (ab_site_id b) u \<noteq> None
         \<and> current_baseline (ab_site_id b) u = (ab_baseline_schedule_version b, ab_baseline_resource_version b)
         \<and> ph = ab_parameter_hash b \<and> ch = ab_consequence_hash b \<and> derive_policy_version h enabled = ab_policy_version b
      then StillValid else RevalidatedStale, get_candidate (ab_schedule_run_id b) (ab_site_id b) u), u)"
proof -
  have dig: "digest_of h j s = (Inr d, s)"
    if "contract_digest (hs_sha256 h) (hs_float_text h) j = Some (''sha256'', ''rfc8785-v1'', d)" for j d and s :: "'a governed_store_scheme"
    using that by (auto simp: digest_of_def contract_digest_def ret_def split: option.splits)
  have step: "and_then (digest_of h j) k s = k d s"
    if "contract_digest (hs_sha256 h) (hs_float_text h) j = Some (''sha256'', ''rfc8785-v1'', d)" for j d and s :: "'a governed_store_scheme"
      and k :: "_ \<Rightarrow> _ \<Rightarrow> _ \<times> _"
    using dig [OF that] by (simp add: and_then_def)
  show ?thesis
    using assms(1)
    by (simp add: revalidate_binding_def Let_def peel step [OF assms(2)] step [OF assms(3)] ret_def prod_eq_iff split: option.split)
qed

text \<open>
  C22. What a planner approves is what was requested. The binding a request stores is pending and bound to the
  feasible candidate of the run. Revalidated at any later time, in any later store, it is expired once its time
  is over. Before that, when the run still has the requested resource version, it is valid exactly when the
  initiator is a member, the run's candidate is the same feasible version and the baseline is the one the
  request saw, and stale otherwise; and whatever the run's resource version, it is valid only if these hold
  and the digest of the parameters with the present version is the digest of the requested ones.
\<close>

theorem requested_binding_revalidates:
  assumes "request_approval h enabled expiry c s = (Inr (b, act), s')"
  shows "ab_state b = ApprovalPending
    \<and> (\<exists>v version_id. get_candidate (ra_schedule_run_id c) (ra_site_id c) s = Some v
          \<and> sv_schedule_version_id v = Some version_id \<and> ab_candidate_schedule_version_id b = version_id
          \<and> sv_feasible_solver_status v \<in> {Some OPTIMAL, Some FEASIBLE}
          \<and> (\<forall>u. st_now s + expiry \<le> st_now u \<longrightarrow> revalidate_binding h b (st_now u) enabled u
                = (Inr (RevalidatedExpired, get_candidate (ra_schedule_run_id c) (ra_site_id c) u), u))
          \<and> (\<forall>u r. st_now u < st_now s + expiry \<and> get_run (ra_schedule_run_id c) (ra_site_id c) u = Some r
                \<and> rv_resource_version r = ra_expected_resource_version c
              \<longrightarrow> revalidate_binding h b (st_now u) enabled u
                = (Inr (if request_undrifted c version_id s u then StillValid else RevalidatedStale,
                        get_candidate (ra_schedule_run_id c) (ra_site_id c) u), u))
          \<and> (\<forall>u w u'. revalidate_binding h b (st_now u) enabled u = (Inr (StillValid, w), u')
              \<longrightarrow> request_undrifted c version_id s u
                \<and> (\<exists>r. get_run (ra_schedule_run_id c) (ra_site_id c) u = Some r
                     \<and> requested_digest h c version_id s (rv_resource_version r)
                       = requested_digest h c version_id s (ra_expected_resource_version c))))"
proof -
  obtain run candidate version_id where
    head: "get_candidate (ra_schedule_run_id c) (ra_site_id c) s = Some candidate"
    "sv_feasible_solver_status candidate \<in> {Some OPTIMAL, Some FEASIBLE}" "sv_schedule_version_id candidate = Some version_id"
    and "\<exists>aid ph ch. contract_digest (hs_sha256 h) (hs_float_text h) (approval_parameter (ra_schedule_run_id c) version_id
          (fst (current_baseline (ra_site_id c) s)) (Some (ra_expected_resource_version c))) = Some (''sha256'', ''rfc8785-v1'', ph)
       \<and> contract_digest (hs_sha256 h) (hs_float_text h) (consequence_json (ab_consequence_summary b)) = Some (''sha256'', ''rfc8785-v1'', ch)
       \<and> b = new_binding h c candidate version_id aid (current_baseline (ra_site_id c) s) ph ch (st_now s) expiry enabled"
    by (rule request_approval_InrD [OF assms(1)]) blast
  then obtain aid ph ch where
    ph: "requested_digest h c version_id s (ra_expected_resource_version c) = Some (''sha256'', ''rfc8785-v1'', ph)"
    and ch: "contract_digest (hs_sha256 h) (hs_float_text h) (consequence_json (ab_consequence_summary b)) = Some (''sha256'', ''rfc8785-v1'', ch)"
    and b: "b = new_binding h c candidate version_id aid (current_baseline (ra_site_id c) s) ph ch (st_now s) expiry enabled"
    by (auto simp: requested_digest_def)
  have fields: "ab_state b = ApprovalPending" "ab_site_id b = ra_site_id c" "ab_schedule_run_id b = ra_schedule_run_id c"
    "ab_candidate_schedule_version_id b = version_id" "ab_initiated_by_actor_id b = ra_actor_id c"
    "ab_baseline_schedule_version b = fst (current_baseline (ra_site_id c) s)"
    "ab_baseline_resource_version b = snd (current_baseline (ra_site_id c) s)" "ab_parameter_hash b = ph"
    "ab_consequence_hash b = ch" "ab_policy_version b = derive_policy_version h enabled" "ab_expires_at b = st_now s + expiry"
    by (simp_all add: b new_binding_def)
  have expired: "revalidate_binding h b (st_now u) enabled u
      = (Inr (RevalidatedExpired, get_candidate (ra_schedule_run_id c) (ra_site_id c) u), u)"
    if "st_now s + expiry \<le> st_now u" for u
    using that by (simp add: revalidate_binding_def fields peel ret_def)
  have unexpired: "revalidate_binding h b (st_now u) enabled u
      = (Inr (if request_undrifted c version_id s u then StillValid else RevalidatedStale,
              get_candidate (ra_schedule_run_id c) (ra_site_id c) u), u)"
    if "st_now u < st_now s + expiry" "get_run (ra_schedule_run_id c) (ra_site_id c) u = Some r"
      "rv_resource_version r = ra_expected_resource_version c" for u r
    using revalidation_outcome [of "st_now u" b h u ph ch enabled] that ph ch
    by (simp add: fields requested_digest_def request_undrifted_def)
  have valid: "request_undrifted c version_id s u \<and> (\<exists>r. get_run (ra_schedule_run_id c) (ra_site_id c) u = Some r
      \<and> requested_digest h c version_id s (rv_resource_version r) = requested_digest h c version_id s (ra_expected_resource_version c))"
    if "revalidate_binding h b (st_now u) enabled u = (Inr (StillValid, w), u')" for u w u'
    using revalidate_valid [OF that] ph
    unfolding binding_current_def fields request_undrifted_def requested_digest_def by auto
  show ?thesis
    by (rule conjI [OF fields(1)], rule exI, rule exI, rule conjI [OF head(1)], rule conjI [OF head(3)], rule conjI [OF fields(4)],
        rule conjI [OF head(2)], rule conjI, use expired in blast, rule conjI, use unexpired in blast, use valid in blast)
qed

theorem requested_binding_revalidates_witness:
  "\<exists>b. revalidate_binding demo_hashing b 200 True (demo_pending_site\<lparr>st_now := 200\<rparr>)
       = (Inr (StillValid, Some demo_candidate), demo_pending_site\<lparr>st_now := 200\<rparr>)
     \<and> revalidate_binding demo_hashing b 3700 True (demo_pending_site\<lparr>st_now := 3700\<rparr>)
       = (Inr (RevalidatedExpired, Some demo_candidate), demo_pending_site\<lparr>st_now := 3700\<rparr>)
     \<and> revalidate_binding demo_hashing b 200 True (demo_pending_site\<lparr>st_now := 200, gv_memberships := []\<rparr>)
       = (Inr (RevalidatedStale, Some demo_candidate), demo_pending_site\<lparr>st_now := 200, gv_memberships := []\<rparr>)"
proof -
  obtain b act where ran: "request_approval demo_hashing True 3600 demo_request demo_site = (Inr (b, act), demo_pending_site)"
    using returned [OF demo_requested_returns] by (metis demo_pending_site_def demo_requested_def surj_pair)
  have tables: "gv_memberships demo_pending_site = gv_memberships demo_site" "st_runs demo_pending_site = st_runs demo_site"
    "st_versions demo_pending_site = st_versions demo_site" "gv_baselines demo_pending_site = gv_baselines demo_site"
    by (simp_all add: demo_pending_site_def demo_requested_def request_approval_def demo_eval)
  have site: "get_candidate 10 7 u = Some demo_candidate" "\<exists>r. get_run 10 7 u = Some r \<and> rv_resource_version r = 3"
    "request_undrifted demo_request 50 demo_site u \<longleftrightarrow> has_active_membership 5 7 u"
    if "st_runs u = st_runs demo_site" "st_versions u = st_versions demo_site" "gv_baselines u = gv_baselines demo_site"
    for u :: governed_store
    using that by (simp_all add: get_candidate_def get_run_def find_run_def is_run_def request_undrifted_def current_baseline_def get_baseline_def
        demo_site_def demo_request_def demo_candidate_def)
  have request: "ra_schedule_run_id demo_request = 10" "ra_site_id demo_request = 7" "ra_expected_resource_version demo_request = 3"
    "st_now demo_site = 100" "get_candidate 10 7 demo_site = Some demo_candidate" "sv_schedule_version_id demo_candidate = Some 50"
    by (simp_all add: demo_request_def demo_site_def demo_candidate_def get_candidate_def)
  obtain v version_id where v: "get_candidate 10 7 demo_site = Some v" "sv_schedule_version_id v = Some version_id"
    and expired: "\<forall>u :: governed_store. 100 + 3600 \<le> st_now u \<longrightarrow> revalidate_binding demo_hashing b (st_now u) True u
      = (Inr (RevalidatedExpired, get_candidate 10 7 u), u)"
    and unexpired': "\<forall>(u :: governed_store) r. st_now u < 100 + 3600 \<and> get_run 10 7 u = Some r \<and> rv_resource_version r = 3
      \<longrightarrow> revalidate_binding demo_hashing b (st_now u) True u
      = (Inr (if request_undrifted demo_request version_id demo_site u then StillValid else RevalidatedStale, get_candidate 10 7 u), u)"
    using requested_binding_revalidates [OF ran] unfolding request by blast
  have "version_id = 50" using v request(5,6) by simp
  note unexpired = unexpired' [rule_format, unfolded this, OF conjI [OF _ conjI]]
  show ?thesis
  proof (intro exI [of _ b] conjI)
    show "revalidate_binding demo_hashing b 3700 True (demo_pending_site\<lparr>st_now := 3700\<rparr>)
       = (Inr (RevalidatedExpired, Some demo_candidate), demo_pending_site\<lparr>st_now := 3700\<rparr>)"
      using expired [rule_format, of "demo_pending_site\<lparr>st_now := 3700\<rparr>"] site(1) [of "demo_pending_site\<lparr>st_now := 3700\<rparr>"] tables by simp
    let ?u = "demo_pending_site\<lparr>st_now := 200\<rparr>"
    have "has_active_membership 5 7 ?u" using tables by (simp add: has_active_membership_def demo_site_def)
    then show "revalidate_binding demo_hashing b 200 True ?u = (Inr (StillValid, Some demo_candidate), ?u)"
      using unexpired [of ?u] site [of ?u] tables by auto
    let ?w = "demo_pending_site\<lparr>st_now := 200, gv_memberships := []\<rparr>"
    have "\<not> has_active_membership 5 7 ?w" by (simp add: has_active_membership_def)
    then show "revalidate_binding demo_hashing b 200 True ?w = (Inr (RevalidatedStale, Some demo_candidate), ?w)"
      using unexpired [of ?w] site [of ?w] tables by auto
  qed
qed

end
