(* ===== verification/Draft_Lifecycle.thy ===== *)
theory Draft_Lifecycle
  imports Proposals Snapshots Approval_Guarantees
begin

text \<open>
  The life of a draft under every command that touches it: the planner's revisions and rejections, the
  agent's turns, submissions to the queue and promotions by an approval. \<open>proposals_ok\<close> is what the
  proposal tables keep true, \<open>draft_evolves\<close> how they may change: an ended draft never does.
\<close>

section \<open>Well-formed proposal tables\<close>

text \<open>The versions of an active draft are numbered up to its resource version, which is the number of the current one.\<close>

definition numbered :: "proposal_version_row list \<Rightarrow> proposal_row \<Rightarrow> bool" where
  "numbered versions p \<longleftrightarrow> (\<forall>v \<in> set versions. px_proposal_id v = pr_id p \<longrightarrow> px_version_ordinal v \<le> pr_resource_version p
     \<and> (pr_current_version_id p = Some (px_id v) \<longrightarrow> px_version_ordinal v = pr_resource_version p))"

definition proposal_row_ok :: "proposal_version_row list \<Rightarrow> proposal_row \<Rightarrow> bool" where
  "proposal_row_ok versions p \<longleftrightarrow>
     (pr_state p = ProposalActive \<longleftrightarrow> pr_ended_by p = None)
     \<and> (pr_state p = ProposalApplied \<longleftrightarrow> pr_applied_version_id p \<noteq> None)
     \<and> (\<exists>v \<in> set versions. pr_current_version_id p = Some (px_id v) \<and> px_site_id v = pr_site_id p \<and> px_proposal_id v = pr_id p)
     \<and> (pr_state p = ProposalActive \<longrightarrow> numbered versions p)"

definition proposal_version_ok :: "proposal_version_row \<Rightarrow> bool" where
  "proposal_version_ok v \<longleftrightarrow>
     pp_proposal_id (px_payload v) = Some (px_proposal_id v) \<and> pp_proposal_version_id (px_payload v) = Some (px_id v)"

definition one_active :: "proposal_row list \<Rightarrow> bool" where
  "one_active rows \<longleftrightarrow> (\<forall>p \<in> set rows. \<forall>q \<in> set rows. pr_state p = ProposalActive \<longrightarrow> pr_state q = ProposalActive
     \<longrightarrow> pr_conversation_id p = pr_conversation_id q \<longrightarrow> pr_id p = pr_id q)"

lemma one_activeD:
  "one_active rows \<Longrightarrow> p \<in> set rows \<Longrightarrow> q \<in> set rows \<Longrightarrow> pr_state p = ProposalActive \<Longrightarrow> pr_state q = ProposalActive
   \<Longrightarrow> pr_conversation_id p = pr_conversation_id q \<Longrightarrow> pr_id p = pr_id q"
  unfolding one_active_def by blast

definition proposals_ok :: "'x governed_store_scheme \<Rightarrow> bool" where
  "proposals_ok s \<longleftrightarrow>
     distinct (map pr_id (gv_proposals s)) \<and> distinct (map px_id (gv_proposal_versions s))
     \<and> one_active (gv_proposals s)
     \<and> (\<forall>p \<in> set (gv_proposals s). proposal_row_ok (gv_proposal_versions s) p)
     \<and> (\<forall>v \<in> set (gv_proposal_versions s). proposal_version_ok v \<and> px_proposal_id v \<in> pr_id ` set (gv_proposals s))"

definition draft_row_evolves :: "proposal_row \<Rightarrow> proposal_row \<Rightarrow> bool" where
  "draft_row_evolves p p' \<longleftrightarrow> p' = p
     \<or> (pr_state p = ProposalActive \<and> pr_id p' = pr_id p \<and> pr_site_id p' = pr_site_id p
        \<and> pr_conversation_id p' = pr_conversation_id p \<and> pr_resource_version p < pr_resource_version p')"

definition draft_evolves :: "'x governed_store_scheme \<Rightarrow> 'x governed_store_scheme \<Rightarrow> bool" where
  "draft_evolves s s' \<longleftrightarrow> (proposals_ok s \<longrightarrow>
     proposals_ok s' \<and> table_evolves draft_row_evolves (gv_proposals s) (gv_proposals s')
     \<and> appended (gv_proposal_versions s) (gv_proposal_versions s'))"

lemma proposal_row_ok_others:
  "proposal_row_ok versions r \<Longrightarrow> \<forall>v \<in> set new. px_proposal_id v \<noteq> pr_id r \<Longrightarrow> proposal_row_ok (versions @ new) r"
  unfolding proposal_row_ok_def numbered_def set_append by blast

lemma draft_row_evolves_refl: "draft_row_evolves p p"
  by (simp add: draft_row_evolves_def)

lemma draft_row_evolves_trans: "draft_row_evolves p q \<Longrightarrow> draft_row_evolves q r \<Longrightarrow> draft_row_evolves p r"
  by (auto simp: draft_row_evolves_def)

interpretation draft: two_state "draft_evolves :: 'x governed_store_scheme \<Rightarrow> 'x governed_store_scheme \<Rightarrow> bool"
proof unfold_locales
  show "draft_evolves s s" for s :: "'x governed_store_scheme"
    by (simp add: draft_evolves_def table_evolves_refl draft_row_evolves_refl)
next
  show "draft_evolves s u" if "draft_evolves s t" "draft_evolves t u" for s t u :: "'x governed_store_scheme"
    using that unfolding draft_evolves_def
    by (blast intro: table_evolves_trans draft_row_evolves_trans appended_trans)
qed

section \<open>The three ways the tables change\<close>

text \<open>A draft row is replaced, with or without a new version row.\<close>

lemma draft_update:
  assumes p: "p \<in> set (gv_proposals s)" "pr_state p = ProposalActive" "pr_id p = pid" "pr_site_id p = site"
    and f: "pr_id (f p) = pid" "pr_site_id (f p) = site" "pr_conversation_id (f p) = pr_conversation_id p"
      "pr_resource_version p < pr_resource_version (f p)" "proposal_row_ok (gv_proposal_versions s @ new) (f p)"
    and new: "\<forall>v \<in> set new. proposal_version_ok v \<and> px_proposal_id v = pid" "distinct (map px_id (gv_proposal_versions s @ new))"
    and s': "gv_proposals s' = update_rows (\<lambda>r. pr_site_id r = site \<and> pr_id r = pid) f (gv_proposals s)"
      "gv_proposal_versions s' = gv_proposal_versions s @ new"
  shows "draft_evolves s s'"
  unfolding draft_evolves_def
proof (intro impI conjI)
  assume ok: "proposals_ok s"
  have only: "r = p" if "r \<in> set (gv_proposals s)" "pr_id r = pid" for r
    using that p ok distinct_map_eq [of pr_id "gv_proposals s" r p] by (auto simp: proposals_ok_def)
  have ids: "map pr_id (gv_proposals s') = map pr_id (gv_proposals s)"
    using f(1) only by (auto simp: s' update_rows_def)
  have elem: "r \<in> set (gv_proposals s') \<Longrightarrow> (r \<in> set (gv_proposals s) \<and> r \<noteq> p) \<or> r = f p" for r
  proof -
    assume "r \<in> set (gv_proposals s')"
    then obtain q where q: "q \<in> set (gv_proposals s)" "r = (if pr_site_id q = site \<and> pr_id q = pid then f q else q)"
      unfolding s' update_rows_def by auto
    show ?thesis
    proof (cases "q = p")
      case True
      with q p show ?thesis by simp
    next
      case False
      with q only show ?thesis by auto
    qed
  qed
  have orig: "\<exists>q \<in> set (gv_proposals s). pr_id q = pr_id r \<and> pr_conversation_id q = pr_conversation_id r \<and> pr_state q = ProposalActive"
    if "r \<in> set (gv_proposals s')" "pr_state r = ProposalActive" for r
    using elem [OF that(1)] that(2) p f by auto
  have act: "one_active (gv_proposals s')"
    unfolding one_active_def
  proof (intro ballI impI)
    fix q r assume qr: "q \<in> set (gv_proposals s')" "r \<in> set (gv_proposals s')" "pr_state q = ProposalActive"
      "pr_state r = ProposalActive" "pr_conversation_id q = pr_conversation_id r"
    have one: "one_active (gv_proposals s)" using ok by (simp add: proposals_ok_def)
    obtain q' r' where "q' \<in> set (gv_proposals s)" "pr_id q' = pr_id q" "pr_state q' = ProposalActive"
      "r' \<in> set (gv_proposals s)" "pr_id r' = pr_id r" "pr_state r' = ProposalActive"
      "pr_conversation_id q' = pr_conversation_id r'"
      using orig [OF qr(1,3)] orig [OF qr(2,4)] qr(5) by metis
    then show "pr_id q = pr_id r" using one_activeD [OF one, of q' r'] by metis
  qed
  have "proposal_row_ok (gv_proposal_versions s') r" if "r \<in> set (gv_proposals s')" for r
    using elem [OF that]
  proof (elim disjE conjE)
    assume r: "r \<in> set (gv_proposals s)" "r \<noteq> p"
    have "proposal_row_ok (gv_proposal_versions s) r" using ok r(1) by (simp add: proposals_ok_def)
    moreover have "\<forall>v \<in> set new. px_proposal_id v \<noteq> pr_id r" using new(1) only [OF r(1)] r(2) by auto
    ultimately show ?thesis unfolding s' by (intro proposal_row_ok_others)
  qed (simp add: s' f(5))
  moreover have "pr_id ` set (gv_proposals s') = pr_id ` set (gv_proposals s)" using ids by (metis set_map)
  ultimately show "proposals_ok s'"
    using ok act new ids p unfolding proposals_ok_def by (auto simp: s')
  have "draft_row_evolves p (f p)" using p f by (simp add: draft_row_evolves_def)
  then show "table_evolves draft_row_evolves (gv_proposals s) (gv_proposals s')"
    unfolding s' using only by (intro table_evolves_update draft_row_evolves_refl) blast
  show "appended (gv_proposal_versions s) (gv_proposal_versions s')" by (simp add: s')
qed

text \<open>A new active draft with its first version.\<close>

lemma draft_insert:
  assumes "pr_id p \<notin> pr_id ` set (gv_proposals s)" and "px_id v \<notin> px_id ` set (gv_proposal_versions s)"
    and "\<forall>q \<in> set (gv_proposals s). pr_conversation_id q = pr_conversation_id p \<longrightarrow> pr_state q \<noteq> ProposalActive"
    and "proposal_row_ok [v] p" and "proposal_version_ok v" and "px_proposal_id v = pr_id p"
    and s': "gv_proposals s' = gv_proposals s @ [p]" "gv_proposal_versions s' = gv_proposal_versions s @ [v]"
  shows "draft_evolves s s'"
  unfolding draft_evolves_def
proof (intro impI conjI)
  assume ok: "proposals_ok s"
  have "one_active (gv_proposals s')"
  proof -
    have one: "one_active (gv_proposals s)" using ok by (simp add: proposals_ok_def)
    show ?thesis
      unfolding one_active_def s'
    proof (intro ballI impI)
      fix q r assume qr: "q \<in> set (gv_proposals s @ [p])" "r \<in> set (gv_proposals s @ [p])" "pr_state q = ProposalActive"
        "pr_state r = ProposalActive" "pr_conversation_id q = pr_conversation_id r"
      have "q = p \<or> q \<in> set (gv_proposals s)" "r = p \<or> r \<in> set (gv_proposals s)" using qr(1,2) by auto
      then show "pr_id q = pr_id r"
        using one_activeD [OF one, of q r] assms(3) qr(3-5) by metis
    qed
  qed
  moreover have "proposal_row_ok (gv_proposal_versions s') r" if "r \<in> set (gv_proposals s')" for r
    using that ok assms(1,4,6) by (fastforce simp: s' proposals_ok_def proposal_row_ok_def numbered_def image_iff)
  ultimately show "proposals_ok s'"
    using ok assms(1,2,5,6) unfolding proposals_ok_def by (auto simp: s')
  show "table_evolves draft_row_evolves (gv_proposals s) (gv_proposals s')"
    unfolding s' by (intro table_evolves_append draft_row_evolves_refl)
  show "appended (gv_proposal_versions s) (gv_proposal_versions s')" by (simp add: s')
qed

definition proposal_tables :: "'x governed_store_scheme \<Rightarrow> proposal_row list \<times> proposal_version_row list" where
  "proposal_tables s = (gv_proposals s, gv_proposal_versions s)"

lemma draft_unchanged: "proposal_tables s' = proposal_tables s \<Longrightarrow> draft_evolves s s'"
  by (simp add: draft_evolves_def proposal_tables_def proposals_ok_def table_evolves_refl draft_row_evolves_refl)

lemma draft_keeps: "obeys (keeps proposal_tables) m \<Longrightarrow> obeys draft_evolves m"
  unfolding obeys_def keeps_def by (blast intro: draft_unchanged)

text \<open>A transaction needs to be looked at only when it commits.\<close>

lemma draft_transaction:
  "(\<And>s x s'. m s = (Inr x, s') \<Longrightarrow> draft_evolves s s') \<Longrightarrow> obeys draft_evolves (transaction m)"
  by (auto simp: obeys_def transaction_def draft.rel_refl split: prod.splits sum.splits)

lemma draft_evolvesI: "(proposals_ok s \<Longrightarrow> draft_evolves s s') \<Longrightarrow> draft_evolves s s'"
  by (auto simp: draft_evolves_def)

section \<open>Reading a draft\<close>

lemma read_one_proposal_InrD:
  assumes "read_one_proposal site P s = (Inr found, s')"
  shows "s' = s" and "found = None \<longleftrightarrow> find (\<lambda>p. pr_site_id p = site \<and> P p) (gv_proposals s) = None"
    and "found = Some r \<Longrightarrow> \<exists>p v. find (\<lambda>p. pr_site_id p = site \<and> P p) (gv_proposals s) = Some p
       \<and> find_proposal_version site (pr_current_version_id p) s = Some v
       \<and> pc_proposal r = (px_payload v)\<lparr>pp_state := pr_state p, pp_resource_version := pr_resource_version p\<rparr>
       \<and> pc_version_ordinal r = px_version_ordinal v"
proof -
  let ?row = "find (\<lambda>p. pr_site_id p = site \<and> P p) (gv_proposals s)"
  have "s' = s \<and> (found = None \<longleftrightarrow> ?row = None) \<and> (\<forall>r. found = Some r \<longrightarrow> (\<exists>p v. ?row = Some p
       \<and> find_proposal_version site (pr_current_version_id p) s = Some v
       \<and> pc_proposal r = (px_payload v)\<lparr>pp_state := pr_state p, pp_resource_version := pr_resource_version p\<rparr>
       \<and> pc_version_ordinal r = px_version_ordinal v))"
  proof (cases ?row)
    case None
    then show ?thesis using assms by (auto simp: read_one_proposal_def peel ret_def)
  next
    case (Some p)
    then have site: "pr_site_id p = site" using find_SomeD by fastforce
    show ?thesis
      using assms Some site
      by (cases "find_proposal_version site (pr_current_version_id p) s")
        (auto simp: read_one_proposal_def peel ret_def raise_def)
  qed
  then show "s' = s" and "found = None \<longleftrightarrow> ?row = None" and "found = Some r \<Longrightarrow> \<exists>p v. ?row = Some p
       \<and> find_proposal_version site (pr_current_version_id p) s = Some v
       \<and> pc_proposal r = (px_payload v)\<lparr>pp_state := pr_state p, pp_resource_version := pr_resource_version p\<rparr>
       \<and> pc_version_ordinal r = px_version_ordinal v"
    by blast+
qed

text \<open>In well-formed tables the record names the row it was read from.\<close>

lemma read_one_proposal_row:
  assumes "read_one_proposal site P s = (Inr (Some r), s')" and "proposals_ok s"
  obtains p where "p \<in> set (gv_proposals s)" "pr_site_id p = site" "P p" "pp_proposal_id (pc_proposal r) = Some (pr_id p)"
    "pp_state (pc_proposal r) = pr_state p" "pp_resource_version (pc_proposal r) = pr_resource_version p"
    "pr_state p = ProposalActive \<longrightarrow> pc_version_ordinal r = pr_resource_version p"
proof -
  obtain p v where p: "find (\<lambda>p. pr_site_id p = site \<and> P p) (gv_proposals s) = Some p"
    and v: "find_proposal_version site (pr_current_version_id p) s = Some v"
    and r: "pc_proposal r = (px_payload v)\<lparr>pp_state := pr_state p, pp_resource_version := pr_resource_version p\<rparr>"
      "pc_version_ordinal r = px_version_ordinal v"
    using read_one_proposal_InrD(3) [OF assms(1) refl] by blast
  have row: "p \<in> set (gv_proposals s)" "pr_site_id p = site" "P p" using find_SomeD [OF p] by auto
  have vm: "v \<in> set (gv_proposal_versions s)" "pr_current_version_id p = Some (px_id v)"
    using find_SomeD [OF v [unfolded find_proposal_version_def]] by auto
  obtain w where w: "w \<in> set (gv_proposal_versions s)" "pr_current_version_id p = Some (px_id w)" "px_proposal_id w = pr_id p"
    using assms(2) row(1) by (auto simp: proposals_ok_def proposal_row_ok_def)
  have "v = w"
    using distinct_map_eq [of px_id "gv_proposal_versions s" v w] assms(2) vm w by (auto simp: proposals_ok_def)
  moreover have "proposal_version_ok v" using assms(2) vm(1) by (auto simp: proposals_ok_def)
  moreover have "pr_state p = ProposalActive \<longrightarrow> numbered (gv_proposal_versions s) p"
    using assms(2) row(1) by (simp add: proposals_ok_def proposal_row_ok_def)
  ultimately show thesis using that [OF row] r vm w(3) by (simp add: proposal_version_ok_def numbered_def)
qed

section \<open>The statements on drafts\<close>

lemma append_agent_version_InrD:
  assumes "append_agent_version proposal site ordinal s = (Inr u, s')"
  obtains pid vid where "pp_proposal_id proposal = Some pid" "pp_proposal_version_id proposal = Some vid"
    "vid \<notin> px_id ` set (gv_proposal_versions s)"
    "s' = s\<lparr>gv_proposal_versions := gv_proposal_versions s @ [\<lparr>px_id = vid, px_site_id = site, px_proposal_id = pid,
         px_version_ordinal = ordinal, px_payload = proposal\<rparr>],
       gv_proposals := update_rows (\<lambda>p. pr_site_id p = site \<and> pr_id p = pid)
         (\<lambda>p. p\<lparr>pr_current_version_id := Some vid, pr_resource_version := pp_resource_version proposal\<rparr>) (gv_proposals s)\<rparr>"
proof -
  obtain pid vid where ids: "pp_proposal_id proposal = Some pid" "pp_proposal_version_id proposal = Some vid"
    using assms by (auto simp: append_agent_version_def raise_def split: option.splits)
  show thesis
    using assms that [OF ids] ids
    by (auto simp: append_agent_version_def insert_proposal_version_def update_proposal_def peel and_then_writing
        and_then_assoc writing_def split: if_splits)
qed

lemma append_agent_version_evolves:
  assumes "append_agent_version proposal site ordinal s = (Inr u, s')"
    and "p \<in> set (gv_proposals s)" "pr_state p = ProposalActive" "pr_site_id p = site" "pp_proposal_id proposal = Some (pr_id p)"
    and "ordinal = pp_resource_version proposal" "pr_resource_version p < pp_resource_version proposal"
  shows "draft_evolves s s'"
proof (rule draft_evolvesI)
  assume ok: "proposals_ok s"
  obtain pid vid where pid: "pp_proposal_id proposal = Some pid"
    and vid: "pp_proposal_version_id proposal = Some vid" "vid \<notin> px_id ` set (gv_proposal_versions s)"
    and s': "s' = s\<lparr>gv_proposal_versions := gv_proposal_versions s @ [\<lparr>px_id = vid, px_site_id = site, px_proposal_id = pid,
         px_version_ordinal = ordinal, px_payload = proposal\<rparr>],
       gv_proposals := update_rows (\<lambda>q. pr_site_id q = site \<and> pr_id q = pid)
         (\<lambda>q. q\<lparr>pr_current_version_id := Some vid, pr_resource_version := pp_resource_version proposal\<rparr>) (gv_proposals s)\<rparr>"
    by (rule append_agent_version_InrD [OF assms(1)])
  have mine: "pr_id p = pid" using pid assms(5) by simp
  have "pr_ended_by p = None" "pr_applied_version_id p = None" "distinct (map px_id (gv_proposal_versions s))"
    and "numbered (gv_proposal_versions s) p"
    using ok assms(2,3) by (auto simp: proposals_ok_def proposal_row_ok_def)
  then have "numbered (gv_proposal_versions s @ [\<lparr>px_id = vid, px_site_id = site, px_proposal_id = pid, px_version_ordinal = ordinal,
      px_payload = proposal\<rparr>]) (p\<lparr>pr_current_version_id := Some vid, pr_resource_version := pp_resource_version proposal\<rparr>)"
    using assms(6,7) vid(2) mine by (fastforce simp: numbered_def)
  with \<open>pr_ended_by p = None\<close> \<open>pr_applied_version_id p = None\<close> \<open>distinct (map px_id (gv_proposal_versions s))\<close>
  show ?thesis
    using assms(2-4,6,7) mine pid vid
    by (intro draft_update [where p = p and pid = pid and site = site
          and f = "\<lambda>q. q\<lparr>pr_current_version_id := Some vid, pr_resource_version := pp_resource_version proposal\<rparr>"
          and new = "[\<lparr>px_id = vid, px_site_id = site, px_proposal_id = pid, px_version_ordinal = ordinal, px_payload = proposal\<rparr>]"])
      (simp_all add: s' proposal_row_ok_def proposal_version_ok_def)
qed

text \<open>Ending an active draft, whoever ends it.\<close>

lemma end_draft_evolves:
  assumes "p \<in> set (gv_proposals s)" "pr_state p = ProposalActive" "pr_site_id p = site" "pr_id p = pid"
    and "gv_proposals s' = update_rows (\<lambda>q. pr_site_id q = site \<and> pr_id q = pid)
      (\<lambda>q. q\<lparr>pr_state := ProposalRejected, pr_ended_by := Some who, pr_resource_version := v q\<rparr>) (gv_proposals s)"
    and "gv_proposal_versions s' = gv_proposal_versions s" and "pr_resource_version p < v p"
  shows "draft_evolves s s'"
proof (rule draft_evolvesI)
  assume ok: "proposals_ok s"
  show ?thesis
    using ok assms
    by (intro draft_update [where p = p and pid = pid and site = site and new = "[]"
          and f = "\<lambda>q. q\<lparr>pr_state := ProposalRejected, pr_ended_by := Some who, pr_resource_version := v q\<rparr>"])
      (auto simp: proposals_ok_def proposal_row_ok_def)
qed

lemma create_draft_evolves:
  assumes "create_draft proposal site conv actor s = (Inr u, s')" and "pp_resource_version proposal = 1"
  shows "draft_evolves s s'"
proof -
  obtain pid vid scen ver where ids: "pp_proposal_id proposal = Some pid" "pp_proposal_version_id proposal = Some vid"
    "pp_scenario_id proposal = Some scen" "pp_scenario_version_id proposal = Some ver"
    using assms(1) by (auto simp: create_draft_def raise_def split: option.splits)
  let ?p = "\<lparr>pr_id = pid, pr_site_id = site, pr_scenario_id = scen, pr_scenario_version_id = ver, pr_conversation_id = conv,
      pr_created_by_actor_id = actor, pr_state = ProposalActive, pr_current_version_id = Some vid,
      pr_resource_version = pp_resource_version proposal, pr_ended_by = None, pr_applied_version_id = None\<rparr>"
  let ?v = "\<lparr>px_id = vid, px_site_id = site, px_proposal_id = pid, px_version_ordinal = 1, px_payload = proposal\<rparr>"
  have fresh: "pid \<notin> pr_id ` set (gv_proposals s)" "vid \<notin> px_id ` set (gv_proposal_versions s)"
    "\<forall>q \<in> set (gv_proposals s). pr_conversation_id q = conv \<longrightarrow> pr_state q \<noteq> ProposalActive"
    and s': "s' = s\<lparr>gv_proposals := update_rows (\<lambda>p. pr_site_id p = site \<and> pr_id p = pid) (\<lambda>p. p\<lparr>pr_current_version_id := Some vid\<rparr>)
        (gv_proposals s @ [?p\<lparr>pr_current_version_id := None\<rparr>]), gv_proposal_versions := gv_proposal_versions s @ [?v]\<rparr>"
    using assms(1) ids
    by (auto simp: create_draft_def insert_proposal_version_def update_proposal_def peel and_then_writing and_then_assoc
        writing_def split: if_splits)
  have "update_rows (\<lambda>p. pr_site_id p = site \<and> pr_id p = pid) (\<lambda>p. p\<lparr>pr_current_version_id := Some vid\<rparr>) (gv_proposals s)
      = gv_proposals s"
    unfolding update_rows_def using fresh(1) by (intro map_idI) (auto simp: image_iff)
  then have "gv_proposals s' = gv_proposals s @ [?p]" "gv_proposal_versions s' = gv_proposal_versions s @ [?v]"
    by (simp_all add: s' update_rows_def)
  then show ?thesis
    using fresh ids assms(2)
    by (intro draft_insert [where p = ?p and v = ?v]) (auto simp: proposal_row_ok_def proposal_version_ok_def numbered_def)
qed

section \<open>The planner's commands\<close>

lemma current_for_command_InrD:
  assumes "current_for_command site pid s = (Inr found, s')"
  shows "s' = s" and "found = Some (r, ov) \<Longrightarrow> get_current_proposal site pid s = (Inr (Some r), s)"
proof -
  have "s' = s \<and> (\<forall>r ov. found = Some (r, ov) \<longrightarrow> get_current_proposal site pid s = (Inr (Some r), s))"
    using assms unfolding current_for_command_def get_current_proposal_def
    by (elim and_then_InrE) (auto simp: ret_def raise_def peel dest: read_one_proposal_InrD(1) split: option.splits)
  then show "s' = s" and "found = Some (r, ov) \<Longrightarrow> get_current_proposal site pid s = (Inr (Some r), s)" by blast+
qed

lemma replay_or_conflict_InrD: "replay_or_conflict q name h v s = (Inr x, s') \<Longrightarrow> s' = s"
  unfolding replay_or_conflict_def
  by (elim and_then_InrE) (auto simp: peel ret_def raise_def reading_def split: option.splits idempotent_payload.splits if_splits)

lemma refuse_if_ended_InrD: "refuse_if_ended p s = (Inr u, s') \<Longrightarrow> s' = s \<and> pp_state p = ProposalActive"
  by (cases "pp_state p") (auto simp: refuse_if_ended_def and_then_raise_if raise_if_def ret_def raise_def and_then_def)

lemma store_idempotent_tables: "store_idempotent_result site actor op key h p s = (r, s') \<Longrightarrow> proposal_tables s' = proposal_tables s"
  by (auto simp: store_idempotent_result_def writing_def proposal_tables_def split: if_splits)

lemma proposal_tables_draft:
  "draft_evolves s t \<Longrightarrow> proposal_tables u = proposal_tables t \<Longrightarrow> draft_evolves s u"
  using draft.rel_trans draft_unchanged by blast

text \<open>A command that finds the draft active and returns has run its guards in the store it started in.\<close>

lemma write_revision_evolves:
  assumes ran: "write_revision h nt q cs body r ov s = (Inr v, s')"
    and row: "p \<in> set (gv_proposals s)" "pr_state p = ProposalActive" "pr_site_id p = pq_site_id q"
      "pp_proposal_id (pc_proposal r) = Some (pr_id p)" "pp_resource_version (pc_proposal r) = pr_resource_version p"
      "pc_version_ordinal r = pr_resource_version p"
  shows "draft_evolves s s'"
proof -
  let ?revised = "\<lambda>version_id resolved canonical_hash. (pc_proposal r)\<lparr>pp_proposal_version_id := Some version_id,
     pp_resolved_entities := unique_entities resolved, pp_constraints := resolved,
     pp_consequence_summary := consequence_summary resolved (pp_preserved_locks (pc_proposal r)),
     pp_canonical_hash := canonical_hash, pp_resource_version := pp_resource_version (pc_proposal r) + 1\<rparr>"
  obtain resolved canonical_hash n view u where
    app: "append_revision (?revised (st_fresh s) resolved canonical_hash) (pq_site_id q) (pc_version_ordinal r + 1)
       (proposal_operation (pq_proposal_id q) ''revision'') (pq_idempotency_key q) body (pq_actor_id q) view
       (s\<lparr>st_fresh := n\<rparr>) = (Inr u, s')"
    using ran unfolding write_revision_def derive_draft_id_def Let_def and_then_reading
    by (auto simp: peel raise_def split: sum.splits elim!: and_then_InrE dest!: digest_of_InrD ret_InrD)
  then obtain t where ver: "append_agent_version (?revised (st_fresh s) resolved canonical_hash) (pq_site_id q)
      (pc_version_ordinal r + 1) (s\<lparr>st_fresh := n\<rparr>) = (Inr (), t)"
    and sto: "store_idempotent_result (pq_site_id q) (pq_actor_id q) (proposal_operation (pq_proposal_id q) ''revision'')
      (pq_idempotency_key q) body (ProposalPayload view) t = (Inr u, s')"
    unfolding append_revision_def by (auto elim!: and_then_InrE)
  have "draft_evolves (s\<lparr>st_fresh := n\<rparr>) t"
    by (rule append_agent_version_evolves [OF ver, where p = p]) (use row in simp_all)
  then have "draft_evolves (s\<lparr>st_fresh := n\<rparr>) s'"
    using proposal_tables_draft store_idempotent_tables [OF sto] by blast
  then show ?thesis
    by (rule draft.rel_trans [OF draft_unchanged, rotated]) (simp add: proposal_tables_def)
qed

lemma reject_row_evolves:
  assumes ran: "reject_row rejected site op key body actor view s = (Inr u, s')"
    and row: "p \<in> set (gv_proposals s)" "pr_state p = ProposalActive" "pr_site_id p = site" "pp_proposal_id rejected = Some (pr_id p)"
      "pr_resource_version p < pp_resource_version rejected"
  shows "draft_evolves s s'"
proof -
  let ?t = "s\<lparr>gv_proposals := update_rows (\<lambda>x. pr_site_id x = site \<and> pr_id x = pr_id p)
     (\<lambda>x. x\<lparr>pr_state := ProposalRejected, pr_ended_by := Some EndedByPlanner,
            pr_resource_version := pp_resource_version rejected\<rparr>) (gv_proposals s)\<rparr>"
  have "store_idempotent_result site actor op key body (ProposalPayload view) ?t = (Inr u, s')"
    using ran row by (simp add: reject_row_def update_proposal_def and_then_writing)
  then have "proposal_tables s' = proposal_tables ?t" by (rule store_idempotent_tables)
  moreover have "draft_evolves s ?t"
    using row by (intro end_draft_evolves [where p = p and who = EndedByPlanner
          and v = "\<lambda>_. pp_resource_version rejected"]) simp_all
  ultimately show ?thesis using proposal_tables_draft by blast
qed

text \<open>Both commands: a result without a write, or their own part on the row the record was read from.\<close>

lemma command_on_current_InrD:
  assumes "command_on_current q name body act s = (Inr v, s')"
  obtains "s' = s"
  | r ov w where "get_current_proposal (pq_site_id q) (pq_proposal_id q) s = (Inr (Some r), s)" "act r ov s = (Inr w, s')" "v = Some w"
proof -
  obtain found where cur: "current_for_command (pq_site_id q) (pq_proposal_id q) s = (Inr found, s)"
    and rest: "(case found of None \<Rightarrow> ret None
     | Some (r, ov) \<Rightarrow>
         and_then (replay_or_conflict q name body (ov_scenario_version_id ov)) (\<lambda>replay. case replay of
           Some v \<Rightarrow> ret (Some v) | None \<Rightarrow> and_then (act r ov) (\<lambda>v. ret (Some v)))) s = (Inr v, s')"
    using assms unfolding command_on_current_def by (elim and_then_InrE) (auto dest: current_for_command_InrD(1))
  show thesis
  proof (cases found)
    case None
    with rest show thesis using that(1) by (simp add: ret_def)
  next
    case (Some rov)
    obtain r ov where rov: "rov = (r, ov)" by fastforce
    have get: "get_current_proposal (pq_site_id q) (pq_proposal_id q) s = (Inr (Some r), s)"
      using current_for_command_InrD(2) [OF cur] Some rov by simp
    show thesis
      using rest Some rov that(1) that(2) [OF get]
      by (auto elim!: and_then_InrE dest!: replay_or_conflict_InrD ret_InrD split: option.splits)
  qed
qed

lemma command_on_current_evolves:
  assumes ran: "command_on_current q name body act s = (Inr v, s')"
    and act: "\<And>r ov w p. \<lbrakk>act r ov s = (Inr w, s'); p \<in> set (gv_proposals s); pr_site_id p = pq_site_id q;
        pp_proposal_id (pc_proposal r) = Some (pr_id p); pp_state (pc_proposal r) = pr_state p;
        pp_resource_version (pc_proposal r) = pr_resource_version p;
        pr_state p = ProposalActive \<longrightarrow> pc_version_ordinal r = pr_resource_version p\<rbrakk> \<Longrightarrow> draft_evolves s s'"
  shows "draft_evolves s s'"
proof (rule draft_evolvesI)
  assume ok: "proposals_ok s"
  from ran show ?thesis
  proof (cases rule: command_on_current_InrD)
    case 1
    then show ?thesis by (simp add: draft.rel_refl)
  next
    case (2 r ov w)
    obtain p where "p \<in> set (gv_proposals s)" "pr_site_id p = pq_site_id q" "pp_proposal_id (pc_proposal r) = Some (pr_id p)"
      "pp_state (pc_proposal r) = pr_state p" "pp_resource_version (pc_proposal r) = pr_resource_version p"
      "pr_state p = ProposalActive \<longrightarrow> pc_version_ordinal r = pr_resource_version p"
      by (rule read_one_proposal_row [OF 2(1) [unfolded get_current_proposal_def] ok])
    then show ?thesis using act [OF 2(2)] by blast
  qed
qed

lemma revise_proposal_evolves:
  assumes "revise_proposal h nt limit q cs s = (Inr v, s')"
  shows "draft_evolves s s'"
proof -
  obtain body where "command_on_current q ''revision'' body (revise_current h nt q cs body) s = (Inr v, s')"
    using assms unfolding revise_proposal_def by (elim and_then_InrE) (auto dest!: raise_if_InrD digest_of_InrD)
  then show ?thesis
    by (rule command_on_current_evolves)
      (auto simp: revise_current_def elim!: and_then_InrE dest!: refuse_if_ended_InrD raise_if_InrD intro: write_revision_evolves)
qed

lemma reject_proposal_evolves:
  assumes "reject_proposal h q s = (Inr v, s')"
  shows "draft_evolves s s'"
proof -
  obtain body where "command_on_current q ''rejection'' body (reject_current q body) s = (Inr v, s')"
    using assms unfolding reject_proposal_def by (elim and_then_InrE) (auto dest!: digest_of_InrD)
  then show ?thesis
    by (rule command_on_current_evolves)
      (auto simp: reject_current_def Let_def elim!: and_then_InrE dest!: refuse_if_ended_InrD raise_if_InrD ret_InrD
        intro: reject_row_evolves)
qed

section \<open>Agent turns\<close>

lemma tables_uuid4: "obeys (keeps proposal_tables) uuid4"
  by (simp add: obeys_def keeps_def uuid4_def proposal_tables_def)

lemma tables_append_activity:
  "obeys (keeps proposal_tables) (append_activity conv scen ver ty t req agent site actor payload)"
  unfolding append_activity_def Let_def by (intro keep_rules tables_uuid4) (simp add: proposal_tables_def)

lemma tables_lock_conversation: "obeys (keeps proposal_tables) (lock_conversation site conv msg)"
  unfolding lock_conversation_def by (intro keep_rules)

lemma tables_require_agent_status: "obeys (keeps proposal_tables) (require_agent_status site agent st)"
  unfolding require_agent_status_def by (intro keep_rules)

lemma tables_set_agent_run: "obeys (keeps proposal_tables) (set_agent_run site agent f)"
  unfolding set_agent_run_def by (intro keep_rules) (simp add: proposal_tables_def)

lemmas tables_conversation =
  tables_uuid4 tables_append_activity tables_lock_conversation tables_require_agent_status tables_set_agent_run

lemma tables_finish_agent_run: "obeys (keeps proposal_tables) (finish_agent_run site claimed st payload req)"
  unfolding finish_agent_run_def by (intro keep_rules tables_conversation)

lemma tables_approval_activity: "obeys (keeps proposal_tables) (append_approval_activity site b actor req agent t st)"
  unfolding append_approval_activity_def by (intro keep_rules tables_conversation)

text \<open>What binds a turn to the draft it saw: the claimed run is of the session's site, a new draft is version one, and a
  draft that updates carries the identifier of the draft it observed and the number after its version.\<close>

definition write_bound :: "agent_draft_write_v1 \<Rightarrow> bool" where
  "write_bound w \<longleftrightarrow> (case dw_outcome w of
      DraftCreated \<Rightarrow> pp_resource_version (dw_proposal w) = 1
    | DraftUpdated \<Rightarrow> dw_observed_working_id w = pp_proposal_id (dw_proposal w)
        \<and> dw_observed_resource_version w = Some (pp_resource_version (dw_proposal w) - 1)
        \<and> dw_version_ordinal w = pp_resource_version (dw_proposal w))"

definition turn_bound :: "uuid \<Rightarrow> claimed_agent_run_v1 \<Rightarrow> turn_payload \<Rightarrow> bool" where
  "turn_bound site claimed payload \<longleftrightarrow> cl_site_id claimed = site
     \<and> (case payload of TurnActivity _ \<Rightarrow> True | TurnDraft w \<Rightarrow> write_bound w)"

lemma working_matches_row:
  assumes "get_working_proposal site conv s = (Inr working, s')" and "proposals_ok s"
    and "working_matches working pid version"
  obtains p where "p \<in> set (gv_proposals s)" "pr_site_id p = site" "pr_state p = ProposalActive" "pid = Some (pr_id p)"
    "version = Some (pr_resource_version p)"
proof -
  obtain w where w: "working = Some w" "pp_proposal_id (pc_proposal w) = pid" "Some (pp_resource_version (pc_proposal w)) = version"
    using assms(3) by (auto simp: working_matches_def split: option.splits)
  obtain p where "p \<in> set (gv_proposals s)" "pr_site_id p = site"
    "pr_conversation_id p = conv \<and> pr_state p = ProposalActive" "pp_proposal_id (pc_proposal w) = Some (pr_id p)"
    "pp_resource_version (pc_proposal w) = pr_resource_version p"
    by (rule read_one_proposal_row [OF assms(1) [unfolded get_working_proposal_def w(1)] assms(2)])
  then show thesis using that w(2,3) by simp
qed

text \<open>The writes of a turn that applies, from the store the working draft was read in.\<close>

lemma end_by_assistant_evolves:
  assumes "p \<in> set (gv_proposals s)" "pr_site_id p = site" "pr_state p = ProposalActive" "pr_id p = pid"
    and "end_by_assistant site pid v s = (Inr u, s')" and "pr_resource_version p < v"
  shows "draft_evolves s s'"
  by (rule end_draft_evolves [where p = p and site = site and pid = pid
        and who = EndedByAssistant and v = "\<lambda>_. v"])
    (use assms in \<open>simp_all add: end_by_assistant_def update_proposal_def writing_def, auto\<close>)

lemma turn_writes_evolve:
  assumes work: "get_working_proposal site conv s = (Inr working, s0)" and same: "proposal_tables t = proposal_tables s"
    and applies: "turn_applies draft discard working"
    and bound: "cl_site_id claimed = site"
      "\<And>w. draft = Some w \<Longrightarrow> write_bound w \<and> (dw_outcome w = DraftUpdated \<longrightarrow> discard = None)"
    and ended: "(case discard of None \<Rightarrow> ret ()
        | Some d \<Rightarrow> end_by_assistant site (dd_proposal_id d) (dd_observed_resource_version d + 1)) t = (Inr u, t1)"
    and written: "(case draft of None \<Rightarrow> ret () | Some w \<Rightarrow> write_draft claimed w) t1 = (Inr u', t2)"
  shows "draft_evolves t t2"
proof (rule draft_evolvesI)
  assume "proposals_ok t"
  then have ok: "proposals_ok s" using same by (simp add: proposals_ok_def proposal_tables_def)
  have rows: "gv_proposals t = gv_proposals s" using same by (simp add: proposal_tables_def)
  have first: "draft_evolves t t1"
  proof (cases discard)
    case None
    with ended show ?thesis by (simp add: ret_def draft.rel_refl)
  next
    case (Some d)
    then have "working_matches working (Some (dd_proposal_id d)) (Some (dd_observed_resource_version d))"
      using applies by (simp add: turn_applies_def)
    then obtain p where "p \<in> set (gv_proposals s)" "pr_site_id p = site" "pr_state p = ProposalActive"
      "Some (dd_proposal_id d) = Some (pr_id p)" "Some (dd_observed_resource_version d) = Some (pr_resource_version p)"
      by (rule working_matches_row [OF work ok])
    then show ?thesis
      using end_by_assistant_evolves [of p t site "dd_proposal_id d"] ended rows Some by auto
  qed
  have "draft_evolves t1 t2"
  proof (cases draft)
    case None
    with written show ?thesis by (simp add: ret_def draft.rel_refl)
  next
    case (Some w)
    show ?thesis
    proof (cases "dw_outcome w")
      case DraftCreated
      with Some written bound(2) [OF Some] show ?thesis by (auto simp: write_draft_def write_bound_def intro: create_draft_evolves)
    next
      case DraftUpdated
      have none: "discard = None" and pid: "dw_observed_working_id w = pp_proposal_id (dw_proposal w)"
        "dw_observed_resource_version w = Some (pp_resource_version (dw_proposal w) - 1)"
        "dw_version_ordinal w = pp_resource_version (dw_proposal w)"
        using bound(2) [OF Some] DraftUpdated by (auto simp: write_bound_def)
      have t1: "t1 = t" using ended none by (simp add: ret_def)
      have "working_matches working (dw_observed_working_id w) (dw_observed_resource_version w)"
        using applies none Some DraftUpdated by (simp add: turn_applies_def)
      then obtain p where "p \<in> set (gv_proposals s)" "pr_site_id p = site" "pr_state p = ProposalActive"
        "dw_observed_working_id w = Some (pr_id p)" "dw_observed_resource_version w = Some (pr_resource_version p)"
        by (rule working_matches_row [OF work ok])
      then show ?thesis
        using written Some DraftUpdated pid t1 rows bound(1)
        by (auto simp: write_draft_def intro: append_agent_version_evolves)
    qed
  qed
  with first show ?thesis by (rule draft.rel_trans)
qed

lemma get_working_same: "get_working_proposal site conv s = (Inr w, t) \<Longrightarrow> t = s"
  unfolding get_working_proposal_def by (rule read_one_proposal_InrD(1))

lemma lock_conversation_same: "lock_conversation site conv m s = (Inr c, t) \<Longrightarrow> t = s"
  by (auto simp: lock_conversation_def peel ret_def raise_def split: option.splits)

lemma finish_agent_run_evolves: "finish_agent_run site claimed x y req s = (Inr z, t) \<Longrightarrow> draft_evolves s t"
  by (rule draft_unchanged [OF keepsD [OF tables_finish_agent_run]])

lemma guarded_turn_evolves:
  assumes ran: "guarded_turn site claimed st shown draft discard req s = (Inr r, s')"
    and bound: "cl_site_id claimed = site"
      "\<And>w. draft = Some w \<Longrightarrow> write_bound w"
  shows "draft_evolves s s'"
proof -
  obtain working where no: "\<not> (discard \<noteq> None \<and> map_option dw_outcome draft = Some DraftUpdated)"
    and work: "get_working_proposal site (cl_conversation_id claimed) s = (Inr working, s)"
    and rest: "(if turn_applies draft discard working then apply_turn site claimed st shown draft discard req
       else finish_agent_run site claimed AgentFailed draft_changed req) s = (Inr r, s')"
    using ran unfolding guarded_turn_def
    by - (elim and_then_InrE, drule raise_if_InrD, drule lock_conversation_same, frule get_working_same, auto)
  show ?thesis
  proof (cases "turn_applies draft discard working")
    case False
    with rest show ?thesis by (auto intro: finish_agent_run_evolves)
  next
    case True
    then obtain t t1 e u u' where fin: "finish_agent_run site claimed st shown req s = (Inr e, t)"
      and ended: "(case discard of None \<Rightarrow> ret ()
        | Some d \<Rightarrow> end_by_assistant site (dd_proposal_id d) (dd_observed_resource_version d + 1)) t = (Inr u, t1)"
      and written: "(case draft of None \<Rightarrow> ret () | Some w \<Rightarrow> write_draft claimed w) t1 = (Inr u', s')"
      using rest unfolding apply_turn_def by (auto elim!: and_then_InrE dest!: ret_InrD)
    have "draft_evolves t s'"
      using no bound
      by (intro turn_writes_evolve [OF work keepsD [OF tables_finish_agent_run fin] True _ _ ended written]) auto
    with finish_agent_run_evolves [OF fin] show ?thesis by (rule draft.rel_trans)
  qed
qed

lemma finalize_agent_run_evolves:
  assumes ran: "finalize_agent_run site claimed st payload discard req s = (Inr r, s')" and bound: "turn_bound site claimed payload"
  shows "draft_evolves s s'"
proof -
  have sh: "t = s" if "shown_payload payload s = (Inr x, t)" for x t
    using that by (auto simp: shown_payload_def ret_def raise_def split: turn_payload.splits option.splits)
  obtain shown where "(case (payload, discard) of
       (TurnActivity _, None) \<Rightarrow> finish_agent_run site claimed st shown req
     | (TurnActivity _, Some _) \<Rightarrow> guarded_turn site claimed st shown None discard req
     | (TurnDraft w, _) \<Rightarrow> guarded_turn site claimed st shown (Some w) discard req) s = (Inr r, s')"
    using ran unfolding finalize_agent_run_def by (elim and_then_InrE) (auto dest: sh)
  then show ?thesis
    using bound unfolding turn_bound_def
    by (cases payload; cases discard) (auto intro: finish_agent_run_evolves guarded_turn_evolves)
qed

section \<open>Submissions and approvals\<close>

text \<open>A submission reads a proposal and writes none; of an approval's statements only the last one of a
  promotion touches a proposal.\<close>

lemma tables_read_one: "obeys (keeps proposal_tables) (read_one_proposal site P)"
  unfolding read_one_proposal_def by (intro keep_rules)

lemma tables_digest_of: "obeys (keeps proposal_tables) (digest_of h v)"
  unfolding digest_of_def by (auto intro!: keep_rules split: option.splits)

lemma tables_snapshot_context: "obeys (keeps proposal_tables) (snapshot_context site pid)"
  unfolding snapshot_context_def get_current_proposal_def by (intro keep_rules tables_read_one)

lemma tables_create_queued_run: "obeys (keeps proposal_tables) (create_queued_run snapshot site actor)"
  unfolding create_queued_run_def write_progress_event_def
  by (auto intro!: keep_rules tables_uuid4 simp: proposal_tables_def append_event_def split: option.splits)

lemma tables_new_run_snapshot: "obeys (keeps proposal_tables) (new_run_snapshot h fmt r)"
  unfolding new_run_snapshot_def Let_def by (intro keep_rules tables_digest_of)

lemma tables_enqueue_job: "obeys (keeps proposal_tables) (enqueue_job job site)"
  unfolding enqueue_job_def
  by (auto intro!: keep_rules simp: proposal_tables_def split: option.splits)

lemma tables_store_idempotent: "obeys (keeps proposal_tables) (store_idempotent_result site actor op key h p)"
  unfolding store_idempotent_result_def by (intro keep_rules) (simp add: proposal_tables_def)

lemma tables_create_run_snapshot: "obeys (keeps proposal_tables) (create_run_snapshot h st site pid actor t)"
  unfolding create_run_snapshot_def
  by (auto intro!: keep_rules tables_uuid4 tables_snapshot_context tables_new_run_snapshot tables_create_queued_run split: sum.splits)

lemma tables_submit_run: "obeys (keeps proposal_tables) (submit_run h st q body)"
  unfolding submit_run_def new_job_lease_def
  by (auto intro!: keep_rules tables_uuid4 tables_create_run_snapshot tables_enqueue_job tables_store_idempotent split: option.splits)

lemma tables_enqueue_compute: "obeys (keeps proposal_tables) (enqueue_compute h st q)"
  unfolding enqueue_compute_def get_current_proposal_def replay_enqueue_def enqueue_result_of_payload_def
  by (auto intro!: keep_rules tables_read_one tables_digest_of tables_submit_run split: option.splits idempotent_payload.splits)

lemma tables_case_prod: "(\<And>a b. obeys (keeps proposal_tables) (f a b)) \<Longrightarrow> obeys (keeps proposal_tables) (case v of (a, b) \<Rightarrow> f a b)"
  by (cases v) simp

lemma tables_write_audit: "obeys (keeps proposal_tables) (write_audit b req decided outcome after ev now)"
  unfolding write_audit_def audit_append_def by (intro keep_rules tables_uuid4) (simp add: proposal_tables_def)

lemma tables_close_approval: "obeys (keeps proposal_tables) (close_approval aid site expected f)"
  unfolding close_approval_def Let_def by (intro keep_rules) (simp add: proposal_tables_def)

lemma tables_promote: "obeys (keeps proposal_tables) (promote site v actor t expected)"
  unfolding promote_def Let_def by (auto intro!: keep_rules simp: proposal_tables_def split: option.splits)

lemma tables_cancel_agent_run: "obeys (keeps proposal_tables) (cancel_agent_run_for_approval site agent b reason)"
  unfolding cancel_agent_run_for_approval_def by (intro keep_rules tables_conversation)

lemma tables_pause_agent_run: "obeys (keeps proposal_tables) (pause_agent_run_for_approval site agent b req)"
  unfolding pause_agent_run_for_approval_def by (intro keep_rules tables_conversation tables_approval_activity)

lemma tables_notify_consumed: "obeys (keeps proposal_tables) (notify_consumed b consumed actor req t)"
  unfolding notify_consumed_def resume_agent_run_for_approval_def
  by (auto intro!: keep_rules tables_conversation tables_approval_activity split: option.splits list.splits)

lemma tables_create_pending: "obeys (keeps proposal_tables) (create_pending b payload)"
  unfolding create_pending_def by (intro keep_rules) (simp add: proposal_tables_def)

lemma tables_request_approval: "obeys (keeps proposal_tables) (request_approval h enabled expiry c)"
  unfolding request_approval_def Let_def
  by (intro keep_rules tables_uuid4 tables_digest_of tables_create_pending tables_write_audit tables_pause_agent_run tables_approval_activity)

lemma tables_revalidate: "obeys (keeps proposal_tables) (revalidate_binding h b now enabled)"
  unfolding revalidate_binding_def Let_def by (intro keep_rules tables_digest_of)

lemma tables_close_without_effect: "obeys (keeps proposal_tables) (close_without_effect c b outcome candidate now)"
  unfolding close_without_effect_def terminalize_def
  by (intro keep_rules tables_close_approval tables_cancel_agent_run tables_write_audit tables_approval_activity)

lemma draft_apply_update:
  "obeys draft_evolves (update_proposal site (\<lambda>p. pr_id p = pid \<and> pr_state p = ProposalActive)
     (\<lambda>p. p\<lparr>pr_state := ProposalApplied, pr_ended_by := Some EndedBySystem, pr_applied_version_id := Some vid,
            pr_resource_version := pr_resource_version p + 1\<rparr>))" (is "obeys _ (update_proposal _ ?mine ?f)")
  unfolding obeys_def
proof
  fix s :: "'x governed_store_scheme"
  show "draft_evolves s (snd (update_proposal site ?mine ?f s))"
  proof (cases "\<exists>p \<in> set (gv_proposals s). pr_site_id p = site \<and> ?mine p")
    case False
    then have "update_rows (\<lambda>p. pr_site_id p = site \<and> ?mine p) ?f (gv_proposals s) = gv_proposals s"
      unfolding update_rows_def by (intro map_idI) auto
    then show ?thesis by (intro draft_unchanged) (simp add: update_proposal_def writing_def proposal_tables_def)
  next
    case True
    then obtain p where p: "p \<in> set (gv_proposals s)" "pr_site_id p = site" "pr_id p = pid" "pr_state p = ProposalActive" by blast
    show ?thesis
    proof (rule draft_evolvesI)
      assume ok: "proposals_ok s"
      have "q = p" if "q \<in> set (gv_proposals s)" "pr_id q = pid" for q
        using distinct_map_eq [of pr_id "gv_proposals s" q p] ok that p by (simp add: proposals_ok_def)
      then have "gv_proposals (snd (update_proposal site ?mine ?f s))
          = update_rows (\<lambda>q. pr_site_id q = site \<and> pr_id q = pid) ?f (gv_proposals s)"
        using p(4) by (auto simp: update_proposal_def writing_def update_rows_def)
      moreover have "proposal_row_ok (gv_proposal_versions s) (?f p)"
        using ok p by (auto simp: proposals_ok_def proposal_row_ok_def)
      ultimately show ?thesis
        using ok p by (intro draft_update [where p = p and pid = pid and site = site and f = ?f and new = "[]"])
          (simp_all add: update_proposal_def writing_def proposals_ok_def)
    qed
  qed
qed

lemma draft_mark_applied: "obeys draft_evolves (mark_applied site version_id)"
  unfolding mark_applied_def
  by (auto intro!: draft.obeys_intros draft_apply_update split: option.splits)

lemma draft_case_prod: "(\<And>a b. obeys draft_evolves (f a b)) \<Longrightarrow> obeys draft_evolves (case v of (a, b) \<Rightarrow> f a b)"
  by (cases v) simp

lemma draft_promote_baseline: "obeys draft_evolves (promote_baseline b candidate actor req t)"
  unfolding promote_baseline_def complete_promotion_def consume_approval_def
  by (intro draft.obeys_intros draft_case_prod draft_mark_applied
      draft_keeps [OF tables_close_approval] draft_keeps [OF tables_promote] draft_keeps [OF tables_write_audit]
      draft_keeps [OF tables_notify_consumed])

lemma draft_decide_approval: "obeys draft_evolves (decide_approval h enabled c)"
  unfolding decide_approval_def
  by (intro draft.obeys_intros draft_keeps [OF tables_revalidate] draft_case_prod)
    (auto intro!: draft.obeys_intros draft.obeys_catching draft_promote_baseline draft_keeps [OF tables_close_without_effect]
      split: revalidation_outcome.splits decision.splits if_splits)

section \<open>Sequences of commands\<close>

text \<open>Everything that reaches the proposal tables, each command a transaction of its own.\<close>

datatype draft_step =
    ReviseStep number_texts int proposal_command "draft_constraint_proposal_v1 list"
  | RejectStep proposal_command
  | TurnStep uuid claimed_agent_run_v1 agent_run_status turn_payload "agent_draft_discard_v1 option" uuid
  | SubmitStep compute_settings enqueue_request
  | GovernedStep governed_step

fun draft_step_effect :: "hashing \<Rightarrow> draft_step \<Rightarrow> 'x governed_store_scheme \<Rightarrow> 'x governed_store_scheme" where
  "draft_step_effect h (ReviseStep nt limit q cs) s = snd (transaction (revise_proposal h nt limit q cs) s)"
| "draft_step_effect h (RejectStep q) s = snd (transaction (reject_proposal h q) s)"
| "draft_step_effect h (TurnStep site claimed status payload discard req) s =
     snd (transaction (finalize_agent_run site claimed status payload discard req) s)"
| "draft_step_effect h (SubmitStep settings q) s = snd (transaction (enqueue_compute h settings q) s)"
| "draft_step_effect h (GovernedStep step) s = governed_step_effect h step s"

fun draft_step_ok :: "draft_step \<Rightarrow> bool" where
  "draft_step_ok (TurnStep site claimed status payload discard req) = turn_bound site claimed payload"
| "draft_step_ok _ = True"

lemma draft_step_evolves:
  assumes "draft_step_ok step"
  shows "draft_evolves s (draft_step_effect h step s)"
proof (cases step)
  case (ReviseStep nt limit q cs)
  then show ?thesis by (simp add: obeys_snd [OF draft_transaction [OF revise_proposal_evolves]])
next
  case (RejectStep q)
  then show ?thesis by (simp add: obeys_snd [OF draft_transaction [OF reject_proposal_evolves]])
next
  case (TurnStep site claimed status payload discard req)
  with assms have "turn_bound site claimed payload" by simp
  then show ?thesis
    by (auto simp: TurnStep intro!: obeys_snd [OF draft_transaction] intro: finalize_agent_run_evolves)
next
  case (SubmitStep settings q)
  then show ?thesis by (simp add: obeys_snd [OF draft.obeys_transaction [OF draft_keeps [OF tables_enqueue_compute]]])
next
  case (GovernedStep step)
  show ?thesis
  proof (cases step)
    case (RequestStep enabled expiry c)
    then show ?thesis
      by (simp add: GovernedStep obeys_snd [OF draft.obeys_transaction [OF draft_keeps [OF tables_request_approval]]])
  next
    case (DecideStep enabled c)
    then show ?thesis by (simp add: GovernedStep obeys_snd [OF draft.obeys_transaction [OF draft_decide_approval]])
  next
    case (ClockStep n)
    then show ?thesis by (simp add: GovernedStep draft_unchanged proposal_tables_def)
  qed
qed

lemma draft_steps_evolve:
  "\<forall>step \<in> set steps. draft_step_ok step \<Longrightarrow> draft_evolves s (fold (draft_step_effect h) steps s)"
proof (induction steps arbitrary: s)
  case Nil
  show ?case by (simp add: draft.rel_refl)
next
  case (Cons step steps)
  then show ?case using draft.rel_trans [OF draft_step_evolves Cons.IH] by simp
qed

end
