(* ===== verification/Draft_Guarantees.thy ===== *)
theory Draft_Guarantees
  imports Draft_Lifecycle
begin

text \<open>
  What the proposal commands promise. A conversation has one working draft; an ended draft is final and
  refuses every command; a command's result is what the next read shows; and a command that is sent
  again answers from the log and changes nothing.
\<close>

section \<open>One working draft, final endings\<close>

lemma active_of_conversation:
  assumes "proposals_ok s"
  shows "length (filter (\<lambda>p. pr_conversation_id p = conv \<and> pr_state p = ProposalActive) (gv_proposals s)) \<le> 1"
proof -
  let ?xs = "filter (\<lambda>p. pr_conversation_id p = conv \<and> pr_state p = ProposalActive) (gv_proposals s)"
  have dist: "distinct ?xs" using assms by (auto simp: proposals_ok_def distinct_map)
  have same: "p = q" if "p \<in> set ?xs" "q \<in> set ?xs" for p q
    using that assms one_activeD [of "gv_proposals s" p q] distinct_map_eq [of pr_id "gv_proposals s" p q]
    by (simp add: proposals_ok_def)
  show ?thesis
  proof (cases ?xs)
    case (Cons x ys)
    then have "ys = []" using dist same [of x] by (cases ys) auto
    with Cons show ?thesis by simp
  qed simp
qed

text \<open>
  C32. A conversation never has two working drafts, whatever sequence of revisions, rejections, agent
  turns, submissions, approval requests and decisions runs on a well-formed store.
\<close>

theorem one_working_draft:
  assumes "proposals_ok s" and "\<forall>step \<in> set steps. draft_step_ok step"
  shows "length (filter (\<lambda>p. pr_conversation_id p = conv \<and> pr_state p = ProposalActive)
    (gv_proposals (fold (draft_step_effect h) steps s))) \<le> 1"
  using draft_steps_evolve [OF assms(2), of s h] assms(1) active_of_conversation by (auto simp: draft_evolves_def)

text \<open>
  C6. An ended draft is final: once rejected or applied, its row never changes again under any later
  commands, and its versions are never rewritten.
\<close>

theorem ended_draft_is_final:
  assumes "proposals_ok s" and "\<forall>step \<in> set steps. draft_step_ok step"
    and "p \<in> set (gv_proposals s)" and "pr_state p \<noteq> ProposalActive"
  shows "p \<in> set (gv_proposals (fold (draft_step_effect h) steps s))
    \<and> set (gv_proposal_versions s) \<subseteq> set (gv_proposal_versions (fold (draft_step_effect h) steps s))"
proof -
  let ?t = "fold (draft_step_effect h) steps s"
  have evolved: "table_evolves draft_row_evolves (gv_proposals s) (gv_proposals ?t)"
    and versions: "appended (gv_proposal_versions s) (gv_proposal_versions ?t)"
    using draft_steps_evolve [OF assms(2), of s h] assms(1) by (auto simp: draft_evolves_def)
  obtain old new where t: "gv_proposals ?t = old @ new" "list_all2 draft_row_evolves (gv_proposals s) old"
    using evolved by (auto simp: table_evolves_def)
  obtain i where i: "i < length (gv_proposals s)" "gv_proposals s ! i = p"
    using assms(3) by (auto simp: in_set_conv_nth)
  then have "draft_row_evolves p (old ! i)" using list_all2_nthD [OF t(2) i(1)] by simp
  then have "old ! i = p" using assms(4) by (simp add: draft_row_evolves_def)
  then have "p \<in> set old" using i(1) list_all2_lengthD [OF t(2)] by (metis nth_mem)
  then show ?thesis using t(1) versions by (auto simp: appended_def)
qed

section \<open>Ended drafts refuse commands\<close>

definition ended_refusal :: "proposal_state \<Rightarrow> app_error" where
  "ended_refusal state = (if state = ProposalRejected then RejectedProposalError else AppliedProposalError)"

definition ended_submission :: "proposal_state \<Rightarrow> app_error" where
  "ended_submission state = SnapshotCreationError (if state = ProposalRejected then ''rejected_proposal'' else ''applied_proposal'')"

lemma and_then_returned: "m s = (Inr x, t) \<Longrightarrow> and_then m k s = k x t"
  by (simp add: and_then_def)

lemma raise_and_then: "and_then (raise e) k = raise e"
  by (simp add: fun_eq_iff and_then_def raise_def)

lemma and_then_raised: "m s = (Inl e, t) \<Longrightarrow> and_then m k s = (Inl e, t)"
  by (simp add: and_then_def)

lemma refuse_if_ended_ended: "pp_state p \<noteq> ProposalActive \<Longrightarrow> refuse_if_ended p s = (Inl (ended_refusal (pp_state p)), s)"
  by (cases "pp_state p") (auto simp: refuse_if_ended_def ended_refusal_def and_then_def raise_if_def ret_def raise_def)

lemma current_for_command_found:
  assumes "get_current_proposal site pid s = (Inr (Some r), s)" and "pp_scenario_id (pc_proposal r) = Some scenario"
    and "get_overview site scenario s = Some ov"
  shows "current_for_command site pid s = (Inr (Some (r, ov)), s)"
  using assms by (simp add: current_for_command_def and_then_returned peel ret_def)

lemma command_on_current_fresh:
  assumes "current_for_command (pq_site_id q) (pq_proposal_id q) s = (Inr (Some (r, ov)), s)"
    and "stored_command q name s = None"
  shows "command_on_current q name body act s = and_then (act r ov) (\<lambda>v. ret (Some v)) s"
  using assms by (simp add: command_on_current_def and_then_returned replay_or_conflict_def peel ret_def)

text \<open>
  C8. An ended draft refuses every command with the reason of its ending, whatever version the caller
  expects: a revision, a rejection and a submission that are not replays raise and change nothing.
\<close>

theorem ended_draft_refuses:
  assumes "get_current_proposal (pq_site_id q) (pq_proposal_id q) s = (Inr (Some r), s)"
    and "pp_state (pc_proposal r) \<noteq> ProposalActive"
    and "pp_scenario_id (pc_proposal r) = Some scenario" and "get_overview (pq_site_id q) scenario s = Some ov"
    and "stored_command q ''revision'' s = None" and "stored_command q ''rejection'' s = None"
    and "1 \<le> length cs" and "int (length cs) \<le> limit"
    and "nq_site_id e = pq_site_id q" and "nq_proposal_id e = pq_proposal_id q" and "stored_enqueue e s = None"
    and "nq_idempotency_key e \<noteq> []" and "length (nq_idempotency_key e) \<le> max_idempotency_key_length"
    and "\<forall>v \<in> {proposal_body (pq_expected_resource_version q) (Some cs), proposal_body (pq_expected_resource_version q) None,
            enqueue_body e}. \<exists>d. digest_of h v s = (Inr d, s)"
  shows "revise_proposal h nt limit q cs s = (Inl (ended_refusal (pp_state (pc_proposal r))), s)
    \<and> reject_proposal h q s = (Inl (ended_refusal (pp_state (pc_proposal r))), s)
    \<and> enqueue_compute h settings e s = (Inl (ended_submission (pp_state (pc_proposal r))), s)"
proof (intro conjI)
  note found = current_for_command_found [OF assms(1,3,4)]
  have refuse: "command_on_current q name body act s = (Inl (ended_refusal (pp_state (pc_proposal r))), s)"
    if "stored_command q name s = None" and "act r ov s = (Inl (ended_refusal (pp_state (pc_proposal r))), s)" for name body act
    using command_on_current_fresh [OF found that(1)] that(2) by (simp add: and_then_raised)
  obtain d1 d2 d3 where d: "digest_of h (proposal_body (pq_expected_resource_version q) (Some cs)) s = (Inr d1, s)"
    "digest_of h (proposal_body (pq_expected_resource_version q) None) s = (Inr d2, s)"
    "digest_of h (enqueue_body e) s = (Inr d3, s)"
    using assms(14) by auto
  note ended = and_then_raised [where m = "refuse_if_ended (pc_proposal r)" and s = s, OF refuse_if_ended_ended [OF assms(2)]]
  show "revise_proposal h nt limit q cs s = (Inl (ended_refusal (pp_state (pc_proposal r))), s)"
    using assms(7,8) d(1) refuse [OF assms(5)]
    by (simp add: revise_proposal_def and_then_raise_if and_then_returned revise_current_def ended)
  show "reject_proposal h q s = (Inl (ended_refusal (pp_state (pc_proposal r))), s)"
    using d(2) refuse [OF assms(6)]
    by (simp add: reject_proposal_def and_then_returned reject_current_def ended)
  show "enqueue_compute h settings e s = (Inl (ended_submission (pp_state (pc_proposal r))), s)"
    using assms(1,2,9-13) d(3)
    by (cases "pp_state (pc_proposal r)")
      (simp_all add: enqueue_compute_def and_then_returned and_then_raise_if and_then_reading ended_submission_def)
qed

section \<open>The result is what the next read shows\<close>

lemma find_row_after_update:
  assumes "find p rows = Some r" and "q r" and "\<And>x. q x \<Longrightarrow> p x" and "\<And>x. q x \<Longrightarrow> p (f x)"
  shows "find p (update_rows q f rows) = Some (f r)"
  using assms(1,2) by (induction rows) (use assms(3,4) in \<open>auto simp: update_rows_def split: if_splits\<close>)

lemma find_append_new:
  "(\<And>x. x \<in> set xs \<Longrightarrow> \<not> p x) \<Longrightarrow> p y \<Longrightarrow> find p (xs @ [y]) = Some y"
  by (induction xs) auto

lemma current_for_command_SomeD:
  assumes "current_for_command site pid s = (Inr (Some (r, ov)), s')"
  obtains scenario where "s' = s" "get_current_proposal site pid s = (Inr (Some r), s)"
    "pp_scenario_id (pc_proposal r) = Some scenario" "get_overview site scenario s = Some ov"
proof -
  obtain found t where get: "get_current_proposal site pid s = (Inr found, t)"
    and rest: "(case found of None \<Rightarrow> ret None
     | Some r \<Rightarrow> (case pp_scenario_id (pc_proposal r) of
            None \<Rightarrow> ret None
          | Some scenario_id \<Rightarrow>
              and_then (reading (get_overview site scenario_id)) (\<lambda>overview. case overview of
                None \<Rightarrow> raise ProjectionUnavailableError
              | Some ov \<Rightarrow> ret (Some (r, ov))))) t = (Inr (Some (r, ov)), s')"
    using assms unfolding current_for_command_def by (elim and_then_InrE)
  have "t = s" using get unfolding get_current_proposal_def by (rule read_one_proposal_InrD(1))
  then show thesis
    using that get rest by (auto simp: ret_def raise_def peel split: option.splits)
qed

text \<open>A read after a write: the row that is found, the version row it points at, the same overview.\<close>

lemma get_proposal_after:
  assumes "find (\<lambda>p. pr_site_id p = site \<and> pr_id p = pid) (gv_proposals s') = Some p"
    and "find_proposal_version site (pr_current_version_id p) s' = Some v"
    and "pr_applied_version_id p = None"
    and "pp_scenario_id (px_payload v) = Some scenario" and "get_overview site scenario s' = Some ov"
  shows "get_proposal site pid s' = (Inr (Some (proposal_view
      ((px_payload v)\<lparr>pp_state := pr_state p, pp_resource_version := pr_resource_version p\<rparr>) (ov_scenario_version_id ov)
      (Some (px_version_ordinal v)) (pr_ended_by p) None)), s')"
proof -
  have site: "pr_site_id p = site" using find_SomeD [OF assms(1)] by simp
  have none: "find_proposal_version site None s' = None"
    by (simp add: find_proposal_version_def find_None_iff)
  show ?thesis
    using assms site none
    by (simp add: get_proposal_def current_for_command_def get_current_proposal_def read_one_proposal_def
        and_then_assoc and_then_reading ret_and_then) (simp add: ret_def)
qed

lemma read_one_proposal_parts:
  assumes "get_current_proposal site pid s = (Inr (Some r), s')" and ok: "proposals_ok s"
  obtains p v where "find (\<lambda>p. pr_site_id p = site \<and> pr_id p = pid) (gv_proposals s) = Some p"
    "find_proposal_version site (pr_current_version_id p) s = Some v"
    "pc_proposal r = (px_payload v)\<lparr>pp_state := pr_state p, pp_resource_version := pr_resource_version p\<rparr>"
    "pc_version_ordinal r = px_version_ordinal v" "pp_proposal_id (px_payload v) = Some pid"
    "pr_state p = ProposalActive \<longrightarrow> pr_ended_by p = None \<and> pr_applied_version_id p = None"
proof -
  obtain p v where row: "find (\<lambda>p. pr_site_id p = site \<and> pr_id p = pid) (gv_proposals s) = Some p"
    "find_proposal_version site (pr_current_version_id p) s = Some v"
    "pc_proposal r = (px_payload v)\<lparr>pp_state := pr_state p, pp_resource_version := pr_resource_version p\<rparr>"
    "pc_version_ordinal r = px_version_ordinal v"
    using read_one_proposal_InrD(3) [OF assms(1) [unfolded get_current_proposal_def] refl] by blast
  obtain p' where "p' \<in> set (gv_proposals s)" "pr_id p' = pid" "pp_proposal_id (pc_proposal r) = Some (pr_id p')"
    by (rule read_one_proposal_row [OF assms(1) [unfolded get_current_proposal_def] ok])
  then have pid: "pp_proposal_id (px_payload v) = Some pid" using row(3) by simp
  have "proposal_row_ok (gv_proposal_versions s) p" using ok find_SomeD [OF row(1)] by (simp add: proposals_ok_def)
  then have "pr_state p = ProposalActive \<longrightarrow> pr_ended_by p = None \<and> pr_applied_version_id p = None"
    by (auto simp: proposal_row_ok_def)
  then show thesis using that [OF row pid] by blast
qed

lemma get_overview_cong:
  assumes "gv_scenario_versions s' = gv_scenario_versions s" "gv_baselines s' = gv_baselines s"
    "st_versions s' = st_versions s" "st_now s' = st_now s"
  shows "get_overview site scenario s' = get_overview site scenario s"
proof -
  have "get_baseline k s' = get_baseline k s" "get_version v k s' = get_version v k s" for v k
    using assms by (simp_all add: get_baseline_def get_version_def)
  then show ?thesis
    using assms by (simp add: get_overview_def projection_row_def baseline_text_def baseline_assignments_def Let_def
        cong: option.case_cong)
qed

definition same_scenarios :: "'x governed_store_scheme \<Rightarrow> 'x governed_store_scheme \<Rightarrow> bool" where
  "same_scenarios s s' \<longleftrightarrow> gv_scenario_versions s' = gv_scenario_versions s \<and> gv_baselines s' = gv_baselines s
     \<and> st_versions s' = st_versions s \<and> st_now s' = st_now s"

lemma same_scenarios_overview: "same_scenarios s s' \<Longrightarrow> get_overview site scenario s' = get_overview site scenario s"
  unfolding same_scenarios_def by (rule get_overview_cong) simp_all

lemma store_idempotent_result_cases:
  assumes "store_idempotent_result site actor op key h p s = (Inr u, s')" and "get_idempotent_result site actor op key s = None"
  shows "s' = s\<lparr>st_idempotency := st_idempotency s @ [\<lparr>im_site_id = site, im_actor_id = actor, im_operation = op,
      im_idempotency_key = key, im_body_hash = h, im_response_payload = p\<rparr>]\<rparr>"
    and "get_idempotent_result site actor op key s' = Some (h, p)"
proof -
  show s': "s' = s\<lparr>st_idempotency := st_idempotency s @ [\<lparr>im_site_id = site, im_actor_id = actor, im_operation = op,
      im_idempotency_key = key, im_body_hash = h, im_response_payload = p\<rparr>]\<rparr>"
    using assms by (simp add: store_idempotent_result_def writing_def)
  have "find (\<lambda>i. im_site_id i = site \<and> im_actor_id i = actor \<and> im_operation i = op \<and> im_idempotency_key i = key)
      (st_idempotency s) = None"
    using assms(2) by (simp add: get_idempotent_result_def)
  then show "get_idempotent_result site actor op key s' = Some (h, p)"
    unfolding s' get_idempotent_result_def by (simp add: find_append_None)
qed

lemma reject_current_read_back:
  assumes ran: "reject_current q body r ov s = (Inr w, s')"
    and cur: "current_for_command (pq_site_id q) (pq_proposal_id q) s = (Inr (Some (r, ov)), s)"
    and ok: "proposals_ok s" and fresh: "stored_command q ''rejection'' s = None"
  shows "get_proposal (pq_site_id q) (pq_proposal_id q) s' = (Inr (Some w), s') \<and> stored_command q ''rejection'' s' = Some (body, ProposalPayload w)"
proof -
  obtain scenario where get: "get_current_proposal (pq_site_id q) (pq_proposal_id q) s = (Inr (Some r), s)"
    and sc: "pp_scenario_id (pc_proposal r) = Some scenario" "get_overview (pq_site_id q) scenario s = Some ov"
    by (rule current_for_command_SomeD [OF cur])
  obtain p v where row: "find (\<lambda>p. pr_site_id p = pq_site_id q \<and> pr_id p = pq_proposal_id q) (gv_proposals s) = Some p"
    "find_proposal_version (pq_site_id q) (pr_current_version_id p) s = Some v"
    "pc_proposal r = (px_payload v)\<lparr>pp_state := pr_state p, pp_resource_version := pr_resource_version p\<rparr>"
    "pc_version_ordinal r = px_version_ordinal v" "pp_proposal_id (px_payload v) = Some (pq_proposal_id q)"
    "pr_state p = ProposalActive \<longrightarrow> pr_ended_by p = None \<and> pr_applied_version_id p = None"
    by (rule read_one_proposal_parts [OF get ok])
  let ?f = "\<lambda>p. p\<lparr>pr_state := ProposalRejected, pr_ended_by := Some EndedByPlanner,
      pr_resource_version := pp_resource_version (pc_proposal r) + 1\<rparr>"
  let ?t = "s\<lparr>gv_proposals := update_rows (\<lambda>p. pr_site_id p = pq_site_id q \<and> pr_id p = pq_proposal_id q) ?f (gv_proposals s)\<rparr>"
  let ?w = "proposal_view ((pc_proposal r)\<lparr>pp_state := ProposalRejected, pp_resource_version := pp_resource_version (pc_proposal r) + 1\<rparr>)
      (ov_scenario_version_id ov) (Some (pc_version_ordinal r)) (Some EndedByPlanner) None"
  have act: "pr_state p = ProposalActive" and w: "w = ?w"
    and sto: "store_idempotent_result (pq_site_id q) (pq_actor_id q) (proposal_operation (pq_proposal_id q) ''rejection'')
      (pq_idempotency_key q) body (ProposalPayload ?w) ?t = (Inr (), s')"
    using ran row(3,5) unfolding reject_current_def Let_def reject_row_def update_proposal_def
    by (auto simp: and_then_writing elim!: and_then_InrE dest!: refuse_if_ended_InrD raise_if_InrD ret_InrD writing_InrD)
  have fresh': "get_idempotent_result (pq_site_id q) (pq_actor_id q) (proposal_operation (pq_proposal_id q) ''rejection'')
      (pq_idempotency_key q) ?t = None"
    using fresh by (simp add: stored_command_def get_idempotent_result_def)
  note log = store_idempotent_result_cases [OF sto fresh']
  have "find (\<lambda>p. pr_site_id p = pq_site_id q \<and> pr_id p = pq_proposal_id q) (gv_proposals s') = Some (?f p)"
    unfolding log(1) using find_SomeD [OF row(1)] by (simp add: find_row_after_update [OF row(1)])
  moreover have "find_proposal_version (pq_site_id q) (pr_current_version_id (?f p)) s' = Some v"
    using row(2) by (simp add: find_proposal_version_def log(1))
  moreover have "get_overview (pq_site_id q) scenario s' = Some ov"
    using sc(2) same_scenarios_overview [of s s'] by (simp add: same_scenarios_def log(1))
  moreover have "pp_scenario_id (px_payload v) = Some scenario" using sc(1) row(3) by simp
  ultimately have "get_proposal (pq_site_id q) (pq_proposal_id q) s' = (Inr (Some ?w), s')"
    using get_proposal_after [of "pq_site_id q" "pq_proposal_id q" s' "?f p" v scenario ov] row(3,4,6) act by simp
  then show ?thesis using log(2) w by (simp add: stored_command_def)
qed

lemma write_revision_read_back:
  assumes ran: "write_revision h nt q cs body r ov s = (Inr w, s')"
    and cur: "current_for_command (pq_site_id q) (pq_proposal_id q) s = (Inr (Some (r, ov)), s)"
    and act: "pp_state (pc_proposal r) = ProposalActive"
    and ok: "proposals_ok s" and fresh: "stored_command q ''revision'' s = None"
  shows "get_proposal (pq_site_id q) (pq_proposal_id q) s' = (Inr (Some w), s') \<and> stored_command q ''revision'' s' = Some (body, ProposalPayload w)"
proof -
  obtain scenario where get: "get_current_proposal (pq_site_id q) (pq_proposal_id q) s = (Inr (Some r), s)"
    and sc: "pp_scenario_id (pc_proposal r) = Some scenario" "get_overview (pq_site_id q) scenario s = Some ov"
    by (rule current_for_command_SomeD [OF cur])
  obtain p v where row: "find (\<lambda>p. pr_site_id p = pq_site_id q \<and> pr_id p = pq_proposal_id q) (gv_proposals s) = Some p"
    "find_proposal_version (pq_site_id q) (pr_current_version_id p) s = Some v"
    "pc_proposal r = (px_payload v)\<lparr>pp_state := pr_state p, pp_resource_version := pr_resource_version p\<rparr>"
    "pc_version_ordinal r = px_version_ordinal v" "pp_proposal_id (px_payload v) = Some (pq_proposal_id q)"
    "pr_state p = ProposalActive \<longrightarrow> pr_ended_by p = None \<and> pr_applied_version_id p = None"
    by (rule read_one_proposal_parts [OF get ok])
  obtain resolved canonical_hash n where
    app: "append_revision ((pc_proposal r)\<lparr>pp_proposal_version_id := Some (st_fresh s),
         pp_resolved_entities := unique_entities resolved, pp_constraints := resolved,
         pp_consequence_summary := consequence_summary resolved (pp_preserved_locks (pc_proposal r)),
         pp_canonical_hash := canonical_hash, pp_resource_version := pp_resource_version (pc_proposal r) + 1\<rparr>)
        (pq_site_id q) (pc_version_ordinal r + 1)
       (proposal_operation (pq_proposal_id q) ''revision'') (pq_idempotency_key q) body (pq_actor_id q) w
       (s\<lparr>st_fresh := n\<rparr>) = (Inr (), s')"
    and w: "w = proposal_view ((pc_proposal r)\<lparr>pp_proposal_version_id := Some (st_fresh s),
         pp_resolved_entities := unique_entities resolved, pp_constraints := resolved,
         pp_consequence_summary := consequence_summary resolved (pp_preserved_locks (pc_proposal r)),
         pp_canonical_hash := canonical_hash, pp_resource_version := pp_resource_version (pc_proposal r) + 1\<rparr>)
        (ov_scenario_version_id ov) (Some (pc_version_ordinal r + 1)) None None"
    using ran unfolding write_revision_def derive_draft_id_def Let_def and_then_reading
    by (auto simp: peel raise_def split: sum.splits elim!: and_then_InrE dest!: digest_of_InrD ret_InrD)
  let ?rev = "(pc_proposal r)\<lparr>pp_proposal_version_id := Some (st_fresh s),
         pp_resolved_entities := unique_entities resolved, pp_constraints := resolved,
         pp_consequence_summary := consequence_summary resolved (pp_preserved_locks (pc_proposal r)),
         pp_canonical_hash := canonical_hash, pp_resource_version := pp_resource_version (pc_proposal r) + 1\<rparr>"
  obtain t where ver: "append_agent_version ?rev (pq_site_id q) (pc_version_ordinal r + 1) (s\<lparr>st_fresh := n\<rparr>) = (Inr (), t)"
    and sto: "store_idempotent_result (pq_site_id q) (pq_actor_id q) (proposal_operation (pq_proposal_id q) ''revision'')
      (pq_idempotency_key q) body (ProposalPayload w) t = (Inr (), s')"
    using app unfolding append_revision_def by (auto elim!: and_then_InrE)
  let ?f = "\<lambda>p. p\<lparr>pr_current_version_id := Some (st_fresh s), pr_resource_version := pp_resource_version (pc_proposal r) + 1\<rparr>"
  let ?v = "\<lparr>px_id = st_fresh s, px_site_id = pq_site_id q, px_proposal_id = pq_proposal_id q,
      px_version_ordinal = pc_version_ordinal r + 1, px_payload = ?rev\<rparr>"
  have pids: "pp_proposal_id ?rev = Some (pq_proposal_id q)" "pp_proposal_version_id ?rev = Some (st_fresh s)"
    using row(3,5) by simp_all
  have new: "st_fresh s \<notin> px_id ` set (gv_proposal_versions s)"
    and t: "t = s\<lparr>st_fresh := n, gv_proposal_versions := gv_proposal_versions s @ [?v],
       gv_proposals := update_rows (\<lambda>p. pr_site_id p = pq_site_id q \<and> pr_id p = pq_proposal_id q) ?f (gv_proposals s)\<rparr>"
    using append_agent_version_InrD [OF ver] pids by auto
  have fresh': "get_idempotent_result (pq_site_id q) (pq_actor_id q) (proposal_operation (pq_proposal_id q) ''revision'')
      (pq_idempotency_key q) t = None"
    using fresh by (simp add: stored_command_def get_idempotent_result_def t)
  note log = store_idempotent_result_cases [OF sto fresh']
  have "find (\<lambda>p. pr_site_id p = pq_site_id q \<and> pr_id p = pq_proposal_id q) (gv_proposals s') = Some (?f p)"
    unfolding log(1) t using find_SomeD [OF row(1)] by (simp add: find_row_after_update [OF row(1)])
  moreover have "find_proposal_version (pq_site_id q) (pr_current_version_id (?f p)) s' = Some ?v"
    using new by (auto simp: find_proposal_version_def log(1) t image_iff intro!: find_append_new)
  moreover have "get_overview (pq_site_id q) scenario s' = Some ov"
    using sc(2) same_scenarios_overview [of s s'] by (simp add: same_scenarios_def log(1) t)
  ultimately have read: "get_proposal (pq_site_id q) (pq_proposal_id q) s' = (Inr (Some (proposal_view
      ((px_payload ?v)\<lparr>pp_state := pr_state (?f p), pp_resource_version := pr_resource_version (?f p)\<rparr>) (ov_scenario_version_id ov)
      (Some (px_version_ordinal ?v)) (pr_ended_by (?f p)) None)), s')"
    using row(3,6) act sc(1) by (intro get_proposal_after [where scenario = scenario]) simp_all
  have same: "(px_payload ?v)\<lparr>pp_state := pr_state (?f p), pp_resource_version := pr_resource_version (?f p)\<rparr> = ?rev"
    by (rule proposal_v1.equality) (use row(3) in simp_all)
  have none: "pr_ended_by (?f p) = None" "px_version_ordinal ?v = pc_version_ordinal r + 1" using row(3,6) act by simp_all
  have "get_proposal (pq_site_id q) (pq_proposal_id q) s' = (Inr (Some w), s')"
    using read unfolding same none w .
  then show ?thesis using log(2) w by (simp add: stored_command_def)
qed

lemma command_on_current_SomeD:
  assumes ran: "command_on_current q name body act s = (Inr (Some v), s')" and fresh: "stored_command q name s = None"
  obtains r ov where "current_for_command (pq_site_id q) (pq_proposal_id q) s = (Inr (Some (r, ov)), s)" "act r ov s = (Inr v, s')"
proof -
  obtain r ov t where cur: "current_for_command (pq_site_id q) (pq_proposal_id q) s = (Inr (Some (r, ov)), t)"
    using ran unfolding command_on_current_def by (auto elim!: and_then_InrE simp: ret_def split: option.splits)
  have "t = s" using current_for_command_InrD(1) [OF cur] .
  with cur have cur: "current_for_command (pq_site_id q) (pq_proposal_id q) s = (Inr (Some (r, ov)), s)" by simp
  have "and_then (act r ov) (\<lambda>v. ret (Some v)) s = (Inr (Some v), s')"
    using command_on_current_fresh [OF cur fresh, of body act] ran by simp
  then show thesis using that [OF cur] by (auto elim!: and_then_InrE dest!: ret_InrD)
qed

lemma revise_proposal_fresh:
  assumes ran: "revise_proposal h nt limit q cs s = (Inr (Some v), s')" and fresh: "stored_command q ''revision'' s = None"
    and ok: "proposals_ok s"
  obtains body where "\<And>t :: 'y. digest_of h (proposal_body (pq_expected_resource_version q) (Some cs)) t = (Inr body, t)"
    "1 \<le> int (length cs)" "int (length cs) \<le> limit"
    "get_proposal (pq_site_id q) (pq_proposal_id q) s' = (Inr (Some v), s')"
    "stored_command q ''revision'' s' = Some (body, ProposalPayload v)"
proof -
  obtain body where len: "1 \<le> int (length cs)" "int (length cs) \<le> limit"
    and dig: "digest_of h (proposal_body (pq_expected_resource_version q) (Some cs)) s = (Inr body, s)"
    and cmd: "command_on_current q ''revision'' body (revise_current h nt q cs body) s = (Inr (Some v), s')"
    using ran unfolding revise_proposal_def by (auto elim!: and_then_InrE dest!: raise_if_InrD dest: digest_of_InrD)
  obtain r ov where cur: "current_for_command (pq_site_id q) (pq_proposal_id q) s = (Inr (Some (r, ov)), s)"
    and act: "revise_current h nt q cs body r ov s = (Inr v, s')"
    by (rule command_on_current_SomeD [OF cmd fresh])
  have "pp_state (pc_proposal r) = ProposalActive" "write_revision h nt q cs body r ov s = (Inr v, s')"
    using act unfolding revise_current_def by (auto elim!: and_then_InrE dest!: refuse_if_ended_InrD raise_if_InrD)
  then have "get_proposal (pq_site_id q) (pq_proposal_id q) s' = (Inr (Some v), s') \<and> stored_command q ''revision'' s' = Some (body, ProposalPayload v)"
    using write_revision_read_back cur ok fresh by blast
  moreover have "digest_of h (proposal_body (pq_expected_resource_version q) (Some cs)) t = (Inr body, t)" for t :: 'y
    using digest_of_InrD [OF dig] by (simp add: digest_of_def ret_def)
  ultimately show thesis using that len by blast
qed

lemma reject_proposal_fresh:
  assumes ran: "reject_proposal h q s = (Inr (Some v), s')" and fresh: "stored_command q ''rejection'' s = None"
    and ok: "proposals_ok s"
  obtains body where "\<And>t :: 'y. digest_of h (proposal_body (pq_expected_resource_version q) None) t = (Inr body, t)"
    "get_proposal (pq_site_id q) (pq_proposal_id q) s' = (Inr (Some v), s')"
    "stored_command q ''rejection'' s' = Some (body, ProposalPayload v)"
proof -
  obtain body where dig: "digest_of h (proposal_body (pq_expected_resource_version q) None) s = (Inr body, s)"
    and cmd: "command_on_current q ''rejection'' body (reject_current q body) s = (Inr (Some v), s')"
    using ran unfolding reject_proposal_def by (auto elim!: and_then_InrE dest: digest_of_InrD)
  obtain r ov where cur: "current_for_command (pq_site_id q) (pq_proposal_id q) s = (Inr (Some (r, ov)), s)"
    and act: "reject_current q body r ov s = (Inr v, s')"
    by (rule command_on_current_SomeD [OF cmd fresh])
  have "digest_of h (proposal_body (pq_expected_resource_version q) None) t = (Inr body, t)" for t :: 'y
    using digest_of_InrD [OF dig] by (simp add: digest_of_def ret_def)
  then show thesis using that reject_current_read_back [OF act cur ok fresh] by blast
qed

text \<open>
  C33. A command shows what the store then holds: the view a fresh revision or rejection returns is the
  view the next read of the proposal returns.
\<close>

theorem command_is_read_back:
  assumes "proposals_ok s"
    and "(revise_proposal h nt limit q cs s = (Inr (Some v), s') \<and> stored_command q ''revision'' s = None)
       \<or> (reject_proposal h q s = (Inr (Some v), s') \<and> stored_command q ''rejection'' s = None)"
  shows "get_proposal (pq_site_id q) (pq_proposal_id q) s' = (Inr (Some v), s')"
  using assms revise_proposal_fresh reject_proposal_fresh by metis

section \<open>Replayed commands\<close>

text \<open>
  The contract of a command under an idempotency key, for one request whose body has the hash \<open>body\<close>:
  \<open>logged\<close> is the entry under its key, \<open>reaches\<close> says that the command gets as far as looking at it.
\<close>

locale replayed_command =
  fixes command :: "('s, app_error, 'r) action" and logged :: "'s \<Rightarrow> (string \<times> 'p) option" and body :: string
    and first_answer :: "'p \<Rightarrow> 'r" and answer :: "'p \<Rightarrow> 's \<Rightarrow> 'r" and reaches :: "'s \<Rightarrow> bool"
    and log_grows :: "'s \<Rightarrow> 's \<Rightarrow> bool"
  assumes replays: "reaches s \<Longrightarrow> logged s = Some (body, p) \<Longrightarrow> command s = (Inr (answer p s), s)"
    and conflicts: "reaches s \<Longrightarrow> logged s = Some (b, p) \<Longrightarrow> b \<noteq> body \<Longrightarrow> command s = (Inl IdempotencyKeyConflictError, s)"
    and logs: "reaches s \<Longrightarrow> logged s = None \<Longrightarrow> command s = (Inr r, s') \<Longrightarrow> \<exists>p. logged s' = Some (body, p) \<and> r = first_answer p"
    and grows: "log_grows s t \<Longrightarrow> logged s = Some x \<Longrightarrow> logged t = Some x"
begin

lemma resent:
  assumes "reaches s" "logged s = None" "command s = (Inr r, s')" "log_grows s' t" "reaches t"
  shows "\<exists>p. r = first_answer p \<and> command t = (Inr (answer p t), t)"
  using logs [OF assms(1-3)] grows [OF assms(4)] replays [OF assms(5)] by blast

end

text \<open>Two requests under one key: the second to arrive gets the first one's answer when the bodies
  agree and is refused when they differ.\<close>

locale rival_commands =
  one: replayed_command command logged body first_answer answer reaches log_grows +
  two: replayed_command command' logged body' first_answer answer reaches' log_grows
  for command :: "('s, app_error, 'r) action" and logged :: "'s \<Rightarrow> (string \<times> 'p) option" and body :: string
    and first_answer :: "'p \<Rightarrow> 'r" and answer :: "'p \<Rightarrow> 's \<Rightarrow> 'r" and reaches :: "'s \<Rightarrow> bool" and log_grows :: "'s \<Rightarrow> 's \<Rightarrow> bool"
    and command' :: "('s, app_error, 'r) action" and body' :: string and reaches' :: "'s \<Rightarrow> bool"
begin

lemma second_request:
  assumes "reaches s" "logged s = None" "command s = (Inr r, s')" "log_grows s' t" "reaches' t"
  shows "\<exists>p. r = first_answer p
    \<and> command' t = (if body' = body then Inr (answer p t) else Inl IdempotencyKeyConflictError, t)"
  using one.logs [OF assms(1-3)] one.grows [OF assms(4)] two.replays [OF assms(5)] two.conflicts [OF assms(5)] by force

end

subsection \<open>Revisions and rejections\<close>

definition logged_view :: "proposal_command \<Rightarrow> string \<Rightarrow> 'x store_scheme \<Rightarrow> (string \<times> proposal_view_v1) option" where
  "logged_view q name s = (case stored_command q name s of
      Some (body, ProposalPayload v) \<Rightarrow> Some (body, v) | _ \<Rightarrow> None)"

definition version_now :: "proposal_command \<Rightarrow> 'x governed_store_scheme \<Rightarrow> uuid" where
  "version_now q s = (case fst (current_for_command (pq_site_id q) (pq_proposal_id q) s) of
      Inr (Some (r, ov)) \<Rightarrow> ov_scenario_version_id ov | _ \<Rightarrow> 0)"

definition readable_draft :: "proposal_command \<Rightarrow> 'x governed_store_scheme \<Rightarrow> bool" where
  "readable_draft q s \<longleftrightarrow> proposals_ok s
     \<and> (\<exists>r ov. current_for_command (pq_site_id q) (pq_proposal_id q) s = (Inr (Some (r, ov)), s))"

definition log_grows :: "'x store_scheme \<Rightarrow> 'x store_scheme \<Rightarrow> bool" where
  "log_grows s t \<longleftrightarrow> appended (st_idempotency s) (st_idempotency t)"

lemma log_grows_stored:
  "log_grows s t \<Longrightarrow> get_idempotent_result site actor op key s = Some x \<Longrightarrow> get_idempotent_result site actor op key t = Some x"
  by (auto simp: log_grows_def appended_def get_idempotent_result_def find_append_Some)

lemma logged_view_grows: "log_grows s t \<Longrightarrow> logged_view q name s = Some x \<Longrightarrow> logged_view q name t = Some x"
  unfolding logged_view_def stored_command_def
  by (auto split: option.splits idempotent_payload.splits dest: log_grows_stored)

lemma command_on_current_logged:
  assumes "readable_draft q s" and "logged_view q name s = Some (b, v)"
  shows "command_on_current q name body act s =
    (if b = body then Inr (Some (replayed_view (version_now q s) v)) else Inl IdempotencyKeyConflictError, s)"
proof -
  obtain r ov where cur: "current_for_command (pq_site_id q) (pq_proposal_id q) s = (Inr (Some (r, ov)), s)"
    using assms(1) by (auto simp: readable_draft_def)
  have "stored_command q name s = Some (b, ProposalPayload v)"
    using assms(2) by (auto simp: logged_view_def split: option.splits idempotent_payload.splits)
  then show ?thesis
    using cur by (simp add: command_on_current_def and_then_returned version_now_def replay_or_conflict_def and_then_assoc
        and_then_reading and_then_raise_if ret_and_then) (simp add: ret_def)
qed

lemma command_on_current_not_logged:
  assumes "readable_draft q s" and "logged_view q name s = None" and "command_on_current q name body act s = (Inr r, s')"
  shows "stored_command q name s = None" and "\<exists>v. r = Some v"
proof -
  obtain rec ov where cur: "current_for_command (pq_site_id q) (pq_proposal_id q) s = (Inr (Some (rec, ov)), s)"
    using assms(1) by (auto simp: readable_draft_def)
  show none: "stored_command q name s = None"
  proof (rule ccontr)
    assume "stored_command q name s \<noteq> None"
    then obtain b p where "stored_command q name s = Some (b, p)" "\<And>v. p \<noteq> ProposalPayload v"
      using assms(2) by (auto simp: logged_view_def split: option.splits idempotent_payload.splits)
    then show False
      using assms(3) cur
      by (cases p) (auto simp: command_on_current_def and_then_returned replay_or_conflict_def and_then_assoc
          and_then_reading and_then_raise_if raise_and_then raise_def split: if_splits)
  qed
  show "\<exists>v. r = Some v"
    using assms(3) command_on_current_fresh [OF cur none, of body act] by (auto elim!: and_then_InrE dest!: ret_InrD)
qed

definition revision_reaches :: "hashing \<Rightarrow> int \<Rightarrow> proposal_command \<Rightarrow> draft_constraint_proposal_v1 list \<Rightarrow> string
  \<Rightarrow> 'x governed_store_scheme \<Rightarrow> bool" where
  "revision_reaches h limit q cs body s \<longleftrightarrow> 1 \<le> int (length cs) \<and> int (length cs) \<le> limit
     \<and> digest_of h (proposal_body (pq_expected_resource_version q) (Some cs)) s = (Inr body, s) \<and> readable_draft q s"

lemma revise_reaches:
  "revision_reaches h limit q cs body s \<Longrightarrow>
     revise_proposal h nt limit q cs s = command_on_current q ''revision'' body (revise_current h nt q cs body) s"
  by (simp add: revise_proposal_def revision_reaches_def and_then_raise_if and_then_returned)

interpretation revision: replayed_command "revise_proposal h nt limit q cs" "logged_view q ''revision''" body Some
  "\<lambda>v s. Some (replayed_view (version_now q s) v)" "revision_reaches h limit q cs body" log_grows
  for h nt limit q cs body
proof unfold_locales
  fix s :: "'x governed_store_scheme" and p
  assume "revision_reaches h limit q cs body s" "logged_view q ''revision'' s = Some (body, p)"
  then show "revise_proposal h nt limit q cs s = (Inr (Some (replayed_view (version_now q s) p)), s)"
    using command_on_current_logged [of q s "''revision''" body p body] revise_reaches [of h limit q cs body s]
    by (simp add: revision_reaches_def)
next
  fix s :: "'x governed_store_scheme" and b p
  assume "revision_reaches h limit q cs body s" "logged_view q ''revision'' s = Some (b, p)" "b \<noteq> body"
  then show "revise_proposal h nt limit q cs s = (Inl IdempotencyKeyConflictError, s)"
    using command_on_current_logged [of q s "''revision''" b p body] revise_reaches [of h limit q cs body s]
    by (simp add: revision_reaches_def)
next
  fix s s' :: "'x governed_store_scheme" and r
  assume reach: "revision_reaches h limit q cs body s" and log: "logged_view q ''revision'' s = None"
    and ran: "revise_proposal h nt limit q cs s = (Inr r, s')"
  have draft: "readable_draft q s" using reach by (simp add: revision_reaches_def)
  have none: "stored_command q ''revision'' s = None" and "\<exists>v. r = Some v"
    using command_on_current_not_logged [OF draft log] ran revise_reaches [OF reach, of nt] by metis+
  then obtain v where r: "r = Some v" by blast
  obtain d where "digest_of h (proposal_body (pq_expected_resource_version q) (Some cs)) s = (Inr d, s)"
    "stored_command q ''revision'' s' = Some (d, ProposalPayload v)"
    by (rule revise_proposal_fresh [OF ran [unfolded r] none draft [unfolded readable_draft_def, THEN conjunct1]], rule that)
  then show "\<exists>p. logged_view q ''revision'' s' = Some (body, p) \<and> r = Some p"
    using reach r by (simp add: logged_view_def revision_reaches_def)
next
  fix s t :: "'x governed_store_scheme" and x
  assume "log_grows s t" "logged_view q ''revision'' s = Some x"
  then show "logged_view q ''revision'' t = Some x" by (rule logged_view_grows)
qed

interpretation revisions: rival_commands "revise_proposal h nt limit q cs" "logged_view q ''revision''" body Some
  "\<lambda>v s. Some (replayed_view (version_now q s) v)" "revision_reaches h limit q cs body" log_grows
  "revise_proposal h nt limit q cs'" body' "revision_reaches h limit q cs' body'"
  for h nt limit q cs body cs' body'
  by unfold_locales

text \<open>
  A revision happens once: after a fresh revision, any later request under its key answers from the
  log and changes nothing. With the same body it returns the same view, its staleness judged against the
  scenario version of the moment; with another body it is refused.
\<close>

theorem revision_is_idempotent:
  fixes s s' t :: "'x governed_store_scheme"
  assumes "revision_reaches h limit q cs body s" and "stored_command q ''revision'' s = None"
    and "revise_proposal h nt limit q cs s = (Inr (Some v), s')"
    and "appended (st_idempotency s') (st_idempotency t)" and "revision_reaches h limit q cs' body' t"
  shows "revise_proposal h nt limit q cs' t =
    (if body' = body then Inr (Some (replayed_view (version_now q t) v)) else Inl IdempotencyKeyConflictError, t)"
  using revisions.second_request [OF assms(1) _ assms(3) _ assms(5)] assms(2,4)
  by (auto simp: logged_view_def log_grows_def)

subsection \<open>Submissions\<close>

definition logged_run :: "enqueue_request \<Rightarrow> 'x store_scheme \<Rightarrow> (string \<times> enqueue_compute_result_v1) option" where
  "logged_run q s = (case stored_enqueue q s of
      Some (body, EnqueuePayload run_id job_id) \<Rightarrow> Some (body, \<lparr>nr_schedule_run_id = run_id, nr_job_id = job_id\<rparr>) | _ \<Rightarrow> None)"

definition submission_reaches :: "hashing \<Rightarrow> enqueue_request \<Rightarrow> string \<Rightarrow> 'x governed_store_scheme \<Rightarrow> bool" where
  "submission_reaches h q body s \<longleftrightarrow>
     nq_idempotency_key q \<noteq> [] \<and> length (nq_idempotency_key q) \<le> max_idempotency_key_length
     \<and> digest_of h (enqueue_body q) s = (Inr body, s)
     \<and> (\<exists>r. get_current_proposal (nq_site_id q) (nq_proposal_id q) s = (Inr (Some r), s))"

text \<open>The part of the command behind the log.\<close>

definition submit_fresh ::
  "hashing \<Rightarrow> compute_settings \<Rightarrow> enqueue_request \<Rightarrow> string \<Rightarrow> proposal_record_v1
   \<Rightarrow> ('x governed_store_scheme, app_error, enqueue_compute_result_v1) action" where
  "submit_fresh h settings q body_hash r =
     and_then (raise_if (pp_state (pc_proposal r) = ProposalRejected) (SnapshotCreationError ''rejected_proposal'')) (\<lambda>_.
     and_then (raise_if (pp_state (pc_proposal r) = ProposalApplied) (SnapshotCreationError ''applied_proposal'')) (\<lambda>_.
     and_then (raise_if (pp_resource_version (pc_proposal r) \<noteq> nq_expected_resource_version q)
          (StaleProposalResourceVersionError (nq_expected_resource_version q) (pp_resource_version (pc_proposal r)))) (\<lambda>_.
     and_then (reading (count_runs_with_statuses (nq_site_id q) non_terminal_run_statuses)) (\<lambda>active_runs.
     and_then (raise_if (int active_runs \<ge> cs_site_max_concurrent_runs settings) SiteConcurrencyExhaustedError) (\<lambda>_.
     submit_run h settings q body_hash)))))"

lemma enqueue_reaches:
  assumes "submission_reaches h q body s"
  obtains r where "get_current_proposal (nq_site_id q) (nq_proposal_id q) s = (Inr (Some r), s)"
    "enqueue_compute h settings q s = (case stored_enqueue q s of
        Some st \<Rightarrow> replay_enqueue body st | None \<Rightarrow> submit_fresh h settings q body r) s"
proof -
  obtain r where "get_current_proposal (nq_site_id q) (nq_proposal_id q) s = (Inr (Some r), s)"
    using assms by (auto simp: submission_reaches_def)
  then show thesis
    using that [of r] assms
    by (cases "stored_enqueue q s")
      (simp_all add: submission_reaches_def enqueue_compute_def submit_fresh_def and_then_returned and_then_raise_if and_then_reading)
qed

lemma submit_run_InrD:
  assumes "submit_run h settings q body s = (Inr r, s')"
  obtains snapshot run_id t t1 t2 where
    "create_run_snapshot h settings (nq_site_id q) (nq_proposal_id q) (Some (nq_actor_id q)) (st_now s) s = (Inr snapshot, t)"
    "rs_schedule_run_id snapshot = Some run_id"
    "job_lease_problem (queued_job q (st_fresh t) (Some run_id) (st_now s)) = None"
    "t1 = t\<lparr>st_fresh := Suc (st_fresh t)\<rparr>"
    "enqueue_job (queued_job q (st_fresh t) (Some run_id) (st_now s)) (nq_site_id q) t1 = (Inr (), t2)"
    "store_idempotent_result (nq_site_id q) (nq_actor_id q) (enqueue_operation (nq_proposal_id q)) (nq_idempotency_key q) body
       (EnqueuePayload run_id (st_fresh t)) t2 = (Inr (), s')"
    "r = \<lparr>nr_schedule_run_id = run_id, nr_job_id = st_fresh t\<rparr>"
  using assms unfolding submit_run_def and_then_reading
  by (elim and_then_InrE)
    (auto simp: and_then_uuid4 new_job_lease_def raise_def split: option.splits elim!: and_then_InrE dest!: ret_InrD)


lemma log_uuid4: "obeys (keeps st_idempotency) uuid4"
  by (simp add: obeys_def keeps_def uuid4_def)

lemma log_digest_of: "obeys (keeps st_idempotency) (digest_of h v)"
  unfolding digest_of_def by (auto intro!: keep_rules split: option.splits)

lemma log_snapshot_context: "obeys (keeps st_idempotency) (snapshot_context site pid)"
  unfolding snapshot_context_def get_current_proposal_def read_one_proposal_def by (intro keep_rules)

lemma log_create_queued_run: "obeys (keeps st_idempotency) (create_queued_run snapshot site actor)"
  unfolding create_queued_run_def write_progress_event_def Let_def
  by (auto intro!: keep_rules log_uuid4 simp: append_event_def split: option.splits)

lemma log_new_run_snapshot: "obeys (keeps st_idempotency) (new_run_snapshot h fmt r)"
  unfolding new_run_snapshot_def Let_def by (intro keep_rules log_digest_of)

lemma log_enqueue_job: "obeys (keeps st_idempotency) (enqueue_job job site)"
  unfolding enqueue_job_def by (auto intro!: keep_rules split: option.splits)

lemma log_create_run_snapshot: "obeys (keeps st_idempotency) (create_run_snapshot h st site pid actor t)"
  unfolding create_run_snapshot_def
  by (auto intro!: keep_rules log_uuid4 log_snapshot_context log_new_run_snapshot log_create_queued_run split: sum.splits)

lemma logged_run_logs:
  assumes "submission_reaches h q body s" and "logged_run q s = None" and "enqueue_compute h settings q s = (Inr r, s')"
  shows "logged_run q s' = Some (body, r)"
proof -
  obtain rec where run: "enqueue_compute h settings q s = (case stored_enqueue q s of
        Some st \<Rightarrow> replay_enqueue body st | None \<Rightarrow> submit_fresh h settings q body rec) s"
    by (rule enqueue_reaches [OF assms(1)])
  have none: "stored_enqueue q s = None"
  proof (rule ccontr)
    assume "stored_enqueue q s \<noteq> None"
    then obtain b p where "stored_enqueue q s = Some (b, p)" "\<And>x y. p \<noteq> EnqueuePayload x y"
      using assms(2) by (auto simp: logged_run_def split: option.splits idempotent_payload.splits)
    then show False
      using assms(3) run
      by (cases p) (auto simp: replay_enqueue_def enqueue_result_of_payload_def and_then_raise_if raise_def split: if_splits)
  qed
  then have "submit_run h settings q body s = (Inr r, s')"
    using assms(3) run
    by (auto simp: submit_fresh_def and_then_raise_if and_then_reading split: if_splits)
  then obtain snapshot run_id t t1 t2 where
    snap: "create_run_snapshot h settings (nq_site_id q) (nq_proposal_id q) (Some (nq_actor_id q)) (st_now s) s = (Inr snapshot, t)"
    and t1: "t1 = t\<lparr>st_fresh := Suc (st_fresh t)\<rparr>"
    and job: "enqueue_job (queued_job q (st_fresh t) (Some run_id) (st_now s)) (nq_site_id q) t1 = (Inr (), t2)"
    and sto: "store_idempotent_result (nq_site_id q) (nq_actor_id q) (enqueue_operation (nq_proposal_id q)) (nq_idempotency_key q) body
       (EnqueuePayload run_id (st_fresh t)) t2 = (Inr (), s')"
    and r: "r = \<lparr>nr_schedule_run_id = run_id, nr_job_id = st_fresh t\<rparr>"
    by (rule submit_run_InrD)
  have "st_idempotency t2 = st_idempotency s"
    using keepsD [OF log_create_run_snapshot snap] keepsD [OF log_enqueue_job job] t1 by simp
  then have "get_idempotent_result (nq_site_id q) (nq_actor_id q) (enqueue_operation (nq_proposal_id q)) (nq_idempotency_key q) t2 = None"
    using none by (simp add: stored_enqueue_def get_idempotent_result_def)
  then show ?thesis
    using store_idempotent_result_cases(2) [OF sto] r by (simp add: logged_run_def stored_enqueue_def)
qed

lemma enqueue_replays:
  assumes "submission_reaches h q body s" and "logged_run q s = Some (b, p)"
  shows "enqueue_compute h settings q s = (if b = body then Inr p else Inl IdempotencyKeyConflictError, s)"
proof -
  obtain rec where "enqueue_compute h settings q s = (case stored_enqueue q s of
        Some st \<Rightarrow> replay_enqueue body st | None \<Rightarrow> submit_fresh h settings q body rec) s"
    by (rule enqueue_reaches [OF assms(1)])
  moreover obtain run job where "stored_enqueue q s = Some (b, EnqueuePayload run job)"
    "p = \<lparr>nr_schedule_run_id = run, nr_job_id = job\<rparr>"
    using assms(2) by (auto simp: logged_run_def split: option.splits idempotent_payload.splits)
  ultimately show ?thesis
    by (simp add: replay_enqueue_def enqueue_result_of_payload_def and_then_raise_if) (simp add: ret_def)
qed

interpretation submission: replayed_command "enqueue_compute h settings q" "logged_run q" body "\<lambda>r. r" "\<lambda>r s. r"
  "submission_reaches h q body" log_grows
  for h settings q body
proof unfold_locales
  fix s :: "'x governed_store_scheme" and p
  assume "submission_reaches h q body s" "logged_run q s = Some (body, p)"
  then show "enqueue_compute h settings q s = (Inr p, s)" by (simp add: enqueue_replays)
next
  fix s :: "'x governed_store_scheme" and b p
  assume "submission_reaches h q body s" "logged_run q s = Some (b, p)" "b \<noteq> body"
  then show "enqueue_compute h settings q s = (Inl IdempotencyKeyConflictError, s)" by (simp add: enqueue_replays)
next
  fix s s' :: "'x governed_store_scheme" and r
  assume "submission_reaches h q body s" "logged_run q s = None" "enqueue_compute h settings q s = (Inr r, s')"
  then show "\<exists>p. logged_run q s' = Some (body, p) \<and> r = p" by (simp add: logged_run_logs)
next
  fix s t :: "'x governed_store_scheme" and x
  assume "log_grows s t" "logged_run q s = Some x"
  then show "logged_run q t = Some x"
    unfolding logged_run_def stored_enqueue_def
    by (auto split: option.splits idempotent_payload.splits dest: log_grows_stored)
qed

text \<open>Two submissions under one key that differ in the version they expect.\<close>

lemma logged_run_version: "logged_run (q\<lparr>nq_expected_resource_version := n\<rparr>) = logged_run q"
  by (simp add: fun_eq_iff logged_run_def stored_enqueue_def)

interpretation submissions: rival_commands "enqueue_compute h settings q" "logged_run q" body "\<lambda>r. r" "\<lambda>r s. r"
  "submission_reaches h q body" log_grows "enqueue_compute h settings' (q\<lparr>nq_expected_resource_version := n\<rparr>)" body'
  "submission_reaches h (q\<lparr>nq_expected_resource_version := n\<rparr>) body'"
  for h settings q body settings' n body'
  by (rule rival_commands.intro [OF submission.replayed_command_axioms
        submission.replayed_command_axioms [where q = "q\<lparr>nq_expected_resource_version := n\<rparr>", unfolded logged_run_version]])

text \<open>
  C9. A submission enqueues once: after a fresh submission, any later one under its key changes nothing
  - no second run, no second job - and answers with the run and job of the first, or is refused when it
  names another version of the proposal. It does so whatever happened to the proposal in between.
\<close>

theorem submission_is_idempotent:
  fixes s s' t :: "'x governed_store_scheme"
  assumes "submission_reaches h q body s" and "stored_enqueue q s = None"
    and "enqueue_compute h settings q s = (Inr r, s')"
    and "appended (st_idempotency s') (st_idempotency t)"
    and "submission_reaches h (q\<lparr>nq_expected_resource_version := n\<rparr>) body' t"
  shows "enqueue_compute h settings' (q\<lparr>nq_expected_resource_version := n\<rparr>) t =
    (if body' = body then Inr r else Inl IdempotencyKeyConflictError, t)"
  using submissions.second_request [OF assms(1) _ assms(3) _ assms(5)] assms(2,4)
  by (auto simp: logged_run_def log_grows_def)

section \<open>A site with a draft\<close>

definition demo_draft :: proposal_v1 where
  "demo_draft = \<lparr>pp_proposal_id = Some 80, pp_proposal_version_id = Some 81, pp_scenario_id = Some 3, pp_scenario_version_id = Some 10,
     pp_expected_baseline_schedule_version = None, pp_resolved_entities = [], pp_constraints = [], pp_preserved_locks = [],
     pp_consequence_summary = [], pp_canonical_hash = ''h'', pp_state = ProposalActive, pp_resource_version = 1\<rparr>"

definition demo_draft_row :: proposal_row where
  "demo_draft_row = \<lparr>pr_id = 80, pr_site_id = 7, pr_scenario_id = 3, pr_scenario_version_id = 10, pr_conversation_id = 70,
     pr_created_by_actor_id = 5, pr_state = ProposalActive, pr_current_version_id = Some 81, pr_resource_version = 1,
     pr_ended_by = None, pr_applied_version_id = None\<rparr>"

definition draft_site :: governed_store where
  "draft_site = scenario_site\<lparr>gv_proposals := [demo_draft_row],
     gv_proposal_versions := [\<lparr>px_id = 81, px_site_id = 7, px_proposal_id = 80, px_version_ordinal = 1, px_payload = demo_draft\<rparr>]\<rparr>"

definition demo_command :: "int \<Rightarrow> string \<Rightarrow> proposal_command" where
  "demo_command expected key = \<lparr>pq_proposal_id = 80, pq_site_id = 7, pq_actor_id = 5, pq_expected_resource_version = expected,
     pq_idempotency_key = key\<rparr>"

definition demo_rejected :: "(app_error + proposal_view_v1 option) \<times> governed_store" where
  "demo_rejected = reject_proposal demo_hashing (demo_command 1 ''k'') draft_site"

definition demo_revised :: "(app_error + proposal_view_v1 option) \<times> governed_store" where
  "demo_revised = revise_proposal demo_hashing demo_number_texts 10 (demo_command 1 ''k'') [demo_proposal] draft_site"

definition succeeded :: "('e + 'a option) \<times> 's \<Rightarrow> bool" where
  "succeeded r = (case r of (Inr (Some _), _) \<Rightarrow> True | _ \<Rightarrow> False)"





lemma draft_site_row: "projection_row 7 3 draft_site = Some (demo_version 10 ''v10'')"
  by code_simp

definition demo_overview :: scenario_overview_v1 where
  "demo_overview = the (get_overview 7 3 draft_site)"

definition demo_record :: proposal_record_v1 where
  "demo_record = (case fst (get_current_proposal 7 80 draft_site) of Inr (Some r) \<Rightarrow> r)"

lemma demo_overview: "get_overview 7 3 draft_site = Some demo_overview"
  "ov_scenario_version_id demo_overview = 10" "ov_scenario_id demo_overview = 3" "ov_horizon_minutes demo_overview = 10080"
  by (simp_all add: demo_overview_def get_overview_def draft_site_row demo_version_def demo_groups_def Let_def)

lemma demo_record: "get_current_proposal 7 80 draft_site = (Inr (Some demo_record), draft_site)"
  "pc_proposal demo_record = demo_draft" "pc_version_ordinal demo_record = 1"
  unfolding demo_record_def by code_simp+

lemma demo_current: "current_for_command 7 80 draft_site = (Inr (Some (demo_record, demo_overview)), draft_site)"
  by (rule current_for_command_found [OF demo_record(1) _ demo_overview(1)]) (simp add: demo_record demo_draft_def)

definition writable :: "json \<Rightarrow> bool" where
  "writable v \<longleftrightarrow> serialize (hs_float_text demo_hashing) v \<noteq> None"

lemma writable_simps:
  "writable (JObject kvs) \<longleftrightarrow> (\<forall>kv \<in> set kvs. writable (snd kv))" "writable (JList vs) \<longleftrightarrow> (\<forall>v \<in> set vs. writable v)"
  "writable (optional f x) \<longleftrightarrow> (\<forall>y. x = Some y \<longrightarrow> writable (f y))" "writable (JString t)" "writable (JFloat r)" "writable JNull"
  "writable (JInt i) \<longleftrightarrow> serialize_number (hs_float_text demo_hashing) i \<noteq> None"
  by (simp_all add: writable_def those_map_None optional_def split: option.splits)

lemma digest_of_writable: "writable v \<Longrightarrow> digest_of demo_hashing v = ret ''h''"
  by (simp add: writable_def digest_of_demo)

lemma demo_body: "digest_of demo_hashing (proposal_body 1 (Some [demo_proposal])) = ret ''h''"
  "digest_of demo_hashing (proposal_body 1 None) = ret ''h''"
  by (rule digest_of_writable,
      simp add: proposal_body_def writable_simps json_draft_proposal_def demo_proposal_def serialize_number_def)+

lemma draft_site_ok: "proposals_ok draft_site" by code_simp


lemma demo_fresh: "stored_command (demo_command n key) name draft_site = None"
  by (simp add: stored_command_def get_idempotent_result_def draft_site_def scenario_site_def empty_site_def)

lemma demo_on_current: "command_on_current (demo_command n key) name body act draft_site
    = and_then (act demo_record demo_overview) (\<lambda>v. ret (Some v)) draft_site"
  by (rule command_on_current_fresh [OF _ demo_fresh]) (simp add: demo_command_def demo_current)


lemma draft_site_fields: "st_fresh draft_site = 200" "st_idempotency draft_site = []" "gv_baselines draft_site = []" "gv_proposals draft_site = [demo_draft_row]"
  "gv_proposal_versions draft_site = [\<lparr>px_id = 81, px_site_id = 7, px_proposal_id = 80, px_version_ordinal = 1, px_payload = demo_draft\<rparr>]"
  by (simp_all add: draft_site_def scenario_site_def empty_site_def)

lemma demo_reject: "reject_proposal demo_hashing (demo_command 1 key) draft_site
    = and_then (reject_current (demo_command 1 key) ''h'' demo_record demo_overview) (\<lambda>v. ret (Some v)) draft_site"
  using demo_on_current [of 1 key "''rejection''" "''h''"]
  by (simp add: reject_proposal_def demo_body ret_and_then demo_command_def)

lemma demo_revise: "revise_proposal demo_hashing demo_number_texts 10 (demo_command 1 key) [demo_proposal] draft_site
    = and_then (revise_current demo_hashing demo_number_texts (demo_command 1 key) [demo_proposal] ''h'' demo_record demo_overview)
        (\<lambda>v. ret (Some v)) draft_site"
  using demo_on_current [of 1 key "''revision''" "''h''"]
  by (simp add: revise_proposal_def and_then_raise_if demo_body ret_and_then demo_command_def)

lemma demo_rejected_returns:
  "\<exists>v s. demo_rejected = (Inr (Some v), s)"
  unfolding demo_rejected_def demo_reject
  by (simp add: reject_current_def Let_def demo_record refuse_if_ended_def reject_row_def store_idempotent_result_def update_proposal_def
      demo_draft_def demo_eval draft_site_fields demo_command_def)

lemma demo_trusted: "resolve_constraints demo_number_texts
     \<lparr>dp_app_site = 7, dp_store = draft_site, dp_scenario_id = 3, dp_scenario_version_id = 10\<rparr> [demo_proposal] 10080 = Inr [plain_constraint ExcludeWorkerFromTask
        [\<lparr>re_group = Workers, re_record_id = ''w1'', re_label = ''w1 (w1)'', re_scenario_version_id = Some 10\<rparr>,
         \<lparr>re_group = WorkAreasAndTasks, re_record_id = ''T1'', re_label = ''Pick (T1)'', re_scenario_version_id = Some 10\<rparr>]
        ''Keep w1 (w1) off Pick (T1).'']"
  by code_simp

lemma demo_derived: "derive_draft_id demo_hashing 10 [plain_constraint ExcludeWorkerFromTask
        [\<lparr>re_group = Workers, re_record_id = ''w1'', re_label = ''w1 (w1)'', re_scenario_version_id = Some 10\<rparr>,
         \<lparr>re_group = WorkAreasAndTasks, re_record_id = ''T1'', re_label = ''Pick (T1)'', re_scenario_version_id = Some 10\<rparr>]
        ''Keep w1 (w1) off Pick (T1).''] [] = ret ''h''"
  unfolding derive_draft_id_def
  by (rule digest_of_writable) (simp add: draft_content_def writable_simps primitive_constraint_def primitive_entity_def plain_constraint_def
     )

lemma append_revision_returns:
  assumes "pp_proposal_id p = Some pid" "pp_proposal_version_id p = Some vid"
    and "\<forall>x \<in> set (gv_proposal_versions s). px_id x \<noteq> vid \<and> px_version_ordinal x \<noteq> n"
  shows "\<exists>t. append_revision p site n op key body actor v s = (Inr (), t)"
  using assms
  by (simp add: append_revision_def append_agent_version_def insert_proposal_version_def update_proposal_def
      store_idempotent_result_def and_then_assoc and_then_reading and_then_raise_if and_then_writing) (simp add: writing_def)

lemma and_then_returns:
  "\<exists>x t. m s = (Inr x, t) \<Longrightarrow> (\<And>x t. m s = (Inr x, t) \<Longrightarrow> \<exists>y u. k x t = (Inr y, u)) \<Longrightarrow> \<exists>y u. and_then m k s = (Inr y, u)"
  by (auto simp: and_then_def)

lemma demo_written: "\<exists>v s. write_revision demo_hashing demo_number_texts (demo_command 1 ''k'') [demo_proposal] ''h'' demo_record
   demo_overview draft_site = (Inr v, s)"
  by (simp add: write_revision_def and_then_reading demo_overview demo_command_def demo_trusted demo_derived demo_record Let_def
       and_then_uuid4 ret_and_then draft_site_fields demo_draft_def del: resolve_constraints.simps,
      rule and_then_returns, rule exI [where x = "()"], rule append_revision_returns [where pid = 80 and vid = 200], auto simp: draft_site_fields ret_def)

lemma demo_revised_returns: "\<exists>v s. demo_revised = (Inr (Some v), s)"
proof -
  obtain v s where "write_revision demo_hashing demo_number_texts (demo_command 1 ''k'') [demo_proposal] ''h'' demo_record demo_overview
      draft_site = (Inr v, s)" using demo_written by blast
  then have "revise_current demo_hashing demo_number_texts (demo_command 1 ''k'') [demo_proposal] ''h'' demo_record demo_overview
      draft_site = (Inr v, s)"
    by (simp add: revise_current_def refuse_if_ended_def and_then_assoc and_then_raise_if demo_record demo_draft_def demo_overview
        demo_command_def ret_and_then)
  then show ?thesis
    unfolding demo_revised_def demo_revise by (simp add: and_then_returned) (simp add: ret_def)
qed

definition demo_settings :: compute_settings where
  "demo_settings = \<lparr>cs_engine_name = ''cpsat'', cs_seed = 1, cs_num_search_workers = 1, cs_max_deterministic_time = 1,
     cs_wall_time_limit_seconds = 1, cs_site_max_concurrent_runs = 2, cs_ortools_version = ''9'', cs_isoformat = (\<lambda>_. [])\<rparr>"

definition demo_enqueue :: enqueue_request where
  "demo_enqueue = \<lparr>nq_proposal_id = 80, nq_site_id = 7, nq_actor_id = 5, nq_expected_resource_version = 1, nq_idempotency_key = ''k'',
     nq_capability_version = ''1''\<rparr>"

definition demo_submitted :: "(app_error + enqueue_compute_result_v1) \<times> governed_store" where
  "demo_submitted = enqueue_compute demo_hashing demo_settings demo_enqueue draft_site"

lemma demo_enqueue_fields:
  "nq_proposal_id demo_enqueue = 80" "nq_site_id demo_enqueue = 7" "nq_actor_id demo_enqueue = 5" "nq_expected_resource_version demo_enqueue = 1"
  "nq_idempotency_key demo_enqueue = ''k''" "nq_capability_version demo_enqueue = ''1''"
  by (simp_all add: demo_enqueue_def)

lemma demo_enqueue_body: "digest_of demo_hashing (enqueue_body demo_enqueue) s = (Inr ''h'', s)"
proof -
  have "writable (enqueue_body demo_enqueue)"
    by (simp add: enqueue_body_def writable_simps demo_enqueue_fields serialize_number_def)
  then show ?thesis by (simp only: digest_of_writable) (simp add: ret_def)
qed

lemma demo_context_row: "get_scenario_context 7 3 draft_site = Some \<lparr>sx_scenario_name = ''demo'', sx_scenario_id = 3,
         sx_scenario_version_id = 10, sx_fixture_version = ''v10'',
         sx_checksum_algorithm = ''sha256'', sx_checksum_schema_version = ''v1'',
         sx_checksum_digest = ''d'', sx_site_id = 7, sx_baseline_schedule_version = None\<rparr>"
  by (simp add: get_scenario_context_def draft_site_row demo_version_def baseline_text_def get_baseline_def draft_site_fields)

lemma demo_snapshot_context: "snapshot_context 7 80 draft_site = (Inr (demo_record, the (get_scenario_context 7 3 draft_site)), draft_site)"
  by (simp add: snapshot_context_def demo_record(1) and_then_returned demo_record(2) demo_draft_def demo_context_row demo_eval)

lemma demo_payload_digest:
  assumes "rs_proposal_resource_version r = 1" "rs_preserved_locks r = []" "rs_constraints r = []" "rs_objectives r = []"
    "rs_solver_config r = Some (settings_config demo_settings)" "rs_input_evidence_refs r = []"
  shows "digest_of demo_hashing (canonical_payload fmt r) = ret ''h''"
  by (rule digest_of_writable)
    (use assms in \<open>auto simp: canonical_payload_def writable_simps json_uuid_def json_config_def serialize_number_def settings_config_def
      demo_settings_def\<close>)

lemma demo_submission: "submission_reaches demo_hashing demo_enqueue ''h'' draft_site"
  by (simp add: submission_reaches_def demo_enqueue_body max_idempotency_key_length_def demo_enqueue_fields demo_record(1))

lemma demo_not_stored: "stored_enqueue demo_enqueue draft_site = None"
  by (simp add: stored_enqueue_def get_idempotent_result_def draft_site_fields)

definition demo_context :: scenario_context where
  "demo_context = the (get_scenario_context 7 3 draft_site)"

definition demo_unsealed :: run_snapshot_v1 where
  "demo_unsealed = snapshot_of demo_settings (settings_config demo_settings) demo_context (pc_proposal demo_record) 200 201 100"

lemma demo_sealed: "new_run_snapshot demo_hashing (cs_isoformat demo_settings) demo_unsealed
    = ret (demo_unsealed\<lparr>rs_component_versions := sort (rs_component_versions demo_unsealed), rs_canonical_hash := ''h''\<rparr>)"
  by (simp add: new_run_snapshot_def missing_snapshot_field_def Let_def demo_payload_digest ret_and_then and_then_raise_if
     demo_unsealed_def snapshot_of_def demo_record demo_draft_def input_evidence_def demo_context_def demo_context_row)

lemma create_queued_run_returns:
  assumes "rs_snapshot_id r \<noteq> None" "rs_schedule_run_id r = Some run_id" "rs_scenario_id r \<noteq> None" "rs_scenario_version_id r \<noteq> None"
    "rs_proposal_id r \<noteq> None" "rs_proposal_version_id r \<noteq> None" "st_snapshots s = []" "st_runs s = []"
  shows "\<exists>t. create_queued_run r site actor s = (Inr (), t) \<and> st_jobs t = st_jobs s \<and> find_run run_id site t \<noteq> None"
  using assms
  by (auto simp: create_queued_run_def and_then_reading and_then_raise_if and_then_writing and_then_uuid4 write_progress_event_def
      and_then_assoc ret_def append_event_def find_run_def is_run_def)

lemma demo_snapshot_created:
  "\<exists>r s. create_run_snapshot demo_hashing demo_settings 7 80 (Some 5) 100 draft_site = (Inr r, s)
     \<and> rs_schedule_run_id r = Some 201 \<and> st_jobs s = [] \<and> find_run 201 7 s \<noteq> None"
proof -
  let ?r = "demo_unsealed\<lparr>rs_component_versions := sort (rs_component_versions demo_unsealed), rs_canonical_hash := ''h''\<rparr>"
  have fields: "sx_site_id demo_context = 7" by (simp add: demo_context_def demo_context_row)
  have fresh: "draft_site\<lparr>st_fresh := 200\<rparr> = draft_site" by (simp add: draft_site_def scenario_site_def empty_site_def)
  have config: "new_solver_config (settings_config demo_settings) = Inr (settings_config demo_settings)"
    by (simp add: new_solver_config_def settings_config_def demo_settings_def)
  have "create_run_snapshot demo_hashing demo_settings 7 80 (Some 5) 100 draft_site
      = and_then (create_queued_run ?r 7 5) (\<lambda>_. ret ?r) (draft_site\<lparr>st_fresh := 202\<rparr>)"
    by (simp add: create_run_snapshot_def demo_snapshot_context and_then_returned and_then_uuid4 draft_site_fields config
        demo_sealed [unfolded demo_unsealed_def] ret_and_then fields demo_unsealed_def flip: demo_context_def)
  moreover obtain t where "create_queued_run ?r 7 5 (draft_site\<lparr>st_fresh := 202\<rparr>) = (Inr (), t)" "st_jobs t = []" "find_run 201 7 t \<noteq> None"
    using create_queued_run_returns [of ?r 201 "draft_site\<lparr>st_fresh := 202\<rparr>" 7 5]
    by (auto simp: demo_unsealed_def snapshot_of_def demo_record demo_draft_def draft_site_def scenario_site_def empty_site_def)
  ultimately show ?thesis
    by (simp add: and_then_returned) (simp add: ret_def demo_unsealed_def snapshot_of_def)
qed

lemma demo_submitted_returns: "\<exists>r s. demo_submitted = (Inr r, s)"
proof -
  obtain rec where cur: "get_current_proposal 7 80 draft_site = (Inr (Some rec), draft_site)"
    and run: "demo_submitted = submit_fresh demo_hashing demo_settings demo_enqueue ''h'' rec draft_site"
    using enqueue_reaches [OF demo_submission, of demo_settings]
    by (metis demo_not_stored demo_submitted_def demo_enqueue_fields(1,2) option.simps(4))
  then have rec: "rec = demo_record" by (simp add: demo_record(1))
  obtain r s where made: "create_run_snapshot demo_hashing demo_settings 7 80 (Some 5) 100 draft_site = (Inr r, s)"
    "rs_schedule_run_id r = Some 201" "st_jobs s = []" "find_run 201 7 s \<noteq> None" using demo_snapshot_created by blast
  have now: "st_now draft_site = 100" "st_runs draft_site = []" by (simp_all add: draft_site_def scenario_site_def empty_site_def)
  have "demo_submitted = submit_run demo_hashing demo_settings demo_enqueue ''h'' draft_site"
    by (simp add: run rec submit_fresh_def demo_record demo_draft_def and_then_raise_if and_then_reading demo_enqueue_fields
        count_runs_with_statuses_def now demo_settings_def)
  also have "\<exists>v t. submit_run demo_hashing demo_settings demo_enqueue ''h'' draft_site = (Inr v, t)"
    using made
    by (simp add: submit_run_def and_then_reading now demo_enqueue_fields and_then_returned and_then_uuid4 new_job_lease_def
        job_lease_problem_def queued_job_def max_idempotency_key_length_def ret_and_then enqueue_job_def and_then_assoc and_then_raise_if
        find_run_def and_then_writing store_idempotent_result_def) (simp add: ret_def)
  finally show ?thesis .
qed

definition ended_site :: governed_store where
  "ended_site = draft_site\<lparr>gv_proposals := [demo_draft_row\<lparr>pr_state := ProposalRejected, pr_ended_by := Some EndedByPlanner\<rparr>]\<rparr>"

lemma ended_site_ok: "proposals_ok ended_site" by code_simp

lemma ended_site_row: "projection_row 7 3 ended_site = Some (demo_version 10 ''v10'')"
  by code_simp

lemma ended_record: "\<exists>r. get_current_proposal 7 80 ended_site = (Inr (Some r), ended_site)
    \<and> pc_proposal r = demo_draft\<lparr>pp_state := ProposalRejected\<rparr>"
proof -
  have "get_current_proposal 7 80 ended_site = (Inr (Some (case fst (get_current_proposal 7 80 ended_site) of Inr (Some r) \<Rightarrow> r)), ended_site)"
    "pc_proposal (case fst (get_current_proposal 7 80 ended_site) of Inr (Some r) \<Rightarrow> r) = demo_draft\<lparr>pp_state := ProposalRejected\<rparr>"
    by code_simp+
  then show ?thesis by blast
qed

theorem one_working_draft_witness:
  "length (filter (\<lambda>p. pr_conversation_id p = 70 \<and> pr_state p = ProposalActive)
    (gv_proposals (fold (draft_step_effect demo_hashing) [RejectStep (demo_command 1 ''k''), SubmitStep demo_settings demo_enqueue]
      draft_site))) \<le> 1"
  by (rule one_working_draft [OF draft_site_ok]) simp

theorem ended_draft_is_final_witness:
  "demo_draft_row\<lparr>pr_state := ProposalRejected, pr_ended_by := Some EndedByPlanner\<rparr>
     \<in> set (gv_proposals (fold (draft_step_effect demo_hashing)
          [ReviseStep demo_number_texts 10 (demo_command 1 ''k'') [demo_proposal], SubmitStep demo_settings demo_enqueue] ended_site))"
  by (rule ended_draft_is_final [OF ended_site_ok, THEN conjunct1]) (simp_all add: ended_site_def)

theorem ended_draft_refuses_witness:
  "reject_proposal demo_hashing (demo_command 1 ''k'') ended_site = (Inl RejectedProposalError, ended_site)"
proof -
  obtain r where r: "get_current_proposal 7 80 ended_site = (Inr (Some r), ended_site)"
    "pc_proposal r = demo_draft\<lparr>pp_state := ProposalRejected\<rparr>" using ended_record by blast
  obtain ov where ov: "get_overview 7 3 ended_site = Some ov" by (simp add: get_overview_def ended_site_row)
  have fresh: "stored_command (demo_command 1 ''k'') name ended_site = None" "stored_enqueue demo_enqueue ended_site = None" for name
    by (simp_all add: stored_command_def stored_enqueue_def get_idempotent_result_def ended_site_def draft_site_fields)
  have digests: "\<forall>v \<in> {proposal_body (pq_expected_resource_version (demo_command 1 ''k'')) (Some [demo_proposal]),
      proposal_body (pq_expected_resource_version (demo_command 1 ''k'')) None, enqueue_body demo_enqueue}.
      \<exists>d. digest_of demo_hashing v ended_site = (Inr d, ended_site)"
    by (simp add: demo_command_def demo_body demo_enqueue_body) (simp add: ret_def)
  have "revise_proposal demo_hashing demo_number_texts 10 (demo_command 1 ''k'') [demo_proposal] ended_site
      = (Inl (ended_refusal (pp_state (pc_proposal r))), ended_site)
    \<and> reject_proposal demo_hashing (demo_command 1 ''k'') ended_site = (Inl (ended_refusal (pp_state (pc_proposal r))), ended_site)
    \<and> enqueue_compute demo_hashing demo_settings demo_enqueue ended_site
        = (Inl (ended_submission (pp_state (pc_proposal r))), ended_site)"
    by (rule ended_draft_refuses [where scenario = 3 and ov = ov, OF _ _ _ _ fresh(1) fresh(1) _ _ _ _ fresh(2) _ _ digests])
      (use r ov in \<open>simp_all add: demo_command_def demo_draft_def demo_enqueue_fields max_idempotency_key_length_def\<close>)
  then show ?thesis by (simp add: r(2) ended_refusal_def)
qed

theorem command_is_read_back_witness:
  "\<exists>v s. demo_rejected = (Inr (Some v), s) \<and> get_proposal 7 80 s = (Inr (Some v), s)"
proof -
  obtain v s where ran: "demo_rejected = (Inr (Some v), s)" using demo_rejected_returns by blast
  have "get_proposal (pq_site_id (demo_command 1 ''k'')) (pq_proposal_id (demo_command 1 ''k'')) s = (Inr (Some v), s)"
    by (rule command_is_read_back [OF draft_site_ok disjI2]) (use ran demo_fresh in \<open>simp add: demo_rejected_def\<close>)
  then have "get_proposal 7 80 s = (Inr (Some v), s)" by (simp add: demo_command_def)
  then show ?thesis using ran by blast
qed

lemma current_of_tables:
  assumes "proposal_tables t = proposal_tables s" and "get_current_proposal site pid s = (Inr found, s)"
  shows "get_current_proposal site pid t = (Inr found, t)"
  using assms
  by (auto simp: get_current_proposal_def read_one_proposal_def and_then_reading find_proposal_version_def proposal_tables_def
      ret_def raise_def split: option.splits)

theorem revision_is_idempotent_witness:
  "\<exists>v s. demo_revised = (Inr (Some v), s)
     \<and> revise_proposal demo_hashing demo_number_texts 10 (demo_command 1 ''k'') [demo_proposal] s
       = (Inr (Some (replayed_view (version_now (demo_command 1 ''k'') s) v)), s)"
proof -
  obtain v s where ran: "demo_revised = (Inr (Some v), s)" using demo_revised_returns by blast
  let ?q = "demo_command 1 ''k''"
  have digest: "digest_of demo_hashing (proposal_body (pq_expected_resource_version ?q) (Some [demo_proposal])) u = (Inr ''h'', u)"
    for u :: governed_store
    by (simp add: demo_command_def demo_body) (simp add: ret_def)
  have reach: "revision_reaches demo_hashing 10 ?q [demo_proposal] ''h'' draft_site"
    using demo_current digest draft_site_ok by (simp add: revision_reaches_def readable_draft_def demo_command_def)
  have ok: "proposals_ok s"
  proof -
    have "draft_evolves draft_site s"
      by (rule revise_proposal_evolves [OF ran [unfolded demo_revised_def]])
    then show ?thesis using draft_site_ok by (simp add: draft_evolves_def)
  qed
  have "get_proposal 7 80 s = (Inr (Some v), s)"
    using revise_proposal_fresh [OF ran [unfolded demo_revised_def] demo_fresh draft_site_ok] by (simp add: demo_command_def) blast
  then have "\<exists>r ov. current_for_command 7 80 s = (Inr (Some (r, ov)), s)"
    unfolding get_proposal_def
    by (auto elim!: and_then_InrE dest!: ret_InrD split: option.splits prod.splits simp: ret_def dest: current_for_command_InrD)
  then have "revision_reaches demo_hashing 10 ?q [demo_proposal] ''h'' s"
    using digest ok by (simp add: revision_reaches_def readable_draft_def demo_command_def)
  then have "revise_proposal demo_hashing demo_number_texts 10 ?q [demo_proposal] s
      = (if ''h'' = ''h'' then Inr (Some (replayed_view (version_now ?q s) v)) else Inl IdempotencyKeyConflictError, s)"
    by (rule revision_is_idempotent [OF reach demo_fresh ran [unfolded demo_revised_def] appended_refl])
  then have "revise_proposal demo_hashing demo_number_texts 10 ?q [demo_proposal] s
      = (Inr (Some (replayed_view (version_now ?q s) v)), s)" by (simp only: refl if_True)
  with ran show ?thesis by blast
qed

theorem submission_is_idempotent_witness:
  "\<exists>r s. demo_submitted = (Inr r, s)
     \<and> enqueue_compute demo_hashing demo_settings (demo_enqueue\<lparr>nq_expected_resource_version := 1\<rparr>) s = (Inr r, s)"
proof -
  obtain r s where ran: "demo_submitted = (Inr r, s)" using demo_submitted_returns by blast
  have same: "proposal_tables s = proposal_tables draft_site"
    using keepsD [OF tables_enqueue_compute ran [unfolded demo_submitted_def]] .
  have same_request: "demo_enqueue\<lparr>nq_expected_resource_version := 1\<rparr> = demo_enqueue" by (simp add: demo_enqueue_def)
  have "get_current_proposal 7 80 s = (Inr (Some demo_record), s)"
    by (rule current_of_tables [OF same demo_record(1)])
  then have reach: "submission_reaches demo_hashing (demo_enqueue\<lparr>nq_expected_resource_version := 1\<rparr>) ''h'' s"
    by (simp add: same_request submission_reaches_def demo_enqueue_body max_idempotency_key_length_def demo_enqueue_fields)
  have "enqueue_compute demo_hashing demo_settings (demo_enqueue\<lparr>nq_expected_resource_version := 1\<rparr>) s
      = (if ''h'' = ''h'' then Inr r else Inl IdempotencyKeyConflictError, s)"
    by (rule submission_is_idempotent [OF demo_submission demo_not_stored ran [unfolded demo_submitted_def] appended_refl reach])
  then have "enqueue_compute demo_hashing demo_settings (demo_enqueue\<lparr>nq_expected_resource_version := 1\<rparr>) s = (Inr r, s)"
    by (simp only: refl if_True)
  with ran show ?thesis by blast
qed

end
