(* ===== verification/Scheduling_Problem.thy ===== *)
theory Scheduling_Problem
  imports Contracts
begin

text \<open>
  What the scheduling engine consumes and reports (\<^verbatim>\<open>domain/types.py\<close>, \<^verbatim>\<open>domain/problem.py\<close>,
  \<^verbatim>\<open>domain/overrides.py\<close>, \<^verbatim>\<open>domain/result.py\<close>) and the constants of \<^verbatim>\<open>config/constants.py\<close>. Times are hours
  from the start of the scenario; a float is an exact rational. The content hash that names an override is
  left out, nothing in the engine reads it.
\<close>

section \<open>Constants\<close>

definition default_max_hours_per_week :: rat where "default_max_hours_per_week = 56"
definition default_max_shifts_per_day :: int where "default_max_shifts_per_day = 2"
definition default_min_gap_hours :: rat where "default_min_gap_hours = 2"
definition default_task_rate :: rat where "default_task_rate = 10"
definition absenteeism_factor :: rat where "absenteeism_factor = 100 / 110"
definition shift_start_grid_h :: rat where "shift_start_grid_h = 1"
definition max_starts_per_template :: nat where "max_starts_per_template = 6"
definition vol_scale :: int where "vol_scale = 100"
definition hour_scale :: int where "hour_scale = 100000"
definition cost_scale :: int where "cost_scale = 100"
definition min_workers_penalty :: int where "min_workers_penalty = 100000"
definition lock_shift_penalty :: int where "lock_shift_penalty = 100000"
definition exclude_worker_penalty :: int where "exclude_worker_penalty = 50000"
definition max_hours_penalty :: int where "max_hours_penalty = 100000"

definition task_slot_count :: "rat \<Rightarrow> nat" where
  "task_slot_count shift_length_h = (if shift_length_h \<le> 6 then 1 else 2)"

text \<open>The tolerance \<open>1e-9\<close> of the engine's comparisons.\<close>

definition tolerance :: rat where "tolerance = 1 / 1000000000"

section \<open>Domain types\<close>

record window =
  wn_id :: string
  wn_start_h :: rat
  wn_end_h :: rat
  wn_kind :: window_kind

definition window_length_h :: "window \<Rightarrow> rat" where
  "window_length_h w = wn_end_h w - wn_start_h w"

record shift_break =
  bk_start_offset_h :: rat
  bk_duration_h :: rat
  bk_paid :: bool

record shift_template =
  tp_id :: string
  tp_name :: string
  tp_length_h :: rat
  tp_breaks :: "shift_break list"

definition unpaid_break_h :: "shift_template \<Rightarrow> rat" where
  "unpaid_break_h t = (\<Sum>b \<leftarrow> filter (\<lambda>b. \<not> bk_paid b) (tp_breaks t). bk_duration_h b)"

definition effective_h :: "shift_template \<Rightarrow> rat" where
  "effective_h t = max 0 (tp_length_h t - unpaid_break_h t)"

record qualification =
  ql_task_id :: string
  ql_rate :: rat

record team_member =
  mm_contact_id :: string
  mm_name :: string
  mm_emp_type :: string
  mm_grade_id :: string
  mm_eba_id :: string
  mm_contracted_hours :: rat
  mm_wage_per_hour :: rat
  mm_windows :: "window list"
  mm_qualifications :: "qualification list"

definition rate_for :: "team_member \<Rightarrow> string \<Rightarrow> rat option" where
  "rate_for m task_id = map_option ql_rate (find (\<lambda>q. ql_task_id q = task_id) (mm_qualifications m))"

record task =
  ta_task_id :: string
  ta_name :: string
  ta_function :: string
  ta_area_id :: string
  ta_unit_id :: "string option"

record demand_band =
  db_task_id :: string
  db_family :: demand_family
  db_start_h :: rat
  db_end_h :: rat
  db_amount :: rat
  db_order_id :: string

definition band_duration_h :: "demand_band \<Rightarrow> rat" where
  "band_duration_h b = db_end_h b - db_start_h b"

text \<open>The two caps are dicts by employment type.\<close>

record scheduling_problem =
  sp_horizon_h :: rat
  sp_members :: "team_member list"
  sp_tasks :: "task list"
  sp_templates :: "shift_template list"
  sp_demand :: "demand_band list"
  sp_max_hours_per_week :: "(string \<times> rat) list"
  sp_max_shifts_per_day :: "(string \<times> int) list"

definition week_cap :: "scheduling_problem \<Rightarrow> string \<Rightarrow> rat" where
  "week_cap p emp_type = get_or default_max_hours_per_week (dict_of (sp_max_hours_per_week p) emp_type)"

definition day_cap :: "scheduling_problem \<Rightarrow> string \<Rightarrow> int" where
  "day_cap p emp_type = get_or default_max_shifts_per_day (dict_of (sp_max_shifts_per_day p) emp_type)"

text \<open>An override with its arguments, one constructor per tool. \<open>None\<close> is an argument the constraint
  does not carry; using it raises a \<open>TypeError\<close>.\<close>

datatype override_call =
    MinWorkers string "int option"
  | DemandFactor string "rat option"
  | LockShift string int
  | ExcludeWorker string string
  | MaxHours string "rat option"

section \<open>Results\<close>

record schedule_row =
  sr_contact_id :: string
  sr_member_name :: string
  sr_task_id :: string
  sr_function :: string
  sr_shift_id :: string
  sr_start_h :: rat
  sr_end_h :: rat

record coverage_stat =
  cs_required_h :: rat
  cs_served_h :: rat

record summary_metrics =
  sm_coverage_by_function :: "(string \<times> coverage_stat) list"
  sm_coverage_by_day :: "(int \<times> rat) list"
  sm_total_cost :: "rat option"
  sm_total_unmet_hours :: rat
  sm_scheduled_shifts :: nat
  sm_scheduled_members :: nat

record solver_stats =
  ss_status :: solver_status
  ss_wall_time_s :: rat
  ss_unmet_objective_hours :: "rat option"
  ss_cost_objective :: "rat option"

record solve_result =
  re_status :: solver_status
  re_schedule :: "schedule_row list"
  re_metrics :: summary_metrics
  re_stats :: solver_stats
  re_warnings :: "string list"

end
