(* ===== verification/Shift_Candidates.thy ===== *)
theory Shift_Candidates
  imports Scheduling_Problem
begin

text \<open>
  The shifts the engine considers (\<^verbatim>\<open>engine/cpsat/builder.py\<close>, interval helpers and shift generation):
  where a template may start in a window, what of it is worked, and how the worked time is split into
  slots. The lemmas show that the slots of a candidate are disjoint, in order and outside the breaks.
\<close>

section \<open>Interval helpers\<close>

type_synonym interval = "rat \<times> rat"

definition overlap :: "interval \<Rightarrow> interval \<Rightarrow> rat" where
  "overlap a b = max 0 (min (snd a) (snd b) - max (fst a) (fst b))"

definition cut_segment :: "interval \<Rightarrow> interval \<Rightarrow> interval list" where
  "cut_segment hole seg =
     (if snd hole \<le> fst seg \<or> fst hole \<ge> snd seg then [seg]
      else (if fst hole > fst seg then [(fst seg, fst hole)] else [])
           @ (if snd hole < snd seg then [(snd hole, snd seg)] else []))"

definition cut_hole :: "interval \<Rightarrow> interval list \<Rightarrow> interval list" where
  "cut_hole hole segments = concat (map (cut_segment hole) segments)"

definition subtract :: "interval \<Rightarrow> interval list \<Rightarrow> interval list" where
  "subtract base holes = filter (\<lambda>(s, e). e - s > tolerance) (fold cut_hole (sort holes) [base])"

fun split_loop ::
  "rat \<Rightarrow> nat \<Rightarrow> interval list list \<Rightarrow> interval list \<Rightarrow> rat \<Rightarrow> interval list \<Rightarrow> interval list list" where
  "split_loop target n_slots groups cur acc [] = (if cur \<noteq> [] then groups @ [cur] else groups)"
| "split_loop target n_slots groups cur acc (seg # rest) =
     (if acc + (snd seg - fst seg) \<ge> target - tolerance \<and> length groups < n_slots - 1
      then split_loop target n_slots (groups @ [cur @ [seg]]) [] 0 rest
      else split_loop target n_slots groups (cur @ [seg]) (acc + (snd seg - fst seg)) rest)"

definition split_into_slots :: "interval list \<Rightarrow> nat \<Rightarrow> interval list list" where
  "split_into_slots working n_slots =
     (if n_slots \<le> 1 \<or> length working \<le> 1 then [working]
      else split_loop ((\<Sum>(s, e) \<leftarrow> working. e - s) / of_nat n_slots) n_slots [] [] 0 working)"

section \<open>Candidate starts\<close>

text \<open>\<open>round(x, 4)\<close>.\<close>

definition round4 :: "rat \<Rightarrow> rat" where
  "round4 x = of_int (py_round (x * 10000)) / 10000"

text \<open>The \<open>while\<close> loop over the grid. \<open>None\<close> is a loop that does not end.\<close>

partial_function (option) scan_grid :: "rat \<Rightarrow> rat \<Rightarrow> rat \<Rightarrow> rat list \<Rightarrow> rat \<Rightarrow> rat list option" where
  "scan_grid grid latest first starts g =
     (if g \<le> latest + tolerance
      then scan_grid grid latest first (if g > first + tolerance then starts @ [round4 g] else starts) (g + grid)
      else Some starts)"

declare scan_grid.simps [code]

definition start_choices :: "window \<Rightarrow> rat \<Rightarrow> rat list \<Rightarrow> rat list" where
  "start_choices w latest starts =
     (let starts' = (if latest - tolerance > last starts then starts @ [round4 latest] else starts);
          kept = filter (\<lambda>s. wn_start_h w - tolerance \<le> s \<and> s \<le> latest + tolerance) starts'
      in take max_starts_per_template (sorted_list_of_set (set (map round4 kept))))"

definition candidate_starts :: "window \<Rightarrow> shift_template \<Rightarrow> rat list option" where
  "candidate_starts w tpl =
     (let latest = wn_end_h w - tp_length_h tpl; grid = shift_start_grid_h in
      if latest < wn_start_h w - tolerance then Some []
      else map_option (start_choices w latest)
             (scan_grid grid latest (wn_start_h w) [wn_start_h w] (of_int \<lceil>wn_start_h w / grid\<rceil> * grid)))"

section \<open>Worked intervals of a shift\<close>

definition break_holes :: "rat \<Rightarrow> shift_template \<Rightarrow> interval list" where
  "break_holes start tpl =
     map (\<lambda>b. (start + bk_start_offset_h b, start + bk_start_offset_h b + bk_duration_h b)) (tp_breaks tpl)"

definition working_intervals :: "rat \<Rightarrow> shift_template \<Rightarrow> interval list" where
  "working_intervals start tpl = subtract (start, start + tp_length_h tpl) (break_holes start tpl)"

definition shift_slots :: "rat \<Rightarrow> shift_template \<Rightarrow> interval list list" where
  "shift_slots start tpl = split_into_slots (working_intervals start tpl) (task_slot_count (tp_length_h tpl))"

section \<open>Lemmas on intervals\<close>

definition in_interval :: "rat \<Rightarrow> interval \<Rightarrow> bool" where
  "in_interval x i \<longleftrightarrow> fst i \<le> x \<and> x < snd i"

text \<open>Segments in order, none of them empty, all inside a base interval.\<close>

definition ordered_within :: "interval \<Rightarrow> interval list \<Rightarrow> bool" where
  "ordered_within base segs \<longleftrightarrow> sorted_wrt (\<lambda>a b. snd a \<le> fst b) segs
     \<and> (\<forall>i \<in> set segs. fst i < snd i \<and> fst base \<le> fst i \<and> snd i \<le> snd base)"

lemma ordered_within_Cons:
  "ordered_within base (i # segs) \<longleftrightarrow> fst i < snd i \<and> fst base \<le> fst i \<and> snd i \<le> snd base
     \<and> (\<forall>j \<in> set segs. snd i \<le> fst j) \<and> ordered_within base segs"
  by (auto simp: ordered_within_def)

lemma ordered_within_filter: "ordered_within base segs \<Longrightarrow> ordered_within base (filter P segs)"
  by (auto simp: ordered_within_def sorted_wrt_filter)

lemma cut_hole_Cons: "cut_hole h (i # segs) = cut_segment h i @ cut_hole h segs"
  by (simp add: cut_hole_def)

lemma cut_segment_within:
  "j \<in> set (cut_segment h i) \<Longrightarrow> fst i \<le> fst j \<and> snd j \<le> snd i \<and> (fst i < snd i \<longrightarrow> fst j < snd j)"
  by (auto simp: cut_segment_def split: if_splits)

lemma cut_segment_sorted: "fst h \<le> snd h \<Longrightarrow> sorted_wrt (\<lambda>a b. snd a \<le> fst b) (cut_segment h i)"
  by (auto simp: cut_segment_def)

lemma cut_segment_points:
  "fst h \<le> snd h \<Longrightarrow> (\<exists>j \<in> set (cut_segment h i). in_interval x j) \<longleftrightarrow> in_interval x i \<and> \<not> in_interval x h"
  by (auto simp: cut_segment_def in_interval_def)

lemma cut_hole_ordered:
  assumes "ordered_within base segs" and "fst h \<le> snd h"
  shows "ordered_within base (cut_hole h segs)"
  using assms(1)
proof (induction segs)
  case Nil
  then show ?case by (simp add: cut_hole_def)
next
  case (Cons i segs)
  have i: "fst i < snd i" "fst base \<le> fst i" "snd i \<le> snd base" "\<forall>j \<in> set segs. snd i \<le> fst j"
    using Cons.prems by (auto simp: ordered_within_Cons)
  have rest: "ordered_within base (cut_hole h segs)" using Cons by (simp add: ordered_within_Cons)
  have before: "snd a \<le> fst b" if a: "a \<in> set (cut_segment h i)" and b: "b \<in> set (cut_hole h segs)" for a b
  proof -
    obtain k where "k \<in> set segs" "b \<in> set (cut_segment h k)" using b by (auto simp: cut_hole_def)
    then show ?thesis
      using cut_segment_within [OF a] cut_segment_within [of b h k] i(4) by fastforce
  qed
  have inside: "\<forall>a \<in> set (cut_segment h i). fst a < snd a \<and> fst base \<le> fst a \<and> snd a \<le> snd base"
    using cut_segment_within [of _ h i] i by fastforce
  show ?case
    using rest before inside cut_segment_sorted [OF assms(2), of i]
    unfolding cut_hole_Cons ordered_within_def by (auto simp: sorted_wrt_append)
qed

lemma cut_hole_points:
  assumes "fst h \<le> snd h"
  shows "(\<exists>j \<in> set (cut_hole h segs). in_interval x j) \<longleftrightarrow> (\<exists>i \<in> set segs. in_interval x i) \<and> \<not> in_interval x h"
proof (induction segs)
  case (Cons i segs)
  then show ?case using cut_segment_points [OF assms, of i x] by (auto simp: cut_hole_Cons)
qed (simp add: cut_hole_def)

lemma fold_cut_hole:
  assumes "ordered_within base segs" and "\<forall>h \<in> set holes. fst h \<le> snd h"
  shows "ordered_within base (fold cut_hole holes segs)"
    and "(\<exists>j \<in> set (fold cut_hole holes segs). in_interval x j) \<longleftrightarrow>
      (\<exists>i \<in> set segs. in_interval x i) \<and> (\<forall>h \<in> set holes. \<not> in_interval x h)"
  using assms by (induction holes arbitrary: segs) (auto simp: cut_hole_ordered cut_hole_points)

lemma subtract_ordered:
  "s < e \<Longrightarrow> \<forall>h \<in> set holes. fst h \<le> snd h \<Longrightarrow> ordered_within (s, e) (subtract (s, e) holes)"
  unfolding subtract_def by (intro ordered_within_filter fold_cut_hole) (auto simp: ordered_within_def)

lemma subtract_points:
  assumes "s < e" and "\<forall>h \<in> set holes. fst h \<le> snd h" and "j \<in> set (subtract (s, e) holes)" and "in_interval x j"
  shows "in_interval x (s, e) \<and> (\<forall>h \<in> set holes. \<not> in_interval x h)"
proof -
  have "ordered_within (s, e) [(s, e)]" using assms(1) by (simp add: ordered_within_def)
  from fold_cut_hole(2) [OF this, of "sort holes" x] assms show ?thesis
    by (auto simp: subtract_def)
qed

lemma split_loop_concat: "concat (split_loop target n groups cur acc segs) = concat groups @ cur @ segs"
  by (induction target n groups cur acc segs rule: split_loop.induct) auto

lemma split_loop_nonempty:
  "[] \<notin> set groups \<Longrightarrow> [] \<notin> set (split_loop target n groups cur acc segs)"
  by (induction target n groups cur acc segs rule: split_loop.induct) auto

lemma split_loop_length:
  "length groups \<le> n - 1 \<Longrightarrow> length (split_loop target n groups cur acc segs) \<le> n - 1 + 1"
  by (induction target n groups cur acc segs rule: split_loop.induct) auto

lemma split_into_slots_parts:
  "concat (split_into_slots working n) = working"
  "working \<noteq> [] \<Longrightarrow> slot \<in> set (split_into_slots working n) \<Longrightarrow> slot \<noteq> []"
  "length (split_into_slots working n) \<le> max 1 n"
  using split_loop_concat [of _ n "[]" "[]" 0 working] split_loop_nonempty [of "[]" _ n "[]" 0 working]
    split_loop_length [of "[]" n _ "[]" 0 working]
  by (auto simp: split_into_slots_def split: if_splits)

section \<open>Lemmas on candidate starts\<close>

text \<open>How many grid points are still ahead.\<close>

definition steps_left :: "rat \<Rightarrow> rat \<Rightarrow> rat \<Rightarrow> nat" where
  "steps_left grid latest g = nat (\<lfloor>(latest + tolerance - g) / grid\<rfloor> + 1)"

lemma steps_left_step:
  assumes "0 < grid" and "g \<le> latest + tolerance"
  shows "steps_left grid latest g = Suc (steps_left grid latest (g + grid))"
proof -
  have eq: "(latest + tolerance - (g + grid)) / grid = (latest + tolerance - g) / grid - 1"
    using assms(1) by (simp add: field_simps)
  have "0 \<le> (latest + tolerance - g) / grid" using assms by simp
  then have "0 \<le> \<lfloor>(latest + tolerance - g) / grid\<rfloor>" by (simp only: zero_le_floor)
  moreover have "\<lfloor>(latest + tolerance - g) / grid - 1\<rfloor> = \<lfloor>(latest + tolerance - g) / grid\<rfloor> - 1"
    using floor_diff_of_int [of "(latest + tolerance - g) / grid" 1] by simp
  ultimately show ?thesis unfolding steps_left_def eq by (simp only: Suc_nat_eq_nat_zadd1 diff_add_cancel)
qed

lemma steps_left_zero:
  assumes "0 < grid" shows "steps_left grid latest g = 0 \<longleftrightarrow> latest + tolerance < g"
proof
  assume "steps_left grid latest g = 0"
  then show "latest + tolerance < g"
    using steps_left_step [OF assms, of g latest] by (cases "g \<le> latest + tolerance") auto
next
  assume "latest + tolerance < g"
  then have "(latest + tolerance - g) / grid < 0" using assms by (simp add: divide_neg_pos)
  then show "steps_left grid latest g = 0" unfolding steps_left_def by simp linarith
qed

definition grid_points :: "rat \<Rightarrow> rat \<Rightarrow> rat \<Rightarrow> rat list" where
  "grid_points grid latest g = map (\<lambda>i. g + of_nat i * grid) [0..<steps_left grid latest g]"

lemma scan_grid_returns:
  assumes "0 < grid"
  shows "scan_grid grid latest first starts g
    = Some (starts @ map round4 (filter (\<lambda>x. x > first + tolerance) (grid_points grid latest g)))"
proof (induction "steps_left grid latest g" arbitrary: starts g)
  case 0
  then show ?case
    using steps_left_zero [OF assms, of latest g] by (subst scan_grid.simps) (simp add: grid_points_def)
next
  case (Suc n)
  have le: "g \<le> latest + tolerance" using Suc.hyps(2) steps_left_zero [OF assms, of latest g] by linarith
  have n: "n = steps_left grid latest (g + grid)" using steps_left_step [OF assms le] Suc.hyps(2) by simp
  have pts: "grid_points grid latest g = g # grid_points grid latest (g + grid)"
    unfolding grid_points_def steps_left_step [OF assms le] upt_conv_Cons [OF zero_less_Suc]
    by (simp add: map_Suc_upt [symmetric] algebra_simps del: map_Suc_upt upt_Suc)
  show ?case
    by (subst scan_grid.simps) (use le Suc.hyps(1) [OF n] in \<open>simp add: pts\<close>)
qed

lemma round4_near: "\<bar>round4 x - x\<bar> \<le> 1 / 20000"
  using py_round_dist [of "x * 10000"] by (simp add: round4_def abs_le_iff field_simps)

lemma round4_mono: "x \<le> y \<Longrightarrow> round4 x \<le> round4 y"
  by (simp add: round4_def py_round_mono divide_right_mono)

lemma start_choices_within:
  assumes "s \<in> set (start_choices w latest starts)"
  shows "wn_start_h w - tolerance - 1 / 20000 \<le> s \<and> s \<le> latest + tolerance + 1 / 20000"
proof -
  obtain t where "s = round4 t" "wn_start_h w - tolerance \<le> t" "t \<le> latest + tolerance"
    using assms by (auto simp: start_choices_def Let_def dest!: in_set_takeD split: if_splits)
  moreover have "t - 1 / 20000 \<le> round4 t" "round4 t \<le> t + 1 / 20000" using round4_near [of t] by linarith+
  ultimately show ?thesis by linarith
qed

lemma start_choices_first:
  assumes "wn_start_h w - tolerance \<le> latest" and "\<forall>s \<in> set starts. round4 (wn_start_h w) \<le> round4 s"
  shows "start_choices w latest (wn_start_h w # starts) \<noteq> []
    \<and> hd (start_choices w latest (wn_start_h w # starts)) = round4 (wn_start_h w)"
proof -
  let ?starts = "wn_start_h w # starts"
  let ?all = "if latest - tolerance > last ?starts then ?starts @ [round4 latest] else ?starts"
  let ?kept = "filter (\<lambda>s. wn_start_h w - tolerance \<le> s \<and> s \<le> latest + tolerance) ?all"
  let ?S = "set (map round4 ?kept)"
  have "wn_start_h w \<in> set ?kept" using assms(1) by (auto simp: tolerance_def)
  then have first: "round4 (wn_start_h w) \<in> ?S" by simp
  have last: "round4 (wn_start_h w) \<le> round4 (round4 latest)" if more: "latest - tolerance > last ?starts"
  proof -
    have "round4 (wn_start_h w) \<le> round4 (last ?starts)"
      using assms(2) by (cases starts) (auto simp: last_in_set)
    also have "\<dots> \<le> round4 latest" using more by (intro round4_mono) (simp add: tolerance_def)
    also have "\<dots> = round4 (round4 latest)" by (simp add: round4_def)
    finally show ?thesis .
  qed
  have least: "\<forall>x \<in> ?S. round4 (wn_start_h w) \<le> x" using assms(2) last by auto
  let ?l = "sorted_list_of_set ?S"
  have set: "set ?l = ?S" by simp
  then obtain x xs where l: "?l = x # xs" using first by (cases ?l) auto
  have "sorted (x # xs)" using sorted_sorted_list_of_set [of ?S] unfolding l .
  then have "x \<le> round4 (wn_start_h w)" using first set l by (metis set_ConsD sorted_wrt.simps(2) order_refl)
  moreover have "x \<in> ?S" using set l by (metis list.set_intros(1))
  ultimately have "x = round4 (wn_start_h w)" using least by (metis order_antisym)
  with l show ?thesis
    unfolding start_choices_def Let_def max_starts_per_template_def by simp
qed

text \<open>
  C10. The search for start times always ends: for every window and template the grid loop stops and
  gives at most six different times in increasing order. There is none exactly when the template does
  not fit into the window; otherwise the first is the start of the window, and every one leaves the
  template inside the window up to the rounding to four decimals.
\<close>

theorem candidate_starts_terminates:
  "\<exists>starts. candidate_starts w tpl = Some starts \<and> length starts \<le> 6 \<and> sorted_wrt (<) starts
     \<and> (starts = [] \<longleftrightarrow> wn_end_h w - tp_length_h tpl < wn_start_h w - tolerance)
     \<and> (starts = [] \<or> hd starts = round4 (wn_start_h w))
     \<and> (\<forall>s \<in> set starts. wn_start_h w - tolerance - 1 / 20000 \<le> s
          \<and> s + tp_length_h tpl \<le> wn_end_h w + tolerance + 1 / 20000)"
proof (cases "wn_end_h w - tp_length_h tpl < wn_start_h w - tolerance")
  case True
  then show ?thesis by (simp add: candidate_starts_def Let_def)
next
  case False
  let ?latest = "wn_end_h w - tp_length_h tpl"
  let ?g = "of_int \<lceil>wn_start_h w / shift_start_grid_h\<rceil> * shift_start_grid_h"
  let ?more = "map round4 (filter (\<lambda>x. x > wn_start_h w + tolerance) (grid_points shift_start_grid_h ?latest ?g))"
  let ?starts = "start_choices w ?latest (wn_start_h w # ?more)"
  have "0 < shift_start_grid_h" by (simp add: shift_start_grid_h_def)
  then have "candidate_starts w tpl = Some ?starts"
    using False by (simp add: candidate_starts_def Let_def scan_grid_returns)
  moreover have "length ?starts \<le> 6" by (simp add: start_choices_def Let_def max_starts_per_template_def)
  moreover have "sorted_wrt (<) ?starts"
    unfolding start_choices_def Let_def by (intro sorted_wrt_take strict_sorted_list_of_set)
  moreover have "?starts \<noteq> [] \<and> hd ?starts = round4 (wn_start_h w)"
    by (rule start_choices_first) (use False in \<open>auto simp: tolerance_def round4_def intro!: py_round_mono divide_right_mono\<close>)
  ultimately show ?thesis
    using False start_choices_within [of _ w ?latest "wn_start_h w # ?more"] by (auto simp: algebra_simps)
qed

theorem candidate_starts_terminates_witness:
  "\<exists>starts. candidate_starts \<lparr>wn_id = ''ros0'', wn_start_h = 6, wn_end_h = 15, wn_kind = Roster\<rparr>
       \<lparr>tp_id = ''day'', tp_name = ''Day'', tp_length_h = 8, tp_breaks = []\<rparr> = Some starts
     \<and> starts \<noteq> [] \<and> hd starts = 6 \<and> (\<forall>s \<in> set starts. 5 \<le> s \<and> s \<le> 8)"
proof -
  let ?w = "\<lparr>wn_id = ''ros0'', wn_start_h = 6, wn_end_h = 15, wn_kind = Roster\<rparr>"
  let ?t = "\<lparr>tp_id = ''day'', tp_name = ''Day'', tp_length_h = 8, tp_breaks = []\<rparr>"
  obtain starts where st: "candidate_starts ?w ?t = Some starts" "starts \<noteq> []" "hd starts = round4 6"
    "\<forall>s \<in> set starts. 6 - tolerance - 1 / 20000 \<le> s \<and> s + 8 \<le> 15 + tolerance + 1 / 20000"
    using candidate_starts_terminates [of ?w ?t] by (auto simp: tolerance_def)
  have "round4 6 = 6" using py_round_of_int [of 60000] by (simp add: round4_def)
  then show ?thesis using st by (force simp: tolerance_def)
qed

end
