(* ===== verification/Cp_Model.thy ===== *)
theory Cp_Model
  imports Contracts
begin

text \<open>
  What the engine tells CP-SAT: the variables it creates and the linear constraints it adds, in the order
  of its calls, and the responses it reads. The solver is third-party code and a parameter; what is
  relied on is its documented behaviour: a response that reports a solution satisfies the model
  (\<open>solver_sound\<close>), and an \<open>OPTIMAL\<close> one minimises the objective (\<open>solver_optimal\<close>).
\<close>

section \<open>Models\<close>

record int_var =
  iv_index :: nat
  iv_name :: string
  iv_lo :: int
  iv_hi :: int

type_synonym linear_expr = "(int \<times> int_var) list \<times> int"

datatype relation = AtMost | AtLeast | Exactly

record cp_constraint =
  cc_left :: linear_expr
  cc_relation :: relation
  cc_right :: linear_expr

record cp_model =
  cm_vars :: "int_var list"
  cm_constraints :: "cp_constraint list"

definition empty_model :: cp_model where
  "empty_model = \<lparr>cm_vars = [], cm_constraints = []\<rparr>"

definition sum_of :: "int_var list \<Rightarrow> linear_expr" where
  "sum_of vs = (map (Pair 1) vs, 0)"

definition one :: "int_var \<Rightarrow> linear_expr" where
  "one v = ([(1, v)], 0)"

definition number :: "int \<Rightarrow> linear_expr" where
  "number k = ([], k)"

definition plus_expr :: "linear_expr \<Rightarrow> linear_expr \<Rightarrow> linear_expr" where
  "plus_expr e f = (fst e @ fst f, snd e + snd f)"

definition times_expr :: "int \<Rightarrow> linear_expr \<Rightarrow> linear_expr" where
  "times_expr k e = (map (\<lambda>(c, v). (k * c, v)) (fst e), k * snd e)"

definition new_int_var :: "int \<Rightarrow> int \<Rightarrow> string \<Rightarrow> cp_model \<Rightarrow> int_var \<times> cp_model" where
  "new_int_var lo hi name m =
     (let v = \<lparr>iv_index = length (cm_vars m), iv_name = name, iv_lo = lo, iv_hi = hi\<rparr>
      in (v, m\<lparr>cm_vars := cm_vars m @ [v]\<rparr>))"

definition add_constraint :: "linear_expr \<Rightarrow> relation \<Rightarrow> linear_expr \<Rightarrow> cp_model \<Rightarrow> cp_model" where
  "add_constraint l rel r m =
     m\<lparr>cm_constraints := cm_constraints m @ [\<lparr>cc_left = l, cc_relation = rel, cc_right = r\<rparr>]\<rparr>"

section \<open>Solutions\<close>

type_synonym valuation = "nat \<Rightarrow> int"

definition value_of :: "valuation \<Rightarrow> int_var \<Rightarrow> int" where
  "value_of x v = x (iv_index v)"

definition eval_expr :: "valuation \<Rightarrow> linear_expr \<Rightarrow> int" where
  "eval_expr x e = (\<Sum>(c, v) \<leftarrow> fst e. c * value_of x v) + snd e"

definition holds :: "valuation \<Rightarrow> cp_constraint \<Rightarrow> bool" where
  "holds x c = (let l = eval_expr x (cc_left c); r = eval_expr x (cc_right c) in
     case cc_relation c of AtMost \<Rightarrow> l \<le> r | AtLeast \<Rightarrow> l \<ge> r | Exactly \<Rightarrow> l = r)"

definition in_domain :: "valuation \<Rightarrow> int_var \<Rightarrow> bool" where
  "in_domain x v \<longleftrightarrow> iv_lo v \<le> value_of x v \<and> value_of x v \<le> iv_hi v"

definition satisfies :: "valuation \<Rightarrow> cp_model \<Rightarrow> bool" where
  "satisfies x m \<longleftrightarrow> (\<forall>v \<in> set (cm_vars m). in_domain x v) \<and> (\<forall>c \<in> set (cm_constraints m). holds x c)"

section \<open>Responses\<close>

text \<open>What is read of a response: the status, the objective value, the solution by index and the
  deterministic time that was used.\<close>

record cp_response =
  an_status :: solver_status
  an_objective :: rat
  an_solution :: "int list"
  an_deterministic_time :: rat

text \<open>The parameters of one call, with the hint that was given.\<close>

record cp_parameters =
  pm_max_time :: rat
  pm_max_deterministic_time :: "rat option"
  pm_num_workers :: int
  pm_seed :: int
  pm_hint :: "int list option"

type_synonym cp_solver = "cp_model \<Rightarrow> linear_expr \<Rightarrow> cp_parameters \<Rightarrow> cp_response"

definition solved :: "solver_status \<Rightarrow> bool" where
  "solved status \<longleftrightarrow> status = OPTIMAL \<or> status = FEASIBLE"

definition valuation_of :: "int list \<Rightarrow> valuation" where
  "valuation_of xs = (\<lambda>i. if i < length xs then xs ! i else 0)"

definition solver_sound :: "cp_solver \<Rightarrow> bool" where
  "solver_sound solve \<longleftrightarrow> (\<forall>m e ps. solved (an_status (solve m e ps)) \<longrightarrow>
     satisfies (valuation_of (an_solution (solve m e ps))) m
     \<and> an_objective (solve m e ps) = of_int (eval_expr (valuation_of (an_solution (solve m e ps))) e))"

definition solver_optimal :: "cp_solver \<Rightarrow> bool" where
  "solver_optimal solve \<longleftrightarrow> (\<forall>m e ps x. an_status (solve m e ps) = OPTIMAL \<longrightarrow> satisfies x m \<longrightarrow>
     an_objective (solve m e ps) \<le> of_int (eval_expr x e))"

section \<open>Evaluation\<close>

lemma eval_sum_of [simp]: "eval_expr x (sum_of vs) = (\<Sum>v \<leftarrow> vs. value_of x v)"
  by (induction vs) (auto simp: eval_expr_def sum_of_def)

lemma eval_one [simp]: "eval_expr x (one v) = value_of x v"
  by (simp add: eval_expr_def one_def)

lemma eval_number [simp]: "eval_expr x (number k) = k"
  by (simp add: eval_expr_def number_def)

lemma eval_plus [simp]: "eval_expr x (plus_expr e f) = eval_expr x e + eval_expr x f"
  by (simp add: eval_expr_def plus_expr_def)

lemma eval_times [simp]: "eval_expr x (times_expr k e) = k * eval_expr x e"
  by (simp add: eval_expr_def times_expr_def case_prod_unfold sum_list_const_mult comp_def algebra_simps
      flip: sum_list_const_mult)

lemma eval_terms [simp]: "eval_expr x (map (\<lambda>a. (f a, g a)) as, 0) = (\<Sum>a \<leftarrow> as. f a * value_of x (g a))"
  by (simp add: eval_expr_def comp_def)

text \<open>A model only grows: what satisfies the later one satisfies the earlier one.\<close>

definition model_grows :: "cp_model \<Rightarrow> cp_model \<Rightarrow> bool" where
  "model_grows m m' \<longleftrightarrow> set (cm_vars m) \<subseteq> set (cm_vars m') \<and> set (cm_constraints m) \<subseteq> set (cm_constraints m')
     \<and> length (cm_vars m) \<le> length (cm_vars m')"

lemma model_grows_refl [simp]: "model_grows m m"
  by (simp add: model_grows_def)

lemma model_grows_trans: "model_grows m m' \<Longrightarrow> model_grows m' m'' \<Longrightarrow> model_grows m m''"
  by (auto simp: model_grows_def)

lemma model_grows_new_var: "new_int_var lo hi name m = (v, m') \<Longrightarrow> model_grows m m'"
  by (auto simp: new_int_var_def Let_def model_grows_def)

lemma model_grows_add_constraint [simp]: "model_grows m (add_constraint l rel r m)"
  by (auto simp: add_constraint_def model_grows_def)

lemma satisfies_earlier: "satisfies x m' \<Longrightarrow> model_grows m m' \<Longrightarrow> satisfies x m"
  by (auto simp: satisfies_def model_grows_def)

section \<open>Models that can be extended\<close>

text \<open>Every index is below the number of variables.\<close>

definition expr_below :: "nat \<Rightarrow> linear_expr \<Rightarrow> bool" where
  "expr_below n e \<longleftrightarrow> (\<forall>(c, v) \<in> set (fst e). iv_index v < n)"

definition model_closed :: "cp_model \<Rightarrow> bool" where
  "model_closed m \<longleftrightarrow> (\<forall>v \<in> set (cm_vars m). iv_index v < length (cm_vars m))
     \<and> (\<forall>c \<in> set (cm_constraints m). expr_below (length (cm_vars m)) (cc_left c) \<and> expr_below (length (cm_vars m)) (cc_right c))"

lemma eval_expr_update: "expr_below n e \<Longrightarrow> eval_expr (x(n := k)) e = eval_expr x e"
  unfolding eval_expr_def expr_below_def
  by (intro arg_cong2 [where f = plus] refl arg_cong [where f = sum_list] map_cong) (auto simp: value_of_def)

lemma satisfies_new_var:
  assumes "new_int_var lo hi name m = (v, m')" and "satisfies x m" and "model_closed m" and "lo \<le> k" "k \<le> hi"
  shows "satisfies (x(iv_index v := k)) m'"
proof -
  have v: "v = \<lparr>iv_index = length (cm_vars m), iv_name = name, iv_lo = lo, iv_hi = hi\<rparr>"
    and m': "m' = m\<lparr>cm_vars := cm_vars m @ [v]\<rparr>"
    using assms(1) by (auto simp: new_int_var_def Let_def)
  have "in_domain (x(iv_index v := k)) u" if "u \<in> set (cm_vars m')" for u
    using that assms(2-5) by (auto simp: m' v in_domain_def value_of_def satisfies_def model_closed_def)
  moreover have "holds (x(iv_index v := k)) c" if "c \<in> set (cm_constraints m')" for c
  proof -
    have c: "c \<in> set (cm_constraints m)" using that m' by simp
    then have "expr_below (iv_index v) (cc_left c)" "expr_below (iv_index v) (cc_right c)"
      using assms(3) by (auto simp: v model_closed_def)
    then show ?thesis
      using assms(2) c by (simp add: holds_def eval_expr_update satisfies_def)
  qed
  ultimately show ?thesis by (simp add: satisfies_def)
qed

lemma model_closed_new_var:
  assumes "new_int_var lo hi name m = (v, m')" and "model_closed m"
  shows "model_closed m'" and "iv_index v = length (cm_vars m)" and "length (cm_vars m') = Suc (length (cm_vars m))"
proof -
  have v: "v = \<lparr>iv_index = length (cm_vars m), iv_name = name, iv_lo = lo, iv_hi = hi\<rparr>"
    and m': "m' = m\<lparr>cm_vars := cm_vars m @ [v]\<rparr>"
    using assms(1) by (auto simp: new_int_var_def Let_def)
  show "model_closed m'" using assms(2) by (fastforce simp: m' v model_closed_def expr_below_def)
  show "iv_index v = length (cm_vars m)" "length (cm_vars m') = Suc (length (cm_vars m))" by (simp_all add: m' v)
qed

lemma satisfies_add_constraint:
  "satisfies x (add_constraint l rel r m) \<longleftrightarrow> satisfies x m \<and> holds x \<lparr>cc_left = l, cc_relation = rel, cc_right = r\<rparr>"
  by (auto simp: satisfies_def add_constraint_def)

lemma model_closed_add_constraint:
  "model_closed m \<Longrightarrow> expr_below (length (cm_vars m)) l \<Longrightarrow> expr_below (length (cm_vars m)) r
   \<Longrightarrow> model_closed (add_constraint l rel r m)"
  by (auto simp: model_closed_def add_constraint_def)

lemma holds_simps [simp]:
  "holds x \<lparr>cc_left = l, cc_relation = AtMost, cc_right = r\<rparr> \<longleftrightarrow> eval_expr x l \<le> eval_expr x r"
  "holds x \<lparr>cc_left = l, cc_relation = AtLeast, cc_right = r\<rparr> \<longleftrightarrow> eval_expr x l \<ge> eval_expr x r"
  "holds x \<lparr>cc_left = l, cc_relation = Exactly, cc_right = r\<rparr> \<longleftrightarrow> eval_expr x l = eval_expr x r"
  by (simp_all add: holds_def)

end
