(* ===== verification/Model_Builder.thy ===== *)
theory Model_Builder
  imports Shift_Candidates Cp_Model Wire
begin

text \<open>
  The builder of the CP-SAT model (\<^verbatim>\<open>engine/cpsat/builder.py\<close>), statement by statement: the shift
  candidates with their task variables, the window, cap and coverage constraints and the two objectives
  with the soft terms of the overrides. The order in which Python iterates over a set is a parameter.
\<close>

section \<open>Parameters and results\<close>

record set_order =
  so_text :: "string list \<Rightarrow> string list"
  so_hours :: "int list \<Rightarrow> int list"

datatype engine_error = EngineTypeError | EngineValueError string | EngineKeyError string

record shift_var =
  sf_var :: int_var
  sf_member :: team_member
  sf_window :: window
  sf_template :: shift_template
  sf_start_h :: rat
  sf_end_h :: rat
  sf_eff_h :: rat
  sf_working :: "interval list"
  sf_slots :: "interval list list"

record task_var =
  tv_var :: int_var
  tv_shift :: shift_var
  tv_task_id :: string
  tv_slot_idx :: nat
  tv_start_h :: rat
  tv_end_h :: rat
  tv_hour_overlap :: "(int \<times> rat) list"

record builder =
  bu_model :: cp_model
  bu_shift_vars :: "shift_var list"
  bu_task_vars :: "task_var list"
  bu_unfilled_roster :: "(string \<times> int_var) list"
  bu_unmet_vol :: "((string \<times> int) \<times> int_var) list"
  bu_unmet_hc :: "((string \<times> int) \<times> int_var) list"
  bu_coverage_terms :: "((string \<times> int) \<times> int_var \<times> rat) list"

definition empty_builder :: builder where
  "empty_builder = \<lparr>bu_model = empty_model, bu_shift_vars = [], bu_task_vars = [], bu_unfilled_roster = [],
     bu_unmet_vol = [], bu_unmet_hc = [], bu_coverage_terms = []\<rparr>"

definition bd_new_var :: "int \<Rightarrow> int \<Rightarrow> string \<Rightarrow> builder \<Rightarrow> int_var \<times> builder" where
  "bd_new_var lo hi name b = (let (v, m) = new_int_var lo hi name (bu_model b) in (v, b\<lparr>bu_model := m\<rparr>))"

definition bd_add :: "linear_expr \<Rightarrow> relation \<Rightarrow> linear_expr \<Rightarrow> builder \<Rightarrow> builder" where
  "bd_add l rel r b = b\<lparr>bu_model := add_constraint l rel r (bu_model b)\<rparr>"

text \<open>\<open>int(round(x * scale))\<close>.\<close>

definition scaled :: "rat \<Rightarrow> int \<Rightarrow> int" where
  "scaled x scale = py_round (x * of_int scale)"

section \<open>Demand\<close>

text \<open>Hourly demand by task: a dict of dicts in insertion order.\<close>

record demand_table =
  dm_vol :: "(string \<times> (int \<times> rat) list) list"
  dm_hc :: "(string \<times> (int \<times> rat) list) list"
  dm_ind :: "string list"

fun scale_factors :: "override_call list \<Rightarrow> engine_error + (string \<times> rat) list" where
  "scale_factors [] = Inr []"
| "scale_factors (DemandFactor task_id factor # rest) =
     (case factor of None \<Rightarrow> Inl EngineTypeError
      | Some f \<Rightarrow> and_also (scale_factors rest) (\<lambda>fs. Inr ((task_id, f) # fs)))"
| "scale_factors (_ # rest) = scale_factors rest"

definition hours_between :: "rat \<Rightarrow> rat \<Rightarrow> int list" where
  "hours_between start_h end_h = [\<lfloor>start_h\<rfloor> .. \<lceil>end_h\<rceil> - 1]"

definition hour_interval :: "int \<Rightarrow> interval" where
  "hour_interval h = (of_int h, of_int h + 1)"

definition band_interval :: "demand_band \<Rightarrow> interval" where
  "band_interval b = (db_start_h b, db_end_h b)"

definition band_hours :: "demand_band \<Rightarrow> int list" where
  "band_hours b = filter (\<lambda>h. overlap (band_interval b) (hour_interval h) > 0) (hours_between (db_start_h b) (db_end_h b))"

definition band_factor :: "(string \<times> rat) list \<Rightarrow> demand_band \<Rightarrow> rat" where
  "band_factor factors b = get_or 1 (dict_of factors (db_task_id b))"

definition headcount_rows :: "(string \<times> rat) list \<Rightarrow> demand_band \<Rightarrow> (string \<times> int \<times> rat) list" where
  "headcount_rows factors b =
     (if db_family b = Indirect
      then map (\<lambda>h. (db_task_id b, h, db_amount b * band_factor factors b)) (band_hours b) else [])"

definition volume_rows :: "(string \<times> rat) list \<Rightarrow> demand_band \<Rightarrow> (string \<times> int \<times> rat) list" where
  "volume_rows factors b =
     (if db_family b = Indirect then []
      else map (\<lambda>h. (db_task_id b, h, db_amount b * band_factor factors b * overlap (band_interval b) (hour_interval h)
                       / max (band_duration_h b) tolerance)) (band_hours b))"

definition nested_totals :: "(string \<times> int \<times> rat) list \<Rightarrow> (string \<times> (int \<times> rat) list) list" where
  "nested_totals rows = map (\<lambda>(task_id, rs). (task_id, totals_by (map snd rs))) (group_by fst rows)"

definition aggregate_demand :: "scheduling_problem \<Rightarrow> (string \<times> rat) list \<Rightarrow> demand_table" where
  "aggregate_demand p factors =
     \<lparr>dm_vol = nested_totals (concat (map (volume_rows factors) (sp_demand p))),
      dm_hc = nested_totals (concat (map (headcount_rows factors) (sp_demand p))),
      dm_ind = map db_task_id (filter (\<lambda>b. db_family b = Indirect) (sp_demand p))\<rparr>"

definition is_ind :: "demand_table \<Rightarrow> string \<Rightarrow> bool" where
  "is_ind d task_id \<longleftrightarrow> task_id \<in> set (dm_ind d)"

definition amount_at :: "(string \<times> (int \<times> rat) list) list \<Rightarrow> string \<Rightarrow> int \<Rightarrow> rat" where
  "amount_at table task_id h = get_or 0 (map_of (get_or [] (map_of table task_id)) h)"

definition demanded_tasks :: "demand_table \<Rightarrow> string set" where
  "demanded_tasks d = set (map fst (dm_vol d)) \<union> set (map fst (dm_hc d))"

definition rates_of :: "scheduling_problem \<Rightarrow> string \<Rightarrow> rat list" where
  "rates_of p task_id =
     map ql_rate (filter (\<lambda>q. ql_task_id q = task_id) (concat (map mm_qualifications (sp_members p))))"

definition ref_rate :: "scheduling_problem \<Rightarrow> string \<Rightarrow> rat" where
  "ref_rate p task_id = (let rates = rates_of p task_id in
     max (if rates = [] then default_task_rate else sum_list rates / of_nat (length rates)) tolerance)"

section \<open>Shift candidates and task variables\<close>

definition int_of_float :: "rat \<Rightarrow> int" where
  "int_of_float x = (if 0 \<le> x then \<lfloor>x\<rfloor> else \<lceil>x\<rceil>)"

definition shift_name :: "team_member \<Rightarrow> window \<Rightarrow> shift_template \<Rightarrow> rat \<Rightarrow> string" where
  "shift_name m w tpl start = ''shift_'' @ take 6 (mm_contact_id m) @ ''_'' @ wn_id w @ ''_'' @ take 6 (tp_id tpl) @ ''_''
     @ str_int (int_of_float (start * 10))"

definition make_shift :: "team_member \<Rightarrow> window \<Rightarrow> shift_template \<Rightarrow> rat \<Rightarrow> builder \<Rightarrow> shift_var \<times> builder" where
  "make_shift m w tpl start b =
     (let (v, b') = bd_new_var 0 1 (shift_name m w tpl start) b in
      (\<lparr>sf_var = v, sf_member = m, sf_window = w, sf_template = tpl, sf_start_h = start,
        sf_end_h = start + tp_length_h tpl, sf_eff_h = effective_h tpl,
        sf_working = working_intervals start tpl, sf_slots = shift_slots start tpl\<rparr>, b'))"

definition hour_overlap :: "interval list \<Rightarrow> (int \<times> rat) list" where
  "hour_overlap slot = totals_by (concat (map (\<lambda>seg.
     filter (\<lambda>(_, ov). ov > 0) (map (\<lambda>h. (h, overlap seg (hour_interval h))) (hours_between (fst seg) (snd seg)))) slot))"

definition task_name :: "shift_var \<Rightarrow> string \<Rightarrow> nat \<Rightarrow> string" where
  "task_name sf task_id slot_idx =
     ''task_'' @ iv_name (sf_var sf) @ ''_'' @ take 6 task_id @ ''_'' @ str_nat slot_idx"

definition coverage_coefficient :: "demand_table \<Rightarrow> team_member \<Rightarrow> string \<Rightarrow> rat \<Rightarrow> rat" where
  "coverage_coefficient d m task_id ov =
     (if is_ind d task_id then 1
      else (let rate = get_or 0 (rate_for m task_id) in if rate = 0 then default_task_rate else rate) * ov * absenteeism_factor)"

text \<open>One task variable, for one slot and one task, when the task has demand in a covered hour. The
  second component collects the variables of the candidate.\<close>

definition add_task ::
  "demand_table \<Rightarrow> shift_var \<Rightarrow> nat \<times> interval list \<times> string \<Rightarrow> builder \<times> task_var list \<Rightarrow> builder \<times> task_var list" where
  "add_task d sf \<equiv> \<lambda>(slot_idx, slot, task_id) (b, tvs).
     let hours = hour_overlap slot in
     if \<forall>(h, _) \<in> set hours. amount_at (dm_vol d) task_id h = 0 \<and> amount_at (dm_hc d) task_id h = 0 then (b, tvs)
     else
       let (v, b1) = bd_new_var 0 1 (task_name sf task_id slot_idx) b;
           tv = \<lparr>tv_var = v, tv_shift = sf, tv_task_id = task_id, tv_slot_idx = slot_idx,
                 tv_start_h = fst (hd slot), tv_end_h = snd (last slot), tv_hour_overlap = hours\<rparr>;
           b2 = bd_add (one v) AtMost (one (sf_var sf)) (b1\<lparr>bu_task_vars := bu_task_vars b1 @ [tv]\<rparr>)
       in (b2\<lparr>bu_coverage_terms := bu_coverage_terms b2 @
             map (\<lambda>(h, ov). ((task_id, h), v, coverage_coefficient d (sf_member sf) task_id ov)) hours\<rparr>, tvs @ [tv])"

definition slot_tasks :: "string list \<Rightarrow> shift_var \<Rightarrow> (nat \<times> interval list \<times> string) list" where
  "slot_tasks quals sf = concat (map (\<lambda>(i, slot). map (\<lambda>task_id. (i, slot, task_id)) quals) (enumerate 0 (sf_slots sf)))"

text \<open>At most one task in a slot, no empty selected shift.\<close>

definition close_shift :: "shift_var \<Rightarrow> task_var list \<Rightarrow> builder \<Rightarrow> builder" where
  "close_shift sf tvs b =
     (let by_slot = group_by tv_slot_idx tvs;
          b1 = b\<lparr>bu_shift_vars := bu_shift_vars b @ [sf]\<rparr>;
          b2 = fold (\<lambda>(_, vs). bd_add (sum_of (map tv_var vs)) AtMost (one (sf_var sf))) by_slot b1
      in bd_add (sum_of (concat (map (\<lambda>(_, vs). map tv_var vs) by_slot))) AtLeast (one (sf_var sf)) b2)"

record candidate =
  ca_member :: team_member
  ca_quals :: "string list"
  ca_window :: window
  ca_template :: shift_template
  ca_start :: rat

definition add_candidate :: "demand_table \<Rightarrow> candidate \<Rightarrow> builder \<Rightarrow> builder" where
  "add_candidate d c b =
     (let (sf, b1) = make_shift (ca_member c) (ca_window c) (ca_template c) (ca_start c) b;
          (b2, tvs) = fold (add_task d sf) (slot_tasks (ca_quals c) sf) (b1, [])
      in if tvs = [] then b2 else close_shift sf tvs b2)"

text \<open>The tasks of a member that have demand, in the order of the set.\<close>

definition qual_ids :: "set_order \<Rightarrow> demand_table \<Rightarrow> team_member \<Rightarrow> string list" where
  "qual_ids ord d m = so_text ord (remdups (filter (\<lambda>t. t \<in> demanded_tasks d) (map ql_task_id (mm_qualifications m))))"

text \<open>The nested loops over members, windows, templates and starts.\<close>

definition member_candidates :: "set_order \<Rightarrow> demand_table \<Rightarrow> shift_template list \<Rightarrow> team_member \<Rightarrow> candidate list" where
  "member_candidates ord d templates m =
     (let quals = qual_ids ord d m in
      if quals = [] then []
      else concat (map (\<lambda>w. concat (map (\<lambda>tpl.
             map (\<lambda>start. \<lparr>ca_member = m, ca_quals = quals, ca_window = w, ca_template = tpl, ca_start = start\<rparr>)
               (get_or [] (candidate_starts w tpl))) templates)) (mm_windows m)))"

definition candidates :: "set_order \<Rightarrow> scheduling_problem \<Rightarrow> demand_table \<Rightarrow> candidate list" where
  "candidates ord p d = concat (map (member_candidates ord d (sp_templates p)) (sp_members p))"

section \<open>Window and cap constraints\<close>

definition window_constraint :: "string \<times> shift_var list \<Rightarrow> builder \<Rightarrow> builder" where
  "window_constraint g b =
     (let (wid, sfs) = g; vars = map sf_var sfs in
      if wn_kind (sf_window (last sfs)) = Roster
      then (let (u, b1) = bd_new_var 0 1 (''unfilled_'' @ wid) b
            in bd_add (plus_expr (sum_of vars) (one u)) Exactly (number 1)
                 (b1\<lparr>bu_unfilled_roster := bu_unfilled_roster b1 @ [(wid, u)]\<rparr>))
      else bd_add (sum_of vars) AtMost (number 1) b)"

fun ordered_pairs :: "'a list \<Rightarrow> ('a \<times> 'a) list" where
  "ordered_pairs [] = []"
| "ordered_pairs (x # xs) = map (Pair x) xs @ ordered_pairs xs"

definition start_day :: "shift_var \<Rightarrow> int" where
  "start_day sf = \<lfloor>sf_start_h sf / 24\<rfloor>"

definition shift_gap :: "shift_var \<Rightarrow> shift_var \<Rightarrow> rat" where
  "shift_gap a b = max (sf_start_h a) (sf_start_h b) - min (sf_end_h a) (sf_end_h b)"

definition too_close :: "shift_var \<times> shift_var \<Rightarrow> bool" where
  "too_close ab \<longleftrightarrow> shift_gap (fst ab) (snd ab) < default_min_gap_hours - tolerance"

definition hours_expr :: "shift_var list \<Rightarrow> linear_expr" where
  "hours_expr sfs = (map (\<lambda>sf. (scaled (sf_eff_h sf) vol_scale, sf_var sf)) sfs, 0)"

definition member_constraints :: "scheduling_problem \<Rightarrow> string \<times> shift_var list \<Rightarrow> builder \<Rightarrow> builder" where
  "member_constraints p g b =
     (let sfs = snd g; emp_type = mm_emp_type (sf_member (hd sfs));
          b1 = fold (\<lambda>(_, day_sfs). bd_add (sum_of (map sf_var day_sfs)) AtMost (number (day_cap p emp_type)))
                 (group_by start_day sfs) b;
          b2 = bd_add (hours_expr sfs) AtMost (number (scaled (week_cap p emp_type) vol_scale)) b1
      in fold (\<lambda>(x, y). bd_add (sum_of [sf_var x, sf_var y]) AtMost (number 1)) (filter too_close (ordered_pairs sfs)) b2)"

definition add_window_and_cap_constraints :: "scheduling_problem \<Rightarrow> builder \<Rightarrow> builder" where
  "add_window_and_cap_constraints p b =
     (let b1 = fold window_constraint (group_by (\<lambda>sf. wn_id (sf_window sf)) (bu_shift_vars b)) b
      in fold (member_constraints p) (group_by (\<lambda>sf. mm_contact_id (sf_member sf)) (bu_shift_vars b)) b1)"

section \<open>Coverage constraints\<close>

definition coverage_at :: "builder \<Rightarrow> string \<times> int \<Rightarrow> (int_var \<times> rat) list" where
  "coverage_at b key = map snd (filter (\<lambda>(k, _). k = key) (bu_coverage_terms b))"

text \<open>The rows \<open>(task, hour, amount)\<close> of a demand dict in the order of its two loops.\<close>

definition table_rows :: "(string \<times> (int \<times> rat) list) list \<Rightarrow> (string \<times> int \<times> rat) list" where
  "table_rows table = concat (map (\<lambda>(task_id, per_hour). map (Pair task_id) per_hour) table)"

definition volume_constraint :: "string \<times> int \<times> rat \<Rightarrow> builder \<Rightarrow> builder" where
  "volume_constraint row b =
     (let (task_id, h, dvol) = row; rhs = scaled dvol vol_scale;
          supply = (map (\<lambda>(v, coeff). (scaled coeff vol_scale, v)) (coverage_at b (task_id, h)), 0) in
      if dvol \<le> tolerance then b
      else let (unmet, b1) = bd_new_var 0 rhs (''unmet_vol_'' @ take 6 task_id @ ''_'' @ str_int h) b
           in bd_add (plus_expr supply (one unmet)) AtLeast (number rhs)
                (b1\<lparr>bu_unmet_vol := bu_unmet_vol b1 @ [((task_id, h), unmet)]\<rparr>))"

definition headcount_constraint :: "string \<times> int \<times> rat \<Rightarrow> builder \<Rightarrow> builder" where
  "headcount_constraint row b =
     (let (task_id, h, dhc) = row; req = py_round dhc; supply = sum_of (map fst (coverage_at b (task_id, h))) in
      if req \<le> 0 then b
      else let (unmet, b1) = bd_new_var 0 req (''unmet_hc_'' @ take 6 task_id @ ''_'' @ str_int h) b
           in bd_add (plus_expr supply (one unmet)) AtLeast (number req)
                (b1\<lparr>bu_unmet_hc := bu_unmet_hc b1 @ [((task_id, h), unmet)]\<rparr>))"

definition add_coverage_constraints :: "demand_table \<Rightarrow> builder \<Rightarrow> builder" where
  "add_coverage_constraints d b =
     fold headcount_constraint (table_rows (dm_hc d))
       (fold volume_constraint (table_rows (filter (\<lambda>(task_id, _). \<not> is_ind d task_id) (dm_vol d))) b)"

section \<open>Objectives\<close>

definition volume_weight :: "scheduling_problem \<Rightarrow> string \<Rightarrow> int" where
  "volume_weight p task_id = max 1 (py_round (of_int hour_scale / (of_int vol_scale * ref_rate p task_id)))"

definition roster_weight :: "builder \<Rightarrow> string \<Rightarrow> int" where
  "roster_weight b wid =
     (case find (\<lambda>sf. wn_id (sf_window sf) = wid) (bu_shift_vars b) of
        Some sf \<Rightarrow> max 1 (scaled (window_length_h (sf_window sf)) hour_scale) | None \<Rightarrow> 1)"

definition round1_unmet :: "scheduling_problem \<Rightarrow> builder \<Rightarrow> linear_expr" where
  "round1_unmet p b =
     (map (\<lambda>((task_id, _), v). (volume_weight p task_id, v)) (bu_unmet_vol b)
      @ map (\<lambda>(_, v). (hour_scale, v)) (bu_unmet_hc b)
      @ map (\<lambda>(wid, u). (roster_weight b wid, u)) (bu_unfilled_roster b), 0)"

definition wage_expr :: "builder \<Rightarrow> linear_expr" where
  "wage_expr b =
     (map (\<lambda>sf. (scaled (sf_eff_h sf * mm_wage_per_hour (sf_member sf)) cost_scale, sf_var sf)) (bu_shift_vars b), 0)"

text \<open>The variables of the soft terms of the overrides.\<close>

record soft_terms =
  sx_shortfall :: "int_var list"
  sx_lock :: "int_var list"
  sx_excluded :: "int_var list"
  sx_overtime :: "int_var list"

definition no_soft_terms :: soft_terms where
  "no_soft_terms = \<lparr>sx_shortfall = [], sx_lock = [], sx_excluded = [], sx_overtime = []\<rparr>"

definition demand_hours :: "set_order \<Rightarrow> demand_table \<Rightarrow> string \<Rightarrow> int list" where
  "demand_hours ord d task_id =
     so_hours ord (remdups (map fst (get_or [] (map_of (dm_vol d) task_id)) @ map fst (get_or [] (map_of (dm_hc d) task_id))))"

definition add_shortfall :: "string \<Rightarrow> int \<Rightarrow> int \<Rightarrow> builder \<times> soft_terms \<Rightarrow> builder \<times> soft_terms" where
  "add_shortfall task_id n h bx =
     (let (b, x) = bx; bodies = sum_of (map fst (coverage_at b (task_id, h)));
          (short, b1) = bd_new_var 0 n (''minw_short_'' @ take 6 task_id @ ''_'' @ str_int h) b
      in (bd_add (plus_expr bodies (one short)) AtLeast (number n) b1, x\<lparr>sx_shortfall := sx_shortfall x @ [short]\<rparr>))"

definition shifts_of_member :: "builder \<Rightarrow> string \<Rightarrow> shift_var list" where
  "shifts_of_member b member_id = filter (\<lambda>sf. mm_contact_id (sf_member sf) = member_id) (bu_shift_vars b)"

definition add_overtime :: "scheduling_problem \<Rightarrow> string \<Rightarrow> rat \<Rightarrow> builder \<times> soft_terms \<Rightarrow> builder \<times> soft_terms" where
  "add_overtime p member_id max_h bx =
     (let (b, x) = bx; sfs = shifts_of_member b member_id in
      if sfs = [] then (b, x)
      else
        let scaled_max = scaled max_h vol_scale;
            hard_cap_scaled = scaled (week_cap p (mm_emp_type (sf_member (hd sfs)))) vol_scale;
            (over, b1) = bd_new_var 0 (max 0 (hard_cap_scaled - scaled_max)) (''maxh_over_'' @ take 6 member_id) b
        in (bd_add (hours_expr sfs) AtMost (plus_expr (number scaled_max) (one over)) b1,
            x\<lparr>sx_overtime := sx_overtime x @ [over]\<rparr>))"

definition add_override ::
  "set_order \<Rightarrow> scheduling_problem \<Rightarrow> demand_table \<Rightarrow> override_call \<Rightarrow> builder \<times> soft_terms
   \<Rightarrow> engine_error + builder \<times> soft_terms" where
  "add_override ord p d ov bx =
     (let (b, x) = bx in
      case ov of
        MinWorkers task_id n \<Rightarrow>
          (case n of None \<Rightarrow> Inl EngineTypeError
           | Some k \<Rightarrow> Inr (fold (add_shortfall task_id k) (demand_hours ord d task_id) (b, x)))
      | LockShift member_id day \<Rightarrow>
          (let day_shifts = filter (\<lambda>sf. start_day sf = day) (shifts_of_member b member_id);
               (absent, b1) = bd_new_var 0 1 (''lock_absent_'' @ take 6 member_id @ ''_'' @ str_int day) b
           in Inr (bd_add (plus_expr (sum_of (map sf_var day_shifts)) (one absent)) AtLeast (number 1) b1,
                   x\<lparr>sx_lock := sx_lock x @ [absent]\<rparr>))
      | ExcludeWorker member_id task_id \<Rightarrow>
          Inr (b, x\<lparr>sx_excluded := sx_excluded x @ map tv_var (filter (\<lambda>tv.
             mm_contact_id (sf_member (tv_shift tv)) = member_id \<and> tv_task_id tv = task_id) (bu_task_vars b))\<rparr>)
      | MaxHours member_id max_h \<Rightarrow>
          (case max_h of None \<Rightarrow> Inl EngineTypeError | Some mh \<Rightarrow> Inr (add_overtime p member_id mh (b, x)))
      | DemandFactor _ _ \<Rightarrow> Inr (b, x))"

fun add_overrides ::
  "set_order \<Rightarrow> scheduling_problem \<Rightarrow> demand_table \<Rightarrow> override_call list \<Rightarrow> builder \<times> soft_terms
   \<Rightarrow> engine_error + builder \<times> soft_terms" where
  "add_overrides ord p d [] bx = Inr bx"
| "add_overrides ord p d (ov # rest) bx = and_also (add_override ord p d ov bx) (add_overrides ord p d rest)"

definition round2_cost :: "builder \<Rightarrow> soft_terms \<Rightarrow> linear_expr" where
  "round2_cost b x =
     plus_expr (wage_expr b)
       (plus_expr (times_expr min_workers_penalty (sum_of (sx_shortfall x)))
         (plus_expr (times_expr lock_shift_penalty (sum_of (sx_lock x)))
           (plus_expr (times_expr exclude_worker_penalty (sum_of (sx_excluded x)))
             (times_expr (max_hours_penalty div vol_scale) (sum_of (sx_overtime x))))))"

section \<open>The build\<close>

record built_model =
  bm_builder :: builder
  bm_demand :: demand_table
  bm_round1 :: linear_expr
  bm_round2 :: linear_expr

definition build_model ::
  "set_order \<Rightarrow> scheduling_problem \<Rightarrow> override_call list \<Rightarrow> engine_error + built_model" where
  "build_model ord p overrides =
     and_also (scale_factors overrides) (\<lambda>factors.
     let d = aggregate_demand p factors;
         b1 = fold (add_candidate d) (candidates ord p d) empty_builder;
         b2 = add_coverage_constraints d (add_window_and_cap_constraints p b1)
     in and_also (add_overrides ord p d overrides (b2, no_soft_terms)) (\<lambda>(b3, x).
        Inr \<lparr>bm_builder = b3, bm_demand = d, bm_round1 = round1_unmet p b3, bm_round2 = round2_cost b3 x\<rparr>))"

end
