(* ===== verification/Engine_Solve.thy ===== *)
theory Engine_Solve
  imports Model_Builder Run_Store
begin

text \<open>
  The two solve rounds and what is read out of them: \<^verbatim>\<open>engine/cpsat/objective.py\<close>, the report of
  \<^verbatim>\<open>engine/cpsat/engine.py\<close> and the translation at the governed boundary
  (\<^verbatim>\<open>engine/governed_adapter.py\<close>). CP-SAT, the readings of the clock, SHA-256 and the texts of floats are
  parameters; a NaN round value is \<open>None\<close>.
\<close>

section \<open>The lexicographic rounds\<close>

record lex_result =
  lx_status :: solver_status
  lx_solution :: "int list"
  lx_round1_value :: "rat option"
  lx_round2_value :: "rat option"
  lx_snapshot :: "int list option"

definition lex_value :: "'x lex_result_scheme \<Rightarrow> int_var \<Rightarrow> int" where
  "lex_value r v = value_of (valuation_of (case lx_snapshot r of Some xs \<Rightarrow> xs | None \<Rightarrow> lx_solution r)) v"

text \<open>The hint of round two: the snapshot when it has a value for each variable of the model.\<close>

definition seed_round_two_from_snapshot :: "cp_model \<Rightarrow> int list \<Rightarrow> int list option" where
  "seed_round_two_from_snapshot m snapshot = (if length snapshot \<noteq> length (cm_vars m) then None else Some snapshot)"

definition lock_round1 :: "linear_expr \<Rightarrow> rat \<Rightarrow> cp_model \<Rightarrow> cp_model" where
  "lock_round1 round1 value m = add_constraint round1 AtMost (number (py_round value)) m"

definition no_solution :: "solver_status \<Rightarrow> lex_result" where
  "no_solution status = \<lparr>lx_status = status, lx_solution = [], lx_round1_value = None, lx_round2_value = None, lx_snapshot = None\<rparr>"

text \<open>Round two, and the fallback to the solution of round one when it finds none.\<close>

definition round_two_result :: "linear_expr \<Rightarrow> cp_response \<Rightarrow> cp_response \<Rightarrow> lex_result" where
  "round_two_result round2 r1 r2 =
     (if solved (an_status r2)
      then \<lparr>lx_status = an_status r2, lx_solution = an_solution r2, lx_round1_value = Some (an_objective r1),
            lx_round2_value = Some (an_objective r2), lx_snapshot = None\<rparr>
      else \<lparr>lx_status = an_status r2, lx_solution = [], lx_round1_value = Some (an_objective r1),
            lx_round2_value = Some (of_int (eval_expr (valuation_of (an_solution r1)) round2)),
            lx_snapshot = Some (an_solution r1)\<rparr>)"

definition solve_lexicographic :: "cp_solver \<Rightarrow> built_model \<Rightarrow> rat \<Rightarrow> int \<Rightarrow> int \<Rightarrow> lex_result" where
  "solve_lexicographic solve bm time_limit num_workers seed =
     (let m = bu_model (bm_builder bm);
          ps = \<lparr>pm_max_time = time_limit, pm_max_deterministic_time = None, pm_num_workers = num_workers,
                pm_seed = seed, pm_hint = None\<rparr>;
          r1 = solve m (bm_round1 bm) ps in
      if \<not> solved (an_status r1) then no_solution (an_status r1)
      else
        let m2 = lock_round1 (bm_round1 bm) (an_objective r1) m;
            r2 = solve m2 (bm_round2 bm) (ps\<lparr>pm_hint := seed_round_two_from_snapshot m2 (an_solution r1)\<rparr>)
        in round_two_result (bm_round2 bm) r1 r2)"

section \<open>The governed rounds\<close>

record governed_lex_result = lex_result +
  gl_wall_time_seconds :: rat
  gl_reason :: "string option"

text \<open>The remaining wall and deterministic budgets, or the one that is exhausted.\<close>

datatype ceiling = WallCeiling | DeterministicCeiling

definition remaining_budget :: "solver_config_v1 \<Rightarrow> bool \<Rightarrow> rat \<Rightarrow> rat \<Rightarrow> ceiling + rat \<times> rat option" where
  "remaining_budget config use_deterministic elapsed deterministic_used =
     (let wall = sc_wall_time_limit_seconds config - elapsed;
          deterministic = sc_max_deterministic_time config - deterministic_used in
      if wall \<le> 0 then Inl WallCeiling
      else if \<not> use_deterministic then Inr (wall, None)
      else if deterministic \<le> 0 then Inl DeterministicCeiling
      else Inr (wall, Some deterministic))"

definition exhausted_reason :: "ceiling \<Rightarrow> string option" where
  "exhausted_reason c = (case c of DeterministicCeiling \<Rightarrow> Some ''deterministic_budget_exhausted'' | WallCeiling \<Rightarrow> None)"

definition governed :: "lex_result \<Rightarrow> rat \<Rightarrow> string option \<Rightarrow> governed_lex_result" where
  "governed r wall reason = lex_result.extend r \<lparr>gl_wall_time_seconds = wall, gl_reason = reason\<rparr>"

definition governed_parameters :: "solver_config_v1 \<Rightarrow> rat \<times> rat option \<Rightarrow> int list option \<Rightarrow> cp_parameters" where
  "governed_parameters config budget hint =
     \<lparr>pm_max_time = fst budget, pm_max_deterministic_time = snd budget,
      pm_num_workers = sc_num_search_workers config, pm_seed = sc_seed config, pm_hint = hint\<rparr>"

text \<open>\<open>clock k\<close> is the \<open>k\<close>-th reading of \<open>perf_counter\<close>.\<close>

definition solve_lexicographic_governed ::
  "cp_solver \<Rightarrow> (nat \<Rightarrow> rat) \<Rightarrow> solver_config_v1 \<Rightarrow> bool \<Rightarrow> built_model \<Rightarrow> governed_lex_result" where
  "solve_lexicographic_governed solve clock config use_deterministic bm =
     (let m = bu_model (bm_builder bm); elapsed = (\<lambda>k. clock k - clock 0) in
      case remaining_budget config use_deterministic (elapsed 1) 0 of
        Inl c \<Rightarrow> governed (no_solution UNKNOWN) (elapsed 2) (exhausted_reason c)
      | Inr budget1 \<Rightarrow>
          (let r1 = solve m (bm_round1 bm) (governed_parameters config budget1 None) in
           if \<not> solved (an_status r1) then governed (no_solution (an_status r1)) (elapsed 2) None
           else
             let m2 = lock_round1 (bm_round1 bm) (an_objective r1) m in
             case remaining_budget config use_deterministic (elapsed 2) (an_deterministic_time r1) of
               Inl c \<Rightarrow>
                 governed \<lparr>lx_status = UNKNOWN, lx_solution = [], lx_round1_value = Some (an_objective r1),
                   lx_round2_value = Some (of_int (eval_expr (valuation_of (an_solution r1)) (bm_round2 bm))),
                   lx_snapshot = Some (an_solution r1)\<rparr> (elapsed 3) (exhausted_reason c)
             | Inr budget2 \<Rightarrow>
                 (let r2 = solve m2 (bm_round2 bm)
                        (governed_parameters config budget2 (seed_round_two_from_snapshot m2 (an_solution r1)))
                  in governed (round_two_result (bm_round2 bm) r1 r2) (elapsed 3) None)))"

section \<open>Constraints as overrides\<close>

definition record_id :: "resolved_entity_v1 list \<Rightarrow> evidence_group \<Rightarrow> engine_error + string" where
  "record_id entities g =
     (case map re_record_id (filter (\<lambda>e. re_group e = g) entities) of
        [i] \<Rightarrow> Inr i
      | _ \<Rightarrow> Inl (EngineValueError ''constraint requires exactly one entity''))"

definition override_of :: "draft_constraint_v1 \<Rightarrow> engine_error + override_call" where
  "override_of c =
     (let task = record_id (dc_resolved_entities c) WorkAreasAndTasks;
          worker = record_id (dc_resolved_entities c) Workers in
      case dc_kind c of
        SetMinWorkersPerTask \<Rightarrow> and_also task (\<lambda>t. Inr (MinWorkers t (dc_n c)))
      | ScaleDemand \<Rightarrow> and_also task (\<lambda>t. Inr (DemandFactor t (dc_factor c)))
      | LockWorkerShift \<Rightarrow>
          (case dc_start_minute c of
             None \<Rightarrow> Inl (EngineValueError ''lock_worker_shift requires start_minute'')
           | Some s \<Rightarrow> and_also worker (\<lambda>w. Inr (LockShift w (s div 1440))))
      | ExcludeWorkerFromTask \<Rightarrow> and_also worker (\<lambda>w. and_also task (\<lambda>t. Inr (ExcludeWorker w t)))
      | SetMaxHours \<Rightarrow> and_also worker (\<lambda>w. Inr (MaxHours w (dc_max_hours c))))"

fun constraints_to_overrides :: "draft_constraint_v1 list \<Rightarrow> engine_error + override_call list" where
  "constraints_to_overrides [] = Inr []"
| "constraints_to_overrides (c # cs) =
     and_also (override_of c) (\<lambda>ov. and_also (constraints_to_overrides cs) (\<lambda>ovs. Inr (ov # ovs)))"

section \<open>The outcome\<close>

text \<open>\<open>None\<close> of a non-finite float cannot occur: floats are rationals here.\<close>

definition hours_to_minutes :: "rat \<Rightarrow> int" where
  "hours_to_minutes h = py_round (h * 60)"

definition function_of :: "scheduling_problem \<Rightarrow> string \<Rightarrow> string \<Rightarrow> string" where
  "function_of p unknown task_id = get_or unknown (dict_of (map (\<lambda>t. (ta_task_id t, ta_function t)) (sp_tasks p)) task_id)"

definition row_of :: "scheduling_problem \<Rightarrow> task_var \<Rightarrow> schedule_row" where
  "row_of p tv = \<lparr>sr_contact_id = mm_contact_id (sf_member (tv_shift tv)), sr_member_name = mm_name (sf_member (tv_shift tv)),
     sr_task_id = tv_task_id tv, sr_function = function_of p ''Unknown'' (tv_task_id tv),
     sr_shift_id = iv_name (sf_var (tv_shift tv)), sr_start_h = tv_start_h tv, sr_end_h = tv_end_h tv\<rparr>"

definition selected_tasks :: "built_model \<Rightarrow> 'x lex_result_scheme \<Rightarrow> task_var list" where
  "selected_tasks bm r = (if lx_round1_value r = None then []
     else filter (\<lambda>tv. lex_value r (tv_var tv) = 1) (bu_task_vars (bm_builder bm)))"

definition selected_shift_vars :: "built_model \<Rightarrow> 'x lex_result_scheme \<Rightarrow> shift_var list" where
  "selected_shift_vars bm r = (if lx_round1_value r = None then []
     else filter (\<lambda>sf. lex_value r (sf_var sf) = 1) (bu_shift_vars (bm_builder bm)))"

definition governed_rows :: "scheduling_problem \<Rightarrow> built_model \<Rightarrow> 'x lex_result_scheme \<Rightarrow> schedule_row list" where
  "governed_rows p bm r = sort_key (\<lambda>row. (sr_contact_id row, sr_start_h row, sr_task_id row)) (map (row_of p) (selected_tasks bm r))"

text \<open>A digest is a text, or the \<open>ValueError\<close> of a number that has none.\<close>

definition short_digest :: "(json \<Rightarrow> string option) \<Rightarrow> string \<Rightarrow> json \<Rightarrow> engine_error + string" where
  "short_digest digest prefix v =
     (case digest v of None \<Rightarrow> Inl (EngineValueError ''integer is not a double'') | Some t \<Rightarrow> Inr (prefix @ take 24 t))"

definition assignment_of :: "(json \<Rightarrow> string option) \<Rightarrow> scheduling_problem \<Rightarrow> schedule_row \<Rightarrow> engine_error + assignment_v1" where
  "assignment_of digest p row =
     (case dict_of (map (\<lambda>m. (mm_contact_id m, m)) (sp_members p)) (sr_contact_id row) of
        None \<Rightarrow> Inl (EngineKeyError (sr_contact_id row))
      | Some m \<Rightarrow>
          (let s = hours_to_minutes (sr_start_h row); e = hours_to_minutes (sr_end_h row) in
           and_also (short_digest digest ''asg_'' (JObject
               [(''worker_id'', JString (sr_contact_id row)), (''task_id'', JString (sr_task_id row)),
                (''shift_id'', JString (sr_shift_id row)), (''start_minute'', JInt s), (''end_minute'', JInt e)])) (\<lambda>i.
           Inr \<lparr>as_record_id = i, as_worker_id = sr_contact_id row, as_task_id = sr_task_id row,
                as_shift_id = Some (sr_shift_id row), as_start_minute = s, as_end_minute = e,
                as_qualification_refs = (case rate_for m (sr_task_id row) of None \<Rightarrow> []
                  | Some rate \<Rightarrow> [\<lparr>qr_task_id = sr_task_id row, qr_rate = rate\<rparr>]),
                as_source = ''solver'', as_lock_ref = None\<rparr>)))"

fun all_results :: "('a \<Rightarrow> engine_error + 'b) \<Rightarrow> 'a list \<Rightarrow> engine_error + 'b list" where
  "all_results f [] = Inr []"
| "all_results f (x # xs) = and_also (f x) (\<lambda>y. and_also (all_results f xs) (\<lambda>ys. Inr (y # ys)))"

definition worker_fact :: "team_member \<Rightarrow> worker_scheduling_fact_v1" where
  "worker_fact m = \<lparr>wf_worker_id = mm_contact_id m, wf_employment_type = mm_emp_type m,
     wf_contracted_hours = mm_contracted_hours m, wf_wage_per_hour = mm_wage_per_hour m,
     wf_qualifications = map (\<lambda>q. \<lparr>qr_task_id = ql_task_id q, qr_rate = ql_rate q\<rparr>) (mm_qualifications m),
     wf_availability_windows = map (\<lambda>w. \<lparr>aw_kind = wn_kind w, aw_start_minute = hours_to_minutes (wn_start_h w),
       aw_end_minute = hours_to_minutes (wn_end_h w)\<rparr>) (mm_windows m)\<rparr>"

definition shift_fact :: "shift_var \<Rightarrow> selected_shift_fact_v1" where
  "shift_fact sf = \<lparr>sh_shift_id = iv_name (sf_var sf), sh_worker_id = mm_contact_id (sf_member sf),
     sh_window_id = wn_id (sf_window sf), sh_window_kind = wn_kind (sf_window sf),
     sh_start_minute = hours_to_minutes (sf_start_h sf), sh_end_minute = hours_to_minutes (sf_end_h sf),
     sh_effective_minutes = hours_to_minutes (sf_eff_h sf)\<rparr>"

definition task_fact :: "task \<Rightarrow> task_v1" where
  "task_fact t = \<lparr>tk_record_id = ta_task_id t, tk_task_id = ta_task_id t, tk_name = ta_name t, tk_function = ta_function t,
     tk_area_id = ta_area_id t, tk_area_name = ta_area_id t, tk_unit_type_id = ta_unit_id t\<rparr>"

definition family_name :: "demand_family \<Rightarrow> string" where
  "family_name f = (case f of Outbound \<Rightarrow> ''outbound'' | Inbound \<Rightarrow> ''inbound'' | Indirect \<Rightarrow> ''indirect'')"

definition demand_fact :: "(json \<Rightarrow> string option) \<Rightarrow> demand_band \<Rightarrow> engine_error + demand_interval_v1" where
  "demand_fact digest b =
     and_also (short_digest digest ''dem_'' (JObject
         [(''task_id'', JString (db_task_id b)), (''family'', JString (family_name (db_family b))),
          (''start'', JFloat (db_start_h b)), (''end'', JFloat (db_end_h b)), (''amount'', JFloat (db_amount b)),
          (''order_id'', JString (db_order_id b))])) (\<lambda>i.
     Inr \<lparr>di_record_id = i, di_family = db_family b, di_task_id = db_task_id b, di_area_id = None,
          di_start_minute = hours_to_minutes (db_start_h b), di_end_minute = hours_to_minutes (db_end_h b),
          di_amount = db_amount b, di_unit = (if db_family b = Indirect then Headcount else Volume)\<rparr>)"

definition employment_types :: "scheduling_problem \<Rightarrow> string list" where
  "employment_types p = sorted_list_of_set (set (map mm_emp_type (sp_members p)))"

definition validation_facts ::
  "(json \<Rightarrow> string option) \<Rightarrow> scheduling_problem \<Rightarrow> shift_var list \<Rightarrow> engine_error + validation_facts_v1" where
  "validation_facts digest p shifts =
     and_also (all_results (demand_fact digest) (sp_demand p)) (\<lambda>demand.
     Inr \<lparr>vf_horizon_minutes = hours_to_minutes (sp_horizon_h p), vf_workers = map worker_fact (sp_members p),
          vf_selected_shifts = map shift_fact shifts,
          vf_max_hours_per_week = map (\<lambda>e. (e, week_cap p e)) (employment_types p),
          vf_max_shifts_per_day = map (\<lambda>e. (e, day_cap p e)) (employment_types p),
          vf_minimum_gap_minutes = hours_to_minutes default_min_gap_hours,
          vf_tasks = map task_fact (sp_tasks p), vf_demand_intervals = demand\<rparr>)"

definition governed_outcome ::
  "(json \<Rightarrow> string option) \<Rightarrow> scheduling_problem \<Rightarrow> built_model \<Rightarrow> governed_lex_result \<Rightarrow> engine_error + solver_outcome_v1" where
  "governed_outcome digest p bm r =
     and_also (all_results (assignment_of digest p) (governed_rows p bm r)) (\<lambda>assignments.
     and_also (validation_facts digest p (selected_shift_vars bm r)) (\<lambda>facts.
     Inr \<lparr>so_solver_status = lx_status r, so_assignments = assignments, so_metrics = None, so_constraint_results = [],
          so_warnings = [], so_evidence_refs = [], so_round1_value = lx_round1_value r, so_round2_value = lx_round2_value r,
          so_wall_time_seconds = gl_wall_time_seconds r, so_validation_facts = Some facts, so_reason = gl_reason r\<rparr>))"

text \<open>\<open>solve\<close> from the scheduling problem on.\<close>

record solve_environment =
  se_solver :: cp_solver
  se_clock :: "nat \<Rightarrow> rat"
  se_order :: set_order
  se_digest :: "json \<Rightarrow> string option"
  se_use_deterministic :: bool

definition governed_solve ::
  "solve_environment \<Rightarrow> scheduling_problem \<Rightarrow> solver_config_v1 \<Rightarrow> draft_constraint_v1 list \<Rightarrow> engine_error + solver_outcome_v1" where
  "governed_solve env p config constraints =
     (if sc_engine_name config \<noteq> ''cpsat'' then Inl (EngineValueError ''unsupported governed solver engine'')
      else
        and_also (constraints_to_overrides constraints) (\<lambda>overrides.
        and_also (build_model (se_order env) p overrides) (\<lambda>bm.
        governed_outcome (se_digest env) p bm
          (solve_lexicographic_governed (se_solver env) (se_clock env) config (se_use_deterministic env) bm))))"

section \<open>The report of the engine\<close>

text \<open>Required and unmet labour-hours as rows \<open>(function, day, hours)\<close>.\<close>

definition required_rows :: "scheduling_problem \<Rightarrow> demand_table \<Rightarrow> (string \<times> int \<times> rat) list" where
  "required_rows p d =
     map (\<lambda>(t, h, vol). (function_of p ''Unknown'' t, h div 24, vol / ref_rate p t))
       (table_rows (filter (\<lambda>(t, _). \<not> is_ind d t) (dm_vol d)))
     @ map (\<lambda>(t, h, hc). (function_of p ''Indirect'' t, h div 24, hc)) (table_rows (dm_hc d))"

definition unmet_rows :: "scheduling_problem \<Rightarrow> builder \<Rightarrow> 'x lex_result_scheme \<Rightarrow> (string \<times> int \<times> rat) list" where
  "unmet_rows p b r =
     map (\<lambda>((t, h), v). (function_of p ''Unknown'' t, h div 24, of_int (lex_value r v) / of_int vol_scale / ref_rate p t)) (bu_unmet_vol b)
     @ map (\<lambda>((t, h), v). (function_of p ''Indirect'' t, h div 24, of_int (lex_value r v))) (bu_unmet_hc b)"

definition by_function :: "(string \<times> int \<times> rat) list \<Rightarrow> (string \<times> rat) list" where
  "by_function rows = totals_by (map (\<lambda>(f, _, hrs). (f, hrs)) rows)"

definition by_day :: "(string \<times> int \<times> rat) list \<Rightarrow> (int \<times> rat) list" where
  "by_day rows = totals_by (map snd rows)"

definition coverage_by_function :: "(string \<times> int \<times> rat) list \<Rightarrow> (string \<times> int \<times> rat) list \<Rightarrow> (string \<times> coverage_stat) list" where
  "coverage_by_function required unmet =
     map (\<lambda>(f, req). (f, \<lparr>cs_required_h = req, cs_served_h = max 0 (req - get_or 0 (map_of (by_function unmet) f))\<rparr>))
       (sort_key fst (by_function required))"

definition coverage_by_day :: "(string \<times> int \<times> rat) list \<Rightarrow> (string \<times> int \<times> rat) list \<Rightarrow> (int \<times> rat) list" where
  "coverage_by_day required unmet =
     map (\<lambda>(day, req). (day, if req > tolerance then max 0 (req - get_or 0 (map_of (by_day unmet) day)) / req else 1))
       (sort_key fst (by_day required))"

definition empty_metrics :: summary_metrics where
  "empty_metrics = \<lparr>sm_coverage_by_function = [], sm_coverage_by_day = [], sm_total_cost = Some 0, sm_total_unmet_hours = 0,
     sm_scheduled_shifts = 0, sm_scheduled_members = 0\<rparr>"

definition degenerate_warnings :: "(rat \<Rightarrow> string) \<Rightarrow> (string \<times> coverage_stat) list \<Rightarrow> string list" where
  "degenerate_warnings one_decimal coverage =
     map (\<lambda>(f, st). ''Degenerate solve: task family '' @ [char_of (39 :: nat)] @ f @ [char_of (39 :: nat)] @ '' has ''
            @ one_decimal (cs_required_h st) @ ''h required but zero assigned supply.'')
       (filter (\<lambda>(f, st). cs_required_h st > tolerance \<and> cs_served_h st \<le> tolerance) coverage)"

definition engine_report ::
  "(rat \<Rightarrow> string) \<Rightarrow> rat \<Rightarrow> scheduling_problem \<Rightarrow> built_model \<Rightarrow> lex_result \<Rightarrow> solve_result" where
  "engine_report one_decimal wall_time p bm r =
     (if lx_round1_value r = None
      then \<lparr>re_status = lx_status r, re_schedule = [], re_metrics = empty_metrics,
            re_stats = \<lparr>ss_status = lx_status r, ss_wall_time_s = wall_time, ss_unmet_objective_hours = None,
              ss_cost_objective = None\<rparr>, re_warnings = []\<rparr>
      else
        let tasks = selected_tasks bm r;
            required = required_rows p (bm_demand bm);
            unmet = unmet_rows p (bm_builder bm) r;
            coverage = coverage_by_function required unmet;
            total_cost = map_option (\<lambda>v. v / of_int cost_scale) (lx_round2_value r)
        in \<lparr>re_status = lx_status r,
            re_schedule = sort_key (\<lambda>row. (sr_contact_id row, sr_start_h row)) (map (row_of p) tasks),
            re_metrics = \<lparr>sm_coverage_by_function = coverage, sm_coverage_by_day = coverage_by_day required unmet,
              sm_total_cost = total_cost, sm_total_unmet_hours = sum_list (map snd (by_function unmet)),
              sm_scheduled_shifts = card (set (map (\<lambda>tv. iv_name (sf_var (tv_shift tv))) tasks)),
              sm_scheduled_members = card (set (map (\<lambda>tv. mm_contact_id (sf_member (tv_shift tv))) tasks))\<rparr>,
            re_stats = \<lparr>ss_status = lx_status r, ss_wall_time_s = wall_time,
              ss_unmet_objective_hours = map_option (\<lambda>v. v / of_int hour_scale) (lx_round1_value r),
              ss_cost_objective = total_cost\<rparr>,
            re_warnings = degenerate_warnings one_decimal coverage\<rparr>)"

definition engine_solve ::
  "cp_solver \<Rightarrow> set_order \<Rightarrow> (rat \<Rightarrow> string) \<Rightarrow> rat \<Rightarrow> scheduling_problem \<Rightarrow> override_call list \<Rightarrow> rat \<Rightarrow> int \<Rightarrow> int
   \<Rightarrow> engine_error + solve_result" where
  "engine_solve solve ord one_decimal wall_time p overrides time_limit num_workers seed =
     and_also (build_model ord p overrides) (\<lambda>bm.
     Inr (engine_report one_decimal wall_time p bm (solve_lexicographic solve bm time_limit num_workers seed)))"

end
