(* ===== verification/Model_Structure.thy ===== *)
theory Model_Structure
  imports Model_Builder
begin

text \<open>
  The shape of the model the builder makes. After the shift candidates its constraints are exactly those
  of \<open>expected_constraints\<close>; the later phases only append (\<open>model_grows\<close>) and leave shifts, tasks and
  coverage terms alone.
\<close>

section \<open>Steps of the builder\<close>

lemma bd_new_varE:
  assumes "bd_new_var lo hi name b = (v, b')"
  obtains m where "new_int_var lo hi name (bu_model b) = (v, m)" "b' = b\<lparr>bu_model := m\<rparr>"
  using assms by (auto simp: bd_new_var_def split: prod.splits)

definition bd_grows :: "builder \<Rightarrow> builder \<Rightarrow> bool" where
  "bd_grows b b' \<longleftrightarrow> model_grows (bu_model b) (bu_model b')"

lemma bd_grows_refl [simp]: "bd_grows b b"
  by (simp add: bd_grows_def)

lemma bd_grows_trans: "bd_grows b b' \<Longrightarrow> bd_grows b' b'' \<Longrightarrow> bd_grows b b''"
  unfolding bd_grows_def by (rule model_grows_trans)

lemma bd_add_simps:
  "bu_shift_vars (bd_add l rel r b) = bu_shift_vars b" "bu_task_vars (bd_add l rel r b) = bu_task_vars b"
  "bu_coverage_terms (bd_add l rel r b) = bu_coverage_terms b" "bu_unfilled_roster (bd_add l rel r b) = bu_unfilled_roster b"
  "bu_unmet_vol (bd_add l rel r b) = bu_unmet_vol b" "bu_unmet_hc (bd_add l rel r b) = bu_unmet_hc b"
  "cm_vars (bu_model (bd_add l rel r b)) = cm_vars (bu_model b)"
  "cm_constraints (bu_model (bd_add l rel r b)) = cm_constraints (bu_model b) @ [\<lparr>cc_left = l, cc_relation = rel, cc_right = r\<rparr>]"
  by (simp_all add: bd_add_def add_constraint_def)

lemma bd_grows_add [simp]: "bd_grows b (bd_add l rel r b)"
  by (simp add: bd_grows_def bd_add_def)

lemma bd_grows_new_var: "bd_new_var lo hi name b = (v, b') \<Longrightarrow> bd_grows b b'"
  by (auto simp: bd_grows_def elim!: bd_new_varE intro: model_grows_new_var)

lemma bd_grows_fold: "(\<And>a b. a \<in> set xs \<Longrightarrow> bd_grows b (f a b)) \<Longrightarrow> bd_grows b (fold f xs b)"
proof (induction xs arbitrary: b)
  case (Cons a xs)
  then show ?case by (auto intro: bd_grows_trans [of b "f a b"])
qed simp

definition solves :: "valuation \<Rightarrow> builder \<Rightarrow> bool" where
  "solves x b \<longleftrightarrow> satisfies x (bu_model b)"

lemma solves_earlier: "solves x b' \<Longrightarrow> bd_grows b b' \<Longrightarrow> solves x b"
  by (auto simp: solves_def bd_grows_def intro: satisfies_earlier)

lemma solves_add: "solves x (bd_add l rel r b) \<longleftrightarrow> solves x b \<and> holds x \<lparr>cc_left = l, cc_relation = rel, cc_right = r\<rparr>"
  by (simp add: solves_def bd_add_def satisfies_add_constraint)

text \<open>What every step of a loop enforces, the whole loop enforces.\<close>

lemma solves_fold:
  assumes "solves x (fold f xs b)" and "\<And>a b. a \<in> set xs \<Longrightarrow> bd_grows b (f a b)"
    and "\<And>a b. a \<in> set xs \<Longrightarrow> solves x (f a b) \<Longrightarrow> Q a"
  shows "\<forall>a \<in> set xs. Q a"
  using assms
proof (induction xs arbitrary: b)
  case (Cons a xs)
  have "solves x (f a b)"
    using solves_earlier [OF Cons.prems(1), of "f a b"] bd_grows_fold [of xs f "f a b"] Cons.prems(2) by simp
  with Cons.prems(3) have "Q a" by simp
  moreover have "\<forall>a \<in> set xs. Q a" using Cons.prems by (intro Cons.IH [of "f a b"]) auto
  ultimately show ?case by simp
qed simp

section \<open>Shift candidates\<close>

definition tasks_of :: "builder \<Rightarrow> shift_var \<Rightarrow> task_var list" where
  "tasks_of b sf = filter (\<lambda>tv. tv_shift tv = sf) (bu_task_vars b)"

definition needs_shift :: "task_var \<Rightarrow> cp_constraint" where
  "needs_shift tv = \<lparr>cc_left = one (tv_var tv), cc_relation = AtMost, cc_right = one (sf_var (tv_shift tv))\<rparr>"

definition slot_constraint :: "shift_var \<Rightarrow> task_var list \<Rightarrow> cp_constraint" where
  "slot_constraint sf tvs = \<lparr>cc_left = sum_of (map tv_var tvs), cc_relation = AtMost, cc_right = one (sf_var sf)\<rparr>"

definition worked_constraint :: "shift_var \<Rightarrow> task_var list \<Rightarrow> cp_constraint" where
  "worked_constraint sf tvs =
     \<lparr>cc_left = sum_of (concat (map (\<lambda>(_, vs). map tv_var vs) (group_by tv_slot_idx tvs))), cc_relation = AtLeast,
      cc_right = one (sf_var sf)\<rparr>"

definition shift_constraints :: "shift_var \<Rightarrow> task_var list \<Rightarrow> cp_constraint set" where
  "shift_constraints sf tvs = (\<lambda>(_, vs). slot_constraint sf vs) ` set (group_by tv_slot_idx tvs) \<union> {worked_constraint sf tvs}"

definition expected_constraints :: "builder \<Rightarrow> cp_constraint set" where
  "expected_constraints b = needs_shift ` set (bu_task_vars b) \<union> (\<Union>sf \<in> set (bu_shift_vars b). shift_constraints sf (tasks_of b sf))"

definition is_candidate :: "candidate \<Rightarrow> shift_var \<Rightarrow> bool" where
  "is_candidate c sf \<longleftrightarrow> sf_member sf = ca_member c \<and> sf_window sf = ca_window c \<and> sf_template sf = ca_template c
     \<and> sf_start_h sf = ca_start c \<and> sf_end_h sf = ca_start c + tp_length_h (ca_template c)
     \<and> sf_eff_h sf = effective_h (ca_template c) \<and> sf_slots sf = shift_slots (ca_start c) (ca_template c)
     \<and> iv_name (sf_var sf) = shift_name (ca_member c) (ca_window c) (ca_template c) (ca_start c)"

definition is_slot_task :: "string list \<Rightarrow> shift_var \<Rightarrow> task_var \<Rightarrow> bool" where
  "is_slot_task quals sf tv \<longleftrightarrow> tv_shift tv = sf \<and> tv_task_id tv \<in> set quals \<and> tv_slot_idx tv < length (sf_slots sf)
     \<and> sf_slots sf ! tv_slot_idx tv \<noteq> [] \<and> tv_start_h tv = fst (hd (sf_slots sf ! tv_slot_idx tv))
     \<and> tv_end_h tv = snd (last (sf_slots sf ! tv_slot_idx tv))"

definition binary :: "int_var \<Rightarrow> bool" where
  "binary v \<longleftrightarrow> iv_lo v = 0 \<and> iv_hi v = 1"

text \<open>The variables of a candidate while its tasks are added, from the builder \<open>b0\<close> on.\<close>

definition tasks_added :: "demand_table \<Rightarrow> shift_var \<Rightarrow> (nat \<times> interval list \<times> string) list \<Rightarrow> builder \<Rightarrow> builder \<times> task_var list \<Rightarrow> bool" where
  "tasks_added d sf ts b0 btv \<longleftrightarrow> (let (b, tvs) = btv in
     model_closed (bu_model b) \<and> model_grows (bu_model b0) (bu_model b)
     \<and> bu_shift_vars b = bu_shift_vars b0 \<and> bu_task_vars b = bu_task_vars b0 @ tvs
     \<and> (\<forall>v \<in> set (cm_vars (bu_model b)). v \<in> set (cm_vars (bu_model b0)) \<or> binary v)
     \<and> tv_var ` set tvs \<subseteq> set (cm_vars (bu_model b))
     \<and> set (cm_constraints (bu_model b)) = set (cm_constraints (bu_model b0)) \<union> needs_shift ` set tvs
     \<and> (\<forall>tv \<in> set tvs. \<exists>(k, slot, task_id) \<in> set ts. tv_shift tv = sf \<and> tv_task_id tv = task_id \<and> tv_slot_idx tv = k
          \<and> slot \<noteq> [] \<and> tv_start_h tv = fst (hd slot) \<and> tv_end_h tv = snd (last slot))
     \<and> (\<forall>(k, v, c) \<in> set (bu_coverage_terms b). (k, v, c) \<in> set (bu_coverage_terms b0) \<or> v \<in> tv_var ` set tvs)
     \<and> bu_unfilled_roster b = bu_unfilled_roster b0 \<and> bu_unmet_vol b = bu_unmet_vol b0 \<and> bu_unmet_hc b = bu_unmet_hc b0)"

lemma hour_overlap_Nil: "hour_overlap [] = []"
  by (simp add: hour_overlap_def totals_by_def group_by_def)

lemma expr_below_one: "iv_index v < n \<Longrightarrow> expr_below n (one v)"
  by (simp add: expr_below_def one_def)

lemma expr_below_sum_of: "(\<And>v. v \<in> set vs \<Longrightarrow> iv_index v < n) \<Longrightarrow> expr_below n (sum_of vs)"
  by (auto simp: expr_below_def sum_of_def)

lemma closed_var: "model_closed m \<Longrightarrow> v \<in> set (cm_vars m) \<Longrightarrow> iv_index v < length (cm_vars m)"
  by (simp add: model_closed_def)

lemma add_task_added:
  assumes inv: "tasks_added d sf ts b0 (b, tvs)" and sf: "sf_var sf \<in> set (cm_vars (bu_model b0))"
    and t: "(k, slot, task_id) \<in> set ts"
  shows "tasks_added d sf ts b0 (add_task d sf (k, slot, task_id) (b, tvs))"
proof (cases "\<forall>(h, _) \<in> set (hour_overlap slot). amount_at (dm_vol d) task_id h = 0 \<and> amount_at (dm_hc d) task_id h = 0")
  case True
  then show ?thesis using inv by (simp add: add_task_def Let_def)
next
  case False
  then have slot: "slot \<noteq> []" by (auto simp: hour_overlap_Nil)
  obtain v b1 where new: "bd_new_var 0 1 (task_name sf task_id k) b = (v, b1)" by (cases "bd_new_var 0 1 (task_name sf task_id k) b")
  then obtain m where m: "new_int_var 0 1 (task_name sf task_id k) (bu_model b) = (v, m)" and b1: "b1 = b\<lparr>bu_model := m\<rparr>"
    by (rule bd_new_varE)
  have mv: "cm_vars m = cm_vars (bu_model b) @ [v]" "cm_constraints m = cm_constraints (bu_model b)" "binary v"
    using m by (auto simp: new_int_var_def Let_def binary_def)
  have closed: "model_closed (bu_model b)" and grows: "model_grows (bu_model b0) (bu_model b)"
    using inv by (auto simp: tasks_added_def)
  note fresh = model_closed_new_var [OF m closed]
  have below: "iv_index v < length (cm_vars m)" "iv_index (sf_var sf) < length (cm_vars m)"
    using fresh grows sf closed_var [OF closed, of "sf_var sf"] by (auto simp: model_grows_def)
  let ?tv = "\<lparr>tv_var = v, tv_shift = sf, tv_task_id = task_id, tv_slot_idx = k,
      tv_start_h = fst (hd slot), tv_end_h = snd (last slot), tv_hour_overlap = hour_overlap slot\<rparr>"
  let ?m = "add_constraint (one v) AtMost (one (sf_var sf)) m"
  have step: "add_task d sf (k, slot, task_id) (b, tvs) =
      (b\<lparr>bu_model := ?m, bu_task_vars := bu_task_vars b @ [?tv],
         bu_coverage_terms := bu_coverage_terms b @
           map (\<lambda>(h, ov). ((task_id, h), v, coverage_coefficient d (sf_member sf) task_id ov)) (hour_overlap slot)\<rparr>, tvs @ [?tv])"
    using False new by (simp add: add_task_def Let_def b1 bd_add_def)
  have "model_closed ?m" using fresh below by (intro model_closed_add_constraint expr_below_one) simp_all
  moreover have "model_grows (bu_model b0) ?m"
    using model_grows_trans [OF grows model_grows_trans [OF model_grows_new_var [OF m] model_grows_add_constraint]] .
  ultimately show ?thesis
    using inv t slot mv unfolding step tasks_added_def
    by (auto simp: add_constraint_def needs_shift_def)
qed

lemma fold_add_task:
  assumes "tasks_added d sf ts b0 (b, tvs)" and "sf_var sf \<in> set (cm_vars (bu_model b0))" and "set us \<subseteq> set ts"
  shows "tasks_added d sf ts b0 (fold (add_task d sf) us (b, tvs))"
  using assms
proof (induction us arbitrary: b tvs)
  case (Cons u us)
  obtain k slot task_id where u: "u = (k, slot, task_id)" by (cases u)
  obtain b' tvs' where b': "add_task d sf u (b, tvs) = (b', tvs')" by (cases "add_task d sf u (b, tvs)")
  have "tasks_added d sf ts b0 (b', tvs')"
    using add_task_added [OF Cons.prems(1,2), of k slot task_id] Cons.prems(3) b' u by simp
  then show ?case using Cons.IH [of b' tvs'] Cons.prems by (simp add: b')
qed simp

definition candidates_inv :: "candidate set \<Rightarrow> builder \<Rightarrow> bool" where
  "candidates_inv cs b \<longleftrightarrow> model_closed (bu_model b) \<and> (\<forall>v \<in> set (cm_vars (bu_model b)). binary v)
     \<and> sf_var ` set (bu_shift_vars b) \<subseteq> set (cm_vars (bu_model b)) \<and> tv_var ` set (bu_task_vars b) \<subseteq> set (cm_vars (bu_model b))
     \<and> distinct (map sf_var (bu_shift_vars b))
     \<and> (\<forall>tv \<in> set (bu_task_vars b). tv_shift tv \<in> set (bu_shift_vars b))
     \<and> set (cm_constraints (bu_model b)) = expected_constraints b
     \<and> (\<forall>sf \<in> set (bu_shift_vars b). tasks_of b sf \<noteq> [] \<and> (\<exists>c \<in> cs. is_candidate c sf
          \<and> (\<forall>tv \<in> set (tasks_of b sf). is_slot_task (ca_quals c) sf tv)))
     \<and> (\<forall>(k, v, c) \<in> set (bu_coverage_terms b). v \<in> tv_var ` set (bu_task_vars b))
     \<and> bu_unfilled_roster b = [] \<and> bu_unmet_vol b = [] \<and> bu_unmet_hc b = []"

lemma slot_tasks_mem:
  "(k, slot, t) \<in> set (slot_tasks quals sf) \<longleftrightarrow> k < length (sf_slots sf) \<and> slot = sf_slots sf ! k \<and> t \<in> set quals"
proof -
  have "set (slot_tasks quals sf) = (\<Union>p \<in> set (enumerate 0 (sf_slots sf)). (\<lambda>t. (fst p, snd p, t)) ` set quals)"
    by (simp add: slot_tasks_def case_prod_unfold)
  then have "(k, slot, t) \<in> set (slot_tasks quals sf) \<longleftrightarrow> (k, slot) \<in> set (enumerate 0 (sf_slots sf)) \<and> t \<in> set quals"
    by (simp add: Bex_def image_iff) blast
  then show ?thesis unfolding in_set_enumerate_eq by auto
qed

text \<open>A loop that only adds constraints.\<close>

lemma fold_bd_add:
  "fold (\<lambda>g. bd_add (l g) rel (r g)) gs b = b\<lparr>bu_model := (bu_model b)\<lparr>cm_constraints := cm_constraints (bu_model b)
     @ map (\<lambda>g. \<lparr>cc_left = l g, cc_relation = rel, cc_right = r g\<rparr>) gs\<rparr>\<rparr>"
  by (induction gs arbitrary: b) (simp_all add: bd_add_def add_constraint_def)

lemma group_by_vars:
  "(k, vs) \<in> set (group_by key xs) \<Longrightarrow> set vs \<subseteq> set xs"
  using group_by_elem [of k vs key xs] by auto

lemma close_shift_simps:
  "bu_shift_vars (close_shift sf tvs b) = bu_shift_vars b @ [sf]" "bu_task_vars (close_shift sf tvs b) = bu_task_vars b"
  "bu_coverage_terms (close_shift sf tvs b) = bu_coverage_terms b" "bu_unfilled_roster (close_shift sf tvs b) = bu_unfilled_roster b"
  "bu_unmet_vol (close_shift sf tvs b) = bu_unmet_vol b" "bu_unmet_hc (close_shift sf tvs b) = bu_unmet_hc b"
  "cm_vars (bu_model (close_shift sf tvs b)) = cm_vars (bu_model b)"
  "set (cm_constraints (bu_model (close_shift sf tvs b))) = set (cm_constraints (bu_model b)) \<union> shift_constraints sf tvs"
  by (simp_all add: close_shift_def Let_def case_prod_unfold fold_bd_add bd_add_simps shift_constraints_def worked_constraint_def
      slot_constraint_def)

lemma shift_constraints_below:
  assumes "\<forall>tv \<in> set tvs. iv_index (tv_var tv) < n" and "iv_index (sf_var sf) < n" and "c \<in> shift_constraints sf tvs"
  shows "expr_below n (cc_left c) \<and> expr_below n (cc_right c)"
proof -
  have known: "iv_index v < n" if "(k, vs) \<in> set (group_by tv_slot_idx tvs)" "v \<in> tv_var ` set vs" for k vs v
    using that group_by_vars [of k vs tv_slot_idx tvs] assms(1) by auto
  show ?thesis
    using assms(2,3) known
    by (auto simp: shift_constraints_def slot_constraint_def worked_constraint_def intro!: expr_below_one expr_below_sum_of)
qed

lemma close_shift_closed:
  assumes "model_closed (bu_model b)" and "\<forall>tv \<in> set tvs. tv_var tv \<in> set (cm_vars (bu_model b))"
    and "sf_var sf \<in> set (cm_vars (bu_model b))"
  shows "model_closed (bu_model (close_shift sf tvs b))"
  unfolding model_closed_def
proof (intro conjI ballI)
  let ?n = "length (cm_vars (bu_model (close_shift sf tvs b)))"
  fix c assume "c \<in> set (cm_constraints (bu_model (close_shift sf tvs b)))"
  then consider "c \<in> set (cm_constraints (bu_model b))" | "c \<in> shift_constraints sf tvs"
    by (auto simp: close_shift_simps)
  then have "expr_below ?n (cc_left c) \<and> expr_below ?n (cc_right c)"
  proof cases
    case 1
    then show ?thesis using assms(1) by (simp add: close_shift_simps model_closed_def)
  next
    case 2
    then show ?thesis
      using assms by (intro shift_constraints_below) (auto simp: close_shift_simps dest: closed_var)
  qed
  then show "expr_below ?n (cc_left c)" "expr_below ?n (cc_right c)" by auto
qed (use assms(1) in \<open>simp add: close_shift_simps model_closed_def\<close>)

lemma add_candidate_inv:
  assumes inv: "candidates_inv cs b" and c: "c \<in> cs"
  shows "candidates_inv cs (add_candidate d c b)"
proof -
  obtain v b1 where new: "bd_new_var 0 1 (shift_name (ca_member c) (ca_window c) (ca_template c) (ca_start c)) b = (v, b1)"
    by (cases "bd_new_var 0 1 (shift_name (ca_member c) (ca_window c) (ca_template c) (ca_start c)) b")
  then obtain m where m: "new_int_var 0 1 (shift_name (ca_member c) (ca_window c) (ca_template c) (ca_start c)) (bu_model b) = (v, m)"
    and b1: "b1 = b\<lparr>bu_model := m\<rparr>" by (rule bd_new_varE)
  have mv: "cm_vars m = cm_vars (bu_model b) @ [v]" "cm_constraints m = cm_constraints (bu_model b)" "binary v"
    "iv_name v = shift_name (ca_member c) (ca_window c) (ca_template c) (ca_start c)"
    using m by (auto simp: new_int_var_def Let_def binary_def)
  have closed: "model_closed (bu_model b)" using inv by (simp add: candidates_inv_def)
  note fresh = model_closed_new_var [OF m closed]
  define sf where "sf = \<lparr>sf_var = v, sf_member = ca_member c, sf_window = ca_window c, sf_template = ca_template c,
      sf_start_h = ca_start c, sf_end_h = ca_start c + tp_length_h (ca_template c), sf_eff_h = effective_h (ca_template c),
      sf_working = working_intervals (ca_start c) (ca_template c), sf_slots = shift_slots (ca_start c) (ca_template c)\<rparr>"
  have make: "make_shift (ca_member c) (ca_window c) (ca_template c) (ca_start c) b = (sf, b1)"
    using new by (simp add: make_shift_def sf_def)
  have old_vars: "u \<noteq> v" if "u \<in> set (cm_vars (bu_model b))" for u
    using that closed_var [OF closed that] fresh(2) by auto
  have sf_new: "sf' \<noteq> sf" if "sf' \<in> set (bu_shift_vars b)" for sf'
    using old_vars [of "sf_var sf'"] that inv by (auto simp: candidates_inv_def sf_def)
  let ?ts = "slot_tasks (ca_quals c) sf"
  have sfv: "sf_var sf \<in> set (cm_vars (bu_model b1))" by (simp add: sf_def b1 mv)
  have "tasks_added d sf ?ts b1 (b1, [])"
    using fresh(1) by (auto simp: tasks_added_def b1)
  from fold_add_task [OF this sfv, of ?ts]
  obtain b2 tvs where run: "fold (add_task d sf) ?ts (b1, []) = (b2, tvs)" and added: "tasks_added d sf ?ts b1 (b2, tvs)"
    by (metis order_refl surj_pair)
  have slot: "is_slot_task (ca_quals c) sf tv" if "tv \<in> set tvs" for tv
    using added that by (fastforce simp: tasks_added_def slot_tasks_mem is_slot_task_def)
  then have of_sf: "tv_shift tv = sf" if "tv \<in> set tvs" for tv using that by (auto simp: is_slot_task_def)
  have cand: "is_candidate c sf" using mv by (simp add: is_candidate_def sf_def)
  show ?thesis
  proof (cases "tvs = []")
    case True
    then have "add_candidate d c b = b2" using make run by (simp add: add_candidate_def)
    moreover have "candidates_inv cs b2"
      using inv added mv True unfolding candidates_inv_def tasks_added_def expected_constraints_def tasks_of_def
      by (auto simp: b1 model_grows_def)
    ultimately show ?thesis by simp
  next
    case False
    let ?b = "close_shift sf tvs b2"
    have eq: "add_candidate d c b = ?b" using make run False by (simp add: add_candidate_def)
    have tasks: "bu_task_vars ?b = bu_task_vars b @ tvs" "bu_shift_vars ?b = bu_shift_vars b @ [sf]"
      using added by (simp_all add: close_shift_simps tasks_added_def b1)
    have old: "tasks_of ?b sf' = tasks_of b sf'" if "sf' \<in> set (bu_shift_vars b)" for sf'
      using sf_new [OF that] of_sf by (auto simp: tasks_of_def tasks filter_empty_conv)
    have new_tasks: "tasks_of ?b sf = tvs"
      using inv of_sf sf_new by (auto simp: tasks_of_def tasks candidates_inv_def filter_empty_conv intro!: filter_True)
    have vars: "set (cm_vars (bu_model b2)) \<supseteq> set (cm_vars (bu_model b1))" "tv_var ` set tvs \<subseteq> set (cm_vars (bu_model b2))"
      "\<forall>u \<in> set (cm_vars (bu_model b2)). binary u"
      using added inv mv by (auto simp: tasks_added_def model_grows_def b1 candidates_inv_def)
    have closed2: "model_closed (bu_model ?b)"
      by (rule close_shift_closed) (use added vars sfv in \<open>auto simp: tasks_added_def\<close>)
    have shifts_known: "sf_var ` set (bu_shift_vars ?b) \<subseteq> set (cm_vars (bu_model ?b))"
      "tv_var ` set (bu_task_vars ?b) \<subseteq> set (cm_vars (bu_model ?b))"
      using inv vars sfv unfolding tasks unfolding close_shift_simps(7) by (auto simp: candidates_inv_def b1 mv)
    have dist: "distinct (map sf_var (bu_shift_vars ?b))"
      using inv old_vars unfolding tasks by (auto simp: candidates_inv_def sf_def)
    have shift_of: "\<forall>tv \<in> set (bu_task_vars ?b). tv_shift tv \<in> set (bu_shift_vars ?b)"
      using inv of_sf unfolding tasks by (auto simp: candidates_inv_def)
    have needs: "needs_shift ` set (bu_task_vars ?b) = needs_shift ` set (bu_task_vars b) \<union> needs_shift ` set tvs"
      unfolding tasks by auto
    have per_shift: "(\<Union>sf' \<in> set (bu_shift_vars ?b). shift_constraints sf' (tasks_of ?b sf'))
        = (\<Union>sf' \<in> set (bu_shift_vars b). shift_constraints sf' (tasks_of b sf')) \<union> shift_constraints sf tvs"
      using old new_tasks unfolding tasks(2) by auto
    have "set (cm_constraints (bu_model ?b)) = set (cm_constraints (bu_model b)) \<union> needs_shift ` set tvs \<union> shift_constraints sf tvs"
      using added mv by (simp add: close_shift_simps tasks_added_def b1)
    then have constraints: "set (cm_constraints (bu_model ?b)) = expected_constraints ?b"
      using inv unfolding expected_constraints_def needs per_shift candidates_inv_def by (auto simp: expected_constraints_def)
    have shifts_ok: "\<forall>sf' \<in> set (bu_shift_vars ?b). tasks_of ?b sf' \<noteq> [] \<and> (\<exists>c \<in> cs. is_candidate c sf'
          \<and> (\<forall>tv \<in> set (tasks_of ?b sf'). is_slot_task (ca_quals c) sf' tv))"
      using inv old new_tasks False cand slot c unfolding tasks(2) by (auto simp: candidates_inv_def)
    have coverage: "\<forall>(k, v, c) \<in> set (bu_coverage_terms ?b). v \<in> tv_var ` set (bu_task_vars ?b)"
      using added inv unfolding tasks(1) unfolding close_shift_simps(3) by (fastforce simp: tasks_added_def candidates_inv_def b1)
    have rest: "bu_unfilled_roster ?b = []" "bu_unmet_vol ?b = []" "bu_unmet_hc ?b = []"
      using added inv by (simp_all add: close_shift_simps tasks_added_def candidates_inv_def b1)
    show ?thesis
      unfolding eq candidates_inv_def
      using closed2 vars(3) shifts_known dist shift_of constraints shifts_ok coverage rest
      by (simp add: close_shift_simps(7))
  qed
qed

lemma empty_builder_inv: "candidates_inv cs empty_builder"
  by (simp add: candidates_inv_def empty_builder_def empty_model_def model_closed_def expected_constraints_def)

lemma fold_add_candidate_inv:
  "set xs \<subseteq> cs \<Longrightarrow> candidates_inv cs b \<Longrightarrow> candidates_inv cs (fold (add_candidate d) xs b)"
  by (induction xs arbitrary: b) (auto intro: add_candidate_inv)

end
