(* ===== verification/Model_Phases.thy ===== *)
theory Model_Phases
  imports Model_Structure
begin

text \<open>
  What the later phases of the builder add to the choice of shifts and tasks: the window and cap rules, and
  nothing else. Coverage and overrides only add slack variables, so a choice that keeps the rules
  extends to a solution of the whole model.
\<close>

section \<open>Choices\<close>

definition listed :: "builder \<Rightarrow> int_var set" where
  "listed b = sf_var ` set (bu_shift_vars b) \<union> tv_var ` set (bu_task_vars b)"

definition by_window :: "builder \<Rightarrow> (string \<times> shift_var list) list" where
  "by_window b = group_by (\<lambda>sf. wn_id (sf_window sf)) (bu_shift_vars b)"

definition by_member :: "builder \<Rightarrow> (string \<times> shift_var list) list" where
  "by_member b = group_by (\<lambda>sf. mm_contact_id (sf_member sf)) (bu_shift_vars b)"

definition member_type :: "shift_var list \<Rightarrow> string" where
  "member_type sfs = mm_emp_type (sf_member (hd sfs))"

definition member_rules :: "scheduling_problem \<Rightarrow> valuation \<Rightarrow> shift_var list \<Rightarrow> bool" where
  "member_rules p x sfs \<longleftrightarrow>
     (\<forall>(_, day_sfs) \<in> set (group_by start_day sfs). (\<Sum>sf \<leftarrow> day_sfs. value_of x (sf_var sf)) \<le> day_cap p (member_type sfs))
     \<and> (\<Sum>sf \<leftarrow> sfs. scaled (sf_eff_h sf) vol_scale * value_of x (sf_var sf)) \<le> scaled (week_cap p (member_type sfs)) vol_scale
     \<and> (\<forall>(a, b) \<in> set (filter too_close (ordered_pairs sfs)). value_of x (sf_var a) + value_of x (sf_var b) \<le> 1)"

definition choice_ok :: "scheduling_problem \<Rightarrow> builder \<Rightarrow> valuation \<Rightarrow> bool" where
  "choice_ok p b x \<longleftrightarrow> (\<forall>v \<in> listed b. 0 \<le> value_of x v \<and> value_of x v \<le> 1)
     \<and> (\<forall>c \<in> expected_constraints b. holds x c)
     \<and> (\<forall>(_, sfs) \<in> set (by_window b). (\<Sum>sf \<leftarrow> sfs. value_of x (sf_var sf)) \<le> 1)
     \<and> (\<forall>(_, sfs) \<in> set (by_member b). member_rules p x sfs)"

section \<open>Phases that keep shifts and tasks\<close>

definition same_choice :: "builder \<Rightarrow> builder \<Rightarrow> bool" where
  "same_choice b b' \<longleftrightarrow> bu_shift_vars b' = bu_shift_vars b \<and> bu_task_vars b' = bu_task_vars b
     \<and> bu_coverage_terms b' = bu_coverage_terms b"

lemma same_choice_refl [simp]: "same_choice b b"
  by (simp add: same_choice_def)

lemma same_choice_trans: "same_choice b b' \<Longrightarrow> same_choice b' b'' \<Longrightarrow> same_choice b b''"
  by (simp add: same_choice_def)

text \<open>\<open>head_part n x\<close> is what a valuation says of the first \<open>n\<close> variables.\<close>

definition head_part :: "nat \<Rightarrow> valuation \<Rightarrow> valuation" where
  "head_part n x = (\<lambda>i. if i < n then x i else 0)"

lemma value_of_head_part: "iv_index v < n \<Longrightarrow> value_of (head_part n x) v = value_of x v"
  by (simp add: value_of_def head_part_def)

text \<open>From a closed builder with at least \<open>n\<close> variables, every solution whose first part satisfies \<open>P\<close>
  extends to the later builder without changing that part.\<close>

definition extends :: "(valuation \<Rightarrow> bool) \<Rightarrow> nat \<Rightarrow> builder \<Rightarrow> builder \<Rightarrow> bool" where
  "extends P n b b' \<longleftrightarrow> bd_grows b b' \<and> same_choice b b' \<and>
     (model_closed (bu_model b) \<longrightarrow> n \<le> length (cm_vars (bu_model b)) \<longrightarrow> model_closed (bu_model b') \<and>
       (\<forall>x. P (head_part n x) \<longrightarrow> solves x b \<longrightarrow> (\<exists>x'. solves x' b' \<and> head_part n x' = head_part n x)))"

interpretation extension: two_state "extends P n" for P n
proof unfold_locales
  show "extends P n b b" for b by (auto simp: extends_def)
next
  fix b b' b'' assume one: "extends P n b b'" and two: "extends P n b' b''"
  show "extends P n b b''"
    unfolding extends_def
  proof (intro conjI impI allI)
    show "bd_grows b b''" using one two by (auto simp: extends_def intro: bd_grows_trans)
    show "same_choice b b''" using one two by (auto simp: extends_def intro: same_choice_trans)
    assume closed: "model_closed (bu_model b)" and n: "n \<le> length (cm_vars (bu_model b))"
    have n': "n \<le> length (cm_vars (bu_model b'))" using one n by (auto simp: extends_def bd_grows_def model_grows_def)
    have closed': "model_closed (bu_model b')" using one closed n by (auto simp: extends_def)
    show "model_closed (bu_model b'')" using two closed' n' by (auto simp: extends_def)
    fix x assume "P (head_part n x)" "solves x b"
    then obtain x' where "solves x' b'" "head_part n x' = head_part n x" using one closed n by (auto simp: extends_def)
    moreover have "\<forall>z. P (head_part n z) \<longrightarrow> solves z b' \<longrightarrow> (\<exists>x''. solves x'' b'' \<and> head_part n x'' = head_part n z)"
      using two closed' n' by (auto simp: extends_def)
    ultimately show "\<exists>x''. solves x'' b'' \<and> head_part n x'' = head_part n x"
      using \<open>P (head_part n x)\<close> by metis
  qed
qed

lemma extends_fold:
  assumes "\<And>a b. a \<in> set xs \<Longrightarrow> same_choice b0 b \<Longrightarrow> extends P n b (f a b)" and "same_choice b0 b"
  shows "extends P n b (fold f xs b)"
  using assms
proof (induction xs arbitrary: b)
  case Nil
  then show ?case by (simp add: extension.rel_refl)
next
  case (Cons a xs)
  have one: "extends P n b (f a b)" using Cons.prems by simp
  then have "same_choice b0 (f a b)" using Cons.prems(2) by (auto simp: extends_def intro: same_choice_trans)
  then have "extends P n (f a b) (fold f xs (f a b))" using Cons.prems by (intro Cons.IH) auto
  then show ?case using extension.rel_trans [OF one] by simp
qed

lemma extends_add:
  assumes "\<And>m. n \<le> m \<Longrightarrow> expr_below m l \<and> expr_below m r"
    and "\<And>x. P (head_part n x) \<Longrightarrow> solves x b \<Longrightarrow> holds x \<lparr>cc_left = l, cc_relation = rel, cc_right = r\<rparr>"
  shows "extends P n b (bd_add l rel r b)"
  unfolding extends_def
proof (intro conjI impI allI)
  show "bd_grows b (bd_add l rel r b)" by simp
  show "same_choice b (bd_add l rel r b)" by (simp add: same_choice_def bd_add_simps)
  show "model_closed (bu_model (bd_add l rel r b))"
    if "model_closed (bu_model b)" "n \<le> length (cm_vars (bu_model b))"
    using that assms(1) by (simp add: bd_add_def model_closed_add_constraint)
  show "\<exists>x'. solves x' (bd_add l rel r b) \<and> head_part n x' = head_part n x" if "P (head_part n x)" "solves x b" for x
    using that assms(2) by (auto simp: solves_add)
qed

text \<open>A slack variable with its constraint. The value \<open>k x\<close> it takes may depend on the solution so far.\<close>

lemma extends_slack:
  assumes new: "bd_new_var lo hi name b = (v, b1)"
    and b': "bu_model b' = add_constraint l rel r (bu_model b1)" "bu_shift_vars b' = bu_shift_vars b1"
      "bu_task_vars b' = bu_task_vars b1" "bu_coverage_terms b' = bu_coverage_terms b1"
    and below: "\<And>m. n \<le> m \<Longrightarrow> iv_index v < m \<Longrightarrow> expr_below m l \<and> expr_below m r"
    and dom: "\<And>x. P (head_part n x) \<Longrightarrow> lo \<le> k x \<and> k x \<le> hi"
    and hold: "\<And>x x'. P (head_part n x) \<Longrightarrow> head_part n x' = head_part n x \<Longrightarrow> value_of x' v = k x
      \<Longrightarrow> holds x' \<lparr>cc_left = l, cc_relation = rel, cc_right = r\<rparr>"
  shows "extends P n b b'"
proof -
  obtain m where m: "new_int_var lo hi name (bu_model b) = (v, m)" and b1: "b1 = b\<lparr>bu_model := m\<rparr>"
    using new by (rule bd_new_varE)
  show ?thesis
    unfolding extends_def
  proof (intro conjI impI allI)
    show "bd_grows b b'"
      using model_grows_trans [OF model_grows_new_var [OF m] model_grows_add_constraint] b'(1) by (simp add: bd_grows_def b1)
    show "same_choice b b'" using b' by (simp add: same_choice_def b1)
    assume closed: "model_closed (bu_model b)" and n: "n \<le> length (cm_vars (bu_model b))"
    note fresh = model_closed_new_var [OF m closed]
    show "model_closed (bu_model b')"
      unfolding b'(1) b1 using fresh n below [of "length (cm_vars m)"] by (auto intro!: model_closed_add_constraint)
    fix x assume P: "P (head_part n x)" and x: "solves x b"
    let ?x = "x(iv_index v := k x)"
    have same: "head_part n ?x = head_part n x" using fresh n by (auto simp: head_part_def)
    have "satisfies ?x m" using satisfies_new_var [OF m _ closed] x dom [OF P] by (simp add: solves_def)
    moreover have "holds ?x \<lparr>cc_left = l, cc_relation = rel, cc_right = r\<rparr>"
      by (rule hold [OF P same]) (simp add: value_of_def)
    ultimately show "\<exists>x'. solves x' b' \<and> head_part n x' = head_part n x"
      using same by (intro exI [of _ ?x]) (simp add: solves_def b'(1) b1 satisfies_add_constraint)
  qed
qed

section \<open>Window and cap constraints\<close>

lemma expr_below_plus: "expr_below n e \<Longrightarrow> expr_below n f \<Longrightarrow> expr_below n (plus_expr e f)"
  by (auto simp: expr_below_def plus_expr_def)

lemma expr_below_number [simp]: "expr_below n (number k)"
  by (simp add: expr_below_def number_def)

lemma expr_below_terms: "(\<And>a. a \<in> set as \<Longrightarrow> iv_index (g a) < n) \<Longrightarrow> expr_below n (map (\<lambda>a. (f a, g a)) as, c)"
  by (auto simp: expr_below_def)

lemma sum_value_head_part:
  "(\<And>a. a \<in> set as \<Longrightarrow> iv_index (g a) < n) \<Longrightarrow> head_part n x' = head_part n x
   \<Longrightarrow> (\<Sum>a \<leftarrow> as. f a * value_of x' (g a)) = (\<Sum>a \<leftarrow> as. f a * value_of (head_part n x) (g a))"
  by (intro arg_cong [where f = sum_list] map_cong refl) (metis value_of_head_part)

lemma window_extends:
  assumes "\<And>sf. sf \<in> set sfs \<Longrightarrow> iv_index (sf_var sf) < n"
    and "\<And>z. P z \<Longrightarrow> 0 \<le> (\<Sum>sf \<leftarrow> sfs. value_of z (sf_var sf)) \<and> (\<Sum>sf \<leftarrow> sfs. value_of z (sf_var sf)) \<le> 1"
  shows "extends P n b (window_constraint (wid, sfs) b)"
proof (cases "wn_kind (sf_window (last sfs)) = Roster")
  case True
  obtain u b1 where new: "bd_new_var 0 1 (''unfilled_'' @ wid) b = (u, b1)" by (cases "bd_new_var 0 1 (''unfilled_'' @ wid) b")
  have eq: "window_constraint (wid, sfs) b = bd_add (plus_expr (sum_of (map sf_var sfs)) (one u)) Exactly (number 1)
      (b1\<lparr>bu_unfilled_roster := bu_unfilled_roster b1 @ [(wid, u)]\<rparr>)"
    using True new by (simp add: window_constraint_def)
  have sums: "(\<Sum>sf \<leftarrow> sfs. value_of x' (sf_var sf)) = (\<Sum>sf \<leftarrow> sfs. value_of (head_part n x) (sf_var sf))"
    if "head_part n x' = head_part n x" for x x'
    using sum_value_head_part [of sfs sf_var n x' x "\<lambda>_. 1"] assms(1) that by simp
  show ?thesis
    unfolding eq
  proof (rule extends_slack [OF new, where k = "\<lambda>x. 1 - (\<Sum>sf \<leftarrow> sfs. value_of (head_part n x) (sf_var sf))"
          and l = "plus_expr (sum_of (map sf_var sfs)) (one u)" and rel = Exactly and r = "number 1"])
    show "expr_below m (plus_expr (sum_of (map sf_var sfs)) (one u)) \<and> expr_below m (number 1)"
      if "n \<le> m" "iv_index u < m" for m
      using that less_le_trans [OF assms(1)] by (auto intro!: expr_below_plus expr_below_sum_of expr_below_one)
    show "holds x' \<lparr>cc_left = plus_expr (sum_of (map sf_var sfs)) (one u), cc_relation = Exactly, cc_right = number 1\<rparr>"
      if "head_part n x' = head_part n x" "value_of x' u = 1 - (\<Sum>sf \<leftarrow> sfs. value_of (head_part n x) (sf_var sf))" for x x'
      using sums [OF that(1)] that(2) by (simp add: comp_def)
    show "0 \<le> 1 - (\<Sum>sf \<leftarrow> sfs. value_of (head_part n x) (sf_var sf)) \<and> 1 - (\<Sum>sf \<leftarrow> sfs. value_of (head_part n x) (sf_var sf)) \<le> 1"
      if "P (head_part n x)" for x
      using assms(2) [OF that] by simp
  qed (simp_all add: bd_add_def)
next
  case False
  then have eq: "window_constraint (wid, sfs) b = bd_add (sum_of (map sf_var sfs)) AtMost (number 1) b"
    by (simp add: window_constraint_def)
  have sums: "(\<Sum>sf \<leftarrow> sfs. value_of x (sf_var sf)) = (\<Sum>sf \<leftarrow> sfs. value_of (head_part n x) (sf_var sf))" for x
    using sum_value_head_part [of sfs sf_var n x x "\<lambda>_. 1"] assms(1) by simp
  show ?thesis
    unfolding eq
  proof (rule extends_add)
    show "expr_below m (sum_of (map sf_var sfs)) \<and> expr_below m (number 1)" if "n \<le> m" for m
      using less_le_trans [OF assms(1) that] by (auto intro!: expr_below_sum_of)
    show "holds x \<lparr>cc_left = sum_of (map sf_var sfs), cc_relation = AtMost, cc_right = number 1\<rparr>" if "P (head_part n x)" for x
      using assms(2) [OF that] sums [of x] by (simp add: comp_def)
  qed
qed

lemma sums_head_part:
  "(\<And>sf. sf \<in> set sfs \<Longrightarrow> iv_index (sf_var sf) < n) \<Longrightarrow>
     (\<Sum>sf \<leftarrow> sfs. value_of (head_part n x) (sf_var sf)) = (\<Sum>sf \<leftarrow> sfs. value_of x (sf_var sf))"
  "(\<And>sf. sf \<in> set sfs \<Longrightarrow> iv_index (sf_var sf) < n) \<Longrightarrow>
     (\<Sum>sf \<leftarrow> sfs. f sf * value_of (head_part n x) (sf_var sf)) = (\<Sum>sf \<leftarrow> sfs. f sf * value_of x (sf_var sf))"
  by (auto intro!: arg_cong [where f = sum_list] map_cong simp: value_of_head_part)

lemma ordered_pairs_mem: "(a, b) \<in> set (ordered_pairs xs) \<Longrightarrow> a \<in> set xs \<and> b \<in> set xs"
  by (induction xs) auto

lemma member_extends:
  assumes below: "\<And>sf. sf \<in> set sfs \<Longrightarrow> iv_index (sf_var sf) < n" and rules: "\<And>z. P z \<Longrightarrow> member_rules p z sfs"
  shows "extends P n b (member_constraints p (cid, sfs) b)"
proof -
  note lt = less_le_trans [OF below]
  have day: "extends P n b ((case g of (_, day_sfs) \<Rightarrow>
      bd_add (sum_of (map sf_var day_sfs)) AtMost (number (day_cap p (member_type sfs)))) b)"
    if "g \<in> set (group_by start_day sfs)" for g and b
  proof -
    obtain k day_sfs where g: "g = (k, day_sfs)" by (cases g)
    have sub: "set day_sfs \<subseteq> set sfs" using group_by_vars [of k day_sfs start_day sfs] that g by simp
    have "holds x \<lparr>cc_left = sum_of (map sf_var day_sfs), cc_relation = AtMost, cc_right = number (day_cap p (member_type sfs))\<rparr>"
      if "P (head_part n x)" for x
      using rules [OF that] \<open>g \<in> _\<close> sums_head_part(1) [of day_sfs n x] sub below
      by (force simp: member_rules_def g comp_def)
    moreover have "expr_below m (sum_of (map sf_var day_sfs)) \<and> expr_below m (number (day_cap p (member_type sfs)))" if "n \<le> m" for m
      using lt [OF subsetD [OF sub] that] by (auto intro!: expr_below_sum_of)
    ultimately show ?thesis unfolding g prod.case by (intro extends_add) auto
  qed
  have hours: "extends P n b (bd_add (hours_expr sfs) AtMost (number (scaled (week_cap p (member_type sfs)) vol_scale)) b)" for b
  proof (rule extends_add)
    show "expr_below m (hours_expr sfs) \<and> expr_below m (number (scaled (week_cap p (member_type sfs)) vol_scale))" if "n \<le> m" for m
      using lt [OF _ that] by (auto simp: hours_expr_def intro!: expr_below_terms)
    show "holds x \<lparr>cc_left = hours_expr sfs, cc_relation = AtMost, cc_right = number (scaled (week_cap p (member_type sfs)) vol_scale)\<rparr>"
      if "P (head_part n x)" for x
      using rules [OF that] sums_head_part(2) [of sfs n "\<lambda>sf. scaled (sf_eff_h sf) vol_scale" x] below
      by (simp add: member_rules_def hours_expr_def)
  qed
  have pair: "extends P n b ((case g of (x, y) \<Rightarrow> bd_add (sum_of [sf_var x, sf_var y]) AtMost (number 1)) b)"
    if g: "g \<in> set (filter too_close (ordered_pairs sfs))" for g and b
  proof -
    obtain u v where uv: "g = (u, v)" by (cases g)
    have mem: "u \<in> set sfs" "v \<in> set sfs" using g ordered_pairs_mem [of u v sfs] by (auto simp: uv)
    have "holds x \<lparr>cc_left = sum_of [sf_var u, sf_var v], cc_relation = AtMost, cc_right = number 1\<rparr>" if "P (head_part n x)" for x
    proof -
      have "value_of (head_part n x) (sf_var u) + value_of (head_part n x) (sf_var v) \<le> 1"
        using rules [OF that] g unfolding member_rules_def uv by blast
      then show ?thesis using value_of_head_part [OF below [OF mem(1)]] value_of_head_part [OF below [OF mem(2)]] by simp
    qed
    moreover have "expr_below m (sum_of [sf_var u, sf_var v]) \<and> expr_below m (number 1)" if "n \<le> m" for m
      using lt [OF _ that] mem by (auto intro!: expr_below_sum_of)
    ultimately show ?thesis unfolding uv prod.case by (intro extends_add) auto
  qed
  have "extends P n b (fold (\<lambda>(_, day_sfs). bd_add (sum_of (map sf_var day_sfs)) AtMost (number (day_cap p (member_type sfs))))
      (group_by start_day sfs) b)" (is "extends P n b ?b1")
    by (rule extends_fold, rule day, assumption, rule same_choice_refl)
  moreover have "extends P n b' (fold (\<lambda>(x, y). bd_add (sum_of [sf_var x, sf_var y]) AtMost (number 1))
      (filter too_close (ordered_pairs sfs)) b')" for b'
    by (rule extends_fold, rule pair, assumption, rule same_choice_refl)
  ultimately have "extends P n b (fold (\<lambda>(x, y). bd_add (sum_of [sf_var x, sf_var y]) AtMost (number 1))
      (filter too_close (ordered_pairs sfs)) (bd_add (hours_expr sfs) AtMost (number (scaled (week_cap p (member_type sfs)) vol_scale)) ?b1))"
    using hours by (meson extension.rel_trans)
  then show ?thesis
    by (simp add: member_constraints_def Let_def flip: member_type_def)
qed

section \<open>Coverage and overrides\<close>

text \<open>The supply of a cell of demand is a sum of known variables.\<close>

definition coverage_known :: "nat \<Rightarrow> builder \<Rightarrow> bool" where
  "coverage_known n b \<longleftrightarrow> (\<forall>(k, v, c) \<in> set (bu_coverage_terms b). iv_index v < n \<and> 0 \<le> c)"

lemma coverage_known_same: "same_choice b b' \<Longrightarrow> coverage_known n b' = coverage_known n b"
  by (simp add: same_choice_def coverage_known_def)

lemma coverage_at_known: "coverage_known n b \<Longrightarrow> (v, c) \<in> set (coverage_at b key) \<Longrightarrow> iv_index v < n \<and> 0 \<le> c"
  by (force simp: coverage_known_def coverage_at_def)

lemma coverage_at_same: "same_choice b b' \<Longrightarrow> coverage_at b' key = coverage_at b key"
  by (simp add: same_choice_def coverage_at_def)

lemma scaled_nonneg: "0 \<le> x \<Longrightarrow> 0 \<le> k \<Longrightarrow> 0 \<le> scaled x k"
  by (simp add: scaled_def py_round_nonneg)

lemma scaled_mono: "x \<le> y \<Longrightarrow> 0 \<le> k \<Longrightarrow> scaled x k \<le> scaled y k"
  by (simp add: scaled_def py_round_mono mult_right_mono)

text \<open>Some values of known variables are not negative under the rules.\<close>

definition nonneg_on :: "(valuation \<Rightarrow> bool) \<Rightarrow> int_var set \<Rightarrow> bool" where
  "nonneg_on P vs \<longleftrightarrow> (\<forall>z. P z \<longrightarrow> (\<forall>v \<in> vs. 0 \<le> value_of z v))"

lemma sum_nonneg_on:
  assumes "nonneg_on P vs" and "P (head_part n x)" and "\<And>a. a \<in> set as \<Longrightarrow> g a \<in> vs \<and> iv_index (g a) < n \<and> 0 \<le> f a"
    and "head_part n x' = head_part n x"
  shows "0 \<le> (\<Sum>a \<leftarrow> as. f a * value_of x' (g a))"
proof (rule sum_list_nonneg)
  fix y assume "y \<in> set (map (\<lambda>a. f a * value_of x' (g a)) as)"
  then obtain a where a: "a \<in> set as" "y = f a * value_of x' (g a)" by auto
  have "value_of x' (g a) = value_of (head_part n x) (g a)"
    using assms(3) [OF a(1)] assms(4) by (metis value_of_head_part)
  then show "0 \<le> y" using a assms(1,2) assms(3) [OF a(1)] by (auto simp: nonneg_on_def)
qed

definition coverage_vars :: "builder \<Rightarrow> int_var set" where
  "coverage_vars b = (\<lambda>(k, v, c). v) ` set (bu_coverage_terms b)"

lemma coverage_at_vars: "(v, c) \<in> set (coverage_at b key) \<Longrightarrow> v \<in> coverage_vars b"
  by (force simp: coverage_at_def coverage_vars_def)

lemma supply_nonneg:
  assumes "coverage_known n b" and "nonneg_on P (coverage_vars b)" and "P (head_part n x)" and "head_part n x' = head_part n x"
  shows "0 \<le> (\<Sum>(v, c) \<leftarrow> coverage_at b key. scaled c vol_scale * value_of x' v)"
    and "0 \<le> (\<Sum>(v, c) \<leftarrow> coverage_at b key. value_of x' v)"
proof -
  have known: "fst a \<in> coverage_vars b \<and> iv_index (fst a) < n \<and> 0 \<le> scaled (snd a) vol_scale"
    if "a \<in> set (coverage_at b key)" for a
  proof -
    have mem: "(fst a, snd a) \<in> set (coverage_at b key)" using that by simp
    show ?thesis
      using coverage_at_known [OF assms(1) mem] coverage_at_vars [OF mem] by (simp add: scaled_nonneg vol_scale_def)
  qed
  have "0 \<le> (\<Sum>a \<leftarrow> coverage_at b key. scaled (snd a) vol_scale * value_of x' (fst a))"
    by (rule sum_nonneg_on [OF assms(2,3) known assms(4)])
  then show "0 \<le> (\<Sum>(v, c) \<leftarrow> coverage_at b key. scaled c vol_scale * value_of x' v)" by (simp add: case_prod_unfold)
  have "0 \<le> (\<Sum>a \<leftarrow> coverage_at b key. 1 * value_of x' (fst a))"
    by (rule sum_nonneg_on [OF assms(2,3) _ assms(4)]) (simp add: known)
  then show "0 \<le> (\<Sum>(v, c) \<leftarrow> coverage_at b key. value_of x' v)" by (simp add: case_prod_unfold)
qed

lemma coverage_below:
  assumes "coverage_known n b" and "n \<le> m"
  shows "expr_below m (map (\<lambda>(v, c). (scaled c vol_scale, v)) (coverage_at b key), 0)"
    and "expr_below m (sum_of (map fst (coverage_at b key)))"
proof -
  have below: "iv_index (fst a) < m" if "a \<in> set (coverage_at b key)" for a
    using coverage_at_known [OF assms(1), of "fst a" "snd a" key] that assms(2) by simp
  show "expr_below m (map (\<lambda>(v, c). (scaled c vol_scale, v)) (coverage_at b key), 0)"
    using expr_below_terms [of "coverage_at b key" fst m "\<lambda>a. scaled (snd a) vol_scale" 0] below
    by (simp add: case_prod_unfold)
  show "expr_below m (sum_of (map fst (coverage_at b key)))"
    using below by (auto intro!: expr_below_sum_of)
qed

lemma volume_extends:
  assumes "coverage_known n b" and "nonneg_on P (coverage_vars b)"
  shows "extends P n b (volume_constraint row b)"
proof (cases row)
  case (fields task_id h dvol)
  let ?rhs = "scaled dvol vol_scale" and ?name = "''unmet_vol_'' @ take 6 task_id @ ''_'' @ str_int h"
  let ?supply = "(map (\<lambda>(v, c). (scaled c vol_scale, v)) (coverage_at b (task_id, h)), 0) :: linear_expr"
  show ?thesis
  proof (cases "dvol \<le> tolerance")
    case True
    then show ?thesis by (simp add: fields volume_constraint_def Let_def extension.rel_refl)
  next
    case False
    obtain u b1 where new: "bd_new_var 0 ?rhs ?name b = (u, b1)" by (cases "bd_new_var 0 ?rhs ?name b")
    have eq: "volume_constraint row b = bd_add (plus_expr ?supply (one u)) AtLeast (number ?rhs)
        (b1\<lparr>bu_unmet_vol := bu_unmet_vol b1 @ [((task_id, h), u)]\<rparr>)"
      using False new by (simp add: fields volume_constraint_def Let_def)
    have rhs: "0 \<le> ?rhs" using False by (intro scaled_nonneg) (auto simp: tolerance_def vol_scale_def)
    show ?thesis
      unfolding eq
    proof (rule extends_slack [OF new, where k = "\<lambda>_. ?rhs" and l = "plus_expr ?supply (one u)" and rel = AtLeast and r = "number ?rhs"])
      show "expr_below m (plus_expr ?supply (one u)) \<and> expr_below m (number ?rhs)" if "n \<le> m" "iv_index u < m" for m
        using coverage_below(1) [OF assms(1) that(1)] that by (auto intro!: expr_below_plus expr_below_one)
      show "holds x' \<lparr>cc_left = plus_expr ?supply (one u), cc_relation = AtLeast, cc_right = number ?rhs\<rparr>"
        if "P (head_part n x)" "head_part n x' = head_part n x" "value_of x' u = ?rhs" for x x'
        using supply_nonneg(1) [OF assms that(1,2), of "(task_id, h)"] that(3)
        by (simp add: eval_expr_def comp_def case_prod_unfold plus_expr_def one_def number_def)
    qed (use rhs in \<open>simp_all add: bd_add_def\<close>)
  qed
qed

lemma headcount_extends:
  assumes "coverage_known n b" and "nonneg_on P (coverage_vars b)"
  shows "extends P n b (headcount_constraint row b)"
proof (cases row)
  case (fields task_id h dhc)
  let ?req = "py_round dhc" and ?name = "''unmet_hc_'' @ take 6 task_id @ ''_'' @ str_int h"
  let ?supply = "sum_of (map fst (coverage_at b (task_id, h)))"
  show ?thesis
  proof (cases "?req \<le> 0")
    case True
    then show ?thesis by (simp add: fields headcount_constraint_def Let_def extension.rel_refl)
  next
    case False
    obtain u b1 where new: "bd_new_var 0 ?req ?name b = (u, b1)" by (cases "bd_new_var 0 ?req ?name b")
    have eq: "headcount_constraint row b = bd_add (plus_expr ?supply (one u)) AtLeast (number ?req)
        (b1\<lparr>bu_unmet_hc := bu_unmet_hc b1 @ [((task_id, h), u)]\<rparr>)"
      using False new by (simp add: fields headcount_constraint_def Let_def)
    show ?thesis
      unfolding eq
    proof (rule extends_slack [OF new, where k = "\<lambda>_. ?req" and l = "plus_expr ?supply (one u)" and rel = AtLeast and r = "number ?req"])
      show "expr_below m (plus_expr ?supply (one u)) \<and> expr_below m (number ?req)" if "n \<le> m" "iv_index u < m" for m
        using coverage_below(2) [OF assms(1) that(1)] that by (auto intro!: expr_below_plus expr_below_one)
      show "holds x' \<lparr>cc_left = plus_expr ?supply (one u), cc_relation = AtLeast, cc_right = number ?req\<rparr>"
        if "P (head_part n x)" "head_part n x' = head_part n x" "value_of x' u = ?req" for x x'
        using supply_nonneg(2) [OF assms that(1,2), of "(task_id, h)"] that(3) by (simp add: comp_def case_prod_unfold)
    qed (use False in \<open>simp_all add: bd_add_def\<close>)
  qed
qed

lemma shortfall_extends:
  assumes "coverage_known n b" and "nonneg_on P (coverage_vars b)" and "0 \<le> k"
  shows "extends P n b (fst (add_shortfall task_id k h (b, x)))"
proof -
  let ?name = "''minw_short_'' @ take 6 task_id @ ''_'' @ str_int h" and ?bodies = "sum_of (map fst (coverage_at b (task_id, h)))"
  obtain u b1 where new: "bd_new_var 0 k ?name b = (u, b1)" by (cases "bd_new_var 0 k ?name b")
  have eq: "fst (add_shortfall task_id k h (b, x)) = bd_add (plus_expr ?bodies (one u)) AtLeast (number k) b1"
    using new by (simp add: add_shortfall_def Let_def)
  show ?thesis
    unfolding eq
  proof (rule extends_slack [OF new, where k = "\<lambda>_. k" and l = "plus_expr ?bodies (one u)" and rel = AtLeast and r = "number k"])
    show "expr_below m (plus_expr ?bodies (one u)) \<and> expr_below m (number k)" if "n \<le> m" "iv_index u < m" for m
      using coverage_below(2) [OF assms(1) that(1)] that by (auto intro!: expr_below_plus expr_below_one)
    show "holds x' \<lparr>cc_left = plus_expr ?bodies (one u), cc_relation = AtLeast, cc_right = number k\<rparr>"
      if "P (head_part n x)" "head_part n x' = head_part n x" "value_of x' u = k" for x x'
      using supply_nonneg(2) [OF assms(1,2) that(1,2), of "(task_id, h)"] that(3) by (simp add: comp_def case_prod_unfold)
  qed (use assms(3) in \<open>simp_all add: bd_add_def\<close>)
qed

text \<open>The shifts of a member, known to the rules.\<close>

definition members_known :: "(valuation \<Rightarrow> bool) \<Rightarrow> nat \<Rightarrow> scheduling_problem \<Rightarrow> builder \<Rightarrow> bool" where
  "members_known P n p b \<longleftrightarrow> (\<forall>sf \<in> set (bu_shift_vars b). iv_index (sf_var sf) < n)
     \<and> nonneg_on P (sf_var ` set (bu_shift_vars b))
     \<and> (\<forall>z. P z \<longrightarrow> (\<forall>(_, sfs) \<in> set (by_member b). member_rules p z sfs))"

lemma members_known_same: "same_choice b b' \<Longrightarrow> members_known P n p b' = members_known P n p b"
  by (simp add: same_choice_def members_known_def by_member_def)

lemma shifts_of_member_group:
  "shifts_of_member b m \<noteq> [] \<Longrightarrow> (m, shifts_of_member b m) \<in> set (by_member b)"
  by (auto simp: shifts_of_member_def by_member_def group_by_elem filter_empty_conv)

lemma overtime_extends:
  assumes "members_known P n p b"
  shows "extends P n b (fst (add_overtime p m mh (b, x)))"
proof (cases "shifts_of_member b m = []")
  case True
  then show ?thesis by (simp add: add_overtime_def extension.rel_refl)
next
  case False
  let ?sfs = "shifts_of_member b m" and ?max = "scaled mh vol_scale" and ?name = "''maxh_over_'' @ take 6 m"
  let ?cap = "scaled (week_cap p (member_type ?sfs)) vol_scale"
  obtain u b1 where new: "bd_new_var 0 (max 0 (?cap - ?max)) ?name b = (u, b1)" by (cases "bd_new_var 0 (max 0 (?cap - ?max)) ?name b")
  have eq: "fst (add_overtime p m mh (b, x)) = bd_add (hours_expr ?sfs) AtMost (plus_expr (number ?max) (one u)) b1"
    using new False by (simp add: add_overtime_def Let_def member_type_def)
  have below: "iv_index (sf_var sf) < n" if "sf \<in> set ?sfs" for sf
    using that assms by (auto simp: shifts_of_member_def members_known_def)
  have group: "(m, ?sfs) \<in> set (by_member b)" using False by (rule shifts_of_member_group)
  show ?thesis
    unfolding eq
  proof (rule extends_slack [OF new, where k = "\<lambda>_. max 0 (?cap - ?max)" and l = "hours_expr ?sfs" and rel = AtMost
        and r = "plus_expr (number ?max) (one u)"])
    show "expr_below j (hours_expr ?sfs) \<and> expr_below j (plus_expr (number ?max) (one u))" if "n \<le> j" "iv_index u < j" for j
      using less_le_trans [OF below that(1)] that(2) by (auto simp: hours_expr_def intro!: expr_below_terms expr_below_plus expr_below_one)
    show "holds x' \<lparr>cc_left = hours_expr ?sfs, cc_relation = AtMost, cc_right = plus_expr (number ?max) (one u)\<rparr>"
      if "P (head_part n x)" "head_part n x' = head_part n x" "value_of x' u = max 0 (?cap - ?max)" for x x'
    proof -
      have "member_rules p (head_part n x') ?sfs" using assms that(1,2) group by (auto simp: members_known_def)
      then have "(\<Sum>sf \<leftarrow> ?sfs. scaled (sf_eff_h sf) vol_scale * value_of x' (sf_var sf)) \<le> ?cap"
        using sums_head_part(2) [of ?sfs n "\<lambda>sf. scaled (sf_eff_h sf) vol_scale" x'] below by (simp add: member_rules_def)
      then show ?thesis using that(3) by (simp add: hours_expr_def)
    qed
  qed (simp_all add: bd_add_def)
qed

text \<open>Overrides the resolver lets through: the arguments are there and a headcount is not negative.\<close>

fun override_ok :: "override_call \<Rightarrow> bool" where
  "override_ok (MinWorkers _ n) = (case n of None \<Rightarrow> False | Some k \<Rightarrow> 0 \<le> k)"
| "override_ok (DemandFactor _ factor) = (factor \<noteq> None)"
| "override_ok (MaxHours _ max_h) = (max_h \<noteq> None)"
| "override_ok _ = True"

lemma fold_shortfall_extends:
  assumes "coverage_known n b" and "nonneg_on P (coverage_vars b)" and "0 \<le> k"
  shows "extends P n b (fst (fold (add_shortfall task_id k) hs (b, x)))"
  using assms(1,2)
proof (induction hs arbitrary: b x)
  case Nil
  then show ?case by (simp add: extension.rel_refl)
next
  case (Cons h hs)
  have one: "extends P n b (fst (add_shortfall task_id k h (b, x)))" by (rule shortfall_extends [OF Cons.prems assms(3)])
  then have same: "same_choice b (fst (add_shortfall task_id k h (b, x)))" by (simp add: extends_def)
  have "nonneg_on P (coverage_vars (fst (add_shortfall task_id k h (b, x))))"
    using same Cons.prems(2) by (simp add: same_choice_def coverage_vars_def)
  then have "extends P n (fst (add_shortfall task_id k h (b, x)))
      (fst (fold (add_shortfall task_id k) hs (fst (add_shortfall task_id k h (b, x)), snd (add_shortfall task_id k h (b, x)))))"
    using coverage_known_same [OF same] Cons.prems(1) by (intro Cons.IH) auto
  then show ?case using extension.rel_trans [OF one] by simp
qed

lemma lock_extends:
  assumes "members_known P n p b"
  shows "\<exists>bx'. add_override ord p d (LockShift m day) (b, x) = Inr bx' \<and> extends P n b (fst bx')"
proof -
  let ?sfs = "filter (\<lambda>sf. start_day sf = day) (shifts_of_member b m)" and ?name = "''lock_absent_'' @ take 6 m @ ''_'' @ str_int day"
  obtain u b1 where new: "bd_new_var 0 1 ?name b = (u, b1)" by (cases "bd_new_var 0 1 ?name b")
  have mem: "sf \<in> set ?sfs \<Longrightarrow> sf \<in> set (bu_shift_vars b)" for sf by (simp add: shifts_of_member_def)
  have "extends P n b (bd_add (plus_expr (sum_of (map sf_var ?sfs)) (one u)) AtLeast (number 1) b1)"
  proof (rule extends_slack [OF new, where k = "\<lambda>_. 1" and l = "plus_expr (sum_of (map sf_var ?sfs)) (one u)" and rel = AtLeast and r = "number 1"])
    show "expr_below j (plus_expr (sum_of (map sf_var ?sfs)) (one u)) \<and> expr_below j (number 1)" if "n \<le> j" "iv_index u < j" for j
    proof -
      have "iv_index (sf_var sf) < j" if "sf \<in> set ?sfs" for sf
        using mem [OF that] assms \<open>n \<le> j\<close> by (force simp: members_known_def)
      then show ?thesis using that by (auto intro!: expr_below_plus expr_below_sum_of expr_below_one)
    qed
    show "holds x' \<lparr>cc_left = plus_expr (sum_of (map sf_var ?sfs)) (one u), cc_relation = AtLeast, cc_right = number 1\<rparr>"
      if "P (head_part n x)" "head_part n x' = head_part n x" "value_of x' u = 1" for x x'
    proof -
      have "0 \<le> (\<Sum>sf \<leftarrow> ?sfs. 1 * value_of x' (sf_var sf))"
        by (rule sum_nonneg_on [where P = P and n = n and x = x and vs = "sf_var ` set (bu_shift_vars b)"])
          (use assms that mem in \<open>auto simp: members_known_def\<close>)
      then show ?thesis using that(3) by (simp add: comp_def)
    qed
  qed (simp_all add: bd_add_def)
  then show ?thesis using new by (simp add: add_override_def Let_def)
qed

lemma override_extends:
  assumes "coverage_known n b" and "nonneg_on P (coverage_vars b)" and "members_known P n p b" and "override_ok ov"
  shows "\<exists>bx'. add_override ord p d ov (b, x) = Inr bx' \<and> extends P n b (fst bx')"
proof (cases ov)
  case (MinWorkers task_id k)
  then obtain j where k: "k = Some j" "0 \<le> j" using assms(4) by (auto split: option.splits)
  then show ?thesis
    using fold_shortfall_extends [OF assms(1,2) k(2), of task_id "demand_hours ord d task_id" x] MinWorkers
    by (simp add: add_override_def)
next
  case (LockShift m day)
  then show ?thesis using lock_extends [OF assms(3)] by simp
next
  case (MaxHours m mh)
  then obtain h where "mh = Some h" using assms(4) by auto
  then show ?thesis using overtime_extends [OF assms(3), of m h x] MaxHours by (simp add: add_override_def)
qed (use assms(4) in \<open>auto simp: add_override_def extension.rel_refl\<close>)

lemma overrides_extend:
  assumes "coverage_known n b" and "nonneg_on P (coverage_vars b)" and "members_known P n p b" and "\<forall>ov \<in> set ovs. override_ok ov"
  shows "\<exists>bx'. add_overrides ord p d ovs (b, x) = Inr bx' \<and> extends P n b (fst bx')"
  using assms
proof (induction ovs arbitrary: b x)
  case Nil
  then show ?case by (simp add: extension.rel_refl)
next
  case (Cons ov ovs)
  obtain b' x' where one: "add_override ord p d ov (b, x) = Inr (b', x')" "extends P n b b'"
    using override_extends [OF Cons.prems(1-3), of ov ord d x] Cons.prems(4) by auto
  then have same: "same_choice b b'" by (simp add: extends_def)
  have "nonneg_on P (coverage_vars b')" using same Cons.prems(2) by (simp add: same_choice_def coverage_vars_def)
  then obtain bx' where "add_overrides ord p d ovs (b', x') = Inr bx'" "extends P n b' (fst bx')"
    using Cons.IH [of b' x'] Cons.prems coverage_known_same [OF same] members_known_same [OF same] by auto
  then show ?case using one extension.rel_trans [OF one(2)] by (auto simp: and_also_def)
qed

end
