(* ===== verification/Model_Choices.thy ===== *)
theory Model_Choices
  imports Model_Phases Hard_Constraints
begin

text \<open>
  The solutions of the model read as rosters. \<open>roster_ok\<close> states the rules over the chosen shifts and the
  assigned tasks, without variables and constraints; a choice keeps them exactly when it is part of a
  solution of the finished model.
\<close>

section \<open>Chosen shifts and assigned tasks\<close>

definition chosen_shifts :: "builder \<Rightarrow> valuation \<Rightarrow> shift_var list" where
  "chosen_shifts b x = filter (\<lambda>sf. value_of x (sf_var sf) = 1) (bu_shift_vars b)"

definition assigned_tasks :: "builder \<Rightarrow> valuation \<Rightarrow> task_var list" where
  "assigned_tasks b x = filter (\<lambda>tv. value_of x (tv_var tv) = 1) (bu_task_vars b)"

text \<open>Each variable is decided, a task needs its shift, a shift is worked, and a slot holds one task.\<close>

definition tasks_in_shifts :: "builder \<Rightarrow> valuation \<Rightarrow> bool" where
  "tasks_in_shifts b x \<longleftrightarrow> (\<forall>v \<in> listed b. value_of x v = 0 \<or> value_of x v = 1)
     \<and> (\<forall>tv \<in> set (assigned_tasks b x). tv_shift tv \<in> set (chosen_shifts b x))
     \<and> (\<forall>sf \<in> set (chosen_shifts b x). \<exists>tv \<in> set (assigned_tasks b x). tv_shift tv = sf)
     \<and> (\<forall>sf k. length (filter (\<lambda>tv. tv_shift tv = sf \<and> tv_slot_idx tv = k) (assigned_tasks b x)) \<le> 1)"

definition of_member :: "string \<Rightarrow> shift_var \<Rightarrow> bool" where
  "of_member m sf \<longleftrightarrow> mm_contact_id (sf_member sf) = m"

text \<open>The rules of one member. As in the code, the caps are those of the member of the first candidate.\<close>

definition member_ok :: "scheduling_problem \<Rightarrow> builder \<Rightarrow> valuation \<Rightarrow> string \<Rightarrow> bool" where
  "member_ok p b x m \<longleftrightarrow> (let emp_type = member_type (shifts_of_member b m); own = filter (of_member m) (chosen_shifts b x) in
     (\<forall>sf \<in> set (shifts_of_member b m). int (length (filter (\<lambda>s. start_day s = start_day sf) own)) \<le> day_cap p emp_type)
     \<and> (\<Sum>sf \<leftarrow> own. scaled (sf_eff_h sf) vol_scale) \<le> scaled (week_cap p emp_type) vol_scale
     \<and> sorted_wrt (\<lambda>s t. \<not> too_close (s, t)) own)"

definition roster_ok :: "scheduling_problem \<Rightarrow> builder \<Rightarrow> valuation \<Rightarrow> bool" where
  "roster_ok p b x \<longleftrightarrow> tasks_in_shifts b x
     \<and> (\<forall>wid. length (filter (\<lambda>sf. wn_id (sf_window sf) = wid) (chosen_shifts b x)) \<le> 1)
     \<and> (\<forall>sf \<in> set (bu_shift_vars b). member_ok p b x (mm_contact_id (sf_member sf)))"

section \<open>Sums of decided variables\<close>

lemma sum_decided:
  assumes "\<And>a. a \<in> set as \<Longrightarrow> value_of x (g a) = 0 \<or> value_of x (g a) = 1"
  shows "(\<Sum>a \<leftarrow> as. f a * value_of x (g a)) = (\<Sum>a \<leftarrow> filter (\<lambda>a. value_of x (g a) = 1) as. f a)"
  using assms by (induction as) force+

lemma count_decided:
  assumes "\<And>a. a \<in> set as \<Longrightarrow> value_of x (g a) = 0 \<or> value_of x (g a) = 1"
  shows "(\<Sum>a \<leftarrow> as. value_of x (g a)) = int (length (filter (\<lambda>a. value_of x (g a) = 1) as))"
  using assms by (induction as) force+

lemma sum_list_ones: "(\<Sum>a \<leftarrow> as. (1 :: int)) = int (length as)"
  by (induction as) auto

lemma ordered_pairs_iff: "(\<forall>(a, b) \<in> set (ordered_pairs xs). R a b) \<longleftrightarrow> sorted_wrt R xs"
  by (induction xs) auto

lemma sorted_wrt_guarded: "sorted_wrt (\<lambda>a b. P a \<and> P b \<longrightarrow> R a b) xs \<longleftrightarrow> sorted_wrt R (filter P xs)"
  by (induction xs) auto

section \<open>The constraints of one shift\<close>

lemma needs_shift_iff:
  "holds x (needs_shift tv) \<longleftrightarrow> value_of x (tv_var tv) \<le> value_of x (sf_var (tv_shift tv))"
  by (simp add: needs_shift_def)

lemma slot_constraint_iff: "holds x (slot_constraint sf tvs) \<longleftrightarrow> (\<Sum>tv \<leftarrow> tvs. value_of x (tv_var tv)) \<le> value_of x (sf_var sf)"
  by (simp add: slot_constraint_def comp_def)

lemma worked_constraint_iff:
  assumes "\<And>tv. tv \<in> set tvs \<Longrightarrow> value_of x (tv_var tv) = 0 \<or> value_of x (tv_var tv) = 1"
    and "value_of x (sf_var sf) = 0 \<or> value_of x (sf_var sf) = 1"
  shows "holds x (worked_constraint sf tvs) \<longleftrightarrow>
    value_of x (sf_var sf) = 0 \<or> (\<exists>tv \<in> set tvs. value_of x (tv_var tv) = 1)"
proof -
  have "(\<Sum>(_, vs) \<leftarrow> group_by tv_slot_idx tvs. \<Sum>tv \<leftarrow> vs. value_of x (tv_var tv)) = (\<Sum>tv \<leftarrow> tvs. value_of x (tv_var tv))"
    by (rule sum_list_group_by [symmetric])
  moreover have "(\<Sum>v \<leftarrow> concat (map (\<lambda>(_, vs). map tv_var vs) gs). value_of x v)
      = (\<Sum>(_, vs) \<leftarrow> gs. \<Sum>tv \<leftarrow> vs. value_of x (tv_var tv))" for gs :: "(nat \<times> task_var list) list"
    by (induction gs) (auto simp: comp_def)
  ultimately have "holds x (worked_constraint sf tvs) \<longleftrightarrow> value_of x (sf_var sf) \<le> (\<Sum>tv \<leftarrow> tvs. value_of x (tv_var tv))"
    by (simp add: worked_constraint_def)
  also have "\<dots> \<longleftrightarrow> value_of x (sf_var sf) \<le> int (length (filter (\<lambda>tv. value_of x (tv_var tv) = 1) tvs))"
    using assms(1) by (simp add: count_decided)
  also have "\<dots> \<longleftrightarrow> value_of x (sf_var sf) = 0 \<or> (\<exists>tv \<in> set tvs. value_of x (tv_var tv) = 1)"
  proof -
    have "(1 :: int) \<le> int (length (filter (\<lambda>tv. value_of x (tv_var tv) = 1) tvs)) \<longleftrightarrow> (\<exists>tv \<in> set tvs. value_of x (tv_var tv) = 1)"
      using filter_empty_conv [of "\<lambda>tv. value_of x (tv_var tv) = 1" tvs]
      by (cases "filter (\<lambda>tv. value_of x (tv_var tv) = 1) tvs") auto
    then show ?thesis using assms(2) by auto
  qed
  finally show ?thesis .
qed

lemma slot_constraints_iff:
  assumes "\<And>tv. tv \<in> set tvs \<Longrightarrow> value_of x (tv_var tv) = 0 \<or> value_of x (tv_var tv) = 1"
    and "value_of x (sf_var sf) = 0 \<or> value_of x (sf_var sf) = 1"
    and "\<And>tv. tv \<in> set tvs \<Longrightarrow> value_of x (tv_var tv) \<le> value_of x (sf_var sf)"
  shows "(\<forall>(_, vs) \<in> set (group_by tv_slot_idx tvs). holds x (slot_constraint sf vs)) \<longleftrightarrow>
    (\<forall>k. length (filter (\<lambda>tv. tv_slot_idx tv = k \<and> value_of x (tv_var tv) = 1) tvs) \<le> 1)"
proof -
  let ?own = "\<lambda>k. filter (\<lambda>tv. tv_slot_idx tv = k) tvs" and ?on = "\<lambda>tv. value_of x (tv_var tv) = 1"
  have "holds x (slot_constraint sf (?own k)) \<longleftrightarrow> int (length (filter ?on (?own k))) \<le> value_of x (sf_var sf)" for k
    using count_decided [of "?own k" x tv_var] assms(1) by (simp add: slot_constraint_iff)
  moreover have "int (length (filter ?on (?own k))) \<le> value_of x (sf_var sf) \<longleftrightarrow> length (filter ?on (?own k)) \<le> 1" for k
  proof (cases "value_of x (sf_var sf) = 1")
    case False
    then have "filter ?on (?own k) = []" using assms(2,3) by (fastforce simp: filter_empty_conv)
    then show ?thesis using assms(2) False by simp
  qed simp
  ultimately have "holds x (slot_constraint sf (?own k)) \<longleftrightarrow> length (filter ?on (?own k)) \<le> 1" for k by simp
  then have "(\<forall>(_, vs) \<in> set (group_by tv_slot_idx tvs). holds x (slot_constraint sf vs)) \<longleftrightarrow>
      (\<forall>k \<in> tv_slot_idx ` set tvs. length (filter ?on (?own k)) \<le> 1)"
    by (simp only: group_by_all_iff)
  also have "\<dots> \<longleftrightarrow> (\<forall>k. length (filter ?on (?own k)) \<le> 1)"
    using filter_key_absent [of _ tv_slot_idx tvs] by (metis filter.simps(1) list.size(3) zero_le)
  finally show ?thesis by (simp add: conj_commute)
qed

lemma tasks_in_shifts_iff:
  assumes inv: "candidates_inv cs b"
    and decided: "\<And>v. v \<in> listed b \<Longrightarrow> value_of x v = 0 \<or> value_of x v = 1"
  shows "(\<forall>c \<in> expected_constraints b. holds x c) \<longleftrightarrow> tasks_in_shifts b x"
proof -
  have shift: "tv_shift tv \<in> set (bu_shift_vars b)" if "tv \<in> set (bu_task_vars b)" for tv
    using inv that by (simp add: candidates_inv_def)
  have dt: "value_of x (tv_var tv) = 0 \<or> value_of x (tv_var tv) = 1" if "tv \<in> set (bu_task_vars b)" for tv
    using decided that by (simp add: listed_def)
  have ds: "value_of x (sf_var sf) = 0 \<or> value_of x (sf_var sf) = 1" if "sf \<in> set (bu_shift_vars b)" for sf
    using decided that by (simp add: listed_def)
  let ?needs = "\<forall>tv \<in> set (bu_task_vars b). value_of x (tv_var tv) \<le> value_of x (sf_var (tv_shift tv))"
  let ?slots = "\<lambda>sf. \<forall>(_, vs) \<in> set (group_by tv_slot_idx (tasks_of b sf)). holds x (slot_constraint sf vs)"
  have mem: "tv \<in> set (tasks_of b sf) \<longleftrightarrow> tv \<in> set (bu_task_vars b) \<and> tv_shift tv = sf" for tv sf
    by (simp add: tasks_of_def)
  have "(\<forall>c \<in> expected_constraints b. holds x c) \<longleftrightarrow>
      ?needs \<and> (\<forall>sf \<in> set (bu_shift_vars b). ?slots sf \<and> holds x (worked_constraint sf (tasks_of b sf)))"
    unfolding expected_constraints_def shift_constraints_def
    by (simp add: ball_Un UN_ball_bex_simps ball_conj_distrib needs_shift_iff case_prod_unfold conj_commute)
  also have "\<dots> \<longleftrightarrow> ?needs \<and> (\<forall>sf \<in> set (bu_shift_vars b).
      (\<forall>k. length (filter (\<lambda>tv. tv_slot_idx tv = k \<and> value_of x (tv_var tv) = 1) (tasks_of b sf)) \<le> 1)
      \<and> (value_of x (sf_var sf) = 0 \<or> (\<exists>tv \<in> set (tasks_of b sf). value_of x (tv_var tv) = 1)))"
  proof (intro conj_cong refl ball_cong)
    fix sf assume needs: ?needs and sf: "sf \<in> set (bu_shift_vars b)"
    show "?slots sf \<longleftrightarrow> (\<forall>k. length (filter (\<lambda>tv. tv_slot_idx tv = k \<and> value_of x (tv_var tv) = 1) (tasks_of b sf)) \<le> 1)"
      using needs dt ds [OF sf] by (intro slot_constraints_iff) (auto simp: mem)
    show "holds x (worked_constraint sf (tasks_of b sf)) \<longleftrightarrow>
        value_of x (sf_var sf) = 0 \<or> (\<exists>tv \<in> set (tasks_of b sf). value_of x (tv_var tv) = 1)"
      using dt ds [OF sf] by (intro worked_constraint_iff) (auto simp: mem)
  qed
  also have "\<dots> \<longleftrightarrow> tasks_in_shifts b x"
  proof -
    have needs: "?needs \<longleftrightarrow> (\<forall>tv \<in> set (assigned_tasks b x). tv_shift tv \<in> set (chosen_shifts b x))"
      using dt ds shift by (fastforce simp: assigned_tasks_def chosen_shifts_def)
    have worked: "(\<forall>sf \<in> set (bu_shift_vars b). value_of x (sf_var sf) = 0 \<or> (\<exists>tv \<in> set (tasks_of b sf). value_of x (tv_var tv) = 1))
        \<longleftrightarrow> (\<forall>sf \<in> set (chosen_shifts b x). \<exists>tv \<in> set (assigned_tasks b x). tv_shift tv = sf)"
      using ds by (fastforce simp: chosen_shifts_def assigned_tasks_def mem)
    have same: "filter (\<lambda>tv. tv_slot_idx tv = k \<and> value_of x (tv_var tv) = 1) (tasks_of b sf)
        = filter (\<lambda>tv. tv_shift tv = sf \<and> tv_slot_idx tv = k) (assigned_tasks b x)" for sf k
      by (auto simp: tasks_of_def assigned_tasks_def intro: filter_cong)
    have none: "filter (\<lambda>tv. tv_shift tv = sf \<and> tv_slot_idx tv = k) (assigned_tasks b x) = []"
      if "sf \<notin> set (bu_shift_vars b)" for sf k
      using that shift by (auto simp: filter_empty_conv assigned_tasks_def)
    have slots: "(\<forall>sf \<in> set (bu_shift_vars b). \<forall>k.
          length (filter (\<lambda>tv. tv_slot_idx tv = k \<and> value_of x (tv_var tv) = 1) (tasks_of b sf)) \<le> 1)
        \<longleftrightarrow> (\<forall>sf k. length (filter (\<lambda>tv. tv_shift tv = sf \<and> tv_slot_idx tv = k) (assigned_tasks b x)) \<le> 1)"
      unfolding same
    proof (intro iffI allI ballI)
      fix sf k
      assume "\<forall>sf \<in> set (bu_shift_vars b). \<forall>k.
          length (filter (\<lambda>tv. tv_shift tv = sf \<and> tv_slot_idx tv = k) (assigned_tasks b x)) \<le> 1"
      then show "length (filter (\<lambda>tv. tv_shift tv = sf \<and> tv_slot_idx tv = k) (assigned_tasks b x)) \<le> 1"
        using none [of sf k] by (cases "sf \<in> set (bu_shift_vars b)") simp_all
    qed blast
    have "tasks_in_shifts b x \<longleftrightarrow> (\<forall>v \<in> listed b. value_of x v = 0 \<or> value_of x v = 1) \<and> ?needs
        \<and> (\<forall>sf \<in> set (bu_shift_vars b). value_of x (sf_var sf) = 0 \<or> (\<exists>tv \<in> set (tasks_of b sf). value_of x (tv_var tv) = 1))
        \<and> (\<forall>sf \<in> set (bu_shift_vars b). \<forall>k.
          length (filter (\<lambda>tv. tv_slot_idx tv = k \<and> value_of x (tv_var tv) = 1) (tasks_of b sf)) \<le> 1)"
      unfolding tasks_in_shifts_def needs [symmetric] worked [symmetric] slots [symmetric] by (rule refl)
    moreover have "\<forall>v \<in> listed b. value_of x v = 0 \<or> value_of x v = 1" using decided by blast
    moreover have "N \<and> S \<and> W \<longleftrightarrow> T" if "T \<longleftrightarrow> A \<and> N \<and> W \<and> S" "A" for A N S T W
      using that by blast
    ultimately show ?thesis unfolding ball_conj_distrib by blast
  qed
  finally show ?thesis .
qed

section \<open>The rules of windows and members\<close>

lemma windows_iff:
  assumes "\<And>sf. sf \<in> set (bu_shift_vars b) \<Longrightarrow> value_of x (sf_var sf) = 0 \<or> value_of x (sf_var sf) = 1"
  shows "(\<forall>(_, sfs) \<in> set (by_window b). (\<Sum>sf \<leftarrow> sfs. value_of x (sf_var sf)) \<le> 1) \<longleftrightarrow>
    (\<forall>wid. length (filter (\<lambda>sf. wn_id (sf_window sf) = wid) (chosen_shifts b x)) \<le> 1)"
proof -
  let ?in = "\<lambda>wid. filter (\<lambda>sf. wn_id (sf_window sf) = wid)"
  have "(\<Sum>sf \<leftarrow> ?in wid (bu_shift_vars b). value_of x (sf_var sf)) = int (length (?in wid (chosen_shifts b x)))" for wid
    using assms count_decided [of "?in wid (bu_shift_vars b)" x sf_var] by (simp add: chosen_shifts_def conj_commute)
  then have "(\<forall>(_, sfs) \<in> set (by_window b). (\<Sum>sf \<leftarrow> sfs. value_of x (sf_var sf)) \<le> 1) \<longleftrightarrow>
      (\<forall>wid \<in> (\<lambda>sf. wn_id (sf_window sf)) ` set (bu_shift_vars b). length (?in wid (chosen_shifts b x)) \<le> 1)"
    unfolding by_window_def group_by_all_iff by simp
  also have "\<dots> \<longleftrightarrow> (\<forall>wid. length (?in wid (chosen_shifts b x)) \<le> 1)"
  proof -
    have "?in wid (chosen_shifts b x) = []" if "wid \<notin> (\<lambda>sf. wn_id (sf_window sf)) ` set (bu_shift_vars b)" for wid
      using that by (auto simp: filter_empty_conv chosen_shifts_def)
    then show ?thesis by (metis list.size(3) zero_le)
  qed
  finally show ?thesis .
qed

lemma member_rules_iff:
  assumes "\<And>sf. sf \<in> set (shifts_of_member b m) \<Longrightarrow> value_of x (sf_var sf) = 0 \<or> value_of x (sf_var sf) = 1"
  shows "member_rules p x (shifts_of_member b m) \<longleftrightarrow> member_ok p b x m"
proof -
  let ?sfs = "shifts_of_member b m" and ?on = "\<lambda>sf. value_of x (sf_var sf) = 1"
  let ?own = "filter (of_member m) (chosen_shifts b x)"
  have own: "?own = filter ?on ?sfs"
    by (simp add: chosen_shifts_def shifts_of_member_def of_member_def [abs_def] conj_commute)
  have "(\<Sum>sf \<leftarrow> filter (\<lambda>s. start_day s = d) ?sfs. value_of x (sf_var sf)) = int (length (filter (\<lambda>s. start_day s = d) ?own))" for d
    using assms count_decided [of "filter (\<lambda>s. start_day s = d) ?sfs" x sf_var] by (simp add: own conj_commute)
  then have days: "(\<forall>(_, day_sfs) \<in> set (group_by start_day ?sfs). (\<Sum>sf \<leftarrow> day_sfs. value_of x (sf_var sf)) \<le> c) \<longleftrightarrow>
      (\<forall>sf \<in> set ?sfs. int (length (filter (\<lambda>s. start_day s = start_day sf) ?own)) \<le> c)" for c
    unfolding group_by_all_iff by simp
  have hours: "(\<Sum>sf \<leftarrow> ?sfs. scaled (sf_eff_h sf) vol_scale * value_of x (sf_var sf)) = (\<Sum>sf \<leftarrow> ?own. scaled (sf_eff_h sf) vol_scale)"
    unfolding own using assms by (intro sum_decided) auto
  have pair: "value_of x (sf_var s) + value_of x (sf_var t) \<le> 1 \<longleftrightarrow> \<not> (?on s \<and> ?on t)"
    if "s \<in> set ?sfs" "t \<in> set ?sfs" for s t
    using assms [OF that(1)] assms [OF that(2)] by auto
  have "(\<forall>(s, t) \<in> set (filter too_close (ordered_pairs ?sfs)). value_of x (sf_var s) + value_of x (sf_var t) \<le> 1) \<longleftrightarrow>
      (\<forall>(s, t) \<in> set (ordered_pairs ?sfs). ?on s \<and> ?on t \<longrightarrow> \<not> too_close (s, t))"
    using pair ordered_pairs_mem [of _ _ ?sfs] by fastforce
  also have "\<dots> \<longleftrightarrow> sorted_wrt (\<lambda>s t. \<not> too_close (s, t)) ?own"
    unfolding own sorted_wrt_guarded [symmetric] by (rule ordered_pairs_iff)
  finally show ?thesis by (simp add: member_rules_def member_ok_def Let_def days hours)
qed

lemma choice_ok_iff:
  assumes inv: "candidates_inv cs b"
  shows "choice_ok p b x \<longleftrightarrow> roster_ok p b x"
proof (cases "\<forall>v \<in> listed b. value_of x v = 0 \<or> value_of x v = 1")
  case True
  then have shifts: "value_of x (sf_var sf) = 0 \<or> value_of x (sf_var sf) = 1" if "sf \<in> set (bu_shift_vars b)" for sf
    using that by (simp add: listed_def)
  have members: "(\<forall>(_, sfs) \<in> set (by_member b). member_rules p x sfs) \<longleftrightarrow>
      (\<forall>sf \<in> set (bu_shift_vars b). member_ok p b x (mm_contact_id (sf_member sf)))"
    unfolding by_member_def group_by_all_iff
    using shifts member_rules_iff [of b _ x p] by (simp add: shifts_of_member_def)
  have windows: "(\<forall>(_, sfs) \<in> set (by_window b). (\<Sum>sf \<leftarrow> sfs. value_of x (sf_var sf)) \<le> 1) \<longleftrightarrow>
      (\<forall>wid. length (filter (\<lambda>sf. wn_id (sf_window sf) = wid) (chosen_shifts b x)) \<le> 1)"
    by (rule windows_iff [OF shifts])
  have tasks: "(\<forall>c \<in> expected_constraints b. holds x c) \<longleftrightarrow> tasks_in_shifts b x"
    by (rule tasks_in_shifts_iff [OF inv]) (use True in blast)
  have "\<forall>v \<in> listed b. 0 \<le> value_of x v \<and> value_of x v \<le> 1" using True by force
  then show ?thesis
    unfolding choice_ok_def roster_ok_def members windows tasks by simp
next
  case False
  then have "\<not> (\<forall>v \<in> listed b. 0 \<le> value_of x v \<and> value_of x v \<le> 1)" by force
  then show ?thesis using False by (auto simp: choice_ok_def roster_ok_def tasks_in_shifts_def)
qed

end
