(* ===== verification/Model_Guarantees.thy ===== *)
theory Model_Guarantees
  imports Model_Choices
begin

text \<open>
  The finished model of the engine: its solutions, read on shifts and tasks, are exactly the rosters that
  keep the rules, for every set of overrides; overrides and coverage change what a roster costs, never
  which rosters are possible.
\<close>

section \<open>What a solution of the finished model enforces\<close>

lemma window_grows: "bd_grows b (window_constraint g b)"
proof (cases g)
  case (Pair wid sfs)
  show ?thesis
  proof (cases "wn_kind (sf_window (last sfs)) = Roster")
    case True
    obtain u b1 where new: "bd_new_var 0 1 (''unfilled_'' @ wid) b = (u, b1)" by (cases "bd_new_var 0 1 (''unfilled_'' @ wid) b")
    have "bd_grows b b1" using new by (rule bd_grows_new_var)
    then have "bd_grows b (b1\<lparr>bu_unfilled_roster := bu_unfilled_roster b1 @ [(wid, u)]\<rparr>)" by (simp add: bd_grows_def)
    then show ?thesis
      using True new by (simp add: Pair window_constraint_def) (rule bd_grows_trans, assumption, simp)
  qed (simp add: Pair window_constraint_def)
qed

lemma window_enforces:
  assumes "solves x (window_constraint g b)"
  shows "(\<Sum>sf \<leftarrow> snd g. value_of x (sf_var sf)) \<le> 1"
proof (cases g)
  case (Pair wid sfs)
  show ?thesis
  proof (cases "wn_kind (sf_window (last sfs)) = Roster")
    case True
    obtain u b1 where new: "bd_new_var 0 1 (''unfilled_'' @ wid) b = (u, b1)" by (cases "bd_new_var 0 1 (''unfilled_'' @ wid) b")
    let ?b = "b1\<lparr>bu_unfilled_roster := bu_unfilled_roster b1 @ [(wid, u)]\<rparr>"
    have *: "solves x (bd_add (plus_expr (sum_of (map sf_var sfs)) (one u)) Exactly (number 1) ?b)"
      using assms True new by (simp add: Pair window_constraint_def)
    have "u \<in> set (cm_vars (bu_model ?b))" "iv_lo u = 0"
      using new by (auto simp: bd_new_var_def new_int_var_def Let_def)
    moreover have "solves x ?b" using * by (simp add: solves_add)
    ultimately have "0 \<le> value_of x u" by (auto simp: solves_def satisfies_def in_domain_def)
    then show ?thesis using * by (simp add: solves_add Pair comp_def)
  next
    case False
    then show ?thesis using assms by (simp add: Pair window_constraint_def solves_add comp_def)
  qed
qed

lemma add_each_grows: "bd_grows b (fold (\<lambda>(k, v). bd_add (l k v) rel (r k v)) gs b)"
  by (rule bd_grows_fold) (simp split: prod.splits)

lemma add_each_enforces:
  assumes "solves x (fold (\<lambda>(k, v). bd_add (l k v) rel (r k v)) gs b)" and "(k, v) \<in> set gs"
  shows "holds x \<lparr>cc_left = l k v, cc_relation = rel, cc_right = r k v\<rparr>"
proof -
  have "\<forall>g \<in> set gs. holds x \<lparr>cc_left = l (fst g) (snd g), cc_relation = rel, cc_right = r (fst g) (snd g)\<rparr>"
    by (rule solves_fold [OF assms(1)]) (auto simp: solves_add split: prod.splits)
  then show ?thesis using assms(2) by force
qed

lemma member_grows: "bd_grows b (member_constraints p g b)"
  unfolding member_constraints_def Let_def
  by (rule bd_grows_trans [OF _ add_each_grows], rule bd_grows_trans [OF add_each_grows bd_grows_add])

lemma member_enforces:
  assumes "solves x (member_constraints p g b)"
  shows "member_rules p x (snd g)"
proof -
  let ?sfs = "snd g"
  let ?b1 = "fold (\<lambda>(_, day_sfs). bd_add (sum_of (map sf_var day_sfs)) AtMost (number (day_cap p (member_type ?sfs)))) (group_by start_day ?sfs) b"
  let ?b2 = "bd_add (hours_expr ?sfs) AtMost (number (scaled (week_cap p (member_type ?sfs)) vol_scale)) ?b1"
  have s3: "solves x (fold (\<lambda>(u, v). bd_add (sum_of [sf_var u, sf_var v]) AtMost (number 1)) (filter too_close (ordered_pairs ?sfs)) ?b2)"
    using assms by (simp add: member_constraints_def Let_def member_type_def)
  then have s2: "solves x ?b2" by (rule solves_earlier [OF _ add_each_grows])
  then have s1: "solves x ?b1" by (rule solves_earlier) simp
  have "(\<Sum>sf \<leftarrow> day_sfs. value_of x (sf_var sf)) \<le> day_cap p (member_type ?sfs)"
    if "(d, day_sfs) \<in> set (group_by start_day ?sfs)" for d day_sfs
    using add_each_enforces [OF s1 that] by (simp add: comp_def)
  moreover have "(\<Sum>sf \<leftarrow> ?sfs. scaled (sf_eff_h sf) vol_scale * value_of x (sf_var sf)) \<le> scaled (week_cap p (member_type ?sfs)) vol_scale"
    using s2 by (simp add: solves_add hours_expr_def)
  moreover have "value_of x (sf_var u) + value_of x (sf_var v) \<le> 1" if "(u, v) \<in> set (filter too_close (ordered_pairs ?sfs))" for u v
    using add_each_enforces [OF s3 that] by simp
  ultimately show ?thesis unfolding member_rules_def by blast
qed

section \<open>Coverage coefficients\<close>

lemma totals_by_nonneg:
  fixes rows :: "('k \<times> 'n :: linordered_ab_group_add) list"
  shows "(k, t) \<in> set (totals_by rows) \<Longrightarrow> \<forall>(_, v) \<in> set rows. 0 \<le> v \<Longrightarrow> 0 \<le> t"
  by (force simp: totals_by_def group_by_elem intro!: sum_list_nonneg)

lemma hour_overlap_nonneg:
  assumes "(h, ov) \<in> set (hour_overlap slot)"
  shows "0 \<le> ov"
  by (rule totals_by_nonneg [OF assms [unfolded hour_overlap_def]]) auto

definition rates_ok :: "scheduling_problem \<Rightarrow> bool" where
  "rates_ok p \<longleftrightarrow> (\<forall>m \<in> set (sp_members p). \<forall>q \<in> set (mm_qualifications m). 0 \<le> ql_rate q)"

lemma coverage_coefficient_nonneg:
  assumes "\<forall>q \<in> set (mm_qualifications m). 0 \<le> ql_rate q" and "0 \<le> ov"
  shows "0 \<le> coverage_coefficient d m t ov"
proof -
  have rate: "0 \<le> get_or 0 (rate_for m t)"
    using assms(1) by (auto simp: rate_for_def get_or_def find_Some_iff split: option.splits)
  show ?thesis
  proof (cases "is_ind d t")
    case False
    let ?rate = "let rate = get_or 0 (rate_for m t) in if rate = 0 then default_task_rate else rate"
    have "0 \<le> ?rate" using rate by (simp add: Let_def default_task_rate_def)
    then show ?thesis
      using False assms(2) by (simp add: coverage_coefficient_def absenteeism_factor_def)
  qed (simp add: coverage_coefficient_def)
qed

definition supply_ok :: "builder \<Rightarrow> bool" where
  "supply_ok b \<longleftrightarrow> (\<forall>(k, v, c) \<in> set (bu_coverage_terms b). 0 \<le> c)"

lemma add_task_supply:
  assumes "supply_ok (fst btv)" and "\<forall>q \<in> set (mm_qualifications (sf_member sf)). 0 \<le> ql_rate q"
  shows "supply_ok (fst (add_task d sf t btv))"
proof -
  obtain k slot task_id where t: "t = (k, slot, task_id)" by (cases t)
  obtain b tvs where btv: "btv = (b, tvs)" by (cases btv)
  obtain v b1 where new: "bd_new_var 0 1 (task_name sf task_id k) b = (v, b1)" by (cases "bd_new_var 0 1 (task_name sf task_id k) b")
  have "bu_coverage_terms b1 = bu_coverage_terms b" using new by (auto elim!: bd_new_varE)
  moreover have "0 \<le> coverage_coefficient d (sf_member sf) task_id ov" if "(h, ov) \<in> set (hour_overlap slot)" for h ov
    using coverage_coefficient_nonneg [OF assms(2)] hour_overlap_nonneg [OF that] by simp
  ultimately show ?thesis
    using assms(1) new by (auto simp: t btv add_task_def Let_def supply_ok_def bd_add_simps)
qed

lemma add_candidate_supply:
  assumes "supply_ok b" and "\<forall>q \<in> set (mm_qualifications (ca_member c)). 0 \<le> ql_rate q"
  shows "supply_ok (add_candidate d c b)"
proof -
  obtain sf b1 where make: "make_shift (ca_member c) (ca_window c) (ca_template c) (ca_start c) b = (sf, b1)"
    by (cases "make_shift (ca_member c) (ca_window c) (ca_template c) (ca_start c) b")
  have sf: "sf_member sf = ca_member c" "bu_coverage_terms b1 = bu_coverage_terms b"
    using make by (auto simp: make_shift_def elim!: bd_new_varE split: prod.splits)
  have fold: "supply_ok (fst (fold (add_task d sf) ts btv))" if "supply_ok (fst btv)" for ts btv
    using that assms(2) by (induction ts arbitrary: btv) (auto simp: sf add_task_supply)
  obtain b2 tvs where run: "fold (add_task d sf) (slot_tasks (ca_quals c) sf) (b1, []) = (b2, tvs)"
    by (cases "fold (add_task d sf) (slot_tasks (ca_quals c) sf) (b1, [])")
  have "supply_ok b2" using fold [of "(b1, [])"] assms(1) sf(2) run by (metis fst_conv supply_ok_def)
  then show ?thesis
    using make run by (auto simp: add_candidate_def supply_ok_def close_shift_simps)
qed

lemma candidates_member: "c \<in> set (candidates ord p d) \<Longrightarrow> ca_member c \<in> set (sp_members p)"
  by (auto simp: candidates_def member_candidates_def Let_def split: if_splits)

lemma candidates_supply:
  assumes "rates_ok p" and "set cs \<subseteq> set (candidates ord p d)" and "supply_ok b"
  shows "supply_ok (fold (add_candidate d) cs b)"
  using assms(2,3)
proof (induction cs arbitrary: b)
  case (Cons c cs)
  have "\<forall>q \<in> set (mm_qualifications (ca_member c)). 0 \<le> ql_rate q"
    using candidates_member [of c] Cons.prems(1) assms(1) by (auto simp: rates_ok_def)
  then show ?case using Cons.prems by (auto intro!: Cons.IH add_candidate_supply)
qed simp

section \<open>The phases together\<close>

lemma scale_factors_returns: "\<forall>ov \<in> set ovs. override_ok ov \<Longrightarrow> \<exists>fs. scale_factors ovs = Inr fs"
proof (induction ovs)
  case (Cons ov ovs)
  then obtain fs where "scale_factors ovs = Inr fs" by auto
  then show ?case using Cons.prems by (cases ov) (auto simp: and_also_def)
qed simp

definition candidate_model :: "set_order \<Rightarrow> scheduling_problem \<Rightarrow> demand_table \<Rightarrow> builder" where
  "candidate_model ord p d = fold (add_candidate d) (candidates ord p d) empty_builder"

definition windows_model :: "builder \<Rightarrow> builder" where
  "windows_model b = fold window_constraint (by_window b) b"

definition capped_model :: "scheduling_problem \<Rightarrow> builder \<Rightarrow> builder" where
  "capped_model p b = fold (member_constraints p) (by_member b) (windows_model b)"

lemma capped_model_eq: "add_window_and_cap_constraints p b = capped_model p b"
  by (simp add: add_window_and_cap_constraints_def capped_model_def windows_model_def by_window_def by_member_def)

lemma candidate_model_inv: "candidates_inv (set (candidates ord p d)) (candidate_model ord p d)"
  unfolding candidate_model_def by (intro fold_add_candidate_inv empty_builder_inv subset_refl)

lemma candidate_model_supply: "rates_ok p \<Longrightarrow> supply_ok (candidate_model ord p d)"
  unfolding candidate_model_def
  by (rule candidates_supply [where ord = ord and p = p]) (simp_all add: supply_ok_def empty_builder_def)

definition variables :: "builder \<Rightarrow> nat" where
  "variables b = length (cm_vars (bu_model b))"

lemma listed_below:
  assumes "candidates_inv cs b" and "v \<in> listed b"
  shows "iv_index v < variables b" and "v \<in> set (cm_vars (bu_model b))" and "binary v"
proof -
  show mem: "v \<in> set (cm_vars (bu_model b))" using assms by (auto simp: candidates_inv_def listed_def)
  then show "iv_index v < variables b" using assms(1) closed_var by (simp add: candidates_inv_def variables_def)
  show "binary v" using mem assms(1) by (simp add: candidates_inv_def)
qed

lemma phases_extend:
  assumes inv: "candidates_inv cs b"
  shows "extends (choice_ok p b) (variables b) b (windows_model b)"
    and "extends (choice_ok p b) (variables b) (windows_model b) (capped_model p b)"
proof -
  let ?P = "choice_ok p b" and ?n = "variables b"
  have below: "iv_index (sf_var sf) < ?n" if "sf \<in> set (bu_shift_vars b)" for sf
    using listed_below(1) [OF inv, of "sf_var sf"] that by (simp add: listed_def)
  have window: "extends ?P ?n b' (window_constraint g b')" if g: "g \<in> set (by_window b)" for g b'
  proof -
    obtain wid sfs where gs: "g = (wid, sfs)" by (cases g)
    have sub: "set sfs \<subseteq> set (bu_shift_vars b)" using group_by_vars [OF g [unfolded by_window_def gs]] .
    show ?thesis
      unfolding gs
    proof (rule window_extends)
      show "0 \<le> (\<Sum>sf \<leftarrow> sfs. value_of z (sf_var sf)) \<and> (\<Sum>sf \<leftarrow> sfs. value_of z (sf_var sf)) \<le> 1" if "?P z" for z
      proof -
        have "0 \<le> value_of z (sf_var sf)" if "sf \<in> set sfs" for sf
        proof -
          have "sf_var sf \<in> listed b" using sub that by (auto simp: listed_def)
          then show ?thesis using \<open>?P z\<close> by (simp add: choice_ok_def)
        qed
        then have "0 \<le> (\<Sum>sf \<leftarrow> sfs. value_of z (sf_var sf))" by (auto intro!: sum_list_nonneg)
        moreover have "(\<Sum>sf \<leftarrow> sfs. value_of z (sf_var sf)) \<le> 1"
          using that g unfolding choice_ok_def gs by blast
        ultimately show ?thesis by simp
      qed
    qed (use below sub in blast)
  qed
  show "extends ?P ?n b (windows_model b)"
    unfolding windows_model_def by (rule extends_fold [OF window same_choice_refl])
  have cap: "extends ?P ?n b' (member_constraints p g b')" if g: "g \<in> set (by_member b)" for g b'
  proof -
    obtain m sfs where gs: "g = (m, sfs)" by (cases g)
    have sub: "set sfs \<subseteq> set (bu_shift_vars b)" using group_by_vars [OF g [unfolded by_member_def gs]] .
    show ?thesis
      unfolding gs by (rule member_extends) (use below sub g in \<open>auto simp: choice_ok_def gs\<close>)
  qed
  show "extends ?P ?n (windows_model b) (capped_model p b)"
    unfolding capped_model_def by (rule extends_fold [OF cap same_choice_refl])
qed

text \<open>What coverage and overrides rely on.\<close>

lemma known_variables:
  assumes inv: "candidates_inv cs b" and sup: "supply_ok b"
  shows "coverage_known (variables b) b" and "nonneg_on (choice_ok p b) (coverage_vars b)"
    and "members_known (choice_ok p b) (variables b) p b"
proof -
  have vars: "v \<in> listed b" if "(k, v, c) \<in> set (bu_coverage_terms b)" for k v c
    using inv that by (fastforce simp: candidates_inv_def listed_def)
  show "coverage_known (variables b) b"
    unfolding coverage_known_def
  proof (intro ballI, clarify)
    fix t h v c assume mem: "((t, h), v, c) \<in> set (bu_coverage_terms b)"
    show "iv_index v < variables b \<and> 0 \<le> c"
      using listed_below(1) [OF inv vars [OF mem]] sup mem by (auto simp: supply_ok_def)
  qed
  show "nonneg_on (choice_ok p b) (coverage_vars b)"
    using vars by (auto simp: nonneg_on_def coverage_vars_def choice_ok_def)
  show "members_known (choice_ok p b) (variables b) p b"
    using listed_below(1) [OF inv] by (auto simp: members_known_def nonneg_on_def choice_ok_def listed_def)
qed

lemma coverage_extends:
  assumes "coverage_known n b" and "nonneg_on P (coverage_vars b)"
  shows "extends P n b (add_coverage_constraints d b)"
proof -
  have known: "coverage_known n b'" "nonneg_on P (coverage_vars b')" if "same_choice b b'" for b'
    using assms that coverage_known_same [OF that] by (simp_all add: same_choice_def coverage_vars_def)
  let ?b1 = "fold volume_constraint (table_rows (filter (\<lambda>(task_id, _). \<not> is_ind d task_id) (dm_vol d))) b"
  have vol: "extends P n b ?b1"
    by (rule extends_fold [OF _ same_choice_refl]) (use known volume_extends in blast)
  then have same: "same_choice b ?b1" by (simp add: extends_def)
  have "extends P n ?b1 (fold headcount_constraint (table_rows (dm_hc d)) ?b1)"
    by (rule extends_fold [OF _ same]) (use known headcount_extends in blast)
  then show ?thesis
    unfolding add_coverage_constraints_def using extension.rel_trans [OF vol] by blast
qed

text \<open>The build returns, and the finished model extends that of the candidates phase by phase.\<close>

lemma build_phases:
  assumes "rates_ok p" and ok: "\<forall>ov \<in> set ovs. override_ok ov"
  obtains fs b x where "scale_factors ovs = Inr fs"
    and "build_model ord p ovs = Inr \<lparr>bm_builder = b, bm_demand = aggregate_demand p fs, bm_round1 = round1_unmet p b, bm_round2 = round2_cost b x\<rparr>"
    and "extends (choice_ok p (candidate_model ord p (aggregate_demand p fs))) (variables (candidate_model ord p (aggregate_demand p fs)))
      (capped_model p (candidate_model ord p (aggregate_demand p fs))) b"
proof -
  obtain fs where fs: "scale_factors ovs = Inr fs" using scale_factors_returns [OF ok] by blast
  let ?d = "aggregate_demand p fs"
  let ?b1 = "candidate_model ord p ?d"
  let ?P = "choice_ok p ?b1" and ?n = "variables ?b1"
  note inv = candidate_model_inv [of ord p ?d]
  note known = known_variables [OF inv candidate_model_supply [OF assms(1)]]
  have same1: "same_choice ?b1 (capped_model p ?b1)"
    using phases_extend [OF inv, of p] by (meson extends_def same_choice_trans)
  have cov: "extends ?P ?n (capped_model p ?b1) (add_coverage_constraints ?d (capped_model p ?b1))"
    by (rule coverage_extends)
      (use known same1 coverage_known_same [OF same1] in \<open>simp_all add: same_choice_def coverage_vars_def\<close>)
  then have same: "same_choice ?b1 (add_coverage_constraints ?d (capped_model p ?b1))"
    using same1 by (meson extends_def same_choice_trans)
  have "\<exists>bx. add_overrides ord p ?d ovs (add_coverage_constraints ?d (capped_model p ?b1), no_soft_terms) = Inr bx
      \<and> extends ?P ?n (add_coverage_constraints ?d (capped_model p ?b1)) (fst bx)"
    by (rule overrides_extend [OF _ _ _ ok])
      (use known same coverage_known_same [OF same] members_known_same [OF same] in \<open>simp_all add: same_choice_def coverage_vars_def\<close>)
  then obtain b x where run: "add_overrides ord p ?d ovs (add_coverage_constraints ?d (capped_model p ?b1), no_soft_terms) = Inr (b, x)"
    and ext: "extends ?P ?n (add_coverage_constraints ?d (capped_model p ?b1)) b" by auto
  show thesis
  proof (rule that [OF fs])
    show "build_model ord p ovs = Inr \<lparr>bm_builder = b, bm_demand = ?d, bm_round1 = round1_unmet p b, bm_round2 = round2_cost b x\<rparr>"
      using fs run by (simp add: build_model_def and_also_def Let_def candidate_model_def capped_model_eq)
    show "extends ?P ?n (capped_model p ?b1) b" using extension.rel_trans [OF cov ext] .
  qed
qed

section \<open>Solutions and rosters\<close>

lemma solution_choice:
  assumes inv: "candidates_inv cs b1" and grows: "bd_grows (capped_model p b1) b" and x: "solves x b"
  shows "choice_ok p b1 x"
proof -
  have members: "bd_grows (windows_model b1) (capped_model p b1)"
    unfolding capped_model_def by (rule bd_grows_fold) (rule member_grows)
  have windows: "bd_grows b1 (windows_model b1)"
    unfolding windows_model_def by (rule bd_grows_fold) (rule window_grows)
  have xc: "solves x (capped_model p b1)" using x grows by (rule solves_earlier)
  then have xw: "solves x (windows_model b1)" using members by (rule solves_earlier)
  then have x1: "solves x b1" using windows by (rule solves_earlier)
  have domain: "in_domain x v" if "v \<in> set (cm_vars (bu_model b1))" for v
    using x1 that by (simp add: solves_def satisfies_def)
  have "0 \<le> value_of x v \<and> value_of x v \<le> 1" if "v \<in> listed b1" for v
    using domain [OF listed_below(2) [OF inv that]] listed_below(3) [OF inv that] by (simp add: in_domain_def binary_def)
  moreover have "\<forall>c \<in> expected_constraints b1. holds x c"
    using x1 inv by (auto simp: solves_def satisfies_def candidates_inv_def)
  moreover have "\<forall>g \<in> set (by_window b1). (\<Sum>sf \<leftarrow> snd g. value_of x (sf_var sf)) \<le> 1"
    by (rule solves_fold [OF xw [unfolded windows_model_def]]) (auto intro: window_grows window_enforces)
  moreover have "\<forall>g \<in> set (by_member b1). member_rules p x (snd g)"
    by (rule solves_fold [OF xc [unfolded capped_model_def]]) (auto intro: member_grows member_enforces)
  ultimately show ?thesis unfolding choice_ok_def by fastforce
qed

definition agree :: "builder \<Rightarrow> valuation \<Rightarrow> valuation \<Rightarrow> bool" where
  "agree b x y \<longleftrightarrow> (\<forall>v \<in> listed b. value_of x v = value_of y v)"

lemma roster_ok_cong:
  assumes "agree b x y" shows "roster_ok p b x \<longleftrightarrow> roster_ok p b y"
proof -
  have same: "value_of x v = value_of y v" if "v \<in> listed b" for v using assms that by (simp add: agree_def)
  have "chosen_shifts b x = chosen_shifts b y" "assigned_tasks b x = assigned_tasks b y"
    unfolding chosen_shifts_def assigned_tasks_def by (rule filter_cong; simp add: same listed_def)+
  moreover have "(\<forall>v \<in> listed b. value_of x v = 0 \<or> value_of x v = 1) \<longleftrightarrow> (\<forall>v \<in> listed b. value_of y v = 0 \<or> value_of y v = 1)"
    using same by simp
  ultimately show ?thesis by (simp add: roster_ok_def tasks_in_shifts_def member_ok_def)
qed

lemma roster_ok_same: "same_choice b b' \<Longrightarrow> roster_ok p b' = roster_ok p b"
  by (simp add: fun_eq_iff same_choice_def roster_ok_def tasks_in_shifts_def member_ok_def chosen_shifts_def assigned_tasks_def
      listed_def shifts_of_member_def)

lemma choice_solution:
  assumes inv: "candidates_inv cs b1" and y: "roster_ok p b1 y"
    and ext: "extends (choice_ok p b1) (variables b1) b1 b"
  obtains x where "solves x b" and "agree b1 x y"
proof -
  define z where "z = head_part (variables b1) (\<lambda>i. if i \<in> iv_index ` listed b1 then y i else 0)"
  have zy: "agree b1 z y"
    using listed_below(1) [OF inv] by (auto simp: agree_def z_def value_of_def head_part_def)
  have z: "choice_ok p b1 z" using y roster_ok_cong [OF zy] choice_ok_iff [OF inv] by blast
  have zz: "head_part (variables b1) z = z" by (simp add: z_def head_part_def fun_eq_iff)
  have closed: "model_closed (bu_model b1)" using inv by (simp add: candidates_inv_def)
  have "in_domain z v" if "v \<in> set (cm_vars (bu_model b1))" for v
  proof (cases "iv_index v \<in> iv_index ` listed b1")
    case True
    then obtain u where u: "u \<in> listed b1" "iv_index v = iv_index u" by auto
    then have "0 \<le> value_of z u \<and> value_of z u \<le> 1" using z by (simp add: choice_ok_def)
    then show ?thesis using u(2) inv that by (auto simp: in_domain_def value_of_def candidates_inv_def binary_def)
  next
    case False
    then have "value_of z v = 0" by (simp add: z_def value_of_def head_part_def)
    then show ?thesis using inv that by (auto simp: in_domain_def candidates_inv_def binary_def)
  qed
  then have "solves z b1" using z inv by (auto simp: solves_def satisfies_def choice_ok_def candidates_inv_def)
  moreover have "\<forall>z. choice_ok p b1 (head_part (variables b1) z) \<longrightarrow> solves z b1 \<longrightarrow>
      (\<exists>x. solves x b \<and> head_part (variables b1) x = head_part (variables b1) z)"
    using ext closed by (simp add: extends_def variables_def)
  ultimately obtain x where x: "solves x b" and head: "head_part (variables b1) x = head_part (variables b1) z"
    using z zz by metis
  have "agree b1 x y"
    unfolding agree_def
  proof
    fix v assume v: "v \<in> listed b1"
    have "value_of x v = value_of z v"
      using value_of_head_part [OF listed_below(1) [OF inv v]] head by metis
    then show "value_of x v = value_of y v" using zy v by (simp add: agree_def)
  qed
  with x show thesis by (rule that)
qed

text \<open>Everything a caller needs of the build, in one statement.\<close>

lemma build_solutions:
  assumes "rates_ok p" and "\<forall>ov \<in> set ovs. override_ok ov"
  obtains bm cs where "build_model ord p ovs = Inr bm" and "candidates_inv cs (candidate_model ord p (bm_demand bm))"
    and "same_choice (candidate_model ord p (bm_demand bm)) (bm_builder bm)"
    and "\<And>x. satisfies x (bu_model (bm_builder bm)) \<Longrightarrow> roster_ok p (bm_builder bm) x"
    and "\<And>y. roster_ok p (bm_builder bm) y \<Longrightarrow> \<exists>x. satisfies x (bu_model (bm_builder bm)) \<and> agree (bm_builder bm) x y"
proof -
  obtain fs b x where build: "build_model ord p ovs = Inr \<lparr>bm_builder = b, bm_demand = aggregate_demand p fs,
        bm_round1 = round1_unmet p b, bm_round2 = round2_cost b x\<rparr>" (is "_ = Inr ?bm")
    and ext: "extends (choice_ok p (candidate_model ord p (aggregate_demand p fs)))
        (variables (candidate_model ord p (aggregate_demand p fs))) (capped_model p (candidate_model ord p (aggregate_demand p fs))) b"
    by (rule build_phases [OF assms])
  let ?b1 = "candidate_model ord p (aggregate_demand p fs)"
  note inv = candidate_model_inv [of ord p "aggregate_demand p fs"]
  have all: "extends (choice_ok p ?b1) (variables ?b1) ?b1 b"
    by (rule extension.rel_trans [OF extension.rel_trans [OF phases_extend(1) [OF inv] phases_extend(2) [OF inv]] ext])
  then have same: "same_choice ?b1 b" by (simp add: extends_def)
  have grows: "bd_grows (capped_model p ?b1) b" using ext by (simp add: extends_def)
  have roster: "roster_ok p b = roster_ok p ?b1" by (rule roster_ok_same [OF same])
  have agree: "agree b = agree ?b1" using same by (simp add: fun_eq_iff agree_def listed_def same_choice_def)
  show thesis
  proof (rule that [OF build])
    show "candidates_inv (set (candidates ord p (aggregate_demand p fs))) (candidate_model ord p (bm_demand ?bm))"
      using inv by simp
    show "same_choice (candidate_model ord p (bm_demand ?bm)) (bm_builder ?bm)" using same by simp
    show "roster_ok p (bm_builder ?bm) z" if "satisfies z (bu_model (bm_builder ?bm))" for z
      using solution_choice [OF inv grows] that choice_ok_iff [OF inv] by (simp add: roster solves_def)
    show "\<exists>z. satisfies z (bu_model (bm_builder ?bm)) \<and> agree (bm_builder ?bm) z y" if "roster_ok p (bm_builder ?bm) y" for y
      using choice_solution [OF inv _ all, of y] that by (auto simp: roster agree solves_def)
  qed
qed

section \<open>Properties\<close>

text \<open>
  C5. The CP-SAT model the builder makes is the roster problem: a choice of shifts and tasks is part of a
  solution of the finished model exactly when each chosen shift is worked and each task lies in a chosen
  shift, a slot holds one task, a window one shift, and every member keeps the daily cap, the weekly cap and
  the rest between shifts. Demand and overrides never rule a roster out.
\<close>

theorem solutions_are_rosters:
  assumes "rates_ok p" and "\<forall>ov \<in> set ovs. override_ok ov" and "build_model ord p ovs = Inr bm"
  shows "(\<exists>x. satisfies x (bu_model (bm_builder bm)) \<and> (\<forall>v \<in> listed (bm_builder bm). value_of x v = value_of y v))
    \<longleftrightarrow> roster_ok p (bm_builder bm) y"
proof -
  obtain bm' cs where run: "build_model ord p ovs = Inr bm'"
    and fwd: "\<And>x. satisfies x (bu_model (bm_builder bm')) \<Longrightarrow> roster_ok p (bm_builder bm') x"
    and bwd: "\<And>y. roster_ok p (bm_builder bm') y \<Longrightarrow> \<exists>x. satisfies x (bu_model (bm_builder bm')) \<and> agree (bm_builder bm') x y"
    by (rule build_solutions [OF assms(1,2), where ord = ord]) (rule that, assumption+)
  have bm: "bm' = bm" using run assms(3) by simp
  have "roster_ok p (bm_builder bm) y" if "satisfies x (bu_model (bm_builder bm))" "agree (bm_builder bm) x y" for x
    using fwd [of x] that roster_ok_cong [OF that(2)] by (simp add: bm)
  then show ?thesis using bwd [of y] unfolding bm agree_def by blast
qed

text \<open>A member with one roster window, a template with an unpaid break, and four hours of picking.\<close>

definition demo_order :: set_order where
  "demo_order = \<lparr>so_text = (\<lambda>xs. xs), so_hours = (\<lambda>xs. xs)\<rparr>"

definition demo_member :: team_member where
  "demo_member = \<lparr>mm_contact_id = ''W1'', mm_name = ''Ana'', mm_emp_type = ''Casual'', mm_grade_id = ''g'', mm_eba_id = ''e'',
     mm_contracted_hours = 38, mm_wage_per_hour = 40,
     mm_windows = [\<lparr>wn_id = ''ros0'', wn_start_h = 6, wn_end_h = 15, wn_kind = Roster\<rparr>],
     mm_qualifications = [\<lparr>ql_task_id = ''Pick'', ql_rate = 10\<rparr>]\<rparr>"

definition demo_problem :: scheduling_problem where
  "demo_problem = \<lparr>sp_horizon_h = 168, sp_members = [demo_member],
     sp_tasks = [\<lparr>ta_task_id = ''Pick'', ta_name = ''Pick'', ta_function = ''Picking'', ta_area_id = ''A'', ta_unit_id = None\<rparr>],
     sp_templates = [\<lparr>tp_id = ''day'', tp_name = ''Day'', tp_length_h = 8,
       tp_breaks = [\<lparr>bk_start_offset_h = 4, bk_duration_h = 1 / 2, bk_paid = False\<rparr>]\<rparr>],
     sp_demand = [\<lparr>db_task_id = ''Pick'', db_family = Outbound, db_start_h = 6, db_end_h = 10, db_amount = 20, db_order_id = ''OB0''\<rparr>],
     sp_max_hours_per_week = [(''Casual'', 38)], sp_max_shifts_per_day = []\<rparr>"

definition demo_overrides :: "override_call list" where
  "demo_overrides = [MinWorkers ''Pick'' (Some 3), MaxHours ''W1'' (Some 20)]"

lemma demo_inputs_ok: "rates_ok demo_problem" "\<forall>ov \<in> set demo_overrides. override_ok ov"
  by (simp_all add: rates_ok_def demo_problem_def demo_member_def demo_overrides_def)

theorem solutions_are_rosters_witness:
  "\<exists>bm. build_model demo_order demo_problem demo_overrides = Inr bm
     \<and> ((\<exists>x. satisfies x (bu_model (bm_builder bm)) \<and> (\<forall>v \<in> listed (bm_builder bm). value_of x v = 1))
        \<longleftrightarrow> roster_ok demo_problem (bm_builder bm) (\<lambda>_. 1))"
proof -
  obtain bm where bm: "build_model demo_order demo_problem demo_overrides = Inr bm"
    by (rule build_solutions [OF demo_inputs_ok, where ord = demo_order])
  then show ?thesis
    using solutions_are_rosters [OF demo_inputs_ok bm, of "\<lambda>_. 1"] by (auto simp: value_of_def)
qed

text \<open>Caps are not negative.\<close>

definition caps_ok :: "scheduling_problem \<Rightarrow> bool" where
  "caps_ok p \<longleftrightarrow> (\<forall>(_, c) \<in> set (sp_max_hours_per_week p). 0 \<le> c) \<and> (\<forall>(_, c) \<in> set (sp_max_shifts_per_day p). 0 \<le> c)"

lemma caps_nonneg:
  assumes "caps_ok p" shows "0 \<le> week_cap p e" and "0 \<le> day_cap p e"
  using assms by (auto simp: caps_ok_def week_cap_def day_cap_def get_or_def default_max_hours_per_week_def
      default_max_shifts_per_day_def dest!: dict_of_SomeD split: option.splits)

lemma idle_roster_ok: "caps_ok p \<Longrightarrow> roster_ok p b (\<lambda>_. 0)"
  using caps_nonneg [of p]
  by (simp add: roster_ok_def tasks_in_shifts_def member_ok_def Let_def chosen_shifts_def assigned_tasks_def value_of_def
      scaled_nonneg vol_scale_def)

text \<open>
  C34. The build never fails on resolved overrides and its model always has a solution: however much demand
  there is and whatever the overrides ask for, staying idle satisfies it.
\<close>

theorem model_always_feasible:
  assumes "rates_ok p" and "caps_ok p" and "\<forall>ov \<in> set ovs. override_ok ov"
  shows "\<exists>bm x. build_model ord p ovs = Inr bm \<and> satisfies x (bu_model (bm_builder bm))"
  by (rule build_solutions [OF assms(1,3), where ord = ord]) (use idle_roster_ok [OF assms(2)] in blast)

theorem model_always_feasible_witness:
  "\<exists>bm x. build_model demo_order demo_problem demo_overrides = Inr bm \<and> satisfies x (bu_model (bm_builder bm))"
  by (rule model_always_feasible [OF demo_inputs_ok(1) _ demo_inputs_ok(2)]) (simp add: caps_ok_def demo_problem_def)

end
