(* ===== verification/Reference_Solver.thy ===== *)
theory Reference_Solver
  imports Cp_Model
begin

text \<open>
  Two solvers that keep the contract of CP-SAT: one that checks a given solution and one that tries all
  values. They show that \<open>solver_sound\<close> and \<open>solver_optimal\<close> can be met together, by a function that computes.
\<close>

definition answer :: "solver_status \<Rightarrow> linear_expr \<Rightarrow> int list \<Rightarrow> cp_response" where
  "answer status e xs = \<lparr>an_status = status, an_objective = of_int (eval_expr (valuation_of xs) e), an_solution = xs,
     an_deterministic_time = 0\<rparr>"

definition checked_solver :: "int list \<Rightarrow> cp_solver" where
  "checked_solver xs m e ps = (if satisfies (valuation_of xs) m then answer FEASIBLE e xs else answer UNKNOWN e [])"

lemma checked_solver_sound: "solver_sound (checked_solver xs)"
  by (simp add: solver_sound_def checked_solver_def answer_def solved_def)

definition all_values :: "cp_model \<Rightarrow> int list list" where
  "all_values m = product_lists (map (\<lambda>v. [iv_lo v .. iv_hi v]) (cm_vars m))"

definition tries_all :: "cp_model \<Rightarrow> linear_expr \<Rightarrow> bool" where
  "tries_all m e \<longleftrightarrow> map iv_index (cm_vars m) = [0 ..< length (cm_vars m)] \<and> model_closed m \<and> expr_below (length (cm_vars m)) e"

definition exhaustive_solver :: cp_solver where
  "exhaustive_solver m e ps =
     (if \<not> tries_all m e then answer UNKNOWN e []
      else case filter (\<lambda>xs. satisfies (valuation_of xs) m) (all_values m) of
        [] \<Rightarrow> answer INFEASIBLE e []
      | x # xs \<Rightarrow> answer OPTIMAL e (arg_min_list (\<lambda>xs. eval_expr (valuation_of xs) e) (x # xs)))"

lemma exhaustive_solver_sound: "solver_sound exhaustive_solver"
  unfolding solver_sound_def
proof (intro allI impI)
  fix m e ps assume ok: "solved (an_status (exhaustive_solver m e ps))"
  obtain x xs where found: "filter (\<lambda>xs. satisfies (valuation_of xs) m) (all_values m) = x # xs" and all: "tries_all m e"
    using ok by (auto simp: exhaustive_solver_def answer_def solved_def split: if_splits list.splits)
  let ?best = "arg_min_list (\<lambda>xs. eval_expr (valuation_of xs) e) (x # xs)"
  have "?best \<in> set (x # xs)" by (rule arg_min_list_in) simp
  then have "satisfies (valuation_of ?best) m" unfolding found [symmetric] by simp
  then show "satisfies (valuation_of (an_solution (exhaustive_solver m e ps))) m \<and>
      an_objective (exhaustive_solver m e ps) = of_int (eval_expr (valuation_of (an_solution (exhaustive_solver m e ps))) e)"
    using all found by (simp add: exhaustive_solver_def answer_def del: arg_min_list.simps)
qed

lemma eval_expr_agree: "expr_below n e \<Longrightarrow> (\<And>i. i < n \<Longrightarrow> x i = y i) \<Longrightarrow> eval_expr x e = eval_expr y e"
  unfolding eval_expr_def expr_below_def
  by (intro arg_cong2 [where f = plus] refl arg_cong [where f = sum_list] map_cong) (auto simp: value_of_def)

lemma satisfies_agree:
  assumes "model_closed m" and "\<And>i. i < length (cm_vars m) \<Longrightarrow> x i = y i" and "satisfies x m"
  shows "satisfies y m"
proof -
  have "value_of y v = value_of x v" if "v \<in> set (cm_vars m)" for v
    using that assms(1,2) by (simp add: model_closed_def value_of_def)
  moreover have "holds y c = holds x c" if "c \<in> set (cm_constraints m)" for c
    using that assms(1) eval_expr_agree [of "length (cm_vars m)" _ x y] assms(2) by (simp add: model_closed_def holds_def)
  ultimately show ?thesis using assms(3) by (simp add: satisfies_def in_domain_def)
qed

lemma exhaustive_solver_optimal: "solver_optimal exhaustive_solver"
  unfolding solver_optimal_def
proof (intro allI impI)
  fix m e ps x assume ok: "an_status (exhaustive_solver m e ps) = OPTIMAL" and x: "satisfies x m"
  let ?n = "length (cm_vars m)" and ?val = "\<lambda>xs. eval_expr (valuation_of xs) e"
  obtain y ys where found: "filter (\<lambda>xs. satisfies (valuation_of xs) m) (all_values m) = y # ys" and all: "tries_all m e"
    using ok by (auto simp: exhaustive_solver_def answer_def split: if_splits list.splits)
  let ?xs = "map x [0 ..< ?n]"
  have same: "x i = valuation_of ?xs i" if "i < ?n" for i using that by (simp add: valuation_of_def)
  have closed: "model_closed m" "expr_below ?n e" and index: "map iv_index (cm_vars m) = [0 ..< ?n]"
    using all by (auto simp: tries_all_def)
  have idx: "iv_index (cm_vars m ! i) = i" if "i < ?n" for i
    using arg_cong [OF index, of "\<lambda>l. l ! i"] that by simp
  have "iv_lo (cm_vars m ! i) \<le> x i \<and> x i \<le> iv_hi (cm_vars m ! i)" if "i < ?n" for i
    using x idx [OF that] nth_mem [OF that] by (auto simp: satisfies_def in_domain_def value_of_def dest!: bspec)
  then have "?xs \<in> set (all_values m)"
    by (auto simp: all_values_def product_lists_set list_all2_conv_all_nth)
  moreover have "satisfies (valuation_of ?xs) m" by (rule satisfies_agree [OF closed(1) same x])
  ultimately have mem: "?xs \<in> set (y # ys)" unfolding found [symmetric] by simp
  have "?val (arg_min_list ?val (y # ys)) = Min (?val ` set (y # ys))" by (rule f_arg_min_list_f) simp
  also have "\<dots> \<le> ?val ?xs" by (rule Min_le [OF finite_imageI [OF finite_set] imageI [OF mem]])
  also have "\<dots> = eval_expr x e" using eval_expr_agree [OF closed(2) same] by simp
  finally show "an_objective (exhaustive_solver m e ps) \<le> of_int (eval_expr x e)"
    using all found by (simp add: exhaustive_solver_def answer_def del: arg_min_list.simps)
qed

end
