(* ===== verification/Solve_Guarantees.thy ===== *)
theory Solve_Guarantees
  imports Engine_Solve Model_Guarantees Reference_Solver
begin

text \<open>
  What a run of the engine returns when CP-SAT keeps its contract: the second round never gives back
  coverage, its cost is the least one when it is solved to optimality, and the roster it returns keeps
  the rules of the model.
\<close>

section \<open>The phases after the candidates only add\<close>

definition appends :: "builder \<Rightarrow> builder \<Rightarrow> bool" where
  "appends b b' \<longleftrightarrow> bd_grows b b' \<and> same_choice b b'"

interpretation appending: two_state appends
proof unfold_locales
  show "appends s s" for s by (simp add: appends_def)
  show "appends s u" if "appends s t" "appends t u" for s t u
    using that by (auto simp: appends_def intro: bd_grows_trans same_choice_trans)
qed

lemma appends_slack:
  assumes "bd_new_var lo hi name b = (v, b1)" and "bu_model b' = add_constraint l rel r (bu_model b1)"
    and "bu_shift_vars b' = bu_shift_vars b1" "bu_task_vars b' = bu_task_vars b1" "bu_coverage_terms b' = bu_coverage_terms b1"
  shows "appends b b'"
proof -
  obtain m where m: "new_int_var lo hi name (bu_model b) = (v, m)" and b1: "b1 = b\<lparr>bu_model := m\<rparr>"
    using assms(1) by (rule bd_new_varE)
  show ?thesis
    using assms(2-5) model_grows_trans [OF model_grows_new_var [OF m] model_grows_add_constraint]
    by (simp add: appends_def same_choice_def bd_grows_def b1)
qed

lemma appends_fold: "(\<And>a b. appends b (f a b)) \<Longrightarrow> appends b (fold f xs b)"
  by (induction xs arbitrary: b) (auto simp: appending.rel_refl intro: appending.rel_trans)

lemma appends_window: "appends b (window_constraint g b)"
  using window_grows [of b g]
  by (auto simp: appends_def same_choice_def window_constraint_def bd_add_simps Let_def split: prod.splits elim!: bd_new_varE)

lemma appends_add: "appends b (bd_add l rel r b)"
  by (simp add: appends_def same_choice_def bd_add_simps)

lemma appends_add_each: "appends b (fold (\<lambda>(k, v). bd_add (l k v) rel (r k v)) gs b)"
  by (rule appends_fold) (simp add: appends_add split: prod.splits)

lemma appends_member: "appends b (member_constraints p g b)"
  unfolding member_constraints_def Let_def
  by (rule appending.rel_trans [OF _ appends_add_each], rule appending.rel_trans [OF appends_add_each appends_add])

lemma appends_volume: "appends b (volume_constraint row b)"
proof (cases row)
  case (fields t h dvol)
  show ?thesis
  proof (cases "dvol \<le> tolerance")
    case False
    obtain u b1 where new: "bd_new_var 0 (scaled dvol vol_scale) (''unmet_vol_'' @ take 6 t @ ''_'' @ str_int h) b = (u, b1)"
      by (cases "bd_new_var 0 (scaled dvol vol_scale) (''unmet_vol_'' @ take 6 t @ ''_'' @ str_int h) b")
    show ?thesis
      using False new by (intro appends_slack [OF new]) (auto simp: fields volume_constraint_def Let_def bd_add_def)
  qed (simp add: fields volume_constraint_def appending.rel_refl)
qed

lemma appends_headcount: "appends b (headcount_constraint row b)"
proof (cases row)
  case (fields t h dhc)
  show ?thesis
  proof (cases "py_round dhc \<le> 0")
    case False
    obtain u b1 where new: "bd_new_var 0 (py_round dhc) (''unmet_hc_'' @ take 6 t @ ''_'' @ str_int h) b = (u, b1)"
      by (cases "bd_new_var 0 (py_round dhc) (''unmet_hc_'' @ take 6 t @ ''_'' @ str_int h) b")
    show ?thesis
      using False new by (intro appends_slack [OF new]) (auto simp: fields headcount_constraint_def Let_def bd_add_def)
  qed (simp add: fields headcount_constraint_def appending.rel_refl)
qed

lemma appends_shortfall: "appends (fst bx) (fst (add_shortfall t k h bx))"
proof (cases bx)
  case (Pair b x)
  obtain u b1 where new: "bd_new_var 0 k (''minw_short_'' @ take 6 t @ ''_'' @ str_int h) b = (u, b1)"
    by (cases "bd_new_var 0 k (''minw_short_'' @ take 6 t @ ''_'' @ str_int h) b")
  show ?thesis
    unfolding Pair fst_conv using new by (intro appends_slack [OF new]) (auto simp: add_shortfall_def Let_def bd_add_def)
qed

lemma appends_overtime: "appends b (fst (add_overtime p m mh (b, x)))"
proof (cases "shifts_of_member b m = []")
  case False
  let ?cap = "scaled (week_cap p (mm_emp_type (sf_member (hd (shifts_of_member b m))))) vol_scale"
  obtain u b1 where new: "bd_new_var 0 (max 0 (?cap - scaled mh vol_scale)) (''maxh_over_'' @ take 6 m) b = (u, b1)"
    by (cases "bd_new_var 0 (max 0 (?cap - scaled mh vol_scale)) (''maxh_over_'' @ take 6 m) b")
  show ?thesis
    using False new by (intro appends_slack [OF new]) (auto simp: add_overtime_def Let_def bd_add_def)
qed (simp add: add_overtime_def appending.rel_refl)

lemma appends_fold_pair: "(\<And>a bx. appends (fst bx) (fst (f a bx))) \<Longrightarrow> appends (fst bx) (fst (fold f xs bx))"
proof (induction xs arbitrary: bx)
  case (Cons a xs)
  have "appends (fst bx) (fst (f a bx))" by (rule Cons.prems)
  moreover have "appends (fst (f a bx)) (fst (fold f xs (f a bx)))" by (rule Cons.IH) (rule Cons.prems)
  ultimately show ?case by (simp add: appending.rel_trans)
qed (simp add: appending.rel_refl)

lemma appends_override: "add_override ord p d ov (b, x) = Inr bx \<Longrightarrow> appends b (fst bx)"
proof (cases ov)
  case (MinWorkers t n)
  assume "add_override ord p d ov (b, x) = Inr bx"
  then obtain k where "bx = fold (add_shortfall t k) (demand_hours ord d t) (b, x)"
    using MinWorkers by (auto simp: add_override_def split: option.splits)
  then show ?thesis
    using appends_fold_pair [of "add_shortfall t k" "(b, x)" "demand_hours ord d t"] appends_shortfall by simp
next
  case (LockShift m day)
  assume *: "add_override ord p d ov (b, x) = Inr bx"
  obtain u b1 where new: "bd_new_var 0 1 (''lock_absent_'' @ take 6 m @ ''_'' @ str_int day) b = (u, b1)"
    by (cases "bd_new_var 0 1 (''lock_absent_'' @ take 6 m @ ''_'' @ str_int day) b")
  show ?thesis
    using * new LockShift by (intro appends_slack [OF new]) (auto simp: add_override_def Let_def bd_add_def)
next
  case (MaxHours m mh)
  assume "add_override ord p d ov (b, x) = Inr bx"
  then show ?thesis
    using MaxHours appends_overtime [of b p m] by (auto simp: add_override_def split: option.splits)
qed (auto simp: add_override_def appending.rel_refl)

lemma appends_overrides: "add_overrides ord p d ovs (b, x) = Inr bx \<Longrightarrow> appends b (fst bx)"
proof (induction ovs arbitrary: b x)
  case (Cons ov ovs)
  then obtain b' x' where "add_override ord p d ov (b, x) = Inr (b', x')" "add_overrides ord p d ovs (b', x') = Inr bx"
    by (auto dest!: and_also_InrD)
  then show ?case using Cons.IH appends_override [of ord p d ov b x "(b', x')"] by (auto intro: appending.rel_trans)
qed (auto simp: appending.rel_refl)

text \<open>A solution of a finished model keeps the rules, whatever the inputs are.\<close>

lemma built_model_solutions:
  assumes "build_model ord p ovs = Inr bm"
  shows "\<exists>d. candidates_inv (set (candidates ord p d)) (candidate_model ord p d)
      \<and> same_choice (candidate_model ord p d) (bm_builder bm)
      \<and> (\<forall>x. satisfies x (bu_model (bm_builder bm)) \<longrightarrow> roster_ok p (bm_builder bm) x)"
proof -
  obtain fs b x where over: "add_overrides ord p (aggregate_demand p fs) ovs
      (add_coverage_constraints (aggregate_demand p fs)
        (capped_model p (candidate_model ord p (aggregate_demand p fs))), no_soft_terms) = Inr (b, x)"
    and b: "bm_builder bm = b"
    using assms by (auto simp: build_model_def Let_def candidate_model_def capped_model_eq dest!: and_also_InrD split: prod.splits)
  let ?d = "aggregate_demand p fs"
  let ?b1 = "candidate_model ord p ?d"
  have cov: "appends b' (add_coverage_constraints ?d b')" for b'
    unfolding add_coverage_constraints_def
    by (rule appending.rel_trans [OF appends_fold appends_fold]) (rule appends_volume, rule appends_headcount)
  have late: "appends (capped_model p ?b1) b"
    using appending.rel_trans [OF cov appends_overrides [OF over]] by simp
  have "appends ?b1 (capped_model p ?b1)"
    unfolding capped_model_def windows_model_def
    by (rule appending.rel_trans [OF appends_fold appends_fold]) (rule appends_window, rule appends_member)
  from appending.rel_trans [OF this late] have same: "same_choice ?b1 b" by (simp add: appends_def)
  note inv = candidate_model_inv [of ord p ?d]
  have "roster_ok p b y" if "satisfies y (bu_model b)" for y
    using solution_choice [OF inv _ that [folded solves_def], where p = p] late choice_ok_iff [OF inv] roster_ok_same [OF same]
    by (simp add: appends_def)
  then show ?thesis using inv same b by blast
qed

section \<open>The two rounds\<close>

text \<open>What a result with a solution says: its values satisfy the model, its unmet demand is at most that of
  round one, its cost is the reported one, and no solution with that little unmet demand is cheaper
  when the status is \<open>OPTIMAL\<close>.\<close>

definition lex_sound :: "built_model \<Rightarrow> 'x lex_result_scheme \<Rightarrow> bool" where
  "lex_sound bm r \<longleftrightarrow> (\<forall>v1. lx_round1_value r = Some v1 \<longrightarrow>
     (\<exists>x. (\<forall>v. lex_value r v = value_of x v) \<and> satisfies x (bu_model (bm_builder bm))
        \<and> of_int (eval_expr x (bm_round1 bm)) \<le> v1
        \<and> lx_round2_value r = Some (of_int (eval_expr x (bm_round2 bm)))))"

definition cost_least :: "built_model \<Rightarrow> 'x lex_result_scheme \<Rightarrow> bool" where
  "cost_least bm r \<longleftrightarrow> (lx_status r = OPTIMAL \<longrightarrow> (\<forall>v1 v2 y. lx_round1_value r = Some v1 \<longrightarrow> lx_round2_value r = Some v2
     \<longrightarrow> satisfies y (bu_model (bm_builder bm)) \<longrightarrow> of_int (eval_expr y (bm_round1 bm)) \<le> v1
     \<longrightarrow> v2 \<le> of_int (eval_expr y (bm_round2 bm))))"

lemma solver_soundD:
  assumes "solver_sound solve" and "solved (an_status (solve m e ps))"
  shows "satisfies (valuation_of (an_solution (solve m e ps))) m"
    and "an_objective (solve m e ps) = of_int (eval_expr (valuation_of (an_solution (solve m e ps))) e)"
  using assms unfolding solver_sound_def by blast+

lemma snapshot_sound:
  assumes "solver_sound solve" and "r1 = solve (bu_model (bm_builder bm)) (bm_round1 bm) ps" and "solved (an_status r1)"
    and "lx_round1_value r = Some (an_objective r1)" and "lx_snapshot r = Some (an_solution r1)"
    and "lx_round2_value r = Some (of_int (eval_expr (valuation_of (an_solution r1)) (bm_round2 bm)))"
  shows "lex_sound bm r"
  using assms(2-6) solver_soundD [OF assms(1), of "bu_model (bm_builder bm)" "bm_round1 bm" ps]
  by (auto simp: lex_sound_def lex_value_def)

lemma round_two_sound:
  assumes sound: "solver_sound solve" and r1: "r1 = solve (bu_model (bm_builder bm)) (bm_round1 bm) ps" "solved (an_status r1)"
    and r2: "r2 = solve (lock_round1 (bm_round1 bm) (an_objective r1) (bu_model (bm_builder bm))) (bm_round2 bm) qs"
    and r: "lx_status r = lx_status (round_two_result (bm_round2 bm) r1 r2)"
      "lx_solution r = lx_solution (round_two_result (bm_round2 bm) r1 r2)"
      "lx_round1_value r = lx_round1_value (round_two_result (bm_round2 bm) r1 r2)"
      "lx_round2_value r = lx_round2_value (round_two_result (bm_round2 bm) r1 r2)"
      "lx_snapshot r = lx_snapshot (round_two_result (bm_round2 bm) r1 r2)"
  shows "lex_sound bm r" and "solver_optimal solve \<Longrightarrow> cost_least bm r"
proof -
  let ?m = "bu_model (bm_builder bm)"
  have v1: "an_objective r1 = of_int (eval_expr (valuation_of (an_solution r1)) (bm_round1 bm))"
    using solver_soundD(2) [OF sound, of ?m "bm_round1 bm" ps] r1 by simp
  have locked: "satisfies x (lock_round1 (bm_round1 bm) (an_objective r1) ?m) \<longleftrightarrow>
      satisfies x ?m \<and> of_int (eval_expr x (bm_round1 bm)) \<le> an_objective r1" for x
    by (simp add: lock_round1_def satisfies_add_constraint v1)
  show "lex_sound bm r"
  proof (cases "solved (an_status r2)")
    case True
    have "satisfies (valuation_of (an_solution r2)) (lock_round1 (bm_round1 bm) (an_objective r1) ?m)"
      "an_objective r2 = of_int (eval_expr (valuation_of (an_solution r2)) (bm_round2 bm))"
      using solver_soundD [OF sound] True unfolding r2 by blast+
    then show ?thesis
      using r True by (auto simp: lex_sound_def lex_value_def round_two_result_def locked)
  next
    case False
    show ?thesis
      by (rule snapshot_sound [OF sound r1]) (use r False in \<open>simp_all add: round_two_result_def\<close>)
  qed
  show "cost_least bm r" if opt: "solver_optimal solve"
    unfolding cost_least_def
  proof (intro impI allI)
    fix u1 u2 y
    assume status: "lx_status r = OPTIMAL" and u: "lx_round1_value r = Some u1" "lx_round2_value r = Some u2"
      and y: "satisfies y ?m" "of_int (eval_expr y (bm_round1 bm)) \<le> u1"
    have ans: "an_status r2 = OPTIMAL" using status r by (simp add: round_two_result_def split: if_splits)
    then have vals: "u1 = an_objective r1" "u2 = an_objective r2"
      using u r by (simp_all add: round_two_result_def solved_def)
    have "satisfies y (lock_round1 (bm_round1 bm) (an_objective r1) ?m)" using y by (simp add: locked vals)
    then show "u2 \<le> of_int (eval_expr y (bm_round2 bm))"
      using opt ans unfolding vals r2 solver_optimal_def by blast
  qed
qed

lemma governed_simps [simp]:
  "lx_status (governed r w e) = lx_status r" "lx_solution (governed r w e) = lx_solution r"
  "lx_round1_value (governed r w e) = lx_round1_value r" "lx_round2_value (governed r w e) = lx_round2_value r"
  "lx_snapshot (governed r w e) = lx_snapshot r"
  by (simp_all add: governed_def lex_result.defs)

lemma no_solution_sound: "lx_round1_value r = None \<Longrightarrow> lex_sound bm r" "lx_round1_value r = None \<Longrightarrow> cost_least bm r"
  by (simp_all add: lex_sound_def cost_least_def)

lemma governed_rounds_sound:
  assumes sound: "solver_sound solve"
  shows "lex_sound bm (solve_lexicographic_governed solve clock config det bm)"
    and "solver_optimal solve \<Longrightarrow> cost_least bm (solve_lexicographic_governed solve clock config det bm)"
proof -
  let ?m = "bu_model (bm_builder bm)" and ?r = "solve_lexicographic_governed solve clock config det bm"
  let ?elapsed = "\<lambda>k. clock k - clock 0"
  have "lex_sound bm ?r \<and> (solver_optimal solve \<longrightarrow> cost_least bm ?r)"
  proof (cases "remaining_budget config det (?elapsed 1) 0")
    case (Inl c)
    then show ?thesis by (simp add: solve_lexicographic_governed_def Let_def no_solution_sound no_solution_def)
  next
    case (Inr budget)
    let ?ps = "governed_parameters config budget None"
    let ?r1 = "solve ?m (bm_round1 bm) ?ps"
    show ?thesis
    proof (cases "solved (an_status ?r1)")
      case False
      then show ?thesis
        using Inr by (simp add: solve_lexicographic_governed_def Let_def no_solution_sound no_solution_def)
    next
      case True
      show ?thesis
      proof (cases "remaining_budget config det (?elapsed 2) (an_deterministic_time ?r1)")
        case (Inl c)
        then have "lex_sound bm ?r"
          using Inr True
          by (intro snapshot_sound [OF sound refl True]) (simp_all add: solve_lexicographic_governed_def Let_def)
        moreover have "lx_status ?r = UNKNOWN"
          using Inr Inl True by (simp add: solve_lexicographic_governed_def Let_def)
        ultimately show ?thesis by (simp add: cost_least_def)
      next
        case (Inr budget2)
        let ?m2 = "lock_round1 (bm_round1 bm) (an_objective ?r1) ?m"
        let ?qs = "governed_parameters config budget2 (seed_round_two_from_snapshot ?m2 (an_solution ?r1))"
        have "?r = governed (round_two_result (bm_round2 bm) ?r1 (solve ?m2 (bm_round2 bm) ?qs)) (?elapsed 3) None"
          using \<open>remaining_budget config det (?elapsed 1) 0 = Inr budget\<close> Inr True
          by (simp add: solve_lexicographic_governed_def Let_def)
        then show ?thesis using round_two_sound [OF sound refl True refl, of ?r ?qs] by simp
      qed
    qed
  qed
  then show "lex_sound bm ?r" and "solver_optimal solve \<Longrightarrow> cost_least bm ?r" by simp_all
qed

text \<open>
  C35. The second round never gives back coverage. When CP-SAT is sound, a governed run that returns a round-one
  value returns a roster that keeps the rules, with at most that much unmet demand, at exactly the cost it
  reports; and when its status is \<open>OPTIMAL\<close> no roster with that little unmet demand costs less. This holds for
  every budget and every reading of the clock, the fallback to round one included.
\<close>

theorem second_round_keeps_coverage:
  assumes "solver_sound solve" and "solver_optimal solve" and "build_model ord p ovs = Inr bm"
    and "solve_lexicographic_governed solve clock config det bm = r" and "lx_round1_value r = Some v1"
  shows "\<exists>x. (\<forall>v. lex_value r v = value_of x v) \<and> roster_ok p (bm_builder bm) x
    \<and> of_int (eval_expr x (bm_round1 bm)) \<le> v1 \<and> lx_round2_value r = Some (of_int (eval_expr x (bm_round2 bm)))
    \<and> (lx_status r = OPTIMAL \<longrightarrow> (\<forall>y. satisfies y (bu_model (bm_builder bm)) \<longrightarrow> of_int (eval_expr y (bm_round1 bm)) \<le> v1
         \<longrightarrow> eval_expr x (bm_round2 bm) \<le> eval_expr y (bm_round2 bm)))"
proof -
  have "lex_sound bm r" and least: "cost_least bm r"
    using governed_rounds_sound [OF assms(1)] assms(2,4) by auto
  then obtain x where x: "\<forall>v. lex_value r v = value_of x v" "satisfies x (bu_model (bm_builder bm))"
      "of_int (eval_expr x (bm_round1 bm)) \<le> v1" "lx_round2_value r = Some (of_int (eval_expr x (bm_round2 bm)))"
    using assms(5) by (auto simp: lex_sound_def)
  moreover have "roster_ok p (bm_builder bm) x" using built_model_solutions [OF assms(3)] x(2) by blast
  moreover have "eval_expr x (bm_round2 bm) \<le> eval_expr y (bm_round2 bm)"
    if "lx_status r = OPTIMAL" "satisfies y (bu_model (bm_builder bm))" "of_int (eval_expr y (bm_round1 bm)) \<le> v1" for y
    using least that assms(5) x(4) by (simp add: cost_least_def)
  ultimately show ?thesis by blast
qed

text \<open>A problem small enough for the solver that tries all values.\<close>

definition demo_config :: solver_config_v1 where
  "demo_config = \<lparr>sc_engine_name = ''cpsat'', sc_seed = 42, sc_num_search_workers = 8, sc_max_deterministic_time = 30,
     sc_wall_time_limit_seconds = 30\<rparr>"

definition tiny_problem :: scheduling_problem where
  "tiny_problem = \<lparr>sp_horizon_h = 24,
     sp_members = [\<lparr>mm_contact_id = ''W1'', mm_name = ''Ana'', mm_emp_type = ''Casual'', mm_grade_id = ''g'', mm_eba_id = ''e'',
       mm_contracted_hours = 38, mm_wage_per_hour = 40,
       mm_windows = [\<lparr>wn_id = ''ava0'', wn_start_h = 6, wn_end_h = 10, wn_kind = Availability\<rparr>],
       mm_qualifications = [\<lparr>ql_task_id = ''Desk'', ql_rate = 10\<rparr>]\<rparr>],
     sp_tasks = [\<lparr>ta_task_id = ''Desk'', ta_name = ''Desk'', ta_function = ''Office'', ta_area_id = ''A'', ta_unit_id = None\<rparr>],
     sp_templates = [\<lparr>tp_id = ''half'', tp_name = ''Half'', tp_length_h = 4, tp_breaks = []\<rparr>],
     sp_demand = [\<lparr>db_task_id = ''Desk'', db_family = Indirect, db_start_h = 6, db_end_h = 7, db_amount = 1, db_order_id = ''IND0''\<rparr>],
     sp_max_hours_per_week = [], sp_max_shifts_per_day = []\<rparr>"

lemma tiny_run:
  "case build_model demo_order tiny_problem [] of Inl _ \<Rightarrow> False | Inr bm \<Rightarrow>
     (let r = solve_lexicographic_governed exhaustive_solver (\<lambda>_. 0) demo_config True bm in
      lx_status r = OPTIMAL \<and> lx_round1_value r = Some 0 \<and> lx_round2_value r = Some 16000)"
  by code_simp

theorem second_round_keeps_coverage_witness:
  "\<exists>bm x. build_model demo_order tiny_problem [] = Inr bm \<and> roster_ok tiny_problem (bm_builder bm) x
     \<and> eval_expr x (bm_round1 bm) \<le> 0 \<and> eval_expr x (bm_round2 bm) = 16000
     \<and> (\<forall>y. satisfies y (bu_model (bm_builder bm)) \<longrightarrow> eval_expr y (bm_round1 bm) \<le> 0 \<longrightarrow> 16000 \<le> eval_expr y (bm_round2 bm))"
proof -
  obtain bm where bm: "build_model demo_order tiny_problem [] = Inr bm" using tiny_run by (auto split: sum.splits)
  define r where "r = solve_lexicographic_governed exhaustive_solver (\<lambda>_. 0) demo_config True bm"
  have r: "lx_status r = OPTIMAL" "lx_round1_value r = Some 0" "lx_round2_value r = Some 16000"
    using tiny_run by (simp_all add: bm r_def Let_def)
  show ?thesis
    using second_round_keeps_coverage [OF exhaustive_solver_sound exhaustive_solver_optimal bm r_def [symmetric] r(2)] r bm by auto
qed

end
