(* ===== verification/Solver_Gate.thy ===== *)
theory Solver_Gate
  imports Solve_Guarantees
begin

text \<open>
  The engine and the independent gate agree: on inputs whose times lie on a grid that both hours and
  minutes represent exactly, what the governed adapter returns passes \<open>require_hard_constraints\<close>.
\<close>

section \<open>Times both units represent\<close>

text \<open>Multiples of three minutes are whole minutes, and have at most two decimals in hours.\<close>

definition tick :: "rat \<Rightarrow> bool" where
  "tick x \<longleftrightarrow> of_int \<lfloor>x * 20\<rfloor> = x * 20"

lemma tickI: "x = of_int k / 20 \<Longrightarrow> tick x"
  by (simp add: tick_def)

lemma tickE:
  assumes "tick x" obtains k :: int where "x = of_int k / 20"
proof
  show "x = of_int \<lfloor>x * 20\<rfloor> / 20" using assms unfolding tick_def by linarith
qed

lemma tick_of_int [simp]: "tick (of_int k)"
  by (rule tickI [of _ "20 * k"]) simp

lemma tick_numeral [simp]: "tick (numeral n)" "tick 0" "tick 1"
  using tick_of_int [of "numeral n"] tick_of_int [of 0] tick_of_int [of 1] by simp_all

lemma tick_add:
  assumes "tick x" and "tick y" shows "tick (x + y)"
proof -
  obtain k l where "x = of_int k / 20" "y = of_int l / 20" using assms by (elim tickE)
  then show ?thesis by (intro tickI [of _ "k + l"]) (simp add: add_divide_distrib)
qed

lemma tick_diff:
  assumes "tick x" and "tick y" shows "tick (x - y)"
proof -
  obtain k l where "x = of_int k / 20" "y = of_int l / 20" using assms by (elim tickE)
  then show ?thesis by (intro tickI [of _ "k - l"]) (simp add: diff_divide_distrib)
qed

lemma tick_max: "tick x \<Longrightarrow> tick y \<Longrightarrow> tick (max x y)"
  by (simp add: max_def)

lemma tick_sum: "(\<And>a. a \<in> set as \<Longrightarrow> tick (f a)) \<Longrightarrow> tick (\<Sum>a \<leftarrow> as. f a)"
  by (induction as) (auto intro: tick_add)

lemma minutes_exact: assumes "tick x" shows "of_int (hours_to_minutes x) = x * 60"
proof -
  obtain k where "x = of_int k / 20" using assms by (rule tickE)
  then have x: "x * 60 = of_int (3 * k)" by simp
  show ?thesis unfolding hours_to_minutes_def x py_round_of_int by simp
qed

lemma hundredths_exact: assumes "tick x" shows "of_int (scaled x vol_scale) = x * 100"
proof -
  obtain k where "x = of_int k / 20" using assms by (rule tickE)
  then have x: "x * of_int vol_scale = of_int (5 * k)" by (simp add: vol_scale_def)
  show ?thesis unfolding scaled_def x py_round_of_int using x by (simp add: vol_scale_def)
qed

lemma round4_exact: assumes "tick x" shows "round4 x = x"
proof -
  obtain k where "x = of_int k / 20" using assms by (rule tickE)
  then have x: "x * 10000 = of_int (500 * k)" by simp
  show ?thesis unfolding round4_def x py_round_of_int using x by simp
qed

lemma minutes_mono: "x \<le> y \<Longrightarrow> hours_to_minutes x \<le> hours_to_minutes y"
  by (simp add: hours_to_minutes_def py_round_mono)

lemma minutes_le: "tick x \<Longrightarrow> tick y \<Longrightarrow> hours_to_minutes x \<le> hours_to_minutes y \<longleftrightarrow> x \<le> y"
proof -
  assume "tick x" "tick y"
  then have "hours_to_minutes x \<le> hours_to_minutes y \<longleftrightarrow> x * 60 \<le> y * 60"
    by (simp only: minutes_exact [symmetric] of_int_le_iff)
  then show ?thesis by simp
qed

lemma minutes_add: "tick x \<Longrightarrow> tick y \<Longrightarrow> hours_to_minutes (x + y) = hours_to_minutes x + hours_to_minutes y"
proof -
  assume "tick x" "tick y"
  then have "(of_int (hours_to_minutes (x + y)) :: rat) = of_int (hours_to_minutes x + hours_to_minutes y)"
    by (simp add: minutes_exact tick_add algebra_simps)
  then show ?thesis by (simp only: of_int_eq_iff)
qed

lemma minutes_day: "tick x \<Longrightarrow> hours_to_minutes x div 1440 = \<lfloor>x / 24\<rfloor>"
proof -
  assume "tick x"
  then have "x / 24 = of_int (hours_to_minutes x) / of_int 1440" by (simp add: minutes_exact)
  then show ?thesis by (simp only: floor_divide_of_int_eq)
qed

definition exact_times :: "scheduling_problem \<Rightarrow> bool" where
  "exact_times p \<longleftrightarrow> (\<forall>m \<in> set (sp_members p). \<forall>w \<in> set (mm_windows m). tick (wn_start_h w) \<and> tick (wn_end_h w))
     \<and> (\<forall>t \<in> set (sp_templates p). 0 < tp_length_h t \<and> tick (tp_length_h t)
          \<and> (\<forall>b \<in> set (tp_breaks t). 0 \<le> bk_duration_h b \<and> tick (bk_start_offset_h b) \<and> tick (bk_duration_h b)))
     \<and> (\<forall>(_, c) \<in> set (sp_max_hours_per_week p). tick c)"

text \<open>Contact ids differ, and the parts of a shift name can be told apart.\<close>

definition proper_ids :: "scheduling_problem \<Rightarrow> bool" where
  "proper_ids p \<longleftrightarrow> distinct (map mm_contact_id (sp_members p))
     \<and> (\<forall>m \<in> set (sp_members p). CHR ''_'' \<notin> set (take 6 (mm_contact_id m)) \<and> (\<forall>w \<in> set (mm_windows m). CHR ''_'' \<notin> set (wn_id w)))"

section \<open>Candidate shifts on the grid\<close>

lemma candidate_fields:
  assumes "c \<in> set (candidates ord p d)"
  shows "ca_member c \<in> set (sp_members p)" "ca_window c \<in> set (mm_windows (ca_member c))"
    "ca_template c \<in> set (sp_templates p)" "ca_quals c = qual_ids ord d (ca_member c)"
    "\<exists>starts. candidate_starts (ca_window c) (ca_template c) = Some starts \<and> ca_start c \<in> set starts"
  using assms by (auto simp: candidates_def member_candidates_def Let_def get_or_def split: if_splits option.splits dest: sym)

lemma tick_grid: "x \<in> set (grid_points shift_start_grid_h latest (of_int k * shift_start_grid_h)) \<Longrightarrow> tick x"
proof -
  assume "x \<in> set (grid_points shift_start_grid_h latest (of_int k * shift_start_grid_h))"
  then obtain i :: nat where "x = of_int (k + int i)" by (auto simp: grid_points_def shift_start_grid_h_def)
  then show ?thesis by (simp only: tick_of_int)
qed

lemma tick_start:
  assumes "candidate_starts w t = Some starts" and "s \<in> set starts" and "tick (wn_start_h w)" "tick (wn_end_h w)" "tick (tp_length_h t)"
  shows "tick s"
proof -
  let ?latest = "wn_end_h w - tp_length_h t"
  let ?pts = "grid_points shift_start_grid_h ?latest (of_int \<lceil>wn_start_h w / shift_start_grid_h\<rceil> * shift_start_grid_h)"
  let ?first = "wn_start_h w # map round4 (filter (\<lambda>x. x > wn_start_h w + tolerance) ?pts)"
  have latest: "tick ?latest" by (rule tick_diff [OF assms(4,5)])
  have "0 < shift_start_grid_h" by (simp add: shift_start_grid_h_def)
  then have "starts = [] \<or> starts = start_choices w ?latest ?first"
    using assms(1) by (simp add: candidate_starts_def Let_def scan_grid_returns split: if_splits)
  then have "s \<in> set (start_choices w ?latest ?first)" using assms(2) by auto
  then obtain u where s: "s = round4 u" and u: "u \<in> set ?first \<or> u = round4 ?latest"
    by (auto simp: start_choices_def Let_def dest!: in_set_takeD split: if_splits)
  have "tick u"
    using u assms(3) latest tick_grid [of _ ?latest "\<lceil>wn_start_h w / shift_start_grid_h\<rceil>"] by (auto simp: round4_exact)
  then show ?thesis by (simp add: s round4_exact)
qed

text \<open>A candidate shift as the rules see it.\<close>

definition grid_shift :: "scheduling_problem \<Rightarrow> shift_var \<Rightarrow> bool" where
  "grid_shift p sf \<longleftrightarrow> sf_member sf \<in> set (sp_members p) \<and> sf_window sf \<in> set (mm_windows (sf_member sf))
     \<and> sf_template sf \<in> set (sp_templates p) \<and> tick (sf_start_h sf) \<and> tick (sf_end_h sf) \<and> tick (sf_eff_h sf)
     \<and> sf_start_h sf < sf_end_h sf \<and> sf_end_h sf = sf_start_h sf + tp_length_h (sf_template sf)
     \<and> sf_slots sf = shift_slots (sf_start_h sf) (sf_template sf)
     \<and> (\<exists>t n. iv_name (sf_var sf) = ''shift_'' @ take 6 (mm_contact_id (sf_member sf)) @ ''_'' @ wn_id (sf_window sf) @ ''_'' @ t @ ''_'' @ n)"

lemma candidate_grid_shift:
  assumes "exact_times p" and "c \<in> set (candidates ord p d)" and "is_candidate c sf"
  shows "grid_shift p sf"
proof -
  note f = candidate_fields [OF assms(2)]
  have tpl: "0 < tp_length_h (ca_template c)" "tick (tp_length_h (ca_template c))"
    "\<And>b. b \<in> set (tp_breaks (ca_template c)) \<Longrightarrow> tick (bk_duration_h b)"
    using assms(1) f(3) by (auto simp: exact_times_def)
  have win: "tick (wn_start_h (ca_window c))" "tick (wn_end_h (ca_window c))" using assms(1) f(1,2) by (auto simp: exact_times_def)
  have start: "tick (ca_start c)" using f(5) tick_start win tpl(2) by blast
  have eff: "tick (effective_h (ca_template c))"
    unfolding effective_h_def unpaid_break_h_def
    by (intro tick_max tick_diff tick_sum tpl(2) tick_numeral) (simp add: tpl(3))
  show ?thesis
    using assms(3) f start eff tpl tick_add [OF start tpl(2)]
    unfolding grid_shift_def is_candidate_def shift_name_def by auto
qed

section \<open>Tasks inside their shifts\<close>

lemma sorted_wrt_concat:
  assumes "sorted_wrt R (concat gs)" and "i < j" "j < length gs" and "x \<in> set (gs ! i)" "y \<in> set (gs ! j)"
  shows "R x y"
proof -
  have "concat gs = concat (take j gs) @ concat (drop j gs)"
    by (simp add: concat_append [symmetric] del: concat_append)
  then have all: "\<forall>x \<in> set (concat (take j gs)). \<forall>y \<in> set (concat (drop j gs)). R x y"
    using assms(1) by (simp only: sorted_wrt_append) blast
  have "gs ! i \<in> set (take j gs)" using assms(2,3) by (auto simp: in_set_conv_nth intro!: exI [of _ i])
  then have "x \<in> set (concat (take j gs))" using assms(4) by auto
  moreover have "gs ! j \<in> set (drop j gs)" using assms(3) by (auto simp: in_set_conv_nth intro!: exI [of _ 0])
  then have "y \<in> set (concat (drop j gs))" using assms(5) by auto
  ultimately show ?thesis using all by blast
qed

definition tick_ends :: "interval list \<Rightarrow> bool" where
  "tick_ends segs \<longleftrightarrow> (\<forall>i \<in> set segs. tick (fst i) \<and> tick (snd i))"

lemma cut_hole_tick: "tick (fst h) \<Longrightarrow> tick (snd h) \<Longrightarrow> tick_ends segs \<Longrightarrow> tick_ends (cut_hole h segs)"
  by (auto simp: tick_ends_def cut_hole_def cut_segment_def split: if_splits)

lemma fold_cut_hole_tick: "tick_ends holes \<Longrightarrow> tick_ends segs \<Longrightarrow> tick_ends (fold cut_hole holes segs)"
proof (induction holes arbitrary: segs)
  case (Cons h holes)
  then show ?case by (simp add: tick_ends_def [of "h # holes"] cut_hole_tick tick_ends_def [of holes])
qed simp

lemma working_grid:
  assumes "exact_times p" and "t \<in> set (sp_templates p)" and "tick s"
  shows "ordered_within (s, s + tp_length_h t) (working_intervals s t)" and "tick_ends (working_intervals s t)"
proof -
  have t: "0 < tp_length_h t" "tick (tp_length_h t)" and b: "\<And>b. b \<in> set (tp_breaks t) \<Longrightarrow>
      0 \<le> bk_duration_h b \<and> tick (bk_start_offset_h b) \<and> tick (bk_duration_h b)"
    using assms(1,2) by (auto simp: exact_times_def)
  show "ordered_within (s, s + tp_length_h t) (working_intervals s t)"
    unfolding working_intervals_def by (rule subtract_ordered) (use t b in \<open>auto simp: break_holes_def\<close>)
  have "tick_ends (sort (break_holes s t))"
    using b assms(3) by (auto simp: tick_ends_def break_holes_def intro!: tick_add)
  moreover have "tick_ends [(s, s + tp_length_h t)]" using assms(3) t(2) by (simp add: tick_ends_def tick_add)
  ultimately have "tick_ends (fold cut_hole (sort (break_holes s t)) [(s, s + tp_length_h t)])" by (rule fold_cut_hole_tick)
  then show "tick_ends (working_intervals s t)" by (auto simp: working_intervals_def subtract_def tick_ends_def)
qed

lemma ordered_span:
  assumes "ordered_within base slot" and "slot \<noteq> []"
  shows "fst base \<le> fst (hd slot) \<and> fst (hd slot) < snd (last slot) \<and> snd (last slot) \<le> snd base"
proof (cases slot)
  case (Cons i rest)
  have i: "fst i < snd i" "fst base \<le> fst i" "\<forall>j \<in> set rest. snd i \<le> fst j" using assms(1) by (simp_all add: Cons ordered_within_Cons)
  have last: "last slot \<in> set slot" using assms(2) by simp
  then have "fst (last slot) < snd (last slot)" "snd (last slot) \<le> snd base" using assms(1) by (auto simp: ordered_within_def)
  moreover have "rest = [] \<or> snd i \<le> fst (last slot)" using i(3) last_in_set [of rest] by (auto simp: Cons)
  ultimately show ?thesis using i(1,2) by (cases "rest = []") (auto simp: Cons)
qed (use assms in simp)

text \<open>A task as the rules see it.\<close>

definition grid_task :: "task_var \<Rightarrow> bool" where
  "grid_task tv \<longleftrightarrow> tick (tv_start_h tv) \<and> tick (tv_end_h tv) \<and> tv_start_h tv < tv_end_h tv
     \<and> sf_start_h (tv_shift tv) \<le> tv_start_h tv \<and> tv_end_h tv \<le> sf_end_h (tv_shift tv)"

lemma slots_ordered:
  assumes "exact_times p" and "grid_shift p sf"
  shows "ordered_within (sf_start_h sf, sf_end_h sf) (concat (sf_slots sf))" and "tick_ends (concat (sf_slots sf))"
  using working_grid [OF assms(1), of "sf_template sf" "sf_start_h sf"] assms(2) split_into_slots_parts(1)
  by (simp_all add: grid_shift_def shift_slots_def)

lemma slot_task_grid:
  assumes "exact_times p" and "grid_shift p sf" and "is_slot_task quals sf tv"
  shows "grid_task tv" and "tv_task_id tv \<in> set quals"
proof -
  let ?slot = "sf_slots sf ! tv_slot_idx tv"
  have slot: "?slot \<noteq> []" "?slot \<in> set (sf_slots sf)" and tv: "tv_shift tv = sf" "tv_start_h tv = fst (hd ?slot)" "tv_end_h tv = snd (last ?slot)"
    using assms(3) by (auto simp: is_slot_task_def)
  have sub: "set ?slot \<subseteq> set (concat (sf_slots sf))" using slot(2) by auto
  obtain ps qs where "sf_slots sf = ps @ ?slot # qs" using slot(2) by (meson split_list)
  then have "concat (sf_slots sf) = concat ps @ ?slot @ concat qs" by (metis concat.simps(2) concat_append)
  then have "ordered_within (sf_start_h sf, sf_end_h sf) ?slot"
    using slots_ordered(1) [OF assms(1,2)] by (auto simp: ordered_within_def sorted_wrt_append)
  from ordered_span [OF this slot(1)] show "grid_task tv"
    using slots_ordered(2) [OF assms(1,2)] sub hd_in_set [OF slot(1)] last_in_set [OF slot(1)]
    by (auto simp: grid_task_def tv tick_ends_def)
  show "tv_task_id tv \<in> set quals" using assms(3) by (simp add: is_slot_task_def)
qed

lemma slot_tasks_apart:
  assumes "exact_times p" and "grid_shift p sf" and "is_slot_task quals sf tv" "is_slot_task quals' sf tv'"
    and "tv_slot_idx tv < tv_slot_idx tv'"
  shows "tv_end_h tv \<le> tv_start_h tv'"
proof -
  have "sorted_wrt (\<lambda>a b. snd a \<le> fst b) (concat (sf_slots sf))"
    using slots_ordered(1) [OF assms(1,2)] by (simp add: ordered_within_def)
  from sorted_wrt_concat [OF this assms(5)] assms(3,4) show ?thesis by (auto simp: is_slot_task_def)
qed

section \<open>Pairs\<close>

lemma sorted_wrt_not_both: "length (filter P xs) \<le> 1 \<longleftrightarrow> sorted_wrt (\<lambda>a b. \<not> (P a \<and> P b)) xs"
proof (induction xs)
  case (Cons x xs)
  show ?case
  proof (cases "P x")
    case True
    then have "length (filter P (x # xs)) \<le> 1 \<longleftrightarrow> (\<forall>y \<in> set xs. \<not> P y)" by (simp add: filter_empty_conv)
    moreover have "sorted_wrt (\<lambda>a b. \<not> (P a \<and> P b)) xs" if "\<forall>y \<in> set xs. \<not> P y"
      using that by (induction xs) auto
    ultimately show ?thesis using True by auto
  qed (use Cons in simp)
qed simp

lemma sorted_wrt_all: "sorted_wrt (\<lambda>a b. \<forall>k. R k a b) xs \<longleftrightarrow> (\<forall>k. sorted_wrt (R k) xs)"
  by (induction xs) auto

lemma sorted_wrt_both: "sorted_wrt (\<lambda>a b. R a b \<and> S a b) xs \<longleftrightarrow> sorted_wrt R xs \<and> sorted_wrt S xs"
  by (induction xs) auto

section \<open>A roster of the engine on the grid\<close>

definition engine_roster :: "scheduling_problem \<Rightarrow> builder \<Rightarrow> valuation \<Rightarrow> bool" where
  "engine_roster p b x \<longleftrightarrow> roster_ok p b x \<and> (\<forall>sf \<in> set (bu_shift_vars b). grid_shift p sf)
     \<and> (\<forall>tv \<in> set (bu_task_vars b). grid_task tv \<and> tv_shift tv \<in> set (bu_shift_vars b)
          \<and> tv_task_id tv \<in> ql_task_id ` set (mm_qualifications (sf_member (tv_shift tv))))
     \<and> (\<forall>tv \<in> set (bu_task_vars b). \<forall>tv' \<in> set (bu_task_vars b). tv_shift tv = tv_shift tv' \<longrightarrow> tv_slot_idx tv < tv_slot_idx tv'
          \<longrightarrow> tv_end_h tv \<le> tv_start_h tv')"

definition order_ok :: "set_order \<Rightarrow> bool" where
  "order_ok ord \<longleftrightarrow> (\<forall>xs. set (so_text ord xs) \<subseteq> set xs)"

lemma qual_ids_sub: "order_ok ord \<Longrightarrow> set (qual_ids ord d m) \<subseteq> ql_task_id ` set (mm_qualifications m)"
proof -
  assume "order_ok ord"
  then have "set (qual_ids ord d m) \<subseteq> set (remdups (filter (\<lambda>t. t \<in> demanded_tasks d) (map ql_task_id (mm_qualifications m))))"
    unfolding qual_ids_def order_ok_def by blast
  then show ?thesis by auto
qed

lemma built_engine_roster:
  assumes exact: "exact_times p" and ord: "order_ok ord" and inv: "candidates_inv (set (candidates ord p d)) b1"
    and same: "same_choice b1 b" and ok: "roster_ok p b x"
  shows "engine_roster p b x"
proof -
  have lists: "bu_shift_vars b = bu_shift_vars b1" "bu_task_vars b = bu_task_vars b1" using same by (simp_all add: same_choice_def)
  have shift: "grid_shift p sf \<and> (\<exists>c \<in> set (candidates ord p d). is_candidate c sf
      \<and> (\<forall>tv \<in> set (tasks_of b1 sf). is_slot_task (ca_quals c) sf tv))" if sf: "sf \<in> set (bu_shift_vars b1)" for sf
  proof -
    obtain c where "c \<in> set (candidates ord p d)" "is_candidate c sf" "\<forall>tv \<in> set (tasks_of b1 sf). is_slot_task (ca_quals c) sf tv"
      using inv sf unfolding candidates_inv_def by blast
    then show ?thesis using candidate_grid_shift [OF exact] by blast
  qed
  have task: "\<exists>c \<in> set (candidates ord p d). is_candidate c (tv_shift tv) \<and> is_slot_task (ca_quals c) (tv_shift tv) tv
      \<and> tv_shift tv \<in> set (bu_shift_vars b1)" if tv: "tv \<in> set (bu_task_vars b1)" for tv
  proof -
    have "tv_shift tv \<in> set (bu_shift_vars b1)" using inv tv by (simp add: candidates_inv_def)
    moreover have "tv \<in> set (tasks_of b1 (tv_shift tv))" using tv by (simp add: tasks_of_def)
    ultimately show ?thesis using shift by blast
  qed
  have "grid_task tv \<and> tv_shift tv \<in> set (bu_shift_vars b1) \<and> tv_task_id tv \<in> ql_task_id ` set (mm_qualifications (sf_member (tv_shift tv)))"
    if tv: "tv \<in> set (bu_task_vars b1)" for tv
  proof -
    obtain c where c: "c \<in> set (candidates ord p d)" "is_candidate c (tv_shift tv)" "is_slot_task (ca_quals c) (tv_shift tv) tv"
      "tv_shift tv \<in> set (bu_shift_vars b1)" using task [OF tv] by blast
    note slot = slot_task_grid [OF exact conjunct1 [OF shift [OF c(4)]] c(3)]
    have "set (ca_quals c) \<subseteq> ql_task_id ` set (mm_qualifications (sf_member (tv_shift tv)))"
      using candidate_fields(4) [OF c(1)] qual_ids_sub [OF ord] c(2) by (simp add: is_candidate_def)
    then show ?thesis using slot c(4) by blast
  qed
  moreover have "tv_end_h tv \<le> tv_start_h tv'"
    if tv: "tv \<in> set (bu_task_vars b1)" "tv' \<in> set (bu_task_vars b1)" "tv_shift tv = tv_shift tv'" "tv_slot_idx tv < tv_slot_idx tv'" for tv tv'
  proof -
    obtain c :: candidate where c: "is_slot_task (ca_quals c) (tv_shift tv) tv" "tv_shift tv \<in> set (bu_shift_vars b1)"
      using task [OF tv(1)] by blast
    obtain c' :: candidate where c': "is_slot_task (ca_quals c') (tv_shift tv) tv'" using task [OF tv(2)] tv(3) by auto
    show ?thesis by (rule slot_tasks_apart [OF exact conjunct1 [OF shift [OF c(2)]] c(1) c' tv(4)])
  qed
  ultimately show ?thesis using ok shift unfolding engine_roster_def lists by blast
qed

section \<open>Names\<close>

lemma split_at_mark:
  "xs @ c # xs' = ys @ c # ys' \<Longrightarrow> c \<notin> set xs \<Longrightarrow> c \<notin> set ys \<Longrightarrow> xs = ys \<and> xs' = ys'"
proof (induction xs arbitrary: ys)
  case Nil
  then show ?case by (cases ys) auto
next
  case (Cons a xs)
  then show ?case by (cases ys) auto
qed

lemma shift_name_window:
  assumes "proper_ids p" and "grid_shift p s" "grid_shift p t" and "iv_name (sf_var s) = iv_name (sf_var t)"
  shows "wn_id (sf_window s) = wn_id (sf_window t)"
proof -
  have ids: "CHR ''_'' \<notin> set (take 6 (mm_contact_id (sf_member u)))" "CHR ''_'' \<notin> set (wn_id (sf_window u))"
    if "grid_shift p u" for u
    using assms(1) that by (auto simp: proper_ids_def grid_shift_def)
  have name: "\<exists>r. iv_name (sf_var u) = ''shift_'' @ take 6 (mm_contact_id (sf_member u)) @ CHR ''_'' # wn_id (sf_window u) @ CHR ''_'' # r"
    if "grid_shift p u" for u
    using that by (auto simp: grid_shift_def)
  obtain r r' where "iv_name (sf_var s) = ''shift_'' @ take 6 (mm_contact_id (sf_member s)) @ CHR ''_'' # wn_id (sf_window s) @ CHR ''_'' # r"
    "iv_name (sf_var t) = ''shift_'' @ take 6 (mm_contact_id (sf_member t)) @ CHR ''_'' # wn_id (sf_window t) @ CHR ''_'' # r'"
    using name [OF assms(2)] name [OF assms(3)] by blast
  then have "take 6 (mm_contact_id (sf_member s)) @ CHR ''_'' # wn_id (sf_window s) @ CHR ''_'' # r
      = take 6 (mm_contact_id (sf_member t)) @ CHR ''_'' # wn_id (sf_window t) @ CHR ''_'' # r'"
    using assms(4) by simp
  from conjunct2 [OF split_at_mark [OF this ids(1) [OF assms(2)] ids(1) [OF assms(3)]]]
  have "wn_id (sf_window s) @ CHR ''_'' # r = wn_id (sf_window t) @ CHR ''_'' # r'" .
  from split_at_mark [OF this ids(2) [OF assms(2)] ids(2) [OF assms(3)]] show ?thesis by simp
qed

lemma chosen_distinct_windows:
  assumes "roster_ok p b x"
  shows "sorted_wrt (\<lambda>s t. wn_id (sf_window s) \<noteq> wn_id (sf_window t)) (chosen_shifts b x)"
proof -
  have "sorted_wrt (\<lambda>s t. \<forall>k. \<not> (wn_id (sf_window s) = k \<and> wn_id (sf_window t) = k)) (chosen_shifts b x)"
    unfolding sorted_wrt_all sorted_wrt_not_both [symmetric] using assms by (simp add: roster_ok_def)
  then show ?thesis by (rule sorted_wrt_mono_rel [rotated]) simp
qed

lemma sorted_wrt_neq_eq:
  "sorted_wrt (\<lambda>s t. f s \<noteq> f t) xs \<Longrightarrow> a \<in> set xs \<Longrightarrow> c \<in> set xs \<Longrightarrow> f a = f c \<Longrightarrow> a = c"
  by (induction xs) auto

lemma sorted_wrt_neq_distinct: "sorted_wrt (\<lambda>s t. f s \<noteq> f t) xs \<longleftrightarrow> distinct (map f xs)"
  by (induction xs) auto

lemma chosen_by_name:
  assumes "proper_ids p" and "engine_roster p b x" and "s \<in> set (chosen_shifts b x)" "t \<in> set (chosen_shifts b x)"
    and "iv_name (sf_var s) = iv_name (sf_var t)"
  shows "s = t"
proof (rule sorted_wrt_neq_eq [OF chosen_distinct_windows])
  show "roster_ok p b x" using assms(2) by (simp add: engine_roster_def)
  have "grid_shift p s" "grid_shift p t" using assms(2-4) by (auto simp: engine_roster_def chosen_shifts_def)
  then show "wn_id (sf_window s) = wn_id (sf_window t)" using shift_name_window [OF assms(1)] assms(5) by blast
qed (use assms(3,4) in auto)

section \<open>The outcome in minutes\<close>

definition facts_of :: "scheduling_problem \<Rightarrow> shift_var list \<Rightarrow> validation_facts_v1 \<Rightarrow> bool" where
  "facts_of p sfs facts \<longleftrightarrow> vf_selected_shifts facts = map shift_fact sfs \<and> vf_workers facts = map worker_fact (sp_members p)
     \<and> vf_max_hours_per_week facts = map (\<lambda>e. (e, week_cap p e)) (employment_types p)
     \<and> vf_max_shifts_per_day facts = map (\<lambda>e. (e, day_cap p e)) (employment_types p) \<and> vf_minimum_gap_minutes facts = 120"

lemma validation_facts_of: "validation_facts digest p sfs = Inr facts \<Longrightarrow> facts_of p sfs facts"
  using minutes_exact [of 2]
  by (auto simp: validation_facts_def facts_of_def default_min_gap_hours_def hours_to_minutes_def dest!: and_also_InrD)

text \<open>An assignment is that of a row.\<close>

definition of_row :: "schedule_row \<Rightarrow> assignment_v1 \<Rightarrow> bool" where
  "of_row row a \<longleftrightarrow> as_worker_id a = sr_contact_id row \<and> as_task_id a = sr_task_id row \<and> as_shift_id a = Some (sr_shift_id row)
     \<and> as_start_minute a = hours_to_minutes (sr_start_h row) \<and> as_end_minute a = hours_to_minutes (sr_end_h row)"

lemma assignment_of_row: "assignment_of digest p row = Inr a \<Longrightarrow> of_row row a"
  by (auto simp: assignment_of_def of_row_def Let_def dest!: and_also_InrD split: option.splits)

lemma all_results_InrD: "all_results f xs = Inr ys \<Longrightarrow> list_all2 (\<lambda>x y. f x = Inr y) xs ys"
  by (induction xs arbitrary: ys) (auto dest!: and_also_InrD)

definition assignments_of :: "scheduling_problem \<Rightarrow> task_var list \<Rightarrow> assignment_v1 list \<Rightarrow> bool" where
  "assignments_of p tvs as \<longleftrightarrow> (\<exists>rows. mset rows = mset (map (row_of p) tvs) \<and> list_all2 of_row rows as)"

lemma governed_assignments:
  "all_results (assignment_of digest p) (governed_rows p bm r) = Inr as \<Longrightarrow> assignments_of p (selected_tasks bm r) as"
  unfolding assignments_of_def
  by (rule exI [of _ "governed_rows p bm r"])
    (auto simp: governed_rows_def dest!: all_results_InrD intro: list.rel_mono_strong assignment_of_row)

lemma assignments_ofD:
  assumes "assignments_of p tvs as"
  shows "a \<in> set as \<Longrightarrow> \<exists>tv \<in> set tvs. of_row (row_of p tv) a"
    and "tv \<in> set tvs \<Longrightarrow> \<exists>a \<in> set as. of_row (row_of p tv) a"
proof -
  obtain rows where rows: "mset rows = mset (map (row_of p) tvs)" "list_all2 of_row rows as"
    using assms by (auto simp: assignments_of_def)
  have set: "set rows = row_of p ` set tvs" using mset_eq_setD [OF rows(1)] by simp
  show "\<exists>tv \<in> set tvs. of_row (row_of p tv) a" if a: "a \<in> set as"
  proof -
    obtain row where "row \<in> set rows" "of_row row a" using rows(2) a by (metis in_set_conv_nth list_all2_conv_all_nth)
    then show ?thesis using set by auto
  qed
  show "\<exists>a \<in> set as. of_row (row_of p tv) a" if "tv \<in> set tvs"
  proof -
    have "row_of p tv \<in> set rows" using set that by simp
    then show ?thesis using rows(2) by (metis in_set_conv_nth list_all2_conv_all_nth)
  qed
qed

lemma list_all2_sorted_wrt:
  assumes "list_all2 Q xs ys" and "sorted_wrt R xs" and "\<And>x x' y y'. Q x y \<Longrightarrow> Q x' y' \<Longrightarrow> R x x' \<Longrightarrow> S y y'"
  shows "sorted_wrt S ys"
  using assms(1,2)
proof (induction xs ys rule: list_all2_induct)
  case (Cons x xs y ys)
  have "S y y'" if y': "y' \<in> set ys" for y'
  proof -
    obtain i where "i < length ys" "y' = ys ! i" using y' by (auto simp: in_set_conv_nth)
    then have "Q (xs ! i) y'" "xs ! i \<in> set xs" using Cons(2) by (auto simp: list_all2_conv_all_nth)
    then show ?thesis using assms(3) [OF Cons(1)] Cons.prems by auto
  qed
  then show ?case using Cons by simp
qed simp

section \<open>Rests and double bookings\<close>

lemma tick_nearly:
  assumes "tick x" and "2 - tolerance \<le> x" shows "2 \<le> x"
proof -
  obtain k where k: "x = of_int k / 20" using assms(1) by (rule tickE)
  have "(of_int k :: rat) > 39" using assms(2) unfolding k tolerance_def by simp
  then have "40 \<le> k" by linarith
  then show ?thesis by (simp add: k)
qed

lemma rest_between:
  assumes "grid_shift p s" "grid_shift p t" and "\<not> too_close (s, t)"
  shows "sf_end_h s + 2 \<le> sf_start_h t \<or> sf_end_h t + 2 \<le> sf_start_h s"
proof -
  have t: "tick (sf_start_h s)" "tick (sf_start_h t)" "tick (sf_end_h s)" "tick (sf_end_h t)"
    "sf_start_h s < sf_end_h s" "sf_start_h t < sf_end_h t" using assms(1,2) by (auto simp: grid_shift_def)
  have "tick (shift_gap s t)" unfolding shift_gap_def by (intro tick_diff tick_max) (auto simp: t min_def)
  then have "2 \<le> shift_gap s t"
    by (rule tick_nearly) (use assms(3) in \<open>simp add: too_close_def default_min_gap_hours_def\<close>)
  then show ?thesis using t(5,6) by (auto simp: shift_gap_def max_def min_def split: if_splits)
qed

lemma rest_minutes:
  assumes "grid_shift p s" "grid_shift p t" and "\<not> too_close (s, t)"
  shows "separated 120 sh_start_minute sh_end_minute (shift_fact s) (shift_fact t)"
proof -
  have two: "hours_to_minutes 2 = 120" using minutes_exact [of 2] by simp
  have add: "hours_to_minutes (sf_end_h u + 2) = hours_to_minutes (sf_end_h u) + 120" if "grid_shift p u" for u
  proof -
    have "tick (sf_end_h u)" using that unfolding grid_shift_def by blast
    then show ?thesis using minutes_add [of "sf_end_h u" 2] two by simp
  qed
  show ?thesis
    using rest_between [OF assms] minutes_mono [of "sf_end_h s + 2" "sf_start_h t"] minutes_mono [of "sf_end_h t + 2" "sf_start_h s"]
      add [OF assms(1)] add [OF assms(2)] by (auto simp: separated_def shift_fact_def)
qed

lemma chosen_rests:
  assumes "engine_roster p b x"
  shows "sorted_wrt (\<lambda>s t. mm_contact_id (sf_member s) = mm_contact_id (sf_member t) \<longrightarrow> \<not> too_close (s, t)) (chosen_shifts b x)"
proof -
  have "sorted_wrt (\<lambda>s t. of_member m s \<and> of_member m t \<longrightarrow> \<not> too_close (s, t)) (chosen_shifts b x)" for m
  proof (cases "\<exists>sf \<in> set (bu_shift_vars b). mm_contact_id (sf_member sf) = m")
    case True
    then have "member_ok p b x m" using assms by (auto simp: engine_roster_def roster_ok_def)
    then show ?thesis unfolding sorted_wrt_guarded by (simp add: member_ok_def Let_def)
  next
    case False
    then have "filter (of_member m) (chosen_shifts b x) = []" by (auto simp: filter_empty_conv chosen_shifts_def of_member_def)
    then show ?thesis unfolding sorted_wrt_guarded by simp
  qed
  then have "sorted_wrt (\<lambda>s t. \<forall>m. of_member m s \<and> of_member m t \<longrightarrow> \<not> too_close (s, t)) (chosen_shifts b x)"
    unfolding sorted_wrt_all by blast
  then show ?thesis by (rule sorted_wrt_mono_rel [rotated]) (simp add: of_member_def)
qed

lemma too_close_sym: "too_close (s, t) \<longleftrightarrow> too_close (t, s)"
  by (simp add: too_close_def shift_gap_def max.commute min.commute)

lemma sorted_wrt_pair:
  "sorted_wrt R xs \<Longrightarrow> (\<And>s t. R s t \<Longrightarrow> R t s) \<Longrightarrow> a \<in> set xs \<Longrightarrow> c \<in> set xs \<Longrightarrow> a \<noteq> c \<Longrightarrow> R a c"
  by (induction xs) auto

lemma assigned_apart:
  assumes "engine_roster p b x"
  shows "sorted_wrt (\<lambda>t t'. mm_contact_id (sf_member (tv_shift t)) = mm_contact_id (sf_member (tv_shift t'))
      \<longrightarrow> tv_end_h t \<le> tv_start_h t' \<or> tv_end_h t' \<le> tv_start_h t) (assigned_tasks b x)"
proof -
  have ok: "tasks_in_shifts b x" and tasks: "\<And>tv. tv \<in> set (bu_task_vars b) \<Longrightarrow> grid_task tv"
    using assms by (auto simp: engine_roster_def roster_ok_def)
  have "sorted_wrt (\<lambda>t t'. \<forall>k. \<forall>i. \<not> ((tv_shift t = k \<and> tv_slot_idx t = i) \<and> (tv_shift t' = k \<and> tv_slot_idx t' = i))) (assigned_tasks b x)"
    unfolding sorted_wrt_all sorted_wrt_not_both [symmetric] using ok by (simp add: tasks_in_shifts_def)
  then show ?thesis
  proof (rule sorted_wrt_mono_rel [rotated], intro impI)
    fix t t' assume mem: "t \<in> set (assigned_tasks b x)" "t' \<in> set (assigned_tasks b x)"
      and slot: "\<forall>k. \<forall>i. \<not> ((tv_shift t = k \<and> tv_slot_idx t = i) \<and> (tv_shift t' = k \<and> tv_slot_idx t' = i))"
      and who: "mm_contact_id (sf_member (tv_shift t)) = mm_contact_id (sf_member (tv_shift t'))"
    have vars: "t \<in> set (bu_task_vars b)" "t' \<in> set (bu_task_vars b)" using mem by (auto simp: assigned_tasks_def)
    show "tv_end_h t \<le> tv_start_h t' \<or> tv_end_h t' \<le> tv_start_h t"
    proof (cases "tv_shift t = tv_shift t'")
      case True
      then have "tv_slot_idx t < tv_slot_idx t' \<or> tv_slot_idx t' < tv_slot_idx t" using slot by (metis linorder_neqE_nat)
      then show ?thesis using assms vars True by (auto simp: engine_roster_def)
    next
      case False
      have chosen: "tv_shift t \<in> set (chosen_shifts b x)" "tv_shift t' \<in> set (chosen_shifts b x)"
        using ok mem by (auto simp: tasks_in_shifts_def)
      then have grid: "grid_shift p (tv_shift t)" "grid_shift p (tv_shift t')"
        using assms by (auto simp: engine_roster_def chosen_shifts_def)
      have "\<not> too_close (tv_shift t, tv_shift t')"
        using sorted_wrt_pair [OF chosen_rests [OF assms] _ chosen False] who too_close_sym by auto
      from rest_between [OF grid this] show ?thesis
        using tasks [OF vars(1)] tasks [OF vars(2)] by (auto simp: grid_task_def)
    qed
  qed
qed

section \<open>The rules of the gate\<close>

lemma dict_of_keyed: "distinct es \<Longrightarrow> e \<in> set es \<Longrightarrow> dict_of (map (\<lambda>e. (e, f e)) es) e = Some (f e)"
  by (subst dict_of_distinct) (auto simp: comp_def map_of_map_restrict [unfolded comp_def] restrict_map_def)

lemma worker_known:
  assumes "facts_of p sfs facts" and "proper_ids p" and "m \<in> set (sp_members p)"
  shows "workers_by_id facts (mm_contact_id m) = Some (worker_fact m)"
proof -
  let ?kvs = "map (\<lambda>w. (wf_worker_id w, w)) (map worker_fact (sp_members p))"
  have "distinct (map fst ?kvs)" using assms(2) by (simp add: proper_ids_def comp_def worker_fact_def)
  moreover have "(mm_contact_id m, worker_fact m) \<in> set ?kvs" using assms(3) by (force simp: worker_fact_def)
  ultimately show ?thesis using assms(1) by (simp add: workers_by_id_def facts_of_def dict_of_distinct)
qed

lemma caps_known:
  assumes "facts_of p sfs facts" and "proper_ids p" and "m \<in> set (sp_members p)"
  shows "shift_cap facts (mm_contact_id m) = day_cap p (mm_emp_type m)"
    and "minute_cap facts (mm_contact_id m) = week_cap p (mm_emp_type m) * 60"
proof -
  have type: "mm_emp_type m \<in> set (employment_types p)" "distinct (employment_types p)"
    using assms(3) by (simp_all add: employment_types_def)
  show "shift_cap facts (mm_contact_id m) = day_cap p (mm_emp_type m)"
    "minute_cap facts (mm_contact_id m) = week_cap p (mm_emp_type m) * 60"
    using worker_known [OF assms] assms(1) dict_of_keyed [OF type(2,1), of "day_cap p"]
      dict_of_keyed [OF type(2,1), of "week_cap p"]
    by (simp_all add: shift_cap_def minute_cap_def facts_of_def worker_fact_def get_or_def)
qed

lemma member_type_known:
  assumes "engine_roster p b x" and "proper_ids p" and "sf \<in> set (bu_shift_vars b)"
  shows "member_type (shifts_of_member b (mm_contact_id (sf_member sf))) = mm_emp_type (sf_member sf)"
proof -
  let ?sfs = "shifts_of_member b (mm_contact_id (sf_member sf))"
  have "sf \<in> set ?sfs" using assms(3) by (simp add: shifts_of_member_def)
  then have "hd ?sfs \<in> set ?sfs" by (intro hd_in_set) auto
  then have same: "mm_contact_id (sf_member (hd ?sfs)) = mm_contact_id (sf_member sf)" "hd ?sfs \<in> set (bu_shift_vars b)"
    by (auto simp: shifts_of_member_def)
  then have "sf_member (hd ?sfs) \<in> set (sp_members p)" "sf_member sf \<in> set (sp_members p)"
    using assms(1,3) unfolding engine_roster_def grid_shift_def by blast+
  then have "sf_member (hd ?sfs) = sf_member sf"
    using assms(2) same(1) by (auto simp: proper_ids_def distinct_map dest: inj_onD)
  then show ?thesis by (simp add: member_type_def)
qed

lemma shift_fact_simps [simp]:
  "sh_shift_id (shift_fact s) = iv_name (sf_var s)" "sh_worker_id (shift_fact s) = mm_contact_id (sf_member s)"
  "sh_window_id (shift_fact s) = wn_id (sf_window s)" "sh_start_minute (shift_fact s) = hours_to_minutes (sf_start_h s)"
  "sh_end_minute (shift_fact s) = hours_to_minutes (sf_end_h s)" "sh_effective_minutes (shift_fact s) = hours_to_minutes (sf_eff_h s)"
  by (simp_all add: shift_fact_def)

lemma row_of_simps [simp]:
  "sr_contact_id (row_of p tv) = mm_contact_id (sf_member (tv_shift tv))" "sr_task_id (row_of p tv) = tv_task_id tv"
  "sr_shift_id (row_of p tv) = iv_name (sf_var (tv_shift tv))" "sr_start_h (row_of p tv) = tv_start_h tv"
  "sr_end_h (row_of p tv) = tv_end_h tv"
  by (simp_all add: row_of_def)

lemma shift_by_name:
  assumes "engine_roster p b x" and "proper_ids p" and "facts_of p (chosen_shifts b x) facts" and "s \<in> set (chosen_shifts b x)"
  shows "shifts_by_id facts (iv_name (sf_var s)) = Some (shift_fact s)"
proof -
  let ?kvs = "map (\<lambda>s. (sh_shift_id s, s)) (map shift_fact (chosen_shifts b x))"
  have "iv_name (sf_var s) \<in> fst ` set ?kvs" using assms(4) by force
  then obtain v where v: "dict_of ?kvs (iv_name (sf_var s)) = Some v"
    using dict_of_eq_None [of ?kvs "iv_name (sf_var s)"] by (cases "dict_of ?kvs (iv_name (sf_var s))") auto
  from dict_of_SomeD [OF v] obtain t where "t \<in> set (chosen_shifts b x)" "v = shift_fact t" "iv_name (sf_var t) = iv_name (sf_var s)"
    by auto
  then have "v = shift_fact s" using chosen_by_name [OF assms(2,1) _ assms(4)] by blast
  then show ?thesis using v assms(3) by (simp add: shifts_by_id_def facts_of_def)
qed

lemma assigned_known:
  assumes "engine_roster p b x" and "tv \<in> set (assigned_tasks b x)"
  shows "tv_shift tv \<in> set (chosen_shifts b x)" and "grid_shift p (tv_shift tv)" and "grid_task tv"
    and "tv_task_id tv \<in> ql_task_id ` set (mm_qualifications (sf_member (tv_shift tv)))"
proof -
  show chosen: "tv_shift tv \<in> set (chosen_shifts b x)"
    using assms by (auto simp: engine_roster_def roster_ok_def tasks_in_shifts_def)
  then have "tv_shift tv \<in> set (bu_shift_vars b)" by (simp add: chosen_shifts_def)
  then show "grid_shift p (tv_shift tv)" using assms(1) by (simp add: engine_roster_def)
  have "tv \<in> set (bu_task_vars b)" using assms(2) by (simp add: assigned_tasks_def)
  then show "grid_task tv" "tv_task_id tv \<in> ql_task_id ` set (mm_qualifications (sf_member (tv_shift tv)))"
    using assms(1) by (simp_all add: engine_roster_def)
qed

lemma assignments_rules:
  assumes er: "engine_roster p b x" and ids: "proper_ids p" and facts: "facts_of p (chosen_shifts b x) facts"
    and as: "assignments_of p (assigned_tasks b x) as"
  shows "inside_shifts as facts" and "no_double_booking as" and "shifts_worked as facts" and "all_qualified as facts"
    and "\<And>a. a \<in> set as \<Longrightarrow> as_start_minute a < as_end_minute a"
proof -
  show "inside_shifts as facts"
    unfolding inside_shifts_def
  proof
    fix a assume "a \<in> set as"
    then obtain tv where tv: "tv \<in> set (assigned_tasks b x)" "of_row (row_of p tv) a" using assignments_ofD(1) [OF as] by blast
    note k = assigned_known [OF er tv(1)]
    show "\<exists>i s. as_shift_id a = Some i \<and> shifts_by_id facts i = Some s \<and> sh_worker_id s = as_worker_id a
        \<and> sh_start_minute s \<le> as_start_minute a \<and> as_end_minute a \<le> sh_end_minute s"
      using shift_by_name [OF er ids facts k(1)] tv(2) k(3) by (simp add: of_row_def grid_task_def minutes_mono)
  qed
  obtain rows where rows: "mset rows = mset (map (row_of p) (assigned_tasks b x))" "list_all2 of_row rows as"
    using as by (auto simp: assignments_of_def)
  let ?R = "\<lambda>r r'. sr_contact_id r = sr_contact_id r' \<longrightarrow> sr_end_h r \<le> sr_start_h r' \<or> sr_end_h r' \<le> sr_start_h r"
  have "sorted_wrt ?R (map (row_of p) (assigned_tasks b x))"
    unfolding sorted_wrt_map using assigned_apart [OF er] by (rule sorted_wrt_mono_rel [rotated]) simp
  moreover have "symp ?R" by (auto simp: symp_def)
  ultimately have "sorted_wrt ?R rows" using sorted_wrt_symp_perm [OF _ rows(1) [symmetric], of ?R] by blast
  then have "sorted_wrt (\<lambda>a a'. as_worker_id a = as_worker_id a' \<longrightarrow> separated 0 as_start_minute as_end_minute a a') as"
    by (rule list_all2_sorted_wrt [OF rows(2)]) (auto simp: of_row_def separated_def intro: minutes_mono)
  then have "sorted_wrt (\<lambda>a a'. as_worker_id a = w \<and> as_worker_id a' = w \<longrightarrow> separated 0 as_start_minute as_end_minute a a') as" for w
    by (rule sorted_wrt_mono_rel [rotated]) simp
  then show "no_double_booking as" by (simp add: no_double_booking_def sorted_wrt_guarded)
  show "shifts_worked as facts"
    unfolding shifts_worked_def
  proof
    fix s assume "s \<in> set (vf_selected_shifts facts)"
    then obtain sf where sf: "sf \<in> set (chosen_shifts b x)" "s = shift_fact sf" using facts by (auto simp: facts_of_def)
    then obtain tv where tv: "tv \<in> set (assigned_tasks b x)" "tv_shift tv = sf"
      using er by (auto simp: engine_roster_def roster_ok_def tasks_in_shifts_def)
    then obtain a where "a \<in> set as" "of_row (row_of p tv) a" using assignments_ofD(2) [OF as] by blast
    then show "\<exists>a \<in> set as. as_shift_id a = Some (sh_shift_id s)" using sf(2) tv(2) by (auto simp: of_row_def)
  qed
  show "all_qualified as facts"
    unfolding all_qualified_def
  proof
    fix a assume "a \<in> set as"
    then obtain tv where tv: "tv \<in> set (assigned_tasks b x)" "of_row (row_of p tv) a" using assignments_ofD(1) [OF as] by blast
    note k = assigned_known [OF er tv(1)]
    have "sf_member (tv_shift tv) \<in> set (sp_members p)" using k(2) unfolding grid_shift_def by blast
    from worker_known [OF facts ids this] k(4) tv(2)
    show "\<exists>w. workers_by_id facts (as_worker_id a) = Some w \<and> as_task_id a \<in> qr_task_id ` set (wf_qualifications w)"
      by (force simp: of_row_def worker_fact_def)
  qed
  show "as_start_minute a < as_end_minute a" if a: "a \<in> set as" for a
  proof -
    obtain tv where tv: "tv \<in> set (assigned_tasks b x)" "of_row (row_of p tv) a" using assignments_ofD(1) [OF as a] by blast
    then show ?thesis
      using assigned_known(3) [OF er tv(1)] minutes_le [of "tv_end_h tv" "tv_start_h tv"] by (simp add: of_row_def grid_task_def)
  qed
qed

lemma tick_week_cap: "exact_times p \<Longrightarrow> tick (week_cap p e)"
  by (auto simp: exact_times_def week_cap_def get_or_def default_max_hours_per_week_def dest!: dict_of_SomeD split: option.splits)

lemma shifts_of_member_facts:
  "facts_of p sfs facts \<Longrightarrow> shifts_of facts w = map shift_fact (filter (of_member w) sfs)"
  by (simp add: facts_of_def shifts_of_def filter_map comp_def of_member_def [abs_def])

lemma sum_eff_minutes:
  assumes "\<And>s. s \<in> set sfs \<Longrightarrow> tick (sf_eff_h s)"
  shows "(of_int (\<Sum>s \<leftarrow> map shift_fact sfs. sh_effective_minutes s) :: rat) = (\<Sum>s \<leftarrow> sfs. sf_eff_h s) * 60"
    and "(of_int (\<Sum>s \<leftarrow> sfs. scaled (sf_eff_h s) vol_scale) :: rat) = (\<Sum>s \<leftarrow> sfs. sf_eff_h s) * 100"
  using assms by (induction sfs) (simp_all add: minutes_exact hundredths_exact algebra_simps)

lemma member_ok_chosen:
  assumes "engine_roster p b x" and "proper_ids p" and "sf \<in> set (chosen_shifts b x)"
  shows "sf_member sf \<in> set (sp_members p)" and "grid_shift p sf"
    and "int (length (filter (\<lambda>s. start_day s = start_day sf) (filter (of_member (mm_contact_id (sf_member sf))) (chosen_shifts b x))))
      \<le> day_cap p (mm_emp_type (sf_member sf))"
    and "(\<Sum>s \<leftarrow> filter (of_member (mm_contact_id (sf_member sf))) (chosen_shifts b x). scaled (sf_eff_h s) vol_scale)
      \<le> scaled (week_cap p (mm_emp_type (sf_member sf))) vol_scale"
proof -
  have sf: "sf \<in> set (bu_shift_vars b)" using assms(3) by (simp add: chosen_shifts_def)
  then show grid: "grid_shift p sf" using assms(1) by (simp add: engine_roster_def)
  then show "sf_member sf \<in> set (sp_members p)" unfolding grid_shift_def by blast
  have "member_ok p b x (mm_contact_id (sf_member sf))" using assms(1) sf by (simp add: engine_roster_def roster_ok_def)
  moreover have "sf \<in> set (shifts_of_member b (mm_contact_id (sf_member sf)))" using sf by (simp add: shifts_of_member_def)
  ultimately show "int (length (filter (\<lambda>s. start_day s = start_day sf) (filter (of_member (mm_contact_id (sf_member sf))) (chosen_shifts b x))))
      \<le> day_cap p (mm_emp_type (sf_member sf))"
    "(\<Sum>s \<leftarrow> filter (of_member (mm_contact_id (sf_member sf))) (chosen_shifts b x). scaled (sf_eff_h s) vol_scale)
      \<le> scaled (week_cap p (mm_emp_type (sf_member sf))) vol_scale"
    unfolding member_ok_def Let_def member_type_known [OF assms(1,2) sf] by blast+
qed

lemma shift_rules:
  assumes exact: "exact_times p" and er: "engine_roster p b x" and ids: "proper_ids p" and facts: "facts_of p (chosen_shifts b x) facts"
  shows "windows_used_once facts" and "daily_caps_met facts" and "weekly_caps_met facts" and "rests_kept facts"
    and "\<And>s. s \<in> set (vf_selected_shifts facts) \<Longrightarrow> sh_start_minute s < sh_end_minute s" and "0 \<le> vf_minimum_gap_minutes facts"
proof -
  have sel: "vf_selected_shifts facts = map shift_fact (chosen_shifts b x)" and gap: "vf_minimum_gap_minutes facts = 120"
    using facts by (simp_all add: facts_of_def)
  show "0 \<le> vf_minimum_gap_minutes facts" by (simp add: gap)
  have grid: "grid_shift p s" if "s \<in> set (chosen_shifts b x)" for s using member_ok_chosen(2) [OF er ids that] .
  show "sh_start_minute s < sh_end_minute s" if "s \<in> set (vf_selected_shifts facts)" for s
  proof -
    obtain sf where "sf \<in> set (chosen_shifts b x)" "s = shift_fact sf" using \<open>s \<in> _\<close> sel by auto
    then show ?thesis
      using grid [of sf] minutes_le [of "sf_end_h sf" "sf_start_h sf"] unfolding grid_shift_def by (metis not_le shift_fact_simps(4,5))
  qed
  have "sorted_wrt (\<lambda>s t. (mm_contact_id (sf_member s), wn_id (sf_window s)) \<noteq> (mm_contact_id (sf_member t), wn_id (sf_window t))) (chosen_shifts b x)"
    by (rule sorted_wrt_mono_rel [OF _ chosen_distinct_windows]) (use er in \<open>auto simp: engine_roster_def\<close>)
  then show "windows_used_once facts"
    unfolding sorted_wrt_neq_distinct by (simp add: windows_used_once_def sel comp_def)
  show "daily_caps_met facts"
    unfolding daily_caps_met_def
  proof
    fix s assume "s \<in> set (vf_selected_shifts facts)"
    then obtain sf where sf: "sf \<in> set (chosen_shifts b x)" "s = shift_fact sf" using sel by auto
    have day: "hours_to_minutes (sf_start_h t) div 1440 = start_day t" if "t \<in> set (chosen_shifts b x)" for t
      using minutes_day [of "sf_start_h t"] grid [OF that] unfolding start_day_def grid_shift_def by blast
    have "filter (\<lambda>t. sh_worker_id (shift_fact t) = sh_worker_id s \<and> sh_start_minute (shift_fact t) div 1440 = sh_start_minute s div 1440) (chosen_shifts b x)
        = filter (\<lambda>t. of_member (mm_contact_id (sf_member sf)) t \<and> start_day t = start_day sf) (chosen_shifts b x)"
      by (rule filter_cong) (use day sf in \<open>auto simp: of_member_def\<close>)
    then have "length (filter (\<lambda>t. sh_worker_id t = sh_worker_id s \<and> sh_start_minute t div 1440 = sh_start_minute s div 1440) (vf_selected_shifts facts))
        = length (filter (\<lambda>t. start_day t = start_day sf) (filter (of_member (mm_contact_id (sf_member sf))) (chosen_shifts b x)))"
      by (simp add: sel filter_map comp_def conj_commute)
    then show "int (length (filter (\<lambda>t. sh_worker_id t = sh_worker_id s \<and> sh_start_minute t div 1440 = sh_start_minute s div 1440)
        (vf_selected_shifts facts))) \<le> shift_cap facts (sh_worker_id s)"
      using member_ok_chosen(3) [OF er ids sf(1)] caps_known(1) [OF facts ids member_ok_chosen(1) [OF er ids sf(1)]] sf(2) by simp
  qed
  show "weekly_caps_met facts"
    unfolding weekly_caps_met_def
  proof
    fix w assume "w \<in> sh_worker_id ` set (vf_selected_shifts facts)"
    then obtain sf where sf: "sf \<in> set (chosen_shifts b x)" "w = mm_contact_id (sf_member sf)" using sel by auto
    let ?own = "filter (of_member w) (chosen_shifts b x)" and ?cap = "week_cap p (mm_emp_type (sf_member sf))"
    have ticks: "tick (sf_eff_h s)" if "s \<in> set ?own" for s using grid [of s] that unfolding grid_shift_def by auto
    have minutes: "(of_int (\<Sum>s \<leftarrow> map shift_fact ?own. sh_effective_minutes s) :: rat) = (\<Sum>s \<leftarrow> ?own. sf_eff_h s) * 60"
      and hundredths: "(of_int (\<Sum>s \<leftarrow> ?own. scaled (sf_eff_h s) vol_scale) :: rat) = (\<Sum>s \<leftarrow> ?own. sf_eff_h s) * 100"
      using sum_eff_minutes [of ?own] ticks by blast+
    have "(of_int (\<Sum>s \<leftarrow> ?own. scaled (sf_eff_h s) vol_scale) :: rat) \<le> of_int (scaled ?cap vol_scale)"
      using member_ok_chosen(4) [OF er ids sf(1)] unfolding sf(2) of_int_le_iff .
    then have "(\<Sum>s \<leftarrow> ?own. sf_eff_h s) \<le> ?cap"
      unfolding hundredths hundredths_exact [OF tick_week_cap [OF exact]] by simp
    then show "of_int (\<Sum>s \<leftarrow> shifts_of facts w. sh_effective_minutes s) \<le> minute_cap facts w"
      unfolding shifts_of_member_facts [OF facts] minutes
      using caps_known(2) [OF facts ids member_ok_chosen(1) [OF er ids sf(1)]] sf(2) by simp
  qed
  show "rests_kept facts"
    unfolding rests_kept_def gap shifts_of_member_facts [OF facts] sorted_wrt_map
  proof
    fix w
    have "sorted_wrt (\<lambda>s t. mm_contact_id (sf_member s) = mm_contact_id (sf_member t) \<longrightarrow> \<not> too_close (s, t)) (filter (of_member w) (chosen_shifts b x))"
      using chosen_rests [OF er] by (rule sorted_wrt_filter)
    then show "sorted_wrt (\<lambda>s t. separated 120 sh_start_minute sh_end_minute (shift_fact s) (shift_fact t)) (filter (of_member w) (chosen_shifts b x))"
      by (rule sorted_wrt_mono_rel [rotated]) (auto simp: of_member_def intro: rest_minutes grid)
  qed
qed

section \<open>Properties\<close>

text \<open>
  C2. The engine and the independent gate agree. When CP-SAT is sound, and the times of the problem are multiples
  of three minutes (so that hours, hundredths of hours and minutes are all exact), contact ids differ and
  the parts of a shift name can be told apart, every outcome the governed adapter returns passes
  \<open>require_hard_constraints\<close>: under every set of constraints, every budget, clock and seed, and with the
  fallback to round one.
\<close>

theorem solver_roster_passes_gate:
  assumes "solver_sound (se_solver env)" and "order_ok (se_order env)" and "exact_times p" and "proper_ids p"
    and "governed_solve env p config constraints = Inr outcome" and "so_validation_facts outcome = Some facts"
  shows "\<exists>results. require_hard_constraints (so_assignments outcome) facts [] = Inr results"
proof -
  obtain ovs bm where bm: "build_model (se_order env) p ovs = Inr bm"
    and out: "governed_outcome (se_digest env) p bm
      (solve_lexicographic_governed (se_solver env) (se_clock env) config (se_use_deterministic env) bm) = Inr outcome"
    using assms(5) by (auto simp: governed_solve_def split: if_splits dest!: and_also_InrD)
  define r where "r = solve_lexicographic_governed (se_solver env) (se_clock env) config (se_use_deterministic env) bm"
  have as: "assignments_of p (selected_tasks bm r) (so_assignments outcome)"
    and facts: "facts_of p (selected_shift_vars bm r) facts"
    using out assms(6) by (auto simp: governed_outcome_def r_def [symmetric] dest!: and_also_InrD
        intro: governed_assignments validation_facts_of)
  have "schedule_rules (so_assignments outcome) facts [] \<and> proper_times (so_assignments outcome) facts"
  proof (cases "lx_round1_value r")
    case None
    then have "selected_tasks bm r = []" "selected_shift_vars bm r = []" by (simp_all add: selected_tasks_def selected_shift_vars_def)
    then have "so_assignments outcome = []" "vf_selected_shifts facts = []" "vf_minimum_gap_minutes facts = 120"
      using as facts by (auto simp: assignments_of_def facts_of_def)
    then show ?thesis
      by (simp add: schedule_rules_def proper_times_def inside_shifts_def no_double_booking_def shifts_worked_def windows_used_once_def
          daily_caps_met_def weekly_caps_met_def rests_kept_def shifts_of_def all_qualified_def)
  next
    case (Some v1)
    then obtain x where x: "\<forall>v. lex_value r v = value_of x v" "satisfies x (bu_model (bm_builder bm))"
      using governed_rounds_sound(1) [OF assms(1)] unfolding r_def lex_sound_def by blast
    have sel: "selected_tasks bm r = assigned_tasks (bm_builder bm) x" "selected_shift_vars bm r = chosen_shifts (bm_builder bm) x"
      using Some x(1) by (simp_all add: selected_tasks_def selected_shift_vars_def assigned_tasks_def chosen_shifts_def)
    obtain d where d: "candidates_inv (set (candidates (se_order env) p d)) (candidate_model (se_order env) p d)"
      "same_choice (candidate_model (se_order env) p d) (bm_builder bm)" "roster_ok p (bm_builder bm) x"
      using built_model_solutions [OF bm] x(2) by blast
    have er: "engine_roster p (bm_builder bm) x" by (rule built_engine_roster [OF assms(3,2) d])
    show ?thesis
      using assignments_rules [OF er assms(4) facts [unfolded sel] as [unfolded sel]]
        shift_rules [OF assms(3) er assms(4) facts [unfolded sel]]
      by (simp add: schedule_rules_def proper_times_def)
  qed
  then show ?thesis unfolding require_Inr_iff schedule_rules_def proper_times_def by (simp add: measurement_iffs)
qed

definition tiny_environment :: solve_environment where
  "tiny_environment = \<lparr>se_solver = exhaustive_solver, se_clock = (\<lambda>_. 0), se_order = demo_order,
     se_digest = (\<lambda>_. Some ''0''), se_use_deterministic = True\<rparr>"

lemma tiny_parts:
  "case build_model demo_order tiny_problem [] of Inl _ \<Rightarrow> False | Inr bm \<Rightarrow>
     (let r = solve_lexicographic_governed exhaustive_solver (\<lambda>_. 0) demo_config True bm in
      (case all_results (assignment_of (\<lambda>_. Some ''0'') tiny_problem) (governed_rows tiny_problem bm r) of
         Inl _ \<Rightarrow> False | Inr as \<Rightarrow> length as = 1)
      \<and> (case validation_facts (\<lambda>_. Some ''0'') tiny_problem (selected_shift_vars bm r) of Inl _ \<Rightarrow> False | Inr _ \<Rightarrow> True))"
  by code_simp

lemma tiny_outcome:
  "\<exists>out. governed_solve tiny_environment tiny_problem demo_config [] = Inr out
     \<and> so_validation_facts out \<noteq> None \<and> length (so_assignments out) = 1"
proof -
  obtain bm where bm: "build_model demo_order tiny_problem [] = Inr bm" using tiny_parts by (auto split: sum.splits)
  define r where "r = solve_lexicographic_governed exhaustive_solver (\<lambda>_. 0) demo_config True bm"
  obtain as facts where "all_results (assignment_of (\<lambda>_. Some ''0'') tiny_problem) (governed_rows tiny_problem bm r) = Inr as"
    "length as = 1" "validation_facts (\<lambda>_. Some ''0'') tiny_problem (selected_shift_vars bm r) = Inr facts"
    using tiny_parts by (auto simp: bm Let_def r_def [symmetric] split: sum.splits)
  moreover have "sc_engine_name demo_config = ''cpsat''" by (simp add: demo_config_def)
  ultimately show ?thesis
    by (simp add: governed_solve_def tiny_environment_def bm and_also_def governed_outcome_def r_def [symmetric])
qed

theorem solver_roster_passes_gate_witness:
  "\<exists>out facts results. governed_solve tiny_environment tiny_problem demo_config [] = Inr out
     \<and> so_validation_facts out = Some facts \<and> length (so_assignments out) = 1
     \<and> require_hard_constraints (so_assignments out) facts [] = Inr results"
proof -
  obtain out facts where out: "governed_solve tiny_environment tiny_problem demo_config [] = Inr out"
    "so_validation_facts out = Some facts" "length (so_assignments out) = 1"
    using tiny_outcome by auto
  have "solver_sound (se_solver tiny_environment)" by (simp add: tiny_environment_def exhaustive_solver_sound)
  moreover have "order_ok (se_order tiny_environment)" by (simp add: tiny_environment_def order_ok_def demo_order_def)
  moreover have "exact_times tiny_problem" "proper_ids tiny_problem"
    by (simp_all add: exact_times_def proper_ids_def tiny_problem_def)
  ultimately show ?thesis using solver_roster_passes_gate out by metis
qed

end
