(* ===== verification/Ingest.thy ===== *)
theory Ingest
  imports Scheduling_Problem Wire
begin

text \<open>
  From the weekly JSON document to the problem the engine solves: \<^verbatim>\<open>ingest/input_adapter.py\<close> and
  \<^verbatim>\<open>ingest/scenario_time.py\<close>, and the weekly caps the governed adapter reads out of the same document
  (\<^verbatim>\<open>_wire_employment_caps\<close> in \<^verbatim>\<open>engine/governed_adapter.py\<close>). The document is what a JSON column holds; every
  access to it is the access of the code, so a missing key, a row that is not an object or a value of the
  wrong type raises what Python raises.

  A datetime is a number of seconds since the start of year 1 less a day. Two things have no counterpart in
  the typed problem: a float that is not finite, and a field of another type than the dataclass
  declares, which Python carries along unchecked. The model stops there with \<open>OutsideModel\<close>.
\<close>

section \<open>Dynamic values\<close>

datatype ingest_error =
    IngestKeyError
  | IngestIndexError
  | IngestTypeError
  | IngestAttributeError
  | IngestValueError
  | IngestOverflowError
  | OutsideModel

text \<open>\<open>d.get(k, default)\<close> and \<open>d[k]\<close>.\<close>

definition get_field :: "json \<Rightarrow> string \<Rightarrow> json \<Rightarrow> ingest_error + json" where
  "get_field d k fallback = (case d of JObject kvs \<Rightarrow> Inr (get_or fallback (dict_of kvs k)) | _ \<Rightarrow> Inl IngestAttributeError)"

definition item :: "json \<Rightarrow> string \<Rightarrow> ingest_error + json" where
  "item d k = (case d of
      JObject kvs \<Rightarrow> (case dict_of kvs k of None \<Rightarrow> Inl IngestKeyError | Some v \<Rightarrow> Inr v)
    | _ \<Rightarrow> Inl IngestTypeError)"

fun truthy :: "json \<Rightarrow> bool" where
  "truthy JNull = False"
| "truthy (JBool b) = b"
| "truthy (JString s) = (s \<noteq> [])"
| "truthy (JInt i) = (i \<noteq> 0)"
| "truthy (JFloat x) = (x \<noteq> 0)"
| "truthy (JList xs) = (xs \<noteq> [])"
| "truthy (JObject kvs) = (kvs \<noteq> [])"

text \<open>What a \<open>for\<close> loop runs over.\<close>

fun iterate :: "json \<Rightarrow> ingest_error + json list" where
  "iterate (JList xs) = Inr xs"
| "iterate (JObject kvs) = Inr (map (\<lambda>kv. JString (fst kv)) kvs)"
| "iterate (JString s) = Inr (map (\<lambda>c. JString [c]) s)"
| "iterate _ = Inl IngestTypeError"

text \<open>A dict key: equal under \<open>==\<close> and \<open>hash\<close>, where booleans, integers and floats are numbers.\<close>

datatype hash_key = KeyNone | KeyText string | KeyNumber rat

fun key_of :: "json \<Rightarrow> ingest_error + hash_key" where
  "key_of JNull = Inr KeyNone"
| "key_of (JBool b) = Inr (KeyNumber (of_bool b))"
| "key_of (JString s) = Inr (KeyText s)"
| "key_of (JInt i) = Inr (KeyNumber (of_int i))"
| "key_of (JFloat x) = Inr (KeyNumber x)"
| "key_of _ = Inl IngestTypeError"

definition as_text :: "json \<Rightarrow> ingest_error + string" where
  "as_text v = (case v of JString s \<Rightarrow> Inr s | _ \<Rightarrow> Inl OutsideModel)"

definition as_optional_text :: "json \<Rightarrow> ingest_error + string option" where
  "as_optional_text v = (case v of JString s \<Rightarrow> Inr (Some s) | JNull \<Rightarrow> Inr None | _ \<Rightarrow> Inl OutsideModel)"

definition text_field :: "json \<Rightarrow> string \<Rightarrow> string \<Rightarrow> ingest_error + string" where
  "text_field d k fallback = and_also (get_field d k (JString fallback)) as_text"

definition get_key :: "json \<Rightarrow> string \<Rightarrow> ingest_error + hash_key" where
  "get_key d k = and_also (get_field d k JNull) key_of"

definition item_key :: "json \<Rightarrow> string \<Rightarrow> ingest_error + hash_key" where
  "item_key d k = and_also (item d k) key_of"

section \<open>Numbers\<close>

text \<open>From here on an integer has no double: \<open>float\<close> of it overflows, a text of it is infinite.\<close>

definition float_limit :: rat where
  "float_limit = of_int (2 ^ 1024 - 2 ^ 970)"

definition float_of_int :: "int \<Rightarrow> ingest_error + rat" where
  "float_of_int i = (if \<bar>of_int i\<bar> \<ge> float_limit then Inl IngestOverflowError else Inr (of_int i))"

definition decimal_digits :: "string \<Rightarrow> string option" where
  "decimal_digits s = (case underscored_digits False s of
      Some ds \<Rightarrow> if list_all (is_digit 10) ds then Some ds else None
    | None \<Rightarrow> None)"

text \<open>A text without its sign, and whether the sign was a minus.\<close>

definition split_sign :: "string \<Rightarrow> bool \<times> string" where
  "split_sign s = (case s of
      c # cs \<Rightarrow> (if c = CHR ''-'' then (True, cs) else if c = CHR ''+'' then (False, cs) else (False, s))
    | [] \<Rightarrow> (False, []))"

text \<open>\<open>int(text)\<close>: at most 4300 digits.\<close>

definition int_of_text :: "string \<Rightarrow> int option" where
  "int_of_text s =
     (let (negative, unsigned) = split_sign (strip_chars is_space s) in
      case decimal_digits unsigned of
        None \<Rightarrow> None
      | Some ds \<Rightarrow> if length ds > 4300 then None
                  else Some (if negative then - int (digits_value 10 ds) else int (digits_value 10 ds)))"

definition optional_digits :: "string \<Rightarrow> string option" where
  "optional_digits s = (if s = [] then Some [] else decimal_digits s)"

definition is_exponent_mark :: "char \<Rightarrow> bool" where
  "is_exponent_mark c \<longleftrightarrow> c \<in> {CHR ''e'', CHR ''E''}"

definition exponent_of :: "string \<Rightarrow> int option" where
  "exponent_of s = (case s of
      [] \<Rightarrow> Some 0
    | _ # cs \<Rightarrow>
        let (negative, unsigned) = split_sign cs in
        map_option (\<lambda>ds. if negative then - int (digits_value 10 ds) else int (digits_value 10 ds)) (decimal_digits unsigned))"

definition times_power10 :: "rat \<Rightarrow> int \<Rightarrow> rat" where
  "times_power10 x e = (if e \<ge> 0 then x * of_int (10 ^ nat e) else x / of_int (10 ^ nat (- e)))"

text \<open>An unsigned numeral: digits with an optional point and an optional exponent.\<close>

definition unsigned_numeral :: "string \<Rightarrow> rat option" where
  "unsigned_numeral s =
     (let mantissa = takeWhile (\<lambda>c. \<not> is_exponent_mark c) s;
          (whole, fraction) = partition_at CHR ''.'' mantissa in
      if whole = [] \<and> fraction = [] then None
      else case (optional_digits whole, optional_digits fraction, exponent_of (dropWhile (\<lambda>c. \<not> is_exponent_mark c) s)) of
             (Some w, Some f, Some e) \<Rightarrow>
               Some (times_power10 (of_nat (digits_value 10 (w @ f))) (e - int (length f)))
           | _ \<Rightarrow> None)"

definition lower_ascii :: "char \<Rightarrow> char" where
  "lower_ascii c = (let n = of_char c :: nat in if 65 \<le> n \<and> n \<le> 90 then char_of (n + 32) else c)"

text \<open>\<open>float(text)\<close>.\<close>

definition float_of_text :: "string \<Rightarrow> ingest_error + rat" where
  "float_of_text s =
     (let (negative, unsigned) = split_sign (strip_chars is_space s) in
      if map lower_ascii unsigned \<in> {''inf'', ''infinity'', ''nan''} then Inl OutsideModel
      else case unsigned_numeral unsigned of
             None \<Rightarrow> Inl IngestValueError
           | Some x \<Rightarrow> if x \<ge> float_limit then Inl OutsideModel else Inr (if negative then - x else x))"

fun float_of :: "json \<Rightarrow> ingest_error + rat" where
  "float_of (JInt i) = float_of_int i"
| "float_of (JFloat x) = Inr x"
| "float_of (JBool b) = Inr (of_bool b)"
| "float_of (JString s) = float_of_text s"
| "float_of _ = Inl IngestTypeError"

definition to_float :: "json \<Rightarrow> rat \<Rightarrow> ingest_error + rat" where
  "to_float v fallback = (case float_of v of
      Inl e \<Rightarrow> if e \<in> {IngestTypeError, IngestValueError} then Inr fallback else Inl e
    | Inr x \<Rightarrow> Inr x)"

definition float_field :: "json \<Rightarrow> string \<Rightarrow> rat \<Rightarrow> ingest_error + rat" where
  "float_field d k fallback = and_also (get_field d k JNull) (\<lambda>v. to_float v fallback)"

section \<open>Dates and times\<close>

definition leap_year :: "int \<Rightarrow> bool" where
  "leap_year y \<longleftrightarrow> y mod 4 = 0 \<and> (y mod 100 \<noteq> 0 \<or> y mod 400 = 0)"

definition days_in_month :: "int \<Rightarrow> int \<Rightarrow> int" where
  "days_in_month y m = (if m = 2 then (if leap_year y then 29 else 28) else if m \<in> {4, 6, 9, 11} then 30 else 31)"

text \<open>\<open>date.toordinal\<close>: day 1 is the first of January of year 1.\<close>

definition day_ordinal :: "int \<Rightarrow> int \<Rightarrow> int \<Rightarrow> int" where
  "day_ordinal y m d =
     365 * (y - 1) + (y - 1) div 4 - (y - 1) div 100 + (y - 1) div 400 + (\<Sum>i \<leftarrow> [1..m - 1]. days_in_month y i) + d"

text \<open>A field of one or two digits.\<close>

definition short_number :: "string \<Rightarrow> int option" where
  "short_number s = (if length s \<in> {1, 2} \<and> list_all (is_digit 10) s then Some (int (digits_value 10 s)) else None)"

definition day_number :: "string \<Rightarrow> int option" where
  "day_number s = (case s of [c, d] \<Rightarrow> if c = CHR '' '' then short_number [d] else short_number s | _ \<Rightarrow> short_number s)"

definition civil_seconds :: "int \<Rightarrow> int \<Rightarrow> int \<Rightarrow> int \<Rightarrow> int \<Rightarrow> int \<Rightarrow> int option" where
  "civil_seconds y m d hh mm ss =
     (if 1 \<le> y \<and> 1 \<le> m \<and> m \<le> 12 \<and> 1 \<le> d \<and> d \<le> days_in_month y m \<and> hh \<le> 23 \<and> mm \<le> 59 \<and> ss \<le> 59
      then Some (86400 * day_ordinal y m d + 3600 * hh + 60 * mm + ss) else None)"

text \<open>\<open>strptime(text, "%Y-%m-%dT%H:%M:%S")\<close>, where letters match in either case.\<close>

definition strptime_seconds :: "string \<Rightarrow> int option" where
  "strptime_seconds s =
     (let (y, r1) = partition_at CHR ''-'' s; (m, r2) = partition_at CHR ''-'' r1;
          d = takeWhile (\<lambda>c. lower_ascii c \<noteq> CHR ''t'') r2; r3 = dropWhile (\<lambda>c. lower_ascii c \<noteq> CHR ''t'') r2;
          (hh, r4) = partition_at CHR '':'' (tl r3); (mm, ss) = partition_at CHR '':'' r4 in
      if length y \<noteq> 4 \<or> \<not> list_all (is_digit 10) y then None
      else case (short_number m, day_number d, short_number hh, short_number mm, short_number ss) of
             (Some m', Some d', Some hh', Some mm', Some ss') \<Rightarrow> civil_seconds (int (digits_value 10 y)) m' d' hh' mm' ss'
           | _ \<Rightarrow> None)"

text \<open>The text of a value that is not a string is never a datetime.\<close>

definition parse_dt :: "json \<Rightarrow> ingest_error + int" where
  "parse_dt v = (case v of
      JString s \<Rightarrow> (case strptime_seconds (fst (partition_at CHR ''.'' s)) of None \<Rightarrow> Inl IngestValueError | Some t \<Rightarrow> Inr t)
    | _ \<Rightarrow> Inl IngestValueError)"

definition hours_from :: "int \<Rightarrow> rat \<Rightarrow> rat" where
  "hours_from start t = (t - of_int start) / 3600"

function split_on :: "char \<Rightarrow> string \<Rightarrow> string list" where
  "split_on c s = (if c \<in> set s then takeWhile (\<lambda>x. x \<noteq> c) s # split_on c (tl (dropWhile (\<lambda>x. x \<noteq> c) s)) else [s])"
  by auto
termination
proof (relation "measure (\<lambda>(_, s). length s)")
  fix c :: char and s :: string
  assume "c \<in> set s"
  then have "dropWhile (\<lambda>x. x \<noteq> c) s \<noteq> []" by (auto simp: dropWhile_eq_Nil_conv)
  then show "((c, tl (dropWhile (\<lambda>x. x \<noteq> c) s)), c, s) \<in> measure (\<lambda>(_, s). length s)"
    using length_dropWhile_le [of "\<lambda>x. x \<noteq> c" s] by (cases "dropWhile (\<lambda>x. x \<noteq> c) s") auto
qed auto

declare split_on.simps [simp del]

text \<open>The parts of \<open>HH:MM:SS\<close>; a JSON integer prints as its digits, any other value has no integer parts.\<close>

definition tod_parts :: "json \<Rightarrow> int list option" where
  "tod_parts v = (case v of
      JString s \<Rightarrow> those_map int_of_text (split_on CHR '':'' s)
    | JInt i \<Rightarrow> Some [i]
    | _ \<Rightarrow> None)"

definition parse_time_of_day :: "json \<Rightarrow> ingest_error + rat" where
  "parse_time_of_day v = (case tod_parts v of
      None \<Rightarrow> Inl IngestValueError
    | Some parts \<Rightarrow>
        let padded = parts @ [0, 0] in
        and_also (float_of_int (padded ! 0)) (\<lambda>h.
        and_also (float_of_int (padded ! 1)) (\<lambda>m.
        and_also (float_of_int (padded ! 2)) (\<lambda>s.
        Inr (h + m / 60 + s / 3600)))))"

text \<open>\<open>timedelta(hours=x)\<close> in seconds, rounded to microseconds, and its sum with a datetime.\<close>

definition last_ordinal :: int where
  "last_ordinal = 3652059"

definition plus_hours :: "int \<Rightarrow> rat \<Rightarrow> ingest_error + rat" where
  "plus_hours day x =
     (let t = of_int day + of_int (py_round (x * 3600000000)) / 1000000 in
      if t < 86400 \<or> t \<ge> 86400 * of_int (last_ordinal + 1) then Inl IngestOverflowError else Inr t)"

definition day_window_hours :: "int \<Rightarrow> json \<Rightarrow> json \<Rightarrow> json \<Rightarrow> ingest_error + rat \<times> rat" where
  "day_window_hours start date_str tod_start tod_end =
     and_also (parse_dt date_str) (\<lambda>day.
     and_also (parse_time_of_day tod_start) (\<lambda>s_off.
     and_also (parse_time_of_day tod_end) (\<lambda>e_off.
     and_also (plus_hours day s_off) (\<lambda>start_dt.
     and_also (plus_hours day (e_off + (if e_off \<le> s_off then 24 else 0))) (\<lambda>end_dt.
     Inr (hours_from start start_dt, hours_from start end_dt))))))"

section \<open>Loops\<close>

text \<open>A loop that appends to one list: what each row appends, or the first exception.\<close>

fun collected :: "('a \<Rightarrow> ingest_error + 'b list) \<Rightarrow> 'a list \<Rightarrow> ingest_error + 'b list" where
  "collected f [] = Inr []"
| "collected f (x # xs) = and_also (f x) (\<lambda>ys. and_also (collected f xs) (\<lambda>zs. Inr (ys @ zs)))"

text \<open>A loop that carries a state.\<close>

fun looped :: "('s \<Rightarrow> 'a \<Rightarrow> ingest_error + 's) \<Rightarrow> 's \<Rightarrow> 'a list \<Rightarrow> ingest_error + 's" where
  "looped f s [] = Inr s"
| "looped f s (x # xs) = and_also (f s x) (\<lambda>s'. looped f s' xs)"

definition rows :: "json \<Rightarrow> string \<Rightarrow> ingest_error + json list" where
  "rows data k = and_also (get_field data k (JList [])) (\<lambda>v. Inr (case v of JList xs \<Rightarrow> xs | _ \<Rightarrow> []))"

text \<open>\<open>try: ... except Exception: continue\<close>, then the rest of the loop body.\<close>

definition skipping :: "ingest_error + 'a \<Rightarrow> ('a \<Rightarrow> ingest_error + 'b list) \<Rightarrow> ingest_error + 'b list" where
  "skipping r f = (case r of Inl _ \<Rightarrow> Inr [] | Inr x \<Rightarrow> f x)"

definition clip :: "rat \<times> rat \<Rightarrow> rat \<Rightarrow> rat \<Rightarrow> (rat \<times> rat) option" where
  "clip range_h lo hi = (let s = max (fst range_h) lo; e = min (snd range_h) hi in if e > s then Some (s, e) else None)"

definition lookup_all :: "(hash_key \<times> 'a) list \<Rightarrow> hash_key \<Rightarrow> 'a list" where
  "lookup_all kvs k = map snd (filter (\<lambda>kv. fst kv = k) kvs)"

section \<open>The tables of the document\<close>

definition function_names :: "json list \<Rightarrow> ingest_error + (hash_key \<times> json) list" where
  "function_names = collected (\<lambda>f.
     and_also (item_key f ''FunctionID'') (\<lambda>k.
     and_also (get_field f ''Name'' (JString ''Unknown'')) (\<lambda>name. Inr [(k, name)])))"

definition known_task :: "task list \<Rightarrow> hash_key \<Rightarrow> bool" where
  "known_task tasks k \<longleftrightarrow> k \<in> set (map (\<lambda>t. KeyText (ta_task_id t)) tasks)"

definition add_task_row :: "(hash_key \<times> json) list \<Rightarrow> task list \<Rightarrow> json \<Rightarrow> ingest_error + task list" where
  "add_task_row names tasks t =
     and_also (get_field t ''TaskID'' JNull) (\<lambda>tid.
     if \<not> truthy tid then Inr tasks
     else and_also (key_of tid) (\<lambda>k.
       if known_task tasks k then Inr tasks
       else
         and_also (as_text tid) (\<lambda>task_id.
         and_also (text_field t ''Task'' []) (\<lambda>name.
         and_also (get_key t ''FunctionID'') (\<lambda>fk.
         and_also (as_text (get_or (JString ''Unknown'') (dict_of names fk))) (\<lambda>function.
         and_also (text_field t ''AreaID'' []) (\<lambda>area.
         and_also (and_also (get_field t ''UnitTypeID'' JNull) as_optional_text) (\<lambda>unit_id.
         Inr (tasks @ [\<lparr>ta_task_id = task_id, ta_name = name, ta_function = function, ta_area_id = area, ta_unit_id = unit_id\<rparr>])))))))))"

text \<open>Base rates by agreement and grade.\<close>

definition is_base_rate :: "json \<Rightarrow> bool" where
  "is_base_rate v = (case v of JString s \<Rightarrow> map lower_ascii (strip_chars is_space s) = ''base rate'' | _ \<Rightarrow> False)"

definition wage_row :: "json \<Rightarrow> ingest_error + ((hash_key \<times> hash_key) \<times> rat) list" where
  "wage_row r =
     and_also (get_field r ''RateType'' (JString [])) (\<lambda>kind.
     if \<not> is_base_rate kind then Inr []
     else
       and_also (float_field r ''Amount'' 0) (\<lambda>amount.
       and_also (get_key r ''EBAID'') (\<lambda>eba.
       and_also (get_key r ''GradeID'') (\<lambda>grade. Inr [((eba, grade), amount)]))))"

definition mean_wage :: "rat list \<Rightarrow> rat" where
  "mean_wage rates = (if rates = [] then 40 else sum_list rates / of_nat (length rates))"

text \<open>The windows of one table, by contact, named by the index of their row.\<close>

definition kind_prefix :: "window_kind \<Rightarrow> string" where
  "kind_prefix k = (case k of Roster \<Rightarrow> ''ros'' | Availability \<Rightarrow> ''ava'')"

definition span_of :: "int \<Rightarrow> json \<Rightarrow> string \<Rightarrow> string \<Rightarrow> ingest_error + rat \<times> rat" where
  "span_of start r from_key to_key =
     and_also (and_also (item r from_key) parse_dt) (\<lambda>s.
     and_also (and_also (item r to_key) parse_dt) (\<lambda>e.
     Inr (hours_from start (of_int s), hours_from start (of_int e))))"

definition window_row :: "int \<Rightarrow> rat \<Rightarrow> window_kind \<Rightarrow> nat \<times> json \<Rightarrow> ingest_error + (hash_key \<times> window) list" where
  "window_row start horizon kind row =
     skipping (span_of start (snd row) ''StartDateTime'' ''EndDateTime'') (\<lambda>range_h.
     case clip range_h 0 horizon of
       None \<Rightarrow> Inr []
     | Some (s, e) \<Rightarrow>
         and_also (item_key (snd row) ''ContactID'') (\<lambda>k.
         Inr [(k, \<lparr>wn_id = kind_prefix kind @ str_nat (fst row), wn_start_h = s, wn_end_h = e, wn_kind = kind\<rparr>)]))"

definition windows_for :: "int \<Rightarrow> rat \<Rightarrow> window_kind \<Rightarrow> json list \<Rightarrow> ingest_error + (hash_key \<times> window) list" where
  "windows_for start horizon kind table = collected (window_row start horizon kind) (enumerate 0 table)"

definition qualification_row :: "task list \<Rightarrow> json \<Rightarrow> ingest_error + (hash_key \<times> qualification) list" where
  "qualification_row tasks q =
     and_also (get_field q ''TaskID'' JNull) (\<lambda>tid.
     and_also (key_of tid) (\<lambda>k.
     if \<not> known_task tasks k then Inr []
     else
       and_also (get_field q ''TeamMemberTaskRateOverride'' JNull) (\<lambda>own.
       and_also (if truthy own then Inr own else get_field q ''DefaultTaskRate'' JNull) (\<lambda>v.
       and_also (to_float v 0) (\<lambda>rate.
       if rate \<le> 0 then Inr []
       else
         and_also (item_key q ''ContactID'') (\<lambda>c.
         and_also (as_text tid) (\<lambda>task_id. Inr [(c, \<lparr>ql_task_id = task_id, ql_rate = rate\<rparr>)])))))))"

definition member_row ::
  "((hash_key \<times> hash_key) \<times> rat) list \<Rightarrow> (hash_key \<times> window) list \<Rightarrow> (hash_key \<times> window) list \<Rightarrow> (hash_key \<times> qualification) list
   \<Rightarrow> json \<Rightarrow> ingest_error + team_member list" where
  "member_row wages rosters avails quals m =
     and_also (item m ''ContactID'') (\<lambda>cid.
     and_also (get_key m ''EBAID'') (\<lambda>eba.
     and_also (get_key m ''GradeID'') (\<lambda>grade.
     and_also (key_of cid) (\<lambda>k.
     let wage = get_or (mean_wage (map snd wages)) (dict_of wages (eba, grade));
         win = lookup_all rosters k @ lookup_all avails k; qs = lookup_all quals k in
     if win = [] \<or> qs = [] then Inr []
     else
       and_also (as_text cid) (\<lambda>contact_id.
       and_also (text_field m ''Team Member'' ''Unknown'') (\<lambda>name.
       and_also (text_field m ''EmploymentType'' ''Unknown'') (\<lambda>emp_type.
       and_also (text_field m ''GradeID'' []) (\<lambda>grade_id.
       and_also (text_field m ''EBAID'' []) (\<lambda>eba_id.
       and_also (float_field m ''ContractedHours'' 38) (\<lambda>hours.
       Inr [\<lparr>mm_contact_id = contact_id, mm_name = name, mm_emp_type = emp_type, mm_grade_id = grade_id, mm_eba_id = eba_id,
             mm_contracted_hours = hours, mm_wage_per_hour = wage, mm_windows = win, mm_qualifications = qs\<rparr>]))))))))))"

section \<open>Demand\<close>

definition band :: "json \<Rightarrow> demand_family \<Rightarrow> rat \<times> rat \<Rightarrow> rat \<Rightarrow> string \<Rightarrow> ingest_error + demand_band list" where
  "band tid family range_h amount order =
     and_also (as_text tid) (\<lambda>task_id.
     Inr [\<lparr>db_task_id = task_id, db_family = family, db_start_h = fst range_h, db_end_h = snd range_h, db_amount = amount, db_order_id = order\<rparr>])"

definition outbound_row :: "int \<Rightarrow> rat \<Rightarrow> task list \<Rightarrow> nat \<times> json \<Rightarrow> ingest_error + demand_band list" where
  "outbound_row start horizon tasks row =
     (let (i, w) = row in
      and_also (get_field w ''TaskID'' JNull) (\<lambda>tid.
      and_also (float_field w ''Volume'' 0) (\<lambda>vol.
      and_also (key_of tid) (\<lambda>k.
      if \<not> known_task tasks k \<or> vol \<le> 0 then Inr []
      else skipping (span_of start w ''StartDateTime'' ''EndDateTime'') (\<lambda>range_h.
           case clip range_h 0 horizon of
             None \<Rightarrow> Inr []
           | Some clipped \<Rightarrow> band tid Outbound clipped vol (''OB'' @ str_nat i))))))"

definition inbound_task :: "task list \<Rightarrow> rat \<times> rat \<Rightarrow> nat \<Rightarrow> json \<Rightarrow> ingest_error + demand_band list" where
  "inbound_task tasks clipped i tk =
     and_also (get_field tk ''TaskID'' JNull) (\<lambda>tid.
     and_also (float_field tk ''Volume'' 0) (\<lambda>vol.
     and_also (key_of tid) (\<lambda>k.
     if known_task tasks k \<and> vol > 0 then band tid Inbound clipped vol (''IB'' @ str_nat i) else Inr [])))"

definition inbound_row :: "int \<Rightarrow> rat \<Rightarrow> task list \<Rightarrow> nat \<times> json \<Rightarrow> ingest_error + demand_band list" where
  "inbound_row start horizon tasks row =
     (let (i, w) = row in
      skipping (span_of start w ''WindowStartDateTime'' ''WindowEndDateTime'') (\<lambda>range_h.
      case clip range_h 0 horizon of
        None \<Rightarrow> Inr []
      | Some clipped \<Rightarrow>
          and_also (and_also (get_field w ''Tasks'' (JList [])) iterate) (collected (inbound_task tasks clipped i))))"

definition indirect_span :: "int \<Rightarrow> json \<Rightarrow> ingest_error + rat \<times> rat" where
  "indirect_span start w =
     and_also (item w ''Date'') (\<lambda>day.
     and_also (item w ''WindowStartDateTime'') (\<lambda>s.
     and_also (item w ''WindowEndDateTime'') (\<lambda>e.
     day_window_hours start day s e)))"

definition indirect_row :: "int \<Rightarrow> rat \<Rightarrow> task list \<Rightarrow> nat \<times> json \<Rightarrow> ingest_error + demand_band list" where
  "indirect_row start horizon tasks row =
     (let (i, w) = row in
      and_also (get_field w ''TaskID'' JNull) (\<lambda>tid.
      and_also (float_field w ''RequiredHeadcount'' 0) (\<lambda>hc.
      and_also (key_of tid) (\<lambda>k.
      if \<not> known_task tasks k \<or> hc \<le> 0 then Inr []
      else skipping (indirect_span start w) (\<lambda>range_h.
           case clip range_h 0 horizon of
             None \<Rightarrow> Inr []
           | Some clipped \<Rightarrow> band tid Indirect clipped hc (''IND'' @ str_nat i))))))"

section \<open>Shift templates\<close>

definition break_row :: "json \<Rightarrow> ingest_error + (hash_key \<times> shift_break) list" where
  "break_row b =
     and_also (get_key b ''ShiftScheduleTemplateID'') (\<lambda>k.
     and_also (and_also (get_field b ''StartHour'' (JString ''00:00:00'')) parse_time_of_day) (\<lambda>offset.
     and_also (float_field b ''Minutes'' 0) (\<lambda>minutes.
     and_also (get_field b ''IsPaid'' JNull) (\<lambda>paid.
     Inr [(k, \<lparr>bk_start_offset_h = offset, bk_duration_h = minutes / 60, bk_paid = truthy paid\<rparr>)]))))"

text \<open>A template id that is a number fails at \<open>tpl[:8]\<close>; a list or an object has no hash.\<close>

definition add_template_row ::
  "(hash_key \<times> shift_break) list \<Rightarrow> shift_template list \<Rightarrow> json \<Rightarrow> ingest_error + shift_template list" where
  "add_template_row breaks templates t =
     and_also (get_field t ''ShiftScheduleTemplateID'' JNull) (\<lambda>tpl.
     and_also (float_field t ''TotalShiftHours'' 0) (\<lambda>len.
     if \<not> truthy tpl then Inr templates
     else and_also (key_of tpl) (\<lambda>k.
       if k \<in> set (map (\<lambda>x. KeyText (tp_id x)) templates) \<or> len \<le> 0 then Inr templates
       else (case tpl of
           JString tpl_id \<Rightarrow>
             and_also (text_field t ''Name'' (take 8 tpl_id)) (\<lambda>name.
             Inr (templates @ [\<lparr>tp_id = tpl_id, tp_name = name, tp_length_h = len,
                                tp_breaks = sort_key bk_start_offset_h (lookup_all breaks k)\<rparr>]))
         | _ \<Rightarrow> Inl IngestTypeError))))"

section \<open>The problem\<close>

definition scenario_range :: "json \<Rightarrow> ingest_error + int \<times> rat" where
  "scenario_range data =
     and_also (rows data ''Scenario Range'') (\<lambda>ranges.
     case ranges of
       [] \<Rightarrow> Inl IngestIndexError
     | rng # _ \<Rightarrow>
         and_also (and_also (item rng ''PeriodStartDate'') parse_dt) (\<lambda>start.
         and_also (and_also (item rng ''PeriodEndDate'') parse_dt) (\<lambda>finish.
         Inr (start, hours_from start (of_int finish)))))"

definition build_tasks :: "json \<Rightarrow> ingest_error + task list" where
  "build_tasks data =
     and_also (and_also (rows data ''Function'') function_names) (\<lambda>names.
     and_also (rows data ''Task'') (looped (add_task_row names) []))"

definition build_members :: "json \<Rightarrow> int \<Rightarrow> rat \<Rightarrow> task list \<Rightarrow> ingest_error + team_member list" where
  "build_members data start horizon tasks =
     and_also (and_also (rows data ''EBA Grade Rate'') (collected wage_row)) (\<lambda>wages.
     and_also (and_also (rows data ''Roster Profile'') (windows_for start horizon Roster)) (\<lambda>rosters.
     and_also (and_also (rows data ''Availability'') (windows_for start horizon Availability)) (\<lambda>avails.
     and_also (and_also (rows data ''Team Member Qualification and Performance'') (collected (qualification_row tasks))) (\<lambda>quals.
     and_also (rows data ''Team Member'') (collected (member_row wages rosters avails quals))))))"

definition build_demand :: "json \<Rightarrow> int \<Rightarrow> rat \<Rightarrow> task list \<Rightarrow> ingest_error + demand_band list" where
  "build_demand data start horizon tasks =
     and_also (and_also (rows data ''Outbound Workload'') (\<lambda>ws. collected (outbound_row start horizon tasks) (enumerate 0 ws))) (\<lambda>outbound.
     and_also (and_also (rows data ''Inbound Workload'') (\<lambda>ws. collected (inbound_row start horizon tasks) (enumerate 0 ws))) (\<lambda>inbound.
     and_also (and_also (rows data ''Indirect Workforce Requirement'')
         (\<lambda>ws. collected (indirect_row start horizon tasks) (enumerate 0 ws))) (\<lambda>indirect.
     Inr (outbound @ inbound @ indirect))))"

definition build_templates :: "json \<Rightarrow> ingest_error + shift_template list" where
  "build_templates data =
     and_also (and_also (rows data ''Shift Schedule Template Break'') (collected break_row)) (\<lambda>breaks.
     and_also (rows data ''Shift Schedule Template'') (looped (add_template_row breaks) []))"

definition build_problem :: "json \<Rightarrow> ingest_error + scheduling_problem" where
  "build_problem data =
     and_also (scenario_range data) (\<lambda>(start, horizon).
     and_also (build_tasks data) (\<lambda>tasks.
     and_also (build_members data start horizon tasks) (\<lambda>members.
     and_also (build_demand data start horizon tasks) (\<lambda>demand.
     and_also (build_templates data) (\<lambda>templates.
     Inr \<lparr>sp_horizon_h = horizon, sp_members = members, sp_tasks = tasks, sp_templates = templates, sp_demand = demand,
          sp_max_hours_per_week = [], sp_max_shifts_per_day = []\<rparr>)))))"

section \<open>Weekly caps\<close>

text \<open>\<open>str(v or "")\<close>.\<close>

definition text_or_empty :: "json \<Rightarrow> ingest_error + string" where
  "text_or_empty v =
     (if \<not> truthy v then Inr []
      else case v of JString s \<Rightarrow> Inr s | JInt i \<Rightarrow> Inr (str_int i) | JBool _ \<Rightarrow> Inr ''True'' | _ \<Rightarrow> Inl OutsideModel)"

definition add_cap_row :: "(string \<times> rat) list \<Rightarrow> json \<Rightarrow> ingest_error + (string \<times> rat) list" where
  "add_cap_row caps row =
     and_also (get_field row ''ConstraintType'' JNull) (\<lambda>kind.
     if kind \<noteq> JString ''Maximum Hours a Week'' then Inr caps
     else
       and_also (and_also (get_field row ''ValueType'' JNull) text_or_empty) (\<lambda>text.
       and_also (get_field row ''Value'' JNull) (\<lambda>v.
       case float_of v of
         Inl e \<Rightarrow> if e \<in> {IngestTypeError, IngestValueError} then Inr caps else Inl e
       | Inr limit \<Rightarrow>
           let employment_type = strip_chars is_space text in
           Inr (if employment_type \<noteq> [] \<and> limit > 0 then caps @ [(employment_type, limit)] else caps))))"

definition wire_employment_caps :: "json \<Rightarrow> scheduling_problem \<Rightarrow> ingest_error + scheduling_problem" where
  "wire_employment_caps payload p =
     and_also (and_also (get_field payload ''Shift Constraint'' (JList [])) iterate) (\<lambda>values.
     and_also (looped add_cap_row (sp_max_hours_per_week p) values) (\<lambda>caps.
     Inr (p\<lparr>sp_max_hours_per_week := caps\<rparr>)))"

end
