(* ===== verification/Ingest_Guarantees.thy ===== *)
theory Ingest_Guarantees
  imports Ingest Model_Guarantees Engine_Solve Drafting Wire_Properties
begin

text \<open>
  What the ingest step gives the engine. Whatever document it accepts, the problem it builds is well formed:
  known tasks, distinct names, windows and demand inside the horizon, positive rates, lengths and caps.
  Together with the resolver of draft constraints this is what the engine needs to build a model that has a
  solution.
\<close>

section \<open>Loops\<close>

lemma collected_all:
  assumes "collected f xs = Inr zs" and "\<And>x ys. x \<in> set xs \<Longrightarrow> f x = Inr ys \<Longrightarrow> \<forall>y \<in> set ys. P y"
  shows "\<forall>z \<in> set zs. P z"
  using assms
proof (induction xs arbitrary: zs)
  case (Cons x xs)
  obtain ys zs' where "f x = Inr ys" "collected f xs = Inr zs'" "zs = ys @ zs'"
    using Cons.prems(1) by (auto dest!: and_also_InrD)
  then show ?case using Cons by (metis (no_types, lifting) Un_iff list.set_intros set_append)
qed simp

text \<open>A loop whose body keeps a property of what it accumulates.\<close>

locale accumulator =
  fixes body :: "'s \<Rightarrow> 'a \<Rightarrow> ingest_error + 's" and inv :: "'s \<Rightarrow> bool"
  assumes body_keeps: "inv s \<Longrightarrow> body s x = Inr s' \<Longrightarrow> inv s'"
begin

lemma loop_keeps: "inv s \<Longrightarrow> looped body s xs = Inr t \<Longrightarrow> inv t"
  by (induction xs arbitrary: s) (auto dest!: and_also_InrD intro: body_keeps)

end

lemma skipping_InrD: "skipping r f = Inr ys \<Longrightarrow> ys = [] \<or> (\<exists>x. r = Inr x \<and> f x = Inr ys)"
  by (auto simp: skipping_def split: sum.splits)

lemma clip_SomeD: "clip range_h lo hi = Some (s, e) \<Longrightarrow> lo \<le> s \<and> s < e \<and> e \<le> hi"
  by (auto simp: clip_def Let_def split: if_splits)

lemma as_text_InrD: "as_text v = Inr s \<Longrightarrow> v = JString s"
  by (auto simp: as_text_def split: json.splits)

lemma lookup_all_set: "x \<in> set (lookup_all kvs k) \<Longrightarrow> (k, x) \<in> set kvs"
  by (auto simp: lookup_all_def)

section \<open>A well-formed problem\<close>

definition task_known :: "task list \<Rightarrow> string \<Rightarrow> bool" where
  "task_known tasks task_id \<longleftrightarrow> task_id \<in> set (map ta_task_id tasks)"

definition inside :: "rat \<Rightarrow> rat \<Rightarrow> rat \<Rightarrow> bool" where
  "inside horizon s e \<longleftrightarrow> 0 \<le> s \<and> s < e \<and> e \<le> horizon"

definition tasks_ok :: "task list \<Rightarrow> bool" where
  "tasks_ok tasks \<longleftrightarrow> distinct (map ta_task_id tasks) \<and> [] \<notin> set (map ta_task_id tasks)"

definition templates_ok :: "shift_template list \<Rightarrow> bool" where
  "templates_ok templates \<longleftrightarrow> distinct (map tp_id templates)
     \<and> (\<forall>t \<in> set templates. tp_id t \<noteq> [] \<and> 0 < tp_length_h t \<and> sorted (map bk_start_offset_h (tp_breaks t)))"

definition window_name :: "window \<Rightarrow> nat \<Rightarrow> string" where
  "window_name w i = kind_prefix (wn_kind w) @ str_nat i"

definition member_typed :: "rat \<Rightarrow> task list \<Rightarrow> team_member \<Rightarrow> bool" where
  "member_typed horizon tasks m \<longleftrightarrow> mm_windows m \<noteq> [] \<and> mm_qualifications m \<noteq> []
     \<and> distinct (map wn_id (mm_windows m))
     \<and> (\<forall>w \<in> set (mm_windows m). inside horizon (wn_start_h w) (wn_end_h w) \<and> (\<exists>i. wn_id w = window_name w i))
     \<and> (\<forall>q \<in> set (mm_qualifications m). 0 < ql_rate q \<and> task_known tasks (ql_task_id q))"

definition band_typed :: "rat \<Rightarrow> task list \<Rightarrow> demand_band \<Rightarrow> bool" where
  "band_typed horizon tasks b \<longleftrightarrow> task_known tasks (db_task_id b) \<and> 0 < db_amount b \<and> inside horizon (db_start_h b) (db_end_h b)"

definition problem_typed :: "scheduling_problem \<Rightarrow> bool" where
  "problem_typed p \<longleftrightarrow> tasks_ok (sp_tasks p) \<and> templates_ok (sp_templates p)
     \<and> (\<forall>m \<in> set (sp_members p). member_typed (sp_horizon_h p) (sp_tasks p) m)
     \<and> (\<forall>b \<in> set (sp_demand p). band_typed (sp_horizon_h p) (sp_tasks p) b)
     \<and> (\<forall>(e, c) \<in> set (sp_max_hours_per_week p). e \<noteq> [] \<and> 0 < c) \<and> sp_max_shifts_per_day p = []"

section \<open>Tasks and templates\<close>

lemma known_task_text: "known_task tasks (KeyText s) \<longleftrightarrow> task_known tasks s"
  by (auto simp: known_task_def task_known_def)

lemma known_task_keyD: "key_of v = Inr k \<Longrightarrow> known_task tasks k \<Longrightarrow> v = JString s \<Longrightarrow> task_known tasks s"
  using known_task_text [of tasks s] by simp

lemma add_task_row_ok:
  assumes "tasks_ok tasks" and "add_task_row names tasks t = Inr tasks'"
  shows "tasks_ok tasks'"
  using assms
  by (fastforce simp: add_task_row_def tasks_ok_def known_task_text task_known_def split: if_splits dest!: and_also_InrD as_text_InrD)

interpretation task_rows: accumulator "add_task_row names" tasks_ok for names
  by unfold_locales (rule add_task_row_ok)

lemma build_tasks_ok: "build_tasks data = Inr tasks \<Longrightarrow> tasks_ok tasks"
  using task_rows.loop_keeps [of "[]"] by (auto simp: build_tasks_def tasks_ok_def [of "[]"] dest!: and_also_InrD)

lemma add_template_row_ok:
  assumes "templates_ok templates" and "add_template_row breaks templates t = Inr templates'"
  shows "templates_ok templates'"
  using assms
  by (fastforce simp: add_template_row_def templates_ok_def split: if_splits json.splits dest!: and_also_InrD)

interpretation template_rows: accumulator "add_template_row breaks" templates_ok for breaks
  by unfold_locales (rule add_template_row_ok)

lemma build_templates_ok: "build_templates data = Inr templates \<Longrightarrow> templates_ok templates"
  using template_rows.loop_keeps [of "[]"] by (auto simp: build_templates_def templates_ok_def [of "[]"] dest!: and_also_InrD)

section \<open>Members\<close>

lemma window_row_InrD:
  assumes "window_row start horizon kind (i, r) = Inr ys"
  shows "ys = [] \<or> (\<exists>k w. ys = [(k, w)] \<and> inside horizon (wn_start_h w) (wn_end_h w) \<and> wn_kind w = kind \<and> wn_id w = window_name w i)"
  using assms
  by (auto simp: window_row_def inside_def window_name_def split: option.splits dest!: skipping_InrD and_also_InrD clip_SomeD)

text \<open>The windows of a table carry distinct indices, so do those of one contact.\<close>

definition window_table :: "rat \<Rightarrow> window_kind \<Rightarrow> nat \<Rightarrow> (hash_key \<times> window) list \<Rightarrow> bool" where
  "window_table horizon kind n kvs \<longleftrightarrow> distinct (map (wn_id \<circ> snd) kvs)
     \<and> (\<forall>(_, w) \<in> set kvs. inside horizon (wn_start_h w) (wn_end_h w) \<and> wn_kind w = kind \<and> (\<exists>i \<ge> n. wn_id w = window_name w i))"

lemma window_table_Suc: "window_table horizon kind (Suc n) kvs \<Longrightarrow> window_table horizon kind n kvs"
  unfolding window_table_def using Suc_leD by blast

lemma window_table_Cons:
  assumes "window_table horizon kind (Suc n) kvs" and "inside horizon (wn_start_h w) (wn_end_h w)" and "wn_kind w = kind"
    and "wn_id w = window_name w n"
  shows "window_table horizon kind n ((k, w) # kvs)"
proof -
  have "wn_id w \<noteq> wn_id v" if v: "(l, v) \<in> set kvs" for l v
  proof -
    obtain i where "Suc n \<le> i" "wn_id v = window_name v i" "wn_kind v = kind"
      using assms(1) v by (auto simp: window_table_def)
    then show ?thesis using assms(3,4) by (simp add: window_name_def str_nat_inj)
  qed
  then have "wn_id w \<notin> set (map (wn_id \<circ> snd) kvs)" by force
  then show ?thesis
    using window_table_Suc [OF assms(1)] assms(1-4) by (auto simp: window_table_def)
qed

lemma windows_collected:
  "collected (window_row start horizon kind) (enumerate n table) = Inr kvs \<Longrightarrow> window_table horizon kind n kvs"
proof (induction table arbitrary: n kvs)
  case Nil
  then show ?case by (simp add: window_table_def)
next
  case (Cons r table)
  then obtain ys zs where ys: "window_row start horizon kind (n, r) = Inr ys" and kvs: "kvs = ys @ zs"
    and zs: "window_table horizon kind (Suc n) zs"
    by (auto dest!: and_also_InrD)
  show ?case
    using window_row_InrD [OF ys] window_table_Suc [OF zs] window_table_Cons [OF zs] by (auto simp: kvs)
qed

lemma lookup_window_table:
  assumes "window_table horizon kind n kvs"
  shows "distinct (map wn_id (lookup_all kvs k))"
    and "\<forall>w \<in> set (lookup_all kvs k). inside horizon (wn_start_h w) (wn_end_h w) \<and> wn_kind w = kind \<and> (\<exists>i. wn_id w = window_name w i)"
  using assms distinct_map_filter [of "wn_id \<circ> snd" kvs "\<lambda>kv. fst kv = k"]
  by (auto simp: window_table_def lookup_all_def)

lemma kinds_apart: "wn_kind v = Roster \<Longrightarrow> wn_kind w = Availability \<Longrightarrow> window_name v i \<noteq> window_name w j"
  by (simp add: window_name_def kind_prefix_def)

lemma qualification_row_InrD:
  assumes "qualification_row tasks q = Inr ys"
  shows "\<forall>y \<in> set ys. 0 < ql_rate (snd y) \<and> task_known tasks (ql_task_id (snd y))"
  using assms by (auto simp: qualification_row_def known_task_text split: if_splits dest!: and_also_InrD as_text_InrD)

lemma member_row_InrD:
  assumes "member_row wages rosters avails quals m = Inr ys" and "window_table horizon Roster 0 rosters"
    and "window_table horizon Availability 0 avails"
    and "\<forall>q \<in> set quals. 0 < ql_rate (snd q) \<and> task_known tasks (ql_task_id (snd q))"
  shows "\<forall>y \<in> set ys. member_typed horizon tasks y"
proof
  fix y assume "y \<in> set ys"
  then obtain k where y: "mm_windows y = lookup_all rosters k @ lookup_all avails k" "mm_qualifications y = lookup_all quals k"
    "mm_windows y \<noteq> []" "mm_qualifications y \<noteq> []"
    using assms(1) by (auto simp: member_row_def Let_def split: if_splits dest!: and_also_InrD)
  note windows = lookup_window_table [OF assms(2), of k] lookup_window_table [OF assms(3), of k]
  have apart: "set (map wn_id (lookup_all rosters k)) \<inter> set (map wn_id (lookup_all avails k)) = {}"
    using windows(2,4) kinds_apart by fastforce
  have "distinct (map wn_id (mm_windows y))" using windows(1,3) apart by (simp add: y(1))
  moreover have "\<forall>w \<in> set (mm_windows y). inside horizon (wn_start_h w) (wn_end_h w) \<and> (\<exists>i. wn_id w = window_name w i)"
    using windows(2,4) by (auto simp: y(1))
  moreover have "\<forall>q \<in> set (mm_qualifications y). 0 < ql_rate q \<and> task_known tasks (ql_task_id q)"
    using assms(4) by (fastforce simp: y(2) dest: lookup_all_set)
  ultimately show "member_typed horizon tasks y" using y(3,4) by (simp add: member_typed_def)
qed

lemma build_members_ok:
  assumes "build_members data start horizon tasks = Inr members"
  shows "\<forall>m \<in> set members. member_typed horizon tasks m"
proof -
  obtain wages rosters avails quals ms rs as qs where
    rosters: "windows_for start horizon Roster rs = Inr rosters" and avails: "windows_for start horizon Availability as = Inr avails"
    and quals: "collected (qualification_row tasks) qs = Inr quals"
    and members: "collected (member_row wages rosters avails quals) ms = Inr members"
    using assms by (auto simp: build_members_def dest!: and_also_InrD)
  have "\<forall>q \<in> set quals. 0 < ql_rate (snd q) \<and> task_known tasks (ql_task_id (snd q))"
    by (rule collected_all [OF quals]) (rule qualification_row_InrD)
  then show ?thesis
    using collected_all [OF members] member_row_InrD windows_collected [OF rosters [unfolded windows_for_def]]
      windows_collected [OF avails [unfolded windows_for_def]] by metis
qed

section \<open>Demand and caps\<close>

lemma band_InrD:
  assumes "band tid family range_h amount order = Inr ys" and "y \<in> set ys" and "clip c 0 horizon = Some range_h"
    and "key_of tid = Inr k" and "known_task tasks k" and "0 < amount"
  shows "band_typed horizon tasks y"
  using assms clip_SomeD [of c 0 horizon "fst range_h" "snd range_h"]
  by (auto simp: band_def band_typed_def inside_def known_task_text dest!: and_also_InrD as_text_InrD)

lemma outbound_row_InrD:
  assumes "outbound_row start horizon tasks row = Inr ys"
  shows "\<forall>y \<in> set ys. band_typed horizon tasks y"
  using assms
  by (auto simp: outbound_row_def not_le split: if_splits option.splits prod.splits dest!: and_also_InrD skipping_InrD)
    (erule band_InrD; assumption)

lemma inbound_task_InrD:
  assumes "inbound_task tasks range_h i tk = Inr ys" and "clip c 0 horizon = Some range_h"
  shows "\<forall>y \<in> set ys. band_typed horizon tasks y"
  using assms by (auto simp: inbound_task_def split: if_splits dest!: and_also_InrD intro: band_InrD)

lemma inbound_row_InrD:
  assumes "inbound_row start horizon tasks row = Inr ys"
  shows "\<forall>y \<in> set ys. band_typed horizon tasks y"
proof (cases "ys = []")
  case False
  then obtain range_h c i tks where clip: "clip c 0 horizon = Some range_h" and ys: "collected (inbound_task tasks range_h i) tks = Inr ys"
    using assms by (auto simp: inbound_row_def split: option.splits prod.splits dest!: and_also_InrD skipping_InrD)
  show ?thesis by (rule collected_all [OF ys]) (erule inbound_task_InrD [OF _ clip])
qed simp

lemma indirect_row_InrD:
  assumes "indirect_row start horizon tasks row = Inr ys"
  shows "\<forall>y \<in> set ys. band_typed horizon tasks y"
  using assms
  by (auto simp: indirect_row_def not_le split: if_splits option.splits prod.splits dest!: and_also_InrD skipping_InrD)
    (erule band_InrD; assumption)

lemma build_demand_ok:
  assumes "build_demand data start horizon tasks = Inr demand"
  shows "\<forall>b \<in> set demand. band_typed horizon tasks b"
proof -
  obtain outbound inbound indirect row_o row_i row_d where demand: "demand = outbound @ inbound @ indirect"
    and rows: "collected (outbound_row start horizon tasks) row_o = Inr outbound"
      "collected (inbound_row start horizon tasks) row_i = Inr inbound" "collected (indirect_row start horizon tasks) row_d = Inr indirect"
    using assms by (auto simp: build_demand_def dest!: and_also_InrD)
  have "\<forall>b \<in> set outbound. band_typed horizon tasks b" by (rule collected_all [OF rows(1)]) (rule outbound_row_InrD)
  moreover have "\<forall>b \<in> set inbound. band_typed horizon tasks b" by (rule collected_all [OF rows(2)]) (rule inbound_row_InrD)
  moreover have "\<forall>b \<in> set indirect. band_typed horizon tasks b" by (rule collected_all [OF rows(3)]) (rule indirect_row_InrD)
  ultimately show ?thesis by (auto simp: demand)
qed

definition hour_caps_ok :: "(string \<times> rat) list \<Rightarrow> bool" where
  "hour_caps_ok caps \<longleftrightarrow> (\<forall>(e, c) \<in> set caps. e \<noteq> [] \<and> 0 < c)"

lemma add_cap_row_ok:
  assumes "hour_caps_ok caps" and "add_cap_row caps row = Inr caps'"
  shows "hour_caps_ok caps'"
proof -
  have more: "hour_caps_ok (caps @ [(e, c)])" if "e \<noteq> []" "0 < c" for e c
    using assms(1) that by (simp add: hour_caps_ok_def)
  show ?thesis
    using assms more by (auto simp: add_cap_row_def Let_def split: if_splits sum.splits dest!: and_also_InrD)
qed

interpretation cap_rows: accumulator add_cap_row hour_caps_ok
  by unfold_locales (rule add_cap_row_ok)

lemma built_problem_typed:
  assumes "build_problem data = Inr p"
  shows "problem_typed p"
proof -
  obtain start horizon tasks members demand templates where
    parts: "build_tasks data = Inr tasks" "build_members data start horizon tasks = Inr members"
      "build_demand data start horizon tasks = Inr demand" "build_templates data = Inr templates"
    and p: "p = \<lparr>sp_horizon_h = horizon, sp_members = members, sp_tasks = tasks, sp_templates = templates, sp_demand = demand,
          sp_max_hours_per_week = [], sp_max_shifts_per_day = []\<rparr>"
    using assms by (auto simp: build_problem_def dest!: and_also_InrD)
  show ?thesis
    using build_tasks_ok [OF parts(1)] build_members_ok [OF parts(2)] build_demand_ok [OF parts(3)] build_templates_ok [OF parts(4)]
    by (simp add: p problem_typed_def)
qed

lemma wired_problem_typed:
  assumes "problem_typed p" and "wire_employment_caps data p = Inr p'"
  shows "problem_typed p'"
proof -
  obtain vs caps where caps: "looped add_cap_row (sp_max_hours_per_week p) vs = Inr caps" and p': "p' = p\<lparr>sp_max_hours_per_week := caps\<rparr>"
    using assms(2) by (auto simp: wire_employment_caps_def dest!: and_also_InrD)
  have "hour_caps_ok caps"
    by (rule cap_rows.loop_keeps [OF _ caps]) (use assms(1) in \<open>simp add: problem_typed_def hour_caps_ok_def\<close>)
  then show ?thesis using assms(1) by (simp add: p' problem_typed_def hour_caps_ok_def)
qed

lemma problem_typed_ok:
  assumes "problem_typed p"
  shows "rates_ok p" and "caps_ok p"
  using assms by (fastforce simp: problem_typed_def member_typed_def rates_ok_def caps_ok_def)+

text \<open>
  C36. Every problem that comes out of the ingest step is well formed, whatever the document holds: task and template
  ids are distinct and not empty, template lengths are positive and breaks are in the order of the shift; each member can be
  scheduled and has something to do, the member's windows lie inside the horizon under distinct names of the form
  \<open>ros<i>\<close> and \<open>ava<i>\<close>, every rate is positive and belongs to a task of the problem; demand is positive, of a known task and
  inside the horizon; the weekly caps are positive and no daily cap is set.
\<close>

theorem ingested_problem_typed:
  assumes "build_problem data = Inr p" and "wire_employment_caps data p = Inr p'"
  shows "problem_typed p' \<and> p' = p\<lparr>sp_max_hours_per_week := sp_max_hours_per_week p'\<rparr>"
  using wired_problem_typed [OF built_problem_typed [OF assms(1)] assms(2)] assms(2)
  by (auto simp: wire_employment_caps_def dest!: and_also_InrD)

section \<open>A document\<close>

definition demo_document :: json where
  "demo_document = JObject
     [(''Scenario Range'', JList [JObject [(''PeriodStartDate'', JString ''2026-06-01T00:00:00''), (''PeriodEndDate'', JString ''2026-06-08T00:00:00'')]]),
      (''Task'', JList [JObject [(''TaskID'', JString ''T1''), (''Task'', JString ''Pick'')],
         JObject [(''TaskID'', JString ''T1'')], JObject [(''TaskID'', JNull)]]),
      (''Roster Profile'', JList [JObject [(''ContactID'', JString ''w1'')],
         JObject [(''ContactID'', JString ''w1''), (''StartDateTime'', JString ''2026-05-31T22:00:00''), (''EndDateTime'', JString ''2026-06-01T06:00:00'')]]),
      (''Team Member Qualification and Performance'', JList
         [JObject [(''ContactID'', JString ''w1''), (''TaskID'', JString ''T1''), (''TeamMemberTaskRateOverride'', JNull), (''DefaultTaskRate'', JString ''16.2'')]]),
      (''Team Member'', JList [JObject [(''ContactID'', JString ''w1''), (''EmploymentType'', JString ''Casual'')], JObject [(''ContactID'', JString ''w2'')]]),
      (''Indirect Workforce Requirement'', JList
         [JObject [(''TaskID'', JString ''T1''), (''Date'', JString ''2026-06-01T00:00:00''), (''WindowStartDateTime'', JString ''22:00:00''),
            (''WindowEndDateTime'', JString ''06:00''), (''RequiredHeadcount'', JInt 2)]]),
      (''Shift Schedule Template'', JList [JObject [(''ShiftScheduleTemplateID'', JString ''day''), (''TotalShiftHours'', JFloat 4)]]),
      (''Shift Constraint'', JList [JObject [(''ConstraintType'', JString ''Maximum Hours a Week''), (''ValueType'', JString ''Casual''), (''Value'', JString ''38'')]])]"

definition ingested_demo :: scheduling_problem where
  "ingested_demo = \<lparr>sp_horizon_h = 168,
     sp_members = [\<lparr>mm_contact_id = ''w1'', mm_name = ''Unknown'', mm_emp_type = ''Casual'', mm_grade_id = [], mm_eba_id = [],
       mm_contracted_hours = 38, mm_wage_per_hour = 40,
       mm_windows = [\<lparr>wn_id = ''ros1'', wn_start_h = 0, wn_end_h = 6, wn_kind = Roster\<rparr>],
       mm_qualifications = [\<lparr>ql_task_id = ''T1'', ql_rate = 81 / 5\<rparr>]\<rparr>],
     sp_tasks = [\<lparr>ta_task_id = ''T1'', ta_name = ''Pick'', ta_function = ''Unknown'', ta_area_id = [], ta_unit_id = None\<rparr>],
     sp_templates = [\<lparr>tp_id = ''day'', tp_name = ''day'', tp_length_h = 4, tp_breaks = []\<rparr>],
     sp_demand = [\<lparr>db_task_id = ''T1'', db_family = Indirect, db_start_h = 22, db_end_h = 30, db_amount = 2, db_order_id = ''IND0''\<rparr>],
     sp_max_hours_per_week = [], sp_max_shifts_per_day = []\<rparr>"

text \<open>Evaluation runs the first step of a sequence before it looks at the rest.\<close>

lemma first_step_cong: "r = r' \<Longrightarrow> and_also r f = and_also r' f"
  by simp

lemma and_also_simps: "and_also (Inl e) f = Inl e" "and_also (Inr x) f = f x"
  by (simp_all add: and_also_def)

lemmas reading_steps = get_field_def item_def rows_def as_text_def as_optional_text_def text_field_def get_key_def item_key_def
  float_field_def to_float_def dict_of_def get_or_def skipping_def

lemma demo_values:
  "parse_dt (JString ''2026-06-01T00:00:00'') = Inr 63915955200" "parse_dt (JString ''2026-06-08T00:00:00'') = Inr 63916560000"
  "parse_dt (JString ''2026-05-31T22:00:00'') = Inr 63915948000" "parse_dt (JString ''2026-06-01T06:00:00'') = Inr 63915976800"
  "parse_time_of_day (JString ''22:00:00'') = Inr 22" "parse_time_of_day (JString ''06:00'') = Inr 6"
  "float_of_text ''16.2'' = Inr (81 / 5)" "float_of_text ''38'' = Inr 38" "float_of_int 2 = Inr 2"
  by code_simp+

lemma demo_digits: "str_nat 0 = ''0''" "str_nat (Suc 0) = ''1''"
  by (simp_all add: str_nat.simps [of 0] str_nat.simps [of "Suc 0"] digit_char_def) code_simp+

lemma demo_range: "scenario_range demo_document = Inr (63915955200, 168)"
  by (simp add: scenario_range_def demo_document_def reading_steps and_also_simps demo_values hours_from_def cong: first_step_cong)

lemma demo_tasks: "build_tasks demo_document = Inr (sp_tasks ingested_demo)"
  by (simp add: build_tasks_def function_names_def add_task_row_def known_task_def demo_document_def ingested_demo_def reading_steps
      and_also_simps demo_values demo_digits cong: first_step_cong)

lemma demo_members: "build_members demo_document 63915955200 168 (sp_tasks ingested_demo) = Inr (sp_members ingested_demo)"
  by (simp add: build_members_def windows_for_def window_row_def span_of_def clip_def kind_prefix_def qualification_row_def known_task_def
      member_row_def mean_wage_def lookup_all_def hours_from_def demo_document_def ingested_demo_def reading_steps
      and_also_simps demo_values demo_digits cong: first_step_cong)

lemma demo_demand: "build_demand demo_document 63915955200 168 (sp_tasks ingested_demo) = Inr (sp_demand ingested_demo)"
  by (simp add: build_demand_def indirect_row_def indirect_span_def day_window_hours_def plus_hours_def py_round_def last_ordinal_def
      clip_def known_task_def band_def hours_from_def demo_document_def ingested_demo_def reading_steps
      and_also_simps demo_values demo_digits cong: first_step_cong)

lemma demo_templates: "build_templates demo_document = Inr (sp_templates ingested_demo)"
  by (simp add: build_templates_def add_template_row_def lookup_all_def demo_document_def ingested_demo_def reading_steps
      and_also_simps demo_values demo_digits cong: first_step_cong)

lemma demo_document_built: "build_problem demo_document = Inr ingested_demo"
  using demo_members demo_demand
  by (simp add: build_problem_def and_also_simps demo_range demo_tasks demo_templates) (simp add: ingested_demo_def)

lemma demo_document_wired:
  "wire_employment_caps demo_document ingested_demo = Inr (ingested_demo\<lparr>sp_max_hours_per_week := [(''Casual'', 38)]\<rparr>)"
  by (simp add: wire_employment_caps_def add_cap_row_def text_or_empty_def strip_chars_def is_space_def demo_document_def ingested_demo_def
      reading_steps and_also_simps demo_values Let_def cong: first_step_cong)

theorem ingested_problem_typed_witness:
  "problem_typed (ingested_demo\<lparr>sp_max_hours_per_week := [(''Casual'', 38)]\<rparr>)"
  using ingested_problem_typed [OF demo_document_built demo_document_wired] by simp

section \<open>Windows that cross midnight\<close>

lemma parse_time_of_day_seconds:
  assumes "parse_time_of_day v = Inr x"
  shows "\<exists>n. x = of_int n / 3600"
proof -
  obtain h m s :: int where "x = of_int h + of_int m / 60 + of_int s / 3600"
    using assms by (auto simp: parse_time_of_day_def Let_def float_of_int_def split: option.splits if_splits dest!: and_also_InrD)
  then have "x = of_int (3600 * h + 60 * m + s) / 3600" by simp
  then show ?thesis by blast
qed

lemma plus_hours_InrD:
  assumes "plus_hours day (of_int n / 3600) = Inr t"
  shows "t = of_int day + of_int n"
proof -
  have "py_round (of_int n / 3600 * 3600000000 :: rat) = n * 1000000"
    using py_round_of_int [of "n * 1000000"] by (simp add: mult.commute)
  then show ?thesis using assms by (simp add: plus_hours_def Let_def split: if_splits)
qed

text \<open>
  A daily requirement between two times of the same day starts at the first and ends at the second, on the next day
  when the second is not later: a window over midnight is not lost, and no window is empty or longer than a day.
\<close>

theorem day_window_exact:
  assumes "day_window_hours start date_str tod_start tod_end = Inr (s, e)" and "parse_dt date_str = Inr day"
    and "parse_time_of_day tod_start = Inr x" and "parse_time_of_day tod_end = Inr y" and "0 \<le> x" "x < 24" "0 \<le> y" "y < 24"
  shows "s = hours_from start (of_int day) + x \<and> e = hours_from start (of_int day) + y + (if y \<le> x then 24 else 0)
    \<and> s < e \<and> e \<le> s + 24"
proof -
  obtain m n where x: "x = of_int m / 3600" and y: "y = of_int n / 3600"
    using parse_time_of_day_seconds [OF assms(3)] parse_time_of_day_seconds [OF assms(4)] by blast
  define n' where "n' = n + (if y \<le> x then 86400 else 0)"
  have y': "y + (if y \<le> x then 24 else 0) = of_int n' / 3600" by (simp add: n'_def y)
  obtain t u where t: "plus_hours day x = Inr t" "s = hours_from start t"
    and u: "plus_hours day (y + (if y \<le> x then 24 else 0)) = Inr u" "e = hours_from start u"
    using assms(1-4) by (auto simp: day_window_hours_def dest!: and_also_InrD)
  have tu: "t = of_int day + of_int m" "u = of_int day + of_int n'"
    using plus_hours_InrD t(1) u(1) unfolding y' unfolding x by blast+
  have "s = hours_from start (of_int day) + x" by (simp add: t(2) tu(1) hours_from_def x field_simps)
  moreover have "e = hours_from start (of_int day) + (y + (if y \<le> x then 24 else 0))"
    by (simp add: u(2) tu(2) y' hours_from_def field_simps)
  ultimately show ?thesis using assms(5-8) by auto
qed

theorem day_window_exact_witness:
  "\<exists>s e. day_window_hours 63915955200 (JString ''2026-06-01T00:00:00'') (JString ''22:00:00'') (JString ''06:00'') = Inr (s, e)
     \<and> s = 22 \<and> e = 30 \<and> e \<le> s + 24"
proof -
  have "day_window_hours 63915955200 (JString ''2026-06-01T00:00:00'') (JString ''22:00:00'') (JString ''06:00'') = Inr (22, 30)"
    by (simp add: day_window_hours_def plus_hours_def py_round_def last_ordinal_def hours_from_def and_also_simps demo_values)
  then show ?thesis using day_window_exact [OF _ demo_values(1,5,6)] by fastforce
qed

end
