(* ===== verification/Governed_Adapter.thy ===== *)
theory Governed_Adapter
  imports Ingest_Guarantees Solve_Guarantees Draft_Guarantees
begin

text \<open>
  The governed solve as a whole: reading the frozen input (\<^verbatim>\<open>adapters/postgres/solver_input.py\<close>) and
  \<^verbatim>\<open>GovernedSchedulerAdapter.solve\<close> (\<^verbatim>\<open>engine/governed_adapter.py\<close>), which ingests it, builds the
  model, solves it and translates the result.
\<close>

section \<open>The frozen input\<close>

record solver_input_row =
  si_scenario_version_id :: uuid
  si_payload :: json
  si_checksum_digest :: string

datatype adapter_error =
    AssertionFailed
  | SnapshotInputMissing
  | SnapshotDigestMismatch
  | DigestValueError
  | IngestFailed ingest_error
  | EngineFailed engine_error

definition load_solver_input ::
  "(json \<Rightarrow> string option) \<Rightarrow> solver_input_row list \<Rightarrow> uuid \<Rightarrow> string \<Rightarrow> adapter_error + json" where
  "load_solver_input digest stored scenario_version_id expected =
     (case find (\<lambda>r. si_scenario_version_id r = scenario_version_id) stored of
        None \<Rightarrow> Inl SnapshotInputMissing
      | Some row \<Rightarrow>
          (case digest (si_payload row) of
             None \<Rightarrow> Inl DigestValueError
           | Some recomputed \<Rightarrow>
               if si_checksum_digest row \<noteq> expected \<or> recomputed \<noteq> expected then Inl SnapshotDigestMismatch
               else Inr (si_payload row)))"

definition failing_with :: "('e \<Rightarrow> adapter_error) \<Rightarrow> 'e + 'a \<Rightarrow> adapter_error + 'a" where
  "failing_with c r = map_sum c id r"

definition governed_adapter_solve ::
  "solve_environment \<Rightarrow> solver_input_row list \<Rightarrow> run_snapshot_v1 \<Rightarrow> adapter_error + solver_outcome_v1" where
  "governed_adapter_solve env stored snapshot = (case (rs_scenario_version_id snapshot, rs_solver_config snapshot) of
      (Some version, Some config) \<Rightarrow>
        and_also (load_solver_input (se_digest env) stored version (rs_checksum_digest snapshot)) (\<lambda>payload.
        and_also (failing_with IngestFailed (build_problem payload)) (\<lambda>problem.
        and_also (failing_with IngestFailed (wire_employment_caps payload problem)) (\<lambda>capped.
        failing_with EngineFailed (governed_solve env capped config (rs_constraints snapshot)))))
    | _ \<Rightarrow> Inl AssertionFailed)"

section \<open>Accepted constraints are overrides\<close>

lemma record_id_Cons: "record_id es g = (case filter (\<lambda>e. re_group e = g) es of [e] \<Rightarrow> Inr (re_record_id e)
    | _ \<Rightarrow> Inl (EngineValueError ''constraint requires exactly one entity''))"
  by (auto simp: record_id_def split: list.splits)

lemma well_formed_override:
  assumes "well_formed_constraint horizon c"
  shows "\<exists>ov. override_of c = Inr ov \<and> override_ok ov"
  using assms
  by (auto simp: well_formed_constraint_def override_of_def record_id_Cons and_also_simps map_eq_Cons_conv split: draft_constraint_kind.splits)

lemma well_formed_overrides:
  "\<forall>c \<in> set cs. well_formed_constraint horizon c \<Longrightarrow> \<exists>ovs. constraints_to_overrides cs = Inr ovs \<and> (\<forall>ov \<in> set ovs. override_ok ov)"
proof (induction cs)
  case (Cons c cs)
  then obtain ov ovs where "override_of c = Inr ov" "override_ok ov" "constraints_to_overrides cs = Inr ovs" "\<forall>ov \<in> set ovs. override_ok ov"
    using well_formed_override [of horizon c] by auto
  then show ?case by (simp add: and_also_simps)
qed simp

lemma accepted_overrides:
  assumes "resolve_constraints nt context proposals horizon = Inr constraints"
  shows "\<exists>ovs. constraints_to_overrides constraints = Inr ovs \<and> (\<forall>ov \<in> set ovs. override_ok ov)"
proof (rule well_formed_overrides)
  show "\<forall>c \<in> set constraints. well_formed_constraint horizon c"
    using list_all2_in_set2 [OF resolve_constraints_InrD [OF assms]] by (auto simp: good_constraint_def)
qed

section \<open>The translation raises nothing\<close>

lemma and_also_returns: "\<exists>x. r = Inr x \<Longrightarrow> (\<And>x. \<exists>y. f x = Inr y) \<Longrightarrow> \<exists>y. and_also r f = Inr y"
  by (auto simp: and_also_def)

lemma all_results_Inr: "(\<And>x. x \<in> set xs \<Longrightarrow> \<exists>y. f x = Inr y) \<Longrightarrow> \<exists>ys. all_results f xs = Inr ys"
proof (induction xs)
  case (Cons x xs)
  then obtain y ys where "f x = Inr y" "all_results f xs = Inr ys" by (metis list.set_intros)
  then show ?case by (simp add: and_also_simps)
qed simp

text \<open>The digest of the source: \<open>contract_digest\<close>, of which only the text is used. It fails on an integer that no double holds.\<close>

definition digest_text :: "(string \<Rightarrow> string) \<Rightarrow> (float_value \<Rightarrow> string) \<Rightarrow> json \<Rightarrow> string option" where
  "digest_text sha256 float_text v = map_option (\<lambda>(_, _, t). t) (contract_digest sha256 float_text v)"

lemma digest_text_None: "digest_text sha256 ft v = None \<longleftrightarrow> serialize ft v = None"
  by (simp add: digest_text_def contract_digest_def)

lemma those_map_Some_iff: "those_map f xs = None \<longleftrightarrow> (\<exists>x \<in> set xs. f x = None)"
  by (induction xs) (auto split: option.splits)

lemma object_serialized: "(\<And>kv. kv \<in> set kvs \<Longrightarrow> serialize ft (snd kv) \<noteq> None) \<Longrightarrow> serialize ft (JObject kvs) \<noteq> None"
  by (auto simp: those_map_Some_iff)

lemma short_digest_Inr: "serialize ft v \<noteq> None \<Longrightarrow> \<exists>t. short_digest (digest_text sha256 ft) prefix v = Inr t"
  using digest_text_None [of sha256 ft v] by (auto simp: short_digest_def split: option.splits)

subsection \<open>Every digested integer is a double\<close>

lemma digits_value_less: "list_all (is_digit 10) s \<Longrightarrow> digits_value 10 s < 10 ^ length s"
proof (induction s rule: rev_induct)
  case Nil
  then show ?case by (simp add: digits_value_def)
next
  case (snoc c s)
  have "get_or 0 (digit_value c) < 10" using snoc.prems by (auto simp: is_digit_def get_or_def split: option.splits)
  then show ?case using snoc by (simp add: digits_value_snoc)
qed

lemma sum_list_days: "0 \<le> (\<Sum>i \<leftarrow> is. days_in_month y i) \<and> (\<Sum>i \<leftarrow> is. days_in_month y i) \<le> 31 * int (length is)"
proof (induction "is")
  case (Cons i "is")
  have "0 \<le> days_in_month y i \<and> days_in_month y i \<le> 31" by (simp add: days_in_month_def)
  then show ?case using Cons.IH by auto
qed simp

lemma div_at_most: "0 \<le> (y :: int) \<Longrightarrow> 1 \<le> k \<Longrightarrow> y div k \<le> y"
  using zdiv_mono2 [of y 1 k] by simp

lemma civil_seconds_bounds:
  assumes "civil_seconds y m d hh mm ss = Some t" and "y < 10000" and "0 \<le> hh" "0 \<le> mm" "0 \<le> ss"
  shows "0 \<le> t \<and> t < 400000000000"
proof -
  have ok: "1 \<le> y" "1 \<le> m" "m \<le> 12" "1 \<le> d" "d \<le> days_in_month y m" "hh \<le> 23" "mm \<le> 59" "ss \<le> 59"
    and t: "t = 86400 * day_ordinal y m d + 3600 * hh + 60 * mm + ss"
    using assms(1) by (auto simp: civil_seconds_def split: if_splits)
  have "d \<le> 31" using ok(5) by (auto simp: days_in_month_def split: if_splits)
  let ?y = "y - 1"
  have year: "0 \<le> ?y div 4" "?y div 4 \<le> ?y" "0 \<le> ?y div 100" "?y div 100 \<le> ?y" "0 \<le> ?y div 400" "?y div 400 \<le> ?y"
    using ok(1) by (simp_all add: div_at_most pos_imp_zdiv_nonneg_iff)
  have months: "0 \<le> (\<Sum>i \<leftarrow> [1..m - 1]. days_in_month y i)" "(\<Sum>i \<leftarrow> [1..m - 1]. days_in_month y i) \<le> 341"
    using sum_list_days [of y "[1..m - 1]"] ok(2,3) by auto
  define q4 q100 q400 months where q: "q4 = ?y div 4" "q100 = ?y div 100" "q400 = ?y div 400"
    "months = (\<Sum>i \<leftarrow> [1..m - 1]. days_in_month y i)"
  note bounds = year [folded q] months [folded q]
  have "0 \<le> day_ordinal y m d"
    unfolding day_ordinal_def q [symmetric] using bounds ok(1,4) by (simp add: right_diff_distrib)
  moreover have "day_ordinal y m d \<le> 4000000"
    unfolding day_ordinal_def q [symmetric] using bounds \<open>d \<le> 31\<close> assms(2) by (simp add: right_diff_distrib)
  ultimately show ?thesis unfolding t using ok(6-8) assms(3-5) by linarith
qed

lemma parse_dt_bounds:
  assumes "parse_dt v = Inr t"
  shows "0 \<le> t \<and> t < 400000000000"
proof -
  have short: "0 \<le> x" if "short_number w = Some x" for w x using that by (auto simp: short_number_def split: if_splits)
  obtain s where "strptime_seconds s = Some t"
    using assms by (auto simp: parse_dt_def split: json.splits option.splits)
  then obtain y m d hh mm ss ws where t: "civil_seconds (int (digits_value 10 y)) m d hh mm ss = Some t"
    "length y = 4" "list_all (is_digit 10) y" "short_number (fst ws) = Some hh" "short_number (fst (snd ws)) = Some mm"
    "short_number (snd (snd ws)) = Some ss"
    by (auto simp: strptime_seconds_def Let_def split: option.splits if_splits prod.splits)
  then show ?thesis
    using civil_seconds_bounds [OF t(1)] digits_value_less [OF t(3)] short [OF t(4)] short [OF t(5)] short [OF t(6)] by simp
qed

lemma built_horizon:
  assumes "build_problem data = Inr p"
  shows "sp_horizon_h p \<le> 200000000"
proof -
  obtain start finish where "0 \<le> start \<and> start < 400000000000" "0 \<le> finish \<and> finish < 400000000000"
    "sp_horizon_h p = hours_from start (of_int finish)"
    using assms by (auto simp: build_problem_def scenario_range_def split: list.splits dest!: and_also_InrD parse_dt_bounds)
  moreover from this(1,2) have "(of_int (finish - start) :: rat) \<le> of_int 400000000000" by (intro of_int_le_iff [THEN iffD2]) linarith
  ultimately show ?thesis by (simp add: hours_from_def)
qed

lemma wired_same: "wire_employment_caps payload p = Inr p' \<Longrightarrow> sp_horizon_h p' = sp_horizon_h p"
  by (auto simp: wire_employment_caps_def dest!: and_also_InrD)

text \<open>The tasks of a model lie in the windows of its members, so within the horizon, up to rounding.\<close>

lemma cut_hole_inside:
  assumes "\<forall>i \<in> set segs. fst i < snd i \<and> lo \<le> fst i \<and> snd i \<le> hi" and "j \<in> set (fold cut_hole holes segs)"
  shows "fst j < snd j \<and> lo \<le> fst j \<and> snd j \<le> hi"
  using assms
proof (induction holes arbitrary: segs)
  case (Cons h holes)
  have "\<forall>i \<in> set (cut_hole h segs). fst i < snd i \<and> lo \<le> fst i \<and> snd i \<le> hi"
    using Cons.prems(1) cut_segment_within [of _ h] by (fastforce simp: cut_hole_def)
  from Cons.IH [OF this] show ?case using Cons.prems(2) by simp
qed simp

lemma slot_inside:
  assumes "slot \<in> set (shift_slots start tpl)" and "i \<in> set slot" and "0 < tp_length_h tpl"
  shows "start \<le> fst i \<and> fst i < snd i \<and> snd i \<le> start + tp_length_h tpl"
proof -
  have "i \<in> set (concat (shift_slots start tpl))" using assms(1,2) by auto
  then have "i \<in> set (working_intervals start tpl)" by (simp only: shift_slots_def split_into_slots_parts(1))
  then show ?thesis
    using cut_hole_inside [of "[(start, start + tp_length_h tpl)]" start "start + tp_length_h tpl" i] assms(3)
    by (auto simp: working_intervals_def subtract_def)
qed

lemma task_hours:
  assumes "build_model ord p ovs = Inr bm" and "tv \<in> set (bu_task_vars (bm_builder bm))" and "problem_typed p"
  shows "-1 \<le> tv_start_h tv \<and> tv_start_h tv \<le> sp_horizon_h p + 1 \<and> -1 \<le> tv_end_h tv \<and> tv_end_h tv \<le> sp_horizon_h p + 1"
    and "sf_member (tv_shift tv) \<in> set (sp_members p)"
proof -
  obtain d where inv: "candidates_inv (set (candidates ord p d)) (candidate_model ord p d)"
    and same: "same_choice (candidate_model ord p d) (bm_builder bm)"
    using built_model_solutions [OF assms(1)] by blast
  have tv: "tv \<in> set (bu_task_vars (candidate_model ord p d))" using assms(2) same by (simp add: same_choice_def)
  then have sf: "tv_shift tv \<in> set (bu_shift_vars (candidate_model ord p d))" using inv by (simp add: candidates_inv_def)
  have "tv \<in> set (tasks_of (candidate_model ord p d) (tv_shift tv))" using tv by (simp add: tasks_of_def)
  then obtain c where c: "c \<in> set (candidates ord p d)" "is_candidate c (tv_shift tv)" "is_slot_task (ca_quals c) (tv_shift tv) tv"
    using inv sf unfolding candidates_inv_def by blast
  have m: "ca_member c \<in> set (sp_members p)" "ca_window c \<in> set (mm_windows (ca_member c))" "ca_template c \<in> set (sp_templates p)"
    "ca_start c \<in> set (get_or [] (candidate_starts (ca_window c) (ca_template c)))"
    using c(1) by (auto simp: candidates_def member_candidates_def Let_def split: if_splits)
  then show "sf_member (tv_shift tv) \<in> set (sp_members p)" using c(2) by (simp add: is_candidate_def)
  have len: "0 < tp_length_h (ca_template c)" using m(3) assms(3) by (simp add: problem_typed_def templates_ok_def)
  have window: "0 \<le> wn_start_h (ca_window c)" "wn_end_h (ca_window c) \<le> sp_horizon_h p"
    using m(1,2) assms(3) by (auto simp: problem_typed_def member_typed_def inside_def)
  obtain starts where "candidate_starts (ca_window c) (ca_template c) = Some starts" "ca_start c \<in> set starts"
    using m(4) by (cases "candidate_starts (ca_window c) (ca_template c)") (auto simp: get_or_def)
  then have "wn_start_h (ca_window c) - tolerance - 1 / 20000 \<le> ca_start c"
    "ca_start c + tp_length_h (ca_template c) \<le> wn_end_h (ca_window c) + tolerance + 1 / 20000"
    using start_choices_within [of "ca_start c" "ca_window c" "wn_end_h (ca_window c) - tp_length_h (ca_template c)"]
    by (auto simp: candidate_starts_def Let_def algebra_simps split: if_splits)
  then have start: "-1 \<le> ca_start c" "ca_start c + tp_length_h (ca_template c) \<le> sp_horizon_h p + 1"
    using window by (simp_all add: tolerance_def)
  let ?slot = "sf_slots (tv_shift tv) ! tv_slot_idx tv"
  have slot: "?slot \<in> set (shift_slots (ca_start c) (ca_template c))" "?slot \<noteq> []"
    and tv: "tv_start_h tv = fst (hd ?slot)" "tv_end_h tv = snd (last ?slot)"
    using c(2,3) by (auto simp: is_slot_task_def is_candidate_def)
  note inside = slot_inside [OF slot(1) hd_in_set [OF slot(2)] len] slot_inside [OF slot(1) last_in_set [OF slot(2)] len]
  show "-1 \<le> tv_start_h tv \<and> tv_start_h tv \<le> sp_horizon_h p + 1 \<and> -1 \<le> tv_end_h tv \<and> tv_end_h tv \<le> sp_horizon_h p + 1"
    unfolding tv using inside start by auto
qed

lemma minutes_serialized:
  assumes "-1 \<le> h" and "h \<le> 200000001"
  shows "serialize ft (JInt (hours_to_minutes h)) \<noteq> None"
proof -
  have "py_round (of_int (- 60)) \<le> hours_to_minutes h" "hours_to_minutes h \<le> py_round (of_int 12000000060)"
    unfolding hours_to_minutes_def using assms by (intro py_round_mono; simp)+
  then have "- 60 \<le> hours_to_minutes h" "hours_to_minutes h \<le> 12000000060" by (simp_all only: py_round_of_int)
  then show ?thesis by (simp add: serialize_number_def)
qed

lemma assignment_of_Inr:
  assumes "sr_contact_id row \<in> mm_contact_id ` set (sp_members p)"
    and "-1 \<le> sr_start_h row" "sr_start_h row \<le> 200000001" "-1 \<le> sr_end_h row" "sr_end_h row \<le> 200000001"
  shows "\<exists>a. assignment_of (digest_text sha256 ft) p row = Inr a"
proof -
  obtain m where m: "dict_of (map (\<lambda>m. (mm_contact_id m, m)) (sp_members p)) (sr_contact_id row) = Some m"
    using assms(1) dict_of_eq_None [of "map (\<lambda>m. (mm_contact_id m, m)) (sp_members p)" "sr_contact_id row"] by (auto simp: image_image)
  have doc: "serialize ft (JObject [(''worker_id'', JString (sr_contact_id row)), (''task_id'', JString (sr_task_id row)),
      (''shift_id'', JString (sr_shift_id row)), (''start_minute'', JInt (hours_to_minutes (sr_start_h row))),
      (''end_minute'', JInt (hours_to_minutes (sr_end_h row)))]) \<noteq> None"
    using minutes_serialized [OF assms(2,3), of ft] minutes_serialized [OF assms(4,5), of ft]
    by (intro object_serialized) (auto simp del: serialize.simps(4))
  show ?thesis
    unfolding assignment_of_def m Let_def option.case by (intro and_also_returns short_digest_Inr [OF doc]) blast
qed

lemma demand_fact_Inr: "\<exists>d. demand_fact (digest_text sha256 ft) b = Inr d"
proof -
  have doc: "serialize ft (JObject [(''task_id'', JString (db_task_id b)), (''family'', JString (Engine_Solve.family_name (db_family b))),
      (''start'', JFloat (db_start_h b)), (''end'', JFloat (db_end_h b)), (''amount'', JFloat (db_amount b)),
      (''order_id'', JString (db_order_id b))]) \<noteq> None"
    by (intro object_serialized) auto
  show ?thesis unfolding demand_fact_def by (intro and_also_returns short_digest_Inr [OF doc]) blast
qed

lemma governed_outcome_Inr:
  fixes r :: governed_lex_result
  assumes "build_model ord p ovs = Inr bm" and "problem_typed p" and "sp_horizon_h p \<le> 200000000"
  shows "\<exists>outcome facts. governed_outcome (digest_text sha256 ft) p bm r = Inr outcome \<and> so_validation_facts outcome = Some facts
    \<and> vf_workers facts = map worker_fact (sp_members p)"
proof -
  have "\<exists>a. assignment_of (digest_text sha256 ft) p row = Inr a" if row: "row \<in> set (governed_rows p bm r)" for row
  proof -
    obtain tv where tv: "tv \<in> set (bu_task_vars (bm_builder bm))" "row = row_of p tv"
      using row by (auto simp: governed_rows_def selected_tasks_def split: if_splits)
    show ?thesis
      using task_hours [OF assms(1) tv(1) assms(2)] assms(3) by (intro assignment_of_Inr) (auto simp: tv(2) row_of_def)
  qed
  then obtain as where as: "all_results (assignment_of (digest_text sha256 ft) p) (governed_rows p bm r) = Inr as"
    using all_results_Inr by meson
  obtain ds where ds: "all_results (demand_fact (digest_text sha256 ft)) (sp_demand p) = Inr ds"
    using all_results_Inr demand_fact_Inr by meson
  show ?thesis by (simp add: governed_outcome_def as validation_facts_def ds and_also_simps)
qed

text \<open>
  C37. A run that was accepted is solved: when the stored input still has the frozen digest and can be ingested, and the
  constraints of the run are those of an accepted draft, then the governed solve raises nothing, for every solver, clock and
  budget, its model has a solution, and the outcome lists the facts of all members of the ingested problem. The digest is
  that of the source, over any hash function and any text of floats; it does raise on integers that no double holds, but
  none of the integers that are digested here is one.
\<close>

theorem accepted_run_is_solved:
  assumes "se_digest env = digest_text sha256 float_text"
    and "load_solver_input (se_digest env) stored version (rs_checksum_digest snapshot) = Inr payload"
    and "build_problem payload = Inr problem" and "wire_employment_caps payload problem = Inr capped"
    and "resolve_constraints nt context proposals horizon = Inr (rs_constraints snapshot)"
    and "rs_scenario_version_id snapshot = Some version" and "rs_solver_config snapshot = Some config"
    and "sc_engine_name config = ''cpsat''"
  shows "\<exists>outcome facts ovs bm x. governed_adapter_solve env stored snapshot = Inr outcome
    \<and> so_validation_facts outcome = Some facts \<and> vf_workers facts = map worker_fact (sp_members capped)
    \<and> constraints_to_overrides (rs_constraints snapshot) = Inr ovs \<and> build_model (se_order env) capped ovs = Inr bm
    \<and> satisfies x (bu_model (bm_builder bm))"
proof -
  have typed: "problem_typed capped" by (rule wired_problem_typed [OF built_problem_typed [OF assms(3)] assms(4)])
  note capped_ok = problem_typed_ok [OF typed]
  have horizon: "sp_horizon_h capped \<le> 200000000" using built_horizon [OF assms(3)] wired_same [OF assms(4)] by simp
  obtain ovs where ovs: "constraints_to_overrides (rs_constraints snapshot) = Inr ovs" "\<forall>ov \<in> set ovs. override_ok ov"
    using accepted_overrides [OF assms(5)] by blast
  obtain bm x where bm: "build_model (se_order env) capped ovs = Inr bm" "satisfies x (bu_model (bm_builder bm))"
    by (rule build_solutions [OF capped_ok(1) ovs(2), where ord = "se_order env"]) (use idle_roster_ok [OF capped_ok(2)] in blast)
  obtain outcome facts where out: "governed_outcome (se_digest env) capped bm
      (solve_lexicographic_governed (se_solver env) (se_clock env) config (se_use_deterministic env) bm) = Inr outcome"
    and facts: "so_validation_facts outcome = Some facts" "vf_workers facts = map worker_fact (sp_members capped)"
    unfolding assms(1) using governed_outcome_Inr [OF bm(1) typed horizon] by blast
  have "governed_solve env capped config (rs_constraints snapshot) = Inr outcome"
    using out assms(8) by (simp add: governed_solve_def ovs(1) bm(1) and_also_simps)
  then have "governed_adapter_solve env stored snapshot = Inr outcome"
    by (simp add: governed_adapter_solve_def assms(2-4,6,7) failing_with_def and_also_simps)
  then show ?thesis using facts ovs(1) bm by blast
qed

text \<open>The example hashes a text to itself.\<close>

definition demo_digest :: "json \<Rightarrow> string option" where
  "demo_digest = digest_text (\<lambda>t. t) (\<lambda>_. ''1.5'')"

definition demo_checksum :: string where
  "demo_checksum = get_or [] (demo_digest demo_document)"

definition demo_environment :: solve_environment where
  "demo_environment = \<lparr>se_solver = checked_solver [], se_clock = (\<lambda>_. 0), se_order = demo_order,
     se_digest = demo_digest, se_use_deterministic = True\<rparr>"

definition demo_exclusion :: "draft_constraint_v1 list" where
  "demo_exclusion = [plain_constraint ExcludeWorkerFromTask
        [\<lparr>re_group = Workers, re_record_id = ''w1'', re_label = ''w1 (w1)'', re_scenario_version_id = Some 10\<rparr>,
         \<lparr>re_group = WorkAreasAndTasks, re_record_id = ''T1'', re_label = ''Pick (T1)'', re_scenario_version_id = Some 10\<rparr>]
        ''Keep w1 (w1) off Pick (T1).'']"

definition frozen_demo :: run_snapshot_v1 where
  "frozen_demo = demo_unsealed\<lparr>rs_scenario_version_id := Some 10, rs_checksum_digest := demo_checksum, rs_constraints := demo_exclusion,
     rs_solver_config := Some demo_config\<rparr>"

definition stored_demo :: "solver_input_row list" where
  "stored_demo = [\<lparr>si_scenario_version_id = 10, si_payload = demo_document, si_checksum_digest = demo_checksum\<rparr>]"

theorem accepted_run_is_solved_witness:
  "\<exists>outcome facts. governed_adapter_solve demo_environment stored_demo frozen_demo = Inr outcome
     \<and> so_validation_facts outcome = Some facts \<and> length (vf_workers facts) = 1"
proof -
  have "resolve_constraints demo_number_texts demo_deps [demo_proposal] 10080 = Inr (rs_constraints frozen_demo)"
    using demo_resolved by (simp add: frozen_demo_def demo_exclusion_def)
  note resolved = this
  have "demo_digest demo_document \<noteq> None" by code_simp
  then have digest: "demo_digest demo_document = Some demo_checksum" by (auto simp: demo_checksum_def get_or_def)
  have env: "se_digest demo_environment = digest_text (\<lambda>t. t) (\<lambda>_. ''1.5'')" by (simp add: demo_environment_def demo_digest_def)
  have load: "load_solver_input (se_digest demo_environment) stored_demo 10 (rs_checksum_digest frozen_demo) = Inr demo_document"
    by (simp add: demo_environment_def load_solver_input_def stored_demo_def frozen_demo_def digest)
  show ?thesis
    using accepted_run_is_solved [OF env load demo_document_built demo_document_wired resolved, of demo_config]
    by (fastforce simp: frozen_demo_def demo_config_def ingested_demo_def)
qed

end
