(* ===== verification/Normalization.thy ===== *)
theory Normalization
  imports Ingest Projection
begin

text \<open>
  From the JSON document to the normalized groups the projection serves (\<^verbatim>\<open>_normalize_tasks\<close>,
  \<^verbatim>\<open>_normalize_workers\<close>, \<^verbatim>\<open>_normalize_demand\<close>, \<^verbatim>\<open>_normalize_constraints\<close> and \<^verbatim>\<open>_horizon\<close> in
  \<^verbatim>\<open>adapters/postgres/scenario_projection.py\<close>). Instants are in seconds of UTC; the offset of the site's time
  zone at a local time comes from the time zone database and is a parameter. As in \<^verbatim>\<open>Ingest\<close>, \<open>OutsideModel\<close>
  stands for a value whose text or type the model does not represent.
\<close>

section \<open>Texts\<close>

text \<open>\<open>str(v)\<close>.\<close>

fun str_of :: "json \<Rightarrow> ingest_error + string" where
  "str_of (JString s) = Inr s"
| "str_of JNull = Inr ''None''"
| "str_of (JBool b) = Inr (if b then ''True'' else ''False'')"
| "str_of (JInt i) = Inr (str_int i)"
| "str_of _ = Inl OutsideModel"

definition str_field :: "json \<Rightarrow> string \<Rightarrow> string \<Rightarrow> ingest_error + string" where
  "str_field d k fallback = and_also (get_field d k (JString fallback)) str_of"

definition optional_str :: "json \<Rightarrow> ingest_error + string option" where
  "optional_str v = (if v = JNull then Inr None else and_also (str_of v) (\<lambda>s. Inr (Some s)))"

text \<open>\<open>str(v) if v else None\<close>.\<close>

definition truthy_str :: "json \<Rightarrow> ingest_error + string option" where
  "truthy_str v = (if truthy v then and_also (str_of v) (\<lambda>s. Inr (Some s)) else Inr None)"

text \<open>\<open>try: ... except (KeyError, TypeError, ValueError): continue\<close>.\<close>

definition skipping_some :: "ingest_error + 'a \<Rightarrow> ('a \<Rightarrow> ingest_error + 'b list) \<Rightarrow> ingest_error + 'b list" where
  "skipping_some r f = (case r of
      Inl e \<Rightarrow> if e \<in> {IngestKeyError, IngestTypeError, IngestValueError} then Inr [] else Inl e
    | Inr x \<Rightarrow> f x)"

section \<open>Time\<close>

text \<open>A local time in the zone of the site as an instant; years 1 to 9999 only.\<close>

definition utc_of :: "(int \<Rightarrow> int) \<Rightarrow> int \<Rightarrow> ingest_error + int" where
  "utc_of offset t =
     (let u = t - offset t in
      if u < 86400 \<or> u \<ge> 86400 * (last_ordinal + 1) then Inl IngestOverflowError else Inr u)"

definition as_utc :: "(int \<Rightarrow> int) \<Rightarrow> json \<Rightarrow> ingest_error + int" where
  "as_utc offset v = and_also (parse_dt v) (utc_of offset)"

text \<open>\<open>int(seconds / 60)\<close> truncates towards zero.\<close>

definition whole_minutes :: "int \<Rightarrow> int" where
  "whole_minutes d = (if d \<ge> 0 then d div 60 else - (- d div 60))"

definition minute_offset :: "(int \<Rightarrow> int) \<Rightarrow> int \<Rightarrow> json \<Rightarrow> ingest_error + int" where
  "minute_offset offset start v = and_also (as_utc offset v) (\<lambda>t. Inr (whole_minutes (t - start)))"

text \<open>The text of a datetime drops nothing but the fraction of a second, which \<open>parse_dt\<close> cuts off.\<close>

definition day_window_offsets :: "(int \<Rightarrow> int) \<Rightarrow> int \<Rightarrow> json \<Rightarrow> json \<Rightarrow> json \<Rightarrow> ingest_error + int \<times> int" where
  "day_window_offsets offset start date_value start_value end_value =
     and_also (parse_dt date_value) (\<lambda>day.
     and_also (parse_time_of_day start_value) (\<lambda>start_hours.
     and_also (parse_time_of_day end_value) (\<lambda>end_hours.
     and_also (plus_hours day start_hours) (\<lambda>s.
     and_also (plus_hours day (end_hours + (if end_hours \<le> start_hours then 24 else 0))) (\<lambda>e.
     and_also (utc_of offset \<lfloor>s\<rfloor>) (\<lambda>s_utc.
     and_also (utc_of offset \<lfloor>e\<rfloor>) (\<lambda>e_utc.
     Inr (whole_minutes (s_utc - start), whole_minutes (e_utc - start)))))))))"

definition horizon :: "(int \<Rightarrow> int) \<Rightarrow> json \<Rightarrow> ingest_error + int \<times> int" where
  "horizon offset payload =
     and_also (rows payload ''Scenario Range'') (\<lambda>ranges.
     case ranges of
       [] \<Rightarrow> Inl IngestValueError
     | row # _ \<Rightarrow>
         and_also (and_also (item row ''PeriodStartDate'') (as_utc offset)) (\<lambda>start.
         and_also (and_also (item row ''PeriodEndDate'') (as_utc offset)) (\<lambda>finish.
         Inr (start, whole_minutes (finish - start)))))"

section \<open>Tasks\<close>

definition task_ids :: "json \<Rightarrow> ingest_error + string list" where
  "task_ids payload = and_also (rows payload ''Task'') (collected (\<lambda>row.
     and_also (get_field row ''TaskID'' JNull) (\<lambda>v.
     if truthy v then and_also (str_of v) (\<lambda>s. Inr [s]) else Inr [])))"

definition valid_id :: "string list \<Rightarrow> hash_key \<Rightarrow> bool" where
  "valid_id ids k \<longleftrightarrow> k \<in> KeyText ` set ids"

text \<open>A dict of names by id, over the rows that have an id.\<close>

definition named_rows :: "string \<Rightarrow> string \<Rightarrow> json list \<Rightarrow> ingest_error + (hash_key \<times> string) list" where
  "named_rows id_key fallback = collected (\<lambda>row.
     and_also (get_field row id_key JNull) (\<lambda>v.
     if \<not> truthy v then Inr []
     else and_also (key_of v) (\<lambda>k. and_also (str_field row ''Name'' fallback) (\<lambda>name. Inr [(k, name)]))))"

definition normalize_task_row ::
  "(hash_key \<times> string) list \<Rightarrow> (hash_key \<times> string) list \<Rightarrow> hash_key set \<times> task_v1 list \<Rightarrow> json
   \<Rightarrow> ingest_error + hash_key set \<times> task_v1 list" where
  "normalize_task_row areas functions acc row =
     (let (seen, normalized) = acc in
      and_also (get_field row ''TaskID'' JNull) (\<lambda>task_id.
      if \<not> truthy task_id then Inr acc
      else and_also (key_of task_id) (\<lambda>k.
        if k \<in> seen then Inr acc
        else
          and_also (str_field row ''AreaID'' []) (\<lambda>area_id.
          and_also (str_of task_id) (\<lambda>record_id.
          and_also (str_field row ''Task'' []) (\<lambda>name.
          and_also (get_key row ''FunctionID'') (\<lambda>fk.
          and_also (get_key row ''AreaID'') (\<lambda>ak.
          and_also (and_also (get_field row ''UnitTypeID'' JNull) optional_str) (\<lambda>unit_type.
          Inr (insert k seen, normalized @ [\<lparr>tk_record_id = record_id, tk_task_id = record_id, tk_name = name,
                 tk_function = get_or ''Unknown'' (dict_of functions fk), tk_area_id = area_id,
                 tk_area_name = get_or ''Unknown'' (dict_of areas ak), tk_unit_type_id = unit_type\<rparr>])))))))))) "

definition normalize_tasks :: "json \<Rightarrow> ingest_error + task_v1 list" where
  "normalize_tasks payload =
     and_also (and_also (rows payload ''Area'') (named_rows ''AreaID'' [])) (\<lambda>areas.
     and_also (and_also (rows payload ''Function'') (named_rows ''FunctionID'' ''Unknown'')) (\<lambda>functions.
     and_also (and_also (rows payload ''Task'') (looped (normalize_task_row areas functions) ({}, []))) (\<lambda>(_, tasks).
     Inr tasks)))"

section \<open>Workers\<close>

definition normalize_qualification_row :: "string list \<Rightarrow> json \<Rightarrow> ingest_error + (string \<times> qualification_ref_v1) list" where
  "normalize_qualification_row ids row =
     and_also (get_field row ''TaskID'' JNull) (\<lambda>task_id.
     and_also (get_field row ''ContactID'' JNull) (\<lambda>contact_id.
     and_also (key_of task_id) (\<lambda>k.
     if \<not> valid_id ids k \<or> \<not> truthy contact_id then Inr []
     else
       and_also (get_field row ''TeamMemberTaskRateOverride'' JNull) (\<lambda>own.
       and_also (if own \<noteq> JNull then Inr own else get_field row ''DefaultTaskRate'' JNull) (\<lambda>v.
       and_also (to_float v 0) (\<lambda>rate.
       if rate \<le> 0 then Inr []
       else
         and_also (str_of contact_id) (\<lambda>c.
         and_also (str_of task_id) (\<lambda>t. Inr [(c, \<lparr>qr_task_id = t, qr_rate = rate\<rparr>)]))))))))"

definition normalize_window_row ::
  "(int \<Rightarrow> int) \<Rightarrow> int \<Rightarrow> window_kind \<Rightarrow> json \<Rightarrow> ingest_error + (string \<times> availability_window_v1) list" where
  "normalize_window_row offset start kind row =
     and_also (get_field row ''ContactID'' JNull) (\<lambda>contact_id.
     if \<not> truthy contact_id then Inr []
     else
       skipping_some
         (and_also (and_also (item row ''StartDateTime'') (minute_offset offset start)) (\<lambda>s.
          and_also (and_also (item row ''EndDateTime'') (minute_offset offset start)) (\<lambda>e. Inr (s, e))))
         (\<lambda>(s, e). and_also (str_of contact_id) (\<lambda>c.
            Inr [(c, \<lparr>aw_kind = kind, aw_start_minute = s, aw_end_minute = e\<rparr>)])))"

definition values_of :: "(string \<times> 'a) list \<Rightarrow> string \<Rightarrow> 'a list" where
  "values_of kvs k = map snd (filter (\<lambda>kv. fst kv = k) kvs)"

definition normalize_worker_row ::
  "(string \<times> qualification_ref_v1) list \<Rightarrow> (string \<times> availability_window_v1) list \<Rightarrow> hash_key set \<times> worker_v1 list \<Rightarrow> json
   \<Rightarrow> ingest_error + hash_key set \<times> worker_v1 list" where
  "normalize_worker_row quals windows acc row =
     (let (seen, normalized) = acc in
      and_also (get_field row ''ContactID'' JNull) (\<lambda>contact_id.
      if \<not> truthy contact_id then Inr acc
      else and_also (key_of contact_id) (\<lambda>k.
        if k \<in> seen then Inr acc
        else
          and_also (str_of contact_id) (\<lambda>c.
          and_also (str_field row ''Team Member'' ''Unknown'') (\<lambda>name.
          and_also (str_field row ''EmploymentType'' ''Unknown'') (\<lambda>employment_type.
          and_also (str_field row ''Grade'' []) (\<lambda>grade.
          and_also (str_field row ''EBA'' []) (\<lambda>eba.
          and_also (float_field row ''ContractedHours'' 38) (\<lambda>hours.
          Inr (insert k seen, normalized @ [\<lparr>wk_record_id = c, wk_contact_id = c, wk_name = name, wk_employment_type = employment_type,
                 wk_grade = grade, wk_eba = eba, wk_contracted_hours = hours, wk_qualifications = values_of quals c,
                 wk_availability_windows = values_of windows c\<rparr>]))))))))))"

definition normalize_workers :: "(int \<Rightarrow> int) \<Rightarrow> json \<Rightarrow> int \<Rightarrow> ingest_error + worker_v1 list" where
  "normalize_workers offset payload start =
     and_also (task_ids payload) (\<lambda>ids.
     and_also (and_also (rows payload ''Team Member Qualification and Performance'') (collected (normalize_qualification_row ids))) (\<lambda>quals.
     and_also (and_also (rows payload ''Roster Profile'') (collected (normalize_window_row offset start Roster))) (\<lambda>rosters.
     and_also (and_also (rows payload ''Availability'') (collected (normalize_window_row offset start Availability))) (\<lambda>avails.
     and_also (and_also (rows payload ''Team Member'') (looped (normalize_worker_row quals (rosters @ avails)) ({}, []))) (\<lambda>(_, workers).
     Inr workers)))))"

section \<open>Demand\<close>

definition minute_span :: "(int \<Rightarrow> int) \<Rightarrow> int \<Rightarrow> json \<Rightarrow> string \<Rightarrow> string \<Rightarrow> ingest_error + int \<times> int" where
  "minute_span offset start row from_key to_key =
     and_also (and_also (item row from_key) (minute_offset offset start)) (\<lambda>s.
     and_also (and_also (item row to_key) (minute_offset offset start)) (\<lambda>e. Inr (s, e)))"

definition interval ::
  "string \<Rightarrow> demand_family \<Rightarrow> json \<Rightarrow> json \<Rightarrow> int \<times> int \<Rightarrow> json \<Rightarrow> ingest_error + demand_interval_v1 list" where
  "interval record_id family task_id area range_m amount =
     and_also (str_of task_id) (\<lambda>t.
     and_also (truthy_str area) (\<lambda>a.
     and_also (to_float amount 0) (\<lambda>x.
     Inr [\<lparr>di_record_id = record_id, di_family = family, di_task_id = t, di_area_id = a, di_start_minute = fst range_m,
           di_end_minute = snd range_m, di_amount = x, di_unit = (if family = Indirect then Headcount else Volume)\<rparr>])))"

definition normalize_outbound_row :: "(int \<Rightarrow> int) \<Rightarrow> int \<Rightarrow> string list \<Rightarrow> nat \<times> json \<Rightarrow> ingest_error + demand_interval_v1 list" where
  "normalize_outbound_row offset start ids indexed =
     (let (i, row) = indexed in
      and_also (get_field row ''TaskID'' JNull) (\<lambda>task_id.
      and_also (key_of task_id) (\<lambda>k.
      if \<not> valid_id ids k then Inr []
      else skipping_some (minute_span offset start row ''StartDateTime'' ''EndDateTime'') (\<lambda>range_m.
           and_also (get_field row ''AreaID'' JNull) (\<lambda>area.
           and_also (get_field row ''Volume'' JNull) (\<lambda>amount.
           interval (''outbound:'' @ str_nat i) Outbound task_id area range_m amount))))))"

definition normalize_inbound_task ::
  "string list \<Rightarrow> json \<Rightarrow> int \<times> int \<Rightarrow> nat \<Rightarrow> nat \<times> json \<Rightarrow> ingest_error + demand_interval_v1 list" where
  "normalize_inbound_task ids area range_m i indexed =
     (let (j, task) = indexed in
      and_also (get_field task ''TaskID'' JNull) (\<lambda>task_id.
      and_also (key_of task_id) (\<lambda>k.
      if \<not> valid_id ids k then Inr []
      else
        and_also (get_field task ''Volume'' JNull) (\<lambda>amount.
        interval (''inbound:'' @ str_nat i @ '':'' @ str_nat j) Inbound task_id area range_m amount))))"

definition normalize_inbound_row :: "(int \<Rightarrow> int) \<Rightarrow> int \<Rightarrow> string list \<Rightarrow> nat \<times> json \<Rightarrow> ingest_error + demand_interval_v1 list" where
  "normalize_inbound_row offset start ids indexed =
     (let (i, row) = indexed in
      skipping_some (minute_span offset start row ''WindowStartDateTime'' ''WindowEndDateTime'') (\<lambda>range_m.
      and_also (get_field row ''Tasks'' (JList [])) (\<lambda>tasks.
      and_also (get_field row ''AreaID'' JNull) (\<lambda>area.
      case tasks of
        JList ts \<Rightarrow> collected (normalize_inbound_task ids area range_m i) (enumerate 0 ts)
      | _ \<Rightarrow> Inr []))))"

definition normalize_indirect_row :: "(int \<Rightarrow> int) \<Rightarrow> int \<Rightarrow> string list \<Rightarrow> nat \<times> json \<Rightarrow> ingest_error + demand_interval_v1 list" where
  "normalize_indirect_row offset start ids indexed =
     (let (i, row) = indexed in
      and_also (get_field row ''TaskID'' JNull) (\<lambda>task_id.
      and_also (key_of task_id) (\<lambda>k.
      if \<not> valid_id ids k then Inr []
      else skipping_some
        (and_also (item row ''Date'') (\<lambda>day.
         and_also (item row ''WindowStartDateTime'') (\<lambda>s.
         and_also (item row ''WindowEndDateTime'') (\<lambda>e.
         day_window_offsets offset start day s e))))
        (\<lambda>range_m.
           and_also (get_field row ''AreaID'' JNull) (\<lambda>area.
           and_also (get_field row ''RequiredHeadcount'' JNull) (\<lambda>amount.
           interval (''indirect:'' @ str_nat i) Indirect task_id area range_m amount))))))"

definition normalize_demand :: "(int \<Rightarrow> int) \<Rightarrow> json \<Rightarrow> int \<Rightarrow> ingest_error + demand_interval_v1 list" where
  "normalize_demand offset payload start =
     and_also (task_ids payload) (\<lambda>ids.
     and_also (and_also (rows payload ''Outbound Workload'')
         (\<lambda>ws. collected (normalize_outbound_row offset start ids) (enumerate 0 ws))) (\<lambda>outbound.
     and_also (and_also (rows payload ''Inbound Workload'')
         (\<lambda>ws. collected (normalize_inbound_row offset start ids) (enumerate 0 ws))) (\<lambda>inbound.
     and_also (and_also (rows payload ''Indirect Workforce Requirement'')
         (\<lambda>ws. collected (normalize_indirect_row offset start ids) (enumerate 0 ws))) (\<lambda>indirect.
     Inr (outbound @ inbound @ indirect)))))"

section \<open>Constraints and the groups\<close>

definition normalize_constraint_row :: "nat \<times> json \<Rightarrow> ingest_error + constraint_v1 list" where
  "normalize_constraint_row indexed =
     (let (i, row) = indexed in
      and_also (str_field row ''ConstraintType'' []) (\<lambda>kind.
      and_also (str_field row ''Value'' []) (\<lambda>v.
      and_also (and_also (get_field row ''ValueType'' JNull) optional_str) (\<lambda>value_type.
      Inr [\<lparr>cn_record_id = ''constraint:'' @ str_nat i, cn_constraint_type = kind, cn_value = v, cn_value_type = value_type\<rparr>]))))"

definition normalize_constraints :: "json \<Rightarrow> ingest_error + constraint_v1 list" where
  "normalize_constraints payload =
     and_also (rows payload ''Shift Constraint'') (\<lambda>cs. collected normalize_constraint_row (enumerate 0 cs))"

definition work_areas :: "json \<Rightarrow> ingest_error + string list" where
  "work_areas payload = and_also (rows payload ''Area'') (collected (\<lambda>area.
     and_also (get_field area ''AreaID'' JNull) (\<lambda>v.
     if truthy v then and_also (as_text v) (\<lambda>s. Inr [s]) else Inr [])))"

text \<open>What \<open>get_overview\<close> and the readers of the groups take from the payload.\<close>

definition normalized_groups :: "(int \<Rightarrow> int) \<Rightarrow> json \<Rightarrow> ingest_error + scenario_groups" where
  "normalized_groups offset payload =
     and_also (horizon offset payload) (\<lambda>(start, minutes).
     and_also (normalize_tasks payload) (\<lambda>tasks.
     and_also (normalize_workers offset payload start) (\<lambda>workers.
     and_also (normalize_demand offset payload start) (\<lambda>demand.
     and_also (normalize_constraints payload) (\<lambda>constraints.
     and_also (work_areas payload) (\<lambda>areas.
     Inr \<lparr>sg_horizon_start = start, sg_horizon_minutes = minutes, sg_work_areas = areas, sg_tasks = tasks, sg_workers = workers,
          sg_demand = demand, sg_constraints = constraints\<rparr>))))))"

end
