(* ===== verification/Comparison.thy ===== *)
theory Comparison
  imports Candidate_Metrics Calculators
begin

text \<open>
  The comparison of a candidate with the baseline (\<^verbatim>\<open>application/scheduling/comparison.py\<close>): the groups of the
  projection are drained, the candidate's metrics are computed again from them and checked against the stored
  ones, and the differences and unresolved demand are reported. What a caller gets instead of a comparison is an
  error value; floats are exact rationals.
\<close>

section \<open>Contracts\<close>

record assignment_diff_v1 =
  ad_added_worker_ids :: "string list"
  ad_removed_worker_ids :: "string list"
  ad_added_shift_ids :: "string list"
  ad_removed_shift_ids :: "string list"
  ad_added_task_ids :: "string list"
  ad_removed_task_ids :: "string list"

record comparison_v1 =
  cp_candidate_schedule_version_id :: uuid
  cp_candidate_schedule_run_id :: uuid
  cp_scenario_id :: uuid
  cp_scenario_version_id :: uuid
  cp_expected_baseline_schedule_version :: "string option"
  cp_current_baseline_schedule_version :: "string option"
  cp_stale :: bool
  cp_assignment_diff :: "assignment_diff_v1 option"
  cp_candidate_metrics :: metric_set_v1
  cp_baseline_metrics :: "metric_set_v1 option"
  cp_candidate_constraint_results :: "constraint_result_v1 list"
  cp_baseline_hard_constraint_results :: "constraint_result_v1 list"
  cp_warnings :: "string list"
  cp_unresolved_gap_record_ids :: "string list"
  cp_evidence_refs :: "evidence_ref_v1 list"

datatype baseline_unavailable_reason = Unreadable | ScenarioVersionMismatch | MetricsUnavailable

datatype comparison_error =
    ComparisonIntegrityError
  | BaselineSupplyUnavailableError string "string option" baseline_unavailable_reason
  | BaselineNotExpected
  | ComparisonDrainFailed calculation_error
  | ComparisonMetricsFailed metrics_error

section \<open>Metrics that disagree\<close>

definition projection_facts :: "worker_v1 list \<Rightarrow> task_v1 list \<Rightarrow> demand_interval_v1 list \<Rightarrow> int \<Rightarrow> validation_facts_v1" where
  "projection_facts workers tasks demand horizon_minutes =
     \<lparr>vf_horizon_minutes = horizon_minutes,
      vf_workers = map (\<lambda>w. \<lparr>wf_worker_id = wk_record_id w, wf_employment_type = wk_employment_type w,
        wf_contracted_hours = wk_contracted_hours w, wf_wage_per_hour = 0, wf_qualifications = wk_qualifications w,
        wf_availability_windows = wk_availability_windows w\<rparr>) workers,
      vf_selected_shifts = [], vf_max_hours_per_week = [], vf_max_shifts_per_day = [], vf_minimum_gap_minutes = 0,
      vf_tasks = tasks, vf_demand_intervals = demand\<rparr>"

definition float_tolerance :: rat where
  "float_tolerance = 1 / 1000000000"

definition floats_close :: "float_value \<Rightarrow> float_value \<Rightarrow> bool" where
  "floats_close l r \<longleftrightarrow> \<bar>l - r\<bar> \<le> max (float_tolerance * max \<bar>l\<bar> \<bar>r\<bar>) float_tolerance"

definition value_lists_close :: "float_value list \<Rightarrow> float_value list \<Rightarrow> bool" where
  "value_lists_close l r \<longleftrightarrow> list_all2 floats_close l r"

definition sorted_values :: "(string \<times> float_value) list \<Rightarrow> float_value list" where
  "sorted_values pairs = sort (map snd pairs)"

definition named_pairs_close :: "(string \<times> float_value) list \<Rightarrow> (string \<times> float_value) list \<Rightarrow> bool" where
  "named_pairs_close l r \<longleftrightarrow> set (map fst l) = set (map fst r)
     \<and> list_all (\<lambda>n. floats_close (get_or 0 (dict_of l n)) (get_or 0 (dict_of r n))) (map fst l)"

definition metrics_disagree :: "metric_set_v1 \<Rightarrow> metric_set_v1 \<Rightarrow> bool" where
  "metrics_disagree recomputed persisted \<longleftrightarrow>
     ms_assignment_count recomputed \<noteq> ms_assignment_count persisted
     \<or> ms_member_count recomputed \<noteq> ms_member_count persisted
     \<or> \<not> floats_close (ms_overtime_minutes recomputed) (ms_overtime_minutes persisted)
     \<or> \<not> floats_close (ms_total_cost recomputed) (ms_total_cost persisted)
     \<or> \<not> named_pairs_close (ms_objective_components recomputed) (ms_objective_components persisted)
     \<or> \<not> named_pairs_close (ms_function_coverage_required_minutes recomputed) (ms_function_coverage_required_minutes persisted)
     \<or> \<not> named_pairs_close (ms_function_coverage_served_minutes recomputed) (ms_function_coverage_served_minutes persisted)
     \<or> \<not> value_lists_close (sorted_values (ms_interval_coverage_required_minutes recomputed))
           (sorted_values (ms_interval_coverage_required_minutes persisted))
     \<or> \<not> value_lists_close (sorted_values (ms_interval_coverage_served_minutes recomputed))
           (sorted_values (ms_interval_coverage_served_minutes persisted))"

section \<open>The comparison\<close>

definition added_ids :: "string list \<Rightarrow> string list \<Rightarrow> string list" where
  "added_ids new old = sorted_list_of_set (set new - set old)"

definition assignment_diff :: "assignment_v1 list \<Rightarrow> assignment_v1 list \<Rightarrow> assignment_diff_v1" where
  "assignment_diff candidate baseline =
     (let workers = map as_worker_id; shifts = List.map_filter as_shift_id; tasks = map as_task_id in
      \<lparr>ad_added_worker_ids = added_ids (workers candidate) (workers baseline),
       ad_removed_worker_ids = added_ids (workers baseline) (workers candidate),
       ad_added_shift_ids = added_ids (shifts candidate) (shifts baseline),
       ad_removed_shift_ids = added_ids (shifts baseline) (shifts candidate),
       ad_added_task_ids = added_ids (tasks candidate) (tasks baseline),
       ad_removed_task_ids = added_ids (tasks baseline) (tasks candidate)\<rparr>)"

definition unresolved_gaps :: "metric_set_v1 \<Rightarrow> string list" where
  "unresolved_gaps m =
     map fst (filter (\<lambda>(record_id, required). get_or 0 (dict_of (ms_interval_coverage_served_minutes m) record_id) < required)
       (ms_interval_coverage_required_minutes m))"

definition baseline_ref :: "scenario_overview_v1 \<Rightarrow> uuid \<Rightarrow> string option \<Rightarrow> assignment_v1 \<Rightarrow> evidence_ref_v1" where
  "baseline_ref overview version expected a =
     \<lparr>er_scenario_version_id = version, er_checksum_algorithm = ov_checksum_algorithm overview,
      er_checksum_schema_version = ov_checksum_schema_version overview, er_checksum_digest = ov_checksum_digest overview,
      er_producing_run_version = expected, er_baseline_schedule_version = expected, er_group = BaselineAssignments,
      er_record_id = as_record_id a, er_field = None, er_start_minute = None, er_end_minute = None\<rparr>"

definition version_text :: "string option \<Rightarrow> schedule_version_v1 \<Rightarrow> string" where
  "version_text expected baseline = (case expected of
      Some v \<Rightarrow> v
    | None \<Rightarrow> (case sv_schedule_version_id baseline of None \<Rightarrow> ''None'' | Some u \<Rightarrow> str_uuid u))"

text \<open>The checks on the frozen baseline.\<close>

definition baseline_supply ::
  "string option \<Rightarrow> schedule_version_v1 option \<Rightarrow> uuid \<Rightarrow> string option
   \<Rightarrow> comparison_error + (schedule_version_v1 \<times> metric_set_v1) option" where
  "baseline_supply expected baseline version current = (case (expected, baseline) of
      (None, None) \<Rightarrow> Inr None
    | (None, Some _) \<Rightarrow> Inl BaselineNotExpected
    | (Some v, None) \<Rightarrow> Inl (BaselineSupplyUnavailableError v current Unreadable)
    | (Some _, Some b) \<Rightarrow>
        if sv_scenario_version_id b \<noteq> Some version
        then Inl (BaselineSupplyUnavailableError (version_text expected b) current ScenarioVersionMismatch)
        else (case sv_metrics b of
                None \<Rightarrow> Inl (BaselineSupplyUnavailableError (version_text expected b) current MetricsUnavailable)
              | Some m \<Rightarrow> Inr (Some (b, m))))"

definition comparing :: "('e \<Rightarrow> comparison_error) \<Rightarrow> 'e + 'a \<Rightarrow> comparison_error + 'a" where
  "comparing c r = map_sum c id r"

definition projected_metrics ::
  "assignment_v1 list \<Rightarrow> task_v1 list \<Rightarrow> demand_interval_v1 list \<Rightarrow> validation_facts_v1 \<Rightarrow> metric_set_v1
   \<Rightarrow> comparison_error + metric_set_v1" where
  "projected_metrics assignments tasks demand facts persisted =
     and_also (comparing ComparisonMetricsFailed (calculate_candidate_metrics assignments tasks demand facts [])) (\<lambda>(m, _).
     Inr (m\<lparr>ms_total_cost := ms_total_cost persisted\<rparr>))"

definition drained ::
  "(group_query_v1 \<Rightarrow> query_error + 'a page_v1 option) \<Rightarrow> uuid \<Rightarrow> uuid \<Rightarrow> comparison_error + 'a list" where
  "drained getter version site = comparing ComparisonDrainFailed (drain_projection_group getter version site 200 2000 [])"

text \<open>The binding of a candidate: version and run identifiers and its stored metrics.\<close>

definition candidate_binding ::
  "scenario_overview_v1 \<Rightarrow> uuid \<Rightarrow> uuid \<Rightarrow> schedule_version_v1 \<Rightarrow> comparison_error + uuid \<times> uuid \<times> metric_set_v1" where
  "candidate_binding overview version site candidate =
     (if ov_scenario_version_id overview \<noteq> version \<or> ov_site_id overview \<noteq> site then Inl ComparisonIntegrityError
      else case (sv_schedule_version_id candidate, sv_schedule_run_id candidate, sv_metrics candidate) of
             (Some v, Some r, Some m) \<Rightarrow> Inr (v, r, m)
           | _ \<Rightarrow> Inl ComparisonIntegrityError)"

definition calculate_comparison ::
  "(string \<Rightarrow> string) \<Rightarrow> uuid \<Rightarrow> 'x governed_store_scheme \<Rightarrow> schedule_version_v1 \<Rightarrow> uuid \<Rightarrow> uuid \<Rightarrow> uuid \<Rightarrow> string option
   \<Rightarrow> schedule_version_v1 option \<Rightarrow> comparison_error + comparison_v1" where
  "calculate_comparison casefold app_site s candidate scenario_id version site expected baseline_version =
     (case get_overview app_site scenario_id s of
        None \<Rightarrow> Inl ComparisonIntegrityError
      | Some overview \<Rightarrow>
          and_also (candidate_binding overview version site candidate) (\<lambda>(candidate_id, run_id, persisted).
          and_also (drained (get_tasks casefold app_site s scenario_id) version site) (\<lambda>tasks.
          and_also (drained (get_demand app_site s scenario_id) version site) (\<lambda>demand.
          and_also (drained (get_workers casefold app_site s scenario_id) version site) (\<lambda>workers.
          and_also (baseline_supply expected baseline_version version (ov_baseline_schedule_version overview)) (\<lambda>frozen.
          let facts = projection_facts workers tasks demand (ov_horizon_minutes overview);
              baseline = (case frozen of None \<Rightarrow> [] | Some (b, _) \<Rightarrow> sv_assignments b) in
          and_also (projected_metrics (sv_assignments candidate) tasks demand facts persisted) (\<lambda>recomputed.
          and_also (if metrics_disagree recomputed persisted then Inl ComparisonIntegrityError else Inr ()) (\<lambda>_.
          and_also (case frozen of
                      None \<Rightarrow> Inr None
                    | Some (_, m) \<Rightarrow> and_also (projected_metrics baseline tasks demand facts m) (\<lambda>bm. Inr (Some bm))) (\<lambda>baseline_metrics.
          Inr \<lparr>cp_candidate_schedule_version_id = candidate_id, cp_candidate_schedule_run_id = run_id,
               cp_scenario_id = scenario_id, cp_scenario_version_id = version,
               cp_expected_baseline_schedule_version = expected,
               cp_current_baseline_schedule_version = ov_baseline_schedule_version overview,
               cp_stale = (expected \<noteq> ov_baseline_schedule_version overview),
               cp_assignment_diff = map_option (\<lambda>_. assignment_diff (sv_assignments candidate) baseline) frozen,
               cp_candidate_metrics = recomputed, cp_baseline_metrics = baseline_metrics,
               cp_candidate_constraint_results = sv_constraint_results candidate,
               cp_baseline_hard_constraint_results = (case frozen of None \<Rightarrow> []
                 | Some (b, _) \<Rightarrow> filter (\<lambda>r. cr_constraint_class r = Hard) (sv_constraint_results b)),
               cp_warnings = sv_warnings candidate, cp_unresolved_gap_record_ids = unresolved_gaps recomputed,
               cp_evidence_refs = sv_evidence_refs candidate @ map (baseline_ref overview version expected) baseline\<rparr>)))))))))"

end
