(* ===== verification/Comparison_Guarantees.thy ===== *)
theory Comparison_Guarantees
  imports Comparison
begin

text \<open>
  What the comparison accepts and what it reports. The metrics of a candidate were computed from the facts of the
  solve; the comparison computes them again from the projection, under other record ids and without wages. The
  numbers are the same whenever both see the same workers, tasks and demand, and the candidate is then accepted;
  a demand row more or less is enough to be refused.
\<close>

section \<open>The same facts under other names\<close>

definition worker_view :: "worker_scheduling_fact_v1 \<Rightarrow> string \<times> float_value \<times> qualification_ref_v1 list" where
  "worker_view w = (wf_worker_id w, wf_contracted_hours w, wf_qualifications w)"

definition demand_view :: "demand_interval_v1 \<Rightarrow> string \<times> int \<times> int \<times> float_value \<times> demand_unit" where
  "demand_view d = (di_task_id d, di_start_minute d, di_end_minute d, di_amount d, di_unit d)"

definition task_view :: "task_v1 \<Rightarrow> string \<times> string" where
  "task_view t = (tk_task_id t, tk_function t)"

definition row_view :: "demand_row_totals \<Rightarrow> string \<times> float_value \<times> float_value" where
  "row_view r = (di_task_id (dr_row r), dr_required r, dr_served r)"

lemma row_view_make: "row_view \<lparr>dr_row = d, dr_required = v, dr_served = s\<rparr> = (di_task_id d, v, s)"
  by (simp add: row_view_def)

definition same_workers :: "validation_facts_v1 \<Rightarrow> validation_facts_v1 \<Rightarrow> bool" where
  "same_workers facts facts' \<longleftrightarrow> map worker_view (vf_workers facts) = map worker_view (vf_workers facts')"

lemma dict_of_map_option:
  fixes f :: "'b \<Rightarrow> 'c" and kvs :: "('a \<times> 'b) list"
  shows "map_option f (dict_of kvs k) = dict_of (map (\<lambda>(k, v). (k, f v)) kvs) k"
proof -
  have "map_option f (map_of xs k) = map_of (map (\<lambda>(k, v). (k, f v)) xs) k" for xs :: "('a \<times> 'b) list"
    by (induction xs) auto
  then show ?thesis by (simp add: dict_of_def rev_map)
qed

lemma same_rates: "same_workers facts facts' \<Longrightarrow> qualified_rates facts t = qualified_rates facts' t"
proof -
  assume "same_workers facts facts'"
  then have "map (\<lambda>v. snd (snd v)) (map worker_view (vf_workers facts)) = map (\<lambda>v. snd (snd v)) (map worker_view (vf_workers facts'))"
    by (simp only: same_workers_def)
  then have "map wf_qualifications (vf_workers facts) = map wf_qualifications (vf_workers facts')"
    by (simp add: comp_def worker_view_def)
  then show ?thesis by (simp add: qualified_rates_def)
qed

lemma same_hours:
  assumes "same_workers facts facts'"
  shows "map_option wf_contracted_hours (workers_by_id facts i) = map_option wf_contracted_hours (workers_by_id facts' i)"
proof -
  have "map (\<lambda>v. (fst v, fst (snd v))) (map worker_view (vf_workers facts)) = map (\<lambda>v. (fst v, fst (snd v))) (map worker_view (vf_workers facts'))"
    using assms by (simp only: same_workers_def)
  then show ?thesis by (simp add: workers_by_id_def dict_of_map_option comp_def worker_view_def)
qed

lemma same_overtime:
  assumes "same_workers facts facts'"
  shows "overtime_total facts as = overtime_total facts' as"
proof -
  have hours: "(case workers_by_id f i of None \<Rightarrow> 0 | Some w \<Rightarrow> max 0 (of_int m - wf_contracted_hours w * 60))
      = (case map_option wf_contracted_hours (workers_by_id f i) of None \<Rightarrow> 0 | Some h \<Rightarrow> max 0 (of_int m - h * 60))" for f i and m :: int
    by (simp split: option.splits)
  show ?thesis by (simp add: overtime_total_def hours same_hours [OF assms])
qed

lemma same_row_required:
  assumes "same_workers facts facts'" and "demand_view d = demand_view d'"
  shows "row_required facts d = Inr v \<Longrightarrow> row_required facts' d' = Inr v"
  using assms(2) same_rates [OF assms(1)] by (auto simp: row_required_def demand_view_def Let_def split: if_splits)

lemma same_row_served: "demand_view d = demand_view d' \<Longrightarrow> row_served as d = row_served as d'"
  by (simp add: row_served_def demand_view_def)

lemma same_demand_rows:
  assumes "same_workers facts facts'"
  shows "map demand_view ds = map demand_view ds' \<Longrightarrow> demand_rows as facts ds = Inr rows
    \<Longrightarrow> \<exists>rows'. demand_rows as facts' ds' = Inr rows' \<and> map row_view rows' = map row_view rows"
proof (induction ds arbitrary: ds' rows)
  case Nil
  then show ?case by simp
next
  case (Cons d ds)
  then obtain d' es where ds': "ds' = d' # es" and d: "demand_view d = demand_view d'" and es: "map demand_view ds = map demand_view es"
    by (cases ds') auto
  obtain v rest where v: "row_required facts d = Inr v" and rest: "demand_rows as facts ds = Inr rest"
    and rows: "rows = \<lparr>dr_row = d, dr_required = v, dr_served = row_served as d\<rparr> # rest"
    using Cons.prems(2) by (auto split: sum.splits)
  obtain rest' where "demand_rows as facts' es = Inr rest'" "map row_view rest' = map row_view rest"
    using Cons.IH [OF es rest] by blast
  then show ?case
    using same_row_required [OF assms d v] same_row_served [OF d, of as] d by (simp add: ds' rows row_view_make demand_view_def)
qed

section \<open>Metrics of the same rows\<close>

lemma sorted_values_sort: "sorted_values (sort xs) = sort (map snd xs)"
proof -
  have "mset (map snd (sort xs)) = mset (map snd xs)" by simp
  then show ?thesis unfolding sorted_values_def by (metis mset_sort properties_for_sort sorted_sort)
qed

lemma floats_close_refl: "floats_close x x"
  by (simp add: floats_close_def float_tolerance_def)

lemma named_pairs_close_refl: "named_pairs_close l l"
  by (simp add: named_pairs_close_def list_all_iff floats_close_refl)

lemma value_lists_close_refl: "value_lists_close l l"
  by (simp add: value_lists_close_def list.rel_refl floats_close_refl)

lemma same_metric_set:
  assumes "map row_view rows' = map row_view rows" and "map task_view tasks' = map task_view tasks"
  shows "\<not> metrics_disagree ((metric_set as tasks' rows' ot c')\<lparr>ms_total_cost := ms_total_cost (metric_set as tasks rows ot c)\<rparr>)
     (metric_set as tasks rows ot c)"
proof -
  have keep: "map (\<lambda>r. g (row_view r)) rows' = map (\<lambda>r. g (row_view r)) rows" for g :: "_ \<Rightarrow> 'b"
    using arg_cong [OF assms(1), of "map g"] by (simp add: comp_def)
  have "functions_of tasks' = functions_of tasks"
    using assms(2) by (simp add: functions_of_def task_view_def [abs_def] fun_eq_iff)
  then have req: "map (\<lambda>r. (functions_of tasks' (di_task_id (dr_row r)), dr_required r)) rows' = map (\<lambda>r. (functions_of tasks (di_task_id (dr_row r)), dr_required r)) rows"
    and srv: "map (\<lambda>r. (functions_of tasks' (di_task_id (dr_row r)), dr_served r)) rows' = map (\<lambda>r. (functions_of tasks (di_task_id (dr_row r)), dr_served r)) rows"
    using keep [of "\<lambda>(t, q, v). (functions_of tasks t, q)"] keep [of "\<lambda>(t, q, v). (functions_of tasks t, v)"]
    by (simp_all add: row_view_def)
  have vals: "map dr_required rows' = map dr_required rows" "map dr_served rows' = map dr_served rows"
    using keep [of "\<lambda>(t, q, v). q"] keep [of "\<lambda>(t, q, v). v"] by (simp_all add: row_view_def)
  show ?thesis
    by (simp add: metrics_disagree_def metric_set_def Let_def req srv sorted_values_sort comp_def vals
        floats_close_refl named_pairs_close_refl value_lists_close_refl)
qed

lemma metric_set_intervals:
  "length (sorted_values (ms_interval_coverage_required_minutes (metric_set as tasks rows ot c))) = length rows"
  by (simp add: metric_set_def Let_def sorted_values_def)

section \<open>Recomputation from the projection\<close>

lemma same_known:
  assumes "same_workers facts facts'"
  shows "workers_by_id facts i = None \<longleftrightarrow> workers_by_id facts' i = None"
  using same_hours [OF assms, of i] by (metis option.map_disc_iff)

lemma recomputed_agrees:
  assumes "calculate_candidate_metrics as tasks demand facts constraints = Inr (m, soft)"
    and "same_workers facts facts'" and "map demand_view demand = map demand_view demand'" and "map task_view tasks' = map task_view tasks"
  shows "\<exists>m'. projected_metrics as tasks' demand' facts' m = Inr m' \<and> \<not> metrics_disagree m' m"
proof -
  obtain rows c where rows: "demand_rows as facts demand = Inr rows" and c: "assignments_cost facts as = Inr c"
    and m: "m = metric_set as tasks rows (overtime_total facts as) c"
    using assms(1) by (auto simp: calculate_candidate_metrics_def split: sum.splits)
  obtain rows' where rows': "demand_rows as facts' demand' = Inr rows'" and views: "map row_view rows' = map row_view rows"
    using same_demand_rows [OF assms(2,3) rows] by blast
  have "\<forall>a \<in> set as. workers_by_id facts' (as_worker_id a) \<noteq> None"
    using c assignments_cost_Inr_iff [of facts as] same_known [OF assms(2)] by blast
  then obtain c' where c': "assignments_cost facts' as = Inr c'" using assignments_cost_Inr_iff [of facts' as] by blast
  have "projected_metrics as tasks' demand' facts' m
      = Inr ((metric_set as tasks' rows' (overtime_total facts' as) c')\<lparr>ms_total_cost := ms_total_cost m\<rparr>)"
    by (simp add: projected_metrics_def calculate_candidate_metrics_def rows' c' comparing_def and_also_def)
  then show ?thesis
    using same_metric_set [OF views assms(4), where as = as and ot = "overtime_total facts as" and c' = c' and c = c] same_overtime [OF assms(2), of as] by (simp add: m)
qed

lemma projected_metrics_rows:
  assumes "projected_metrics as tasks demand facts m = Inr m'"
  shows "length (ms_interval_coverage_required_minutes m') = length demand"
proof -
  obtain rows c where rows: "demand_rows as facts demand = Inr rows"
    and m': "m' = (metric_set as tasks rows (overtime_total facts as) c)\<lparr>ms_total_cost := ms_total_cost m\<rparr>"
    using assms by (auto simp: projected_metrics_def calculate_candidate_metrics_def comparing_def split: sum.splits dest!: and_also_InrD)
  have "length rows = length demand" using arg_cong [OF demand_rows_rows [OF rows], of length] by simp
  then show ?thesis by (simp add: m' metric_set_def Let_def)
qed

lemma other_length_disagrees:
  assumes "length (ms_interval_coverage_required_minutes m') \<noteq> length (ms_interval_coverage_required_minutes m)"
  shows "metrics_disagree m' m"
  using assms by (auto simp: metrics_disagree_def value_lists_close_def sorted_values_def dest!: list_all2_lengthD)

section \<open>The drained groups\<close>

lemma filtered_none: "filtered t [] xs = Inr xs"
  by (induction xs) auto

lemma comparing_InrD: "comparing c r = Inr x \<Longrightarrow> r = Inr x"
  by (cases r) (auto simp: comparing_def)

lemma drained_InrD:
  "drained (get_tasks cf site s sid) version site' = Inr tasks \<Longrightarrow>
     \<exists>r. projection_row site sid s = Some r \<and> sw_scenario_version_id r = version \<and> tasks = sg_tasks (sw_groups r)"
  "drained (get_workers cf site s sid) version site' = Inr workers \<Longrightarrow>
     \<exists>r. projection_row site sid s = Some r \<and> sw_scenario_version_id r = version \<and> workers = sg_workers (sw_groups r)"
  "drained (get_demand site s sid) version site' = Inr demand \<Longrightarrow>
     \<exists>r. projection_row site sid s = Some r \<and> sw_scenario_version_id r = version \<and> demand = sg_demand (sw_groups r)"
  using drain_spec_InrD
  by (fastforce simp: drained_def task_source.drain_correct worker_source.drain_correct demand_source.drain_correct filtered_none
      dest!: comparing_InrD drain_spec_InrD)+

text \<open>A group of at most 2000 rows is drained, in ten pages.\<close>

lemma drained_all:
  assumes "projection_row site sid s = Some row"
  shows "length (sg_tasks (sw_groups row)) \<le> 2000
      \<Longrightarrow> drained (get_tasks cf site s sid) (sw_scenario_version_id row) (sw_site_id row) = Inr (sg_tasks (sw_groups row))"
    and "length (sg_workers (sw_groups row)) \<le> 2000
      \<Longrightarrow> drained (get_workers cf site s sid) (sw_scenario_version_id row) (sw_site_id row) = Inr (sg_workers (sw_groups row))"
    and "length (sg_demand (sw_groups row)) \<le> 2000
      \<Longrightarrow> drained (get_demand site s sid) (sw_scenario_version_id row) (sw_site_id row) = Inr (sg_demand (sw_groups row))"
  using assms
  by (simp_all add: drained_def task_source.drain_correct worker_source.drain_correct demand_source.drain_correct drain_spec_def
      source_of_def matching_rows_def filtered_none comparing_def max_pages_def)

definition projected_facts :: "scenario_groups \<Rightarrow> validation_facts_v1" where
  "projected_facts g = projection_facts (sg_workers g) (sg_tasks g) (sg_demand g) (sg_horizon_minutes g)"

definition small_groups :: "scenario_groups \<Rightarrow> bool" where
  "small_groups g \<longleftrightarrow> length (sg_tasks g) \<le> 2000 \<and> length (sg_workers g) \<le> 2000 \<and> length (sg_demand g) \<le> 2000"

lemma known_workers_metrics:
  assumes "projected_metrics as tasks demand facts m = Inr m'" and "\<forall>a \<in> set bs. workers_by_id facts (as_worker_id a) \<noteq> None"
  shows "\<exists>n'. projected_metrics bs tasks demand facts n = Inr n'"
proof -
  have "volume_rows_rated facts demand"
    using assms(1) calculate_Inr_iff [of as tasks demand facts "[]"]
    by (auto simp: projected_metrics_def dest!: and_also_InrD comparing_InrD)
  then obtain r where "calculate_candidate_metrics bs tasks demand facts [] = Inr r"
    using calculate_Inr_iff [of bs tasks demand facts "[]"] assms(2) by blast
  then show ?thesis by (cases r) (simp add: projected_metrics_def comparing_def and_also_def)
qed

lemma comparison_outcome:
  assumes "calculate_candidate_metrics (sv_assignments candidate) tasks demand facts constraints = Inr (persisted, soft)"
    and "sv_metrics candidate = Some persisted" and "sv_schedule_version_id candidate = Some v" and "sv_schedule_run_id candidate = Some run"
    and "projection_row app_site scenario_id s = Some row" and "small_groups (sw_groups row)"
    and "map task_view (sg_tasks (sw_groups row)) = map task_view tasks"
    and "baseline_supply expected baseline (sw_scenario_version_id row) (baseline_text (sw_site_id row) s) = Inr frozen"
    and "\<forall>b m. frozen = Some (b, m) \<longrightarrow> (\<forall>a \<in> set (sv_assignments b). as_worker_id a \<in> wk_record_id ` set (sg_workers (sw_groups row)))"
  shows "(same_workers facts (projected_facts (sw_groups row)) \<and> map demand_view demand = map demand_view (sg_demand (sw_groups row))
      \<longrightarrow> (\<exists>c. calculate_comparison cf app_site s candidate scenario_id (sw_scenario_version_id row) (sw_site_id row) expected baseline = Inr c))
    \<and> (length demand \<noteq> length (sg_demand (sw_groups row))
      \<longrightarrow> (\<exists>e. calculate_comparison cf app_site s candidate scenario_id (sw_scenario_version_id row) (sw_site_id row) expected baseline = Inl e))"
proof -
  let ?g = "sw_groups row"
  obtain overview where overview: "get_overview app_site scenario_id s = Some overview"
    and ov: "ov_scenario_version_id overview = sw_scenario_version_id row" "ov_site_id overview = sw_site_id row"
      "ov_baseline_schedule_version overview = baseline_text (sw_site_id row) s" "ov_horizon_minutes overview = sg_horizon_minutes ?g"
    using assms(5) by (simp add: get_overview_def Let_def)
  note drains = drained_all [OF assms(5)]
  have sizes: "length (sg_tasks ?g) \<le> 2000" "length (sg_workers ?g) \<le> 2000" "length (sg_demand ?g) \<le> 2000"
    using assms(6) by (simp_all add: small_groups_def)
  have facts: "projection_facts (sg_workers ?g) (sg_tasks ?g) (sg_demand ?g) (sg_horizon_minutes ?g) = projected_facts ?g"
    by (simp add: projected_facts_def)
  let ?recompute = "projected_metrics (sv_assignments candidate) (sg_tasks ?g) (sg_demand ?g) (projected_facts ?g) persisted"
  note comparison = calculate_comparison_def overview candidate_binding_def ov assms(2-4,8) drains(1) [OF sizes(1)] drains(2) [OF sizes(2)]
    drains(3) [OF sizes(3)] facts
  have accepted: "\<exists>c. calculate_comparison cf app_site s candidate scenario_id (sw_scenario_version_id row) (sw_site_id row) expected baseline = Inr c"
    if same: "same_workers facts (projected_facts ?g)" "map demand_view demand = map demand_view (sg_demand ?g)"
  proof -
    obtain m' where m': "?recompute = Inr m'" "\<not> metrics_disagree m' persisted"
      using recomputed_agrees [OF assms(1) same assms(7)] by blast
    show ?thesis
    proof (cases frozen)
      case None
      then show ?thesis by (simp add: comparison m' and_also_def)
    next
      case (Some bm)
      obtain b m where bm: "bm = (b, m)" by fastforce
      have "\<forall>a \<in> set (sv_assignments b). workers_by_id (projected_facts ?g) (as_worker_id a) \<noteq> None"
        using assms(9) Some
        by (auto simp: bm workers_by_id_def dict_of_eq_None projected_facts_def projection_facts_def image_image)
      then obtain n' where "projected_metrics (sv_assignments b) (sg_tasks ?g) (sg_demand ?g) (projected_facts ?g) m = Inr n'"
        using known_workers_metrics [OF m'(1)] by blast
      then show ?thesis by (simp add: comparison m' and_also_def Some bm Let_def)
    qed
  qed
  have refused: "\<exists>e. calculate_comparison cf app_site s candidate scenario_id (sw_scenario_version_id row) (sw_site_id row) expected baseline = Inl e"
    if "length demand \<noteq> length (sg_demand ?g)"
  proof (cases ?recompute)
    case (Inl e)
    then show ?thesis by (simp add: comparison and_also_def)
  next
    case (Inr m')
    obtain rows c where "demand_rows (sv_assignments candidate) facts demand = Inr rows"
      "persisted = metric_set (sv_assignments candidate) tasks rows (overtime_total facts (sv_assignments candidate)) c"
      using assms(1) by (auto simp: calculate_candidate_metrics_def split: sum.splits)
    then have "length (ms_interval_coverage_required_minutes persisted) = length demand"
      using arg_cong [OF demand_rows_rows, of _ _ _ _ length] by (auto simp: metric_set_def Let_def)
    then have "metrics_disagree m' persisted"
      using other_length_disagrees projected_metrics_rows [OF Inr] that by simp
    then show ?thesis by (simp add: comparison Inr and_also_def)
  qed
  show ?thesis using accepted refused by blast
qed

text \<open>
  C38. A candidate is compared whenever the projection shows what the solve saw: its stored metrics were computed from
  the facts of the solve, under other record ids, with other constraints and with wages the projection does not have,
  and the comparison accepts them as long as the workers, the demand and the functions of the tasks are the same. Demand
  that differs in its number of rows is never accepted.
\<close>

theorem faithful_candidate_is_compared:
  assumes "calculate_candidate_metrics (sv_assignments candidate) tasks demand facts constraints = Inr (persisted, soft)"
    and "sv_metrics candidate = Some persisted" and "sv_schedule_version_id candidate = Some v" and "sv_schedule_run_id candidate = Some run"
    and "projection_row app_site scenario_id s = Some row" and "small_groups (sw_groups row)"
    and "map task_view (sg_tasks (sw_groups row)) = map task_view tasks"
    and "baseline_supply expected baseline (sw_scenario_version_id row) (baseline_text (sw_site_id row) s) = Inr frozen"
    and "\<forall>b m. frozen = Some (b, m) \<longrightarrow> (\<forall>a \<in> set (sv_assignments b). as_worker_id a \<in> wk_record_id ` set (sg_workers (sw_groups row)))"
  shows "(same_workers facts (projected_facts (sw_groups row)) \<and> map demand_view demand = map demand_view (sg_demand (sw_groups row))
      \<longrightarrow> (\<exists>c. calculate_comparison cf app_site s candidate scenario_id (sw_scenario_version_id row) (sw_site_id row) expected baseline = Inr c))
    \<and> (length demand \<noteq> length (sg_demand (sw_groups row))
      \<longrightarrow> (\<exists>e. calculate_comparison cf app_site s candidate scenario_id (sw_scenario_version_id row) (sw_site_id row) expected baseline = Inl e))"
  by (rule comparison_outcome [OF assms])

section \<open>A comparison\<close>

text \<open>One assignment of the small site, with the metrics a solve over the same facts stores. Record ids and wages of the
  solve differ from those of the projection.\<close>

definition demo_solve_facts :: validation_facts_v1 where
  "demo_solve_facts = projected_facts demo_groups
     \<lparr>vf_workers := map (\<lambda>w. w\<lparr>wf_wage_per_hour := 40\<rparr>) (vf_workers (projected_facts demo_groups)),
      vf_demand_intervals := map (\<lambda>d. d\<lparr>di_record_id := ''dem_'' @ di_record_id d\<rparr>) (sg_demand demo_groups)\<rparr>"

definition compared_assignment :: assignment_v1 where
  "compared_assignment = \<lparr>as_record_id = ''a'', as_worker_id = ''w1'', as_task_id = ''T1'', as_shift_id = Some ''s'', as_start_minute = 0,
     as_end_minute = 240, as_qualification_refs = [], as_source = ''solver'', as_lock_ref = None\<rparr>"

definition demo_candidate :: "metric_set_v1 \<Rightarrow> schedule_version_v1" where
  "demo_candidate m = \<lparr>sv_schedule_version_id = Some 31, sv_schedule_run_id = Some 30, sv_scenario_id = Some 3,
     sv_scenario_version_id = Some 10, sv_proposal_id = None, sv_proposal_version_id = None, sv_feasible_solver_status = Some OPTIMAL,
     sv_assignments = [compared_assignment], sv_metrics = Some m, sv_constraint_results = [], sv_warnings = [], sv_evidence_refs = [],
     sv_created_at = None\<rparr>"

lemma demo_solved:
  "\<exists>m soft. calculate_candidate_metrics [compared_assignment] (sg_tasks demo_groups) (vf_demand_intervals demo_solve_facts) demo_solve_facts [] = Inr (m, soft)"
proof -
  have "\<exists>r. calculate_candidate_metrics [compared_assignment] (sg_tasks demo_groups) (vf_demand_intervals demo_solve_facts) demo_solve_facts [] = Inr r"
    unfolding calculate_Inr_iff
    by (simp add: volume_rows_rated_def demo_solve_facts_def projected_facts_def projection_facts_def demo_groups_def demo_worker_def
        demo_demand_def compared_assignment_def qualified_rates_def workers_by_id_def dict_of_def)
  then show ?thesis by auto
qed

lemma demo_same: "same_workers demo_solve_facts (projected_facts demo_groups)"
  "map demand_view (vf_demand_intervals demo_solve_facts) = map demand_view (sg_demand demo_groups)" "small_groups demo_groups"
  by (simp_all add: same_workers_def demo_solve_facts_def worker_view_def demand_view_def small_groups_def demo_groups_def)

lemma demo_comparison:
  assumes "calculate_candidate_metrics [compared_assignment] (sg_tasks demo_groups) (vf_demand_intervals demo_solve_facts)
      demo_solve_facts [] = Inr (m, soft)"
  shows "\<exists>c. calculate_comparison id 7 scenario_site (demo_candidate m) 3 10 7 None None = Inr c"
proof -
  have "calculate_candidate_metrics (sv_assignments (demo_candidate m)) (sg_tasks demo_groups) (vf_demand_intervals demo_solve_facts)
      demo_solve_facts [] = Inr (m, soft)"
    using assms by (simp add: demo_candidate_def)
  from comparison_outcome [OF this _ _ _ scenario_site_row, where cf = id and expected = None and baseline = None and frozen = None and v = 31 and run = 30]
  show ?thesis using demo_same by (simp add: demo_candidate_def demo_version_def baseline_supply_def)
qed

theorem faithful_candidate_is_compared_witness:
  "\<exists>m c. calculate_comparison id 7 scenario_site (demo_candidate m) 3 10 7 None None = Inr c"
proof -
  obtain m soft where m: "calculate_candidate_metrics [compared_assignment] (sg_tasks demo_groups) (vf_demand_intervals demo_solve_facts)
      demo_solve_facts [] = Inr (m, soft)"
    using demo_solved by blast
  have "calculate_candidate_metrics (sv_assignments (demo_candidate m)) (sg_tasks demo_groups) (vf_demand_intervals demo_solve_facts)
      demo_solve_facts [] = Inr (m, soft)"
    using m by (simp add: demo_candidate_def)
  from faithful_candidate_is_compared [OF this _ _ _ scenario_site_row, where cf = id and expected = None and baseline = None and frozen = None and v = 31 and run = 30]
  have "\<exists>c. calculate_comparison id 7 scenario_site (demo_candidate m) 3 10 7 None None = Inr c"
    using demo_same by (simp add: demo_candidate_def demo_version_def baseline_supply_def)
  then show ?thesis by blast
qed

text \<open>What is different between two schedules, as sorted lists without repetition.\<close>

definition differences :: "string list \<Rightarrow> string set \<Rightarrow> string set \<Rightarrow> bool" where
  "differences xs new old \<longleftrightarrow> sorted_wrt (<) xs \<and> set xs = new - old"

definition diff_correct :: "assignment_v1 list \<Rightarrow> assignment_v1 list \<Rightarrow> assignment_diff_v1 \<Rightarrow> bool" where
  "diff_correct new old d \<longleftrightarrow>
     differences (ad_added_worker_ids d) (as_worker_id ` set new) (as_worker_id ` set old)
     \<and> differences (ad_removed_worker_ids d) (as_worker_id ` set old) (as_worker_id ` set new)
     \<and> differences (ad_added_shift_ids d) {i. \<exists>a \<in> set new. as_shift_id a = Some i} {i. \<exists>a \<in> set old. as_shift_id a = Some i}
     \<and> differences (ad_removed_shift_ids d) {i. \<exists>a \<in> set old. as_shift_id a = Some i} {i. \<exists>a \<in> set new. as_shift_id a = Some i}
     \<and> differences (ad_added_task_ids d) (as_task_id ` set new) (as_task_id ` set old)
     \<and> differences (ad_removed_task_ids d) (as_task_id ` set old) (as_task_id ` set new)"

lemma added_ids_correct: "differences (added_ids new old) (set new) (set old)"
  by (simp add: differences_def added_ids_def)

lemma set_shift_ids: "set (List.map_filter as_shift_id as) = {i. \<exists>a \<in> set as. as_shift_id a = Some i}"
  by (induction as) (auto simp: List.map_filter_simps split: option.splits)

lemma assignment_diff_correct: "diff_correct new old (assignment_diff new old)"
  unfolding diff_correct_def assignment_diff_def Let_def assignment_diff_v1.simps
  using added_ids_correct [of "map as_worker_id new" "map as_worker_id old"] added_ids_correct [of "map as_worker_id old" "map as_worker_id new"]
    added_ids_correct [of "map as_task_id new" "map as_task_id old"] added_ids_correct [of "map as_task_id old" "map as_task_id new"]
    added_ids_correct [of "List.map_filter as_shift_id new" "List.map_filter as_shift_id old"]
    added_ids_correct [of "List.map_filter as_shift_id old" "List.map_filter as_shift_id new"]
  by (simp add: set_shift_ids)

text \<open>
  C39. A comparison that is returned is about the pinned version and complete: the candidate's numbers are recomputed from
  every task, worker and demand row of that version and agree with the stored ones; the baseline is the frozen one, of the
  same version; the differences are exactly the workers, shifts and tasks only one side has; the unresolved gaps are the
  demand rows served less than required; and the comparison is stale exactly when the site's baseline has moved.
\<close>

theorem comparison_is_complete:
  assumes "calculate_comparison cf app_site s candidate scenario_id version site expected baseline = Inr c"
  shows "\<exists>row persisted. projection_row app_site scenario_id s = Some row \<and> sw_scenario_version_id row = version \<and> sw_site_id row = site
    \<and> sv_metrics candidate = Some persisted \<and> \<not> metrics_disagree (cp_candidate_metrics c) persisted
    \<and> projected_metrics (sv_assignments candidate) (sg_tasks (sw_groups row)) (sg_demand (sw_groups row)) (projected_facts (sw_groups row))
        persisted = Inr (cp_candidate_metrics c)
    \<and> cp_unresolved_gap_record_ids c = unresolved_gaps (cp_candidate_metrics c)
    \<and> cp_stale c = (expected \<noteq> baseline_text site s) \<and> (expected = None \<longleftrightarrow> baseline = None)
    \<and> (\<forall>b. baseline = Some b \<longrightarrow> sv_scenario_version_id b = Some version
        \<and> (\<exists>d. cp_assignment_diff c = Some d \<and> diff_correct (sv_assignments candidate) (sv_assignments b) d))"
proof -
  obtain overview where overview: "get_overview app_site scenario_id s = Some overview"
    using assms by (auto simp: calculate_comparison_def split: option.splits)
  then obtain row where row: "projection_row app_site scenario_id s = Some row"
    and ov: "ov_scenario_version_id overview = sw_scenario_version_id row" "ov_site_id overview = sw_site_id row"
      "ov_baseline_schedule_version overview = baseline_text (sw_site_id row) s" "ov_horizon_minutes overview = sg_horizon_minutes (sw_groups row)"
    by (auto simp: get_overview_def Let_def)
  obtain v run persisted tasks demand workers frozen m' where
    binding: "candidate_binding overview version site candidate = Inr (v, run, persisted)"
    and tasks: "drained (get_tasks cf app_site s scenario_id) version site = Inr tasks"
    and demand: "drained (get_demand app_site s scenario_id) version site = Inr demand"
    and workers: "drained (get_workers cf app_site s scenario_id) version site = Inr workers"
    and frozen: "baseline_supply expected baseline version (ov_baseline_schedule_version overview) = Inr frozen"
    and m': "projected_metrics (sv_assignments candidate) tasks demand (projection_facts workers tasks demand (ov_horizon_minutes overview)) persisted = Inr m'"
    and agree: "\<not> metrics_disagree m' persisted"
    and c: "cp_candidate_metrics c = m'" "cp_unresolved_gap_record_ids c = unresolved_gaps m'"
      "cp_stale c = (expected \<noteq> ov_baseline_schedule_version overview)"
      "cp_assignment_diff c = map_option (\<lambda>_. assignment_diff (sv_assignments candidate)
         (case frozen of None \<Rightarrow> [] | Some (b, _) \<Rightarrow> sv_assignments b)) frozen"
    using assms by (auto simp: calculate_comparison_def overview Let_def split: if_splits dest!: and_also_InrD)
  have bound: "sw_scenario_version_id row = version" "sw_site_id row = site" "sv_metrics candidate = Some persisted"
    using binding by (auto simp: candidate_binding_def ov split: if_splits option.splits)
  have groups: "tasks = sg_tasks (sw_groups row)" "workers = sg_workers (sw_groups row)" "demand = sg_demand (sw_groups row)"
    using drained_InrD(1) [OF tasks] drained_InrD(2) [OF workers] drained_InrD(3) [OF demand] row by auto
  have supplied: "(expected = None \<longleftrightarrow> baseline = None) \<and> (\<forall>b. baseline = Some b \<longrightarrow> sv_scenario_version_id b = Some version
      \<and> (\<exists>m. frozen = Some (b, m)))"
    using frozen by (auto simp: baseline_supply_def split: option.splits if_splits)
  have diff: "\<exists>d. cp_assignment_diff c = Some d \<and> diff_correct (sv_assignments candidate) (sv_assignments b) d" if "baseline = Some b" for b
    using supplied that assignment_diff_correct by (auto simp: c(4))
  have facts: "projection_facts workers tasks demand (ov_horizon_minutes overview) = projected_facts (sw_groups row)"
    by (simp add: projected_facts_def groups ov(4))
  show ?thesis
    using row bound m' [unfolded facts] agree supplied diff by (auto simp: c(1-3) groups ov(3))
qed

theorem comparison_is_complete_witness:
  "\<exists>m c. calculate_comparison id 7 scenario_site (demo_candidate m) 3 10 7 None None = Inr c
     \<and> \<not> metrics_disagree (cp_candidate_metrics c) m \<and> \<not> cp_stale c"
proof -
  have site: "baseline_text 7 scenario_site = None" by (simp add: baseline_text_def get_baseline_def scenario_site_def empty_site_def)
  obtain m soft where m: "calculate_candidate_metrics [compared_assignment] (sg_tasks demo_groups) (vf_demand_intervals demo_solve_facts)
      demo_solve_facts [] = Inr (m, soft)"
    using demo_solved by blast
  obtain c where c: "calculate_comparison id 7 scenario_site (demo_candidate m) 3 10 7 None None = Inr c"
    using demo_comparison [OF m] by blast
  then show ?thesis using comparison_is_complete [OF c] by (auto simp: site demo_candidate_def)
qed

end
