(* ===== verification/Projection_Agreement.thy ===== *)
theory Projection_Agreement
  imports Normalization Ingest_Guarantees Comparison_Guarantees
begin

text \<open>
  The document is read twice: by the ingest step for the solver and by the projection for everything that is shown and
  compared. The two readings of the demand agree row by row on documents whose demand is positive, inside the horizon
  and on whole minutes, in a time zone with a fixed offset. Outside of these they differ: the projection keeps rows
  without volume and does not clip.
\<close>

section \<open>Task ids\<close>

lemma truthy_key_text: "truthy v \<Longrightarrow> as_text v = Inr s \<Longrightarrow> v = JString s"
  by (simp add: as_text_InrD)

definition string_ids :: "json list \<Rightarrow> bool" where
  "string_ids ts \<longleftrightarrow> (\<forall>t \<in> set ts. \<forall>v. get_field t ''TaskID'' JNull = Inr v \<longrightarrow> truthy v \<longrightarrow> (\<exists>s. v = JString s))"

lemma add_task_row_ids:
  assumes "add_task_row names tasks t = Inr tasks'"
  shows "\<exists>v. get_field t ''TaskID'' JNull = Inr v \<and> (truthy v \<longrightarrow> (\<exists>s. v = JString s))
    \<and> set (map ta_task_id tasks') = set (map ta_task_id tasks) \<union> (if truthy v then {s. v = JString s} else {})"
proof -
  obtain v where v: "get_field t ''TaskID'' JNull = Inr v" using assms by (auto simp: add_task_row_def dest!: and_also_InrD)
  show ?thesis
  proof (cases "truthy v")
    case False
    then show ?thesis using assms v by (simp add: add_task_row_def and_also_simps)
  next
    case True
    then obtain k where k: "key_of v = Inr k"
      and rest: "if known_task tasks k then tasks' = tasks else \<exists>s y. v = JString s \<and> tasks' = tasks @ [y] \<and> ta_task_id y = s"
      using assms by (auto simp: add_task_row_def v and_also_simps split: if_splits dest!: and_also_InrD as_text_InrD)
    show ?thesis
    proof (cases "known_task tasks k")
      case known: True
      then obtain s where "k = KeyText s" "s \<in> set (map ta_task_id tasks)" by (auto simp: known_task_def)
      then have "v = JString s" using k by (cases v) auto
      then show ?thesis using v rest known \<open>s \<in> _\<close> by auto
    next
      case False
      then show ?thesis using v rest True by auto
    qed
  qed
qed

lemma looped_task_ids:
  "looped (add_task_row names) tasks ts = Inr tasks' \<Longrightarrow>
     string_ids ts \<and> set (map ta_task_id tasks') = set (map ta_task_id tasks) \<union> {s. s \<noteq> [] \<and> (\<exists>t \<in> set ts. get_field t ''TaskID'' JNull = Inr (JString s))}"
proof (induction ts arbitrary: tasks)
  case Nil
  then show ?case by (simp add: string_ids_def)
next
  case (Cons t ts)
  then obtain mid where mid: "add_task_row names tasks t = Inr mid" "looped (add_task_row names) mid ts = Inr tasks'"
    by (auto dest!: and_also_InrD)
  show ?case using add_task_row_ids [OF mid(1)] Cons.IH [OF mid(2)] by (auto simp: string_ids_def split: if_splits)
qed

lemma collected_set:
  "collected f xs = Inr zs \<Longrightarrow> set zs = (\<Union>x \<in> set xs. case f x of Inr ys \<Rightarrow> set ys | Inl _ \<Rightarrow> {})"
  by (induction xs arbitrary: zs) (auto dest!: and_also_InrD)

lemma same_task_ids:
  assumes "build_tasks data = Inr tasks" and "task_ids data = Inr ids"
  shows "set (map ta_task_id tasks) = set ids"
proof -
  obtain names ts where ts: "rows data ''Task'' = Inr ts" "looped (add_task_row names) [] ts = Inr tasks"
    using assms(1) by (auto simp: build_tasks_def dest!: and_also_InrD)
  let ?f = "\<lambda>row. and_also (get_field row ''TaskID'' JNull) (\<lambda>v. if truthy v then and_also (str_of v) (\<lambda>s. Inr [s]) else Inr [])"
  have ids: "set ids = (\<Union>x \<in> set ts. case ?f x of Inr ys \<Rightarrow> set ys | Inl _ \<Rightarrow> {})"
    by (rule collected_set) (use assms(2) in \<open>simp add: task_ids_def ts(1) and_also_simps\<close>)
  have each: "(case ?f t of Inr ys \<Rightarrow> set ys | Inl _ \<Rightarrow> {}) = {s. s \<noteq> [] \<and> get_field t ''TaskID'' JNull = Inr (JString s)}" if t: "t \<in> set ts" for t
  proof (cases "get_field t ''TaskID'' JNull")
    case (Inl e)
    then show ?thesis by (simp add: and_also_simps)
  next
    case (Inr v)
    show ?thesis
    proof (cases "truthy v")
      case True
      then obtain s where "v = JString s" using looped_task_ids [OF ts(2)] t Inr by (auto simp: string_ids_def)
      then show ?thesis using True Inr by (auto simp: and_also_simps)
    next
      case False
      then show ?thesis using Inr by (auto simp: and_also_simps)
    qed
  qed
  show ?thesis using looped_task_ids [OF ts(2)] by (simp add: ids each) auto
qed

lemma same_known_ids: "set (map ta_task_id tasks) = set ids \<Longrightarrow> known_task tasks k = valid_id ids k"
  by (simp add: known_task_def valid_id_def flip: image_image)

section \<open>Minutes\<close>

text \<open>What is compared of a row: family, task, minutes, amount and unit. The record id (a digest on one side, an
  index on the other) and the area, which the facts of the solve leave empty, are not.\<close>

definition shown_row :: "demand_interval_v1 \<Rightarrow> demand_family \<times> string \<times> int \<times> int \<times> float_value \<times> demand_unit" where
  "shown_row d = (di_family d, di_task_id d, di_start_minute d, di_end_minute d, di_amount d, di_unit d)"

definition band_view :: "demand_band \<Rightarrow> demand_family \<times> string \<times> int \<times> int \<times> float_value \<times> demand_unit" where
  "band_view b = (db_family b, db_task_id b, hours_to_minutes (db_start_h b), hours_to_minutes (db_end_h b), db_amount b,
     if db_family b = Indirect then Headcount else Volume)"

definition on_minutes :: "demand_band \<Rightarrow> bool" where
  "on_minutes b \<longleftrightarrow> (\<exists>i j :: int. db_start_h b = of_int i / 60 \<and> db_end_h b = of_int j / 60)"

definition regular :: "int \<Rightarrow> demand_interval_v1 \<Rightarrow> bool" where
  "regular minutes d \<longleftrightarrow> 0 < di_amount d \<and> 0 \<le> di_start_minute d \<and> di_start_minute d < di_end_minute d \<and> di_end_minute d \<le> minutes"

lemma hours_to_minutes_whole: "hours_to_minutes (of_int i / 60) = i"
  by (simp add: hours_to_minutes_def)

lemma whole_minutes_le: "y \<le> x \<Longrightarrow> whole_minutes y \<le> whole_minutes x"
proof (cases "0 \<le> y")
  case True
  assume "y \<le> x"
  then show ?thesis using True zdiv_mono1 [of y x 60] by (simp add: whole_minutes_def)
next
  case False
  assume le: "y \<le> x"
  have neg: "0 \<le> - y div 60" using False by (simp add: pos_imp_zdiv_nonneg_iff)
  show ?thesis
  proof (cases "0 \<le> x")
    case True
    then have "0 \<le> x div 60" by (simp add: pos_imp_zdiv_nonneg_iff)
    then show ?thesis using True False neg by (simp add: whole_minutes_def)
  next
    case x: False
    then show ?thesis using False zdiv_mono1 [of "- x" "- y" 60] le by (simp add: whole_minutes_def)
  qed
qed

lemma whole_minutes_less: "whole_minutes x < whole_minutes y \<Longrightarrow> x < y"
  using whole_minutes_le [of y x] by linarith

text \<open>A window of the document in seconds from the start of the scenario, as both readings see it.\<close>

lemma clipped_window:
  fixes a b h :: int
  assumes "0 \<le> whole_minutes a" and "whole_minutes a < whole_minutes b" and "whole_minutes b \<le> whole_minutes h"
  shows "\<exists>s e. clip (of_int a / 3600, of_int b / 3600) 0 (of_int h / 3600) = Some (s, e)
    \<and> ((\<exists>i :: int. s = of_int i / 60) \<longrightarrow> hours_to_minutes s = whole_minutes a)
    \<and> ((\<exists>j :: int. e = of_int j / 60) \<longrightarrow> hours_to_minutes e = whole_minutes b)"
proof -
  let ?s = "max (of_int a / 3600) 0 :: rat" and ?e = "min (of_int b / 3600) (of_int h / 3600) :: rat"
  have "a < b" "a < h" using whole_minutes_less [of a b] whole_minutes_less [of a h] assms by auto
  have b: "0 < b" "0 < h" using whole_minutes_less [of 0 b] whole_minutes_less [of 0 h] assms by (auto simp: whole_minutes_def split: if_splits)
  have clipped: "clip (of_int a / 3600, of_int b / 3600) 0 (of_int h / 3600) = Some (?s, ?e)"
    using b \<open>a < b\<close> \<open>a < h\<close> by (simp add: clip_def Let_def max_def)
  have s: "hours_to_minutes ?s = whole_minutes a" if "?s = of_int i / 60" for i :: int
  proof (cases "0 \<le> a")
    case True
    then have "of_int a = (of_int (60 * i) :: rat)" using that by simp
    then have "a = 60 * i" by (simp only: of_int_eq_iff)
    then show ?thesis using that True by (simp add: hours_to_minutes_whole whole_minutes_def)
  next
    case False
    then have "?s = 0" by simp
    moreover have "whole_minutes a = 0"
      using False assms(1) pos_imp_zdiv_nonneg_iff [of 60 "- a"] by (simp add: whole_minutes_def)
    ultimately show ?thesis using py_round_of_int [of 0] by (simp add: hours_to_minutes_def)
  qed
  have e: "hours_to_minutes ?e = whole_minutes b" if "?e = of_int j / 60" for j :: int
  proof -
    have "?e = of_int (min b h) / 3600" by (simp add: min_def)
    then have "of_int (min b h) = (of_int (60 * j) :: rat)" using that by simp
    then have m: "min b h = 60 * j" by (simp only: of_int_eq_iff)
    have "whole_minutes (min b h) = whole_minutes b" using whole_minutes_le [of h b] assms(3) by (auto simp: min_def)
    moreover have "whole_minutes (min b h) = j" using m b by (simp add: whole_minutes_def)
    moreover have "hours_to_minutes ?e = j" unfolding that by (rule hours_to_minutes_whole)
    ultimately show ?thesis by simp
  qed
  show ?thesis using clipped s e by blast
qed

section \<open>Rows\<close>

text \<open>Both readings of one row: what the ingest step keeps and what the projection keeps.\<close>

definition rows_agree :: "int \<Rightarrow> demand_band list \<Rightarrow> demand_interval_v1 list \<Rightarrow> bool" where
  "rows_agree minutes bs ds \<longleftrightarrow> (\<forall>b \<in> set bs. on_minutes b) \<longrightarrow> (\<forall>d \<in> set ds. regular minutes d) \<longrightarrow> map band_view bs = map shown_row ds"

lemma rows_agree_append: "rows_agree minutes bs ds \<Longrightarrow> rows_agree minutes bs' ds' \<Longrightarrow> rows_agree minutes (bs @ bs') (ds @ ds')"
  by (auto simp: rows_agree_def)

lemma collected_agree:
  assumes "\<And>x bs ds. x \<in> set xs \<Longrightarrow> f (k x) = Inr bs \<Longrightarrow> g x = Inr ds \<Longrightarrow> rows_agree minutes bs ds"
  shows "collected f (map k xs) = Inr bs \<Longrightarrow> collected g xs = Inr ds \<Longrightarrow> rows_agree minutes bs ds"
  using assms
proof (induction xs arbitrary: bs ds)
  case Nil
  then show ?case by (simp add: rows_agree_def)
next
  case (Cons x xs)
  obtain bs1 bs2 ds1 ds2 where "f (k x) = Inr bs1" "collected f (map k xs) = Inr bs2" "bs = bs1 @ bs2"
    "g x = Inr ds1" "collected g xs = Inr ds2" "ds = ds1 @ ds2"
    using Cons.prems(1,2) by (auto dest!: and_also_InrD)
  moreover have "rows_agree minutes bs2 ds2" by (rule Cons.IH) (use calculation Cons.prems(3) in auto)
  moreover have "rows_agree minutes bs1 ds1" by (rule Cons.prems(3)) (use calculation in auto)
  ultimately show ?case by (simp add: rows_agree_append)
qed

text \<open>The two readings of a time, in seconds from the start of the scenario.\<close>

lemma utc_of_fixed: "utc_of (\<lambda>_. z) t = Inr u \<Longrightarrow> u = t - z"
  by (auto simp: utc_of_def Let_def split: if_splits)

lemma minute_offset_InrD:
  assumes "minute_offset (\<lambda>_. z) (start - z) v = Inr m"
  shows "\<exists>t. parse_dt v = Inr t \<and> m = whole_minutes (t - start)"
  using assms by (auto simp: minute_offset_def as_utc_def dest!: and_also_InrD utc_of_fixed)

lemma minute_span_InrD:
  assumes "minute_span (\<lambda>_. z) (start - z) row k1 k2 = Inr (m, n)"
  shows "\<exists>a b. span_of start row k1 k2 = Inr (of_int (a - start) / 3600, of_int (b - start) / 3600)
    \<and> m = whole_minutes (a - start) \<and> n = whole_minutes (b - start)"
  using assms
  by (auto simp: minute_span_def span_of_def and_also_simps hours_from_def dest!: and_also_InrD minute_offset_InrD)

lemma span_of_InrD: "span_of start row k1 k2 = Inr range_h \<Longrightarrow>
    \<exists>a b. range_h = (of_int (a - start) / 3600, of_int (b - start) / 3600)"
  by (auto simp: span_of_def hours_from_def dest!: and_also_InrD)

text \<open>A span that both readings have: the projection keeps the whole of it, the ingest step its clipped part.\<close>

lemma clipped_agree:
  fixes a b h :: int
  assumes "0 \<le> whole_minutes a" and "whole_minutes a < whole_minutes b" and "whole_minutes b \<le> whole_minutes h"
    and "clip (of_int a / 3600, of_int b / 3600) 0 (of_int h / 3600) = Some r"
    and "db_start_h x = fst r" "db_end_h x = snd r" "on_minutes x"
  shows "hours_to_minutes (db_start_h x) = whole_minutes a \<and> hours_to_minutes (db_end_h x) = whole_minutes b"
  using clipped_window [OF assms(1-3)] assms(4-7) by (auto simp: on_minutes_def)

lemma band_InrE:
  assumes "band tid family r amount order = Inr bs"
  shows "\<exists>s. tid = JString s \<and> bs = [\<lparr>db_task_id = s, db_family = family, db_start_h = fst r, db_end_h = snd r, db_amount = amount, db_order_id = order\<rparr>]"
  using assms by (auto simp: band_def dest!: and_also_InrD as_text_InrD)

lemma interval_InrE:
  assumes "interval i family tid area m v = Inr ds"
  shows "\<exists>s x d. str_of tid = Inr s \<and> to_float v 0 = Inr x \<and> ds = [d]
    \<and> shown_row d = (family, s, fst m, snd m, x, if family = Indirect then Headcount else Volume)"
  using assms by (auto simp: interval_def shown_row_def dest!: and_also_InrD)

text \<open>One demand row with a task, a span and an amount.\<close>

lemma row_agree:
  fixes a b h :: int
  assumes "interval i family tid area (whole_minutes a, whole_minutes b) v = Inr ds" and "to_float v 0 = Inr amount"
    and "amount \<le> 0 \<and> bs = [] \<or> 0 < amount \<and> (case clip (of_int a / 3600, of_int b / 3600) 0 (of_int h / 3600) of
          None \<Rightarrow> Inr [] | Some r \<Rightarrow> band tid family r amount order) = Inr bs"
  shows "rows_agree (whole_minutes h) bs ds"
  unfolding rows_agree_def
proof (intro impI)
  assume on: "\<forall>b \<in> set bs. on_minutes b" and reg: "\<forall>d \<in> set ds. regular (whole_minutes h) d"
  obtain s d where tid: "str_of tid = Inr s" and ds: "ds = [d]"
    and d: "shown_row d = (family, s, whole_minutes a, whole_minutes b, amount, if family = Indirect then Headcount else Volume)"
    using interval_InrE [OF assms(1)] assms(2) by auto
  have r: "0 < amount" "0 \<le> whole_minutes a" "whole_minutes a < whole_minutes b" "whole_minutes b \<le> whole_minutes h"
    using reg d by (auto simp: ds regular_def shown_row_def)
  obtain c where c: "clip (of_int a / 3600, of_int b / 3600) 0 (of_int h / 3600) = Some c"
    using clipped_window [OF r(2-4)] by blast
  then obtain t where "tid = JString t" and bs: "bs = [\<lparr>db_task_id = t, db_family = family, db_start_h = fst c, db_end_h = snd c,
      db_amount = amount, db_order_id = order\<rparr>]"
    using assms(3) r(1) band_InrE [of tid family c amount order bs] by auto
  then have t: "t = s" using tid by simp
  have "hours_to_minutes (fst c) = whole_minutes a \<and> hours_to_minutes (snd c) = whole_minutes b"
    using clipped_agree [OF r(2-4) c, of "hd bs"] on by (simp add: bs)
  then show "map band_view bs = map shown_row ds" using d by (simp add: ds bs t band_view_def)
qed

section \<open>The three tables\<close>

lemma skipping_some_InrD:
  "skipping_some r f = Inr ds \<Longrightarrow> (\<exists>e. r = Inl e \<and> e \<noteq> IngestOverflowError \<and> ds = []) \<or> (\<exists>x. r = Inr x \<and> f x = Inr ds)"
  by (auto simp: skipping_some_def split: sum.splits if_splits)

lemma utc_of_Inl: "utc_of offset t = Inl e \<Longrightarrow> e = IngestOverflowError"
  by (auto simp: utc_of_def Let_def split: if_splits)

lemma and_also_InlD: "and_also r f = Inl e \<Longrightarrow> r = Inl e \<or> (\<exists>x. r = Inr x \<and> f x = Inl e)"
  by (auto simp: and_also_def split: sum.splits)

lemma minute_offset_InlD: "minute_offset offset start v = Inl e \<Longrightarrow> e \<noteq> IngestOverflowError \<Longrightarrow> parse_dt v = Inl e"
  by (auto simp: minute_offset_def as_utc_def dest!: and_also_InlD utc_of_Inl)

lemma minute_span_InlD:
  assumes "minute_span offset start' row k1 k2 = Inl e" and "e \<noteq> IngestOverflowError"
  shows "\<exists>e'. span_of start row k1 k2 = Inl e'"
proof (rule ccontr)
  assume "\<not> ?thesis"
  then obtain r where "span_of start row k1 k2 = Inr r" by (cases "span_of start row k1 k2") auto
  then show False
    using assms by (auto simp: minute_span_def span_of_def dest!: and_also_InrD and_also_InlD minute_offset_InlD)
qed

lemma rows_agree_Nil [simp]: "rows_agree minutes [] []"
  by (simp add: rows_agree_def)

lemma get_field_object: "get_field w k d = Inr x \<Longrightarrow> \<exists>y. get_field w k' d' = Inr y"
  by (cases w) (auto simp: get_field_def)

lemma float_field_InrD: "float_field w k d = Inr x \<Longrightarrow> \<exists>v. get_field w k JNull = Inr v \<and> to_float v d = Inr x"
  by (auto simp: float_field_def dest!: and_also_InrD)

lemma outbound_agree:
  fixes h :: int
  assumes "outbound_row start (of_int h / 3600) tasks (i, w) = Inr bs"
    and "normalize_outbound_row (\<lambda>_. z) (start - z) ids (i, w) = Inr ds" and "set (map ta_task_id tasks) = set ids"
  shows "rows_agree (whole_minutes h) bs ds"
proof -
  obtain tid vol k v where w: "get_field w ''TaskID'' JNull = Inr tid" "key_of tid = Inr k" "get_field w ''Volume'' JNull = Inr v" "to_float v 0 = Inr vol"
    and bs: "(if \<not> known_task tasks k \<or> vol \<le> 0 then Inr [] else skipping (span_of start w ''StartDateTime'' ''EndDateTime'') (\<lambda>r.
        case clip r 0 (of_int h / 3600) of None \<Rightarrow> Inr [] | Some c \<Rightarrow> band tid Outbound c vol (''OB'' @ str_nat i))) = Inr bs"
    using assms(1) by (auto simp: outbound_row_def simp del: append.simps dest!: and_also_InrD float_field_InrD)
  note known = same_known_ids [OF assms(3), of k]
  show ?thesis
  proof (cases "valid_id ids k")
    case False
    then show ?thesis using bs assms(2) by (simp add: known normalize_outbound_row_def w and_also_simps)
  next
    case True
    obtain area where area: "get_field w ''AreaID'' JNull = Inr area" using get_field_object [OF w(1)] by blast
    have "skipping_some (minute_span (\<lambda>_. z) (start - z) w ''StartDateTime'' ''EndDateTime'')
        (\<lambda>m. interval (''outbound:'' @ str_nat i) Outbound tid area m v) = Inr ds"
      using assms(2) True by (simp add: normalize_outbound_row_def w area and_also_simps del: append.simps)
    from skipping_some_InrD [OF this] show ?thesis
    proof
      assume "\<exists>e. minute_span (\<lambda>_. z) (start - z) w ''StartDateTime'' ''EndDateTime'' = Inl e \<and> e \<noteq> IngestOverflowError \<and> ds = []"
      then obtain e where "span_of start w ''StartDateTime'' ''EndDateTime'' = Inl e" "ds = []"
        using minute_span_InlD by blast
      then show ?thesis using bs by (simp add: skipping_def split: if_splits)
    next
      assume "\<exists>m. minute_span (\<lambda>_. z) (start - z) w ''StartDateTime'' ''EndDateTime'' = Inr m
        \<and> interval (''outbound:'' @ str_nat i) Outbound tid area m v = Inr ds"
      then obtain a b where sp: "span_of start w ''StartDateTime'' ''EndDateTime'' = Inr (of_int (a - start) / 3600, of_int (b - start) / 3600)"
        and ds: "interval (''outbound:'' @ str_nat i) Outbound tid area (whole_minutes (a - start), whole_minutes (b - start)) v = Inr ds"
        using minute_span_InrD by fastforce
      show ?thesis
        by (rule row_agree [OF ds w(4), where order = "''OB'' @ str_nat i"]) (use bs True in \<open>auto simp: sp known skipping_def simp del: append.simps split: if_splits\<close>)
    qed
  qed
qed

text \<open>Rows of the second table carry a list of tasks for one window.\<close>

lemma inbound_task_agree:
  fixes a b h :: int
  assumes "clip (of_int a / 3600, of_int b / 3600) 0 (of_int h / 3600) = Some c"
    and "inbound_task tasks c i tk = Inr bs" and "set (map ta_task_id tasks) = set ids"
    and "normalize_inbound_task ids area (whole_minutes a, whole_minutes b) i (j, tk) = Inr ds"
  shows "rows_agree (whole_minutes h) bs ds"
proof -
  obtain tid vol k v where w: "get_field tk ''TaskID'' JNull = Inr tid" "key_of tid = Inr k" "get_field tk ''Volume'' JNull = Inr v" "to_float v 0 = Inr vol"
    and bs: "(if known_task tasks k \<and> vol > 0 then band tid Inbound c vol (''IB'' @ str_nat i) else Inr []) = Inr bs"
    using assms(2) by (auto simp: inbound_task_def simp del: append.simps dest!: and_also_InrD float_field_InrD)
  note known = same_known_ids [OF assms(3), of k]
  show ?thesis
  proof (cases "valid_id ids k")
    case False
    then show ?thesis using bs assms(4) by (simp add: known normalize_inbound_task_def w and_also_simps)
  next
    case True
    then have ds: "interval (''inbound:'' @ str_nat i @ '':'' @ str_nat j) Inbound tid area (whole_minutes a, whole_minutes b) v = Inr ds"
      using assms(4) by (simp add: normalize_inbound_task_def w and_also_simps del: append.simps)
    show ?thesis
      by (rule row_agree [OF ds w(4), where order = "''IB'' @ str_nat i"])
        (use bs True in \<open>auto simp: known assms(1) simp del: append.simps split: if_splits\<close>)
  qed
qed

lemma inbound_minutes:
  assumes "normalize_inbound_task ids area m i x = Inr ds"
  shows "\<forall>d \<in> set ds. di_start_minute d = fst m \<and> di_end_minute d = snd m"
  using assms by (auto simp: normalize_inbound_task_def interval_def split: prod.splits if_splits dest!: and_also_InrD)

lemma text_tasks: "collected (inbound_task tasks c i) (map (\<lambda>x. JString (g x)) xs) = Inr bs \<Longrightarrow> bs = []"
  by (cases xs) (auto simp: inbound_task_def get_field_def and_also_simps)

lemma inbound_agree:
  fixes h :: int
  assumes "inbound_row start (of_int h / 3600) tasks (i, w) = Inr bs"
    and "normalize_inbound_row (\<lambda>_. z) (start - z) ids (i, w) = Inr ds" and ids: "set (map ta_task_id tasks) = set ids"
  shows "rows_agree (whole_minutes h) bs ds"
proof -
  let ?span = "span_of start w ''WindowStartDateTime'' ''WindowEndDateTime''"
  have ingest: "skipping ?span (\<lambda>r. case clip r 0 (of_int h / 3600) of None \<Rightarrow> Inr []
      | Some c \<Rightarrow> and_also (and_also (get_field w ''Tasks'' (JList [])) iterate) (collected (inbound_task tasks c i))) = Inr bs"
    using assms(1) by (simp add: inbound_row_def)
  let ?body = "\<lambda>m. and_also (get_field w ''Tasks'' (JList [])) (\<lambda>tasks. and_also (get_field w ''AreaID'' JNull) (\<lambda>area.
      case tasks of JList ts \<Rightarrow> collected (normalize_inbound_task ids area m i) (enumerate 0 ts) | _ \<Rightarrow> Inr []))"
  have "skipping_some (minute_span (\<lambda>_. z) (start - z) w ''WindowStartDateTime'' ''WindowEndDateTime'') ?body = Inr ds"
    using assms(2) by (simp add: normalize_inbound_row_def)
  from skipping_some_InrD [OF this] show ?thesis
  proof
    assume "\<exists>e. minute_span (\<lambda>_. z) (start - z) w ''WindowStartDateTime'' ''WindowEndDateTime'' = Inl e \<and> e \<noteq> IngestOverflowError \<and> ds = []"
    then obtain e where "?span = Inl e" "ds = []" using minute_span_InlD by blast
    then show ?thesis using ingest by (simp add: skipping_def)
  next
    assume "\<exists>m. minute_span (\<lambda>_. z) (start - z) w ''WindowStartDateTime'' ''WindowEndDateTime'' = Inr m \<and> ?body m = Inr ds"
    then obtain a b where sp: "?span = Inr (of_int (a - start) / 3600, of_int (b - start) / 3600)"
      and body: "?body (whole_minutes (a - start), whole_minutes (b - start)) = Inr ds"
      using minute_span_InrD by fastforce
    obtain v area where v: "get_field w ''Tasks'' (JList []) = Inr v" and area: "get_field w ''AreaID'' JNull = Inr area"
      using body by (auto dest!: and_also_InrD)
    let ?clip = "clip (of_int (a - start) / 3600, of_int (b - start) / 3600) 0 (of_int h / 3600) :: (rat \<times> rat) option"
    show ?thesis
    proof (cases v)
      case (JList ts)
      have ds: "collected (normalize_inbound_task ids area (whole_minutes (a - start), whole_minutes (b - start)) i) (enumerate 0 ts) = Inr ds"
        using body by (simp add: v area and_also_simps JList)
      show ?thesis
      proof (cases ?clip)
        case None
        have "\<forall>d \<in> set ds. di_start_minute d = whole_minutes (a - start) \<and> di_end_minute d = whole_minutes (b - start)"
          by (rule collected_all [OF ds]) (drule inbound_minutes, simp)
        then have "\<not> regular (whole_minutes h) d" if "d \<in> set ds" for d
          using clipped_window [of "a - start" "b - start" h] None that by (auto simp: regular_def)
        then have "ds = [] \<or> \<not> (\<forall>d \<in> set ds. regular (whole_minutes h) d)" by (cases ds) auto
        moreover have "bs = []" using ingest None by (simp add: sp skipping_def)
        ultimately show ?thesis by (auto simp: rows_agree_def)
      next
        case (Some c)
        have "collected (inbound_task tasks c i) (map snd (enumerate 0 ts)) = Inr bs"
          using ingest Some by (simp add: sp skipping_def v JList and_also_simps)
        moreover have "rows_agree (whole_minutes h) bs' ds'"
          if "inbound_task tasks c i (snd x) = Inr bs'" and "normalize_inbound_task ids area (whole_minutes (a - start), whole_minutes (b - start)) i x = Inr ds'"
          for x bs' ds'
          by (rule inbound_task_agree [OF Some that(1) ids, where area = area and j = "fst x"]) (use that(2) in simp)
        ultimately show ?thesis using collected_agree [OF _ _ ds] by blast
      qed
    next
      case (JString t)
      then show ?thesis using ingest body
        by (auto simp: sp skipping_def v area and_also_simps split: option.splits dest: text_tasks)
    next
      case (JObject kvs)
      then show ?thesis using ingest body
        by (auto simp: sp skipping_def v area and_also_simps split: option.splits dest: text_tasks)
    qed (use ingest body in \<open>auto simp: sp skipping_def v area and_also_simps split: option.splits\<close>)
  qed
qed

text \<open>Rows of the third table have a day and two times of day.\<close>

lemma plus_hours_whole:
  assumes "plus_hours day x = Inr t" and "\<exists>n :: int. x = of_int n / 3600"
  shows "t = of_int \<lfloor>t\<rfloor>"
proof -
  obtain n :: int where n: "x = of_int n / 3600" using assms(2) by blast
  have "t = of_int day + of_int n" using assms(1) unfolding n by (rule plus_hours_InrD)
  then show ?thesis by simp
qed

lemma next_day_whole: "\<exists>n :: int. x = of_int n / 3600 \<Longrightarrow> \<exists>n :: int. x + (if b then 24 else 0) = of_int n / (3600 :: rat)"
proof -
  assume "\<exists>n :: int. x = of_int n / 3600"
  then obtain n :: int where "x = of_int n / 3600" by blast
  then have "x + (if b then 24 else 0) = of_int (n + (if b then 86400 else 0)) / 3600" by simp
  then show ?thesis by blast
qed

lemma day_window_offsets_InrD:
  assumes "day_window_offsets (\<lambda>_. z) (start - z) d s e = Inr (m, n)"
  shows "\<exists>a b. day_window_hours start d s e = Inr (of_int (a - start) / 3600, of_int (b - start) / 3600)
    \<and> m = whole_minutes (a - start) \<and> n = whole_minutes (b - start)"
proof -
  obtain day x y t u where day: "parse_dt d = Inr day" and x: "parse_time_of_day s = Inr x" and y: "parse_time_of_day e = Inr y"
    and t: "plus_hours day x = Inr t" and u: "plus_hours day (y + (if y \<le> x then 24 else 0)) = Inr u"
    and mn: "m = whole_minutes (\<lfloor>t\<rfloor> - start)" "n = whole_minutes (\<lfloor>u\<rfloor> - start)"
    using assms by (auto simp: day_window_offsets_def dest!: and_also_InrD utc_of_fixed)
  have "t = of_int \<lfloor>t\<rfloor>" by (rule plus_hours_whole [OF t parse_time_of_day_seconds [OF x]])
  moreover have "u = of_int \<lfloor>u\<rfloor>" by (rule plus_hours_whole [OF u next_day_whole [OF parse_time_of_day_seconds [OF y]]])
  ultimately have "hours_from start t = of_int (\<lfloor>t\<rfloor> - start) / 3600" "hours_from start u = of_int (\<lfloor>u\<rfloor> - start) / 3600"
    by (simp_all add: hours_from_def)
  then have "day_window_hours start d s e = Inr (of_int (\<lfloor>t\<rfloor> - start) / 3600, of_int (\<lfloor>u\<rfloor> - start) / 3600)"
    by (simp add: day_window_hours_def day x y t u and_also_simps)
  then show ?thesis using mn by blast
qed

lemma day_window_offsets_InlD:
  assumes "day_window_offsets offset start' d s e = Inl err" and "err \<noteq> IngestOverflowError"
  shows "\<exists>err'. day_window_hours start d s e = Inl err'"
proof (rule ccontr)
  assume "\<not> ?thesis"
  then obtain r where "day_window_hours start d s e = Inr r" by (cases "day_window_hours start d s e") auto
  then show False
    using assms by (auto simp: day_window_offsets_def day_window_hours_def dest!: and_also_InrD and_also_InlD utc_of_Inl)
qed

definition offset_span :: "(int \<Rightarrow> int) \<Rightarrow> int \<Rightarrow> json \<Rightarrow> ingest_error + int \<times> int" where
  "offset_span offset start w =
     and_also (item w ''Date'') (\<lambda>day. and_also (item w ''WindowStartDateTime'') (\<lambda>s. and_also (item w ''WindowEndDateTime'') (\<lambda>e.
       day_window_offsets offset start day s e)))"

lemma offset_span_InlD: "offset_span offset start' w = Inl e \<Longrightarrow> e \<noteq> IngestOverflowError \<Longrightarrow> \<exists>e'. indirect_span start w = Inl e'"
  by (auto simp: offset_span_def indirect_span_def and_also_simps dest!: and_also_InlD day_window_offsets_InlD)

lemma offset_span_InrD:
  "offset_span (\<lambda>_. z) (start - z) w = Inr (m, n) \<Longrightarrow> \<exists>a b. indirect_span start w = Inr (of_int (a - start) / 3600, of_int (b - start) / 3600)
    \<and> m = whole_minutes (a - start) \<and> n = whole_minutes (b - start)"
  by (auto simp: offset_span_def indirect_span_def and_also_simps dest!: and_also_InrD day_window_offsets_InrD)

lemma indirect_agree:
  fixes h :: int
  assumes "indirect_row start (of_int h / 3600) tasks (i, w) = Inr bs"
    and "normalize_indirect_row (\<lambda>_. z) (start - z) ids (i, w) = Inr ds" and "set (map ta_task_id tasks) = set ids"
  shows "rows_agree (whole_minutes h) bs ds"
proof -
  obtain tid vol k v where w: "get_field w ''TaskID'' JNull = Inr tid" "key_of tid = Inr k" "get_field w ''RequiredHeadcount'' JNull = Inr v" "to_float v 0 = Inr vol"
    and bs: "(if \<not> known_task tasks k \<or> vol \<le> 0 then Inr [] else skipping (indirect_span start w) (\<lambda>r.
        case clip r 0 (of_int h / 3600) of None \<Rightarrow> Inr [] | Some c \<Rightarrow> band tid Indirect c vol (''IND'' @ str_nat i))) = Inr bs"
    using assms(1) by (auto simp: indirect_row_def simp del: append.simps dest!: and_also_InrD float_field_InrD)
  note known = same_known_ids [OF assms(3), of k]
  show ?thesis
  proof (cases "valid_id ids k")
    case False
    then show ?thesis using bs assms(2) by (simp add: known normalize_indirect_row_def w and_also_simps)
  next
    case True
    obtain area where area: "get_field w ''AreaID'' JNull = Inr area" using get_field_object [OF w(1)] by blast
    have "skipping_some (offset_span (\<lambda>_. z) (start - z) w) (\<lambda>m. interval (''indirect:'' @ str_nat i) Indirect tid area m v) = Inr ds"
      using assms(2) True by (simp add: normalize_indirect_row_def offset_span_def w area and_also_simps del: append.simps)
    from skipping_some_InrD [OF this] show ?thesis
    proof
      assume "\<exists>e. offset_span (\<lambda>_. z) (start - z) w = Inl e \<and> e \<noteq> IngestOverflowError \<and> ds = []"
      then obtain e where "indirect_span start w = Inl e" "ds = []" using offset_span_InlD by blast
      then show ?thesis using bs by (simp add: skipping_def split: if_splits)
    next
      assume "\<exists>m. offset_span (\<lambda>_. z) (start - z) w = Inr m \<and> interval (''indirect:'' @ str_nat i) Indirect tid area m v = Inr ds"
      then obtain a b where sp: "indirect_span start w = Inr (of_int (a - start) / 3600, of_int (b - start) / 3600)"
        and ds: "interval (''indirect:'' @ str_nat i) Indirect tid area (whole_minutes (a - start), whole_minutes (b - start)) v = Inr ds"
        using offset_span_InrD by fastforce
      show ?thesis
        by (rule row_agree [OF ds w(4), where order = "''IND'' @ str_nat i"]) (use bs True in \<open>auto simp: sp known skipping_def simp del: append.simps split: if_splits\<close>)
    qed
  qed
qed

section \<open>Both readings of a document\<close>

lemma indexed_agree:
  assumes "\<And>i w bs ds. f (i, w) = Inr bs \<Longrightarrow> g (i, w) = Inr ds \<Longrightarrow> rows_agree minutes bs ds"
    and "collected f xs = Inr bs" and "collected g xs = Inr ds"
  shows "rows_agree minutes bs ds"
  by (rule collected_agree [of xs f "\<lambda>x. x", OF _ _ assms(3)]) (use assms(1,2) in auto)

lemma demand_readings:
  assumes "build_tasks data = Inr tasks" and "build_demand data start (of_int h / 3600) tasks = Inr bs"
    and "normalize_demand (\<lambda>_. z) data (start - z) = Inr ds"
  shows "rows_agree (whole_minutes h) bs ds"
proof -
  obtain ids where ids: "task_ids data = Inr ids" using assms(3) by (auto simp: normalize_demand_def dest!: and_also_InrD)
  note same = same_task_ids [OF assms(1) ids]
  obtain os ns ws bo bn bi where rows: "rows data ''Outbound Workload'' = Inr os" "rows data ''Inbound Workload'' = Inr ns"
      "rows data ''Indirect Workforce Requirement'' = Inr ws"
    and b: "collected (outbound_row start (of_int h / 3600) tasks) (enumerate 0 os) = Inr bo"
      "collected (inbound_row start (of_int h / 3600) tasks) (enumerate 0 ns) = Inr bn"
      "collected (indirect_row start (of_int h / 3600) tasks) (enumerate 0 ws) = Inr bi" "bs = bo @ bn @ bi"
    using assms(2) by (auto simp: build_demand_def dest!: and_also_InrD)
  obtain o' n' i' where d: "collected (normalize_outbound_row (\<lambda>_. z) (start - z) ids) (enumerate 0 os) = Inr o'"
      "collected (normalize_inbound_row (\<lambda>_. z) (start - z) ids) (enumerate 0 ns) = Inr n'"
      "collected (normalize_indirect_row (\<lambda>_. z) (start - z) ids) (enumerate 0 ws) = Inr i'" "ds = o' @ n' @ i'"
    using assms(3) by (auto simp: normalize_demand_def ids rows and_also_simps dest!: and_also_InrD)
  have "rows_agree (whole_minutes h) bo o'"
    by (rule indexed_agree [OF outbound_agree [OF _ _ same] b(1) d(1)])
  moreover have "rows_agree (whole_minutes h) bn n'"
    by (rule indexed_agree [OF inbound_agree [OF _ _ same] b(2) d(2)])
  moreover have "rows_agree (whole_minutes h) bi i'"
    by (rule indexed_agree [OF indirect_agree [OF _ _ same] b(3) d(3)])
  ultimately show ?thesis by (simp add: b(4) d(4) rows_agree_append)
qed

lemma horizon_readings:
  assumes "scenario_range data = Inr (start, horizon_h)" and "horizon (\<lambda>_. z) data = Inr (origin, minutes)"
  shows "origin = start - z \<and> (\<exists>h. horizon_h = of_int h / 3600 \<and> minutes = whole_minutes h)"
proof -
  obtain finish where "horizon_h = of_int (finish - start) / 3600" "origin = start - z" "minutes = whole_minutes (finish - start)"
    using assms
    by (auto simp: scenario_range_def horizon_def as_utc_def hours_from_def and_also_simps split: list.splits dest!: and_also_InrD utc_of_fixed)
  then show ?thesis by blast
qed

lemma all_results_map:
  "all_results f xs = Inr ys \<Longrightarrow> (\<And>x y. f x = Inr y \<Longrightarrow> v y = w x) \<Longrightarrow> map v ys = map w xs"
  by (induction xs arbitrary: ys) (auto dest!: and_also_InrD)

lemma demand_fact_view: "demand_fact digest b = Inr d \<Longrightarrow> shown_row d = band_view b"
  by (auto simp: demand_fact_def shown_row_def band_view_def dest!: and_also_InrD)

text \<open>
  C40. The demand the solver plans for is the demand that is shown: when every demand row of the projection is positive and
  inside the horizon and the planned bands are on whole minutes, then the facts of the solve list the same families, tasks,
  minutes, amounts and units as the projection of the same document, row by row and in the same order, in any zone with a fixed
  offset. The record ids and the areas of the two lists are not compared: the facts name a row by a digest and have no area.
\<close>

theorem planned_demand_is_shown:
  assumes "build_problem data = Inr p" and "normalized_groups (\<lambda>_. z) data = Inr g"
    and "\<forall>b \<in> set (sp_demand p). on_minutes b" and "\<forall>d \<in> set (sg_demand g). regular (sg_horizon_minutes g) d"
    and "validation_facts digest p shifts = Inr facts"
  shows "map shown_row (vf_demand_intervals facts) = map shown_row (sg_demand g)"
proof -
  obtain start horizon_h tasks where range_h: "scenario_range data = Inr (start, horizon_h)" and tasks: "build_tasks data = Inr tasks"
    and bands: "build_demand data start horizon_h tasks = Inr (sp_demand p)"
    using assms(1) by (auto simp: build_problem_def dest!: and_also_InrD)
  obtain origin where origin: "horizon (\<lambda>_. z) data = Inr (origin, sg_horizon_minutes g)"
    and rows: "normalize_demand (\<lambda>_. z) data origin = Inr (sg_demand g)"
    using assms(2) by (auto simp: normalized_groups_def dest!: and_also_InrD)
  obtain h where h: "origin = start - z" "horizon_h = of_int h / 3600" "sg_horizon_minutes g = whole_minutes h"
    using horizon_readings [OF range_h origin] by blast
  have "map band_view (sp_demand p) = map shown_row (sg_demand g)"
    using demand_readings [OF tasks bands [unfolded h(2)] rows [unfolded h(1)]] assms(3,4) by (simp add: rows_agree_def h(3))
  moreover have "map shown_row (vf_demand_intervals facts) = map band_view (sp_demand p)"
    using assms(5) by (auto simp: validation_facts_def dest!: and_also_InrD intro!: all_results_map demand_fact_view)
  ultimately show ?thesis by simp
qed

lemmas normalizing_steps = reading_steps and_also_simps demo_values demo_digits str_field_def optional_str_def skipping_some_def
  as_utc_def utc_of_def last_ordinal_def whole_minutes_def minute_offset_def Let_def

lemma demo_horizon: "horizon (\<lambda>_. 25200) demo_document = Inr (63915930000, 10080)"
  by (simp add: horizon_def demo_document_def normalizing_steps cong: first_step_cong)

lemma demo_task_ids: "task_ids demo_document = Inr [''T1'', ''T1'']"
  by (simp add: task_ids_def demo_document_def normalizing_steps cong: first_step_cong)

lemma demo_normalized_tasks: "\<exists>ts. normalize_tasks demo_document = Inr ts"
  by (simp add: normalize_tasks_def named_rows_def normalize_task_row_def demo_document_def normalizing_steps cong: first_step_cong)

lemma demo_normalized_workers: "\<exists>ws. normalize_workers (\<lambda>_. 25200) demo_document 63915930000 = Inr ws"
  unfolding normalize_workers_def demo_task_ids and_also_simps
  by (simp add: normalize_qualification_row_def valid_id_def normalize_window_row_def
      normalize_worker_row_def demo_document_def normalizing_steps cong: first_step_cong)

lemma demo_offsets: "day_window_offsets (\<lambda>_. 25200) 63915930000 (JString ''2026-06-01T00:00:00'') (JString ''22:00:00'') (JString ''06:00'')
    = Inr (1320, 1800)"
  by (simp add: day_window_offsets_def plus_hours_def py_round_def normalizing_steps)

lemma demo_normalized_intervals:
  "\<exists>ds. normalize_demand (\<lambda>_. 25200) demo_document 63915930000 = Inr ds \<and> map shown_row ds = [(Indirect, ''T1'', 1320, 1800, 2, Headcount)]"
  unfolding normalize_demand_def demo_task_ids and_also_simps
  by (simp add: normalize_indirect_row_def valid_id_def interval_def truthy_str_def shown_row_def
      demo_offsets demo_document_def reading_steps and_also_simps demo_values demo_digits skipping_some_def cong: first_step_cong)

lemma demo_normalized_constraints: "\<exists>cs. normalize_constraints demo_document = Inr cs"
  by (simp add: normalize_constraints_def normalize_constraint_row_def demo_document_def normalizing_steps cong: first_step_cong)

lemma demo_work_areas: "work_areas demo_document = Inr []"
  by (simp add: work_areas_def demo_document_def normalizing_steps)

lemma demo_normalized_demand:
  "\<exists>g. normalized_groups (\<lambda>_. 25200) demo_document = Inr g \<and> sg_horizon_minutes g = 10080
     \<and> map shown_row (sg_demand g) = [(Indirect, ''T1'', 1320, 1800, 2, Headcount)]"
  using demo_normalized_tasks demo_normalized_workers demo_normalized_intervals demo_normalized_constraints
  by (auto simp: normalized_groups_def demo_horizon demo_work_areas and_also_simps)

theorem planned_demand_is_shown_witness:
  "\<exists>facts g. validation_facts (\<lambda>_. Some ''0'') ingested_demo [] = Inr facts \<and> normalized_groups (\<lambda>_. 25200) demo_document = Inr g
     \<and> map shown_row (vf_demand_intervals facts) = map shown_row (sg_demand g) \<and> length (sg_demand g) = 1"
proof -
  obtain g where g: "normalized_groups (\<lambda>_. 25200) demo_document = Inr g" "sg_horizon_minutes g = 10080"
    "map shown_row (sg_demand g) = [(Indirect, ''T1'', 1320, 1800, 2, Headcount)]"
    using demo_normalized_demand by (elim exE conjE)
  obtain facts where facts: "validation_facts (\<lambda>_. Some ''0'') ingested_demo [] = Inr facts"
    by (simp add: validation_facts_def ingested_demo_def demand_fact_def short_digest_def and_also_simps)
  have on: "\<forall>b \<in> set (sp_demand ingested_demo). on_minutes b"
    unfolding on_minutes_def by (simp add: ingested_demo_def)
  obtain d where d: "sg_demand g = [d]" "shown_row d = (Indirect, ''T1'', 1320, 1800, 2, Headcount)" using g(3) by auto
  have "\<forall>d \<in> set (sg_demand g). regular (sg_horizon_minutes g) d" using d(2) by (simp add: d(1) g(2) regular_def shown_row_def)
  from planned_demand_is_shown [OF demo_document_built g(1) on this facts] show ?thesis using facts g(1) d(1) by auto
qed

end
