(* ===== verification/Capabilities.thy ===== *)
theory Capabilities
  imports Proposals
begin

text \<open>
  What a capability declares and who is granted it: the manifest (\<^verbatim>\<open>application/contracts/capability_manifest.py\<close>),
  the module (\<^verbatim>\<open>application/capabilities/module.py\<close>), the installed set with its feature policy (\<^verbatim>\<open>installed.py\<close>)
  and the composition of a grant (\<^verbatim>\<open>registry.py\<close>). Request and error types, the handler and the view of its
  result are the functions of \<^verbatim>\<open>Turn_Tools\<close>; of the handler the module keeps the names of its parameters. The texts
  of error messages are left out.
\<close>

section \<open>Manifests\<close>

datatype risk_class = RiskInspect | RiskDraft | RiskCompute | RiskConsequential | RiskProhibited

datatype approval_policy = ApprovalNone | ApprovalExactAction

record capability_manifest_v1 =
  mf_capability_name :: string
  mf_capability_version :: string
  mf_input_schema_ref :: string
  mf_output_schema_ref :: string
  mf_risk_class :: risk_class
  mf_permission :: string
  mf_scope :: string
  mf_version_semantics :: string
  mf_idempotency_semantics :: string
  mf_budget_limit :: int
  mf_timeout_seconds :: float_value
  mf_approval_policy :: approval_policy
  mf_audit_mapping :: string
  mf_evidence_mapping :: string
  mf_errors :: "string list"
  mf_evaluation_fixtures :: "string list"
  mf_citable_result_id :: bool

datatype declaration_error = IncompleteManifestError

definition refuse_if :: "bool \<Rightarrow> declaration_error + unit" where
  "refuse_if c = (if c then Inl IncompleteManifestError else Inr ())"

text \<open>\<open>str.isidentifier\<close> on Latin-1.\<close>

definition identifier_start :: "char \<Rightarrow> bool" where
  "identifier_start c = (let n = (of_char c :: nat) in
     if n < 97 then 65 \<le> n \<and> n \<le> 90 \<or> n = 95 else if n < 123 then True
     else n = 170 \<or> n = 181 \<or> n = 186 \<or> 192 \<le> n \<and> n \<noteq> 215 \<and> n \<noteq> 247)"

definition identifier_char :: "char \<Rightarrow> bool" where
  "identifier_char c = (if identifier_start c then True else is_digit 10 c \<or> (of_char c :: nat) = 183)"

definition is_identifier :: "string \<Rightarrow> bool" where
  "is_identifier s = (case s of [] \<Rightarrow> False | c # cs \<Rightarrow> identifier_start c \<and> list_all identifier_char cs)"

fun split_dots :: "string \<Rightarrow> string list" where
  "split_dots [] = [[]]"
| "split_dots (c # cs) = (if c = CHR ''.'' then [] # split_dots cs
     else (case split_dots cs of [] \<Rightarrow> [[c]] | p # ps \<Rightarrow> (c # p) # ps))"

definition is_object_path :: "string \<Rightarrow> bool" where
  "is_object_path s = (let parts = split_dots s in 2 \<le> length parts \<and> list_all is_identifier parts)"

definition is_blank :: "string \<Rightarrow> bool" where
  "is_blank s \<longleftrightarrow> strip_chars is_space s = []"

definition manifest_texts :: "capability_manifest_v1 \<Rightarrow> string list" where
  "manifest_texts m = [mf_capability_name m, mf_capability_version m, mf_input_schema_ref m, mf_output_schema_ref m,
     mf_permission m, mf_scope m, mf_version_semantics m, mf_idempotency_semantics m, mf_audit_mapping m, mf_evidence_mapping m]"

definition validate_manifest :: "capability_manifest_v1 \<Rightarrow> declaration_error + unit" where
  "validate_manifest m =
     and_also (refuse_if (list_ex is_blank (manifest_texts m))) (\<lambda>_.
     and_also (refuse_if (\<not> is_identifier (mf_capability_name m))) (\<lambda>_.
     and_also (refuse_if (\<not> is_object_path (mf_input_schema_ref m) \<or> \<not> is_object_path (mf_output_schema_ref m))) (\<lambda>_.
     and_also (refuse_if (mf_budget_limit m < 1)) (\<lambda>_.
     and_also (refuse_if (mf_timeout_seconds m \<le> 0)) (\<lambda>_.
     and_also (refuse_if (mf_risk_class m = RiskProhibited)) (\<lambda>_.
     and_also (refuse_if (mf_errors m = [])) (\<lambda>_.
     refuse_if (mf_evaluation_fixtures m = []))))))))"

section \<open>Modules\<close>

record capability_module_v1 =
  cb_manifest :: capability_manifest_v1
  cb_handler_parameters :: "string list"
  cb_retryable_error_codes :: "string list"
  cb_required_role :: string
  cb_required_feature_policy :: string
  cb_request_argument :: string
  cb_model_description :: string

abbreviation name_of_module :: "capability_module_v1 \<Rightarrow> string" where
  "name_of_module m \<equiv> mf_capability_name (cb_manifest m)"

definition validate_module :: "capability_module_v1 \<Rightarrow> declaration_error + unit" where
  "validate_module m =
     and_also (validate_manifest (cb_manifest m)) (\<lambda>_.
     and_also (refuse_if (\<not> list_all (\<lambda>code. code \<in> set (mf_errors (cb_manifest m))) (cb_retryable_error_codes m))) (\<lambda>_.
     and_also (refuse_if (length (cb_handler_parameters m) < 3)) (\<lambda>_.
     and_also (refuse_if (cb_request_argument m \<noteq> cb_handler_parameters m ! 1)) (\<lambda>_.
     and_also (refuse_if (\<not> is_identifier (cb_request_argument m))) (\<lambda>_.
     refuse_if (is_blank (cb_model_description m)))))))"

section \<open>The installed set\<close>

text \<open>The settings the manifests and the feature policy read.\<close>

record capability_settings =
  kc_inspect_row_limit :: int
  kc_inspect_timeout_seconds :: float_value
  kc_compute_row_limit :: int
  kc_compute_timeout_seconds :: float_value
  kc_draft_timeout_seconds :: float_value
  kc_draft_max_constraints :: int
  kc_site_max_concurrent_runs :: int
  kc_solver_wall_time_limit_seconds :: float_value
  kc_enabled :: "(string \<times> bool) list"

definition scheduling_compute_manifest :: "capability_settings \<Rightarrow> capability_manifest_v1" where
  "scheduling_compute_manifest st =
     \<lparr>mf_capability_name = ''scheduling_compute'', mf_capability_version = ''1'',
      mf_input_schema_ref = ''application.capabilities.scheduling_compute.SchedulingComputeRequestV1'',
      mf_output_schema_ref = ''application.capabilities.scheduling_compute.SchedulingComputeResultV1'',
      mf_risk_class = RiskInspect, mf_permission = ''scenario:inspect'',
      mf_scope = ''current_site/current_scenario_version'',
      mf_version_semantics = ''result and every evidence locator are pinned to the selected scenario version'',
      mf_idempotency_semantics = ''content-addressed and repeatable for an immutable version'',
      mf_budget_limit = kc_compute_row_limit st, mf_timeout_seconds = kc_compute_timeout_seconds st, mf_approval_policy = ApprovalNone,
      mf_audit_mapping = ''agent run + tool call + deterministic result identifier; no hidden reasoning'',
      mf_evidence_mapping = ''exact consumed records, fields/ranges, checksum, and scenario version'',
      mf_errors = [''scenario_not_found'', ''version_mismatch'', ''site_mismatch'', ''invalid_query'',
         ''metric_dimension_mismatch'', ''calculation_failed'', ''budget_exhausted''],
      mf_evaluation_fixtures = [''evals/golden/scheduling_compute/supported.json'',
         ''evals/golden/scheduling_compute/version-mismatch.json'',
         ''evals/golden/scheduling_compute/missing-evidence.json'',
         ''evals/golden/scheduling_compute/untagged-numerals.json''],
      mf_citable_result_id = True\<rparr>"

definition scheduling_compute_module :: "capability_settings \<Rightarrow> capability_module_v1" where
  "scheduling_compute_module st =
     \<lparr>cb_manifest = scheduling_compute_manifest st, cb_handler_parameters = [''deps'', ''request'', ''manifest''],
      cb_retryable_error_codes = [''invalid_query'', ''metric_dimension_mismatch''], cb_required_role = ''planner'',
      cb_required_feature_policy = ''scheduling_compute_enabled'', cb_request_argument = ''request'',
      cb_model_description =
        ''scheduling_compute calculates one supported scheduling metric from a supplied metric name and its ''
        @ ''exact arguments. Resolve identifiers from scenario inspection and prior displayed choices. For the ''
        @ ''total number of workers in the scenario, use worker_count with empty arguments; ''
        @ ''qualified_worker_count counts qualifications for a particular task. Resolve materially ambiguous ''
        @ ''task, family, or time windows by clarifying with the planner in plain language. Only demand metrics ''
        @ ''accept a family; staffed minutes and qualified worker count do not. It returns a citation handle, ''
        @ ''not a numeric value; use that handle in the grounded answer. Outbound and inbound demand are ''
        @ ''volume, while indirect demand is headcount. It computes over the scenario's stored facts only, ''
        @ ''never over a run's candidate or a promoted baseline.''\<rparr>"

definition scheduling_draft_manifest :: "capability_settings \<Rightarrow> capability_manifest_v1" where
  "scheduling_draft_manifest st =
     \<lparr>mf_capability_name = ''scheduling_draft'', mf_capability_version = ''1'',
      mf_input_schema_ref = ''application.capabilities.scheduling_draft.SchedulingDraftRequestV1'',
      mf_output_schema_ref = ''application.capabilities.scheduling_draft.SchedulingDraftResultV1'',
      mf_risk_class = RiskDraft, mf_permission = ''scenario:draft'',
      mf_scope = ''current_site/current_scenario_version'',
      mf_version_semantics = ''resolved inputs are pinned to one immutable scenario version'',
      mf_idempotency_semantics = ''content-addressed by canonical constraints and preserved locks'',
      mf_budget_limit = kc_draft_max_constraints st, mf_timeout_seconds = kc_draft_timeout_seconds st, mf_approval_policy = ApprovalNone,
      mf_audit_mapping = ''agent run + trusted draft result + immutable proposal version'',
      mf_evidence_mapping = ''resolved governed projection identities and preserved lock records'',
      mf_errors = [''scenario_not_found'', ''version_mismatch'', ''site_mismatch'', ''invalid_query'',
         ''draft_failed'', ''budget_exhausted''],
      mf_evaluation_fixtures = [''evals/golden/scheduling_draft/valid.json'',
         ''evals/golden/scheduling_draft/unresolvable-entity.json'',
         ''evals/golden/scheduling_draft/out-of-range-argument.json'',
         ''evals/golden/scheduling_draft/stale-version.json''],
      mf_citable_result_id = False\<rparr>"

definition scheduling_draft_module :: "capability_settings \<Rightarrow> capability_module_v1" where
  "scheduling_draft_module st =
     \<lparr>cb_manifest = scheduling_draft_manifest st, cb_handler_parameters = [''deps'', ''request'', ''manifest''],
      cb_retryable_error_codes = [''invalid_query''], cb_required_role = ''planner'',
      cb_required_feature_policy = ''scheduling_draft_enabled'', cb_request_argument = ''request'',
      cb_model_description =
        ''scheduling_draft writes the conversation's one working draft of soft solver constraints: it creates ''
        @ ''v1 when none exists, otherwise it appends the next version with the full list you send; omit a ''
        @ ''constraint to remove it. The result reports outcome (created or updated) and version_ordinal. ''
        @ ''Always set expected_scenario_version_id to current_scenario_version_id from the workflow snapshot. ''
        @ ''Each constraint uses exactly these fields and leaves every other field unset: ''
        @ ''set_min_workers_per_task -- group='work-areas-and-tasks', record_id=<task_id>, n>0; scale_demand -- ''
        @ ''group='work-areas-and-tasks', record_id=<task_id>, factor>0; lock_worker_shift -- group='workers', ''
        @ ''record_id=<worker contact_id>, start_minute, end_minute (minutes from scenario start, half-open, ''
        @ ''within the horizon); exclude_worker_from_task -- group='workers', record_id=<worker contact_id>, ''
        @ ''related_group='work-areas-and-tasks', related_record_id=<task_id>; set_max_hours -- ''
        @ ''kind='set_max_hours', group='workers', record_id=<worker contact_id>, max_hours=<number, at most ''
        @ ''56>. Resolve the user's intended change to these kinds and exact record IDs using scenario ''
        @ ''inspection and the workflow snapshot. Ask about ambiguous workers, tasks, or values in plain ''
        @ ''language; do not ask the planner for internal IDs available from those reads. It takes no draft ID: ''
        @ ''to change the draft, send every constraint that should remain plus the change. It does not run the ''
        @ ''solver or promote a schedule; it returns a draft_id to cite in the draft output.''\<rparr>"

definition scheduling_draft_discard_manifest :: "capability_settings \<Rightarrow> capability_manifest_v1" where
  "scheduling_draft_discard_manifest st =
     \<lparr>mf_capability_name = ''scheduling_draft_discard'', mf_capability_version = ''1'',
      mf_input_schema_ref = ''application.capabilities.scheduling_draft_discard.SchedulingDraftDiscardRequestV1'',
      mf_output_schema_ref = ''application.capabilities.scheduling_draft_discard.SchedulingDraftDiscardResultV1'',
      mf_risk_class = RiskDraft, mf_permission = ''scenario:draft'',
      mf_scope = ''current_site/current_conversation'',
      mf_version_semantics = ''discards the working draft as observed at the start of the turn'',
      mf_idempotency_semantics = ''at most one discard per turn; applied once at finalize'',
      mf_budget_limit = 1, mf_timeout_seconds = kc_draft_timeout_seconds st, mf_approval_policy = ApprovalNone,
      mf_audit_mapping = ''agent run + trusted discard result + proposal ended_by assistant'',
      mf_evidence_mapping = ''the observed working draft's proposal id and resource version'',
      mf_errors = [''no_working_draft'', ''draft_changed_this_turn'', ''budget_exhausted'',
         ''draft_discard_failed''],
      mf_evaluation_fixtures = [''evals/golden/scheduling_draft_discard/valid.json'',
         ''evals/golden/scheduling_draft_discard/no-working-draft.json'',
         ''evals/golden/scheduling_draft_discard/after-draft-same-turn.json'',
         ''evals/golden/scheduling_draft_discard/start-over-is-not-discard.json''],
      mf_citable_result_id = False\<rparr>"

definition scheduling_draft_discard_module :: "capability_settings \<Rightarrow> capability_module_v1" where
  "scheduling_draft_discard_module st =
     \<lparr>cb_manifest = scheduling_draft_discard_manifest st, cb_handler_parameters = [''deps'', ''request'', ''manifest''],
      cb_retryable_error_codes = [''draft_changed_this_turn'', ''no_working_draft''], cb_required_role = ''planner'',
      cb_required_feature_policy = ''scheduling_draft_discard_enabled'', cb_request_argument = ''request'',
      cb_model_description =
        ''scheduling_draft_discard discards the conversation's working draft. Call it only when the planner ''
        @ ''explicitly asks to discard, delete, or throw away the draft. 'Start over with just X' or any other ''
        @ ''request to change what the draft contains is scheduling_draft with only X, never discard. It takes ''
        @ ''no arguments and never touches a run or the baseline. If it reports no_working_draft there is ''
        @ ''nothing to discard; say so plainly.''\<rparr>"

definition scheduling_inspect_manifest :: "capability_settings \<Rightarrow> capability_manifest_v1" where
  "scheduling_inspect_manifest st =
     \<lparr>mf_capability_name = ''scheduling_inspect'', mf_capability_version = ''2'',
      mf_input_schema_ref = ''application.capabilities.scheduling_inspect.SchedulingInspectRequestV1'',
      mf_output_schema_ref = ''application.capabilities.scheduling_inspect.SchedulingInspectResultV1'',
      mf_risk_class = RiskInspect, mf_permission = ''scenario:inspect'',
      mf_scope = ''current_site/current_scenario_version'',
      mf_version_semantics = ''result is pinned to the selected scenario version'',
      mf_idempotency_semantics = ''read-only and repeatable for an immutable version'',
      mf_budget_limit = kc_inspect_row_limit st, mf_timeout_seconds = kc_inspect_timeout_seconds st, mf_approval_policy = ApprovalNone,
      mf_audit_mapping = ''agent run + tool call identifiers; no fact content'',
      mf_evidence_mapping = ''group/record fields and scenario version'',
      mf_errors = [''inspection_failed'', ''scenario_not_found'', ''version_mismatch'', ''site_mismatch'',
         ''invalid_query'', ''budget_exhausted'', ''inspection_timeout''],
      mf_evaluation_fixtures = [''evals/golden/scheduling_inspect/wednesday-demand.json'',
         ''evals/golden/scheduling_inspect/wednesday-assignments.json'',
         ''evals/golden/scheduling_inspect/wednesday-workers.json'',
         ''evals/golden/scheduling_inspect/wednesday-constraints.json'',
         ''evals/golden/scheduling_inspect/wednesday-locks.json'',
         ''evals/golden/scheduling_inspect/fact-supported.json'',
         ''evals/golden/scheduling_inspect/fact-value-mismatch.json'',
         ''evals/golden/scheduling_inspect/fact-unknown-handle.json''],
      mf_citable_result_id = False\<rparr>"

definition scheduling_inspect_module :: "capability_settings \<Rightarrow> capability_module_v1" where
  "scheduling_inspect_module st =
     \<lparr>cb_manifest = scheduling_inspect_manifest st, cb_handler_parameters = [''deps'', ''request'', ''manifest''],
      cb_retryable_error_codes = [''invalid_query''], cb_required_role = ''planner'',
      cb_required_feature_policy = ''scheduling_inspect_enabled'', cb_request_argument = ''request'',
      cb_model_description =
        ''scheduling_inspect reads the current scenario version's stored facts, one group per call: overview, ''
        @ ''tasks, workers, demand, assignments, locks, or constraints. Filters are [key, value] pairs matched ''
        @ ''by equality (name_contains is a case-insensitive substring). Filter keys per group: tasks -- ''
        @ ''task_id, name_contains, function, area_id; workers -- contact_id, name_contains, employment_type, ''
        @ ''grade, qualified_task_id; demand -- family, task_id, area_id, start_minute_gte, end_minute_lte; ''
        @ ''assignments -- worker_id, task_id, shift_id; locks -- target_type, target_ref, scope, source; ''
        @ ''constraints -- constraint_type, value_type. overview accepts no filters or sort. Only tasks carry a ''
        @ ''task name, only workers carry a worker name (worker_id elsewhere equals a worker's contact_id), and ''
        @ ''only demand carries a family. Results are paged: follow next_cursor when truncated is true. ''
        @ ''assignments are the site's promoted baseline assignments for this exact scenario version -- empty ''
        @ ''until a baseline matching this version has been promoted, never a run's candidate. It is read-only ''
        @ ''and does not compute a metric, create a draft, optimize, promote, or grant permissions.''\<rparr>"

definition scheduling_optimize_manifest :: "capability_settings \<Rightarrow> capability_manifest_v1" where
  "scheduling_optimize_manifest st =
     \<lparr>mf_capability_name = ''scheduling_optimize'', mf_capability_version = ''1'',
      mf_input_schema_ref = ''application.capabilities.scheduling_optimize.SchedulingOptimizeRequestV1'',
      mf_output_schema_ref = ''application.capabilities.scheduling_optimize.SchedulingOptimizeResultV1'',
      mf_risk_class = RiskCompute, mf_permission = ''schedule_run:create'',
      mf_scope = ''current_actor/current_site/exact_proposal_version'',
      mf_version_semantics = ''the command pins one proposal resource version before snapshotting'',
      mf_idempotency_semantics = ''replay is scoped by actor, site, enqueue-compute operation, key, and canonical body'',
      mf_budget_limit = kc_site_max_concurrent_runs st, mf_timeout_seconds = kc_solver_wall_time_limit_seconds st, mf_approval_policy = ApprovalNone,
      mf_audit_mapping = ''future audit envelope: actor, site, proposal/version, capability version, and run id'',
      mf_evidence_mapping = ''immutable proposal version and run snapshot version bindings'',
      mf_errors = [''optimize_failed'', ''invalid_query'', ''budget_exhausted''],
      mf_evaluation_fixtures = [''evals/golden/scheduling_optimize/valid.json'',
         ''evals/golden/scheduling_optimize/replay.json'',
         ''evals/golden/scheduling_optimize/version-bound.json'',
         ''evals/golden/scheduling_optimize/key-boundary.json''],
      mf_citable_result_id = False\<rparr>"

definition scheduling_optimize_module :: "capability_settings \<Rightarrow> capability_module_v1" where
  "scheduling_optimize_module st =
     \<lparr>cb_manifest = scheduling_optimize_manifest st, cb_handler_parameters = [''deps'', ''request'', ''manifest''],
      cb_retryable_error_codes = [''invalid_query''], cb_required_role = ''planner'',
      cb_required_feature_policy = ''scheduling_optimize_enabled'', cb_request_argument = ''request'',
      cb_model_description =
        ''scheduling_optimize submits an explicit optimization run for an existing proposal. Call it only ''
        @ ''when the user gives the proposal_id, its expected_resource_version, and a durable idempotency_key. ''
        @ ''Do not invent these values or use this tool to create, inspect, or promote a proposal.''\<rparr>"

definition scheduling_baseline_manifest :: "capability_settings \<Rightarrow> capability_manifest_v1" where
  "scheduling_baseline_manifest st =
     \<lparr>mf_capability_name = ''scheduling_baseline'', mf_capability_version = ''1'',
      mf_input_schema_ref = ''application.capabilities.scheduling_baseline.SchedulingBaselineRequestV1'',
      mf_output_schema_ref = ''application.contracts.approval_binding.ApprovalBindingV1'',
      mf_risk_class = RiskConsequential, mf_permission = ''site_baseline:promote'',
      mf_scope = ''current_actor/current_site/exact_schedule_run'',
      mf_version_semantics = ''pins candidate and baseline at TX1'',
      mf_idempotency_semantics = ''tool effects are keyed by (agent_run_id, tool_call_id)'',
      mf_budget_limit = 1, mf_timeout_seconds = 5, mf_approval_policy = ApprovalExactAction,
      mf_audit_mapping = ''approval requested audit envelope'',
      mf_evidence_mapping = ''exact candidate and baseline binding'',
      mf_errors = [''baseline_request_failed'', ''approval_required'', ''invalid_query'',
         ''draft_changed_this_turn''],
      mf_evaluation_fixtures = [''evals/golden/scheduling_baseline/approval-required.json''],
      mf_citable_result_id = False\<rparr>"

definition scheduling_baseline_module :: "capability_settings \<Rightarrow> capability_module_v1" where
  "scheduling_baseline_module st =
     \<lparr>cb_manifest = scheduling_baseline_manifest st, cb_handler_parameters = [''deps'', ''request'', ''manifest''],
      cb_retryable_error_codes = [''draft_changed_this_turn'', ''invalid_query''], cb_required_role = ''planner'',
      cb_required_feature_policy = ''scheduling_baseline_enabled'', cb_request_argument = ''request'',
      cb_model_description =
        ''scheduling_baseline requests promotion of one candidate schedule run to the site's baseline. Call ''
        @ ''it only when the user explicitly asks to promote or approve a candidate, and only for a run whose ''
        @ ''workflow-snapshot status is solver_completed with a candidate. Copy that run's schedule_run_id and ''
        @ ''the snapshot's baseline_schedule_version as expected_baseline_schedule_version (null when there is ''
        @ ''none); clarify if the candidate is ambiguous. It only creates an approval request: the planner ''
        @ ''approves or rejects it through the approval control, and nothing is promoted until they do.''\<rparr>"

definition demonstration_manifest :: "capability_settings \<Rightarrow> capability_manifest_v1" where
  "demonstration_manifest st =
     \<lparr>mf_capability_name = ''shiftmind_demonstration'', mf_capability_version = ''2'',
      mf_input_schema_ref = ''application.capabilities.demonstration.DemonstrationRequestV1'',
      mf_output_schema_ref = ''application.capabilities.demonstration.DemonstrationResultV1'',
      mf_risk_class = RiskConsequential, mf_permission = ''demonstration:execute'',
      mf_scope = ''current_site/current_conversation'',
      mf_version_semantics = ''request and result use schema version 1'',
      mf_idempotency_semantics = ''pure over arguments; tool effects are keyed by (agent_run_id, tool_call_id) per AD-8'',
      mf_budget_limit = 1, mf_timeout_seconds = 1, mf_approval_policy = ApprovalExactAction,
      mf_audit_mapping = ''agent run and tool call identifiers; no prompt content'',
      mf_evidence_mapping = ''declared result text and capability version'',
      mf_errors = [''demonstration_failed'', ''approval_required'', ''budget_exhausted'', ''invalid_repeat''],
      mf_evaluation_fixtures = [''evals/golden/demonstration/repeat-once.json'',
         ''evals/golden/demonstration/repeat-with-approval.json''],
      mf_citable_result_id = False\<rparr>"

definition demonstration_module :: "capability_settings \<Rightarrow> capability_module_v1" where
  "demonstration_module st =
     \<lparr>cb_manifest = demonstration_manifest st, cb_handler_parameters = [''deps'', ''payload'', ''manifest''],
      cb_retryable_error_codes = [''invalid_repeat''], cb_required_role = ''planner'',
      cb_required_feature_policy = ''demonstration_enabled'', cb_request_argument = ''payload'',
      cb_model_description =
        ''shiftmind_demonstration repeats an explicit label for the requested repeat count. Use it only for ''
        @ ''the demonstration flow; repeat must be at least one, and repeating more than once requires exact ''
        @ ''human approval.''\<rparr>"

definition installed_factories :: "capability_settings \<Rightarrow> capability_module_v1 list" where
  "installed_factories st =
     [scheduling_compute_module st, scheduling_draft_module st, scheduling_draft_discard_module st, scheduling_inspect_module st,
      scheduling_optimize_module st, scheduling_baseline_module st, demonstration_module st]"

fun validate_all :: "capability_module_v1 list \<Rightarrow> declaration_error + unit" where
  "validate_all [] = Inr ()"
| "validate_all (m # ms) = and_also (validate_module m) (\<lambda>_. validate_all ms)"

definition installed_modules :: "capability_settings \<Rightarrow> declaration_error + capability_module_v1 list" where
  "installed_modules st = (let modules = installed_factories st in
     and_also (refuse_if (\<not> distinct (map name_of_module modules))) (\<lambda>_.
     and_also (validate_all modules) (\<lambda>_. Inr modules)))"

fun enabled_policies :: "(string \<times> bool) list \<Rightarrow> capability_module_v1 list \<Rightarrow> declaration_error + string list" where
  "enabled_policies switches [] = Inr []"
| "enabled_policies switches (m # ms) =
     (case map_of switches (cb_required_feature_policy m) of
        None \<Rightarrow> Inl IncompleteManifestError
      | Some on \<Rightarrow> and_also (enabled_policies switches ms)
                     (\<lambda>ps. Inr (if on then cb_required_feature_policy m # ps else ps)))"

definition enabled_feature_policy :: "capability_settings \<Rightarrow> declaration_error + string list" where
  "enabled_feature_policy st = and_also (installed_modules st) (enabled_policies (kc_enabled st))"

section \<open>Grants\<close>

definition planner_role :: string where
  "planner_role = ''planner''"

record capability_grant_context_v1 =
  gx_role :: string
  gx_site_id :: uuid
  gx_feature_policy :: "string list"
  gx_conversation_id :: "uuid option"
  gx_conversation_site_id :: uuid
  gx_revoked_conversation_ids :: "uuid list"
  gx_explicit_run_request :: bool

definition grants :: "capability_grant_context_v1 \<Rightarrow> capability_module_v1 \<Rightarrow> bool" where
  "grants context m \<longleftrightarrow>
     \<not> (mf_risk_class (cb_manifest m) = RiskCompute \<and> \<not> gx_explicit_run_request context)
     \<and> gx_role context = cb_required_role m \<and> cb_required_feature_policy m \<in> set (gx_feature_policy context)"

fun granted_of :: "capability_grant_context_v1 \<Rightarrow> capability_module_v1 list \<Rightarrow> declaration_error + capability_module_v1 list" where
  "granted_of context [] = Inr []"
| "granted_of context (m # ms) =
     and_also (validate_module m) (\<lambda>_. and_also (granted_of context ms) (\<lambda>rest.
     Inr (if grants context m then m # rest else rest)))"

definition compose_granted_capabilities ::
  "capability_settings \<Rightarrow> capability_grant_context_v1 \<Rightarrow> capability_module_v1 list option
   \<Rightarrow> declaration_error + capability_module_v1 list" where
  "compose_granted_capabilities st context modules =
     and_also (case modules of None \<Rightarrow> installed_modules st | Some ms \<Rightarrow> Inr ms) (\<lambda>resolved.
     if gx_site_id context \<noteq> gx_conversation_site_id context
        \<or> list_ex (\<lambda>c. gx_conversation_id context = Some c) (gx_revoked_conversation_ids context) then Inr []
     else granted_of context resolved)"

definition resolve_granted_capability :: "capability_module_v1 list \<Rightarrow> string \<Rightarrow> capability_module_v1 option" where
  "resolve_granted_capability granted proposed_name = find (\<lambda>m. name_of_module m = proposed_name) granted"

section \<open>The installed modules are valid\<close>

lemma not_blank [simp]: "\<not> is_space c \<Longrightarrow> \<not> is_blank (c # s)"
  by (auto simp: is_blank_def strip_chars_def dropWhile_eq_Nil_conv)

definition positive_limits :: "capability_settings \<Rightarrow> bool" where
  "positive_limits st \<longleftrightarrow> 1 \<le> kc_inspect_row_limit st \<and> 0 < kc_inspect_timeout_seconds st \<and> 1 \<le> kc_compute_row_limit st
     \<and> 0 < kc_compute_timeout_seconds st \<and> 0 < kc_draft_timeout_seconds st \<and> 1 \<le> kc_draft_max_constraints st
     \<and> 1 \<le> kc_site_max_concurrent_runs st \<and> 0 < kc_solver_wall_time_limit_seconds st"

lemmas manifest_defs =
  scheduling_compute_manifest_def scheduling_draft_manifest_def scheduling_draft_discard_manifest_def scheduling_inspect_manifest_def
  scheduling_optimize_manifest_def scheduling_baseline_manifest_def demonstration_manifest_def

lemmas module_defs =
  scheduling_compute_module_def scheduling_draft_module_def scheduling_draft_discard_module_def scheduling_inspect_module_def
  scheduling_optimize_module_def scheduling_baseline_module_def demonstration_module_def

lemma refuse_if_Inr: "and_also (refuse_if c) k = (if c then Inl IncompleteManifestError else k ())"
  by (simp add: refuse_if_def and_also_def)

text \<open>What a declaration needs besides positive limits.\<close>

definition well_declared :: "capability_module_v1 \<Rightarrow> bool" where
  "well_declared m \<longleftrightarrow>
     list_all (\<lambda>t. \<not> is_blank t) (manifest_texts (cb_manifest m)) \<and> is_identifier (name_of_module m)
     \<and> is_object_path (mf_input_schema_ref (cb_manifest m)) \<and> is_object_path (mf_output_schema_ref (cb_manifest m))
     \<and> mf_risk_class (cb_manifest m) \<noteq> RiskProhibited \<and> mf_errors (cb_manifest m) \<noteq> [] \<and> mf_evaluation_fixtures (cb_manifest m) \<noteq> []
     \<and> list_all (\<lambda>code. code \<in> set (mf_errors (cb_manifest m))) (cb_retryable_error_codes m)
     \<and> 3 \<le> length (cb_handler_parameters m) \<and> cb_request_argument m = cb_handler_parameters m ! 1
     \<and> is_identifier (cb_request_argument m) \<and> \<not> is_blank (cb_model_description m)"

lemma validate_module_Inr:
  "validate_module m = Inr () \<longleftrightarrow> well_declared m \<and> 1 \<le> mf_budget_limit (cb_manifest m) \<and> 0 < mf_timeout_seconds (cb_manifest m)"
  by (auto simp: validate_module_def validate_manifest_def refuse_if_def and_also_def well_declared_def not_le not_less list_ex_iff list_all_iff
      split: if_splits)

lemma installed_texts:
  "list_all (\<lambda>m. list_all (\<lambda>t. \<not> is_blank t) (manifest_texts (cb_manifest m)) \<and> \<not> is_blank (cb_model_description m))
     (installed_factories st)"
  unfolding installed_factories_def module_defs manifest_defs manifest_texts_def list.pred_inject capability_module_v1.simps
    capability_manifest_v1.simps append.simps by (simp add: is_space_def)

lemma installed_paths:
  "list_all (\<lambda>m. is_object_path (mf_input_schema_ref (cb_manifest m)) \<and> is_object_path (mf_output_schema_ref (cb_manifest m)))
     (installed_factories st)"
  by code_simp

lemma installed_rest:
  "list_all (\<lambda>m. is_identifier (name_of_module m)
     \<and> mf_risk_class (cb_manifest m) \<noteq> RiskProhibited \<and> mf_errors (cb_manifest m) \<noteq> [] \<and> mf_evaluation_fixtures (cb_manifest m) \<noteq> []
     \<and> list_all (\<lambda>code. code \<in> set (mf_errors (cb_manifest m))) (cb_retryable_error_codes m)
     \<and> 3 \<le> length (cb_handler_parameters m) \<and> cb_request_argument m = cb_handler_parameters m ! 1
     \<and> is_identifier (cb_request_argument m)) (installed_factories st)"
  by code_simp

lemma all_well_declared: "list_all well_declared (installed_factories st)"
  using installed_texts [of st] installed_paths [of st] installed_rest [of st] by (auto simp: list_all_iff well_declared_def)

lemma installed_names: "distinct (map name_of_module (installed_factories st))"
  unfolding installed_factories_def module_defs manifest_defs capability_module_v1.simps capability_manifest_v1.simps list.map
  by code_simp

lemma installed_limits:
  assumes "positive_limits st" and "m \<in> set (installed_factories st)"
  shows "1 \<le> mf_budget_limit (cb_manifest m) \<and> 0 < mf_timeout_seconds (cb_manifest m)"
proof -
  have "list_all (\<lambda>m. 1 \<le> mf_budget_limit (cb_manifest m) \<and> 0 < mf_timeout_seconds (cb_manifest m)) (installed_factories st)"
    unfolding installed_factories_def module_defs manifest_defs list.pred_inject capability_module_v1.simps capability_manifest_v1.simps
    using assms(1) by (simp add: positive_limits_def)
  then show ?thesis using assms(2) by (simp add: list_all_iff)
qed

lemma installed_roles: "m \<in> set (installed_factories st) \<Longrightarrow> cb_required_role m = planner_role"
proof -
  have "list_all (\<lambda>m. cb_required_role m = planner_role) (installed_factories st)"
    unfolding installed_factories_def module_defs list.pred_inject capability_module_v1.simps by (simp add: planner_role_def)
  then show "m \<in> set (installed_factories st) \<Longrightarrow> cb_required_role m = planner_role" by (simp add: list_all_iff)
qed

lemma installed_valid: "positive_limits st \<Longrightarrow> m \<in> set (installed_factories st) \<Longrightarrow> validate_module m = Inr ()"
  using all_well_declared [of st] installed_limits by (simp add: validate_module_Inr list_all_iff)

lemma validate_all_Inr: "(\<And>m. m \<in> set ms \<Longrightarrow> validate_module m = Inr ()) \<Longrightarrow> validate_all ms = Inr ()"
  by (induction ms) (simp_all add: and_also_def)

lemma installed_modules_Inr: "positive_limits st \<Longrightarrow> installed_modules st = Inr (installed_factories st)"
  using validate_all_Inr [of "installed_factories st"] installed_valid installed_names
  by (simp add: installed_modules_def Let_def refuse_if_def and_also_def)

lemma granted_of_filter:
  "(\<And>m. m \<in> set ms \<Longrightarrow> validate_module m = Inr ()) \<Longrightarrow> granted_of context ms = Inr (filter (grants context) ms)"
  by (induction ms) (simp_all add: and_also_def)

lemma enabled_policies_InrD:
  "enabled_policies switches ms = Inr ps \<Longrightarrow> set ps = {p \<in> cb_required_feature_policy ` set ms. map_of switches p = Some True}"
  by (induction ms arbitrary: ps) (auto dest!: and_also_InrD split: option.splits if_splits)

text \<open>A conversation turn is granted the installed modules whose switch is on, and never a compute one.\<close>

lemma turn_grants:
  assumes limits: "positive_limits st" and policy: "enabled_feature_policy st = Inr (gx_feature_policy context)"
    and here: "gx_role context = planner_role" "gx_site_id context = gx_conversation_site_id context"
      "gx_revoked_conversation_ids context = []" "\<not> gx_explicit_run_request context"
  shows "compose_granted_capabilities st context None = Inr (filter (\<lambda>m. mf_risk_class (cb_manifest m) \<noteq> RiskCompute
     \<and> map_of (kc_enabled st) (cb_required_feature_policy m) = Some True) (installed_factories st))"
proof -
  have switched: "set (gx_feature_policy context) = {p \<in> cb_required_feature_policy ` set (installed_factories st). map_of (kc_enabled st) p = Some True}"
    using policy limits by (intro enabled_policies_InrD) (simp add: enabled_feature_policy_def installed_modules_Inr and_also_def)
  have "filter (grants context) (installed_factories st) = filter (\<lambda>m. mf_risk_class (cb_manifest m) \<noteq> RiskCompute
      \<and> map_of (kc_enabled st) (cb_required_feature_policy m) = Some True) (installed_factories st)"
    using here installed_roles by (intro filter_cong) (auto simp: grants_def switched)
  then show ?thesis
    using here granted_of_filter [of "installed_factories st"] installed_valid [OF limits]
    by (simp add: compose_granted_capabilities_def installed_modules_Inr [OF limits] and_also_def)
qed

end
