(* ===== verification/Turn_Tools.thy ===== *)
theory Turn_Tools
  imports Capabilities Grounding
begin

text \<open>
  The tools of an agent turn (\<^verbatim>\<open>application/capabilities/scheduling_*.py\<close>, \<^verbatim>\<open>demonstration.py\<close>), the state they share
  (\<^verbatim>\<open>application/drafting/turn_state.py\<close>, the evidence registry and the sink of trusted results) and the one path they are
  called through (\<^verbatim>\<open>agent/capability_tools.py\<close>). The state of the turn extends the governed database, which other
  sessions may change between two calls. A call is atomic; the readings of its clock are a parameter, and so are the
  views the model gets of a result, which nothing reads back.
\<close>

section \<open>Results and state\<close>

record working_draft_observation_v1 =
  wo_proposal_id :: uuid
  wo_resource_version :: int
  wo_version_ordinal :: int

record scheduling_compute_result_v1 = trusted_result_v1 +
  sp_citation_handle :: string

record scheduling_draft_result_v1 =
  sd_result_id :: string
  sd_proposal :: proposal_v1
  sd_outcome :: draft_outcome
  sd_version_ordinal :: int
  sd_observed_working_id :: "uuid option"
  sd_observed_resource_version :: "int option"

record scheduling_draft_discard_result_v1 =
  sc_result_id :: string
  sc_proposal_id :: uuid
  sc_observed_resource_version :: int
  sc_version_ordinal :: int

record scheduling_inspect_result_v1 = inspect_result_v1 +
  si_scenario_id :: uuid
  si_site_id :: uuid
  si_returned_count :: nat
  si_total_count :: nat
  si_matching_count :: nat
  si_next_cursor :: "int option"
  si_truncated :: bool

record scheduling_optimize_result_v1 =
  sz_proposal_id :: uuid
  sz_expected_resource_version :: int
  sz_idempotency_key :: string
  sz_actor_id :: uuid
  sz_site_id :: uuid
  sz_capability_version :: string

datatype tool_result =
    ComputeResult scheduling_compute_result_v1
  | DraftResult scheduling_draft_result_v1
  | DiscardResult scheduling_draft_discard_result_v1
  | InspectResult scheduling_inspect_result_v1
  | OptimizeResult scheduling_optimize_result_v1
  | DemonstrationResult string

text \<open>What a tool call ends with besides a result: a failure with a code of its capability, the signal that an approval is
  required, or any other exception.\<close>

datatype tool_error =
    CapabilityFailure string
  | CapabilityApprovalRequired
  | EscapedError app_error
  | EscapedQueryError query_error
  | NoSuchTool
  | StillPaging

record turn_store = governed_store +
  tn_registry :: evidence_registry
  tn_observed :: bool
  tn_observation :: "working_draft_observation_v1 option"
  tn_drafted :: bool
  tn_discarded :: "working_draft_observation_v1 option"
  tn_results :: "tool_result list"

record turn_context =
  tx_actor_id :: uuid
  tx_site_id :: uuid
  tx_conversation_id :: uuid
  tx_scenario_id :: uuid
  tx_scenario_version_id :: uuid
  tx_tool_calls_limit :: "int option"
  tx_tool_call_approved :: bool
  tx_hashing :: hashing
  tx_texts :: number_texts
  tx_casefold :: "string \<Rightarrow> string"
  tx_instant_text :: "instant \<Rightarrow> string"

definition with_error :: "('e \<Rightarrow> 'f) \<Rightarrow> ('s, 'e, 'a) action \<Rightarrow> ('s, 'f, 'a) action" where
  "with_error g m s = (case m s of (Inl e, s') \<Rightarrow> (Inl (g e), s') | (Inr x, s') \<Rightarrow> (Inr x, s'))"

definition returned_by :: "('e \<Rightarrow> 'f) \<Rightarrow> 'e + 'a \<Rightarrow> ('s, 'f, 'a) action" where
  "returned_by g v = (case v of Inl e \<Rightarrow> raise (g e) | Inr x \<Rightarrow> ret x)"

definition exhausted :: "turn_context \<Rightarrow> bool" where
  "exhausted tx = (case tx_tool_calls_limit tx of None \<Rightarrow> False | Some n \<Rightarrow> n \<le> 0)"

text \<open>The session of a read is scoped to the site of the turn.\<close>

definition deps_of :: "turn_context \<Rightarrow> 'x governed_store_scheme \<Rightarrow> 'x governed_store_scheme agent_deps" where
  "deps_of tx s = \<lparr>dp_app_site = tx_site_id tx, dp_store = s, dp_scenario_id = tx_scenario_id tx,
     dp_scenario_version_id = tx_scenario_version_id tx\<rparr>"

definition overran :: "(nat \<Rightarrow> instant) \<Rightarrow> float_value \<Rightarrow> nat \<Rightarrow> bool" where
  "overran clock timeout k \<longleftrightarrow> of_int (clock k - clock 0) > timeout"

section \<open>The working draft of the turn\<close>

definition observe_working_draft :: "turn_context \<Rightarrow> ('x governed_store_scheme, app_error, working_draft_observation_v1 option) action" where
  "observe_working_draft tx =
     and_then (get_working_proposal (tx_site_id tx) (tx_conversation_id tx)) (\<lambda>working.
     case working of
       None \<Rightarrow> ret None
     | Some w \<Rightarrow>
         (case pp_proposal_id (pc_proposal w) of
            None \<Rightarrow> raise (AssertionError ''proposal_id'')
          | Some pid \<Rightarrow> ret (Some \<lparr>wo_proposal_id = pid, wo_resource_version = pp_resource_version (pc_proposal w),
                                  wo_version_ordinal = pc_version_ordinal w\<rparr>)))"

definition observe_with ::
  "('y turn_store_scheme, 'e, working_draft_observation_v1 option) action
   \<Rightarrow> ('y turn_store_scheme, 'e, working_draft_observation_v1 option) action" where
  "observe_with read_working =
     and_then (reading tn_observed) (\<lambda>observed.
     and_then (only_if (\<not> observed) (and_then read_working (\<lambda>v.
        writing (\<lambda>s. s\<lparr>tn_observation := v, tn_observed := True\<rparr>)))) (\<lambda>_.
     reading tn_observation))"

definition observe :: "turn_context \<Rightarrow> ('y turn_store_scheme, tool_error, working_draft_observation_v1 option) action" where
  "observe tx = observe_with (with_error EscapedError (observe_working_draft tx))"

section \<open>Drafting\<close>

text \<open>The deadline is checked before each resolution.\<close>

fun resolve_in_time ::
  "number_texts \<Rightarrow> 'x governed_store_scheme agent_deps \<Rightarrow> (nat \<Rightarrow> bool) \<Rightarrow> nat \<Rightarrow> draft_constraint_proposal_v1 list \<Rightarrow> int
   \<Rightarrow> tool_error + draft_constraint_v1 list \<times> nat" where
  "resolve_in_time nt deps late k [] horizon = Inr ([], k)"
| "resolve_in_time nt deps late k (p # ps) horizon =
     (if late k then Inl (CapabilityFailure ''invalid_query'')
      else (case resolve_constraint nt deps p horizon of
              Inl _ \<Rightarrow> Inl (CapabilityFailure ''invalid_query'')
            | Inr c \<Rightarrow> and_also (resolve_in_time nt deps late (Suc k) ps horizon) (\<lambda>(cs, n). Inr (c # cs, n))))"

definition max_preserved_locks :: int where
  "max_preserved_locks = 200"

text \<open>The loop over the pages of locks has no bound of its own; the first argument counts iterations.\<close>

fun preserved_locks ::
  "(group_query_v1 \<Rightarrow> query_error + lock_v1 page_v1 option) \<Rightarrow> uuid \<Rightarrow> uuid \<Rightarrow> (nat \<Rightarrow> bool) \<Rightarrow> nat \<Rightarrow> nat \<Rightarrow> int \<Rightarrow> lock_v1 list
   \<Rightarrow> tool_error + lock_v1 list \<times> nat" where
  "preserved_locks getter site version late 0 k cursor locks = Inl StillPaging"
| "preserved_locks getter site version late (Suc n) k cursor locks =
     (let remaining = max_preserved_locks - int (length locks); limit = min 50 remaining in
      if late k then Inl (CapabilityFailure ''invalid_query'')
      else if remaining \<le> 0 then Inl (CapabilityFailure ''draft_failed'')
      else (case getter \<lparr>gq_cursor = cursor, gq_limit = limit, gq_sort = None, gq_order = ''asc'', gq_filters = []\<rparr> of
              Inl e \<Rightarrow> Inl (EscapedQueryError e)
            | Inr None \<Rightarrow> Inl (CapabilityFailure ''scenario_not_found'')
            | Inr (Some page) \<Rightarrow>
                if pg_site_id page \<noteq> site then Inl (CapabilityFailure ''site_mismatch'')
                else if pg_scenario_version_id page \<noteq> version then Inl (CapabilityFailure ''version_mismatch'')
                else if int (length (pg_items page)) > limit then Inl (CapabilityFailure ''draft_failed'')
                else (case pg_next_cursor page of
                        None \<Rightarrow> Inr (locks @ pg_items page, Suc k)
                      | Some next \<Rightarrow>
                          if next \<le> cursor then Inl (CapabilityFailure ''draft_failed'')
                          else preserved_locks getter site version late n (Suc k) next (locks @ pg_items page))))"

text \<open>One iteration reads all of the group, which is empty.\<close>

definition turn_locks ::
  "turn_context \<Rightarrow> (nat \<Rightarrow> bool) \<Rightarrow> nat \<Rightarrow> 'x governed_store_scheme \<Rightarrow> tool_error + lock_v1 list \<times> nat" where
  "turn_locks tx late k s = preserved_locks (get_locks (tx_site_id tx) s (tx_scenario_id tx)) (tx_site_id tx)
     (tx_scenario_version_id tx) late 1 k 0 []"

definition new_draft ::
  "turn_context \<Rightarrow> scenario_overview_v1 \<Rightarrow> draft_constraint_v1 list \<Rightarrow> lock_v1 list \<Rightarrow> string \<Rightarrow> working_draft_observation_v1 option
   \<Rightarrow> uuid \<Rightarrow> uuid \<Rightarrow> proposal_v1" where
  "new_draft tx overview constraints locks result_id observed pid vid =
     \<lparr>pp_proposal_id = Some pid, pp_proposal_version_id = Some vid, pp_scenario_id = Some (tx_scenario_id tx),
      pp_scenario_version_id = Some (tx_scenario_version_id tx),
      pp_expected_baseline_schedule_version = ov_baseline_schedule_version overview,
      pp_resolved_entities = unique_entities constraints, pp_constraints = constraints, pp_preserved_locks = locks,
      pp_consequence_summary = consequence_summary constraints locks, pp_canonical_hash = result_id, pp_state = ProposalActive,
      pp_resource_version = (case observed of None \<Rightarrow> 1 | Some o' \<Rightarrow> wo_resource_version o' + 1)\<rparr>"

definition draft_result :: "string \<Rightarrow> proposal_v1 \<Rightarrow> working_draft_observation_v1 option \<Rightarrow> scheduling_draft_result_v1" where
  "draft_result result_id proposal observed =
     \<lparr>sd_result_id = result_id, sd_proposal = proposal, sd_outcome = (if observed = None then DraftCreated else DraftUpdated),
      sd_version_ordinal = (case observed of None \<Rightarrow> 1 | Some o' \<Rightarrow> wo_version_ordinal o' + 1),
      sd_observed_working_id = map_option wo_proposal_id observed,
      sd_observed_resource_version = map_option wo_resource_version observed\<rparr>"

text \<open>The pinned overview a draft is validated against.\<close>

definition draft_overview :: "turn_context \<Rightarrow> 'x governed_store_scheme \<Rightarrow> tool_error + scenario_overview_v1" where
  "draft_overview tx s = (case get_overview (tx_site_id tx) (tx_scenario_id tx) s of
      None \<Rightarrow> Inl (CapabilityFailure ''scenario_not_found'')
    | Some overview \<Rightarrow>
        if ov_site_id overview \<noteq> tx_site_id tx then Inl (CapabilityFailure ''site_mismatch'')
        else if ov_scenario_version_id overview \<noteq> tx_scenario_version_id tx then Inl (CapabilityFailure ''version_mismatch'')
        else Inr overview)"

definition draft_content_read ::
  "turn_context \<Rightarrow> (nat \<Rightarrow> bool) \<Rightarrow> draft_constraint_proposal_v1 list \<Rightarrow> 'x governed_store_scheme
   \<Rightarrow> tool_error + scenario_overview_v1 \<times> draft_constraint_v1 list \<times> lock_v1 list" where
  "draft_content_read tx late proposals s =
     and_also (draft_overview tx s) (\<lambda>overview.
     and_also (resolve_in_time (tx_texts tx) (deps_of tx s) late 1 proposals (ov_horizon_minutes overview)) (\<lambda>(constraints, k).
     and_also (turn_locks tx late k s) (\<lambda>(locks, n).
     if late n then Inl (CapabilityFailure ''invalid_query'') else Inr (overview, constraints, locks))))"

definition scheduling_draft ::
  "turn_context \<Rightarrow> (nat \<Rightarrow> instant) \<Rightarrow> capability_manifest_v1 \<Rightarrow> uuid option \<Rightarrow> draft_constraint_proposal_v1 list
   \<Rightarrow> ('y turn_store_scheme, tool_error, scheduling_draft_result_v1) action" where
  "scheduling_draft tx clock manifest expected_version proposals =
     and_then (raise_if (exhausted tx) (CapabilityFailure ''budget_exhausted'')) (\<lambda>_.
     and_then (raise_if (proposals = [] \<or> int (length proposals) > mf_budget_limit manifest
                \<or> expected_version \<noteq> Some (tx_scenario_version_id tx)) (CapabilityFailure ''invalid_query'')) (\<lambda>_.
     and_then (reading (draft_content_read tx (overran clock (mf_timeout_seconds manifest)) proposals)) (\<lambda>content.
     and_then (returned_by id content) (\<lambda>(overview, constraints, locks).
     and_then (with_error EscapedError (derive_draft_id (tx_hashing tx) (tx_scenario_version_id tx) constraints locks)) (\<lambda>result_id.
     and_then (reading tn_discarded) (\<lambda>discarded.
     and_then (if discarded \<noteq> None then ret None else observe tx) (\<lambda>observed.
     and_then (case observed of None \<Rightarrow> uuid4 | Some o' \<Rightarrow> ret (wo_proposal_id o')) (\<lambda>pid.
     and_then uuid4 (\<lambda>vid.
     and_then (writing (\<lambda>s. s\<lparr>tn_drafted := True\<rparr>)) (\<lambda>_.
     ret (draft_result result_id (new_draft tx overview constraints locks result_id observed pid vid) observed)))))))))))"

definition scheduling_draft_discard ::
  "turn_context \<Rightarrow> ('y turn_store_scheme, tool_error, scheduling_draft_discard_result_v1) action" where
  "scheduling_draft_discard tx =
     and_then (raise_if (exhausted tx) (CapabilityFailure ''budget_exhausted'')) (\<lambda>_.
     and_then (reading tn_drafted) (\<lambda>drafted.
     and_then (raise_if drafted (CapabilityFailure ''draft_changed_this_turn'')) (\<lambda>_.
     and_then (reading tn_discarded) (\<lambda>discarded.
     and_then (raise_if (discarded \<noteq> None) (CapabilityFailure ''no_working_draft'')) (\<lambda>_.
     and_then (observe tx) (\<lambda>observed.
     case observed of
       None \<Rightarrow> raise (CapabilityFailure ''no_working_draft'')
     | Some o' \<Rightarrow>
         and_then (writing (\<lambda>s. s\<lparr>tn_discarded := Some o'\<rparr>)) (\<lambda>_.
         ret \<lparr>sc_result_id = ''discard-'' @ str_uuid (wo_proposal_id o') @ ''-'' @ str_int (wo_resource_version o'),
              sc_proposal_id = wo_proposal_id o', sc_observed_resource_version = wo_resource_version o',
              sc_version_ordinal = wo_version_ordinal o'\<rparr>)))))))"

section \<open>Inspecting\<close>

text \<open>\<open>asdict\<close> of the rows; a UUID or an instant is its text.\<close>

abbreviation json_text_option :: "string option \<Rightarrow> json" where
  "json_text_option \<equiv> optional JString"

definition window_kind_name :: "window_kind \<Rightarrow> string" where
  "window_kind_name k = (case k of Roster \<Rightarrow> ''roster'' | Availability \<Rightarrow> ''availability'')"

definition demand_unit_name :: "demand_unit \<Rightarrow> string" where
  "demand_unit_name u = (case u of Volume \<Rightarrow> ''volume'' | Headcount \<Rightarrow> ''headcount'')"

definition task_row :: "task_v1 \<Rightarrow> (string \<times> json) list" where
  "task_row x = [(''record_id'', JString (tk_record_id x)), (''task_id'', JString (tk_task_id x)), (''name'', JString (tk_name x)),
     (''function'', JString (tk_function x)), (''area_id'', JString (tk_area_id x)), (''area_name'', JString (tk_area_name x)),
     (''unit_type_id'', json_text_option (tk_unit_type_id x))]"

definition qualification_row :: "qualification_ref_v1 \<Rightarrow> json" where
  "qualification_row q = JObject [(''task_id'', JString (qr_task_id q)), (''rate'', JFloat (qr_rate q))]"

definition window_row :: "availability_window_v1 \<Rightarrow> json" where
  "window_row w = JObject [(''kind'', JString (window_kind_name (aw_kind w))), (''start_minute'', JInt (aw_start_minute w)),
     (''end_minute'', JInt (aw_end_minute w))]"

definition worker_row :: "worker_v1 \<Rightarrow> (string \<times> json) list" where
  "worker_row x = [(''record_id'', JString (wk_record_id x)), (''contact_id'', JString (wk_contact_id x)), (''name'', JString (wk_name x)),
     (''employment_type'', JString (wk_employment_type x)), (''grade'', JString (wk_grade x)), (''eba'', JString (wk_eba x)),
     (''contracted_hours'', JFloat (wk_contracted_hours x)), (''qualifications'', JList (map qualification_row (wk_qualifications x))),
     (''availability_windows'', JList (map window_row (wk_availability_windows x)))]"

definition demand_row :: "demand_interval_v1 \<Rightarrow> (string \<times> json) list" where
  "demand_row x = [(''record_id'', JString (di_record_id x)), (''family'', JString (family_name (di_family x))),
     (''task_id'', JString (di_task_id x)), (''area_id'', json_text_option (di_area_id x)), (''start_minute'', JInt (di_start_minute x)),
     (''end_minute'', JInt (di_end_minute x)), (''amount'', JFloat (di_amount x)), (''unit'', JString (demand_unit_name (di_unit x)))]"

definition assignment_row :: "assignment_v1 \<Rightarrow> (string \<times> json) list" where
  "assignment_row x = [(''record_id'', JString (as_record_id x)), (''worker_id'', JString (as_worker_id x)),
     (''task_id'', JString (as_task_id x)), (''shift_id'', json_text_option (as_shift_id x)), (''start_minute'', JInt (as_start_minute x)),
     (''end_minute'', JInt (as_end_minute x)), (''qualification_refs'', JList (map qualification_row (as_qualification_refs x))),
     (''source'', JString (as_source x)), (''lock_ref'', json_text_option (as_lock_ref x))]"

definition lock_row :: "lock_v1 \<Rightarrow> (string \<times> json) list" where
  "lock_row x = [(''record_id'', JString (lk_record_id x)), (''target_type'', JString (lk_target_type x)),
     (''target_ref'', JString (lk_target_ref x)), (''scope'', JString (lk_scope x)), (''source'', JString (lk_source x))]"

definition constraint_row :: "constraint_v1 \<Rightarrow> (string \<times> json) list" where
  "constraint_row x = [(''record_id'', JString (cn_record_id x)), (''constraint_type'', JString (cn_constraint_type x)),
     (''value'', JString (cn_value x)), (''value_type'', json_text_option (cn_value_type x))]"

definition overview_row :: "(instant \<Rightarrow> string) \<Rightarrow> scenario_overview_v1 \<Rightarrow> (string \<times> json) list" where
  "overview_row instant_text x =
     [(''scenario_id'', JString (str_uuid (ov_scenario_id x))), (''scenario_version_id'', JString (str_uuid (ov_scenario_version_id x))),
      (''site_id'', JString (str_uuid (ov_site_id x))), (''fixture_id'', JString (ov_fixture_id x)),
      (''scenario_name'', JString (ov_scenario_name x)), (''fixture_version'', JString (ov_fixture_version x)),
      (''checksum_algorithm'', JString (ov_checksum_algorithm x)), (''checksum_schema_version'', JString (ov_checksum_schema_version x)),
      (''checksum_digest'', JString (ov_checksum_digest x)), (''horizon_start'', JString (instant_text (ov_horizon_start x))),
      (''site_timezone'', JString (ov_site_timezone x)), (''horizon_minutes'', JInt (ov_horizon_minutes x)),
      (''baseline_schedule_version'', json_text_option (ov_baseline_schedule_version x)),
      (''projection_generated_at'', JString (instant_text (ov_projection_generated_at x))),
      (''work_area_count'', JInt (ov_work_area_count x)), (''task_count'', JInt (ov_task_count x)),
      (''worker_count'', JInt (ov_worker_count x)), (''demand_interval_count'', JInt (ov_demand_interval_count x)),
      (''baseline_assignment_count'', JInt (ov_baseline_assignment_count x)), (''lock_count'', JInt (ov_lock_count x)),
      (''constraint_count'', JInt (ov_constraint_count x))]"

record scheduling_inspect_request_v1 =
  sq_group :: string
  sq_cursor :: int
  sq_limit :: int
  sq_sort :: "string option"
  sq_order :: string
  sq_filters :: "(string \<times> query_value) list"

definition validated_query ::
  "scheduling_inspect_request_v1 \<Rightarrow> capability_manifest_v1 \<Rightarrow> tool_error + group_query_v1" where
  "validated_query request manifest =
     (let (sort_keys, filter_keys) = get_query_keys (sq_group request) in
      if (case sq_sort request of None \<Rightarrow> False | Some name \<Rightarrow> name \<notin> set sort_keys)
         \<or> (\<exists>(name, _) \<in> set (sq_filters request). name \<notin> set filter_keys)
         \<or> sq_order request \<notin> {''asc'', ''desc''} \<or> sq_cursor request < 0 \<or> sq_limit request < 1
      then Inl (CapabilityFailure ''invalid_query'')
      else Inr \<lparr>gq_cursor = sq_cursor request, gq_limit = min (sq_limit request) (max (mf_budget_limit manifest) 1),
               gq_sort = sq_sort request, gq_order = sq_order request, gq_filters = sq_filters request\<rparr>)"

text \<open>\<open>read_scenario_facts\<close> of a group of rows, each with its record identifier and its fields.\<close>

definition rows_as :: "('a \<Rightarrow> string) \<Rightarrow> ('a \<Rightarrow> (string \<times> json) list) \<Rightarrow> query_error + 'a page_v1 option
   \<Rightarrow> query_error + (string \<times> (string \<times> json) list) page_v1 option" where
  "rows_as record_id row page = map_sum id (map_option (\<lambda>p. \<lparr>pg_scenario_id = pg_scenario_id p,
     pg_scenario_version_id = pg_scenario_version_id p, pg_site_id = pg_site_id p,
     pg_items = map (\<lambda>x. (record_id x, row x)) (pg_items p), pg_next_cursor = pg_next_cursor p,
     pg_total_count = pg_total_count p, pg_matching_count = pg_matching_count p\<rparr>)) page"

definition read_group ::
  "turn_context \<Rightarrow> string \<Rightarrow> group_query_v1 \<Rightarrow> 'x governed_store_scheme
   \<Rightarrow> tool_error + (string \<times> (string \<times> json) list) page_v1 option" where
  "read_group tx name query s =
     (let site = tx_site_id tx; scenario = tx_scenario_id tx in
      if name = ''tasks'' then map_sum EscapedQueryError id (rows_as tk_record_id task_row (get_tasks (tx_casefold tx) site s scenario query))
      else if name = ''demand'' then map_sum EscapedQueryError id (rows_as di_record_id demand_row (get_demand site s scenario query))
      else if name = ''assignments''
      then map_sum EscapedQueryError id (rows_as as_record_id assignment_row (get_baseline_assignments site s scenario query))
      else if name = ''workers'' then map_sum EscapedQueryError id (rows_as wk_record_id worker_row (get_workers (tx_casefold tx) site s scenario query))
      else if name = ''locks'' then map_sum EscapedQueryError id (rows_as lk_record_id lock_row (get_locks site s scenario query))
      else if name = ''constraints''
      then map_sum EscapedQueryError id (rows_as cn_record_id constraint_row (get_constraints site s scenario query))
      else Inl (EscapedError (ValueError ''unknown scenario fact group'')))"

text \<open>Each row gets the handle of its record.\<close>

fun handled_rows ::
  "evidence_group option \<Rightarrow> (string \<times> (string \<times> json) list) list \<Rightarrow> evidence_registry
   \<Rightarrow> (string \<times> json) list list \<times> evidence_registry" where
  "handled_rows g [] reg = ([], reg)"
| "handled_rows g ((record_id, row) # rows) reg =
     (case g of
        None \<Rightarrow> (let (rest, reg') = handled_rows g rows reg in (row # rest, reg'))
      | Some eg \<Rightarrow>
          (let (handle, reg1) = handle_for_record eg record_id reg; (rest, reg2) = handled_rows g rows reg1
           in ((row @ [(''ev'', JString handle)]) # rest, reg2)))"

definition inspect_error :: "turn_context \<Rightarrow> (nat \<Rightarrow> instant) \<Rightarrow> capability_manifest_v1 \<Rightarrow> uuid \<Rightarrow> uuid \<Rightarrow> tool_error + unit" where
  "inspect_error tx clock manifest version site =
     (if overran clock (mf_timeout_seconds manifest) 1 then Inl (CapabilityFailure ''inspection_timeout'')
      else if version \<noteq> tx_scenario_version_id tx then Inl (CapabilityFailure ''version_mismatch'')
      else if site \<noteq> tx_site_id tx then Inl (CapabilityFailure ''site_mismatch'') else Inr ())"

definition inspect_overview ::
  "turn_context \<Rightarrow> (nat \<Rightarrow> instant) \<Rightarrow> capability_manifest_v1 \<Rightarrow> 'x governed_store_scheme \<Rightarrow> tool_error + scheduling_inspect_result_v1" where
  "inspect_overview tx clock manifest s = (case get_overview (tx_site_id tx) (tx_scenario_id tx) s of
      None \<Rightarrow> Inl (CapabilityFailure ''scenario_not_found'')
    | Some value \<Rightarrow>
        and_also (inspect_error tx clock manifest (ov_scenario_version_id value) (ov_site_id value)) (\<lambda>_.
        Inr \<lparr>ir_group = ''overview'', ir_items = [overview_row (tx_instant_text tx) value],
             ir_scenario_version_id = ov_scenario_version_id value, si_scenario_id = ov_scenario_id value,
             si_site_id = ov_site_id value, si_returned_count = 1, si_total_count = 1, si_matching_count = 1,
             si_next_cursor = None, si_truncated = False\<rparr>))"

definition inspect_page ::
  "turn_context \<Rightarrow> (nat \<Rightarrow> instant) \<Rightarrow> capability_manifest_v1 \<Rightarrow> scheduling_inspect_request_v1 \<Rightarrow> 'x governed_store_scheme
   \<Rightarrow> tool_error + evidence_group option \<times> (string \<times> (string \<times> json) list) page_v1" where
  "inspect_page tx clock manifest request s =
     and_also (validated_query request manifest) (\<lambda>query.
     and_also (read_group tx (sq_group request) query s) (\<lambda>found.
     case found of
       None \<Rightarrow> Inl (CapabilityFailure ''scenario_not_found'')
     | Some page \<Rightarrow>
         and_also (inspect_error tx clock manifest (pg_scenario_version_id page) (pg_site_id page)) (\<lambda>_.
         case evidence_group_for_scenario_fact_group (sq_group request) of
           Inl name \<Rightarrow> Inl (EscapedError (KeyError name)) | Inr g \<Rightarrow> Inr (g, page))))"

definition scheduling_inspect ::
  "turn_context \<Rightarrow> (nat \<Rightarrow> instant) \<Rightarrow> capability_manifest_v1 \<Rightarrow> scheduling_inspect_request_v1
   \<Rightarrow> ('y turn_store_scheme, tool_error, scheduling_inspect_result_v1) action" where
  "scheduling_inspect tx clock manifest request =
     and_then (raise_if (exhausted tx) (CapabilityFailure ''budget_exhausted'')) (\<lambda>_.
     if sq_group request = ''overview''
     then and_then (raise_if (sq_sort request \<noteq> None \<or> sq_filters request \<noteq> []) (CapabilityFailure ''invalid_query'')) (\<lambda>_.
          and_then (reading (inspect_overview tx clock manifest)) (returned_by id))
     else and_then (reading (inspect_page tx clock manifest request)) (\<lambda>found.
          and_then (returned_by id found) (\<lambda>(g, page).
          and_then (reading (\<lambda>s. handled_rows g (pg_items page) (tn_registry s))) (\<lambda>(items, reg).
          and_then (writing (\<lambda>s. s\<lparr>tn_registry := reg\<rparr>)) (\<lambda>_.
          ret \<lparr>ir_group = sq_group request, ir_items = items, ir_scenario_version_id = pg_scenario_version_id page,
               si_scenario_id = pg_scenario_id page, si_site_id = pg_site_id page, si_returned_count = length items,
               si_total_count = pg_total_count page, si_matching_count = pg_matching_count page,
               si_next_cursor = pg_next_cursor page,
               si_truncated = (pg_next_cursor page \<noteq> None \<or> length items < pg_matching_count page)\<rparr>)))))"

section \<open>Computing\<close>

definition metric_name :: "metric \<Rightarrow> string" where
  "metric_name m = (case m of
      RequiredHeadcountMinutes \<Rightarrow> ''required_headcount_minutes'' | RequiredDemandVolume \<Rightarrow> ''required_demand_volume''
    | StaffedMinutes \<Rightarrow> ''staffed_minutes'' | QualifiedWorkerCount \<Rightarrow> ''qualified_worker_count'' | WorkerCount \<Rightarrow> ''worker_count'')"

text \<open>\<open>json.dumps(value, ensure_ascii=False)\<close> with its separators and with or without sorted keys.\<close>

fun joined :: "string \<Rightarrow> string list \<Rightarrow> string" where
  "joined sep [] = []"
| "joined sep [x] = x"
| "joined sep (x # y # xs) = x @ sep @ joined sep (y # xs)"

fun json_dumps :: "(float_value \<Rightarrow> string) \<Rightarrow> string \<Rightarrow> string \<Rightarrow> bool \<Rightarrow> json \<Rightarrow> string" where
  "json_dumps ft item_sep key_sep sorted_keys JNull = ''null''"
| "json_dumps ft item_sep key_sep sorted_keys (JBool b) = (if b then ''true'' else ''false'')"
| "json_dumps ft item_sep key_sep sorted_keys (JString s) = quote_string s"
| "json_dumps ft item_sep key_sep sorted_keys (JInt i) = str_int i"
| "json_dumps ft item_sep key_sep sorted_keys (JFloat v) = ft v"
| "json_dumps ft item_sep key_sep sorted_keys (JList xs) =
     ''['' @ joined item_sep (map (json_dumps ft item_sep key_sep sorted_keys) xs) @ '']''"
| "json_dumps ft item_sep key_sep sorted_keys (JObject kvs) =
     (let members = map (\<lambda>kv. (fst kv, json_dumps ft item_sep key_sep sorted_keys (snd kv))) kvs in
      ''{'' @ joined item_sep (map (\<lambda>kv. quote_string (fst kv) @ key_sep @ snd kv)
        (if sorted_keys then sort_key fst members else members)) @ ''}'')"

fun contains_float :: "json \<Rightarrow> bool" where
  "contains_float (JFloat v) = True"
| "contains_float (JObject kvs) = list_ex (\<lambda>kv. contains_float (snd kv)) kvs"
| "contains_float (JList xs) = list_ex contains_float xs"
| "contains_float _ = False"

definition arguments_json :: "claim_arguments_v1 \<Rightarrow> json" where
  "arguments_json a = JObject
     [(''schema_version'', JString ''1''), (''task_id'', json_text_option (ga_task_id a)),
      (''family'', optional (\<lambda>f. JString (family_name f)) (ga_family a)),
      (''start_minute'', optional JInt (ga_start_minute a)), (''end_minute'', optional JInt (ga_end_minute a))]"

definition derive_result_id :: "hashing \<Rightarrow> metric \<Rightarrow> claim_arguments_v1 \<Rightarrow> uuid \<Rightarrow> tool_error + string" where
  "derive_result_id h m arguments scenario_version_id =
     (let payload = JObject [(''arguments'', arguments_json arguments), (''metric'', JString (metric_name m)),
            (''scenario_version_id'', JString (str_uuid scenario_version_id))]
      in if contains_float payload then Inl (CapabilityFailure ''invalid_query'')
         else Inr (hs_sha256 h (json_dumps (hs_float_text h) '','' '':'' True payload)))"

definition compute_code :: "calculation_error \<Rightarrow> tool_error" where
  "compute_code e = (case e of
      CalculationArgumentsError \<Rightarrow> CapabilityFailure ''invalid_query''
    | CalculationDimensionError \<Rightarrow> CapabilityFailure ''metric_dimension_mismatch''
    | CalculationScenarioNotFoundError \<Rightarrow> CapabilityFailure ''scenario_not_found''
    | CalculationVersionMismatchError \<Rightarrow> CapabilityFailure ''version_mismatch''
    | CalculationSiteMismatchError \<Rightarrow> CapabilityFailure ''site_mismatch''
    | CalculationLimitError \<Rightarrow> CapabilityFailure ''calculation_failed''
    | CalculationError \<Rightarrow> CapabilityFailure ''calculation_failed''
    | CalculationQueryError q \<Rightarrow> EscapedQueryError q)"

definition calculation_of :: "turn_context \<Rightarrow> capability_manifest_v1 \<Rightarrow> 'x governed_store_scheme \<Rightarrow> 'x calc" where
  "calculation_of tx manifest s =
     \<lparr>ct_casefold = tx_casefold tx, ct_app_site = tx_site_id tx, ct_store = s, ct_scenario_id = tx_scenario_id tx,
      ct_scenario_version_id = tx_scenario_version_id tx, ct_site_id = tx_site_id tx,
      ct_page_size = min 50 (mf_budget_limit manifest), ct_max_rows = mf_budget_limit manifest\<rparr>"

definition compute_result :: "calculated_metric_v1 \<Rightarrow> string \<Rightarrow> string \<Rightarrow> scheduling_compute_result_v1" where
  "compute_result c result_id handle =
     \<lparr>cm_metric = cm_metric c, cm_arguments = cm_arguments c, cm_value = cm_value c, cm_unit = cm_unit c,
      cm_evidence_refs = cm_evidence_refs c, cm_scenario_version_id = cm_scenario_version_id c,
      cm_consumed_row_count = cm_consumed_row_count c, tr_result_id = result_id, sp_citation_handle = handle\<rparr>"

definition scheduling_compute ::
  "turn_context \<Rightarrow> (nat \<Rightarrow> instant) \<Rightarrow> capability_manifest_v1 \<Rightarrow> metric \<Rightarrow> claim_arguments_v1
   \<Rightarrow> ('y turn_store_scheme, tool_error, scheduling_compute_result_v1) action" where
  "scheduling_compute tx clock manifest m arguments =
     and_then (raise_if (exhausted tx) (CapabilityFailure ''budget_exhausted'')) (\<lambda>_.
     and_then (reading (\<lambda>s. calculate_metric (calculation_of tx manifest s) m arguments)) (\<lambda>found.
     and_then (returned_by compute_code found) (\<lambda>calculated.
     and_then (raise_if (overran clock (mf_timeout_seconds manifest) 1) (CapabilityFailure ''calculation_failed'')) (\<lambda>_.
     and_then (returned_by id (derive_result_id (tx_hashing tx) (cm_metric calculated) (cm_arguments calculated)
                 (cm_scenario_version_id calculated))) (\<lambda>result_id.
     and_then (reading (\<lambda>s. handle_for result_id (tn_registry s))) (\<lambda>(handle, reg).
     and_then (writing (\<lambda>s. s\<lparr>tn_registry := reg\<rparr>)) (\<lambda>_.
     ret (compute_result calculated result_id handle))))))))"

section \<open>The other tools\<close>

definition scheduling_optimize ::
  "turn_context \<Rightarrow> capability_manifest_v1 \<Rightarrow> uuid \<Rightarrow> int \<Rightarrow> string \<Rightarrow> ('s, tool_error, scheduling_optimize_result_v1) action" where
  "scheduling_optimize tx manifest proposal_id expected_resource_version idempotency_key =
     and_then (raise_if (exhausted tx) (CapabilityFailure ''budget_exhausted'')) (\<lambda>_.
     and_then (raise_if (proposal_id = 0 \<or> expected_resource_version < 1 \<or> idempotency_key = [] \<or> 40 < length idempotency_key)
                (CapabilityFailure ''invalid_query'')) (\<lambda>_.
     ret \<lparr>sz_proposal_id = proposal_id, sz_expected_resource_version = expected_resource_version,
          sz_idempotency_key = idempotency_key, sz_actor_id = tx_actor_id tx, sz_site_id = tx_site_id tx,
          sz_capability_version = mf_capability_version manifest\<rparr>))"

text \<open>Every call that gets that far suspends the turn.\<close>

definition scheduling_baseline :: "turn_context \<Rightarrow> uuid \<Rightarrow> ('y turn_store_scheme, tool_error, 'r) action" where
  "scheduling_baseline tx schedule_run_id =
     and_then (raise_if (exhausted tx) (CapabilityFailure ''baseline_request_failed'')) (\<lambda>_.
     and_then (raise_if (schedule_run_id = 0) (CapabilityFailure ''invalid_query'')) (\<lambda>_.
     and_then (reading (\<lambda>s. tn_drafted s \<or> tn_discarded s \<noteq> None)) (\<lambda>changed.
     and_then (raise_if changed (CapabilityFailure ''draft_changed_this_turn'')) (\<lambda>_.
     raise CapabilityApprovalRequired))))"

definition max_repeat :: int where
  "max_repeat = 64"

definition demonstrate :: "turn_context \<Rightarrow> string \<Rightarrow> int \<Rightarrow> ('s, tool_error, string) action" where
  "demonstrate tx label repeat =
     and_then (raise_if (exhausted tx) (CapabilityFailure ''budget_exhausted'')) (\<lambda>_.
     and_then (raise_if (repeat < 1 \<or> max_repeat < repeat) (CapabilityFailure ''invalid_repeat'')) (\<lambda>_.
     and_then (raise_if (1 < repeat \<and> \<not> tx_tool_call_approved tx) CapabilityApprovalRequired) (\<lambda>_.
     ret (joined ''|'' (replicate (nat repeat) label)))))"

section \<open>Calling a tool\<close>

datatype tool_call =
    ComputeCall metric claim_arguments_v1
  | DraftCall "uuid option" "draft_constraint_proposal_v1 list"
  | DiscardCall
  | InspectCall scheduling_inspect_request_v1
  | OptimizeCall uuid int string
  | BaselineCall uuid "string option"
  | DemonstrationCall string int

definition tool_name :: "tool_call \<Rightarrow> string" where
  "tool_name call = (case call of
      ComputeCall _ _ \<Rightarrow> ''scheduling_compute'' | DraftCall _ _ \<Rightarrow> ''scheduling_draft'' | DiscardCall \<Rightarrow> ''scheduling_draft_discard''
    | InspectCall _ \<Rightarrow> ''scheduling_inspect'' | OptimizeCall _ _ _ \<Rightarrow> ''scheduling_optimize''
    | BaselineCall _ _ \<Rightarrow> ''scheduling_baseline'' | DemonstrationCall _ _ \<Rightarrow> ''shiftmind_demonstration'')"

definition handler ::
  "turn_context \<Rightarrow> (nat \<Rightarrow> instant) \<Rightarrow> capability_manifest_v1 \<Rightarrow> tool_call \<Rightarrow> ('y turn_store_scheme, tool_error, tool_result) action" where
  "handler tx clock manifest call = (case call of
      ComputeCall m arguments \<Rightarrow> and_then (scheduling_compute tx clock manifest m arguments) (\<lambda>r. ret (ComputeResult r))
    | DraftCall expected proposals \<Rightarrow> and_then (scheduling_draft tx clock manifest expected proposals) (\<lambda>r. ret (DraftResult r))
    | DiscardCall \<Rightarrow> and_then (scheduling_draft_discard tx) (\<lambda>r. ret (DiscardResult r))
    | InspectCall request \<Rightarrow> and_then (scheduling_inspect tx clock manifest request) (\<lambda>r. ret (InspectResult r))
    | OptimizeCall proposal_id expected key \<Rightarrow>
        and_then (scheduling_optimize tx manifest proposal_id expected key) (\<lambda>r. ret (OptimizeResult r))
    | BaselineCall run_id _ \<Rightarrow> scheduling_baseline tx run_id
    | DemonstrationCall label repeat \<Rightarrow> and_then (demonstrate tx label repeat) (\<lambda>r. ret (DemonstrationResult r)))"

text \<open>What the runtime makes of a call: the model is asked to correct itself, the turn is suspended, or it fails.\<close>

datatype call_end = Rendered | ModelRetry string | ApprovalSuspends | CallFails tool_error

definition end_of_error :: "capability_module_v1 \<Rightarrow> tool_error \<Rightarrow> call_end" where
  "end_of_error m e = (case e of
      CapabilityApprovalRequired \<Rightarrow>
        if mf_approval_policy (cb_manifest m) = ApprovalNone then CallFails (EscapedError (RuntimeError ''approval_policy''))
        else ApprovalSuspends
    | CapabilityFailure code \<Rightarrow> if code \<in> set (cb_retryable_error_codes m) then ModelRetry code else CallFails e
    | _ \<Rightarrow> CallFails e)"

text \<open>Only a granted tool exists. The trusted result goes to the sink before the model sees a view of it.\<close>

definition call_tool ::
  "turn_context \<Rightarrow> capability_module_v1 list \<Rightarrow> (nat \<Rightarrow> instant) \<Rightarrow> tool_call \<Rightarrow> 'y turn_store_scheme
   \<Rightarrow> call_end \<times> 'y turn_store_scheme" where
  "call_tool tx granted clock call s = (case resolve_granted_capability granted (tool_name call) of
      None \<Rightarrow> (CallFails NoSuchTool, s)
    | Some m \<Rightarrow>
        (case handler tx clock (cb_manifest m) call s of
           (Inl e, s') \<Rightarrow> (end_of_error m e, s')
         | (Inr r, s') \<Rightarrow> (Rendered, s'\<lparr>tn_results := tn_results s' @ [r]\<rparr>)))"

end
