(* ===== verification/Turn_Execution.thy ===== *)
theory Turn_Execution
  imports Turn_Tools Approvals
begin

text \<open>
  A turn from its claim to its end: routing (\<^verbatim>\<open>application/use_cases/route_turn.py\<close>), binding what the model said to
  trusted results and mapping every outcome to a terminal status and a payload (\<^verbatim>\<open>execute_turn.py\<close>), and the handler
  that claims, runs and finishes it (\<^verbatim>\<open>execute_agent_turn\<close> of \<^verbatim>\<open>api/routers/conversations.py\<close>). The runtime is a
  third-party framework around a language model: its run is given as the tool calls it made, interleaved with what other
  sessions did, and what it returned or raised. The reads that bind an outcome see one state of the database. Telemetry and the
  workflow snapshot, a message to the model, are left out.
\<close>

section \<open>Outcomes\<close>

datatype turn_status = TurnCompleted | TurnSuspended | TurnTimedOut | TurnFailed

datatype failure_source = AgentSource | CapabilitySource

record refusal_v1 =
  rf_reason :: refusal_reason
  rf_detail :: string
  rf_next_step :: "string option"

record tool_call_proposal_v1 =
  tq_tool_call_id :: string
  tq_tool_name :: string
  tq_tool_args_json :: string

record agent_run_outcome_v1 =
  oc_status :: turn_status
  oc_failure_reason :: "string option"
  oc_failure_source :: "failure_source option"
  oc_output_text :: "string option"
  oc_answer :: "string option"
  oc_grounded_response :: "grounded_response_v1 option"
  oc_clarification :: "clarification_v1 option"
  oc_resolved_clarification :: "resolved_clarification_v1 option"
  oc_refusal :: "refusal_v1 option"
  oc_draft :: "string option"
  oc_resolved_draft :: "agent_draft_write_v1 option"
  oc_resolved_discard :: "agent_draft_discard_v1 option"
  oc_approval :: "tool_call_proposal_v1 list option"

definition plain_outcome :: "turn_status \<Rightarrow> agent_run_outcome_v1" where
  "plain_outcome status =
     \<lparr>oc_status = status, oc_failure_reason = None, oc_failure_source = None, oc_output_text = None, oc_answer = None,
      oc_grounded_response = None, oc_clarification = None, oc_resolved_clarification = None, oc_refusal = None,
      oc_draft = None, oc_resolved_draft = None, oc_resolved_discard = None, oc_approval = None\<rparr>"

definition failed_outcome :: "string \<Rightarrow> failure_source \<Rightarrow> agent_run_outcome_v1" where
  "failed_outcome reason source =
     (plain_outcome TurnFailed)\<lparr>oc_failure_reason := Some reason, oc_failure_source := Some source\<rparr>"

text \<open>The exceptions the handler tells apart.\<close>

datatype turn_exception = IncompleteManifestException | ProviderException | OtherException string

definition failed_outcome_for_exception :: "turn_exception \<Rightarrow> agent_run_outcome_v1" where
  "failed_outcome_for_exception e = (case e of
      IncompleteManifestException \<Rightarrow> failed_outcome ''capability_error'' CapabilitySource
    | ProviderException \<Rightarrow> failed_outcome ''provider_error'' AgentSource
    | OtherException _ \<Rightarrow> failed_outcome ''invalid_output'' AgentSource)"

section \<open>Parameters of a turn\<close>

text \<open>\<open>tp_router\<close> returns nothing when it raises, else its probabilities or an error code; \<open>tp_checker\<close> returns nothing when
  it raises. \<open>tp_json_loads\<close> and \<open>tp_validate_request\<close> are the JSON decoder and the validation of a request against its
  dataclass. \<open>tp_value_text\<close> is the text Python prints for the value of a claim.\<close>

datatype turn_route = RouteScheduling | RouteDirect | RouteOutOfScope

record route_state_v1 =
  rt_message :: string
  rt_previous_planner_messages :: "string list"
  rt_previous_agent_replies :: "string list"

record route_result_v1 =
  rr_probabilities :: "(turn_route \<times> float_value) list"
  rr_error :: "string option"

record support_item_v1 =
  su_item_id :: string
  su_claim_text :: string
  su_evidence_text :: string

record turn_parameters =
  tp_capabilities :: capability_settings
  tp_router :: "(route_state_v1 \<Rightarrow> route_result_v1 option) option"
  tp_threshold :: float_value
  tp_checker :: "(support_item_v1 list \<Rightarrow> (string \<times> support_score) list option) option"
  tp_flag_threshold :: "float_value option"
  tp_hashing :: hashing
  tp_number_texts :: number_texts
  tp_texts :: text_functions
  tp_float_text :: "float_value \<Rightarrow> string"
  tp_value_text :: "grounded_claim_v1 \<Rightarrow> string"
  tp_instant_text :: "instant \<Rightarrow> string"
  tp_json_loads :: "string \<Rightarrow> json option"
  tp_validate_request :: "json \<Rightarrow> (uuid \<times> string option) option"
  tp_baseline_enabled :: bool
  tp_approval_expiry_seconds :: int

section \<open>Binding citations to trusted results\<close>

definition result_id_of :: "tool_result \<Rightarrow> string option" where
  "result_id_of r = (case r of
      ComputeResult x \<Rightarrow> Some (tr_result_id x) | DraftResult x \<Rightarrow> Some (sd_result_id x)
    | DiscardResult x \<Rightarrow> Some (sc_result_id x) | _ \<Rightarrow> None)"

text \<open>\<open>trusted_results_by_citation\<close> over everything the sink holds.\<close>

definition results_by_citation :: "tool_result list \<Rightarrow> evidence_registry \<Rightarrow> string \<Rightarrow> tool_result option" where
  "results_by_citation results reg =
     dict_of (concat (map (\<lambda>r. case result_id_of r of
         None \<Rightarrow> []
       | Some i \<Rightarrow> (i, r) # (case handle_of i reg of None \<Rightarrow> [] | Some h \<Rightarrow> [(h, r)])) results))"

definition inspect_results :: "tool_result list \<Rightarrow> inspect_result_v1 list" where
  "inspect_results results = concat (map (\<lambda>r. case r of InspectResult x \<Rightarrow> [inspect_result_v1.truncate x] | _ \<Rightarrow> []) results)"

definition write_of_result :: "scheduling_draft_result_v1 \<Rightarrow> agent_draft_write_v1" where
  "write_of_result r =
     \<lparr>dw_proposal = sd_proposal r, dw_outcome = sd_outcome r, dw_version_ordinal = sd_version_ordinal r,
      dw_observed_working_id = sd_observed_working_id r, dw_observed_resource_version = sd_observed_resource_version r\<rparr>"

definition resolve_draft_citation :: "agent_run_outcome_v1 \<Rightarrow> (string \<Rightarrow> tool_result option) \<Rightarrow> agent_run_outcome_v1" where
  "resolve_draft_citation oc trusted_by_id = (case oc_draft oc of
      None \<Rightarrow> oc
    | Some draft_id \<Rightarrow>
        (case trusted_by_id draft_id of
           Some (DraftResult r) \<Rightarrow> oc\<lparr>oc_resolved_draft := Some (write_of_result r)\<rparr>
         | _ \<Rightarrow> oc\<lparr>oc_status := TurnFailed, oc_failure_reason := Some ''invalid_output'', oc_failure_source := Some AgentSource\<rparr>))"

definition discards_of :: "tool_result list \<Rightarrow> scheduling_draft_discard_result_v1 list" where
  "discards_of results = concat (map (\<lambda>r. case r of DiscardResult x \<Rightarrow> [x] | _ \<Rightarrow> []) results)"

definition resolve_discard :: "tool_result list \<Rightarrow> turn_exception + agent_draft_discard_v1 option" where
  "resolve_discard results = (case discards_of results of
      [] \<Rightarrow> Inr None
    | [x] \<Rightarrow> Inr (Some \<lparr>dd_proposal_id = sc_proposal_id x, dd_observed_resource_version = sc_observed_resource_version x,
                        dd_version_ordinal = sc_version_ordinal x\<rparr>)
    | _ \<Rightarrow> Inl (OtherException ''AssertionError''))"

text \<open>A placeholder that cites a result of another tool than the calculator ends in an \<open>AttributeError\<close>.\<close>

definition cited_handles :: "string \<Rightarrow> string list" where
  "cited_handles answer = concat (map (\<lambda>p. case p of PlainTextPart text \<Rightarrow> placeholder_handles text | _ \<Rightarrow> []) (parse_claim_tags answer))"

definition compute_result_of :: "tool_result \<Rightarrow> trusted_result_v1 option" where
  "compute_result_of r = (case r of ComputeResult x \<Rightarrow> Some (trusted_result_v1.truncate x) | _ \<Rightarrow> None)"

definition ground_cited ::
  "turn_parameters \<Rightarrow> 'x governed_store_scheme agent_deps \<Rightarrow> string \<Rightarrow> (string \<Rightarrow> tool_result option)
   \<Rightarrow> (string \<Rightarrow> trusted_record_v1 option) \<Rightarrow> turn_exception + grounded_response_v1" where
  "ground_cited tp deps answer by_id records =
     (if list_ex (\<lambda>h. case by_id h of None \<Rightarrow> False | Some r \<Rightarrow> compute_result_of r = None) (cited_handles answer)
      then Inl (OtherException ''AttributeError'')
      else map_sum OtherException id (ground_answer (tp_texts tp) answer deps
             (\<lambda>h. case by_id h of None \<Rightarrow> None | Some r \<Rightarrow> compute_result_of r) records))"

section \<open>Checking the wording of facts\<close>

definition is_emphasis :: "char \<Rightarrow> bool" where
  "is_emphasis c \<longleftrightarrow> c \<in> {CHR ''*'', CHR ''_'', CHR ''`''}"

function squeeze_spaces :: "string \<Rightarrow> string" where
  "squeeze_spaces [] = []"
| "squeeze_spaces (c # cs) =
     (if is_space c then CHR '' '' # squeeze_spaces (dropWhile is_space cs) else c # squeeze_spaces cs)"
  by pat_completeness auto
termination by (relation "measure length") (auto simp: le_imp_less_Suc length_dropWhile_le)

definition normalized_wording :: "(string \<Rightarrow> string) \<Rightarrow> string \<Rightarrow> string" where
  "normalized_wording casefold raw =
     (let cleaned = strip_chars is_space (squeeze_spaces (filter (\<lambda>c. \<not> is_emphasis c) raw));
          unquoted = strip_chars (\<lambda>c. c = CHR 0x27 \<or> c = CHR 0x22) cleaned;
          ended = rev (dropWhile (\<lambda>c. c \<in> set ''.,;:!?'') (rev unquoted))
      in casefold (strip_chars is_space ended))"

definition restates_value_only :: "(string \<Rightarrow> string) \<Rightarrow> string \<Rightarrow> string \<Rightarrow> bool" where
  "restates_value_only casefold text value \<longleftrightarrow>
     normalized_wording casefold value \<noteq> [] \<and> normalized_wording casefold text = normalized_wording casefold value"

definition record_label :: "string \<Rightarrow> string" where
  "record_label scenario_group = get_or scenario_group (map_of
     [(''workers'', ''Worker''), (''tasks'', ''Task''), (''demand'', ''Demand interval''), (''assignments'', ''Baseline assignment''),
      (''locks'', ''Lock''), (''constraints'', ''Constraint'')] scenario_group)"

definition render_value :: "(float_value \<Rightarrow> string) \<Rightarrow> json \<Rightarrow> string" where
  "render_value ft value = (case value of JString s \<Rightarrow> s | _ \<Rightarrow> json_dumps ft '', '' '': '' True value)"

definition newline :: string where
  "newline = [CHR 0x0A]"

definition verbalize_record :: "(float_value \<Rightarrow> string) \<Rightarrow> string \<Rightarrow> (string \<times> json) list \<Rightarrow> string" where
  "verbalize_record ft scenario_group row =
     joined newline ((record_label scenario_group @ '' record'')
       # map (\<lambda>(key, value). key @ '': '' @ render_value ft value) (filter (\<lambda>(key, _). key \<noteq> ''ev'') (sort_key fst row)))"

text \<open>The trusted rows in the order of the dictionary; \<open>Inl\<close> is the exception of a group that has no evidence group.\<close>

definition trusted_records :: "inspect_result_v1 list \<Rightarrow> trusted_record_v1 list" where
  "trusted_records results =
     (let pairs = concat (map (\<lambda>r. concat (map (\<lambda>item. case map_of item ''ev'' of Some (JString ev) \<Rightarrow> [ev] | _ \<Rightarrow> []) (ir_items r))) results)
      in map (\<lambda>ev. the (trusted_records_by_handle results ev)) (rev (remdups (rev pairs))))"

fun record_cited :: "trusted_record_v1 list \<Rightarrow> evidence_ref_v1 \<Rightarrow> string + trusted_record_v1 option" where
  "record_cited [] reference = Inr None"
| "record_cited (x # xs) reference = (case evidence_group_for_scenario_fact_group (tc_scenario_group x) of
      Inl name \<Rightarrow> Inl name
    | Inr g \<Rightarrow> if g = Some (er_group reference) \<and> map_of (tc_record x) ''record_id'' = Some (JString (er_record_id reference))
               then Inr (Some x) else record_cited xs reference)"

definition item_id :: "nat \<Rightarrow> string" where
  "item_id i = CHR ''s'' # str_nat i"

text \<open>The items the checker is asked about, of the segments from an index on.\<close>

fun support_items ::
  "(float_value \<Rightarrow> string) \<Rightarrow> (string \<Rightarrow> string) \<Rightarrow> trusted_record_v1 list \<Rightarrow> nat \<Rightarrow> grounded_segment list
   \<Rightarrow> string + support_item_v1 list" where
  "support_items ft casefold rows i [] = Inr []"
| "support_items ft casefold rows i (segment # segments) =
     (case segment of
        FactSegment f \<Rightarrow>
          (case gf_evidence_refs f of
             [] \<Rightarrow> support_items ft casefold rows (Suc i) segments
           | reference # _ \<Rightarrow>
               if gf_verdict f \<noteq> Supported \<or> restates_value_only casefold (gf_text f) (gf_value f)
               then support_items ft casefold rows (Suc i) segments
               else (case record_cited rows reference of
                       Inl name \<Rightarrow> Inl name
                     | Inr None \<Rightarrow> support_items ft casefold rows (Suc i) segments
                     | Inr (Some x) \<Rightarrow> and_also (support_items ft casefold rows (Suc i) segments) (\<lambda>rest.
                         Inr (\<lparr>su_item_id = item_id i, su_claim_text = gf_text f,
                               su_evidence_text = verbalize_record ft (tc_scenario_group x) (tc_record x)\<rparr> # rest))))
      | _ \<Rightarrow> support_items ft casefold rows (Suc i) segments)"

definition flagged_by :: "float_value option \<Rightarrow> support_score \<Rightarrow> bool" where
  "flagged_by threshold score = (case (threshold, score) of
      (None, _) \<Rightarrow> False | (Some t, FiniteScore p) \<Rightarrow> p < t | (Some _, NonFiniteScore) \<Rightarrow> True)"

text \<open>A score for a segment that is no fact ends in a \<open>TypeError\<close>.\<close>

fun scored_segments ::
  "float_value option \<Rightarrow> (string \<times> support_score) list \<Rightarrow> nat \<Rightarrow> grounded_segment list \<Rightarrow> turn_exception + grounded_segment list" where
  "scored_segments threshold probabilities i [] = Inr []"
| "scored_segments threshold probabilities i (segment # segments) =
     and_also (case map_of probabilities (item_id i) of
         None \<Rightarrow> Inr segment
       | Some score \<Rightarrow>
           (case segment of
              FactSegment f \<Rightarrow> Inr (FactSegment (f\<lparr>gf_support_probability := Some score, gf_wording_flagged := flagged_by threshold score\<rparr>))
            | _ \<Rightarrow> Inl (OtherException ''TypeError''))) (\<lambda>x.
     and_also (scored_segments threshold probabilities (Suc i) segments) (\<lambda>xs. Inr (x # xs)))"

definition shadow_check_facts ::
  "turn_parameters \<Rightarrow> (support_item_v1 list \<Rightarrow> (string \<times> support_score) list option) \<Rightarrow> inspect_result_v1 list
   \<Rightarrow> grounded_response_v1 \<Rightarrow> turn_exception + grounded_response_v1" where
  "shadow_check_facts tp checker results response =
     (case support_items (tp_float_text tp) (tf_casefold (tp_texts tp)) (trusted_records results) 0 (gr_segments response) of
        Inl _ \<Rightarrow> Inr response
      | Inr [] \<Rightarrow> Inr response
      | Inr items \<Rightarrow>
          and_also (scored_segments (tp_flag_threshold tp) (get_or [] (checker items)) 0 (gr_segments response)) (\<lambda>segments.
          Inr (response\<lparr>gr_segments := segments\<rparr>)))"

section \<open>Binding an outcome\<close>

definition bind_answer ::
  "turn_parameters \<Rightarrow> turn_context \<Rightarrow> string \<Rightarrow> 'y turn_store_scheme \<Rightarrow> turn_exception + grounded_response_v1" where
  "bind_answer tp tx answer s =
     (let results = tn_results s; inspected = inspect_results results in
      and_also (ground_cited tp (deps_of tx s) answer (results_by_citation results (tn_registry s)) (trusted_records_by_handle inspected))
        (\<lambda>grounded. case tp_checker tp of
           None \<Rightarrow> Inr grounded | Some checker \<Rightarrow> shadow_check_facts tp checker inspected grounded))"

text \<open>\<open>execute_turn\<close> after the runtime returned.\<close>

definition bind_outcome ::
  "turn_parameters \<Rightarrow> turn_context \<Rightarrow> agent_run_outcome_v1 \<Rightarrow> 'y turn_store_scheme \<Rightarrow> turn_exception + agent_run_outcome_v1" where
  "bind_outcome tp tx oc s =
     (if oc_status oc \<noteq> TurnCompleted then Inr oc
      else and_also (resolve_discard (tn_results s)) (\<lambda>discard.
        let oc = oc\<lparr>oc_resolved_discard := discard\<rparr> in
        case oc_clarification oc of
          Some c \<Rightarrow> Inr (oc\<lparr>oc_resolved_clarification := Some (resolve_clarification c (deps_of tx s))\<rparr>)
        | None \<Rightarrow>
            if oc_draft oc \<noteq> None then Inr (resolve_draft_citation oc (results_by_citation (tn_results s) (tn_registry s)))
            else (case oc_answer oc of
                    None \<Rightarrow> Inr oc
                  | Some answer \<Rightarrow> and_also (bind_answer tp tx answer s) (\<lambda>r. Inr (oc\<lparr>oc_grounded_response := Some r\<rparr>)))))"

section \<open>Terminal states\<close>

definition produced :: "agent_run_outcome_v1 \<Rightarrow> bool" where
  "produced oc \<longleftrightarrow> oc_grounded_response oc \<noteq> None \<or> oc_clarification oc \<noteq> None \<or> oc_resolved_clarification oc \<noteq> None
     \<or> oc_refusal oc \<noteq> None \<or> oc_resolved_draft oc \<noteq> None"

definition terminal_status :: "agent_run_outcome_v1 \<Rightarrow> agent_run_status" where
  "terminal_status oc = (case oc_status oc of
      TurnCompleted \<Rightarrow> if produced oc then AgentCompleted else AgentFailed
    | TurnTimedOut \<Rightarrow> AgentTimedOut
    | TurnFailed \<Rightarrow> AgentFailed
    | TurnSuspended \<Rightarrow> ApprovalRequired)"

definition model_copy_limit :: nat where
  "model_copy_limit = 1000"

definition retry_step :: "string option" where
  "retry_step = Some ''Retry the request or review Scenario Data.''"

definition agent_terminal :: "string \<Rightarrow> terminal_reason \<times> string" where
  "agent_terminal reason =
     (if reason = ''provider_error'' then (ProviderError, ''The provider failed before the turn completed.'')
      else if reason = ''budget_exhausted'' then (BudgetExhausted, ''The configured agent budget was exhausted.'')
      else (InvalidOutput, ''The model returned an invalid response.''))"

definition failed_terminal :: "agent_run_outcome_v1 \<Rightarrow> terminal_outcome_v1" where
  "failed_terminal oc =
     (if oc_failure_source oc = Some CapabilitySource
      then \<lparr>to_status = ''failed'', to_reason = CapabilityError, to_refusal_reason = None,
            to_detail = ''A governed capability failed without executing an unsupported action.'', to_next_step = retry_step\<rparr>
      else (let (reason, detail) = agent_terminal (get_or ''invalid_output'' (oc_failure_reason oc)) in
            \<lparr>to_status = ''failed'', to_reason = reason, to_refusal_reason = None, to_detail = detail, to_next_step = retry_step\<rparr>))"

definition completed_terminal :: "agent_run_outcome_v1 \<Rightarrow> terminal_outcome_v1 option" where
  "completed_terminal oc = (case oc_refusal oc of
      Some r \<Rightarrow> Some \<lparr>to_status = ''completed'', to_reason = Refused, to_refusal_reason = Some (rf_reason r),
                      to_detail = take model_copy_limit (rf_detail r),
                      to_next_step = map_option (take model_copy_limit) (rf_next_step r)\<rparr>
    | None \<Rightarrow>
        if produced oc then None
        else Some \<lparr>to_status = ''failed'', to_reason = InvalidOutput, to_refusal_reason = None,
                   to_detail = ''The turn completed without a usable response.'', to_next_step = retry_step\<rparr>)"

definition terminal_outcome :: "agent_run_outcome_v1 \<Rightarrow> terminal_outcome_v1 option" where
  "terminal_outcome oc = (case oc_status oc of
      TurnCompleted \<Rightarrow> completed_terminal oc
    | TurnTimedOut \<Rightarrow> Some \<lparr>to_status = ''timed_out'', to_reason = DeadlineExceeded, to_refusal_reason = None,
                          to_detail = ''The turn timed out before it completed.'', to_next_step = retry_step\<rparr>
    | TurnSuspended \<Rightarrow> Some \<lparr>to_status = ''suspended'', to_reason = ApprovalNotGrantable, to_refusal_reason = None,
                           to_detail = ''The requested action cannot be approved from this workflow.'',
                           to_next_step = Some ''Review the candidate and request approval from Results.''\<rparr>
    | TurnFailed \<Rightarrow> Some (failed_terminal oc))"

definition visible_response :: "turn_context \<Rightarrow> agent_run_outcome_v1 \<Rightarrow> grounded_response_v1" where
  "visible_response tx oc = get_or \<lparr>gr_scenario_version_id = Some (tx_scenario_version_id tx), gr_segments = []\<rparr> (oc_grounded_response oc)"

definition activity_payload_of :: "turn_context \<Rightarrow> agent_run_outcome_v1 \<Rightarrow> turn_payload" where
  "activity_payload_of tx oc = (case oc_resolved_clarification oc of
      Some c \<Rightarrow> TurnActivity (ClarificationActivity c)
    | None \<Rightarrow>
        (case oc_resolved_draft oc of
           Some w \<Rightarrow> TurnDraft w
         | None \<Rightarrow>
             (case terminal_outcome oc of
                Some t \<Rightarrow> TurnActivity (TerminalOutcomeActivity t)
              | None \<Rightarrow> TurnActivity (AgentResponseActivity (visible_response tx oc)))))"

section \<open>What the planner saw\<close>

definition unit_name :: "grounding_unit \<Rightarrow> string" where
  "unit_name u = (case u of UnitMinutes \<Rightarrow> ''minutes'' | UnitWorkers \<Rightarrow> ''workers'' | UnitUnits \<Rightarrow> ''units'')"

definition grounding_failure_name :: "grounding_failure \<Rightarrow> string" where
  "grounding_failure_name f = (case f of
      MissingEvidence \<Rightarrow> ''missing_evidence'' | UnauthorizedEvidence \<Rightarrow> ''unauthorized_evidence''
    | VersionMismatch \<Rightarrow> ''version_mismatch'' | CalculationFailed \<Rightarrow> ''calculation_failed'' | UncitedClaim \<Rightarrow> ''uncited_claim'')"

definition fact_failure_name :: "fact_failure \<Rightarrow> string" where
  "fact_failure_name f = (case f of
      FactMissingEvidence \<Rightarrow> ''missing_evidence'' | FactUnknownField \<Rightarrow> ''unknown_field'' | FactValueMismatch \<Rightarrow> ''value_mismatch''
    | FactVersionMismatch \<Rightarrow> ''version_mismatch'' | FactUnauthorizedEvidence \<Rightarrow> ''unauthorized_evidence'')"

definition str_of_option :: "('a \<Rightarrow> string) \<Rightarrow> 'a option \<Rightarrow> string" where
  "str_of_option f x = (case x of None \<Rightarrow> ''None'' | Some y \<Rightarrow> f y)"

definition segment_text :: "(grounded_claim_v1 \<Rightarrow> string) \<Rightarrow> grounded_segment \<Rightarrow> string" where
  "segment_text value_text segment = (case segment of
      ProseSegment t \<Rightarrow> t
    | ClaimSegment c \<Rightarrow>
        if gc_verdict c = Supported then value_text c @ '' '' @ str_of_option unit_name (gc_unit c)
        else ''Claim unavailable: '' @ str_of_option grounding_failure_name (gc_failure c)
    | FactSegment f \<Rightarrow>
        if gf_verdict f = Supported then gf_text f
        else gf_text f @ '' (unverified: '' @ str_of_option fact_failure_name (gf_failure f) @ '')'')"

definition response_visible_text :: "(grounded_claim_v1 \<Rightarrow> string) \<Rightarrow> grounded_response_v1 \<Rightarrow> string" where
  "response_visible_text value_text response =
     joined '' '' (filter (\<lambda>t. t \<noteq> []) (map (\<lambda>g. strip_chars is_space (segment_text value_text g)) (gr_segments response)))"

section \<open>History\<close>

datatype message_role = UserRole | AssistantRole

definition evidence_group_name :: "evidence_group \<Rightarrow> string" where
  "evidence_group_name g = (case g of
      WorkAreasAndTasks \<Rightarrow> ''work-areas-and-tasks'' | Workers \<Rightarrow> ''workers'' | Demand \<Rightarrow> ''demand''
    | BaselineAssignments \<Rightarrow> ''baseline-assignments'' | Locks \<Rightarrow> ''locks''
    | ConstraintsAndObjectives \<Rightarrow> ''constraints-and-objectives'')"

definition approval_state_name :: "approval_state \<Rightarrow> string" where
  "approval_state_name st = (case st of
      ApprovalPending \<Rightarrow> ''pending'' | ApprovalConsumed \<Rightarrow> ''consumed'' | ApprovalRejected \<Rightarrow> ''rejected''
    | ApprovalExpired \<Rightarrow> ''expired'' | ApprovalStale \<Rightarrow> ''stale'')"

definition terminal_reason_name :: "terminal_reason \<Rightarrow> string" where
  "terminal_reason_name r = (case r of
      ProviderError \<Rightarrow> ''provider_error'' | InvalidOutput \<Rightarrow> ''invalid_output'' | BudgetExhausted \<Rightarrow> ''budget_exhausted''
    | DeadlineExceeded \<Rightarrow> ''deadline_exceeded'' | CapabilityError \<Rightarrow> ''capability_error'' | Refused \<Rightarrow> ''refused''
    | ApprovalUnsupported \<Rightarrow> ''approval_unsupported'' | ApprovalNotGrantable \<Rightarrow> ''approval_not_grantable'')"

definition json_text :: "json \<Rightarrow> string" where
  "json_text = json_dumps (\<lambda>_. []) '', '' '': '' False"

definition choices_json :: "entity_candidate_v1 list \<Rightarrow> json" where
  "choices_json candidates = JList (map (\<lambda>c. JObject [(''group'', JString (evidence_group_name (ec_group c))),
     (''record_id'', JString (ec_record_id c)), (''label'', JString (ec_label c))]) candidates)"

definition clarification_text :: "resolved_clarification_v1 \<Rightarrow> string" where
  "clarification_text c = rc_question c
     @ (if rc_candidates c = [] then [] else newline @ ''Displayed choices (in order): '' @ json_text (choices_json (rc_candidates c)))
     @ (if rc_dropped_candidate_count c = 0 then []
        else newline @ str_int (rc_dropped_candidate_count c) @ '' additional candidates were not displayed.'')"

definition approval_text :: "approval_binding_v1 \<Rightarrow> string" where
  "approval_text b = ''Historical approval request: '' @ json_text (JObject
     [(''approval_id'', JString (str_uuid (ab_approval_id b))), (''state_at_event'', JString (approval_state_name (ab_state b))),
      (''schedule_run_id'', JString (str_uuid (ab_schedule_run_id b))),
      (''candidate_schedule_version_id'', JString (str_uuid (ab_candidate_schedule_version_id b))),
      (''baseline_schedule_version'', json_text_option (ab_baseline_schedule_version b)),
      (''consequence_summary'', JString (ab_consequence_summary b))])"

definition history_message :: "(grounded_claim_v1 \<Rightarrow> string) \<Rightarrow> activity_payload \<Rightarrow> message_role \<times> string" where
  "history_message value_text activity = (case activity of
      PlannerMessageActivity _ text \<Rightarrow> (UserRole, text)
    | AgentResponseActivity response \<Rightarrow>
        (AssistantRole, (let t = response_visible_text value_text response in
                         if t = [] then ''The previous turn did not complete.'' else t))
    | ClarificationActivity c \<Rightarrow> (AssistantRole, clarification_text c)
    | DraftActivity _ _ summary \<Rightarrow> (AssistantRole, summary)
    | ApprovalRequestActivity b \<Rightarrow> (AssistantRole, approval_text b)
    | TerminalOutcomeActivity t \<Rightarrow>
        (AssistantRole, ''The previous turn did not complete: '' @ terminal_reason_name (to_reason t) @ ''.''))"

definition history_message_bound :: nat where
  "history_message_bound = 100"

definition last_n :: "nat \<Rightarrow> 'a list \<Rightarrow> 'a list" where
  "last_n n xs = drop (length xs - n) xs"

definition rehydrate_history :: "(grounded_claim_v1 \<Rightarrow> string) \<Rightarrow> activity_payload list \<Rightarrow> (message_role \<times> string) list" where
  "rehydrate_history value_text activities =
     filter (\<lambda>(_, text). text \<noteq> []) (map (history_message value_text) (last_n history_message_bound activities))"

section \<open>Routing\<close>

definition kept_texts :: "string list \<Rightarrow> string list" where
  "kept_texts texts = last_n 2 (filter (\<lambda>t. t \<noteq> []) (map (\<lambda>t. take 500 (strip_chars is_space t)) texts))"

definition planner_texts :: "activity_payload list \<Rightarrow> string list" where
  "planner_texts history = concat (map (\<lambda>a. case a of PlannerMessageActivity _ text \<Rightarrow> [text] | _ \<Rightarrow> []) history)"

definition agent_texts :: "(grounded_claim_v1 \<Rightarrow> string) \<Rightarrow> activity_payload list \<Rightarrow> string list" where
  "agent_texts value_text history = concat (map (\<lambda>a. case a of
      AgentResponseActivity response \<Rightarrow> [response_visible_text value_text response]
    | ClarificationActivity c \<Rightarrow> [rc_question c]
    | DraftActivity _ _ summary \<Rightarrow> [summary]
    | ApprovalRequestActivity b \<Rightarrow> [ab_consequence_summary b]
    | _ \<Rightarrow> []) history)"

definition route_state :: "(grounded_claim_v1 \<Rightarrow> string) \<Rightarrow> string \<Rightarrow> activity_payload list \<Rightarrow> route_state_v1" where
  "route_state value_text prompt history =
     \<lparr>rt_message = take 2000 (strip_chars is_space prompt), rt_previous_planner_messages = kept_texts (planner_texts history),
      rt_previous_agent_replies = kept_texts (agent_texts value_text history)\<rparr>"

text \<open>\<open>max\<close> keeps the first of equal routes, and \<open>scheduling\<close> comes first.\<close>

definition top_route :: "(turn_route \<Rightarrow> float_value) \<Rightarrow> turn_route" where
  "top_route p =
     (let best = (if p RouteScheduling < p RouteDirect then RouteDirect else RouteScheduling)
      in if p best < p RouteOutOfScope then RouteOutOfScope else best)"

definition decide_route :: "turn_parameters \<Rightarrow> string \<Rightarrow> activity_payload list \<Rightarrow> turn_route" where
  "decide_route tp prompt history = (case tp_router tp of
      None \<Rightarrow> RouteScheduling
    | Some router \<Rightarrow>
        (case router (route_state (tp_value_text tp) prompt history) of
           None \<Rightarrow> RouteScheduling
         | Some result \<Rightarrow>
             if rr_error result \<noteq> None \<or> rr_probabilities result = [] then RouteScheduling
             else (let p = (\<lambda>r. get_or 0 (map_of (rr_probabilities result) r)); top = top_route p in
                   if top \<noteq> RouteScheduling \<and> tp_threshold tp \<le> p top then top else RouteScheduling)))"

section \<open>Running a turn\<close>

definition turn_context_of :: "turn_parameters \<Rightarrow> claimed_agent_run_v1 \<Rightarrow> turn_context" where
  "turn_context_of tp claimed =
     \<lparr>tx_actor_id = cl_actor_id claimed, tx_site_id = cl_site_id claimed, tx_conversation_id = cl_conversation_id claimed,
      tx_scenario_id = cl_scenario_id claimed, tx_scenario_version_id = cl_scenario_version_id claimed,
      tx_tool_calls_limit = None, tx_tool_call_approved = False, tx_hashing = tp_hashing tp, tx_texts = tp_number_texts tp,
      tx_casefold = tf_casefold (tp_texts tp), tx_instant_text = tp_instant_text tp\<rparr>"

text \<open>Special routes get no tools.\<close>

definition turn_granted :: "turn_parameters \<Rightarrow> claimed_agent_run_v1 \<Rightarrow> turn_route \<Rightarrow> declaration_error + capability_module_v1 list" where
  "turn_granted tp claimed route =
     and_also (enabled_feature_policy (tp_capabilities tp)) (\<lambda>policy.
     and_also (compose_granted_capabilities (tp_capabilities tp)
        \<lparr>gx_role = planner_role, gx_site_id = cl_site_id claimed, gx_feature_policy = policy,
         gx_conversation_id = Some (cl_conversation_id claimed), gx_conversation_site_id = cl_site_id claimed,
         gx_revoked_conversation_ids = [], gx_explicit_run_request = False\<rparr> None) (\<lambda>granted.
     Inr (if route = RouteScheduling then granted else [])))"

text \<open>The run of the runtime: its calls in order, each with the readings of its clock, between them what other sessions
  did, and how it ended.\<close>

datatype 's turn_step = ToolStep "nat \<Rightarrow> instant" tool_call | OtherSessions "'s \<Rightarrow> 's"

record 's turn_run =
  ru_before :: "'s \<Rightarrow> 's"
  ru_steps :: "'s turn_step list"
  ru_result :: "turn_exception + agent_run_outcome_v1"
  ru_after :: "'s \<Rightarrow> 's"

fun run_step ::
  "turn_context \<Rightarrow> capability_module_v1 list \<Rightarrow> 'y turn_store_scheme turn_step \<Rightarrow> 'y turn_store_scheme \<Rightarrow> 'y turn_store_scheme" where
  "run_step tx granted (ToolStep clock call) s = snd (call_tool tx granted clock call s)"
| "run_step tx granted (OtherSessions f) s = f s"

text \<open>The state of a new turn.\<close>

definition new_turn :: "'y turn_store_scheme \<Rightarrow> 'y turn_store_scheme" where
  "new_turn s = s\<lparr>tn_registry := new_registry, tn_observed := False, tn_observation := None, tn_drafted := False,
     tn_discarded := None, tn_results := []\<rparr>"

text \<open>A scheduling turn observes the working draft before the runtime is built; an exception there ends the turn.\<close>

definition observe_first :: "turn_context \<Rightarrow> turn_route \<Rightarrow> 'y turn_store_scheme \<Rightarrow> bool \<times> 'y turn_store_scheme" where
  "observe_first tx route s =
     (if route = RouteScheduling then (case observe tx s of (Inl _, s') \<Rightarrow> (False, s') | (Inr _, s') \<Rightarrow> (True, s')) else (True, s))"

definition turn_outcome ::
  "turn_parameters \<Rightarrow> claimed_agent_run_v1 \<Rightarrow> 'y turn_store_scheme turn_run \<Rightarrow> 'y turn_store_scheme
   \<Rightarrow> agent_run_outcome_v1 \<times> 'y turn_store_scheme" where
  "turn_outcome tp claimed run s =
     (let tx = turn_context_of tp claimed; route = decide_route tp (cl_prompt claimed) (cl_history claimed);
          (observed, s1) = observe_first tx route s
      in if \<not> observed then (failed_outcome_for_exception (OtherException ''RuntimeError''), s1)
         else (case turn_granted tp claimed route of
                 Inl _ \<Rightarrow> (failed_outcome_for_exception IncompleteManifestException, s1)
               | Inr granted \<Rightarrow>
                   (let s2 = fold (run_step tx granted) (ru_steps run) s1 in
                    case and_also (ru_result run) (\<lambda>oc. bind_outcome tp tx oc s2) of
                      Inl e \<Rightarrow> (failed_outcome_for_exception e, s2)
                    | Inr oc \<Rightarrow> (oc, s2))))"

section \<open>Finishing a turn\<close>

text \<open>The errors an approval request is refused with.\<close>

fun is_approval_request_error :: "app_error \<Rightarrow> bool" where
  "is_approval_request_error CandidateNotFoundError = True"
| "is_approval_request_error CandidateNotPromotableError = True"
| "is_approval_request_error (StaleResourceVersionError _ _) = True"
| "is_approval_request_error StaleBaselineVersionError = True"
| "is_approval_request_error ApprovalNotGrantedError = True"
| "is_approval_request_error ApprovalAlreadyPendingError = True"
| "is_approval_request_error _ = False"

definition pending_request ::
  "turn_parameters \<Rightarrow> tool_call_proposal_v1 \<Rightarrow> ('s, app_error, uuid \<times> string option) action" where
  "pending_request tp call = (case tp_json_loads tp (tq_tool_args_json call) of
      None \<Rightarrow> raise (ValueError ''JSONDecodeError'')
    | Some (JObject members) \<Rightarrow>
        (case map_of members ''request'' of
           None \<Rightarrow> raise (RuntimeError ''suspended turn carries no request argument'')
         | Some argument \<Rightarrow>
             (case tp_validate_request tp argument of
                None \<Rightarrow> raise (ValueError ''ValidationError'') | Some request \<Rightarrow> ret request))
    | Some _ \<Rightarrow> raise (RuntimeError ''suspended turn carries no request argument''))"

definition approval_command ::
  "claimed_agent_run_v1 \<Rightarrow> uuid \<Rightarrow> tool_call_proposal_v1 \<Rightarrow> uuid \<times> string option \<Rightarrow> int \<Rightarrow> request_approval_command" where
  "approval_command claimed request_id call request expected =
     \<lparr>ra_site_id = cl_site_id claimed, ra_actor_id = cl_actor_id claimed, ra_schedule_run_id = fst request,
      ra_expected_resource_version = expected, ra_expected_baseline_schedule_version = snd request,
      ra_request_effect_key = ''tool:'' @ str_uuid (cl_agent_run_id claimed) @ '':'' @ tq_tool_call_id call,
      ra_request_id = request_id, ra_conversation_id = cl_conversation_id claimed,
      ra_agent_run_id = Some (cl_agent_run_id claimed), ra_pending_payload = Some [tq_tool_call_id call]\<rparr>"

text \<open>The call that waits for a decision becomes an approval request, or the turn is cancelled.\<close>

definition suspend_turn ::
  "turn_parameters \<Rightarrow> uuid \<Rightarrow> claimed_agent_run_v1 \<Rightarrow> agent_run_outcome_v1 \<Rightarrow> uuid
   \<Rightarrow> ('x governed_store_scheme, app_error, executed_agent_run_v1) action" where
  "suspend_turn tp app_site claimed oc request_id =
     (let cancelled = finalize_agent_run app_site claimed AgentCancelled (activity_payload_of (turn_context_of tp claimed) oc) None request_id in
      case oc_approval oc of
        Some [call] \<Rightarrow>
          if tq_tool_name call \<noteq> ''scheduling_baseline'' then cancelled
          else and_then (pending_request tp call) (\<lambda>request.
               catching
                 (and_then (reading (get_run (fst request) (cl_site_id claimed))) (\<lambda>found. case found of
                    None \<Rightarrow> raise CandidateNotFoundError
                  | Some r \<Rightarrow>
                      and_then (request_approval (tp_hashing tp) (tp_baseline_enabled tp) (tp_approval_expiry_seconds tp)
                                  (approval_command claimed request_id call request (rv_resource_version r)))
                        (\<lambda>(_, activity). ret activity)))
                 (\<lambda>e. if is_approval_request_error e then Some cancelled else None))
      | _ \<Rightarrow> raise (RuntimeError ''suspended turn has no exact pending approval call''))"

definition finish_turn ::
  "turn_parameters \<Rightarrow> uuid \<Rightarrow> claimed_agent_run_v1 \<Rightarrow> agent_run_outcome_v1 \<Rightarrow> uuid
   \<Rightarrow> ('x governed_store_scheme, app_error, executed_agent_run_v1) action" where
  "finish_turn tp app_site claimed oc request_id =
     (if oc_status oc = TurnSuspended then suspend_turn tp app_site claimed oc request_id
      else (let status = terminal_status oc in
            finalize_agent_run app_site claimed status (activity_payload_of (turn_context_of tp claimed) oc)
              (if status = AgentCompleted then oc_resolved_discard oc else None) request_id))"

section \<open>The handler\<close>

datatype turn_answer = ExecutedTurn executed_agent_run_v1 | NotFoundResponse | NotQueuedResponse | ServerError app_error

definition answer_of :: "app_error + executed_agent_run_v1 \<Rightarrow> turn_answer" where
  "answer_of r = (case r of
      Inr executed \<Rightarrow> ExecutedTurn executed
    | Inl AgentRunNotQueuedError \<Rightarrow> NotQueuedResponse
    | Inl (RuntimeError _) \<Rightarrow> NotQueuedResponse
    | Inl e \<Rightarrow> ServerError e)"

definition run_claimed ::
  "turn_parameters \<Rightarrow> uuid \<Rightarrow> uuid \<Rightarrow> claimed_agent_run_v1 \<Rightarrow> 'y turn_store_scheme turn_run \<Rightarrow> 'y turn_store_scheme
   \<Rightarrow> turn_answer \<times> 'y turn_store_scheme" where
  "run_claimed tp app_site request_id claimed run s =
     (let (oc, s') = turn_outcome tp claimed run (new_turn (ru_before run s));
          (r, s'') = transaction (finish_turn tp app_site claimed oc request_id) (ru_after run s')
      in (answer_of r, s''))"

definition execute_agent_turn ::
  "turn_parameters \<Rightarrow> uuid \<Rightarrow> uuid \<Rightarrow> uuid \<Rightarrow> uuid \<Rightarrow> 'y turn_store_scheme turn_run \<Rightarrow> 'y turn_store_scheme
   \<Rightarrow> turn_answer \<times> 'y turn_store_scheme" where
  "execute_agent_turn tp app_site conversation_id agent_run_id request_id run s =
     (case transaction (claim_queued_run app_site conversation_id agent_run_id) s of
        (Inl AgentRunNotQueuedError, s') \<Rightarrow> (NotQueuedResponse, s')
      | (Inl e, s') \<Rightarrow> (ServerError e, s')
      | (Inr None, s') \<Rightarrow> (NotFoundResponse, s')
      | (Inr (Some claimed), s') \<Rightarrow> run_claimed tp app_site request_id claimed run s')"

end
