(* ===== verification/Turn_Memory.thy ===== *)
theory Turn_Memory
  imports Turn_Execution Draft_Guarantees
begin

text \<open>
  What a turn remembers while its tools run. The invariant \<open>turn_ok\<close> says that every captured draft belongs to the pinned
  version and is numbered after the draft the turn observed, that at most one discard is captured, and that an update and a
  discard of the same draft never are. Every call keeps it, and so do other sessions that follow the rules of the store
  (\<open>others_ok\<close>).
\<close>

section \<open>The invariant\<close>

definition observation_ok :: "'y turn_store_scheme \<Rightarrow> bool" where
  "observation_ok s \<longleftrightarrow> (\<forall>o'. tn_observation s = Some o' \<longrightarrow> wo_version_ordinal o' = wo_resource_version o')"

definition pinned_draft :: "turn_context \<Rightarrow> proposal_v1 \<Rightarrow> bool" where
  "pinned_draft tx proposal \<longleftrightarrow>
     pp_scenario_id proposal = Some (tx_scenario_id tx) \<and> pp_scenario_version_id proposal = Some (tx_scenario_version_id tx)
     \<and> pp_state proposal = ProposalActive \<and> pp_proposal_id proposal \<noteq> None \<and> pp_proposal_version_id proposal \<noteq> None"

definition draft_result_ok :: "turn_context \<Rightarrow> 'y turn_store_scheme \<Rightarrow> scheduling_draft_result_v1 \<Rightarrow> bool" where
  "draft_result_ok tx s r \<longleftrightarrow> write_bound (write_of_result r) \<and> pinned_draft tx (sd_proposal r)
     \<and> tn_drafted s \<and> (sd_outcome r = DraftUpdated \<longrightarrow> tn_discarded s = None)"

definition results_ok :: "turn_context \<Rightarrow> 'y turn_store_scheme \<Rightarrow> bool" where
  "results_ok tx s \<longleftrightarrow> (\<forall>r. DraftResult r \<in> set (tn_results s) \<longrightarrow> draft_result_ok tx s r)
     \<and> length (discards_of (tn_results s)) = (if tn_discarded s = None then 0 else 1)"

definition turn_ok :: "turn_context \<Rightarrow> 'y turn_store_scheme \<Rightarrow> bool" where
  "turn_ok tx s \<longleftrightarrow> proposals_ok s \<and> observation_ok s \<and> results_ok tx s"

text \<open>The memory of the turn, which only its own calls write.\<close>

definition turn_memory ::
  "'y turn_store_scheme \<Rightarrow> evidence_registry \<times> bool \<times> working_draft_observation_v1 option \<times> bool
     \<times> working_draft_observation_v1 option \<times> tool_result list" where
  "turn_memory s = (tn_registry s, tn_observed s, tn_observation s, tn_drafted s, tn_discarded s, tn_results s)"

lemma turn_memory_ok:
  assumes "turn_memory s' = turn_memory s"
  shows "observation_ok s' = observation_ok s" and "results_ok tx s' = results_ok tx s"
  using assms by (simp_all add: turn_memory_def observation_ok_def results_ok_def draft_result_ok_def)

text \<open>Other sessions cannot reach the memory of the turn, and change drafts only by commands.\<close>

definition others_ok :: "('y turn_store_scheme \<Rightarrow> 'y turn_store_scheme) \<Rightarrow> bool" where
  "others_ok f \<longleftrightarrow> (\<forall>s. turn_memory (f s) = turn_memory s \<and> draft_evolves s (f s))"

lemma others_turn_ok: "others_ok f \<Longrightarrow> turn_ok tx s \<Longrightarrow> turn_ok tx (f s)"
  unfolding others_ok_def turn_ok_def using turn_memory_ok by (metis draft_evolves_def)

section \<open>Calls that leave the drafts alone\<close>

text \<open>The part of the state the invariant is about.\<close>

definition draft_part ::
  "'y turn_store_scheme \<Rightarrow> (proposal_row list \<times> proposal_version_row list) \<times> bool \<times> working_draft_observation_v1 option \<times> bool
     \<times> working_draft_observation_v1 option \<times> tool_result list" where
  "draft_part s = (proposal_tables s, tn_observed s, tn_observation s, tn_drafted s, tn_discarded s, tn_results s)"

lemma turn_ok_cong:
  fixes s s' :: "'y turn_store_scheme"
  assumes "draft_part s' = draft_part s"
  shows "turn_ok tx s' = turn_ok tx s" and "results_ok tx s' = results_ok tx s"
  using assms
  by (simp_all add: draft_part_def proposal_tables_def turn_ok_def proposals_ok_def observation_ok_def results_ok_def draft_result_ok_def)

lemma part_with_error: "obeys (keeps f) m \<Longrightarrow> obeys (keeps f) (with_error g m)"
  by (auto simp: obeys_def keeps_def with_error_def split: prod.splits sum.splits) (metis snd_conv)+

lemma part_returned_by: "obeys (keeps f) (returned_by g v)"
  unfolding returned_by_def by (auto intro: keep_rules split: sum.splits)

lemma part_case_prod: "(\<And>a b. obeys (keeps f) (k a b)) \<Longrightarrow> obeys (keeps f) (case v of (a, b) \<Rightarrow> k a b)"
  by (cases v) simp

lemmas part_rules = keep_rules part_with_error part_returned_by part_case_prod

lemma part_compute: "obeys (keeps draft_part) (scheduling_compute tx clock manifest m arguments)"
  unfolding scheduling_compute_def by (intro part_rules) (simp add: draft_part_def proposal_tables_def)

lemma part_inspect: "obeys (keeps draft_part) (scheduling_inspect tx clock manifest request)"
  unfolding scheduling_inspect_def by (intro part_rules) (simp add: draft_part_def proposal_tables_def)

lemma part_optimize: "obeys (keeps draft_part) (scheduling_optimize tx manifest pid v key)"
  unfolding scheduling_optimize_def by (intro part_rules)

lemma part_baseline: "obeys (keeps draft_part) (scheduling_baseline tx run_id)"
  unfolding scheduling_baseline_def by (intro part_rules)

lemma part_demonstrate: "obeys (keeps draft_part) (demonstrate tx label n)"
  unfolding demonstrate_def by (intro part_rules)

section \<open>Observing\<close>

lemma observe_working_draft_same:
  assumes "observe_working_draft tx s = (r, s')"
  shows "s' = s"
proof -
  have read: "snd (read_one_proposal site P s) = s" for site P
    by (auto simp: read_one_proposal_def peel ret_def raise_def split: option.splits)
  obtain r1 where g: "get_working_proposal (tx_site_id tx) (tx_conversation_id tx) s = (r1, s)"
    using read by (metis get_working_proposal_def prod.collapse)
  show ?thesis
    using assms g by (auto simp: observe_working_draft_def and_then_def ret_def raise_def split: sum.splits option.splits)
qed

lemma observe_working_draft_InrD:
  assumes "observe_working_draft tx s = (Inr (Some o'), s')" "proposals_ok s"
  shows "wo_version_ordinal o' = wo_resource_version o'"
proof -
  obtain w :: proposal_record_v1 and pid where w: "get_working_proposal (tx_site_id tx) (tx_conversation_id tx) s = (Inr (Some w), s)"
    and o': "o' = \<lparr>wo_proposal_id = pid, wo_resource_version = pp_resource_version (pc_proposal w),
                   wo_version_ordinal = pc_version_ordinal w\<rparr>"
    using assms(1) observe_working_draft_same [OF assms(1)] unfolding observe_working_draft_def
    by (auto elim!: and_then_InrE simp: ret_def raise_def split: option.splits)
  obtain p :: proposal_row where "pr_conversation_id p = tx_conversation_id tx \<and> pr_state p = ProposalActive"
    "pp_resource_version (pc_proposal w) = pr_resource_version p"
    "pr_state p = ProposalActive \<longrightarrow> pc_version_ordinal w = pr_resource_version p"
    by (rule read_one_proposal_row [OF w [unfolded get_working_proposal_def] assms(2)]) blast
  then show ?thesis by (simp add: o')
qed

text \<open>The first observation stays.\<close>

lemma observe_cases:
  assumes "observe tx s = (r, s')"
  obtains "tn_observed s" "s' = s" "r = Inr (tn_observation s)"
  | e where "\<not> tn_observed s" "s' = s" "r = Inl e"
  | v where "\<not> tn_observed s" "observe_working_draft tx s = (Inr v, s)" "r = Inr v"
      "s' = s\<lparr>tn_observation := v, tn_observed := True\<rparr>"
proof (cases "tn_observed s")
  case True
  then have "observe tx s = (Inr (tn_observation s), s)"
    by (simp add: observe_def observe_with_def and_then_reading only_if_def ret_and_then) (simp add: reading_def)
  with True assms show thesis by (intro that(1)) auto
next
  case False
  obtain q t where q: "observe_working_draft tx s = (q, t)" by fastforce
  have t: "t = s" by (rule observe_working_draft_same [OF q])
  have ran: "observe tx s = (case q of Inl e \<Rightarrow> (Inl (EscapedError e), s) | Inr v \<Rightarrow> (Inr v, s\<lparr>tn_observation := v, tn_observed := True\<rparr>))"
    using False q t
    by (simp add: observe_def observe_with_def and_then_reading only_if_def and_then_assoc)
      (auto simp: with_error_def and_then_def writing_def reading_def split: sum.splits)
  show thesis
  proof (cases q)
    case (Inl e)
    with False ran assms show thesis by (intro that(2) [of "EscapedError e"]) auto
  next
    case (Inr v)
    with False q t ran assms show thesis by (intro that(3) [of v]) auto
  qed
qed

lemma observe_keeps:
  assumes "observe tx s = (r, s')" "turn_ok tx s"
  shows "turn_ok tx s'" and "draft_part (s'\<lparr>tn_observation := tn_observation s, tn_observed := tn_observed s\<rparr>) = draft_part s"
    and "r = Inr (Some o') \<Longrightarrow> wo_version_ordinal o' = wo_resource_version o'"
proof -
  have "turn_ok tx s' \<and> draft_part (s'\<lparr>tn_observation := tn_observation s, tn_observed := tn_observed s\<rparr>) = draft_part s
     \<and> (\<forall>o'. r = Inr (Some o') \<longrightarrow> wo_version_ordinal o' = wo_resource_version o')"
    using assms(1)
  proof (cases rule: observe_cases)
    case 1
    then show ?thesis using assms(2) by (auto simp: turn_ok_def observation_ok_def draft_part_def proposal_tables_def)
  next
    case (2 e)
    then show ?thesis using assms(2) by (simp add: draft_part_def proposal_tables_def)
  next
    case (3 v)
    have ordinal: "\<forall>o'. v = Some o' \<longrightarrow> wo_version_ordinal o' = wo_resource_version o'"
      using observe_working_draft_InrD 3(2) assms(2) by (auto simp: turn_ok_def)
    have "turn_ok tx s'"
      using assms(2) ordinal
      by (simp add: turn_ok_def proposals_ok_def observation_ok_def results_ok_def draft_result_ok_def 3(4))
    then show ?thesis using ordinal 3 by (simp add: draft_part_def proposal_tables_def)
  qed
  then show "turn_ok tx s'" "draft_part (s'\<lparr>tn_observation := tn_observation s, tn_observed := tn_observed s\<rparr>) = draft_part s"
    "r = Inr (Some o') \<Longrightarrow> wo_version_ordinal o' = wo_resource_version o'" by blast+
qed

section \<open>Drafting and discarding\<close>

lemma with_error_InrD: "with_error g m s = (Inr x, s') \<Longrightarrow> m s = (Inr x, s')"
  by (auto simp: with_error_def split: prod.splits sum.splits)

lemma returned_by_InrD: "returned_by g v s = (Inr x, s') \<Longrightarrow> v = Inr x \<and> s' = s"
  by (auto simp: returned_by_def ret_def raise_def split: sum.splits)

text \<open>A drafting call that returns: the draft is numbered after the observation, and its identifiers are new.\<close>

definition observed_for_draft :: "turn_context \<Rightarrow> ('y turn_store_scheme, tool_error, working_draft_observation_v1 option) action" where
  "observed_for_draft tx = and_then (reading tn_discarded) (\<lambda>discarded. if discarded \<noteq> None then ret None else observe tx)"

lemma scheduling_draft_InrE:
  assumes "scheduling_draft tx clock manifest expected ps s = (Inr r, s')"
  obtains observed t pid vid overview constraints locks result_id n where "observed_for_draft tx s = (Inr observed, t)"
    and "r = draft_result result_id (new_draft tx overview constraints locks result_id observed pid vid) observed"
    and "map_option wo_proposal_id observed \<in> {None, Some pid}" and "s' = t\<lparr>st_fresh := n, tn_drafted := True\<rparr>"
proof -
  obtain overview constraints locks result_id observed t pid u where
    obs: "(if tn_discarded s \<noteq> None then ret None else observe tx) s = (Inr observed, t)"
    and pid: "(case observed of None \<Rightarrow> uuid4 | Some o' \<Rightarrow> ret (wo_proposal_id o')) t = (Inr pid :: tool_error + uuid, u)"
    and rest: "r = draft_result result_id (new_draft tx overview constraints locks result_id observed pid (st_fresh u)) observed"
      "s' = u\<lparr>st_fresh := Suc (st_fresh u), tn_drafted := True\<rparr>"
    using assms unfolding scheduling_draft_def
    by (auto elim!: and_then_InrE dest!: raise_if_InrD reading_InrD returned_by_InrD with_error_InrD digest_of_InrD writing_InrD ret_InrD
        simp: derive_draft_id_def uuid4_def) blast
  show thesis
  proof (rule that)
    show "observed_for_draft tx s = (Inr observed, t)" using obs by (simp add: observed_for_draft_def and_then_reading)
    show "r = draft_result result_id (new_draft tx overview constraints locks result_id observed pid (st_fresh u)) observed" by (rule rest(1))
    show "map_option wo_proposal_id observed \<in> {None, Some pid}" using pid by (auto simp: ret_def split: option.splits)
    have "\<exists>n. u = t\<lparr>st_fresh := n\<rparr>"
      using pid by (cases observed) (auto simp: uuid4_def ret_def intro: exI [of _ "st_fresh t"])
    then show "s' = t\<lparr>st_fresh := Suc (st_fresh u), tn_drafted := True\<rparr>"
      using rest(2) by auto
  qed
qed

lemma draft_call_keeps:
  assumes "scheduling_draft tx clock manifest expected ps s = (Inr r, s')" "turn_ok tx s"
  shows "draft_result_ok tx s' r \<and> turn_ok tx s' \<and> tn_results s' = tn_results s \<and> tn_discarded s' = tn_discarded s"
  using assms(1)
proof (rule scheduling_draft_InrE)
  fix observed :: "working_draft_observation_v1 option" and t pid vid overview constraints locks result_id n
  assume obs: "observed_for_draft tx s = (Inr observed, t)"
    and r: "r = draft_result result_id (new_draft tx overview constraints locks result_id observed pid vid) observed"
    and pid: "map_option wo_proposal_id observed \<in> {None, Some pid}" and s': "s' = t\<lparr>st_fresh := n, tn_drafted := True\<rparr>"
  have t: "turn_ok tx t \<and> tn_results t = tn_results s \<and> tn_discarded t = tn_discarded s
    \<and> (\<forall>o'. observed = Some o' \<longrightarrow> wo_version_ordinal o' = wo_resource_version o' \<and> tn_discarded s = None)"
  proof (cases "tn_discarded s")
    case None
    then have run: "observe tx s = (Inr observed, t)" using obs by (simp add: observed_for_draft_def and_then_reading)
    show ?thesis
      using observe_keeps [OF run assms(2)] None by (auto simp: draft_part_def)
  next
    case (Some d)
    then show ?thesis using obs assms(2) by (simp add: observed_for_draft_def and_then_reading ret_def)
  qed
  have "draft_result_ok tx s' r"
    using t pid
    by (cases observed) (simp_all add: r s' draft_result_ok_def write_bound_def write_of_result_def draft_result_def new_draft_def pinned_draft_def)
  moreover have "turn_ok tx s'"
    using t by (auto simp: s' turn_ok_def proposals_ok_def observation_ok_def results_ok_def draft_result_ok_def)
  ultimately show ?thesis using t by (simp add: s')
qed

lemma discard_call_InrE:
  assumes "scheduling_draft_discard tx s = (Inr r, s')"
  obtains d t where "tn_discarded s = None" "\<not> tn_drafted s" "observe tx s = (Inr (Some d), t)" "s' = t\<lparr>tn_discarded := Some d\<rparr>"
proof -
  have "\<exists>d t. tn_discarded s = None \<and> \<not> tn_drafted s \<and> observe tx s = (Inr (Some d), t) \<and> s' = t\<lparr>tn_discarded := Some d\<rparr>"
    using assms unfolding scheduling_draft_discard_def
    by (auto elim!: and_then_InrE dest!: raise_if_InrD reading_InrD split: option.splits simp: raise_def and_then_writing ret_def)
  then show thesis using that by blast
qed

section \<open>Every call keeps the invariant\<close>

lemma part_uuid4: "obeys (keeps draft_part) uuid4"
  by (simp add: obeys_def keeps_def uuid4_def draft_part_def proposal_tables_def)

lemma keeps_part_turn_ok: "obeys (keeps draft_part) m \<Longrightarrow> obeys (preserves (turn_ok tx)) m"
  unfolding obeys_def keeps_def preserves_def using turn_ok_cong(1) by blast

lemma turn_ok_derive: "obeys (preserves (turn_ok tx)) (with_error g (derive_draft_id h v cs locks))"
  unfolding derive_draft_id_def digest_of_def
  by (intro keeps_part_turn_ok part_with_error) (auto intro!: keep_rules split: option.splits)

lemma turn_ok_observe: "obeys (preserves (turn_ok tx)) (observe tx)"
  unfolding obeys_def preserves_def by (metis observe_keeps(1) prod.collapse)

lemma turn_ok_drafted: "obeys (preserves (turn_ok tx)) (writing (\<lambda>s. s\<lparr>tn_drafted := True\<rparr>))"
  by (intro inv.obeys_writing)
    (auto simp: preserves_def turn_ok_def proposals_ok_def observation_ok_def results_ok_def draft_result_ok_def)

lemma turn_ok_case_prod:
  "(\<And>a b. obeys (preserves (turn_ok tx)) (k a b)) \<Longrightarrow> obeys (preserves (turn_ok tx)) (case v of (a, b) \<Rightarrow> k a b)"
  by (cases v) simp

lemma turn_ok_draft_call: "obeys (preserves (turn_ok tx)) (scheduling_draft tx clock manifest expected ps)"
  unfolding scheduling_draft_def
  apply (intro inv.obeys_intros turn_ok_case_prod turn_ok_derive turn_ok_observe turn_ok_drafted
      keeps_part_turn_ok [OF part_uuid4] keeps_part_turn_ok [OF part_returned_by])
  done

lemma turn_ok_discard_refused:
  assumes "scheduling_draft_discard tx s = (Inl e, s')" "turn_ok tx s"
  shows "turn_ok tx s'"
proof (cases "exhausted tx"; cases "tn_drafted s"; cases "tn_discarded s")
  assume go: "\<not> exhausted tx" "\<not> tn_drafted s" "tn_discarded s = None"
  obtain r t where obs: "observe tx s = (r, t)" by fastforce
  have "s' = t"
  proof (cases "\<exists>d. r = Inr (Some d)")
    case True
    then show ?thesis
      using go assms(1) obs
      by (auto simp: scheduling_draft_discard_def and_then_raise_if and_then_reading and_then_returned and_then_writing ret_def)
  next
    case False
    with go assms(1) obs show ?thesis
      by (cases r) (auto simp: scheduling_draft_discard_def and_then_raise_if and_then_reading and_then_def [of "observe tx"] raise_def
          split: option.splits)
  qed
  then show ?thesis using observe_keeps(1) [OF obs assms(2)] by simp
qed (use assms in \<open>simp_all add: scheduling_draft_discard_def and_then_raise_if and_then_reading\<close>)

text \<open>A result of another tool changes nothing the invariant is about.\<close>

lemma turn_ok_other_result:
  assumes "turn_ok tx s" "\<forall>x. r \<noteq> DraftResult x" "\<forall>x. r \<noteq> DiscardResult x"
  shows "turn_ok tx (s\<lparr>tn_results := tn_results s @ [r]\<rparr>)"
proof -
  have "discards_of (tn_results s @ [r]) = discards_of (tn_results s)"
    using assms(3) by (cases r) (simp_all add: discards_of_def)
  then show ?thesis
    using assms by (auto simp: turn_ok_def proposals_ok_def observation_ok_def results_ok_def draft_result_ok_def)
qed

lemma turn_ok_draft_result:
  assumes "turn_ok tx s" "draft_result_ok tx s r"
  shows "turn_ok tx (s\<lparr>tn_results := tn_results s @ [DraftResult r]\<rparr>)"
proof -
  have "discards_of (tn_results s @ [DraftResult r]) = discards_of (tn_results s)" by (simp add: discards_of_def)
  then show ?thesis
    using assms by (auto simp: turn_ok_def proposals_ok_def observation_ok_def results_ok_def draft_result_ok_def)
qed

lemma turn_ok_discard_result:
  assumes "scheduling_draft_discard tx s = (Inr r, s')" "turn_ok tx s"
  shows "turn_ok tx (s'\<lparr>tn_results := tn_results s' @ [DiscardResult r]\<rparr>)"
  using assms(1)
proof (rule discard_call_InrE)
  fix d t assume none: "tn_discarded s = None" "\<not> tn_drafted s" and obs: "observe tx s = (Inr (Some d), t)"
    and s': "s' = t\<lparr>tn_discarded := Some d\<rparr>"
  have t: "turn_ok tx t" "tn_results t = tn_results s"
    using observe_keeps(1,2) [OF obs assms(2)] by (simp_all add: draft_part_def)
  have no: "DraftResult x \<notin> set (tn_results s)" for x
    using assms(2) none(2) by (auto simp: turn_ok_def results_ok_def draft_result_ok_def)
  have "discards_of (tn_results s) = []" using assms(2) none(1) by (simp add: turn_ok_def results_ok_def)
  then have "discards_of (tn_results t @ [DiscardResult r]) = [r]" using t(2) by (simp add: discards_of_def)
  then show ?thesis
    using t no by (simp add: s' turn_ok_def proposals_ok_def observation_ok_def results_ok_def)
qed

lemma other_result_ok:
  assumes "obeys (keeps draft_part) m" "and_then m (\<lambda>x. ret (f x)) s = (Inr r, s')" "turn_ok tx s"
    and "\<forall>x y. f x \<noteq> DraftResult y" "\<forall>x y. f x \<noteq> DiscardResult y"
  shows "turn_ok tx (s'\<lparr>tn_results := tn_results s' @ [r]\<rparr>)"
proof -
  obtain x where x: "m s = (Inr x, s')" "r = f x" using assms(2) by (auto elim!: and_then_InrE dest!: ret_InrD)
  then have "turn_ok tx s'" using turn_ok_cong(1) [OF keepsD [OF assms(1) x(1)]] assms(3) by simp
  then show ?thesis using x(2) assms(4,5) by (intro turn_ok_other_result) auto
qed

lemma handler_result_ok:
  assumes run: "handler tx clock manifest call s = (Inr r, s')" and ok: "turn_ok tx s"
  shows "turn_ok tx (s'\<lparr>tn_results := tn_results s' @ [r]\<rparr>)"
proof -
  show ?thesis
  proof (cases call)
    case (ComputeCall q arguments)
    with run show ?thesis unfolding handler_def by (intro other_result_ok [OF part_compute _ ok]) auto
  next
    case (DraftCall expected ps)
    with run obtain x where "scheduling_draft tx clock manifest expected ps s = (Inr x, s')" "r = DraftResult x"
      by (auto simp: handler_def elim!: and_then_InrE dest!: ret_InrD)
    with draft_call_keeps ok show ?thesis by (metis turn_ok_draft_result)
  next
    case DiscardCall
    with run obtain x where "scheduling_draft_discard tx s = (Inr x, s')" "r = DiscardResult x"
      by (auto simp: handler_def elim!: and_then_InrE dest!: ret_InrD)
    with ok show ?thesis by (simp add: turn_ok_discard_result)
  next
    case (InspectCall request)
    with run show ?thesis unfolding handler_def by (intro other_result_ok [OF part_inspect _ ok]) auto
  next
    case (OptimizeCall pid v key)
    with run show ?thesis unfolding handler_def by (intro other_result_ok [OF part_optimize _ ok]) auto
  next
    case (BaselineCall run_id v)
    with run show ?thesis
      by (auto simp: handler_def scheduling_baseline_def raise_def elim!: and_then_InrE)
  next
    case (DemonstrationCall label n)
    with run show ?thesis unfolding handler_def by (intro other_result_ok [OF part_demonstrate _ ok]) auto
  qed
qed

lemmas turn_ok_calls =
  turn_ok_draft_call keeps_part_turn_ok [OF part_compute] keeps_part_turn_ok [OF part_inspect]
  keeps_part_turn_ok [OF part_optimize] keeps_part_turn_ok [OF part_baseline] keeps_part_turn_ok [OF part_demonstrate]

lemma turn_ok_then_ret: "obeys (preserves (turn_ok tx)) m \<Longrightarrow> obeys (preserves (turn_ok tx)) (and_then m (\<lambda>x. ret (f x)))"
  by (rule inv.obeys_and_then) (auto intro: inv.obeys_ret)

lemma handler_preserves: "call \<noteq> DiscardCall \<Longrightarrow> obeys (preserves (turn_ok tx)) (handler tx clock manifest call)"
  unfolding handler_def by (cases call) (simp_all only: tool_call.case turn_ok_then_ret turn_ok_calls simp_thms)

lemma call_tool_ok:
  assumes "turn_ok tx s"
  shows "turn_ok tx (snd (call_tool tx granted clock call s))"
proof (cases "resolve_granted_capability granted (tool_name call)")
  case None
  then show ?thesis using assms by (simp add: call_tool_def)
next
  case (Some m)
  obtain res s' where run: "handler tx clock (cb_manifest m) call s = (res, s')" by fastforce
  show ?thesis
  proof (cases res)
    case (Inl e)
    have "turn_ok tx s'"
    proof (cases "call = DiscardCall")
      case True
      then have "scheduling_draft_discard tx s = (Inl e, s')"
        using run Inl by (auto simp: handler_def and_then_def ret_def split: prod.splits sum.splits)
      then show ?thesis using turn_ok_discard_refused assms by blast
    next
      case False
      then show ?thesis using preserved [OF handler_preserves run assms] by blast
    qed
    then show ?thesis using Some run Inl by (simp add: call_tool_def)
  next
    case (Inr r)
    have "turn_ok tx (s'\<lparr>tn_results := tn_results s' @ [r]\<rparr>)"
      by (rule handler_result_ok [OF run [unfolded Inr] assms])
    then show ?thesis using Some run Inr by (simp add: call_tool_def)
  qed
qed

section \<open>A run of the runtime\<close>

text \<open>The calls of a turn write no draft.\<close>

lemma tables_of_part: "obeys (keeps draft_part) m \<Longrightarrow> obeys (keeps proposal_tables) m"
  by (simp add: obeys_def keeps_def draft_part_def)

lemma tables_observe: "obeys (keeps proposal_tables) (observe tx)"
  unfolding observe_def observe_with_def observe_working_draft_def get_working_proposal_def
  by (intro keep_rules part_with_error tables_read_one) (simp add: proposal_tables_def)

lemma tables_draft_call: "obeys (keeps proposal_tables) (scheduling_draft tx clock manifest expected ps)"
  unfolding scheduling_draft_def derive_draft_id_def
  by (intro keep_rules part_with_error part_returned_by part_case_prod tables_digest_of tables_observe tables_uuid4)
    (simp add: proposal_tables_def)

lemma tables_discard_call: "obeys (keeps proposal_tables) (scheduling_draft_discard tx)"
  unfolding scheduling_draft_discard_def
  by (intro keep_rules tables_observe) (simp add: proposal_tables_def)

lemmas tables_calls =
  tables_draft_call tables_discard_call tables_of_part [OF part_compute] tables_of_part [OF part_inspect]
  tables_of_part [OF part_optimize] tables_of_part [OF part_baseline] tables_of_part [OF part_demonstrate]

lemma tables_then_ret: "obeys (keeps f) m \<Longrightarrow> obeys (keeps f) (and_then m (\<lambda>x. ret (g x)))"
  by (rule keep.obeys_and_then) (auto intro: keep.obeys_ret)

lemma tables_handler: "obeys (keeps proposal_tables) (handler tx clock manifest call)"
  unfolding handler_def by (cases call) (simp_all only: tool_call.case tables_then_ret tables_calls)

lemma tables_call_tool: "proposal_tables (snd (call_tool tx granted clock call s)) = proposal_tables s"
proof (cases "resolve_granted_capability granted (tool_name call)")
  case (Some m)
  obtain res t where run: "handler tx clock (cb_manifest m) call s = (res, t)" by fastforce
  show ?thesis
    using keepsD [OF tables_handler run] Some run by (cases res) (simp_all add: call_tool_def proposal_tables_def)
qed (simp add: call_tool_def)

fun turn_step_ok :: "'y turn_store_scheme turn_step \<Rightarrow> bool" where
  "turn_step_ok (ToolStep _ _) = True"
| "turn_step_ok (OtherSessions f) = others_ok f"

lemma run_step_ok:
  assumes "turn_step_ok step" "turn_ok tx s"
  shows "turn_ok tx (run_step tx granted step s)"
  using assms by (cases step) (auto intro: call_tool_ok others_turn_ok)

lemma run_step_evolves:
  assumes "turn_step_ok step"
  shows "draft_evolves s (run_step tx granted step s)"
  using assms by (cases step) (auto simp: others_ok_def draft_unchanged tables_call_tool)

lemma run_steps_ok:
  "\<forall>step \<in> set steps. turn_step_ok step \<Longrightarrow> turn_ok tx s \<Longrightarrow> turn_ok tx (fold (run_step tx granted) steps s)"
  by (induction steps arbitrary: s) (auto intro: run_step_ok)

lemma run_steps_evolve:
  "\<forall>step \<in> set steps. turn_step_ok step \<Longrightarrow> draft_evolves s (fold (run_step tx granted) steps s)"
proof (induction steps arbitrary: s)
  case (Cons step steps)
  then show ?case using draft.rel_trans [OF run_step_evolves Cons.IH] by simp
qed (simp add: draft.rel_refl)

lemma new_turn_ok: "proposals_ok s \<Longrightarrow> turn_ok tx (new_turn s)"
  by (simp add: turn_ok_def new_turn_def proposals_ok_def observation_ok_def results_ok_def discards_of_def)

lemma new_turn_evolves: "draft_evolves s (new_turn s)"
  by (rule draft_unchanged) (simp add: new_turn_def proposal_tables_def)

lemma observe_first_ok:
  assumes "observe_first tx route s = (b, s')"
  shows "turn_ok tx s \<Longrightarrow> turn_ok tx s'" and "draft_evolves s s'"
proof -
  obtain r t where o: "observe tx s = (r, t)" by fastforce
  have s': "s' = s \<or> s' = t" using assms o by (cases r) (auto simp: observe_first_def split: if_splits)
  show "turn_ok tx s \<Longrightarrow> turn_ok tx s'" using s' observe_keeps(1) [OF o] by blast
  show "draft_evolves s s'" using s' draft_unchanged [OF keepsD [OF tables_observe o]] draft.rel_refl by blast
qed

section \<open>Binding what the model said\<close>

text \<open>The runtime fills none of the trusted fields of an outcome (\<^verbatim>\<open>contracts/agent_runtime.py\<close>).\<close>

definition untrusted :: "agent_run_outcome_v1 \<Rightarrow> bool" where
  "untrusted oc \<longleftrightarrow> oc_grounded_response oc = None \<and> oc_resolved_clarification oc = None
     \<and> oc_resolved_draft oc = None \<and> oc_resolved_discard oc = None"

lemma results_by_citation_SomeD:
  assumes "results_by_citation results reg cite = Some r"
  shows "r \<in> set results" and "\<exists>i. result_id_of r = Some i \<and> (cite = i \<or> handle_of i reg = Some cite)"
proof -
  have "(cite, r) \<in> set (concat (map (\<lambda>r. case result_id_of r of
         None \<Rightarrow> []
       | Some i \<Rightarrow> (i, r) # (case handle_of i reg of None \<Rightarrow> [] | Some h \<Rightarrow> [(h, r)])) results))"
    using assms unfolding results_by_citation_def by (rule dict_of_SomeD)
  then obtain i where "r \<in> set results" "result_id_of r = Some i"
    "(cite, r) \<in> set ((i, r) # (case handle_of i reg of None \<Rightarrow> [] | Some h \<Rightarrow> [(h, r)]))"
    by (auto split: option.splits; metis)
  then show "r \<in> set results" "\<exists>i. result_id_of r = Some i \<and> (cite = i \<or> handle_of i reg = Some cite)"
    by (auto split: option.splits)
qed

text \<open>A resolved draft is the result the model cited, and a resolved discard the one captured.\<close>

lemma bind_outcome_InrE:
  assumes "bind_outcome tp tx oc s = Inr oc'"
  obtains "oc_status oc \<noteq> TurnCompleted" "oc' = oc"
  | discard c where "oc_status oc = TurnCompleted" "resolve_discard (tn_results s) = Inr discard" "oc_clarification oc = Some c"
      "oc' = oc\<lparr>oc_resolved_discard := discard, oc_resolved_clarification := Some (resolve_clarification c (deps_of tx s))\<rparr>"
  | discard cite r where "oc_status oc = TurnCompleted" "resolve_discard (tn_results s) = Inr discard" "oc_clarification oc = None"
      "oc_draft oc = Some cite" "results_by_citation (tn_results s) (tn_registry s) cite = Some (DraftResult r)"
      "oc' = oc\<lparr>oc_resolved_discard := discard, oc_resolved_draft := Some (write_of_result r)\<rparr>"
  | discard where "oc_status oc = TurnCompleted" "resolve_discard (tn_results s) = Inr discard" "oc_clarification oc = None"
      "oc' = oc\<lparr>oc_resolved_discard := discard, oc_status := TurnFailed, oc_failure_reason := Some ''invalid_output'',
        oc_failure_source := Some AgentSource\<rparr>"
  | discard where "oc_status oc = TurnCompleted" "resolve_discard (tn_results s) = Inr discard" "oc_clarification oc = None"
      "oc' = oc\<lparr>oc_resolved_discard := discard\<rparr>"
  | discard r where "oc_status oc = TurnCompleted" "resolve_discard (tn_results s) = Inr discard" "oc_clarification oc = None"
      "oc' = oc\<lparr>oc_resolved_discard := discard, oc_grounded_response := Some r\<rparr>"
proof (cases "oc_status oc = TurnCompleted")
  case False
  then have "oc' = oc" using assms by (simp add: bind_outcome_def)
  with False show thesis by (rule that(1))
next
  case True
  then obtain discard where d: "resolve_discard (tn_results s) = Inr discard"
    using assms by (cases "resolve_discard (tn_results s)") (simp_all add: bind_outcome_def and_also_def)
  have rest: "(case oc_clarification oc of
          Some c \<Rightarrow> Inr (oc\<lparr>oc_resolved_discard := discard, oc_resolved_clarification := Some (resolve_clarification c (deps_of tx s))\<rparr>)
        | None \<Rightarrow>
            if oc_draft oc \<noteq> None
            then Inr (resolve_draft_citation (oc\<lparr>oc_resolved_discard := discard\<rparr>) (results_by_citation (tn_results s) (tn_registry s)))
            else (case oc_answer oc of
                    None \<Rightarrow> Inr (oc\<lparr>oc_resolved_discard := discard\<rparr>)
                  | Some answer \<Rightarrow> and_also (bind_answer tp tx answer s)
                      (\<lambda>r. Inr (oc\<lparr>oc_resolved_discard := discard, oc_grounded_response := Some r\<rparr>)))) = Inr oc'"
    using assms True d
    by (cases "oc_clarification oc"; cases "oc_draft oc"; cases "oc_answer oc") (simp_all add: bind_outcome_def and_also_def)
  show thesis
  proof (cases "oc_clarification oc")
    case (Some c)
    with rest have "oc' = oc\<lparr>oc_resolved_discard := discard, oc_resolved_clarification := Some (resolve_clarification c (deps_of tx s))\<rparr>"
      by simp
    with True d Some show thesis by (rule that(2))
  next
    case None
    show thesis
    proof (cases "oc_draft oc")
      case (Some cite)
      with rest None have oc': "oc' = resolve_draft_citation (oc\<lparr>oc_resolved_discard := discard\<rparr>) (results_by_citation (tn_results s) (tn_registry s))"
        by simp
      show thesis
      proof (cases "\<exists>r. results_by_citation (tn_results s) (tn_registry s) cite = Some (DraftResult r)")
        case True2: True
        then obtain r where r: "results_by_citation (tn_results s) (tn_registry s) cite = Some (DraftResult r)" by blast
        then have "oc' = oc\<lparr>oc_resolved_discard := discard, oc_resolved_draft := Some (write_of_result r)\<rparr>"
          using oc' Some by (simp add: resolve_draft_citation_def)
        with True d None Some r show thesis by (rule that(3))
      next
        case False
        then have "oc' = oc\<lparr>oc_resolved_discard := discard, oc_status := TurnFailed, oc_failure_reason := Some ''invalid_output'',
            oc_failure_source := Some AgentSource\<rparr>"
          using oc' Some by (auto simp: resolve_draft_citation_def split: option.splits tool_result.splits)
        then show thesis by (rule that(4) [OF True d None])
      qed
    next
      case no: None
      show thesis
      proof (cases "oc_answer oc")
        case None2: None
        then have "oc' = oc\<lparr>oc_resolved_discard := discard\<rparr>" using rest None no by simp
        with True d None show thesis by (rule that(5))
      next
        case (Some answer)
        then have "and_also (bind_answer tp tx answer s)
            (\<lambda>r. Inr (oc\<lparr>oc_resolved_discard := discard, oc_grounded_response := Some r\<rparr>)) = Inr oc'" using rest None no by simp
        then obtain r where "oc' = oc\<lparr>oc_resolved_discard := discard, oc_grounded_response := Some r\<rparr>"
          by (blast dest: and_also_InrD)
        with True d None show thesis by (rule that(6))
      qed
    qed
  qed
qed

end
