(* ===== verification/Turn_Guarantees.thy ===== *)
theory Turn_Guarantees
  imports Turn_Memory
begin

text \<open>
  What a turn guarantees, whatever the model says, whichever tools it calls and whatever other sessions do meanwhile: it
  writes only what its tools returned, it follows the rules of the drafts, the status it ends with is the one it shows, and a
  turn of a special route has no tools.
\<close>

section \<open>What is bound\<close>

lemma resolve_discard_InrD:
  assumes "resolve_discard results = Inr discard"
  shows "(discard = None \<and> discards_of results = []) \<or> (\<exists>x. discards_of results = [x]
    \<and> discard = Some \<lparr>dd_proposal_id = sc_proposal_id x, dd_observed_resource_version = sc_observed_resource_version x,
                       dd_version_ordinal = sc_version_ordinal x\<rparr>)"
  using assms by (auto simp: resolve_discard_def split: list.splits)

lemma resolve_discard_returns:
  assumes "turn_ok tx s"
  shows "\<exists>discard. resolve_discard (tn_results s) = Inr discard"
proof -
  have "length (discards_of (tn_results s)) \<le> 1" using assms by (simp add: turn_ok_def results_ok_def)
  then show ?thesis by (auto simp: resolve_discard_def split: list.splits)
qed

lemma bound_draft:
  assumes "bind_outcome tp tx oc s = Inr oc'" "untrusted oc" "oc_resolved_draft oc' = Some w"
  obtains cite r where "oc_status oc = TurnCompleted" "oc_draft oc = Some cite"
    "results_by_citation (tn_results s) (tn_registry s) cite = Some (DraftResult r)" "w = write_of_result r"
  using assms(1)
proof (cases rule: bind_outcome_InrE)
  case (3 discard cite r)
  then show thesis using assms(3) that by auto
qed (use assms in \<open>auto simp: untrusted_def\<close>)

lemma bound_discard:
  assumes "bind_outcome tp tx oc s = Inr oc'" "untrusted oc" "oc_resolved_discard oc' = Some d"
  shows "\<exists>x. discards_of (tn_results s) = [x] \<and> d = \<lparr>dd_proposal_id = sc_proposal_id x,
    dd_observed_resource_version = sc_observed_resource_version x, dd_version_ordinal = sc_version_ordinal x\<rparr>"
proof -
  have "resolve_discard (tn_results s) = Inr (Some d)"
    using assms(1) by (cases rule: bind_outcome_InrE) (use assms(2,3) in \<open>auto simp: untrusted_def\<close>)
  then show ?thesis using resolve_discard_InrD by fastforce
qed

lemma payload_draftD:
  "activity_payload_of tx oc = TurnDraft w \<Longrightarrow> oc_resolved_draft oc = Some w"
  by (auto simp: activity_payload_of_def split: option.splits)

lemma cited_draft_ok:
  assumes "turn_ok tx s" "results_by_citation (tn_results s) (tn_registry s) cite = Some (DraftResult r)"
  shows "DraftResult r \<in> set (tn_results s)" and "draft_result_ok tx s r"
    and "cite = sd_result_id r \<or> handle_of (sd_result_id r) (tn_registry s) = Some cite"
  using assms results_by_citation_SomeD [OF assms(2)] by (auto simp: turn_ok_def results_ok_def result_id_of_def)

section \<open>A whole turn\<close>

definition turn_run_ok :: "'y turn_store_scheme turn_run \<Rightarrow> bool" where
  "turn_run_ok run \<longleftrightarrow> others_ok (ru_before run) \<and> others_ok (ru_after run) \<and> (\<forall>step \<in> set (ru_steps run). turn_step_ok step)
     \<and> (\<forall>oc. ru_result run = Inr oc \<longrightarrow> untrusted oc)"

lemma failed_for_exception_writes_nothing:
  "oc_resolved_draft (failed_outcome_for_exception e) = None"
  by (simp add: failed_outcome_for_exception_def failed_outcome_def plain_outcome_def split: turn_exception.splits)

lemma turn_outcome_ok:
  assumes run: "turn_run_ok run" and out: "turn_outcome tp claimed run s = (oc, s')" and ok: "turn_ok (turn_context_of tp claimed) s"
  shows "draft_evolves s s'" and "oc_resolved_draft oc = Some w \<Longrightarrow> write_bound w"
proof -
  let ?tx = "turn_context_of tp claimed"
  let ?route = "decide_route tp (cl_prompt claimed) (cl_history claimed)"
  obtain b s1 where first: "observe_first ?tx ?route s = (b, s1)" by fastforce
  have s1: "turn_ok ?tx s1" "draft_evolves s s1" using observe_first_ok [OF first] ok by blast+
  have "draft_evolves s s' \<and> (\<forall>w. oc_resolved_draft oc = Some w \<longrightarrow> write_bound w)"
  proof (cases "\<exists>granted. b \<and> turn_granted tp claimed ?route = Inr granted")
    case False
    then show ?thesis
      using out first s1 by (auto simp: turn_outcome_def Let_def failed_for_exception_writes_nothing split: sum.splits if_splits)
  next
    case True
    then obtain granted where g: "b" "turn_granted tp claimed ?route = Inr granted" by blast
    let ?s2 = "fold (run_step ?tx granted) (ru_steps run) s1"
    have s': "s' = ?s2" using out first g by (auto simp: turn_outcome_def Let_def split: sum.splits)
    have steps: "\<forall>step \<in> set (ru_steps run). turn_step_ok step" using run by (simp add: turn_run_ok_def)
    have ok2: "turn_ok ?tx ?s2" by (rule run_steps_ok [OF steps s1(1)])
    have "write_bound w" if w: "oc_resolved_draft oc = Some w" for w
    proof -
      obtain raw where raw: "ru_result run = Inr raw" "bind_outcome tp ?tx raw ?s2 = Inr oc"
        using out first g w
        by (auto simp: turn_outcome_def Let_def failed_for_exception_writes_nothing and_also_def split: sum.splits)
      have "untrusted raw" using raw(1) run by (simp add: turn_run_ok_def)
      from raw(2) this w show ?thesis
      proof (rule bound_draft)
        fix cite r assume "results_by_citation (tn_results ?s2) (tn_registry ?s2) cite = Some (DraftResult r)" "w = write_of_result r"
        then show ?thesis using cited_draft_ok(2) [OF ok2] by (auto simp: draft_result_ok_def)
      qed
    qed
    moreover have "draft_evolves s s'" unfolding s' by (rule draft.rel_trans [OF s1(2) run_steps_evolve [OF steps]])
    ultimately show ?thesis by blast
  qed
  then show "draft_evolves s s'" "oc_resolved_draft oc = Some w \<Longrightarrow> write_bound w" by blast+
qed

lemma catching_evolves:
  assumes "obeys (keeps proposal_tables) m" and "catching m h s = (Inr x, s')"
    and "\<And>e m' t. h e = Some m' \<Longrightarrow> m' t = (Inr x, s') \<Longrightarrow> draft_evolves t s'"
  shows "draft_evolves s s'"
proof -
  obtain r t where m: "m s = (r, t)" by fastforce
  have st: "draft_evolves s t" by (rule draft_unchanged [OF keepsD [OF assms(1) m]])
  show ?thesis
  proof (cases r)
    case (Inl e)
    then obtain m' where "h e = Some m'" "m' t = (Inr x, s')"
      using assms(2) m by (auto simp: catching_def split: option.splits)
    then show ?thesis using draft.rel_trans [OF st assms(3)] by blast
  next
    case (Inr y)
    then show ?thesis using assms(2) m st by (simp add: catching_def)
  qed
qed

lemma pending_request_same: "pending_request tp call s = (Inr x, s') \<Longrightarrow> s' = s"
  by (auto simp: pending_request_def ret_def raise_def split: option.splits json.splits)

lemma suspend_turn_evolves:
  assumes ran: "suspend_turn tp site claimed oc req s = (Inr r, s')"
    and bound: "turn_bound site claimed (activity_payload_of (turn_context_of tp claimed) oc)"
  shows "draft_evolves s s'"
proof -
  let ?cancelled = "finalize_agent_run site claimed AgentCancelled (activity_payload_of (turn_context_of tp claimed) oc) None req"
  have cancelled: "?cancelled t = (Inr x, t') \<Longrightarrow> draft_evolves t t'" for t t' x
    using finalize_agent_run_evolves [OF _ bound] .
  obtain call where call: "oc_approval oc = Some [call]"
    using ran by (auto simp: suspend_turn_def Let_def raise_def split: option.splits list.splits)
  show ?thesis
  proof (cases "tq_tool_name call = ''scheduling_baseline''")
    case False
    then show ?thesis using ran call by (simp add: suspend_turn_def Let_def cancelled)
  next
    case True
    then obtain request where caught: "catching
                 (and_then (reading (get_run (fst request) (cl_site_id claimed))) (\<lambda>found. case found of
                    None \<Rightarrow> raise CandidateNotFoundError
                  | Some r \<Rightarrow>
                      and_then (request_approval (tp_hashing tp) (tp_baseline_enabled tp) (tp_approval_expiry_seconds tp)
                                  (approval_command claimed req call request (rv_resource_version r)))
                        (\<lambda>(_, activity). ret activity)))
                 (\<lambda>e. if is_approval_request_error e then Some ?cancelled else None) s = (Inr r, s')"
      using ran call by (auto simp: suspend_turn_def Let_def elim!: and_then_InrE dest!: pending_request_same)
    show ?thesis
      by (rule catching_evolves [OF _ caught])
        (auto intro!: keep_rules tables_request_approval part_case_prod intro: cancelled split: if_splits)
  qed
qed

lemma finish_turn_evolves:
  assumes "finish_turn tp site claimed oc req s = (Inr r, s')" "cl_site_id claimed = site"
    and "\<And>w. oc_resolved_draft oc = Some w \<Longrightarrow> write_bound w"
  shows "draft_evolves s s'"
proof -
  have bound: "turn_bound site claimed (activity_payload_of (turn_context_of tp claimed) oc)"
    using assms(2,3) payload_draftD by (auto simp: turn_bound_def split: turn_payload.splits)
  show ?thesis
    using assms(1) suspend_turn_evolves [OF _ bound] finalize_agent_run_evolves [OF _ bound]
    by (auto simp: finish_turn_def Let_def split: if_splits)
qed

lemma claim_queued_run_InrD:
  assumes "claim_queued_run site conv run_id s = (Inr (Some claimed), s')"
  shows "cl_site_id claimed = site" and "cl_conversation_id claimed = conv" and "cl_agent_run_id claimed = run_id"
  using assms unfolding claim_queued_run_def and_then_reading
  by (auto elim!: and_then_InrE dest!: ret_InrD simp: find_conversation_def ret_def dest: find_SomeD
      split: option.splits prod.splits if_splits)

lemma tables_claim_queued_run: "obeys (keeps proposal_tables) (claim_queued_run site conv run_id)"
  unfolding claim_queued_run_def
  by (intro keep_rules part_case_prod) (auto simp: set_agent_run_def intro!: keep_rules simp: proposal_tables_def)

lemma turn_evolves:
  assumes "turn_run_ok run" "proposals_ok s"
  shows "draft_evolves s (snd (execute_agent_turn tp site conv run_id req run s))"
proof -
  obtain found t where claim: "transaction (claim_queued_run site conv run_id) s = (found, t)" by fastforce
  have st: "draft_evolves s t"
    by (rule draft_unchanged [OF keepsD [OF keep.obeys_transaction [OF tables_claim_queued_run] claim]])
  show ?thesis
  proof (cases "\<exists>claimed. found = Inr (Some claimed)")
    case False
    then show ?thesis
      using claim st by (auto simp: execute_agent_turn_def split: sum.splits option.splits app_error.splits)
  next
    case True
    then obtain claimed where found: "found = Inr (Some claimed)" by blast
    have ran: "claim_queued_run site conv run_id s = (Inr (Some claimed), t)"
      using claim found by (auto simp: transaction_def split: prod.splits sum.splits)
    let ?t1 = "new_turn (ru_before run t)"
    obtain oc u where out: "turn_outcome tp claimed run ?t1 = (oc, u)" by fastforce
    obtain r v where fin: "transaction (finish_turn tp site claimed oc req) (ru_after run u) = (r, v)" by fastforce
    have eq: "snd (execute_agent_turn tp site conv run_id req run s) = v"
      using claim found out fin by (simp add: execute_agent_turn_def run_claimed_def)
    have before: "draft_evolves t (ru_before run t)" and after: "draft_evolves u (ru_after run u)"
      using assms(1) by (simp_all add: turn_run_ok_def others_ok_def)
    have "proposals_ok (ru_before run t)" using assms(2) st before by (simp add: draft_evolves_def)
    then have ok: "turn_ok (turn_context_of tp claimed) ?t1" by (rule new_turn_ok)
    have turn: "draft_evolves ?t1 u" "\<And>w. oc_resolved_draft oc = Some w \<Longrightarrow> write_bound w"
      using turn_outcome_ok [OF assms(1) out ok] by blast+
    have "draft_evolves (ru_after run u) v"
      using obeysD [OF draft_transaction fin] finish_turn_evolves claim_queued_run_InrD(1) [OF ran] turn(2) by blast
    then show ?thesis
      unfolding eq
      using draft.rel_trans [OF st draft.rel_trans [OF before draft.rel_trans [OF new_turn_evolves draft.rel_trans [OF turn(1) draft.rel_trans [OF after]]]]]
      by blast
  qed
qed

lemma ended_rows_stay:
  assumes "draft_evolves s t" "proposals_ok s" "p \<in> set (gv_proposals s)" "pr_state p \<noteq> ProposalActive"
  shows "p \<in> set (gv_proposals t)" and "set (gv_proposal_versions s) \<subseteq> set (gv_proposal_versions t)"
proof -
  have ev: "table_evolves draft_row_evolves (gv_proposals s) (gv_proposals t)" "appended (gv_proposal_versions s) (gv_proposal_versions t)"
    using assms(1,2) by (simp_all add: draft_evolves_def)
  obtain old new where t: "gv_proposals t = old @ new" "list_all2 draft_row_evolves (gv_proposals s) old"
    using ev(1) by (auto simp: table_evolves_def)
  obtain i where "i < length (gv_proposals s)" "gv_proposals s ! i = p" using assms(3) by (auto simp: in_set_conv_nth)
  then have "old ! i = p" "i < length old" using t(2) assms(4) by (auto simp: list_all2_conv_all_nth draft_row_evolves_def)
  then show "p \<in> set (gv_proposals t)" using t(1) by auto
  show "set (gv_proposal_versions s) \<subseteq> set (gv_proposal_versions t)" using ev(2) by (auto simp: appended_def)
qed

section \<open>How a turn ends\<close>

text \<open>What is stored of a turn: its event and the status of its row.\<close>

definition turn_recorded :: "uuid \<Rightarrow> uuid \<Rightarrow> executed_agent_run_v1 \<Rightarrow> agent_run_status \<Rightarrow> 'x governed_store_scheme \<Rightarrow> bool" where
  "turn_recorded site run_id x status s \<longleftrightarrow> ea_agent_run_status x = Some status
     \<and> map_option ag_status (find_agent_run site run_id s) = Some status
     \<and> ea_event x \<in> set (gv_activities s) \<and> ca_agent_run_id (ea_event x) = Some run_id"

definition shows_status :: "uuid \<Rightarrow> agent_run_outcome_v1 \<Rightarrow> agent_run_status \<Rightarrow> activity_payload \<Rightarrow> bool" where
  "shows_status run_id oc status payload \<longleftrightarrow> (case payload of
        ClarificationActivity c \<Rightarrow> status = AgentCompleted \<and> oc_resolved_clarification oc = Some c
      | AgentResponseActivity r \<Rightarrow> status = AgentCompleted \<and> oc_grounded_response oc = Some r
      | DraftActivity pid vid text \<Rightarrow> status = AgentCompleted \<and> (\<exists>w. oc_resolved_draft oc = Some w
          \<and> pp_proposal_id (dw_proposal w) = Some pid \<and> pp_proposal_version_id (dw_proposal w) = Some vid)
      | ApprovalRequestActivity b \<Rightarrow> status = ApprovalRequired \<and> oc_status oc = TurnSuspended \<and> ab_state b = ApprovalPending
          \<and> ab_agent_run_id b = Some run_id
      | TerminalOutcomeActivity t \<Rightarrow> (to_status t, status) \<in> {(''completed'', AgentCompleted), (''failed'', AgentFailed),
            (''timed_out'', AgentTimedOut), (''suspended'', AgentCancelled)}
          \<and> (status = AgentCompleted \<longrightarrow> to_reason t = Refused) \<and> (status = AgentCancelled \<longrightarrow> to_reason t = ApprovalNotGrantable)
      | PlannerMessageActivity _ _ \<Rightarrow> False)"

text \<open>The same of what a turn is going to show, for the status it is finished with.\<close>

definition ending_status :: "agent_run_outcome_v1 \<Rightarrow> agent_run_status" where
  "ending_status oc = (if oc_status oc = TurnSuspended then AgentCancelled else terminal_status oc)"

definition fits_status :: "turn_context \<Rightarrow> agent_run_outcome_v1 \<Rightarrow> bool" where
  "fits_status tx oc \<longleftrightarrow> (case activity_payload_of tx oc of
      TurnDraft w \<Rightarrow> ending_status oc = AgentCompleted \<and> oc_resolved_draft oc = Some w
    | TurnActivity a \<Rightarrow> (\<forall>b. a \<noteq> ApprovalRequestActivity b) \<and> (\<forall>run_id. shows_status run_id oc (ending_status oc) a))"

lemmas fit_simps = fits_status_def shows_status_def ending_status_def activity_payload_of_def terminal_outcome_def terminal_status_def
  failed_terminal_def agent_terminal_def completed_terminal_def produced_def visible_response_def get_or_def

lemma bound_outcome_fits:
  assumes "untrusted oc" and "bind_outcome tp tx oc s = Inr oc'"
  shows "fits_status tx oc'"
  using assms(2)
proof (cases rule: bind_outcome_InrE)
  case 1
  then show ?thesis using assms(1) by (cases "oc_status oc") (simp_all add: fit_simps untrusted_def Let_def split: prod.split)
next
  case (2 discard c)
  then show ?thesis by (simp add: fit_simps)
next
  case (3 discard cite r)
  then show ?thesis using assms(1) by (simp add: fit_simps untrusted_def)
next
  case (4 discard)
  then show ?thesis using assms(1) by (simp add: fit_simps untrusted_def Let_def)
next
  case (5 discard)
  then show ?thesis using assms(1) by (cases "oc_refusal oc") (simp_all add: fit_simps untrusted_def)
next
  case (6 discard r)
  then show ?thesis using assms(1) by (cases "oc_refusal oc") (simp_all add: fit_simps untrusted_def)
qed

lemma failed_outcome_fits: "fits_status tx (failed_outcome_for_exception e)"
  by (cases e) (simp_all add: fit_simps failed_outcome_for_exception_def failed_outcome_def plain_outcome_def Let_def)

lemma turn_outcome_fits:
  assumes "turn_run_ok run" and "turn_outcome tp claimed run s = (oc, s')"
  shows "fits_status (turn_context_of tp claimed) oc"
  using assms bound_outcome_fits
  by (auto simp: turn_outcome_def turn_run_ok_def Let_def failed_outcome_fits and_also_def split: prod.splits sum.splits if_splits)

text \<open>The writes after a run has ended touch neither its row nor its event.\<close>

definition turn_rows :: "'x governed_store_scheme \<Rightarrow> agent_run_row list \<times> conversation_activity list" where
  "turn_rows s = (gv_agent_runs s, gv_activities s)"

lemma rows_update_proposal: "obeys (keeps turn_rows) (update_proposal site p f)"
  unfolding update_proposal_def by (intro keep_rules) (simp add: turn_rows_def)

lemma rows_insert_version: "obeys (keeps turn_rows) (insert_proposal_version site proposal vid pid ordinal)"
  unfolding insert_proposal_version_def by (intro keep_rules) (simp add: turn_rows_def)

lemma rows_end_by_assistant: "obeys (keeps turn_rows) (end_by_assistant site pid v)"
  unfolding end_by_assistant_def by (rule rows_update_proposal)

lemma rows_write_draft: "obeys (keeps turn_rows) (write_draft claimed w)"
  unfolding write_draft_def create_draft_def append_agent_version_def
  by (auto intro!: keep_rules rows_update_proposal rows_insert_version simp: turn_rows_def split: option.splits)

lemma recorded_kept: "turn_recorded site run_id x status s \<Longrightarrow> turn_rows s' = turn_rows s \<Longrightarrow> turn_recorded site run_id x status s'"
  by (simp add: turn_recorded_def turn_rows_def find_agent_run_def)

lemma find_updated:
  "find p (update_rows p f rows) = map_option f (find p rows)" if "\<And>r. p r \<Longrightarrow> p (f r)"
  using that by (induction rows) (auto simp: update_rows_def)

lemma append_activity_InrD:
  assumes "append_activity c sid vid et now req run site actor payload s = (Inr e, s')"
  shows "e \<in> set (gv_activities s')" and "ca_agent_run_id e = run" and "ca_payload e = payload" and "gv_agent_runs s' = gv_agent_runs s"
  using assms by (auto simp: append_activity_def Let_def uuid4_def and_then_def reading_def writing_def ret_def)

lemma require_agent_status_InrD:
  "require_agent_status site run_id status s = (Inr v, s') \<Longrightarrow> s' = s \<and> map_option ag_status (find_agent_run site run_id s) = Some status"
  by (auto simp: require_agent_status_def and_then_def reading_def raise_if_def raise_def ret_def split: if_splits)

lemma finish_agent_run_records:
  assumes "finish_agent_run site claimed status payload req s = (Inr x, s')"
  shows "turn_recorded site (cl_agent_run_id claimed) x status s' \<and> ca_payload (ea_event x) = payload"
proof -
  obtain conv e t where req: "map_option ag_status (find_agent_run site (cl_agent_run_id claimed) s) = Some AgentRunning"
    and t: "t = s\<lparr>gv_agent_runs := update_rows (\<lambda>a. ag_id a = cl_agent_run_id claimed \<and> ag_site_id a = site)
         (\<lambda>a. a\<lparr>ag_status := status\<rparr>) (gv_agent_runs s)\<rparr>"
    and app: "append_activity conv (cl_scenario_id claimed) (cl_scenario_version_id claimed) (activity_name payload) (st_now s) req
        (Some (cl_agent_run_id claimed)) (cl_site_id claimed) (cl_actor_id claimed) payload t = (Inr e, s')"
    and x: "x = \<lparr>ea_event = e, ea_resource_version = cv_resource_version conv + 1, ea_agent_run_status = Some status\<rparr>"
    using assms unfolding finish_agent_run_def set_agent_run_def lock_conversation_def
    by (auto simp: reading_def writing_def raise_def elim!: and_then_InrE dest!: ret_InrD require_agent_status_InrD split: option.splits)
  have "map_option ag_status (find_agent_run site (cl_agent_run_id claimed) t) = Some status"
    using req by (auto simp: find_agent_run_def t find_updated)
  then show ?thesis
    using append_activity_InrD [OF app] by (simp add: turn_recorded_def x find_agent_run_def)
qed

lemma guarded_turn_records:
  assumes "guarded_turn site claimed status display draft discard req s = (Inr x, s')"
  shows "(turn_recorded site (cl_agent_run_id claimed) x status s' \<and> ca_payload (ea_event x) = display)
    \<or> (turn_recorded site (cl_agent_run_id claimed) x AgentFailed s' \<and> ca_payload (ea_event x) = draft_changed)"
proof -
  obtain working t where "(if turn_applies draft discard working
    then apply_turn site claimed status display draft discard req
    else finish_agent_run site claimed AgentFailed draft_changed req) t = (Inr x, s')"
    using assms unfolding guarded_turn_def by (elim and_then_InrE) blast
  then consider "finish_agent_run site claimed AgentFailed draft_changed req t = (Inr x, s')"
    | "apply_turn site claimed status display draft discard req t = (Inr x, s')"
    by (auto split: if_splits)
  then show ?thesis
  proof cases
    case 1
    then show ?thesis using finish_agent_run_records by blast
  next
    case 2
    then obtain t1 t2 u u' where fin: "finish_agent_run site claimed status display req t = (Inr x, t1)"
      and ended: "(case discard of None \<Rightarrow> ret ()
        | Some d \<Rightarrow> end_by_assistant site (dd_proposal_id d) (dd_observed_resource_version d + 1)) t1 = (Inr u, t2)"
      and written: "(case draft of None \<Rightarrow> ret () | Some w \<Rightarrow> write_draft claimed w) t2 = (Inr u', s')"
      unfolding apply_turn_def by (auto elim!: and_then_InrE dest!: ret_InrD)
    have "turn_rows t2 = turn_rows t1"
      using ended keepsD [OF rows_end_by_assistant] by (auto simp: ret_def split: option.splits)
    moreover have "turn_rows s' = turn_rows t2"
      using written keepsD [OF rows_write_draft] by (auto simp: ret_def split: option.splits)
    ultimately show ?thesis using finish_agent_run_records [OF fin] recorded_kept by metis
  qed
qed

lemma finalize_agent_run_records:
  assumes "finalize_agent_run site claimed status payload discard req s = (Inr x, s')"
  shows "\<exists>display. (case payload of TurnActivity a \<Rightarrow> display = a
      | TurnDraft w \<Rightarrow> (\<exists>pid vid. pp_proposal_id (dw_proposal w) = Some pid \<and> pp_proposal_version_id (dw_proposal w) = Some vid
          \<and> display = DraftActivity pid vid (pp_consequence_summary (dw_proposal w))))
    \<and> ((turn_recorded site (cl_agent_run_id claimed) x status s' \<and> ca_payload (ea_event x) = display)
       \<or> (turn_recorded site (cl_agent_run_id claimed) x AgentFailed s' \<and> ca_payload (ea_event x) = draft_changed))"
proof -
  obtain display t where sh: "shown_payload payload s = (Inr display, t)"
    and rest: "(case (payload, discard) of
       (TurnActivity _, None) \<Rightarrow> finish_agent_run site claimed status display req
     | (TurnActivity _, Some _) \<Rightarrow> guarded_turn site claimed status display None discard req
     | (TurnDraft w, _) \<Rightarrow> guarded_turn site claimed status display (Some w) discard req) t = (Inr x, s')"
    using assms unfolding finalize_agent_run_def by (elim and_then_InrE) blast
  have "case payload of TurnActivity a \<Rightarrow> display = a
      | TurnDraft w \<Rightarrow> (\<exists>pid vid. pp_proposal_id (dw_proposal w) = Some pid \<and> pp_proposal_version_id (dw_proposal w) = Some vid
          \<and> display = DraftActivity pid vid (pp_consequence_summary (dw_proposal w)))"
    using sh by (auto simp: shown_payload_def ret_def raise_def split: turn_payload.splits option.splits)
  moreover have "(turn_recorded site (cl_agent_run_id claimed) x status s' \<and> ca_payload (ea_event x) = display)
       \<or> (turn_recorded site (cl_agent_run_id claimed) x AgentFailed s' \<and> ca_payload (ea_event x) = draft_changed)"
    using rest finish_agent_run_records guarded_turn_records by (cases payload; cases discard) fastforce+
  ultimately show ?thesis by blast
qed

lemma draft_changed_shown: "shows_status run_id oc AgentFailed draft_changed"
  by (simp add: shows_status_def draft_changed_def)

lemma finalized_shows:
  assumes "finalize_agent_run site claimed (ending_status oc) (activity_payload_of (turn_context_of tp claimed) oc) discard req s = (Inr x, s')"
    and "fits_status (turn_context_of tp claimed) oc"
  shows "\<exists>status. turn_recorded site (cl_agent_run_id claimed) x status s'
    \<and> shows_status (cl_agent_run_id claimed) oc status (ca_payload (ea_event x))"
proof -
  obtain display where shown: "case activity_payload_of (turn_context_of tp claimed) oc of TurnActivity a \<Rightarrow> display = a
      | TurnDraft w \<Rightarrow> (\<exists>pid vid. pp_proposal_id (dw_proposal w) = Some pid \<and> pp_proposal_version_id (dw_proposal w) = Some vid
          \<and> display = DraftActivity pid vid (pp_consequence_summary (dw_proposal w)))"
    and rec: "(turn_recorded site (cl_agent_run_id claimed) x (ending_status oc) s' \<and> ca_payload (ea_event x) = display)
       \<or> (turn_recorded site (cl_agent_run_id claimed) x AgentFailed s' \<and> ca_payload (ea_event x) = draft_changed)"
    using finalize_agent_run_records [OF assms(1)] by blast
  have "shows_status (cl_agent_run_id claimed) oc (ending_status oc) display"
    using assms(2) shown by (auto simp: fits_status_def shows_status_def split: turn_payload.splits)
  then show ?thesis using rec draft_changed_shown by metis
qed

text \<open>What every successful run of an action ends in.\<close>

definition ends_in :: "('a \<Rightarrow> 's \<Rightarrow> bool) \<Rightarrow> ('s, 'e, 'a) action \<Rightarrow> bool" where
  "ends_in P m \<longleftrightarrow> (\<forall>s r s'. m s = (Inr r, s') \<longrightarrow> P r s')"

lemma ends_in_and_then: "(\<And>x. ends_in P (k x)) \<Longrightarrow> ends_in P (and_then m k)"
  by (auto simp: ends_in_def elim!: and_then_InrE)

lemma ends_in_raise: "ends_in P (raise e)"
  by (simp add: ends_in_def raise_def)

lemma ends_in_option: "ends_in P m \<Longrightarrow> (\<And>x. ends_in P (f x)) \<Longrightarrow> ends_in P (case v of None \<Rightarrow> m | Some x \<Rightarrow> f x)"
  by (cases v) auto

lemma append_approval_activity_InrD:
  assumes "append_approval_activity site b actor req run now status s = (Inr x, s')"
  shows "ea_event x \<in> set (gv_activities s')" and "ca_agent_run_id (ea_event x) = run"
    and "ca_payload (ea_event x) = ApprovalRequestActivity b" and "gv_agent_runs s' = gv_agent_runs s"
proof -
  obtain conv e where app: "append_activity conv (cv_scenario_id conv) (cv_scenario_version_id conv) ''approval_request'' now req run (ab_site_id b) actor
      (ApprovalRequestActivity b) s = (Inr e, s')" and x: "ea_event x = e"
    using assms unfolding append_approval_activity_def lock_conversation_def
    by (auto simp: reading_def raise_def elim!: and_then_InrE dest!: ret_InrD split: option.splits)
  show "ea_event x \<in> set (gv_activities s')" "ca_agent_run_id (ea_event x) = run"
    "ca_payload (ea_event x) = ApprovalRequestActivity b" "gv_agent_runs s' = gv_agent_runs s"
    unfolding x using append_activity_InrD [OF app] by simp_all
qed

lemma pause_agent_run_records:
  assumes "pause_agent_run_for_approval site run_id b req s = (Inr x, s')"
  shows "turn_recorded site run_id x ApprovalRequired s' \<and> ca_payload (ea_event x) = ApprovalRequestActivity b"
proof -
  obtain y t where req: "map_option ag_status (find_agent_run site run_id s) = Some AgentRunning"
    and app: "append_approval_activity site b (ab_initiated_by_actor_id b) req (Some run_id) (ab_created_at b) None s = (Inr y, t)"
    and s': "s' = t\<lparr>gv_agent_runs := update_rows (\<lambda>a. ag_id a = run_id \<and> ag_site_id a = site)
         (\<lambda>a. a\<lparr>ag_status := ApprovalRequired\<rparr>) (gv_agent_runs t)\<rparr>"
    and x: "x = y\<lparr>ea_agent_run_status := Some ApprovalRequired\<rparr>"
    using assms unfolding pause_agent_run_for_approval_def set_agent_run_def lock_conversation_def
    by (auto simp: reading_def writing_def raise_def elim!: and_then_InrE dest!: ret_InrD require_agent_status_InrD split: option.splits)
  have "map_option ag_status (find_agent_run site run_id s') = Some ApprovalRequired"
    using req append_approval_activity_InrD(4) [OF app] by (auto simp: find_agent_run_def s' find_updated)
  then show ?thesis
    using append_approval_activity_InrD [OF app] by (simp add: turn_recorded_def x s' find_agent_run_def)
qed

lemma request_approval_pauses:
  assumes "ra_agent_run_id c = Some run_id"
  shows "ends_in (\<lambda>(b, x) s. turn_recorded (ra_site_id c) run_id x ApprovalRequired s \<and> ca_payload (ea_event x) = ApprovalRequestActivity b
    \<and> ab_state b = ApprovalPending \<and> ab_agent_run_id b = Some run_id) (request_approval h enabled expiry c)"
proof -
  have last: "ends_in (\<lambda>(b, x) s. turn_recorded (ra_site_id c) run_id x ApprovalRequired s \<and> ca_payload (ea_event x) = ApprovalRequestActivity b
      \<and> ab_state b = ApprovalPending \<and> ab_agent_run_id b = Some run_id)
    (and_then (pause_agent_run_for_approval (ra_site_id c) run_id (new_binding h c candidate vid aid baseline ph ch now expiry enabled) req)
       (\<lambda>activity. ret (new_binding h c candidate vid aid baseline ph ch now expiry enabled, activity)))"
    for candidate vid aid baseline ph ch now req
    using assms by (auto simp: ends_in_def new_binding_def elim!: and_then_InrE dest!: ret_InrD pause_agent_run_records)
  show ?thesis
    unfolding request_approval_def Let_def assms option.case
    by (intro ends_in_option ends_in_raise last | rule ends_in_and_then)+
qed

lemma finish_turn_shows:
  assumes "finish_turn tp site claimed oc req s = (Inr x, s')" and "cl_site_id claimed = site"
    and fits: "fits_status (turn_context_of tp claimed) oc"
  shows "\<exists>status. turn_recorded site (cl_agent_run_id claimed) x status s'
    \<and> shows_status (cl_agent_run_id claimed) oc status (ca_payload (ea_event x))"
proof (cases "oc_status oc = TurnSuspended")
  case False
  then show ?thesis
    using assms(1) finalized_shows [OF _ fits] by (simp add: finish_turn_def Let_def ending_status_def)
next
  case True
  let ?cancelled = "finalize_agent_run site claimed AgentCancelled (activity_payload_of (turn_context_of tp claimed) oc) None req"
  have cancelled: "?thesis" if "?cancelled t = (Inr x, s')" for t
    using finalized_shows [OF _ fits] that True by (simp add: ending_status_def)
  have susp: "suspend_turn tp site claimed oc req s = (Inr x, s')" using assms(1) True by (simp add: finish_turn_def)
  obtain call where call: "oc_approval oc = Some [call]"
    using susp by (auto simp: suspend_turn_def Let_def raise_def split: option.splits list.splits)
  show ?thesis
  proof (cases "tq_tool_name call = ''scheduling_baseline''")
    case False
    then show ?thesis using susp call cancelled by (simp add: suspend_turn_def Let_def)
  next
    case baseline: True
    let ?request = "\<lambda>request. and_then (reading (get_run (fst request) (cl_site_id claimed))) (\<lambda>found. case found of
        None \<Rightarrow> raise CandidateNotFoundError
      | Some r \<Rightarrow> and_then (request_approval (tp_hashing tp) (tp_baseline_enabled tp) (tp_approval_expiry_seconds tp)
                    (approval_command claimed req call request (rv_resource_version r))) (\<lambda>(_, activity). ret activity))"
    obtain request where caught: "catching (?request request) (\<lambda>e. if is_approval_request_error e then Some ?cancelled else None) s = (Inr x, s')"
      using susp call baseline by (auto simp: suspend_turn_def Let_def elim!: and_then_InrE dest!: pending_request_same)
    obtain r t where ran: "?request request s = (r, t)" by fastforce
    show ?thesis
    proof (cases r)
      case (Inl e)
      then show ?thesis using caught ran cancelled by (auto simp: catching_def split: if_splits)
    next
      case (Inr y)
      then have "?request request s = (Inr x, s')" using caught ran by (simp add: catching_def)
      then obtain b n t1 where req: "request_approval (tp_hashing tp) (tp_baseline_enabled tp) (tp_approval_expiry_seconds tp)
          (approval_command claimed req call request n) t1 = (Inr (b, x), s')"
        by (auto simp: raise_def elim!: and_then_InrE dest!: ret_InrD split: option.splits)
      have "ra_agent_run_id (approval_command claimed req call request n) = Some (cl_agent_run_id claimed)"
        "ra_site_id (approval_command claimed req call request n) = site"
        using assms(2) by (simp_all add: approval_command_def)
      then have "turn_recorded site (cl_agent_run_id claimed) x ApprovalRequired s' \<and> ca_payload (ea_event x) = ApprovalRequestActivity b
          \<and> ab_state b = ApprovalPending \<and> ab_agent_run_id b = Some (cl_agent_run_id claimed)"
        using request_approval_pauses req unfolding ends_in_def by fastforce
      then show ?thesis using True by (intro exI [of _ ApprovalRequired]) (simp add: shows_status_def)
    qed
  qed
qed

lemma executed_turnE:
  assumes "execute_agent_turn tp site conv run_id req run s = (ExecutedTurn x, s')"
  obtains claimed t oc u where "transaction (claim_queued_run site conv run_id) s = (Inr (Some claimed), t)"
    "turn_outcome tp claimed run (new_turn (ru_before run t)) = (oc, u)"
    "finish_turn tp site claimed oc req (ru_after run u) = (Inr x, s')"
  using assms
  by (auto simp: execute_agent_turn_def run_claimed_def Let_def answer_of_def transaction_def
      split: prod.splits sum.splits option.splits app_error.splits if_splits)

section \<open>Properties\<close>

text \<open>
  C12. A whole turn keeps the rules of the drafts, whatever tools it calls, however the runtime ends and whatever other
  sessions commit before, during and after its run: a conversation has at most one working draft, ended drafts and stored
  versions stay as they are, and the tables stay well formed.
\<close>

theorem turn_keeps_draft_rules:
  assumes "turn_run_ok run" and "proposals_ok s" and "(answer, s') = execute_agent_turn tp site conv run_id req run s"
  shows "proposals_ok s' \<and> length (filter (\<lambda>p. pr_conversation_id p = c \<and> pr_state p = ProposalActive) (gv_proposals s')) \<le> 1
    \<and> (\<forall>p \<in> set (gv_proposals s). pr_state p \<noteq> ProposalActive \<longrightarrow> p \<in> set (gv_proposals s'))
    \<and> set (gv_proposal_versions s) \<subseteq> set (gv_proposal_versions s')"
proof -
  have ev: "draft_evolves s s'" using turn_evolves [OF assms(1,2), of tp site conv run_id req] assms(3) by (metis snd_conv)
  then have ok: "proposals_ok s'" "set (gv_proposal_versions s) \<subseteq> set (gv_proposal_versions s')"
    using assms(2) by (auto simp: draft_evolves_def appended_def)
  show ?thesis using ok active_of_conversation [OF ok(1)] ended_rows_stay(1) [OF ev assms(2)] by blast
qed

text \<open>
  C13. A turn writes only what its tools returned. A draft it stores is the captured result the model cited, for the pinned
  version and numbered after the draft the turn observed; a discard it applies is the only captured one, and never comes with
  an update of the same draft.
\<close>

theorem turn_writes_tool_results:
  assumes "\<forall>step \<in> set steps. turn_step_ok step" and "proposals_ok s"
    and "observe_first tx route (new_turn s) = (True, t)" and "u = fold (run_step tx granted) steps t"
    and "untrusted oc" and "bind_outcome tp tx oc u = Inr oc'"
  shows "(\<forall>w. activity_payload_of tx oc' = TurnDraft w \<longrightarrow> (\<exists>cite r. oc_draft oc = Some cite \<and> DraftResult r \<in> set (tn_results u)
        \<and> (cite = sd_result_id r \<or> handle_of (sd_result_id r) (tn_registry u) = Some cite) \<and> w = write_of_result r
        \<and> pinned_draft tx (dw_proposal w) \<and> write_bound w \<and> (dw_outcome w = DraftUpdated \<longrightarrow> oc_resolved_discard oc' = None)))
    \<and> (\<forall>d. oc_resolved_discard oc' = Some d \<longrightarrow> (\<exists>x. discards_of (tn_results u) = [x] \<and> dd_proposal_id d = sc_proposal_id x
        \<and> dd_observed_resource_version d = sc_observed_resource_version x))"
proof (intro conjI allI impI)
  have ok: "turn_ok tx u"
    unfolding assms(4) by (intro run_steps_ok [OF assms(1)] observe_first_ok(1) [OF assms(3)] new_turn_ok assms(2))
  fix d assume "oc_resolved_discard oc' = Some d"
  from bound_discard [OF assms(6,5) this] show "\<exists>x. discards_of (tn_results u) = [x] \<and> dd_proposal_id d = sc_proposal_id x
        \<and> dd_observed_resource_version d = sc_observed_resource_version x" by auto
next
  have ok: "turn_ok tx u"
    unfolding assms(4) by (intro run_steps_ok [OF assms(1)] observe_first_ok(1) [OF assms(3)] new_turn_ok assms(2))
  fix w assume "activity_payload_of tx oc' = TurnDraft w"
  from assms(6,5) payload_draftD [OF this] obtain cite r where r: "oc_draft oc = Some cite"
    "results_by_citation (tn_results u) (tn_registry u) cite = Some (DraftResult r)" "w = write_of_result r"
    by (rule bound_draft)
  note cited = cited_draft_ok [OF ok r(2)]
  have "oc_resolved_discard oc' = None" if "sd_outcome r = DraftUpdated"
  proof (rule ccontr)
    assume "oc_resolved_discard oc' \<noteq> None"
    then obtain x where "discards_of (tn_results u) = [x]" using bound_discard [OF assms(6,5)] by blast
    then show False using that cited(2) ok by (simp add: draft_result_ok_def turn_ok_def results_ok_def)
  qed
  then show "\<exists>cite r. oc_draft oc = Some cite \<and> DraftResult r \<in> set (tn_results u)
        \<and> (cite = sd_result_id r \<or> handle_of (sd_result_id r) (tn_registry u) = Some cite) \<and> w = write_of_result r
        \<and> pinned_draft tx (dw_proposal w) \<and> write_bound w \<and> (dw_outcome w = DraftUpdated \<longrightarrow> oc_resolved_discard oc' = None)"
    using r cited by (auto simp: write_of_result_def draft_result_ok_def)
qed

text \<open>
  C14. The status a turn ends with is the one it shows. When the handler answers with an executed turn, its event is stored
  and belongs to the run, and the run's row has the status of the answer. A completed run shows the clarification, the draft
  or the grounded answer its outcome was bound to, or a refusal; a run that waits for approval shows its pending approval
  request; a run that failed, timed out or was cancelled shows a terminal outcome that says failed, timed out or suspended,
  the last with the reason that the action cannot be approved.
\<close>

theorem turn_status_is_shown:
  assumes "turn_run_ok run" and "execute_agent_turn tp site conv run_id req run s = (ExecutedTurn x, s')"
  shows "\<exists>claimed t oc u status. transaction (claim_queued_run site conv run_id) s = (Inr (Some claimed), t)
    \<and> turn_outcome tp claimed run (new_turn (ru_before run t)) = (oc, u)
    \<and> ea_agent_run_status x = Some status \<and> map_option ag_status (find_agent_run site run_id s') = Some status
    \<and> ea_event x \<in> set (gv_activities s') \<and> ca_agent_run_id (ea_event x) = Some run_id
    \<and> (case ca_payload (ea_event x) of
        ClarificationActivity c \<Rightarrow> status = AgentCompleted \<and> oc_resolved_clarification oc = Some c
      | AgentResponseActivity r \<Rightarrow> status = AgentCompleted \<and> oc_grounded_response oc = Some r
      | DraftActivity pid vid text \<Rightarrow> status = AgentCompleted \<and> (\<exists>w. oc_resolved_draft oc = Some w
          \<and> pp_proposal_id (dw_proposal w) = Some pid \<and> pp_proposal_version_id (dw_proposal w) = Some vid)
      | ApprovalRequestActivity b \<Rightarrow> status = ApprovalRequired \<and> oc_status oc = TurnSuspended \<and> ab_state b = ApprovalPending
          \<and> ab_agent_run_id b = Some run_id
      | TerminalOutcomeActivity t \<Rightarrow> (to_status t, status) \<in> {(''completed'', AgentCompleted), (''failed'', AgentFailed),
            (''timed_out'', AgentTimedOut), (''suspended'', AgentCancelled)}
          \<and> (status = AgentCompleted \<longrightarrow> to_reason t = Refused) \<and> (status = AgentCancelled \<longrightarrow> to_reason t = ApprovalNotGrantable)
      | PlannerMessageActivity _ _ \<Rightarrow> False)"
proof -
  obtain claimed t oc u where claim: "transaction (claim_queued_run site conv run_id) s = (Inr (Some claimed), t)"
    and out: "turn_outcome tp claimed run (new_turn (ru_before run t)) = (oc, u)"
    and fin: "finish_turn tp site claimed oc req (ru_after run u) = (Inr x, s')"
    by (rule executed_turnE [OF assms(2)])
  have "claim_queued_run site conv run_id s = (Inr (Some claimed), t)"
    using claim by (auto simp: transaction_def split: prod.splits sum.splits)
  note ids = claim_queued_run_InrD [OF this]
  obtain status where "turn_recorded site run_id x status s'" "shows_status run_id oc status (ca_payload (ea_event x))"
    using finish_turn_shows [OF fin ids(1) turn_outcome_fits [OF assms(1) out]] ids(3) by blast
  then show ?thesis
    using claim out by (intro exI [of _ claimed] exI [of _ t] exI [of _ oc] exI [of _ u] exI [of _ status])
      (simp add: turn_recorded_def shows_status_def)
qed

text \<open>
  C15. A turn leaves the scheduling route only when the router answered without an error and gave another route at least the
  threshold and more than it gave to scheduling; such a turn has no tools, so every call it makes fails and changes nothing.
\<close>

theorem special_route_has_no_tools:
  assumes "decide_route tp (cl_prompt claimed) (cl_history claimed) = route" and "route \<noteq> RouteScheduling"
  shows "(\<exists>router result. tp_router tp = Some router
        \<and> router (route_state (tp_value_text tp) (cl_prompt claimed) (cl_history claimed)) = Some result \<and> rr_error result = None
        \<and> (let p = (\<lambda>r. get_or 0 (map_of (rr_probabilities result) r)) in
           tp_threshold tp \<le> p route \<and> p RouteScheduling < p route \<and> (\<forall>r. p r \<le> p route)))
    \<and> observe_first tx route s = (True, s)
    \<and> (\<forall>granted clock call. turn_granted tp claimed route = Inr granted \<longrightarrow> call_tool tx granted clock call s = (CallFails NoSuchTool, s))"
proof (intro conjI allI impI)
  show "observe_first tx route s = (True, s)" using assms(2) by (simp add: observe_first_def)
  fix granted clock call assume "turn_granted tp claimed route = Inr granted"
  then have "granted = []" using assms(2) by (auto simp: turn_granted_def dest!: and_also_InrD)
  then show "call_tool tx granted clock call s = (CallFails NoSuchTool, s)" by (simp add: call_tool_def resolve_granted_capability_def)
next
  obtain router result where r: "tp_router tp = Some router"
    "router (route_state (tp_value_text tp) (cl_prompt claimed) (cl_history claimed)) = Some result" "rr_error result = None"
    and top: "route = top_route (\<lambda>r. get_or 0 (map_of (rr_probabilities result) r))"
    "tp_threshold tp \<le> get_or 0 (map_of (rr_probabilities result) route)"
    using assms by (auto simp: decide_route_def Let_def split: option.splits if_splits)
  have max: "p RouteScheduling < p (top_route p) \<and> (\<forall>r. p r \<le> p (top_route p))" if "top_route p \<noteq> RouteScheduling" for p :: "turn_route \<Rightarrow> rat"
  proof -
    have "p r \<le> p (top_route p)" for r by (cases r) (auto simp: top_route_def Let_def)
    moreover have "p RouteScheduling < p (top_route p)" using that by (auto simp: top_route_def Let_def split: if_splits)
    ultimately show ?thesis by blast
  qed
  show "\<exists>router result. tp_router tp = Some router
        \<and> router (route_state (tp_value_text tp) (cl_prompt claimed) (cl_history claimed)) = Some result \<and> rr_error result = None
        \<and> (let p = (\<lambda>r. get_or 0 (map_of (rr_probabilities result) r)) in
           tp_threshold tp \<le> p route \<and> p RouteScheduling < p route \<and> (\<forall>r. p r \<le> p route))"
    using r top max [of "\<lambda>r. get_or 0 (map_of (rr_probabilities result) r)"] assms(2) by (auto simp: Let_def)
qed

section \<open>Witnesses\<close>

text \<open>Site 7 with the working draft 80 in conversation 70 and a queued turn; the model discards the draft and declines the rest.\<close>

definition turn_site :: turn_store where
  "turn_site = \<lparr>st_now = 100, st_fresh = 200, st_jobs = [], st_runs = [], st_events = [], st_versions = [], st_assignments = [],
     st_snapshots = [], st_idempotency = [], gv_scenario_versions = [demo_version 10 ''v10'', demo_version 9 ''v9''],
     gv_memberships = [\<lparr>mb_id = 60, mb_app_user_id = 5, mb_site_id = 7, mb_revoked_at = None\<rparr>],
     gv_conversations = [\<lparr>cv_id = 70, cv_site_id = 7, cv_scenario_id = 3, cv_scenario_version_id = 10, cv_created_by_actor_id = 5,
        cv_resource_version = 1, cv_created_at = 90, cv_archived_at = None\<rparr>],
     gv_messages = [\<lparr>mg_id = 71, mg_site_id = 7, mg_conversation_id = 70, mg_actor_id = 5, mg_text = ''drop it'', mg_created_at = 95\<rparr>],
     gv_agent_runs = [\<lparr>ag_id = 72, ag_site_id = 7, ag_conversation_id = 70, ag_message_id = 71, ag_status = AgentQueued,
        ag_status_reason = None, ag_created_at = 95\<rparr>],
     gv_activities = [], gv_proposals = [demo_draft_row],
     gv_proposal_versions = [\<lparr>px_id = 81, px_site_id = 7, px_proposal_id = 80, px_version_ordinal = 1, px_payload = demo_draft\<rparr>],
     gv_approvals = [], gv_baselines = [], gv_audit = [],
     tn_registry = new_registry, tn_observed = False, tn_observation = None, tn_drafted = False, tn_discarded = None, tn_results = []\<rparr>"

definition demo_capabilities :: capability_settings where
  "demo_capabilities = \<lparr>kc_inspect_row_limit = 50, kc_inspect_timeout_seconds = 5, kc_compute_row_limit = 500,
     kc_compute_timeout_seconds = 5, kc_draft_timeout_seconds = 5, kc_draft_max_constraints = 10, kc_site_max_concurrent_runs = 1,
     kc_solver_wall_time_limit_seconds = 60,
     kc_enabled = [(''scheduling_inspect_enabled'', True), (''scheduling_compute_enabled'', True), (''scheduling_draft_enabled'', True),
       (''scheduling_draft_discard_enabled'', True), (''scheduling_optimize_enabled'', False), (''scheduling_baseline_enabled'', False),
       (''demonstration_enabled'', False)]\<rparr>"

definition demo_turn :: turn_parameters where
  "demo_turn = \<lparr>tp_capabilities = demo_capabilities, tp_router = None, tp_threshold = 1, tp_checker = None, tp_flag_threshold = None,
     tp_hashing = demo_hashing, tp_number_texts = demo_number_texts, tp_texts = demo_texts, tp_float_text = (\<lambda>_. []),
     tp_value_text = (\<lambda>_. []), tp_instant_text = (\<lambda>_. []), tp_json_loads = (\<lambda>_. None), tp_validate_request = (\<lambda>_. None),
     tp_baseline_enabled = False, tp_approval_expiry_seconds = 60\<rparr>"

definition demo_refusal :: agent_run_outcome_v1 where
  "demo_refusal = (plain_outcome TurnCompleted)\<lparr>oc_refusal := Some \<lparr>rf_reason = UnsupportedRequest, rf_detail = ''Not that.'', rf_next_step = None\<rparr>\<rparr>"

definition discard_run :: "turn_store turn_run" where
  "discard_run = \<lparr>ru_before = id, ru_steps = [ToolStep (\<lambda>_. 100) DiscardCall], ru_result = Inr demo_refusal, ru_after = id\<rparr>"

lemma discard_run_ok: "turn_run_ok discard_run"
  by (simp add: turn_run_ok_def discard_run_def others_ok_def draft.rel_refl untrusted_def demo_refusal_def plain_outcome_def)

lemma turn_site_ok: "proposals_ok turn_site" by code_simp

definition demo_claimed :: claimed_agent_run_v1 where
  "demo_claimed = \<lparr>cl_agent_run_id = 72, cl_conversation_id = 70, cl_scenario_id = 3, cl_scenario_version_id = 10, cl_site_id = 7,
     cl_actor_id = 5, cl_membership_id = 60, cl_prompt = ''drop it'', cl_history = []\<rparr>"

definition claimed_site :: turn_store where
  "claimed_site = turn_site\<lparr>gv_agent_runs := [\<lparr>ag_id = 72, ag_site_id = 7, ag_conversation_id = 70, ag_message_id = 71,
     ag_status = AgentRunning, ag_status_reason = None, ag_created_at = 95\<rparr>]\<rparr>"

definition demo_granted :: "capability_module_v1 list" where
  "demo_granted = filter (\<lambda>m. mf_risk_class (cb_manifest m) \<noteq> RiskCompute
     \<and> map_of (kc_enabled demo_capabilities) (cb_required_feature_policy m) = Some True) (installed_factories demo_capabilities)"

definition demo_observation :: working_draft_observation_v1 where
  "demo_observation = \<lparr>wo_proposal_id = 80, wo_resource_version = 1, wo_version_ordinal = 1\<rparr>"

definition observed_site :: turn_store where
  "observed_site = claimed_site\<lparr>tn_observed := True, tn_observation := Some demo_observation\<rparr>"

definition discarded_site :: turn_store where
  "discarded_site = observed_site\<lparr>tn_discarded := Some demo_observation, tn_results := [DiscardResult
     \<lparr>sc_result_id = ''discard-'' @ str_uuid 80 @ ''-'' @ str_int 1, sc_proposal_id = 80, sc_observed_resource_version = 1, sc_version_ordinal = 1\<rparr>]\<rparr>"

definition demo_bound :: agent_run_outcome_v1 where
  "demo_bound = demo_refusal\<lparr>oc_resolved_discard := Some \<lparr>dd_proposal_id = 80, dd_observed_resource_version = 1, dd_version_ordinal = 1\<rparr>\<rparr>"

lemma demo_claim: "transaction (claim_queued_run 7 70 72) turn_site = (Inr (Some demo_claimed), claimed_site)"
  by code_simp

lemma demo_route: "decide_route demo_turn prompt history = RouteScheduling"
  by (simp add: decide_route_def demo_turn_def)

lemma demo_observes: "observe_first (turn_context_of demo_turn demo_claimed) RouteScheduling (new_turn claimed_site) = (True, observed_site)"
  by code_simp

lemma demo_discards: "call_tool (turn_context_of demo_turn demo_claimed) demo_granted (\<lambda>_. 100) DiscardCall observed_site = (Rendered, discarded_site)"
proof -
  let ?tx = "turn_context_of demo_turn demo_claimed"
  have tool: "resolve_granted_capability demo_granted ''scheduling_draft_discard'' = Some (scheduling_draft_discard_module demo_capabilities)"
    by (simp add: resolve_granted_capability_def demo_granted_def installed_factories_def demo_capabilities_def
        scheduling_compute_module_def scheduling_compute_manifest_def scheduling_draft_module_def scheduling_draft_manifest_def
        scheduling_draft_discard_module_def scheduling_draft_discard_manifest_def)
  have site: "\<not> tn_drafted observed_site" "tn_discarded observed_site = None" "tn_results observed_site = []"
    by (simp_all add: observed_site_def claimed_site_def turn_site_def)
  have seen: "observe ?tx observed_site = (Inr (Some demo_observation), observed_site)"
    by (simp add: observe_def observe_with_def and_then_reading observed_site_def only_if_def ret_and_then) (simp add: reading_def)
  have "scheduling_draft_discard ?tx observed_site = (Inr \<lparr>sc_result_id = ''discard-'' @ str_uuid 80 @ ''-'' @ str_int 1, sc_proposal_id = 80,
      sc_observed_resource_version = 1, sc_version_ordinal = 1\<rparr>, observed_site\<lparr>tn_discarded := Some demo_observation\<rparr>)"
    using site seen
    by (simp add: scheduling_draft_discard_def and_then_raise_if and_then_reading and_then_returned and_then_writing exhausted_def
        turn_context_of_def) (simp add: ret_def demo_observation_def)
  then have "handler ?tx (\<lambda>_. 100) manifest DiscardCall observed_site = (Inr (DiscardResult \<lparr>sc_result_id = ''discard-'' @ str_uuid 80 @ ''-'' @ str_int 1,
      sc_proposal_id = 80, sc_observed_resource_version = 1, sc_version_ordinal = 1\<rparr>), observed_site\<lparr>tn_discarded := Some demo_observation\<rparr>)"
    for manifest
    by (simp add: handler_def and_then_returned ret_def)
  then show ?thesis using tool site(3) by (simp add: call_tool_def tool_name_def discarded_site_def)
qed

lemma demo_binds: "bind_outcome demo_turn (turn_context_of demo_turn demo_claimed) demo_refusal discarded_site = Inr demo_bound"
  by code_simp

lemma demo_policy: "\<exists>ps. enabled_feature_policy demo_capabilities = Inr ps"
proof -
  have "positive_limits demo_capabilities" by code_simp
  moreover have "\<not> isl (enabled_policies (kc_enabled demo_capabilities) (installed_factories demo_capabilities))" by code_simp
  ultimately show ?thesis
    by (cases "enabled_policies (kc_enabled demo_capabilities) (installed_factories demo_capabilities)")
      (simp_all add: enabled_feature_policy_def installed_modules_Inr and_also_def)
qed

lemma demo_grants: "turn_granted demo_turn demo_claimed RouteScheduling = Inr demo_granted"
proof -
  obtain ps where ps: "enabled_feature_policy demo_capabilities = Inr ps" using demo_policy by blast
  have "positive_limits demo_capabilities" by code_simp
  from turn_grants [OF this, of "\<lparr>gx_role = planner_role, gx_site_id = cl_site_id demo_claimed, gx_feature_policy = ps,
         gx_conversation_id = Some (cl_conversation_id demo_claimed), gx_conversation_site_id = cl_site_id demo_claimed,
         gx_revoked_conversation_ids = [], gx_explicit_run_request = False\<rparr>"] ps
  show ?thesis by (simp add: turn_granted_def demo_turn_def and_also_def demo_granted_def)
qed

lemma demo_finishes:
  "let (r, s) = transaction (finish_turn demo_turn 7 demo_claimed demo_bound 90) discarded_site in
   \<not> isl r \<and> map pr_state (gv_proposals s) = [ProposalRejected] \<and> map ag_status (gv_agent_runs s) = [AgentCompleted]"
  by code_simp

lemma demo_turn_ends:
  obtains x s where "execute_agent_turn demo_turn 7 70 72 90 discard_run turn_site = (ExecutedTurn x, s)"
    "map pr_state (gv_proposals s) = [ProposalRejected]" "map ag_status (gv_agent_runs s) = [AgentCompleted]"
proof -
  have out: "turn_outcome demo_turn demo_claimed discard_run (new_turn claimed_site) = (demo_bound, discarded_site)"
    by (simp add: turn_outcome_def demo_route demo_observes demo_grants discard_run_def demo_discards demo_binds and_also_def)
  obtain r s where fin: "transaction (finish_turn demo_turn 7 demo_claimed demo_bound 90) discarded_site = (r, s)" by fastforce
  then obtain x where r: "r = Inr x" and s: "map pr_state (gv_proposals s) = [ProposalRejected]" "map ag_status (gv_agent_runs s) = [AgentCompleted]"
    using demo_finishes by (cases r) auto
  have "execute_agent_turn demo_turn 7 70 72 90 discard_run turn_site = (ExecutedTurn x, s)"
    using out fin by (simp add: execute_agent_turn_def demo_claim run_claimed_def r answer_of_def) (simp add: discard_run_def)
  with s show thesis by (intro that)
qed

theorem turn_keeps_draft_rules_witness:
  "\<exists>x s. execute_agent_turn demo_turn 7 70 72 90 discard_run turn_site = (ExecutedTurn x, s)
     \<and> map pr_state (gv_proposals s) = [ProposalRejected] \<and> map ag_status (gv_agent_runs s) = [AgentCompleted] \<and> proposals_ok s"
proof (rule demo_turn_ends)
  fix x s assume ran: "execute_agent_turn demo_turn 7 70 72 90 discard_run turn_site = (ExecutedTurn x, s)"
    "map pr_state (gv_proposals s) = [ProposalRejected]" "map ag_status (gv_agent_runs s) = [AgentCompleted]"
  have "proposals_ok s"
    by (rule turn_keeps_draft_rules [OF discard_run_ok turn_site_ok ran(1) [symmetric], THEN conjunct1])
  with ran show ?thesis by (intro exI conjI)
qed

lemma demo_refusal_untrusted: "untrusted demo_refusal"
  by (simp add: untrusted_def demo_refusal_def plain_outcome_def)

theorem turn_writes_tool_results_witness:
  "\<exists>x. discards_of (tn_results discarded_site) = [x] \<and> sc_proposal_id x = 80 \<and> sc_observed_resource_version x = 1"
proof -
  have "\<forall>d. oc_resolved_discard demo_bound = Some d \<longrightarrow> (\<exists>x. discards_of (tn_results discarded_site) = [x] \<and> dd_proposal_id d = sc_proposal_id x
      \<and> dd_observed_resource_version d = sc_observed_resource_version x)"
    by (rule turn_writes_tool_results [where steps = "[ToolStep (\<lambda>_. 100) DiscardCall]" and granted = demo_granted and s = claimed_site,
          OF _ _ demo_observes _ demo_refusal_untrusted demo_binds, THEN conjunct2])
      (use turn_site_ok in \<open>simp_all add: demo_discards claimed_site_def proposals_ok_def\<close>)
  then show ?thesis by (fastforce simp: demo_bound_def)
qed

theorem turn_status_is_shown_witness:
  "\<exists>x s t. execute_agent_turn demo_turn 7 70 72 90 discard_run turn_site = (ExecutedTurn x, s)
     \<and> ea_agent_run_status x = Some AgentCompleted
     \<and> ca_payload (ea_event x) = TerminalOutcomeActivity t \<and> to_status t = ''completed'' \<and> to_reason t = Refused"
proof (rule demo_turn_ends)
  fix x s assume ran: "execute_agent_turn demo_turn 7 70 72 90 discard_run turn_site = (ExecutedTurn x, s)"
    "map pr_state (gv_proposals s) = [ProposalRejected]" "map ag_status (gv_agent_runs s) = [AgentCompleted]"
  have out: "turn_outcome demo_turn demo_claimed discard_run (new_turn (ru_before discard_run claimed_site)) = (demo_bound, discarded_site)"
    by (simp add: turn_outcome_def demo_route demo_observes demo_grants discard_run_def demo_discards demo_binds and_also_def)
  obtain status where status: "ea_agent_run_status x = Some status" "map_option ag_status (find_agent_run 7 72 s) = Some status"
    and seen: "shows_status 72 demo_bound status (ca_payload (ea_event x))"
    using turn_status_is_shown [OF discard_run_ok ran(1)] demo_claim out unfolding shows_status_def by auto
  obtain a where a: "find_agent_run 7 72 s = Some a" "status = ag_status a" using status(2) by auto
  then have "ag_status a \<in> set (map ag_status (gv_agent_runs s))" by (auto simp: find_agent_run_def dest: find_SomeD)
  then have "status = AgentCompleted" using ran(3) a(2) by simp
  then show ?thesis
    using ran(1) status(1) seen
    by (auto simp: shows_status_def demo_bound_def demo_refusal_def plain_outcome_def split: activity_payload.splits)
qed

definition routed_turn :: turn_parameters where
  "routed_turn = demo_turn\<lparr>tp_router := Some (\<lambda>_. Some \<lparr>rr_probabilities = [(RouteDirect, 9 / 10)], rr_error = None\<rparr>), tp_threshold := 1 / 2\<rparr>"

theorem special_route_has_no_tools_witness:
  "observe_first (turn_context_of routed_turn demo_claimed) RouteDirect turn_site = (True, turn_site)
   \<and> call_tool (turn_context_of routed_turn demo_claimed) [] (\<lambda>_. 100) DiscardCall turn_site = (CallFails NoSuchTool, turn_site)"
proof -
  have route: "decide_route routed_turn (cl_prompt demo_claimed) (cl_history demo_claimed) = RouteDirect"
    by (simp add: decide_route_def routed_turn_def demo_turn_def top_route_def get_or_def Let_def)
  have "turn_granted routed_turn demo_claimed RouteDirect = map_sum id (\<lambda>_. []) (turn_granted demo_turn demo_claimed RouteScheduling)"
    by (auto simp: turn_granted_def routed_turn_def demo_turn_def and_also_def split: sum.splits)
  then have "turn_granted routed_turn demo_claimed RouteDirect = Inr []" by (simp add: demo_grants)
  then show ?thesis
    using special_route_has_no_tools [OF route, of "turn_context_of routed_turn demo_claimed" turn_site, THEN conjunct2] by blast
qed

end
