(* ===== verification/Spec2Isabelle.thy ===== *)
theory Spec2Isabelle
  imports Candidate_Metrics Run_Fencing Grounding Draft_Guarantees Solver_Gate Governed_Adapter Projection_Agreement Turn_Guarantees
begin

text \<open>
  ShiftMind is a workforce-scheduling backend. A planner talks to an agent about one week of a warehouse;
  the agent drafts constraints; a draft is frozen into a run; a worker process solves the run with CP-SAT;
  an independent gate re-checks the solver's roster; and an approval promotes the accepted roster to the
  baseline of the site. This library models the core of the Python sources under \<^verbatim>\<open>src/backend\<close>: the
  definitions follow the functions they name, statement by statement, with every raise and early return as
  a branch, and the lemmas show what the parts promise and that they fit together. Paths below are relative to
  \<^verbatim>\<open>src/backend\<close>.
\<close>

section \<open>How the program fits together\<close>

text \<open>
  \<^item> A weekly JSON document is stored as an immutable scenario version. It is read in two ways: the projection
    (\<^verbatim>\<open>adapters/postgres/scenario_projection.py\<close>) normalizes it into groups of records which planners and the
    agent query in pages, and the ingest step (\<^verbatim>\<open>ingest/input_adapter.py\<close>) turns it into the problem the
    engine solves.
  \<^item> A turn of the agent reads the projection through tools. Its answer text carries placeholders and fact tags;
    the grounding gate turns them into claims calculated from the pinned version, or refuses the answer. Constraints
    it drafts pass an untrusted-to-trusted resolver and become the working draft of the conversation, which the
    planner may revise or reject.
  \<^item> Submitting a draft freezes it into a run snapshot and enqueues a job. A worker leases the job under an
    epoch, solves it while a heartbeat renews the lease, and finalizes it: the outcome is re-checked by the
    hard-constraint gate, measured again by the candidate metrics and stored as a candidate.
  \<^item> A candidate is compared with the baseline, and an approval bound to the run version, the candidate and the
    baseline promotes it, unless any of these has drifted.
\<close>

section \<open>Theories and the code they model\<close>

text \<open>
  Shared vocabulary:

  \<^item> \<open>Prelude\<close>: value types, actions and transactions, lists as Python's containers, the locale
    \<open>two_state\<close> and the collections of simplification and introduction rules the other theories use.
  \<^item> \<open>Contracts\<close>: the frozen dataclasses of \<^verbatim>\<open>application/contracts\<close>, one record each.
  \<^item> \<open>Wire\<close>, \<open>Wire_Properties\<close>: UUID texts, the stream cursor (\<^verbatim>\<open>stream_cursor.py\<close>) and canonical JSON
    (\<^verbatim>\<open>canonical.py\<close>); round trips, and on documents without floats canonical texts agree exactly up to member order.

  The schedule and its checks:

  \<^item> \<open>Hard_Constraints\<close>: \<^verbatim>\<open>application/scheduling/hard_constraints.py\<close>; the gate accepts exactly the schedules
    that keep the declarative rules.
  \<^item> \<open>Candidate_Metrics\<close>: \<^verbatim>\<open>candidate_metrics.py\<close>; every interval and function is reported with its minutes, none are lost, and the calculation
    fails only for demand without a usable rate.
  \<^item> \<open>Comparison\<close>, \<open>Comparison_Guarantees\<close>: \<^verbatim>\<open>comparison.py\<close>; which stored candidates are accepted for
    comparison, and that a returned comparison is complete and exact.

  The scheduling engine:

  \<^item> \<open>Scheduling_Problem\<close>: \<^verbatim>\<open>domain\<close> and \<^verbatim>\<open>config/constants.py\<close>. \<open>Cp_Model\<close>: the calls made to CP-SAT.
  \<^item> \<open>Shift_Candidates\<close>, \<open>Model_Builder\<close>: \<^verbatim>\<open>engine/cpsat/builder.py\<close>.
  \<^item> \<open>Model_Structure\<close>, \<open>Model_Phases\<close>, \<open>Model_Choices\<close>, \<open>Model_Guarantees\<close>: the shape of the built model,
    what its phases add, its solutions read as rosters, and that these are exactly the rosters that keep the rules.
  \<^item> \<open>Engine_Solve\<close>: \<^verbatim>\<open>engine/cpsat/objective.py\<close>, \<^verbatim>\<open>engine.py\<close> and the translation in
    \<^verbatim>\<open>engine/governed_adapter.py\<close>. \<open>Reference_Solver\<close>: two computing solvers that keep the contract of CP-SAT.
  \<^item> \<open>Solve_Guarantees\<close>, \<open>Solver_Gate\<close>: the second round never gives coverage back; every outcome passes the
    independent gate.
  \<^item> \<open>Ingest\<close>, \<open>Ingest_Guarantees\<close>: \<^verbatim>\<open>ingest/input_adapter.py\<close>, \<^verbatim>\<open>ingest/scenario_time.py\<close> and the weekly caps
    of the governed adapter; every accepted document gives a well-formed problem.
  \<^item> \<open>Governed_Adapter\<close>: \<^verbatim>\<open>adapters/postgres/solver_input.py\<close> and the whole governed solve, which raises nothing on an
    accepted run.

  Runs and their worker:

  \<^item> \<open>Run_Store\<close>: \<^verbatim>\<open>adapters/postgres/schedule_run.py\<close> and the lease functions of the migrations, each
    statement an atomic step on a store of tables.
  \<^item> \<open>Run_Invariants\<close>, \<open>Run_History\<close>: the invariant \<open>store_ok\<close>, the evolution \<open>store_evolves\<close>, and that
    every statement keeps both.
  \<^item> \<open>Run_Use_Cases\<close>, \<open>Run_Safety\<close>, \<open>Run_Fencing\<close>: the worker pass, finalization and cancellation
    (\<^verbatim>\<open>application/use_cases\<close>), interleaved with what other sessions do; a superseded lease has no effect.

  Proposals and approvals:

  \<^item> \<open>Governed_Store\<close>: conversations, proposals, approvals, baselines, audit and memberships
    (\<^verbatim>\<open>adapters/postgres\<close>).
  \<^item> \<open>Approvals\<close>, \<open>Approval_Properties\<close>, \<open>Approval_Guarantees\<close>: \<^verbatim>\<open>request_approval.py\<close>,
    \<^verbatim>\<open>decide_approval.py\<close>, \<^verbatim>\<open>promote_baseline.py\<close>.
  \<^item> \<open>Snapshots\<close>: \<^verbatim>\<open>create_run_snapshot.py\<close>, \<^verbatim>\<open>enqueue_compute.py\<close>. \<open>Proposals\<close>: \<^verbatim>\<open>manage_proposal.py\<close>,
    \<^verbatim>\<open>finalize_agent_run.py\<close>.
  \<^item> \<open>Draft_Lifecycle\<close>, \<open>Draft_Guarantees\<close>: one working draft per conversation, final endings, idempotent
    commands.

  The projection and the agent's answers:

  \<^item> \<open>Normalization\<close>, \<open>Projection\<close>: \<^verbatim>\<open>adapters/postgres/scenario_projection.py\<close>, \<^verbatim>\<open>scenario_catalogue.py\<close>
    and the bounded drain of \<^verbatim>\<open>application/grounding/pagination.py\<close>.
  \<^item> \<open>Projection_Agreement\<close>: the two readings of the document list the same demand: families, tasks, minutes, amounts, units.
  \<^item> \<open>Calculators\<close>, \<open>Answer_Text\<close>, \<open>Resolution\<close>, \<open>Grounding\<close>: \<^verbatim>\<open>application/grounding\<close> and
    \<^verbatim>\<open>application/clarification\<close>. \<open>Drafting\<close>: \<^verbatim>\<open>application/drafting/resolve.py\<close>.
  \<^item> \<open>Capabilities\<close>, \<open>Turn_Tools\<close>: \<^verbatim>\<open>application/capabilities\<close>, the turn's memory of the working draft
    (\<^verbatim>\<open>application/drafting/turn_state.py\<close>) and the path a tool is called through (\<^verbatim>\<open>agent/capability_tools.py\<close>);
    the installed set is valid, and a turn is granted exactly the tools its feature policy enables.
  \<^item> \<open>Turn_Execution\<close>: \<^verbatim>\<open>execute_turn.py\<close>, \<^verbatim>\<open>route_turn.py\<close>, \<^verbatim>\<open>verbalize.py\<close> and the handler
    \<^verbatim>\<open>execute_agent_turn\<close> of \<^verbatim>\<open>api/routers/conversations.py\<close>: a turn is claimed, routed, run, bound to trusted
    results and finished. The run of the runtime is given as its tool calls, interleaved with what other sessions do, and
    how it ended.
  \<^item> \<open>Turn_Memory\<close>, \<open>Turn_Guarantees\<close>: every tool call keeps the invariant \<open>turn_ok\<close> of the turn's memory; a whole
    turn keeps the rules of the drafts, writes only what its tools returned, shows the status it ends with, and has no tools
    on a special route.
\<close>

section \<open>Interfaces\<close>

text \<open>
  What one part relies on in another is a locale, interpreted on the model's own definitions.

  \<^item> \<open>two_state\<close>: a reflexive, transitive relation between the states before and after an action. Its
    instances are an invariant (\<open>inv\<close>), a kept field (\<open>keep\<close>), the evolution of the run store (\<open>evolve\<close>), the
    invariant with the evolution (\<open>gov\<close>), approvals (\<open>forward\<close>), drafts (\<open>draft\<close>) and the growing CP-SAT
    model (\<open>extension\<close>, \<open>appending\<close>).
  \<^item> \<open>fenced\<close>: an operation that refuses every epoch but the current one. Instances: starting, finalizing,
    completing and failing a leased job.
  \<^item> \<open>page_source\<close>: a paged getter over one immutable list. Instances: the five groups of the projection; the drain
    is proved once.
  \<^item> \<open>replayed_command\<close> and \<open>rival_commands\<close>: a command that logs its result under a key. Instances: revising
    a draft and submitting it.
  \<^item> \<open>accumulator\<close>: a loop that folds rows into a table. Instances: the tasks, the shift templates and the weekly
    caps of the document.
\<close>

section \<open>Parameters\<close>

text \<open>
  Code outside the repository is an argument of the definitions that use it.

  \<^item> CP-SAT is a function from a model, an objective and its settings to a response. \<open>solver_sound\<close> says that a
    response with a solution satisfies the model, \<open>solver_optimal\<close> that an \<open>OPTIMAL\<close> one is a minimum; both are its
    documented behaviour, and \<open>Reference_Solver\<close> meets them. Nothing is assumed of its status or its time.
  \<^item> The readings of the clock inside the engine are a stream; in the store the clock is a field that commands and
    other sessions advance. Fresh identifiers come from a supply that never repeats.
  \<^item> SHA-256, the texts Python prints for floats and instants, \<open>str.casefold\<close>, \<open>float(text)\<close>, the order of
    iteration over a set and the offset of the time zone are functions without laws, unless a lemma names one. The digests taken during a solve are a
    parameter of the engine; \<open>Governed_Adapter\<close> gives it the digest of \<^verbatim>\<open>canonical.py\<close>.
  \<^item> The text of a model answer and the constraints it drafts are inputs, and arbitrary.
  \<^item> The run of the runtime is the list of its tool calls with what other sessions did in between, and its end
    (\<open>turn_run\<close>). \<open>turn_run_ok\<close> says that it fills none of the fields of an outcome which only the use case may fill, and
    that the other sessions keep the rules of the drafts; the router and the checker of wordings are arbitrary.
\<close>

section \<open>Representation, bounds and fuel\<close>

text \<open>
  \<^item> A float is an exact rational. The rounding of binary floating point is not modelled; \<open>round\<close> and the conversions
    to hundredths of an hour are written out. Where the units of the engine and of the gate differ, the theorems ask for
    times both represent (\<open>exact_times\<close> in \<open>Solver_Gate\<close>: multiples of three minutes).
  \<^item> Python's integers are \<open>int\<close>. A \<open>string\<close> holds the code points up to 255.
  \<^item> A JSON value of another type than a dataclass field declares is carried along unchecked by Python, and an infinite or
    not-a-number float has no rational; there \<open>Ingest\<close> and \<open>Normalization\<close> stop with \<open>OutsideModel\<close>.
  \<^item> The drain of a group reads at most 512 pages, the bound of the code, and its error when they do not suffice is part
    of the result. The scan for candidate starts is a function with a termination proof. The loop of the
    heartbeat and sequences of commands are lists of steps of any length.
  \<^item> The engine's theorems ask that the set order lists each element once (\<open>order_ok\<close>) and that the identifiers of
    the document are proper and distinct (\<open>proper_ids\<close>).
  \<^item> A database transaction is an action whose writes are undone when it raises; between the transactions of a command
    other sessions may do anything that obeys the store's own rules.
\<close>

section \<open>Not modelled\<close>

text \<open>
  \<^item> The HTTP API (\<^verbatim>\<open>api\<close>), apart from the handler of a turn: routing and serialization over the commands
    modelled here.
  \<^item> Identity and sessions: the OIDC handshake of third-party libraries and their session rows.
  \<^item> The agent runtime (\<^verbatim>\<open>agent\<close>, apart from the path of a tool call): it drives a language model through a
    third-party framework. What it passes on is an arbitrary input. Of a turn, the snapshot of the workflow the model is
    shown (\<^verbatim>\<open>conversation_workflow_context.py\<close>) and its telemetry are left out.
  \<^item> Settings, telemetry (write-only, its failures are swallowed), the evaluation harness (\<^verbatim>\<open>evals\<close>), scripts and
    the schema migrations other than the lease functions: tooling around the running system.
  \<^item> Of the conversation store, creating and archiving a conversation and reading its timeline; of the run store, the
    paged list of runs. Locks are never part of a stored document, so their group is empty.
  \<^item> The texts of error messages, and the content hash of an override, which nothing reads.
\<close>

end
